(* ===== verification/Edm_Prelude.thy ===== *)
theory Edm_Prelude
  imports Main
begin

text \<open>
  Shared material of the development: the collections of rewrite rules the component
  proofs use, the result type of operations that may raise, and generic facts on lists and
  association lists (the model of Python's insertion-ordered \<open>dict\<close>).
\<close>

named_theorems conv_defs \<open>definitions of the task converter\<close>

section \<open>Results of operations that may raise\<close>

text \<open>
  A fallible pure operation returns \<open>'e + 'a\<close>, the error on the left. A method that mutates
  an object returns the outcome together with the object's state after the call: a Python
  exception does not undo the assignments made before it. Where a method returns, it
  returns \<open>self\<close> (so that calls can be chained) or \<open>None\<close>.
\<close>

datatype ret = RetSelf | RetNone

type_synonym ('e, 'a) result = "'e + 'a"
type_synonym ('e, 's) outcome = "('e + ret) \<times> 's"

definition raise :: "'e \<Rightarrow> 's \<Rightarrow> ('e, 's) outcome" where
  "raise e s = (Inl e, s)"

definition return_self :: "'s \<Rightarrow> ('e, 's) outcome" where
  "return_self s = (Inr RetSelf, s)"

definition return_none :: "'s \<Rightarrow> ('e, 's) outcome" where
  "return_none s = (Inr RetNone, s)"

lemmas outcome_defs = raise_def return_self_def return_none_def

definition ok :: "('e, 's) outcome \<Rightarrow> bool" where
  "ok r = (case fst r of Inl _ \<Rightarrow> False | Inr _ \<Rightarrow> True)"

lemma ok_simps [simp]: "\<not> ok (raise e s)" "ok (return_self s)" "ok (return_none s)"
  by (simp_all add: ok_def outcome_defs)

lemma snd_outcome [simp]:
  "snd (raise e s) = s" "snd (return_self s) = s" "snd (return_none s) = s"
  by (simp_all add: outcome_defs)

lemma fst_outcome [simp]:
  "fst (raise e s) = Inl e" "fst (return_self s) = Inr RetSelf" "fst (return_none s) = Inr RetNone"
  by (simp_all add: outcome_defs)

lemma outcome_inject [simp]:
  "raise e s = raise e' s' \<longleftrightarrow> e = e' \<and> s = s'"
  "return_self s = return_self s' \<longleftrightarrow> s = s'"
  "return_none s = return_none s' \<longleftrightarrow> s = s'"
  by (simp_all add: outcome_defs)

lemma outcome_distinct [simp]:
  "raise e s \<noteq> return_self s'" "return_self s' \<noteq> raise e s"
  "raise e s \<noteq> return_none s'" "return_none s' \<noteq> raise e s"
  "return_self s \<noteq> return_none s'" "return_none s' \<noteq> return_self s"
  by (simp_all add: outcome_defs)

text \<open>Sequencing of a pure fallible step: the first error wins.\<close>

definition rbind :: "('e, 'a) result \<Rightarrow> ('a \<Rightarrow> ('e, 'b) result) \<Rightarrow> ('e, 'b) result" where
  "rbind r f = (case r of Inl e \<Rightarrow> Inl e | Inr a \<Rightarrow> f a)"

lemma rbind_simps [simp]: "rbind (Inl e) f = Inl e" "rbind (Inr a) f = f a"
  by (simp_all add: rbind_def)

lemma rbind_Inr_iff: "rbind r f = Inr b \<longleftrightarrow> (\<exists>a. r = Inr a \<and> f a = Inr b)"
  by (cases r) auto

text \<open>A loop over a list that stops at the first error and collects the results.\<close>

fun rmap :: "('a \<Rightarrow> ('e, 'b) result) \<Rightarrow> 'a list \<Rightarrow> ('e, 'b list) result" where
  "rmap f [] = Inr []"
| "rmap f (x # xs) = rbind (f x) (\<lambda>y. rbind (rmap f xs) (\<lambda>ys. Inr (y # ys)))"

lemma rmap_all_Inr:
  assumes "\<And>x. x \<in> set xs \<Longrightarrow> f x = Inr (g x)"
  shows "rmap f xs = Inr (map g xs)"
  using assms by (induction xs) auto

lemma rmap_Inr_length: "rmap f xs = Inr ys \<Longrightarrow> length ys = length xs"
  by (induction xs arbitrary: ys) (auto simp: rbind_Inr_iff)

section \<open>Lists\<close>

lemma last_snoc_prefix: "xs = ys @ [y] \<Longrightarrow> last xs = y \<and> butlast xs = ys"
  by simp

lemma list_all_snoc [simp]: "list_all P (xs @ [x]) \<longleftrightarrow> list_all P xs \<and> P x"
  by auto

text \<open>Reading the first entry that satisfies a test from the end of a list.\<close>

fun find_last :: "('a \<Rightarrow> 'b option) \<Rightarrow> 'a list \<Rightarrow> 'b option" where
  "find_last f [] = None"
| "find_last f (x # xs) = (case find_last f xs of Some y \<Rightarrow> Some y | None \<Rightarrow> f x)"

lemma find_last_append:
  "find_last f (xs @ ys) = (case find_last f ys of Some y \<Rightarrow> Some y | None \<Rightarrow> find_last f xs)"
  by (induction xs) (auto split: option.splits)

lemma find_last_snoc [simp]:
  "find_last f (xs @ [x]) = (case f x of Some y \<Rightarrow> Some y | None \<Rightarrow> find_last f xs)"
  by (simp add: find_last_append split: option.splits)

end
