(* ===== verification/Py_Values.thy ===== *)
theory Py_Values
  imports Edm_Prelude
begin

text \<open>
  The Python values that reach the G-code interpreter and the parts of the language and
  its standard library the interpreter uses on them: \<open>isinstance\<close>, comparison of a number
  with zero, \<open>str\<close> and \<open>repr\<close>, \<open>type(v)\<close> in an f-string.

  Integers are unbounded. A finite float is represented by a decimal \<open>Dec m k\<close>, the value
  \<open>m / 10\<^sup>k\<close>: a double is determined by its shortest decimal \<open>repr\<close>, and the code never does
  arithmetic on a float, it only compares it with zero and passes it on. Strings are the
  UTF-8 bytes of the Python string. Any object of another class is \<open>VObj cls s\<close>, its class
  name and its \<open>str\<close>.
\<close>

section \<open>Values\<close>

datatype pyfloat = Dec int nat | NegZero | PosInf | NegInf | NaN

datatype pyval =
    VNone
  | VBool bool
  | VInt int
  | VFloat pyfloat
  | VStr string
  | VList "pyval list"
  | VDict "(string \<times> pyval) list"
  | VObj string string

datatype pyexn =
    InterpreterException string
  | TypeError string
  | IndexError string
  | ValueError string
  | AttributeError string

text \<open>\<open>bool\<close> is a subclass of \<open>int\<close>: \<open>isinstance(True, int)\<close> holds.\<close>

fun is_int :: "pyval \<Rightarrow> bool" where
  "is_int (VInt _) = True"
| "is_int (VBool _) = True"
| "is_int _ = False"

fun is_bool :: "pyval \<Rightarrow> bool" where
  "is_bool (VBool _) = True"
| "is_bool _ = False"

fun is_str :: "pyval \<Rightarrow> bool" where
  "is_str (VStr _) = True"
| "is_str _ = False"

text \<open>\<open>isinstance(v, (int, float))\<close>\<close>

fun is_number :: "pyval \<Rightarrow> bool" where
  "is_number (VFloat _) = True"
| "is_number v = is_int v"

text \<open>The truth value of a \<open>bool\<close> object and the integer an \<open>int\<close> object stands for.\<close>

fun bool_of :: "pyval \<Rightarrow> bool" where
  "bool_of (VBool b) = b"
| "bool_of _ = False"

fun int_of :: "pyval \<Rightarrow> int" where
  "int_of (VInt n) = n"
| "int_of (VBool b) = (if b then 1 else 0)"
| "int_of _ = 0"

text \<open>\<open>v < 0\<close> and \<open>v <= 0\<close> on numbers; every comparison with a NaN is false.\<close>

fun float_lt0 :: "pyfloat \<Rightarrow> bool" where
  "float_lt0 (Dec m _) = (m < 0)"
| "float_lt0 NegInf = True"
| "float_lt0 _ = False"

fun float_le0 :: "pyfloat \<Rightarrow> bool" where
  "float_le0 (Dec m _) = (m \<le> 0)"
| "float_le0 NegZero = True"
| "float_le0 NegInf = True"
| "float_le0 _ = False"

fun num_lt0 :: "pyval \<Rightarrow> bool" where
  "num_lt0 (VFloat f) = float_lt0 f"
| "num_lt0 v = (int_of v < 0)"

fun num_le0 :: "pyval \<Rightarrow> bool" where
  "num_le0 (VFloat f) = float_le0 f"
| "num_le0 v = (int_of v \<le> 0)"

lemma num_lt0_le0: "num_lt0 v \<Longrightarrow> num_le0 v"
  by (cases v rule: num_lt0.cases) (auto elim!: float_lt0.elims)

lemma is_int_number [simp]: "is_int v \<Longrightarrow> is_number v"
  by (cases v) auto

lemma is_bool_int [simp]: "is_bool v \<Longrightarrow> is_int v"
  by (cases v) auto

lemma is_bool_conv: "is_bool v \<longleftrightarrow> (\<exists>b. v = VBool b)"
  by (cases v) auto

lemma is_str_conv: "is_str v \<longleftrightarrow> (\<exists>s. v = VStr s)"
  by (cases v) auto

section \<open>Decimal text\<close>

definition digit_char :: "nat \<Rightarrow> char" where
  "digit_char d = char_of (48 + d)"

definition is_digit :: "char \<Rightarrow> bool" where
  "is_digit c \<longleftrightarrow> 48 \<le> (of_char c :: nat) \<and> (of_char c :: nat) \<le> 57"

definition digit_val :: "char \<Rightarrow> nat" where
  "digit_val c = of_char c - 48"

fun nat_str :: "nat \<Rightarrow> string" where
  "nat_str n = (if n < 10 then [digit_char n] else nat_str (n div 10) @ [digit_char (n mod 10)])"

declare nat_str.simps [simp del]

definition int_str :: "int \<Rightarrow> string" where
  "int_str n = (if n < 0 then CHR ''-'' # nat_str (nat (- n)) else nat_str (nat n))"

text \<open>The value of a string of digits.\<close>

definition digits_val :: "string \<Rightarrow> nat" where
  "digits_val s = foldl (\<lambda>a c. 10 * a + digit_val c) 0 s"

lemma of_char_digit_char: "d < 10 \<Longrightarrow> (of_char (digit_char d) :: nat) = 48 + d"
  by (simp add: digit_char_def)

lemma is_digit_digit_char [simp]: "d < 10 \<Longrightarrow> is_digit (digit_char d)"
  by (simp add: is_digit_def of_char_digit_char)

lemma digit_val_digit_char [simp]: "d < 10 \<Longrightarrow> digit_val (digit_char d) = d"
  by (simp add: digit_val_def of_char_digit_char)

lemma digits_val_snoc [simp]: "digits_val (s @ [c]) = 10 * digits_val s + digit_val c"
  by (simp add: digits_val_def)

lemma nat_str_digits: "list_all is_digit (nat_str n)"
proof (induction n rule: nat_str.induct)
  case (1 n)
  then show ?case by (subst nat_str.simps) auto
qed

lemma nat_str_nonempty [simp]: "nat_str n \<noteq> []"
  by (subst nat_str.simps) simp

lemma digits_val_nat_str [simp]: "digits_val (nat_str n) = n"
proof (induction n rule: nat_str.induct)
  case (1 n)
  show ?case
  proof (cases "n < 10")
    case True
    then show ?thesis by (subst nat_str.simps) (simp add: digits_val_def)
  next
    case False
    then show ?thesis using 1 by (subst nat_str.simps) simp
  qed
qed

lemma nat_str_hd: "0 < n \<Longrightarrow> hd (nat_str n) \<noteq> CHR ''0''"
proof (induction n rule: nat_str.induct)
  case (1 n)
  show ?case
  proof (cases "n < 10")
    case True
    have "(of_char (digit_char n) :: nat) \<noteq> of_char (CHR ''0'')"
      using 1(2) of_char_digit_char [OF True] by simp
    then have "digit_char n \<noteq> CHR ''0''" by metis
    with True show ?thesis by (subst nat_str.simps) simp
  next
    case False
    then show ?thesis using 1 by (subst nat_str.simps) simp
  qed
qed

lemma nat_str_0: "nat_str 0 = ''0''"
  by code_simp

lemma nat_str_Cons: "\<exists>c cs. nat_str n = c # cs \<and> is_digit c"
  using nat_str_digits [of n] by (cases "nat_str n") auto

lemma int_str_nonneg: "0 \<le> n \<Longrightarrow> int_str n = nat_str (nat n)"
  by (simp add: int_str_def)

section \<open>Text of a float\<close>

text \<open>
  \<open>strip0 c k\<close> removes the trailing zeros of the significand of \<open>c / 10\<^sup>k\<close>; \<open>k\<close> may become
  negative.
\<close>

function strip0 :: "nat \<Rightarrow> int \<Rightarrow> nat \<times> int" where
  "strip0 c k = (if c \<noteq> 0 \<and> c mod 10 = 0 then strip0 (c div 10) (k - 1) else (c, k))"
  by pat_completeness auto
termination
  by (relation "measure fst") auto

declare strip0.simps [simp del]

lemma strip0_mult10: "c \<noteq> 0 \<Longrightarrow> strip0 (10 * c) (k + 1) = strip0 c k"
  by (subst strip0.simps) simp

lemma strip0_mult: "c \<noteq> 0 \<Longrightarrow> strip0 (10 ^ j * c) (k + int j) = strip0 c k"
proof (induction j)
  case 0
  then show ?case by simp
next
  case (Suc j)
  have "strip0 (10 * (10 ^ j * c)) ((k + int j) + 1) = strip0 (10 ^ j * c) (k + int j)"
    by (rule strip0_mult10) (use Suc in simp)
  with Suc show ?case by (simp add: algebra_simps)
qed

lemma strip0_nonzero: "c \<noteq> 0 \<Longrightarrow> strip0 c k = (c', k') \<Longrightarrow> c' \<noteq> 0"
proof (induction c k arbitrary: c' k' rule: strip0.induct)
  case (1 c k)
  then show ?case by (subst (asm) (2) strip0.simps) (auto split: if_splits)
qed

lemma strip0_idem: "strip0 c k = (c', k') \<Longrightarrow> strip0 c' k' = (c', k')"
proof (induction c k arbitrary: c' k' rule: strip0.induct)
  case (1 c k)
  show ?case
  proof (cases "c \<noteq> 0 \<and> c mod 10 = 0")
    case True
    with 1 show ?thesis by (simp add: strip0.simps [of c k])
  next
    case False
    with 1(2) have "c' = c" "k' = k" by (auto simp: strip0.simps [of c k])
    with False show ?thesis by (subst strip0.simps) auto
  qed
qed

text \<open>A float from a sign, a significand and a decimal exponent, in normal form.\<close>

definition mk_float :: "bool \<Rightarrow> nat \<Rightarrow> int \<Rightarrow> pyfloat" where
  "mk_float neg c k =
     (if c = 0 then (if neg then NegZero else Dec 0 0)
      else let (c', k') = strip0 c k; m = (if neg then - int c' else int c')
           in if 0 \<le> k' then Dec m (nat k') else Dec (m * 10 ^ nat (- k')) 0)"

fun norm_float :: "pyfloat \<Rightarrow> pyfloat" where
  "norm_float (Dec m k) = mk_float (m < 0) (nat \<bar>m\<bar>) (int k)"
| "norm_float f = f"

text \<open>
  \<open>repr\<close> of a float (format code \<open>r\<close> of \<open>PyOS_double_to_string\<close>): with the shortest digits
  \<open>ds\<close> and the decimal point at \<open>decpt\<close>, exponent notation when \<open>decpt <= -4\<close> or
  \<open>decpt > 16\<close>, with a sign and at least two exponent digits.
\<close>

definition exp_str :: "int \<Rightarrow> string" where
  "exp_str e = (if e < 0 then ''-'' else ''+'')
     @ (let ds = nat_str (nat \<bar>e\<bar>) in if length ds < 2 then CHR ''0'' # ds else ds)"

definition dec_str :: "nat \<Rightarrow> int \<Rightarrow> string" where
  "dec_str c k =
     (let ds = nat_str c; nd = length ds; decpt = int nd - k in
      if decpt \<le> -4 \<or> 16 < decpt then
        (case ds of
           [] \<Rightarrow> []
         | d # rest \<Rightarrow> d # (if rest = [] then [] else CHR ''.'' # rest) @ CHR ''e'' # exp_str (decpt - 1))
      else if decpt \<le> 0 then ''0.'' @ replicate (nat (- decpt)) CHR ''0'' @ ds
      else if decpt < int nd then take (nat decpt) ds @ CHR ''.'' # drop (nat decpt) ds
      else ds @ replicate (nat (decpt - int nd)) CHR ''0'' @ ''.0'')"

fun float_repr :: "pyfloat \<Rightarrow> string" where
  "float_repr (Dec m k) =
     (if m = 0 then ''0.0''
      else let (c, k') = strip0 (nat \<bar>m\<bar>) (int k)
           in (if m < 0 then ''-'' else []) @ dec_str c k')"
| "float_repr NegZero = ''-0.0''"
| "float_repr PosInf = ''inf''"
| "float_repr NegInf = ''-inf''"
| "float_repr NaN = ''nan''"

section \<open>\<open>str\<close> and \<open>type\<close>\<close>

text \<open>
  \<open>repr\<close> of a string: single quotes unless the text holds a single and no double quote;
  the quote, the backslash and the control characters are escaped.
\<close>

definition hex_digit :: "nat \<Rightarrow> char" where
  "hex_digit d = (if d < 10 then char_of (48 + d) else char_of (87 + d))"

definition hex2 :: "nat \<Rightarrow> string" where
  "hex2 n = [hex_digit (n div 16 mod 16), hex_digit (n mod 16)]"

definition backslash :: char where "backslash = char_of (92 :: nat)"
definition squote :: char where "squote = char_of (39 :: nat)"
definition dquote :: char where "dquote = char_of (34 :: nat)"
definition newline :: char where "newline = char_of (10 :: nat)"

definition repr_char :: "char \<Rightarrow> char \<Rightarrow> string" where
  "repr_char q c =
     (let n = (of_char c :: nat) in
      if c = q \<or> c = backslash then [backslash, c]
      else if n = 10 then [backslash, CHR ''n'']
      else if n = 13 then [backslash, CHR ''r'']
      else if n = 9 then [backslash, CHR ''t'']
      else if n < 32 \<or> n = 127 then [backslash, CHR ''x''] @ hex2 n
      else [c])"

definition str_repr :: "string \<Rightarrow> string" where
  "str_repr s =
     (let q = (if squote \<in> set s \<and> dquote \<notin> set s then dquote else squote)
      in q # concat (map (repr_char q) s) @ [q])"

fun join :: "string \<Rightarrow> string list \<Rightarrow> string" where
  "join sep [] = []"
| "join sep [x] = x"
| "join sep (x # y # ys) = x @ sep @ join sep (y # ys)"

fun py_repr :: "pyval \<Rightarrow> string" where
  "py_repr VNone = ''None''"
| "py_repr (VBool b) = (if b then ''True'' else ''False'')"
| "py_repr (VInt n) = int_str n"
| "py_repr (VFloat f) = float_repr f"
| "py_repr (VStr s) = str_repr s"
| "py_repr (VList vs) = ''['' @ join '', '' (map py_repr vs) @ '']''"
| "py_repr (VDict kvs) =
     ''{'' @ join '', '' (map (\<lambda>(k, v). str_repr k @ '': '' @ py_repr v) kvs) @ ''}''"
| "py_repr (VObj cls s) = s"

fun py_str :: "pyval \<Rightarrow> string" where
  "py_str (VStr s) = s"
| "py_str v = py_repr v"

fun type_name :: "pyval \<Rightarrow> string" where
  "type_name VNone = ''NoneType''"
| "type_name (VBool _) = ''bool''"
| "type_name (VInt _) = ''int''"
| "type_name (VFloat _) = ''float''"
| "type_name (VStr _) = ''str''"
| "type_name (VList _) = ''list''"
| "type_name (VDict _) = ''dict''"
| "type_name (VObj cls _) = cls"

definition quoted :: "string \<Rightarrow> string" where
  "quoted s = squote # s @ [squote]"

text \<open>\<open>{type(v)}\<close> in an f-string.\<close>

definition type_str :: "pyval \<Rightarrow> string" where
  "type_str v = ''<class '' @ quoted (type_name v) @ ''>''"

end
