(* ===== verification/Rs274_Enums.thy ===== *)
theory Rs274_Enums
  imports Py_Values
begin

text \<open>
  The enumerations of \<open>rs274.py\<close>, with the values and the \<open>name\<close>s the code relies on.
  Every one of them carries \<open>@unique\<close>, which makes Python reject an alias, a member whose
  value was used before.
\<close>

section \<open>CoordinateMode, MotionMode\<close>

datatype CoordinateMode = CM_Undefined | AbsoluteMode | IncrementMode

fun cm_value :: "CoordinateMode \<Rightarrow> int" where
  "cm_value CM_Undefined = -1"
| "cm_value AbsoluteMode = 0"
| "cm_value IncrementMode = 1"

fun cm_name :: "CoordinateMode \<Rightarrow> string" where
  "cm_name CM_Undefined = ''Undefined''"
| "cm_name AbsoluteMode = ''AbsoluteMode''"
| "cm_name IncrementMode = ''IncrementMode''"

datatype MotionMode = MM_Undefined | MM_G00 | MM_G01 | MM_DRILL

fun mm_value :: "MotionMode \<Rightarrow> int" where
  "mm_value MM_Undefined = -1"
| "mm_value MM_G00 = 0"
| "mm_value MM_G01 = 1"
| "mm_value MM_DRILL = 2"

fun mm_name :: "MotionMode \<Rightarrow> string" where
  "mm_name MM_Undefined = ''Undefined''"
| "mm_name MM_G00 = ''G00''"
| "mm_name MM_G01 = ''G01''"
| "mm_name MM_DRILL = ''DRILL''"

section \<open>CommandType\<close>

datatype CommandType =
    CT_Undefined | G00MotionCommand | G01MotionCommand | CoordinateModeCommand
  | CoordinateIndexCommand | EleparamSetCommand | FeedSpeedSetCommand | DelayCommand
  | CoordSetZeroCommand | DrillMotionCommand | G01GroupMotionCommand | PauseCommand
  | ProgramEndCommand

fun ct_value :: "CommandType \<Rightarrow> int" where
  "ct_value CT_Undefined = -1"
| "ct_value G00MotionCommand = 0"
| "ct_value G01MotionCommand = 1"
| "ct_value CoordinateModeCommand = 2"
| "ct_value CoordinateIndexCommand = 3"
| "ct_value EleparamSetCommand = 4"
| "ct_value FeedSpeedSetCommand = 5"
| "ct_value DelayCommand = 6"
| "ct_value CoordSetZeroCommand = 7"
| "ct_value DrillMotionCommand = 8"
| "ct_value G01GroupMotionCommand = 9"
| "ct_value PauseCommand = 98"
| "ct_value ProgramEndCommand = 99"

fun ct_name :: "CommandType \<Rightarrow> string" where
  "ct_name CT_Undefined = ''Undefined''"
| "ct_name G00MotionCommand = ''G00MotionCommand''"
| "ct_name G01MotionCommand = ''G01MotionCommand''"
| "ct_name CoordinateModeCommand = ''CoordinateModeCommand''"
| "ct_name CoordinateIndexCommand = ''CoordinateIndexCommand''"
| "ct_name EleparamSetCommand = ''EleparamSetCommand''"
| "ct_name FeedSpeedSetCommand = ''FeedSpeedSetCommand''"
| "ct_name DelayCommand = ''DelayCommand''"
| "ct_name CoordSetZeroCommand = ''CoordSetZeroCommand''"
| "ct_name DrillMotionCommand = ''DrillMotionCommand''"
| "ct_name G01GroupMotionCommand = ''G01GroupMotionCommand''"
| "ct_name PauseCommand = ''PauseCommand''"
| "ct_name ProgramEndCommand = ''ProgramEndCommand''"

section \<open>CommandDictKey\<close>

datatype CommandDictKey =
    K_Undefined | K_CommandType | K_CoordinateMode | K_CoordinateIndex | K_MotionMode
  | K_Coordinates | K_LineNumber | K_EleparamIndex | K_FeedSpeed | K_DelayTime
  | K_M05IgnoreTouchDetect | K_G00Touch | K_SetZeroAxisList | K_DrillDepth | K_DrillHoldTime
  | K_DrillTouch | K_DrillBreakout | K_DrillBack | K_DrillSpindleSpeed | K_G01GroupPoints
  | K_CommandStr | K_Options

fun key_value :: "CommandDictKey \<Rightarrow> int" where
  "key_value K_Undefined = -1"
| "key_value K_CommandType = 0"
| "key_value K_CoordinateMode = 1"
| "key_value K_CoordinateIndex = 2"
| "key_value K_MotionMode = 3"
| "key_value K_Coordinates = 4"
| "key_value K_LineNumber = 5"
| "key_value K_EleparamIndex = 6"
| "key_value K_FeedSpeed = 7"
| "key_value K_DelayTime = 8"
| "key_value K_M05IgnoreTouchDetect = 9"
| "key_value K_G00Touch = 10"
| "key_value K_SetZeroAxisList = 11"
| "key_value K_DrillDepth = 12"
| "key_value K_DrillHoldTime = 13"
| "key_value K_DrillTouch = 14"
| "key_value K_DrillBreakout = 15"
| "key_value K_DrillBack = 16"
| "key_value K_DrillSpindleSpeed = 17"
| "key_value K_G01GroupPoints = 18"
| "key_value K_CommandStr = 19"
| "key_value K_Options = 20"

fun key_name :: "CommandDictKey \<Rightarrow> string" where
  "key_name K_Undefined = ''Undefined''"
| "key_name K_CommandType = ''CommandType''"
| "key_name K_CoordinateMode = ''CoordinateMode''"
| "key_name K_CoordinateIndex = ''CoordinateIndex''"
| "key_name K_MotionMode = ''MotionMode''"
| "key_name K_Coordinates = ''Coordinates''"
| "key_name K_LineNumber = ''LineNumber''"
| "key_name K_EleparamIndex = ''EleparamIndex''"
| "key_name K_FeedSpeed = ''FeedSpeed''"
| "key_name K_DelayTime = ''DelayTime''"
| "key_name K_M05IgnoreTouchDetect = ''M05IgnoreTouchDetect''"
| "key_name K_G00Touch = ''G00Touch''"
| "key_name K_SetZeroAxisList = ''SetZeroAxisList''"
| "key_name K_DrillDepth = ''DrillDepth''"
| "key_name K_DrillHoldTime = ''DrillHoldTime''"
| "key_name K_DrillTouch = ''DrillTouch''"
| "key_name K_DrillBreakout = ''DrillBreakout''"
| "key_name K_DrillBack = ''DrillBack''"
| "key_name K_DrillSpindleSpeed = ''DrillSpindleSpeed''"
| "key_name K_G01GroupPoints = ''G01GroupPoints''"
| "key_name K_CommandStr = ''CommandStr''"
| "key_name K_Options = ''Options''"

section \<open>Names and values identify the members\<close>

text \<open>
  An enumeration of \<open>rs274.py\<close>: the listed members are all of them, no two have the same
  value (\<open>@unique\<close>) or the same name, so a member can be found again from the name that
  stands in the JSON text. The lemmas are proved once from these laws.
\<close>

locale unique_enum =
  fixes members :: "'a list"
    and value_of :: "'a \<Rightarrow> int"
    and name_of :: "'a \<Rightarrow> string"
  assumes all_members: "x \<in> set members"
    and distinct_values: "distinct (map value_of members)"
    and distinct_names: "distinct (map name_of members)"
begin

definition by_name :: "string \<Rightarrow> 'a option" where
  "by_name s = find (\<lambda>x. name_of x = s) members"

lemma inj_name: "inj name_of"
  using distinct_names all_members by (auto simp: distinct_map inj_def inj_on_def)

lemma inj_value: "inj value_of"
  using distinct_values all_members by (auto simp: distinct_map inj_def inj_on_def)

lemma name_eq_iff: "name_of x = name_of y \<longleftrightarrow> x = y"
  using inj_name by (auto dest: injD)

lemma value_eq_iff: "value_of x = value_of y \<longleftrightarrow> x = y"
  using inj_value by (auto dest: injD)

lemma by_name_name: "by_name (name_of x) = Some x"
proof -
  have "by_name (name_of x) \<noteq> None"
    using all_members [of x] by (auto simp: by_name_def find_None_iff)
  then obtain y where y: "by_name (name_of x) = Some y" by blast
  then have "name_of y = name_of x"
    by (auto simp: by_name_def find_Some_iff)
  with y show ?thesis by (simp add: name_eq_iff)
qed

end

definition cm_members :: "CoordinateMode list" where
  "cm_members = [CM_Undefined, AbsoluteMode, IncrementMode]"

definition mm_members :: "MotionMode list" where
  "mm_members = [MM_Undefined, MM_G00, MM_G01, MM_DRILL]"

definition ct_members :: "CommandType list" where
  "ct_members = [CT_Undefined, G00MotionCommand, G01MotionCommand, CoordinateModeCommand,
     CoordinateIndexCommand, EleparamSetCommand, FeedSpeedSetCommand, DelayCommand,
     CoordSetZeroCommand, DrillMotionCommand, G01GroupMotionCommand, PauseCommand,
     ProgramEndCommand]"

definition key_members :: "CommandDictKey list" where
  "key_members = [K_Undefined, K_CommandType, K_CoordinateMode, K_CoordinateIndex,
     K_MotionMode, K_Coordinates, K_LineNumber, K_EleparamIndex, K_FeedSpeed, K_DelayTime,
     K_M05IgnoreTouchDetect, K_G00Touch, K_SetZeroAxisList, K_DrillDepth, K_DrillHoldTime,
     K_DrillTouch, K_DrillBreakout, K_DrillBack, K_DrillSpindleSpeed, K_G01GroupPoints,
     K_CommandStr, K_Options]"

interpretation cm: unique_enum cm_members cm_value cm_name
proof unfold_locales
  show "x \<in> set cm_members" for x
    by (cases x) (simp_all add: cm_members_def)
qed (simp_all add: cm_members_def)

interpretation mm: unique_enum mm_members mm_value mm_name
proof unfold_locales
  show "x \<in> set mm_members" for x
    by (cases x) (simp_all add: mm_members_def)
qed (simp_all add: mm_members_def)

interpretation ct: unique_enum ct_members ct_value ct_name
proof unfold_locales
  show "x \<in> set ct_members" for x
    by (cases x) (simp_all add: ct_members_def)
qed (simp_all add: ct_members_def)

interpretation dkey: unique_enum key_members key_value key_name
proof unfold_locales
  show "x \<in> set key_members" for x
    by (cases x) (simp_all add: key_members_def)
qed (simp_all add: key_members_def)

text \<open>
  Comparing names is comparing members: with these rules the proofs about commands never
  unfold a string.
\<close>

declare cm_name.simps [simp del] mm_name.simps [simp del] ct_name.simps [simp del]
  key_name.simps [simp del]

lemmas enum_names = cm_name.simps mm_name.simps ct_name.simps key_name.simps

lemmas enum_name_iff [simp] = cm.name_eq_iff mm.name_eq_iff ct.name_eq_iff dkey.name_eq_iff

end
