(* ===== verification/Call_Contract.thy ===== *)
theory Call_Contract
  imports Edm_Prelude "HOL-Library.Sublist"
begin

text \<open>
  The contract of an object whose methods append to a log: the interface between a script,
  which makes a sequence of calls, and the object it calls. It is provided by the
  interpreter (its command list) and by \<open>Points\<close> (its point list).
\<close>

section \<open>Sequences of calls that append to a log\<close>

text \<open>
  The contract: a call appends at most one entry to the log, and none when it raises; a
  sequence of calls stops at the first exception.
\<close>

locale call_sequence =
  fixes step :: "'fr \<Rightarrow> 'c \<Rightarrow> 's \<Rightarrow> ('e, 's) outcome"
    and runs :: "('fr \<times> 'c) list \<Rightarrow> 's \<Rightarrow> ('e, 's) outcome"
    and log :: "'s \<Rightarrow> 'k list"
  assumes runs_Nil: "runs [] s = return_self s"
    and runs_Cons: "runs ((fr, c) # cs) s =
      (case step fr c s of (Inl e, s') \<Rightarrow> (Inl e, s') | (Inr _, s') \<Rightarrow> runs cs s')"
    and step_err: "fst (step fr c s) = Inl e \<Longrightarrow> log (snd (step fr c s)) = log s"
    and step_ok: "fst (step fr c s) = Inr r \<Longrightarrow>
      log (snd (step fr c s)) = log s \<or> (\<exists>k. log (snd (step fr c s)) = log s @ [k])"
begin

lemma step_log: "\<exists>ks. log (snd (step fr c s)) = log s @ ks \<and> length ks \<le> 1"
proof (cases "fst (step fr c s)")
  case (Inl e)
  then show ?thesis using step_err by fastforce
next
  case (Inr r)
  then show ?thesis using step_ok [OF Inr] by fastforce
qed

lemma runs_log: "\<exists>ks. log (snd (runs cs s)) = log s @ ks \<and> length ks \<le> length cs"
proof (induction cs arbitrary: s)
  case Nil
  then show ?case by (simp add: runs_Nil)
next
  case (Cons a cs)
  obtain fr c where a: "a = (fr, c)" by (cases a)
  obtain r s' where st: "step fr c s = (r, s')" by (cases "step fr c s")
  obtain k1 where k1: "log s' = log s @ k1" "length k1 \<le> 1"
    using step_log [of fr c s] st by auto
  show ?case
  proof (cases r)
    case (Inl e)
    then show ?thesis using k1 st by (auto simp: a runs_Cons)
  next
    case (Inr u)
    obtain k2 where k2: "log (snd (runs cs s')) = log s' @ k2" "length k2 \<le> length cs"
      using Cons.IH by blast
    with Inr st k1 show ?thesis
      by (intro exI [of _ "k1 @ k2"]) (simp add: a runs_Cons)
  qed
qed

lemma runs_prefix: "prefix (log s) (log (snd (runs cs s)))"
  using runs_log [of cs s] by (auto simp: prefix_def)

lemma runs_append:
  "runs (xs @ ys) s =
     (case runs xs s of (Inl e, s') \<Rightarrow> (Inl e, s') | (Inr _, s') \<Rightarrow> runs ys s')"
proof (induction xs arbitrary: s)
  case Nil
  then show ?case by (simp add: runs_Nil return_self_def)
next
  case (Cons a xs)
  obtain fr c where a: "a = (fr, c)" by (cases a)
  then show ?case
    by (simp add: runs_Cons Cons.IH split: prod.splits sum.splits)
qed

lemma runs_failing_call:
  assumes "runs cs s = (Inl e, s')"
  shows "\<exists>xs fr c ys s1. cs = xs @ (fr, c) # ys \<and> runs xs s = return_self s1 \<and> step fr c s1 = (Inl e, s')"
  using assms
proof (induction cs arbitrary: s)
  case Nil
  then show ?case by (simp add: runs_Nil return_self_def)
next
  case (Cons a cs)
  obtain fr c where a: "a = (fr, c)" by (cases a)
  obtain r s2 where st: "step fr c s = (r, s2)" by (cases "step fr c s")
  show ?case
  proof (cases r)
    case (Inl e')
    then have "step fr c s = (Inl e, s')" using Cons.prems st by (simp add: a runs_Cons)
    then show ?thesis by (intro exI [of _ "[]"]) (auto simp: a runs_Nil)
  next
    case (Inr u)
    then have "runs cs s2 = (Inl e, s')" using Cons.prems st by (simp add: a runs_Cons)
    from Cons.IH [OF this] obtain xs fr' c' ys s1 where
      "cs = xs @ (fr', c') # ys" "runs xs s2 = return_self s1" "step fr' c' s1 = (Inl e, s')" by blast
    then show ?thesis using st Inr by (intro exI [of _ "a # xs"]) (auto simp: a runs_Cons)
  qed
qed

end

text \<open>
  A sequence with an end: after it every call is skipped, before it every successful call
  appends exactly one entry.
\<close>

locale ending_sequence = call_sequence step runs log
  for step :: "'fr \<Rightarrow> 'c \<Rightarrow> 's \<Rightarrow> ('e, 's) outcome"
    and runs :: "('fr \<times> 'c) list \<Rightarrow> 's \<Rightarrow> ('e, 's) outcome"
    and log :: "'s \<Rightarrow> 'k list" +
  fixes ended :: "'s \<Rightarrow> bool"
  assumes step_ended: "ended s \<Longrightarrow> step fr c s = return_self s"
    and step_one: "\<not> ended s \<Longrightarrow> fst (step fr c s) = Inr r \<Longrightarrow>
      length (log (snd (step fr c s))) = Suc (length (log s))"
begin

lemma runs_ended: "ended s \<Longrightarrow> runs cs s = return_self s"
proof (induction cs)
  case Nil
  then show ?case by (simp add: runs_Nil)
next
  case (Cons a cs)
  obtain fr c where "a = (fr, c)" by (cases a)
  with Cons show ?case by (simp add: runs_Cons step_ended return_self_def)
qed

lemma runs_one_each:
  assumes "runs cs s = return_self s'" "\<not> ended s'"
  shows "length (log s') = length (log s) + length cs"
  using assms(1)
proof (induction cs arbitrary: s)
  case Nil
  then show ?case by (simp add: runs_Nil)
next
  case (Cons a cs)
  obtain fr c where a: "a = (fr, c)" by (cases a)
  obtain r s1 where st: "step fr c s = (r, s1)" by (cases "step fr c s")
  obtain u where u: "r = Inr u" and rest: "runs cs s1 = return_self s'"
    using Cons.prems st by (cases r) (auto simp: a runs_Cons return_self_def)
  have "\<not> ended s"
  proof
    assume "ended s"
    then have "s1 = s" using step_ended [of s fr c] st by (simp add: return_self_def)
    with rest runs_ended [OF \<open>ended s\<close>] have "s' = s" by simp
    with \<open>ended s\<close> assms(2) show False by simp
  qed
  then show ?case using step_one [of s fr c u] st u Cons.IH [OF rest] by simp
qed

end

end
