(* ===== verification/Rs274_Points.thy ===== *)
theory Rs274_Points
  imports Rs274_Enums Call_Contract
begin

text \<open>
  The call-site helpers of \<open>rs274.py\<close> (\<open>_get_caller_linenumber\<close>, \<open>_get_caller_code\<close>,
  \<open>_get_stackmessage\<close>) and the class \<open>Points\<close>, the point sequence of a \<open>g01_group\<close>.

  The helpers read one frame of \<open>inspect.stack()\<close>. At every use the \<open>layer\<close> argument counts
  the frames of \<open>rs274.py\<close> between the helper and the script, so the frame read is the
  script's: a method's model therefore takes that frame, the \<open>caller\<close>, as an argument.
\<close>

section \<open>The calling frame\<close>

text \<open>
  \<open>code_context\<close> is \<open>None\<close> when the script's source text is not available, and otherwise
  holds the line with its line end.
\<close>

record caller =
  lineno :: int
  code_context :: "string option"

definition get_caller_linenumber :: "caller \<Rightarrow> int" where
  "get_caller_linenumber fr = lineno fr"

definition get_caller_code :: "caller \<Rightarrow> (pyexn, string) result" where
  "get_caller_code fr =
     (case code_context fr of
        None \<Rightarrow> Inl (TypeError (quoted ''NoneType'' @ '' object is not subscriptable''))
      | Some line \<Rightarrow> Inr (butlast line))"

definition get_stackmessage :: "caller \<Rightarrow> (pyexn, string) result" where
  "get_stackmessage fr =
     rbind (get_caller_code fr)
       (\<lambda>code. Inr (''(line '' @ int_str (get_caller_linenumber fr) @ ''): '' @ code))"

text \<open>
  \<open>InterpreterException(pre + _get_stackmessage(...))\<close>: the exception that leaves the
  \<open>raise\<close> statement.
\<close>

definition iexn :: "caller \<Rightarrow> string \<Rightarrow> pyexn" where
  "iexn fr pre =
     (case get_stackmessage fr of
        Inl e \<Rightarrow> e
      | Inr m \<Rightarrow> InterpreterException (pre @ m))"

text \<open>A frame whose source text can be read, as when the script is run from its file.\<close>

definition has_source :: "caller \<Rightarrow> bool" where
  "has_source fr \<longleftrightarrow> code_context fr \<noteq> None"

definition caller_code :: "caller \<Rightarrow> string" where
  "caller_code fr = (case code_context fr of None \<Rightarrow> [] | Some line \<Rightarrow> butlast line)"

lemma get_caller_code_source: "has_source fr \<Longrightarrow> get_caller_code fr = Inr (caller_code fr)"
  by (auto simp: has_source_def get_caller_code_def caller_code_def)

lemma get_caller_code_Inr_iff:
  "get_caller_code fr = Inr c \<longleftrightarrow> has_source fr \<and> c = caller_code fr"
  by (auto simp: has_source_def get_caller_code_def caller_code_def split: option.splits)

lemma iexn_source:
  "has_source fr \<Longrightarrow>
     iexn fr pre = InterpreterException (pre @ ''(line '' @ int_str (lineno fr) @ ''): '' @ caller_code fr)"
  by (simp add: iexn_def get_stackmessage_def get_caller_code_source get_caller_linenumber_def)

section \<open>InterpreterException\<close>

text \<open>
  \<open>InterpreterException.__init__\<close> keeps the first argument when it is a string, and
  \<open>__str__\<close> returns what was kept. \<open>exn_args\<close> are the arguments of the constructor.
\<close>

definition InterpreterException_init :: "pyval list \<Rightarrow> pyexn" where
  "InterpreterException_init args =
     InterpreterException
       (case args of
          a # _ \<Rightarrow> if is_str a then (case a of VStr s \<Rightarrow> s | _ \<Rightarrow> []) else ''Unknown Error''
        | [] \<Rightarrow> ''Unknown Error'')"

fun exn_str :: "pyexn \<Rightarrow> string" where
  "exn_str (InterpreterException s) = s"
| "exn_str (TypeError s) = s"
| "exn_str (IndexError s) = s"
| "exn_str (ValueError s) = s"
| "exn_str (AttributeError s) = s"

section \<open>Points\<close>

record point =
  pt_mode :: CoordinateMode
  pt_coords :: "pyval list"
  pt_line :: int
  pt_code :: string
  pt_feedrate :: pyval

record points =
  pts_points :: "point list"
  pts_mode :: CoordinateMode
  pts_feedrate :: pyval

text \<open>The six axis arguments \<open>x, y, z, b, c, a\<close> of a motion call; an absent one is \<open>None\<close>.\<close>

datatype coords = Coords (cx: pyval) (cy: pyval) (cz: pyval) (cb: pyval) (cc: pyval) (ca: pyval)

fun coord_list :: "coords \<Rightarrow> pyval list" where
  "coord_list (Coords x y z b c a) = [x, y, z, b, c, a]"

definition Point_init :: "CoordinateMode \<Rightarrow> int \<Rightarrow> string \<Rightarrow> point" where
  "Point_init mode line code =
     \<lparr>pt_mode = mode, pt_coords = replicate 6 VNone, pt_line = line, pt_code = code,
      pt_feedrate = VInt 1\<rparr>"

text \<open>\<open>set_point\<close> stores the coordinates first and checks them in order afterwards.\<close>

fun check_coords :: "pyval list \<Rightarrow> (pyexn, unit) result" where
  "check_coords [] = Inr ()"
| "check_coords (v # vs) =
     (if v \<noteq> VNone \<and> \<not> is_number v
      then Inl (InterpreterException (''Point value type invalid: '' @ type_str v @ '' ''))
      else check_coords vs)"

definition set_point :: "coords \<Rightarrow> point \<Rightarrow> (pyexn, point) outcome" where
  "set_point cs p =
     (let p' = p\<lparr>pt_coords := coord_list cs\<rparr> in
      case check_coords (pt_coords p') of
        Inl e \<Rightarrow> raise e p'
      | Inr _ \<Rightarrow> return_none p')"

definition set_feedrate :: "pyval \<Rightarrow> point \<Rightarrow> (pyexn, point) outcome" where
  "set_feedrate speed p =
     (if \<not> is_int speed
      then raise (InterpreterException (''set_feedrate type invalid: '' @ type_str speed @ '' '')) p
      else return_none (p\<lparr>pt_feedrate := speed\<rparr>))"

definition Points_init :: points where
  "Points_init = \<lparr>pts_points = [], pts_mode = CM_Undefined, pts_feedrate = VInt 1\<rparr>"

definition Points_check_environment :: "caller \<Rightarrow> points \<Rightarrow> (pyexn, unit) result" where
  "Points_check_environment fr ps =
     (if pts_mode ps = CM_Undefined then Inl (iexn fr ''CoordinateMode Undefined '') else Inr ())"

definition Points_g90 :: "points \<Rightarrow> (pyexn, points) outcome" where
  "Points_g90 ps = return_self (ps\<lparr>pts_mode := AbsoluteMode\<rparr>)"

definition Points_g91 :: "points \<Rightarrow> (pyexn, points) outcome" where
  "Points_g91 ps = return_self (ps\<lparr>pts_mode := IncrementMode\<rparr>)"

text \<open>\<open>Points.f\<close> has no \<open>return\<close> statement: it returns \<open>None\<close>.\<close>

definition Points_f :: "caller \<Rightarrow> pyval \<Rightarrow> points \<Rightarrow> (pyexn, points) outcome" where
  "Points_f fr speed ps =
     (if \<not> is_int speed
      then raise (iexn fr (''Feed Speed Type Not Valid: '' @ type_str speed @ '' '')) ps
      else if num_le0 speed
      then raise (iexn fr (''Feed Speed Value ('' @ py_str speed @ '') Out of Range '')) ps
      else return_none (ps\<lparr>pts_feedrate := speed\<rparr>))"

text \<open>
  \<open>push\<close>: an exception inside the \<open>try\<close> is raised again as an \<open>InterpreterException\<close> with
  the call site appended; the sequence itself is changed only when everything succeeded.
\<close>

definition Points_push :: "caller \<Rightarrow> coords \<Rightarrow> pyval \<Rightarrow> points \<Rightarrow> (pyexn, points) outcome" where
  "Points_push fr cs f ps =
     (case Points_check_environment fr ps of
        Inl e \<Rightarrow> raise e ps
      | Inr _ \<Rightarrow>
          (case get_caller_code fr of
             Inl e \<Rightarrow> raise e ps
           | Inr code \<Rightarrow>
               (let p0 = Point_init (pts_mode ps) (get_caller_linenumber fr) code;
                    tried = (case set_point cs p0 of
                               (Inl e, p1) \<Rightarrow> (Inl e, p1)
                             | (Inr _, p1) \<Rightarrow>
                                 if f \<noteq> VNone then set_feedrate f p1
                                 else set_feedrate (pts_feedrate ps) p1)
                in case tried of
                     (Inl e, _) \<Rightarrow> raise (iexn fr (exn_str e)) ps
                   | (Inr _, p) \<Rightarrow> return_self (ps\<lparr>pts_points := pts_points ps @ [p]\<rparr>))))"

definition get_points :: "points \<Rightarrow> point list" where
  "get_points ps = pts_points ps"

text \<open>A chained call \<open>ps.m1(...).m2(...)\<close>: the second call needs \<open>self\<close> from the first.\<close>

definition chain :: "string \<Rightarrow> ('s \<Rightarrow> (pyexn, 's) outcome) \<Rightarrow> (pyexn, 's) outcome \<Rightarrow> (pyexn, 's) outcome" where
  "chain meth m r =
     (case r of
        (Inl e, s) \<Rightarrow> (Inl e, s)
      | (Inr RetSelf, s) \<Rightarrow> m s
      | (Inr RetNone, s) \<Rightarrow>
          raise (AttributeError (quoted ''NoneType'' @ '' object has no attribute '' @ quoted meth)) s)"

lemmas points_defs = Point_init_def set_point_def set_feedrate_def Points_init_def
  Points_check_environment_def Points_g90_def Points_g91_def Points_f_def Points_push_def
  get_points_def

section \<open>What a point sequence holds\<close>

text \<open>
  The invariant of the class: the current rate is a positive integer, and every stored point
  has a defined mode, six coordinates each a number or absent, and an integer rate.
\<close>

definition wf_point :: "point \<Rightarrow> bool" where
  "wf_point p \<longleftrightarrow> pt_mode p \<noteq> CM_Undefined \<and> length (pt_coords p) = 6
     \<and> list_all (\<lambda>v. v = VNone \<or> is_number v) (pt_coords p) \<and> is_int (pt_feedrate p)"

definition wf_points :: "points \<Rightarrow> bool" where
  "wf_points ps \<longleftrightarrow> list_all wf_point (pts_points ps) \<and> is_int (pts_feedrate ps)
     \<and> 0 < int_of (pts_feedrate ps)"

lemma check_coords_Inr_iff:
  "check_coords vs = Inr u \<longleftrightarrow> list_all (\<lambda>v. v = VNone \<or> is_number v) vs"
  by (induction vs) auto

lemma num_le0_int: "is_int v \<Longrightarrow> num_le0 v \<longleftrightarrow> int_of v \<le> 0"
  by (cases v) auto

lemma num_lt0_int: "is_int v \<Longrightarrow> num_lt0 v \<longleftrightarrow> int_of v < 0"
  by (cases v) auto

lemma length_coord_list [simp]: "length (coord_list cs) = 6"
  by (cases cs) simp

section \<open>Sequences of calls on a point sequence\<close>

datatype pcall = P_g90 | P_g91 | P_f pyval | P_push coords pyval

fun exec_pcall :: "caller \<Rightarrow> pcall \<Rightarrow> points \<Rightarrow> (pyexn, points) outcome" where
  "exec_pcall fr P_g90 = Points_g90"
| "exec_pcall fr P_g91 = Points_g91"
| "exec_pcall fr (P_f v) = Points_f fr v"
| "exec_pcall fr (P_push cs f) = Points_push fr cs f"

fun prun :: "(caller \<times> pcall) list \<Rightarrow> points \<Rightarrow> (pyexn, points) outcome" where
  "prun [] ps = return_self ps"
| "prun ((fr, c) # cs) ps =
     (case exec_pcall fr c ps of
        (Inl e, ps') \<Rightarrow> (Inl e, ps')
      | (Inr _, ps') \<Rightarrow> prun cs ps')"

text \<open>
  The effect of \<open>push\<close>: the rate of the new point is the argument when there is one and the
  current rate otherwise, and a rejected push changes nothing.
\<close>

definition push_rate :: "pyval \<Rightarrow> points \<Rightarrow> pyval" where
  "push_rate f ps = (if f \<noteq> VNone then f else pts_feedrate ps)"

definition push_ok :: "coords \<Rightarrow> pyval \<Rightarrow> points \<Rightarrow> bool" where
  "push_ok cs f ps \<longleftrightarrow> pts_mode ps \<noteq> CM_Undefined
     \<and> list_all (\<lambda>v. v = VNone \<or> is_number v) (coord_list cs) \<and> is_int (push_rate f ps)"

lemma Points_push_accept:
  assumes "has_source fr" "push_ok cs f ps"
  shows "Points_push fr cs f ps = return_self (ps\<lparr>pts_points := pts_points ps @
    [\<lparr>pt_mode = pts_mode ps, pt_coords = coord_list cs, pt_line = lineno fr,
      pt_code = caller_code fr, pt_feedrate = push_rate f ps\<rparr>]\<rparr>)"
proof -
  have "check_coords (coord_list cs) = Inr ()"
    using assms(2) by (simp add: push_ok_def check_coords_Inr_iff)
  then show ?thesis
    using assms by (auto simp: points_defs push_ok_def push_rate_def get_caller_code_source
        get_caller_linenumber_def outcome_defs Let_def split: if_splits)
qed

lemma Points_push_reject:
  assumes "\<not> (has_source fr \<and> push_ok cs f ps)"
  shows "\<exists>e. Points_push fr cs f ps = raise e ps"
proof (cases "pts_mode ps = CM_Undefined \<or> \<not> has_source fr")
  case True
  then show ?thesis
    by (auto simp: Points_push_def Points_check_environment_def get_caller_code_def has_source_def)
next
  case False
  then show ?thesis
    using assms check_coords_Inr_iff [of "coord_list cs" "()"]
    by (cases "check_coords (coord_list cs)")
      (auto simp: points_defs push_ok_def push_rate_def get_caller_code_source outcome_defs Let_def
        split: if_splits)
qed

lemma Points_push_cases:
  obtains (accept) "has_source fr" "push_ok cs f ps" | (reject) e where "Points_push fr cs f ps = raise e ps"
  using Points_push_reject by blast

lemma exec_pcall_log:
  "pts_points (snd (exec_pcall fr c ps)) = pts_points ps
   \<or> fst (exec_pcall fr c ps) = Inr RetSelf \<and> (\<exists>p. pts_points (snd (exec_pcall fr c ps)) = pts_points ps @ [p])"
proof (cases c)
  case (P_push cs f)
  then show ?thesis
    by (cases rule: Points_push_cases [of fr cs f ps]) (auto simp: Points_push_accept)
qed (auto simp: points_defs)

interpretation pts: call_sequence exec_pcall prun pts_points
proof unfold_locales
  show "prun ((fr, c) # cs) s =
      (case exec_pcall fr c s of (Inl e, s') \<Rightarrow> (Inl e, s') | (Inr _, s') \<Rightarrow> prun cs s')" for fr c cs s
    by simp
  show "pts_points (snd (exec_pcall fr c s)) = pts_points s" if "fst (exec_pcall fr c s) = Inl e" for fr c s e
    using exec_pcall_log [of fr c s] that by auto
  show "pts_points (snd (exec_pcall fr c s)) = pts_points s
      \<or> (\<exists>k. pts_points (snd (exec_pcall fr c s)) = pts_points s @ [k])"
    if "fst (exec_pcall fr c s) = Inr r" for fr c s r
    using exec_pcall_log [of fr c s] by auto
qed simp

lemma wf_points_init: "wf_points Points_init"
  by (simp add: wf_points_def Points_init_def)

lemma exec_pcall_wf:
  assumes "wf_points ps"
  shows "wf_points (snd (exec_pcall fr c ps))"
proof (cases c)
  case (P_push cs f)
  then show ?thesis
    using assms by (cases rule: Points_push_cases [of fr cs f ps])
      (auto simp: Points_push_accept wf_points_def wf_point_def push_ok_def)
qed (use assms in \<open>auto simp: points_defs wf_points_def num_le0_int\<close>)

lemma prun_wf: "wf_points ps \<Longrightarrow> wf_points (snd (prun cs ps))"
proof (induction cs arbitrary: ps)
  case (Cons x cs)
  obtain fr c where "x = (fr, c)" by (cases x)
  then show ?case
    using exec_pcall_wf [OF Cons.prems, of fr c] Cons.IH by (auto split: prod.splits sum.splits)
qed simp

section \<open>Properties of \<open>Points\<close>\<close>

text \<open>Whatever calls a script makes on a fresh \<open>Points\<close> object, and whether or not one of
  them raised, every stored point has a defined mode, six coordinates that are numbers or
  absent and an integer rate, and the current rate stays a positive integer.\<close>

theorem points_invariant:
  "wf_points (snd (prun cs Points_init))"
  by (rule prun_wf [OF wf_points_init])

text \<open>\<open>push\<close> either appends exactly one point, made of the current mode, the six arguments,
  the call site and the given or current rate, or raises and leaves the object unchanged;
  which of the two is decided by the mode, the types of the arguments and the type of the
  rate.\<close>

theorem push_appends_or_raises:
  assumes "has_source fr"
  shows "if push_ok cs f ps
    then Points_push fr cs f ps = return_self (ps\<lparr>pts_points := pts_points ps @
      [\<lparr>pt_mode = pts_mode ps, pt_coords = coord_list cs, pt_line = lineno fr,
        pt_code = caller_code fr, pt_feedrate = push_rate f ps\<rparr>]\<rparr>)
    else \<exists>e. Points_push fr cs f ps = raise e ps"
  using assms Points_push_accept [of fr cs f ps] Points_push_reject [of fr cs f ps] by auto

definition demo_site :: caller where
  "demo_site = \<lparr>lineno = 9, code_context = Some (''ps.push(x=3)'' @ [newline])\<rparr>"

theorem push_appends_or_raises_witness:
  "has_source demo_site \<and>
   Points_push demo_site (Coords (VInt 3) VNone VNone VNone VNone VNone) VNone
     (Points_init\<lparr>pts_mode := AbsoluteMode, pts_feedrate := VInt 100\<rparr>) =
   return_self \<lparr>pts_points = [\<lparr>pt_mode = AbsoluteMode,
       pt_coords = [VInt 3, VNone, VNone, VNone, VNone, VNone], pt_line = 9,
       pt_code = ''ps.push(x=3)'', pt_feedrate = VInt 100\<rparr>],
     pts_mode = AbsoluteMode, pts_feedrate = VInt 100\<rparr>"
proof -
  have src: "has_source demo_site" by (simp add: has_source_def demo_site_def)
  show ?thesis
    using src push_appends_or_raises [OF src, of "Coords (VInt 3) VNone VNone VNone VNone VNone" VNone
        "Points_init\<lparr>pts_mode := AbsoluteMode, pts_feedrate := VInt 100\<rparr>"]
    by (simp add: push_ok_def push_rate_def Points_init_def demo_site_def caller_code_def)
qed

text \<open>The rate given to \<open>push\<close> is not checked for its sign as the one given to \<open>f\<close> is:
  \<open>f\<close> rejects every rate that is not positive, \<open>push\<close> stores any integer, also zero and
  negative ones.\<close>

theorem push_accepts_any_integer_rate:
  assumes "has_source fr" "pts_mode ps \<noteq> CM_Undefined" "n \<le> 0"
  shows "(\<exists>e. Points_f fr (VInt n) ps = raise e ps)
    \<and> (\<exists>ps'. Points_push fr (Coords VNone VNone VNone VNone VNone VNone) (VInt n) ps = return_self ps'
      \<and> pt_feedrate (last (pts_points ps')) = VInt n)"
proof
  show "\<exists>e. Points_f fr (VInt n) ps = raise e ps"
    using assms(3) by (simp add: Points_f_def)
  have "push_ok (Coords VNone VNone VNone VNone VNone VNone) (VInt n) ps"
    using assms(2) by (simp add: push_ok_def push_rate_def)
  from Points_push_accept [OF assms(1) this]
  show "\<exists>ps'. Points_push fr (Coords VNone VNone VNone VNone VNone VNone) (VInt n) ps = return_self ps'
      \<and> pt_feedrate (last (pts_points ps')) = VInt n"
    by (simp add: push_rate_def)
qed

theorem push_accepts_any_integer_rate_witness:
  "has_source demo_site \<and>
   (\<exists>ps'. Points_push demo_site (Coords VNone VNone VNone VNone VNone VNone) (VInt (-20))
     (Points_init\<lparr>pts_mode := AbsoluteMode\<rparr>) = return_self ps'
     \<and> pt_feedrate (last (pts_points ps')) = VInt (-20))"
proof -
  have src: "has_source demo_site" by (simp add: has_source_def demo_site_def)
  show ?thesis
    using src push_accepts_any_integer_rate [OF src, of "Points_init\<lparr>pts_mode := AbsoluteMode\<rparr>" "-20"]
    by simp
qed

text \<open>An accepted \<open>Points.f\<close> returns \<open>None\<close> and not the object its annotation promises, so
  a call chained to it raises an \<open>AttributeError\<close>; the rate itself has been set.\<close>

theorem points_f_breaks_chain:
  assumes "is_int v" "0 < int_of v"
  shows "chain ''push'' (Points_push fr cs r) (Points_f fr v ps) =
    raise (AttributeError (quoted ''NoneType'' @ '' object has no attribute '' @ quoted ''push''))
      (ps\<lparr>pts_feedrate := v\<rparr>)"
  using assms by (simp add: Points_f_def num_le0_int chain_def return_none_def)

theorem points_f_breaks_chain_witness:
  "chain ''push'' (Points_push demo_site (Coords (VInt 3) VNone VNone VNone VNone VNone) VNone)
     (Points_f demo_site (VInt 100) (Points_init\<lparr>pts_mode := AbsoluteMode\<rparr>)) =
   raise (AttributeError (quoted ''NoneType'' @ '' object has no attribute '' @ quoted ''push''))
     \<lparr>pts_points = [], pts_mode = AbsoluteMode, pts_feedrate = VInt 100\<rparr>"
  using points_f_breaks_chain [of "VInt 100" demo_site "Coords (VInt 3) VNone VNone VNone VNone VNone"
      VNone "Points_init\<lparr>pts_mode := AbsoluteMode\<rparr>"]
  by (simp add: Points_init_def)

end
