(* ===== verification/Rs274_Interp.thy ===== *)
theory Rs274_Interp
  imports Rs274_Points
begin

text \<open>
  The classes \<open>Environment\<close> and \<open>RS274Interpreter\<close> of \<open>rs274.py\<close>: the modal state of a
  G-code program and, per method, the check of its arguments, the update of the modal state
  and the command dictionary appended to the command list.
\<close>

section \<open>Environment\<close>

text \<open>
  The coordinate index and the feed speed are Python objects: an \<open>int\<close> check lets a \<open>bool\<close>
  pass, and the object itself is stored and later written to the JSON text.
\<close>

record environment =
  coordinate_mode :: CoordinateMode
  motion_mode :: MotionMode
  coordinate_index :: pyval
  program_end_flag :: bool
  feed_speed :: pyval

definition Environment_init :: environment where
  "Environment_init =
     \<lparr>coordinate_mode = CM_Undefined, motion_mode = MM_Undefined, coordinate_index = VInt (-1),
      program_end_flag = False, feed_speed = VInt (-1)\<rparr>"

type_synonym command = "(string \<times> pyval) list"

record rs274 =
  env :: environment
  commands :: "command list"

type_synonym rs_outcome = "(pyexn, rs274) outcome"

definition RS274Interpreter_init :: rs274 where
  "RS274Interpreter_init = \<lparr>env = Environment_init, commands = []\<rparr>"

definition is_program_end :: "rs274 \<Rightarrow> bool" where
  "is_program_end s = program_end_flag (env s)"

definition set_coordinate_mode :: "CoordinateMode \<Rightarrow> rs274 \<Rightarrow> rs274" where
  "set_coordinate_mode m s = s\<lparr>env := (env s)\<lparr>coordinate_mode := m\<rparr>\<rparr>"

definition set_motion_mode :: "MotionMode \<Rightarrow> rs274 \<Rightarrow> rs274" where
  "set_motion_mode m s = s\<lparr>env := (env s)\<lparr>motion_mode := m\<rparr>\<rparr>"

definition set_coordinate_index :: "pyval \<Rightarrow> rs274 \<Rightarrow> rs274" where
  "set_coordinate_index i s = s\<lparr>env := (env s)\<lparr>coordinate_index := i\<rparr>\<rparr>"

definition set_program_end_flag :: "rs274 \<Rightarrow> rs274" where
  "set_program_end_flag s = s\<lparr>env := (env s)\<lparr>program_end_flag := True\<rparr>\<rparr>"

definition set_feed_speed :: "pyval \<Rightarrow> rs274 \<Rightarrow> rs274" where
  "set_feed_speed v s = s\<lparr>env := (env s)\<lparr>feed_speed := v\<rparr>\<rparr>"

definition append_command :: "command \<Rightarrow> rs274 \<Rightarrow> rs274" where
  "append_command c s = s\<lparr>commands := commands s @ [c]\<rparr>"

lemmas setter_defs = set_coordinate_mode_def set_motion_mode_def set_coordinate_index_def
  set_program_end_flag_def set_feed_speed_def append_command_def

section \<open>Building and appending a command\<close>

text \<open>
  The dictionary display of every method reads the call site (\<open>LineNumber\<close>, \<open>CommandStr\<close>)
  and raises when the source text is missing, before anything is appended.
\<close>

definition emit :: "caller \<Rightarrow> (string \<Rightarrow> command) \<Rightarrow> rs274 \<Rightarrow> rs_outcome" where
  "emit fr mk s =
     (case get_caller_code fr of
        Inl e \<Rightarrow> raise e s
      | Inr code \<Rightarrow> return_self (append_command (mk code) s))"

definition at_site :: "caller \<Rightarrow> string \<Rightarrow> command" where
  "at_site fr code =
     [(key_name K_LineNumber, VInt (get_caller_linenumber fr)), (key_name K_CommandStr, VStr code)]"

definition has_type :: "CommandType \<Rightarrow> string \<times> pyval" where
  "has_type t = (key_name K_CommandType, VStr (ct_name t))"

section \<open>The methods\<close>

definition assert_environment_valid :: "caller \<Rightarrow> rs274 \<Rightarrow> (pyexn, unit) result" where
  "assert_environment_valid fr s =
     (if coordinate_mode (env s) = CM_Undefined then Inl (iexn fr ''CoordinateMode Undefined '')
      else if motion_mode (env s) = MM_Undefined then Inl (iexn fr ''MotionMode Undefined '')
      else if int_of (coordinate_index (env s)) = -1 then Inl (iexn fr ''Coordinate Not Set '')
      else if num_lt0 (coordinate_index (env s))
      then Inl (iexn fr (''Coordinate Index ('' @ py_str (coordinate_index (env s)) @ '') not valid ''))
      else if num_lt0 (feed_speed (env s)) then Inl (iexn fr ''Feed Speed Not Set'')
      else Inr ())"

definition g90 :: "caller \<Rightarrow> rs274 \<Rightarrow> rs_outcome" where
  "g90 fr s =
     (if is_program_end s then return_self s
      else emit fr
        (\<lambda>code. [has_type CoordinateModeCommand,
                 (key_name K_CoordinateMode, VStr (cm_name AbsoluteMode))] @ at_site fr code)
        (set_coordinate_mode AbsoluteMode s))"

definition g91 :: "caller \<Rightarrow> rs274 \<Rightarrow> rs_outcome" where
  "g91 fr s =
     (if is_program_end s then return_self s
      else emit fr
        (\<lambda>code. [has_type CoordinateModeCommand,
                 (key_name K_CoordinateMode, VStr (cm_name IncrementMode))] @ at_site fr code)
        (set_coordinate_mode IncrementMode s))"

definition g04 :: "caller \<Rightarrow> pyval \<Rightarrow> rs274 \<Rightarrow> rs_outcome" where
  "g04 fr t s =
     (if is_program_end s then return_self s
      else if \<not> is_number t
      then raise (iexn fr (''Delay Time type invalid: '' @ type_str t @ '' '')) s
      else if num_lt0 t
      then raise (iexn fr (''Delay Time ('' @ py_str t @ '') Out of Range '')) s
      else emit fr
        (\<lambda>code. [has_type DelayCommand, (key_name K_DelayTime, t)] @ at_site fr code) s)"

definition e_set :: "caller \<Rightarrow> pyval \<Rightarrow> rs274 \<Rightarrow> rs_outcome" where
  "e_set fr index s =
     (if is_program_end s then return_self s
      else if \<not> is_int index
      then raise (iexn fr (''Eleparam Index type invalid: '' @ type_str index @ '' '')) s
      else if num_lt0 index \<or> 1000 \<le> int_of index
      then raise (iexn fr (''Eleparam Index ('' @ py_str index @ '') Out of Range '')) s
      else emit fr
        (\<lambda>code. [has_type EleparamSetCommand, (key_name K_EleparamIndex, index)] @ at_site fr code) s)"

definition command_set_coordinate_index :: "caller \<Rightarrow> pyval \<Rightarrow> rs274 \<Rightarrow> rs_outcome" where
  "command_set_coordinate_index fr index s =
     (if is_program_end s then return_self s
      else if \<not> is_int index
      then raise (iexn fr (''Coordinate Index Type invalid: '' @ type_str index @ '' '')) s
      else if num_lt0 index
      then raise (iexn fr (''Coordinate Index ('' @ py_str index @ '') < 0 '')) s
      else emit fr
        (\<lambda>code. [has_type CoordinateIndexCommand, (key_name K_CoordinateIndex, index)]
                @ at_site fr code)
        (set_coordinate_index index s))"

definition g53 :: "caller \<Rightarrow> rs274 \<Rightarrow> rs_outcome" where
  "g53 fr = command_set_coordinate_index fr (VInt 53)"
definition g54 :: "caller \<Rightarrow> rs274 \<Rightarrow> rs_outcome" where
  "g54 fr = command_set_coordinate_index fr (VInt 54)"
definition g55 :: "caller \<Rightarrow> rs274 \<Rightarrow> rs_outcome" where
  "g55 fr = command_set_coordinate_index fr (VInt 55)"
definition g56 :: "caller \<Rightarrow> rs274 \<Rightarrow> rs_outcome" where
  "g56 fr = command_set_coordinate_index fr (VInt 56)"
definition g57 :: "caller \<Rightarrow> rs274 \<Rightarrow> rs_outcome" where
  "g57 fr = command_set_coordinate_index fr (VInt 57)"
definition g58 :: "caller \<Rightarrow> rs274 \<Rightarrow> rs_outcome" where
  "g58 fr = command_set_coordinate_index fr (VInt 58)"
definition g59 :: "caller \<Rightarrow> rs274 \<Rightarrow> rs_outcome" where
  "g59 fr = command_set_coordinate_index fr (VInt 59)"
definition set_coord :: "caller \<Rightarrow> pyval \<Rightarrow> rs274 \<Rightarrow> rs_outcome" where
  "set_coord fr index = command_set_coordinate_index fr index"

text \<open>The checks of \<open>_coord_set_zero\<close>, axis by axis in the order of the code.\<close>

fun check_axis_flags :: "caller \<Rightarrow> (string \<times> pyval) list \<Rightarrow> (pyexn, unit) result" where
  "check_axis_flags fr [] = Inr ()"
| "check_axis_flags fr ((ax, v) # vs) =
     (if \<not> is_bool v then Inl (iexn fr (ax @ '' type invalid: '' @ type_str v @ '' ''))
      else check_axis_flags fr vs)"

definition axis_names :: "string list" where
  "axis_names = [''x'', ''y'', ''z'', ''b'', ''c'', ''a'']"

definition do_coord_set_zero :: "caller \<Rightarrow> coords \<Rightarrow> rs274 \<Rightarrow> rs_outcome" where
  "do_coord_set_zero fr flags s =
     (if is_program_end s then return_self s
      else case check_axis_flags fr (zip axis_names (coord_list flags)) of
             Inl e \<Rightarrow> raise e s
           | Inr _ \<Rightarrow>
               emit fr
                 (\<lambda>code. [has_type CoordSetZeroCommand,
                          (key_name K_SetZeroAxisList, VList (coord_list flags))] @ at_site fr code) s)"

definition no_axis :: coords where
  "no_axis = Coords (VBool False) (VBool False) (VBool False) (VBool False) (VBool False) (VBool False)"

definition coord_set_zero :: "caller \<Rightarrow> coords \<Rightarrow> rs274 \<Rightarrow> rs_outcome" where
  "coord_set_zero fr flags = do_coord_set_zero fr flags"
definition coord_set_x_zero :: "caller \<Rightarrow> rs274 \<Rightarrow> rs_outcome" where
  "coord_set_x_zero fr = do_coord_set_zero fr
     (Coords (VBool True) (VBool False) (VBool False) (VBool False) (VBool False) (VBool False))"
definition coord_set_y_zero :: "caller \<Rightarrow> rs274 \<Rightarrow> rs_outcome" where
  "coord_set_y_zero fr = do_coord_set_zero fr
     (Coords (VBool False) (VBool True) (VBool False) (VBool False) (VBool False) (VBool False))"
definition coord_set_z_zero :: "caller \<Rightarrow> rs274 \<Rightarrow> rs_outcome" where
  "coord_set_z_zero fr = do_coord_set_zero fr
     (Coords (VBool False) (VBool False) (VBool True) (VBool False) (VBool False) (VBool False))"
definition coord_set_b_zero :: "caller \<Rightarrow> rs274 \<Rightarrow> rs_outcome" where
  "coord_set_b_zero fr = do_coord_set_zero fr
     (Coords (VBool False) (VBool False) (VBool False) (VBool True) (VBool False) (VBool False))"
definition coord_set_c_zero :: "caller \<Rightarrow> rs274 \<Rightarrow> rs_outcome" where
  "coord_set_c_zero fr = do_coord_set_zero fr
     (Coords (VBool False) (VBool False) (VBool False) (VBool False) (VBool True) (VBool False))"
definition coord_set_a_zero :: "caller \<Rightarrow> rs274 \<Rightarrow> rs_outcome" where
  "coord_set_a_zero fr = do_coord_set_zero fr
     (Coords (VBool False) (VBool False) (VBool False) (VBool False) (VBool False) (VBool True))"
definition coord_set_all_zero :: "caller \<Rightarrow> rs274 \<Rightarrow> rs_outcome" where
  "coord_set_all_zero fr = do_coord_set_zero fr
     (Coords (VBool True) (VBool True) (VBool True) (VBool True) (VBool True) (VBool True))"

definition m02 :: "caller \<Rightarrow> rs274 \<Rightarrow> rs_outcome" where
  "m02 fr s =
     (if is_program_end s then return_self s
      else emit fr (\<lambda>code. has_type ProgramEndCommand # at_site fr code) (set_program_end_flag s))"

definition m00 :: "caller \<Rightarrow> rs274 \<Rightarrow> rs_outcome" where
  "m00 fr s =
     (if is_program_end s then return_self s
      else emit fr (\<lambda>code. has_type PauseCommand # at_site fr code) s)"

text \<open>\<open>_get_coordinate_dict\<close>: the six arguments in order, the first bad one raises.\<close>

definition coord_entry :: "caller \<Rightarrow> string \<times> pyval \<Rightarrow> (pyexn, pyval) result" where
  "coord_entry fr nv =
     (case nv of (ax, v) \<Rightarrow>
        if v \<noteq> VNone then
          if \<not> is_number v
          then Inl (iexn fr (''Coordinate Value Type Not Valid: '' @ ax @ '', '' @ type_str v @ '' ''))
          else Inr v
        else Inr VNone)"

definition get_coordinate_dict :: "caller \<Rightarrow> coords \<Rightarrow> (pyexn, pyval list) result" where
  "get_coordinate_dict fr cs = rmap (coord_entry fr) (zip axis_names (coord_list cs))"

text \<open>The options of \<open>g01\<close>: a list, every element a string.\<close>

fun check_options :: "caller \<Rightarrow> pyval list \<Rightarrow> (pyexn, unit) result" where
  "check_options fr [] = Inr ()"
| "check_options fr (v # vs) =
     (if \<not> is_str v
      then Inl (iexn fr (''Option: '' @ quoted (py_str v) @ '' Type Not Valid: '' @ type_str v @ '' ''))
      else check_options fr vs)"

definition check_options_arg :: "caller \<Rightarrow> pyval \<Rightarrow> (pyexn, unit) result" where
  "check_options_arg fr options =
     (case options of
        VList vs \<Rightarrow> check_options fr vs
      | _ \<Rightarrow> Inl (iexn fr (''Options Type Not Valid: '' @ type_str options @ '' '')))"

definition g01 :: "caller \<Rightarrow> coords \<Rightarrow> pyval \<Rightarrow> rs274 \<Rightarrow> rs_outcome" where
  "g01 fr cs options s =
     (if is_program_end s then return_self s
      else case check_options_arg fr options of
        Inl e \<Rightarrow> raise e s
      | Inr _ \<Rightarrow>
         (let s1 = set_motion_mode MM_G01 s in
          case assert_environment_valid fr s1 of
            Inl e \<Rightarrow> raise e s1
          | Inr _ \<Rightarrow>
             (case get_caller_code fr of
                Inl e \<Rightarrow> raise e s1
              | Inr code \<Rightarrow>
                 (case get_coordinate_dict fr cs of
                    Inl e \<Rightarrow> raise e s1
                  | Inr coordinates \<Rightarrow>
                      return_self (append_command
                        ([has_type G01MotionCommand,
                          (key_name K_CoordinateMode, VStr (cm_name (coordinate_mode (env s1)))),
                          (key_name K_MotionMode, VStr (mm_name (motion_mode (env s1)))),
                          (key_name K_CoordinateIndex, coordinate_index (env s1))]
                         @ at_site fr code
                         @ [(key_name K_Options, options),
                            (key_name K_Coordinates, VList coordinates)]) s1)))))"

definition g00 :: "caller \<Rightarrow> coords \<Rightarrow> pyval \<Rightarrow> pyval \<Rightarrow> rs274 \<Rightarrow> rs_outcome" where
  "g00 fr cs m05 touch s =
     (if is_program_end s then return_self s
      else
       (let s1 = set_motion_mode MM_G00 s in
        case assert_environment_valid fr s1 of
          Inl e \<Rightarrow> raise e s1
        | Inr _ \<Rightarrow>
           if \<not> is_bool m05
           then raise (iexn fr (''m05 Type Not Valid: '' @ type_str m05 @ '' '')) s1
           else if \<not> is_bool touch
           then raise (iexn fr (''touch Type Not Valid: '' @ type_str touch @ '' '')) s1
           else
            (let m05' = (if bool_of touch then VBool False else m05) in
             case get_caller_code fr of
               Inl e \<Rightarrow> raise e s1
             | Inr code \<Rightarrow>
                (case get_coordinate_dict fr cs of
                   Inl e \<Rightarrow> raise e s1
                 | Inr coordinates \<Rightarrow>
                     return_self (append_command
                       ([has_type G00MotionCommand,
                         (key_name K_CoordinateMode, VStr (cm_name (coordinate_mode (env s1)))),
                         (key_name K_MotionMode, VStr (mm_name (motion_mode (env s1)))),
                         (key_name K_CoordinateIndex, coordinate_index (env s1))]
                        @ at_site fr code
                        @ [(key_name K_M05IgnoreTouchDetect, m05'),
                           (key_name K_G00Touch, touch),
                           (key_name K_FeedSpeed, feed_speed (env s1)),
                           (key_name K_Coordinates, VList coordinates)]) s1)))))"

text \<open>
  The argument of \<open>g01_group\<close> is a \<open>Points\<close> object or, when the check must reject it,
  any other value.
\<close>

datatype points_arg = ArgPoints points | ArgOther pyval

definition group_point :: "point \<Rightarrow> pyval" where
  "group_point p = VDict
     [(key_name K_CoordinateMode, VStr (cm_name (pt_mode p))),
      (key_name K_Coordinates, VList (pt_coords p)),
      (key_name K_LineNumber, VInt (pt_line p)),
      (key_name K_CommandStr, VStr (pt_code p)),
      (key_name K_FeedSpeed, pt_feedrate p)]"

definition get_G01GroupPoints :: "points \<Rightarrow> pyval list" where
  "get_G01GroupPoints ps = map group_point (get_points ps)"

definition g01_group :: "caller \<Rightarrow> points_arg \<Rightarrow> rs274 \<Rightarrow> rs_outcome" where
  "g01_group fr arg s =
     (if is_program_end s then return_self s
      else case arg of
        ArgOther v \<Rightarrow> raise (iexn fr (''Points Type Not Valid: '' @ type_str v @ '' '')) s
      | ArgPoints ps \<Rightarrow>
         (let s1 = set_motion_mode MM_G01 s in
          case assert_environment_valid fr s1 of
            Inl e \<Rightarrow> raise e s1
          | Inr _ \<Rightarrow>
              emit fr
                (\<lambda>code. [has_type G01GroupMotionCommand,
                         (key_name K_CoordinateIndex, coordinate_index (env s1))]
                        @ at_site fr code
                        @ [(key_name K_G01GroupPoints, VList (get_G01GroupPoints ps))]) s1))"

definition f_set :: "caller \<Rightarrow> pyval \<Rightarrow> rs274 \<Rightarrow> rs_outcome" where
  "f_set fr speed s =
     (if is_program_end s then return_self s
      else if \<not> is_int speed
      then raise (iexn fr (''Feed Speed Type Not Valid: '' @ type_str speed @ '' '')) s
      else if num_le0 speed
      then raise (iexn fr (''Feed Speed Value ('' @ py_str speed @ '') Out of Range '')) s
      else emit fr
        (\<lambda>code. [has_type FeedSpeedSetCommand, (key_name K_FeedSpeed, speed)] @ at_site fr code)
        (set_feed_speed speed s))"

definition drill ::
  "caller \<Rightarrow> pyval \<Rightarrow> pyval \<Rightarrow> pyval \<Rightarrow> pyval \<Rightarrow> pyval \<Rightarrow> pyval \<Rightarrow> rs274 \<Rightarrow> rs_outcome" where
  "drill fr depth holdtime touch breakout back spindle_speed s =
     (if is_program_end s then return_self s
      else if \<not> is_number depth
      then raise (iexn fr (''Drill Depth Type Not Valid: '' @ type_str depth @ '' '')) s
      else if num_le0 depth
      then raise (iexn fr (''Drill Depth Value ('' @ py_str depth @ '') Out of Range '')) s
      else if \<not> is_int holdtime
      then raise (iexn fr (''Drill Holdtime Type Not Valid: '' @ type_str holdtime @ '' '')) s
      else if num_lt0 holdtime
      then raise (iexn fr (''Drill Holdtime Value ('' @ py_str holdtime @ '') Out of Range '')) s
      else if \<not> is_bool touch
      then raise (iexn fr (''Drill Touch Type Not Valid: '' @ type_str touch @ '' '')) s
      else if \<not> is_bool breakout
      then raise (iexn fr (''Drill Breakout Type Not Valid: '' @ type_str breakout @ '' '')) s
      else if \<not> is_bool back
      then raise (iexn fr (''Drill Back Type Not Valid: '' @ type_str back @ '' '')) s
      else if \<not> (is_number spindle_speed \<or> spindle_speed = VNone)
      then raise (iexn fr (''Drill Spindle Speed Type Not Valid: '' @ type_str spindle_speed @ '' '')) s
      else emit fr
        (\<lambda>code. [has_type DrillMotionCommand,
                 (key_name K_MotionMode, VStr (mm_name MM_DRILL)),
                 (key_name K_DrillDepth, depth),
                 (key_name K_DrillHoldTime, holdtime),
                 (key_name K_DrillTouch, touch),
                 (key_name K_DrillBreakout, breakout),
                 (key_name K_DrillBack, back),
                 (key_name K_DrillSpindleSpeed, spindle_speed)] @ at_site fr code) s)"

definition get_command_list :: "rs274 \<Rightarrow> command list" where
  "get_command_list s = commands s"

end
