(* ===== verification/Rs274_Run.thy ===== *)
theory Rs274_Run
  imports Rs274_Interp
begin

text \<open>
  A G-code script is a sequence of method calls on one interpreter object. This theory has
  the calls as a datatype, their dispatch to the methods of \<^verbatim>\<open>Rs274_Interp\<close>, the run of a
  script, and an abstract specification of the interpreter: a modal machine over optional
  settings that issues typed commands. The refinement lemma says that the methods implement
  it.
\<close>

section \<open>Calls and scripts\<close>

datatype call =
    C_g90 | C_g91 | C_g04 pyval | C_e pyval
  | C_g53 | C_g54 | C_g55 | C_g56 | C_g57 | C_g58 | C_g59 | C_set_coord pyval
  | C_coord_set_zero coords
  | C_coord_set_x_zero | C_coord_set_y_zero | C_coord_set_z_zero
  | C_coord_set_b_zero | C_coord_set_c_zero | C_coord_set_a_zero | C_coord_set_all_zero
  | C_m02 | C_m00
  | C_g01 coords pyval
  | C_g00 coords pyval pyval
  | C_g01_group points_arg
  | C_f pyval
  | C_drill pyval pyval pyval pyval pyval pyval

fun exec_call :: "caller \<Rightarrow> call \<Rightarrow> rs274 \<Rightarrow> rs_outcome" where
  "exec_call fr C_g90 = g90 fr"
| "exec_call fr C_g91 = g91 fr"
| "exec_call fr (C_g04 t) = g04 fr t"
| "exec_call fr (C_e i) = e_set fr i"
| "exec_call fr C_g53 = g53 fr"
| "exec_call fr C_g54 = g54 fr"
| "exec_call fr C_g55 = g55 fr"
| "exec_call fr C_g56 = g56 fr"
| "exec_call fr C_g57 = g57 fr"
| "exec_call fr C_g58 = g58 fr"
| "exec_call fr C_g59 = g59 fr"
| "exec_call fr (C_set_coord i) = set_coord fr i"
| "exec_call fr (C_coord_set_zero fl) = coord_set_zero fr fl"
| "exec_call fr C_coord_set_x_zero = coord_set_x_zero fr"
| "exec_call fr C_coord_set_y_zero = coord_set_y_zero fr"
| "exec_call fr C_coord_set_z_zero = coord_set_z_zero fr"
| "exec_call fr C_coord_set_b_zero = coord_set_b_zero fr"
| "exec_call fr C_coord_set_c_zero = coord_set_c_zero fr"
| "exec_call fr C_coord_set_a_zero = coord_set_a_zero fr"
| "exec_call fr C_coord_set_all_zero = coord_set_all_zero fr"
| "exec_call fr C_m02 = m02 fr"
| "exec_call fr C_m00 = m00 fr"
| "exec_call fr (C_g01 cs opts) = g01 fr cs opts"
| "exec_call fr (C_g00 cs m05 touch) = g00 fr cs m05 touch"
| "exec_call fr (C_g01_group arg) = g01_group fr arg"
| "exec_call fr (C_f v) = f_set fr v"
| "exec_call fr (C_drill d h t bo ba sp) = drill fr d h t bo ba sp"

text \<open>A script runs to its end or to the first exception.\<close>

type_synonym script = "(caller \<times> call) list"

fun run :: "script \<Rightarrow> rs274 \<Rightarrow> rs_outcome" where
  "run [] s = return_self s"
| "run ((fr, c) # cs) s =
     (case exec_call fr c s of
        (Inl e, s') \<Rightarrow> (Inl e, s')
      | (Inr _, s') \<Rightarrow> run cs s')"

lemmas method_defs = g90_def g91_def g04_def e_set_def g53_def g54_def g55_def g56_def g57_def
  g58_def g59_def set_coord_def command_set_coordinate_index_def coord_set_zero_def
  coord_set_x_zero_def coord_set_y_zero_def coord_set_z_zero_def coord_set_b_zero_def
  coord_set_c_zero_def coord_set_a_zero_def coord_set_all_zero_def do_coord_set_zero_def
  m02_def m00_def g01_def g00_def g01_group_def f_set_def drill_def

section \<open>The abstract machine\<close>

text \<open>
  The modal settings of RS-274: a setting is absent until a call makes it. The typed
  commands carry what the motion side needs.
\<close>

record modal =
  m_mode :: "CoordinateMode option"
  m_index :: "pyval option"
  m_feed :: "pyval option"
  m_ended :: bool

definition modal_init :: modal where
  "modal_init = \<lparr>m_mode = None, m_index = None, m_feed = None, m_ended = False\<rparr>"

datatype acmd =
    A_Mode CoordinateMode
  | A_Index pyval
  | A_Ele pyval
  | A_Feed pyval
  | A_Delay pyval
  | A_SetZero "pyval list"
  | A_Drill pyval pyval pyval pyval pyval pyval
  | A_G00 CoordinateMode pyval pyval bool bool "pyval list"
  | A_G01 CoordinateMode pyval pyval "pyval list"
  | A_Group pyval "point list"
  | A_Pause
  | A_End

definition coords_ok :: "coords \<Rightarrow> bool" where
  "coords_ok cs \<longleftrightarrow> list_all (\<lambda>v. v = VNone \<or> is_number v) (coord_list cs)"

definition options_ok :: "pyval \<Rightarrow> bool" where
  "options_ok v \<longleftrightarrow> (case v of VList vs \<Rightarrow> list_all is_str vs | _ \<Rightarrow> False)"

definition spec_index :: "pyval \<Rightarrow> modal \<Rightarrow> (modal \<times> acmd) option" where
  "spec_index i m =
     (if is_int i \<and> 0 \<le> int_of i then Some (m\<lparr>m_index := Some i\<rparr>, A_Index i) else None)"

definition spec_set_zero :: "coords \<Rightarrow> modal \<Rightarrow> (modal \<times> acmd) option" where
  "spec_set_zero fl m =
     (if list_all is_bool (coord_list fl) then Some (m, A_SetZero (coord_list fl)) else None)"

fun only_axis :: "nat \<Rightarrow> coords" where
  "only_axis k = Coords (VBool (k = 0)) (VBool (k = 1)) (VBool (k = 2)) (VBool (k = 3))
     (VBool (k = 4)) (VBool (k = 5))"

text \<open>
  One call of a program that has not ended: the new settings and the command issued, or
  \<open>None\<close> when the call is rejected.
\<close>

fun spec_step :: "call \<Rightarrow> modal \<Rightarrow> (modal \<times> acmd) option" where
  "spec_step C_g90 m = Some (m\<lparr>m_mode := Some AbsoluteMode\<rparr>, A_Mode AbsoluteMode)"
| "spec_step C_g91 m = Some (m\<lparr>m_mode := Some IncrementMode\<rparr>, A_Mode IncrementMode)"
| "spec_step (C_g04 t) m = (if is_number t \<and> \<not> num_lt0 t then Some (m, A_Delay t) else None)"
| "spec_step (C_e i) m =
     (if is_int i \<and> 0 \<le> int_of i \<and> int_of i < 1000 then Some (m, A_Ele i) else None)"
| "spec_step C_g53 m = spec_index (VInt 53) m"
| "spec_step C_g54 m = spec_index (VInt 54) m"
| "spec_step C_g55 m = spec_index (VInt 55) m"
| "spec_step C_g56 m = spec_index (VInt 56) m"
| "spec_step C_g57 m = spec_index (VInt 57) m"
| "spec_step C_g58 m = spec_index (VInt 58) m"
| "spec_step C_g59 m = spec_index (VInt 59) m"
| "spec_step (C_set_coord i) m = spec_index i m"
| "spec_step (C_coord_set_zero fl) m = spec_set_zero fl m"
| "spec_step C_coord_set_x_zero m = spec_set_zero (only_axis 0) m"
| "spec_step C_coord_set_y_zero m = spec_set_zero (only_axis 1) m"
| "spec_step C_coord_set_z_zero m = spec_set_zero (only_axis 2) m"
| "spec_step C_coord_set_b_zero m = spec_set_zero (only_axis 3) m"
| "spec_step C_coord_set_c_zero m = spec_set_zero (only_axis 4) m"
| "spec_step C_coord_set_a_zero m = spec_set_zero (only_axis 5) m"
| "spec_step C_coord_set_all_zero m = Some (m, A_SetZero (replicate 6 (VBool True)))"
| "spec_step C_m02 m = Some (m\<lparr>m_ended := True\<rparr>, A_End)"
| "spec_step C_m00 m = Some (m, A_Pause)"
| "spec_step (C_g01 cs opts) m =
     (case (m_mode m, m_index m, m_feed m) of
        (Some md, Some ix, Some _) \<Rightarrow>
          if options_ok opts \<and> coords_ok cs then Some (m, A_G01 md ix opts (coord_list cs)) else None
      | _ \<Rightarrow> None)"
| "spec_step (C_g00 cs m05 touch) m =
     (case (m_mode m, m_index m, m_feed m) of
        (Some md, Some ix, Some fd) \<Rightarrow>
          if is_bool m05 \<and> is_bool touch \<and> coords_ok cs
          then Some (m, A_G00 md ix fd (bool_of m05 \<and> \<not> bool_of touch) (bool_of touch) (coord_list cs))
          else None
      | _ \<Rightarrow> None)"
| "spec_step (C_g01_group arg) m =
     (case (arg, m_mode m, m_index m, m_feed m) of
        (ArgPoints ps, Some _, Some ix, Some _) \<Rightarrow> Some (m, A_Group ix (get_points ps))
      | _ \<Rightarrow> None)"
| "spec_step (C_f v) m =
     (if is_int v \<and> 0 < int_of v then Some (m\<lparr>m_feed := Some v\<rparr>, A_Feed v) else None)"
| "spec_step (C_drill d h t bo ba sp) m =
     (if is_number d \<and> \<not> num_le0 d \<and> is_int h \<and> 0 \<le> int_of h \<and> is_bool t \<and> is_bool bo
         \<and> is_bool ba \<and> (is_number sp \<or> sp = VNone)
      then Some (m, A_Drill d h t bo ba sp) else None)"

text \<open>The dictionary of a typed command issued at a call site.\<close>

fun acmd_type :: "acmd \<Rightarrow> CommandType" where
  "acmd_type (A_Mode _) = CoordinateModeCommand"
| "acmd_type (A_Index _) = CoordinateIndexCommand"
| "acmd_type (A_Ele _) = EleparamSetCommand"
| "acmd_type (A_Feed _) = FeedSpeedSetCommand"
| "acmd_type (A_Delay _) = DelayCommand"
| "acmd_type (A_SetZero _) = CoordSetZeroCommand"
| "acmd_type (A_Drill _ _ _ _ _ _) = DrillMotionCommand"
| "acmd_type (A_G00 _ _ _ _ _ _) = G00MotionCommand"
| "acmd_type (A_G01 _ _ _ _) = G01MotionCommand"
| "acmd_type (A_Group _ _) = G01GroupMotionCommand"
| "acmd_type A_Pause = PauseCommand"
| "acmd_type A_End = ProgramEndCommand"

fun acmd_pre :: "acmd \<Rightarrow> command" where
  "acmd_pre (A_Mode md) = [(key_name K_CoordinateMode, VStr (cm_name md))]"
| "acmd_pre (A_Index i) = [(key_name K_CoordinateIndex, i)]"
| "acmd_pre (A_Ele i) = [(key_name K_EleparamIndex, i)]"
| "acmd_pre (A_Feed v) = [(key_name K_FeedSpeed, v)]"
| "acmd_pre (A_Delay t) = [(key_name K_DelayTime, t)]"
| "acmd_pre (A_SetZero fl) = [(key_name K_SetZeroAxisList, VList fl)]"
| "acmd_pre (A_Drill d h t bo ba sp) =
     [(key_name K_MotionMode, VStr (mm_name MM_DRILL)), (key_name K_DrillDepth, d),
      (key_name K_DrillHoldTime, h), (key_name K_DrillTouch, t), (key_name K_DrillBreakout, bo),
      (key_name K_DrillBack, ba), (key_name K_DrillSpindleSpeed, sp)]"
| "acmd_pre (A_G00 md ix fd m05 touch cs) =
     [(key_name K_CoordinateMode, VStr (cm_name md)), (key_name K_MotionMode, VStr (mm_name MM_G00)),
      (key_name K_CoordinateIndex, ix)]"
| "acmd_pre (A_G01 md ix opts cs) =
     [(key_name K_CoordinateMode, VStr (cm_name md)), (key_name K_MotionMode, VStr (mm_name MM_G01)),
      (key_name K_CoordinateIndex, ix)]"
| "acmd_pre (A_Group ix ps) = [(key_name K_CoordinateIndex, ix)]"
| "acmd_pre A_Pause = []"
| "acmd_pre A_End = []"

fun acmd_post :: "acmd \<Rightarrow> command" where
  "acmd_post (A_G00 md ix fd m05 touch cs) =
     [(key_name K_M05IgnoreTouchDetect, VBool m05), (key_name K_G00Touch, VBool touch),
      (key_name K_FeedSpeed, fd), (key_name K_Coordinates, VList cs)]"
| "acmd_post (A_G01 md ix opts cs) =
     [(key_name K_Options, opts), (key_name K_Coordinates, VList cs)]"
| "acmd_post (A_Group ix ps) = [(key_name K_G01GroupPoints, VList (map group_point ps))]"
| "acmd_post _ = []"

definition encode :: "int \<Rightarrow> string \<Rightarrow> acmd \<Rightarrow> command" where
  "encode line code a =
     has_type (acmd_type a) # acmd_pre a
     @ [(key_name K_LineNumber, VInt line), (key_name K_CommandStr, VStr code)] @ acmd_post a"

section \<open>Refinement\<close>

text \<open>The concrete settings use \<open>Undefined\<close> and \<open>-1\<close> for an absent setting.\<close>

definition abs_index :: "pyval \<Rightarrow> pyval option" where
  "abs_index v = (if v = VInt (-1) then None else Some v)"

definition abs_modal :: "environment \<Rightarrow> modal" where
  "abs_modal e =
     \<lparr>m_mode = (if coordinate_mode e = CM_Undefined then None else Some (coordinate_mode e)),
      m_index = abs_index (coordinate_index e), m_feed = abs_index (feed_speed e),
      m_ended = program_end_flag e\<rparr>"

definition wf_env :: "environment \<Rightarrow> bool" where
  "wf_env e \<longleftrightarrow>
     is_int (coordinate_index e) \<and> (coordinate_index e = VInt (-1) \<or> 0 \<le> int_of (coordinate_index e))
     \<and> is_int (feed_speed e) \<and> (feed_speed e = VInt (-1) \<or> 0 < int_of (feed_speed e))"

lemma wf_env_init: "wf_env Environment_init"
  by (simp add: wf_env_def Environment_init_def)

lemma abs_modal_init: "abs_modal Environment_init = modal_init"
  by (simp add: abs_modal_def Environment_init_def modal_init_def abs_index_def)

lemma init_simps [simp]:
  "env RS274Interpreter_init = Environment_init" "commands RS274Interpreter_init = []"
  "\<not> is_program_end RS274Interpreter_init" "wf_env Environment_init"
  "abs_modal Environment_init = modal_init"
  by (simp_all add: RS274Interpreter_init_def is_program_end_def wf_env_init abs_modal_init)
    (simp add: Environment_init_def)

subsection \<open>The checks of the methods\<close>

text \<open>
  Every check either passes or raises at the call site: \<open>site_exn\<close> collects the exceptions
  built from the call site of a frame.
\<close>

definition site_exn :: "caller \<Rightarrow> pyexn \<Rightarrow> bool" where
  "site_exn fr e \<longleftrightarrow> (\<exists>pre. e = iexn fr pre)"

lemma site_exnI [simp, intro]: "site_exn fr (iexn fr pre)"
  by (auto simp: site_exn_def)

lemma wf_env_index: "wf_env e \<Longrightarrow> int_of (coordinate_index e) = -1 \<longleftrightarrow> coordinate_index e = VInt (-1)"
  by (auto simp: wf_env_def)

lemma assert_environment_valid_cases:
  assumes "wf_env (env s)" "motion_mode (env s) \<noteq> MM_Undefined"
  shows "assert_environment_valid fr s = Inr u \<longleftrightarrow>
    m_mode (abs_modal (env s)) \<noteq> None \<and> m_index (abs_modal (env s)) \<noteq> None
    \<and> m_feed (abs_modal (env s)) \<noteq> None"
  using assms wf_env_index [OF assms(1)]
  by (auto simp: assert_environment_valid_def abs_modal_def abs_index_def wf_env_def num_lt0_int)

lemma assert_environment_valid_Inl: "assert_environment_valid fr s = Inl e \<Longrightarrow> site_exn fr e"
  by (auto simp: assert_environment_valid_def split: if_splits)

lemma check_axis_flags_Inr: "check_axis_flags fr nvs = Inr u \<longleftrightarrow> list_all (is_bool \<circ> snd) nvs"
  by (induction fr nvs rule: check_axis_flags.induct) auto

lemma check_axis_flags_Inl: "check_axis_flags fr nvs = Inl e \<Longrightarrow> site_exn fr e"
  by (induction fr nvs rule: check_axis_flags.induct) (auto split: if_splits)

lemma check_options_Inr: "check_options fr vs = Inr u \<longleftrightarrow> list_all is_str vs"
  by (induction vs) auto

lemma check_options_Inl: "check_options fr vs = Inl e \<Longrightarrow> site_exn fr e"
  by (induction vs) (auto split: if_splits)

lemma check_options_arg_Inr: "check_options_arg fr v = Inr u \<longleftrightarrow> options_ok v"
  by (cases v) (auto simp: check_options_arg_def options_ok_def check_options_Inr)

lemma check_options_arg_Inl: "check_options_arg fr v = Inl e \<Longrightarrow> site_exn fr e"
  by (cases v) (auto simp: check_options_arg_def dest: check_options_Inl)

lemma coord_entry_Inr: "coord_entry fr nv = Inr v \<longleftrightarrow> v = snd nv \<and> (v = VNone \<or> is_number v)"
  by (auto simp: coord_entry_def split: prod.splits)

lemma coord_entry_Inl: "coord_entry fr nv = Inl e \<Longrightarrow> site_exn fr e"
  by (auto simp: coord_entry_def split: prod.splits if_splits)

lemma rmap_coord_entry_Inr:
  "rmap (coord_entry fr) nvs = Inr vs \<longleftrightarrow>
     vs = map snd nvs \<and> list_all (\<lambda>nv. snd nv = VNone \<or> is_number (snd nv)) nvs"
  by (induction nvs arbitrary: vs) (auto simp: rbind_Inr_iff coord_entry_Inr)

lemma rmap_coord_entry_Inl: "rmap (coord_entry fr) nvs = Inl e \<Longrightarrow> site_exn fr e"
proof (induction nvs)
  case (Cons nv nvs)
  then show ?case
    by (cases "coord_entry fr nv"; cases "rmap (coord_entry fr) nvs") (auto dest: coord_entry_Inl)
qed simp

lemma map_snd_axes [simp]: "map snd (zip axis_names (coord_list cs)) = coord_list cs"
  by (cases cs) (simp add: axis_names_def)

lemma list_all_axes: "list_all (P \<circ> snd) (zip axis_names (coord_list cs)) \<longleftrightarrow> list_all P (coord_list cs)"
  by (cases cs) (simp add: axis_names_def)

lemma get_coordinate_dict_Inr:
  "get_coordinate_dict fr cs = Inr vs \<longleftrightarrow> vs = coord_list cs \<and> coords_ok cs"
  using list_all_axes [of "\<lambda>v. v = VNone \<or> is_number v" cs]
  by (auto simp: get_coordinate_dict_def rmap_coord_entry_Inr coords_ok_def comp_def)

lemma get_coordinate_dict_Inl: "get_coordinate_dict fr cs = Inl e \<Longrightarrow> site_exn fr e"
  by (auto simp: get_coordinate_dict_def dest: rmap_coord_entry_Inl)

lemmas check_Inl = assert_environment_valid_Inl check_axis_flags_Inl check_options_arg_Inl
  get_coordinate_dict_Inl

subsection \<open>One call\<close>

text \<open>
  What a call of the specification promises of the method: on a rejected call an exception
  that names the call site, the settings and the command list as before; on an accepted
  one the new settings and exactly one more command.
\<close>

definition implements ::
  "caller \<Rightarrow> rs274 \<Rightarrow> (modal \<times> acmd) option \<Rightarrow> rs_outcome \<Rightarrow> bool" where
  "implements fr s sp r \<longleftrightarrow>
     wf_env (env (snd r)) \<and>
     (case sp of
        None \<Rightarrow> (\<exists>e. fst r = Inl e \<and> site_exn fr e)
                 \<and> abs_modal (env (snd r)) = abs_modal (env s) \<and> commands (snd r) = commands s
      | Some (m', a) \<Rightarrow> fst r = Inr RetSelf \<and> abs_modal (env (snd r)) = m'
                 \<and> commands (snd r) = commands s @ [encode (lineno fr) (caller_code fr) a])"

lemma implements_raise:
  assumes "sp = None" "site_exn fr e" "wf_env (env s')" "abs_modal (env s') = abs_modal (env s)"
    "commands s' = commands s"
  shows "implements fr s sp (raise e s')"
  using assms by (auto simp: implements_def)

lemma implements_emit:
  assumes "has_source fr" "sp = Some (abs_modal (env s'), a)" "wf_env (env s')"
    "commands s' = commands s" "mk (caller_code fr) = encode (lineno fr) (caller_code fr) a"
  shows "implements fr s sp (emit fr mk s')"
  using assms by (auto simp: implements_def emit_def get_caller_code_source append_command_def)

lemma implements_append:
  assumes "sp = Some (abs_modal (env s'), a)" "wf_env (env s')" "commands s' = commands s"
    "c = encode (lineno fr) (caller_code fr) a"
  shows "implements fr s sp (return_self (append_command c s'))"
  using assms by (auto simp: implements_def append_command_def)

text \<open>Facts about the settings that the method proofs share.\<close>

lemma abs_modal_simps [simp]:
  "m_ended (abs_modal e) = program_end_flag e"
  "abs_modal (e\<lparr>motion_mode := mm\<rparr>) = abs_modal e"
  "abs_modal (e\<lparr>program_end_flag := b\<rparr>) = (abs_modal e)\<lparr>m_ended := b\<rparr>"
  "cm \<noteq> CM_Undefined \<Longrightarrow> abs_modal (e\<lparr>coordinate_mode := cm\<rparr>) = (abs_modal e)\<lparr>m_mode := Some cm\<rparr>"
  by (simp_all add: abs_modal_def)

lemma abs_modal_index:
  "0 \<le> int_of v \<Longrightarrow> abs_modal (e\<lparr>coordinate_index := v\<rparr>) = (abs_modal e)\<lparr>m_index := Some v\<rparr>"
  by (auto simp: abs_modal_def abs_index_def)

lemma abs_modal_feed:
  "0 < int_of v \<Longrightarrow> abs_modal (e\<lparr>feed_speed := v\<rparr>) = (abs_modal e)\<lparr>m_feed := Some v\<rparr>"
  by (auto simp: abs_modal_def abs_index_def)

lemma wf_env_simps [simp]:
  "wf_env (e\<lparr>motion_mode := mm\<rparr>) = wf_env e"
  "wf_env (e\<lparr>program_end_flag := b\<rparr>) = wf_env e"
  "wf_env (e\<lparr>coordinate_mode := cm\<rparr>) = wf_env e"
  by (simp_all add: wf_env_def)

lemma wf_env_index_upd:
  "wf_env e \<Longrightarrow> is_int v \<Longrightarrow> 0 \<le> int_of v \<Longrightarrow> wf_env (e\<lparr>coordinate_index := v\<rparr>)"
  by (simp add: wf_env_def)

lemma wf_env_feed_upd:
  "wf_env e \<Longrightarrow> is_int v \<Longrightarrow> 0 < int_of v \<Longrightarrow> wf_env (e\<lparr>feed_speed := v\<rparr>)"
  by (simp add: wf_env_def)

lemmas encode_simps = encode_def at_site_def get_caller_linenumber_def

lemma index_implements:
  assumes "wf_env (env s)" "\<not> is_program_end s" "has_source fr"
  shows "implements fr s (spec_index i (abs_modal (env s))) (command_set_coordinate_index fr i s)"
proof (cases "is_int i \<and> 0 \<le> int_of i")
  case True
  then show ?thesis
    using assms unfolding command_set_coordinate_index_def
    by (auto simp: spec_index_def num_lt0_int set_coordinate_index_def abs_modal_index
        wf_env_index_upd encode_simps intro!: implements_emit)
next
  case False
  then show ?thesis
    using assms unfolding command_set_coordinate_index_def
    by (auto simp: spec_index_def num_lt0_int intro!: implements_raise)
qed

lemma set_zero_implements:
  assumes "wf_env (env s)" "\<not> is_program_end s" "has_source fr"
  shows "implements fr s (spec_set_zero fl (abs_modal (env s))) (do_coord_set_zero fr fl s)"
proof (cases "check_axis_flags fr (zip axis_names (coord_list fl))")
  case (Inl e)
  then have "\<not> list_all is_bool (coord_list fl)"
    using check_axis_flags_Inr [of fr "zip axis_names (coord_list fl)"] list_all_axes by auto
  then show ?thesis
    using assms Inl by (auto simp: do_coord_set_zero_def spec_set_zero_def
        intro!: implements_raise dest: check_axis_flags_Inl)
next
  case (Inr u)
  then have "list_all is_bool (coord_list fl)"
    by (simp add: check_axis_flags_Inr list_all_axes)
  then show ?thesis
    using assms Inr by (auto simp: do_coord_set_zero_def spec_set_zero_def encode_simps
        intro!: implements_emit)
qed

text \<open>The three motion methods share the check of the settings after the motion mode is set.\<close>

definition motion_ready :: "modal \<Rightarrow> bool" where
  "motion_ready m \<longleftrightarrow> m_mode m \<noteq> None \<and> m_index m \<noteq> None \<and> m_feed m \<noteq> None"

lemma assert_after_motion:
  assumes "wf_env (env s)" "mm \<noteq> MM_Undefined"
  shows "assert_environment_valid fr (set_motion_mode mm s) = Inr u \<longleftrightarrow> motion_ready (abs_modal (env s))"
  using assert_environment_valid_cases [of "set_motion_mode mm s" fr u] assms
  by (simp add: set_motion_mode_def motion_ready_def)

lemma motion_ready_values:
  assumes "motion_ready (abs_modal e)"
  shows "m_mode (abs_modal e) = Some (coordinate_mode e)"
    "m_index (abs_modal e) = Some (coordinate_index e)"
    "m_feed (abs_modal e) = Some (feed_speed e)"
  using assms by (auto simp: motion_ready_def abs_modal_def abs_index_def split: if_splits)

lemma not_ready_step:
  assumes "\<not> motion_ready m"
  shows "spec_step (C_g00 cs m05 touch) m = None" "spec_step (C_g01 cs opts) m = None"
    "spec_step (C_g01_group arg) m = None"
  using assms by (auto simp: motion_ready_def split: option.splits points_arg.splits)

lemma g00_implements:
  assumes wf: "wf_env (env s)" and ne: "\<not> is_program_end s" and src: "has_source fr"
  shows "implements fr s (spec_step (C_g00 cs m05 touch) (abs_modal (env s))) (g00 fr cs m05 touch s)"
proof (cases "assert_environment_valid fr (set_motion_mode MM_G00 s)")
  case (Inl e)
  then have "\<not> motion_ready (abs_modal (env s))"
    using assert_after_motion [OF wf, of MM_G00 fr] by auto
  with Inl show ?thesis
    using wf ne unfolding not_ready_step(1) [OF \<open>\<not> motion_ready _\<close>] g00_def
    by (auto simp: Let_def set_motion_mode_def intro!: implements_raise
        dest: assert_environment_valid_Inl)
next
  case (Inr u)
  then have "motion_ready (abs_modal (env s))"
    using assert_after_motion [OF wf, of MM_G00 fr u] by simp
  note [simp] = motion_ready_values [OF this]
  show ?thesis
  proof (cases "is_bool m05 \<and> is_bool touch \<and> coords_ok cs")
    case True
    then have "get_coordinate_dict fr cs = Inr (coord_list cs)"
      by (simp add: get_coordinate_dict_Inr)
    with True Inr show ?thesis
      using wf ne get_caller_code_source [OF src]
      by (auto simp: g00_def Let_def set_motion_mode_def encode_simps is_bool_conv
          intro!: implements_append)
  next
    case False
    with Inr show ?thesis
      using wf ne get_caller_code_source [OF src]
      by (cases "get_coordinate_dict fr cs")
        (auto simp: g00_def Let_def set_motion_mode_def get_coordinate_dict_Inr
          intro!: implements_raise dest: get_coordinate_dict_Inl)
  qed
qed

lemma g01_implements:
  assumes wf: "wf_env (env s)" and ne: "\<not> is_program_end s" and src: "has_source fr"
  shows "implements fr s (spec_step (C_g01 cs opts) (abs_modal (env s))) (g01 fr cs opts s)"
proof (cases "check_options_arg fr opts")
  case (Inl e)
  then have "\<not> options_ok opts"
    using check_options_arg_Inr [of fr opts] by auto
  with Inl show ?thesis
    using wf ne by (auto simp: g01_def split: option.splits intro!: implements_raise
        dest: check_options_arg_Inl)
next
  case opts: (Inr u)
  then have ok: "options_ok opts" by (simp add: check_options_arg_Inr)
  show ?thesis
  proof (cases "assert_environment_valid fr (set_motion_mode MM_G01 s)")
    case (Inl e)
    then have "\<not> motion_ready (abs_modal (env s))"
      using assert_after_motion [OF wf, of MM_G01 fr] by auto
    with Inl opts show ?thesis
      using wf ne unfolding not_ready_step(2) [OF \<open>\<not> motion_ready _\<close>] g01_def
      by (auto simp: Let_def set_motion_mode_def intro!: implements_raise
          dest: assert_environment_valid_Inl)
  next
    case (Inr u')
    then have "motion_ready (abs_modal (env s))"
      using assert_after_motion [OF wf, of MM_G01 fr u'] by simp
    note [simp] = motion_ready_values [OF this]
    show ?thesis
    proof (cases "coords_ok cs")
      case True
      then have "get_coordinate_dict fr cs = Inr (coord_list cs)"
        by (simp add: get_coordinate_dict_Inr)
      with True show ?thesis
        using opts ok Inr wf ne get_caller_code_source [OF src]
        by (auto simp: g01_def Let_def set_motion_mode_def encode_simps intro!: implements_append)
    next
      case False
      then obtain e where "get_coordinate_dict fr cs = Inl e"
        by (cases "get_coordinate_dict fr cs") (auto simp: get_coordinate_dict_Inr)
      with False show ?thesis
        using opts ok Inr wf ne get_caller_code_source [OF src]
        by (auto simp: g01_def Let_def set_motion_mode_def
            intro!: implements_raise dest: get_coordinate_dict_Inl)
    qed
  qed
qed

lemma g01_group_implements:
  assumes wf: "wf_env (env s)" and ne: "\<not> is_program_end s" and src: "has_source fr"
  shows "implements fr s (spec_step (C_g01_group arg) (abs_modal (env s))) (g01_group fr arg s)"
proof (cases arg)
  case (ArgOther v)
  then show ?thesis
    using wf ne by (auto simp: g01_group_def intro!: implements_raise)
next
  case (ArgPoints ps)
  show ?thesis
  proof (cases "assert_environment_valid fr (set_motion_mode MM_G01 s)")
    case (Inl e)
    then have "\<not> motion_ready (abs_modal (env s))"
      using assert_after_motion [OF wf, of MM_G01 fr] by auto
    with Inl ArgPoints show ?thesis
      using wf ne unfolding not_ready_step(3) [OF \<open>\<not> motion_ready _\<close>] g01_group_def
      by (auto simp: Let_def set_motion_mode_def intro!: implements_raise
          dest: assert_environment_valid_Inl)
  next
    case (Inr u')
    then have "motion_ready (abs_modal (env s))"
      using assert_after_motion [OF wf, of MM_G01 fr u'] by simp
    note [simp] = motion_ready_values [OF this]
    show ?thesis
      using Inr ArgPoints wf ne src
      by (auto simp: g01_group_def Let_def set_motion_mode_def encode_simps get_G01GroupPoints_def
          intro!: implements_emit)
  qed
qed

lemma drill_implements:
  assumes "wf_env (env s)" "\<not> is_program_end s" "has_source fr"
  shows "implements fr s (spec_step (C_drill d h t bo ba sp) (abs_modal (env s)))
    (drill fr d h t bo ba sp s)"
proof (cases "is_number d \<and> \<not> num_le0 d \<and> is_int h \<and> 0 \<le> int_of h \<and> is_bool t \<and> is_bool bo
         \<and> is_bool ba \<and> (is_number sp \<or> sp = VNone)")
  case True
  with assms show ?thesis
    by (auto simp: drill_def num_lt0_int encode_simps intro!: implements_emit)
next
  case False
  then have none: "spec_step (C_drill d h t bo ba sp) (abs_modal (env s)) = None"
    by (simp only: spec_step.simps if_False)
  from False assms show ?thesis
    unfolding none drill_def
    by (simp add: implements_raise num_lt0_int split: if_split) linarith
qed

lemma simple_implements:
  assumes "wf_env (env s)" "\<not> is_program_end s" "has_source fr"
  shows "implements fr s (spec_step C_g90 (abs_modal (env s))) (g90 fr s)"
    "implements fr s (spec_step C_g91 (abs_modal (env s))) (g91 fr s)"
    "implements fr s (spec_step (C_g04 v) (abs_modal (env s))) (g04 fr v s)"
    "implements fr s (spec_step (C_e v) (abs_modal (env s))) (e_set fr v s)"
    "implements fr s (spec_step (C_f v) (abs_modal (env s))) (f_set fr v s)"
    "implements fr s (spec_step C_m02 (abs_modal (env s))) (m02 fr s)"
    "implements fr s (spec_step C_m00 (abs_modal (env s))) (m00 fr s)"
proof -
  show "implements fr s (spec_step C_g90 (abs_modal (env s))) (g90 fr s)"
    "implements fr s (spec_step C_g91 (abs_modal (env s))) (g91 fr s)"
    using assms by (auto simp: g90_def g91_def set_coordinate_mode_def encode_simps
        intro!: implements_emit)
  show "implements fr s (spec_step (C_g04 v) (abs_modal (env s))) (g04 fr v s)"
    using assms by (auto simp: g04_def encode_simps intro!: implements_emit implements_raise)
  show "implements fr s (spec_step (C_e v) (abs_modal (env s))) (e_set fr v s)"
    using assms by (auto simp: e_set_def num_lt0_int encode_simps
        intro!: implements_emit implements_raise)
  show "implements fr s (spec_step (C_f v) (abs_modal (env s))) (f_set fr v s)"
    using assms by (auto simp: f_set_def num_le0_int set_feed_speed_def abs_modal_feed
        wf_env_feed_upd encode_simps intro!: implements_emit implements_raise)
  show "implements fr s (spec_step C_m02 (abs_modal (env s))) (m02 fr s)"
    "implements fr s (spec_step C_m00 (abs_modal (env s))) (m00 fr s)"
    using assms by (auto simp: m02_def m00_def set_program_end_flag_def encode_simps
        intro!: implements_emit)
qed

lemma exec_call_implements:
  assumes "wf_env (env s)" "\<not> is_program_end s" "has_source fr"
  shows "implements fr s (spec_step c (abs_modal (env s))) (exec_call fr c s)"
proof -
  note idx = index_implements [OF assms]
  note zero = set_zero_implements [OF assms]
  have all: "spec_step C_coord_set_all_zero m = spec_set_zero (coords.Coords (VBool True) (VBool True)
      (VBool True) (VBool True) (VBool True) (VBool True)) m" for m
    by (simp add: spec_set_zero_def numeral_eq_Suc)
  show ?thesis
  proof (cases c)
    case C_coord_set_all_zero
    then show ?thesis
      using zero [of "coords.Coords (VBool True) (VBool True) (VBool True) (VBool True)
        (VBool True) (VBool True)"]
      unfolding C_coord_set_all_zero all by (simp add: coord_set_all_zero_def)
  next
    case (C_g00 cs m05 touch)
    then show ?thesis using g00_implements [OF assms] by (simp del: spec_step.simps)
  next
    case (C_g01 cs opts)
    then show ?thesis using g01_implements [OF assms] by (simp del: spec_step.simps)
  next
    case (C_g01_group arg)
    then show ?thesis using g01_group_implements [OF assms] by (simp del: spec_step.simps)
  next
    case (C_drill d h t bo ba sp)
    then show ?thesis using drill_implements [OF assms] by (simp del: spec_step.simps)
  next
    case C_g90
    then show ?thesis using simple_implements [OF assms] by (simp del: spec_step.simps)
  next
    case C_g91
    then show ?thesis using simple_implements [OF assms] by (simp del: spec_step.simps)
  next
    case (C_g04 v)
    then show ?thesis using simple_implements(3) [OF assms] by (simp del: spec_step.simps)
  next
    case (C_e v)
    then show ?thesis using simple_implements(4) [OF assms] by (simp del: spec_step.simps)
  next
    case (C_f v)
    then show ?thesis using simple_implements(5) [OF assms] by (simp del: spec_step.simps)
  next
    case C_m02
    then show ?thesis using simple_implements [OF assms] by (simp del: spec_step.simps)
  next
    case C_m00
    then show ?thesis using simple_implements [OF assms] by (simp del: spec_step.simps)
  qed (simp_all add: idx zero set_coord_def g53_def g54_def g55_def g56_def g57_def g58_def
      g59_def coord_set_zero_def coord_set_x_zero_def coord_set_y_zero_def coord_set_z_zero_def
      coord_set_b_zero_def coord_set_c_zero_def coord_set_a_zero_def
      zero [of "only_axis _", simplified])
qed

end
