(* ===== verification/Rs274_Correct.thy ===== *)
theory Rs274_Correct
  imports Rs274_Run
begin

text \<open>
  Correctness of the interpreter over whole scripts: the interpreter keeps the contract of
  \<^verbatim>\<open>Call_Contract\<close>, a run refines the run of the abstract machine, every issued command has
  the schema of its type and every motion command agrees with the settings in force where
  it was issued.
\<close>

section \<open>The interpreter keeps the contract\<close>

text \<open>Calls after the end, and calls from a frame without source text.\<close>

lemma exec_call_ended: "is_program_end s \<Longrightarrow> exec_call fr c s = return_self s"
  by (cases c) (simp_all add: method_defs)

lemma emit_no_source: "\<not> has_source fr \<Longrightarrow> \<exists>e. emit fr mk s = raise e s"
  by (auto simp: emit_def get_caller_code_def has_source_def)

lemma no_source_code: "\<not> has_source fr \<Longrightarrow> \<exists>e. get_caller_code fr = Inl e"
  by (auto simp: get_caller_code_def has_source_def)

text \<open>
  A run without an exception of an unknown settings record: the log after a call, whatever
  the state.
\<close>

definition log_step :: "rs274 \<Rightarrow> rs_outcome \<Rightarrow> bool" where
  "log_step s r \<longleftrightarrow>
     (case fst r of
        Inl _ \<Rightarrow> commands (snd r) = commands s
      | Inr _ \<Rightarrow> \<exists>k. commands (snd r) = commands s @ [k])"

lemma log_step_raise [simp]: "log_step s (raise e s') \<longleftrightarrow> commands s' = commands s"
  by (simp add: log_step_def)

lemma log_step_append [simp]:
  "commands s' = commands s \<Longrightarrow> log_step s (return_self (append_command c s'))"
  by (simp add: log_step_def append_command_def)

lemma log_step_emit [simp]: "commands s' = commands s \<Longrightarrow> log_step s (emit fr mk s')"
  by (auto simp: emit_def split: sum.splits)

lemma commands_setters [simp]:
  "commands (set_coordinate_mode m s) = commands s" "commands (set_motion_mode mm s) = commands s"
  "commands (set_coordinate_index v s) = commands s" "commands (set_program_end_flag s) = commands s"
  "commands (set_feed_speed v s) = commands s"
  by (simp_all add: setter_defs)

lemma exec_call_log: "\<not> is_program_end s \<Longrightarrow> log_step s (exec_call fr c s)"
  by (cases c) (auto simp: method_defs Let_def split: sum.splits points_arg.splits)

interpretation rs: ending_sequence exec_call run commands is_program_end
proof unfold_locales
  show "run [] s = return_self s" for s by simp
  show "run ((fr, c) # cs) s =
      (case exec_call fr c s of (Inl e, s') \<Rightarrow> (Inl e, s') | (Inr _, s') \<Rightarrow> run cs s')" for fr c cs s
    by simp
  show "commands (snd (exec_call fr c s)) = commands s" if "fst (exec_call fr c s) = Inl e" for fr c s e
    using exec_call_log [of s fr c] exec_call_ended [of s fr c] that
    by (cases "is_program_end s") (auto simp: log_step_def)
  show "commands (snd (exec_call fr c s)) = commands s
      \<or> (\<exists>k. commands (snd (exec_call fr c s)) = commands s @ [k])"
    if "fst (exec_call fr c s) = Inr r" for fr c s r
    using exec_call_log [of s fr c] exec_call_ended [of s fr c] that
    by (cases "is_program_end s") (auto simp: log_step_def)
  show "exec_call fr c s = return_self s" if "is_program_end s" for s fr c
    using that by (rule exec_call_ended)
  show "length (commands (snd (exec_call fr c s))) = Suc (length (commands s))"
    if "\<not> is_program_end s" "fst (exec_call fr c s) = Inr r" for s fr c r
    using exec_call_log [OF that(1), of fr c] that(2) by (auto simp: log_step_def)
qed

section \<open>Runs refine the abstract machine\<close>

text \<open>
  The run of the specification: the typed commands with their call sites and the settings
  at the end, or \<open>None\<close> when a call is rejected.
\<close>

fun spec_run :: "script \<Rightarrow> modal \<Rightarrow> ((caller \<times> acmd) list \<times> modal) option" where
  "spec_run [] m = Some ([], m)"
| "spec_run ((fr, c) # cs) m =
     (if m_ended m then spec_run cs m
      else case spec_step c m of
             None \<Rightarrow> None
           | Some (m', a) \<Rightarrow>
               (case spec_run cs m' of
                  None \<Rightarrow> None
                | Some (as, m'') \<Rightarrow> Some ((fr, a) # as, m'')))"

definition encode_at :: "caller \<times> acmd \<Rightarrow> command" where
  "encode_at fa = (case fa of (fr, a) \<Rightarrow> encode (lineno fr) (caller_code fr) a)"

lemma run_implements_spec:
  assumes "wf_env (env s)" "list_all (has_source \<circ> fst) cs"
  shows "case spec_run cs (abs_modal (env s)) of
      None \<Rightarrow> \<exists>e fr c s'. run cs s = (Inl e, s') \<and> (fr, c) \<in> set cs \<and> site_exn fr e
    | Some (as, m') \<Rightarrow> \<exists>s'. run cs s = return_self s' \<and> abs_modal (env s') = m'
        \<and> commands s' = commands s @ map encode_at as"
  using assms
proof (induction cs arbitrary: s)
  case Nil
  then show ?case by simp
next
  case (Cons x cs)
  obtain fr c where x: "x = (fr, c)" by (cases x)
  show ?case
  proof (cases "is_program_end s")
    case True
    then have "run (x # cs) s = run cs s" "m_ended (abs_modal (env s))"
      using exec_call_ended [OF True] by (simp_all add: x return_self_def is_program_end_def)
    then show ?thesis
      using Cons.IH [OF Cons.prems(1)] Cons.prems(2) unfolding x
      by (auto split: option.splits)
  next
    case False
    obtain r s1 where st: "exec_call fr c s = (r, s1)" by (cases "exec_call fr c s")
    have impl: "implements fr s (spec_step c (abs_modal (env s))) (r, s1)"
      using exec_call_implements [OF Cons.prems(1) False, of fr c] Cons.prems(2) st by (simp add: x)
    then have wf1: "wf_env (env s1)" by (simp add: implements_def)
    show ?thesis
    proof (cases "spec_step c (abs_modal (env s))")
      case None
      then show ?thesis
        using impl False st by (fastforce simp: x implements_def is_program_end_def)
    next
      case (Some ma)
      obtain m' a where ma: "ma = (m', a)" by (cases ma)
      from impl Some ma have r: "r = Inr RetSelf" and m': "abs_modal (env s1) = m'"
        and c1: "commands s1 = commands s @ [encode (lineno fr) (caller_code fr) a]"
        by (auto simp: implements_def)
      have run: "run (x # cs) s = run cs s1" using st r by (simp add: x)
      show ?thesis
        using Cons.IH [OF wf1] Cons.prems(2) Some ma m' c1 run False
        by (auto simp: x encode_at_def is_program_end_def split: option.splits)
    qed
  qed
qed

lemma run_of_spec:
  assumes "spec_run cs modal_init = Some (as, m)" "list_all (has_source \<circ> fst) cs"
  obtains s' where "run cs RS274Interpreter_init = return_self s'" "abs_modal (env s') = m"
    "commands s' = map encode_at as" "is_program_end s' \<longleftrightarrow> m_ended m"
proof -
  obtain s' where s': "run cs RS274Interpreter_init = return_self s'" "abs_modal (env s') = m"
    "commands s' = map encode_at as"
    using run_implements_spec [of RS274Interpreter_init cs] assms by auto
  then have "is_program_end s' \<longleftrightarrow> m_ended m"
    using abs_modal_simps(1) [of "env s'"] by (simp add: is_program_end_def)
  with s' show ?thesis by (rule that)
qed

section \<open>Looking into a command\<close>

definition cmd_get :: "command \<Rightarrow> CommandDictKey \<Rightarrow> pyval option" where
  "cmd_get c k = map_of c (key_name k)"

definition cmd_is :: "CommandType \<Rightarrow> command \<Rightarrow> bool" where
  "cmd_is t c \<longleftrightarrow> cmd_get c K_CommandType = Some (VStr (ct_name t))"

lemma cmd_is_encode [simp]: "cmd_is t (encode line code a) \<longleftrightarrow> t = acmd_type a"
  by (auto simp: cmd_is_def cmd_get_def encode_def has_type_def)

text \<open>The value the latest command of a type set.\<close>

definition last_set :: "CommandType \<Rightarrow> CommandDictKey \<Rightarrow> command list \<Rightarrow> pyval option" where
  "last_set t k cs = find_last (\<lambda>c. if cmd_is t c then cmd_get c k else None) cs"

text \<open>
  A motion command agrees with the commands before it: it carries the mode, the coordinate
  system and (for \<open>g00\<close>) the feed speed that were set last.
\<close>

definition motion_agrees :: "command list \<Rightarrow> command \<Rightarrow> bool" where
  "motion_agrees prev c \<longleftrightarrow>
     (cmd_is G00MotionCommand c \<or> cmd_is G01MotionCommand c \<longrightarrow>
        cmd_get c K_CoordinateMode \<noteq> None \<and>
        cmd_get c K_CoordinateMode = last_set CoordinateModeCommand K_CoordinateMode prev)
     \<and> (cmd_is G00MotionCommand c \<or> cmd_is G01MotionCommand c \<or> cmd_is G01GroupMotionCommand c \<longrightarrow>
        cmd_get c K_CoordinateIndex \<noteq> None \<and>
        cmd_get c K_CoordinateIndex = last_set CoordinateIndexCommand K_CoordinateIndex prev)
     \<and> (cmd_is G00MotionCommand c \<longrightarrow>
        cmd_get c K_FeedSpeed \<noteq> None \<and>
        cmd_get c K_FeedSpeed = last_set FeedSpeedSetCommand K_FeedSpeed prev)"

definition history_ok :: "command list \<Rightarrow> bool" where
  "history_ok cs \<longleftrightarrow> list_all (\<lambda>n. motion_agrees (take n cs) (cs ! n)) [0..<length cs]"

lemma history_ok_Nil [simp]: "history_ok []"
  by (simp add: history_ok_def)

lemma history_ok_snoc [simp]: "history_ok (cs @ [c]) \<longleftrightarrow> history_ok cs \<and> motion_agrees cs c"
  by (auto simp: history_ok_def list_all_iff nth_append)

text \<open>The settings of the interpreter are those the issued commands set.\<close>

definition settings_agree :: "modal \<Rightarrow> command list \<Rightarrow> bool" where
  "settings_agree m cs \<longleftrightarrow>
     last_set CoordinateModeCommand K_CoordinateMode cs = map_option (VStr \<circ> cm_name) (m_mode m)
     \<and> m_index m = last_set CoordinateIndexCommand K_CoordinateIndex cs
     \<and> m_feed m = last_set FeedSpeedSetCommand K_FeedSpeed cs"

lemma last_set_snoc:
  "last_set t k (cs @ [c]) =
     (if cmd_is t c \<and> cmd_get c k \<noteq> None then cmd_get c k else last_set t k cs)"
  by (auto simp: last_set_def split: option.splits)

lemma cmd_get_encode:
  "cmd_get (encode line code a) k =
     map_of ((key_name K_CommandType, VStr (ct_name (acmd_type a))) # acmd_pre a
       @ [(key_name K_LineNumber, VInt line), (key_name K_CommandStr, VStr code)] @ acmd_post a)
       (key_name k)"
  by (simp add: cmd_get_def encode_def has_type_def)

text \<open>Which settings a typed command changes, and which it was issued under.\<close>

fun new_mode :: "acmd \<Rightarrow> CoordinateMode option" where
  "new_mode (A_Mode md) = Some md"
| "new_mode _ = None"

fun new_index :: "acmd \<Rightarrow> pyval option" where
  "new_index (A_Index i) = Some i"
| "new_index _ = None"

fun new_feed :: "acmd \<Rightarrow> pyval option" where
  "new_feed (A_Feed v) = Some v"
| "new_feed _ = None"

fun issued_under :: "modal \<Rightarrow> acmd \<Rightarrow> bool" where
  "issued_under m (A_G00 md ix fd _ _ _) \<longleftrightarrow> m_mode m = Some md \<and> m_index m = Some ix \<and> m_feed m = Some fd"
| "issued_under m (A_G01 md ix _ _) \<longleftrightarrow> m_mode m = Some md \<and> m_index m = Some ix"
| "issued_under m (A_Group ix _) \<longleftrightarrow> m_index m = Some ix"
| "issued_under m _ \<longleftrightarrow> True"

definition override :: "'a option \<Rightarrow> 'a option \<Rightarrow> 'a option" where
  "override new old = (case new of Some v \<Rightarrow> Some v | None \<Rightarrow> old)"

lemma override_simps [simp]: "override None x = x" "override (Some v) x = Some v"
  by (simp_all add: override_def)

lemma spec_step_settings:
  assumes "spec_step c m = Some (m', a)"
  shows "m_mode m' = override (new_mode a) (m_mode m)" "m_index m' = override (new_index a) (m_index m)"
    "m_feed m' = override (new_feed a) (m_feed m)" "issued_under m a"
    "m_ended m' \<longleftrightarrow> m_ended m \<or> a = A_End"
  using assms
  by (cases c; auto simp: spec_index_def spec_set_zero_def split: if_splits option.splits points_arg.splits)+

lemma last_set_encode:
  "last_set CoordinateModeCommand K_CoordinateMode (cs @ [encode line code a]) =
     override (map_option (VStr \<circ> cm_name) (new_mode a)) (last_set CoordinateModeCommand K_CoordinateMode cs)"
  "last_set CoordinateIndexCommand K_CoordinateIndex (cs @ [encode line code a]) =
     override (new_index a) (last_set CoordinateIndexCommand K_CoordinateIndex cs)"
  "last_set FeedSpeedSetCommand K_FeedSpeed (cs @ [encode line code a]) =
     override (new_feed a) (last_set FeedSpeedSetCommand K_FeedSpeed cs)"
  by (cases a; simp add: last_set_snoc cmd_get_encode)+

lemma motion_agrees_encode:
  assumes "settings_agree m cs" "issued_under m a"
  shows "motion_agrees cs (encode line code a)"
  using assms by (cases a) (auto simp: settings_agree_def motion_agrees_def cmd_get_encode)

lemma spec_step_agree:
  assumes "spec_step c m = Some (m', a)" "settings_agree m cs"
  shows "settings_agree m' (cs @ [encode line code a])"
    and "motion_agrees cs (encode line code a)"
proof -
  show "settings_agree m' (cs @ [encode line code a])"
    using spec_step_settings [OF assms(1)] assms(2)
    by (cases "new_mode a") (simp_all add: settings_agree_def last_set_encode)
  show "motion_agrees cs (encode line code a)"
    using assms(2) spec_step_settings(4) [OF assms(1)] by (rule motion_agrees_encode)
qed

lemma exec_call_no_source:
  assumes "\<not> has_source fr" "\<not> is_program_end s"
  shows "\<exists>e. fst (exec_call fr c s) = Inl e"
proof -
  obtain e where e: "get_caller_code fr = Inl e" using no_source_code [OF assms(1)] by blast
  show ?thesis
    using assms(2) e by (cases c) (auto simp: method_defs Let_def emit_def split: sum.splits points_arg.splits)
qed

text \<open>
  The shape of every invariant proof about a run: a relation between the settings and the
  command list that each accepted call of the specification keeps gives a property of the
  list after any run, also one that ended in an exception.
\<close>

definition modal_wf :: "modal \<Rightarrow> bool" where
  "modal_wf m \<longleftrightarrow> m_mode m \<noteq> Some CM_Undefined
     \<and> pred_option (\<lambda>v. is_int v \<and> 0 \<le> int_of v) (m_index m)
     \<and> pred_option (\<lambda>v. is_int v \<and> 0 < int_of v) (m_feed m)"

lemma modal_wf_abs: "wf_env e \<Longrightarrow> modal_wf (abs_modal e)"
  by (auto simp: modal_wf_def wf_env_def abs_modal_def abs_index_def)

lemma run_invariant:
  assumes wf: "wf_env (env s)" and start: "I (abs_modal (env s)) (commands s)"
    and step: "\<And>fr c m m' a cmds. (fr, c) \<in> set cs \<Longrightarrow> modal_wf m \<Longrightarrow> \<not> m_ended m \<Longrightarrow> I m cmds \<Longrightarrow>
      spec_step c m = Some (m', a) \<Longrightarrow> I m' (cmds @ [encode (lineno fr) (caller_code fr) a])"
    and post: "\<And>m cmds. I m cmds \<Longrightarrow> J cmds"
  shows "J (commands (snd (run cs s)))"
  using wf start step
proof (induction cs arbitrary: s)
  case Nil
  then show ?case using post by auto
next
  case (Cons x cs)
  obtain fr c where x: "x = (fr, c)" by (cases x)
  obtain r s1 where st: "exec_call fr c s = (r, s1)" by (cases "exec_call fr c s")
  have IH: "J (commands (snd (run cs t)))" if "wf_env (env t)" "I (abs_modal (env t)) (commands t)" for t
    by (rule Cons.IH [OF that]) (rule Cons.prems(3), auto)
  consider (ended) "is_program_end s" | (nosrc) "\<not> is_program_end s" "\<not> has_source fr"
    | (src) "\<not> is_program_end s" "has_source fr" by blast
  then show ?case
  proof cases
    case ended
    then have "run (x # cs) s = run cs s"
      using exec_call_ended [OF ended] by (simp add: x return_self_def)
    with IH [OF Cons.prems(1,2)] show ?thesis by simp
  next
    case nosrc
    then obtain e where "r = Inl e" using exec_call_no_source [of fr s c] st by auto
    then show ?thesis
      using rs.step_err [of fr c s e] st post [OF Cons.prems(2)] by (simp add: x)
  next
    case src
    have impl: "implements fr s (spec_step c (abs_modal (env s))) (r, s1)"
      using exec_call_implements [OF Cons.prems(1) src, of c] st by simp
    show ?thesis
    proof (cases "spec_step c (abs_modal (env s))")
      case None
      then show ?thesis using impl st post [OF Cons.prems(2)] by (auto simp: x implements_def)
    next
      case (Some ma)
      obtain m' a where ma: "ma = (m', a)" by (cases ma)
      have "I m' (commands s @ [encode (lineno fr) (caller_code fr) a])"
        using Cons.prems(3) [OF _ modal_wf_abs [OF Cons.prems(1)] _ Cons.prems(2) Some [unfolded ma]] src(1)
        by (simp add: x is_program_end_def)
      then have "J (commands (snd (run cs s1)))"
        using impl Some ma by (intro IH) (auto simp: implements_def)
      with impl Some ma st show ?thesis by (auto simp: x implements_def)
    qed
  qed
qed

lemma settings_agree_init: "settings_agree modal_init []"
  by (simp add: settings_agree_def modal_init_def last_set_def)

lemma run_history: "history_ok (commands (snd (run cs RS274Interpreter_init)))"
proof (rule run_invariant [where I = "\<lambda>m cmds. settings_agree m cmds \<and> history_ok cmds"])
  show "settings_agree (abs_modal (env RS274Interpreter_init)) (commands RS274Interpreter_init)
      \<and> history_ok (commands RS274Interpreter_init)"
    using settings_agree_init by simp
qed (auto simp: spec_step_agree)

section \<open>The schema of the issued commands\<close>

text \<open>The keys of a command of each type, in the order of the dictionary.\<close>

fun shape :: "CommandType \<Rightarrow> CommandDictKey list" where
  "shape CT_Undefined = []"
| "shape G00MotionCommand = [K_CommandType, K_CoordinateMode, K_MotionMode, K_CoordinateIndex,
     K_LineNumber, K_CommandStr, K_M05IgnoreTouchDetect, K_G00Touch, K_FeedSpeed, K_Coordinates]"
| "shape G01MotionCommand = [K_CommandType, K_CoordinateMode, K_MotionMode, K_CoordinateIndex,
     K_LineNumber, K_CommandStr, K_Options, K_Coordinates]"
| "shape CoordinateModeCommand = [K_CommandType, K_CoordinateMode, K_LineNumber, K_CommandStr]"
| "shape CoordinateIndexCommand = [K_CommandType, K_CoordinateIndex, K_LineNumber, K_CommandStr]"
| "shape EleparamSetCommand = [K_CommandType, K_EleparamIndex, K_LineNumber, K_CommandStr]"
| "shape FeedSpeedSetCommand = [K_CommandType, K_FeedSpeed, K_LineNumber, K_CommandStr]"
| "shape DelayCommand = [K_CommandType, K_DelayTime, K_LineNumber, K_CommandStr]"
| "shape CoordSetZeroCommand = [K_CommandType, K_SetZeroAxisList, K_LineNumber, K_CommandStr]"
| "shape DrillMotionCommand = [K_CommandType, K_MotionMode, K_DrillDepth, K_DrillHoldTime,
     K_DrillTouch, K_DrillBreakout, K_DrillBack, K_DrillSpindleSpeed, K_LineNumber, K_CommandStr]"
| "shape G01GroupMotionCommand = [K_CommandType, K_CoordinateIndex, K_LineNumber, K_CommandStr,
     K_G01GroupPoints]"
| "shape PauseCommand = [K_CommandType, K_LineNumber, K_CommandStr]"
| "shape ProgramEndCommand = [K_CommandType, K_LineNumber, K_CommandStr]"

definition list_val :: "(pyval list \<Rightarrow> bool) \<Rightarrow> pyval \<Rightarrow> bool" where
  "list_val P v \<longleftrightarrow> (case v of VList vs \<Rightarrow> P vs | _ \<Rightarrow> False)"

definition six_coords :: "pyval list \<Rightarrow> bool" where
  "six_coords vs \<longleftrightarrow> length vs = 6 \<and> list_all (\<lambda>v. v = VNone \<or> is_number v) vs"

definition mode_name_ok :: "pyval \<Rightarrow> bool" where
  "mode_name_ok v \<longleftrightarrow> v \<in> {VStr (cm_name AbsoluteMode), VStr (cm_name IncrementMode)}"

text \<open>The keys of a point of a \<open>g01_group\<close> and the values allowed for them.\<close>

definition point_shape :: "CommandDictKey list" where
  "point_shape = [K_CoordinateMode, K_Coordinates, K_LineNumber, K_CommandStr, K_FeedSpeed]"

fun point_value_ok :: "CommandDictKey \<Rightarrow> pyval \<Rightarrow> bool" where
  "point_value_ok K_CoordinateMode v \<longleftrightarrow> mode_name_ok v"
| "point_value_ok K_Coordinates v \<longleftrightarrow> list_val six_coords v"
| "point_value_ok K_LineNumber v \<longleftrightarrow> is_int v"
| "point_value_ok K_CommandStr v \<longleftrightarrow> is_str v"
| "point_value_ok K_FeedSpeed v \<longleftrightarrow> is_int v"
| "point_value_ok _ v \<longleftrightarrow> False"

definition group_point_ok :: "pyval \<Rightarrow> bool" where
  "group_point_ok v \<longleftrightarrow>
     (case v of
        VDict kvs \<Rightarrow> map fst kvs = map key_name point_shape
          \<and> list_all2 point_value_ok point_shape (map snd kvs)
      | _ \<Rightarrow> False)"

fun value_ok :: "CommandType \<Rightarrow> CommandDictKey \<Rightarrow> pyval \<Rightarrow> bool" where
  "value_ok t K_CommandType v \<longleftrightarrow> v = VStr (ct_name t)"
| "value_ok t K_CoordinateMode v \<longleftrightarrow> mode_name_ok v"
| "value_ok t K_CoordinateIndex v \<longleftrightarrow> is_int v \<and> 0 \<le> int_of v"
| "value_ok t K_MotionMode v \<longleftrightarrow>
     v \<in> {VStr (mm_name MM_G00), VStr (mm_name MM_G01), VStr (mm_name MM_DRILL)}"
| "value_ok t K_Coordinates v \<longleftrightarrow> list_val six_coords v"
| "value_ok t K_LineNumber v \<longleftrightarrow> is_int v"
| "value_ok t K_EleparamIndex v \<longleftrightarrow> is_int v \<and> 0 \<le> int_of v \<and> int_of v < 1000"
| "value_ok t K_FeedSpeed v \<longleftrightarrow> is_int v \<and> 0 < int_of v"
| "value_ok t K_DelayTime v \<longleftrightarrow> is_number v \<and> \<not> num_lt0 v"
| "value_ok t K_M05IgnoreTouchDetect v \<longleftrightarrow> is_bool v"
| "value_ok t K_G00Touch v \<longleftrightarrow> is_bool v"
| "value_ok t K_SetZeroAxisList v \<longleftrightarrow> list_val (\<lambda>vs. length vs = 6 \<and> list_all is_bool vs) v"
| "value_ok t K_DrillDepth v \<longleftrightarrow> is_number v \<and> \<not> num_le0 v"
| "value_ok t K_DrillHoldTime v \<longleftrightarrow> is_int v \<and> 0 \<le> int_of v"
| "value_ok t K_DrillTouch v \<longleftrightarrow> is_bool v"
| "value_ok t K_DrillBreakout v \<longleftrightarrow> is_bool v"
| "value_ok t K_DrillBack v \<longleftrightarrow> is_bool v"
| "value_ok t K_DrillSpindleSpeed v \<longleftrightarrow> is_number v \<or> v = VNone"
| "value_ok t K_G01GroupPoints v \<longleftrightarrow> list_val (list_all group_point_ok) v"
| "value_ok t K_CommandStr v \<longleftrightarrow> is_str v"
| "value_ok t K_Options v \<longleftrightarrow> list_val (list_all is_str) v"
| "value_ok t K_Undefined v \<longleftrightarrow> False"

definition has_shape :: "CommandType \<Rightarrow> command \<Rightarrow> bool" where
  "has_shape t c \<longleftrightarrow> map fst c = map key_name (shape t) \<and> list_all2 (value_ok t) (shape t) (map snd c)"

text \<open>
  A well-formed command has the shape of a defined type, and a touch move never ignores the
  touch detection.
\<close>

definition command_ok :: "command \<Rightarrow> bool" where
  "command_ok c \<longleftrightarrow> list_ex (\<lambda>t. t \<noteq> CT_Undefined \<and> has_shape t c) ct_members
     \<and> (cmd_get c K_G00Touch = Some (VBool True) \<longrightarrow> cmd_get c K_M05IgnoreTouchDetect = Some (VBool False))"

definition group_args_ok :: "script \<Rightarrow> bool" where
  "group_args_ok cs \<longleftrightarrow>
     list_all (\<lambda>(fr, c). case c of C_g01_group (ArgPoints ps) \<Rightarrow> wf_points ps | _ \<Rightarrow> True) cs"

lemma command_okI:
  assumes "t \<noteq> CT_Undefined" "has_shape t c"
    "cmd_get c K_G00Touch = Some (VBool True) \<Longrightarrow> cmd_get c K_M05IgnoreTouchDetect = Some (VBool False)"
  shows "command_ok c"
  using assms ct.all_members [of t] by (auto simp: command_ok_def list_ex_iff)

lemma group_point_ok: "wf_point p \<Longrightarrow> group_point_ok (group_point p)"
  by (cases "pt_mode p")
    (auto simp: wf_point_def group_point_ok_def group_point_def point_shape_def mode_name_ok_def list_val_def
      six_coords_def)

lemma mode_name_okI: "md \<noteq> CM_Undefined \<Longrightarrow> mode_name_ok (VStr (cm_name md))"
  by (cases md) (auto simp: mode_name_ok_def)

lemma spec_step_has_shape:
  assumes "spec_step c m = Some (m', a)" "modal_wf m"
    "\<And>ps. c = C_g01_group (ArgPoints ps) \<Longrightarrow> wf_points ps"
  shows "has_shape (acmd_type a) (encode line code a)"
proof (cases c)
  case (C_g01_group arg)
  then show ?thesis
    using assms
    by (auto simp: has_shape_def encode_def has_type_def modal_wf_def list_val_def get_points_def
        wf_points_def list_all_iff group_point_ok split: option.splits points_arg.splits)
next
  case (C_g00 cs m05 touch)
  then show ?thesis
    using assms
    by (auto simp: has_shape_def encode_def has_type_def modal_wf_def list_val_def six_coords_def
        coords_ok_def mode_name_okI split: option.splits if_splits)
next
  case (C_g01 cs opts)
  then show ?thesis
    using assms
    by (auto simp: has_shape_def encode_def has_type_def modal_wf_def list_val_def six_coords_def
        coords_ok_def options_ok_def mode_name_okI split: option.splits if_splits pyval.splits)
qed (use assms in \<open>auto simp: has_shape_def encode_def has_type_def list_val_def spec_index_def
  spec_set_zero_def mode_name_okI list_all_iff split: if_splits\<close>)

lemma spec_step_command_ok:
  assumes "spec_step c m = Some (m', a)" "modal_wf m"
    "\<And>ps. c = C_g01_group (ArgPoints ps) \<Longrightarrow> wf_points ps"
  shows "command_ok (encode line code a)"
proof (rule command_okI [OF _ spec_step_has_shape [OF assms]])
  show "acmd_type a \<noteq> CT_Undefined" by (cases a) auto
  show "cmd_get (encode line code a) K_M05IgnoreTouchDetect = Some (VBool False)"
    if "cmd_get (encode line code a) K_G00Touch = Some (VBool True)"
    using assms(1) that
    by (cases c) (auto simp: cmd_get_encode spec_index_def spec_set_zero_def
        split: if_splits option.splits points_arg.splits)
qed

lemma run_schema:
  assumes "group_args_ok cs"
  shows "list_all command_ok (commands (snd (run cs RS274Interpreter_init)))"
proof (rule run_invariant [where I = "\<lambda>m cmds. list_all command_ok cmds"])
  show "list_all command_ok (cmds @ [encode (lineno fr) (caller_code fr) a])"
    if "(fr, c) \<in> set cs" "modal_wf m" "list_all command_ok cmds" "spec_step c m = Some (m', a)"
    for fr c m m' a cmds
  proof -
    have "wf_points ps" if "c = C_g01_group (ArgPoints ps)" for ps
      using assms \<open>(fr, c) \<in> set cs\<close> that by (auto simp: group_args_ok_def list_all_iff)
    then show ?thesis using that spec_step_command_ok [OF that(4,2)] by simp
  qed
qed simp_all

section \<open>The end of the program\<close>

definition end_last :: "command list \<Rightarrow> bool" where
  "end_last cmds \<longleftrightarrow> list_all (\<lambda>c. \<not> cmd_is ProgramEndCommand c) (butlast cmds)"

definition ends_program :: "command list \<Rightarrow> bool" where
  "ends_program cmds \<longleftrightarrow> cmds \<noteq> [] \<and> cmd_is ProgramEndCommand (last cmds)"

lemma end_last_snoc:
  "end_last cmds \<Longrightarrow> \<not> ends_program cmds \<Longrightarrow> end_last (cmds @ [c])"
  by (cases cmds rule: rev_cases) (auto simp: end_last_def ends_program_def butlast_append)

lemma ends_program_snoc: "ends_program (cmds @ [encode line code a]) \<longleftrightarrow> a = A_End"
  by (cases a) (auto simp: ends_program_def)

lemma run_end_last: "end_last (commands (snd (run cs RS274Interpreter_init)))"
proof (rule run_invariant [where I = "\<lambda>m cmds. end_last cmds \<and> (ends_program cmds \<longrightarrow> m_ended m)"])
  show "end_last (cmds @ [encode (lineno fr) (caller_code fr) a])
      \<and> (ends_program (cmds @ [encode (lineno fr) (caller_code fr) a]) \<longrightarrow> m_ended m')"
    if "\<not> m_ended m" "end_last cmds \<and> (ends_program cmds \<longrightarrow> m_ended m)" "spec_step c m = Some (m', a)"
    for fr c m m' a cmds
    using that spec_step_settings(5) [OF that(3)] by (auto simp: end_last_snoc ends_program_snoc)
qed (simp_all add: end_last_def ends_program_def)

section \<open>Properties of the interpreter\<close>

text \<open>A script of five calls, as an input for the properties below.\<close>

definition site :: "int \<Rightarrow> string \<Rightarrow> caller" where
  "site n code = \<lparr>lineno = n, code_context = Some (code @ [newline])\<rparr>"

definition demo_script :: script where
  "demo_script =
     [(site 3 ''i.g54()'', C_g54), (site 4 ''i.g90()'', C_g90), (site 5 ''i.f(100)'', C_f (VInt 100)),
      (site 6 ''i.g00(z=5, touch=True)'',
        C_g00 (Coords VNone VNone (VInt 5) VNone VNone VNone) (VBool False) (VBool True)),
      (site 7 ''i.m02()'', C_m02)]"

definition demo_acmds :: "acmd list" where
  "demo_acmds = [A_Index (VInt 54), A_Mode AbsoluteMode, A_Feed (VInt 100),
     A_G00 AbsoluteMode (VInt 54) (VInt 100) False True [VNone, VNone, VInt 5, VNone, VNone, VNone],
     A_End]"

definition demo_modal :: modal where
  "demo_modal = \<lparr>m_mode = Some AbsoluteMode, m_index = Some (VInt 54), m_feed = Some (VInt 100),
     m_ended = False\<rparr>"

lemma demo_spec:
  "spec_run demo_script modal_init =
     Some (zip (map fst demo_script) demo_acmds, demo_modal\<lparr>m_ended := True\<rparr>)"
  by (simp add: demo_script_def demo_acmds_def demo_modal_def spec_index_def modal_init_def coords_ok_def)

lemma site_simps [simp]: "has_source (site n code)" "lineno (site n code) = n"
  "caller_code (site n code) = code"
  by (simp_all add: site_def has_source_def caller_code_def)

text \<open>C3: run on a fresh interpreter, a script behaves as the abstract modal machine says. If
  the machine accepts every call, the run succeeds, its settings are the machine's and its
  command list is the encoding, in order, of the machine's typed commands with the line and
  the text of each call; if the machine rejects a call, the run raises an exception that
  names the line and the text of a call of the script.\<close>

theorem run_refines_modal_machine:
  assumes "list_all (\<lambda>(fr, c). has_source fr) cs"
  shows "case spec_run cs modal_init of
      None \<Rightarrow> \<exists>e fr c s'. run cs RS274Interpreter_init = (Inl e, s') \<and> (fr, c) \<in> set cs \<and> site_exn fr e
    | Some (as, m) \<Rightarrow> \<exists>s'. run cs RS274Interpreter_init = return_self s' \<and> abs_modal (env s') = m
        \<and> get_command_list s' = map encode_at as"
proof -
  have "list_all (has_source \<circ> fst) cs"
    using assms by (auto simp: list_all_iff)
  then show ?thesis
    using run_implements_spec [of RS274Interpreter_init cs]
    by (auto simp: get_command_list_def split: option.splits)
qed

theorem run_refines_modal_machine_witness:
  "list_all (\<lambda>(fr, c). has_source fr) demo_script \<and>
   (\<exists>s'. run demo_script RS274Interpreter_init = return_self s'
     \<and> map (\<lambda>c. cmd_get c K_LineNumber) (get_command_list s') =
         [Some (VInt 3), Some (VInt 4), Some (VInt 5), Some (VInt 6), Some (VInt 7)]
     \<and> cmd_get (get_command_list s' ! 3) K_M05IgnoreTouchDetect = Some (VBool False))"
proof -
  have src: "list_all (\<lambda>(fr, c). has_source fr) demo_script"
    by (simp add: demo_script_def)
  show ?thesis
    using src run_refines_modal_machine [OF src]
    by (auto simp: demo_script_def spec_index_def modal_init_def coords_ok_def encode_at_def cmd_get_encode)
qed



text \<open>Every motion command in the list of any script carries the settings in force where
  it stands: the coordinate mode of \<open>g00\<close> and \<open>g01\<close>, the coordinate system of every motion
  and the feed speed of \<open>g00\<close> are present and are those of the latest mode, coordinate and
  feed command before it, no matter whether the script ended in an exception.\<close>

theorem motion_carries_settings_in_force:
  "history_ok (get_command_list (snd (run cs RS274Interpreter_init)))"
  by (simp add: get_command_list_def run_history)

text \<open>C31: every command in the list of any script has the keys of its type, in the order of the
  dictionary, with values of the right type and range: coordinate indices are not negative,
  feed speeds of \<open>g00\<close> positive, electrical parameter indices below 1000, delays not
  negative, drill depths positive, six coordinates; and a touch move never ignores the touch
  detection.\<close>

theorem commands_well_formed:
  assumes "group_args_ok cs"
  shows "list_all command_ok (get_command_list (snd (run cs RS274Interpreter_init)))"
  using run_schema [OF assms] by (simp add: get_command_list_def)

theorem commands_well_formed_witness:
  "group_args_ok demo_script \<and>
   list_all command_ok (get_command_list (snd (run demo_script RS274Interpreter_init)))"
proof -
  have "group_args_ok demo_script" by (simp add: group_args_ok_def demo_script_def)
  with commands_well_formed [OF this] show ?thesis by simp
qed

text \<open>After \<open>m02\<close> the interpreter ignores the rest of the script: every sequence of calls,
  also of calls with bad arguments, succeeds and changes nothing.\<close>

theorem program_end_absorbs:
  assumes "is_program_end s"
  shows "run cs s = return_self s"
  using assms by (rule rs.runs_ended)

theorem program_end_absorbs_witness:
  "is_program_end (snd (run demo_script RS274Interpreter_init)) \<and>
   run [(site 9 ''i.e(-1)'', C_e (VInt (-1)))] (snd (run demo_script RS274Interpreter_init)) =
     return_self (snd (run demo_script RS274Interpreter_init))"
proof -
  have "is_program_end (snd (run demo_script RS274Interpreter_init))"
    using demo_spec by (rule run_of_spec) (simp_all add: demo_script_def)
  with program_end_absorbs [OF this] show ?thesis by simp
qed

text \<open>a script that succeeds without having ended has issued exactly one command per call,
  and no run ever removes or changes a command issued before.\<close>

theorem one_command_per_call:
  assumes "run cs s = return_self s'" "\<not> is_program_end s'"
  shows "length (commands s') = length (commands s) + length cs \<and> prefix (commands s) (commands s')"
  using rs.runs_one_each [OF assms] rs.runs_prefix [of s cs] assms(1) by simp

theorem one_command_per_call_witness:
  "\<exists>s'. run (take 4 demo_script) RS274Interpreter_init = return_self s' \<and> \<not> is_program_end s'
     \<and> length (commands s') = 4"
proof -
  have "spec_run (take 4 demo_script) modal_init =
      Some (zip (map fst (take 4 demo_script)) (take 4 demo_acmds), demo_modal)"
    by (simp add: demo_script_def demo_acmds_def demo_modal_def spec_index_def modal_init_def coords_ok_def)
  then obtain s' where s': "run (take 4 demo_script) RS274Interpreter_init = return_self s'"
    "\<not> is_program_end s'"
    by (rule run_of_spec) (simp_all add: demo_script_def demo_modal_def)
  with one_command_per_call [OF s'] show ?thesis
    by (auto simp: demo_script_def)
qed

text \<open>The command list of any script holds at most one program end, and it is the last
  command.\<close>

theorem program_end_is_last:
  "end_last (get_command_list (snd (run cs RS274Interpreter_init)))"
  by (simp add: get_command_list_def run_end_last)

end
