(* ===== verification/Rs274_Reach.thy ===== *)
theory Rs274_Reach
  imports Rs274_Correct
begin

text \<open>
  A script is a Python program: it may catch an exception of the interpreter and go on. The
  states it can bring about are those reachable by single calls, also failing ones. The
  invariants of the interpreter hold in all of them.
\<close>

section \<open>Reachable states\<close>

inductive calls :: "rs274 \<Rightarrow> rs274 \<Rightarrow> bool" where
  accepted: "has_source fr \<Longrightarrow> exec_call fr c s = (Inr r, s') \<Longrightarrow> calls s s'"
| caught: "has_source fr \<Longrightarrow> exec_call fr c s = (Inl e, s') \<Longrightarrow> calls s s'"

inductive reachable :: "rs274 \<Rightarrow> bool" where
  start: "reachable RS274Interpreter_init"
| step: "reachable s \<Longrightarrow> calls s s' \<Longrightarrow> reachable s'"

inductive_cases calls_elim: "calls s s'"

text \<open>A call either leaves settings and list as they are or is a step of the abstract machine.\<close>

lemma calls_cases:
  assumes "wf_env (env s)" "calls s s'"
  obtains (stay) "wf_env (env s')" "abs_modal (env s') = abs_modal (env s)" "commands s' = commands s"
  | (issue) fr c a where "\<not> is_program_end s" "wf_env (env s')"
      "spec_step c (abs_modal (env s)) = Some (abs_modal (env s'), a)"
      "commands s' = commands s @ [encode (lineno fr) (caller_code fr) a]"
proof -
  obtain fr c r where fr: "has_source fr" and ex: "exec_call fr c s = (r, s')"
    using assms(2) by (blast elim: calls_elim)
  show thesis
  proof (cases "is_program_end s")
    case True
    then have "s' = s" using exec_call_ended [OF True, of fr c] ex by (simp add: return_self_def)
    with assms(1) show ?thesis by (intro stay) simp_all
  next
    case False
    have impl: "implements fr s (spec_step c (abs_modal (env s))) (r, s')"
      using exec_call_implements [OF assms(1) False fr, of c] ex by simp
    show ?thesis
    proof (cases "spec_step c (abs_modal (env s))")
      case None
      with impl show ?thesis by (intro stay) (auto simp: implements_def)
    next
      case (Some ma)
      with impl False show ?thesis by (cases ma) (auto simp: implements_def intro!: issue)
    qed
  qed
qed

definition interp_inv :: "rs274 \<Rightarrow> bool" where
  "interp_inv s \<longleftrightarrow> wf_env (env s) \<and> settings_agree (abs_modal (env s)) (commands s)
     \<and> history_ok (commands s) \<and> end_last (commands s)
     \<and> (ends_program (commands s) \<longleftrightarrow> is_program_end s)"

lemma interp_inv_start: "interp_inv RS274Interpreter_init"
  using settings_agree_init by (simp add: interp_inv_def end_last_def ends_program_def)

lemma interp_inv_calls:
  assumes "interp_inv s" "calls s s'"
  shows "interp_inv s'"
proof -
  have ended: "is_program_end t \<longleftrightarrow> m_ended (abs_modal (env t))" for t
    by (simp add: is_program_end_def)
  have wf: "wf_env (env s)" using assms(1) by (simp add: interp_inv_def)
  from wf assms(2) show ?thesis
  proof (cases rule: calls_cases)
    case stay
    then show ?thesis using assms(1) ended [of s] ended [of s'] by (simp add: interp_inv_def)
  next
    case (issue fr c a)
    have ag: "settings_agree (abs_modal (env s)) (commands s)" using assms(1) by (simp add: interp_inv_def)
    show ?thesis
      using assms(1) issue spec_step_agree [OF issue(3) ag] spec_step_settings(5) [OF issue(3)]
        ended [of s] ended [of s'] end_last_snoc [of "commands s"]
      by (simp add: interp_inv_def ends_program_snoc)
  qed
qed

lemma reachable_inv: "reachable s \<Longrightarrow> interp_inv s"
  by (induction rule: reachable.induct) (auto intro: interp_inv_start interp_inv_calls)

text \<open>C18: in every state a script can bring about, also by catching exceptions of the interpreter
  and going on, the settings are well formed and are those the latest setting commands of
  the list made, every motion command carries the settings in force where it stands, a
  program end is only the last command, and it is there exactly when the interpreter is in
  its end state.\<close>

theorem reachable_states_consistent:
  assumes "reachable s"
  shows "wf_env (env s) \<and> settings_agree (abs_modal (env s)) (get_command_list s)
    \<and> history_ok (get_command_list s) \<and> end_last (get_command_list s)
    \<and> (ends_program (get_command_list s) \<longleftrightarrow> is_program_end s)"
  using reachable_inv [OF assms] by (simp add: interp_inv_def get_command_list_def)

text \<open>A motion without settings is caught, then the program ends.\<close>

definition after_caught :: rs274 where
  "after_caught = snd (m02 (site 4 ''i.m02()'')
     (snd (g00 (site 2 ''    i.g00(x=1)'') (Coords (VInt 1) VNone VNone VNone VNone VNone) (VBool False) (VBool False)
        RS274Interpreter_init)))"

lemma reachable_call: "reachable s \<Longrightarrow> has_source fr \<Longrightarrow> reachable (snd (exec_call fr c s))"
  by (cases "exec_call fr c s"; cases "fst (exec_call fr c s)") (auto intro: reachable.step calls.intros)

theorem reachable_states_consistent_witness:
  "reachable after_caught \<and> wf_env (env after_caught) \<and> is_program_end after_caught
   \<and> end_last (get_command_list after_caught)"
proof -
  have "reachable after_caught"
    using reachable_call [OF reachable_call [OF reachable.start, of "site 2 ''    i.g00(x=1)''"
          "C_g00 (Coords (VInt 1) VNone VNone VNone VNone VNone) (VBool False) (VBool False)"],
        of "site 4 ''i.m02()''" C_m02]
    by (simp add: after_caught_def)
  moreover have "is_program_end after_caught"
    by (simp add: after_caught_def m02_def emit_def get_caller_code_source append_command_def is_program_end_def
        set_program_end_flag_def return_self_def)
  ultimately show ?thesis using reachable_states_consistent [of after_caught] by simp
qed

end
