(* ===== verification/Json_Text.thy ===== *)
theory Json_Text
  imports Py_Values
begin

text \<open>
  The JSON text of the command list: \<open>json.dumps(v, indent=2, ensure_ascii=False)\<close> of the
  Python standard library, as \<open>get_command_list_jsonstr\<close> calls it, and \<open>json.loads\<close>, as the
  module's own test reads the text back. A codec is a printer and a reader with the law
  that the reader undoes the printer in front of any admissible rest; strings, numbers and
  values are codecs.

  The reader is given for the texts the printer makes: an escape \<open>\uXXXX\<close> of a code point
  above 127, which the printer never writes (\<open>ensure_ascii=False\<close>), is not read.
\<close>

section \<open>Codecs\<close>

locale codec =
  fixes print :: "'a \<Rightarrow> string"
    and read :: "string \<Rightarrow> ('a \<times> string) option"
    and valid :: "'a \<Rightarrow> bool"
    and norm :: "'a \<Rightarrow> 'a"
    and stop :: "string \<Rightarrow> bool"
  assumes stop_Nil: "stop []"
    and read_print: "valid x \<Longrightarrow> stop rest \<Longrightarrow> read (print x @ rest) = Some (norm x, rest)"
begin

definition read_all :: "string \<Rightarrow> 'a option" where
  "read_all s = (case read s of Some (x, []) \<Rightarrow> Some x | _ \<Rightarrow> None)"

lemma read_all_print: "valid x \<Longrightarrow> read_all (print x) = Some (norm x)"
  using read_print [OF _ stop_Nil] by (simp add: read_all_def)

lemma print_inject: "valid x \<Longrightarrow> valid y \<Longrightarrow> print x = print y \<Longrightarrow> norm x = norm y"
  using read_all_print [of x] read_all_print [of y] by simp

lemma print_prefix_free:
  assumes "valid x" "valid y" "stop r" "stop r'" "print x @ r = print y @ r'"
  shows "norm x = norm y \<and> r = r'"
  using read_print [OF assms(1,3)] read_print [OF assms(2,4)] assms(5) by simp

end

section \<open>Strings\<close>

definition esc_char :: "char \<Rightarrow> string" where
  "esc_char c =
     (let n = (of_char c :: nat) in
      if n = 92 then [backslash, backslash]
      else if n = 34 then [backslash, dquote]
      else if n = 8 then [backslash, CHR ''b'']
      else if n = 12 then [backslash, CHR ''f'']
      else if n = 10 then [backslash, CHR ''n'']
      else if n = 13 then [backslash, CHR ''r'']
      else if n = 9 then [backslash, CHR ''t'']
      else if n < 32 then [backslash, CHR ''u'', CHR ''0'', CHR ''0''] @ hex2 n
      else [c])"

definition json_str :: "string \<Rightarrow> string" where
  "json_str s = dquote # concat (map esc_char s) @ [dquote]"

definition hex_val :: "char \<Rightarrow> nat option" where
  "hex_val c =
     (let n = of_char c in
      if 48 \<le> n \<and> n \<le> 57 then Some (n - 48)
      else if 97 \<le> n \<and> n \<le> 102 then Some (n - 87)
      else if 65 \<le> n \<and> n \<le> 70 then Some (n - 55)
      else None)"

definition hex4_val :: "char \<Rightarrow> char \<Rightarrow> char \<Rightarrow> char \<Rightarrow> nat option" where
  "hex4_val a b c d =
     (case (hex_val a, hex_val b, hex_val c, hex_val d) of
        (Some p, Some q, Some r, Some s) \<Rightarrow> Some (4096 * p + 256 * q + 16 * r + s)
      | _ \<Rightarrow> None)"

definition simple_escape :: "char \<Rightarrow> char option" where
  "simple_escape c =
     (if c = dquote \<or> c = backslash \<or> c = CHR ''/'' then Some c
      else if c = CHR ''b'' then Some (char_of (8 :: nat))
      else if c = CHR ''f'' then Some (char_of (12 :: nat))
      else if c = CHR ''n'' then Some (char_of (10 :: nat))
      else if c = CHR ''r'' then Some (char_of (13 :: nat))
      else if c = CHR ''t'' then Some (char_of (9 :: nat))
      else None)"

text \<open>The text after the opening quote, up to and including the closing one.\<close>

fun read_str :: "string \<Rightarrow> (string \<times> string) option" where
  "read_str [] = None"
| "read_str (c # s) =
     (if c = dquote then Some ([], s)
      else if c = backslash then
        (case s of
           [] \<Rightarrow> None
         | e # s' \<Rightarrow>
             if e = CHR ''u'' then
               (case s' of
                  h1 # h2 # h3 # h4 # s'' \<Rightarrow>
                    (case hex4_val h1 h2 h3 h4 of
                       Some n \<Rightarrow>
                         if n < 128
                         then map_option (\<lambda>(t, r). (char_of n # t, r)) (read_str s'')
                         else None
                     | None \<Rightarrow> None)
                | _ \<Rightarrow> None)
             else
               (case simple_escape e of
                  Some x \<Rightarrow> map_option (\<lambda>(t, r). (x # t, r)) (read_str s')
                | None \<Rightarrow> None))
      else if (of_char c :: nat) < 32 then None
      else map_option (\<lambda>(t, r). (c # t, r)) (read_str s))"

lemma char_consts:
  "of_char backslash = (92 :: nat)" "of_char dquote = (34 :: nat)" "of_char newline = (10 :: nat)"
  by (simp_all add: backslash_def dquote_def newline_def)

lemma char_eq_of: "c = d \<longleftrightarrow> (of_char c :: nat) = of_char d"
  by simp

lemma of_char_eq_char: "(of_char c :: nat) = n \<Longrightarrow> c = char_of n"
  by auto

lemma hex_val_hex_digit: "d < 16 \<Longrightarrow> hex_val (hex_digit d) = Some d"
  by (auto simp: hex_val_def hex_digit_def Let_def)

lemma hex4_hex2:
  assumes "n < 256"
  shows "hex4_val CHR ''0'' CHR ''0'' (hex_digit (n div 16 mod 16)) (hex_digit (n mod 16)) = Some n"
proof -
  have "hex_val CHR ''0'' = Some 0" by code_simp
  moreover have "16 * (n div 16 mod 16) + n mod 16 = n" using assms by simp
  ultimately show ?thesis by (simp add: hex4_val_def hex_val_hex_digit)
qed

lemma read_str_esc_char:
  "read_str (esc_char c @ s) = map_option (\<lambda>(t, r). (c # t, r)) (read_str s)"
proof -
  have chars: "backslash \<noteq> dquote" "CHR ''u'' \<noteq> backslash" "dquote \<noteq> CHR ''u''" "backslash \<noteq> CHR ''u''"
    by code_simp+
  have simple: "simple_escape backslash = Some backslash" "simple_escape dquote = Some dquote"
    "simple_escape CHR ''b'' = Some (char_of (8 :: nat))" "simple_escape CHR ''f'' = Some (char_of (12 :: nat))"
    "simple_escape CHR ''n'' = Some (char_of (10 :: nat))" "simple_escape CHR ''r'' = Some (char_of (13 :: nat))"
    "simple_escape CHR ''t'' = Some (char_of (9 :: nat))"
    by code_simp+
  let ?n = "of_char c :: nat"
  consider "?n \<in> {92, 34, 8, 12, 10, 13, 9}" | "?n < 32" "?n \<notin> {92, 34, 8, 12, 10, 13, 9}"
    | "32 \<le> ?n" "?n \<noteq> 92" "?n \<noteq> 34" by fastforce
  then show ?thesis
  proof cases
    case 1
    have bs: "backslash = char_of (92 :: nat)" "dquote = char_of (34 :: nat)"
      by (simp_all add: backslash_def dquote_def)
    from 1 show ?thesis
      by (auto simp: esc_char_def simple chars dest!: of_char_eq_char)
        (simp_all add: bs [symmetric])
  next
    case 2
    then have "esc_char c = [backslash, CHR ''u'', CHR ''0'', CHR ''0''] @ hex2 ?n"
      by (simp add: esc_char_def)
    then show ?thesis
      using 2(1) hex4_hex2 [of ?n] by (simp add: chars hex2_def)
  next
    case 3
    then have "esc_char c = [c]" "c \<noteq> dquote" "c \<noteq> backslash"
      by (auto simp: esc_char_def char_consts char_eq_of)
    then show ?thesis using 3(1) by simp
  qed
qed

lemma read_str_escaped:
  "read_str (concat (map esc_char s) @ dquote # rest) = Some (s, rest)"
  by (induction s) (simp_all add: read_str_esc_char)

definition read_json_str :: "string \<Rightarrow> (string \<times> string) option" where
  "read_json_str s = (case s of c # s' \<Rightarrow> if c = dquote then read_str s' else None | [] \<Rightarrow> None)"

interpretation str: codec json_str read_json_str "\<lambda>_. True" "\<lambda>s. s" "\<lambda>_. True"
  by unfold_locales (simp_all add: json_str_def read_json_str_def read_str_escaped)

section \<open>Numbers\<close>

definition json_float :: "pyfloat \<Rightarrow> string" where
  "json_float f =
     (case f of
        NaN \<Rightarrow> ''NaN''
      | PosInf \<Rightarrow> ''Infinity''
      | NegInf \<Rightarrow> ''-Infinity''
      | _ \<Rightarrow> float_repr f)"

text \<open>
  The number pattern of the scanner: an optional minus sign and \<open>0\<close> or digits without a
  leading zero, an optional fraction, an optional exponent. Without the last two the number
  is an integer.
\<close>

definition read_sign :: "string \<Rightarrow> bool \<times> string" where
  "read_sign s = (case s of c # s' \<Rightarrow> if c = CHR ''-'' then (True, s') else (False, s) | [] \<Rightarrow> (False, s))"

definition read_int_digits :: "string \<Rightarrow> (string \<times> string) option" where
  "read_int_digits s =
     (case s of
        [] \<Rightarrow> None
      | c # s' \<Rightarrow>
          if c = CHR ''0'' then Some ([c], s')
          else if is_digit c then Some (takeWhile is_digit s, dropWhile is_digit s)
          else None)"

definition read_frac :: "string \<Rightarrow> string option \<times> string" where
  "read_frac s =
     (case s of
        c # s' \<Rightarrow>
          if c = CHR ''.'' \<and> takeWhile is_digit s' \<noteq> []
          then (Some (takeWhile is_digit s'), dropWhile is_digit s')
          else (None, s)
      | [] \<Rightarrow> (None, s))"

definition read_exp_sign :: "string \<Rightarrow> bool \<times> string" where
  "read_exp_sign s =
     (case s of
        c # s' \<Rightarrow> if c = CHR ''-'' then (True, s') else if c = CHR ''+'' then (False, s') else (False, s)
      | [] \<Rightarrow> (False, s))"

definition read_exp :: "string \<Rightarrow> int option \<times> string" where
  "read_exp s =
     (case s of
        c # s' \<Rightarrow>
          if c = CHR ''e'' \<or> c = CHR ''E'' then
            (let (neg, s'') = read_exp_sign s' in
             if takeWhile is_digit s'' \<noteq> []
             then (Some ((if neg then - 1 else 1) * int (digits_val (takeWhile is_digit s''))),
                   dropWhile is_digit s'')
             else (None, s))
          else (None, s)
      | [] \<Rightarrow> (None, s))"

definition read_number :: "string \<Rightarrow> (pyval \<times> string) option" where
  "read_number s =
     (let (neg, s1) = read_sign s in
      case read_int_digits s1 of
        None \<Rightarrow> None
      | Some (ds, s2) \<Rightarrow>
          (let (fr, s3) = read_frac s2; (ex, s4) = read_exp s3 in
           if fr = None \<and> ex = None
           then Some (VInt ((if neg then - 1 else 1) * int (digits_val ds)), s2)
           else
             (let f = (case fr of None \<Rightarrow> [] | Some f \<Rightarrow> f); e = (case ex of None \<Rightarrow> 0 | Some e \<Rightarrow> e)
              in Some (VFloat (mk_float neg (digits_val (ds @ f)) (int (length f) - e)), s4))))"

text \<open>A number ends where neither a digit nor a fraction or exponent can follow.\<close>

definition num_stop :: "string \<Rightarrow> bool" where
  "num_stop s \<longleftrightarrow> (case s of [] \<Rightarrow> True
     | c # _ \<Rightarrow> \<not> is_digit c \<and> c \<noteq> CHR ''.'' \<and> c \<noteq> CHR ''e'' \<and> c \<noteq> CHR ''E'')"

lemma char_facts:
  "\<not> is_digit CHR ''.''" "\<not> is_digit CHR ''-''" "\<not> is_digit CHR ''+''" "\<not> is_digit CHR ''e''"
  "\<not> is_digit CHR ''E''" "is_digit CHR ''0''" "digit_val CHR ''0'' = 0"
  by code_simp+

lemma takeWhile_digits:
  assumes "list_all is_digit ds" "case rest of [] \<Rightarrow> True | c # _ \<Rightarrow> \<not> is_digit c"
  shows "takeWhile is_digit (ds @ rest) = ds" "dropWhile is_digit (ds @ rest) = rest"
proof -
  have "\<forall>c \<in> set ds. is_digit c" using assms(1) by (simp add: list_all_iff)
  then show "takeWhile is_digit (ds @ rest) = ds" "dropWhile is_digit (ds @ rest) = rest"
    using assms(2) by (simp_all add: takeWhile_append2 dropWhile_append2 split: list.splits)
qed

lemma num_stop_no_digit: "num_stop rest \<Longrightarrow> case rest of [] \<Rightarrow> True | c # _ \<Rightarrow> \<not> is_digit c"
  by (auto simp: num_stop_def split: list.splits)

lemma num_stop_frac: "num_stop rest \<Longrightarrow> read_frac rest = (None, rest)"
  by (auto simp: num_stop_def read_frac_def split: list.splits)

lemma num_stop_exp: "num_stop rest \<Longrightarrow> read_exp rest = (None, rest)"
  by (auto simp: num_stop_def read_exp_def split: list.splits)

lemma digit_not_sign: "is_digit c \<Longrightarrow> c \<noteq> CHR ''-'' \<and> c \<noteq> CHR ''+''"
  using char_facts by metis

text \<open>Digits that start an integer: a single zero, or no leading zero.\<close>

definition lead_ok :: "string \<Rightarrow> bool" where
  "lead_ok ds \<longleftrightarrow> ds \<noteq> [] \<and> list_all is_digit ds \<and> (ds = ''0'' \<or> hd ds \<noteq> CHR ''0'')"

lemma lead_ok_nat_str: "lead_ok (nat_str n)"
proof (cases "n = 0")
  case True
  then show ?thesis by (simp add: lead_ok_def nat_str_0 char_facts)
next
  case False
  then show ?thesis using nat_str_hd [of n] nat_str_digits [of n] by (simp add: lead_ok_def)
qed

lemma lead_ok_sign: "lead_ok ds \<Longrightarrow> read_sign (ds @ rest) = (False, ds @ rest)"
  by (cases ds) (auto simp: lead_ok_def read_sign_def dest: digit_not_sign)

lemma lead_ok_read:
  assumes "lead_ok ds" "case rest of [] \<Rightarrow> True | c # _ \<Rightarrow> \<not> is_digit c"
  shows "read_int_digits (ds @ rest) = Some (ds, rest)"
proof -
  obtain c ds' where ds: "ds = c # ds'" using assms(1) by (cases ds) (auto simp: lead_ok_def)
  show ?thesis
  proof (cases "c = CHR ''0''")
    case True
    then show ?thesis using assms(1) ds by (simp add: lead_ok_def read_int_digits_def)
  next
    case False
    have "takeWhile is_digit (ds @ rest) = ds" "dropWhile is_digit (ds @ rest) = rest"
      using takeWhile_digits assms by (auto simp: lead_ok_def)
    then show ?thesis using False assms(1) ds by (simp add: lead_ok_def read_int_digits_def)
  qed
qed

definition sign_str :: "bool \<Rightarrow> string" where
  "sign_str neg = (if neg then ''-'' else [])"

lemma read_sign_str: "lead_ok ds \<Longrightarrow> read_sign (sign_str neg @ ds @ rest) = (neg, ds @ rest)"
  by (cases neg) (simp_all add: sign_str_def lead_ok_sign, simp add: read_sign_def)

lemma read_number_int:
  assumes "lead_ok ds" "num_stop rest"
  shows "read_number (sign_str neg @ ds @ rest) =
    Some (VInt ((if neg then - 1 else 1) * int (digits_val ds)), rest)"
  using read_sign_str [OF assms(1)] lead_ok_read [OF assms(1) num_stop_no_digit [OF assms(2)]]
    num_stop_frac [OF assms(2)] num_stop_exp [OF assms(2)]
  by (simp add: read_number_def)

lemma read_number_frac:
  assumes "lead_ok ds" "list_all is_digit fs" "fs \<noteq> []" "num_stop rest"
  shows "read_number (sign_str neg @ ds @ CHR ''.'' # fs @ rest) =
    Some (VFloat (mk_float neg (digits_val (ds @ fs)) (int (length fs))), rest)"
proof -
  have "read_frac (CHR ''.'' # fs @ rest) = (Some fs, rest)"
    using takeWhile_digits [OF assms(2) num_stop_no_digit [OF assms(4)]] assms(3)
    by (simp add: read_frac_def)
  then show ?thesis
    using read_sign_str [OF assms(1), of neg "CHR ''.'' # fs @ rest"]
      lead_ok_read [OF assms(1), of "CHR ''.'' # fs @ rest"] num_stop_exp [OF assms(4)]
    by (simp add: read_number_def char_facts)
qed

definition exp_tail :: "string \<Rightarrow> bool \<Rightarrow> string \<Rightarrow> string" where
  "exp_tail fs eneg es = (if fs = [] then [] else CHR ''.'' # fs) @ CHR ''e'' # (if eneg then ''-'' else ''+'') @ es"

lemma read_number_exp:
  assumes "lead_ok ds" "list_all is_digit fs" "list_all is_digit es" "es \<noteq> []" "num_stop rest"
  shows "read_number (sign_str neg @ ds @ exp_tail fs eneg es @ rest) =
    Some (VFloat (mk_float neg (digits_val (ds @ fs))
      (int (length fs) - (if eneg then - 1 else 1) * int (digits_val es))), rest)"
proof -
  have exp: "read_exp (CHR ''e'' # (if eneg then ''-'' else ''+'') @ es @ rest) =
      (Some ((if eneg then - 1 else 1) * int (digits_val es)), rest)"
    using takeWhile_digits [OF assms(3) num_stop_no_digit [OF assms(5)]] assms(4)
    by (simp add: read_exp_def read_exp_sign_def)
  have frac: "read_frac (exp_tail fs eneg es @ rest) =
      ((if fs = [] then None else Some fs), CHR ''e'' # (if eneg then ''-'' else ''+'') @ es @ rest)"
    using takeWhile_digits [OF assms(2), of "CHR ''e'' # (if eneg then ''-'' else ''+'') @ es @ rest"]
    by (simp add: read_frac_def exp_tail_def char_facts)
  have "case exp_tail fs eneg es @ rest of [] \<Rightarrow> True | c # _ \<Rightarrow> \<not> is_digit c"
    by (simp add: exp_tail_def char_facts)
  then show ?thesis
    using read_sign_str [OF assms(1), of neg "exp_tail fs eneg es @ rest"]
      lead_ok_read [OF assms(1), of "exp_tail fs eneg es @ rest"] frac exp
    by (simp add: read_number_def)
qed

lemma digits_val_append: "digits_val (a @ b) = digits_val a * 10 ^ length b + digits_val b"
proof (induction b rule: rev_induct)
  case Nil
  then show ?case by (simp add: digits_val_def)
next
  case (snoc c b)
  have "digits_val (a @ b @ [c]) = digits_val ((a @ b) @ [c])" by simp
  then show ?case unfolding digits_val_snoc using snoc by (simp add: algebra_simps)
qed

lemma digits_val_zeros [simp]: "digits_val (replicate j CHR ''0'') = 0"
proof (induction j)
  case 0
  then show ?case by (simp add: digits_val_def)
next
  case (Suc j)
  have "replicate (Suc j) CHR ''0'' = replicate j CHR ''0'' @ [CHR ''0'']"
    by (simp add: replicate_append_same)
  then show ?case using Suc by (simp only: digits_val_snoc) (simp add: char_facts)
qed

lemma digits_val_one [simp]: "digits_val ''0'' = 0"
  using digits_val_zeros [of 1] by simp

lemma list_all_zeros [simp]: "list_all is_digit (replicate j CHR ''0'')"
  by (simp add: list_all_iff char_facts)

lemma mk_float_mult: "mk_float neg (10 ^ j * c) (k + int j) = mk_float neg c k"
  by (cases "c = 0") (simp_all add: mk_float_def strip0_mult)

lemma mk_float_strip: "strip0 c k = (c', k') \<Longrightarrow> c \<noteq> 0 \<Longrightarrow> mk_float neg c' k' = mk_float neg c k"
  using strip0_idem [of c k c' k'] strip0_nonzero [of c k c' k'] by (simp add: mk_float_def)

lemma exp_digits:
  obtains es where "exp_str e = (if e < 0 then ''-'' else ''+'') @ es" "list_all is_digit es" "es \<noteq> []"
    "(if e < 0 then - 1 else 1) * int (digits_val es) = e"
proof
  let ?ds = "nat_str (nat \<bar>e\<bar>)"
  let ?es = "if length ?ds < 2 then CHR ''0'' # ?ds else ?ds"
  show "exp_str e = (if e < 0 then ''-'' else ''+'') @ ?es" by (simp add: exp_str_def Let_def)
  show "list_all is_digit ?es" by (simp add: nat_str_digits char_facts)
  show "?es \<noteq> []" by simp
  have "digits_val (CHR ''0'' # ?ds) = nat \<bar>e\<bar>"
    using digits_val_append [of "''0''" ?ds] by simp
  then have "digits_val ?es = nat \<bar>e\<bar>" by (cases "length ?ds < 2") simp_all
  then show "(if e < 0 then - 1 else 1) * int (digits_val ?es) = e" by (simp only: split: if_split) simp
qed

lemma read_dec_str_exp:
  assumes "c \<noteq> 0" "num_stop rest" "int (length (nat_str c)) - k \<le> -4 \<or> 16 < int (length (nat_str c)) - k"
  shows "read_number (sign_str neg @ dec_str c k @ rest) = Some (VFloat (mk_float neg c k), rest)"
proof -
  obtain d fs where ds: "nat_str c = d # fs" by (cases "nat_str c") simp_all
  define e where "e = int (length fs) - k"
  obtain es where es: "exp_str e = (if e < 0 then ''-'' else ''+'') @ es" "list_all is_digit es" "es \<noteq> []"
    "(if e < 0 then - 1 else 1) * int (digits_val es) = e" by (rule exp_digits)
  have dig: "is_digit d" "list_all is_digit fs" using nat_str_digits [of c] ds by simp_all
  have hd: "d \<noteq> CHR ''0''" using nat_str_hd [of c] assms(1) ds by simp
  have "dec_str c k = [d] @ exp_tail fs (e < 0) es"
    using assms(3) es(1) by (simp add: dec_str_def ds exp_tail_def e_def)
  moreover have "lead_ok [d]" using dig(1) hd by (simp add: lead_ok_def)
  moreover have "digits_val ([d] @ fs) = c" using digits_val_nat_str [of c] ds by simp
  ultimately show ?thesis
    using read_number_exp [OF _ dig(2) es(2,3) assms(2), of "[d]" neg "e < 0"] es(4)
    by (simp add: e_def)
qed

lemma read_dec_str_fixed:
  assumes "c \<noteq> 0" "num_stop rest" "-4 < int (length (nat_str c)) - k" "int (length (nat_str c)) - k \<le> 16"
  shows "read_number (sign_str neg @ dec_str c k @ rest) = Some (VFloat (mk_float neg c k), rest)"
proof -
  define ds where "ds = nat_str c"
  define p where "p = int (length ds) - k"
  have dig: "list_all is_digit ds" "ds \<noteq> []" "digits_val ds = c" "lead_ok ds"
    by (simp_all add: ds_def nat_str_digits lead_ok_nat_str)
  have str: "dec_str c k = (if p \<le> 0 then ''0.'' @ replicate (nat (- p)) CHR ''0'' @ ds
      else if p < int (length ds) then take (nat p) ds @ CHR ''.'' # drop (nat p) ds
      else ds @ replicate (nat (p - int (length ds))) CHR ''0'' @ ''.0'')"
    using assms(3,4) by (simp add: dec_str_def ds_def p_def Let_def)
  consider "p \<le> 0" | "0 < p" "p < int (length ds)" | "int (length ds) \<le> p" "0 < p" by linarith
  then show ?thesis
  proof cases
    case 1
    let ?fs = "replicate (nat (- p)) CHR ''0'' @ ds"
    have "lead_ok ''0''" by (simp add: lead_ok_def char_facts)
    moreover have "int (length ?fs) = k" using 1 by (simp add: p_def)
    moreover have "digits_val (''0'' @ ?fs) = c"
      using digits_val_append [of "''0''" ?fs] digits_val_append [of "replicate (nat (- p)) CHR ''0''" ds] dig(3)
      by simp
    ultimately show ?thesis
      using read_number_frac [of "''0''" ?fs rest neg] dig assms(2) str 1 by simp
  next
    case 2
    then have n: "0 < nat p" "nat p < length ds" by simp_all
    have "lead_ok (take (nat p) ds)"
      using dig(4) n nat_str_hd [of c] assms(1)
      by (auto simp: lead_ok_def hd_take list_all_iff ds_def dest: in_set_takeD)
    moreover have "list_all is_digit (drop (nat p) ds)" using dig(1) by (auto simp: list_all_iff dest: in_set_dropD)
    moreover have "int (length (drop (nat p) ds)) = k" using 2 by (simp add: p_def)
    ultimately show ?thesis
      using read_number_frac [of "take (nat p) ds" "drop (nat p) ds" rest neg] dig(3) n assms(2) str 2 by simp
  next
    case 3
    define j where "j = nat (p - int (length ds))"
    have k: "k = - int j" using 3 by (simp add: j_def p_def)
    let ?l = "ds @ replicate j CHR ''0''"
    have "hd ?l \<noteq> CHR ''0''" using nat_str_hd [of c] assms(1) dig(2) by (simp add: ds_def)
    then have "lead_ok ?l" using dig by (simp add: lead_ok_def)
    moreover have "list_all is_digit ''0''" by (simp add: char_facts)
    moreover have "digits_val (?l @ ''0'') = 10 ^ Suc j * c"
      using digits_val_append [of ds "replicate j CHR ''0'' @ ''0''"]
        digits_val_append [of "replicate j CHR ''0''" "''0''"] dig(3) by simp
    ultimately show ?thesis
      using read_number_frac [of ?l "''0''" rest neg] assms(2) str 3 mk_float_mult [of neg "Suc j" c k]
      by (simp add: j_def [symmetric] k)
  qed
qed

lemma read_dec_str:
  assumes "c \<noteq> 0" "num_stop rest"
  shows "read_number (sign_str neg @ dec_str c k @ rest) = Some (VFloat (mk_float neg c k), rest)"
proof (cases "int (length (nat_str c)) - k \<le> -4 \<or> 16 < int (length (nat_str c)) - k")
  case True
  with assms show ?thesis by (rule read_dec_str_exp)
next
  case False
  with assms show ?thesis by (intro read_dec_str_fixed) auto
qed

lemma read_zero:
  assumes "num_stop rest"
  shows "read_number (sign_str neg @ ''0.0'' @ rest) = Some (VFloat (mk_float neg 0 0), rest)"
  using read_number_frac [of "''0''" "''0''" rest neg] assms digits_val_zeros [of 2]
  by (simp add: lead_ok_def char_facts mk_float_def numeral_2_eq_2)

fun finite_float :: "pyfloat \<Rightarrow> bool" where
  "finite_float (Dec _ _) = True"
| "finite_float NegZero = True"
| "finite_float _ = False"

lemma read_float_repr:
  assumes "finite_float f" "num_stop rest"
  shows "read_number (json_float f @ rest) = Some (VFloat (norm_float f), rest)"
proof (cases f)
  case (Dec m k)
  show ?thesis
  proof (cases "m = 0")
    case True
    then show ?thesis using read_zero [OF assms(2), of False] Dec
      by (simp add: json_float_def sign_str_def mk_float_def)
  next
    case False
    obtain c k' where st: "strip0 (nat \<bar>m\<bar>) (int k) = (c, k')" by (cases "strip0 (nat \<bar>m\<bar>) (int k)")
    have "c \<noteq> 0" using strip0_nonzero [OF _ st] False by simp
    then show ?thesis
      using read_dec_str [of c rest "m < 0" k'] assms(2) Dec False st mk_float_strip [OF st, of "m < 0"]
      by (simp add: json_float_def sign_str_def)
  qed
next
  case NegZero
  then show ?thesis using read_zero [OF assms(2), of True]
    by (simp add: json_float_def sign_str_def mk_float_def)
qed (use assms in simp_all)

lemma read_int_str:
  assumes "num_stop rest"
  shows "read_number (int_str n @ rest) = Some (VInt n, rest)"
proof -
  have "int_str n = sign_str (n < 0) @ nat_str (nat \<bar>n\<bar>)" by (simp add: int_str_def sign_str_def)
  then show ?thesis
    using read_number_int [OF lead_ok_nat_str [of "nat \<bar>n\<bar>"] assms, of "n < 0"] by simp
qed

section \<open>Values\<close>

subsection \<open>The printer\<close>

definition nl :: "nat \<Rightarrow> string" where
  "nl l = newline # replicate (2 * l) CHR '' ''"

fun json_text :: "nat \<Rightarrow> pyval \<Rightarrow> string" where
  "json_text l VNone = ''null''"
| "json_text l (VBool b) = (if b then ''true'' else ''false'')"
| "json_text l (VInt n) = int_str n"
| "json_text l (VFloat f) = json_float f"
| "json_text l (VStr s) = json_str s"
| "json_text l (VList vs) =
     (if vs = [] then ''[]''
      else ''['' @ nl (Suc l) @ join ('','' @ nl (Suc l)) (map (json_text (Suc l)) vs) @ nl l @ '']'')"
| "json_text l (VDict kvs) =
     (if kvs = [] then ''{}''
      else ''{'' @ nl (Suc l)
        @ join ('','' @ nl (Suc l)) (map (\<lambda>(k, v). json_str k @ '': '' @ json_text (Suc l) v) kvs)
        @ nl l @ ''}'')"
| "json_text l (VObj cls s) = []"

fun first_some :: "'a option list \<Rightarrow> 'a option" where
  "first_some [] = None"
| "first_some (Some x # xs) = Some x"
| "first_some (None # xs) = first_some xs"

text \<open>The class of the first object that has no JSON form, in the order of the encoder.\<close>

fun first_obj :: "pyval \<Rightarrow> string option" where
  "first_obj (VObj cls s) = Some cls"
| "first_obj (VList vs) = first_some (map first_obj vs)"
| "first_obj (VDict kvs) = first_some (map (\<lambda>(k, v). first_obj v) kvs)"
| "first_obj _ = None"

definition json_dumps :: "pyval \<Rightarrow> (pyexn, string) result" where
  "json_dumps v =
     (case first_obj v of
        Some cls \<Rightarrow> Inl (TypeError (''Object of type '' @ cls @ '' is not JSON serializable''))
      | None \<Rightarrow> Inr (json_text 0 v))"

subsection \<open>The reader\<close>

definition is_ws :: "char \<Rightarrow> bool" where
  "is_ws c \<longleftrightarrow> (of_char c :: nat) \<in> {32, 9, 10, 13}"

definition skip_ws :: "string \<Rightarrow> string" where
  "skip_ws s = dropWhile is_ws s"

fun strip_prefix :: "string \<Rightarrow> string \<Rightarrow> string option" where
  "strip_prefix [] s = Some s"
| "strip_prefix (c # p) (d # s) = (if c = d then strip_prefix p s else None)"
| "strip_prefix (c # p) [] = None"

text \<open>\<open>dict(pairs)\<close>: a later pair with the same key replaces the value in place.\<close>

fun dict_put :: "string \<Rightarrow> pyval \<Rightarrow> (string \<times> pyval) list \<Rightarrow> (string \<times> pyval) list" where
  "dict_put k v [] = [(k, v)]"
| "dict_put k v ((k', v') # d) = (if k = k' then (k, v) # d else (k', v') # dict_put k v d)"

definition dict_of_pairs :: "(string \<times> pyval) list \<Rightarrow> (string \<times> pyval) list" where
  "dict_of_pairs kvs = foldl (\<lambda>d (k, v). dict_put k v d) [] kvs"

definition read_word :: "string \<Rightarrow> pyval \<Rightarrow> string \<Rightarrow> (pyval \<times> string) option" where
  "read_word w v s = map_option (\<lambda>r. (v, r)) (strip_prefix w s)"

fun orelse :: "'a option \<Rightarrow> 'a option \<Rightarrow> 'a option" where
  "orelse (Some x) y = Some x"
| "orelse None y = y"

text \<open>The values that need no recursion, tried in the order of the scanner.\<close>

definition read_atom :: "string \<Rightarrow> (pyval \<times> string) option" where
  "read_atom s =
     orelse (map_option (\<lambda>(t, r). (VStr t, r)) (read_json_str s))
    (orelse (read_word ''null'' VNone s)
    (orelse (read_word ''true'' (VBool True) s)
    (orelse (read_word ''false'' (VBool False) s)
    (orelse (read_number s)
    (orelse (read_word ''NaN'' (VFloat NaN) s)
    (orelse (read_word ''Infinity'' (VFloat PosInf) s)
            (read_word ''-Infinity'' (VFloat NegInf) s)))))))"

text \<open>
  Arrays and objects, with fuel for the nesting and the length: every call spends one unit.
  \<open>read_elems\<close> and \<open>read_members\<close> start at an element and read up to the closing bracket.
\<close>

fun read_value :: "nat \<Rightarrow> string \<Rightarrow> (pyval \<times> string) option"
  and read_elems :: "nat \<Rightarrow> string \<Rightarrow> (pyval list \<times> string) option"
  and read_members :: "nat \<Rightarrow> string \<Rightarrow> ((string \<times> pyval) list \<times> string) option" where
  "read_value 0 s = None"
| "read_value (Suc n) s =
     (case s of
        [] \<Rightarrow> None
      | c # s' \<Rightarrow>
          if c = CHR ''['' then
            (case skip_ws s' of
               [] \<Rightarrow> None
             | d # r \<Rightarrow>
                 if d = CHR '']'' then Some (VList [], r)
                 else map_option (\<lambda>(vs, r). (VList vs, r)) (read_elems n (d # r)))
          else if c = CHR ''{'' then
            (case skip_ws s' of
               [] \<Rightarrow> None
             | d # r \<Rightarrow>
                 if d = CHR ''}'' then Some (VDict [], r)
                 else map_option (\<lambda>(kvs, r). (VDict (dict_of_pairs kvs), r)) (read_members n (d # r)))
          else read_atom s)"
| "read_elems 0 s = None"
| "read_elems (Suc n) s =
     (case read_value n s of
        None \<Rightarrow> None
      | Some (v, s1) \<Rightarrow>
          (case skip_ws s1 of
             [] \<Rightarrow> None
           | d # r \<Rightarrow>
               if d = CHR '']'' then Some ([v], r)
               else if d = CHR '','' then map_option (\<lambda>(vs, r). (v # vs, r)) (read_elems n (skip_ws r))
               else None))"
| "read_members 0 s = None"
| "read_members (Suc n) s =
     (case read_json_str s of
        None \<Rightarrow> None
      | Some (k, s1) \<Rightarrow>
          (case skip_ws s1 of
             [] \<Rightarrow> None
           | col # s2 \<Rightarrow>
               if col \<noteq> CHR '':'' then None
               else
                 (case read_value n (skip_ws s2) of
                    None \<Rightarrow> None
                  | Some (v, s3) \<Rightarrow>
                      (case skip_ws s3 of
                         [] \<Rightarrow> None
                       | d # r \<Rightarrow>
                           if d = CHR ''}'' then Some ([(k, v)], r)
                           else if d = CHR '',''
                           then map_option (\<lambda>(kvs, r). ((k, v) # kvs, r)) (read_members n (skip_ws r))
                           else None))))"

text \<open>\<open>json.loads\<close>: one value, surrounded by white space only.\<close>

definition json_loads :: "string \<Rightarrow> pyval option" where
  "json_loads s =
     (case read_value (Suc (length s)) (skip_ws s) of
        None \<Rightarrow> None
      | Some (v, r) \<Rightarrow> if skip_ws r = [] then Some v else None)"

subsection \<open>The reader undoes the printer\<close>

fun norm_val :: "pyval \<Rightarrow> pyval" where
  "norm_val (VFloat f) = VFloat (norm_float f)"
| "norm_val (VList vs) = VList (map norm_val vs)"
| "norm_val (VDict kvs) = VDict (map (\<lambda>(k, v). (k, norm_val v)) kvs)"
| "norm_val v = v"

text \<open>A value with a JSON form: no foreign object, and dictionaries with distinct keys.\<close>

fun json_ok :: "pyval \<Rightarrow> bool" where
  "json_ok (VObj _ _) = False"
| "json_ok (VList vs) = list_all json_ok vs"
| "json_ok (VDict kvs) = (distinct (map fst kvs) \<and> list_all (\<lambda>(k, v). json_ok v) kvs)"
| "json_ok _ = True"

fun fuel_need :: "pyval \<Rightarrow> nat" where
  "fuel_need (VList vs) = Suc (sum_list (map (\<lambda>v. Suc (fuel_need v)) vs))"
| "fuel_need (VDict kvs) = Suc (sum_list (map (\<lambda>(k, v). Suc (fuel_need v)) kvs))"
| "fuel_need _ = 1"

fun is_atom :: "pyval \<Rightarrow> bool" where
  "is_atom (VList _) = False"
| "is_atom (VDict _) = False"
| "is_atom (VObj _ _) = False"
| "is_atom _ = True"

text \<open>The first character of a printed value decides how it is read.\<close>

definition num_head :: "char \<Rightarrow> bool" where
  "num_head c \<longleftrightarrow> is_digit c \<or> c = CHR ''-''"

lemma num_head_facts:
  assumes "num_head c"
  shows "c \<noteq> dquote" "c \<noteq> CHR ''n''" "c \<noteq> CHR ''t''" "c \<noteq> CHR ''f''" "c \<noteq> CHR ''[''" "c \<noteq> CHR ''{''"
    "c \<noteq> CHR '']''" "c \<noteq> CHR ''}''" "\<not> is_ws c"
proof -
  have "\<not> num_head dquote" "\<not> num_head CHR ''n''" "\<not> num_head CHR ''t''" "\<not> num_head CHR ''f''"
    "\<not> num_head CHR ''[''" "\<not> num_head CHR ''{''" "\<not> num_head CHR '']''" "\<not> num_head CHR ''}''"
    by code_simp+
  with assms show "c \<noteq> dquote" "c \<noteq> CHR ''n''" "c \<noteq> CHR ''t''" "c \<noteq> CHR ''f''" "c \<noteq> CHR ''[''"
    "c \<noteq> CHR ''{''" "c \<noteq> CHR '']''" "c \<noteq> CHR ''}''" by blast+
  have "\<not> is_ws CHR ''-''" by code_simp
  moreover have "\<not> is_ws c" if "is_digit c" using that by (auto simp: is_digit_def is_ws_def)
  ultimately show "\<not> is_ws c" using assms by (auto simp: num_head_def)
qed

lemma nat_str_head: "\<exists>c cs. nat_str n = c # cs \<and> num_head c"
  using nat_str_Cons [of n] by (auto simp: num_head_def)

lemma int_str_head: "\<exists>c cs. int_str n = c # cs \<and> num_head c"
  using nat_str_head by (auto simp: int_str_def num_head_def)

lemma dec_str_head: "\<exists>c cs. dec_str n k = c # cs \<and> num_head c"
proof -
  obtain d ds where ds: "nat_str n = d # ds" "is_digit d" using nat_str_Cons by blast
  have "num_head CHR ''0''" by (simp add: num_head_def char_facts)
  with ds show ?thesis
    by (auto simp: dec_str_def num_head_def Let_def take_Cons')
qed

lemma json_float_head: "finite_float f \<Longrightarrow> \<exists>c cs. json_float f = c # cs \<and> num_head c"
proof (cases f)
  case (Dec m k)
  then show ?thesis
    using dec_str_head by (auto simp: json_float_def num_head_def char_facts split: prod.splits)
qed (auto simp: json_float_def num_head_def)

lemma json_text_head:
  assumes "json_ok v"
  shows "\<exists>c cs. json_text l v = c # cs \<and> \<not> is_ws c \<and> c \<noteq> CHR '']'' \<and> c \<noteq> CHR ''}''
    \<and> (is_atom v \<longrightarrow> c \<noteq> CHR ''['' \<and> c \<noteq> CHR ''{'')"
proof -
  have lits: "\<not> is_ws CHR ''n''" "\<not> is_ws CHR ''t''" "\<not> is_ws CHR ''f''" "\<not> is_ws CHR ''N''"
    "\<not> is_ws CHR ''I''" "\<not> is_ws CHR ''-''" "\<not> is_ws CHR ''[''" "\<not> is_ws CHR ''{''" "\<not> is_ws dquote"
    "dquote \<noteq> CHR '']''" "dquote \<noteq> CHR ''}''" "dquote \<noteq> CHR ''[''" "dquote \<noteq> CHR ''{''"
    by code_simp+
  show ?thesis
  proof (cases v)
    case (VInt n)
    then show ?thesis using int_str_head [of n] num_head_facts by fastforce
  next
    case (VFloat f)
    then show ?thesis
      using json_float_head [of f] num_head_facts lits
      by (cases "finite_float f") (fastforce, cases f, auto simp: json_float_def)
  qed (use assms lits in \<open>auto simp: json_str_def\<close>)
qed

lemma read_number_atom:
  assumes "read_number s = Some x" "s = c # cs" "num_head c"
  shows "read_atom s = Some x"
  using assms num_head_facts [OF assms(3)]
  by (simp add: read_atom_def read_json_str_def read_word_def)

lemma read_atom_text:
  assumes "is_atom v" "num_stop rest"
  shows "read_atom (json_text l v @ rest) = Some (norm_val v, rest)"
proof (cases v)
  case (VStr s)
  then show ?thesis using str.read_print [of s rest] by (simp add: read_atom_def)
next
  case (VInt n)
  then show ?thesis
    using read_int_str [OF assms(2), of n] int_str_head [of n] read_number_atom by fastforce
next
  case (VFloat f)
  have quote: "CHR ''N'' \<noteq> dquote" "CHR ''I'' \<noteq> dquote" "CHR ''-'' \<noteq> dquote"
    "\<not> is_digit CHR ''N''" "\<not> is_digit CHR ''I''" by code_simp+
  show ?thesis
  proof (cases "finite_float f")
    case True
    then show ?thesis
      using read_float_repr [OF True assms(2)] json_float_head [OF True] read_number_atom VFloat
      by fastforce
  next
    case False
    with VFloat quote show ?thesis
      by (cases f) (simp_all add: json_float_def read_atom_def read_json_str_def read_word_def
          read_number_def read_sign_def read_int_digits_def)
  qed
next
  case VNone
  have "CHR ''n'' \<noteq> dquote" by code_simp
  with VNone show ?thesis by (simp add: read_atom_def read_json_str_def read_word_def)
next
  case (VBool b)
  have "CHR ''t'' \<noteq> dquote" "CHR ''f'' \<noteq> dquote" by code_simp+
  with VBool show ?thesis by (simp add: read_atom_def read_json_str_def read_word_def)
qed (use assms in simp_all)

lemma skip_ws_id: "\<not> is_ws c \<Longrightarrow> skip_ws (c # s) = c # s"
  by (simp add: skip_ws_def)

lemma is_ws_nl: "is_ws newline" "is_ws CHR '' ''"
  by code_simp+

lemma skip_ws_nl: "skip_ws (nl l @ s) = skip_ws s"
proof -
  have "\<forall>c \<in> set (nl l). is_ws c" by (auto simp: nl_def is_ws_nl)
  then show ?thesis by (simp add: skip_ws_def dropWhile_append2)
qed

lemma num_stop_nl: "num_stop (nl l @ s)" "num_stop (CHR '','' # s)"
proof -
  have "\<not> is_digit newline" "newline \<noteq> CHR ''.''" "newline \<noteq> CHR ''e''" "newline \<noteq> CHR ''E''"
    "\<not> is_digit CHR '',''" by code_simp+
  then show "num_stop (nl l @ s)" "num_stop (CHR '','' # s)" by (simp_all add: num_stop_def nl_def)
qed

lemma skip_ws_text: "json_ok v \<Longrightarrow> skip_ws (json_text l v @ s) = json_text l v @ s"
  using json_text_head [of v l] by (auto simp: skip_ws_def)

lemma skip_ws_close: "skip_ws (CHR '']'' # s) = CHR '']'' # s" "skip_ws (CHR ''}'' # s) = CHR ''}'' # s"
  "skip_ws (CHR '','' # s) = CHR '','' # s" "skip_ws (CHR '':'' # s) = CHR '':'' # s"
proof -
  have "\<not> is_ws CHR '']''" "\<not> is_ws CHR ''}''" "\<not> is_ws CHR '',''" "\<not> is_ws CHR '':''" by code_simp+
  then show "skip_ws (CHR '']'' # s) = CHR '']'' # s" "skip_ws (CHR ''}'' # s) = CHR ''}'' # s"
    "skip_ws (CHR '','' # s) = CHR '','' # s" "skip_ws (CHR '':'' # s) = CHR '':'' # s"
    by (simp_all add: skip_ws_id)
qed

text \<open>Reading a value that was printed, as the induction hypothesis of the containers.\<close>

definition reads :: "pyval \<Rightarrow> bool" where
  "reads v \<longleftrightarrow> (\<forall>n l rest. fuel_need v \<le> n \<longrightarrow> num_stop rest \<longrightarrow>
     read_value n (json_text l v @ rest) = Some (norm_val v, rest))"

lemma readsD: "reads v \<Longrightarrow> fuel_need v \<le> n \<Longrightarrow> num_stop rest \<Longrightarrow>
    read_value n (json_text l v @ rest) = Some (norm_val v, rest)"
  by (simp add: reads_def)

lemma read_elems_text:
  assumes "list_all reads vs" "list_all json_ok vs" "vs \<noteq> []"
    "sum_list (map (\<lambda>v. Suc (fuel_need v)) vs) \<le> n"
  shows "read_elems n (join ('','' @ nl l) (map (json_text l) vs) @ nl l' @ CHR '']'' # rest) =
    Some (map norm_val vs, rest)"
  using assms
proof (induction vs arbitrary: n)
  case (Cons v vs)
  then obtain n' where n: "n = Suc n'" by (cases n) auto
  show ?case
  proof (cases vs)
    case Nil
    then have "read_value n' (json_text l v @ nl l' @ CHR '']'' # rest) = Some (norm_val v, nl l' @ CHR '']'' # rest)"
      using Cons.prems n by (intro readsD) (auto simp: num_stop_nl)
    then show ?thesis using Nil n by (simp add: skip_ws_nl skip_ws_close)
  next
    case (Cons w ws)
    let ?tail = "join ('','' @ nl l) (map (json_text l) vs) @ nl l' @ CHR '']'' # rest"
    have rd: "read_value n' (json_text l v @ CHR '','' # nl l @ ?tail) = Some (norm_val v, CHR '','' # nl l @ ?tail)"
      using Cons.prems n by (intro readsD) (auto simp: num_stop_nl)
    have "?tail = json_text l w @ (case ws of [] \<Rightarrow> [] | _ \<Rightarrow> ('','' @ nl l) @ join ('','' @ nl l) (map (json_text l) ws))
        @ nl l' @ CHR '']'' # rest"
      using Cons by (cases ws) simp_all
    then have ws: "skip_ws (nl l @ ?tail) = ?tail"
      using Cons.prems(2) Cons skip_ws_text [of w l] by (simp add: skip_ws_nl)
    have "read_elems n' ?tail = Some (map norm_val vs, rest)"
      using Cons.IH [of n'] Cons.prems Cons n by simp
    then show ?thesis using rd ws n Cons by (simp add: skip_ws_close)
  qed
qed simp

definition member_text :: "nat \<Rightarrow> string \<times> pyval \<Rightarrow> string" where
  "member_text l kv = (case kv of (k, v) \<Rightarrow> json_str k @ '': '' @ json_text l v)"

lemma skip_ws_member: "skip_ws (member_text l kv @ s) = member_text l kv @ s"
proof -
  have "\<not> is_ws dquote" by code_simp
  then show ?thesis by (cases kv) (simp add: member_text_def json_str_def skip_ws_id)
qed

lemma skip_ws_space: "skip_ws (CHR '' '' # s) = skip_ws s"
  by (simp add: skip_ws_def is_ws_nl)

lemma read_members_text:
  assumes "list_all (\<lambda>(k, v). reads v \<and> json_ok v) kvs" "kvs \<noteq> []"
    "sum_list (map (\<lambda>(k, v). Suc (fuel_need v)) kvs) \<le> n"
  shows "read_members n (join ('','' @ nl l) (map (member_text l) kvs) @ nl l' @ CHR ''}'' # rest) =
    Some (map (\<lambda>(k, v). (k, norm_val v)) kvs, rest)"
  using assms
proof (induction kvs arbitrary: n)
  case (Cons kv kvs)
  obtain k v where kv: "kv = (k, v)" by (cases kv)
  obtain n' where n: "n = Suc n'" using Cons.prems kv by (cases n) auto
  have key: "read_json_str (member_text l kv @ s) = Some (k, '': '' @ json_text l v @ s)" for s
    using str.read_print [of k "'': '' @ json_text l v @ s"] by (simp add: kv member_text_def)
  have vtxt: "skip_ws (json_text l v @ s) = json_text l v @ s" for s
    using Cons.prems(1) kv by (simp add: skip_ws_text)
  show ?case
  proof (cases kvs)
    case Nil
    have "read_value n' (json_text l v @ nl l' @ CHR ''}'' # rest) = Some (norm_val v, nl l' @ CHR ''}'' # rest)"
      using Cons.prems n kv Nil by (intro readsD) (auto simp: num_stop_nl)
    then show ?thesis
      using Nil n kv key by (simp add: skip_ws_nl skip_ws_close skip_ws_space vtxt)
  next
    case (Cons w ws)
    let ?tail = "join ('','' @ nl l) (map (member_text l) kvs) @ nl l' @ CHR ''}'' # rest"
    have rd: "read_value n' (json_text l v @ CHR '','' # nl l @ ?tail) = Some (norm_val v, CHR '','' # nl l @ ?tail)"
      using Cons.prems n kv by (intro readsD) (auto simp: num_stop_nl)
    have "?tail = member_text l w @ (case ws of [] \<Rightarrow> [] | _ \<Rightarrow> ('','' @ nl l) @ join ('','' @ nl l) (map (member_text l) ws))
        @ nl l' @ CHR ''}'' # rest"
      using Cons by (cases ws) simp_all
    then have ws: "skip_ws (nl l @ ?tail) = ?tail"
      using skip_ws_member [of l w] by (simp add: skip_ws_nl)
    have "read_members n' ?tail = Some (map (\<lambda>(k, v). (k, norm_val v)) kvs, rest)"
      using Cons.IH [of n'] Cons.prems Cons n kv by simp
    then show ?thesis
      using rd ws n Cons kv key by (simp add: skip_ws_close skip_ws_space vtxt)
  qed
qed simp

lemma dict_put_new: "k \<notin> fst ` set d \<Longrightarrow> dict_put k v d = d @ [(k, v)]"
  by (induction d) auto

lemma dict_of_pairs_distinct: "distinct (map fst kvs) \<Longrightarrow> dict_of_pairs kvs = kvs"
proof -
  have "foldl (\<lambda>d (k, v). dict_put k v d) d kvs = d @ kvs" if "distinct (map fst (d @ kvs))" for d
    using that
  proof (induction kvs arbitrary: d)
    case (Cons kv kvs)
    then show ?case by (cases kv) (auto simp: dict_put_new)
  qed simp
  then show "distinct (map fst kvs) \<Longrightarrow> dict_of_pairs kvs = kvs"
    by (simp add: dict_of_pairs_def)
qed

lemma json_text_dict:
  "kvs \<noteq> [] \<Longrightarrow> json_text l (VDict kvs) =
     ''{'' @ nl (Suc l) @ join ('','' @ nl (Suc l)) (map (member_text (Suc l)) kvs) @ nl l @ ''}''"
  by (simp add: member_text_def [abs_def])

lemma join_head:
  assumes "vs \<noteq> []"
  obtains t where "join sep (map f vs) @ r = f (hd vs) @ t"
proof (cases "tl vs")
  case Nil
  then have "join sep (map f vs) @ r = f (hd vs) @ r" using assms by (cases vs) auto
  then show ?thesis by (rule that)
next
  case (Cons w ws)
  then have "join sep (map f vs) @ r = f (hd vs) @ sep @ join sep (map f (w # ws)) @ r"
    using assms by (cases vs) auto
  then show ?thesis by (rule that)
qed

lemma read_list_text:
  assumes "list_all reads vs" "list_all json_ok vs"
  shows "reads (VList vs)"
  unfolding reads_def
proof (intro allI impI)
  fix n l rest assume n: "fuel_need (VList vs) \<le> n" and "num_stop rest"
  then obtain n' where n': "n = Suc n'" by (cases n) auto
  show "read_value n (json_text l (VList vs) @ rest) = Some (norm_val (VList vs), rest)"
  proof (cases "vs = []")
    case True
    then show ?thesis using n' by (simp add: skip_ws_close)
  next
    case False
    let ?body = "join ('','' @ nl (Suc l)) (map (json_text (Suc l)) vs) @ nl l @ CHR '']'' # rest"
    obtain t where "?body = json_text (Suc l) (hd vs) @ t"
      by (rule join_head [OF False])
    moreover have "json_ok (hd vs)" using assms(2) False by (cases vs) auto
    ultimately obtain c r where "?body = c # r" "\<not> is_ws c" "c \<noteq> CHR '']''"
      using json_text_head [of "hd vs" "Suc l"] by auto
    then show ?thesis
      using read_elems_text [OF assms False, of n' "Suc l" l rest] n n' False
      by (simp add: skip_ws_nl skip_ws_id)
  qed
qed

lemma read_dict_text:
  assumes "list_all (\<lambda>(k, v). reads v \<and> json_ok v) kvs" "distinct (map fst kvs)"
  shows "reads (VDict kvs)"
  unfolding reads_def
proof (intro allI impI)
  fix n l rest assume n: "fuel_need (VDict kvs) \<le> n" and "num_stop rest"
  then obtain n' where n': "n = Suc n'" by (cases n) auto
  show "read_value n (json_text l (VDict kvs) @ rest) = Some (norm_val (VDict kvs), rest)"
  proof (cases "kvs = []")
    case True
    then show ?thesis using n' by (simp add: skip_ws_close dict_of_pairs_def)
  next
    case False
    let ?body = "join ('','' @ nl (Suc l)) (map (member_text (Suc l)) kvs) @ nl l @ CHR ''}'' # rest"
    obtain t where "?body = member_text (Suc l) (hd kvs) @ t"
      by (rule join_head [OF False])
    then obtain r where body: "?body = dquote # r"
      by (cases "hd kvs") (simp add: member_text_def json_str_def)
    have dq: "\<not> is_ws dquote" "dquote \<noteq> CHR ''}''" by code_simp+
    have keys: "map fst (map (\<lambda>(k, v). (k, norm_val v)) kvs) = map fst kvs" by (induction kvs) auto
    have "dict_of_pairs (map (\<lambda>(k, v). (k, norm_val v)) kvs) = map (\<lambda>(k, v). (k, norm_val v)) kvs"
      by (rule dict_of_pairs_distinct) (simp only: keys assms(2))
    then show ?thesis
      using read_members_text [OF assms(1) False, of n' "Suc l" l rest] n n' False body dq
      unfolding json_text_dict [OF False] by (simp add: skip_ws_nl skip_ws_id)
  qed
qed

lemma read_atom_value:
  assumes "is_atom v"
  shows "reads v"
  unfolding reads_def
proof (intro allI impI)
  fix n l rest assume "fuel_need v \<le> n" and stop: "num_stop rest"
  moreover have "1 \<le> fuel_need v" by (cases v) simp_all
  ultimately obtain n' where n: "n = Suc n'" by (cases n) auto
  have "json_ok v" using assms by (cases v) auto
  then obtain c cs where "json_text l v = c # cs" "c \<noteq> CHR ''[''" "c \<noteq> CHR ''{''"
    using json_text_head [of v l] assms by auto
  then show "read_value n (json_text l v @ rest) = Some (norm_val v, rest)"
    using read_atom_text [OF assms stop, of l] n by simp
qed

lemma json_ok_reads: "json_ok v \<Longrightarrow> reads v"
proof (induction v)
  case (VList vs)
  then show ?case by (intro read_list_text) (auto simp: list_all_iff)
next
  case (VDict kvs)
  then show ?case by (intro read_dict_text) (auto simp: list_all_iff)
next
  case (VObj cls t)
  then show ?case by simp
qed (simp_all add: read_atom_value)

subsection \<open>Enough fuel, and the whole text\<close>

lemma length_join: "length (join sep xs) = sum_list (map length xs) + (length xs - 1) * length sep"
  by (induction sep xs rule: join.induct) auto

lemma sum_list_Suc: "sum_list (map (\<lambda>x. Suc (f x)) xs) = length xs + sum_list (map f xs)"
  by (induction xs) auto

lemma fuel_need_length: "json_ok v \<Longrightarrow> fuel_need v \<le> length (json_text l v)"
proof (induction v arbitrary: l)
  case (VList vs)
  show ?case
  proof (cases "vs = []")
    case False
    have "sum_list (map fuel_need vs) \<le> sum_list (map (length \<circ> json_text (Suc l)) vs)"
      using VList by (intro sum_list_mono) (auto simp: list_all_iff)
    moreover have "length vs - 1 \<le> (length vs - 1) * length ('','' @ nl (Suc l))"
      by (simp add: nl_def)
    ultimately show ?thesis
      using False by (simp add: length_join sum_list_Suc nl_def)
  qed simp
next
  case (VDict kvs)
  show ?case
  proof (cases "kvs = []")
    case False
    have "sum_list (map (\<lambda>kv. fuel_need (snd kv)) kvs) \<le> sum_list (map (length \<circ> member_text (Suc l)) kvs)"
    proof (intro sum_list_mono)
      fix kv assume "kv \<in> set kvs"
      then have "fuel_need (snd kv) \<le> length (json_text (Suc l) (snd kv))"
        using VDict.IH [of kv "snd kv" "Suc l"] VDict.prems by (auto simp: list_all_iff snds.simps)
      then show "fuel_need (snd kv) \<le> (length \<circ> member_text (Suc l)) kv"
        by (cases kv) (simp add: member_text_def)
    qed
    moreover have "length kvs - 1 \<le> (length kvs - 1) * length ('','' @ nl (Suc l))"
      by (simp add: nl_def)
    ultimately show ?thesis
      using False unfolding json_text_dict [OF False]
      by (simp add: length_join sum_list_Suc nl_def case_prod_unfold)
  qed simp
next
  case (VObj cls t)
  then show ?case by simp
qed (use json_text_head in \<open>fastforce simp: Suc_le_eq\<close>)+

interpretation val: codec "json_text 0" "\<lambda>s. read_value (Suc (length s)) s" json_ok norm_val num_stop
proof unfold_locales
  show "read_value (Suc (length (json_text 0 v @ rest))) (json_text 0 v @ rest) = Some (norm_val v, rest)"
    if "json_ok v" "num_stop rest" for v rest
    using readsD [OF json_ok_reads [OF that(1)] _ that(2), of "Suc (length (json_text 0 v @ rest))" 0]
      fuel_need_length [OF that(1), of 0] by simp
qed (simp add: num_stop_def)

lemma first_some_None: "first_some xs = None \<longleftrightarrow> (\<forall>x \<in> set xs. x = None)"
  by (induction xs rule: first_some.induct) auto

lemma json_ok_no_obj: "json_ok v \<Longrightarrow> first_obj v = None"
proof (induction v)
  case (VList vs)
  then show ?case by (auto simp: first_some_None list_all_iff)
next
  case (VDict kvs)
  then show ?case by (force simp: first_some_None list_all_iff)
qed simp_all

lemma json_dumps_ok: "json_ok v \<Longrightarrow> json_dumps v = Inr (json_text 0 v)"
  by (simp add: json_dumps_def json_ok_no_obj)

lemma json_loads_text:
  assumes "json_ok v"
  shows "json_loads (json_text 0 v) = Some (norm_val v)"
proof -
  have ws: "skip_ws (json_text 0 v) = json_text 0 v" using skip_ws_text [OF assms, of 0 "[]"] by simp
  show ?thesis
    using val.read_print [OF assms val.stop_Nil] ws by (simp add: json_loads_def skip_ws_def)
qed

end
