(* ===== verification/Rs274_Json.thy ===== *)
theory Rs274_Json
  imports Rs274_Correct Json_Text
begin

text \<open>
  The JSON text of the command list, \<open>RS274Interpreter.get_command_list_jsonstr\<close>: it always
  exists, the command list can be read back from it, and no text of a script line can break
  its structure.
\<close>

section \<open>The text of the command list\<close>

definition command_list_value :: "command list \<Rightarrow> pyval" where
  "command_list_value cmds = VList (map VDict cmds)"

definition get_command_list_jsonstr :: "rs274 \<Rightarrow> (pyexn, string) result" where
  "get_command_list_jsonstr s = json_dumps (command_list_value (commands s))"

section \<open>Well-formed commands have a JSON form\<close>

lemma is_number_json_ok: "is_number v \<Longrightarrow> json_ok v"
  by (cases v) auto

lemma is_int_json_ok: "is_int v \<Longrightarrow> json_ok v"
  by (cases v) auto

lemma is_bool_json_ok: "is_bool v \<Longrightarrow> json_ok v"
  by (cases v) auto

lemma is_str_json_ok: "is_str v \<Longrightarrow> json_ok v"
  by (cases v) auto

lemmas simple_json_ok = is_number_json_ok is_int_json_ok is_bool_json_ok is_str_json_ok

lemma list_val_json_ok:
  assumes "list_val P v" "\<And>vs. P vs \<Longrightarrow> list_all json_ok vs"
  shows "json_ok v"
  using assms by (cases v) (auto simp: list_val_def)

lemma six_coords_json_ok: "six_coords vs \<Longrightarrow> list_all json_ok vs"
  by (auto simp: six_coords_def list_all_iff simple_json_ok)

lemma mode_name_json_ok: "mode_name_ok v \<Longrightarrow> json_ok v"
  by (auto simp: mode_name_ok_def)

lemma dict_json_ok:
  assumes keys: "map fst kvs = map key_name ks" "distinct ks" and vals: "list_all2 P ks (map snd kvs)"
    and P: "\<And>k v. P k v \<Longrightarrow> json_ok v"
  shows "json_ok (VDict kvs)"
proof -
  have "json_ok (snd kv)" if kv: "kv \<in> set kvs" for kv
  proof -
    obtain n where "n < length kvs" "kv = kvs ! n" using kv by (auto simp: in_set_conv_nth)
    then have "P (ks ! n) (snd kv)" using vals by (auto simp: list_all2_conv_all_nth)
    then show ?thesis by (rule P)
  qed
  then show ?thesis using keys by (auto simp: list_all_iff distinct_map inj_on_def)
qed

lemma point_value_json_ok: "point_value_ok k v \<Longrightarrow> json_ok v"
  by (cases k) (auto simp: simple_json_ok mode_name_json_ok dest: list_val_json_ok [OF _ six_coords_json_ok])

lemma group_point_json_ok: "group_point_ok v \<Longrightarrow> json_ok v"
  by (cases v) (auto simp: group_point_ok_def point_shape_def simp del: json_ok.simps map_eq_Cons_conv
      list.simps(9) intro!: dict_json_ok [OF _ _ _ point_value_json_ok, of _ point_shape, unfolded point_shape_def])

lemma value_json_ok:
  assumes "value_ok t k v"
  shows "json_ok v"
proof (cases k)
  case K_Coordinates
  with assms show ?thesis using six_coords_json_ok by (auto intro: list_val_json_ok)
next
  case K_SetZeroAxisList
  with assms show ?thesis by (auto simp: list_all_iff is_bool_json_ok intro!: list_val_json_ok [of _ v])
next
  case K_G01GroupPoints
  with assms show ?thesis
    by (auto simp: list_all_iff group_point_json_ok intro!: list_val_json_ok [of "list_all group_point_ok" v])
next
  case K_Options
  with assms show ?thesis
    by (auto simp: list_all_iff is_str_json_ok intro!: list_val_json_ok [of "list_all is_str" v])
qed (use assms in \<open>auto simp: simple_json_ok mode_name_json_ok\<close>)

lemma distinct_shape: "distinct (shape t)"
  by (cases t) simp_all

lemma command_json_ok:
  assumes "command_ok c"
  shows "json_ok (VDict c)"
proof -
  obtain t where "map fst c = map key_name (shape t)" "list_all2 (value_ok t) (shape t) (map snd c)"
    using assms by (auto simp: command_ok_def list_ex_iff has_shape_def)
  from dict_json_ok [OF this(1) distinct_shape this(2)] show ?thesis using value_json_ok by blast
qed

lemma command_list_json_ok: "list_all command_ok cmds \<Longrightarrow> json_ok (command_list_value cmds)"
  by (auto simp: command_list_value_def list_all_iff simp del: json_ok.simps(3) intro: command_json_ok)

section \<open>The characters of the text\<close>

definition text_char :: "char \<Rightarrow> bool" where
  "text_char c \<longleftrightarrow> 32 \<le> (of_char c :: nat) \<or> c = newline"

lemma digit_text_char: "is_digit c \<Longrightarrow> text_char c"
  by (simp add: is_digit_def text_char_def)

lemma lit_text_chars:
  "text_char CHR '' ''" "text_char CHR ''+''" "text_char CHR '',''" "text_char CHR ''-''" "text_char CHR ''.''"
  "text_char CHR ''0''" "text_char CHR '':''" "text_char CHR ''I''" "text_char CHR ''N''" "text_char CHR ''[''"
  "text_char CHR '']''" "text_char CHR ''a''" "text_char CHR ''b''" "text_char CHR ''e''" "text_char CHR ''f''"
  "text_char CHR ''i''" "text_char CHR ''l''" "text_char CHR ''n''" "text_char CHR ''r''" "text_char CHR ''s''"
  "text_char CHR ''t''" "text_char CHR ''u''" "text_char CHR ''y''" "text_char CHR ''{''" "text_char CHR ''}''"
  "text_char backslash" "text_char dquote" "text_char newline"
  by code_simp+

lemma nat_str_text: "list_all text_char (nat_str n)"
  using nat_str_digits [of n] by (auto simp: list_all_iff digit_text_char)

lemma text_chars_take_drop:
  "list_all text_char s \<Longrightarrow> list_all text_char (take n s)" "list_all text_char s \<Longrightarrow> list_all text_char (drop n s)"
  by (auto simp: list_all_iff dest: in_set_takeD in_set_dropD)

lemma exp_str_text: "list_all text_char (exp_str e)"
  using nat_str_text by (simp add: exp_str_def Let_def lit_text_chars)

lemma dec_str_text: "list_all text_char (dec_str c k)"
proof -
  have ds: "list_all text_char (nat_str c)" by (rule nat_str_text)
  have zs: "list_all text_char (replicate n CHR ''0'')" for n by (simp add: list_all_iff lit_text_chars)
  show ?thesis
  proof (cases "nat_str c")
    case (Cons d rest)
    then have "text_char d" "list_all text_char rest" using ds by auto
    then show ?thesis
      using zs text_chars_take_drop [OF ds] ds exp_str_text
      by (simp add: dec_str_def Let_def lit_text_chars Cons)
  qed simp
qed

lemma json_float_text: "list_all text_char (json_float f)"
proof (cases f)
  case (Dec m k)
  then show ?thesis
    using dec_str_text by (simp add: json_float_def lit_text_chars split: prod.splits)
qed (simp_all add: json_float_def lit_text_chars)

lemma hex_digit_text: "d < 16 \<Longrightarrow> text_char (hex_digit d)"
  by (simp add: text_char_def hex_digit_def)

lemma esc_char_text: "list_all text_char (esc_char c)"
proof -
  let ?n = "of_char c :: nat"
  have "list_all text_char (hex2 ?n)" by (simp add: hex2_def hex_digit_text)
  moreover have "32 \<le> ?n \<Longrightarrow> text_char c" by (simp add: text_char_def)
  ultimately show ?thesis by (simp add: esc_char_def Let_def lit_text_chars)
qed

lemma json_str_text: "list_all text_char (json_str s)"
  using esc_char_text by (auto simp: json_str_def lit_text_chars list_all_iff)

lemma nl_text: "list_all text_char (nl l)"
  by (simp add: nl_def lit_text_chars list_all_iff)

lemma join_text:
  "list_all text_char sep \<Longrightarrow> (\<And>x. x \<in> set xs \<Longrightarrow> list_all text_char x) \<Longrightarrow> list_all text_char (join sep xs)"
  by (induction sep xs rule: join.induct) auto

lemma json_text_chars: "list_all text_char (json_text l v)"
proof (induction v arbitrary: l)
  case (VList vs)
  then show ?case by (auto simp: lit_text_chars nl_text intro!: join_text)
next
  case (VDict kvs)
  have "list_all text_char (json_text l' (snd kv))" if "kv \<in> set kvs" for kv l'
    using VDict [OF that, of "snd kv"] by (simp add: snds.simps)
  then show ?case
    by (fastforce simp: lit_text_chars nl_text json_str_text intro!: join_text)
qed (simp_all add: json_float_text json_str_text int_str_def nat_str_text lit_text_chars)


section \<open>Properties of the text\<close>

lemma get_command_list_jsonstr_ok:
  assumes "group_args_ok cs"
  defines "s' \<equiv> snd (run cs RS274Interpreter_init)"
  shows "get_command_list_jsonstr s' = Inr (json_text 0 (command_list_value (get_command_list s')))"
    and "json_ok (command_list_value (get_command_list s'))"
proof -
  show ok: "json_ok (command_list_value (get_command_list s'))"
    using run_schema [OF assms(1)] by (simp add: s'_def get_command_list_def command_list_json_ok)
  then show "get_command_list_jsonstr s' = Inr (json_text 0 (command_list_value (get_command_list s')))"
    by (simp add: get_command_list_jsonstr_def json_dumps_ok get_command_list_def)
qed

text \<open>C29: after any script whose point groups were built by the \<open>Points\<close> methods, also one that
  ended in an exception, the command list has a JSON text, and reading the text back gives
  the command list again: every line text, number, flag and null survives, with floats in
  their normal form.\<close>

theorem command_list_json_round_trip:
  assumes "group_args_ok cs"
  shows "\<exists>txt'. get_command_list_jsonstr (snd (run cs RS274Interpreter_init)) = Inr txt'
    \<and> json_loads txt' =
        Some (norm_val (command_list_value (get_command_list (snd (run cs RS274Interpreter_init)))))"
  using get_command_list_jsonstr_ok [OF assms] by (simp add: json_loads_text)

text \<open>A script line whose text holds quotes and a backslash.\<close>

definition quote_script :: script where
  "quote_script = [(site 1 [dquote, backslash, squote, dquote], C_m00)]"

theorem command_list_json_round_trip_witness:
  "group_args_ok quote_script
   \<and> (\<exists>txt'. get_command_list_jsonstr (snd (run quote_script RS274Interpreter_init)) = Inr txt'
       \<and> json_loads txt' = Some (VList [VDict
           [(key_name K_CommandType, VStr (ct_name PauseCommand)), (key_name K_LineNumber, VInt 1),
            (key_name K_CommandStr, VStr [dquote, backslash, squote, dquote])]]))"
proof -
  have ok: "group_args_ok quote_script" by (simp add: group_args_ok_def quote_script_def)
  have sp: "spec_run quote_script modal_init = Some ([(site 1 [dquote, backslash, squote, dquote], A_Pause)], modal_init)"
    by (simp add: quote_script_def modal_init_def)
  have cmds: "get_command_list (snd (run quote_script RS274Interpreter_init)) =
      [[(key_name K_CommandType, VStr (ct_name PauseCommand)), (key_name K_LineNumber, VInt 1),
        (key_name K_CommandStr, VStr [dquote, backslash, squote, dquote])]]"
    by (rule run_of_spec [OF sp]) (simp_all add: quote_script_def get_command_list_def encode_at_def
        encode_def has_type_def return_self_def)
  show ?thesis
    using ok command_list_json_round_trip [OF ok] by (simp add: cmds command_list_value_def)
qed

text \<open>Two scripts with the same JSON text have the same command list, up to the normal
  form of floats: no choice of script text makes one command list look like another.\<close>

theorem command_list_json_unambiguous:
  assumes "group_args_ok cs" "group_args_ok cs'"
    "get_command_list_jsonstr (snd (run cs RS274Interpreter_init)) =
     get_command_list_jsonstr (snd (run cs' RS274Interpreter_init))"
  shows "norm_val (command_list_value (get_command_list (snd (run cs RS274Interpreter_init)))) =
    norm_val (command_list_value (get_command_list (snd (run cs' RS274Interpreter_init))))"
  using get_command_list_jsonstr_ok [OF assms(1)] get_command_list_jsonstr_ok [OF assms(2)] assms(3)
  by (intro val.print_inject) auto

text \<open>The same delay written \<open>1.0\<close> and \<open>1.00\<close> by the expression a variable stands for.\<close>

definition delay_script :: "pyfloat \<Rightarrow> script" where
  "delay_script f = [(site 1 ''i.g04(t)'', C_g04 (VFloat f))]"

theorem command_list_json_unambiguous_witness:
  "norm_val (command_list_value (get_command_list (snd (run (delay_script (Dec 1 0)) RS274Interpreter_init)))) =
   norm_val (command_list_value (get_command_list (snd (run (delay_script (Dec 100 2)) RS274Interpreter_init))))"
proof (rule command_list_json_unambiguous)
  show "group_args_ok (delay_script (Dec 1 0))" "group_args_ok (delay_script (Dec 100 2))"
    by (simp_all add: group_args_ok_def delay_script_def)
  have "float_repr (Dec 1 0) = ''1.0''" "float_repr (Dec 100 2) = ''1.0''" by code_simp+
  then have "json_float (Dec 1 0) = json_float (Dec 100 2)" by (simp add: json_float_def)
  moreover have "commands (snd (run (delay_script f) RS274Interpreter_init)) =
      [encode 1 ''i.g04(t)'' (A_Delay (VFloat f))]" if "\<not> float_lt0 f" for f
    by (rule run_of_spec [of "delay_script f" "[(site 1 ''i.g04(t)'', A_Delay (VFloat f))]" modal_init])
      (simp_all add: that delay_script_def modal_init_def encode_at_def return_self_def)
  ultimately show "get_command_list_jsonstr (snd (run (delay_script (Dec 1 0)) RS274Interpreter_init)) =
      get_command_list_jsonstr (snd (run (delay_script (Dec 100 2)) RS274Interpreter_init))"
    by (simp add: get_command_list_jsonstr_def command_list_value_def json_dumps_def encode_def has_type_def
        del: float_repr.simps)
qed

text \<open>the JSON text of a command list holds no control character but the newlines of its
  layout, whatever the script lines hold.\<close>

theorem command_list_json_no_control_chars:
  "get_command_list_jsonstr s = Inr txt' \<Longrightarrow> list_all text_char txt'"
  by (auto simp: get_command_list_jsonstr_def json_dumps_def json_text_chars split: option.splits)

theorem command_list_json_no_control_chars_witness:
  "list_all text_char ''[]''"
proof -
  have "get_command_list_jsonstr RS274Interpreter_init = Inr ''[]''"
    by (simp add: get_command_list_jsonstr_def command_list_value_def json_dumps_def)
  then show ?thesis by (rule command_list_json_no_control_chars)
qed

end
