(* ===== verification/Rs274_Errors.thy ===== *)
theory Rs274_Errors
  imports Rs274_Json
begin

text \<open>
  The error paths of the interpreter: where a script fails, what it says, and what is left
  behind; which values pass the checks although the text of the command list cannot hold
  them; and the module's own test.
\<close>

section \<open>The failing call\<close>

lemma exec_call_wf:
  assumes "wf_env (env s)" "has_source fr"
  shows "wf_env (env (snd (exec_call fr c s)))"
proof (cases "is_program_end s")
  case True
  then show ?thesis using assms by (simp add: exec_call_ended)
next
  case False
  then show ?thesis
    using exec_call_implements [OF assms(1) False assms(2), of c] by (simp add: implements_def)
qed

lemma run_wf:
  assumes "wf_env (env s)" "list_all (has_source \<circ> fst) cs"
  shows "wf_env (env (snd (run cs s)))"
  using assms
proof (induction cs arbitrary: s)
  case (Cons x cs)
  obtain fr c where x: "x = (fr, c)" by (cases x)
  obtain r s1 where st: "exec_call fr c s = (r, s1)" by (cases "exec_call fr c s")
  have "wf_env (env s1)" using exec_call_wf [OF Cons.prems(1), of fr c] Cons.prems(2) st by (simp add: x)
  then show ?case using Cons st by (cases r) (auto simp: x)
qed simp

text \<open>The text of an exception raised at a call site.\<close>

definition site_message :: "string \<Rightarrow> int \<Rightarrow> string \<Rightarrow> pyexn" where
  "site_message pre line code = InterpreterException (pre @ ''(line '' @ int_str line @ ''): '' @ code)"

lemma iexn_site_message: "has_source fr \<Longrightarrow> iexn fr pre = site_message pre (lineno fr) (caller_code fr)"
  by (simp add: iexn_source site_message_def)

lemma failing_call_site_exn:
  assumes "wf_env (env s)" "has_source fr" "exec_call fr c s = (Inl e, s')"
  shows "site_exn fr e" "commands s' = commands s"
proof -
  have "\<not> is_program_end s"
    using assms(3) exec_call_ended [of s fr c] by (auto simp: return_self_def)
  from exec_call_implements [OF assms(1) this assms(2), of c]
  show "site_exn fr e" "commands s' = commands s"
    using assms(3) by (auto simp: implements_def split: option.splits)
qed

section \<open>Settings that are missing\<close>

text \<open>What the interpreter says of the first missing setting.\<close>

definition missing_setting :: "modal \<Rightarrow> string option" where
  "missing_setting m =
     (if m_mode m = None then Some ''CoordinateMode Undefined ''
      else if m_index m = None then Some ''Coordinate Not Set ''
      else if m_feed m = None then Some ''Feed Speed Not Set''
      else None)"

text \<open>A motion call whose options or point sequence are of the right type.\<close>

fun motion_call :: "call \<Rightarrow> bool" where
  "motion_call (C_g00 _ _ _) \<longleftrightarrow> True"
| "motion_call (C_g01 _ opts) \<longleftrightarrow> options_ok opts"
| "motion_call (C_g01_group (ArgPoints _)) \<longleftrightarrow> True"
| "motion_call _ \<longleftrightarrow> False"

lemma assert_missing:
  assumes "wf_env (env s)" "mm \<noteq> MM_Undefined"
  shows "missing_setting (abs_modal (env s)) = Some msg \<Longrightarrow>
    assert_environment_valid fr (set_motion_mode mm s) = Inl (iexn fr msg)"
  using assms
  by (auto simp: missing_setting_def assert_environment_valid_def set_motion_mode_def abs_modal_def abs_index_def
      wf_env_def num_lt0_int split: if_splits)

lemma motion_call_missing:
  assumes "wf_env (env s)" "\<not> is_program_end s" "motion_call c"
    "missing_setting (abs_modal (env s)) = Some msg"
  shows "\<exists>s'. exec_call fr c s = raise (iexn fr msg) s'"
proof (cases c)
  case (C_g00 cs m05 touch)
  then show ?thesis
    using assms(2) assert_missing [OF assms(1) _ assms(4), of MM_G00 fr] by (simp add: g00_def Let_def)
next
  case (C_g01 cs opts)
  then have "check_options_arg fr opts = Inr ()" using assms(3) by (simp add: check_options_arg_Inr)
  then show ?thesis
    using assms(2) assert_missing [OF assms(1) _ assms(4), of MM_G01 fr] C_g01
    by (simp add: g01_def Let_def)
next
  case (C_g01_group arg)
  then show ?thesis
    using assms(2,3) assert_missing [OF assms(1) _ assms(4), of MM_G01 fr]
    by (cases arg) (simp_all add: g01_group_def Let_def)
qed (use assms(3) in simp_all)

section \<open>The test of the module\<close>

text \<open>\<open>_test\<close>: the calls it makes up to its \<open>return\<close>.\<close>

abbreviation "coords0 \<equiv> Coords VNone VNone VNone VNone VNone VNone"

definition self_test :: script where
  "self_test =
     [(site 700 ''        i.g54()'', C_g54),
      (site 701 ''        i.g90()'', C_g90),
      (site 702 ''        i.g01(x=1, z=2)'', C_g01 (Coords (VInt 1) VNone (VInt 2) VNone VNone VNone) (VList [])),
      (site 703 ''        i.m00()'', C_m00),
      (site 704 ''        i.g01(x=2)'', C_g01 (Coords (VInt 2) VNone VNone VNone VNone VNone) (VList [])),
      (site 705 ''        i.e(11)'', C_e (VInt 11)),
      (site 707 ''        i.f(-1)'', C_f (VInt (-1))),
      (site 708 ''        i.g00(y=1)'',
        C_g00 (Coords VNone (VInt 1) VNone VNone VNone VNone) (VBool False) (VBool False))]"

text \<open>The function prints the text of an exception and leaves the process.\<close>

datatype test_result = Returned rs274 | Exited string

definition rs274_test :: test_result where
  "rs274_test =
     (case run self_test RS274Interpreter_init of
        (Inl e, _) \<Rightarrow> Exited (''exception: '' @ exn_str e)
      | (Inr _, s) \<Rightarrow> Returned s)"

section \<open>The text of a part\<close>

text \<open>The JSON text of a list or dictionary holds the text of each of its parts.\<close>

lemma sublist_context: "sublist x t \<Longrightarrow> sublist x (pre @ t @ post)"
  unfolding sublist_def by (metis append.assoc)

lemma sublist_join: "x \<in> set xs \<Longrightarrow> sublist x (join sep xs)"
proof (induction sep xs rule: join.induct)
  case (3 sep x' y ys)
  then consider "x = x'" | "sublist x (join sep (y # ys))" by auto
  then show ?case
  proof cases
    case 2
    from sublist_context [OF this, of "x' @ sep" "[]"] show ?thesis by simp
  qed simp
qed auto

lemma json_text_list_part:
  assumes "v \<in> set vs"
  shows "sublist (json_text (Suc l) v) (json_text l (VList vs))"
proof -
  have "sublist (json_text (Suc l) v) (join ('','' @ nl (Suc l)) (map (json_text (Suc l)) vs))"
    by (rule sublist_join) (use assms in simp)
  from sublist_context [OF this, of "''['' @ nl (Suc l)" "nl l @ '']''"] assms show ?thesis by auto
qed

lemma json_text_dict_part:
  assumes "(k, v) \<in> set kvs"
  shows "sublist (json_text (Suc l) v) (json_text l (VDict kvs))"
proof -
  let ?ms = "map (\<lambda>(k, v). json_str k @ '': '' @ json_text (Suc l) v) kvs"
  have "json_str k @ '': '' @ json_text (Suc l) v \<in> set ?ms" using assms by force
  then have "sublist (json_str k @ '': '' @ json_text (Suc l) v) (join ('','' @ nl (Suc l)) ?ms)"
    by (rule sublist_join)
  moreover have "sublist (json_text (Suc l) v) (json_str k @ '': '' @ json_text (Suc l) v)"
    using sublist_context [of "json_text (Suc l) v" _ "json_str k @ '': ''" "[]"] by simp
  ultimately have "sublist (json_text (Suc l) v) (join ('','' @ nl (Suc l)) ?ms)"
    by (rule sublist_order.order.trans [rotated])
  from sublist_context [OF this, of "''{'' @ nl (Suc l)" "nl l @ ''}''"] assms show ?thesis by auto
qed

section \<open>Properties\<close>

text \<open>C38: a script that raises does so at one of its calls: the calls before it succeeded, the
  exception is an interpreter exception whose text ends with the line number and the text
  of that call, and the command list is what the calls before it issued.\<close>

theorem failing_script_names_call:
  assumes "run cs RS274Interpreter_init = (Inl e, s')" "list_all (\<lambda>(fr, c). has_source fr) cs"
  shows "\<exists>xs fr c ys s1 pre. cs = xs @ (fr, c) # ys \<and> run xs RS274Interpreter_init = return_self s1
    \<and> exec_call fr c s1 = (Inl e, s') \<and> e = site_message pre (lineno fr) (caller_code fr)
    \<and> get_command_list s' = get_command_list s1"
proof -
  obtain xs fr c ys s1 where split: "cs = xs @ (fr, c) # ys" "run xs RS274Interpreter_init = return_self s1"
    "exec_call fr c s1 = (Inl e, s')"
    using rs.runs_failing_call [OF assms(1)] by blast
  have src: "list_all (has_source \<circ> fst) xs" "has_source fr"
    using assms(2) split(1) by (auto simp: list_all_iff)
  have "wf_env (env s1)" using run_wf [of RS274Interpreter_init xs] src(1) split(2) by (simp add: return_self_def)
  from failing_call_site_exn [OF this src(2) split(3)] obtain pre where
    "e = iexn fr pre" "commands s' = commands s1" by (auto simp: site_exn_def)
  then show ?thesis
    using split iexn_site_message [OF src(2)] unfolding get_command_list_def by blast
qed

definition bad_e_script :: script where
  "bad_e_script = [(site 1 ''i.g54()'', C_g54), (site 2 ''i.e(-3)'', C_e (VInt (-3)))]"

lemma bad_e_run:
  "\<exists>s'. run bad_e_script RS274Interpreter_init =
     (Inl (site_message ''Eleparam Index (-3) Out of Range '' 2 ''i.e(-3)''), s')"
proof -
  have "int_str (- 3) = ''-3''" by code_simp
  then show ?thesis
    by (simp add: bad_e_script_def method_defs emit_def get_caller_code_source iexn_site_message
        append_command_def set_coordinate_index_def is_program_end_def RS274Interpreter_init_def Environment_init_def
        return_self_def raise_def)
qed

theorem failing_script_names_call_witness:
  "\<exists>e s' xs fr c ys s1 pre. run bad_e_script RS274Interpreter_init = (Inl e, s')
     \<and> bad_e_script = xs @ (fr, c) # ys \<and> run xs RS274Interpreter_init = return_self s1
     \<and> exec_call fr c s1 = (Inl e, s') \<and> e = site_message pre (lineno fr) (caller_code fr)
     \<and> get_command_list s' = get_command_list s1"
proof -
  obtain e s' where r: "run bad_e_script RS274Interpreter_init = (Inl e, s')" using bad_e_run by blast
  have "list_all (\<lambda>(fr, c). has_source fr) bad_e_script" by (simp add: bad_e_script_def)
  from failing_script_names_call [OF r this] r show ?thesis by blast
qed

text \<open>a motion call made while a setting is missing always fails, and the text says which
  setting is missing: the coordinate mode before the coordinate system before the feed
  speed, whatever the coordinates and flags of the call.\<close>

theorem motion_needs_settings:
  assumes "wf_env (env s)" "\<not> is_program_end s" "has_source fr" "motion_call c"
    "missing_setting (abs_modal (env s)) = Some msg"
  shows "\<exists>s'. exec_call fr c s = raise (site_message msg (lineno fr) (caller_code fr)) s'
    \<and> get_command_list s' = get_command_list s"
proof -
  obtain s' where s': "exec_call fr c s = raise (iexn fr msg) s'"
    using motion_call_missing [OF assms(1,2,4,5)] by blast
  then have "commands s' = commands s"
    using failing_call_site_exn(2) [OF assms(1,3)] by (simp add: raise_def)
  with s' show ?thesis by (simp add: iexn_site_message [OF assms(3)] get_command_list_def)
qed

theorem motion_needs_settings_witness:
  "\<exists>s'. exec_call (site 1 ''i.g00(x=[])'') (C_g00 (Coords (VList []) VNone VNone VNone VNone VNone) (VBool True) VNone)
       RS274Interpreter_init = raise (site_message ''CoordinateMode Undefined '' 1 ''i.g00(x=[])'') s'
     \<and> get_command_list s' = []"
  using motion_needs_settings [of RS274Interpreter_init "site 1 ''i.g00(x=[])''"
      "C_g00 (Coords (VList []) VNone VNone VNone VNone VNone) (VBool True) VNone" "''CoordinateMode Undefined ''"]
  by (simp add: missing_setting_def modal_init_def get_command_list_def)

text \<open>the module's own test never gets to its return: its first motion, made before any
  feed speed, is rejected, so the test prints that text and leaves with the calls after it,
  the negative feed speed among them, never made.\<close>

theorem self_test_exits_at_first_motion:
  "rs274_test = Exited (''exception: Feed Speed Not Set(line 702):         i.g01(x=1, z=2)'')"
proof -
  have "int_str 702 = ''702''" by code_simp
  then show ?thesis
    by (simp add: rs274_test_def self_test_def method_defs emit_def get_caller_code_source iexn_site_message
        append_command_def set_coordinate_index_def set_coordinate_mode_def set_motion_mode_def is_program_end_def
        RS274Interpreter_init_def Environment_init_def Let_def assert_environment_valid_def check_options_arg_def
        site_message_def return_self_def raise_def)
qed

text \<open>A delay that is not a number passes the check of \<open>g04\<close>, since no comparison with it
  holds, and the command list then has the text \<open>NaN\<close>, which is not a JSON value.\<close>

theorem nan_delay_reaches_text:
  "\<exists>s' txt'. run [(site n code, C_g04 (VFloat NaN))] RS274Interpreter_init = return_self s'
     \<and> get_command_list_jsonstr s' = Inr txt' \<and> sublist ''NaN'' txt'"
proof -
  let ?c = "encode n code (A_Delay (VFloat NaN))"
  obtain s' where s': "run [(site n code, C_g04 (VFloat NaN))] RS274Interpreter_init = return_self s'"
    "commands s' = [?c]"
    by (rule run_of_spec [of "[(site n code, C_g04 (VFloat NaN))]" "[(site n code, A_Delay (VFloat NaN))]"
          modal_init]) (simp_all add: modal_init_def encode_at_def)
  let ?v = "command_list_value (commands s')"
  have "json_ok (VDict ?c)" by (simp add: encode_def has_type_def)
  then have text': "get_command_list_jsonstr s' = Inr (json_text 0 ?v)"
    by (simp add: get_command_list_jsonstr_def s'(2) command_list_value_def json_dumps_ok)
  have "(key_name K_DelayTime, VFloat NaN) \<in> set ?c" by (simp add: encode_def)
  then have "sublist (json_text 2 (VFloat NaN)) (json_text 1 (VDict ?c))"
    using json_text_dict_part [of _ _ _ 1] by (metis Suc_1)
  also have "sublist (json_text 1 (VDict ?c)) (json_text 0 ?v)"
    using json_text_list_part [of "VDict ?c" "map VDict (commands s')" 0] by (simp add: s'(2) command_list_value_def)
  finally have "sublist ''NaN'' (json_text 0 ?v)" by (simp add: json_float_def)
  with s'(1) text' show ?thesis by blast
qed

end
