(* ===== verification/Coordinates.thy ===== *)
theory Coordinates
  imports Complex_Main Edm_Prelude "HOL-Library.Multiset"
begin

text \<open>
  Positions and coordinate systems (\<^verbatim>\<open>Src/Coordinate/Coordinate.h\<close>, \<^verbatim>\<open>CoordinateManager.cpp\<close>,
  \<^verbatim>\<open>CoordinateSystem.cpp\<close>, \<^verbatim>\<open>Src/Utils/UnitConverter/UnitConverter.h\<close>).

  There are three frames of reference: the drive (motor) frame, the machine frame, whose
  origin is the global offset found by homing, and one frame per coordinate index (G54 to
  G59), whose origin is an offset in the machine frame. An \<open>axis_t\<close> is an array of
  \<open>EDM_AXIS_NUM\<close> = 6 doubles, here a list of six real numbers: rounding and the non-finite
  values of a double are not modelled. A transform that returns \<open>false\<close> leaves its output
  argument alone; here it is \<open>None\<close>.

  The hash table of the coordinates is an association list, in its order of iteration. The order in
  which a table that was just filled gives its entries is not specified: it is an argument.
\<close>

section \<open>Positions\<close>

type_synonym unit_t = real
type_synonym axis_t = "unit_t list"

definition EDM_AXIS_NUM :: nat where "EDM_AXIS_NUM = 6"

definition is_axis :: "axis_t \<Rightarrow> bool" where
  "is_axis a \<longleftrightarrow> length a = EDM_AXIS_NUM"

text \<open>An \<open>axis_t{x}\<close> initialises the first element with \<open>x\<close> and the others with zero.\<close>

definition axis_init :: "unit_t \<Rightarrow> axis_t" where
  "axis_init x = x # replicate (EDM_AXIS_NUM - 1) 0"

definition add_axis :: "axis_t \<Rightarrow> axis_t \<Rightarrow> axis_t" where
  "add_axis a b = map2 (+) a b"

definition sub_axis :: "axis_t \<Rightarrow> axis_t \<Rightarrow> axis_t" where
  "sub_axis a b = map2 (-) a b"

lemma is_axis_ops [simp]:
  "is_axis a \<Longrightarrow> is_axis b \<Longrightarrow> is_axis (add_axis a b)"
  "is_axis a \<Longrightarrow> is_axis b \<Longrightarrow> is_axis (sub_axis a b)"
  "is_axis (axis_init x)"
  by (simp_all add: is_axis_def add_axis_def sub_axis_def axis_init_def EDM_AXIS_NUM_def)

lemma length_axis [simp]: "is_axis a \<Longrightarrow> length a = 6"
  by (simp add: is_axis_def EDM_AXIS_NUM_def)

lemma axis_ext: "is_axis a \<Longrightarrow> is_axis b \<Longrightarrow> (\<And>i. i < 6 \<Longrightarrow> a ! i = b ! i) \<Longrightarrow> a = b"
  by (simp add: list_eq_iff_nth_eq)

lemma nth_axis_ops [simp]:
  "is_axis a \<Longrightarrow> is_axis b \<Longrightarrow> i < 6 \<Longrightarrow> add_axis a b ! i = a ! i + b ! i"
  "is_axis a \<Longrightarrow> is_axis b \<Longrightarrow> i < 6 \<Longrightarrow> sub_axis a b ! i = a ! i - b ! i"
  by (simp_all add: add_axis_def sub_axis_def)

lemma axis_cancel [simp]:
  "is_axis a \<Longrightarrow> is_axis b \<Longrightarrow> sub_axis (add_axis a b) b = a"
  "is_axis a \<Longrightarrow> is_axis b \<Longrightarrow> add_axis (sub_axis a b) b = a"
  by (auto intro!: axis_ext)

subsection \<open>Units\<close>

definition EDM_BLU_PER_UM :: real where "EDM_BLU_PER_UM = 1"

definition um2blu :: "unit_t \<Rightarrow> unit_t" where "um2blu um = um * EDM_BLU_PER_UM"
definition mm2blu :: "unit_t \<Rightarrow> unit_t" where "mm2blu mm = mm * (1000 * EDM_BLU_PER_UM)"
definition blu2mm :: "unit_t \<Rightarrow> unit_t" where "blu2mm blu = blu * (1 / EDM_BLU_PER_UM * (1 / 1000))"
definition mm_min2blu_s :: "unit_t \<Rightarrow> unit_t" where
  "mm_min2blu_s v = v * (1000 / 60 * EDM_BLU_PER_UM)"

lemma blu2mm_mm2blu [simp]: "blu2mm (mm2blu x) = x" "mm2blu (blu2mm x) = x"
  by (simp_all add: blu2mm_def mm2blu_def EDM_BLU_PER_UM_def)

section \<open>Coordinates and their manager\<close>

text \<open>An argument of type \<open>uint32_t\<close> takes an \<open>int\<close> modulo \<open>2\<^sup>3\<^sup>2\<close>.\<close>

definition uint32 :: "int \<Rightarrow> int" where "uint32 n = n mod 2 ^ 32"

lemma uint32_small [simp]: "0 \<le> n \<Longrightarrow> n < 4294967296 \<Longrightarrow> uint32 n = n"
  by (simp add: uint32_def)

record coordinate =
  c_index :: int
  c_offset :: axis_t

definition get_machine_pos :: "coordinate \<Rightarrow> axis_t \<Rightarrow> axis_t" where
  "get_machine_pos c v = add_axis v (c_offset c)"

record soft_limit =
  sl_pos :: axis_t
  sl_neg :: axis_t

record coord_manager =
  global_offset :: axis_t
  coordinates_map :: "(int \<times> coordinate) list"
  soft_limits :: soft_limit

text \<open>The default constructor, with the default member initialisers of \<open>CoordSoftLimit\<close>.\<close>

definition new_CoordinateManager :: coord_manager where
  "new_CoordinateManager =
     \<lparr>global_offset = axis_init 0, coordinates_map = [],
      soft_limits = \<lparr>sl_pos = axis_init 1000000, sl_neg = axis_init (- 1000000)\<rparr>\<rparr>"

definition exist_coordinate_index :: "coord_manager \<Rightarrow> int \<Rightarrow> bool" where
  "exist_coordinate_index cm ix \<longleftrightarrow> map_of (coordinates_map cm) ix \<noteq> None"

definition get_avaiable_coord_indexes :: "coord_manager \<Rightarrow> int list" where
  "get_avaiable_coord_indexes cm = map fst (coordinates_map cm)"

definition get_coord_offset :: "coord_manager \<Rightarrow> int \<Rightarrow> axis_t option" where
  "get_coord_offset cm ix = map_option c_offset (map_of (coordinates_map cm) ix)"

definition cm_set_global_offset :: "axis_t \<Rightarrow> coord_manager \<Rightarrow> coord_manager" where
  "cm_set_global_offset a cm = cm\<lparr>global_offset := a\<rparr>"

text \<open>The entry found is changed in place.\<close>

fun put_offset :: "int \<Rightarrow> axis_t \<Rightarrow> (int \<times> coordinate) list \<Rightarrow> (int \<times> coordinate) list" where
  "put_offset ix a [] = []"
| "put_offset ix a ((k, d) # xs) =
     (if k = ix then (k, d\<lparr>c_offset := a\<rparr>) # xs else (k, d) # put_offset ix a xs)"

definition cm_set_coord_offset :: "int \<Rightarrow> axis_t \<Rightarrow> coord_manager \<Rightarrow> bool \<times> coord_manager" where
  "cm_set_coord_offset ix a cm =
     (case map_of (coordinates_map cm) ix of
        None \<Rightarrow> (False, cm)
      | Some c \<Rightarrow> (True, cm\<lparr>coordinates_map := put_offset ix a (coordinates_map cm)\<rparr>))"

definition coord_to_machine :: "coord_manager \<Rightarrow> int \<Rightarrow> axis_t \<Rightarrow> axis_t option" where
  "coord_to_machine cm ix v =
     (case map_of (coordinates_map cm) ix of None \<Rightarrow> None | Some c \<Rightarrow> Some (get_machine_pos c v))"

definition coord_to_motor :: "coord_manager \<Rightarrow> int \<Rightarrow> axis_t \<Rightarrow> axis_t option" where
  "coord_to_motor cm ix v =
     (case map_of (coordinates_map cm) ix of
        None \<Rightarrow> None | Some c \<Rightarrow> Some (add_axis (get_machine_pos c v) (global_offset cm)))"

definition motor_to_machine :: "coord_manager \<Rightarrow> axis_t \<Rightarrow> axis_t" where
  "motor_to_machine cm m = sub_axis m (global_offset cm)"

definition motor_to_coord :: "coord_manager \<Rightarrow> int \<Rightarrow> axis_t \<Rightarrow> axis_t option" where
  "motor_to_coord cm ix m =
     (case map_of (coordinates_map cm) ix of
        None \<Rightarrow> None | Some c \<Rightarrow> Some (sub_axis (sub_axis m (global_offset cm)) (c_offset c)))"

definition machine_to_motor :: "coord_manager \<Rightarrow> axis_t \<Rightarrow> axis_t" where
  "machine_to_motor cm p = add_axis p (global_offset cm)"

definition machine_to_coord :: "coord_manager \<Rightarrow> int \<Rightarrow> axis_t \<Rightarrow> axis_t option" where
  "machine_to_coord cm ix p =
     (case map_of (coordinates_map cm) ix of None \<Rightarrow> None | Some c \<Rightarrow> Some (sub_axis p (c_offset c)))"

definition cm_set_soft_limits :: "soft_limit \<Rightarrow> coord_manager \<Rightarrow> bool \<times> coord_manager" where
  "cm_set_soft_limits sl cm =
     (if list_ex (\<lambda>i. sl_pos sl ! i < sl_neg sl ! i) [0..<EDM_AXIS_NUM] then (False, cm)
      else (True, cm\<lparr>soft_limits := sl\<rparr>))"

lemmas frame_defs = coord_to_machine_def coord_to_motor_def motor_to_machine_def motor_to_coord_def
  machine_to_motor_def machine_to_coord_def get_machine_pos_def

section \<open>The coordinate system\<close>

text \<open>
  The object the panels and the runner share. \<open>saved\<close> is the manager the configuration file
  holds after a \<open>save_as\<close> (its result is ignored by every caller).
\<close>

record coord_system =
  cm :: coord_manager
  saved :: "coord_manager option"
  curr_motor_axis :: axis_t
  curr_motor_axis_act :: axis_t
  curr_machine_axis_cache :: axis_t
  curr_machine_axis_cache_act :: axis_t
  curr_coord_index :: int
  curr_coord_axis_cache :: axis_t
  curr_coord_axis_cache_act :: axis_t
  curr_using_v_offsets :: axis_t

definition save_as :: "coord_system \<Rightarrow> coord_system" where
  "save_as cs = cs\<lparr>saved := Some (cm cs)\<rparr>"

definition update_machine_axis_cache :: "coord_system \<Rightarrow> coord_system" where
  "update_machine_axis_cache cs =
     cs\<lparr>curr_machine_axis_cache := motor_to_machine (cm cs) (curr_motor_axis cs),
        curr_machine_axis_cache_act := motor_to_machine (cm cs) (curr_motor_axis_act cs)\<rparr>"

definition update_coord_axis_cache :: "coord_system \<Rightarrow> coord_system" where
  "update_coord_axis_cache cs =
     (case (motor_to_coord (cm cs) (curr_coord_index cs) (curr_motor_axis cs),
            motor_to_coord (cm cs) (curr_coord_index cs) (curr_motor_axis_act cs)) of
        (Some a, Some b) \<Rightarrow> cs\<lparr>curr_coord_axis_cache := a, curr_coord_axis_cache_act := b\<rparr>
      | _ \<Rightarrow> cs)"

definition update_motor_pos :: "axis_t \<Rightarrow> axis_t \<Rightarrow> coord_system \<Rightarrow> coord_system" where
  "update_motor_pos m act cs =
     update_coord_axis_cache (update_machine_axis_cache (cs\<lparr>curr_motor_axis := m, curr_motor_axis_act := act\<rparr>))"

definition update_current_voffsets :: "axis_t \<Rightarrow> coord_system \<Rightarrow> coord_system" where
  "update_current_voffsets v cs = cs\<lparr>curr_using_v_offsets := v\<rparr>"

definition set_coord_index :: "int \<Rightarrow> coord_system \<Rightarrow> bool \<times> coord_system" where
  "set_coord_index ix cs =
     (if exist_coordinate_index (cm cs) ix then (True, update_coord_axis_cache (cs\<lparr>curr_coord_index := ix\<rparr>))
      else (False, cs))"

definition get_coord_axis :: "int \<Rightarrow> coord_system \<Rightarrow> axis_t option" where
  "get_coord_axis ix cs =
     (if ix = curr_coord_index cs then Some (curr_coord_axis_cache cs)
      else motor_to_coord (cm cs) ix (curr_motor_axis cs))"

definition get_current_coord_offset :: "coord_system \<Rightarrow> axis_t option" where
  "get_current_coord_offset cs = get_coord_offset (cm cs) (curr_coord_index cs)"

definition set_coord_offset :: "int \<Rightarrow> axis_t \<Rightarrow> coord_system \<Rightarrow> bool \<times> coord_system" where
  "set_coord_offset ix a cs =
     (let (r, m) = cm_set_coord_offset ix a (cm cs); cs = cs\<lparr>cm := m\<rparr>
      in (r, if r then save_as cs else cs))"

definition set_current_coord_offset :: "axis_t \<Rightarrow> coord_system \<Rightarrow> bool \<times> coord_system" where
  "set_current_coord_offset a cs =
     (let (r, m) = cm_set_coord_offset (curr_coord_index cs) a (cm cs); cs = cs\<lparr>cm := m\<rparr>
      in (r, if r then save_as cs else cs))"

definition set_global_offset :: "axis_t \<Rightarrow> coord_system \<Rightarrow> coord_system" where
  "set_global_offset a cs =
     update_machine_axis_cache (save_as (cs\<lparr>cm := cm_set_global_offset a (cm cs)\<rparr>))"

definition set_soft_limits :: "soft_limit \<Rightarrow> coord_system \<Rightarrow> bool \<times> coord_system" where
  "set_soft_limits sl cs =
     (let (r, m) = cm_set_soft_limits sl (cm cs)
      in if r then (True, save_as (cs\<lparr>cm := m\<rparr>)) else (False, cs))"

text \<open>
  The constructor, on what \<open>LoadFromJsonFile\<close> returned. The build option
  \<open>EDM_INVALID_COORD_CONFIG_THROW\<close> makes a bad file an exception; otherwise the default
  coordinates are made and saved (after a backup of the bad file).
\<close>

definition default_manager :: coord_manager where
  "default_manager = new_CoordinateManager\<lparr>coordinates_map :=
     map (\<lambda>i. (i, \<lparr>c_index = i, c_offset = axis_init 0\<rparr>)) [54..59]\<rparr>"

type_synonym table_order = "(int \<times> coordinate) list \<Rightarrow> (int \<times> coordinate) list"

definition filled_table :: "table_order \<Rightarrow> (int \<times> coordinate) list \<Rightarrow> coord_manager \<Rightarrow> coord_manager" where
  "filled_table ord entries m = m\<lparr>coordinates_map := ord entries\<rparr>"

definition init_coordinate_manager ::
    "table_order \<Rightarrow> bool \<Rightarrow> coord_manager option \<Rightarrow> (string, coord_manager \<times> coord_manager option) result" where
  "init_coordinate_manager ord throw loaded =
     (case loaded of
        Some m \<Rightarrow> Inr (m, None)
      | None \<Rightarrow> if throw then Inl ''init coord from file failed''
                else let m = filled_table ord (coordinates_map default_manager) default_manager in Inr (m, Some m))"

definition new_CoordinateSystem :: "table_order \<Rightarrow> bool \<Rightarrow> coord_manager option \<Rightarrow> (string, coord_system) result" where
  "new_CoordinateSystem ord throw loaded =
     rbind (init_coordinate_manager ord throw loaded) (\<lambda>(m, stored).
       case get_avaiable_coord_indexes m of
         [] \<Rightarrow> Inl ''no avaiable_coord_indexes''
       | ix # _ \<Rightarrow> Inr (update_coord_axis_cache (update_machine_axis_cache
           \<lparr>cm = m, saved = stored, curr_motor_axis = axis_init 0, curr_motor_axis_act = axis_init 0,
            curr_machine_axis_cache = axis_init 0, curr_machine_axis_cache_act = axis_init 0,
            curr_coord_index = ix, curr_coord_axis_cache = axis_init 0,
            curr_coord_axis_cache_act = axis_init 0, curr_using_v_offsets = axis_init 0\<rparr>)))"

section \<open>Frames of reference\<close>

text \<open>
  The contract of a change of frame: a transform and its inverse, each defined exactly where
  the key (a manager and a coordinate index) has the frame. Two changes make one, by
  composition.
\<close>

locale frame_change =
  fixes good :: "'k \<Rightarrow> bool"
    and out_of :: "'k \<Rightarrow> axis_t \<Rightarrow> axis_t option"
    and into :: "'k \<Rightarrow> axis_t \<Rightarrow> axis_t option"
  assumes out_into: "good k \<Longrightarrow> is_axis a \<Longrightarrow> out_of k a = Some b \<Longrightarrow> is_axis b \<and> into k b = Some a"
    and into_out: "good k \<Longrightarrow> is_axis b \<Longrightarrow> into k b = Some a \<Longrightarrow> is_axis a \<and> out_of k a = Some b"
begin

lemma change_iff: "good k \<Longrightarrow> is_axis a \<Longrightarrow> is_axis b \<Longrightarrow> out_of k a = Some b \<longleftrightarrow> into k b = Some a"
  using out_into into_out by blast

lemma change_inj:
  assumes "good k" "is_axis a" "is_axis a'" "out_of k a = Some b" "out_of k a' = Some b"
  shows "a = a'"
  using out_into[OF assms(1,2,4)] out_into[OF assms(1,3,5)] by simp

end

locale frame_chain = a: frame_change good out1 into1 + b: frame_change good out2 into2
  for good :: "'k \<Rightarrow> bool" and out1 into1 out2 into2
begin

definition out12 :: "'k \<Rightarrow> axis_t \<Rightarrow> axis_t option" where
  "out12 k x = Option.bind (out1 k x) (out2 k)"

definition into12 :: "'k \<Rightarrow> axis_t \<Rightarrow> axis_t option" where
  "into12 k x = Option.bind (into2 k x) (into1 k)"

lemma chain_out_into:
  assumes "good k" "is_axis x" "out12 k x = Some y"
  shows "is_axis y \<and> into12 k y = Some x"
proof -
  obtain z where z: "out1 k x = Some z" "out2 k z = Some y"
    using assms(3) by (auto simp: out12_def Option.bind_eq_Some_conv)
  show ?thesis using a.out_into[OF assms(1,2) z(1)] b.out_into[OF assms(1) _ z(2)] by (simp add: into12_def)
qed

lemma chain_into_out:
  assumes "good k" "is_axis y" "into12 k y = Some x"
  shows "is_axis x \<and> out12 k x = Some y"
proof -
  obtain z where z: "into2 k y = Some z" "into1 k z = Some x"
    using assms(3) by (auto simp: into12_def Option.bind_eq_Some_conv)
  show ?thesis using b.into_out[OF assms(1,2) z(1)] a.into_out[OF assms(1) _ z(2)] by (simp add: out12_def)
qed

end

sublocale frame_chain \<subseteq> chain: frame_change good out12 into12
  by unfold_locales (blast dest: chain_out_into chain_into_out)+

text \<open>The well-formed managers.\<close>

definition limits_ok :: "soft_limit \<Rightarrow> bool" where
  "limits_ok sl \<longleftrightarrow> is_axis (sl_pos sl) \<and> is_axis (sl_neg sl) \<and> (\<forall>i<6. sl_neg sl ! i \<le> sl_pos sl ! i)"

definition cm_ok :: "coord_manager \<Rightarrow> bool" where
  "cm_ok m \<longleftrightarrow> is_axis (global_offset m) \<and> distinct (map fst (coordinates_map m))
     \<and> list_all (\<lambda>(_, c). is_axis (c_offset c)) (coordinates_map m) \<and> limits_ok (soft_limits m)"

lemma default_manager_ok: "cm_ok default_manager"
  by (auto simp: cm_ok_def default_manager_def new_CoordinateManager_def limits_ok_def axis_init_def
      less_Suc_eq numeral_eq_Suc o_def list_all_iff is_axis_def EDM_AXIS_NUM_def)

text \<open>Only the order of the entries is the table's own.\<close>

definition reorders :: "table_order \<Rightarrow> bool" where
  "reorders ord \<longleftrightarrow> (\<forall>xs. mset (ord xs) = mset xs)"

lemma reorders_id [simp]: "reorders (\<lambda>xs. xs)"
  by (simp add: reorders_def)

lemma reorders_facts:
  assumes "reorders ord"
  shows "set (ord xs) = set xs" "distinct (map fst (ord xs)) = distinct (map fst xs)" "ord xs = [] \<longleftrightarrow> xs = []"
proof -
  have m: "mset (ord xs) = mset xs" using assms by (simp add: reorders_def)
  show "set (ord xs) = set xs" using m by (metis set_mset_mset)
  have "mset (map fst (ord xs)) = mset (map fst xs)" using m by simp
  then show "distinct (map fst (ord xs)) = distinct (map fst xs)" by (metis mset_eq_imp_distinct_iff)
  show "ord xs = [] \<longleftrightarrow> xs = []" using m by (metis mset_zero_iff)
qed

lemma filled_table_ok: "reorders ord \<Longrightarrow> cm_ok (m\<lparr>coordinates_map := entries\<rparr>) \<Longrightarrow> cm_ok (filled_table ord entries m)"
  using reorders_facts[of ord entries] by (simp add: cm_ok_def filled_table_def list_all_iff)

lemma cm_ok_offset: "cm_ok m \<Longrightarrow> map_of (coordinates_map m) ix = Some c \<Longrightarrow> is_axis (c_offset c)"
  by (auto simp: cm_ok_def list_all_iff dest!: map_of_SomeD)

lemma cm_ok_global [simp]: "cm_ok m \<Longrightarrow> is_axis (global_offset m)"
  by (simp add: cm_ok_def)

lemma coord_machine_inverse:
  assumes "cm_ok m" "is_axis a"
  shows "coord_to_machine m ix a = Some b \<Longrightarrow> is_axis b \<and> machine_to_coord m ix b = Some a"
    and "machine_to_coord m ix a = Some b \<Longrightarrow> is_axis b \<and> coord_to_machine m ix b = Some a"
  using assms cm_ok_offset[of m ix] by (auto simp: frame_defs split: option.splits)

interpretation work: frame_change "\<lambda>(m, ix). cm_ok m" "\<lambda>(m, ix). coord_to_machine m ix" "\<lambda>(m, ix). machine_to_coord m ix"
  by unfold_locales (auto dest: coord_machine_inverse)

interpretation drive: frame_change "\<lambda>(m, ix). cm_ok m" "\<lambda>(m, ix) p. Some (machine_to_motor m p)"
    "\<lambda>(m, ix) p. Some (motor_to_machine m p)"
  by unfold_locales (auto simp: frame_defs)

interpretation work_drive: frame_chain "\<lambda>(m, ix). cm_ok m" "\<lambda>(m, ix). coord_to_machine m ix"
    "\<lambda>(m, ix). machine_to_coord m ix" "\<lambda>(m, ix) p. Some (machine_to_motor m p)"
    "\<lambda>(m, ix) p. Some (motor_to_machine m p)"
  by unfold_locales

lemma coord_to_motor_chain: "work_drive.out12 (m, ix) v = coord_to_motor m ix v"
  unfolding work_drive.out12_def by (auto simp: frame_defs split: option.splits)

lemma motor_to_coord_chain: "work_drive.into12 (m, ix) p = motor_to_coord m ix p"
  unfolding work_drive.into12_def by (auto simp: frame_defs split: option.splits)

text \<open>The three frames agree: for a well-formed manager, a work position of six coordinates goes
  to a drive position if and only if its index exists, and that drive position goes back to
  exactly the same work position; the direct transforms between work and drive frame are the
  compositions through the machine frame.\<close>

theorem frames_round_trip:
  assumes "cm_ok m" and "is_axis v"
  shows "exist_coordinate_index m ix \<longleftrightarrow>
      (\<exists>p. coord_to_motor m ix v = Some p \<and> motor_to_coord m ix p = Some v
         \<and> coord_to_machine m ix v = Some (motor_to_machine m p)
         \<and> machine_to_coord m ix (motor_to_machine m p) = Some v
         \<and> machine_to_motor m (motor_to_machine m p) = p)"
proof
  assume "exist_coordinate_index m ix"
  then obtain p where p: "coord_to_motor m ix v = Some p"
    by (auto simp: exist_coordinate_index_def coord_to_motor_def)
  have p_axis: "is_axis p" and back_to: "motor_to_coord m ix p = Some v"
    using work_drive.chain_out_into[of "(m, ix)" v p] assms p
    by (simp_all add: coord_to_motor_chain motor_to_coord_chain)
  have mach: "is_axis (motor_to_machine m p)" and again: "machine_to_motor m (motor_to_machine m p) = p"
    using drive.into_out[of "(m, ix)" p] assms(1) p_axis by simp_all
  have down: "machine_to_coord m ix (motor_to_machine m p) = Some v"
    using back_to by (auto simp: frame_defs split: option.splits)
  then have "coord_to_machine m ix v = Some (motor_to_machine m p)"
    using work.into_out[of "(m, ix)"] assms(1) mach by simp
  then show "\<exists>p. coord_to_motor m ix v = Some p \<and> motor_to_coord m ix p = Some v
         \<and> coord_to_machine m ix v = Some (motor_to_machine m p)
         \<and> machine_to_coord m ix (motor_to_machine m p) = Some v
         \<and> machine_to_motor m (motor_to_machine m p) = p"
    using p back_to down again by blast
qed (auto simp: exist_coordinate_index_def coord_to_motor_def split: option.splits)

theorem frames_round_trip_witness:
  "\<exists>p. coord_to_motor default_manager 55 [1, 2, 3, 4, 5, 6] = Some p
     \<and> motor_to_coord default_manager 55 p = Some [1, 2, 3, 4, 5, 6]"
proof -
  have "exist_coordinate_index default_manager 55"
    by (simp add: exist_coordinate_index_def default_manager_def upto_rec_numeral)
  then show ?thesis
    using frames_round_trip[OF default_manager_ok, of "[1, 2, 3, 4, 5, 6]" 55]
    by (auto simp: is_axis_def EDM_AXIS_NUM_def)
qed

section \<open>Invariants of the coordinate system\<close>

text \<open>The operations the application calls, and the systems they reach from a constructed one.\<close>

inductive cs_step :: "coord_system \<Rightarrow> coord_system \<Rightarrow> bool" where
  "is_axis m \<Longrightarrow> is_axis act \<Longrightarrow> cs_step cs (update_motor_pos m act cs)"
| "cs_step cs (update_current_voffsets v cs)"
| "cs_step cs (snd (set_coord_index ix cs))"
| "is_axis a \<Longrightarrow> cs_step cs (snd (set_coord_offset ix a cs))"
| "is_axis a \<Longrightarrow> cs_step cs (snd (set_current_coord_offset a cs))"
| "is_axis a \<Longrightarrow> cs_step cs (set_global_offset a cs)"
| "is_axis (sl_pos sl) \<Longrightarrow> is_axis (sl_neg sl) \<Longrightarrow> cs_step cs (snd (set_soft_limits sl cs))"

inductive cs_reach :: "coord_system \<Rightarrow> bool" where
  made: "reorders ord \<Longrightarrow> new_CoordinateSystem ord throw loaded = Inr cs \<Longrightarrow> (\<And>m. loaded = Some m \<Longrightarrow> cm_ok m) \<Longrightarrow> cs_reach cs"
| used: "cs_reach cs \<Longrightarrow> cs_step cs cs' \<Longrightarrow> cs_reach cs'"

definition cs_inv :: "coord_system \<Rightarrow> bool" where
  "cs_inv cs \<longleftrightarrow> cm_ok (cm cs) \<and> exist_coordinate_index (cm cs) (curr_coord_index cs)
     \<and> is_axis (curr_motor_axis cs) \<and> is_axis (curr_motor_axis_act cs)"

definition caches_fresh :: "coord_system \<Rightarrow> bool" where
  "caches_fresh cs \<longleftrightarrow>
     curr_machine_axis_cache cs = motor_to_machine (cm cs) (curr_motor_axis cs)
   \<and> curr_machine_axis_cache_act cs = motor_to_machine (cm cs) (curr_motor_axis_act cs)
   \<and> motor_to_coord (cm cs) (curr_coord_index cs) (curr_motor_axis cs) = Some (curr_coord_axis_cache cs)
   \<and> motor_to_coord (cm cs) (curr_coord_index cs) (curr_motor_axis_act cs) = Some (curr_coord_axis_cache_act cs)"

lemma update_cache_fields [simp]:
  "cm (update_coord_axis_cache cs) = cm cs" "curr_coord_index (update_coord_axis_cache cs) = curr_coord_index cs"
  "curr_motor_axis (update_coord_axis_cache cs) = curr_motor_axis cs"
  "curr_motor_axis_act (update_coord_axis_cache cs) = curr_motor_axis_act cs"
  "curr_machine_axis_cache (update_coord_axis_cache cs) = curr_machine_axis_cache cs"
  "curr_machine_axis_cache_act (update_coord_axis_cache cs) = curr_machine_axis_cache_act cs"
  "cm (update_machine_axis_cache cs) = cm cs" "curr_coord_index (update_machine_axis_cache cs) = curr_coord_index cs"
  "curr_motor_axis (update_machine_axis_cache cs) = curr_motor_axis cs"
  "curr_motor_axis_act (update_machine_axis_cache cs) = curr_motor_axis_act cs"
  by (simp_all add: update_coord_axis_cache_def update_machine_axis_cache_def split: option.splits)

lemma update_coord_fresh:
  "exist_coordinate_index (cm cs) (curr_coord_index cs) \<Longrightarrow>
   motor_to_coord (cm cs) (curr_coord_index cs) (curr_motor_axis cs) = Some (curr_coord_axis_cache (update_coord_axis_cache cs))
   \<and> motor_to_coord (cm cs) (curr_coord_index cs) (curr_motor_axis_act cs) = Some (curr_coord_axis_cache_act (update_coord_axis_cache cs))"
  by (auto simp: update_coord_axis_cache_def exist_coordinate_index_def motor_to_coord_def)

lemma update_both_fresh:
  assumes "exist_coordinate_index (cm cs) (curr_coord_index cs)"
  shows "caches_fresh (update_coord_axis_cache (update_machine_axis_cache cs))"
  using update_coord_fresh[of "update_machine_axis_cache cs"] assms
  by (auto simp: caches_fresh_def) (simp_all add: update_machine_axis_cache_def)

lemma exist_other_fields [simp]:
  "exist_coordinate_index (m\<lparr>global_offset := a\<rparr>) ix = exist_coordinate_index m ix"
  "exist_coordinate_index (m\<lparr>soft_limits := sl\<rparr>) ix = exist_coordinate_index m ix"
  by (simp_all add: exist_coordinate_index_def)

lemma put_offset_lemmas [simp]:
  "map fst (put_offset ix a xs) = map fst xs"
  "map_of (put_offset ix a xs) j =
   (if j = ix then map_option (c_offset_update (\<lambda>_. a)) (map_of xs j) else map_of xs j)"
  by (induction xs) auto

lemma put_offset_axes:
  "list_all (\<lambda>(_, c). is_axis (c_offset c)) xs \<Longrightarrow> is_axis a \<Longrightarrow>
   list_all (\<lambda>(_, c). is_axis (c_offset c)) (put_offset ix a xs)"
  by (induction xs) auto

lemma cm_set_coord_offset_ok:
  assumes "cm_set_coord_offset ix a m = (r, m')"
  shows "cm_ok m \<Longrightarrow> is_axis a \<Longrightarrow> cm_ok m'"
    and "exist_coordinate_index m' j = exist_coordinate_index m j"
    and "get_coord_offset m' j = (if j = ix \<and> r then Some a else get_coord_offset m j)"
    and "r = exist_coordinate_index m ix"
  using assms
  by (auto simp: cm_set_coord_offset_def cm_ok_def put_offset_axes exist_coordinate_index_def get_coord_offset_def
      split: option.splits if_splits)

lemma new_CoordinateSystem_inv:
  assumes "reorders ord" "new_CoordinateSystem ord throw loaded = Inr cs" "\<And>m. loaded = Some m \<Longrightarrow> cm_ok m"
  shows "cs_inv cs \<and> caches_fresh cs"
proof -
  obtain m stored where m: "init_coordinate_manager ord throw loaded = Inr (m, stored)"
    using assms(2) by (auto simp: new_CoordinateSystem_def rbind_Inr_iff)
  have ok: "cm_ok m" using m assms(3) filled_table_ok[OF assms(1), where m = default_manager and entries = "coordinates_map default_manager"] default_manager_ok
    by (auto simp: init_coordinate_manager_def Let_def split: option.splits if_splits)
  obtain ix rest where ix: "get_avaiable_coord_indexes m = ix # rest"
    using assms(2) m by (auto simp: new_CoordinateSystem_def split: list.splits)
  let ?c = "\<lparr>cm = m, saved = stored, curr_motor_axis = axis_init 0, curr_motor_axis_act = axis_init 0,
            curr_machine_axis_cache = axis_init 0, curr_machine_axis_cache_act = axis_init 0,
            curr_coord_index = ix, curr_coord_axis_cache = axis_init 0,
            curr_coord_axis_cache_act = axis_init 0, curr_using_v_offsets = axis_init 0\<rparr>"
  have cs: "cs = update_coord_axis_cache (update_machine_axis_cache ?c)" using assms(2) m ix by (simp add: new_CoordinateSystem_def)
  have ex: "exist_coordinate_index m ix" using ix
    by (auto simp: exist_coordinate_index_def get_avaiable_coord_indexes_def map_of_eq_None_iff)
  have "caches_fresh cs" unfolding cs by (rule update_both_fresh) (simp add: ex)
  moreover have "cs_inv cs" using ok ex by (simp add: cs cs_inv_def)
  ultimately show ?thesis by simp
qed

lemma cs_inv_new_manager:
  "cs_inv cs \<Longrightarrow> cm_ok m \<Longrightarrow> exist_coordinate_index m (curr_coord_index cs) \<Longrightarrow> cs_inv (save_as (cs\<lparr>cm := m\<rparr>))"
  by (simp add: cs_inv_def save_as_def)

lemma set_coord_offset_inv:
  assumes "cs_inv cs" "is_axis a"
  shows "cs_inv (snd (set_coord_offset ix a cs))"
proof -
  obtain r m where m: "cm_set_coord_offset ix a (cm cs) = (r, m)" by (cases "cm_set_coord_offset ix a (cm cs)")
  have ok: "cm_ok m" "exist_coordinate_index m (curr_coord_index cs)"
    using cm_set_coord_offset_ok(1,2)[OF m] assms by (simp_all add: cs_inv_def)
  show ?thesis
  proof (cases r)
    case True
    then show ?thesis using m assms ok by (simp add: set_coord_offset_def cs_inv_new_manager)
  next
    case False
    then show ?thesis using m assms ok by (simp add: set_coord_offset_def cs_inv_def)
  qed
qed

lemma set_current_coord_offset_same:
  "set_current_coord_offset a cs = set_coord_offset (curr_coord_index cs) a cs"
  by (simp add: set_current_coord_offset_def set_coord_offset_def)

lemma set_soft_limits_inv:
  "cs_inv cs \<Longrightarrow> is_axis (sl_pos sl) \<Longrightarrow> is_axis (sl_neg sl) \<Longrightarrow> cs_inv (snd (set_soft_limits sl cs))"
  by (simp add: set_soft_limits_def cm_set_soft_limits_def list_ex_iff EDM_AXIS_NUM_def not_less)
     (simp add: cs_inv_def save_as_def cm_ok_def limits_ok_def)

lemma set_global_offset_inv: "cs_inv cs \<Longrightarrow> is_axis a \<Longrightarrow> cs_inv (set_global_offset a cs)"
  by (simp add: set_global_offset_def cm_set_global_offset_def cs_inv_def save_as_def cm_ok_def)

lemma set_coord_index_inv: "cs_inv cs \<Longrightarrow> cs_inv (snd (set_coord_index ix cs))"
  by (simp add: set_coord_index_def cs_inv_def)

lemma cs_step_inv: "cs_step cs cs' \<Longrightarrow> cs_inv cs \<Longrightarrow> cs_inv cs'"
  by (induction rule: cs_step.induct)
     (simp_all add: set_coord_offset_inv set_current_coord_offset_same set_soft_limits_inv set_global_offset_inv
       set_coord_index_inv, simp_all add: cs_inv_def update_motor_pos_def update_current_voffsets_def)

lemma cs_reach_inv: "cs_reach cs \<Longrightarrow> cs_inv cs"
proof (induction rule: cs_reach.induct)
  case (made ord throw loaded cs)
  then show ?case using new_CoordinateSystem_inv by blast
qed (rule cs_step_inv)

lemma update_motor_pos_fresh: "cs_inv cs \<Longrightarrow> caches_fresh (update_motor_pos m act cs)"
  unfolding update_motor_pos_def by (rule update_both_fresh) (simp add: cs_inv_def)

lemma current_offset_exists: "cs_inv cs \<Longrightarrow> \<exists>off. get_current_coord_offset cs = Some off \<and> is_axis off"
  using cm_ok_offset[of "cm cs" "curr_coord_index cs"]
  by (auto simp: cs_inv_def get_current_coord_offset_def get_coord_offset_def exist_coordinate_index_def)

text \<open>C23: However the application uses the coordinate system after it was constructed (from a
  well-formed file, or from the defaults), the current index always names an existing
  coordinate, the soft limits stay ordered, and each update of the motor position leaves every
  cached position equal to the transform of that motor position, so that \<open>get_coord_axis\<close> agrees
  with \<open>motor_to_coord\<close> for every index.\<close>

theorem coordinate_system_invariant:
  assumes "cs_reach cs" and "is_axis m" and "is_axis act"
  shows "(\<exists>off. get_current_coord_offset cs = Some off \<and> is_axis off)
    \<and> (\<forall>i<6. sl_neg (soft_limits (cm cs)) ! i \<le> sl_pos (soft_limits (cm cs)) ! i)
    \<and> cs_reach (update_motor_pos m act cs) \<and> caches_fresh (update_motor_pos m act cs)
    \<and> get_coord_axis ix (update_motor_pos m act cs) = motor_to_coord (cm cs) ix m"
proof (intro conjI)
  note inv = cs_reach_inv[OF assms(1)]
  show "\<exists>off. get_current_coord_offset cs = Some off \<and> is_axis off"
    by (rule current_offset_exists[OF inv])
  show "\<forall>i<6. sl_neg (soft_limits (cm cs)) ! i \<le> sl_pos (soft_limits (cm cs)) ! i"
    using inv by (simp add: cs_inv_def cm_ok_def limits_ok_def)
  show "cs_reach (update_motor_pos m act cs)" using assms by (blast intro: used cs_step.intros(1))
  show fresh: "caches_fresh (update_motor_pos m act cs)" by (rule update_motor_pos_fresh[OF inv])
  show "get_coord_axis ix (update_motor_pos m act cs) = motor_to_coord (cm cs) ix m"
    using fresh by (auto simp: get_coord_axis_def caches_fresh_def update_motor_pos_def)
qed

theorem coordinate_system_invariant_witness:
  "\<exists>cs. new_CoordinateSystem (\<lambda>xs. xs) False None = Inr cs
     \<and> get_coord_axis 55 (update_motor_pos [7, 0, 0, 0, 0, 0] [7, 0, 0, 0, 0, 0] cs) = Some [7, 0, 0, 0, 0, 0]"
proof -
  obtain cs where cs: "new_CoordinateSystem (\<lambda>xs. xs) False None = Inr cs" "cm cs = default_manager"
    by (simp add: new_CoordinateSystem_def init_coordinate_manager_def filled_table_def default_manager_def Let_def
        get_avaiable_coord_indexes_def upto_rec_numeral)
  have "cs_reach cs" by (rule made[OF reorders_id cs(1)]) simp
  moreover have "is_axis [7, 0, 0, 0, 0, 0]" by (simp add: is_axis_def EDM_AXIS_NUM_def)
  ultimately have "get_coord_axis 55 (update_motor_pos [7, 0, 0, 0, 0, 0] [7, 0, 0, 0, 0, 0] cs)
      = motor_to_coord default_manager 55 [7, 0, 0, 0, 0, 0]"
    using coordinate_system_invariant[of cs _ _ 55] cs(2) by metis
  also have "\<dots> = Some [7, 0, 0, 0, 0, 0]"
    by (simp add: motor_to_coord_def default_manager_def new_CoordinateManager_def upto_rec_numeral sub_axis_def
        axis_init_def EDM_AXIS_NUM_def numeral_eq_Suc)
  finally show ?thesis using cs(1) by blast
qed

end
