(* ===== verification/Motion_Base.thy ===== *)
theory Motion_Base
  imports Coordinates
begin

text \<open>
  What the runner and the motion thread share: the vectors of \<^verbatim>\<open>Src/Motion/MotionUtils/MotionUtils.h\<close>,
  the speed parameters of a planned move (\<^verbatim>\<open>MoveRuntimePlanSpeedInput\<close> of \<^verbatim>\<open>Src/Motion/Moveruntime/Moveruntime.h\<close>),
  and the contract of a component that is stepped once in every cycle until it is over.
\<close>

section \<open>Vectors\<close>

definition CalcAxisLength :: "axis_t \<Rightarrow> unit_t" where
  "CalcAxisLength a = sqrt (sum_list (map (\<lambda>x. x * x) a))"

definition CalcAxisVector :: "axis_t \<Rightarrow> axis_t \<Rightarrow> axis_t" where
  "CalcAxisVector p q = sub_axis q p"

definition ScaleAxis :: "axis_t \<Rightarrow> unit_t \<Rightarrow> axis_t" where
  "ScaleAxis a k = map (\<lambda>x. x * k) a"

definition CalcAxisUnitVector :: "axis_t \<Rightarrow> axis_t \<Rightarrow> axis_t" where
  "CalcAxisUnitVector p q =
     (let v = sub_axis q p in ScaleAxis v (1 / CalcAxisLength v))"

definition IsAxisTheSame :: "axis_t \<Rightarrow> axis_t \<Rightarrow> bool" where
  "IsAxisTheSame a b \<longleftrightarrow> a = b"

lemma unit_vector_axis [simp]: "is_axis s \<Longrightarrow> is_axis t \<Longrightarrow> is_axis (CalcAxisUnitVector s t)"
  by (simp add: CalcAxisUnitVector_def ScaleAxis_def is_axis_def sub_axis_def Let_def)

lemma sum_squares_pos:
  fixes v :: axis_t
  assumes "x \<in> set v" "x \<noteq> 0"
  shows "0 < sum_list (map (\<lambda>x. x * x) v)"
proof -
  have nonneg: "0 \<le> sum_list (map (\<lambda>x::real. x * x) ys)" for ys by (induction ys) auto
  have "0 < x * x" using assms(2) not_real_square_gt_zero by blast
  with assms(1) show ?thesis
    by (induction v) (auto intro: add_pos_nonneg add_nonneg_pos nonneg)
qed

text \<open>The direction has the sign of the displacement on every axis, and scales back to it.\<close>

lemma unit_vector_nth:
  assumes "is_axis s" "is_axis t" "s \<noteq> t" "i < 6"
  obtains l where "0 < l" "l = CalcAxisLength (sub_axis t s)" "CalcAxisUnitVector s t ! i = (t ! i - s ! i) / l"
proof -
  let ?v = "sub_axis t s"
  obtain j where j: "j < 6" "t ! j \<noteq> s ! j" using assms by (auto simp: list_eq_iff_nth_eq)
  have "?v ! j \<in> set ?v" using assms j by (intro nth_mem) (simp add: sub_axis_def)
  then have "0 < sum_list (map (\<lambda>x. x * x) ?v)" using assms j by (intro sum_squares_pos[of "?v ! j"]) auto
  then have "0 < CalcAxisLength ?v" by (simp add: CalcAxisLength_def)
  moreover have "CalcAxisUnitVector s t ! i = (t ! i - s ! i) / CalcAxisLength ?v"
    using assms by (simp add: CalcAxisUnitVector_def ScaleAxis_def Let_def)
  ultimately show ?thesis using that by blast
qed

lemma unit_vector_sign:
  assumes "is_axis s" "is_axis t" "s \<noteq> t" "i < 6"
  shows "0 < CalcAxisUnitVector s t ! i \<longleftrightarrow> s ! i < t ! i"
    and "CalcAxisUnitVector s t ! i < 0 \<longleftrightarrow> t ! i < s ! i"
    and "CalcAxisUnitVector s t ! i = 0 \<longleftrightarrow> t ! i = s ! i"
proof -
  obtain l where l: "0 < l" "CalcAxisUnitVector s t ! i = (t ! i - s ! i) / l"
    using unit_vector_nth[OF assms] by metis
  then show "0 < CalcAxisUnitVector s t ! i \<longleftrightarrow> s ! i < t ! i"
    "CalcAxisUnitVector s t ! i < 0 \<longleftrightarrow> t ! i < s ! i"
    "CalcAxisUnitVector s t ! i = 0 \<longleftrightarrow> t ! i = s ! i"
    by (simp_all add: zero_less_divide_iff divide_less_0_iff)
qed

section \<open>Speed parameters\<close>

record speed_param =
  nacc :: int
  acc0 :: real
  dec0 :: real
  entry_v :: real
  exit_v :: real
  cruise_v :: real

section \<open>Modes of the motion thread\<close>

datatype main_mode = MM_Idle | MM_Manual | MM_Auto

datatype auto_state = NormalMoving | Pausing | AutoPaused | Resuming | Stopping | AutoStopped

section \<open>Components stepped until they are over\<close>

text \<open>
  The motion thread calls the \<open>run_once\<close> of a component in every cycle. A provider gives an
  invariant and a bound on the calls left; the client gets that the component is over after at
  most that many calls, and not before the call that ends it.
\<close>

locale eventually_over =
  fixes step :: "'s \<Rightarrow> 's" and over :: "'s \<Rightarrow> bool" and inv :: "'s \<Rightarrow> bool" and closer :: "('s \<times> 's) set"
  assumes wf_closer: "wf closer"
    and step_inv: "inv s \<Longrightarrow> \<not> over s \<Longrightarrow> inv (step s)"
    and step_closer: "inv s \<Longrightarrow> \<not> over s \<Longrightarrow> over (step s) \<or> (step s, s) \<in> closer"
begin

lemma eventually:
  "inv s \<Longrightarrow> \<exists>k. over ((step ^^ k) s) \<and> inv ((step ^^ k) s) \<and> (\<forall>j<k. \<not> over ((step ^^ j) s))"
proof (induction s rule: wf_induct_rule[OF wf_closer])
  case (1 s)
  show ?case
  proof (cases "over s")
    case True
    then show ?thesis using 1(2) by (intro exI[of _ 0]) simp
  next
    case False
    then have i: "inv (step s)" using step_inv 1(2) by blast
    have "\<exists>k. over ((step ^^ k) (step s)) \<and> inv ((step ^^ k) (step s)) \<and> (\<forall>j<k. \<not> over ((step ^^ j) (step s)))"
    proof (cases "over (step s)")
      case True
      then show ?thesis using i by (intro exI[of _ 0]) simp
    next
      case nover: False
      then show ?thesis using step_closer 1 False i by blast
    qed
    then obtain k where k: "over ((step ^^ k) (step s))" "inv ((step ^^ k) (step s))" "\<forall>j<k. \<not> over ((step ^^ j) (step s))"
      by blast
    have "\<not> over ((step ^^ j) s)" if "j < Suc k" for j
      using that k(3) False by (cases j) (simp_all add: funpow_swap1)
    then show ?thesis using k by (intro exI[of _ "Suc k"]) (simp add: funpow_swap1)
  qed
qed

end

text \<open>With a number for the calls left, also how many calls it takes.\<close>

locale stepped =
  fixes step :: "'s \<Rightarrow> 's" and over :: "'s \<Rightarrow> bool" and inv :: "'s \<Rightarrow> bool" and left :: "'s \<Rightarrow> nat"
  assumes inv_step: "inv s \<Longrightarrow> \<not> over s \<Longrightarrow> inv (step s)"
    and left_step: "inv s \<Longrightarrow> \<not> over s \<Longrightarrow> over (step s) \<or> left (step s) < left s"

sublocale stepped \<subseteq> eventually_over step over inv "measure left"
  by unfold_locales (use inv_step left_step in auto)

context stepped
begin

lemma left_bound: "inv s \<Longrightarrow> \<forall>j<k. \<not> over ((step ^^ j) s) \<Longrightarrow> j < k \<Longrightarrow> inv ((step ^^ j) s) \<and> left ((step ^^ j) s) + j \<le> left s"
proof (induction j)
  case (Suc j)
  then have i: "inv ((step ^^ j) s)" "\<not> over ((step ^^ j) s)" "\<not> over ((step ^^ Suc j) s)" by auto
  then show ?case using inv_step[OF i(1,2)] left_step[OF i(1,2)] Suc by simp
qed simp

lemma over_eventually:
  assumes "inv s"
  shows "\<exists>k \<le> Suc (left s). over ((step ^^ k) s) \<and> inv ((step ^^ k) s) \<and> (\<forall>j<k. \<not> over ((step ^^ j) s))"
proof -
  obtain k where k: "over ((step ^^ k) s)" "inv ((step ^^ k) s)" "\<forall>j<k. \<not> over ((step ^^ j) s)"
    using eventually[OF assms] by blast
  have "k \<le> Suc (left s)"
  proof (cases k)
    case (Suc j)
    then show ?thesis using left_bound[OF assms k(3), of j] by simp
  qed simp
  then show ?thesis using k by blast
qed

end

end
