(* ===== verification/Move_Runtime.thy ===== *)
theory Move_Runtime
  imports Motion_Base
begin

text \<open>
  The S-curve planner of one straight stretch (\<^verbatim>\<open>Src/Motion/Moveruntime/Moveruntime.cpp\<close>): \<open>plan\<close>
  chooses the number of cycles of the seven phases of the speed and the increments of the
  acceleration, \<open>run_once\<close> gives the distance of one cycle.

  A double is a real number here and an \<open>int32_t\<close> an unbounded integer: rounding, and the
  conversion of a double that is not finite or too large, are not modelled. The local variables
  of \<open>plan\<close> that the code declares without a value start with arbitrary ones, the argument
  \<open>u\<close>. \<open>T\<close> is the time of a cycle in seconds, read once from the settings.
\<close>

section \<open>Planning\<close>

definition jerk2acc :: "real \<Rightarrow> int \<Rightarrow> real" where
  "jerk2acc T N = of_int N * T"

definition get_target_length_iod :: "real \<Rightarrow> real \<Rightarrow> real \<Rightarrow> real \<Rightarrow> real \<Rightarrow> real" where
  "get_target_length_iod T vi vo d1 d2 = (vi + vo) * (d1 + 0.5 * d2) + (vo - vi) * T"

text \<open>The locals the blocks of \<open>plan\<close> pass on.\<close>

record plan_vars =
  pN1 :: int  pN2 :: int  pN3 :: int  pN4 :: int  pN5 :: int  pN6 :: int  pN7 :: int
  pj1 :: real  pj3 :: real  pj5 :: real  pj7 :: real
  ps123 :: real  ps4 :: real  ps567 :: real

text \<open>
  A change of the speed from \<open>a\<close> to \<open>b\<close>: phases of increasing, constant and decreasing
  acceleration. The code has this block for the whole stretch, for its start and for its end,
  once with the acceleration given and once with the length given. The result is the number of
  cycles of the outer and of the middle phase, the jerk and the length.
\<close>

type_synonym ramp = "int \<times> int \<times> real \<times> real"

definition ramp_by_acc :: "real \<Rightarrow> int \<Rightarrow> real \<Rightarrow> real \<Rightarrow> real \<Rightarrow> ramp" where
  "ramp_by_acc T Nacc acc a b =
     (let d0 = jerk2acc T Nacc; N2 = \<lfloor>(b - a - acc * d0) / acc / T\<rfloor>
      in if N2 < 1
         then let N = \<lfloor>sqrt ((b - a) / (acc / d0)) / T\<rfloor>; N1 = (if N < 2 then 2 else N); d1 = jerk2acc T N1
              in (N1, 0, (b - a) / d1 / d1, get_target_length_iod T a b d1 0)
         else let d2 = jerk2acc T N2
              in (Nacc, N2, (b - a) / d0 / (d0 + d2), get_target_length_iod T a b d0 d2))"

definition ramp_by_length :: "real \<Rightarrow> int \<Rightarrow> real \<Rightarrow> real \<Rightarrow> real \<Rightarrow> ramp" where
  "ramp_by_length T Nacc s a b =
     (let d0 = jerk2acc T Nacc; N2 = \<lfloor>(s - (a + b) * d0 - (b - a) * T) / (b + a) / 0.5 / T\<rfloor>
      in if N2 < 1
         then let N = \<lfloor>(s - (b - a) * T) / (b + a) / T\<rfloor>; N1 = (if N < 2 then 2 else N); d1 = jerk2acc T N1
              in (N1, 0, (b - a) / d1 / d1, get_target_length_iod T a b d1 0)
         else let d2 = jerk2acc T N2
              in (Nacc, N2, (b - a) / d0 / (d0 + d2), get_target_length_iod T a b d0 d2))"

definition set_start_ramp :: "ramp \<Rightarrow> plan_vars \<Rightarrow> plan_vars" where
  "set_start_ramp r v =
     (case r of (N, M, j, l) \<Rightarrow> v\<lparr>pN1 := N, pN2 := M, pN3 := N, pj1 := j, pj3 := -1 * j, ps123 := l\<rparr>)"

definition set_end_ramp :: "ramp \<Rightarrow> plan_vars \<Rightarrow> plan_vars" where
  "set_end_ramp r v =
     (case r of (N, M, j, l) \<Rightarrow> v\<lparr>pN5 := N, pN6 := M, pN7 := N, pj5 := j, pj7 := -1 * j, ps567 := l\<rparr>)"

definition no_end_ramp :: "plan_vars \<Rightarrow> plan_vars" where
  "no_end_ramp v = v\<lparr>pN4 := 0, pj5 := 0, pj7 := 0, pN5 := 0, pN6 := 0, pN7 := 0, ps567 := 0\<rparr>"

text \<open>
  The acceleration towards a speed; \<open>0\<close> where the speeds count as equal.
\<close>

definition acc_towards :: "speed_param \<Rightarrow> real \<Rightarrow> real \<Rightarrow> real" where
  "acc_towards sp a b = (if \<bar>a - b\<bar> < 0.00001 then 0 else if a < b then acc0 sp else dec0 sp)"

text \<open>The block for the way from the entry to the exit speed, \<open>si2o\<close> and the locals it sets.\<close>

definition plan_direct :: "real \<Rightarrow> int \<Rightarrow> real \<Rightarrow> real \<Rightarrow> real \<Rightarrow> plan_vars \<Rightarrow> plan_vars \<times> real" where
  "plan_direct T Nacc acc vi vo v =
     (if 0 < \<bar>acc\<bar>
      then let r = ramp_by_acc T Nacc acc vi vo
           in ((set_start_ramp r v)\<lparr>ps123 := ps123 v\<rparr>, snd (snd (snd r)))
      else (v, 0))"

text \<open>The way up to the cruise speed and down to the exit speed, and what is left between them.\<close>

definition plan_cruise :: "real \<Rightarrow> int \<Rightarrow> real \<Rightarrow> real \<Rightarrow> real \<Rightarrow> real \<Rightarrow> real \<Rightarrow> real \<Rightarrow> plan_vars \<Rightarrow> plan_vars" where
  "plan_cruise T Nacc ai ao vi vc vo s v =
     (let v1 = (if \<bar>vi - vc\<bar> < 0.00001 then v\<lparr>pN1 := 0, pN2 := 0, pN3 := 0, ps123 := 0\<rparr> else v);
          v2 = v1\<lparr>pj1 := ai / jerk2acc T Nacc\<rparr>;
          v3 = (if 0 < \<bar>ai\<bar> then set_start_ramp (ramp_by_acc T Nacc ai vi vc) v2 else v2);
          v4 = (if \<bar>vo - vc\<bar> < 0.00001 then v3\<lparr>pN5 := 0, pN6 := 0, pN7 := 0, ps567 := 0\<rparr> else v3);
          v5 = v4\<lparr>pj5 := ao / of_int Nacc / T\<rparr>;
          v6 = (if 0 < \<bar>ao\<bar> then set_end_ramp (ramp_by_acc T Nacc ao vc vo) v5 else v5);
          N4 = \<lfloor>(s - ps123 v6 - ps567 v6) / vc / T\<rfloor>
      in v6\<lparr>pN4 := N4, ps4 := vc * of_int N4 * T\<rparr>)"

text \<open>
  A stretch too short to reach the cruise speed from two different sides: a peak speed, reached
  with the acceleration \<open>ai\<close> on the way \<open>s123\<close>.
\<close>

definition peak_length :: "real \<Rightarrow> real \<Rightarrow> real \<Rightarrow> real \<Rightarrow> real" where
  "peak_length acc ai s si2o =
     (if acc * ai > 0 then 0.5 * (s + si2o) else if acc * ai < 0 then 0.5 * (s - si2o) else 0.5 * s)"

definition plan_peak_ramp :: "real \<Rightarrow> int \<Rightarrow> real \<Rightarrow> real \<Rightarrow> real \<Rightarrow> real \<times> ramp" where
  "plan_peak_ramp T Nacc ai vi s123 =
     (let d0 = jerk2acc T Nacc; xa = 0.5 * ai; xb = vi + 1.5 * ai * d0 + ai * T;
          xc = d0 * (2 * vi + ai * d0 + ai * T) - s123;
          d2 = (- xb + sqrt (xb * xb - 4 * xa * xc)) / (2 * xa); j1 = ai / d0
      in if d2 < 0
         then let xp = 2 * vi / j1; xq = -1 * s123 / j1;
                  d1 = (if j1 > 0
                        then let xt = sqrt (xq * xq / 4 + xp * xp * xp / 27)
                             in root 3 (-0.5 * xq + xt) + root 3 (-0.5 * xq - xt)
                        else let r0 = sqrt (xp / (-3)); r = r0 * xp / (-3); theta = arccos (-0.5 * xq / r)
                             in 2 * r0 * cos ((theta + 3.1415926 * 4) / 3));
                  vc = vi + j1 * d1 * d1;
                  N = \<lfloor>d1 / T\<rfloor>; N1 = (if N < 2 then 2 else N); d1' = jerk2acc T N1
              in (vc, N1, 0, (vc - vi) / d1' / d1', get_target_length_iod T vi vc d1' 0)
         else let d1 = jerk2acc T Nacc; vc = vi + ai * (d1 + d2); N2 = \<lfloor>d2 / T\<rfloor>; d2' = jerk2acc T N2
              in (vc, Nacc, N2, (vc - vi) / d1 / (d1 + d2'), get_target_length_iod T vi vc d1 d2'))"

definition plan_short :: "real \<Rightarrow> int \<Rightarrow> real \<Rightarrow> real \<Rightarrow> real \<Rightarrow> real \<Rightarrow> real \<Rightarrow> real \<Rightarrow> real \<Rightarrow> plan_vars \<Rightarrow> plan_vars" where
  "plan_short T Nacc acc ai ao vi vo s si2o v =
     (let ai' = (if \<bar>ai\<bar> < 0.00001 \<and> \<bar>ao\<bar> > 0.00001 then ao else ai);
          ao' = (if \<not> (\<bar>ai\<bar> < 0.00001 \<and> \<bar>ao\<bar> > 0.00001) \<and> \<bar>ao\<bar> < 0.00001 \<and> \<bar>ai\<bar> > 0.00001 then ai else ao);
          v1 = (if (ai' < 0 \<and> ao' < 0) \<or> (ai' > 0 \<and> ao' > 0)
                then no_end_ramp (set_start_ramp (ramp_by_length T Nacc s vi vo) v) else v);
          v2 = (if (ai' > 0 \<and> ao' < 0) \<or> (ai' < 0 \<and> ao' > 0)
                then let (vc, r) = plan_peak_ramp T Nacc ai' vi (peak_length acc ai' s si2o);
                         v' = set_start_ramp r v1
                     in set_end_ramp (ramp_by_length T Nacc (s - ps123 v') vc vo) v'
                else v1)
      in v2\<lparr>pN4 := 0, ps4 := 0\<rparr>)"

definition clamp_Nacc :: "int \<Rightarrow> int" where
  "clamp_Nacc n = (if n < 1 then 1 else if n > 200 then 200 else n)"

definition exit_speed :: "speed_param \<Rightarrow> real" where
  "exit_speed sp = (if exit_v sp \<le> 0 then 2 else exit_v sp)"

text \<open>The phases of a stretch of length \<open>s\<close>.\<close>

definition plan_phases :: "real \<Rightarrow> plan_vars \<Rightarrow> speed_param \<Rightarrow> real \<Rightarrow> plan_vars" where
  "plan_phases T u sp s =
     (let Nacc = clamp_Nacc (nacc sp); vc = cruise_v sp; vi = entry_v sp; vo = exit_speed sp;
          acc = acc_towards sp vi vo; (v, si2o) = plan_direct T Nacc acc vi vo u
      in if s \<le> si2o
         then (no_end_ramp (set_start_ramp (ramp_by_length T Nacc s vi vo) v))\<lparr>ps4 := 0\<rparr>
         else let ai = acc_towards sp vi vc;
                  ao = acc_towards sp vc vo;
                  w = plan_cruise T Nacc ai ao vi vc vo s v
              in if ps4 w < 0 then plan_short T Nacc acc ai ao vi vo s si2o w else w)"

section \<open>The state\<close>

text \<open>\<open>impl_\<close> is the part with the prefix \<open>i\<close>; \<open>clear\<close> writes zeros over it.\<close>

record impl =
  iacc0 :: real  idec0 :: real  ia13 :: real  ia57 :: real
  intermediate_e :: real  intermediate_p :: real
  recordintermediate_p :: real  recordintermediate_e :: real
  iN1 :: int  iN2 :: int  iN3 :: int  iN4 :: int  iN5 :: int  iN6 :: int  iN7 :: int
  total_N :: int  current_N :: int
  iT :: real
  ij1 :: real  ij3 :: real  ij5 :: real  ij7 :: real
  entry_acc :: real  exit_acc :: real
  entry_velocity :: real  cruise_velocity :: real  exit_velocity :: real
  ilength :: real
  segment_velocity :: real  segment_velocity_prev :: real
  intermediate :: real  recordintermediate :: real

record moveruntime =
  mrt_target_length :: real
  mrt_current_length :: real
  mrt_running :: bool
  mrt_impl :: impl

definition impl_zero :: impl where
  "impl_zero = \<lparr>iacc0 = 0, idec0 = 0, ia13 = 0, ia57 = 0, intermediate_e = 0, intermediate_p = 0,
     recordintermediate_p = 0, recordintermediate_e = 0, iN1 = 0, iN2 = 0, iN3 = 0, iN4 = 0, iN5 = 0,
     iN6 = 0, iN7 = 0, total_N = 0, current_N = 0, iT = 0, ij1 = 0, ij3 = 0, ij5 = 0, ij7 = 0,
     entry_acc = 0, exit_acc = 0, entry_velocity = 0, cruise_velocity = 0, exit_velocity = 0,
     ilength = 0, segment_velocity = 0, segment_velocity_prev = 0, intermediate = 0, recordintermediate = 0\<rparr>"

definition mrt_clear :: "moveruntime \<Rightarrow> moveruntime" where
  "mrt_clear m = \<lparr>mrt_target_length = 0, mrt_current_length = 0, mrt_running = False, mrt_impl = impl_zero\<rparr>"

definition mrt_new :: moveruntime where
  "mrt_new = \<lparr>mrt_target_length = 0, mrt_current_length = 0, mrt_running = False, mrt_impl = impl_zero\<rparr>"

text \<open>
  The corrections that spread what rounding the phases to whole cycles leaves of the length:
  the accelerations of the correction \<open>a13\<close> and \<open>a57\<close> and its speed at the start.
\<close>

definition plan_corrections :: "real \<Rightarrow> plan_vars \<Rightarrow> real \<Rightarrow> real \<times> real \<times> real" where
  "plan_corrections T v s =
     (let s0 = s - ps123 v - ps4 v - ps567 v
      in if pN1 v > 0 \<and> pN5 v > 0
         then let v0 = 2 * s0 / of_int (pN4 v + pN1 v + pN2 v + pN3 v + pN4 v + pN5 v + pN6 v + pN7 v - 2) / T
              in (v0 / (of_int (pN1 v + pN2 v + pN3 v - 1) * T), -1 * v0 / (of_int (pN5 v + pN6 v + pN7 v - 1) * T), 0)
         else if pN1 v > 0 then (0, 0, s0 / of_int (pN1 v + pN2 v + pN3 v + pN4 v - 1) / T)
         else if pN5 v > 0 then (0, 0, s0 / of_int (pN4 v + pN5 v + pN6 v + pN7 v - 1) / T)
         else (0, 0, s0 / of_int (pN4 v - 1) / T))"

definition planned_impl :: "real \<Rightarrow> plan_vars \<Rightarrow> speed_param \<Rightarrow> real \<Rightarrow> impl" where
  "planned_impl T u sp s =
     (let v = plan_phases T u sp s; (a13, a57, e) = plan_corrections T v s; TCube = T * T * T
      in impl_zero\<lparr>iacc0 := acc0 sp, idec0 := dec0 sp, cruise_velocity := cruise_v sp,
           entry_velocity := entry_v sp, exit_velocity := exit_v sp, ilength := s, iT := T,
           iN1 := pN1 v, iN2 := pN2 v, iN3 := pN3 v, iN4 := pN4 v, iN5 := pN5 v, iN6 := pN6 v, iN7 := pN7 v,
           ij1 := pj1 v * TCube, ij3 := pj3 v * TCube, ij5 := pj5 v * TCube, ij7 := pj7 v * TCube,
           ia13 := a13 * T * T, ia57 := a57 * T * T,
           total_N := pN1 v + pN2 v + pN3 v + pN4 v + pN5 v + pN6 v + pN7 v, current_N := 0,
           entry_acc := 0, exit_acc := 0,
           intermediate_p := entry_v sp * T, intermediate_e := e * T,
           recordintermediate_p := 0, recordintermediate_e := 0\<rparr>)"

text \<open>\<open>plan\<close> refuses a length that is not positive and then leaves everything as it was.\<close>

definition mrt_plan :: "real \<Rightarrow> plan_vars \<Rightarrow> speed_param \<Rightarrow> real \<Rightarrow> moveruntime \<Rightarrow> bool \<times> moveruntime" where
  "mrt_plan T u sp s m =
     (if s \<le> 0 then (False, m)
      else (True, (mrt_clear m)\<lparr>mrt_target_length := s, mrt_impl := planned_impl T u sp s, mrt_running := True\<rparr>))"

section \<open>One cycle\<close>

text \<open>The speed of the cycle (\<open>intermediate_p\<close>, with the accelerations) and its correction.\<close>

definition step_p :: "impl \<Rightarrow> impl" where
  "step_p i =
     (let n = current_N i; p = intermediate_p i
      in if n < iN1 i then i\<lparr>entry_acc := entry_acc i + ij1 i, intermediate_p := p + (entry_acc i + ij1 i)\<rparr>
         else if n < iN1 i + iN2 i then i\<lparr>intermediate_p := p + entry_acc i\<rparr>
         else if n < iN1 i + iN2 i + iN3 i
         then i\<lparr>entry_acc := entry_acc i + ij3 i, intermediate_p := p + (entry_acc i + ij3 i)\<rparr>
         else if n < iN1 i + iN2 i + iN3 i + iN4 i then i\<lparr>intermediate_p := p + 0\<rparr>
         else if n < iN1 i + iN2 i + iN3 i + iN4 i + iN5 i
         then i\<lparr>exit_acc := exit_acc i + ij5 i, intermediate_p := p + (exit_acc i + ij5 i)\<rparr>
         else if n < iN1 i + iN2 i + iN3 i + iN4 i + iN5 i + iN6 i then i\<lparr>intermediate_p := p + exit_acc i\<rparr>
         else i\<lparr>exit_acc := exit_acc i + ij7 i, intermediate_p := p + (exit_acc i + ij7 i)\<rparr>)"

definition step_e :: "impl \<Rightarrow> impl" where
  "step_e i =
     (let n = current_N i; e = intermediate_e i;
          e1 = (if n < iN1 i + iN2 i + iN3 i then (if n > 0 then e + ia13 i else e + 0)
                else if n < iN1 i + iN2 i + iN3 i + iN4 i then e + 0
                else if n < total_N i - 1 then e + ia57 i else 0)
      in i\<lparr>intermediate_e := if n = total_N i - 1 then 0 else e1\<rparr>)"

definition step_record :: "impl \<Rightarrow> impl" where
  "step_record i =
     (let e = intermediate_e i; p = intermediate_p i;
          re = recordintermediate_e i + e; rp = recordintermediate_p i + p; n = current_N i + 1;
          x = (if n = total_N i then (e + p) - ((re + rp) - ilength i) else e + p)
      in i\<lparr>recordintermediate_e := re, recordintermediate_p := rp, recordintermediate := re + rp,
           current_N := n, intermediate := x,
           segment_velocity_prev := segment_velocity i, segment_velocity := x / iT i\<rparr>)"

definition mrt_run_once :: "moveruntime \<Rightarrow> real \<times> moveruntime" where
  "mrt_run_once m =
     (if \<not> mrt_running m then (0, m)
      else if current_N (mrt_impl m) < total_N (mrt_impl m)
      then let i = step_record (step_e (step_p (mrt_impl m)))
           in (intermediate i, m\<lparr>mrt_impl := i, mrt_current_length := mrt_current_length m + intermediate i\<rparr>)
      else let i = (mrt_impl m)\<lparr>intermediate := 0\<rparr>
           in (0, m\<lparr>mrt_running := False, mrt_impl := i, mrt_current_length := mrt_current_length m + 0\<rparr>))"

definition mrt_current_speed :: "moveruntime \<Rightarrow> real" where
  "mrt_current_speed m = (if \<not> mrt_running m then 0 else segment_velocity (mrt_impl m))"

end
