(* ===== verification/Move_Runtime_Correct.thy ===== *)
theory Move_Runtime_Correct
  imports Move_Runtime
begin

text \<open>
  What a planned stretch does: the phases of \<open>plan\<close> are never negative and there is at least one
  cycle but for a stretch shorter than one cycle at constant speed; and the cycles of
  \<open>run_once\<close> add up to the length, whatever the phases are.
\<close>

section \<open>Phases\<close>

definition ramp_ok :: "ramp \<Rightarrow> bool" where
  "ramp_ok r \<longleftrightarrow> 1 \<le> fst r \<and> 0 \<le> fst (snd r)"

definition phases_ok :: "plan_vars \<Rightarrow> bool" where
  "phases_ok v \<longleftrightarrow> 0 \<le> pN1 v \<and> 0 \<le> pN2 v \<and> 0 \<le> pN3 v \<and> 0 \<le> pN4 v \<and> 0 \<le> pN5 v \<and> 0 \<le> pN6 v \<and> 0 \<le> pN7 v"

definition cycles :: "plan_vars \<Rightarrow> int" where
  "cycles v = pN1 v + pN2 v + pN3 v + pN4 v + pN5 v + pN6 v + pN7 v"

lemma clamp_Nacc_pos: "1 \<le> clamp_Nacc n" "clamp_Nacc n \<le> 200"
  by (simp_all add: clamp_Nacc_def)

lemma ramp_ok_by_acc: "1 \<le> Nacc \<Longrightarrow> ramp_ok (ramp_by_acc T Nacc a v w)"
  by (simp add: ramp_ok_def ramp_by_acc_def Let_def)

lemma ramp_ok_by_length: "1 \<le> Nacc \<Longrightarrow> ramp_ok (ramp_by_length T Nacc s v w)"
  by (simp add: ramp_ok_def ramp_by_length_def Let_def)

lemma ramp_ok_peak:
  assumes "1 \<le> Nacc" "0 < T"
  shows "ramp_ok (snd (plan_peak_ramp T Nacc a v s))"
proof -
  have "0 \<le> \<lfloor>x / T\<rfloor>" if "0 \<le> x" for x using that assms(2) by simp
  then have nonneg: "\<not> x < 0 \<Longrightarrow> 0 \<le> \<lfloor>x / T\<rfloor>" for x by simp
  show ?thesis using assms(1) unfolding ramp_ok_def plan_peak_ramp_def Let_def
    by (simp add: nonneg del: zero_le_floor divide_divide_eq_left)
qed

lemma set_start_ramp_sel:
  "pN1 (set_start_ramp r v) = fst r" "pN2 (set_start_ramp r v) = fst (snd r)" "pN3 (set_start_ramp r v) = fst r"
  "pN4 (set_start_ramp r v) = pN4 v" "pN5 (set_start_ramp r v) = pN5 v" "pN6 (set_start_ramp r v) = pN6 v"
  "pN7 (set_start_ramp r v) = pN7 v" "ps567 (set_start_ramp r v) = ps567 v" "ps4 (set_start_ramp r v) = ps4 v"
  "ps123 (set_start_ramp r v) = snd (snd (snd r))"
  by (simp_all add: set_start_ramp_def split: prod.splits)

lemma set_end_ramp_sel:
  "pN5 (set_end_ramp r v) = fst r" "pN6 (set_end_ramp r v) = fst (snd r)" "pN7 (set_end_ramp r v) = fst r"
  "pN4 (set_end_ramp r v) = pN4 v" "pN1 (set_end_ramp r v) = pN1 v" "pN2 (set_end_ramp r v) = pN2 v"
  "pN3 (set_end_ramp r v) = pN3 v" "ps123 (set_end_ramp r v) = ps123 v" "ps4 (set_end_ramp r v) = ps4 v"
  "ps567 (set_end_ramp r v) = snd (snd (snd r))"
  by (simp_all add: set_end_ramp_def split: prod.splits)

lemmas ramp_sels = set_start_ramp_sel set_end_ramp_sel

text \<open>The speeds differ from each other by as much as the code asks for.\<close>

definition differ :: "real \<Rightarrow> real \<Rightarrow> bool" where
  "differ a b \<longleftrightarrow> \<not> \<bar>a - b\<bar> < 0.00001"

lemma differ_sym: "differ a b = differ b a"
  by (simp add: differ_def abs_minus_commute)

definition acc_ok :: "speed_param \<Rightarrow> bool" where
  "acc_ok sp \<longleftrightarrow> 0 < acc0 sp \<and> dec0 sp < 0"

lemma acc_towards_zero: "acc_ok sp \<Longrightarrow> acc_towards sp a b = 0 \<longleftrightarrow> \<not> differ a b"
  by (auto simp: acc_towards_def acc_ok_def differ_def)

text \<open>The cycles the cruise block sets before it looks whether the stretch is long enough.\<close>

lemma cruise_ramps:
  assumes ok: "acc_ok sp" and N: "1 \<le> Nacc"
    and w: "w = plan_cruise T Nacc (acc_towards sp vi vc) (acc_towards sp vc vo) vi vc vo s v"
  shows "0 \<le> pN1 w" "0 \<le> pN2 w" "0 \<le> pN3 w" "0 \<le> pN5 w" "0 \<le> pN6 w" "0 \<le> pN7 w"
    and "differ vi vc \<Longrightarrow> 1 \<le> pN1 w" and "differ vc vo \<Longrightarrow> 1 \<le> pN5 w"
    and "\<not> differ vi vc \<Longrightarrow> ps123 w = 0 \<and> pN1 w = 0 \<and> pN2 w = 0 \<and> pN3 w = 0"
    and "\<not> differ vc vo \<Longrightarrow> ps567 w = 0 \<and> pN5 w = 0 \<and> pN6 w = 0 \<and> pN7 w = 0"
    and "pN4 w = \<lfloor>(s - ps123 w - ps567 w) / vc / T\<rfloor>" "ps4 w = vc * of_int (pN4 w) * T"
proof -
  define r1 where "r1 = ramp_by_acc T Nacc (acc_towards sp vi vc) vi vc"
  define r2 where "r2 = ramp_by_acc T Nacc (acc_towards sp vc vo) vc vo"
  have r: "1 \<le> fst r1" "0 \<le> fst (snd r1)" "1 \<le> fst r2" "0 \<le> fst (snd r2)"
    using ramp_ok_by_acc[OF N] by (auto simp: r1_def r2_def ramp_ok_def)
  note z = acc_towards_zero[OF ok, of vi vc] acc_towards_zero[OF ok, of vc vo]
  have c: "\<bar>vi - vc\<bar> < 0.00001 \<longleftrightarrow> \<not> differ vi vc" "\<bar>vo - vc\<bar> < 0.00001 \<longleftrightarrow> \<not> differ vc vo"
    by (auto simp: differ_def abs_minus_commute)
  have w': "w = plan_cruise T Nacc (acc_towards sp vi vc) (acc_towards sp vc vo) vi vc vo s v" by (rule w)
  note d = plan_cruise_def[of T Nacc "acc_towards sp vi vc" "acc_towards sp vc vo" vi vc vo s v,
      folded r1_def r2_def, unfolded c Let_def zero_less_abs_iff z]
  show "0 \<le> pN1 w" "0 \<le> pN2 w" "0 \<le> pN3 w" "0 \<le> pN5 w" "0 \<le> pN6 w" "0 \<le> pN7 w"
    "differ vi vc \<Longrightarrow> 1 \<le> pN1 w" "differ vc vo \<Longrightarrow> 1 \<le> pN5 w"
    "\<not> differ vi vc \<Longrightarrow> ps123 w = 0 \<and> pN1 w = 0 \<and> pN2 w = 0 \<and> pN3 w = 0"
    "\<not> differ vc vo \<Longrightarrow> ps567 w = 0 \<and> pN5 w = 0 \<and> pN6 w = 0 \<and> pN7 w = 0"
    "pN4 w = \<lfloor>(s - ps123 w - ps567 w) / vc / T\<rfloor>" "ps4 w = vc * of_int (pN4 w) * T"
    unfolding w' d using r by (auto simp: ramp_sels)
qed

lemma no_end_ramp_ok:
  assumes "ramp_ok r"
  shows "phases_ok (no_end_ramp (set_start_ramp r v))" "1 \<le> cycles (no_end_ramp (set_start_ramp r v))"
  using assms by (simp_all add: phases_ok_def cycles_def no_end_ramp_def ramp_sels ramp_ok_def)

lemma short_ok:
  assumes N: "1 \<le> Nacc" and T: "0 < T"
    and w: "0 \<le> pN1 w" "0 \<le> pN2 w" "0 \<le> pN3 w" "0 \<le> pN5 w" "0 \<le> pN6 w" "0 \<le> pN7 w" "1 \<le> pN1 w \<or> 1 \<le> pN5 w"
  shows "phases_ok (plan_short T Nacc acc ai ao vi vo s si2o w)"
    and "1 \<le> cycles (plan_short T Nacc acc ai ao vi vo s si2o w)"
proof -
  define ai' where "ai' = (if \<bar>ai\<bar> < 0.00001 \<and> \<bar>ao\<bar> > 0.00001 then ao else ai)"
  define ao' where
    "ao' = (if \<not> (\<bar>ai\<bar> < 0.00001 \<and> \<bar>ao\<bar> > 0.00001) \<and> \<bar>ao\<bar> < 0.00001 \<and> \<bar>ai\<bar> > 0.00001 then ai else ao)"
  define same where "same \<longleftrightarrow> (ai' < 0 \<and> ao' < 0) \<or> (ai' > 0 \<and> ao' > 0)"
  define opp where "opp \<longleftrightarrow> (ai' > 0 \<and> ao' < 0) \<or> (ai' < 0 \<and> ao' > 0)"
  define v1 where "v1 = (if same then no_end_ramp (set_start_ramp (ramp_by_length T Nacc s vi vo) w) else w)"
  define pk where "pk = plan_peak_ramp T Nacc ai' vi (peak_length acc ai' s si2o)"
  define v' where "v' = set_start_ramp (snd pk) v1"
  define r where "r = ramp_by_length T Nacc (s - ps123 v') (fst pk) vo"
  have eq: "plan_short T Nacc acc ai ao vi vo s si2o w = (if opp then set_end_ramp r v' else v1)\<lparr>pN4 := 0, ps4 := 0\<rparr>"
    unfolding plan_short_def Let_def ai'_def[symmetric] ao'_def[symmetric] same_def[symmetric] opp_def[symmetric]
      v1_def[symmetric] pk_def[symmetric] by (simp add: r_def v'_def split: prod.splits)
  have ok: "ramp_ok r" "ramp_ok (snd pk)" "ramp_ok (ramp_by_length T Nacc s vi vo)"
    using ramp_ok_by_length[OF N] ramp_ok_peak[OF N T] by (simp_all add: r_def pk_def)
  have v1: "phases_ok (v1\<lparr>pN4 := 0\<rparr>)" "1 \<le> cycles (v1\<lparr>pN4 := 0\<rparr>)"
    using w ok(3) by (auto simp: v1_def phases_ok_def cycles_def no_end_ramp_def ramp_sels ramp_ok_def)
  show "phases_ok (plan_short T Nacc acc ai ao vi vo s si2o w)" "1 \<le> cycles (plan_short T Nacc acc ai ao vi vo s si2o w)"
    unfolding eq using v1 ok(1,2) by (auto simp: phases_ok_def cycles_def v'_def ramp_sels ramp_ok_def)
qed

lemma plan_phases_ok:
  assumes ok: "acc_ok sp" and T: "0 < T" and vc: "0 < cruise_v sp" and s: "0 < s"
  shows "phases_ok (plan_phases T u sp s)" (is ?P)
    and "differ (entry_v sp) (cruise_v sp) \<or> differ (cruise_v sp) (exit_speed sp) \<or> cruise_v sp * T \<le> s
         \<Longrightarrow> 1 \<le> cycles (plan_phases T u sp s)" (is "?D \<Longrightarrow> ?Q")
proof -
  define Nacc where "Nacc = clamp_Nacc (nacc sp)"
  have N: "1 \<le> Nacc" using clamp_Nacc_pos by (simp add: Nacc_def)
  let ?vi = "entry_v sp" and ?vc = "cruise_v sp" and ?vo = "exit_speed sp"
  define acc where "acc = acc_towards sp ?vi ?vo"
  define ai where "ai = acc_towards sp ?vi ?vc"
  define ao where "ao = acc_towards sp ?vc ?vo"
  obtain v si2o where d: "plan_direct T Nacc acc ?vi ?vo u = (v, si2o)" by fastforce
  define w where "w = plan_cruise T Nacc ai ao ?vi ?vc ?vo s v"
  note cr = cruise_ramps[OF ok N w_def[unfolded ai_def ao_def]]
  have eq: "plan_phases T u sp s =
      (if s \<le> si2o then (no_end_ramp (set_start_ramp (ramp_by_length T Nacc s ?vi ?vo) v))\<lparr>ps4 := 0\<rparr>
       else if ps4 w < 0 then plan_short T Nacc acc ai ao ?vi ?vo s si2o w else w)"
    unfolding plan_phases_def Let_def Nacc_def[symmetric] acc_def[symmetric] ai_def[symmetric] ao_def[symmetric]
      d prod.case w_def[symmetric] by (rule refl)
  have neg: "ps4 w < 0 \<longleftrightarrow> pN4 w < 0" using vc T cr(12) by (auto simp: mult_less_0_iff)
  have flat: "0 \<le> pN4 w \<and> (?vc * T \<le> s \<longrightarrow> 1 \<le> pN4 w)" if "\<not> differ ?vi ?vc" "\<not> differ ?vc ?vo"
  proof -
    have "pN4 w = \<lfloor>s / (?vc * T)\<rfloor>" using cr(9,10,11) that by (simp del: divide_divide_eq_left add: divide_divide_eq_left)
    moreover have "0 < ?vc * T" using vc T by simp
    ultimately show ?thesis using s by (simp add: le_floor_iff)
  qed
  have one: "1 \<le> pN1 w \<or> 1 \<le> pN5 w" if "ps4 w < 0" using cr(7,8) flat that neg by linarith
  have sh: "phases_ok (plan_short T Nacc acc ai ao ?vi ?vo s si2o w)" "1 \<le> cycles (plan_short T Nacc acc ai ao ?vi ?vo s si2o w)"
    if "ps4 w < 0" using short_ok[OF N T cr(1-6)] one that by blast+
  have some: "1 \<le> pN1 w \<or> 1 \<le> pN5 w \<or> 1 \<le> pN4 w" if ?D using cr(7,8) flat that by blast
  have lng: "phases_ok w" "?D \<Longrightarrow> 1 \<le> cycles w" if "\<not> ps4 w < 0"
    using that neg cr(1-6) some by (auto simp: phases_ok_def cycles_def)
  have dir: "phases_ok ((no_end_ramp (set_start_ramp (ramp_by_length T Nacc s ?vi ?vo) v))\<lparr>ps4 := 0\<rparr>)"
    "1 \<le> cycles ((no_end_ramp (set_start_ramp (ramp_by_length T Nacc s ?vi ?vo) v))\<lparr>ps4 := 0\<rparr>)"
    using no_end_ramp_ok[OF ramp_ok_by_length[OF N], of T s ?vi ?vo v] by (simp_all add: phases_ok_def cycles_def)
  show ?P unfolding eq using sh(1) lng(1) dir(1) by simp
  show ?Q if ?D unfolding eq using sh(2) lng(2)[OF _ that] dir(2) by simp
qed

section \<open>The increments add up\<close>

definition mrt_step :: "moveruntime \<Rightarrow> moveruntime" where
  "mrt_step m = snd (mrt_run_once m)"

text \<open>
  While a stretch runs: the distance so far is what the records say, and after the last cycle
  it is the length.
\<close>

definition mrt_inv :: "moveruntime \<Rightarrow> bool" where
  "mrt_inv m \<longleftrightarrow> mrt_running m \<longrightarrow>
     (let i = mrt_impl m in
        0 \<le> current_N i \<and> current_N i \<le> total_N i \<and> 1 \<le> total_N i \<and> ilength i = mrt_target_length m
        \<and> (current_N i < total_N i \<longrightarrow> mrt_current_length m = recordintermediate_e i + recordintermediate_p i)
        \<and> (current_N i = total_N i \<longrightarrow> mrt_current_length m = mrt_target_length m))"

definition mrt_left :: "moveruntime \<Rightarrow> nat" where
  "mrt_left m = (if mrt_running m then nat (total_N (mrt_impl m) - current_N (mrt_impl m)) + 1 else 0)"

lemma step_p_sel [simp]:
  "current_N (step_p i) = current_N i" "total_N (step_p i) = total_N i" "ilength (step_p i) = ilength i"
  "recordintermediate_e (step_p i) = recordintermediate_e i" "recordintermediate_p (step_p i) = recordintermediate_p i"
  "iT (step_p i) = iT i"
  by (simp_all add: step_p_def Let_def)

lemma step_e_sel [simp]:
  "current_N (step_e i) = current_N i" "total_N (step_e i) = total_N i" "ilength (step_e i) = ilength i"
  "recordintermediate_e (step_e i) = recordintermediate_e i" "recordintermediate_p (step_e i) = recordintermediate_p i"
  "iT (step_e i) = iT i"
  by (simp_all add: step_e_def Let_def)

lemma step_record_sel:
  "current_N (step_record i) = current_N i + 1" "total_N (step_record i) = total_N i" "ilength (step_record i) = ilength i"
  "recordintermediate_e (step_record i) = recordintermediate_e i + intermediate_e i"
  "recordintermediate_p (step_record i) = recordintermediate_p i + intermediate_p i"
  "intermediate (step_record i) =
     (if current_N i + 1 = total_N i
      then ilength i - (recordintermediate_e i + recordintermediate_p i) else intermediate_e i + intermediate_p i)"
  "segment_velocity (step_record i) = intermediate (step_record i) / iT i"
  by (simp_all add: step_record_def Let_def)

text \<open>The increment of a cycle is what the length grows by, and the last, empty cycle adds nothing.\<close>

lemma run_once_increment:
  "mrt_current_length (snd (mrt_run_once m)) = mrt_current_length m + fst (mrt_run_once m)"
  by (simp add: mrt_run_once_def Let_def)

lemma run_once_over: "\<not> mrt_running (snd (mrt_run_once m)) \<Longrightarrow> fst (mrt_run_once m) = 0"
  by (simp add: mrt_run_once_def Let_def split: if_splits)

lemma run_once_fixed:
  "mrt_target_length (snd (mrt_run_once m)) = mrt_target_length m"
  "total_N (mrt_impl (snd (mrt_run_once m))) = total_N (mrt_impl m)"
  by (simp_all add: mrt_run_once_def Let_def step_record_sel)

lemma mrt_inv_step: "mrt_inv m \<Longrightarrow> mrt_inv (mrt_step m)"
  by (auto simp: mrt_inv_def mrt_step_def mrt_run_once_def Let_def step_record_sel)

lemma mrt_left_step: "mrt_inv m \<Longrightarrow> mrt_running m \<Longrightarrow> mrt_left (mrt_step m) < mrt_left m"
  by (auto simp: mrt_inv_def mrt_left_def mrt_step_def mrt_run_once_def Let_def step_record_sel)

interpretation mrt: stepped mrt_step "\<lambda>m. \<not> mrt_running m" mrt_inv mrt_left
  by unfold_locales (use mrt_inv_step mrt_left_step in auto)

lemma mrt_running_left: "mrt_running m \<longleftrightarrow> 0 < mrt_left m"
  by (simp add: mrt_left_def)

lemma mrt_left_exact: "mrt_inv m \<Longrightarrow> mrt_left (mrt_step m) = mrt_left m - 1"
  by (auto simp: mrt_inv_def mrt_left_def mrt_step_def mrt_run_once_def Let_def step_record_sel)

lemma mrt_inv_steps: "mrt_inv m \<Longrightarrow> mrt_inv ((mrt_step ^^ k) m)"
  by (induction k) (simp_all add: mrt_inv_step)

lemma mrt_left_steps: "mrt_inv m \<Longrightarrow> mrt_left ((mrt_step ^^ k) m) = mrt_left m - k"
  by (induction k) (simp_all add: mrt_left_exact mrt_inv_steps)

lemma mrt_over_length:
  "mrt_inv m \<Longrightarrow> mrt_running m \<Longrightarrow> \<not> mrt_running (mrt_step m) \<Longrightarrow> mrt_current_length (mrt_step m) = mrt_target_length m"
  by (auto simp: mrt_inv_def mrt_step_def mrt_run_once_def Let_def split: if_splits)

lemma mrt_target_steps: "mrt_target_length ((mrt_step ^^ k) m) = mrt_target_length m"
  by (induction k) (simp_all add: mrt_step_def run_once_fixed)

text \<open>The increments of the next \<open>n\<close> calls.\<close>

definition increments :: "nat \<Rightarrow> moveruntime \<Rightarrow> real list" where
  "increments n m = map (\<lambda>k. fst (mrt_run_once ((mrt_step ^^ k) m))) [0..<n]"

lemma sum_increments:
  "mrt_current_length m + sum_list (increments n m) = mrt_current_length ((mrt_step ^^ n) m)"
proof (induction n)
  case (Suc n)
  have "mrt_current_length (mrt_step ((mrt_step ^^ n) m))
      = mrt_current_length ((mrt_step ^^ n) m) + fst (mrt_run_once ((mrt_step ^^ n) m))"
    by (simp add: mrt_step_def run_once_increment)
  with Suc show ?case by (simp add: increments_def)
qed (simp add: increments_def)

lemma increments_total:
  assumes "mrt_inv m" "mrt_running m"
  shows "mrt_current_length m + sum_list (increments (mrt_left m) m) = mrt_target_length m"
proof -
  obtain n where n: "mrt_left m = Suc n" using assms(2) mrt_running_left by (cases "mrt_left m") auto
  let ?m = "(mrt_step ^^ n) m"
  have r: "mrt_inv ?m" "mrt_running ?m" "\<not> mrt_running (mrt_step ?m)"
    using mrt_inv_steps[OF assms(1), of n] mrt_left_steps[OF assms(1), of n]
      mrt_left_steps[OF assms(1), of "Suc n"] n by (simp_all add: mrt_running_left)
  then have "mrt_current_length ((mrt_step ^^ mrt_left m) m) = mrt_target_length m"
    using mrt_over_length[OF r] by (simp add: n mrt_target_steps)
  then show ?thesis by (simp add: sum_increments)
qed

section \<open>A planned stretch\<close>

lemma mrt_plan_sel:
  assumes "0 < s"
  shows "fst (mrt_plan T u sp s m)"
    and "mrt_running (snd (mrt_plan T u sp s m))"
    and "mrt_target_length (snd (mrt_plan T u sp s m)) = s"
    and "mrt_current_length (snd (mrt_plan T u sp s m)) = 0"
    and "current_N (mrt_impl (snd (mrt_plan T u sp s m))) = 0"
    and "total_N (mrt_impl (snd (mrt_plan T u sp s m))) = cycles (plan_phases T u sp s)"
    and "ilength (mrt_impl (snd (mrt_plan T u sp s m))) = s"
    and "recordintermediate_e (mrt_impl (snd (mrt_plan T u sp s m))) = 0"
    and "recordintermediate_p (mrt_impl (snd (mrt_plan T u sp s m))) = 0"
    and "segment_velocity (mrt_impl (snd (mrt_plan T u sp s m))) = 0"
  using assms by (simp_all add: mrt_plan_def planned_impl_def mrt_clear_def impl_zero_def cycles_def Let_def split: prod.splits)

lemma mrt_plan_fails: "s \<le> 0 \<Longrightarrow> mrt_plan T u sp s m = (False, m)"
  by (simp add: mrt_plan_def)

text \<open>What the code has to be given for a plan with at least one cycle.\<close>

definition plannable :: "real \<Rightarrow> speed_param \<Rightarrow> real \<Rightarrow> bool" where
  "plannable T sp s \<longleftrightarrow> acc_ok sp \<and> 0 < T \<and> 0 < cruise_v sp \<and> 0 < s
     \<and> (differ (entry_v sp) (cruise_v sp) \<or> differ (cruise_v sp) (exit_speed sp) \<or> cruise_v sp * T \<le> s)"

lemma mrt_plan_inv:
  assumes "plannable T sp s"
  shows "mrt_inv (snd (mrt_plan T u sp s m))"
    and "mrt_left (snd (mrt_plan T u sp s m)) = nat (cycles (plan_phases T u sp s)) + 1"
    and "1 \<le> cycles (plan_phases T u sp s)"
proof -
  have s: "0 < s" and c: "1 \<le> cycles (plan_phases T u sp s)"
    using assms plan_phases_ok(2)[of sp T s u] by (auto simp: plannable_def)
  show "mrt_inv (snd (mrt_plan T u sp s m))" "mrt_left (snd (mrt_plan T u sp s m)) = nat (cycles (plan_phases T u sp s)) + 1"
    "1 \<le> cycles (plan_phases T u sp s)"
    using s c by (simp_all add: mrt_inv_def mrt_left_def Let_def mrt_plan_sel)
qed

text \<open>
  Where the code takes a root on a short stretch that starts by speeding up, the radicands are
  not negative: the model's total \<open>sqrt\<close> is the code's there.
\<close>

lemma peak_radicands:
  assumes "0 < ai" "0 \<le> vi" "0 < T" "0 \<le> s" "1 \<le> Nacc"
  defines "d0 \<equiv> jerk2acc T Nacc"
  shows "0 \<le> (vi + 1.5 * ai * d0 + ai * T) * (vi + 1.5 * ai * d0 + ai * T)
              - 4 * (0.5 * ai) * (d0 * (2 * vi + ai * d0 + ai * T) - s)"
    and "0 \<le> (-1 * s / (ai / d0)) * (-1 * s / (ai / d0)) / 4 + (2 * vi / (ai / d0)) * (2 * vi / (ai / d0)) * (2 * vi / (ai / d0)) / 27"
proof -
  have d0: "0 < d0" using assms(3,5) by (simp add: d0_def jerk2acc_def)
  have "(vi + 1.5 * ai * d0 + ai * T) * (vi + 1.5 * ai * d0 + ai * T)
              - 4 * (0.5 * ai) * (d0 * (2 * vi + ai * d0 + ai * T) - s)
       = (vi - 0.5 * ai * d0)\<^sup>2 + (ai * T)\<^sup>2 + 2 * vi * ai * T + ai * ai * d0 * T + 2 * ai * s"
    by (simp add: power2_eq_square algebra_simps)
  also have "0 \<le> \<dots>" using assms(1-4) d0 by simp
  finally show "0 \<le> (vi + 1.5 * ai * d0 + ai * T) * (vi + 1.5 * ai * d0 + ai * T)
              - 4 * (0.5 * ai) * (d0 * (2 * vi + ai * d0 + ai * T) - s)" .
  have "0 \<le> 2 * vi / (ai / d0)" using assms(1,2) d0 by simp
  then show "0 \<le> (-1 * s / (ai / d0)) * (-1 * s / (ai / d0)) / 4 + (2 * vi / (ai / d0)) * (2 * vi / (ai / d0)) * (2 * vi / (ai / d0)) / 27"
    by (metis add_nonneg_nonneg divide_nonneg_nonneg mult_nonneg_nonneg zero_le_numeral zero_le_square)
qed


definition sample_speed :: speed_param where
  "sample_speed = \<lparr>nacc = 30, acc0 = 500000, dec0 = -500000, entry_v = 0, exit_v = 0, cruise_v = 1000\<rparr>"

definition zero_vars :: plan_vars where
  "zero_vars = \<lparr>pN1 = 0, pN2 = 0, pN3 = 0, pN4 = 0, pN5 = 0, pN6 = 0, pN7 = 0, pj1 = 0, pj3 = 0, pj5 = 0, pj7 = 0,
     ps123 = 0, ps4 = 0, ps567 = 0\<rparr>"

lemma sample_plannable: "0 < s \<Longrightarrow> plannable (1 / 1000) sample_speed s"
  by (simp add: plannable_def acc_ok_def differ_def sample_speed_def)


end
