(* ===== verification/Move_Wrapper.thy ===== *)
theory Move_Wrapper
  imports Move_Runtime_Correct
begin

text \<open>
  A move that can be paused, resumed, stopped and given another speed
  (\<^verbatim>\<open>Src/Motion/MoveruntimeWrapper/MoveruntimeWrapper.cpp\<close>): each of these plans a new stretch
  with the planner, a deceleration or what is left of the length.

  An operation returns the code's result with the state after it, or the assertion that failed.
  The argument \<open>u\<close> of an operation that may plan is the planner's.
\<close>

section \<open>State\<close>

datatype motion_fault = Assertion | NoModel

datatype mw_state = MW_NotStarted | MW_Running | MW_Pausing | MW_Paused | MW_Stopping | MW_Stopped

record wrapper =
  mw_mrt :: moveruntime
  record_speed_param :: speed_param
  temp_using_speed_param :: speed_param
  mw_state :: mw_state
  mw_curr_length :: real
  mw_target_length :: real

type_synonym mw_result = "(motion_fault, bool \<times> wrapper) result"

definition default_speed :: speed_param where
  "default_speed = \<lparr>nacc = 30, acc0 = 500000, dec0 = -500000, entry_v = 0, exit_v = 0, cruise_v = 1000\<rparr>"

definition mw_new :: wrapper where
  "mw_new = \<lparr>mw_mrt = mrt_new, record_speed_param = default_speed, temp_using_speed_param = default_speed,
     mw_state = MW_NotStarted, mw_curr_length = 0, mw_target_length = 0\<rparr>"

definition mw_is_started :: "wrapper \<Rightarrow> bool" where
  "mw_is_started w \<longleftrightarrow> mw_state w \<noteq> MW_NotStarted"

definition mw_is_stopped :: "wrapper \<Rightarrow> bool" where
  "mw_is_stopped w \<longleftrightarrow> mw_state w = MW_Stopped \<or> mw_state w = MW_NotStarted"

section \<open>Operations\<close>

definition get_dec_length :: "real \<Rightarrow> real \<Rightarrow> (motion_fault, real) result" where
  "get_dec_length v dec =
     (if \<not> dec < 0 then Inl Assertion else if \<not> v > 0 then Inl Assertion else Inr (v * v / (-2 * dec)))"

definition mw_start :: "real \<Rightarrow> plan_vars \<Rightarrow> speed_param \<Rightarrow> real \<Rightarrow> wrapper \<Rightarrow> bool \<times> wrapper" where
  "mw_start T u sp l w =
     (case mrt_plan T u sp l (mw_mrt w) of
        (False, m) \<Rightarrow> (False, w\<lparr>mw_mrt := m\<rparr>)
      | (True, m) \<Rightarrow> (True, w\<lparr>mw_mrt := m, record_speed_param := sp, temp_using_speed_param := sp,
                           mw_curr_length := 0, mw_target_length := l, mw_state := MW_Running\<rparr>))"

text \<open>
  Slowing down to a stop, for \<open>pause\<close> and for \<open>stop\<close>: \<open>rest\<close> is the state without motion,
  \<open>slowing\<close> the one that decelerates.
\<close>

definition mw_slow_down :: "real \<Rightarrow> plan_vars \<Rightarrow> mw_state \<Rightarrow> mw_state \<Rightarrow> wrapper \<Rightarrow> mw_result" where
  "mw_slow_down T u slowing rest w =
     (let v = mrt_current_speed (mw_mrt w); remaining = mw_target_length w - mw_curr_length w
      in if v \<le> 0 then Inr (True, w\<lparr>mw_state := rest\<rparr>)
         else if remaining \<le> 0 then Inr (True, w\<lparr>mw_state := rest\<rparr>)
         else rbind (get_dec_length v (dec0 (record_speed_param w))) (\<lambda>d.
           let l = (if d > remaining then remaining else d);
               sp = (temp_using_speed_param w)\<lparr>entry_v := v, exit_v := 0\<rparr>;
               (planned, m) = mrt_plan T u sp l (mw_mrt w);
               w' = w\<lparr>temp_using_speed_param := sp, mw_mrt := m\<rparr>
           in Inr (if \<not> planned then (False, w'\<lparr>mw_state := rest\<rparr>) else (True, w'\<lparr>mw_state := slowing\<rparr>))))"

definition mw_pause :: "real \<Rightarrow> plan_vars \<Rightarrow> wrapper \<Rightarrow> mw_result" where
  "mw_pause T u w =
     (case mw_state w of
        MW_NotStarted \<Rightarrow> Inl Assertion
      | MW_Pausing \<Rightarrow> Inr (True, w)
      | MW_Paused \<Rightarrow> Inr (True, w)
      | MW_Stopping \<Rightarrow> Inr (False, w)
      | MW_Stopped \<Rightarrow> Inr (False, w)
      | MW_Running \<Rightarrow> mw_slow_down T u MW_Pausing MW_Paused w)"

definition mw_resume :: "real \<Rightarrow> plan_vars \<Rightarrow> wrapper \<Rightarrow> bool \<times> wrapper" where
  "mw_resume T u w =
     (case mw_state w of
        MW_Paused \<Rightarrow>
          let remaining = mw_target_length w - mw_curr_length w
          in if remaining \<le> 0 then (True, w\<lparr>mw_state := MW_Stopped\<rparr>)
             else let sp = (temp_using_speed_param w)\<lparr>entry_v := 0, exit_v := 0\<rparr>;
                      (planned, m) = mrt_plan T u sp remaining (mw_mrt w);
                      w' = w\<lparr>temp_using_speed_param := sp, mw_mrt := m\<rparr>
                  in if \<not> planned then (False, w'\<lparr>mw_state := MW_Stopped\<rparr>) else (True, w'\<lparr>mw_state := MW_Running\<rparr>)
      | _ \<Rightarrow> (False, w))"

definition mw_stop :: "real \<Rightarrow> plan_vars \<Rightarrow> bool \<Rightarrow> wrapper \<Rightarrow> mw_result" where
  "mw_stop T u immediate w =
     (if immediate then Inr (True, w\<lparr>mw_state := MW_Stopped\<rparr>)
      else case mw_state w of
             MW_NotStarted \<Rightarrow> Inr (False, w)
           | MW_Paused \<Rightarrow> Inr (True, w\<lparr>mw_state := MW_Stopped\<rparr>)
           | MW_Pausing \<Rightarrow> Inr (True, w\<lparr>mw_state := MW_Stopping\<rparr>)
           | MW_Stopping \<Rightarrow> Inr (True, w)
           | MW_Stopped \<Rightarrow> Inr (True, w)
           | MW_Running \<Rightarrow> mw_slow_down T u MW_Stopping MW_Stopped w)"

definition mw_change_speed :: "real \<Rightarrow> plan_vars \<Rightarrow> real \<Rightarrow> wrapper \<Rightarrow> bool \<times> wrapper" where
  "mw_change_speed T u v w =
     (if v \<le> 0 then (False, w)
      else case mw_state w of
             MW_NotStarted \<Rightarrow> (False, w)
           | MW_Stopping \<Rightarrow> (False, w)
           | MW_Stopped \<Rightarrow> (False, w)
           | MW_Paused \<Rightarrow> (True, w\<lparr>temp_using_speed_param := (temp_using_speed_param w)\<lparr>cruise_v := v\<rparr>\<rparr>)
           | MW_Pausing \<Rightarrow> (True, w\<lparr>temp_using_speed_param := (temp_using_speed_param w)\<lparr>cruise_v := v\<rparr>\<rparr>)
           | MW_Running \<Rightarrow>
               let cur = mrt_current_speed (mw_mrt w); remaining = mw_target_length w - mw_curr_length w
               in if cur \<le> 0 then (False, w)
                  else if remaining \<le> 0 then (True, w)
                  else let sp = (temp_using_speed_param w)\<lparr>cruise_v := v, entry_v := cur, exit_v := 0\<rparr>;
                           (planned, m) = mrt_plan T u sp remaining (mw_mrt w);
                           w' = w\<lparr>temp_using_speed_param := sp, mw_mrt := m\<rparr>
                       in if \<not> planned then (False, w'\<lparr>mw_state := MW_Stopped\<rparr>) else (True, w'))"

definition mw_clear :: "wrapper \<Rightarrow> wrapper" where
  "mw_clear w = w\<lparr>mw_mrt := mrt_clear (mw_mrt w), mw_state := MW_NotStarted, mw_curr_length := 0, mw_target_length := 0\<rparr>"

definition mw_run_once :: "wrapper \<Rightarrow> real \<times> wrapper" where
  "mw_run_once w =
     (let go = (\<lambda>rest. let (x, m) = mrt_run_once (mw_mrt w);
                          w' = w\<lparr>mw_mrt := m, mw_curr_length := mw_curr_length w + x\<rparr>
                      in (x, if \<not> mrt_running m then w'\<lparr>mw_state := rest\<rparr> else w'))
      in case mw_state w of
           MW_Running \<Rightarrow> go MW_Stopped
         | MW_Pausing \<Rightarrow> go MW_Paused
         | MW_Stopping \<Rightarrow> go MW_Stopped
         | _ \<Rightarrow> (0, w))"

section \<open>The invariant\<close>

text \<open>
  Speeds with which a plan has at least one cycle whatever the length: the planner takes an exit
  speed of 0 for 2, and the cruise speed has to differ from it.
\<close>

definition cruise_ok :: "real \<Rightarrow> bool" where
  "cruise_ok v \<longleftrightarrow> 0 < v \<and> differ v 2"

definition speed_ok :: "speed_param \<Rightarrow> bool" where
  "speed_ok sp \<longleftrightarrow> acc_ok sp \<and> cruise_ok (cruise_v sp) \<and> exit_v sp \<le> 0"

lemma speed_ok_plannable: "speed_ok sp \<Longrightarrow> 0 < T \<Longrightarrow> 0 < s \<Longrightarrow> plannable T sp s"
  by (simp add: speed_ok_def cruise_ok_def plannable_def exit_speed_def)

definition mw_remaining :: "wrapper \<Rightarrow> real" where
  "mw_remaining w = mw_target_length w - mw_curr_length w"

definition mw_moving :: "wrapper \<Rightarrow> bool" where
  "mw_moving w \<longleftrightarrow> mw_state w \<in> {MW_Running, MW_Pausing, MW_Stopping}"

text \<open>What is left of the planned stretch.\<close>

definition stretch_left :: "wrapper \<Rightarrow> real" where
  "stretch_left w = mrt_target_length (mw_mrt w) - mrt_current_length (mw_mrt w)"

definition mw_inv :: "wrapper \<Rightarrow> bool" where
  "mw_inv w \<longleftrightarrow> speed_ok (record_speed_param w) \<and> speed_ok (temp_using_speed_param w)
     \<and> (mw_moving w \<longrightarrow> mrt_running (mw_mrt w) \<and> mrt_inv (mw_mrt w))
     \<and> (mw_state w = MW_Running \<longrightarrow> stretch_left w = mw_remaining w)
     \<and> (mw_state w \<in> {MW_Pausing, MW_Stopping} \<longrightarrow> stretch_left w \<le> mw_remaining w)"

definition mw_step :: "wrapper \<Rightarrow> wrapper" where
  "mw_step w = snd (mw_run_once w)"

definition mw_rest :: "mw_state \<Rightarrow> mw_state" where
  "mw_rest s = (if s = MW_Pausing then MW_Paused else MW_Stopped)"

lemma mw_run_moving:
  assumes "mw_moving w"
  defines "m \<equiv> snd (mrt_run_once (mw_mrt w))" and "x \<equiv> fst (mrt_run_once (mw_mrt w))"
  shows "mw_run_once w = (x, w\<lparr>mw_mrt := m, mw_curr_length := mw_curr_length w + x,
     mw_state := if mrt_running m then mw_state w else mw_rest (mw_state w)\<rparr>)"
  using assms(1) unfolding m_def x_def mw_moving_def
  by (auto simp: mw_run_once_def mw_rest_def Let_def split: prod.splits)

lemma mw_run_still: "\<not> mw_moving w \<Longrightarrow> mw_run_once w = (0, w)"
  by (cases "mw_state w") (simp_all add: mw_moving_def mw_run_once_def)

lemma mw_step_moving:
  assumes "mw_moving w"
  shows "mw_curr_length (mw_step w) = mw_curr_length w + fst (mrt_run_once (mw_mrt w))"
    "mw_target_length (mw_step w) = mw_target_length w" "mw_mrt (mw_step w) = mrt_step (mw_mrt w)"
    "record_speed_param (mw_step w) = record_speed_param w"
    "temp_using_speed_param (mw_step w) = temp_using_speed_param w"
    "mw_state (mw_step w) = (if mrt_running (mrt_step (mw_mrt w)) then mw_state w else mw_rest (mw_state w))"
  by (simp_all add: mw_step_def mw_run_moving[OF assms] mrt_step_def)

lemma mw_step_still [simp]: "\<not> mw_moving w \<Longrightarrow> mw_step w = w"
  by (simp add: mw_step_def mw_run_still)

lemma mw_rest_moving: "mw_rest s \<notin> {MW_Running, MW_Pausing, MW_Stopping}"
  by (simp add: mw_rest_def)

lemma mw_step_left:
  assumes "mw_moving w"
  shows "stretch_left (mw_step w) = stretch_left w - fst (mrt_run_once (mw_mrt w))"
    and "mw_remaining (mw_step w) = mw_remaining w - fst (mrt_run_once (mw_mrt w))"
  using assms by (simp_all add: stretch_left_def mw_remaining_def mw_step_moving mrt_step_def run_once_fixed run_once_increment)

lemma mw_step_inv: "mw_inv w \<Longrightarrow> mw_inv (mw_step w)"
proof (cases "mw_moving w")
  case True
  assume i: "mw_inv w"
  note s = mw_step_moving[OF True] mw_step_left[OF True]
  have m: "mrt_inv (mrt_step (mw_mrt w))" using i True by (simp add: mw_inv_def mrt_inv_step)
  show ?thesis using i m True mw_rest_moving[of "mw_state w"]
    by (auto simp: mw_inv_def s mw_moving_def)
qed simp

definition mw_left :: "wrapper \<Rightarrow> nat" where
  "mw_left w = mrt_left (mw_mrt w)"

interpretation mw: stepped mw_step "\<lambda>w. \<not> mw_moving w" mw_inv mw_left
proof
  fix w assume i: "mw_inv w" and "\<not> \<not> mw_moving w"
  then have m: "mw_moving w" by simp
  show "mw_inv (mw_step w)" by (rule mw_step_inv[OF i])
  show "\<not> mw_moving (mw_step w) \<or> mw_left (mw_step w) < mw_left w"
    using i m by (simp add: mw_left_def mw_step_moving mw_inv_def mrt_left_step)
qed

text \<open>The end of a stretch leaves what the stretch was not planned for.\<close>

lemma mw_end:
  assumes "mw_inv w" "mw_moving w" "\<not> mw_moving (mw_step w)"
  shows "mw_remaining (mw_step w) = mw_remaining w - stretch_left w" "fst (mw_run_once w) = 0"
    and "mw_state w = MW_Running \<Longrightarrow> mw_remaining (mw_step w) = 0"
proof -
  have r: "mrt_running (mw_mrt w)" "mrt_inv (mw_mrt w)" using assms(1,2) by (simp_all add: mw_inv_def)
  have over: "\<not> mrt_running (mrt_step (mw_mrt w))"
    using assms(2,3) by (auto simp: mw_moving_def mw_step_moving[OF assms(2)] split: if_splits)
  have x: "fst (mrt_run_once (mw_mrt w)) = 0" using run_once_over over by (simp add: mrt_step_def)
  have "mrt_current_length (mrt_step (mw_mrt w)) = mrt_target_length (mw_mrt w)"
    using mrt_over_length[OF r(2,1) over] by simp
  then have l: "stretch_left w = 0"
    using x run_once_increment[of "mw_mrt w"] by (simp add: stretch_left_def mrt_step_def)
  then show "mw_remaining (mw_step w) = mw_remaining w - stretch_left w" using mw_step_left(2)[OF assms(2)] x by simp
  then show "mw_state w = MW_Running \<Longrightarrow> mw_remaining (mw_step w) = 0" using l assms(1) by (simp add: mw_inv_def)
  show "fst (mw_run_once w) = 0" using x by (simp add: mw_run_moving[OF assms(2)])
qed

lemma mw_step_state:
  assumes "mw_inv w" "mw_moving w"
  obtains "mw_state (mw_step w) = mw_state w"
  | "mw_state (mw_step w) = mw_rest (mw_state w)" "mw_remaining (mw_step w) = mw_remaining w - stretch_left w"
proof (cases "mw_moving (mw_step w)")
  case True
  then have "mw_state (mw_step w) = mw_state w"
    using mw_rest_moving[of "mw_state w"] by (simp add: mw_step_moving[OF assms(2)] mw_moving_def split: if_splits)
  then show ?thesis by (rule that(1))
next
  case False
  then have "mw_state (mw_step w) = mw_rest (mw_state w)"
    using assms(2) by (simp add: mw_step_moving[OF assms(2)] mw_moving_def split: if_splits)
  then show ?thesis using mw_end(1)[OF assms False] by (rule that(2))
qed

section \<open>Operations keep the invariant\<close>

lemma mw_plan_inv:
  assumes "speed_ok sp" "0 < T" "0 < l" "l \<le> mw_remaining w" "speed_ok (record_speed_param w)"
    "st \<in> {MW_Running, MW_Pausing, MW_Stopping}" "st = MW_Running \<longrightarrow> l = mw_remaining w"
  shows "fst (mrt_plan T u sp l (mw_mrt w))"
    and "mw_inv (w\<lparr>temp_using_speed_param := sp, mw_mrt := snd (mrt_plan T u sp l (mw_mrt w)), mw_state := st\<rparr>)"
proof -
  note p = mrt_plan_sel[OF assms(3), of T u sp "mw_mrt w"]
  have i: "mrt_inv (snd (mrt_plan T u sp l (mw_mrt w)))"
    using mrt_plan_inv(1)[OF speed_ok_plannable[OF assms(1-3)]] .
  show "fst (mrt_plan T u sp l (mw_mrt w))" by (rule p(1))
  show "mw_inv (w\<lparr>temp_using_speed_param := sp, mw_mrt := snd (mrt_plan T u sp l (mw_mrt w)), mw_state := st\<rparr>)"
    using assms p i by (auto simp: mw_inv_def mw_moving_def stretch_left_def mw_remaining_def)
qed

lemma mw_inv_rest:
  "mw_inv w \<Longrightarrow> st \<in> {MW_Paused, MW_Stopped} \<Longrightarrow> mw_inv (w\<lparr>mw_state := st\<rparr>)"
  by (auto simp: mw_inv_def mw_moving_def)

lemma mw_start_inv:
  assumes "speed_ok sp" "0 < T" "0 < l"
  shows "fst (mw_start T u sp l w)" and "mw_inv (snd (mw_start T u sp l w))"
    and "mw_state (snd (mw_start T u sp l w)) = MW_Running" and "mw_curr_length (snd (mw_start T u sp l w)) = 0"
    and "mw_target_length (snd (mw_start T u sp l w)) = l"
proof -
  obtain m where m: "mrt_plan T u sp l (mw_mrt w) = (True, m)" using mrt_plan_sel(1)[OF assms(3)] by (metis (full_types) prod.collapse)
  have i: "mrt_inv m" using mrt_plan_inv(1)[OF speed_ok_plannable[OF assms]] m by (metis snd_conv)
  note p = mrt_plan_sel[OF assms(3), of T u sp "mw_mrt w", unfolded m snd_conv]
  have a: "acc_ok sp" using assms(1) by (simp add: speed_ok_def)
  show "fst (mw_start T u sp l w)" "mw_inv (snd (mw_start T u sp l w))" "mw_state (snd (mw_start T u sp l w)) = MW_Running"
    "mw_curr_length (snd (mw_start T u sp l w)) = 0" "mw_target_length (snd (mw_start T u sp l w)) = l"
    using p i a assms by (simp_all add: mw_start_def m mw_inv_def mw_moving_def stretch_left_def mw_remaining_def)
qed

text \<open>Slowing down never fails, and the way it plans is not longer than what is left.\<close>

lemma mw_slow_down_inv:
  assumes i: "mw_inv w" "mw_state w = MW_Running" "0 < T"
    and st: "slowing \<in> {MW_Pausing, MW_Stopping}" "rest \<in> {MW_Paused, MW_Stopped}"
  obtains w' where "mw_slow_down T u slowing rest w = Inr (True, w')" "mw_inv w'" "mw_state w' \<in> {slowing, rest}"
    "mw_curr_length w' = mw_curr_length w" "mw_target_length w' = mw_target_length w"
proof -
  define v where "v = mrt_current_speed (mw_mrt w)"
  define sp where "sp = (temp_using_speed_param w)\<lparr>entry_v := v, exit_v := 0\<rparr>"
  define d where "d = v * v / (-2 * dec0 (record_speed_param w))"
  define l where "l = (if d > mw_remaining w then mw_remaining w else d)"
  have rec: "dec0 (record_speed_param w) < 0" "speed_ok (record_speed_param w)" using i(1) by (simp_all add: mw_inv_def speed_ok_def acc_ok_def)
  have sp: "speed_ok sp" using i(1) by (auto simp: sp_def mw_inv_def speed_ok_def acc_ok_def)
  show ?thesis
  proof (cases "v \<le> 0 \<or> mw_remaining w \<le> 0")
    case True
    then have "mw_slow_down T u slowing rest w = Inr (True, w\<lparr>mw_state := rest\<rparr>)"
      by (auto simp: mw_slow_down_def v_def mw_remaining_def Let_def)
    then show ?thesis using that mw_inv_rest[OF i(1) st(2)] by simp
  next
    case False
    then have pos: "0 < v" "0 < mw_remaining w" by auto
    have d0: "0 < d" using pos(1) rec(1) by (simp add: d_def divide_pos_neg)
    have l: "0 < l" "l \<le> mw_remaining w" using d0 pos by (auto simp: l_def)
    define m where "m = snd (mrt_plan T u sp l (mw_mrt w))"
    have p: "mrt_plan T u sp l (mw_mrt w) = (True, m)" using mrt_plan_sel(1)[OF l(1)] by (simp add: m_def prod_eq_iff)
    have g: "get_dec_length v (dec0 (record_speed_param w)) = Inr d"
      using pos(1) rec(1) by (simp add: get_dec_length_def d_def)
    have "mw_slow_down T u slowing rest w = Inr (True, w\<lparr>temp_using_speed_param := sp, mw_mrt := m, mw_state := slowing\<rparr>)"
      unfolding mw_slow_down_def Let_def v_def[symmetric] mw_remaining_def[symmetric] sp_def[symmetric] g rbind_simps
        l_def[symmetric] p using pos by simp
    moreover have "mw_inv (w\<lparr>temp_using_speed_param := sp, mw_mrt := m, mw_state := slowing\<rparr>)"
      unfolding m_def by (rule mw_plan_inv(2)[OF sp i(3) l rec(2)]) (use st(1) in auto)
    ultimately show ?thesis using that by simp
  qed
qed

lemma mw_pause_inv:
  assumes "mw_inv w" "0 < T" "mw_is_started w"
  shows "\<exists>b w'. mw_pause T u w = Inr (b, w') \<and> mw_inv w' \<and> mw_is_started w' \<and> mw_curr_length w' = mw_curr_length w
    \<and> mw_target_length w' = mw_target_length w
    \<and> (if mw_state w \<in> {MW_Running, MW_Pausing, MW_Paused} then b \<and> mw_state w' \<in> {MW_Pausing, MW_Paused}
       else \<not> b \<and> w' = w)"
proof (cases "mw_state w = MW_Running")
  case True
  obtain w' where "mw_slow_down T u MW_Pausing MW_Paused w = Inr (True, w')" "mw_inv w'" "mw_state w' \<in> {MW_Pausing, MW_Paused}"
    "mw_curr_length w' = mw_curr_length w" "mw_target_length w' = mw_target_length w"
    using mw_slow_down_inv[OF assms(1) True assms(2), of MW_Pausing MW_Paused u] by auto
  then show ?thesis using True
    by (intro exI[of _ True] exI[of _ w'] conjI) (auto simp: mw_pause_def mw_is_started_def)
next
  case False
  then show ?thesis using assms by (cases "mw_state w") (simp_all add: mw_pause_def mw_is_started_def ex_bool_eq)
qed

lemma mw_stop_inv:
  assumes "mw_inv w" "0 < T"
  shows "\<exists>b w'. mw_stop T u imm w = Inr (b, w') \<and> mw_inv w' \<and> mw_curr_length w' = mw_curr_length w
    \<and> mw_target_length w' = mw_target_length w
    \<and> (imm \<or> mw_is_started w \<longrightarrow> b \<and> mw_state w' \<in> {MW_Stopping, MW_Stopped})
    \<and> (\<not> imm \<and> \<not> mw_is_started w \<longrightarrow> w' = w) \<and> (imm \<longrightarrow> mw_state w' = MW_Stopped)"
proof (cases "\<not> imm \<and> mw_state w = MW_Running")
  case True
  obtain w' where "mw_slow_down T u MW_Stopping MW_Stopped w = Inr (True, w')" "mw_inv w'" "mw_state w' \<in> {MW_Stopping, MW_Stopped}"
    "mw_curr_length w' = mw_curr_length w" "mw_target_length w' = mw_target_length w"
    using mw_slow_down_inv[OF assms(1) _ assms(2), of MW_Stopping MW_Stopped u] True by auto
  then show ?thesis using True by (auto simp: mw_stop_def mw_is_started_def)
next
  case False
  have stopped: "mw_inv (w\<lparr>mw_state := MW_Stopped\<rparr>)" using mw_inv_rest[OF assms(1)] by simp
  have slowing: "mw_inv (w\<lparr>mw_state := MW_Stopping\<rparr>)" if "mw_state w = MW_Pausing"
    using assms(1) that by (auto simp: mw_inv_def mw_moving_def stretch_left_def mw_remaining_def)
  show ?thesis
  proof (cases imm)
    case True
    then show ?thesis using stopped
      by (intro exI[of _ True] exI[of _ "w\<lparr>mw_state := MW_Stopped\<rparr>"]) (simp add: mw_stop_def)
  next
    case ni: False
    then show ?thesis using False stopped slowing assms(1)
      by (cases "mw_state w") (simp_all add: mw_stop_def mw_is_started_def ex_bool_eq)
  qed
qed

lemma mw_resume_inv:
  assumes "mw_inv w" "0 < T"
  shows "mw_inv (snd (mw_resume T u w))" (is ?I)
    and "mw_curr_length (snd (mw_resume T u w)) = mw_curr_length w" (is ?C)
    and "mw_target_length (snd (mw_resume T u w)) = mw_target_length w" (is ?G)
    and "mw_state w \<noteq> MW_Paused \<Longrightarrow> mw_resume T u w = (False, w)"
    and "mw_state w = MW_Paused \<Longrightarrow> fst (mw_resume T u w)
      \<and> mw_state (snd (mw_resume T u w)) = (if mw_remaining w \<le> 0 then MW_Stopped else MW_Running)" (is "_ \<Longrightarrow> ?S")
proof -
  show np: "mw_state w \<noteq> MW_Paused \<Longrightarrow> mw_resume T u w = (False, w)" by (cases "mw_state w") (simp_all add: mw_resume_def)
  define sp where "sp = (temp_using_speed_param w)\<lparr>entry_v := 0, exit_v := 0\<rparr>"
  define m where "m = snd (mrt_plan T u sp (mw_remaining w) (mw_mrt w))"
  have sp: "speed_ok sp" using assms(1) by (auto simp: sp_def mw_inv_def speed_ok_def acc_ok_def)
  have rec: "speed_ok (record_speed_param w)" using assms(1) by (simp add: mw_inv_def)
  have pl: "mrt_plan T u sp (mw_remaining w) (mw_mrt w) = (True, m)" if "\<not> mw_remaining w \<le> 0"
    using mrt_plan_sel(1)[of "mw_remaining w" T u sp "mw_mrt w"] that by (simp add: m_def prod_eq_iff)
  have eq: "mw_resume T u w = (True, if mw_remaining w \<le> 0 then w\<lparr>mw_state := MW_Stopped\<rparr>
      else w\<lparr>temp_using_speed_param := sp, mw_mrt := m, mw_state := MW_Running\<rparr>)" if "mw_state w = MW_Paused"
    unfolding mw_resume_def mw_remaining_def[symmetric] sp_def[symmetric] Let_def using that pl by simp
  have run: "mw_inv (w\<lparr>temp_using_speed_param := sp, mw_mrt := m, mw_state := MW_Running\<rparr>)" if "\<not> mw_remaining w \<le> 0"
    unfolding m_def by (rule mw_plan_inv(2)[OF sp assms(2) _ _ rec]) (use that in auto)
  show ?I ?C ?G using np eq run assms(1) mw_inv_rest[OF assms(1), of MW_Stopped] by (cases "mw_state w = MW_Paused"; simp)+
  show "mw_state w = MW_Paused \<Longrightarrow> ?S" using eq by simp
qed

lemma mw_change_speed_inv:
  assumes "mw_inv w" "0 < T" "cruise_ok v \<or> v \<le> 0"
  shows "mw_inv (snd (mw_change_speed T u v w))" (is ?I)
    and "mw_curr_length (snd (mw_change_speed T u v w)) = mw_curr_length w" (is ?C)
    and "mw_target_length (snd (mw_change_speed T u v w)) = mw_target_length w" (is ?G)
    and "mw_state (snd (mw_change_speed T u v w)) = mw_state w" (is ?S)
proof -
  define cur where "cur = mrt_current_speed (mw_mrt w)"
  define sp where "sp = (temp_using_speed_param w)\<lparr>cruise_v := v, entry_v := cur, exit_v := 0\<rparr>"
  define m where "m = snd (mrt_plan T u sp (mw_remaining w) (mw_mrt w))"
  have rec: "speed_ok (record_speed_param w)" using assms(1) by (simp add: mw_inv_def)
  have sp: "speed_ok sp" "speed_ok ((temp_using_speed_param w)\<lparr>cruise_v := v\<rparr>)" if "\<not> v \<le> 0"
    using assms(1,3) that by (auto simp: sp_def mw_inv_def speed_ok_def acc_ok_def)
  have pl: "mrt_plan T u sp (mw_remaining w) (mw_mrt w) = (True, m)" if "\<not> mw_remaining w \<le> 0"
    using mrt_plan_sel(1)[of "mw_remaining w" T u sp "mw_mrt w"] that by (simp add: m_def prod_eq_iff)
  have eq: "snd (mw_change_speed T u v w) = (if cur \<le> 0 \<or> mw_remaining w \<le> 0 then w
      else w\<lparr>temp_using_speed_param := sp, mw_mrt := m\<rparr>)" if "mw_state w = MW_Running" "\<not> v \<le> 0"
    unfolding mw_change_speed_def mw_remaining_def[symmetric] Let_def cur_def[symmetric] sp_def[symmetric]
    using that pl by simp
  have run: "mw_inv (w\<lparr>temp_using_speed_param := sp, mw_mrt := m\<rparr>)" if "mw_state w = MW_Running" "\<not> v \<le> 0" "\<not> mw_remaining w \<le> 0"
  proof -
    have "w\<lparr>temp_using_speed_param := sp, mw_mrt := m\<rparr> = w\<lparr>temp_using_speed_param := sp, mw_mrt := m, mw_state := MW_Running\<rparr>"
      using that(1) by simp
    moreover have "mw_inv \<dots>" unfolding m_def by (rule mw_plan_inv(2)[OF sp(1) assms(2) _ _ rec]) (use that in auto)
    ultimately show ?thesis by simp
  qed
  have temp: "mw_inv (w\<lparr>temp_using_speed_param := (temp_using_speed_param w)\<lparr>cruise_v := v\<rparr>\<rparr>)" if "\<not> v \<le> 0"
    using assms(1) sp(2)[OF that] by (simp add: mw_inv_def mw_moving_def stretch_left_def mw_remaining_def)
  have "?I \<and> ?C \<and> ?G \<and> ?S"
  proof (cases "mw_state w = MW_Running \<and> \<not> v \<le> 0")
    case True
    then show ?thesis using eq run assms(1) by simp
  next
    case False
    then show ?thesis using temp assms(1) by (cases "mw_state w") (simp_all add: mw_change_speed_def)
  qed
  then show ?I ?C ?G ?S by blast+
qed

end
