(* ===== verification/Point_Move.thy ===== *)
theory Point_Move
  imports Move_Wrapper
begin

text \<open>
  A straight move between two points (\<^verbatim>\<open>Src/Motion/PointMoveHandler/PointMoveHandler.cpp\<close>) over the
  interruptible move, and the sequences of operations a client can make on it. The position of
  every cycle is the start and the length so far in the direction of the target.
\<close>

section \<open>State and operations\<close>

record point_move =
  mrt_wrapper :: wrapper
  start_pos :: axis_t
  target_pos :: axis_t
  curr_pos :: axis_t
  unit_vector :: axis_t
  pm_target_length :: real
  pm_curr_length :: real

definition pm_start :: "real \<Rightarrow> plan_vars \<Rightarrow> speed_param \<Rightarrow> axis_t \<Rightarrow> axis_t \<Rightarrow> point_move \<Rightarrow> bool \<times> point_move" where
  "pm_start T u sp s t h =
     (let l = CalcAxisLength (sub_axis t s); (b, w) = mw_start T u sp l (mrt_wrapper h)
      in (b, h\<lparr>start_pos := s, target_pos := t, curr_pos := s, unit_vector := CalcAxisUnitVector s t,
               pm_target_length := l, pm_curr_length := 0, mrt_wrapper := w\<rparr>))"

definition pm_pause :: "real \<Rightarrow> plan_vars \<Rightarrow> point_move \<Rightarrow> (motion_fault, bool \<times> point_move) result" where
  "pm_pause T u h = rbind (mw_pause T u (mrt_wrapper h)) (\<lambda>(b, w). Inr (b, h\<lparr>mrt_wrapper := w\<rparr>))"

definition pm_resume :: "real \<Rightarrow> plan_vars \<Rightarrow> point_move \<Rightarrow> bool \<times> point_move" where
  "pm_resume T u h = (case mw_resume T u (mrt_wrapper h) of (b, w) \<Rightarrow> (b, h\<lparr>mrt_wrapper := w\<rparr>))"

definition pm_stop :: "real \<Rightarrow> plan_vars \<Rightarrow> bool \<Rightarrow> point_move \<Rightarrow> (motion_fault, bool \<times> point_move) result" where
  "pm_stop T u immediate h = rbind (mw_stop T u immediate (mrt_wrapper h)) (\<lambda>(b, w). Inr (b, h\<lparr>mrt_wrapper := w\<rparr>))"

definition pm_change_speed :: "real \<Rightarrow> plan_vars \<Rightarrow> real \<Rightarrow> point_move \<Rightarrow> bool \<times> point_move" where
  "pm_change_speed T u v h = (case mw_change_speed T u v (mrt_wrapper h) of (b, w) \<Rightarrow> (b, h\<lparr>mrt_wrapper := w\<rparr>))"

definition pm_clear :: "point_move \<Rightarrow> point_move" where
  "pm_clear h = h\<lparr>mrt_wrapper := mw_clear (mrt_wrapper h)\<rparr>"

definition pm_state :: "point_move \<Rightarrow> mw_state" where
  "pm_state h = mw_state (mrt_wrapper h)"

definition pm_is_over :: "point_move \<Rightarrow> bool" where
  "pm_is_over h \<longleftrightarrow> mw_is_stopped (mrt_wrapper h)"

definition pm_is_started :: "point_move \<Rightarrow> bool" where
  "pm_is_started h \<longleftrightarrow> mw_is_started (mrt_wrapper h)"

text \<open>When the move is over the position is not computed again.\<close>

definition pm_run_once :: "point_move \<Rightarrow> point_move" where
  "pm_run_once h =
     (let w = snd (mw_run_once (mrt_wrapper h)); h' = h\<lparr>mrt_wrapper := w\<rparr>
      in if \<not> mw_is_started w then h'
         else if mw_is_stopped w then h'
         else h'\<lparr>pm_curr_length := mw_curr_length w,
                  curr_pos := map2 (+) (start_pos h) (ScaleAxis (unit_vector h) (mw_curr_length w))\<rparr>)"

section \<open>Where the move is\<close>

definition at_length :: "axis_t \<Rightarrow> axis_t \<Rightarrow> real \<Rightarrow> axis_t" where
  "at_length s t l = map2 (+) s (ScaleAxis (CalcAxisUnitVector s t) l)"

lemma at_length_nth:
  assumes "is_axis s" "is_axis t" "i < 6"
  shows "at_length s t l ! i = s ! i + CalcAxisUnitVector s t ! i * l"
  using assms unit_vector_axis[OF assms(1,2)] by (simp add: at_length_def ScaleAxis_def)

lemma at_length_axis: "is_axis s \<Longrightarrow> is_axis t \<Longrightarrow> is_axis (at_length s t l)"
  using unit_vector_axis[of s t] by (simp add: at_length_def ScaleAxis_def is_axis_def)

lemma at_length_zero: "is_axis s \<Longrightarrow> is_axis t \<Longrightarrow> at_length s t 0 = s"
  by (rule axis_ext) (simp_all add: at_length_axis at_length_nth)

lemma at_length_end:
  assumes "is_axis s" "is_axis t" "s \<noteq> t"
  shows "at_length s t (CalcAxisLength (sub_axis t s)) = t" and "0 < CalcAxisLength (sub_axis t s)"
proof -
  obtain l where l: "0 < l" "l = CalcAxisLength (sub_axis t s)"
    using unit_vector_nth[OF assms, of 0] by auto
  show "0 < CalcAxisLength (sub_axis t s)" using l by simp
  show "at_length s t (CalcAxisLength (sub_axis t s)) = t"
  proof (rule axis_ext)
    fix i :: nat assume i: "i < 6"
    obtain k where k: "0 < k" "k = CalcAxisLength (sub_axis t s)" "CalcAxisUnitVector s t ! i = (t ! i - s ! i) / k"
      using unit_vector_nth[OF assms i] by auto
    then show "at_length s t (CalcAxisLength (sub_axis t s)) ! i = t ! i"
      using at_length_nth[OF assms(1,2) i] by simp
  qed (use assms at_length_axis in auto)
qed

text \<open>A started move from \<open>s\<close> to \<open>t\<close>.\<close>

definition pm_inv :: "axis_t \<Rightarrow> axis_t \<Rightarrow> point_move \<Rightarrow> bool" where
  "pm_inv s t h \<longleftrightarrow> mw_inv (mrt_wrapper h) \<and> mw_is_started (mrt_wrapper h)
     \<and> start_pos h = s \<and> target_pos h = t \<and> unit_vector h = CalcAxisUnitVector s t
     \<and> mw_target_length (mrt_wrapper h) = CalcAxisLength (sub_axis t s)
     \<and> curr_pos h = at_length s t (mw_curr_length (mrt_wrapper h))"

lemma pm_inv_axis: "pm_inv s t h \<Longrightarrow> is_axis s \<Longrightarrow> is_axis t \<Longrightarrow> is_axis (curr_pos h)"
  by (simp add: pm_inv_def at_length_axis)

lemma pm_at_target:
  assumes "pm_inv s t h" "is_axis s" "is_axis t" "s \<noteq> t" "mw_remaining (mrt_wrapper h) = 0"
  shows "curr_pos h = t"
  using assms at_length_end(1)[OF assms(2-4)] by (simp add: pm_inv_def mw_remaining_def)

lemma pm_start_inv:
  assumes "is_axis s" "is_axis t" "s \<noteq> t" "speed_ok sp" "0 < T"
  shows "fst (pm_start T u sp s t h)" and "pm_inv s t (snd (pm_start T u sp s t h))"
    and "pm_state (snd (pm_start T u sp s t h)) = MW_Running"
proof -
  have l: "0 < CalcAxisLength (sub_axis t s)" using at_length_end(2)[OF assms(1-3)] .
  note m = mw_start_inv[OF assms(4,5) l, of u "mrt_wrapper h"]
  have eq: "pm_start T u sp s t h = (fst (mw_start T u sp (CalcAxisLength (sub_axis t s)) (mrt_wrapper h)),
     h\<lparr>start_pos := s, target_pos := t, curr_pos := s, unit_vector := CalcAxisUnitVector s t,
       pm_target_length := CalcAxisLength (sub_axis t s), pm_curr_length := 0,
       mrt_wrapper := snd (mw_start T u sp (CalcAxisLength (sub_axis t s)) (mrt_wrapper h))\<rparr>)"
    by (simp add: pm_start_def Let_def split: prod.splits)
  show "fst (pm_start T u sp s t h)" "pm_inv s t (snd (pm_start T u sp s t h))"
    "pm_state (snd (pm_start T u sp s t h)) = MW_Running"
    unfolding eq using m assms(1,2) by (simp_all add: pm_inv_def pm_state_def mw_is_started_def at_length_zero)
qed

text \<open>A start without a distance is refused.\<close>

lemma pm_start_same: "is_axis s \<Longrightarrow> \<not> fst (pm_start T u sp s s h)"
proof -
  assume s: "is_axis s"
  have "sub_axis s s ! i = 0" if "i < 6" for i using s that by simp
  then have "set (sub_axis s s) \<subseteq> {0}" using s by (auto simp: set_conv_nth)
  then have m: "map (\<lambda>x. x * x) (sub_axis s s) = map (\<lambda>x. 0) (sub_axis s s)" by (intro map_cong) auto
  have "CalcAxisLength (sub_axis s s) = 0" unfolding CalcAxisLength_def m by simp
  then show ?thesis by (simp add: pm_start_def mw_start_def mrt_plan_def Let_def)
qed

lemma mw_step_started: "mw_is_started (mw_step w) = mw_is_started w"
  by (cases "mw_moving w") (auto simp: mw_is_started_def mw_step_moving mw_rest_def mw_moving_def)

lemma mw_step_target: "mw_target_length (mw_step w) = mw_target_length w"
  by (cases "mw_moving w") (simp_all add: mw_step_moving)

lemma mw_step_stopped_curr: "mw_inv w \<Longrightarrow> mw_is_stopped (mw_step w) \<Longrightarrow> mw_curr_length (mw_step w) = mw_curr_length w"
proof (cases "mw_moving w")
  case True
  assume a: "mw_inv w" "mw_is_stopped (mw_step w)"
  then have "\<not> mw_moving (mw_step w)" by (auto simp: mw_is_stopped_def mw_moving_def)
  from mw_end(2)[OF a(1) True this] show ?thesis by (simp add: mw_step_moving[OF True] mw_run_moving[OF True])
qed simp

lemma pm_run_inv:
  assumes "pm_inv s t h"
  shows "pm_inv s t (pm_run_once h)" "mrt_wrapper (pm_run_once h) = mw_step (mrt_wrapper h)"
proof -
  let ?w = "mw_step (mrt_wrapper h)"
  show w: "mrt_wrapper (pm_run_once h) = ?w" by (simp add: pm_run_once_def mw_step_def Let_def)
  have st: "mw_is_started ?w" using assms by (simp add: pm_inv_def mw_step_started)
  have i: "mw_inv ?w" using assms mw_step_inv by (simp add: pm_inv_def)
  have sel: "start_pos (pm_run_once h) = start_pos h" "target_pos (pm_run_once h) = target_pos h"
    "unit_vector (pm_run_once h) = unit_vector h" by (simp_all add: pm_run_once_def Let_def)
  have "curr_pos (pm_run_once h) = at_length s t (mw_curr_length ?w)"
  proof (cases "mw_is_stopped ?w")
    case True
    then have "curr_pos (pm_run_once h) = curr_pos h" by (simp add: pm_run_once_def mw_step_def Let_def)
    then show ?thesis using assms mw_step_stopped_curr[OF _ True] by (simp add: pm_inv_def)
  next
    case False
    then show ?thesis using st assms by (simp add: pm_run_once_def mw_step_def Let_def pm_inv_def at_length_def)
  qed
  then show "pm_inv s t (pm_run_once h)" using assms i st sel w by (simp add: pm_inv_def mw_step_target)
qed

lemma pm_wrapper_inv:
  assumes "pm_inv s t h" "mw_inv w" "mw_is_started w" "mw_target_length w = mw_target_length (mrt_wrapper h)"
    "mw_curr_length w = mw_curr_length (mrt_wrapper h)"
  shows "pm_inv s t (h\<lparr>mrt_wrapper := w\<rparr>)"
  using assms by (simp add: pm_inv_def)

section \<open>Sequences of operations\<close>

datatype move_op = OpRun | OpPause | OpResume | OpStop bool | OpChangeSpeed real

text \<open>One call of a client, with the values of the planner's uninitialised variables.\<close>

fun pm_do :: "real \<Rightarrow> plan_vars \<times> move_op \<Rightarrow> point_move \<Rightarrow> (motion_fault, point_move) result" where
  "pm_do T (u, OpRun) h = Inr (pm_run_once h)"
| "pm_do T (u, OpPause) h = rbind (pm_pause T u h) (\<lambda>r. Inr (snd r))"
| "pm_do T (u, OpResume) h = Inr (snd (pm_resume T u h))"
| "pm_do T (u, OpStop b) h = rbind (pm_stop T u b h) (\<lambda>r. Inr (snd r))"
| "pm_do T (u, OpChangeSpeed v) h = Inr (snd (pm_change_speed T u v h))"

fun pm_ops :: "real \<Rightarrow> (plan_vars \<times> move_op) list \<Rightarrow> point_move \<Rightarrow> (motion_fault, point_move) result" where
  "pm_ops T [] h = Inr h"
| "pm_ops T (a # as) h = rbind (pm_do T a h) (pm_ops T as)"

fun op_ok :: "move_op \<Rightarrow> bool" where
  "op_ok (OpChangeSpeed v) \<longleftrightarrow> cruise_ok v \<or> v \<le> 0"
| "op_ok _ \<longleftrightarrow> True"

fun is_stop :: "move_op \<Rightarrow> bool" where
  "is_stop (OpStop _) \<longleftrightarrow> True"
| "is_stop _ \<longleftrightarrow> False"

text \<open>No sequence of calls fails an assertion, and the position stays on the line.\<close>

lemma pm_do_inv:
  assumes "pm_inv s t h" "0 < T" "op_ok a"
  shows "\<exists>h'. pm_do T (u, a) h = Inr h' \<and> pm_inv s t h'"
proof -
  let ?w = "mrt_wrapper h"
  have i: "mw_inv ?w" "mw_is_started ?w" using assms(1) by (simp_all add: pm_inv_def)
  have put: "pm_inv s t (h\<lparr>mrt_wrapper := w\<rparr>)"
    if "mw_inv w" "mw_state w \<noteq> MW_NotStarted" "mw_target_length w = mw_target_length ?w" "mw_curr_length w = mw_curr_length ?w" for w
    using pm_wrapper_inv[OF assms(1)] that by (simp add: mw_is_started_def)
  show ?thesis
  proof (cases a)
    case OpRun
    then show ?thesis using pm_run_inv(1)[OF assms(1)] by simp
  next
    case OpPause
    obtain b w' where "mw_pause T u ?w = Inr (b, w')" "mw_inv w'" "mw_curr_length w' = mw_curr_length ?w"
      "mw_target_length w' = mw_target_length ?w" "mw_state w' \<noteq> MW_NotStarted"
      using mw_pause_inv[OF i(1) assms(2) i(2), of u] by (auto simp: mw_is_started_def)
    then show ?thesis using OpPause put by (simp add: pm_pause_def)
  next
    case OpResume
    note r = mw_resume_inv[OF i(1) assms(2), of u]
    have "mw_state (snd (mw_resume T u ?w)) \<noteq> MW_NotStarted"
      using r(4,5) i(2) by (cases "mw_state ?w = MW_Paused") (simp_all add: mw_is_started_def)
    then show ?thesis using OpResume put[OF r(1) _ r(3,2)] by (simp add: pm_resume_def case_prod_beta)
  next
    case (OpStop b)
    obtain c w' where "mw_stop T u b ?w = Inr (c, w')" "mw_inv w'" "mw_curr_length w' = mw_curr_length ?w"
      "mw_target_length w' = mw_target_length ?w" "mw_state w' \<noteq> MW_NotStarted"
      using mw_stop_inv[OF i(1) assms(2), of u b] i(2) by (auto simp: mw_is_started_def)
    then show ?thesis using OpStop put by (simp add: pm_stop_def)
  next
    case (OpChangeSpeed v)
    note c = mw_change_speed_inv[OF i(1) assms(2), of v u]
    have "mw_state (snd (mw_change_speed T u v ?w)) \<noteq> MW_NotStarted"
      using c(4) i(2) assms(3) OpChangeSpeed by (simp add: mw_is_started_def)
    then show ?thesis using OpChangeSpeed assms(3) put[OF c(1) _ c(3,2)] by (simp add: pm_change_speed_def case_prod_beta)
  qed
qed

lemma pm_ops_inv:
  assumes "pm_inv s t h" "0 < T" "\<And>u a. (u, a) \<in> set as \<Longrightarrow> op_ok a"
  shows "\<exists>h'. pm_ops T as h = Inr h' \<and> pm_inv s t h'"
  using assms(1,3)
proof (induction as arbitrary: h)
  case (Cons a as)
  obtain u b where a: "a = (u, b)" by (cases a)
  obtain h1 where h1: "pm_do T a h = Inr h1" "pm_inv s t h1"
    using pm_do_inv[OF Cons.prems(1) assms(2), of b u] Cons.prems(2) a by auto
  have "\<exists>h'. pm_ops T as h1 = Inr h' \<and> pm_inv s t h'"
    by (rule Cons.IH[OF h1(2)]) (use Cons.prems(2) in auto)
  then show ?case using h1(1) by simp
qed simp

section \<open>A move that is not stopped ends at its target\<close>

text \<open>
  The calls of a client that does not stop the move. A pause comes at most at the target (a
  correction of the planner may carry a cycle past it).
\<close>

inductive move_step :: "real \<Rightarrow> point_move \<Rightarrow> point_move \<Rightarrow> bool" for T where
  run: "move_step T h (pm_run_once h)"
| pause: "0 \<le> mw_remaining (mrt_wrapper h) \<Longrightarrow> pm_pause T u h = Inr (b, h') \<Longrightarrow> move_step T h h'"
| resume: "move_step T h (snd (pm_resume T u h))"
| change_speed: "cruise_ok v \<Longrightarrow> move_step T h (snd (pm_change_speed T u v h))"

definition on_course :: "axis_t \<Rightarrow> axis_t \<Rightarrow> point_move \<Rightarrow> bool" where
  "on_course s t h \<longleftrightarrow> pm_inv s t h \<and> pm_state h \<noteq> MW_Stopping
     \<and> (pm_state h = MW_Stopped \<longrightarrow> mw_remaining (mrt_wrapper h) = 0)
     \<and> (pm_state h = MW_Paused \<longrightarrow> 0 \<le> mw_remaining (mrt_wrapper h))"

lemma on_course_run: "on_course s t h \<Longrightarrow> on_course s t (pm_run_once h)"
proof -
  assume c: "on_course s t h"
  let ?w = "mrt_wrapper h"
  have i: "pm_inv s t h" "mw_inv ?w" using c by (simp_all add: on_course_def pm_inv_def)
  note r = pm_run_inv[OF i(1)]
  show ?thesis
  proof (cases "mw_moving ?w")
    case False
    then show ?thesis using c r by (simp add: on_course_def pm_state_def)
  next
    case True
    from mw_step_state[OF i(2) True] show ?thesis
    proof cases
      case 1
      then show ?thesis using c r True by (auto simp: on_course_def pm_state_def mw_moving_def)
    next
      case 2
      have st: "mw_state ?w = MW_Running \<or> mw_state ?w = MW_Pausing"
        using True c by (auto simp: mw_moving_def on_course_def pm_state_def)
      then have "(mw_state ?w = MW_Running \<longrightarrow> mw_remaining (mw_step ?w) = 0) \<and> 0 \<le> mw_remaining (mw_step ?w)"
        using i(2) 2(2) by (auto simp: mw_inv_def)
      then show ?thesis using 2(1) st r by (auto simp: on_course_def pm_state_def mw_rest_def)
    qed
  qed
qed

lemma run_state:
  assumes "on_course s t h" "pm_state h \<in> {st, mw_rest st}" "st \<in> {MW_Running, MW_Pausing}"
  shows "pm_state (pm_run_once h) \<in> {st, mw_rest st}"
proof -
  have i: "pm_inv s t h" "mw_inv (mrt_wrapper h)" using assms(1) by (simp_all add: on_course_def pm_inv_def)
  note w = pm_run_inv(2)[OF i(1)]
  show ?thesis
  proof (cases "mw_moving (mrt_wrapper h)")
    case False
    then show ?thesis using w assms(2) by (simp add: pm_state_def)
  next
    case True
    then have "mw_state (mrt_wrapper h) = st" using assms(2,3) by (auto simp: mw_moving_def pm_state_def mw_rest_def split: if_splits)
    from mw_step_state[OF i(2) True] this show ?thesis using w by cases (simp_all add: pm_state_def)
  qed
qed

lemma on_course_step:
  assumes "move_step T h h'" "0 < T" "on_course s t h"
  shows "on_course s t h'"
  using assms(1)
proof (cases rule: move_step.cases)
  case run
  then show ?thesis using on_course_run assms(3) by simp
next
  case (pause u b)
  have i: "mw_inv (mrt_wrapper h)" "mw_is_started (mrt_wrapper h)" using assms(3) by (simp_all add: on_course_def pm_inv_def)
  obtain w' where w: "mw_pause T u (mrt_wrapper h) = Inr (b, w')" "h' = h\<lparr>mrt_wrapper := w'\<rparr>"
    using pause(2) by (auto simp: pm_pause_def rbind_Inr_iff)
  have "pm_inv s t h'" using pm_do_inv[OF _ assms(2), of s t h OpPause u] pause(2) assms(3) by (simp add: on_course_def)
  then show ?thesis using mw_pause_inv[OF i(1) assms(2) i(2), of u] w pause(1) assms(3)
    by (cases "mw_state (mrt_wrapper h)") (auto simp: on_course_def pm_state_def mw_is_started_def mw_remaining_def)
next
  case (resume u)
  have i: "mw_inv (mrt_wrapper h)" using assms(3) by (simp add: on_course_def pm_inv_def)
  have "pm_inv s t h'" using pm_do_inv[OF _ assms(2), of s t h OpResume u] resume assms(3) by (simp add: on_course_def)
  then show ?thesis using mw_resume_inv[OF i assms(2), of u] resume assms(3)
    by (cases "mw_state (mrt_wrapper h) = MW_Paused")
      (auto simp: on_course_def pm_state_def pm_resume_def mw_remaining_def case_prod_beta)
next
  case (change_speed v u)
  have i: "mw_inv (mrt_wrapper h)" using assms(3) by (simp add: on_course_def pm_inv_def)
  have "pm_inv s t h'" using pm_do_inv[OF _ assms(2), of s t h "OpChangeSpeed v" u] change_speed assms(3) by (simp add: on_course_def)
  then show ?thesis using mw_change_speed_inv[OF i assms(2), of v u] change_speed assms(3)
    by (auto simp: on_course_def pm_state_def pm_change_speed_def mw_remaining_def case_prod_beta)
qed

lemma on_course_steps: "(move_step T)\<^sup>*\<^sup>* h h' \<Longrightarrow> 0 < T \<Longrightarrow> on_course s t h \<Longrightarrow> on_course s t h'"
  by (induction rule: rtranclp_induct) (blast intro: on_course_step)+

lemma on_course_stopped:
  "on_course s t h \<Longrightarrow> is_axis s \<Longrightarrow> is_axis t \<Longrightarrow> s \<noteq> t \<Longrightarrow> pm_state h = MW_Stopped \<Longrightarrow> curr_pos h = t"
  using pm_at_target[of s t h] by (simp add: on_course_def)

lemma pm_start_on_course:
  assumes "is_axis s" "is_axis t" "s \<noteq> t" "speed_ok sp" "0 < T"
  shows "on_course s t (snd (pm_start T u sp s t h))"
  using pm_start_inv[OF assms] by (simp add: on_course_def)

lemma pm_steps_wrapper: "pm_inv s t h \<Longrightarrow> pm_inv s t ((pm_run_once ^^ k) h)
    \<and> mrt_wrapper ((pm_run_once ^^ k) h) = (mw_step ^^ k) (mrt_wrapper h)"
  by (induction k) (simp_all add: pm_run_inv[of s t])

text \<open>Left alone, a running move is over after boundedly many cycles, at the target.\<close>

lemma pm_run_finishes:
  assumes "on_course s t h" "pm_state h = MW_Running" "is_axis s" "is_axis t" "s \<noteq> t"
  shows "\<exists>k \<le> Suc (mw_left (mrt_wrapper h)). pm_state ((pm_run_once ^^ k) h) = MW_Stopped \<and> curr_pos ((pm_run_once ^^ k) h) = t
    \<and> (\<forall>j<k. pm_state ((pm_run_once ^^ j) h) = MW_Running)"
proof -
  let ?w = "mrt_wrapper h" and ?h = "\<lambda>k. (pm_run_once ^^ k) h"
  have i: "pm_inv s t h" "mw_inv ?w" using assms(1) by (simp_all add: on_course_def pm_inv_def)
  obtain k where k: "k \<le> Suc (mw_left ?w)" "\<not> mw_moving ((mw_step ^^ k) ?w)" "\<forall>j<k. \<not> \<not> mw_moving ((mw_step ^^ j) ?w)"
    using mw.over_eventually[OF i(2)] by blast
  have st: "mrt_wrapper (?h j) = (mw_step ^^ j) ?w" for j using pm_steps_wrapper[OF i(1)] by simp
  have oc: "on_course s t (?h j)" for j by (induction j) (simp_all add: assms(1) on_course_run)
  have run: "j \<le> k \<Longrightarrow> pm_state (?h j) = (if mw_moving ((mw_step ^^ j) ?w) then MW_Running else MW_Stopped)" for j
  proof (induction j)
    case 0
    then show ?case using assms(2) by (simp add: pm_state_def mw_moving_def)
  next
    case (Suc j)
    then have m: "mw_moving ((mw_step ^^ j) ?w)" "pm_state (?h j) = MW_Running" using k(3) by auto
    have r: "mw_state ((mw_step ^^ j) ?w) = MW_Running" using m(2) st by (simp add: pm_state_def)
    have "mw_state (mw_step ((mw_step ^^ j) ?w)) = (if mw_moving (mw_step ((mw_step ^^ j) ?w)) then MW_Running else MW_Stopped)"
      using r by (simp add: mw_step_moving[OF m(1)] mw_rest_def mw_moving_def)
    then show ?case using st[of "Suc j"] by (simp add: pm_state_def)
  qed
  have "pm_state (?h k) = MW_Stopped" using run[of k] k(2) by simp
  then show ?thesis using k run on_course_stopped[OF oc assms(3-5)] by (intro exI[of _ k]) auto
qed

text \<open>Whatever a client does with a straight move short of stopping it (running it, pausing it
  before the target, resuming it, changing its speed), when the move is over it is at its target
  exactly.\<close>

theorem move_ends_at_target:
  assumes "is_axis s" "is_axis t" "s \<noteq> t" "speed_ok sp" "0 < T"
    "(move_step T)\<^sup>*\<^sup>* (snd (pm_start T u sp s t h0)) h" "pm_state h = MW_Stopped"
  shows "curr_pos h = t"
  using on_course_stopped[OF on_course_steps[OF assms(6,5) pm_start_on_course[OF assms(1-5)]] assms(1-3,7)] .

text \<open>C28: A straight move that runs, after any such calls, is over after finitely many more cycles,
  at its target, and runs until then.\<close>

theorem move_finishes:
  assumes "is_axis s" "is_axis t" "s \<noteq> t" "speed_ok sp" "0 < T"
    "(move_step T)\<^sup>*\<^sup>* (snd (pm_start T u sp s t h0)) h" "pm_state h = MW_Running"
  shows "\<exists>k. pm_state ((pm_run_once ^^ k) h) = MW_Stopped \<and> curr_pos ((pm_run_once ^^ k) h) = t
    \<and> (\<forall>j<k. pm_state ((pm_run_once ^^ j) h) = MW_Running)"
  using pm_run_finishes[OF on_course_steps[OF assms(6,5) pm_start_on_course[OF assms(1-5)]] assms(7,1-3)] by blast

text \<open>No sequence of calls on a started move, stops and pauses at any time included, fails an
  assertion of the code, and the position it reports is always the start and the length so far
  in the direction of the target.\<close>

theorem move_calls_safe:
  assumes "is_axis s" "is_axis t" "s \<noteq> t" "speed_ok sp" "0 < T" "list_all (\<lambda>(u, a). op_ok a) as"
  shows "\<exists>h. pm_ops T as (snd (pm_start T u sp s t h0)) = Inr h
    \<and> curr_pos h = at_length s t (mw_curr_length (mrt_wrapper h)) \<and> target_pos h = t \<and> pm_is_started h"
proof -
  obtain h where "pm_ops T as (snd (pm_start T u sp s t h0)) = Inr h" "pm_inv s t h"
    using pm_ops_inv[OF pm_start_inv(2)[OF assms(1-5)] assms(5)] assms(6) by (fastforce simp: list_all_iff)
  then show ?thesis by (simp add: pm_inv_def pm_is_started_def)
qed

definition sample_from :: axis_t where "sample_from = [0, 0, 0, 0, 0, 0]"
definition sample_to :: axis_t where "sample_to = [30, 40, 0, 0, 0, 0]"

definition pm_new :: point_move where
  "pm_new = \<lparr>mrt_wrapper = mw_new, start_pos = sample_from, target_pos = sample_from, curr_pos = sample_from,
     unit_vector = sample_from, pm_target_length = 0, pm_curr_length = 0\<rparr>"

lemma sample_move: "is_axis sample_from" "is_axis sample_to" "sample_from \<noteq> sample_to" "speed_ok sample_speed"
  by (simp_all add: sample_from_def sample_to_def is_axis_def EDM_AXIS_NUM_def speed_ok_def cruise_ok_def differ_def acc_ok_def sample_speed_def)

lemma move_finishes_witness:
  "\<exists>k. curr_pos ((pm_run_once ^^ k) (snd (pm_start (1 / 1000) zero_vars sample_speed sample_from sample_to pm_new))) = sample_to"
  using move_finishes[OF sample_move _ rtranclp.rtrancl_refl pm_start_inv(3)[OF sample_move], of "1 / 1000"] by force

lemma run_steps: "(move_step T)\<^sup>*\<^sup>* h ((pm_run_once ^^ k) h)"
  by (induction k) (auto intro: move_step.run rtranclp.rtrancl_into_rtrancl)

lemma move_ends_at_target_witness:
  "\<exists>h. (move_step (1 / 1000))\<^sup>*\<^sup>* (snd (pm_start (1 / 1000) zero_vars sample_speed sample_from sample_to pm_new)) h
     \<and> pm_state h = MW_Stopped \<and> curr_pos h = sample_to"
proof -
  let ?T = "1 / 1000 :: real" and ?h = "snd (pm_start (1 / 1000) zero_vars sample_speed sample_from sample_to pm_new)"
  obtain k where k: "pm_state ((pm_run_once ^^ k) ?h) = MW_Stopped"
    using pm_run_finishes[OF pm_start_on_course[OF sample_move] pm_start_inv(3)[OF sample_move] sample_move(1-3), of ?T] by force
  from move_ends_at_target[OF sample_move _ run_steps k] k run_steps show ?thesis by force
qed

lemma move_calls_safe_witness:
  "\<exists>h. pm_ops (1 / 1000) [(zero_vars, OpRun), (zero_vars, OpPause), (zero_vars, OpStop False), (zero_vars, OpPause), (zero_vars, OpResume)]
     (snd (pm_start (1 / 1000) zero_vars sample_speed sample_from sample_to pm_new)) = Inr h
     \<and> target_pos h = sample_to"
  using move_calls_safe[OF sample_move, of "1 / 1000" "[(zero_vars, OpRun), (zero_vars, OpPause), (zero_vars, OpStop False),
      (zero_vars, OpPause), (zero_vars, OpResume)]" zero_vars pm_new] by auto

end
