(* ===== verification/Motion_Shared.thy ===== *)
theory Motion_Shared
  imports Point_Move
begin

text \<open>
  What the parts of the motion thread share (\<^verbatim>\<open>Src/Motion/MotionSharedData\<close>): the commanded position, the
  touch detection (\<^verbatim>\<open>Src/Motion/TouchDetectHandler\<close>), the signals of a cycle (\<^verbatim>\<open>Src/Motion/SignalBuffer\<close>),
  the settings of the jumps, the speed the servo board asks for, and the two clocks.

  The shared objects are one record that is passed on. Some fields are inputs of a cycle:
  \<open>touch_physical\<close>, what the sensor of the touch detection says; \<open>servo_mm_min\<close>, the speed of the
  last message of the servo board; \<open>now_ms\<close>, the system clock, and \<open>now_ns\<close>, the high-resolution
  clock (in a cycle each has one value, though the code may read it twice). The callbacks are logged.
\<close>

section \<open>Shared objects\<close>

datatype motion_signal =
    MotionSignal_ManualPointMoveStarted | MotionSignal_ManualPointMoveStopped | MotionSignal_AutoStarted
  | MotionSignal_AutoPaused | MotionSignal_AutoResumed | MotionSignal_AutoStopped | MotionSignal_AutoNotify

record jump_param =
  up_blu :: real
  dn_ms :: int
  buffer_blu :: real
  jump_speed :: speed_param

text \<open>The callbacks of the state machine, to the voltage gate and to the high frequency of the power supply.\<close>

datatype io_call = EnableVoltageGate bool | MachOn bool

record shared =
  global_cmd_axis :: axis_t
  detect_enabled :: bool
  warning :: bool
  touch_physical :: bool
  has_signal :: bool
  signals_arr :: "motion_signal set"
  jump_setting :: jump_param
  g01_speed_ratio :: real
  sub_line_num :: int
  servo_mm_min :: real
  now_ms :: int
  now_ns :: int
  io_calls :: "io_call list"

definition touch_reset :: "shared \<Rightarrow> shared" where
  "touch_reset sh = sh\<lparr>detect_enabled := False, warning := False\<rparr>"

definition clear_warning :: "shared \<Rightarrow> shared" where
  "clear_warning sh = sh\<lparr>warning := False\<rparr>"

definition set_detect_enable :: "bool \<Rightarrow> shared \<Rightarrow> shared" where
  "set_detect_enable b sh = sh\<lparr>detect_enabled := b\<rparr>"

definition run_detect_once :: "shared \<Rightarrow> bool \<times> shared" where
  "run_detect_once sh =
     (if warning sh then (True, sh)
      else if \<not> detect_enabled sh then (False, sh)
      else if touch_physical sh then (True, sh\<lparr>warning := True\<rparr>)
      else (False, sh))"

definition set_signal :: "motion_signal \<Rightarrow> shared \<Rightarrow> shared" where
  "set_signal s sh = sh\<lparr>has_signal := True, signals_arr := insert s (signals_arr sh)\<rparr>"

text \<open>\<open>reset_all\<close> clears the array and leaves the flag \<open>has_signal\<close> set.\<close>

definition reset_all :: "shared \<Rightarrow> shared" where
  "reset_all sh = sh\<lparr>signals_arr := {}\<rparr>"

definition set_cmd_axis :: "axis_t \<Rightarrow> shared \<Rightarrow> shared" where
  "set_cmd_axis a sh = sh\<lparr>global_cmd_axis := a\<rparr>"

text \<open>A callback; the last one is the first of the list. What the power supply was told last.\<close>

definition call_io :: "io_call \<Rightarrow> shared \<Rightarrow> shared" where
  "call_io c sh = sh\<lparr>io_calls := c # io_calls sh\<rparr>"

fun last_mach :: "io_call list \<Rightarrow> bool" where
  "last_mach [] = False"
| "last_mach (MachOn b # cs) = b"
| "last_mach (EnableVoltageGate b # cs) = last_mach cs"

definition machining :: "shared \<Rightarrow> bool" where
  "machining sh \<longleftrightarrow> last_mach (io_calls sh)"

lemmas shared_defs = touch_reset_def clear_warning_def set_detect_enable_def set_signal_def reset_all_def set_cmd_axis_def

lemma run_detect_sel [simp]:
  "global_cmd_axis (snd (run_detect_once sh)) = global_cmd_axis sh"
  "signals_arr (snd (run_detect_once sh)) = signals_arr sh"
  "touch_physical (snd (run_detect_once sh)) = touch_physical sh"
  "detect_enabled (snd (run_detect_once sh)) = detect_enabled sh"
  "fst (run_detect_once sh) \<longleftrightarrow> warning sh \<or> detect_enabled sh \<and> touch_physical sh"
  "warning (snd (run_detect_once sh)) \<longleftrightarrow> warning sh \<or> detect_enabled sh \<and> touch_physical sh"
  by (simp_all add: run_detect_once_def)

text \<open>
  A point move before its first \<open>start\<close>: its positions have no values in the code, \<open>start\<close> sets
  them all.
\<close>

definition pm_blank :: point_move where
  "pm_blank = \<lparr>mrt_wrapper = mw_new, start_pos = [], target_pos = [], curr_pos = [], unit_vector = [],
     pm_target_length = 0, pm_curr_length = 0\<rparr>"

end
