(* ===== verification/Trajectory.thy ===== *)
theory Trajectory
  imports Motion_Shared
begin

text \<open>
  Paths of cutting moves (\<^verbatim>\<open>Src/Motion/Trajectory\<close>): a straight segment with the length gone on it
  (\<open>TrajectoryLinearSegement\<close>), and a list of segments (\<open>TrajectoryList\<close>). Both run forwards and
  backwards by the increment of a cycle.

  The assertions of \<open>_validate_curr_length\<close> compare the length with what was just assigned to it;
  they are left out. The iterator into the list of segments is an index.
\<close>

section \<open>A straight segment\<close>

record linear =
  lin_start :: axis_t
  lin_end :: axis_t
  lin_pos :: axis_t
  lin_total :: real
  lin_length :: real
  lin_unit :: axis_t

definition CalcCurrPos :: "axis_t \<Rightarrow> axis_t \<Rightarrow> real \<Rightarrow> axis_t" where
  "CalcCurrPos s e l = map2 (+) (ScaleAxis (CalcAxisUnitVector s e) l) s"

definition linear_new :: "axis_t \<Rightarrow> axis_t \<Rightarrow> linear" where
  "linear_new s e = \<lparr>lin_start = s, lin_end = e, lin_pos = s, lin_total = CalcAxisLength (sub_axis e s),
     lin_length = 0, lin_unit = CalcAxisUnitVector s e\<rparr>"

definition lin_set_at_start :: "linear \<Rightarrow> linear" where
  "lin_set_at_start t = t\<lparr>lin_length := 0, lin_pos := lin_start t\<rparr>"

definition lin_set_at_end :: "linear \<Rightarrow> linear" where
  "lin_set_at_end t = t\<lparr>lin_length := lin_total t, lin_pos := lin_end t\<rparr>"

definition lin_at_start :: "linear \<Rightarrow> bool" where
  "lin_at_start t \<longleftrightarrow> lin_length t \<le> 0"

definition lin_at_end :: "linear \<Rightarrow> bool" where
  "lin_at_end t \<longleftrightarrow> lin_total t \<le> lin_length t"

definition validate_curr_length :: "linear \<Rightarrow> linear" where
  "validate_curr_length t =
     (if lin_length t > lin_total t then t\<lparr>lin_length := lin_total t\<rparr>
      else if lin_length t \<le> 0 then t\<lparr>lin_length := 0\<rparr>
      else t)"

definition lin_set_length :: "real \<Rightarrow> linear \<Rightarrow> linear" where
  "lin_set_length l t =
     (let t' = validate_curr_length (t\<lparr>lin_length := l\<rparr>)
      in t'\<lparr>lin_pos := CalcCurrPos (lin_start t') (lin_end t') (lin_length t')\<rparr>)"

definition lin_run_once :: "real \<Rightarrow> linear \<Rightarrow> linear" where
  "lin_run_once inc t =
     (let t' = validate_curr_length (t\<lparr>lin_length := lin_length t + inc\<rparr>)
      in t'\<lparr>lin_pos := CalcCurrPos (lin_start t') (lin_end t') (lin_length t')\<rparr>)"

section \<open>A list of segments\<close>

record trajectory =
  segements :: "linear list"
  seg_index :: nat

definition traj_new :: "linear list \<Rightarrow> trajectory option" where
  "traj_new ss = (if ss = [] then None else Some \<lparr>segements = ss, seg_index = 0\<rparr>)"

definition curr_segement :: "trajectory \<Rightarrow> linear" where
  "curr_segement l = segements l ! seg_index l"

definition at_end_segement :: "trajectory \<Rightarrow> bool" where
  "at_end_segement l \<longleftrightarrow> seg_index l = length (segements l) - 1"

definition at_start_segement :: "trajectory \<Rightarrow> bool" where
  "at_start_segement l \<longleftrightarrow> seg_index l = 0"

definition traj_at_end :: "trajectory \<Rightarrow> bool" where
  "traj_at_end l \<longleftrightarrow> at_end_segement l \<and> lin_at_end (curr_segement l)"

definition traj_at_start :: "trajectory \<Rightarrow> bool" where
  "traj_at_start l \<longleftrightarrow> at_start_segement l \<and> lin_at_start (curr_segement l)"

definition set_curr_segement :: "linear \<Rightarrow> trajectory \<Rightarrow> trajectory" where
  "set_curr_segement s l = l\<lparr>segements := (segements l)[seg_index l := s]\<rparr>"

definition traj_cmd_axis :: "trajectory \<Rightarrow> axis_t" where
  "traj_cmd_axis l = lin_pos (curr_segement l)"

definition traj_run_once :: "real \<Rightarrow> trajectory \<Rightarrow> trajectory" where
  "traj_run_once inc l =
     (let l1 = set_curr_segement (lin_run_once inc (curr_segement l)) l
      in if inc > 0
         then if lin_at_end (curr_segement l1) \<and> \<not> at_end_segement l1
              then let l2 = l1\<lparr>seg_index := seg_index l1 + 1\<rparr>
                   in set_curr_segement (lin_set_at_start (curr_segement l2)) l2
              else l1
         else if inc < 0
         then if lin_at_start (curr_segement l1) \<and> \<not> at_start_segement l1
              then let l2 = l1\<lparr>seg_index := seg_index l1 - 1\<rparr>
                   in set_curr_segement (lin_set_at_end (curr_segement l2)) l2
              else l1
         else l1)"

section \<open>Where a segment is\<close>

text \<open>A segment between two points, at a length between its ends.\<close>

definition lin_ok :: "axis_t \<Rightarrow> axis_t \<Rightarrow> linear \<Rightarrow> bool" where
  "lin_ok s e t \<longleftrightarrow> lin_start t = s \<and> lin_end t = e \<and> lin_unit t = CalcAxisUnitVector s e
     \<and> lin_total t = CalcAxisLength (sub_axis e s) \<and> 0 \<le> lin_length t \<and> lin_length t \<le> lin_total t
     \<and> lin_pos t = at_length s e (lin_length t)"

lemma CalcCurrPos_at_length: "CalcCurrPos s e l = at_length s e l"
  unfolding CalcCurrPos_def at_length_def by (rule nth_equalityI) (simp_all add: add.commute)

lemma lin_ok_axis: "lin_ok s e t \<Longrightarrow> is_axis s \<Longrightarrow> is_axis e \<Longrightarrow> is_axis (lin_pos t)"
  by (simp add: lin_ok_def at_length_axis)

lemma total_nonneg: "0 \<le> CalcAxisLength v"
proof -
  have "0 \<le> sum_list (map (\<lambda>x::real. x * x) v)" by (induction v) auto
  then show ?thesis by (simp add: CalcAxisLength_def)
qed

lemma linear_new_ok: "is_axis s \<Longrightarrow> is_axis e \<Longrightarrow> lin_ok s e (linear_new s e)"
  by (simp add: lin_ok_def linear_new_def at_length_zero total_nonneg)

text \<open>A segment run by an increment is at the length between its ends that is nearest to the sum.\<close>

definition clip :: "real \<Rightarrow> real \<Rightarrow> real" where
  "clip w l = max 0 (min w l)"

lemma lin_set_length_eq:
  assumes "lin_ok s e t"
  shows "lin_set_length l t = t\<lparr>lin_length := clip (lin_total t) l, lin_pos := at_length s e (clip (lin_total t) l)\<rparr>"
  using assms by (auto simp: lin_set_length_def validate_curr_length_def lin_ok_def clip_def CalcCurrPos_at_length Let_def total_nonneg)

lemma lin_run_set: "lin_run_once inc t = lin_set_length (lin_length t + inc) t"
  by (simp add: lin_run_once_def lin_set_length_def)

lemma lin_set_length_ok:
  assumes "lin_ok s e t"
  shows "lin_ok s e (lin_set_length l t)" "lin_length (lin_set_length l t) = clip (lin_total t) l"
    "lin_total (lin_set_length l t) = lin_total t"
  using assms by (auto simp: lin_set_length_eq[OF assms] lin_ok_def clip_def)

lemma lin_run_ok:
  assumes "lin_ok s e t"
  shows "lin_ok s e (lin_run_once inc t)" "lin_length (lin_run_once inc t) = clip (lin_total t) (lin_length t + inc)"
    "lin_total (lin_run_once inc t) = lin_total t"
  unfolding lin_run_set using lin_set_length_ok[OF assms] by simp_all

lemma lin_end_pos:
  assumes "lin_ok s e t" "is_axis s" "is_axis e" "s \<noteq> e"
  shows "lin_at_end t \<Longrightarrow> lin_pos t = e" and "lin_at_start t \<Longrightarrow> lin_pos t = s"
  using assms at_length_end(1)[OF assms(2-4)] at_length_zero[OF assms(2,3)]
  by (auto simp: lin_ok_def lin_at_end_def lin_at_start_def)

lemma lin_set_ends_ok:
  assumes "lin_ok s e t" "is_axis s" "is_axis e" "s \<noteq> e"
  shows "lin_ok s e (lin_set_at_start t)" "lin_ok s e (lin_set_at_end t)"
  using assms at_length_end(1)[OF assms(2-4)] at_length_zero[OF assms(2,3)]
  by (auto simp: lin_ok_def lin_set_at_start_def lin_set_at_end_def total_nonneg)

end
