(* ===== verification/Sliding_Counter.thy ===== *)
theory Sliding_Counter
  imports Edm_Prelude Complex_Main
begin

text \<open>
  The counter of the last events that were good (\<^verbatim>\<open>Src/Utils/Filters/SlidingCounter/SlidingCounter.h\<close>): a
  ring of bits with the number of the good and of the bad ones. Its reference is the list of all
  events, of which the last ones that fit into the window are counted.
\<close>

section \<open>State and operations\<close>

record sliding =
  max_size :: nat
  bits :: "nat \<Rightarrow> bool"
  window_size :: nat
  cursor :: nat
  valid_count :: nat
  invalid_count :: nat

definition sc_new :: "nat \<Rightarrow> sliding" where
  "sc_new n = \<lparr>max_size = n, bits = (\<lambda>_. False), window_size = n, cursor = 0, valid_count = 0, invalid_count = 0\<rparr>"

text \<open>\<open>clear\<close> leaves the bits as they are.\<close>

definition sc_clear :: "sliding \<Rightarrow> sliding" where
  "sc_clear c = c\<lparr>cursor := 0, valid_count := 0, invalid_count := 0\<rparr>"

definition sc_resize :: "nat \<Rightarrow> sliding \<Rightarrow> sliding" where
  "sc_resize n c =
     (if n = window_size c \<or> n = 0 then c
      else sc_clear (c\<lparr>window_size := if n > max_size c then max_size c else n\<rparr>))"

definition sc_full :: "sliding \<Rightarrow> bool" where
  "sc_full c \<longleftrightarrow> window_size c \<le> valid_count c + invalid_count c"

definition sc_next :: "sliding \<Rightarrow> sliding" where
  "sc_next c = c\<lparr>cursor := (cursor c + 1) mod window_size c\<rparr>"

definition push_back_valid :: "sliding \<Rightarrow> sliding" where
  "push_back_valid c = sc_next
     (if \<not> sc_full c then c\<lparr>bits := (bits c)(cursor c := True), valid_count := valid_count c + 1\<rparr>
      else if \<not> bits c (cursor c)
      then c\<lparr>bits := (bits c)(cursor c := True), valid_count := valid_count c + 1, invalid_count := invalid_count c - 1\<rparr>
      else c)"

definition push_back_invalid :: "sliding \<Rightarrow> sliding" where
  "push_back_invalid c = sc_next
     (if \<not> sc_full c then c\<lparr>bits := (bits c)(cursor c := False), invalid_count := invalid_count c + 1\<rparr>
      else if bits c (cursor c)
      then c\<lparr>bits := (bits c)(cursor c := False), valid_count := valid_count c - 1, invalid_count := invalid_count c + 1\<rparr>
      else c)"

definition push_back :: "bool \<Rightarrow> sliding \<Rightarrow> sliding" where
  "push_back b c = (if b then push_back_valid c else push_back_invalid c)"

definition valid_rate :: "sliding \<Rightarrow> real" where
  "valid_rate c = real (valid_count c) / real (window_size c)"

section \<open>The reference\<close>

text \<open>The events with the last one first, and how many of the last \<open>w\<close> were good.\<close>

definition goods :: "nat \<Rightarrow> bool list \<Rightarrow> nat" where
  "goods w h = length (filter (\<lambda>b. b) (take w h))"

definition bads :: "nat \<Rightarrow> bool list \<Rightarrow> nat" where
  "bads w h = length (filter Not (take w h))"

lemma goods_bads: "goods w h + bads w h = min (length h) w"
  using sum_length_filter_compl[of "\<lambda>b. b" "take w h"] by (simp add: goods_def bads_def)

lemma goods_le: "goods w h \<le> w"
  using goods_bads[of w h] by simp

text \<open>An event more: it counts, and once the window is full the oldest one does no longer.\<close>

lemma count_push:
  "goods w (b # h) + (if w \<le> length h \<and> 0 < w \<and> h ! (w - 1) then 1 else 0) = goods w h + (if b \<and> 0 < w then 1 else 0)"
  "bads w (b # h) + (if w \<le> length h \<and> 0 < w \<and> \<not> h ! (w - 1) then 1 else 0) = bads w h + (if \<not> b \<and> 0 < w then 1 else 0)"
proof -
  have "take w h = (if w \<le> length h then take (w - 1) h @ [h ! (w - 1)] else take (w - 1) h)" if "0 < w"
    using that take_Suc_conv_app_nth[of "w - 1" h] by auto
  then show "goods w (b # h) + (if w \<le> length h \<and> 0 < w \<and> h ! (w - 1) then 1 else 0) = goods w h + (if b \<and> 0 < w then 1 else 0)"
    "bads w (b # h) + (if w \<le> length h \<and> 0 < w \<and> \<not> h ! (w - 1) then 1 else 0) = bads w h + (if \<not> b \<and> 0 < w then 1 else 0)"
    by (cases w; simp add: goods_def bads_def)+
qed

section \<open>The counter counts the last events\<close>

text \<open>The counter after the events \<open>h\<close>: the \<open>i\<close>-th last one is in its cell of the ring.\<close>

definition counts :: "bool list \<Rightarrow> sliding \<Rightarrow> bool" where
  "counts h c \<longleftrightarrow> (let w = window_size c in 0 < w \<and> cursor c = length h mod w
     \<and> (\<forall>i < min (length h) w. bits c ((length h - 1 - i) mod w) = h ! i)
     \<and> valid_count c = goods w h \<and> invalid_count c = bads w h)"

lemma counts_clear: "0 < window_size c \<Longrightarrow> counts [] (sc_clear c)"
  by (simp add: counts_def sc_clear_def goods_def bads_def)

lemma counts_full: "counts h c \<Longrightarrow> sc_full c \<longleftrightarrow> window_size c \<le> length h"
  using goods_bads[of "window_size c" h] by (auto simp: counts_def sc_full_def Let_def)

text \<open>The cell at the cursor holds the event that leaves the window.\<close>

lemma counts_oldest:
  assumes "counts h c" "window_size c \<le> length h"
  shows "bits c (cursor c) = h ! (window_size c - 1)"
proof -
  let ?w = "window_size c"
  have w: "0 < ?w" using assms(1) by (simp add: counts_def Let_def)
  have "(length h - 1 - (?w - 1)) mod ?w = length h mod ?w"
    using w assms(2) mod_add_self2[of "length h - ?w" ?w] by simp
  moreover have "bits c ((length h - 1 - (?w - 1)) mod ?w) = h ! (?w - 1)"
  proof -
    have "\<forall>i < min (length h) ?w. bits c ((length h - 1 - i) mod ?w) = h ! i" using assms(1) by (simp add: counts_def Let_def)
    then show ?thesis using w assms(2) by (elim allE[of _ "?w - 1"]) simp
  qed
  ultimately show ?thesis using assms(1) by (simp add: counts_def Let_def)
qed

lemma other_cell:
  assumes "j < n" "Suc j < w"
  shows "(n - 1 - j) mod w \<noteq> n mod (w::nat)"
proof
  assume "(n - 1 - j) mod w = n mod w"
  then have "w dvd n - (n - 1 - j)" using mod_eq_dvd_iff_nat[of "n - 1 - j" n w] assms(1) by auto
  moreover have "n - (n - 1 - j) = Suc j" using assms(1) by simp
  ultimately show False using assms(2) by (auto dest: dvd_imp_le)
qed

lemma counts_push:
  assumes "counts h c"
  shows "counts (b # h) (push_back b c)"
proof -
  let ?w = "window_size c" and ?n = "length h"
  have c: "0 < ?w" "cursor c = ?n mod ?w" "\<And>i. i < ?n \<Longrightarrow> i < ?w \<Longrightarrow> bits c ((?n - 1 - i) mod ?w) = h ! i"
    "valid_count c = goods ?w h" "invalid_count c = bads ?w h" using assms by (simp_all add: counts_def Let_def)
  have sel: "window_size (push_back b c) = ?w" "cursor (push_back b c) = Suc ?n mod ?w"
    using c(2) by (simp_all add: push_back_def push_back_valid_def push_back_invalid_def sc_next_def mod_Suc_eq)
  have bs: "bits (push_back b c) = (bits c)(cursor c := b)"
    by (auto simp: push_back_def push_back_valid_def push_back_invalid_def sc_next_def fun_eq_iff)
  have cell: "bits (push_back b c) ((Suc ?n - 1 - i) mod ?w) = (b # h) ! i" if i: "i < Suc ?n" "i < ?w" for i
  proof (cases i)
    case 0
    then show ?thesis using bs c(2) by simp
  next
    case (Suc j)
    then show ?thesis using bs c(2) c(3)[of j] other_cell[of j ?n ?w] i by simp
  qed
  note f = counts_full[OF assms] and o = counts_oldest[OF assms]
  have v: "valid_count (push_back b c) = goods ?w (b # h)" "invalid_count (push_back b c) = bads ?w (b # h)"
  proof -
    have "goods ?w (b # h) = valid_count (push_back b c) \<and> bads ?w (b # h) = invalid_count (push_back b c)"
    proof (cases "?w \<le> ?n")
      case True
      then have old: "bits c (cursor c) = h ! (?w - 1)" using o by simp
      show ?thesis using count_push[of ?w b h] c(1,4,5) True f old
        by (cases b; cases "h ! (?w - 1)") (simp_all add: push_back_def push_back_valid_def push_back_invalid_def sc_next_def)
    next
      case False
      then show ?thesis using count_push[of ?w b h] c(1,4,5) f
        by (cases b) (simp_all add: push_back_def push_back_valid_def push_back_invalid_def sc_next_def)
    qed
    then show "valid_count (push_back b c) = goods ?w (b # h)" "invalid_count (push_back b c) = bads ?w (b # h)" by simp_all
  qed
  show ?thesis using c(1) sel cell v by (simp add: counts_def Let_def)
qed

lemma counts_pushes: "counts h c \<Longrightarrow> counts (rev bs @ h) (fold push_back bs c)"
  by (induction bs arbitrary: h c) (simp_all add: counts_push)

lemma counts_rate: "counts h c \<Longrightarrow> valid_rate c = real (goods (window_size c) h) / real (window_size c)"
  by (simp add: valid_rate_def counts_def Let_def)

lemma valid_rate_bounds: "counts h c \<Longrightarrow> 0 \<le> valid_rate c \<and> valid_rate c \<le> 1"
  using goods_le[of "window_size c" h] by (simp add: valid_rate_def counts_def Let_def divide_le_eq)

lemma window_push [simp]: "window_size (push_back b c) = window_size c"
  by (simp add: push_back_def push_back_valid_def push_back_invalid_def sc_next_def)

end
