(* ===== verification/Cutting_Move.thy ===== *)
theory Cutting_Move
  imports Trajectory Sliding_Counter
begin

text \<open>
  The cutting move (\<^verbatim>\<open>Src/Motion/MotionStateMachine/G01AutoTask.cpp\<close>): in each cycle the servo board's
  speed moves the electrode forwards or back on its segment; after a time of cutting it is lifted
  (a jump) to flush the gap and comes down again, the last bit of the way with the servo. A pause
  or a stop waits for the end of a jump; a pause goes back a little.

  The substate of a resume has a single value and is left out. \<open>back_to_begin_when_pause_\<close> and
  \<open>back_to_begin_when_stop_\<close> are never set; the recording of data is left out.
\<close>

section \<open>State\<close>

datatype g01_state = G01Running | G01Pausing | G01Paused | G01Resuming | G01Stopping | G01Stopped

datatype servo_state = Servoing | JumpUping | JumpDowning | JumpDowningBuffer

datatype wait_state = WaitingForJumpEnd | BackingToBegin

record g01_task =
  g01_state :: g01_state
  servo_sub_state :: servo_state
  pause_or_stop_sub_state :: wait_state
  jumping_param :: jump_param
  last_jump_end_time_ms :: int
  servoing_length_before_jump :: real
  jump_up_target_pos :: axis_t
  line_traj :: linear
  max_jump_height_from_begin :: real
  jump_pm_handler :: point_move
  last_send_gate_ns :: int
  sc_servo_go :: sliding
  return_back_gone :: real

definition back_to_begin_when_pause :: bool where "back_to_begin_when_pause = False"

definition back_to_begin_when_stop :: bool where "back_to_begin_when_stop = False"

definition return_back_target_distance :: real where "return_back_target_distance = mm2blu 0.1"

definition return_back_speed_mm_min :: real where "return_back_speed_mm_min = 60"

definition valid_rate_threshold :: real where "valid_rate_threshold = 0.93"

type_synonym g01_step = "(motion_fault, g01_task \<times> shared) result"

text \<open>Millimetres in a minute, as a distance in a cycle.\<close>

definition mm_min2blu_p :: "real \<Rightarrow> real \<Rightarrow> real" where
  "mm_min2blu_p T v = v * (1000 / 60 * EDM_BLU_PER_UM / 1000 / (1 / (T * 1000)))"

definition get_servo_cmd :: "real \<Rightarrow> shared \<Rightarrow> real" where
  "get_servo_cmd T sh = mm_min2blu_p T (servo_mm_min sh)"

text \<open>The voltage gate is switched, or switched again after 200 ms.\<close>

definition send_gate :: "bool \<Rightarrow> g01_task \<Rightarrow> shared \<Rightarrow> g01_task \<times> shared" where
  "send_gate b g sh = (g\<lparr>last_send_gate_ns := now_ns sh\<rparr>, call_io (EnableVoltageGate b) sh)"

definition resend_gate :: "bool \<Rightarrow> g01_task \<Rightarrow> shared \<Rightarrow> g01_task \<times> shared" where
  "resend_gate b g sh = (if (now_ns sh - last_send_gate_ns g) div 1000000 > 200 then send_gate b g sh else (g, sh))"

text \<open>The window of the counter is two seconds.\<close>

definition g01_new :: "real \<Rightarrow> linear \<Rightarrow> real \<Rightarrow> shared \<Rightarrow> g01_step" where
  "g01_new T t h sh =
     (if \<not> lin_at_start t then Inl Assertion
      else Inr (\<lparr>g01_state = G01Running, servo_sub_state = Servoing, pause_or_stop_sub_state = WaitingForJumpEnd,
                 jumping_param = jump_setting sh, last_jump_end_time_ms = now_ms sh, servoing_length_before_jump = 0,
                 jump_up_target_pos = [], line_traj = t, max_jump_height_from_begin = h, jump_pm_handler = pm_blank,
                 last_send_gate_ns = now_ns sh, sc_servo_go = sc_resize (nat \<lfloor>2 / T\<rfloor>) (sc_clear (sc_new 8000)),
                 return_back_gone = 0\<rparr>,
                call_io (MachOn True) (call_io (EnableVoltageGate True) sh)))"

section \<open>Calls\<close>

definition g01_wait :: "g01_state \<Rightarrow> g01_task \<Rightarrow> g01_task" where
  "g01_wait s g = g\<lparr>g01_state := s, pause_or_stop_sub_state := WaitingForJumpEnd\<rparr>"

definition g01_pause :: "g01_task \<Rightarrow> bool \<times> g01_task" where
  "g01_pause g =
     (case g01_state g of
        G01Pausing \<Rightarrow> (True, g)
      | G01Paused \<Rightarrow> (True, g)
      | G01Running \<Rightarrow> (True, g01_wait G01Pausing g)
      | _ \<Rightarrow> (False, g))"

definition g01_resume :: "g01_task \<Rightarrow> bool \<times> g01_task" where
  "g01_resume g =
     (case g01_state g of
        G01Resuming \<Rightarrow> (True, g)
      | G01Paused \<Rightarrow> (True, g\<lparr>g01_state := G01Resuming\<rparr>)
      | _ \<Rightarrow> (False, g))"

definition g01_stop :: "g01_task \<Rightarrow> bool \<times> g01_task" where
  "g01_stop g =
     (case g01_state g of
        G01Pausing \<Rightarrow> (True, g\<lparr>g01_state := G01Stopping\<rparr>)
      | G01Paused \<Rightarrow> (True, g\<lparr>g01_state := G01Stopped\<rparr>)
      | G01Resuming \<Rightarrow> (True, g\<lparr>g01_state := G01Stopped\<rparr>)
      | G01Running \<Rightarrow> (True, g01_wait G01Stopping g)
      | _ \<Rightarrow> (True, g))"

section \<open>Jumps\<close>

text \<open>
  The height is limited by the way back to the soft limit, less 100 um; the part of the way down
  that the servo does is at most the length cut so far.
\<close>

definition check_jump_height :: "g01_task \<Rightarrow> bool \<times> jump_param" where
  "check_jump_height g =
     (let jp = jumping_param g; highest = lin_length (line_traj g) + max_jump_height_from_begin g;
          jp1 = (if up_blu jp > highest - um2blu 100 then jp\<lparr>up_blu := highest - um2blu 100\<rparr> else jp)
      in if up_blu jp1 < um2blu 10 then (False, jp1)
         else let jp2 = (if buffer_blu jp1 > lin_length (line_traj g) then jp1\<lparr>buffer_blu := lin_length (line_traj g)\<rparr> else jp1)
              in (\<not> buffer_blu jp2 > up_blu jp2 - um2blu 10, jp2))"

definition plan_jump_up :: "real \<Rightarrow> plan_vars \<Rightarrow> g01_task \<Rightarrow> bool \<times> g01_task" where
  "plan_jump_up T u g =
     (let t = line_traj g; (b, jp) = check_jump_height g;
          g1 = g\<lparr>servoing_length_before_jump := lin_length t, jumping_param := jp\<rparr>
      in if \<not> b then (False, g1)
         else let target = map2 (\<lambda>p d. p - d * up_blu jp) (lin_pos t) (lin_unit t);
                  (ret, h) = pm_start T u (jump_speed jp) (lin_pos t) target (jump_pm_handler g1)
              in (ret, g1\<lparr>jump_up_target_pos := target, jump_pm_handler := h\<rparr>))"

text \<open>Whether a jump was started in this cycle.\<close>

definition check_and_plan_jump :: "real \<Rightarrow> plan_vars \<Rightarrow> g01_task \<Rightarrow> shared \<Rightarrow> (motion_fault, bool \<times> g01_task \<times> shared) result" where
  "check_and_plan_jump T u g sh =
     (let g1 = g\<lparr>jumping_param := jump_setting sh\<rparr>; g2 = g1\<lparr>last_jump_end_time_ms := now_ms sh\<rparr>
      in if \<not> last_jump_end_time_ms g \<le> now_ms sh then Inl Assertion
         else if now_ms sh - last_jump_end_time_ms g \<le> dn_ms (jumping_param g1) then Inr (False, g1, sh)
         else if up_blu (jumping_param g2) < um2blu 10 then Inr (False, g2, sh)
         else if valid_rate_threshold \<le> valid_rate (sc_servo_go g2) then Inr (False, g2, sh)
         else let (b, g3) = plan_jump_up T u g2
              in Inr (if \<not> b then (False, g3, sh) else (True, send_gate False (g3\<lparr>servo_sub_state := JumpUping\<rparr>) sh)))"

text \<open>Of a cycle on the way up and on the way down.\<close>

definition jump_move :: "bool \<Rightarrow> g01_task \<Rightarrow> shared \<Rightarrow> g01_task \<times> shared" where
  "jump_move gate g sh =
     (let h = pm_run_once (jump_pm_handler g)
      in resend_gate gate (g\<lparr>jump_pm_handler := h\<rparr>) (set_cmd_axis (curr_pos h) sh))"

definition servo_jumpuping :: "real \<Rightarrow> plan_vars \<Rightarrow> g01_task \<Rightarrow> shared \<Rightarrow> g01_step" where
  "servo_jumpuping T u g sh =
     (let (g1, sh1) = jump_move False g sh
      in if \<not> pm_is_over (jump_pm_handler g1) then Inr (g1, sh1)
         else let jp = jumping_param g1; down_length = up_blu jp - buffer_blu jp
              in if \<not> down_length > 0 then Inl Assertion
                 else let start = jump_up_target_pos g1;
                          target = map2 (\<lambda>p d. p + d * down_length) start (lin_unit (line_traj g1));
                          h = snd (pm_start T u (jump_speed jp) start target (jump_pm_handler g1))
                      in Inr (send_gate True (g1\<lparr>jump_pm_handler := h, servo_sub_state := JumpDowning\<rparr>) sh1))"

definition servo_jumpdowning :: "g01_task \<Rightarrow> shared \<Rightarrow> g01_step" where
  "servo_jumpdowning g sh =
     (let (g1, sh1) = jump_move True g sh
      in Inr (if \<not> pm_is_over (jump_pm_handler g1) then (g1, sh1)
              else (g1\<lparr>line_traj := lin_set_length (servoing_length_before_jump g1 - buffer_blu (jumping_param g1)) (line_traj g1),
                       servo_sub_state := JumpDowningBuffer\<rparr>, sh1)))"

definition servo_buffer :: "real \<Rightarrow> g01_task \<Rightarrow> shared \<Rightarrow> g01_step" where
  "servo_buffer T g sh =
     (let cmd = get_servo_cmd T sh; remaining = servoing_length_before_jump g - lin_length (line_traj g);
          over = (cmd \<ge> remaining \<or> remaining \<le> 0)
      in if cmd > 0
         then let t = lin_run_once (if over then remaining else cmd) (line_traj g);
                  g1 = g\<lparr>line_traj := t\<rparr>; sh1 = set_cmd_axis (lin_pos t) sh
              in Inr (if over then g1\<lparr>last_jump_end_time_ms := now_ms sh, servo_sub_state := Servoing\<rparr> else g1, sh1)
         else Inr (g\<lparr>last_jump_end_time_ms := now_ms sh, servo_sub_state := Servoing\<rparr>, sh))"

section \<open>One cycle\<close>

text \<open>What the servo asks for, and whether the end of the segment is reached.\<close>

definition do_servothings :: "real \<Rightarrow> g01_task \<Rightarrow> shared \<Rightarrow> bool \<times> g01_task \<times> shared" where
  "do_servothings T g sh =
     (let cmd = get_servo_cmd T sh; g1 = g\<lparr>sc_servo_go := push_back (cmd > 0) (sc_servo_go g)\<rparr>;
          t = (if cmd > 0 \<or> cmd < 0 then lin_run_once cmd (line_traj g1) else line_traj g1)
      in (cmd > 0 \<and> lin_at_end t, g1\<lparr>line_traj := t\<rparr>, set_cmd_axis (lin_pos t) sh))"

definition servo_servoing :: "real \<Rightarrow> plan_vars \<Rightarrow> g01_task \<Rightarrow> shared \<Rightarrow> g01_step" where
  "servo_servoing T u g sh =
     rbind (check_and_plan_jump T u g sh) (\<lambda>(jumps, g1, sh1).
       if jumps then Inr (g1, sh1)
       else let (ends, g2, sh2) = do_servothings T g1 sh1
            in Inr (if ends then g2\<lparr>g01_state := G01Stopping\<rparr> else g2, sh2))"

definition normal_running :: "real \<Rightarrow> plan_vars \<Rightarrow> g01_task \<Rightarrow> shared \<Rightarrow> g01_step" where
  "normal_running T u g sh =
     (case servo_sub_state g of
        Servoing \<Rightarrow> servo_servoing T u g sh
      | JumpUping \<Rightarrow> servo_jumpuping T u g sh
      | JumpDowning \<Rightarrow> servo_jumpdowning g sh
      | JumpDowningBuffer \<Rightarrow> servo_buffer T g sh)"

definition g01_resuming :: "g01_task \<Rightarrow> shared \<Rightarrow> g01_step" where
  "g01_resuming g sh =
     (let (g1, sh1) = send_gate True (g\<lparr>last_jump_end_time_ms := now_ms sh\<rparr>) sh; sh2 = call_io (MachOn True) sh1;
          g2 = g1\<lparr>g01_state := G01Running\<rparr>
      in if back_to_begin_when_pause then Inl Assertion
         else if servo_sub_state g2 \<noteq> Servoing then Inl Assertion
         else Inr (g2, sh2))"

text \<open>The way back of a pause, at 60 mm/min: whether it is over.\<close>

definition return_back :: "real \<Rightarrow> g01_task \<Rightarrow> shared \<Rightarrow> bool \<times> g01_task \<times> shared" where
  "return_back T g sh =
     (let dec0 = mm_min2blu_p T return_back_speed_mm_min; dec = (if dec0 < 0.01 then 0.01 else dec0);
          gone = return_back_gone g; ended = (gone + dec > return_back_target_distance);
          d = (if ended then return_back_target_distance - gone else dec);
          t = lin_run_once (- d) (line_traj g)
      in (ended \<or> lin_at_start t,
          g\<lparr>return_back_gone := if ended then return_back_target_distance else gone + dec, line_traj := t\<rparr>,
          set_cmd_axis (lin_pos t) sh))"

text \<open>The target state is the one to be reached, Paused or Stopped.\<close>

definition pausing_or_stopping :: "real \<Rightarrow> plan_vars \<Rightarrow> g01_state \<Rightarrow> g01_task \<Rightarrow> shared \<Rightarrow> g01_step" where
  "pausing_or_stopping T u target g sh =
     (case pause_or_stop_sub_state g of
        WaitingForJumpEnd \<Rightarrow>
          (case servo_sub_state g of
             Servoing \<Rightarrow>
               Inr ((if target = G01Paused then g\<lparr>return_back_gone := 0\<rparr> else g)\<lparr>pause_or_stop_sub_state := BackingToBegin\<rparr>,
                    call_io (MachOn False) sh)
           | JumpUping \<Rightarrow> servo_jumpuping T u g sh
           | JumpDowning \<Rightarrow> servo_jumpdowning g sh
           | JumpDowningBuffer \<Rightarrow> servo_buffer T g sh)
      | BackingToBegin \<Rightarrow>
          if servo_sub_state g \<noteq> Servoing then Inl Assertion
          else if target = G01Stopped \<and> \<not> back_to_begin_when_stop then Inr (g\<lparr>g01_state := G01Stopped\<rparr>, sh)
          else if target = G01Paused \<and> \<not> back_to_begin_when_pause
          then let (ended, g1, sh1) = return_back T g sh
               in Inr (if ended then g1\<lparr>g01_state := G01Paused\<rparr> else g1, sh1)
          else Inl Assertion)"

definition g01_run_once :: "real \<Rightarrow> plan_vars \<Rightarrow> g01_task \<Rightarrow> shared \<Rightarrow> g01_step" where
  "g01_run_once T u g sh =
     (case g01_state g of
        G01Running \<Rightarrow> normal_running T u g sh
      | G01Pausing \<Rightarrow> pausing_or_stopping T u G01Paused g sh
      | G01Paused \<Rightarrow> Inr (g, sh)
      | G01Resuming \<Rightarrow> g01_resuming g sh
      | G01Stopping \<Rightarrow> pausing_or_stopping T u G01Stopped g sh
      | G01Stopped \<Rightarrow> Inr (g, sh))"

end
