(* ===== verification/Task_Converter.thy ===== *)
theory Task_Converter
  imports Rs274_Json
begin

text \<open>
  The task converter of the application (\<^verbatim>\<open>App/TaskManager/GCodeTaskConverter.cpp\<close>): from the JSON
  value of a command list to the list of tasks the runner executes. The JSON library meojson
  is not part of the repository; its operations are a parameter, the record \<open>json_lib\<close>, and
  what the converter relies on are the assumptions of the locale \<open>meojson\<close>.

  A C++ \<open>double\<close> is a \<open>pyfloat\<close>. The build has the drill commands or not, and multiplies
  doubles by 1000: both are in the record \<open>build\<close>.
\<close>

section \<open>Tasks\<close>

text \<open>The enumerations of \<^verbatim>\<open>GCodeTaskBase.h\<close>, which the code keeps in step with \<open>rs274.py\<close>.\<close>

definition GCodeTaskType_values :: "(string \<times> int) list" where
  "GCodeTaskType_values =
     [(''Undefined'', -1), (''G00MotionCommand'', 0), (''G01MotionCommand'', 1),
      (''CoordinateModeCommand'', 2), (''CoordinateIndexCommand'', 3), (''EleparamSetCommand'', 4),
      (''FeedSpeedSetCommand'', 5), (''DelayCommand'', 6), (''CoordSetZeroCommand'', 7),
      (''DrillMotionCommand'', 8), (''G01GroupMotionCommand'', 9), (''PauseCommand'', 98),
      (''ProgramEndCommand'', 99)]"

definition GCodeCoordinateMode_values :: "(string \<times> int) list" where
  "GCodeCoordinateMode_values = [(''Undefined'', -1), (''AbsoluteMode'', 0), (''IncrementMode'', 1)]"

record group_item =
  gi_values :: "pyfloat option list"
  gi_mode :: CoordinateMode
  gi_line :: int
  gi_feedrate :: int

record drill_params =
  depth_um :: pyfloat
  holdtime_ms :: int
  dp_touch :: bool
  dp_breakout :: bool
  dp_back :: bool
  spindle_speed :: "pyfloat option"

text \<open>The data of the task classes of \<^verbatim>\<open>GCodeTask.h\<close>.\<close>

datatype task_body =
    G00Motion bool bool int int CoordinateMode "pyfloat option list"
  | G01Motion int CoordinateMode "pyfloat option list"
  | CoordinateModeTask
  | CoordinateIndexTask int
  | EleparamSet int
  | FeedSpeedSet
  | Deley pyfloat
  | ProgramEnd
  | PauseTask
  | CoordSetZero "bool list"
  | DrillMotion drill_params
  | G01GroupMotion int "group_item list"

record task =
  body :: task_body
  line_number :: int
  gcode_str :: string
  task_options :: "string list"

definition new_task :: "task_body \<Rightarrow> int \<Rightarrow> task" where
  "new_task b line = \<lparr>body = b, line_number = line, gcode_str = [], task_options = []\<rparr>"

fun is_motion_task :: "task_body \<Rightarrow> bool" where
  "is_motion_task (G00Motion _ _ _ _ _ _) = True"
| "is_motion_task (G01Motion _ _ _) = True"
| "is_motion_task (Deley _) = True"
| "is_motion_task PauseTask = True"
| "is_motion_task (DrillMotion _) = True"
| "is_motion_task (G01GroupMotion _ _) = True"
| "is_motion_task _ = False"

section \<open>The JSON library\<close>

text \<open>
  A left value of a result is the text of a C++ exception. A \<open>json::object\<close> is a value too,
  the one \<open>as_object\<close> returns.
\<close>

record 'v json_lib =
  j_is_null :: "'v \<Rightarrow> bool"
  j_is_boolean :: "'v \<Rightarrow> bool"
  j_is_string :: "'v \<Rightarrow> bool"
  j_is_array :: "'v \<Rightarrow> bool"
  j_is_object :: "'v \<Rightarrow> bool"
  j_as_boolean :: "'v \<Rightarrow> (string, bool) result"
  j_as_integer :: "'v \<Rightarrow> (string, int) result"
  j_as_double :: "'v \<Rightarrow> (string, pyfloat) result"
  j_as_string :: "'v \<Rightarrow> (string, string) result"
  j_as_array :: "'v \<Rightarrow> (string, 'v list) result"
  j_as_object :: "'v \<Rightarrow> (string, 'v) result"
  j_at :: "'v \<Rightarrow> string \<Rightarrow> (string, 'v) result"
  j_contains :: "'v \<Rightarrow> string \<Rightarrow> bool"

record build =
  drill_build :: bool
  mul1000 :: "pyfloat \<Rightarrow> pyfloat"

definition at_int :: "'v json_lib \<Rightarrow> 'v \<Rightarrow> string \<Rightarrow> (string, int) result" where
  "at_int J jo k = rbind (j_at J jo k) (j_as_integer J)"

definition at_bool :: "'v json_lib \<Rightarrow> 'v \<Rightarrow> string \<Rightarrow> (string, bool) result" where
  "at_bool J jo k = rbind (j_at J jo k) (j_as_boolean J)"

definition at_double :: "'v json_lib \<Rightarrow> 'v \<Rightarrow> string \<Rightarrow> (string, pyfloat) result" where
  "at_double J jo k = rbind (j_at J jo k) (j_as_double J)"

definition at_string :: "'v json_lib \<Rightarrow> 'v \<Rightarrow> string \<Rightarrow> (string, string) result" where
  "at_string J jo k = rbind (j_at J jo k) (j_as_string J)"

definition at_array :: "'v json_lib \<Rightarrow> 'v \<Rightarrow> string \<Rightarrow> (string, 'v list) result" where
  "at_array J jo k = rbind (j_at J jo k) (j_as_array J)"

section \<open>The converter\<close>

text \<open>\<open>std::optional<ptr>\<close>: no value is a failure, a null pointer an ignored command.\<close>

datatype made = Failed | Ignored | Made task

definition s_type_map :: "string \<Rightarrow> CommandType option" where
  "s_type_map = map_of
     [(''Undefined'', CT_Undefined), (''G00MotionCommand'', G00MotionCommand),
      (''G01MotionCommand'', G01MotionCommand), (''CoordinateModeCommand'', CoordinateModeCommand),
      (''CoordinateIndexCommand'', CoordinateIndexCommand), (''EleparamSetCommand'', EleparamSetCommand),
      (''FeedSpeedSetCommand'', FeedSpeedSetCommand), (''DelayCommand'', DelayCommand),
      (''PauseCommand'', PauseCommand), (''ProgramEndCommand'', ProgramEndCommand),
      (''CoordSetZeroCommand'', CoordSetZeroCommand), (''DrillMotionCommand'', DrillMotionCommand),
      (''G01GroupMotionCommand'', G01GroupMotionCommand)]"

definition s_coord_mode_map :: "string \<Rightarrow> CoordinateMode option" where
  "s_coord_mode_map = map_of
     [(''Undefined'', CM_Undefined), (''AbsoluteMode'', AbsoluteMode), (''IncrementMode'', IncrementMode)]"

text \<open>The loop over the first six coordinates.\<close>

definition opt_double :: "'v json_lib \<Rightarrow> 'v \<Rightarrow> (string, pyfloat option) result" where
  "opt_double J j = (if j_is_null J j then Inr None else rbind (j_as_double J j) (\<lambda>d. Inr (Some d)))"

definition make_g00 :: "'v json_lib \<Rightarrow> 'v \<Rightarrow> (string, made) result" where
  "make_g00 J jo =
     rbind (at_string J jo ''CoordinateMode'') (\<lambda>mode_str.
     case s_coord_mode_map mode_str of
       None \<Rightarrow> Inr Failed
     | Some md \<Rightarrow>
        rbind (at_int J jo ''CoordinateIndex'') (\<lambda>ix.
        rbind (at_int J jo ''LineNumber'') (\<lambda>line.
        rbind (at_bool J jo ''M05IgnoreTouchDetect'') (\<lambda>m05.
        rbind (at_bool J jo ''G00Touch'') (\<lambda>touch.
        rbind (at_int J jo ''FeedSpeed'') (\<lambda>feed.
        rbind (at_array J jo ''Coordinates'') (\<lambda>cs.
        if length cs < 6 then Inr Failed
        else rbind (rmap (opt_double J) (take 6 cs)) (\<lambda>values.
          Inr (Made (new_task (G00Motion (\<not> m05) touch feed ix md values) line))))))))))"

definition make_g01 :: "'v json_lib \<Rightarrow> 'v \<Rightarrow> (string, made) result" where
  "make_g01 J jo =
     rbind (at_string J jo ''CoordinateMode'') (\<lambda>mode_str.
     case s_coord_mode_map mode_str of
       None \<Rightarrow> Inr Failed
     | Some md \<Rightarrow>
        rbind (at_int J jo ''CoordinateIndex'') (\<lambda>ix.
        rbind (at_int J jo ''LineNumber'') (\<lambda>line.
        rbind (at_array J jo ''Coordinates'') (\<lambda>cs.
        if length cs < 6 then Inr Failed
        else rbind (rmap (opt_double J) (take 6 cs)) (\<lambda>values.
          Inr (Made (new_task (G01Motion ix md values) line)))))))"

definition make_coord_index :: "'v json_lib \<Rightarrow> 'v \<Rightarrow> (string, made) result" where
  "make_coord_index J jo =
     rbind (at_int J jo ''CoordinateIndex'') (\<lambda>ix.
     rbind (at_int J jo ''LineNumber'') (\<lambda>line.
     Inr (Made (new_task (CoordinateIndexTask ix) line))))"

definition make_ele_set :: "'v json_lib \<Rightarrow> 'v \<Rightarrow> (string, made) result" where
  "make_ele_set J jo =
     rbind (at_int J jo ''EleparamIndex'') (\<lambda>ix.
     rbind (at_int J jo ''LineNumber'') (\<lambda>line.
     Inr (Made (new_task (EleparamSet ix) line))))"

definition make_delay :: "'v json_lib \<Rightarrow> 'v \<Rightarrow> (string, made) result" where
  "make_delay J jo =
     rbind (at_double J jo ''DelayTime'') (\<lambda>t.
     rbind (at_int J jo ''LineNumber'') (\<lambda>line.
     Inr (Made (new_task (Deley t) line))))"

text \<open>The four tasks that carry no more than their line.\<close>

definition make_bare :: "task_body \<Rightarrow> 'v json_lib \<Rightarrow> 'v \<Rightarrow> (string, made) result" where
  "make_bare b J jo = rbind (at_int J jo ''LineNumber'') (\<lambda>line. Inr (Made (new_task b line)))"

definition make_m02 :: "'v json_lib \<Rightarrow> 'v \<Rightarrow> (string, made) result" where "make_m02 = make_bare ProgramEnd"
definition make_m00 :: "'v json_lib \<Rightarrow> 'v \<Rightarrow> (string, made) result" where "make_m00 = make_bare PauseTask"
definition make_coord_mode :: "'v json_lib \<Rightarrow> 'v \<Rightarrow> (string, made) result" where
  "make_coord_mode = make_bare CoordinateModeTask"
definition make_feed_set :: "'v json_lib \<Rightarrow> 'v \<Rightarrow> (string, made) result" where
  "make_feed_set = make_bare FeedSpeedSet"

text \<open>The loop over the axis flags: \<open>None\<close> at the first that is not a boolean.\<close>

fun read_flags :: "'v json_lib \<Rightarrow> 'v list \<Rightarrow> (string, bool list option) result" where
  "read_flags J [] = Inr (Some [])"
| "read_flags J (j # js) =
     (if j_is_boolean J j
      then rbind (j_as_boolean J j) (\<lambda>b. rbind (read_flags J js) (\<lambda>r. Inr (map_option ((#) b) r)))
      else Inr None)"

definition make_coord_set_zero :: "'v json_lib \<Rightarrow> 'v \<Rightarrow> (string, made) result" where
  "make_coord_set_zero J jo =
     rbind (at_int J jo ''LineNumber'') (\<lambda>line.
     rbind (at_array J jo ''SetZeroAxisList'') (\<lambda>fl.
     if length fl < 6 then Inr Failed
     else rbind (read_flags J (take 6 fl)) (\<lambda>r.
       case r of
         None \<Rightarrow> Inr Failed
       | Some flags \<Rightarrow> Inr (Made (new_task (CoordSetZero flags) line)))))"

definition make_drill :: "build \<Rightarrow> 'v json_lib \<Rightarrow> 'v \<Rightarrow> (string, made) result" where
  "make_drill B J jo =
     rbind (at_int J jo ''LineNumber'') (\<lambda>line.
     rbind (at_double J jo ''DrillDepth'') (\<lambda>depth.
     rbind (at_int J jo ''DrillHoldTime'') (\<lambda>hold.
     rbind (at_bool J jo ''DrillTouch'') (\<lambda>touch.
     rbind (at_bool J jo ''DrillBreakout'') (\<lambda>bo.
     rbind (at_bool J jo ''DrillBack'') (\<lambda>ba.
     rbind (j_at J jo ''DrillSpindleSpeed'') (\<lambda>sp.
     rbind (opt_double J sp) (\<lambda>speed.
     Inr (Made (new_task (DrillMotion \<lparr>depth_um = mul1000 B depth, holdtime_ms = hold, dp_touch = touch,
       dp_breakout = bo, dp_back = ba, spindle_speed = speed\<rparr>) line))))))))))"

text \<open>The loop over the points of a group: \<open>None\<close> at the first bad one.\<close>

fun read_points :: "'v json_lib \<Rightarrow> 'v list \<Rightarrow> (string, group_item list option) result" where
  "read_points J [] = Inr (Some [])"
| "read_points J (jv # js) =
     rbind (j_as_object J jv) (\<lambda>jo.
       rbind (at_string J jo ''CoordinateMode'') (\<lambda>mode_str.
       case s_coord_mode_map mode_str of
         None \<Rightarrow> Inr None
       | Some md \<Rightarrow>
          rbind (at_int J jo ''LineNumber'') (\<lambda>line.
          rbind (at_array J jo ''Coordinates'') (\<lambda>cs.
          if length cs < 6 then Inr None
          else rbind (rmap (opt_double J) (take 6 cs)) (\<lambda>values.
            rbind (at_int J jo ''FeedSpeed'') (\<lambda>feed.
            rbind (read_points J js) (\<lambda>r.
            Inr (map_option ((#) \<lparr>gi_values = values, gi_mode = md, gi_line = line, gi_feedrate = feed\<rparr>) r))))))))"

definition make_g01_group :: "'v json_lib \<Rightarrow> 'v \<Rightarrow> (string, made) result" where
  "make_g01_group J jo =
     rbind (at_int J jo ''CoordinateIndex'') (\<lambda>ix.
     rbind (at_int J jo ''LineNumber'') (\<lambda>line.
     rbind (at_array J jo ''G01GroupPoints'') (\<lambda>ps.
     rbind (read_points J ps) (\<lambda>r.
     case r of
       None \<Rightarrow> Inr Failed
     | Some items \<Rightarrow> Inr (Made (new_task (G01GroupMotion ix items) line))))))"

text \<open>The switch over the type.\<close>

definition make_by_type :: "build \<Rightarrow> 'v json_lib \<Rightarrow> CommandType \<Rightarrow> 'v \<Rightarrow> (string, made) result" where
  "make_by_type B J t jo =
     (case t of
        CT_Undefined \<Rightarrow> Inr Failed
      | G00MotionCommand \<Rightarrow> make_g00 J jo
      | G01MotionCommand \<Rightarrow> make_g01 J jo
      | CoordinateIndexCommand \<Rightarrow> make_coord_index J jo
      | EleparamSetCommand \<Rightarrow> make_ele_set J jo
      | DelayCommand \<Rightarrow> make_delay J jo
      | ProgramEndCommand \<Rightarrow> make_m02 J jo
      | PauseCommand \<Rightarrow> make_m00 J jo
      | CoordSetZeroCommand \<Rightarrow> make_coord_set_zero J jo
      | DrillMotionCommand \<Rightarrow> if drill_build B then make_drill B J jo else Inr Ignored
      | G01GroupMotionCommand \<Rightarrow> make_g01_group J jo
      | CoordinateModeCommand \<Rightarrow> make_coord_mode J jo
      | FeedSpeedSetCommand \<Rightarrow> make_feed_set J jo)"

fun read_options :: "'v json_lib \<Rightarrow> 'v list \<Rightarrow> (string, string list option) result" where
  "read_options J [] = Inr (Some [])"
| "read_options J (j # js) =
     (if \<not> j_is_string J j then Inr None
      else rbind (j_as_string J j) (\<lambda>s. rbind (read_options J js) (\<lambda>r. Inr (map_option ((#) s) r))))"

definition add_gcode_str :: "'v json_lib \<Rightarrow> 'v \<Rightarrow> task \<Rightarrow> (string, made) result" where
  "add_gcode_str J jo t =
     (if j_contains J jo ''CommandStr''
      then rbind (j_at J jo ''CommandStr'') (\<lambda>j.
        if \<not> j_is_string J j then Inr Failed
        else rbind (j_as_string J j) (\<lambda>s. Inr (Made (t\<lparr>gcode_str := s\<rparr>))))
      else Inr (Made t))"

definition add_options :: "'v json_lib \<Rightarrow> 'v \<Rightarrow> task \<Rightarrow> (string, made) result" where
  "add_options J jo t =
     (if j_contains J jo ''Options''
      then rbind (j_at J jo ''Options'') (\<lambda>j.
        if \<not> j_is_array J j then Inr Failed
        else rbind (j_as_array J j) (\<lambda>js. rbind (read_options J js) (\<lambda>r.
          case r of None \<Rightarrow> Inr Failed | Some os \<Rightarrow> Inr (Made (t\<lparr>task_options := os\<rparr>)))))
      else Inr (Made t))"

definition and_then :: "(string, made) result \<Rightarrow> (task \<Rightarrow> (string, made) result) \<Rightarrow> (string, made) result" where
  "and_then r f = rbind r (\<lambda>m. case m of Made t \<Rightarrow> f t | _ \<Rightarrow> Inr m)"

definition MakeGCodeTaskFromJsonObject :: "build \<Rightarrow> 'v json_lib \<Rightarrow> 'v \<Rightarrow> (string, made) result" where
  "MakeGCodeTaskFromJsonObject B J jo =
     rbind (at_string J jo ''CommandType'') (\<lambda>type_str.
     case s_type_map type_str of
       None \<Rightarrow> Inr Failed
     | Some t \<Rightarrow> and_then (and_then (make_by_type B J t jo) (add_gcode_str J jo)) (add_options J jo))"

text \<open>
  The loop over the array: a failure or an exception gives no list. (\<open>as_array\<close> is called on
  an array only, so it does not raise in the function below.)
\<close>

fun make_tasks :: "build \<Rightarrow> 'v json_lib \<Rightarrow> 'v list \<Rightarrow> task list option" where
  "make_tasks B J [] = Some []"
| "make_tasks B J (j # js) =
     (if \<not> j_is_object J j then None
      else case rbind (j_as_object J j) (MakeGCodeTaskFromJsonObject B J) of
             Inl _ \<Rightarrow> None
           | Inr Failed \<Rightarrow> None
           | Inr Ignored \<Rightarrow> make_tasks B J js
           | Inr (Made t) \<Rightarrow> map_option ((#) t) (make_tasks B J js))"

definition MakeGCodeTaskListFromJson :: "build \<Rightarrow> 'v json_lib \<Rightarrow> 'v \<Rightarrow> task list option" where
  "MakeGCodeTaskListFromJson B J j =
     (if \<not> j_is_array J j then None
      else case j_as_array J j of
             Inl _ \<Rightarrow> None
           | Inr [] \<Rightarrow> None
           | Inr js \<Rightarrow> make_tasks B J js)"

end
