(* ===== verification/Motion_Targets.thy ===== *)
theory Motion_Targets
  imports Task_Converter Motion_Base
begin

text \<open>
  From a task to the command for the motion thread: the helpers of
  \<^verbatim>\<open>Src/Motion/MotionUtils/MotionUtils.h\<close> and \<^verbatim>\<open>App/TaskManager/TaskHelper.h\<close>, and what the cases of
  \<open>GCodeRunner::_state_current_node_initing\<close> compute from a motion task before they push a
  command: the target in the machine frame, the check against the soft limits, the target of
  a touch motion that would leave them, the speed, the retract length.

  A handler aborts with a message, goes on to the next task, or sends a command (with the
  message of the abort if the motion thread does not accept it).
\<close>

section \<open>Soft limits\<close>

definition CheckPosandnegSoftLimit :: "soft_limit \<Rightarrow> axis_t \<Rightarrow> axis_t \<Rightarrow> bool" where
  "CheckPosandnegSoftLimit sl p dir \<longleftrightarrow>
     list_all (\<lambda>i. dir ! i = 0
       \<or> \<not> (dir ! i > 0 \<and> p ! i > sl_pos sl ! i) \<and> \<not> (dir ! i < 0 \<and> p ! i < sl_neg sl ! i)) [0..<EDM_AXIS_NUM]"

text \<open>The loop of \<open>GetMaxLengthOnCurrentDir\<close>; \<open>None\<close> is its early return of 0.\<close>

fun max_scale :: "soft_limit \<Rightarrow> axis_t \<Rightarrow> axis_t \<Rightarrow> nat list \<Rightarrow> unit_t \<Rightarrow> unit_t option" where
  "max_scale sl dir p [] scale = Some scale"
| "max_scale sl dir p (i # is) scale =
     (if dir ! i > 0 \<and> sl_pos sl ! i - p ! i \<le> 0 then None
      else if dir ! i < 0 \<and> sl_neg sl ! i - p ! i \<ge> 0 then None
      else if dir ! i = 0 then max_scale sl dir p is scale
      else let left_length = (if dir ! i > 0 then sl_pos sl ! i - p ! i else sl_neg sl ! i - p ! i);
               left = left_length / dir ! i
           in max_scale sl dir p is (if scale = 0 \<or> left < scale then left else scale))"

definition GetMaxLengthOnCurrentDir :: "soft_limit \<Rightarrow> axis_t \<Rightarrow> axis_t \<Rightarrow> unit_t" where
  "GetMaxLengthOnCurrentDir sl dir p =
     (case max_scale sl dir p [0..<EDM_AXIS_NUM] 0 of None \<Rightarrow> 0 | Some k \<Rightarrow> k * CalcAxisLength dir)"

text \<open>A move that keeps to the limits on the axes it moves, in the direction it moves them.\<close>

definition within_limits :: "soft_limit \<Rightarrow> axis_t \<Rightarrow> axis_t \<Rightarrow> bool" where
  "within_limits sl s t \<longleftrightarrow>
     (\<forall>i<6. (s ! i < t ! i \<longrightarrow> t ! i \<le> sl_pos sl ! i) \<and> (t ! i < s ! i \<longrightarrow> sl_neg sl ! i \<le> t ! i))"

definition in_limits :: "soft_limit \<Rightarrow> axis_t \<Rightarrow> bool" where
  "in_limits sl p \<longleftrightarrow> (\<forall>i<6. sl_neg sl ! i \<le> p ! i \<and> p ! i \<le> sl_pos sl ! i)"

text \<open>The point at the fraction \<open>u\<close> of the straight move.\<close>

definition on_the_way :: "axis_t \<Rightarrow> axis_t \<Rightarrow> real \<Rightarrow> axis_t" where
  "on_the_way s t u = map2 (\<lambda>a b. a + u * (b - a)) s t"

lemma check_limit_iff:
  assumes "is_axis s" "is_axis t" "s \<noteq> t"
  shows "CheckPosandnegSoftLimit sl t (CalcAxisUnitVector s t) \<longleftrightarrow> within_limits sl s t"
  unfolding CheckPosandnegSoftLimit_def within_limits_def list_all_iff EDM_AXIS_NUM_def
  using unit_vector_sign[OF assms] by (auto simp: not_less) force+

lemma in_limits_on_the_way:
  assumes "is_axis s" "is_axis t" "in_limits sl s" "within_limits sl s t" "0 \<le> u" "u \<le> 1"
  shows "in_limits sl (on_the_way s t u)"
  unfolding in_limits_def
proof (intro allI impI)
  fix i :: nat assume i: "i < 6"
  let ?a = "s ! i" and ?b = "t ! i"
  have nth: "on_the_way s t u ! i = ?a + u * (?b - ?a)" using assms(1,2) i by (simp add: on_the_way_def)
  have a: "sl_neg sl ! i \<le> ?a" "?a \<le> sl_pos sl ! i" using assms(3) i by (auto simp: in_limits_def)
  have b: "sl_neg sl ! i \<le> ?b" "?b \<le> sl_pos sl ! i"
    using assms(4) i a by (force simp: within_limits_def not_less linorder_not_less)+
  have "?a + u * (?b - ?a) = (1 - u) * ?a + u * ?b" by (simp add: algebra_simps)
  moreover have "(1 - u) * sl_neg sl ! i + u * sl_neg sl ! i \<le> (1 - u) * ?a + u * ?b"
    using a b assms(5,6) by (intro add_mono mult_left_mono) auto
  moreover have "(1 - u) * ?a + u * ?b \<le> (1 - u) * sl_pos sl ! i + u * sl_pos sl ! i"
    using a b assms(5,6) by (intro add_mono mult_left_mono) auto
  ultimately show "sl_neg sl ! i \<le> on_the_way s t u ! i \<and> on_the_way s t u ! i \<le> sl_pos sl ! i"
    unfolding nth by (simp add: algebra_simps)
qed

section \<open>Commands for the motion thread\<close>

record g01_item =
  incs :: axis_t
  item_line :: int
  item_feedrate :: int

datatype motion_cmd =
    AutoStartG00FastMove axis_t axis_t speed_param bool
  | AutoStartG01ServoMove axis_t axis_t unit_t
  | AutoG04Delay real
  | AutoM00FakePauseTask
  | AutoStartDrillMove drill_params
  | AutoG01Group "g01_item list"
  | AutoPause
  | AutoResume
  | AutoStop bool
  | ManualEmergencyStopAllMove
  | SettingClearWarning
  | ManualStartPointMove axis_t axis_t speed_param bool
  | ManualStopPointMove bool

text \<open>The values of \<open>SystemSettings\<close> the runner reads.\<close>

record settings =
  fmparam_nacc_ms :: real
  fmparam_max_acc_um_s2 :: real
  motion_cycle_us :: real
  auto_record_data :: bool

definition ms2p :: "settings \<Rightarrow> real \<Rightarrow> real" where
  "ms2p st ms = ms * (1 / (motion_cycle_us st / 1000))"

text \<open>The number of cycles \<open>nacc\<close> is an unsigned integer, the fraction is cut off.\<close>

definition GetDefaultSpeedparam :: "settings \<Rightarrow> speed_param" where
  "GetDefaultSpeedparam st =
     (let a = um2blu (fmparam_max_acc_um_s2 st)
      in \<lparr>nacc = \<lfloor>ms2p st (fmparam_nacc_ms st)\<rfloor>, acc0 = a, dec0 = - a, entry_v = 0, exit_v = 0, cruise_v = 1000\<rparr>)"

text \<open>
  What the handlers do with the current task. A fault is outside the behaviour the language
  defines (an index out of range, a failed assertion), or outside this model (a coordinate
  or delay that is not finite).
\<close>

datatype fault = OutOfRange | AssertFailed | NotFinite

datatype prep = Aborts string | Skips | Sends motion_cmd string

section \<open>Targets\<close>

fun double_val :: "pyfloat \<Rightarrow> (fault, real) result" where
  "double_val (Dec m k) = Inr (of_int m / 10 ^ k)"
| "double_val NegZero = Inr 0"
| "double_val _ = Inl NotFinite"

fun opt_val :: "pyfloat option \<Rightarrow> (fault, real option) result" where
  "opt_val None = Inr None"
| "opt_val (Some f) = rbind (double_val f) (\<lambda>x. Inr (Some x))"

definition cmd_vals :: "pyfloat option list \<Rightarrow> (fault, real option list) result" where
  "cmd_vals vs = (if length vs \<noteq> 6 then Inl AssertFailed else rmap opt_val vs)"

definition target_inc :: "axis_t \<Rightarrow> real option list \<Rightarrow> axis_t" where
  "target_inc s vs = map2 (\<lambda>a v. case v of None \<Rightarrow> a | Some x \<Rightarrow> a + mm2blu x) s vs"

definition target_abs :: "axis_t \<Rightarrow> real option list \<Rightarrow> axis_t" where
  "target_abs s vs = map2 (\<lambda>a v. case v of None \<Rightarrow> a | Some x \<Rightarrow> mm2blu x) s vs"

definition machine_target ::
    "string \<Rightarrow> coord_manager \<Rightarrow> int \<Rightarrow> CoordinateMode \<Rightarrow> axis_t \<Rightarrow> real option list \<Rightarrow> (string, axis_t) result" where
  "machine_target name m ix md s vs =
     (if md = IncrementMode then Inr (target_inc s vs)
      else case machine_to_coord m (uint32 ix) s of
             None \<Rightarrow> Inl (''abort: '' @ name @ '' machine_to_coord failed: '' @ int_str (uint32 ix))
           | Some cs \<Rightarrow>
              (case coord_to_machine m (uint32 ix) (target_abs cs vs) of
                 None \<Rightarrow> Inl (''abort: '' @ name @ '' coord_to_machine failed: '' @ int_str (uint32 ix))
               | Some t \<Rightarrow> Inr t))"

subsection \<open>A touch motion beyond the limits\<close>

definition scale_left :: "soft_limit \<Rightarrow> axis_t \<Rightarrow> axis_t \<Rightarrow> nat \<Rightarrow> real" where
  "scale_left sl s dir i =
     (if dir ! i > 0 then (sl_pos sl ! i - s ! i) / dir ! i else (sl_neg sl ! i - s ! i) / dir ! i)"

fun touch_scale_step :: "soft_limit \<Rightarrow> axis_t \<Rightarrow> axis_t \<Rightarrow> nat \<Rightarrow> real \<times> bool \<Rightarrow> real \<times> bool" where
  "touch_scale_step sl s dir i (min_scale, refreshed) =
     (if dir ! i = 0 then (min_scale, refreshed)
      else let left = scale_left sl s dir i
           in if \<not> refreshed \<or> left < min_scale then (if left > 0 then left else 0, True)
              else (min_scale, refreshed))"

definition touch_scale :: "soft_limit \<Rightarrow> axis_t \<Rightarrow> axis_t \<Rightarrow> real" where
  "touch_scale sl s dir = fst (fold (touch_scale_step sl s dir) [0..<EDM_AXIS_NUM] (0, False))"

subsection \<open>The handlers\<close>

definition send_g00 :: "settings \<Rightarrow> coord_manager \<Rightarrow> axis_t \<Rightarrow> axis_t \<Rightarrow> int \<Rightarrow> bool \<Rightarrow> prep" where
  "send_g00 st m motor_start target feed detect =
     (let sp = (GetDefaultSpeedparam st)\<lparr>cruise_v := mm_min2blu_s (of_int feed)\<rparr>;
          sp = (if cruise_v sp \<le> 0 then sp\<lparr>cruise_v := 1\<rparr> else sp)
      in Sends (AutoStartG00FastMove motor_start (machine_to_motor m target) sp detect)
           ''abort: start g00 failed, cmd not accepted by motion or timeout'')"

definition prepare_g00 :: "settings \<Rightarrow> coord_manager \<Rightarrow> axis_t \<Rightarrow> bool \<Rightarrow> bool \<Rightarrow> int \<Rightarrow> int \<Rightarrow>
    CoordinateMode \<Rightarrow> real option list \<Rightarrow> prep" where
  "prepare_g00 st m motor_start detect touch feed ix md vs =
     (if \<not> exist_coordinate_index m (uint32 ix) then Aborts (''abort: g00 coord index not exist: '' @ int_str ix)
      else let start = motor_to_machine m motor_start in
      case machine_target ''g00'' m ix md start vs of
        Inl e \<Rightarrow> Aborts e
      | Inr target \<Rightarrow>
         if IsAxisTheSame start target then Skips
         else let dir = CalcAxisUnitVector start target in
         if CheckPosandnegSoftLimit (soft_limits m) target dir then send_g00 st m motor_start target feed detect
         else if \<not> touch then Aborts ''abort: g00 softlimit reached''
         else let k = touch_scale (soft_limits m) start dir in
           if k \<le> 0 then Skips
           else send_g00 st m motor_start (map2 (\<lambda>a d. a + d * k) start dir) feed detect)"

definition prepare_g01 :: "coord_manager \<Rightarrow> axis_t \<Rightarrow> int \<Rightarrow> CoordinateMode \<Rightarrow> real option list \<Rightarrow> prep" where
  "prepare_g01 m motor_start ix md vs =
     (if \<not> exist_coordinate_index m (uint32 ix) then Aborts (''abort: g01 coord index not exist: '' @ int_str ix)
      else let start = motor_to_machine m motor_start in
      case machine_target ''g01'' m ix md start vs of
        Inl e \<Rightarrow> Aborts e
      | Inr target \<Rightarrow>
         if IsAxisTheSame start target then Skips
         else if \<not> CheckPosandnegSoftLimit (soft_limits m) target (CalcAxisUnitVector start target)
         then Aborts ''abort: g01 softlimit reached''
         else Sends (AutoStartG01ServoMove motor_start (machine_to_motor m target)
                (GetMaxLengthOnCurrentDir (soft_limits m) (CalcAxisUnitVector target start) start))
              ''abort: start g01 failed, cmd not accepted by motion or timeout'')"

text \<open>A group: the loop over its points, from the machine position reached so far.\<close>

definition abs_inc :: "axis_t \<Rightarrow> axis_t \<Rightarrow> axis_t" where
  "abs_inc s t = map (\<lambda>d. if \<bar>d\<bar> < 0.000001 then 0 else d) (sub_axis t s)"

definition group_incs :: "CoordinateMode \<Rightarrow> axis_t \<Rightarrow> axis_t \<Rightarrow> real option list \<Rightarrow> axis_t" where
  "group_incs md s t vs =
     (if md = IncrementMode then map (\<lambda>v. case v of None \<Rightarrow> 0 | Some x \<Rightarrow> mm2blu x) vs else abs_inc s t)"

record group_point =
  gp_vals :: "real option list"
  gp_mode :: CoordinateMode
  gp_line :: int
  gp_feedrate :: int

fun group_items :: "coord_manager \<Rightarrow> int \<Rightarrow> axis_t \<Rightarrow> group_point list \<Rightarrow> (string, g01_item list) result" where
  "group_items m ix s [] = Inr []"
| "group_items m ix s (p # ps) =
     rbind (machine_target ''g01 group'' m ix (gp_mode p) s (gp_vals p)) (\<lambda>t.
       if IsAxisTheSame s t then group_items m ix s ps
       else if \<not> CheckPosandnegSoftLimit (soft_limits m) t (CalcAxisUnitVector s t)
       then Inl ''abort: g01 group softlimit reached''
       else rbind (group_items m ix t ps) (\<lambda>items.
         Inr (\<lparr>incs = group_incs (gp_mode p) s t (gp_vals p), item_line = gp_line p,
               item_feedrate = gp_feedrate p\<rparr> # items)))"

definition group_vals :: "group_item list \<Rightarrow> (fault, group_point list) result" where
  "group_vals items = rmap (\<lambda>g. rbind (rmap opt_val (gi_values g)) (\<lambda>vs.
     if length vs < 6 then Inl OutOfRange
     else Inr \<lparr>gp_vals = take 6 vs, gp_mode = gi_mode g, gp_line = gi_line g, gp_feedrate = gi_feedrate g\<rparr>)) items"

definition prepare_g01_group :: "coord_manager \<Rightarrow> axis_t \<Rightarrow> int \<Rightarrow> group_point list \<Rightarrow> prep" where
  "prepare_g01_group m motor_start ix ps =
     (if \<not> exist_coordinate_index m (uint32 ix)
      then Aborts (''abort: g01 group coord index not exist: '' @ int_str ix)
      else case group_items m ix (motor_to_machine m motor_start) ps of
             Inl e \<Rightarrow> Aborts e
           | Inr items \<Rightarrow> Sends (AutoG01Group items)
               ''abort: start g01 group failed, cmd not accepted by motion or timeout'')"

text \<open>The drilling axis is the last one.\<close>

definition prepare_drill :: "coord_manager \<Rightarrow> axis_t \<Rightarrow> real \<Rightarrow> drill_params \<Rightarrow> prep" where
  "prepare_drill m motor_pos depth dp =
     (if motor_pos ! (EDM_AXIS_NUM - 1) - um2blu depth < sl_neg (soft_limits m) ! (EDM_AXIS_NUM - 1)
      then Aborts ''abort: drill depth out of soft limit''
      else Sends (AutoStartDrillMove dp) ''abort: start drill failed, cmd not accepted by motion or timeout'')"

section \<open>Targets keep to the soft limits\<close>

lemma target_axis [simp]:
  "is_axis s \<Longrightarrow> length vs = 6 \<Longrightarrow> is_axis (target_inc s vs)"
  "is_axis s \<Longrightarrow> length vs = 6 \<Longrightarrow> is_axis (target_abs s vs)"
  by (simp_all add: target_inc_def target_abs_def is_axis_def EDM_AXIS_NUM_def)

lemma machine_pos_axis [simp]:
  "cm_ok m \<Longrightarrow> is_axis p \<Longrightarrow> is_axis (motor_to_machine m p)"
  "cm_ok m \<Longrightarrow> is_axis p \<Longrightarrow> is_axis (machine_to_motor m p)"
  by (simp_all add: motor_to_machine_def machine_to_motor_def)

lemma motor_machine_motor [simp]:
  "cm_ok m \<Longrightarrow> is_axis p \<Longrightarrow> motor_to_machine m (machine_to_motor m p) = p"
  "cm_ok m \<Longrightarrow> is_axis p \<Longrightarrow> machine_to_motor m (motor_to_machine m p) = p"
  by (simp_all add: motor_to_machine_def machine_to_motor_def)

lemma machine_target_axis:
  assumes "machine_target name m ix md s vs = Inr t" "cm_ok m" "is_axis s" "length vs = 6"
  shows "is_axis t"
proof (cases "md = IncrementMode")
  case True
  then show ?thesis using assms by (auto simp: machine_target_def)
next
  case False
  then obtain cs where cs: "machine_to_coord m (uint32 ix) s = Some cs"
    "coord_to_machine m (uint32 ix) (target_abs cs vs) = Some t"
    using assms(1) by (auto simp: machine_target_def split: option.splits)
  then show ?thesis using coord_machine_inverse(1)[OF assms(2) _ cs(2)] coord_machine_inverse(2)[OF assms(2,3) cs(1)]
      assms(4) by simp
qed

subsection \<open>The touch motion\<close>

lemma touch_scale_fold:
  fixes sl :: soft_limit
  assumes "fold (touch_scale_step sl s dir) is (k0, b0) = (k, b)"
    and "b0 \<longrightarrow> (\<forall>i\<in>J. dir ! i \<noteq> 0 \<longrightarrow> k0 \<le> max 0 (scale_left sl s dir i))"
    and "\<not> b0 \<longrightarrow> (\<forall>i\<in>J. dir ! i = 0)"
  shows "(b \<longrightarrow> (\<forall>i\<in>J \<union> set is. dir ! i \<noteq> 0 \<longrightarrow> k \<le> max 0 (scale_left sl s dir i)))
    \<and> (\<not> b \<longrightarrow> (\<forall>i\<in>J \<union> set is. dir ! i = 0))"
  using assms
proof (induction "is" arbitrary: k0 b0 J)
  case (Cons i "is")
  obtain k1 b1 where st: "touch_scale_step sl s dir i (k0, b0) = (k1, b1)"
    by (cases "touch_scale_step sl s dir i (k0, b0)")
  have fo: "fold (touch_scale_step sl s dir) is (k1, b1) = (k, b)" using Cons.prems(1) st by simp
  have h1: "b1 \<longrightarrow> (\<forall>j\<in>insert i J. dir ! j \<noteq> 0 \<longrightarrow> k1 \<le> max 0 (scale_left sl s dir j))"
    using st Cons.prems(2,3) by (auto simp: Let_def split: if_splits)
  have h2: "\<not> b1 \<longrightarrow> (\<forall>j\<in>insert i J. dir ! j = 0)"
    using st Cons.prems(3) by (auto simp: Let_def split: if_splits)
  show ?case using Cons.IH[OF fo h1 h2] by simp
qed simp

lemma touch_scale_bound:
  assumes "0 < touch_scale sl s dir" "i < 6" "dir ! i \<noteq> 0"
  shows "touch_scale sl s dir \<le> scale_left sl s dir i"
proof -
  obtain k b where f: "fold (touch_scale_step sl s dir) [0..<6] (0, False) = (k, b)"
    by (cases "fold (touch_scale_step sl s dir) [0..<6] (0, False)")
  have b: "b" using touch_scale_fold[OF f, of "{}"] assms(2,3) by auto
  have "k \<le> max 0 (scale_left sl s dir i)"
    using touch_scale_fold[OF f, of "{}"] b assms(2,3) by simp
  then show ?thesis using assms(1) f by (simp add: touch_scale_def EDM_AXIS_NUM_def)
qed

lemma touch_target_within:
  assumes ax: "is_axis s" "is_axis t" "s \<noteq> t"
    and dir: "dir = CalcAxisUnitVector s t" and k: "k = touch_scale sl s dir" "0 < k"
  shows "within_limits sl s (map2 (\<lambda>a d. a + d * k) s dir)"
  unfolding within_limits_def
proof (intro allI impI)
  fix i :: nat assume i: "i < 6"
  let ?d = "dir ! i"
  have nth: "map2 (\<lambda>a d. a + d * k) s dir ! i = s ! i + ?d * k" using ax i dir by simp
  have "s ! i + ?d * k \<le> sl_pos sl ! i" if "0 < ?d"
  proof -
    have "k \<le> (sl_pos sl ! i - s ! i) / ?d"
      using touch_scale_bound[of sl s dir i] k i that by (auto simp: scale_left_def)
    then show ?thesis using that by (simp add: pos_le_divide_eq algebra_simps)
  qed
  moreover have "sl_neg sl ! i \<le> s ! i + ?d * k" if "?d < 0"
  proof -
    have "k \<le> (sl_neg sl ! i - s ! i) / ?d"
      using touch_scale_bound[of sl s dir i] k i that by (auto simp: scale_left_def)
    then show ?thesis using that by (simp add: neg_le_divide_eq algebra_simps)
  qed
  ultimately show "(s ! i < map2 (\<lambda>a d. a + d * k) s dir ! i \<longrightarrow> map2 (\<lambda>a d. a + d * k) s dir ! i \<le> sl_pos sl ! i) \<and>
      (map2 (\<lambda>a d. a + d * k) s dir ! i < s ! i \<longrightarrow> sl_neg sl ! i \<le> map2 (\<lambda>a d. a + d * k) s dir ! i)"
    unfolding nth using k(2) by (auto simp: zero_less_mult_iff mult_less_0_iff)
qed

subsection \<open>Commands that keep to the limits\<close>

text \<open>
  The way points of a group: each leg keeps to the limits, and each increment differs from its
  leg by less than the \<open>0.000001\<close> the code rounds away.
\<close>

fun group_safe :: "soft_limit \<Rightarrow> axis_t \<Rightarrow> g01_item list \<Rightarrow> axis_t list \<Rightarrow> bool" where
  "group_safe sl s [] ws \<longleftrightarrow> ws = []"
| "group_safe sl s (g # gs) ws \<longleftrightarrow>
     (case ws of [] \<Rightarrow> False
      | w # ws \<Rightarrow> is_axis w \<and> within_limits sl s w
          \<and> (\<forall>i<6. \<bar>incs g ! i - (w ! i - s ! i)\<bar> < 0.000001) \<and> group_safe sl w gs ws)"

text \<open>The straight moves: start and target, in the drive frame.\<close>

fun straight_move :: "motion_cmd \<Rightarrow> (axis_t \<times> axis_t) option" where
  "straight_move (AutoStartG00FastMove s t _ _) = Some (s, t)"
| "straight_move (AutoStartG01ServoMove s t _) = Some (s, t)"
| "straight_move _ = None"

fun cmd_safe :: "coord_manager \<Rightarrow> axis_t \<Rightarrow> motion_cmd \<Rightarrow> bool" where
  "cmd_safe m pos (AutoStartG00FastMove s t _ _) \<longleftrightarrow>
     s = pos \<and> is_axis t \<and> within_limits (soft_limits m) (motor_to_machine m pos) (motor_to_machine m t)"
| "cmd_safe m pos (AutoStartG01ServoMove s t _) \<longleftrightarrow>
     s = pos \<and> is_axis t \<and> within_limits (soft_limits m) (motor_to_machine m pos) (motor_to_machine m t)"
| "cmd_safe m pos (AutoG01Group items) \<longleftrightarrow> (\<exists>ws. group_safe (soft_limits m) (motor_to_machine m pos) items ws)"
| "cmd_safe m pos _ \<longleftrightarrow> True"

lemma cmd_safe_straight:
  "cmd_safe m pos c \<Longrightarrow> straight_move c = Some (s, t) \<Longrightarrow>
   s = pos \<and> is_axis t \<and> within_limits (soft_limits m) (motor_to_machine m pos) (motor_to_machine m t)"
  by (cases c) auto

lemma send_g00_safe:
  assumes "send_g00 st m pos t feed detect = Sends c msg" "cm_ok m" "is_axis pos" "is_axis t"
    "within_limits (soft_limits m) (motor_to_machine m pos) t"
  shows "cmd_safe m pos c"
  using assms by (auto simp: send_g00_def Let_def)

lemma prepare_g00_safe:
  assumes "prepare_g00 st m pos detect touch feed ix md vs = Sends c msg" "cm_ok m" "is_axis pos" "length vs = 6"
  shows "cmd_safe m pos c"
proof -
  let ?s = "motor_to_machine m pos"
  have s: "is_axis ?s" using assms by simp
  obtain t where t: "machine_target ''g00'' m ix md ?s vs = Inr t" "?s \<noteq> t"
    using assms(1) by (auto simp: prepare_g00_def Let_def IsAxisTheSame_def split: if_splits sum.splits)
  have ta: "is_axis t" using machine_target_axis[OF t(1) assms(2) s assms(4)] .
  let ?d = "CalcAxisUnitVector ?s t"
  show ?thesis
  proof (cases "CheckPosandnegSoftLimit (soft_limits m) t ?d")
    case True
    then show ?thesis using assms(1) t ta check_limit_iff[OF s ta t(2)] assms(2,3)
      by (auto simp: prepare_g00_def Let_def IsAxisTheSame_def split: if_splits intro: send_g00_safe)
  next
    case False
    let ?k = "touch_scale (soft_limits m) ?s ?d"
    have k: "0 < ?k" "send_g00 st m pos (map2 (\<lambda>a d. a + d * ?k) ?s ?d) feed detect = Sends c msg"
      using assms(1) t False by (auto simp: prepare_g00_def Let_def IsAxisTheSame_def split: if_splits)
    have "is_axis (map2 (\<lambda>a d. a + d * ?k) ?s ?d)" using s ta unit_vector_axis[OF s ta] by (simp add: is_axis_def)
    then show ?thesis using send_g00_safe[OF k(2) assms(2,3)] touch_target_within[OF s ta t(2) refl refl k(1)] by blast
  qed
qed

lemma prepare_g01_safe:
  assumes "prepare_g01 m pos ix md vs = Sends c msg" "cm_ok m" "is_axis pos" "length vs = 6"
  shows "cmd_safe m pos c"
proof -
  let ?s = "motor_to_machine m pos"
  have s: "is_axis ?s" using assms by simp
  obtain t where t: "machine_target ''g01'' m ix md ?s vs = Inr t" "?s \<noteq> t"
    using assms(1) by (auto simp: prepare_g01_def Let_def IsAxisTheSame_def split: if_splits sum.splits)
  have ta: "is_axis t" using machine_target_axis[OF t(1) assms(2) s assms(4)] .
  then show ?thesis using assms(1,2) t check_limit_iff[OF s ta t(2)]
    by (auto simp: prepare_g01_def Let_def IsAxisTheSame_def split: if_splits)
qed

lemma group_incs_close:
  assumes "machine_target name m ix md s vs = Inr t" "is_axis s" "is_axis t" "length vs = 6" "i < 6"
  shows "\<bar>group_incs md s t vs ! i - (t ! i - s ! i)\<bar> < 0.000001"
proof (cases "md = IncrementMode")
  case True
  then have "t ! i = (case vs ! i of None \<Rightarrow> s ! i | Some x \<Rightarrow> s ! i + mm2blu x)"
    using assms by (auto simp: machine_target_def target_inc_def)
  then show ?thesis using True assms by (auto simp: group_incs_def split: option.splits)
next
  case False
  have "length (sub_axis t s) = 6" using assms by (simp add: sub_axis_def)
  then show ?thesis using False assms by (simp add: group_incs_def abs_inc_def abs_minus_commute)
qed

lemma group_items_safe:
  assumes "group_items m ix s ps = Inr items" "cm_ok m" "is_axis s" "list_all (\<lambda>p. length (gp_vals p) = 6) ps"
  shows "\<exists>ws. group_safe (soft_limits m) s items ws"
  using assms
proof (induction ps arbitrary: s items)
  case (Cons p ps)
  obtain t where t: "machine_target ''g01 group'' m ix (gp_mode p) s (gp_vals p) = Inr t"
    using Cons.prems(1) by (auto simp: rbind_Inr_iff)
  have ta: "is_axis t" using machine_target_axis[OF t Cons.prems(2,3)] Cons.prems(4) by simp
  show ?case
  proof (cases "s = t")
    case True
    then show ?thesis using Cons t by (simp add: IsAxisTheSame_def)
  next
    case False
    then obtain rest where rest: "CheckPosandnegSoftLimit (soft_limits m) t (CalcAxisUnitVector s t)"
      "group_items m ix t ps = Inr rest"
      "items = \<lparr>incs = group_incs (gp_mode p) s t (gp_vals p), item_line = gp_line p,
               item_feedrate = gp_feedrate p\<rparr> # rest"
      using Cons.prems(1) t by (auto simp: rbind_Inr_iff IsAxisTheSame_def split: if_splits)
    obtain ws where "group_safe (soft_limits m) t rest ws" using Cons.IH[OF rest(2)] Cons.prems ta by auto
    then have "group_safe (soft_limits m) s items (t # ws)"
      using rest(1,3) ta check_limit_iff[OF Cons.prems(3) ta False] group_incs_close[OF t Cons.prems(3) ta]
        Cons.prems(4) by simp
    then show ?thesis by blast
  qed
qed (auto intro: exI[of _ "[]"])

lemma prepare_g01_group_safe:
  assumes "prepare_g01_group m pos ix ps = Sends c msg" "cm_ok m" "is_axis pos"
    "list_all (\<lambda>p. length (gp_vals p) = 6) ps"
  shows "cmd_safe m pos c"
  using assms group_items_safe[of m ix "motor_to_machine m pos" ps]
  by (auto simp: prepare_g01_group_def split: if_splits sum.splits)

lemma prepare_drill_safe: "prepare_drill m pos d dp = Sends c msg \<Longrightarrow> cmd_safe m pos c"
  by (auto simp: prepare_drill_def split: if_splits)

end
