(* ===== verification/Group_Move.thy ===== *)
theory Group_Move
  imports Trajectory Cutting_Move Motion_Targets
begin

text \<open>
  The group of cutting moves (\<^verbatim>\<open>Src/Motion/MotionStateMachine/G01GroupAutoTask.cpp\<close>): a path of segments
  run with the feed of each, without jumps. \<open>_mach_on\<close> returns at once and has no effect; the
  speed of the servo board is read and then overwritten.
\<close>

section \<open>State\<close>

datatype group_state = GroupRunning | GroupPausing | GroupPaused | GroupResuming | GroupStopping | GroupStopped

record group_task =
  start_items :: "g01_item list"
  traj_list :: "trajectory option"
  group_state :: group_state

fun group_segements :: "axis_t \<Rightarrow> g01_item list \<Rightarrow> linear list" where
  "group_segements p [] = []"
| "group_segements p (x # xs) = (let q = map2 (+) p (incs x) in linear_new p q # group_segements q xs)"

definition group_new :: "g01_item list \<Rightarrow> shared \<Rightarrow> group_task" where
  "group_new items sh =
     (let l = traj_new (group_segements (global_cmd_axis sh) items)
      in \<lparr>start_items = items, traj_list = l, group_state = if l = None then GroupStopped else GroupRunning\<rparr>)"

section \<open>Calls\<close>

definition group_pause :: "group_task \<Rightarrow> bool \<times> group_task" where
  "group_pause g =
     (case group_state g of
        GroupResuming \<Rightarrow> (True, g\<lparr>group_state := GroupPausing\<rparr>)
      | GroupRunning \<Rightarrow> (True, g\<lparr>group_state := GroupPausing\<rparr>)
      | GroupPausing \<Rightarrow> (True, g)
      | _ \<Rightarrow> (False, g))"

definition group_resume :: "group_task \<Rightarrow> bool \<times> group_task" where
  "group_resume g =
     (case group_state g of
        GroupPaused \<Rightarrow> (True, g\<lparr>group_state := GroupResuming\<rparr>)
      | GroupResuming \<Rightarrow> (True, g)
      | _ \<Rightarrow> (False, g))"

definition group_stop :: "group_task \<Rightarrow> bool \<times> group_task" where
  "group_stop g =
     (case group_state g of
        GroupStopping \<Rightarrow> (True, g)
      | GroupStopped \<Rightarrow> (False, g)
      | _ \<Rightarrow> (True, g\<lparr>group_state := GroupStopping\<rparr>))"

section \<open>One cycle\<close>

definition group_running :: "real \<Rightarrow> group_task \<Rightarrow> shared \<Rightarrow> (motion_fault, group_task \<times> shared) result" where
  "group_running T g sh =
     (case traj_list g of
        None \<Rightarrow> Inl Assertion
      | Some l \<Rightarrow>
          let i = seg_index l
          in if \<not> i < length (start_items g) then Inl Assertion
             else let x = start_items g ! i; sh1 = sh\<lparr>sub_line_num := item_line x\<rparr>;
                      dis = mm_min2blu_p T (of_int (item_feedrate x)) * g01_speed_ratio sh;
                      l' = traj_run_once dis l
                  in Inr (g\<lparr>traj_list := Some l', group_state := if traj_at_end l' then GroupStopped else GroupRunning\<rparr>,
                          set_cmd_axis (traj_cmd_axis l') sh1))"

definition group_run_once :: "real \<Rightarrow> group_task \<Rightarrow> shared \<Rightarrow> (motion_fault, group_task \<times> shared) result" where
  "group_run_once T g sh =
     (case group_state g of
        GroupRunning \<Rightarrow> group_running T g sh
      | GroupPausing \<Rightarrow> Inr (g\<lparr>group_state := GroupPaused\<rparr>, sh)
      | GroupPaused \<Rightarrow> Inr (g, sh)
      | GroupResuming \<Rightarrow> Inr (g\<lparr>group_state := GroupRunning\<rparr>, sh)
      | GroupStopping \<Rightarrow> Inr (g\<lparr>group_state := GroupStopped\<rparr>, sh)
      | GroupStopped \<Rightarrow> Inr (g, sh))"

section \<open>Paths\<close>

text \<open>The segments lead from \<open>p\<close> to \<open>q\<close>, each one to where the next one starts.\<close>

fun path :: "axis_t \<Rightarrow> axis_t \<Rightarrow> linear list \<Rightarrow> bool" where
  "path p q [] \<longleftrightarrow> p = q"
| "path p q (t # ts) \<longleftrightarrow> is_axis p \<and> is_axis (lin_end t) \<and> p \<noteq> lin_end t \<and> lin_ok p (lin_end t) t \<and> path (lin_end t) q ts"

lemma lin_path_append: "path p q (xs @ ys) \<longleftrightarrow> (\<exists>m. path p m xs \<and> path m q ys)"
  by (induction xs arbitrary: p) auto

text \<open>A segment of a path, with what is before and after it.\<close>

lemma path_nth:
  assumes "path p q ts" "i < length ts"
  obtains s e where "lin_ok s e (ts ! i)" "is_axis s" "is_axis e" "s \<noteq> e" "path p s (take i ts)" "path e q (drop (Suc i) ts)"
proof -
  have "ts = take i ts @ ts ! i # drop (Suc i) ts" using assms(2) by (simp add: id_take_nth_drop[symmetric])
  then obtain m where m: "path p m (take i ts)" "path m q (ts ! i # drop (Suc i) ts)"
    using assms(1) lin_path_append[of p q "take i ts" "ts ! i # drop (Suc i) ts"] by metis
  then show ?thesis by (intro that[of m "lin_end (ts ! i)"]) auto
qed

lemma path_update:
  assumes "path p q ts" "i < length ts" "\<And>s e. lin_ok s e (ts ! i) \<Longrightarrow> is_axis s \<Longrightarrow> is_axis e \<Longrightarrow> s \<noteq> e \<Longrightarrow> lin_ok s e t"
  shows "path p q (ts[i := t])"
  using assms
proof (induction ts arbitrary: p i)
  case (Cons a ts)
  show ?case
  proof (cases i)
    case 0
    have a: "lin_ok p (lin_end a) a" "is_axis p" "is_axis (lin_end a)" "p \<noteq> lin_end a" using Cons.prems(1) by simp_all
    have "lin_ok p (lin_end a) t" by (rule Cons.prems(3)) (use 0 a in simp_all)
    moreover from this have "lin_end t = lin_end a" by (simp add: lin_ok_def)
    ultimately show ?thesis using Cons.prems(1) 0 by simp
  next
    case (Suc j)
    have "path (lin_end a) q (ts[j := t])"
      by (rule Cons.IH) (use Cons.prems Suc in simp_all)
    then show ?thesis using Cons.prems(1) Suc by simp
  qed
qed simp

text \<open>What the runner sends: every item goes somewhere.\<close>

definition item_ok :: "g01_item \<Rightarrow> bool" where
  "item_ok x \<longleftrightarrow> is_axis (incs x) \<and> (\<exists>d \<in> set (incs x). d \<noteq> 0)"

definition items_end :: "axis_t \<Rightarrow> g01_item list \<Rightarrow> axis_t" where
  "items_end p xs = foldl (\<lambda>q x. map2 (+) q (incs x)) p xs"

lemma inc_axis: "is_axis p \<Longrightarrow> item_ok x \<Longrightarrow> is_axis (map2 (+) p (incs x)) \<and> p \<noteq> map2 (+) p (incs x)"
proof -
  assume a: "is_axis p" "item_ok x"
  then obtain d where d: "d \<in> set (incs x)" "d \<noteq> 0" by (auto simp: item_ok_def)
  have l: "length p = 6" "length (incs x) = 6" using a by (simp_all add: item_ok_def is_axis_def EDM_AXIS_NUM_def)
  obtain i where i: "i < 6" "incs x ! i = d" using d(1) l by (auto simp: in_set_conv_nth)
  have "map2 (+) p (incs x) ! i = p ! i + d" using i l by simp
  then have "p \<noteq> map2 (+) p (incs x)" using d(2) by auto
  then show ?thesis using l by (simp add: is_axis_def EDM_AXIS_NUM_def)
qed

lemma group_path: "is_axis p \<Longrightarrow> list_all item_ok xs \<Longrightarrow> path p (items_end p xs) (group_segements p xs)"
proof (induction xs arbitrary: p)
  case (Cons x xs)
  let ?q = "map2 (+) p (incs x)"
  have q: "is_axis ?q" "p \<noteq> ?q" using inc_axis Cons.prems by simp_all
  have "path ?q (items_end ?q xs) (group_segements ?q xs)" using Cons q(1) by simp
  moreover have "lin_end (linear_new p ?q) = ?q" by (simp add: linear_new_def)
  ultimately show ?case using Cons.prems(1) q linear_new_ok[OF Cons.prems(1) q(1)] by (simp add: items_end_def Let_def)
qed (simp add: items_end_def)

lemma group_segements_length [simp]: "length (group_segements p xs) = length xs"
  by (induction xs arbitrary: p) (simp_all add: Let_def)

section \<open>A cycle keeps to the path\<close>

definition traj_ok :: "axis_t \<Rightarrow> axis_t \<Rightarrow> trajectory \<Rightarrow> bool" where
  "traj_ok p q l \<longleftrightarrow> path p q (segements l) \<and> seg_index l < length (segements l)"

lemma traj_ok_curr:
  assumes "traj_ok p q l"
  obtains s e where "lin_ok s e (curr_segement l)" "is_axis s" "is_axis e" "s \<noteq> e"
    "path p s (take (seg_index l) (segements l))" "path e q (drop (Suc (seg_index l)) (segements l))"
  using path_nth[of p q "segements l" "seg_index l"] assms that by (simp add: traj_ok_def curr_segement_def) metis

lemma set_curr_sel [simp]:
  "seg_index (set_curr_segement t l) = seg_index l" "length (segements (set_curr_segement t l)) = length (segements l)"
  "seg_index l < length (segements l) \<Longrightarrow> curr_segement (set_curr_segement t l) = t"
  "at_end_segement (set_curr_segement t l) = at_end_segement l" "at_start_segement (set_curr_segement t l) = at_start_segement l"
  by (simp_all add: set_curr_segement_def curr_segement_def at_end_segement_def at_start_segement_def)

lemma set_curr_ok:
  assumes "traj_ok p q l" "\<And>s e. lin_ok s e (curr_segement l) \<Longrightarrow> is_axis s \<Longrightarrow> is_axis e \<Longrightarrow> s \<noteq> e \<Longrightarrow> lin_ok s e t"
  shows "traj_ok p q (set_curr_segement t l)"
  using assms path_update[of p q "segements l" "seg_index l" t]
  by (simp add: traj_ok_def set_curr_segement_def curr_segement_def)

lemma index_ok: "traj_ok p q l \<Longrightarrow> i < length (segements l) \<Longrightarrow> traj_ok p q (l\<lparr>seg_index := i\<rparr>)"
  by (simp add: traj_ok_def)

lemma run_curr_ok: "traj_ok p q l \<Longrightarrow> traj_ok p q (set_curr_segement (lin_run_once inc (curr_segement l)) l)"
  by (rule set_curr_ok) (simp_all add: lin_run_ok(1))

lemma traj_run_ok:
  assumes "traj_ok p q l"
  shows "traj_ok p q (traj_run_once inc l)" "length (segements (traj_run_once inc l)) = length (segements l)"
proof -
  define l1 where "l1 = set_curr_segement (lin_run_once inc (curr_segement l)) l"
  have l1: "traj_ok p q l1" "length (segements l1) = length (segements l)" "seg_index l1 = seg_index l"
    using run_curr_ok[OF assms] by (simp_all add: l1_def)
  have bnd: "seg_index l1 < length (segements l1)" using l1(1) by (simp add: traj_ok_def)
  have at_s: "traj_ok p q (set_curr_segement (lin_set_at_start (curr_segement (l1\<lparr>seg_index := i\<rparr>))) (l1\<lparr>seg_index := i\<rparr>))"
    "traj_ok p q (set_curr_segement (lin_set_at_end (curr_segement (l1\<lparr>seg_index := i\<rparr>))) (l1\<lparr>seg_index := i\<rparr>))"
    if "i < length (segements l1)" for i
    by (rule set_curr_ok[OF index_ok[OF l1(1) that]]; rule lin_set_ends_ok; assumption)+
  have "\<not> at_end_segement l1 \<Longrightarrow> seg_index l1 + 1 < length (segements l1)" using bnd by (auto simp: at_end_segement_def)
  then show "traj_ok p q (traj_run_once inc l)" "length (segements (traj_run_once inc l)) = length (segements l)"
    using l1(1,2) at_s[of "seg_index l1 + 1"] at_s[of "seg_index l1 - 1"] bnd
    by (auto simp: traj_run_once_def l1_def[symmetric] Let_def simp del: set_curr_sel(3))
qed

lemma traj_pos_axis: "traj_ok p q l \<Longrightarrow> is_axis (traj_cmd_axis l)"
  using lin_ok_axis by (auto elim!: traj_ok_curr simp: traj_cmd_axis_def)

lemma traj_end_pos: "traj_ok p q l \<Longrightarrow> traj_at_end l \<Longrightarrow> traj_cmd_axis l = q"
proof -
  assume a: "traj_ok p q l" "traj_at_end l"
  from a(1) obtain s e where c: "lin_ok s e (curr_segement l)" "is_axis s" "is_axis e" "s \<noteq> e"
    "path e q (drop (Suc (seg_index l)) (segements l))" by (rule traj_ok_curr)
  have "drop (Suc (seg_index l)) (segements l) = []" using a by (simp add: traj_at_end_def at_end_segement_def)
  then have "e = q" using c(5) by simp
  then show ?thesis using lin_end_pos(1)[OF c(1-4)] a(2) by (simp add: traj_cmd_axis_def traj_at_end_def)
qed

definition group_inv :: "axis_t \<Rightarrow> axis_t \<Rightarrow> group_task \<Rightarrow> bool" where
  "group_inv p q g \<longleftrightarrow> (case traj_list g of None \<Rightarrow> group_state g = GroupStopped
     | Some l \<Rightarrow> traj_ok p q l \<and> length (start_items g) = length (segements l))"

definition group_pos :: "group_task \<Rightarrow> axis_t option" where
  "group_pos g = map_option traj_cmd_axis (traj_list g)"

lemma group_new_inv:
  assumes "is_axis (global_cmd_axis sh)" "list_all item_ok xs"
  shows "group_inv (global_cmd_axis sh) (items_end (global_cmd_axis sh) xs) (group_new xs sh)"
    and "xs \<noteq> [] \<Longrightarrow> group_pos (group_new xs sh) = Some (global_cmd_axis sh)"
    and "group_state (group_new xs sh) = (if xs = [] then GroupStopped else GroupRunning)"
proof -
  let ?p = "global_cmd_axis sh"
  note gp = group_path[OF assms]
  have e: "group_segements ?p xs = [] \<longleftrightarrow> xs = []" by (cases xs) (simp_all add: Let_def)
  show "group_inv ?p (items_end ?p xs) (group_new xs sh)" "group_state (group_new xs sh) = (if xs = [] then GroupStopped else GroupRunning)"
    using gp e by (auto simp: group_inv_def group_new_def traj_new_def traj_ok_def Let_def)
  show "group_pos (group_new xs sh) = Some ?p" if "xs \<noteq> []"
    using that by (cases xs) (simp_all add: group_pos_def group_new_def traj_new_def traj_cmd_axis_def curr_segement_def linear_new_def Let_def)
qed

lemma group_calls_inv:
  assumes "group_inv p q g"
  shows "group_inv p q (snd (group_pause g))" "group_inv p q (snd (group_resume g))" "group_inv p q (snd (group_stop g))"
    "group_pos (snd (group_pause g)) = group_pos g" "group_pos (snd (group_resume g)) = group_pos g"
    "group_pos (snd (group_stop g)) = group_pos g"
  using assms by (cases "group_state g"; simp add: group_pause_def group_resume_def group_stop_def group_inv_def group_pos_def split: option.splits)+

lemma group_run_ok:
  assumes "group_inv p q g" "group_pos g \<noteq> None \<longrightarrow> group_pos g = Some (global_cmd_axis sh)"
  shows "\<exists>g' sh'. group_run_once T g sh = Inr (g', sh') \<and> group_inv p q g'
    \<and> (group_pos g' \<noteq> None \<longrightarrow> group_pos g' = Some (global_cmd_axis sh')) \<and> (group_pos g' = None \<longleftrightarrow> group_pos g = None)
    \<and> signals_arr sh' = signals_arr sh \<and> now_ms sh' = now_ms sh \<and> jump_setting sh' = jump_setting sh
    \<and> (group_pos g = None \<longrightarrow> global_cmd_axis sh' = global_cmd_axis sh)"
proof (cases "group_state g")
  case GroupRunning
  then obtain l where l: "traj_list g = Some l" "traj_ok p q l" "length (start_items g) = length (segements l)"
    using assms(1) by (auto simp: group_inv_def split: option.splits)
  have "seg_index l < length (segements l)" using l(2) by (simp add: traj_ok_def)
  then show ?thesis using GroupRunning l traj_run_ok[OF l(2)]
    by (simp add: group_run_once_def group_running_def group_inv_def group_pos_def set_cmd_axis_def Let_def)
qed (use assms in \<open>simp_all add: group_run_once_def group_inv_def group_pos_def split: option.splits\<close>)

end
