(* ===== verification/Motion_Tasks.thy ===== *)
theory Motion_Tasks
  imports Group_Move
begin

text \<open>
  The tasks of the motion thread: the rapid move, the delay and the pause of
  \<^verbatim>\<open>Src/Motion/MotionStateMachine/\<close>\<^verbatim>\<open>G00AutoTask.cpp\<close>, \<^verbatim>\<open>G04AutoTask.h\<close>, \<^verbatim>\<open>M00FakeAutoTask.h\<close>, and the abstract
  class \<^verbatim>\<open>AutoTask\<close> that these and the cutting moves implement. The drilling task is compiled for other
  machines only (\<^verbatim>\<open>config.h\<close>).
\<close>

section \<open>The rapid move\<close>

record g00_task =
  g00_handler :: point_move
  enable_touch_detect :: bool

definition g00_new :: "real \<Rightarrow> plan_vars \<Rightarrow> axis_t \<Rightarrow> speed_param \<Rightarrow> bool \<Rightarrow> shared \<Rightarrow> g00_task" where
  "g00_new T u target sp touch sh =
     \<lparr>g00_handler = snd (pm_start T u sp (global_cmd_axis sh) target pm_blank), enable_touch_detect = touch\<rparr>"

definition g00_run_once :: "real \<Rightarrow> plan_vars \<Rightarrow> g00_task \<Rightarrow> shared \<Rightarrow> (motion_fault, g00_task \<times> shared) result" where
  "g00_run_once T u g sh =
     (let sh1 = set_detect_enable (enable_touch_detect g) sh; (hit, sh2) = run_detect_once sh1
      in rbind (if hit then pm_stop T u True (g00_handler g) else Inr (True, g00_handler g)) (\<lambda>(b, h1).
           let h = pm_run_once h1; sh3 = set_cmd_axis (curr_pos h) sh2
           in Inr (g\<lparr>g00_handler := h\<rparr>,
                   if pm_is_over h \<or> pm_state h = MW_Paused then set_detect_enable False sh3 else sh3)))"

section \<open>The delay\<close>

datatype g04_state = NormalDelaying | DelayPaused | DelayStopped

record g04_task =
  g04_state :: g04_state
  curr_delayed_peroids :: nat
  target_delay_peroids :: nat

text \<open>\<open>std::round\<close> rounds halves away from zero; the conversion to an unsigned integer cuts off the fraction.\<close>

definition std_round :: "real \<Rightarrow> real" where
  "std_round x = (if x < 0 then - of_int \<lfloor>- x + 1 / 2\<rfloor> else of_int \<lfloor>x + 1 / 2\<rfloor>)"

definition periods :: "real \<Rightarrow> real \<Rightarrow> real" where
  "periods T ms = ms * (1 / (T * 1000))"

definition g04_new :: "real \<Rightarrow> real \<Rightarrow> g04_task" where
  "g04_new T delay_s =
     (let n = nat \<lfloor>periods T (std_round (delay_s * 1000))\<rfloor>
      in \<lparr>g04_state = NormalDelaying, curr_delayed_peroids = 0, target_delay_peroids = if n < 1 then 1 else n\<rparr>)"

definition g04_pause :: "g04_task \<Rightarrow> bool \<times> g04_task" where
  "g04_pause g = (case g04_state g of
     DelayStopped \<Rightarrow> (False, g) | DelayPaused \<Rightarrow> (True, g) | NormalDelaying \<Rightarrow> (True, g\<lparr>g04_state := DelayPaused\<rparr>))"

definition g04_resume :: "g04_task \<Rightarrow> bool \<times> g04_task" where
  "g04_resume g = (case g04_state g of
     DelayPaused \<Rightarrow> (True, g\<lparr>g04_state := NormalDelaying\<rparr>) | _ \<Rightarrow> (False, g))"

definition g04_stop :: "g04_task \<Rightarrow> bool \<times> g04_task" where
  "g04_stop g = (True, g\<lparr>g04_state := DelayStopped\<rparr>)"

definition g04_run_once :: "g04_task \<Rightarrow> g04_task" where
  "g04_run_once g = (case g04_state g of
     NormalDelaying \<Rightarrow>
       let n = curr_delayed_peroids g + 1; g' = g\<lparr>curr_delayed_peroids := n\<rparr>
       in if n \<ge> target_delay_peroids g then g'\<lparr>g04_state := DelayStopped\<rparr> else g'
   | _ \<Rightarrow> g)"

section \<open>The pause\<close>

datatype m00_state = M00Paused | M00Stopped

definition m00_pause :: "m00_state \<Rightarrow> bool \<times> m00_state" where
  "m00_pause m = (case m of M00Stopped \<Rightarrow> (False, m) | M00Paused \<Rightarrow> (True, m))"

definition m00_resume :: "m00_state \<Rightarrow> bool \<times> m00_state" where
  "m00_resume m = (case m of M00Stopped \<Rightarrow> (False, m) | M00Paused \<Rightarrow> (True, M00Stopped))"

definition m00_stop :: "m00_state \<Rightarrow> bool \<times> m00_state" where
  "m00_stop m = (True, M00Stopped)"

section \<open>Tasks\<close>

text \<open>The classes that implement \<open>AutoTask\<close>, and its virtual functions.\<close>

datatype auto_task = G00AutoTask g00_task | G01AutoTask g01_task | G01GroupAutoTask group_task
  | G04AutoTask g04_task | M00FakeAutoTask m00_state

fun task_pause :: "real \<Rightarrow> plan_vars \<Rightarrow> auto_task \<Rightarrow> (motion_fault, bool \<times> auto_task) result" where
  "task_pause T u (G00AutoTask g) =
     rbind (pm_pause T u (g00_handler g)) (\<lambda>(b, h). Inr (b, G00AutoTask (g\<lparr>g00_handler := h\<rparr>)))"
| "task_pause T u (G01AutoTask g) = Inr (map_prod id G01AutoTask (g01_pause g))"
| "task_pause T u (G01GroupAutoTask g) = Inr (map_prod id G01GroupAutoTask (group_pause g))"
| "task_pause T u (G04AutoTask g) = Inr (map_prod id G04AutoTask (g04_pause g))"
| "task_pause T u (M00FakeAutoTask m) = Inr (map_prod id M00FakeAutoTask (m00_pause m))"

fun task_resume :: "real \<Rightarrow> plan_vars \<Rightarrow> auto_task \<Rightarrow> bool \<times> auto_task" where
  "task_resume T u (G00AutoTask g) =
     (case pm_resume T u (g00_handler g) of (b, h) \<Rightarrow> (b, G00AutoTask (g\<lparr>g00_handler := h\<rparr>)))"
| "task_resume T u (G01AutoTask g) = map_prod id G01AutoTask (g01_resume g)"
| "task_resume T u (G01GroupAutoTask g) = map_prod id G01GroupAutoTask (group_resume g)"
| "task_resume T u (G04AutoTask g) = map_prod id G04AutoTask (g04_resume g)"
| "task_resume T u (M00FakeAutoTask m) = map_prod id M00FakeAutoTask (m00_resume m)"

fun task_stop :: "real \<Rightarrow> plan_vars \<Rightarrow> bool \<Rightarrow> auto_task \<Rightarrow> (motion_fault, bool \<times> auto_task) result" where
  "task_stop T u imm (G00AutoTask g) =
     rbind (pm_stop T u imm (g00_handler g)) (\<lambda>(b, h). Inr (b, G00AutoTask (g\<lparr>g00_handler := h\<rparr>)))"
| "task_stop T u imm (G01AutoTask g) = Inr (map_prod id G01AutoTask (g01_stop g))"
| "task_stop T u imm (G01GroupAutoTask g) = Inr (map_prod id G01GroupAutoTask (group_stop g))"
| "task_stop T u imm (G04AutoTask g) = Inr (map_prod id G04AutoTask (g04_stop g))"
| "task_stop T u imm (M00FakeAutoTask m) = Inr (map_prod id M00FakeAutoTask (m00_stop m))"

fun task_run_once :: "real \<Rightarrow> plan_vars \<Rightarrow> auto_task \<Rightarrow> shared \<Rightarrow> (motion_fault, auto_task \<times> shared) result" where
  "task_run_once T u (G00AutoTask g) sh =
     rbind (g00_run_once T u g sh) (\<lambda>(g', sh'). Inr (G00AutoTask g', sh'))"
| "task_run_once T u (G01AutoTask g) sh =
     rbind (g01_run_once T u g sh) (\<lambda>(g', sh'). Inr (G01AutoTask g', sh'))"
| "task_run_once T u (G01GroupAutoTask g) sh =
     rbind (group_run_once T g sh) (\<lambda>(g', sh'). Inr (G01GroupAutoTask g', sh'))"
| "task_run_once T u (G04AutoTask g) sh = Inr (G04AutoTask (g04_run_once g), sh)"
| "task_run_once T u (M00FakeAutoTask m) sh = Inr (M00FakeAutoTask m, sh)"

fun task_normal_running :: "auto_task \<Rightarrow> bool" where
  "task_normal_running (G00AutoTask g) \<longleftrightarrow> pm_state (g00_handler g) = MW_Running"
| "task_normal_running (G01AutoTask g) \<longleftrightarrow> g01_state g = G01Running"
| "task_normal_running (G01GroupAutoTask g) \<longleftrightarrow> group_state g = GroupRunning"
| "task_normal_running (G04AutoTask g) \<longleftrightarrow> g04_state g = NormalDelaying"
| "task_normal_running (M00FakeAutoTask m) \<longleftrightarrow> False"

fun task_pausing :: "auto_task \<Rightarrow> bool" where
  "task_pausing (G00AutoTask g) \<longleftrightarrow> pm_state (g00_handler g) = MW_Pausing"
| "task_pausing (G01AutoTask g) \<longleftrightarrow> g01_state g = G01Pausing"
| "task_pausing (G01GroupAutoTask g) \<longleftrightarrow> group_state g = GroupPausing"
| "task_pausing _ \<longleftrightarrow> False"

fun task_paused :: "auto_task \<Rightarrow> bool" where
  "task_paused (G00AutoTask g) \<longleftrightarrow> pm_state (g00_handler g) = MW_Paused"
| "task_paused (G01AutoTask g) \<longleftrightarrow> g01_state g = G01Paused"
| "task_paused (G01GroupAutoTask g) \<longleftrightarrow> group_state g = GroupPaused"
| "task_paused (G04AutoTask g) \<longleftrightarrow> g04_state g = DelayPaused"
| "task_paused (M00FakeAutoTask m) \<longleftrightarrow> m = M00Paused"

fun task_resuming :: "auto_task \<Rightarrow> bool" where
  "task_resuming (G00AutoTask g) \<longleftrightarrow> pm_state (g00_handler g) = MW_Running"
| "task_resuming (G01AutoTask g) \<longleftrightarrow> g01_state g = G01Resuming"
| "task_resuming (G01GroupAutoTask g) \<longleftrightarrow> group_state g = GroupResuming"
| "task_resuming _ \<longleftrightarrow> False"

fun task_stopping :: "auto_task \<Rightarrow> bool" where
  "task_stopping (G00AutoTask g) \<longleftrightarrow> pm_state (g00_handler g) = MW_Stopping"
| "task_stopping (G01AutoTask g) \<longleftrightarrow> g01_state g = G01Stopping"
| "task_stopping (G01GroupAutoTask g) \<longleftrightarrow> group_state g = GroupStopping"
| "task_stopping _ \<longleftrightarrow> False"

fun task_stopped :: "auto_task \<Rightarrow> bool" where
  "task_stopped (G00AutoTask g) \<longleftrightarrow> pm_is_over (g00_handler g)"
| "task_stopped (G01AutoTask g) \<longleftrightarrow> g01_state g = G01Stopped"
| "task_stopped (G01GroupAutoTask g) \<longleftrightarrow> group_state g = GroupStopped"
| "task_stopped (G04AutoTask g) \<longleftrightarrow> g04_state g = DelayStopped"
| "task_stopped (M00FakeAutoTask m) \<longleftrightarrow> m = M00Stopped"

end
