(* ===== verification/Cutting_Correct.thy ===== *)
theory Cutting_Correct
  imports Cutting_Move
begin

text \<open>
  The invariant of a cutting move: it is on its line, in a jump between the point it was lifted
  from and a height that keeps 100 um to the soft limit, and after the jump back on the segment
  where the handler of the jump left it. No cycle fails an assertion as long as the system clock
  does not go back.
\<close>

section \<open>Points of a line\<close>

lemma at_length_inj:
  assumes "is_axis s" "is_axis e" "s \<noteq> e"
  shows "at_length s e x = at_length s e y \<longleftrightarrow> x = y"
proof
  assume eq: "at_length s e x = at_length s e y"
  obtain i where i: "i < 6" "s ! i \<noteq> e ! i" using assms axis_ext by metis
  then have "CalcAxisUnitVector s e ! i \<noteq> 0" using unit_vector_sign(3)[OF assms] by auto
  then show "x = y" using arg_cong[OF eq, of "\<lambda>a. a ! i"] at_length_nth[OF assms(1,2) i(1)] by simp
qed simp

lemma at_length_shift:
  assumes "is_axis s" "is_axis e"
  shows "map2 (\<lambda>p d. p - d * k) (at_length s e x) (CalcAxisUnitVector s e) = at_length s e (x - k)"
    and "map2 (\<lambda>p d. p + d * k) (at_length s e x) (CalcAxisUnitVector s e) = at_length s e (x + k)"
proof -
  have l: "length (at_length s e y) = 6" "length (CalcAxisUnitVector s e) = 6" for y
    using at_length_axis[OF assms] unit_vector_axis[OF assms] by (simp_all add: is_axis_def EDM_AXIS_NUM_def)
  show "map2 (\<lambda>p d. p - d * k) (at_length s e x) (CalcAxisUnitVector s e) = at_length s e (x - k)"
    "map2 (\<lambda>p d. p + d * k) (at_length s e x) (CalcAxisUnitVector s e) = at_length s e (x + k)"
    by (rule nth_equalityI; simp add: l at_length_nth[OF assms] algebra_simps)+
qed

section \<open>The invariant\<close>

text \<open>The setting of the jumps as \<open>PowerManager::set_current_eleparam\<close> makes it.\<close>

definition jump_ok :: "jump_param \<Rightarrow> bool" where
  "jump_ok jp \<longleftrightarrow> speed_ok (jump_speed jp) \<and> 0 \<le> buffer_blu jp \<and> 0 \<le> dn_ms jp"

text \<open>A jump from the length \<open>b\<close>, with \<open>h\<close> the free way behind the start of the segment.\<close>

definition jump_fits :: "real \<Rightarrow> real \<Rightarrow> jump_param \<Rightarrow> bool" where
  "jump_fits h b jp \<longleftrightarrow> buffer_blu jp \<le> b \<and> buffer_blu jp + um2blu 10 \<le> up_blu jp \<and> up_blu jp \<le> b + h - um2blu 100"

definition flying :: "axis_t \<Rightarrow> axis_t \<Rightarrow> point_move \<Rightarrow> bool" where
  "flying p q m \<longleftrightarrow> on_course p q m \<and> pm_state m = MW_Running"

definition jump_part :: "axis_t \<Rightarrow> axis_t \<Rightarrow> real \<Rightarrow> g01_task \<Rightarrow> bool" where
  "jump_part s e h g \<longleftrightarrow>
     (let b = servoing_length_before_jump g; jp = jumping_param g; l = lin_length (line_traj g); m = jump_pm_handler g
      in case servo_sub_state g of
           Servoing \<Rightarrow> True
         | JumpUping \<Rightarrow> l = b \<and> jump_fits h b jp \<and> jump_up_target_pos g = at_length s e (b - up_blu jp)
             \<and> flying (at_length s e b) (at_length s e (b - up_blu jp)) m
         | JumpDowning \<Rightarrow> l = b \<and> jump_fits h b jp
             \<and> flying (at_length s e (b - up_blu jp)) (at_length s e (b - buffer_blu jp)) m
         | JumpDowningBuffer \<Rightarrow> b \<le> lin_total (line_traj g) \<and> b - buffer_blu jp \<le> l \<and> l \<le> b)"

definition segment_line :: "axis_t \<Rightarrow> axis_t \<Rightarrow> bool" where
  "segment_line s e \<longleftrightarrow> is_axis s \<and> is_axis e \<and> s \<noteq> e"

definition cut_inv :: "axis_t \<Rightarrow> axis_t \<Rightarrow> real \<Rightarrow> g01_task \<Rightarrow> bool" where
  "cut_inv s e h g \<longleftrightarrow> segment_line s e \<and> lin_ok s e (line_traj g) \<and> max_jump_height_from_begin g = h
     \<and> jump_ok (jumping_param g) \<and> jump_part s e h g
     \<and> (g01_state g \<in> {G01Paused, G01Resuming} \<or> g01_state g \<in> {G01Pausing, G01Stopping} \<and> pause_or_stop_sub_state g = BackingToBegin
        \<longrightarrow> servo_sub_state g = Servoing)"

text \<open>Where the task has the axes: on the jump's move, or on the segment.\<close>

definition g01_pos :: "g01_task \<Rightarrow> axis_t" where
  "g01_pos g = (if servo_sub_state g \<in> {JumpUping, JumpDowning} then curr_pos (jump_pm_handler g) else lin_pos (line_traj g))"

text \<open>What a cycle leaves as it was of the shared objects, and what it gives.\<close>

definition keeps :: "shared \<Rightarrow> shared \<Rightarrow> bool" where
  "keeps sh sh' \<longleftrightarrow> signals_arr sh' = signals_arr sh \<and> now_ms sh' = now_ms sh \<and> jump_setting sh' = jump_setting sh
     \<and> warning sh' = warning sh \<and> touch_physical sh' = touch_physical sh"

definition cut_goes :: "axis_t \<Rightarrow> axis_t \<Rightarrow> real \<Rightarrow> shared \<Rightarrow> g01_step \<Rightarrow> bool" where
  "cut_goes s e h sh r \<longleftrightarrow> (\<exists>g' sh'. r = Inr (g', sh') \<and> cut_inv s e h g' \<and> global_cmd_axis sh' = g01_pos g'
     \<and> last_jump_end_time_ms g' \<le> now_ms sh \<and> keeps sh sh')"

lemma keeps_simps [simp]:
  "keeps sh sh" "keeps sh (set_cmd_axis a sh') = keeps sh sh'" "keeps sh (call_io c sh') = keeps sh sh'"
  "keeps sh (sh'\<lparr>io_calls := cs\<rparr>) = keeps sh sh'" "keeps sh (sh'\<lparr>global_cmd_axis := a\<rparr>) = keeps sh sh'"
  by (simp_all add: keeps_def set_cmd_axis_def call_io_def)

lemma cut_goesI:
  "cut_inv s e h g' \<Longrightarrow> global_cmd_axis sh' = g01_pos g' \<Longrightarrow> last_jump_end_time_ms g' \<le> now_ms sh \<Longrightarrow> keeps sh sh'
    \<Longrightarrow> cut_goes s e h sh (Inr (g', sh'))"
  by (simp add: cut_goes_def)

lemma flying_start:
  assumes "is_axis p" "is_axis q" "p \<noteq> q" "speed_ok sp" "0 < T"
  shows "flying p q (snd (pm_start T u sp p q m))" "fst (pm_start T u sp p q m)"
    "curr_pos (snd (pm_start T u sp p q m)) = p"
  using pm_start_on_course[OF assms] pm_start_inv[OF assms] by (simp_all add: flying_def pm_start_def Let_def split: prod.splits)

lemma flying_run:
  assumes "flying p q m" "is_axis p" "is_axis q" "p \<noteq> q"
  shows "flying p q (pm_run_once m) \<or> pm_is_over (pm_run_once m) \<and> curr_pos (pm_run_once m) = q"
    and "flying p q (pm_run_once m) \<longleftrightarrow> \<not> pm_is_over (pm_run_once m)"
proof -
  let ?m = "pm_run_once m"
  have c: "on_course p q ?m" using assms(1) on_course_run by (simp add: flying_def)
  have "pm_state ?m = MW_Running \<or> pm_state ?m = MW_Stopped"
    using run_state[of p q m MW_Running] assms(1) by (auto simp: flying_def mw_rest_def)
  moreover have "pm_is_over ?m \<longleftrightarrow> pm_state ?m = MW_Stopped \<or> pm_state ?m = MW_NotStarted"
    by (simp add: pm_is_over_def mw_is_stopped_def pm_state_def)
  ultimately show "flying p q ?m \<or> pm_is_over ?m \<and> curr_pos ?m = q" "flying p q ?m \<longleftrightarrow> \<not> pm_is_over ?m"
    using c on_course_stopped[OF c assms(2-4)] by (auto simp: flying_def)
qed

lemma jump_move_eq:
  "\<exists>n cs. jump_move gate g sh = (g\<lparr>jump_pm_handler := pm_run_once (jump_pm_handler g), last_send_gate_ns := n\<rparr>,
     (set_cmd_axis (curr_pos (pm_run_once (jump_pm_handler g))) sh)\<lparr>io_calls := cs\<rparr>)"
proof (cases "(now_ns sh - last_send_gate_ns g) div 1000000 > 200")
  case True
  then show ?thesis
    by (intro exI[of _ "now_ns sh"] exI[of _ "EnableVoltageGate gate # io_calls sh"])
      (simp add: jump_move_def resend_gate_def send_gate_def call_io_def set_cmd_axis_def Let_def)
next
  case False
  then show ?thesis
    by (intro exI[of _ "last_send_gate_ns g"] exI[of _ "io_calls sh"])
      (simp add: jump_move_def resend_gate_def set_cmd_axis_def Let_def)
qed

section \<open>A cycle of a jump\<close>

lemma cut_line:
  assumes "cut_inv s e h g"
  shows "is_axis s" "is_axis e" "s \<noteq> e" "lin_ok s e (line_traj g)" "lin_unit (line_traj g) = CalcAxisUnitVector s e"
    "lin_pos (line_traj g) = at_length s e (lin_length (line_traj g))" "jump_ok (jumping_param g)"
  using assms by (simp_all add: cut_inv_def segment_line_def lin_ok_def)

lemma line_axis: "cut_inv s e h g \<Longrightarrow> is_axis (at_length s e x)"
  using at_length_axis cut_line(1,2) by blast

lemma line_apart: "cut_inv s e h g \<Longrightarrow> x \<noteq> y \<Longrightarrow> at_length s e x \<noteq> at_length s e y"
  using at_length_inj cut_line(1-3) by blast

lemma jump_fits_apart: "jump_fits h b jp \<Longrightarrow> 0 < up_blu jp - buffer_blu jp"
  by (simp add: jump_fits_def um2blu_def EDM_BLU_PER_UM_def)

lemma jumpuping_goes:
  assumes "cut_inv s e h g" "servo_sub_state g = JumpUping" "0 < T" "last_jump_end_time_ms g \<le> now_ms sh"
  shows "cut_goes s e h sh (servo_jumpuping T u g sh)"
proof -
  let ?jp = "jumping_param g" and ?b = "servoing_length_before_jump g" and ?m = "pm_run_once (jump_pm_handler g)"
  obtain n cs where jm: "jump_move False g sh = (g\<lparr>jump_pm_handler := ?m, last_send_gate_ns := n\<rparr>,
     (set_cmd_axis (curr_pos ?m) sh)\<lparr>io_calls := cs\<rparr>)" using jump_move_eq by blast
  have j: "lin_length (line_traj g) = ?b" "jump_fits h ?b ?jp" "jump_up_target_pos g = at_length s e (?b - up_blu ?jp)"
    "flying (at_length s e ?b) (at_length s e (?b - up_blu ?jp)) (jump_pm_handler g)"
    using assms(1,2) by (simp_all add: cut_inv_def jump_part_def Let_def)
  have up: "?b \<noteq> ?b - up_blu ?jp" "0 < up_blu ?jp - buffer_blu ?jp" "0 \<le> buffer_blu ?jp"
    using jump_fits_apart[OF j(2)] cut_line(7)[OF assms(1)] by (simp_all add: jump_ok_def)
  note r = flying_run[OF j(4) line_axis[OF assms(1)] line_axis[OF assms(1)] line_apart[OF assms(1) up(1)]]
  show ?thesis
  proof (cases "pm_is_over ?m")
    case False
    then have "cut_inv s e h (g\<lparr>jump_pm_handler := ?m, last_send_gate_ns := n\<rparr>)"
      using assms(1,2) r(2) by (simp add: cut_inv_def jump_part_def Let_def)
    then show ?thesis unfolding servo_jumpuping_def jm using assms(2,4) False
      by (simp add: Let_def) (rule cut_goesI, simp_all add: g01_pos_def set_cmd_axis_def)
  next
    case True
    let ?p = "at_length s e (?b - up_blu ?jp)" and ?q = "at_length s e (?b - buffer_blu ?jp)"
    have at_top: "curr_pos ?m = ?p" using r True by blast
    have q: "map2 (\<lambda>p d. p + d * (up_blu ?jp - buffer_blu ?jp)) ?p (CalcAxisUnitVector s e) = ?q"
      using at_length_shift(2)[OF cut_line(1,2)[OF assms(1)]] by simp
    have ne: "?p \<noteq> ?q" using line_apart[OF assms(1)] up(2) by simp
    have sp: "speed_ok (jump_speed ?jp)" using cut_line(7)[OF assms(1)] by (simp add: jump_ok_def)
    note fl = flying_start[OF line_axis[OF assms(1)] line_axis[OF assms(1)] ne sp assms(3), of u ?m]
    let ?g = "g\<lparr>jump_pm_handler := snd (pm_start T u (jump_speed ?jp) ?p ?q ?m), last_send_gate_ns := now_ns sh, servo_sub_state := JumpDowning\<rparr>"
    have "cut_inv s e h ?g" using assms(1,2) j fl(1) by (simp add: cut_inv_def jump_part_def Let_def)
    moreover have "servo_jumpuping T u g sh = Inr (?g, call_io (EnableVoltageGate True) ((set_cmd_axis (curr_pos ?m) sh)\<lparr>io_calls := cs\<rparr>))"
      unfolding servo_jumpuping_def jm using True up(2) q j(3) cut_line(5)[OF assms(1)]
      by (simp add: send_gate_def Let_def set_cmd_axis_def)
    ultimately show ?thesis using assms(4) fl(3) at_top
      by (simp only:) (rule cut_goesI, simp_all add: g01_pos_def set_cmd_axis_def call_io_def keeps_def)
  qed
qed

lemma jumpdowning_goes:
  assumes "cut_inv s e h g" "servo_sub_state g = JumpDowning" "last_jump_end_time_ms g \<le> now_ms sh"
  shows "cut_goes s e h sh (servo_jumpdowning g sh)"
proof -
  let ?jp = "jumping_param g" and ?b = "servoing_length_before_jump g" and ?m = "pm_run_once (jump_pm_handler g)"
  obtain n cs where jm: "jump_move True g sh = (g\<lparr>jump_pm_handler := ?m, last_send_gate_ns := n\<rparr>,
     (set_cmd_axis (curr_pos ?m) sh)\<lparr>io_calls := cs\<rparr>)" using jump_move_eq by blast
  have j: "lin_length (line_traj g) = ?b" "jump_fits h ?b ?jp"
    "flying (at_length s e (?b - up_blu ?jp)) (at_length s e (?b - buffer_blu ?jp)) (jump_pm_handler g)"
    using assms(1,2) by (simp_all add: cut_inv_def jump_part_def Let_def)
  have up: "?b - up_blu ?jp \<noteq> ?b - buffer_blu ?jp" "0 \<le> buffer_blu ?jp"
    using jump_fits_apart[OF j(2)] cut_line(7)[OF assms(1)] by (simp_all add: jump_ok_def)
  note r = flying_run[OF j(3) line_axis[OF assms(1)] line_axis[OF assms(1)] line_apart[OF assms(1) up(1)]]
  show ?thesis
  proof (cases "pm_is_over ?m")
    case False
    then have "cut_inv s e h (g\<lparr>jump_pm_handler := ?m, last_send_gate_ns := n\<rparr>)"
      using assms(1,2) r(2) by (simp add: cut_inv_def jump_part_def Let_def)
    then show ?thesis unfolding servo_jumpdowning_def jm using assms(2,3) False
      by (simp add: Let_def) (rule cut_goesI, simp_all add: g01_pos_def set_cmd_axis_def)
  next
    case True
    let ?l = "?b - buffer_blu ?jp" and ?t = "lin_set_length (?b - buffer_blu ?jp) (line_traj g)"
    note lo = cut_line(4)[OF assms(1)]
    have "clip (lin_total (line_traj g)) ?l = ?l" using lo j(1,2) up(2) by (simp add: clip_def lin_ok_def jump_fits_def)
    then have t: "lin_ok s e ?t" "lin_length ?t = ?l" "lin_total ?t = lin_total (line_traj g)"
      using lin_set_length_ok[OF lo] by simp_all
    let ?g = "g\<lparr>jump_pm_handler := ?m, last_send_gate_ns := n, line_traj := ?t, servo_sub_state := JumpDowningBuffer\<rparr>"
    have i: "cut_inv s e h ?g" using assms(1,2) t up(2) j(1) lo by (simp add: cut_inv_def jump_part_def Let_def lin_ok_def)
    have "curr_pos ?m = lin_pos ?t" using r True t by (auto simp: lin_ok_def)
    then show ?thesis unfolding servo_jumpdowning_def jm using assms(3) True i
      by (simp add: Let_def) (rule cut_goesI, simp_all add: g01_pos_def set_cmd_axis_def)
  qed
qed

text \<open>The last bit of the way down with the servo ends where the jump began, or where the gap is short.\<close>

lemma buffer_goes:
  assumes "cut_inv s e h g" "servo_sub_state g = JumpDowningBuffer" "last_jump_end_time_ms g \<le> now_ms sh"
    "global_cmd_axis sh = g01_pos g"
  shows "cut_goes s e h sh (servo_buffer T g sh)"
proof -
  let ?b = "servoing_length_before_jump g" and ?l = "lin_length (line_traj g)" and ?c = "get_servo_cmd T sh"
  define over where "over = (?c \<ge> ?b - ?l \<or> ?b - ?l \<le> 0)"
  let ?i = "if over then ?b - ?l else ?c"
  let ?t = "lin_run_once ?i (line_traj g)"
  note lo = cut_line(4)[OF assms(1)]
  have j: "?b \<le> lin_total (line_traj g)" "?b - buffer_blu (jumping_param g) \<le> ?l" "?l \<le> ?b"
    using assms(1,2) by (simp_all add: cut_inv_def jump_part_def Let_def)
  show ?thesis
  proof (cases "?c > 0")
    case False
    have "cut_inv s e h (g\<lparr>last_jump_end_time_ms := now_ms sh, servo_sub_state := Servoing\<rparr>)"
      using assms(1) by (simp add: cut_inv_def jump_part_def Let_def)
    then show ?thesis unfolding servo_buffer_def using False assms(2,4)
      by (simp add: Let_def) (rule cut_goesI, simp_all add: g01_pos_def)
  next
    case True
    have in_seg: "?l + ?i \<le> ?b" "?l \<le> ?l + ?i" using True j by (auto simp: over_def)
    then have "clip (lin_total (line_traj g)) (?l + ?i) = ?l + ?i" using lo j(1) by (simp add: clip_def lin_ok_def)
    then have t: "lin_ok s e ?t" "lin_length ?t = ?l + ?i" "lin_total ?t = lin_total (line_traj g)"
      using lin_run_ok[OF lo] by simp_all
    define g' where "g' = (if over then g\<lparr>line_traj := ?t, last_jump_end_time_ms := now_ms sh, servo_sub_state := Servoing\<rparr> else g\<lparr>line_traj := ?t\<rparr>)"
    have i: "cut_inv s e h g'"
      using assms(1,2) t j in_seg by (cases over) (simp_all add: g'_def cut_inv_def jump_part_def Let_def)
    have "servo_buffer T g sh = Inr (g', set_cmd_axis (lin_pos ?t) sh)"
      using True by (simp add: servo_buffer_def g'_def over_def Let_def)
    moreover have "g01_pos g' = lin_pos ?t" "last_jump_end_time_ms g' \<le> now_ms sh"
      using assms(2,3) by (simp_all add: g'_def g01_pos_def)
    ultimately show ?thesis using cut_goesI[OF i, of "set_cmd_axis (lin_pos ?t) sh" sh] by (simp add: set_cmd_axis_def)
  qed
qed

section \<open>A cycle with the servo\<close>

lemma check_jump_height_ok:
  assumes "jump_ok (jumping_param g)" "0 \<le> lin_length (line_traj g)" "check_jump_height g = (b, jp)"
  shows "jump_ok jp" "b \<Longrightarrow> jump_fits (max_jump_height_from_begin g) (lin_length (line_traj g)) jp"
  using assms by (auto simp: check_jump_height_def jump_ok_def jump_fits_def Let_def split: if_splits)

text \<open>A planned jump goes up from the segment to a point on its line.\<close>

lemma plan_jump_up_ok:
  assumes "cut_inv s e h g" "servo_sub_state g = Servoing" "0 < T"
  shows "cut_inv s e h (snd (plan_jump_up T u g))" "servo_sub_state (snd (plan_jump_up T u g)) = Servoing"
    "line_traj (snd (plan_jump_up T u g)) = line_traj g" "last_jump_end_time_ms (snd (plan_jump_up T u g)) = last_jump_end_time_ms g"
    "fst (plan_jump_up T u g) \<and> g01_state g = G01Running \<Longrightarrow> cut_inv s e h ((snd (plan_jump_up T u g))\<lparr>servo_sub_state := JumpUping\<rparr>)
      \<and> curr_pos (jump_pm_handler (snd (plan_jump_up T u g))) = lin_pos (line_traj g)"
    "g01_state (snd (plan_jump_up T u g)) = g01_state g"
proof -
  let ?b = "lin_length (line_traj g)" and ?r = "plan_jump_up T u g"
  obtain b jp where c: "check_jump_height g = (b, jp)" by (cases "check_jump_height g")
  have l: "0 \<le> ?b" "lin_pos (line_traj g) = at_length s e ?b" "lin_unit (line_traj g) = CalcAxisUnitVector s e"
    "max_jump_height_from_begin g = h" using assms(1) by (simp_all add: cut_inv_def lin_ok_def)
  have jp: "jump_ok jp" "b \<Longrightarrow> jump_fits h ?b jp" using check_jump_height_ok[OF cut_line(7)[OF assms(1)] l(1) c] l(4) by simp_all
  let ?q = "at_length s e (?b - up_blu jp)"
  let ?s = "pm_start T u (jump_speed jp) (at_length s e ?b) ?q (jump_pm_handler g)"
  have r: "?r = (if b then (fst ?s, g\<lparr>servoing_length_before_jump := ?b, jumping_param := jp, jump_up_target_pos := ?q, jump_pm_handler := snd ?s\<rparr>)
      else (False, g\<lparr>servoing_length_before_jump := ?b, jumping_param := jp\<rparr>))"
    using at_length_shift(1)[OF cut_line(1,2)[OF assms(1)]] l(2,3)
    by (simp add: plan_jump_up_def c Let_def case_prod_beta)
  show "cut_inv s e h (snd ?r)" "servo_sub_state (snd ?r) = Servoing" "line_traj (snd ?r) = line_traj g"
    "last_jump_end_time_ms (snd ?r) = last_jump_end_time_ms g" "g01_state (snd ?r) = g01_state g"
    using assms(1,2) jp(1) by (simp_all add: r cut_inv_def jump_part_def Let_def)
  assume a: "fst ?r \<and> g01_state g = G01Running"
  then have b: "b" by (simp add: r split: if_splits)
  have up: "?b \<noteq> ?b - up_blu jp" using jump_fits_apart[OF jp(2)[OF b]] jp(1) by (simp add: jump_ok_def)
  have sp: "speed_ok (jump_speed jp)" using jp(1) by (simp add: jump_ok_def)
  note fl = flying_start[OF line_axis[OF assms(1)] line_axis[OF assms(1)] line_apart[OF assms(1) up] sp assms(3), of u "jump_pm_handler g"]
  show "cut_inv s e h ((snd ?r)\<lparr>servo_sub_state := JumpUping\<rparr>) \<and> curr_pos (jump_pm_handler (snd ?r)) = lin_pos (line_traj g)"
    using assms(1) jp b fl(1,3) l(2) a by (simp add: r cut_inv_def jump_part_def Let_def)
qed

lemma do_servothings_ok:
  assumes "cut_inv s e h g" "servo_sub_state g = Servoing" "do_servothings T g sh = (ends, g', sh')"
  shows "cut_inv s e h g'" "servo_sub_state g' = Servoing" "global_cmd_axis sh' = g01_pos g'" "keeps sh sh'"
    "last_jump_end_time_ms g' = last_jump_end_time_ms g" "ends \<Longrightarrow> lin_pos (line_traj g') = e"
    "cut_inv s e h (g'\<lparr>g01_state := G01Stopping\<rparr>)"
proof -
  note lo = cut_line(4)[OF assms(1)]
  define t where "t = (if 0 < get_servo_cmd T sh \<or> get_servo_cmd T sh < 0 then lin_run_once (get_servo_cmd T sh) (line_traj g) else line_traj g)"
  have t: "lin_ok s e t" using lo lin_run_ok(1)[OF lo] by (simp add: t_def)
  have "do_servothings T g sh = (0 < get_servo_cmd T sh \<and> lin_at_end t,
      g\<lparr>sc_servo_go := push_back (0 < get_servo_cmd T sh) (sc_servo_go g), line_traj := t\<rparr>, set_cmd_axis (lin_pos t) sh)"
    by (simp add: do_servothings_def t_def Let_def)
  then have g': "g' = g\<lparr>sc_servo_go := push_back (0 < get_servo_cmd T sh) (sc_servo_go g), line_traj := t\<rparr>"
    "sh' = set_cmd_axis (lin_pos t) sh" "ends \<longleftrightarrow> 0 < get_servo_cmd T sh \<and> lin_at_end t" using assms(3) by simp_all
  show "cut_inv s e h g'" "servo_sub_state g' = Servoing" "global_cmd_axis sh' = g01_pos g'" "keeps sh sh'"
    "last_jump_end_time_ms g' = last_jump_end_time_ms g" "cut_inv s e h (g'\<lparr>g01_state := G01Stopping\<rparr>)"
    using assms(1,2) t by (simp_all add: g' cut_inv_def jump_part_def g01_pos_def set_cmd_axis_def Let_def)
  show "lin_pos (line_traj g') = e" if ends using that t lin_end_pos(1)[OF t cut_line(1-3)[OF assms(1)]] by (simp add: g')
qed

lemma check_plan_eq:
  fixes g sh
  defines "g1 \<equiv> g\<lparr>jumping_param := jump_setting sh\<rparr>"
  defines "g2 \<equiv> g1\<lparr>last_jump_end_time_ms := now_ms sh\<rparr>"
  assumes "last_jump_end_time_ms g \<le> now_ms sh"
  shows "check_and_plan_jump T u g sh =
     (if now_ms sh - last_jump_end_time_ms g \<le> dn_ms (jump_setting sh) then Inr (False, g1, sh)
      else if up_blu (jump_setting sh) < um2blu 10 \<or> valid_rate_threshold \<le> valid_rate (sc_servo_go g) then Inr (False, g2, sh)
      else Inr (if fst (plan_jump_up T u g2)
         then (True, send_gate False ((snd (plan_jump_up T u g2))\<lparr>servo_sub_state := JumpUping\<rparr>) sh)
         else (False, snd (plan_jump_up T u g2), sh)))"
  using assms(3) by (simp add: check_and_plan_jump_def g1_def g2_def Let_def case_prod_beta)

lemma check_plan_cases:
  assumes "last_jump_end_time_ms g \<le> now_ms sh"
  obtains (no) g1 n where "check_and_plan_jump T u g sh = Inr (False, g1, sh)"
      "g1 = g\<lparr>jumping_param := jump_setting sh, last_jump_end_time_ms := n\<rparr>" "n \<le> now_ms sh"
  | (plan) g2 where "g2 = g\<lparr>jumping_param := jump_setting sh, last_jump_end_time_ms := now_ms sh\<rparr>"
      "check_and_plan_jump T u g sh = Inr (if fst (plan_jump_up T u g2)
         then (True, send_gate False ((snd (plan_jump_up T u g2))\<lparr>servo_sub_state := JumpUping\<rparr>) sh)
         else (False, snd (plan_jump_up T u g2), sh))"
proof -
  let ?g1 = "g\<lparr>jumping_param := jump_setting sh\<rparr>"
  have same: "?g1 = g\<lparr>jumping_param := jump_setting sh, last_jump_end_time_ms := last_jump_end_time_ms g\<rparr>" by simp
  note eq = check_plan_eq[OF assms, of T u]
  consider (early) "now_ms sh - last_jump_end_time_ms g \<le> dn_ms (jump_setting sh)"
    | (low) "\<not> now_ms sh - last_jump_end_time_ms g \<le> dn_ms (jump_setting sh)"
        "up_blu (jump_setting sh) < um2blu 10 \<or> valid_rate_threshold \<le> valid_rate (sc_servo_go g)"
    | (tries) "\<not> now_ms sh - last_jump_end_time_ms g \<le> dn_ms (jump_setting sh)"
        "\<not> (up_blu (jump_setting sh) < um2blu 10 \<or> valid_rate_threshold \<le> valid_rate (sc_servo_go g))" by blast
  then show ?thesis
  proof cases
    case early
    then show ?thesis using no[OF _ same assms] eq by simp
  next
    case low
    then show ?thesis using no[OF _ refl, of "now_ms sh"] eq by simp
  next
    case tries
    then show ?thesis using plan[OF refl] eq by (simp only: if_False)
  qed
qed

lemma servoing_goes:
  assumes "cut_inv s e h g" "servo_sub_state g = Servoing" "g01_state g = G01Running" "0 < T" "jump_ok (jump_setting sh)"
    "last_jump_end_time_ms g \<le> now_ms sh" "global_cmd_axis sh = g01_pos g"
  shows "cut_goes s e h sh (servo_servoing T u g sh)"
proof -
  have serve: "cut_goes s e h sh (let (ends, g2, sh2) = do_servothings T g1 sh in Inr (if ends then g2\<lparr>g01_state := G01Stopping\<rparr> else g2, sh2))"
    if g1: "cut_inv s e h g1" "servo_sub_state g1 = Servoing" "last_jump_end_time_ms g1 \<le> now_ms sh" for g1
  proof -
    obtain ends g2 sh2 where d: "do_servothings T g1 sh = (ends, g2, sh2)" by (cases "do_servothings T g1 sh")
    note o = do_servothings_ok[OF g1(1,2) d]
    have "g01_pos (g2\<lparr>g01_state := G01Stopping\<rparr>) = g01_pos g2" by (simp add: g01_pos_def)
    then show ?thesis using o g1(3) cut_goesI[of s e h g2 sh2 sh] cut_goesI[of s e h "g2\<lparr>g01_state := G01Stopping\<rparr>" sh2 sh]
      by (simp add: d)
  qed
  have jo: "cut_inv s e h (g\<lparr>jumping_param := jump_setting sh, last_jump_end_time_ms := n\<rparr>)" for n
    using assms(1,2,5) by (simp add: cut_inv_def jump_part_def Let_def)
  from assms(6) show ?thesis
  proof (cases rule: check_plan_cases[where T=T and u=u])
    case (no g1 n)
    have "cut_inv s e h g1" "servo_sub_state g1 = Servoing" "last_jump_end_time_ms g1 \<le> now_ms sh"
      using no(2,3) jo assms(2) by simp_all
    then show ?thesis using serve[of g1] no(1) by (simp add: servo_servoing_def)
  next
    case (plan g2)
    let ?p = "plan_jump_up T u g2"
    have i: "cut_inv s e h g2" "servo_sub_state g2 = Servoing" "line_traj g2 = line_traj g" "g01_state g2 = G01Running"
      using plan(1) jo assms(2,3) by simp_all
    note p = plan_jump_up_ok[OF i(1,2) assms(4), of u]
    have n: "last_jump_end_time_ms (snd ?p) \<le> now_ms sh" using p(4) plan(1) by simp
    show ?thesis
    proof (cases "fst ?p")
      case False
      then show ?thesis using serve[OF p(1,2) n] plan(2) by (simp add: servo_servoing_def)
    next
      case True
      let ?g = "((snd ?p)\<lparr>servo_sub_state := JumpUping\<rparr>)\<lparr>last_send_gate_ns := now_ns sh\<rparr>"
      have "cut_inv s e h ((snd ?p)\<lparr>servo_sub_state := JumpUping\<rparr>)" "curr_pos (jump_pm_handler (snd ?p)) = lin_pos (line_traj g)"
        using p(5) True i(3,4) by simp_all
      then have g: "cut_inv s e h ?g" "g01_pos ?g = global_cmd_axis sh" "last_jump_end_time_ms ?g \<le> now_ms sh"
        using assms(2,7) n by (simp_all add: cut_inv_def jump_part_def g01_pos_def Let_def)
      have "servo_servoing T u g sh = Inr (?g, call_io (EnableVoltageGate False) sh)"
        using True plan(2) by (simp add: servo_servoing_def send_gate_def)
      then show ?thesis using cut_goesI[OF g(1) _ g(3)] g(2) by (simp add: call_io_def)
    qed
  qed
qed

section \<open>A whole cycle\<close>

lemma return_back_ok:
  assumes "cut_inv s e h g" "servo_sub_state g = Servoing" "return_back T g sh = (ended, g', sh')"
  shows "cut_inv s e h g'" "cut_inv s e h (g'\<lparr>g01_state := G01Paused\<rparr>)" "servo_sub_state g' = Servoing"
    "global_cmd_axis sh' = g01_pos g'" "keeps sh sh'" "last_jump_end_time_ms g' = last_jump_end_time_ms g"
    "g01_state g' = g01_state g" "lin_length (line_traj g') \<le> lin_length (line_traj g) \<or> return_back_target_distance < return_back_gone g"
proof -
  note lo = cut_line(4)[OF assms(1)]
  define d where "d = (let dec0 = mm_min2blu_p T return_back_speed_mm_min; dec = (if dec0 < 0.01 then 0.01 else dec0)
    in if return_back_gone g + dec > return_back_target_distance then return_back_target_distance - return_back_gone g else dec)"
  obtain n where g': "g' = g\<lparr>return_back_gone := n, line_traj := lin_run_once (- d) (line_traj g)\<rparr>"
    "sh' = set_cmd_axis (lin_pos (lin_run_once (- d) (line_traj g))) sh"
    using assms(3) by (simp add: return_back_def d_def Let_def split: if_splits) blast+
  have t: "lin_ok s e (lin_run_once (- d) (line_traj g))" using lin_run_ok(1)[OF lo] .
  show "cut_inv s e h g'" "cut_inv s e h (g'\<lparr>g01_state := G01Paused\<rparr>)" "servo_sub_state g' = Servoing"
    "global_cmd_axis sh' = g01_pos g'" "keeps sh sh'" "last_jump_end_time_ms g' = last_jump_end_time_ms g" "g01_state g' = g01_state g"
    using assms(1,2) t by (simp_all add: g' cut_inv_def jump_part_def g01_pos_def set_cmd_axis_def Let_def)
  have "0 \<le> d \<or> return_back_target_distance < return_back_gone g" by (auto simp: d_def Let_def)
  then show "lin_length (line_traj g') \<le> lin_length (line_traj g) \<or> return_back_target_distance < return_back_gone g"
    using lin_run_ok(2)[OF lo, of "- d"] lo by (auto simp: g' clip_def lin_ok_def)
qed

lemma pausing_or_stopping_goes:
  assumes "cut_inv s e h g" "0 < T" "last_jump_end_time_ms g \<le> now_ms sh" "global_cmd_axis sh = g01_pos g"
    "(g01_state g = G01Pausing \<and> target = G01Paused) \<or> (g01_state g = G01Stopping \<and> target = G01Stopped)"
  shows "cut_goes s e h sh (pausing_or_stopping T u target g sh)"
proof (cases "pause_or_stop_sub_state g")
  case WaitingForJumpEnd
  show ?thesis
  proof (cases "servo_sub_state g")
    case Servoing
    let ?g = "(if target = G01Paused then g\<lparr>return_back_gone := 0\<rparr> else g)\<lparr>pause_or_stop_sub_state := BackingToBegin\<rparr>"
    have g: "cut_inv s e h ?g" "g01_pos ?g = g01_pos g" "last_jump_end_time_ms ?g = last_jump_end_time_ms g"
      using assms(1) Servoing by (simp_all add: cut_inv_def jump_part_def g01_pos_def)
    have "pausing_or_stopping T u target g sh = Inr (?g, call_io (MachOn False) sh)"
      using WaitingForJumpEnd Servoing by (simp add: pausing_or_stopping_def)
    then show ?thesis using cut_goesI[OF g(1)] g(2,3) assms(3,4) by (simp add: call_io_def)
  next
    case JumpUping
    then show ?thesis using WaitingForJumpEnd jumpuping_goes[OF assms(1) JumpUping assms(2,3)] by (simp add: pausing_or_stopping_def)
  next
    case JumpDowning
    then show ?thesis using WaitingForJumpEnd jumpdowning_goes[OF assms(1) JumpDowning assms(3)] by (simp add: pausing_or_stopping_def)
  next
    case JumpDowningBuffer
    then show ?thesis using WaitingForJumpEnd buffer_goes[OF assms(1) JumpDowningBuffer assms(3,4)] by (simp add: pausing_or_stopping_def)
  qed
next
  case BackingToBegin
  then have sv: "servo_sub_state g = Servoing" using assms(1,5) by (auto simp: cut_inv_def)
  show ?thesis
  proof (cases "target = G01Stopped")
    case True
    have "cut_inv s e h (g\<lparr>g01_state := G01Stopped\<rparr>)" using assms(1) sv by (simp add: cut_inv_def jump_part_def)
    then show ?thesis using True BackingToBegin sv assms(3,4)
      by (simp add: pausing_or_stopping_def back_to_begin_when_stop_def) (rule cut_goesI, simp_all add: g01_pos_def)
  next
    case False
    then have t: "target = G01Paused" using assms(5) by auto
    obtain ended g1 sh1 where r: "return_back T g sh = (ended, g1, sh1)" by (cases "return_back T g sh")
    note o = return_back_ok[OF assms(1) sv r]
    have "g01_pos (g1\<lparr>g01_state := G01Paused\<rparr>) = g01_pos g1" by (simp add: g01_pos_def)
    then show ?thesis using t BackingToBegin sv r o assms(3) cut_goesI[OF o(1,4)] cut_goesI[OF o(2), of sh1]
      by (simp add: pausing_or_stopping_def back_to_begin_when_pause_def)
  qed
qed

lemma resuming_goes:
  assumes "cut_inv s e h g" "g01_state g = G01Resuming" "global_cmd_axis sh = g01_pos g"
  shows "cut_goes s e h sh (g01_resuming g sh)"
proof -
  let ?g = "g\<lparr>last_jump_end_time_ms := now_ms sh, last_send_gate_ns := now_ns sh, g01_state := G01Running\<rparr>"
  have sv: "servo_sub_state g = Servoing" using assms(1,2) by (simp add: cut_inv_def)
  then have i: "cut_inv s e h ?g" using assms(1) by (simp add: cut_inv_def jump_part_def)
  have "g01_resuming g sh = Inr (?g, call_io (MachOn True) (call_io (EnableVoltageGate True) sh))"
    using sv by (simp add: g01_resuming_def send_gate_def back_to_begin_when_pause_def Let_def)
  then show ?thesis using cut_goesI[OF i] assms(3) sv by (simp add: g01_pos_def call_io_def keeps_def)
qed

lemma cut_run_goes:
  assumes "cut_inv s e h g" "0 < T" "jump_ok (jump_setting sh)" "last_jump_end_time_ms g \<le> now_ms sh" "global_cmd_axis sh = g01_pos g"
  shows "cut_goes s e h sh (g01_run_once T u g sh)"
proof (cases "g01_state g")
  case G01Running
  then show ?thesis using servoing_goes[OF assms(1) _ G01Running assms(2-5), of u] jumpuping_goes[OF assms(1) _ assms(2,4), of u]
      jumpdowning_goes[OF assms(1) _ assms(4)] buffer_goes[OF assms(1) _ assms(4,5), of T]
    by (cases "servo_sub_state g") (simp_all add: g01_run_once_def normal_running_def)
next
  case G01Pausing
  then show ?thesis using pausing_or_stopping_goes[OF assms(1,2,4,5), of G01Paused u] by (simp add: g01_run_once_def)
next
  case G01Stopping
  then show ?thesis using pausing_or_stopping_goes[OF assms(1,2,4,5), of G01Stopped u] by (simp add: g01_run_once_def)
next
  case G01Resuming
  then show ?thesis using resuming_goes[OF assms(1) _ assms(5)] by (simp add: g01_run_once_def)
qed (use assms(1,4,5) cut_goesI[of s e h g sh sh] in \<open>simp_all add: g01_run_once_def\<close>)

section \<open>Calls\<close>

lemma g01_calls_ok:
  assumes "cut_inv s e h g"
  shows "cut_inv s e h (snd (g01_pause g))" "cut_inv s e h (snd (g01_resume g))" "cut_inv s e h (snd (g01_stop g))"
    "g01_pos (snd (g01_pause g)) = g01_pos g" "g01_pos (snd (g01_resume g)) = g01_pos g" "g01_pos (snd (g01_stop g)) = g01_pos g"
    "last_jump_end_time_ms (snd (g01_pause g)) = last_jump_end_time_ms g"
    "last_jump_end_time_ms (snd (g01_resume g)) = last_jump_end_time_ms g"
    "last_jump_end_time_ms (snd (g01_stop g)) = last_jump_end_time_ms g"
  using assms by (cases "g01_state g"; auto simp: g01_pause_def g01_resume_def g01_stop_def g01_wait_def cut_inv_def jump_part_def
      g01_pos_def Let_def cong: servo_state.case_cong)+

lemma g01_new_ok:
  assumes "segment_line s e" "jump_ok (jump_setting sh)"
  obtains g where "g01_new T (linear_new s e) h sh = Inr (g, call_io (MachOn True) (call_io (EnableVoltageGate True) sh))"
    "cut_inv s e h g" "g01_pos g = s" "last_jump_end_time_ms g = now_ms sh" "g01_state g = G01Running" "servo_sub_state g = Servoing"
  using assms linear_new_ok[of s e]
  by (simp add: g01_new_def lin_at_start_def linear_new_def cut_inv_def jump_part_def g01_pos_def segment_line_def)

section \<open>The sample machine\<close>

definition sample_shared :: shared where
  "sample_shared = \<lparr>global_cmd_axis = sample_from, detect_enabled = False, warning = False, touch_physical = False,
     has_signal = False, signals_arr = {}, jump_setting = \<lparr>up_blu = 500, dn_ms = 1000, buffer_blu = 30, jump_speed = sample_speed\<rparr>,
     g01_speed_ratio = 1, sub_line_num = -1, servo_mm_min = 0, now_ms = 0, now_ns = 0, io_calls = []\<rparr>"

lemma sample_jump: "jump_ok (jump_setting sample_shared)"
  using sample_move(4) by (simp add: sample_shared_def jump_ok_def)

end
