(* ===== verification/Auto_Task.thy ===== *)
theory Auto_Task
  imports Motion_Tasks Cutting_Correct
begin

text \<open>
  The contract of the abstract class \<^verbatim>\<open>AutoTask\<close>, as the task runner relies on it, and the proof that
  the tasks keep it: no call fails an assertion, a task that answers \<open>pause\<close> with \<open>true\<close> is
  pausing or paused, a paused task can be resumed, and a task that moves an axis leaves the
  commanded position at its own.
\<close>

section \<open>The contract\<close>

text \<open>Time goes on between two cycles, and the setting of the jumps may change for another that fits.\<close>

definition later_than :: "shared \<Rightarrow> shared \<Rightarrow> bool" where
  "later_than sh sh' \<longleftrightarrow> now_ms sh \<le> now_ms sh' \<and> (jump_ok (jump_setting sh) \<longrightarrow> jump_ok (jump_setting sh'))"

lemma later_than_simps [simp]:
  "later_than sh sh" "later_than sh (set_signal x sh') = later_than sh sh'" "later_than sh (set_detect_enable b sh') = later_than sh sh'"
  "later_than sh (clear_warning sh') = later_than sh sh'" "later_than sh (reset_all sh') = later_than sh sh'"
  "later_than sh (set_cmd_axis a sh') = later_than sh sh'" "later_than sh (call_io c sh') = later_than sh sh'"
  "later_than sh (snd (run_detect_once sh')) = later_than sh sh'" "later_than sh (sh'\<lparr>touch_physical := b\<rparr>) = later_than sh sh'"
  "later_than sh (sh'\<lparr>global_cmd_axis := a\<rparr>) = later_than sh sh'" "later_than sh (sh'\<lparr>detect_enabled := b\<rparr>) = later_than sh sh'"
  "later_than sh (sh'\<lparr>warning := b\<rparr>) = later_than sh sh'" "later_than sh (sh'\<lparr>signals_arr := ss\<rparr>) = later_than sh sh'"
  by (simp_all add: later_than_def shared_defs call_io_def run_detect_once_def)

locale auto_task =
  fixes ok :: "shared \<Rightarrow> 't \<Rightarrow> bool" and pos :: "'t \<Rightarrow> axis_t option"
    and pause :: "plan_vars \<Rightarrow> 't \<Rightarrow> (motion_fault, bool \<times> 't) result"
    and resume :: "plan_vars \<Rightarrow> 't \<Rightarrow> bool \<times> 't"
    and stop :: "plan_vars \<Rightarrow> bool \<Rightarrow> 't \<Rightarrow> (motion_fault, bool \<times> 't) result"
    and run :: "plan_vars \<Rightarrow> 't \<Rightarrow> shared \<Rightarrow> (motion_fault, 't \<times> shared) result"
    and normal pausing paused resuming stopping stopped :: "'t \<Rightarrow> bool"
  assumes pause_law: "ok sh t \<Longrightarrow> \<exists>b t'. pause u t = Inr (b, t') \<and> ok sh t' \<and> pos t' = pos t
      \<and> (b \<longrightarrow> pausing t' \<or> paused t') \<and> (\<not> b \<longrightarrow> t' = t)"
    and resume_law: "ok sh t \<Longrightarrow> paused t \<Longrightarrow> \<exists>t'. resume u t = (True, t') \<and> ok sh t' \<and> pos t' = pos t
      \<and> (normal t' \<or> resuming t' \<or> stopped t')"
    and stop_law: "ok sh t \<Longrightarrow> \<exists>b t'. stop u imm t = Inr (b, t') \<and> ok sh t' \<and> pos t' = pos t
      \<and> (b \<longrightarrow> stopping t' \<or> stopped t') \<and> (\<not> b \<longrightarrow> t' = t)"
    and run_law: "ok sh t \<Longrightarrow> pos t = None \<or> pos t = Some (global_cmd_axis sh) \<Longrightarrow> \<exists>t' sh'. run u t sh = Inr (t', sh') \<and> ok sh' t'
      \<and> global_cmd_axis sh' = (case pos t' of None \<Rightarrow> global_cmd_axis sh | Some p \<Rightarrow> p)
      \<and> (pos t' = None \<longleftrightarrow> pos t = None) \<and> signals_arr sh' = signals_arr sh \<and> later_than sh sh'"
    and one_state: "ok sh t \<Longrightarrow> normal t \<or> pausing t \<or> paused t \<or> resuming t \<or> stopping t \<or> stopped t"
    and exclusive: "\<not> (stopped t \<and> paused t)" "\<not> (normal t \<and> (paused t \<or> pausing t \<or> stopping t \<or> stopped t))"
    and later: "ok sh t \<Longrightarrow> later_than sh sh' \<Longrightarrow> ok sh' t"
begin

text \<open>Whether the task keeps a position does not change, and the commanded position is the task's.\<close>

definition at_pos :: "axis_t \<Rightarrow> 't \<Rightarrow> bool" where
  "at_pos p t \<longleftrightarrow> (case pos t of None \<Rightarrow> True | Some q \<Rightarrow> p = q)"

lemma run_at_pos:
  assumes "ok sh t" "at_pos (global_cmd_axis sh) t"
  obtains t' sh' where "run u t sh = Inr (t', sh')" "ok sh' t'" "at_pos (global_cmd_axis sh') t'"
    "signals_arr sh' = signals_arr sh" "pos t = None \<Longrightarrow> global_cmd_axis sh' = global_cmd_axis sh"
    "pos t' \<noteq> None \<Longrightarrow> pos t' = Some (global_cmd_axis sh')" "later_than sh sh'"
proof -
  have "pos t = None \<or> pos t = Some (global_cmd_axis sh)" using assms(2) by (auto simp: at_pos_def split: option.splits)
  from run_law[OF assms(1) this, of u] obtain t' sh' where r: "run u t sh = Inr (t', sh')" "ok sh' t'"
    "global_cmd_axis sh' = (case pos t' of None \<Rightarrow> global_cmd_axis sh | Some p \<Rightarrow> p)"
    "(pos t' = None) = (pos t = None)" "signals_arr sh' = signals_arr sh" "later_than sh sh'" by (elim exE conjE)
  then have x: "at_pos (global_cmd_axis sh') t'" "pos t = None \<Longrightarrow> global_cmd_axis sh' = global_cmd_axis sh"
    "pos t' \<noteq> None \<Longrightarrow> pos t' = Some (global_cmd_axis sh')" by (cases "pos t'"; simp add: at_pos_def)+
  show ?thesis by (rule that[OF r(1,2) x(1) r(5) x(2,3) r(6)])
qed

text \<open>A task paused at a position and resumed goes on from it.\<close>

lemma resume_at_pos:
  assumes "ok sh t" "paused t" "at_pos p t"
  obtains t' where "resume u t = (True, t')" "ok sh t'" "at_pos p t'" "normal t' \<or> resuming t' \<or> stopped t'"
  using resume_law[OF assms(1,2), of u] assms(3) by (auto simp: at_pos_def)

lemma pause_at_pos:
  assumes "ok sh t"
  obtains b t' where "pause u t = Inr (b, t')" "ok sh t'" "at_pos p t' = at_pos p t" "b \<longrightarrow> pausing t' \<or> paused t'" "\<not> b \<longrightarrow> t' = t"
  using pause_law[OF assms, of u] by (auto simp: at_pos_def)

lemma stop_at_pos:
  assumes "ok sh t"
  obtains b t' where "stop u imm t = Inr (b, t')" "ok sh t'" "at_pos p t' = at_pos p t" "b \<longrightarrow> stopping t' \<or> stopped t'" "\<not> b \<longrightarrow> t' = t"
  using stop_law[OF assms, of u imm] by (auto simp: at_pos_def)

end

section \<open>The tasks keep the contract\<close>

definition g00_ok :: "g00_task \<Rightarrow> bool" where
  "g00_ok g \<longleftrightarrow> (let h = g00_handler g in pm_inv (start_pos h) (target_pos h) h
     \<and> is_axis (start_pos h) \<and> is_axis (target_pos h) \<and> start_pos h \<noteq> target_pos h)"

text \<open>The system clock has not gone back since the cutting move read it.\<close>

definition g01_ok :: "shared \<Rightarrow> g01_task \<Rightarrow> bool" where
  "g01_ok sh g \<longleftrightarrow> (\<exists>s e h. cut_inv s e h g) \<and> last_jump_end_time_ms g \<le> now_ms sh \<and> jump_ok (jump_setting sh)"

fun task_ok :: "shared \<Rightarrow> auto_task \<Rightarrow> bool" where
  "task_ok sh (G00AutoTask g) \<longleftrightarrow> g00_ok g"
| "task_ok sh (G01AutoTask g) \<longleftrightarrow> g01_ok sh g"
| "task_ok sh (G01GroupAutoTask g) \<longleftrightarrow> (\<exists>p q. group_inv p q g)"
| "task_ok sh _ \<longleftrightarrow> True"

fun task_pos :: "auto_task \<Rightarrow> axis_t option" where
  "task_pos (G00AutoTask g) = Some (curr_pos (g00_handler g))"
| "task_pos (G01AutoTask g) = Some (g01_pos g)"
| "task_pos (G01GroupAutoTask g) = group_pos g"
| "task_pos _ = None"

lemma g00_ok_handler:
  assumes "g00_ok g" "pm_inv (start_pos (g00_handler g)) (target_pos (g00_handler g)) h"
  shows "g00_ok (g\<lparr>g00_handler := h\<rparr>)"
  using assms by (auto simp: g00_ok_def Let_def pm_inv_def)

lemma g00_call:
  assumes "g00_ok g" "mw_inv w" "mw_is_started w" "mw_target_length w = mw_target_length (mrt_wrapper (g00_handler g))"
    "mw_curr_length w = mw_curr_length (mrt_wrapper (g00_handler g))"
  shows "g00_ok (g\<lparr>g00_handler := (g00_handler g)\<lparr>mrt_wrapper := w\<rparr>\<rparr>)"
    and "curr_pos ((g00_handler g)\<lparr>mrt_wrapper := w\<rparr>) = curr_pos (g00_handler g)"
  using g00_ok_handler[OF assms(1) pm_wrapper_inv[OF _ assms(2-5)]] assms(1) by (simp_all add: g00_ok_def Let_def)

lemma g00_wrapper: "g00_ok g \<Longrightarrow> mw_inv (mrt_wrapper (g00_handler g)) \<and> mw_is_started (mrt_wrapper (g00_handler g))"
  by (simp add: g00_ok_def pm_inv_def Let_def)

lemma pm_stop_immediate: "pm_stop T u True h = Inr (True, h\<lparr>mrt_wrapper := (mrt_wrapper h)\<lparr>mw_state := MW_Stopped\<rparr>\<rparr>)"
  by (simp add: pm_stop_def mw_stop_def)

definition g00_halt :: "bool \<Rightarrow> point_move \<Rightarrow> point_move" where
  "g00_halt hit h = (if hit then h\<lparr>mrt_wrapper := (mrt_wrapper h)\<lparr>mw_state := MW_Stopped\<rparr>\<rparr> else h)"

lemma g00_run_eq:
  "g00_run_once T u g sh =
     (let sh1 = set_detect_enable (enable_touch_detect g) sh; sh2 = snd (run_detect_once sh1);
          h = pm_run_once (g00_halt (fst (run_detect_once sh1)) (g00_handler g)); sh3 = set_cmd_axis (curr_pos h) sh2
      in Inr (g\<lparr>g00_handler := h\<rparr>, if pm_is_over h \<or> pm_state h = MW_Paused then set_detect_enable False sh3 else sh3))"
  by (simp add: g00_run_once_def g00_halt_def pm_stop_immediate Let_def case_prod_beta del: run_detect_sel)

lemma g00_halt_inv: "pm_inv s t h \<Longrightarrow> pm_inv s t (g00_halt hit h)"
  using mw_inv_rest[of "mrt_wrapper h" MW_Stopped] by (auto simp: g00_halt_def pm_inv_def mw_is_started_def)

lemma g00_run_ok:
  assumes "g00_ok g"
  shows "\<exists>g' sh'. g00_run_once T u g sh = Inr (g', sh') \<and> g00_ok g' \<and> global_cmd_axis sh' = curr_pos (g00_handler g')
    \<and> signals_arr sh' = signals_arr sh \<and> later_than sh sh'"
proof -
  let ?h = "g00_handler g"
  have i: "pm_inv (start_pos ?h) (target_pos ?h) ?h" using assms by (simp add: g00_ok_def Let_def)
  have "g00_ok (g\<lparr>g00_handler := pm_run_once (g00_halt b ?h)\<rparr>)" for b
    using g00_ok_handler[OF assms pm_run_inv(1)[OF g00_halt_inv[OF i]]] .
  then show ?thesis by (simp add: g00_run_eq Let_def shared_defs)
qed

text \<open>The calls on a rapid move, in the form of the contract.\<close>

lemma g00_pause_ok:
  assumes "g00_ok g" "0 < T"
  shows "\<exists>b h. pm_pause T u (g00_handler g) = Inr (b, h) \<and> g00_ok (g\<lparr>g00_handler := h\<rparr>)
    \<and> curr_pos h = curr_pos (g00_handler g) \<and> (b \<longrightarrow> pm_state h \<in> {MW_Pausing, MW_Paused}) \<and> (\<not> b \<longrightarrow> h = g00_handler g)"
proof -
  let ?w = "mrt_wrapper (g00_handler g)"
  have i: "mw_inv ?w" "mw_is_started ?w" using g00_wrapper[OF assms(1)] by simp_all
  obtain b w where w: "mw_pause T u ?w = Inr (b, w)" "mw_inv w" "mw_is_started w" "mw_curr_length w = mw_curr_length ?w"
    "mw_target_length w = mw_target_length ?w" "b \<longrightarrow> mw_state w \<in> {MW_Pausing, MW_Paused}" "\<not> b \<longrightarrow> w = ?w"
    using mw_pause_inv[OF i(1) assms(2) i(2), of u] by (auto split: if_splits)
  show ?thesis using g00_call[OF assms(1) w(2,3,5,4)] w(1,6,7)
    by (intro exI[of _ b] exI[of _ "(g00_handler g)\<lparr>mrt_wrapper := w\<rparr>"]) (simp add: pm_pause_def pm_state_def)
qed

lemma g00_resume_ok:
  assumes "g00_ok g" "0 < T" "pm_state (g00_handler g) = MW_Paused"
  shows "\<exists>h. pm_resume T u (g00_handler g) = (True, h) \<and> g00_ok (g\<lparr>g00_handler := h\<rparr>)
    \<and> curr_pos h = curr_pos (g00_handler g) \<and> (pm_state h = MW_Running \<or> pm_state h = MW_Stopped)"
proof -
  let ?w = "mrt_wrapper (g00_handler g)"
  have i: "mw_inv ?w" "mw_state ?w = MW_Paused" using g00_wrapper[OF assms(1)] assms(3) by (simp_all add: pm_state_def)
  define w where "w = snd (mw_resume T u ?w)"
  note r = mw_resume_inv[OF i(1) assms(2), of u, folded w_def]
  have s: "mw_resume T u ?w = (True, w)" "mw_state w = MW_Running \<or> mw_state w = MW_Stopped"
    using r(5)[OF i(2)] by (auto simp: w_def prod_eq_iff)
  then have st: "mw_is_started w" by (auto simp: mw_is_started_def)
  show ?thesis using g00_call[OF assms(1) r(1) st r(3,2)] s
    by (intro exI[of _ "(g00_handler g)\<lparr>mrt_wrapper := w\<rparr>"]) (simp add: pm_resume_def pm_state_def)
qed

lemma g00_stop_ok:
  assumes "g00_ok g" "0 < T"
  shows "\<exists>h. pm_stop T u imm (g00_handler g) = Inr (True, h) \<and> g00_ok (g\<lparr>g00_handler := h\<rparr>)
    \<and> curr_pos h = curr_pos (g00_handler g) \<and> (pm_state h = MW_Stopping \<or> pm_state h = MW_Stopped)"
proof -
  let ?w = "mrt_wrapper (g00_handler g)"
  have i: "mw_inv ?w" "mw_is_started ?w" using g00_wrapper[OF assms(1)] by simp_all
  obtain w where w: "mw_stop T u imm ?w = Inr (True, w)" "mw_inv w" "mw_curr_length w = mw_curr_length ?w"
    "mw_target_length w = mw_target_length ?w" "mw_state w = MW_Stopping \<or> mw_state w = MW_Stopped"
    using mw_stop_inv[OF i(1) assms(2), of u imm] i(2) by auto
  then have st: "mw_is_started w" by (auto simp: mw_is_started_def)
  show ?thesis using g00_call[OF assms(1) w(2) st w(4,3)] w(1,5)
    by (intro exI[of _ "(g00_handler g)\<lparr>mrt_wrapper := w\<rparr>"]) (simp add: pm_stop_def pm_state_def)
qed

lemmas small_task_defs = g04_pause_def g04_resume_def g04_stop_def g04_run_once_def m00_pause_def m00_resume_def m00_stop_def

text \<open>The same of a cutting move and of a group.\<close>

lemma g01_calls:
  assumes "g01_ok sh g"
  shows "g01_ok sh (snd (g01_pause g))" "g01_ok sh (snd (g01_resume g))" "g01_ok sh (snd (g01_stop g))"
  using assms g01_calls_ok unfolding g01_ok_def by metis+

lemma g01_run_ok:
  assumes "g01_ok sh g" "g01_pos g = global_cmd_axis sh" "0 < T"
  shows "\<exists>g' sh'. g01_run_once T u g sh = Inr (g', sh') \<and> g01_ok sh' g' \<and> global_cmd_axis sh' = g01_pos g'
    \<and> signals_arr sh' = signals_arr sh \<and> later_than sh sh'"
proof -
  obtain s e h where i: "cut_inv s e h g" "last_jump_end_time_ms g \<le> now_ms sh" "jump_ok (jump_setting sh)"
    using assms(1) by (auto simp: g01_ok_def)
  from cut_run_goes[OF i(1) assms(3) i(3,2) assms(2)[symmetric], of u] i(3) show ?thesis
    unfolding cut_goes_def keeps_def g01_ok_def later_than_def by (metis order_refl)
qed

lemma g01_call_states:
  "fst (g01_pause g) \<longrightarrow> g01_state (snd (g01_pause g)) \<in> {G01Pausing, G01Paused}" "\<not> fst (g01_pause g) \<longrightarrow> snd (g01_pause g) = g"
  "g01_state g = G01Paused \<longrightarrow> fst (g01_resume g) \<and> g01_state (snd (g01_resume g)) = G01Resuming"
  "fst (g01_stop g) \<and> g01_state (snd (g01_stop g)) \<in> {G01Stopping, G01Stopped}"
  by (cases "g01_state g"; simp add: g01_pause_def g01_resume_def g01_stop_def g01_wait_def)+

lemma group_call_states:
  "fst (group_pause g) \<longrightarrow> group_state (snd (group_pause g)) \<in> {GroupPausing, GroupPaused}" "\<not> fst (group_pause g) \<longrightarrow> snd (group_pause g) = g"
  "group_state g = GroupPaused \<longrightarrow> fst (group_resume g) \<and> group_state (snd (group_resume g)) = GroupResuming"
  "fst (group_stop g) \<longrightarrow> group_state (snd (group_stop g)) \<in> {GroupStopping, GroupStopped}" "\<not> fst (group_stop g) \<longrightarrow> snd (group_stop g) = g"
  by (cases "group_state g"; simp add: group_pause_def group_resume_def group_stop_def)+

lemma task_ok_later: "task_ok sh t \<Longrightarrow> later_than sh sh' \<Longrightarrow> task_ok sh' t"
  by (cases t) (auto simp: g01_ok_def later_than_def)

interpretation task: auto_task "\<lambda>sh t. 0 < T \<and> task_ok sh t" task_pos "task_pause T" "task_resume T" "task_stop T"
    "task_run_once T" task_normal_running task_pausing task_paused task_resuming task_stopping task_stopped for T
proof
  fix t u imm sh
  show "\<exists>b t'. task_pause T u t = Inr (b, t') \<and> (0 < T \<and> task_ok sh t') \<and> task_pos t' = task_pos t
      \<and> (b \<longrightarrow> task_pausing t' \<or> task_paused t') \<and> (\<not> b \<longrightarrow> t' = t)" if a: "0 < T \<and> task_ok sh t"
  proof (cases t)
    case (G00AutoTask g)
    then show ?thesis using a g00_pause_ok[of g T u] by auto
  next
    case (G01AutoTask g)
    then show ?thesis using a g01_calls(1)[of sh g] g01_call_states(1,2)[of g] g01_calls_ok(4)[of _ _ _ g]
      by (cases "g01_pause g") (auto simp: g01_ok_def)
  next
    case (G01GroupAutoTask g)
    then show ?thesis using a group_calls_inv(1,4)[of _ _ g] group_call_states(1,2)[of g]
      by (cases "group_pause g") auto
  qed (use a in \<open>auto simp: small_task_defs split: g04_state.splits m00_state.splits\<close>)
  show "\<exists>t'. task_resume T u t = (True, t') \<and> (0 < T \<and> task_ok sh t') \<and> task_pos t' = task_pos t
      \<and> (task_normal_running t' \<or> task_resuming t' \<or> task_stopped t')" if a: "0 < T \<and> task_ok sh t" "task_paused t"
  proof (cases t)
    case (G00AutoTask g)
    then show ?thesis using a g00_resume_ok[of g T u] by (auto simp: pm_is_over_def mw_is_stopped_def pm_state_def)
  next
    case (G01AutoTask g)
    then show ?thesis using a g01_calls(2)[of sh g] g01_call_states(3)[of g] g01_calls_ok(5)[of _ _ _ g]
      by (cases "g01_resume g") (auto simp: g01_ok_def)
  next
    case (G01GroupAutoTask g)
    then show ?thesis using a group_calls_inv(2,5)[of _ _ g] group_call_states(3)[of g] by (cases "group_resume g") auto
  qed (use a in \<open>auto simp: small_task_defs split: g04_state.splits m00_state.splits\<close>)
  show "\<exists>b t'. task_stop T u imm t = Inr (b, t') \<and> (0 < T \<and> task_ok sh t') \<and> task_pos t' = task_pos t
      \<and> (b \<longrightarrow> task_stopping t' \<or> task_stopped t') \<and> (\<not> b \<longrightarrow> t' = t)" if a: "0 < T \<and> task_ok sh t"
  proof (cases t)
    case (G00AutoTask g)
    then show ?thesis using a g00_stop_ok[of g T u imm] by (auto simp: pm_is_over_def mw_is_stopped_def pm_state_def)
  next
    case (G01AutoTask g)
    then show ?thesis using a g01_calls(3)[of sh g] g01_call_states(4)[of g] g01_calls_ok(6)[of _ _ _ g]
      by (cases "g01_stop g") (auto simp: g01_ok_def)
  next
    case (G01GroupAutoTask g)
    then show ?thesis using a group_calls_inv(3,6)[of _ _ g] group_call_states(4,5)[of g] by (cases "group_stop g") auto
  qed (use a in \<open>auto simp: small_task_defs\<close>)
  show "\<exists>t' sh'. task_run_once T u t sh = Inr (t', sh') \<and> (0 < T \<and> task_ok sh' t')
      \<and> global_cmd_axis sh' = (case task_pos t' of None \<Rightarrow> global_cmd_axis sh | Some p \<Rightarrow> p)
      \<and> (task_pos t' = None \<longleftrightarrow> task_pos t = None) \<and> signals_arr sh' = signals_arr sh \<and> later_than sh sh'"
    if a: "0 < T \<and> task_ok sh t" "task_pos t = None \<or> task_pos t = Some (global_cmd_axis sh)"
  proof (cases t)
    case (G00AutoTask g)
    then obtain g' sh' where "g00_run_once T u g sh = Inr (g', sh')" "g00_ok g'"
      "global_cmd_axis sh' = curr_pos (g00_handler g')" "signals_arr sh' = signals_arr sh" "later_than sh sh'"
      using a g00_run_ok[of g T u sh] by auto
    then show ?thesis using a G00AutoTask by simp
  next
    case (G01AutoTask g)
    then obtain g' sh' where "g01_run_once T u g sh = Inr (g', sh')" "g01_ok sh' g'"
      "global_cmd_axis sh' = g01_pos g'" "signals_arr sh' = signals_arr sh" "later_than sh sh'"
      using a g01_run_ok[of sh g T u] by auto
    then show ?thesis using a G01AutoTask by simp
  next
    case (G01GroupAutoTask g)
    then obtain p q where i: "group_inv p q g" "group_pos g \<noteq> None \<longrightarrow> group_pos g = Some (global_cmd_axis sh)" using a by auto
    from group_run_ok[OF this, of T] obtain g' sh' where r: "group_run_once T g sh = Inr (g', sh')" "group_inv p q g'"
      "group_pos g' \<noteq> None \<longrightarrow> group_pos g' = Some (global_cmd_axis sh')" "(group_pos g' = None) = (group_pos g = None)"
      "signals_arr sh' = signals_arr sh" "now_ms sh' = now_ms sh" "jump_setting sh' = jump_setting sh" "group_pos g = None \<longrightarrow> global_cmd_axis sh' = global_cmd_axis sh" by (elim exE conjE)
    then have "later_than sh sh'" by (simp add: later_than_def)
    then show ?thesis using a G01GroupAutoTask r by (cases "group_pos g'") auto
  qed (use a in auto)
  show "task_normal_running t \<or> task_pausing t \<or> task_paused t \<or> task_resuming t \<or> task_stopping t \<or> task_stopped t"
    if a: "0 < T \<and> task_ok sh t"
  proof (cases t)
    case (G00AutoTask g)
    then show ?thesis by (cases "pm_state (g00_handler g)") (auto simp: pm_is_over_def mw_is_stopped_def pm_state_def)
  next
    case (G01AutoTask g)
    then show ?thesis by (cases "g01_state g") auto
  next
    case (G01GroupAutoTask g)
    then show ?thesis by (cases "group_state g") auto
  next
    case (G04AutoTask g)
    then show ?thesis by (cases "g04_state g") auto
  next
    case (M00FakeAutoTask m)
    then show ?thesis by (cases m) auto
  qed
  show "\<not> (task_stopped t \<and> task_paused t)"
    by (cases t) (auto simp: pm_is_over_def mw_is_stopped_def pm_state_def)
  show "\<not> (task_normal_running t \<and> (task_paused t \<or> task_pausing t \<or> task_stopping t \<or> task_stopped t))"
    by (cases t) (auto simp: pm_is_over_def mw_is_stopped_def pm_state_def)
  show "0 < T \<and> task_ok sh' t" if "0 < T \<and> task_ok sh t" "later_than sh sh'" for sh'
    using that task_ok_later by blast
qed

end
