(* ===== verification/Pause_Move.thy ===== *)
theory Pause_Move
  imports Auto_Task
begin

text \<open>
  Manual moves during a pause and the way back (\<^verbatim>\<open>Src/Motion/PauseMoveController\<close>): every manual
  move that ends is recorded as a segment; the recovery drives the segments back in reverse
  order, so that the paused task goes on from where it was.
\<close>

section \<open>State and operations\<close>

record segment =
  seg_start_point :: axis_t
  seg_stop_point :: axis_t
  seg_plan_param :: speed_param

datatype pmc_state = NotInited | AllowManualPointMove | ManualPointMoving | Recovering | RecoveringPausing
  | RecoveringPaused | RecorverOver | OutSideStopping | OutSideOrErrorStopped

text \<open>The stack of the recorded segments is a list, its top first.\<close>

record pmc =
  pmc_handler :: point_move
  axis_recorder :: "segment list"
  pmc_state :: pmc_state

type_synonym pmc_result = "(motion_fault, bool \<times> pmc \<times> shared) result"

definition pmc_new :: pmc where
  "pmc_new = \<lparr>pmc_handler = pm_blank, axis_recorder = [], pmc_state = NotInited\<rparr>"

definition pmc_init :: "pmc \<Rightarrow> pmc" where
  "pmc_init c = \<lparr>pmc_handler = pm_clear (pmc_handler c), axis_recorder = [], pmc_state = AllowManualPointMove\<rparr>"

definition pmc_start_manual ::
  "real \<Rightarrow> plan_vars \<Rightarrow> speed_param \<Rightarrow> axis_t \<Rightarrow> axis_t \<Rightarrow> pmc \<Rightarrow> shared \<Rightarrow> bool \<times> pmc \<times> shared" where
  "pmc_start_manual T u sp s t c sh =
     (if pmc_state c \<noteq> AllowManualPointMove then (False, c, sh)
      else let (b, h) = pm_start T u sp s t (pmc_handler c); c' = c\<lparr>pmc_handler := h\<rparr>
           in if \<not> b then (False, c', sh)
              else if pm_is_over h then (False, c', sh)
              else (True, c'\<lparr>pmc_state := ManualPointMoving\<rparr>, set_signal MotionSignal_ManualPointMoveStarted sh))"

definition pmc_stop_manual :: "real \<Rightarrow> plan_vars \<Rightarrow> bool \<Rightarrow> pmc \<Rightarrow> (motion_fault, bool \<times> pmc) result" where
  "pmc_stop_manual T u imm c =
     (if pmc_state c \<noteq> ManualPointMoving then Inr (False, c)
      else rbind (pm_stop T u imm (pmc_handler c)) (\<lambda>(b, h). Inr (b, c\<lparr>pmc_handler := h\<rparr>)))"

definition pmc_pause_recover :: "real \<Rightarrow> plan_vars \<Rightarrow> pmc \<Rightarrow> (motion_fault, bool \<times> pmc) result" where
  "pmc_pause_recover T u c =
     (if pmc_state c = RecoveringPausing \<or> pmc_state c = RecoveringPaused then Inr (True, c)
      else if pmc_state c \<noteq> Recovering then Inr (False, c)
      else rbind (pm_pause T u (pmc_handler c)) (\<lambda>(b, h).
        let c' = c\<lparr>pmc_handler := h\<rparr> in Inr (if \<not> b then (False, c') else (True, c'\<lparr>pmc_state := RecoveringPausing\<rparr>))))"

definition pmc_resume_recover :: "real \<Rightarrow> plan_vars \<Rightarrow> pmc \<Rightarrow> bool \<times> pmc" where
  "pmc_resume_recover T u c =
     (if pmc_state c = Recovering \<or> pmc_state c = RecorverOver then (True, c)
      else if pmc_state c \<noteq> RecoveringPaused then (False, c)
      else let (b, h) = pm_resume T u (pmc_handler c); c' = c\<lparr>pmc_handler := h\<rparr>
           in if \<not> b then (False, c') else (True, c'\<lparr>pmc_state := Recovering\<rparr>))"

definition pmc_stop :: "real \<Rightarrow> plan_vars \<Rightarrow> bool \<Rightarrow> pmc \<Rightarrow> (motion_fault, bool \<times> pmc) result" where
  "pmc_stop T u imm c =
     (if pmc_state c = NotInited then Inr (False, c)
      else if pmc_state c \<in> {AllowManualPointMove, OutSideOrErrorStopped, RecorverOver, RecoveringPaused}
      then Inr (True, c\<lparr>pmc_state := OutSideOrErrorStopped\<rparr>)
      else if pmc_state c = OutSideStopping then Inr (True, c)
      else rbind (pm_stop T u imm (pmc_handler c)) (\<lambda>(b, h).
        Inr (True, c\<lparr>pmc_handler := h, pmc_state := OutSideStopping\<rparr>)))"

text \<open>The way back over a recorded segment.\<close>

definition start_segment :: "real \<Rightarrow> plan_vars \<Rightarrow> segment \<Rightarrow> point_move \<Rightarrow> bool \<times> point_move" where
  "start_segment T u x h = pm_start T u (seg_plan_param x) (seg_stop_point x) (seg_start_point x) h"

definition pmc_activate_recover :: "real \<Rightarrow> plan_vars \<Rightarrow> pmc \<Rightarrow> bool \<times> pmc" where
  "pmc_activate_recover T u c =
     (if pmc_state c = ManualPointMoving then (False, c)
      else if pmc_state c = Recovering \<or> pmc_state c = RecorverOver then (True, c)
      else if pmc_state c = RecoveringPaused then pmc_resume_recover T u c
      else case axis_recorder c of
             [] \<Rightarrow> (True, c\<lparr>pmc_state := RecorverOver\<rparr>)
           | x # xs \<Rightarrow>
               let (b, h) = start_segment T u x (pmc_handler c); c' = c\<lparr>axis_recorder := xs, pmc_handler := h\<rparr>
               in if \<not> b then (False, c'\<lparr>pmc_state := OutSideOrErrorStopped\<rparr>)
                  else (True, c'\<lparr>pmc_state := Recovering\<rparr>))"

definition pmc_run_handler :: "pmc \<Rightarrow> shared \<Rightarrow> pmc \<times> shared" where
  "pmc_run_handler c sh =
     (let h = pm_run_once (pmc_handler c) in (c\<lparr>pmc_handler := h\<rparr>, set_cmd_axis (curr_pos h) sh))"

definition manual_pointmoving :: "real \<Rightarrow> plan_vars \<Rightarrow> pmc \<Rightarrow> shared \<Rightarrow> (motion_fault, pmc \<times> shared) result" where
  "manual_pointmoving T u c sh =
     (let h = pmc_handler c
      in if pm_is_over h
         then let sh' = set_detect_enable False (set_signal MotionSignal_ManualPointMoveStopped sh)
              in if start_pos h = curr_pos h then Inr (c\<lparr>pmc_state := AllowManualPointMove\<rparr>, sh')
                 else Inr (c\<lparr>axis_recorder := \<lparr>seg_start_point = start_pos h, seg_stop_point = curr_pos h,
                               seg_plan_param = record_speed_param (mrt_wrapper h)\<rparr> # axis_recorder c,
                             pmc_state := AllowManualPointMove\<rparr>, sh')
         else let (hit, sh1) = run_detect_once sh
              in rbind (if hit then pm_stop T u True h else Inr (True, h)) (\<lambda>(b, h1).
                   Inr (pmc_run_handler (c\<lparr>pmc_handler := h1\<rparr>) sh1)))"

definition recovering :: "real \<Rightarrow> plan_vars \<Rightarrow> pmc \<Rightarrow> shared \<Rightarrow> pmc \<times> shared" where
  "recovering T u c sh =
     (if pm_is_over (pmc_handler c)
      then case axis_recorder c of
             [] \<Rightarrow> (c\<lparr>pmc_state := RecorverOver\<rparr>, sh)
           | x # xs \<Rightarrow> (c\<lparr>axis_recorder := xs, pmc_handler := snd (start_segment T u x (pmc_handler c))\<rparr>, sh)
      else pmc_run_handler c sh)"

definition recovering_pausing :: "pmc \<Rightarrow> shared \<Rightarrow> pmc \<times> shared" where
  "recovering_pausing c sh =
     (if pm_state (pmc_handler c) = MW_Paused then (c\<lparr>pmc_state := RecoveringPaused\<rparr>, sh) else pmc_run_handler c sh)"

definition outside_stopping :: "pmc \<Rightarrow> shared \<Rightarrow> pmc \<times> shared" where
  "outside_stopping c sh =
     (if pm_is_over (pmc_handler c) then (c\<lparr>pmc_state := OutSideOrErrorStopped\<rparr>, sh) else pmc_run_handler c sh)"

definition pmc_run_once :: "real \<Rightarrow> plan_vars \<Rightarrow> pmc \<Rightarrow> shared \<Rightarrow> (motion_fault, pmc \<times> shared) result" where
  "pmc_run_once T u c sh =
     (case pmc_state c of
        ManualPointMoving \<Rightarrow> manual_pointmoving T u c sh
      | Recovering \<Rightarrow> Inr (recovering T u c sh)
      | RecoveringPausing \<Rightarrow> Inr (recovering_pausing c sh)
      | OutSideStopping \<Rightarrow> Inr (outside_stopping c sh)
      | _ \<Rightarrow> Inr (c, sh))"

section \<open>The trail back to the pause\<close>

text \<open>
  The recorded segments lead from the commanded position back to the position \<open>P\<close> of the pause,
  each one starting where the next one ends.
\<close>

definition move_between :: "axis_t \<Rightarrow> axis_t \<Rightarrow> bool" where
  "move_between s t \<longleftrightarrow> is_axis s \<and> is_axis t \<and> s \<noteq> t"

fun trail :: "axis_t \<Rightarrow> axis_t \<Rightarrow> segment list \<Rightarrow> bool" where
  "trail p P [] \<longleftrightarrow> p = P"
| "trail p P (x # xs) \<longleftrightarrow> seg_stop_point x = p \<and> move_between p (seg_start_point x)
     \<and> speed_ok (seg_plan_param x) \<and> trail (seg_start_point x) P xs"

text \<open>Of the invariant: the handler on a manual move, and on the way back over a segment.\<close>

definition manual_ok :: "axis_t \<Rightarrow> pmc \<Rightarrow> shared \<Rightarrow> bool" where
  "manual_ok P c sh \<longleftrightarrow> (let h = pmc_handler c in pm_inv (start_pos h) (target_pos h) h
     \<and> move_between (start_pos h) (target_pos h) \<and> curr_pos h = global_cmd_axis sh
     \<and> trail (start_pos h) P (axis_recorder c))"

definition back_ok :: "axis_t \<Rightarrow> pmc \<Rightarrow> shared \<Rightarrow> bool" where
  "back_ok P c sh \<longleftrightarrow> (let h = pmc_handler c in on_course (start_pos h) (target_pos h) h
     \<and> move_between (start_pos h) (target_pos h) \<and> curr_pos h = global_cmd_axis sh
     \<and> trail (target_pos h) P (axis_recorder c))"

definition pmc_inv :: "axis_t \<Rightarrow> pmc \<Rightarrow> shared \<Rightarrow> bool" where
  "pmc_inv P c sh \<longleftrightarrow> is_axis (global_cmd_axis sh) \<and>
     (case pmc_state c of
        NotInited \<Rightarrow> False
      | AllowManualPointMove \<Rightarrow> trail (global_cmd_axis sh) P (axis_recorder c)
      | ManualPointMoving \<Rightarrow> manual_ok P c sh
      | Recovering \<Rightarrow> back_ok P c sh \<and> pm_state (pmc_handler c) \<in> {MW_Running, MW_Stopped}
      | RecoveringPausing \<Rightarrow> back_ok P c sh \<and> pm_state (pmc_handler c) \<in> {MW_Pausing, MW_Paused}
      | RecoveringPaused \<Rightarrow> back_ok P c sh \<and> pm_state (pmc_handler c) = MW_Paused
      | RecorverOver \<Rightarrow> global_cmd_axis sh = P
      | OutSideStopping \<Rightarrow> pm_inv (start_pos (pmc_handler c)) (target_pos (pmc_handler c)) (pmc_handler c)
          \<and> move_between (start_pos (pmc_handler c)) (target_pos (pmc_handler c))
          \<and> curr_pos (pmc_handler c) = global_cmd_axis sh
      | OutSideOrErrorStopped \<Rightarrow> True)"

end
