(* ===== verification/Pause_Move_Correct.thy ===== *)
theory Pause_Move_Correct
  imports Pause_Move
begin

text \<open>
  Every operation of the pause controller keeps the trail back to the position of the pause, and
  a recovery that is not stopped ends there, after finitely many cycles.
\<close>

section \<open>Operations keep the trail\<close>

lemma pm_calls_keep_pos:
  "pm_stop T u imm h = Inr (b, h') \<Longrightarrow> curr_pos h' = curr_pos h \<and> start_pos h' = start_pos h \<and> target_pos h' = target_pos h"
  "pm_pause T u h = Inr (b, h') \<Longrightarrow> curr_pos h' = curr_pos h \<and> start_pos h' = start_pos h \<and> target_pos h' = target_pos h"
  "curr_pos (snd (pm_resume T u h)) = curr_pos h" "start_pos (snd (pm_resume T u h)) = start_pos h"
  "target_pos (snd (pm_resume T u h)) = target_pos h"
  by (auto simp: pm_stop_def pm_pause_def pm_resume_def rbind_Inr_iff split: prod.splits)

lemma pm_stop_ok:
  assumes "pm_inv s t h" "0 < T"
  obtains b h' where "pm_stop T u imm h = Inr (b, h')" "pm_inv s t h'" "curr_pos h' = curr_pos h"
    "start_pos h' = start_pos h" "target_pos h' = target_pos h"
proof -
  obtain h' where "pm_do T (u, OpStop imm) h = Inr h'" "pm_inv s t h'" using pm_do_inv[OF assms, of "OpStop imm" u] by auto
  then show ?thesis using that pm_calls_keep_pos(1) by (auto simp: rbind_Inr_iff)
qed

lemma pm_run_pos: "start_pos (pm_run_once h) = start_pos h" "target_pos (pm_run_once h) = target_pos h"
  by (simp_all add: pm_run_once_def Let_def)

lemma pmc_init_inv: "is_axis (global_cmd_axis sh) \<Longrightarrow> pmc_inv (global_cmd_axis sh) (pmc_init c) sh"
  by (simp add: pmc_inv_def pmc_init_def)

lemma pm_start_sel:
  "start_pos (snd (pm_start T u sp s t h)) = s" "target_pos (snd (pm_start T u sp s t h)) = t"
  "curr_pos (snd (pm_start T u sp s t h)) = s"
  by (simp_all add: pm_start_def Let_def case_prod_beta)

lemma start_manual_inv:
  assumes "pmc_inv P c sh" "speed_ok sp" "is_axis t" "0 < T"
  shows "pmc_inv P (fst (snd (pmc_start_manual T u sp (global_cmd_axis sh) t c sh))) (snd (snd (pmc_start_manual T u sp (global_cmd_axis sh) t c sh)))"
    and "global_cmd_axis (snd (snd (pmc_start_manual T u sp (global_cmd_axis sh) t c sh))) = global_cmd_axis sh"
proof -
  let ?s = "global_cmd_axis sh" and ?r = "pm_start T u sp (global_cmd_axis sh) t (pmc_handler c)"
  have s: "is_axis ?s" using assms(1) by (simp add: pmc_inv_def)
  show g: "global_cmd_axis (snd (snd (pmc_start_manual T u sp ?s t c sh))) = ?s"
    by (simp add: pmc_start_manual_def Let_def case_prod_beta set_signal_def)
  show "pmc_inv P (fst (snd (pmc_start_manual T u sp ?s t c sh))) (snd (snd (pmc_start_manual T u sp ?s t c sh)))"
  proof (cases "pmc_state c = AllowManualPointMove \<and> fst ?r")
    case True
    then have "?s \<noteq> t" using pm_start_same[OF s] by auto
    then have "pm_inv ?s t (snd ?r)" "pm_state (snd ?r) = MW_Running" "move_between ?s t"
      using pm_start_inv[OF s assms(3) _ assms(2,4)] s assms(3) by (auto simp: move_between_def)
    then show ?thesis using True assms(1) s
      by (simp add: pmc_start_manual_def Let_def case_prod_beta pmc_inv_def manual_ok_def pm_start_sel set_signal_def
          pm_is_over_def mw_is_stopped_def pm_state_def)
  next
    case False
    then show ?thesis using assms(1)
      by (cases "pmc_state c = AllowManualPointMove") (simp_all add: pmc_start_manual_def Let_def case_prod_beta pmc_inv_def)
  qed
qed

lemma stop_manual_inv:
  assumes "pmc_inv P c sh" "0 < T"
  shows "\<exists>b c'. pmc_stop_manual T u imm c = Inr (b, c') \<and> pmc_inv P c' sh"
proof (cases "pmc_state c = ManualPointMoving")
  case True
  let ?h = "pmc_handler c"
  have m: "manual_ok P c sh" "is_axis (global_cmd_axis sh)" using assms(1) True by (simp_all add: pmc_inv_def)
  then have "pm_inv (start_pos ?h) (target_pos ?h) ?h" by (simp add: manual_ok_def Let_def)
  from pm_stop_ok[OF this assms(2)] obtain b h where h: "pm_stop T u imm ?h = Inr (b, h)"
    "pm_inv (start_pos ?h) (target_pos ?h) h" "curr_pos h = curr_pos ?h" "start_pos h = start_pos ?h" "target_pos h = target_pos ?h"
    by metis
  then have "pmc_inv P (c\<lparr>pmc_handler := h\<rparr>) sh" using m True by (simp add: pmc_inv_def manual_ok_def Let_def)
  then show ?thesis using h(1) True by (simp add: pmc_stop_manual_def)
next
  case False
  then show ?thesis using assms(1) by (simp add: pmc_stop_manual_def ex_bool_eq)
qed

lemma pause_recover_inv:
  assumes "pmc_inv P c sh" "0 < T" "0 \<le> mw_remaining (mrt_wrapper (pmc_handler c))"
  shows "\<exists>b c'. pmc_pause_recover T u c = Inr (b, c') \<and> pmc_inv P c' sh
    \<and> (b \<longrightarrow> pmc_state c' = RecoveringPausing \<or> pmc_state c' = RecoveringPaused) \<and> (\<not> b \<longrightarrow> c' = c)"
proof (cases "pmc_state c = Recovering")
  case True
  let ?h = "pmc_handler c" and ?w = "mrt_wrapper (pmc_handler c)"
  have m: "back_ok P c sh" "is_axis (global_cmd_axis sh)" using assms(1) True by (simp_all add: pmc_inv_def)
  then have oc: "on_course (start_pos ?h) (target_pos ?h) ?h" by (simp add: back_ok_def Let_def)
  then have i: "mw_inv ?w" "mw_is_started ?w" by (simp_all add: on_course_def pm_inv_def)
  obtain b w where w: "mw_pause T u ?w = Inr (b, w)" "b \<longrightarrow> mw_state w \<in> {MW_Pausing, MW_Paused}" "\<not> b \<longrightarrow> w = ?w"
    using mw_pause_inv[OF i(1) assms(2) i(2), of u] by (auto split: if_splits)
  define h where "h = ?h\<lparr>mrt_wrapper := w\<rparr>"
  have p: "pm_pause T u ?h = Inr (b, h)" using w(1) by (simp add: pm_pause_def h_def)
  have "on_course (start_pos ?h) (target_pos ?h) h"
    by (rule on_course_step[OF move_step.pause[OF assms(3) p] assms(2) oc])
  then have inv: "back_ok P (c\<lparr>pmc_handler := h\<rparr>) sh" using m(1) by (simp add: back_ok_def Let_def h_def)
  then have "pmc_inv P (c\<lparr>pmc_handler := h, pmc_state := RecoveringPausing\<rparr>) sh" if b
    using that m(2) w(2) by (simp add: pmc_inv_def back_ok_def h_def pm_state_def)
  moreover have "c\<lparr>pmc_handler := h\<rparr> = c" if "\<not> b" using that w(3) by (simp add: h_def)
  ultimately show ?thesis using p True assms(1)
    by (cases b) (simp_all add: pmc_pause_recover_def ex_bool_eq)
next
  case False
  then show ?thesis using assms(1)
    by (cases "pmc_state c = RecoveringPausing \<or> pmc_state c = RecoveringPaused") (simp_all add: pmc_pause_recover_def ex_bool_eq)
qed

lemma resume_recover_inv:
  assumes "pmc_inv P c sh" "0 < T"
  shows "pmc_inv P (snd (pmc_resume_recover T u c)) sh"
    and "pmc_state c = RecoveringPaused \<Longrightarrow> fst (pmc_resume_recover T u c) \<and> pmc_state (snd (pmc_resume_recover T u c)) = Recovering"
proof -
  let ?h = "pmc_handler c" and ?r = "pm_resume T u (pmc_handler c)"
  have main: "pmc_inv P (snd (pmc_resume_recover T u c)) sh
      \<and> fst (pmc_resume_recover T u c) \<and> pmc_state (snd (pmc_resume_recover T u c)) = Recovering" if st: "pmc_state c = RecoveringPaused"
  proof -
    have m: "back_ok P c sh" "is_axis (global_cmd_axis sh)" "pm_state ?h = MW_Paused" using assms(1) st by (simp_all add: pmc_inv_def)
    then have oc: "on_course (start_pos ?h) (target_pos ?h) ?h" by (simp add: back_ok_def Let_def)
    then have i: "mw_inv (mrt_wrapper ?h)" by (simp add: on_course_def pm_inv_def)
    have b: "fst ?r" "pm_state (snd ?r) \<in> {MW_Running, MW_Stopped}"
      using mw_resume_inv(5)[OF i assms(2), of u] m(3) by (simp_all add: pm_resume_def pm_state_def case_prod_beta)
    have "on_course (start_pos ?h) (target_pos ?h) (snd ?r)" by (rule on_course_step[OF move_step.resume assms(2) oc])
    then have "back_ok P (c\<lparr>pmc_handler := snd ?r\<rparr>) sh" using m(1) by (simp add: back_ok_def Let_def pm_calls_keep_pos)
    then show ?thesis using st b m(2) by (simp add: pmc_resume_recover_def pmc_inv_def back_ok_def case_prod_beta Let_def)
  qed
  show "pmc_state c = RecoveringPaused \<Longrightarrow> fst (pmc_resume_recover T u c) \<and> pmc_state (snd (pmc_resume_recover T u c)) = Recovering"
    using main by blast
  show "pmc_inv P (snd (pmc_resume_recover T u c)) sh"
    using main assms(1) by (cases "pmc_state c = RecoveringPaused") (simp_all add: pmc_resume_recover_def)
qed

lemma pmc_stop_inv:
  assumes "pmc_inv P c sh" "0 < T"
  shows "\<exists>b c'. pmc_stop T u imm c = Inr (b, c') \<and> pmc_inv P c' sh \<and> b
    \<and> (pmc_state c' = OutSideStopping \<or> pmc_state c' = OutSideOrErrorStopped)"
proof (cases "pmc_state c \<in> {ManualPointMoving, Recovering, RecoveringPausing}")
  case True
  let ?h = "pmc_handler c"
  have m: "pm_inv (start_pos ?h) (target_pos ?h) ?h" "is_axis (global_cmd_axis sh)"
    "move_between (start_pos ?h) (target_pos ?h)" "curr_pos ?h = global_cmd_axis sh"
    using assms(1) True by (auto simp: pmc_inv_def manual_ok_def back_ok_def on_course_def Let_def)
  from pm_stop_ok[OF m(1) assms(2)] obtain b h where h: "pm_stop T u imm ?h = Inr (b, h)"
    "pm_inv (start_pos ?h) (target_pos ?h) h" "curr_pos h = curr_pos ?h" "start_pos h = start_pos ?h" "target_pos h = target_pos ?h"
    by metis
  then have "pmc_inv P (c\<lparr>pmc_handler := h, pmc_state := OutSideStopping\<rparr>) sh" using m by (simp add: pmc_inv_def)
  then show ?thesis using h(1) True
    by (intro exI[of _ True] exI[of _ "c\<lparr>pmc_handler := h, pmc_state := OutSideStopping\<rparr>"]) (auto simp: pmc_stop_def)
next
  case False
  have ni: "pmc_state c \<noteq> NotInited" using assms(1) by (auto simp: pmc_inv_def)
  have "pmc_inv P (c\<lparr>pmc_state := OutSideOrErrorStopped\<rparr>) sh" using assms(1) by (simp add: pmc_inv_def)
  then show ?thesis using False ni assms(1) by (cases "pmc_state c") (simp_all add: pmc_stop_def ex_bool_eq)
qed

lemma start_segment_ok:
  assumes "trail p P (x # xs)" "0 < T"
  shows "fst (start_segment T u x h) \<and> on_course p (seg_start_point x) (snd (start_segment T u x h))
    \<and> move_between p (seg_start_point x) \<and> trail (seg_start_point x) P xs
    \<and> start_pos (snd (start_segment T u x h)) = p \<and> target_pos (snd (start_segment T u x h)) = seg_start_point x
    \<and> curr_pos (snd (start_segment T u x h)) = p \<and> pm_state (snd (start_segment T u x h)) = MW_Running"
  using assms pm_start_inv(1,3)[of p "seg_start_point x"] pm_start_on_course[of p "seg_start_point x"]
  by (simp add: start_segment_def pm_start_sel move_between_def)

lemma activate_recover_inv:
  assumes "pmc_inv P c sh" "0 < T" "pmc_state c \<in> {AllowManualPointMove, ManualPointMoving}"
  shows "pmc_inv P (snd (pmc_activate_recover T u c)) sh"
    and "if pmc_state c = ManualPointMoving then pmc_activate_recover T u c = (False, c)
         else fst (pmc_activate_recover T u c) \<and> pmc_state (snd (pmc_activate_recover T u c)) \<in> {Recovering, RecorverOver}"
proof -
  have main: "pmc_inv P (snd (pmc_activate_recover T u c)) sh \<and> fst (pmc_activate_recover T u c)
      \<and> pmc_state (snd (pmc_activate_recover T u c)) \<in> {Recovering, RecorverOver}" if st: "pmc_state c = AllowManualPointMove"
  proof (cases "axis_recorder c")
    case Nil
    then show ?thesis using assms(1) st by (auto simp: pmc_activate_recover_def pmc_inv_def)
  next
    case (Cons x xs)
    have "trail (global_cmd_axis sh) P (x # xs)" using assms(1) st Cons by (simp add: pmc_inv_def)
    note s = start_segment_ok[OF this assms(2), of u "pmc_handler c"]
    have "is_axis (global_cmd_axis sh)" using assms(1) by (simp add: pmc_inv_def)
    then show ?thesis using s st Cons
      by (simp add: pmc_activate_recover_def pmc_inv_def back_ok_def Let_def case_prod_beta)
  qed
  have man: "pmc_activate_recover T u c = (False, c)" if "pmc_state c = ManualPointMoving"
    using that by (simp add: pmc_activate_recover_def)
  show "pmc_inv P (snd (pmc_activate_recover T u c)) sh" using main man assms(1,3) by auto
  show "if pmc_state c = ManualPointMoving then pmc_activate_recover T u c = (False, c)
         else fst (pmc_activate_recover T u c) \<and> pmc_state (snd (pmc_activate_recover T u c)) \<in> {Recovering, RecorverOver}"
    using main man assms(3) by auto
qed

lemma run_handler_sel:
  "pmc_handler (fst (pmc_run_handler c sh)) = pm_run_once (pmc_handler c)"
  "axis_recorder (fst (pmc_run_handler c sh)) = axis_recorder c" "pmc_state (fst (pmc_run_handler c sh)) = pmc_state c"
  "global_cmd_axis (snd (pmc_run_handler c sh)) = curr_pos (pm_run_once (pmc_handler c))"
  "signals_arr (snd (pmc_run_handler c sh)) = signals_arr sh"
  by (simp_all add: pmc_run_handler_def Let_def set_cmd_axis_def)

lemma manual_run_inv:
  assumes "pmc_inv P c sh" "pmc_state c = ManualPointMoving" "0 < T"
  shows "\<exists>c' sh'. manual_pointmoving T u c sh = Inr (c', sh') \<and> pmc_inv P c' sh'
    \<and> pmc_state c' \<in> {AllowManualPointMove, ManualPointMoving}"
proof -
  let ?h = "pmc_handler c"
  have m: "pm_inv (start_pos ?h) (target_pos ?h) ?h" "move_between (start_pos ?h) (target_pos ?h)"
    "curr_pos ?h = global_cmd_axis sh" "trail (start_pos ?h) P (axis_recorder c)" "is_axis (global_cmd_axis sh)"
    using assms(1,2) by (simp_all add: pmc_inv_def manual_ok_def Let_def)
  show ?thesis
  proof (cases "pm_is_over ?h")
    case True
    define sh' where "sh' = set_detect_enable False (set_signal MotionSignal_ManualPointMoveStopped sh)"
    define x where "x = \<lparr>seg_start_point = start_pos ?h, seg_stop_point = curr_pos ?h,
      seg_plan_param = record_speed_param (mrt_wrapper ?h)\<rparr>"
    have sp: "speed_ok (record_speed_param (mrt_wrapper ?h))" using m(1) by (simp add: pm_inv_def mw_inv_def)
    have g: "global_cmd_axis sh' = global_cmd_axis sh" by (simp add: sh'_def set_signal_def set_detect_enable_def)
    have eq: "manual_pointmoving T u c sh = Inr (if start_pos ?h = curr_pos ?h then c\<lparr>pmc_state := AllowManualPointMove\<rparr>
        else c\<lparr>axis_recorder := x # axis_recorder c, pmc_state := AllowManualPointMove\<rparr>, sh')"
      using True by (simp add: manual_pointmoving_def Let_def sh'_def x_def)
    have "trail (global_cmd_axis sh) P (x # axis_recorder c)" if "start_pos ?h \<noteq> curr_pos ?h"
      using that sp m(2-5) by (simp add: x_def move_between_def)
    moreover have "trail (global_cmd_axis sh) P (axis_recorder c)" if "start_pos ?h = curr_pos ?h"
      using that m(3,4) by simp
    ultimately have "pmc_inv P (if start_pos ?h = curr_pos ?h then c\<lparr>pmc_state := AllowManualPointMove\<rparr>
        else c\<lparr>axis_recorder := x # axis_recorder c, pmc_state := AllowManualPointMove\<rparr>) sh'"
      using m(5) by (cases "start_pos ?h = curr_pos ?h") (simp_all add: pmc_inv_def g)
    then show ?thesis unfolding eq by simp
  next
    case False
    let ?g = "g00_halt (fst (run_detect_once sh)) ?h" and ?sh = "snd (run_detect_once sh)"
    have eq: "manual_pointmoving T u c sh = Inr (pmc_run_handler (c\<lparr>pmc_handler := ?g\<rparr>) ?sh)"
      using False by (simp add: manual_pointmoving_def Let_def case_prod_beta g00_halt_def pm_stop_immediate del: run_detect_sel)
    have g: "start_pos ?g = start_pos ?h" "target_pos ?g = target_pos ?h" by (simp_all add: g00_halt_def)
    note r = pm_run_inv(1)[OF g00_halt_inv[OF m(1)]]
    have "is_axis (curr_pos (pm_run_once ?g))" using pm_inv_axis[OF r] m(2) by (simp add: move_between_def)
    then have "pmc_inv P (fst (pmc_run_handler (c\<lparr>pmc_handler := ?g\<rparr>) ?sh)) (snd (pmc_run_handler (c\<lparr>pmc_handler := ?g\<rparr>) ?sh))"
      using r m(2,4) assms(2) g by (simp add: pmc_inv_def run_handler_sel manual_ok_def Let_def pm_run_pos)
    then show ?thesis using eq assms(2)
      by (intro exI[of _ "fst (pmc_run_handler (c\<lparr>pmc_handler := ?g\<rparr>) ?sh)"]
          exI[of _ "snd (pmc_run_handler (c\<lparr>pmc_handler := ?g\<rparr>) ?sh)"]) (simp add: run_handler_sel)
  qed
qed

lemma back_run_inv:
  assumes "back_ok P c sh" "is_axis (global_cmd_axis sh)"
  shows "back_ok P (fst (pmc_run_handler c sh)) (snd (pmc_run_handler c sh))" "is_axis (curr_pos (pm_run_once (pmc_handler c)))"
proof -
  let ?h = "pmc_handler c"
  have b: "on_course (start_pos ?h) (target_pos ?h) ?h" "move_between (start_pos ?h) (target_pos ?h)" "trail (target_pos ?h) P (axis_recorder c)"
    using assms(1) by (simp_all add: back_ok_def Let_def)
  note r = on_course_run[OF b(1)]
  then show "back_ok P (fst (pmc_run_handler c sh)) (snd (pmc_run_handler c sh))"
    using b by (simp add: back_ok_def Let_def run_handler_sel pm_run_pos)
  show "is_axis (curr_pos (pm_run_once ?h))"
    using pm_inv_axis[of "start_pos ?h" "target_pos ?h"] r b(2) by (simp add: on_course_def move_between_def)
qed

lemma back_over:
  assumes "back_ok P c sh" "pm_is_over (pmc_handler c)"
  shows "global_cmd_axis sh = target_pos (pmc_handler c)"
  using assms on_course_stopped[of "start_pos (pmc_handler c)" "target_pos (pmc_handler c)" "pmc_handler c"]
  by (auto simp: back_ok_def Let_def pm_is_over_def mw_is_stopped_def pm_state_def move_between_def on_course_def pm_inv_def mw_is_started_def)

lemma recovering_inv:
  assumes "pmc_inv P c sh" "pmc_state c = Recovering" "0 < T"
  shows "pmc_inv P (fst (recovering T u c sh)) (snd (recovering T u c sh))"
    and "pmc_state (fst (recovering T u c sh)) \<in> {Recovering, RecorverOver}"
proof -
  have m: "back_ok P c sh" "is_axis (global_cmd_axis sh)" "pm_state (pmc_handler c) \<in> {MW_Running, MW_Stopped}"
    using assms(1,2) by (simp_all add: pmc_inv_def)
  have t: "trail (target_pos (pmc_handler c)) P (axis_recorder c)" using m(1) by (simp add: back_ok_def Let_def)
  have "pmc_inv P (fst (recovering T u c sh)) (snd (recovering T u c sh)) \<and> pmc_state (fst (recovering T u c sh)) \<in> {Recovering, RecorverOver}"
  proof (cases "pm_is_over (pmc_handler c)")
    case False
    have "pm_state (pm_run_once (pmc_handler c)) \<in> {MW_Running, MW_Stopped}"
      using run_state[of _ _ "pmc_handler c" MW_Running] m(1,3) by (auto simp: back_ok_def Let_def mw_rest_def)
    then show ?thesis using False back_run_inv[OF m(1,2)] assms(2) by (simp add: recovering_def pmc_inv_def run_handler_sel)
  next
    case over: True
    note e = back_over[OF m(1) over]
    show ?thesis
    proof (cases "axis_recorder c")
      case Nil
      then show ?thesis using over e t m(2) by (simp add: recovering_def pmc_inv_def)
    next
      case (Cons x xs)
      have "trail (global_cmd_axis sh) P (x # xs)" using t e Cons by simp
      note s = start_segment_ok[OF this assms(3), of u "pmc_handler c"]
      show ?thesis using over Cons m(2) s assms(2)
        by (simp add: recovering_def pmc_inv_def back_ok_def Let_def)
    qed
  qed
  then show "pmc_inv P (fst (recovering T u c sh)) (snd (recovering T u c sh))" "pmc_state (fst (recovering T u c sh)) \<in> {Recovering, RecorverOver}"
    by blast+
qed

lemma pausing_inv:
  assumes "pmc_inv P c sh" "pmc_state c = RecoveringPausing"
  shows "pmc_inv P (fst (recovering_pausing c sh)) (snd (recovering_pausing c sh))"
    and "pmc_state (fst (recovering_pausing c sh)) \<in> {RecoveringPausing, RecoveringPaused}"
proof -
  have m: "back_ok P c sh" "is_axis (global_cmd_axis sh)" "pm_state (pmc_handler c) \<in> {MW_Pausing, MW_Paused}"
    using assms by (simp_all add: pmc_inv_def)
  have "pm_state (pm_run_once (pmc_handler c)) \<in> {MW_Pausing, MW_Paused}"
    using run_state[of _ _ "pmc_handler c" MW_Pausing] m(1,3) by (auto simp: back_ok_def Let_def mw_rest_def)
  then have "pmc_inv P (fst (pmc_run_handler c sh)) (snd (pmc_run_handler c sh))"
    using back_run_inv[OF m(1,2)] assms(2) by (simp add: pmc_inv_def run_handler_sel)
  moreover have "pmc_inv P (c\<lparr>pmc_state := RecoveringPaused\<rparr>) sh" if "pm_state (pmc_handler c) = MW_Paused"
    using m that by (simp add: pmc_inv_def back_ok_def)
  ultimately show "pmc_inv P (fst (recovering_pausing c sh)) (snd (recovering_pausing c sh))"
    "pmc_state (fst (recovering_pausing c sh)) \<in> {RecoveringPausing, RecoveringPaused}"
    using assms(2) by (simp_all add: recovering_pausing_def run_handler_sel)
qed

lemma outside_inv:
  assumes "pmc_inv P c sh" "pmc_state c = OutSideStopping"
  shows "pmc_inv P (fst (outside_stopping c sh)) (snd (outside_stopping c sh))"
    and "pmc_state (fst (outside_stopping c sh)) \<in> {OutSideStopping, OutSideOrErrorStopped}"
proof -
  let ?h = "pmc_handler c"
  have m: "pm_inv (start_pos ?h) (target_pos ?h) ?h" "move_between (start_pos ?h) (target_pos ?h)" "is_axis (global_cmd_axis sh)"
    using assms by (simp_all add: pmc_inv_def)
  note r = pm_run_inv(1)[OF m(1)]
  have "is_axis (curr_pos (pm_run_once ?h))" using pm_inv_axis[OF r] m(2) by (simp add: move_between_def)
  then show "pmc_inv P (fst (outside_stopping c sh)) (snd (outside_stopping c sh))"
    "pmc_state (fst (outside_stopping c sh)) \<in> {OutSideStopping, OutSideOrErrorStopped}"
    using assms(2) m r by (simp_all add: outside_stopping_def pmc_inv_def run_handler_sel pm_run_pos)
qed

lemma pmc_run_inv:
  assumes "pmc_inv P c sh" "0 < T"
  shows "\<exists>c' sh'. pmc_run_once T u c sh = Inr (c', sh') \<and> pmc_inv P c' sh'"
proof (cases "pmc_state c")
  case ManualPointMoving
  then show ?thesis using manual_run_inv[OF assms(1) _ assms(2), of u] by (auto simp: pmc_run_once_def)
next
  case Recovering
  then show ?thesis using recovering_inv(1)[OF assms(1) _ assms(2), of u] by (cases "recovering T u c sh") (simp add: pmc_run_once_def)
next
  case RecoveringPausing
  then show ?thesis using pausing_inv(1)[OF assms(1)] by (cases "recovering_pausing c sh") (simp add: pmc_run_once_def)
next
  case OutSideStopping
  then show ?thesis using outside_inv(1)[OF assms(1)] by (cases "outside_stopping c sh") (simp add: pmc_run_once_def)
qed (use assms in \<open>simp_all add: pmc_run_once_def\<close>)

section \<open>The recovery ends at the pause\<close>

text \<open>Cycles of the controller; the planner's uninitialised variables may differ from cycle to cycle.\<close>

fun pmc_runs :: "real \<Rightarrow> (nat \<Rightarrow> plan_vars) \<Rightarrow> nat \<Rightarrow> pmc \<times> shared \<Rightarrow> (motion_fault, pmc \<times> shared) result" where
  "pmc_runs T us 0 x = Inr x"
| "pmc_runs T us (Suc n) x = rbind (pmc_runs T us n x) (\<lambda>(c, sh). pmc_run_once T (us n) c sh)"

definition back_step :: "real \<Rightarrow> (nat \<Rightarrow> plan_vars) \<Rightarrow> nat \<times> pmc \<times> shared \<Rightarrow> nat \<times> pmc \<times> shared" where
  "back_step T us = (\<lambda>(n, c, sh). (Suc n, recovering T (us n) c sh))"

definition back_over_state :: "nat \<times> pmc \<times> shared \<Rightarrow> bool" where
  "back_over_state = (\<lambda>(n, c, sh). pmc_state c = RecorverOver)"

definition back_inv :: "real \<Rightarrow> axis_t \<Rightarrow> nat \<times> pmc \<times> shared \<Rightarrow> bool" where
  "back_inv T P = (\<lambda>(n, c, sh). 0 < T \<and> pmc_inv P c sh \<and> pmc_state c \<in> {Recovering, RecorverOver})"

text \<open>Segments left, then cycles left of the present one.\<close>

definition back_closer :: "((nat \<times> pmc \<times> shared) \<times> (nat \<times> pmc \<times> shared)) set" where
  "back_closer = inv_image (less_than <*lex*> less_than) (\<lambda>(n, c, sh). (length (axis_recorder c),
     if pm_is_over (pmc_handler c) then 0 else Suc (mw_left (mrt_wrapper (pmc_handler c)))))"

lemma back_run_closer:
  assumes "pmc_inv P c sh" "pmc_state c = Recovering" "\<not> pm_is_over (pmc_handler c)"
  shows "pm_is_over (pm_run_once (pmc_handler c))
    \<or> mw_left (mrt_wrapper (pm_run_once (pmc_handler c))) < mw_left (mrt_wrapper (pmc_handler c))"
proof -
  let ?h = "pmc_handler c" and ?w = "mrt_wrapper (pmc_handler c)"
  have m: "back_ok P c sh" "pm_state ?h = MW_Running"
    using assms by (auto simp: pmc_inv_def pm_is_over_def mw_is_stopped_def pm_state_def)
  then have i: "pm_inv (start_pos ?h) (target_pos ?h) ?h" "mw_inv ?w" by (simp_all add: back_ok_def on_course_def pm_inv_def Let_def)
  have mv: "mw_moving ?w" using m(2) by (simp add: mw_moving_def pm_state_def)
  have "mw_left (mw_step ?w) < mw_left ?w" using i(2) mv by (simp add: mw_left_def mw_step_moving mw_inv_def mrt_left_step)
  then show ?thesis using pm_run_inv(2)[OF i(1)] by simp
qed

interpretation recovery: eventually_over "back_step T us" back_over_state "back_inv T P" back_closer for T us P
proof
  show "wf back_closer" by (simp add: back_closer_def wf_lex_prod)
next
  fix x assume a: "back_inv T P x" "\<not> back_over_state x"
  obtain n c sh where x: "x = (n, c, sh)" by (cases x)
  have i: "pmc_inv P c sh" "pmc_state c = Recovering" "0 < T" using a x by (auto simp: back_inv_def back_over_state_def)
  show "back_inv T P (back_step T us x)"
    using recovering_inv[OF i, of "us n"] i(3) by (simp add: x back_inv_def back_step_def case_prod_beta)
  show "back_over_state (back_step T us x) \<or> (back_step T us x, x) \<in> back_closer"
  proof (cases "pm_is_over (pmc_handler c)")
    case False
    have "recovering T (us n) c sh = pmc_run_handler c sh" using False by (simp add: recovering_def)
    then show ?thesis using back_run_closer[OF i(1,2) False] False
      by (auto simp: x back_step_def back_closer_def case_prod_beta run_handler_sel)
  next
    case True
    then show ?thesis
      by (cases "axis_recorder c") (simp_all add: x back_step_def back_over_state_def back_closer_def recovering_def)
  qed
qed

lemma pmc_runs_back:
  assumes "back_inv T P (0, c, sh)" "\<forall>j<k. \<not> back_over_state ((back_step T us ^^ j) (0, c, sh))"
  shows "back_inv T P ((back_step T us ^^ k) (0, c, sh)) \<and> fst ((back_step T us ^^ k) (0, c, sh)) = k
    \<and> pmc_runs T us k (c, sh) = Inr (snd ((back_step T us ^^ k) (0, c, sh)))"
  using assms(2)
proof (induction k)
  case (Suc k)
  obtain n c' sh' where x: "(back_step T us ^^ k) (0, c, sh) = (n, c', sh')" by (cases "(back_step T us ^^ k) (0, c, sh)")
  have ih: "back_inv T P (n, c', sh')" "n = k" "pmc_runs T us k (c, sh) = Inr (c', sh')" using Suc x by auto
  have no: "\<not> back_over_state (n, c', sh')" using Suc.prems x by auto
  then have r: "pmc_state c' = Recovering" using ih(1) by (auto simp: back_inv_def back_over_state_def)
  have "back_inv T P (back_step T us (n, c', sh'))" by (rule recovery.step_inv[OF ih(1) no])
  then show ?case using ih r x by (simp add: back_step_def pmc_run_once_def)
qed (use assms(1) in simp)

lemma recovery_ends:
  assumes "pmc_inv P c sh" "pmc_state c = Recovering" "0 < T"
  shows "\<exists>k c' sh'. pmc_runs T us k (c, sh) = Inr (c', sh') \<and> pmc_state c' = RecorverOver \<and> pmc_inv P c' sh'
    \<and> global_cmd_axis sh' = P
    \<and> (\<forall>j<k. \<exists>c1 sh1. pmc_runs T us j (c, sh) = Inr (c1, sh1) \<and> pmc_state c1 = Recovering \<and> pmc_inv P c1 sh1)"
proof -
  have i: "back_inv T P (0, c, sh)" using assms by (simp add: back_inv_def)
  obtain k where k: "back_over_state ((back_step T us ^^ k) (0, c, sh))"
    "\<forall>j<k. \<not> back_over_state ((back_step T us ^^ j) (0, c, sh))" using recovery.eventually[OF i] by blast
  have all: "back_inv T P ((back_step T us ^^ j) (0, c, sh))
      \<and> pmc_runs T us j (c, sh) = Inr (snd ((back_step T us ^^ j) (0, c, sh)))" if "j \<le> k" for j
    using pmc_runs_back[OF i, of j us] k(2) that by auto
  obtain n c' sh' where x: "(back_step T us ^^ k) (0, c, sh) = (n, c', sh')" by (cases "(back_step T us ^^ k) (0, c, sh)")
  have e: "pmc_state c' = RecorverOver" "pmc_inv P c' sh'" "pmc_runs T us k (c, sh) = Inr (c', sh')"
    using all[of k] k(1) x by (auto simp: back_over_state_def back_inv_def)
  moreover have "\<exists>c1 sh1. pmc_runs T us j (c, sh) = Inr (c1, sh1) \<and> pmc_state c1 = Recovering \<and> pmc_inv P c1 sh1" if "j < k" for j
    using all[of j] k(2) that
    by (cases "(back_step T us ^^ j) (0, c, sh)") (auto simp: back_over_state_def back_inv_def)
  moreover have "global_cmd_axis sh' = P" using e(1,2) by (simp add: pmc_inv_def)
  ultimately show ?thesis by blast
qed

section \<open>From the pause and back to it\<close>

text \<open>What a client and the sensor may do in a pause: manual moves, their stops, cycles and touches.\<close>

inductive manual_step :: "real \<Rightarrow> pmc \<times> shared \<Rightarrow> pmc \<times> shared \<Rightarrow> bool" for T where
  start: "speed_ok sp \<Longrightarrow> is_axis t \<Longrightarrow>
    manual_step T (c, sh) (snd (pmc_start_manual T u sp (global_cmd_axis sh) t c sh))"
| stop: "pmc_stop_manual T u imm c = Inr (b, c') \<Longrightarrow> manual_step T (c, sh) (c', sh)"
| cycle: "pmc_state c \<in> {AllowManualPointMove, ManualPointMoving} \<Longrightarrow> pmc_run_once T u c sh = Inr (c', sh') \<Longrightarrow>
    manual_step T (c, sh) (c', sh')"
| sensor: "manual_step T (c, sh) (c, sh\<lparr>touch_physical := x, detect_enabled := y, warning := z\<rparr>)"

lemma pmc_inv_shared: "pmc_inv P c sh \<Longrightarrow> global_cmd_axis sh' = global_cmd_axis sh \<Longrightarrow> pmc_inv P c sh'"
  by (cases "pmc_state c") (auto simp: pmc_inv_def manual_ok_def back_ok_def)

lemma manual_step_inv:
  assumes "manual_step T x x'" "0 < T" "pmc_inv P (fst x) (snd x)"
  shows "pmc_inv P (fst x') (snd x')"
  using assms(1)
proof (cases rule: manual_step.cases)
  case (start sp t c sh u)
  then show ?thesis using start_manual_inv(1)[of P c sh sp t T u] assms(2,3) by simp
next
  case (stop u imm c b c' sh)
  then show ?thesis using stop_manual_inv[of P c sh T u imm] assms(2,3) by auto
next
  case (cycle c u sh c' sh')
  then show ?thesis using pmc_run_inv[of P c sh T u] assms(2,3) by auto
next
  case (sensor c sh x y z)
  then show ?thesis using pmc_inv_shared[of P c sh] assms(3) by simp
qed

lemma manual_steps_inv:
  "(manual_step T)\<^sup>*\<^sup>* x x' \<Longrightarrow> 0 < T \<Longrightarrow> pmc_inv P (fst x) (snd x) \<Longrightarrow> pmc_inv P (fst x') (snd x')"
  by (induction rule: rtranclp_induct) (blast intro: manual_step_inv)+

text \<open>C13: Whatever manual moves a client makes in a pause, stopped or ended by a touch at any place, a recovery that is
  then activated is accepted and comes back to the position of the pause exactly, after finitely many cycles.\<close>

theorem recovery_returns:
  assumes "is_axis (global_cmd_axis sh0)" "0 < T" "(manual_step T)\<^sup>*\<^sup>* (pmc_init c0, sh0) (c, sh)"
    and "pmc_state c = AllowManualPointMove"
  shows "\<exists>c1. pmc_activate_recover T u c = (True, c1) \<and>
    (\<exists>k c' sh'. pmc_runs T us k (c1, sh) = Inr (c', sh') \<and> pmc_state c' = RecorverOver
       \<and> global_cmd_axis sh' = global_cmd_axis sh0)"
proof -
  let ?P = "global_cmd_axis sh0" and ?c1 = "snd (pmc_activate_recover T u c)"
  have i: "pmc_inv ?P c sh" using manual_steps_inv[OF assms(3,2)] pmc_init_inv[OF assms(1)] by auto
  have a: "pmc_activate_recover T u c = (True, ?c1)" "pmc_state ?c1 \<in> {Recovering, RecorverOver}"
    using activate_recover_inv(2)[OF i assms(2), of u] assms(4) by (simp_all add: prod_eq_iff)
  have i1: "pmc_inv ?P ?c1 sh" using activate_recover_inv(1)[OF i assms(2)] assms(4) by simp
  have "\<exists>k c' sh'. pmc_runs T us k (?c1, sh) = Inr (c', sh') \<and> pmc_state c' = RecorverOver \<and> global_cmd_axis sh' = ?P"
  proof (cases "pmc_state ?c1 = RecorverOver")
    case True
    then have "global_cmd_axis sh = ?P" using i1 by (simp add: pmc_inv_def)
    then show ?thesis using True by (intro exI[of _ 0]) simp
  next
    case False
    then show ?thesis using recovery_ends[OF i1 _ assms(2), of us] a(2) by blast
  qed
  then show ?thesis using a(1) by blast
qed

text \<open>A manual move that the client stops at once.\<close>

lemma recovery_returns_witness:
  "\<exists>c sh. (manual_step (1 / 1000))\<^sup>*\<^sup>* (pmc_init pmc_new, sample_shared) (c, sh) \<and> pmc_state c = AllowManualPointMove
    \<and> (\<exists>c1 k c' sh'. pmc_activate_recover (1 / 1000) zero_vars c = (True, c1)
         \<and> pmc_runs (1 / 1000) (\<lambda>_. zero_vars) k (c1, sh) = Inr (c', sh') \<and> global_cmd_axis sh' = sample_from)"
proof -
  let ?T = "1 / 1000 :: real"
  have ax: "is_axis (global_cmd_axis sample_shared)" using sample_move(1) by (simp add: sample_shared_def)
  obtain c sh where c: "snd (pmc_start_manual ?T zero_vars sample_speed sample_from sample_to (pmc_init pmc_new) sample_shared) = (c, sh)"
    by fastforce
  have st: "pmc_state c = ManualPointMoving"
    using c pm_start_inv(1,3)[OF sample_move, of ?T zero_vars]
    by (auto simp: pmc_start_manual_def pmc_init_def Let_def case_prod_beta pm_is_over_def mw_is_stopped_def pm_state_def)
  have s1: "(manual_step ?T)\<^sup>*\<^sup>* (pmc_init pmc_new, sample_shared) (c, sh)"
    using manual_step.start[OF sample_move(4,2), of ?T "pmc_init pmc_new" sample_shared zero_vars] c
    by (simp add: sample_shared_def)
  obtain c2 where c2: "pmc_stop_manual ?T zero_vars True c = Inr (True, c2)" "pmc_state c2 = ManualPointMoving"
    "pm_is_over (pmc_handler c2)"
    using st by (simp add: pmc_stop_manual_def pm_stop_immediate pm_is_over_def mw_is_stopped_def pm_state_def)
  have s2: "(manual_step ?T)\<^sup>*\<^sup>* (pmc_init pmc_new, sample_shared) (c2, sh)"
    by (rule rtranclp.rtrancl_into_rtrancl[OF s1 manual_step.stop[OF c2(1)]])
  obtain c3 sh3 where c3: "pmc_run_once ?T zero_vars c2 sh = Inr (c3, sh3)" "pmc_state c3 = AllowManualPointMove"
    using c2(2,3) by (cases "start_pos (pmc_handler c2) = curr_pos (pmc_handler c2)")
      (simp_all add: pmc_run_once_def manual_pointmoving_def Let_def)
  have s3: "(manual_step ?T)\<^sup>*\<^sup>* (pmc_init pmc_new, sample_shared) (c3, sh3)"
    by (rule rtranclp.rtrancl_into_rtrancl[OF s2 manual_step.cycle[OF _ c3(1)]]) (use c2(2) in simp)
  then show ?thesis using recovery_returns[OF ax _ s3 c3(2), of zero_vars "\<lambda>_. zero_vars"] c3(2)
    by (fastforce simp: sample_shared_def)
qed

end
