(* ===== verification/Auto_Task_Runner.thy ===== *)
theory Auto_Task_Runner
  imports Pause_Move_Correct
begin

text \<open>
  The runner of a task (\<^verbatim>\<open>Src/Motion/MotionStateMachine/MotionAutoTaskRunner.cpp\<close>): a state machine over
  the task, with the manual moves of a pause and the way back before the task is resumed. The
  dominated state says whether the state is the task's or that of the way back.
\<close>

section \<open>State and operations\<close>

datatype domin_state = AutoTaskRunning | PauseMoveRecoverRunning

record task_runner =
  curr_task :: "auto_task option"
  tr_state :: auto_state
  domin_state :: domin_state
  pausemove_controller :: pmc

type_synonym call_result = "(motion_fault, bool \<times> task_runner \<times> shared) result"
type_synonym run_result = "(motion_fault, task_runner \<times> shared) result"

definition tr_new :: task_runner where
  "tr_new = \<lparr>curr_task = None, tr_state = AutoStopped, domin_state = AutoTaskRunning, pausemove_controller = pmc_new\<rparr>"

text \<open>\<open>reset\<close> leaves the dominated state as it is.\<close>

definition tr_reset :: "task_runner \<Rightarrow> task_runner" where
  "tr_reset r = r\<lparr>curr_task := None, tr_state := AutoStopped, pausemove_controller := pmc_init (pausemove_controller r)\<rparr>"

definition restart_task :: "auto_task \<Rightarrow> task_runner \<Rightarrow> bool \<times> task_runner" where
  "restart_task t r = (True, r\<lparr>curr_task := Some t, tr_state := NormalMoving, domin_state := AutoTaskRunning\<rparr>)"

definition tr_pause :: "real \<Rightarrow> plan_vars \<Rightarrow> task_runner \<Rightarrow> (motion_fault, bool \<times> task_runner) result" where
  "tr_pause T u r =
     (case curr_task r of
        None \<Rightarrow> Inr (False, r)
      | Some t \<Rightarrow>
          if domin_state r = PauseMoveRecoverRunning
          then case tr_state r of
                 AutoPaused \<Rightarrow> Inr (True, r)
               | Pausing \<Rightarrow> Inr (True, r)
               | Stopping \<Rightarrow> Inr (False, r)
               | NormalMoving \<Rightarrow>
                   rbind (pmc_pause_recover T u (pausemove_controller r)) (\<lambda>(b, c).
                     let r' = r\<lparr>pausemove_controller := c\<rparr> in Inr (b, if b then r'\<lparr>tr_state := Pausing\<rparr> else r'))
               | _ \<Rightarrow> Inl Assertion
          else if tr_state r = NormalMoving \<or> tr_state r = Resuming
          then rbind (task_pause T u t) (\<lambda>(b, t').
                 let r' = r\<lparr>curr_task := Some t'\<rparr> in Inr (if b then (True, r'\<lparr>tr_state := Pausing\<rparr>) else (False, r')))
          else if tr_state r = Pausing \<or> tr_state r = AutoPaused then Inr (True, r)
          else Inr (False, r))"

definition tr_resume :: "real \<Rightarrow> plan_vars \<Rightarrow> task_runner \<Rightarrow> shared \<Rightarrow> call_result" where
  "tr_resume T u r sh =
     (case curr_task r of
        None \<Rightarrow> Inr (False, r, sh)
      | Some t \<Rightarrow>
          if domin_state r = PauseMoveRecoverRunning
          then case tr_state r of
                 NormalMoving \<Rightarrow> Inr (True, r, sh)
               | Pausing \<Rightarrow> Inr (False, r, sh)
               | Stopping \<Rightarrow> Inr (False, r, sh)
               | AutoPaused \<Rightarrow>
                   let (b, c) = pmc_resume_recover T u (pausemove_controller r); r' = r\<lparr>pausemove_controller := c\<rparr>
                   in Inr (if b then (True, r'\<lparr>tr_state := NormalMoving\<rparr>, set_signal MotionSignal_AutoResumed sh)
                           else (False, r', sh))
               | _ \<Rightarrow> Inl Assertion
          else case tr_state r of
                 AutoPaused \<Rightarrow>
                   let (b, c) = pmc_activate_recover T u (pausemove_controller r); r' = r\<lparr>pausemove_controller := c\<rparr>
                   in Inr (if b then (True, r'\<lparr>domin_state := PauseMoveRecoverRunning, tr_state := NormalMoving\<rparr>,
                                      set_signal MotionSignal_AutoResumed sh)
                           else (False, r', sh))
               | Resuming \<Rightarrow> Inr (True, r, sh)
               | _ \<Rightarrow> Inr (False, r, sh))"

text \<open>A stop in a pause does not touch the task, nor a manual move of the pause.\<close>

definition tr_stop :: "real \<Rightarrow> plan_vars \<Rightarrow> bool \<Rightarrow> task_runner \<Rightarrow> (motion_fault, bool \<times> task_runner) result" where
  "tr_stop T u imm r =
     (case curr_task r of
        None \<Rightarrow> Inr (False, r)
      | Some t \<Rightarrow>
          if domin_state r = PauseMoveRecoverRunning
          then case tr_state r of
                 Stopping \<Rightarrow> Inr (True, r)
               | AutoStopped \<Rightarrow> Inl Assertion
               | Resuming \<Rightarrow> Inl Assertion
               | _ \<Rightarrow>
                   rbind (pmc_stop T u imm (pausemove_controller r)) (\<lambda>(b, c).
                     let r' = r\<lparr>pausemove_controller := c\<rparr> in Inr (b, if b then r'\<lparr>tr_state := Stopping\<rparr> else r'))
          else if tr_state r \<in> {NormalMoving, Resuming, Pausing}
          then rbind (task_stop T u imm t) (\<lambda>(b, t').
                 let r' = r\<lparr>curr_task := Some t'\<rparr> in Inr (if b then (True, r'\<lparr>tr_state := Stopping\<rparr>) else (False, r')))
          else if tr_state r = AutoPaused then Inr (True, r\<lparr>tr_state := AutoStopped\<rparr>)
          else Inr (True, r))"

definition tr_start_manual ::
  "real \<Rightarrow> plan_vars \<Rightarrow> speed_param \<Rightarrow> axis_t \<Rightarrow> axis_t \<Rightarrow> task_runner \<Rightarrow> shared \<Rightarrow> bool \<times> task_runner \<times> shared" where
  "tr_start_manual T u sp s t r sh =
     (if tr_state r \<noteq> AutoPaused \<or> domin_state r \<noteq> AutoTaskRunning then (False, r, sh)
      else case pmc_start_manual T u sp s t (pausemove_controller r) sh of
             (b, c, sh') \<Rightarrow> (b, r\<lparr>pausemove_controller := c\<rparr>, sh'))"

definition tr_stop_manual :: "real \<Rightarrow> plan_vars \<Rightarrow> bool \<Rightarrow> task_runner \<Rightarrow> (motion_fault, bool \<times> task_runner) result" where
  "tr_stop_manual T u imm r =
     (if tr_state r \<noteq> AutoPaused \<or> domin_state r \<noteq> AutoTaskRunning then Inr (False, r)
      else rbind (pmc_stop_manual T u imm (pausemove_controller r)) (\<lambda>(b, c). Inr (b, r\<lparr>pausemove_controller := c\<rparr>)))"

section \<open>One cycle\<close>

text \<open>\<open>_normal_moving\<close>, \<open>_pausing\<close>, \<open>_resuming\<close> and \<open>_stopping\<close> run the task \<open>t\<close> first.\<close>

definition tr_run_task ::
  "real \<Rightarrow> plan_vars \<Rightarrow> auto_task \<Rightarrow> (auto_task \<Rightarrow> task_runner \<Rightarrow> shared \<Rightarrow> task_runner \<times> shared) \<Rightarrow> task_runner \<Rightarrow> shared \<Rightarrow> run_result" where
  "tr_run_task T u t next r sh =
     rbind (task_run_once T u t sh) (\<lambda>(t', sh'). Inr (next t' (r\<lparr>curr_task := Some t'\<rparr>) sh'))"

definition after_normal_moving :: "auto_task \<Rightarrow> task_runner \<Rightarrow> shared \<Rightarrow> task_runner \<times> shared" where
  "after_normal_moving t r sh =
     (if task_pausing t \<or> task_paused t then (r\<lparr>tr_state := Pausing\<rparr>, sh)
      else if task_stopping t \<or> task_stopped t then (r\<lparr>tr_state := Stopping\<rparr>, sh)
      else (r, sh))"

definition after_pausing :: "auto_task \<Rightarrow> task_runner \<Rightarrow> shared \<Rightarrow> task_runner \<times> shared" where
  "after_pausing t r sh =
     (if task_paused t
      then (r\<lparr>tr_state := AutoPaused, pausemove_controller := pmc_init (pausemove_controller r)\<rparr>,
            set_signal MotionSignal_AutoPaused sh)
      else if task_stopping t \<or> task_stopped t then (r\<lparr>tr_state := Stopping\<rparr>, sh)
      else if task_normal_running t then (r\<lparr>tr_state := Resuming\<rparr>, sh)
      else (r, sh))"

definition after_resuming :: "auto_task \<Rightarrow> task_runner \<Rightarrow> shared \<Rightarrow> task_runner \<times> shared" where
  "after_resuming t r sh =
     (if task_normal_running t then (r\<lparr>tr_state := NormalMoving\<rparr>, set_signal MotionSignal_AutoResumed sh)
      else if task_stopping t \<or> task_stopped t then (r\<lparr>tr_state := Stopping\<rparr>, set_signal MotionSignal_AutoResumed sh)
      else if task_pausing t \<or> task_paused t then (r\<lparr>tr_state := Pausing\<rparr>, sh)
      else (r, sh))"

definition after_stopping :: "auto_task \<Rightarrow> task_runner \<Rightarrow> shared \<Rightarrow> task_runner \<times> shared" where
  "after_stopping t r sh =
     (if task_stopped t then (r\<lparr>tr_state := AutoStopped\<rparr>, set_signal MotionSignal_AutoStopped sh) else (r, sh))"

definition tr_run_pmc :: "real \<Rightarrow> plan_vars \<Rightarrow> task_runner \<Rightarrow> shared \<Rightarrow> run_result" where
  "tr_run_pmc T u r sh =
     rbind (pmc_run_once T u (pausemove_controller r) sh) (\<lambda>(c, sh'). Inr (r\<lparr>pausemove_controller := c\<rparr>, sh'))"

definition pmrecovering_run_once :: "real \<Rightarrow> plan_vars \<Rightarrow> auto_task \<Rightarrow> task_runner \<Rightarrow> shared \<Rightarrow> run_result" where
  "pmrecovering_run_once T u t r sh =
     (case tr_state r of
        NormalMoving \<Rightarrow>
          rbind (tr_run_pmc T u r sh) (\<lambda>(r1, sh1).
            Inr (if pmc_state (pausemove_controller r1) = OutSideOrErrorStopped
                 then (r1\<lparr>tr_state := AutoStopped\<rparr>, set_signal MotionSignal_AutoStopped sh1)
                 else if pmc_state (pausemove_controller r1) = RecorverOver
                 then let (b, t') = task_resume T u t; r2 = r1\<lparr>curr_task := Some t'\<rparr>
                      in if b then (r2\<lparr>domin_state := AutoTaskRunning, tr_state := Resuming\<rparr>, sh1) else (r2, sh1)
                 else (r1, sh1)))
      | Pausing \<Rightarrow>
          rbind (tr_run_pmc T u r sh) (\<lambda>(r1, sh1).
            Inr (if pmc_state (pausemove_controller r1) = RecoveringPaused
                 then (r1\<lparr>tr_state := AutoPaused\<rparr>, set_signal MotionSignal_AutoPaused sh1) else (r1, sh1)))
      | AutoPaused \<Rightarrow> Inr (r, sh)
      | Stopping \<Rightarrow>
          rbind (tr_run_pmc T u r sh) (\<lambda>(r1, sh1).
            Inr (if pmc_state (pausemove_controller r1) = OutSideOrErrorStopped
                 then (r1\<lparr>tr_state := AutoStopped, domin_state := AutoTaskRunning\<rparr>, set_signal MotionSignal_AutoStopped sh1)
                 else (r1, sh1)))
      | _ \<Rightarrow> Inl Assertion)"

definition tr_run_once :: "real \<Rightarrow> plan_vars \<Rightarrow> task_runner \<Rightarrow> shared \<Rightarrow> run_result" where
  "tr_run_once T u r sh =
     (case curr_task r of
        None \<Rightarrow> Inr (r, sh)
      | Some t \<Rightarrow>
          if domin_state r = PauseMoveRecoverRunning then pmrecovering_run_once T u t r sh
          else case tr_state r of
                 NormalMoving \<Rightarrow> tr_run_task T u t after_normal_moving r sh
               | Pausing \<Rightarrow> tr_run_task T u t after_pausing r sh
               | AutoPaused \<Rightarrow> tr_run_pmc T u r sh
               | Resuming \<Rightarrow> tr_run_task T u t after_resuming r sh
               | Stopping \<Rightarrow> tr_run_task T u t after_stopping r sh
               | AutoStopped \<Rightarrow> Inr (r, sh))"

section \<open>The invariant\<close>

text \<open>
  What the header of the class says of the two dominated states, and where the axes are: in a
  pause the task is paused, the manual moves can be undone to the task's position, and on the
  way back the states are those the header lists. \<open>P\<close> is the position of the pause.
\<close>

definition tr_task :: "task_runner \<Rightarrow> auto_task" where
  "tr_task r = the (curr_task r)"

definition paused_ok :: "task_runner \<Rightarrow> shared \<Rightarrow> axis_t \<Rightarrow> bool" where
  "paused_ok r sh P \<longleftrightarrow> task_paused (tr_task r) \<and> task.at_pos P (tr_task r) \<and> pmc_inv P (pausemove_controller r) sh"

definition tr_inv :: "task_runner \<Rightarrow> shared \<Rightarrow> bool" where
  "tr_inv r sh \<longleftrightarrow> is_axis (global_cmd_axis sh) \<and>
     (case curr_task r of
        None \<Rightarrow> tr_state r = AutoStopped
      | Some t \<Rightarrow> task_ok sh t \<and>
          (if domin_state r = AutoTaskRunning
           then (case tr_state r of
                   AutoPaused \<Rightarrow> (\<exists>P. paused_ok r sh P)
                     \<and> pmc_state (pausemove_controller r) \<in> {AllowManualPointMove, ManualPointMoving}
                 | AutoStopped \<Rightarrow> True
                 | _ \<Rightarrow> task.at_pos (global_cmd_axis sh) t)
           else tr_state r \<in> {NormalMoving, Pausing, AutoPaused, Stopping} \<and> (\<exists>P. paused_ok r sh P)
             \<and> pmc_state (pausemove_controller r) \<in>
                 (case tr_state r of NormalMoving \<Rightarrow> {Recovering, RecorverOver} | Pausing \<Rightarrow> {RecoveringPausing, RecoveringPaused}
                  | AutoPaused \<Rightarrow> {RecoveringPaused} | _ \<Rightarrow> {OutSideStopping, OutSideOrErrorStopped})))"

end
