(* ===== verification/Auto_Task_Runner_Correct.thy ===== *)
theory Auto_Task_Runner_Correct
  imports Auto_Task_Runner
begin

text \<open>
  No operation and no cycle of the task runner fails an assertion, and each keeps its invariant:
  the states of the way back are those the header lists, and when the task is resumed the
  commanded position is the one it was paused at.
\<close>

section \<open>Operations keep the invariant\<close>

lemma g01_pos_axis: "cut_inv s e h g \<Longrightarrow> is_axis (g01_pos g)"
proof -
  assume c: "cut_inv s e h g"
  have "is_axis (curr_pos (jump_pm_handler g))" if "servo_sub_state g \<in> {JumpUping, JumpDowning}"
  proof -
    have "\<exists>x y. flying (at_length s e x) (at_length s e y) (jump_pm_handler g)"
      using c that by (cases "servo_sub_state g") (simp_all add: cut_inv_def jump_part_def Let_def, blast+)
    then show ?thesis using pm_inv_axis line_axis[OF c] by (auto simp: flying_def on_course_def)
  qed
  then show ?thesis using lin_ok_axis[OF cut_line(4,1,2)[OF c]] by (simp add: g01_pos_def)
qed

lemma task_pos_axis: "task_ok sh t \<Longrightarrow> task_pos t = Some p \<Longrightarrow> is_axis p"
  using pm_inv_axis g01_pos_axis traj_pos_axis
  by (cases t) (auto simp: g00_ok_def g01_ok_def group_inv_def group_pos_def Let_def)

text \<open>A signal and the controller of a pause do not matter to a task.\<close>

lemma task_ok_cong: "now_ms sh' = now_ms sh \<Longrightarrow> jump_setting sh' = jump_setting sh \<Longrightarrow> task_ok sh' t = task_ok sh t"
  by (cases t) (simp_all add: g01_ok_def)

lemma task_ok_signal [simp]: "task_ok (set_signal s sh) t = task_ok sh t"
  by (rule task_ok_cong) (simp_all add: set_signal_def)

lemma pmc_run_keeps: "pmc_run_once T u c sh = Inr (c', sh') \<Longrightarrow> now_ms sh' = now_ms sh \<and> jump_setting sh' = jump_setting sh"
  by (auto simp: pmc_run_once_def manual_pointmoving_def recovering_def recovering_pausing_def outside_stopping_def pmc_run_handler_def
      shared_defs rbind_Inr_iff run_detect_once_def Let_def split: pmc_state.splits if_splits list.splits prod.splits)

lemma pmc_run_task: "pmc_run_once T u c sh = Inr (c', sh') \<Longrightarrow> task_ok sh' t = task_ok sh t"
  using pmc_run_keeps task_ok_cong by blast

lemma start_manual_keeps: "pmc_start_manual T u sp s p c sh = (b, c', sh') \<Longrightarrow> now_ms sh' = now_ms sh \<and> jump_setting sh' = jump_setting sh"
  by (auto simp: pmc_start_manual_def set_signal_def Let_def split: if_splits prod.splits)

lemma start_manual_task: "pmc_start_manual T u sp s p c sh = (b, c', sh') \<Longrightarrow> task_ok sh' t = task_ok sh t"
  using start_manual_keeps task_ok_cong by blast

lemma tr_inv_None: "curr_task r = None \<Longrightarrow> tr_inv r sh \<longleftrightarrow> is_axis (global_cmd_axis sh) \<and> tr_state r = AutoStopped"
  by (simp add: tr_inv_def)

text \<open>The cases of the invariant with a task.\<close>

lemma tr_inv_task:
  assumes "curr_task r = Some t" "domin_state r = AutoTaskRunning" "tr_state r \<noteq> AutoPaused"
  shows "tr_inv r sh \<longleftrightarrow> is_axis (global_cmd_axis sh) \<and> task_ok sh t \<and> (tr_state r = AutoStopped \<or> task.at_pos (global_cmd_axis sh) t)"
  using assms by (cases "tr_state r") (auto simp: tr_inv_def)

lemma tr_inv_paused:
  assumes "curr_task r = Some t" "domin_state r = AutoTaskRunning" "tr_state r = AutoPaused"
  shows "tr_inv r sh \<longleftrightarrow> is_axis (global_cmd_axis sh) \<and> task_ok sh t \<and> (\<exists>P. paused_ok r sh P)
    \<and> pmc_state (pausemove_controller r) \<in> {AllowManualPointMove, ManualPointMoving}"
  using assms by (auto simp: tr_inv_def)

definition recover_states :: "auto_state \<Rightarrow> pmc_state set" where
  "recover_states s = (case s of NormalMoving \<Rightarrow> {Recovering, RecorverOver} | Pausing \<Rightarrow> {RecoveringPausing, RecoveringPaused}
     | AutoPaused \<Rightarrow> {RecoveringPaused} | Stopping \<Rightarrow> {OutSideStopping, OutSideOrErrorStopped} | _ \<Rightarrow> {})"

lemma tr_inv_recover:
  assumes "curr_task r = Some t" "domin_state r = PauseMoveRecoverRunning"
  shows "tr_inv r sh \<longleftrightarrow> is_axis (global_cmd_axis sh) \<and> task_ok sh t \<and> (\<exists>P. paused_ok r sh P)
    \<and> pmc_state (pausemove_controller r) \<in> recover_states (tr_state r)"
  using assms by (cases "tr_state r") (auto simp: tr_inv_def recover_states_def)

lemma paused_ok_cong:
  assumes "paused_ok r sh P" "curr_task r' = curr_task r" "pmc_inv P (pausemove_controller r') sh'"
  shows "paused_ok r' sh' P"
  using assms by (simp add: paused_ok_def tr_task_def)

lemma tr_reset_inv: "is_axis (global_cmd_axis sh) \<Longrightarrow> tr_inv (tr_reset r) sh"
  by (simp add: tr_inv_def tr_reset_def)

lemma restart_task_inv:
  "is_axis (global_cmd_axis sh) \<Longrightarrow> task_ok sh t \<Longrightarrow> task.at_pos (global_cmd_axis sh) t \<Longrightarrow> tr_inv (snd (restart_task t r)) sh"
  by (simp add: tr_inv_def restart_task_def)

lemma tr_pause_inv:
  assumes "tr_inv r sh" "0 < T" "0 \<le> mw_remaining (mrt_wrapper (pmc_handler (pausemove_controller r)))"
  shows "\<exists>b r'. tr_pause T u r = Inr (b, r') \<and> tr_inv r' sh"
proof (cases "curr_task r")
  case None
  then show ?thesis using assms(1) by (simp add: tr_pause_def ex_bool_eq)
next
  case (Some t)
  show ?thesis
  proof (cases "domin_state r")
    case AutoTaskRunning
    show ?thesis
    proof (cases "tr_state r = NormalMoving \<or> tr_state r = Resuming")
      case True
      then have st: "tr_state r \<noteq> AutoPaused" "tr_state r \<noteq> AutoStopped" by auto
      have i: "is_axis (global_cmd_axis sh)" "task_ok sh t" "task.at_pos (global_cmd_axis sh) t"
        using assms(1) st by (simp_all add: tr_inv_task[OF Some AutoTaskRunning st(1)])
      have ok: "0 < T \<and> task_ok sh t" using i(2) assms(2) by simp
      obtain b t' where p: "task_pause T u t = Inr (b, t')" "0 < T \<and> task_ok sh t'"
        "task.at_pos (global_cmd_axis sh) t' = task.at_pos (global_cmd_axis sh) t"
        using task.pause_at_pos[OF ok, of u "global_cmd_axis sh"] by metis
      define r' where "r' = (if b then r\<lparr>curr_task := Some t', tr_state := Pausing\<rparr> else r\<lparr>curr_task := Some t'\<rparr>)"
      have e: "tr_pause T u r = Inr (b, r')"
        using Some AutoTaskRunning True p(1) by (simp add: tr_pause_def r'_def Let_def)
      have f: "curr_task r' = Some t'" "domin_state r' = AutoTaskRunning" "tr_state r' \<noteq> AutoPaused"
        using AutoTaskRunning st by (simp_all add: r'_def)
      have "tr_inv r' sh" unfolding tr_inv_task[OF f] using i p(2,3) by blast
      then show ?thesis using e by blast
    next
      case False
      then show ?thesis using Some AutoTaskRunning assms(1)
        by (cases "tr_state r") (simp_all add: tr_pause_def ex_bool_eq)
    qed
  next
    case PauseMoveRecoverRunning
    note iff = tr_inv_recover[OF Some PauseMoveRecoverRunning]
    show ?thesis
    proof (cases "tr_state r = NormalMoving")
      case True
      obtain P where P: "paused_ok r sh P" using assms(1) iff by blast
      then have "pmc_inv P (pausemove_controller r) sh" by (simp add: paused_ok_def)
      from pause_recover_inv[OF this assms(2,3), of u] obtain b c where
        c: "pmc_pause_recover T u (pausemove_controller r) = Inr (b, c)" "pmc_inv P c sh"
        "b \<longrightarrow> pmc_state c = RecoveringPausing \<or> pmc_state c = RecoveringPaused" "\<not> b \<longrightarrow> c = pausemove_controller r" by blast
      define r' where "r' = (if b then r\<lparr>pausemove_controller := c, tr_state := Pausing\<rparr> else r\<lparr>pausemove_controller := c\<rparr>)"
      have e: "tr_pause T u r = Inr (b, r')"
        using Some PauseMoveRecoverRunning True c(1) by (simp add: tr_pause_def r'_def Let_def)
      have f: "curr_task r' = Some t" "domin_state r' = PauseMoveRecoverRunning" "pausemove_controller r' = c"
        using Some PauseMoveRecoverRunning by (simp_all add: r'_def)
      have "paused_ok r' sh P" using paused_ok_cong[OF P, of r' sh] f Some c(2) by simp
      moreover have "pmc_state c \<in> recover_states (tr_state r')"
        using c(3,4) True assms(1) iff by (cases b) (auto simp: r'_def recover_states_def)
      ultimately have "tr_inv r' sh" unfolding tr_inv_recover[OF f(1,2)] using assms(1) iff f(3) by auto
      then show ?thesis using e by blast
    next
      case False
      then show ?thesis using Some PauseMoveRecoverRunning assms(1) iff
        by (cases "tr_state r") (simp_all add: tr_pause_def recover_states_def ex_bool_eq)
    qed
  qed
qed

lemma tr_resume_inv:
  assumes "tr_inv r sh" "0 < T"
  shows "\<exists>b r' sh'. tr_resume T u r sh = Inr (b, r', sh') \<and> tr_inv r' sh' \<and> global_cmd_axis sh' = global_cmd_axis sh"
proof (cases "curr_task r")
  case None
  then show ?thesis using assms(1) by (simp add: tr_resume_def ex_bool_eq)
next
  case (Some t)
  let ?c = "pausemove_controller r" and ?sh = "set_signal MotionSignal_AutoResumed sh"
  have sig: "pmc_inv P c ?sh = pmc_inv P c sh" for P c
    by (cases "pmc_state c") (simp_all add: pmc_inv_def set_signal_def manual_ok_def back_ok_def)
  have gl: "global_cmd_axis ?sh = global_cmd_axis sh" by (simp add: set_signal_def)
  show ?thesis
  proof (cases "tr_state r = AutoPaused")
    case False
    then show ?thesis using Some assms(1) tr_inv_recover[OF Some]
      by (cases "domin_state r"; cases "tr_state r") (simp_all add: tr_resume_def recover_states_def ex_bool_eq)
  next
    case True
    obtain P where P: "paused_ok r sh P"
      using assms(1) True tr_inv_recover[OF Some] tr_inv_paused[OF Some] by (cases "domin_state r") auto
    then have pi: "pmc_inv P ?c sh" by (simp add: paused_ok_def)
    have base: "is_axis (global_cmd_axis sh)" "task_ok sh t" using assms(1) Some by (simp_all add: tr_inv_def)
    define bc where "bc = (if domin_state r = AutoTaskRunning then pmc_activate_recover T u ?c else pmc_resume_recover T u ?c)"
    define r' where "r' = r\<lparr>pausemove_controller := snd bc, domin_state := PauseMoveRecoverRunning, tr_state := NormalMoving\<rparr>"
    have bc: "pmc_inv P (snd bc) sh \<and> (fst bc \<longrightarrow> pmc_state (snd bc) \<in> {Recovering, RecorverOver})
        \<and> (\<not> fst bc \<longrightarrow> snd bc = ?c \<and> domin_state r = AutoTaskRunning)"
    proof (cases "domin_state r")
      case AutoTaskRunning
      have st: "pmc_state ?c \<in> {AllowManualPointMove, ManualPointMoving}"
        using assms(1) tr_inv_paused[OF Some AutoTaskRunning True] by blast
      show ?thesis using activate_recover_inv[OF pi assms(2) st, of u] AutoTaskRunning by (auto simp: bc_def split: if_splits)
    next
      case PauseMoveRecoverRunning
      have st: "pmc_state ?c = RecoveringPaused"
        using assms(1) tr_inv_recover[OF Some PauseMoveRecoverRunning] True by (simp add: recover_states_def)
      show ?thesis using resume_recover_inv(1)[OF pi assms(2), of u] resume_recover_inv(2)[OF pi assms(2) st, of u]
          PauseMoveRecoverRunning by (simp add: bc_def)
    qed
    have e: "tr_resume T u r sh = Inr (if fst bc then (True, r', ?sh) else (False, r, sh))"
    proof (cases "domin_state r")
      case AutoTaskRunning
      have same: "r\<lparr>pausemove_controller := snd bc\<rparr> = r" if "\<not> fst bc" using bc that by simp
      have act: "bc = pmc_activate_recover T u ?c" using AutoTaskRunning by (simp add: bc_def)
      show ?thesis using Some True AutoTaskRunning same
        by (cases "fst bc") (simp_all add: tr_resume_def act[symmetric] r'_def Let_def case_prod_beta)
    next
      case PauseMoveRecoverRunning
      have fb: "fst bc" using bc PauseMoveRecoverRunning by auto
      have act: "bc = pmc_resume_recover T u ?c" using PauseMoveRecoverRunning by (simp add: bc_def)
      show ?thesis using Some True PauseMoveRecoverRunning fb
        by (simp add: tr_resume_def act[symmetric] r'_def Let_def case_prod_beta)
    qed
    have f: "curr_task r' = Some t" "domin_state r' = PauseMoveRecoverRunning" "tr_state r' = NormalMoving"
      "pausemove_controller r' = snd bc" using Some by (simp_all add: r'_def)
    have "tr_inv r' ?sh" if "fst bc"
    proof -
      have "paused_ok r' ?sh P" using paused_ok_cong[OF P, of r' ?sh] f Some bc sig by simp
      then show ?thesis unfolding tr_inv_recover[OF f(1,2)] using base bc that gl f(3,4) by (auto simp: recover_states_def)
    qed
    then show ?thesis using e assms(1) gl by (cases "fst bc") (simp_all add: ex_bool_eq)
  qed
qed

lemma tr_stop_inv:
  assumes "tr_inv r sh" "0 < T"
  shows "\<exists>b r'. tr_stop T u imm r = Inr (b, r') \<and> tr_inv r' sh"
proof (cases "curr_task r")
  case None
  then show ?thesis using assms(1) tr_inv_None[OF None] by (simp add: tr_stop_def ex_bool_eq)
next
  case (Some t)
  have base: "is_axis (global_cmd_axis sh)" "task_ok sh t" using assms(1) Some by (simp_all add: tr_inv_def)
  show ?thesis
  proof (cases "domin_state r")
    case AutoTaskRunning
    show ?thesis
    proof (cases "tr_state r \<in> {NormalMoving, Resuming, Pausing}")
      case True
      then have st: "tr_state r \<noteq> AutoPaused" "tr_state r \<noteq> AutoStopped" by auto
      have ap: "task.at_pos (global_cmd_axis sh) t" using assms(1) st by (simp add: tr_inv_task[OF Some AutoTaskRunning st(1)])
      have ok: "0 < T \<and> task_ok sh t" using base assms(2) by simp
      obtain b t' where p: "task_stop T u imm t = Inr (b, t')" "0 < T \<and> task_ok sh t'"
        "task.at_pos (global_cmd_axis sh) t' = task.at_pos (global_cmd_axis sh) t"
        using task.stop_at_pos[OF ok, of u imm "global_cmd_axis sh"] by metis
      define r' where "r' = (if b then r\<lparr>curr_task := Some t', tr_state := Stopping\<rparr> else r\<lparr>curr_task := Some t'\<rparr>)"
      have e: "tr_stop T u imm r = Inr (b, r')"
        using Some AutoTaskRunning True p(1) by (simp add: tr_stop_def r'_def Let_def)
      have f: "curr_task r' = Some t'" "domin_state r' = AutoTaskRunning" "tr_state r' \<noteq> AutoPaused"
        using AutoTaskRunning st by (simp_all add: r'_def)
      have "tr_inv r' sh" unfolding tr_inv_task[OF f(1-3)] using base ap p(2,3) by blast
      then show ?thesis using e by blast
    next
      case False
      have "tr_inv (r\<lparr>tr_state := AutoStopped\<rparr>) sh" using Some AutoTaskRunning base by (simp add: tr_inv_def)
      then show ?thesis using False Some AutoTaskRunning assms(1)
        by (cases "tr_state r") (simp_all add: tr_stop_def ex_bool_eq)
    qed
  next
    case PauseMoveRecoverRunning
    note iff = tr_inv_recover[OF Some PauseMoveRecoverRunning]
    obtain P where P: "paused_ok r sh P" using assms(1) iff by blast
    then have "pmc_inv P (pausemove_controller r) sh" by (simp add: paused_ok_def)
    from pmc_stop_inv[OF this assms(2), of u imm] obtain c where
      c: "pmc_stop T u imm (pausemove_controller r) = Inr (True, c)" "pmc_inv P c sh"
      "pmc_state c \<in> recover_states Stopping" by (auto simp: recover_states_def)
    define r' where "r' = r\<lparr>pausemove_controller := c, tr_state := Stopping\<rparr>"
    have f: "curr_task r' = Some t" "domin_state r' = PauseMoveRecoverRunning" "pausemove_controller r' = c" "tr_state r' = Stopping"
      using Some PauseMoveRecoverRunning by (simp_all add: r'_def)
    have "paused_ok r' sh P" using paused_ok_cong[OF P, of r' sh] f Some c(2) by simp
    then have i: "tr_inv r' sh" unfolding tr_inv_recover[OF f(1,2)] using base c(3) f(3,4) by auto
    have "tr_stop T u imm r = (if tr_state r = Stopping then Inr (True, r) else Inr (True, r'))"
      using Some PauseMoveRecoverRunning c(1) assms(1) iff
      by (cases "tr_state r") (simp_all add: tr_stop_def r'_def Let_def recover_states_def)
    then show ?thesis using i f(4) assms(1) Some by (cases "tr_state r = Stopping") (simp_all add: ex_bool_eq)
  qed
qed

lemma tr_manual_inv:
  assumes "tr_inv r sh" "0 < T" "speed_ok sp" "is_axis t"
  shows "\<exists>b r' sh'. tr_start_manual T u sp (global_cmd_axis sh) t r sh = (b, r', sh') \<and> tr_inv r' sh'
      \<and> global_cmd_axis sh' = global_cmd_axis sh" (is ?A)
    and "\<exists>b r'. tr_stop_manual T u imm r = Inr (b, r') \<and> tr_inv r' sh" (is ?B)
proof -
  have "?A \<and> ?B"
  proof (cases "tr_state r = AutoPaused \<and> domin_state r = AutoTaskRunning")
    case False
    then show ?thesis using assms(1)
      by (cases "tr_state r = AutoPaused") (simp_all add: tr_start_manual_def tr_stop_manual_def ex_bool_eq)
  next
    case True
    then obtain tk where Some: "curr_task r = Some tk" using tr_inv_None[of r sh] assms(1) by (cases "curr_task r") auto
    let ?c = "pausemove_controller r" and ?g = "global_cmd_axis sh"
    note iff = tr_inv_paused[OF Some conjunct2[OF True] conjunct1[OF True]]
    obtain P where P: "paused_ok r sh P" using assms(1) iff by blast
    then have pi: "pmc_inv P ?c sh" by (simp add: paused_ok_def)
    have st: "pmc_state ?c \<in> {AllowManualPointMove, ManualPointMoving}" using assms(1) iff by blast
    have put: "tr_inv (r\<lparr>pausemove_controller := c\<rparr>) sh'"
      if "pmc_inv P c sh'" "pmc_state c \<in> {AllowManualPointMove, ManualPointMoving}" "task_ok sh' tk = task_ok sh tk" for c sh'
    proof -
      have f: "curr_task (r\<lparr>pausemove_controller := c\<rparr>) = Some tk" "domin_state (r\<lparr>pausemove_controller := c\<rparr>) = AutoTaskRunning"
        "tr_state (r\<lparr>pausemove_controller := c\<rparr>) = AutoPaused" using Some True by simp_all
      have "paused_ok (r\<lparr>pausemove_controller := c\<rparr>) sh' P" using paused_ok_cong[OF P] that(1) by simp
      moreover have "is_axis (global_cmd_axis sh')" using that(1) by (simp add: pmc_inv_def)
      ultimately show ?thesis unfolding tr_inv_paused[OF f] using assms(1) iff that(2,3) by auto
    qed
    define q where "q = pmc_start_manual T u sp ?g t ?c sh"
    have qs: "pmc_state (fst (snd q)) \<in> {AllowManualPointMove, ManualPointMoving}"
      using st by (auto simp: q_def pmc_start_manual_def Let_def case_prod_beta)
    have q: "pmc_inv P (fst (snd q)) (snd (snd q))" "global_cmd_axis (snd (snd q)) = ?g"
      using start_manual_inv[OF pi assms(3,4,2), of u] by (simp_all add: q_def)
    have "task_ok (snd (snd q)) tk = task_ok sh tk"
      using start_manual_task[of T u sp ?g t ?c sh "fst q" "fst (snd q)" "snd (snd q)" tk] by (simp add: q_def)
    then have ?A using True put[OF q(1) qs] q(2)
      by (simp add: tr_start_manual_def q_def[symmetric] case_prod_beta)
    moreover obtain b c where c: "pmc_stop_manual T u imm ?c = Inr (b, c)" "pmc_inv P c sh"
      using stop_manual_inv[OF pi assms(2), of u imm] by blast
    have "pmc_state c = pmc_state ?c" using c(1) by (auto simp: pmc_stop_manual_def rbind_Inr_iff split: if_splits)
    then have ?B using True put[OF c(2) _ refl] st c(1) by (simp add: tr_stop_manual_def)
    ultimately show ?thesis by blast
  qed
  then show ?A ?B by blast+
qed

section \<open>Cycles keep the invariant\<close>

lemma task_run_ok:
  assumes "0 < T" "task_ok sh t" "task.at_pos (global_cmd_axis sh) t" "is_axis (global_cmd_axis sh)"
  obtains t' sh' where "task_run_once T u t sh = Inr (t', sh')" "task_ok sh' t'" "task.at_pos (global_cmd_axis sh') t'"
    "is_axis (global_cmd_axis sh')" "signals_arr sh' = signals_arr sh" "later_than sh sh'"
proof -
  have ok: "0 < T \<and> task_ok sh t" using assms by simp
  obtain t' sh' where r: "task_run_once T u t sh = Inr (t', sh')" "0 < T \<and> task_ok sh' t'" "task.at_pos (global_cmd_axis sh') t'"
    "signals_arr sh' = signals_arr sh" "task_pos t = None \<Longrightarrow> global_cmd_axis sh' = global_cmd_axis sh"
    "task_pos t' \<noteq> None \<Longrightarrow> task_pos t' = Some (global_cmd_axis sh')" "task_pos t' = None \<longleftrightarrow> task_pos t = None" "later_than sh sh'"
  proof -
    have "task_pos t = None \<or> task_pos t = Some (global_cmd_axis sh)"
      using assms(3) by (auto simp: auto_task.at_pos_def[OF task.auto_task_axioms] split: option.splits)
    from task.run_law[OF ok this, of u] show ?thesis using that
      by (elim exE conjE) (auto simp: auto_task.at_pos_def[OF task.auto_task_axioms] split: option.splits)
  qed
  have "is_axis (global_cmd_axis sh')"
    using r(2,5,6,7) assms(4) task_pos_axis[of sh' t' "global_cmd_axis sh'"] by (cases "task_pos t'") simp_all
  then show ?thesis using that r by blast
qed

lemma tr_run_task_inv:
  assumes "task_ok sh t" "task.at_pos (global_cmd_axis sh) t" "is_axis (global_cmd_axis sh)" "0 < T"
    and "\<And>t' r1 sh1. task_ok sh1 t' \<Longrightarrow> task.at_pos (global_cmd_axis sh1) t' \<Longrightarrow> is_axis (global_cmd_axis sh1) \<Longrightarrow>
      curr_task r1 = Some t' \<Longrightarrow> domin_state r1 = domin_state r \<Longrightarrow> tr_state r1 = tr_state r \<Longrightarrow>
      tr_inv (fst (next t' r1 sh1)) (snd (next t' r1 sh1))"
  shows "\<exists>r' sh'. tr_run_task T u t next r sh = Inr (r', sh') \<and> tr_inv r' sh'"
proof -
  obtain t' sh1 where t: "task_run_once T u t sh = Inr (t', sh1)" "task_ok sh1 t'" "task.at_pos (global_cmd_axis sh1) t'"
    "is_axis (global_cmd_axis sh1)" by (rule task_run_ok[OF assms(4,1-3)])
  let ?n = "next t' (r\<lparr>curr_task := Some t'\<rparr>) sh1"
  have "tr_inv (fst ?n) (snd ?n)" by (rule assms(5)[OF t(2-4)]) simp_all
  then show ?thesis using t(1) by (cases ?n) (simp add: tr_run_task_def)
qed

lemma signal_axis [simp]: "global_cmd_axis (set_signal s sh) = global_cmd_axis sh"
  by (simp add: set_signal_def)

lemma pmc_inv_signal [simp]: "pmc_inv P c (set_signal s sh) = pmc_inv P c sh"
  by (cases "pmc_state c") (simp_all add: pmc_inv_def manual_ok_def back_ok_def)

lemma after_inv:
  assumes "task_ok sh t" "task.at_pos (global_cmd_axis sh) t" "is_axis (global_cmd_axis sh)"
    "curr_task r = Some t" "domin_state r = AutoTaskRunning" "tr_state r \<noteq> AutoPaused"
  shows "tr_inv (fst (after_normal_moving t r sh)) (snd (after_normal_moving t r sh))"
    "tr_inv (fst (after_pausing t r sh)) (snd (after_pausing t r sh))"
    "tr_inv (fst (after_resuming t r sh)) (snd (after_resuming t r sh))"
    "tr_inv (fst (after_stopping t r sh)) (snd (after_stopping t r sh))"
proof -
  have mv: "tr_inv (r\<lparr>tr_state := st\<rparr>) sh'" if "st \<noteq> AutoPaused" "global_cmd_axis sh' = global_cmd_axis sh" "task_ok sh' t" for st sh'
  proof -
    have f: "curr_task (r\<lparr>tr_state := st\<rparr>) = Some t" "domin_state (r\<lparr>tr_state := st\<rparr>) = AutoTaskRunning"
      "tr_state (r\<lparr>tr_state := st\<rparr>) \<noteq> AutoPaused" using assms that by simp_all
    show ?thesis unfolding tr_inv_task[OF f] using assms(1-3) that(2,3) by simp
  qed
  have same: "tr_inv r sh" unfolding tr_inv_task[OF assms(4-6)] using assms(1-3) by simp
  have pz: "tr_inv (r\<lparr>tr_state := AutoPaused, pausemove_controller := pmc_init (pausemove_controller r)\<rparr>) (set_signal s sh)"
    if "task_paused t" for s
  proof -
    let ?r = "r\<lparr>tr_state := AutoPaused, pausemove_controller := pmc_init (pausemove_controller r)\<rparr>"
    have f: "curr_task ?r = Some t" "domin_state ?r = AutoTaskRunning" "tr_state ?r = AutoPaused" using assms by simp_all
    have "paused_ok ?r (set_signal s sh) (global_cmd_axis sh)"
      using that assms pmc_init_inv[OF assms(3)] by (simp add: paused_ok_def tr_task_def)
    then show ?thesis unfolding tr_inv_paused[OF f] using assms(1,3) by (auto simp: pmc_init_def)
  qed
  show "tr_inv (fst (after_normal_moving t r sh)) (snd (after_normal_moving t r sh))"
    using assms(1) mv same by (simp add: after_normal_moving_def)
  show "tr_inv (fst (after_pausing t r sh)) (snd (after_pausing t r sh))"
    using assms(1) mv same pz by (simp add: after_pausing_def)
  show "tr_inv (fst (after_resuming t r sh)) (snd (after_resuming t r sh))"
    using assms(1) mv same by (simp add: after_resuming_def)
  show "tr_inv (fst (after_stopping t r sh)) (snd (after_stopping t r sh))"
    using assms(1) mv same by (simp add: after_stopping_def)
qed

lemma pmc_run_recover:
  assumes "pmc_inv P c sh" "0 < T"
  shows "\<exists>c' sh'. pmc_run_once T u c sh = Inr (c', sh') \<and> pmc_inv P c' sh'
    \<and> (pmc_state c \<in> {Recovering, RecorverOver} \<longrightarrow> pmc_state c' \<in> {Recovering, RecorverOver})
    \<and> (pmc_state c \<in> {RecoveringPausing, RecoveringPaused} \<longrightarrow> pmc_state c' \<in> {RecoveringPausing, RecoveringPaused})
    \<and> (pmc_state c \<in> {OutSideStopping, OutSideOrErrorStopped} \<longrightarrow> pmc_state c' \<in> {OutSideStopping, OutSideOrErrorStopped})
    \<and> (pmc_state c \<in> {AllowManualPointMove, ManualPointMoving} \<longrightarrow> pmc_state c' \<in> {AllowManualPointMove, ManualPointMoving})"
proof (cases "pmc_state c")
  case ManualPointMoving
  then show ?thesis using manual_run_inv[OF assms(1) _ assms(2), of u] by (auto simp: pmc_run_once_def)
next
  case Recovering
  then show ?thesis using recovering_inv[OF assms(1) Recovering assms(2), of u]
    by (cases "recovering T u c sh") (simp add: pmc_run_once_def)
next
  case RecoveringPausing
  then show ?thesis using pausing_inv[OF assms(1) RecoveringPausing] by (cases "recovering_pausing c sh") (simp add: pmc_run_once_def)
next
  case OutSideStopping
  then show ?thesis using outside_inv[OF assms(1) OutSideStopping] by (cases "outside_stopping c sh") (simp add: pmc_run_once_def)
qed (use assms in \<open>simp_all add: pmc_run_once_def\<close>)

lemma tr_run_pmc_ok:
  assumes "paused_ok r sh P" "0 < T"
  obtains r' sh' where "tr_run_pmc T u r sh = Inr (r', sh')" "paused_ok r' sh' P" "curr_task r' = curr_task r"
    "domin_state r' = domin_state r" "tr_state r' = tr_state r" "is_axis (global_cmd_axis sh')"
    "pmc_state (pausemove_controller r) \<in> {AllowManualPointMove, ManualPointMoving}
      \<longrightarrow> pmc_state (pausemove_controller r') \<in> {AllowManualPointMove, ManualPointMoving}"
    "pmc_state (pausemove_controller r) \<in> recover_states s \<longrightarrow> pmc_state (pausemove_controller r') \<in> recover_states s \<or> s = AutoPaused"
    "\<And>t. task_ok sh' t = task_ok sh t"
proof -
  have "pmc_inv P (pausemove_controller r) sh" using assms(1) by (simp add: paused_ok_def)
  from pmc_run_recover[OF this assms(2), of u] obtain c sh' where c: "pmc_run_once T u (pausemove_controller r) sh = Inr (c, sh')"
    "pmc_inv P c sh'"
    "pmc_state (pausemove_controller r) \<in> {Recovering, RecorverOver} \<longrightarrow> pmc_state c \<in> {Recovering, RecorverOver}"
    "pmc_state (pausemove_controller r) \<in> {RecoveringPausing, RecoveringPaused} \<longrightarrow> pmc_state c \<in> {RecoveringPausing, RecoveringPaused}"
    "pmc_state (pausemove_controller r) \<in> {OutSideStopping, OutSideOrErrorStopped} \<longrightarrow> pmc_state c \<in> {OutSideStopping, OutSideOrErrorStopped}"
    "pmc_state (pausemove_controller r) \<in> {AllowManualPointMove, ManualPointMoving} \<longrightarrow> pmc_state c \<in> {AllowManualPointMove, ManualPointMoving}"
    by blast
  let ?r = "r\<lparr>pausemove_controller := c\<rparr>"
  show ?thesis
  proof (rule that[of ?r sh'])
    show "tr_run_pmc T u r sh = Inr (?r, sh')" using c(1) by (simp add: tr_run_pmc_def)
    show "paused_ok ?r sh' P" using paused_ok_cong[OF assms(1)] c(2) by simp
    show "is_axis (global_cmd_axis sh')" using c(2) by (simp add: pmc_inv_def)
    show "pmc_state (pausemove_controller r) \<in> recover_states s \<longrightarrow> pmc_state (pausemove_controller ?r) \<in> recover_states s \<or> s = AutoPaused"
      using c(3-5) by (cases s) (simp_all add: recover_states_def)
    show "task_ok sh' t = task_ok sh t" for t using pmc_run_task[OF c(1)] .
  qed (use c(6) in simp_all)
qed

lemma tr_recover_inv:
  assumes "tr_inv r sh" "0 < T" "curr_task r = Some t" "domin_state r = PauseMoveRecoverRunning"
  shows "\<exists>r' sh'. pmrecovering_run_once T u t r sh = Inr (r', sh') \<and> tr_inv r' sh'"
proof -
  note iff = tr_inv_recover[OF assms(3,4)]
  have base: "is_axis (global_cmd_axis sh)" "task_ok sh t" using assms(1) iff by simp_all
  obtain P where P: "paused_ok r sh P" using assms(1) iff by blast
  have rs: "pmc_state (pausemove_controller r) \<in> recover_states (tr_state r)" using assms(1) iff by blast
  from tr_run_pmc_ok[OF P assms(2), of u "tr_state r"] obtain r1 sh1 where r1: "tr_run_pmc T u r sh = Inr (r1, sh1)"
    "paused_ok r1 sh1 P" "curr_task r1 = curr_task r" "domin_state r1 = domin_state r" "tr_state r1 = tr_state r"
    "is_axis (global_cmd_axis sh1)"
    "pmc_state (pausemove_controller r) \<in> recover_states (tr_state r)
      \<longrightarrow> pmc_state (pausemove_controller r1) \<in> recover_states (tr_state r) \<or> tr_state r = AutoPaused"
    "\<And>t. task_ok sh1 t = task_ok sh t" by metis
  have base1: "task_ok sh1 t" using base(2) r1(8) by simp
  let ?c = "pausemove_controller r1"
  have c1: "pmc_state ?c \<in> recover_states (tr_state r) \<or> tr_state r = AutoPaused" using r1(7) rs by blast
  have put: "tr_inv (r1\<lparr>tr_state := st\<rparr>) sh'"
    if "pmc_state ?c \<in> recover_states st" "sh' = sh1 \<or> (\<exists>s. sh' = set_signal s sh1)" for st sh'
  proof -
    have f: "curr_task (r1\<lparr>tr_state := st\<rparr>) = Some t" "domin_state (r1\<lparr>tr_state := st\<rparr>) = PauseMoveRecoverRunning"
      using r1 assms(3,4) by simp_all
    have "paused_ok (r1\<lparr>tr_state := st\<rparr>) sh' P" using that(2) paused_ok_cong[OF r1(2)] r1(2) by (auto simp: paused_ok_def)
    then show ?thesis unfolding tr_inv_recover[OF f] using that r1(6) base1 by auto
  qed
  have keep: "r1 = r1\<lparr>tr_state := tr_state r\<rparr>" using r1(5) by simp
  have stopped: "tr_inv (r1\<lparr>tr_state := AutoStopped, domin_state := AutoTaskRunning\<rparr>) (set_signal s sh1)" for s
    using r1(1-6) assms(3) base1 by (simp add: tr_inv_def)
  show ?thesis
  proof (cases "tr_state r")
    case NormalMoving
    have c: "pmc_state ?c \<in> {Recovering, RecorverOver}" using c1 NormalMoving by (simp add: recover_states_def)
    have tp: "task_paused t" "task.at_pos P t" using P assms(3) by (simp_all add: paused_ok_def tr_task_def)
    have ok: "0 < T \<and> task_ok sh1 t" using base1 assms(2) by simp
    obtain t' where t': "task_resume T u t = (True, t')" "0 < T \<and> task_ok sh1 t'" "task.at_pos P t'"
      using task.resume_at_pos[OF ok tp] by metis
    have over: "tr_inv (r1\<lparr>curr_task := Some t', domin_state := AutoTaskRunning, tr_state := Resuming\<rparr>) sh1" if "pmc_state ?c = RecorverOver"
    proof -
      have "global_cmd_axis sh1 = P" using r1(2) that by (simp add: paused_ok_def pmc_inv_def)
      then show ?thesis using t'(2,3) r1(6) by (simp add: tr_inv_def)
    qed
    have go: "tr_inv r1 sh1" using put[of NormalMoving sh1] c NormalMoving keep by (simp add: recover_states_def)
    show ?thesis using NormalMoving r1(1) c over go t'(1) by (auto simp: pmrecovering_run_once_def)
  next
    case Pausing
    have c: "pmc_state ?c \<in> {RecoveringPausing, RecoveringPaused}" using c1 Pausing by (simp add: recover_states_def)
    have go: "tr_inv r1 sh1" using put[of Pausing sh1] c Pausing keep by (simp add: recover_states_def)
    have pz: "tr_inv (r1\<lparr>tr_state := AutoPaused\<rparr>) (set_signal MotionSignal_AutoPaused sh1)" if "pmc_state ?c = RecoveringPaused"
      using put[of AutoPaused] that by (auto simp: recover_states_def)
    show ?thesis using Pausing r1(1) go pz by (auto simp: pmrecovering_run_once_def)
  next
    case Stopping
    have c: "pmc_state ?c \<in> {OutSideStopping, OutSideOrErrorStopped}" using c1 Stopping by (simp add: recover_states_def)
    have go: "tr_inv r1 sh1" using put[of Stopping sh1] c Stopping keep by (simp add: recover_states_def)
    show ?thesis using Stopping r1(1) go stopped by (auto simp: pmrecovering_run_once_def)
  next
    case AutoPaused
    then show ?thesis using assms(1) by (simp add: pmrecovering_run_once_def)
  qed (use rs in \<open>simp_all add: recover_states_def\<close>)
qed

lemma tr_run_inv:
  assumes "tr_inv r sh" "0 < T"
  shows "\<exists>r' sh'. tr_run_once T u r sh = Inr (r', sh') \<and> tr_inv r' sh'"
proof (cases "curr_task r")
  case None
  then show ?thesis using assms(1) by (simp add: tr_run_once_def)
next
  case (Some t)
  have base: "is_axis (global_cmd_axis sh)" "task_ok sh t" using assms(1) Some by (simp_all add: tr_inv_def)
  show ?thesis
  proof (cases "domin_state r")
    case AutoTaskRunning
    have ap: "task.at_pos (global_cmd_axis sh) t" if "tr_state r \<noteq> AutoPaused" "tr_state r \<noteq> AutoStopped"
      using assms(1) that tr_inv_task[OF Some AutoTaskRunning that(1)] by simp
    note run = tr_run_task_inv[OF base(2) ap base(1) assms(2), of r _ u]
    note step = after_inv[OF _ _ _ _ trans[OF _ AutoTaskRunning]]
    show ?thesis
    proof (cases "tr_state r = AutoPaused")
      case False
      then show ?thesis using Some AutoTaskRunning assms(1) run[of after_normal_moving] run[of after_pausing]
          run[of after_resuming] run[of after_stopping] step
        by (cases "tr_state r") (simp_all add: tr_run_once_def)
    next
      case True
      note iff = tr_inv_paused[OF Some AutoTaskRunning True]
      obtain P where "paused_ok r sh P" using assms(1) iff by blast
      from tr_run_pmc_ok[OF this assms(2), of u Stopping] obtain r' sh' where r': "tr_run_pmc T u r sh = Inr (r', sh')" "paused_ok r' sh' P"
        "curr_task r' = curr_task r" "domin_state r' = domin_state r" "tr_state r' = tr_state r" "is_axis (global_cmd_axis sh')"
        "pmc_state (pausemove_controller r) \<in> {AllowManualPointMove, ManualPointMoving}
          \<longrightarrow> pmc_state (pausemove_controller r') \<in> {AllowManualPointMove, ManualPointMoving}"
        "\<And>t. task_ok sh' t = task_ok sh t" by metis
      have "curr_task r' = Some t" "domin_state r' = AutoTaskRunning" "tr_state r' = AutoPaused"
        using r'(3-5) Some AutoTaskRunning True by simp_all
      note iff' = tr_inv_paused[OF this]
      have "tr_inv r' sh'" unfolding iff' using r'(2,6,7,8) base(2) assms(1) iff by blast
      then show ?thesis using r'(1) Some AutoTaskRunning True by (simp add: tr_run_once_def)
    qed
  next
    case PauseMoveRecoverRunning
    then show ?thesis using Some assms tr_recover_inv by (simp add: tr_run_once_def)
  qed
qed

text \<open>Time does not go back in a cycle of the runner or in one of its calls.\<close>

lemma after_later:
  "later_than sh (snd (after_normal_moving t r sh1)) = later_than sh sh1" "later_than sh (snd (after_pausing t r sh1)) = later_than sh sh1"
  "later_than sh (snd (after_resuming t r sh1)) = later_than sh sh1" "later_than sh (snd (after_stopping t r sh1)) = later_than sh sh1"
  by (simp_all add: after_normal_moving_def after_pausing_def after_resuming_def after_stopping_def)

lemma tr_run_pmc_later: "tr_run_pmc T u r sh = Inr (r', sh') \<Longrightarrow> later_than sh sh'"
  using pmc_run_keeps by (fastforce simp: tr_run_pmc_def rbind_Inr_iff later_than_def)

lemma tr_run_later:
  assumes "tr_run_once T u r sh = Inr (r', sh')" "tr_inv r sh" "0 < T"
  shows "later_than sh sh'"
proof (cases "curr_task r")
  case None
  then show ?thesis using assms(1) by (simp add: tr_run_once_def)
next
  case (Some t)
  show ?thesis
  proof (cases "domin_state r = AutoTaskRunning \<and> tr_state r \<notin> {AutoPaused, AutoStopped}")
    case True
    have i: "is_axis (global_cmd_axis sh)" "task_ok sh t" "task.at_pos (global_cmd_axis sh) t"
      using assms(2) True tr_inv_task[OF Some] by auto
    obtain t' sh1 where "task_run_once T u t sh = Inr (t', sh1)" "later_than sh sh1" by (rule task_run_ok[OF assms(3) i(2,3,1)])
    then show ?thesis using assms(1) Some True after_later[of sh t' "r\<lparr>curr_task := Some t'\<rparr>" sh1]
      by (cases "tr_state r") (auto simp: tr_run_once_def tr_run_task_def)
  next
    case False
    then show ?thesis using assms(1) Some tr_run_pmc_later
      by (cases "domin_state r"; cases "tr_state r")
        (auto simp: tr_run_once_def pmrecovering_run_once_def rbind_Inr_iff Let_def split: if_splits prod.splits)
  qed
qed

lemma tr_calls_later:
  "tr_resume T u r sh = Inr (b, r', sh') \<Longrightarrow> later_than sh sh'"
  "tr_start_manual T u sp s p r sh = (b, r', sh') \<Longrightarrow> later_than sh sh'"
  using start_manual_keeps
  by (fastforce simp: tr_resume_def tr_start_manual_def later_than_def set_signal_def Let_def
      split: option.splits auto_state.splits if_splits prod.splits)+

end
