(* ===== verification/Motion_Machine.thy ===== *)
theory Motion_Machine
  imports Auto_Task_Runner_Correct Motion_Targets
begin

text \<open>
  The state machine of the motion thread (\<^verbatim>\<open>Src/Motion/MotionStateMachine/MotionStateMachine.cpp\<close>) and
  the commands of its queue (\<^verbatim>\<open>_fetch_command_and_handle_and_copy_info_cache\<close> of
  \<^verbatim>\<open>Src/Motion/MotionThread/MotionThreadController.cpp\<close>): the idle, manual and automatic modes, over
  the point move of the manual mode and the task runner.

  The drilling task is not modelled: the command that would start it has the fault \<open>NoModel\<close> in this
  model, where the machine is idle. The recording of data, the spindle and the updates of the
  hardware's buffers in a cycle are left out.
\<close>

section \<open>State and operations\<close>

record machine =
  enabled :: bool
  mm_mode :: main_mode
  mm_handler :: point_move
  auto_task_runner :: task_runner
  shared_data :: shared

type_synonym mm_result = "(motion_fault, bool \<times> machine) result"

definition mm_reset :: "machine \<Rightarrow> machine" where
  "mm_reset m = m\<lparr>enabled := False, mm_mode := MM_Idle, mm_handler := pm_clear (mm_handler m),
     auto_task_runner := tr_reset (auto_task_runner m)\<rparr>"

definition mm_set_enable :: "bool \<Rightarrow> machine \<Rightarrow> machine" where
  "mm_set_enable b m = m\<lparr>enabled := b\<rparr>"

definition mm_new :: "shared \<Rightarrow> machine" where
  "mm_new sh = mm_reset \<lparr>enabled = False, mm_mode = MM_Idle, mm_handler = pm_clear pm_blank, auto_task_runner = tr_new,
     shared_data = touch_reset sh\<rparr>"

definition mm_signal :: "motion_signal \<Rightarrow> machine \<Rightarrow> machine" where
  "mm_signal s m = m\<lparr>shared_data := set_signal s (shared_data m)\<rparr>"

definition mm_start_manual :: "real \<Rightarrow> plan_vars \<Rightarrow> speed_param \<Rightarrow> axis_t \<Rightarrow> machine \<Rightarrow> bool \<times> machine" where
  "mm_start_manual T u sp target m =
     (case mm_mode m of
        MM_Idle \<Rightarrow>
          let (b, h) = pm_start T u sp (global_cmd_axis (shared_data m)) target (mm_handler m); m' = m\<lparr>mm_handler := h\<rparr>
          in (b, if b then mm_signal MotionSignal_ManualPointMoveStarted (m'\<lparr>mm_mode := MM_Manual\<rparr>) else m')
      | MM_Manual \<Rightarrow> (False, m)
      | MM_Auto \<Rightarrow>
          (case tr_start_manual T u sp (global_cmd_axis (shared_data m)) target (auto_task_runner m) (shared_data m) of
             (b, r, sh) \<Rightarrow> (b, m\<lparr>auto_task_runner := r, shared_data := sh\<rparr>)))"

definition mm_stop_manual :: "real \<Rightarrow> plan_vars \<Rightarrow> bool \<Rightarrow> machine \<Rightarrow> mm_result" where
  "mm_stop_manual T u imm m =
     (case mm_mode m of
        MM_Idle \<Rightarrow> Inr (False, m)
      | MM_Manual \<Rightarrow> rbind (pm_stop T u imm (mm_handler m)) (\<lambda>(b, h). Inr (b, m\<lparr>mm_handler := h\<rparr>))
      | MM_Auto \<Rightarrow> rbind (tr_stop_manual T u imm (auto_task_runner m)) (\<lambda>(b, r). Inr (b, m\<lparr>auto_task_runner := r\<rparr>)))"

text \<open>What the functions \<open>start_auto_g00\<close>, \<open>start_auto_g04\<close> and \<open>start_auto_m00fake\<close> do with their task.\<close>

definition mm_start_task :: "auto_task \<Rightarrow> machine \<Rightarrow> bool \<times> machine" where
  "mm_start_task t m =
     (if mm_mode m \<noteq> MM_Idle then (False, m)
      else if task_stopped t then (False, m)
      else let (b, r) = restart_task t (auto_task_runner m); m' = m\<lparr>auto_task_runner := r\<rparr>
           in if \<not> b then (False, m') else (True, (mm_signal MotionSignal_AutoStarted m')\<lparr>mm_mode := MM_Auto\<rparr>))"

definition mm_start_auto_g00 :: "real \<Rightarrow> plan_vars \<Rightarrow> speed_param \<Rightarrow> axis_t \<Rightarrow> bool \<Rightarrow> machine \<Rightarrow> bool \<times> machine" where
  "mm_start_auto_g00 T u sp target touch m = mm_start_task (G00AutoTask (g00_new T u target sp touch (shared_data m))) m"

definition mm_start_auto_g04 :: "real \<Rightarrow> real \<Rightarrow> machine \<Rightarrow> bool \<times> machine" where
  "mm_start_auto_g04 T delay_s m = mm_start_task (G04AutoTask (g04_new T delay_s)) m"

definition mm_start_auto_m00fake :: "machine \<Rightarrow> bool \<times> machine" where
  "mm_start_auto_m00fake m = mm_start_task (M00FakeAutoTask M00Paused) m"

text \<open>The constructor of a cutting move opens the gate and switches the high frequency on.\<close>

definition mm_start_auto_g01 :: "real \<Rightarrow> axis_t \<Rightarrow> real \<Rightarrow> machine \<Rightarrow> mm_result" where
  "mm_start_auto_g01 T target h m =
     (if mm_mode m \<noteq> MM_Idle then Inr (False, m)
      else rbind (g01_new T (linear_new (global_cmd_axis (shared_data m)) target) h (shared_data m)) (\<lambda>(g, sh).
        Inr (mm_start_task (G01AutoTask g) (m\<lparr>shared_data := sh\<rparr>))))"

definition mm_start_auto_g01_group :: "g01_item list \<Rightarrow> machine \<Rightarrow> bool \<times> machine" where
  "mm_start_auto_g01_group items m = mm_start_task (G01GroupAutoTask (group_new items (shared_data m))) m"

definition mm_pause_auto :: "real \<Rightarrow> plan_vars \<Rightarrow> machine \<Rightarrow> mm_result" where
  "mm_pause_auto T u m =
     (if mm_mode m \<noteq> MM_Auto then Inr (False, m)
      else rbind (tr_pause T u (auto_task_runner m)) (\<lambda>(b, r). Inr (b, m\<lparr>auto_task_runner := r\<rparr>)))"

definition mm_resume_auto :: "real \<Rightarrow> plan_vars \<Rightarrow> machine \<Rightarrow> mm_result" where
  "mm_resume_auto T u m =
     (if mm_mode m \<noteq> MM_Auto then Inr (False, m)
      else rbind (tr_resume T u (auto_task_runner m) (shared_data m)) (\<lambda>(b, r, sh).
        Inr (b, m\<lparr>auto_task_runner := r, shared_data := sh\<rparr>)))"

definition mm_stop_auto :: "real \<Rightarrow> plan_vars \<Rightarrow> bool \<Rightarrow> machine \<Rightarrow> mm_result" where
  "mm_stop_auto T u imm m =
     (if mm_mode m \<noteq> MM_Auto then Inr (False, m)
      else rbind (tr_stop T u imm (auto_task_runner m)) (\<lambda>(b, r). Inr (b, m\<lparr>auto_task_runner := r\<rparr>)))"

section \<open>One cycle\<close>

definition mainmode_manual :: "real \<Rightarrow> plan_vars \<Rightarrow> machine \<Rightarrow> (motion_fault, machine) result" where
  "mainmode_manual T u m =
     (if pm_is_over (mm_handler m)
      then Inr ((mm_signal MotionSignal_ManualPointMoveStopped m)\<lparr>mm_mode := MM_Idle\<rparr>)
      else let (hit, sh) = run_detect_once (shared_data m); m1 = m\<lparr>shared_data := sh\<rparr>
           in if hit
              then rbind (pm_stop T u True (mm_handler m1)) (\<lambda>(b, h).
                Inr ((mm_signal MotionSignal_ManualPointMoveStopped (m1\<lparr>mm_handler := h\<rparr>))\<lparr>mm_mode := MM_Idle\<rparr>))
              else let h = pm_run_once (mm_handler m1)
                   in Inr (m1\<lparr>mm_handler := h, shared_data := set_cmd_axis (curr_pos h) (shared_data m1)\<rparr>))"

definition mainmode_auto :: "real \<Rightarrow> plan_vars \<Rightarrow> machine \<Rightarrow> (motion_fault, machine) result" where
  "mainmode_auto T u m =
     rbind (tr_run_once T u (auto_task_runner m) (shared_data m)) (\<lambda>(r, sh).
       let m' = m\<lparr>auto_task_runner := r, shared_data := sh\<rparr>
       in Inr (if tr_state r = AutoStopped then m'\<lparr>mm_mode := MM_Idle\<rparr> else m'))"

definition mm_run_once :: "real \<Rightarrow> plan_vars \<Rightarrow> machine \<Rightarrow> (motion_fault, machine) result" where
  "mm_run_once T u m =
     (if \<not> enabled m then Inr m
      else case mm_mode m of
             MM_Idle \<Rightarrow> Inr (m\<lparr>shared_data := set_detect_enable False (shared_data m)\<rparr>)
           | MM_Manual \<Rightarrow> mainmode_manual T u m
           | MM_Auto \<Rightarrow> mainmode_auto T u m)"

section \<open>Commands\<close>

text \<open>
  What the thread knows of the drives: a command that starts a motion is ignored unless they are ready
  and the thread is running. A command is accepted or ignored (the flag of the result).
\<close>

record thread_state =
  ecat_ready :: bool
  thread_running :: bool

definition when_ready :: "thread_state \<Rightarrow> machine \<Rightarrow> mm_result \<Rightarrow> mm_result" where
  "when_ready ts m r = (if \<not> ecat_ready ts \<or> \<not> thread_running ts then Inr (False, m) else r)"

fun handle_command :: "real \<Rightarrow> plan_vars \<Rightarrow> thread_state \<Rightarrow> motion_cmd \<Rightarrow> machine \<Rightarrow> mm_result" where
  "handle_command T u ts (ManualStartPointMove _ target sp touch) m =
     when_ready ts m (let (b, m') = mm_start_manual T u sp target m
       in Inr (b, if b then m'\<lparr>shared_data := set_detect_enable touch (shared_data m')\<rparr> else m'))"
| "handle_command T u ts (ManualStopPointMove imm) m = when_ready ts m (mm_stop_manual T u imm m)"
| "handle_command T u ts (AutoStartG00FastMove _ target sp touch) m =
     when_ready ts m (Inr (mm_start_auto_g00 T u sp target touch m))"
| "handle_command T u ts (AutoStartG01ServoMove _ target h) m = when_ready ts m (mm_start_auto_g01 T target h m)"
| "handle_command T u ts (AutoG04Delay d) m = when_ready ts m (Inr (mm_start_auto_g04 T d m))"
| "handle_command T u ts AutoM00FakePauseTask m = when_ready ts m (Inr (mm_start_auto_m00fake m))"
| "handle_command T u ts (AutoStop imm) m = mm_stop_auto T u imm m"
| "handle_command T u ts AutoPause m = mm_pause_auto T u m"
| "handle_command T u ts AutoResume m = mm_resume_auto T u m"
| "handle_command T u ts ManualEmergencyStopAllMove m = Inr (True, mm_set_enable True (mm_reset m))"
| "handle_command T u ts SettingClearWarning m = Inr (True, m\<lparr>shared_data := clear_warning (shared_data m)\<rparr>)"
| "handle_command T u ts (AutoStartDrillMove _) m = (if mm_mode m \<noteq> MM_Idle then Inr (False, m) else Inl NoModel)"
| "handle_command T u ts (AutoG01Group items) m = Inr (mm_start_auto_g01_group items m)"

text \<open>Two settings of the queue that the runner does not send: of the jumps, and of the feed of a group.\<close>

definition set_jump_param :: "jump_param \<Rightarrow> machine \<Rightarrow> bool \<times> machine" where
  "set_jump_param jp m = (True, m\<lparr>shared_data := (shared_data m)\<lparr>jump_setting := jp\<rparr>\<rparr>)"

definition set_g01_speed_ratio :: "real \<Rightarrow> machine \<Rightarrow> bool \<times> machine" where
  "set_g01_speed_ratio x m = (True, m\<lparr>shared_data := (shared_data m)\<lparr>g01_speed_ratio := x\<rparr>\<rparr>)"

text \<open>What a client reads of the machine, copied before the command is accepted or ignored.\<close>

definition machine_info :: "machine \<Rightarrow> axis_t \<times> main_mode \<times> auto_state \<times> bool" where
  "machine_info m = (global_cmd_axis (shared_data m), mm_mode m, tr_state (auto_task_runner m), warning (shared_data m))"

text \<open>\<open>_handle_signal\<close>: the signals of the cycle, in their order, with the array cleared.\<close>

definition all_signals :: "motion_signal list" where
  "all_signals = [MotionSignal_ManualPointMoveStarted, MotionSignal_ManualPointMoveStopped, MotionSignal_AutoStarted,
     MotionSignal_AutoPaused, MotionSignal_AutoResumed, MotionSignal_AutoStopped, MotionSignal_AutoNotify]"

definition handle_signal :: "machine \<Rightarrow> motion_signal list \<times> machine" where
  "handle_signal m =
     (if has_signal (shared_data m) then filter (\<lambda>s. s \<in> signals_arr (shared_data m)) all_signals else [],
      m\<lparr>shared_data := reset_all (shared_data m)\<rparr>)"

end
