(* ===== verification/Motion_Machine_Correct.thy ===== *)
theory Motion_Machine_Correct
  imports Motion_Machine
begin

text \<open>
  The state machine of the motion thread as a whole: no command and no cycle fails an assertion, the
  modes agree with the states of the components, and the commanded position is always that of
  the component that moves.
\<close>

section \<open>The invariant\<close>

definition mm_inv :: "machine \<Rightarrow> bool" where
  "mm_inv m \<longleftrightarrow> tr_inv (auto_task_runner m) (shared_data m) \<and> jump_ok (jump_setting (shared_data m)) \<and>
     (case mm_mode m of
        MM_Idle \<Rightarrow> tr_state (auto_task_runner m) = AutoStopped
      | MM_Manual \<Rightarrow> tr_state (auto_task_runner m) = AutoStopped
          \<and> (let h = mm_handler m in pm_inv (start_pos h) (target_pos h) h \<and> move_between (start_pos h) (target_pos h)
              \<and> curr_pos h = global_cmd_axis (shared_data m))
      | MM_Auto \<Rightarrow> curr_task (auto_task_runner m) \<noteq> None)"

lemma shared_axis [simp]:
  "global_cmd_axis (set_detect_enable b sh) = global_cmd_axis sh" "global_cmd_axis (clear_warning sh) = global_cmd_axis sh"
  "global_cmd_axis (reset_all sh) = global_cmd_axis sh" "global_cmd_axis (call_io c sh) = global_cmd_axis sh"
  "global_cmd_axis (set_cmd_axis a sh) = a" "jump_setting (set_signal s sh) = jump_setting sh"
  by (simp_all add: shared_defs call_io_def)

lemma tr_inv_axis: "tr_inv r sh \<Longrightarrow> is_axis (global_cmd_axis sh)"
  by (simp add: tr_inv_def)

text \<open>A runner that has stopped does not look at the position.\<close>

lemma tr_inv_stopped:
  assumes "tr_inv r sh" "tr_state r = AutoStopped" "is_axis (global_cmd_axis sh')" "later_than sh sh'"
  shows "tr_inv r sh'"
proof (cases "curr_task r")
  case (Some t)
  have "domin_state r = AutoTaskRunning"
    using assms(1,2) tr_inv_recover[OF Some] by (cases "domin_state r") (simp_all add: recover_states_def)
  then show ?thesis using assms task_ok_later[OF _ assms(4)] tr_inv_task[OF Some] by simp
qed (use assms tr_inv_None in simp)

lemma tr_inv_shared:
  assumes "tr_inv r sh" "global_cmd_axis sh' = global_cmd_axis sh" "later_than sh sh'"
  shows "tr_inv r sh'"
proof -
  have "pmc_inv P c sh' = pmc_inv P c sh" for P c
    using assms(2) by (cases "pmc_state c") (simp_all add: pmc_inv_def manual_ok_def back_ok_def)
  then have e: "paused_ok r sh' P = paused_ok r sh P" for P by (simp add: paused_ok_def)
  show ?thesis
  proof (cases "curr_task r")
    case None
    then show ?thesis using assms(1,2) by (simp add: tr_inv_None)
  next
    case (Some t)
    have ok: "task_ok sh t" using assms(1) Some by (simp add: tr_inv_def)
    have "tr_inv r sh' = tr_inv r sh"
      by (simp only: tr_inv_def assms(2) e Some option.case ok task_ok_later[OF ok assms(3)])
    then show ?thesis using assms(1) by simp
  qed
qed

lemma mm_inv_axis: "mm_inv m \<Longrightarrow> is_axis (global_cmd_axis (shared_data m))"
  using tr_inv_axis[of "auto_task_runner m" "shared_data m"] by (simp add: mm_inv_def)

lemma mm_inv_shared:
  assumes "mm_inv m" "global_cmd_axis sh = global_cmd_axis (shared_data m)" "later_than (shared_data m) sh"
  shows "mm_inv (m\<lparr>shared_data := sh\<rparr>)"
proof -
  have "tr_inv (auto_task_runner m) sh"
    by (rule tr_inv_shared[OF _ assms(2,3)]) (use assms(1) in \<open>simp add: mm_inv_def\<close>)
  moreover have "jump_ok (jump_setting sh)" using assms(1,3) by (simp add: mm_inv_def later_than_def)
  ultimately show ?thesis using assms(1,2) by (cases "mm_mode m") (simp_all add: mm_inv_def Let_def)
qed

lemma mm_reset_inv:
  assumes "is_axis (global_cmd_axis (shared_data m))" "jump_ok (jump_setting (shared_data m))"
  shows "mm_inv (mm_set_enable b (mm_reset m))" "mm_inv (mm_reset m)"
  using tr_reset_inv[OF assms(1)] assms(2) by (simp_all add: mm_inv_def mm_set_enable_def mm_reset_def tr_reset_def)

text \<open>What the shared objects are when the machine is made.\<close>

definition sh_ok :: "shared \<Rightarrow> bool" where
  "sh_ok sh \<longleftrightarrow> is_axis (global_cmd_axis sh) \<and> jump_ok (jump_setting sh)"

lemma mm_new_inv: "sh_ok sh \<Longrightarrow> mm_inv (mm_new sh)"
  unfolding mm_new_def by (rule mm_reset_inv(2)) (simp_all add: touch_reset_def sh_ok_def)

text \<open>The operations on the runner in the automatic mode.\<close>

lemma mm_runner_inv:
  assumes "mm_mode m = MM_Auto" "tr_inv r (shared_data m)" "curr_task r \<noteq> None" "mm_inv m"
  shows "mm_inv (m\<lparr>auto_task_runner := r\<rparr>)"
  using assms by (simp add: mm_inv_def)

lemma has_task_kept:
  "tr_pause T u r = Inr (b, r') \<Longrightarrow> curr_task r \<noteq> None \<Longrightarrow> curr_task r' \<noteq> None"
  "tr_resume T u r sh = Inr (b, r', sh') \<Longrightarrow> curr_task r' = curr_task r"
  "tr_stop T u imm r = Inr (b, r') \<Longrightarrow> curr_task r \<noteq> None \<Longrightarrow> curr_task r' \<noteq> None"
  "tr_stop_manual T u imm r = Inr (b, r') \<Longrightarrow> curr_task r' = curr_task r"
  "tr_start_manual T u sp s t r sh = (b, r', sh') \<Longrightarrow> curr_task r' = curr_task r"
  by (auto simp: tr_pause_def tr_resume_def tr_stop_def tr_stop_manual_def tr_start_manual_def Let_def rbind_Inr_iff
      split: option.splits auto_state.splits if_splits prod.splits)

section \<open>Commands\<close>

definition sp_ok :: "motion_cmd \<Rightarrow> bool" where
  "sp_ok c \<longleftrightarrow> (case c of ManualStartPointMove _ t sp _ \<Rightarrow> speed_ok sp \<and> is_axis t
     | AutoStartG00FastMove _ t sp _ \<Rightarrow> speed_ok sp \<and> is_axis t
     | AutoStartG01ServoMove _ t _ \<Rightarrow> is_axis t | AutoG01Group items \<Rightarrow> list_all item_ok items
     | AutoStartDrillMove _ \<Rightarrow> False
     | _ \<Rightarrow> True)"

text \<open>A pause on the way back comes before the end of its segment.\<close>

definition pause_in_time :: "machine \<Rightarrow> bool" where
  "pause_in_time m \<longleftrightarrow> 0 \<le> mw_remaining (mrt_wrapper (pmc_handler (pausemove_controller (auto_task_runner m))))"

text \<open>So does a cutting move start where it has somewhere to go: its direction is a division by its length.\<close>

definition timely :: "motion_cmd \<Rightarrow> machine \<Rightarrow> bool" where
  "timely c m \<longleftrightarrow> (case c of AutoPause \<Rightarrow> pause_in_time m
     | AutoStartG01ServoMove _ t _ \<Rightarrow> t \<noteq> global_cmd_axis (shared_data m) | _ \<Rightarrow> True)"

lemma mm_start_manual_inv:
  assumes "mm_inv m" "0 < T" "speed_ok sp" "is_axis t"
  shows "mm_inv (snd (mm_start_manual T u sp t m))"
proof (cases "mm_mode m")
  case MM_Idle
  let ?s = "global_cmd_axis (shared_data m)" and ?r = "pm_start T u sp (global_cmd_axis (shared_data m)) t (mm_handler m)"
  have i: "tr_inv (auto_task_runner m) (shared_data m)" "tr_state (auto_task_runner m) = AutoStopped"
    using assms(1) MM_Idle by (simp_all add: mm_inv_def)
  have s: "is_axis ?s" using tr_inv_axis[OF i(1)] .
  have sg: "tr_inv (auto_task_runner m) (set_signal x (shared_data m))" for x
    using i(1) by (rule tr_inv_shared) simp_all
  show ?thesis
  proof (cases "fst ?r")
    case True
    then have ne: "?s \<noteq> t" using pm_start_same[OF s] by auto
    have p: "pm_inv ?s t (snd ?r)" using pm_start_inv(2)[OF s assms(4) ne assms(3,2)] .
    have mb: "move_between ?s t" using s assms(4) ne by (simp add: move_between_def)
    show ?thesis using assms(1) True MM_Idle i sg p mb
      by (simp add: mm_start_manual_def Let_def case_prod_beta mm_signal_def mm_inv_def pm_start_sel)
  next
    case False
    then show ?thesis using assms(1) MM_Idle i by (simp add: mm_start_manual_def Let_def case_prod_beta mm_inv_def)
  qed
next
  case MM_Manual
  then show ?thesis using assms(1) by (simp add: mm_start_manual_def)
next
  case MM_Auto
  have i: "tr_inv (auto_task_runner m) (shared_data m)" "curr_task (auto_task_runner m) \<noteq> None"
    using assms(1) MM_Auto by (simp_all add: mm_inv_def)
  obtain b r sh where r: "tr_start_manual T u sp (global_cmd_axis (shared_data m)) t (auto_task_runner m) (shared_data m) = (b, r, sh)"
    "tr_inv r sh" using tr_manual_inv(1)[OF i(1) assms(2-4), of u] by blast
  then show ?thesis using MM_Auto i(2) has_task_kept(5)[OF r(1)] tr_calls_later(2)[OF r(1)] assms(1)
    by (simp add: mm_start_manual_def mm_inv_def later_than_def)
qed

lemma mm_stop_manual_inv:
  assumes "mm_inv m" "0 < T"
  shows "\<exists>b m'. mm_stop_manual T u imm m = Inr (b, m') \<and> mm_inv m'"
proof (cases "mm_mode m")
  case MM_Idle
  then show ?thesis using assms(1) by (simp add: mm_stop_manual_def ex_bool_eq)
next
  case MM_Manual
  let ?h = "mm_handler m"
  have i: "pm_inv (start_pos ?h) (target_pos ?h) ?h" using assms(1) MM_Manual by (simp add: mm_inv_def Let_def)
  from pm_stop_ok[OF this assms(2)] obtain b h where h: "pm_stop T u imm ?h = Inr (b, h)"
    "pm_inv (start_pos ?h) (target_pos ?h) h" "curr_pos h = curr_pos ?h" "start_pos h = start_pos ?h" "target_pos h = target_pos ?h"
    by metis
  have "mm_inv (m\<lparr>mm_handler := h\<rparr>)" using assms(1) MM_Manual h(2-5) by (simp add: mm_inv_def Let_def)
  then show ?thesis using h(1) MM_Manual by (simp add: mm_stop_manual_def)
next
  case MM_Auto
  have i: "tr_inv (auto_task_runner m) (shared_data m)" "curr_task (auto_task_runner m) \<noteq> None"
    using assms(1) MM_Auto by (simp_all add: mm_inv_def)
  obtain b r where r: "tr_stop_manual T u imm (auto_task_runner m) = Inr (b, r)" "tr_inv r (shared_data m)"
    using tr_manual_inv(2)[OF i(1) assms(2) sample_move(4) sample_move(1)] by blast
  have "mm_inv (m\<lparr>auto_task_runner := r\<rparr>)" using mm_runner_inv[OF MM_Auto r(2)] has_task_kept(4)[OF r(1)] i(2) assms(1) by simp
  then show ?thesis using r(1) MM_Auto by (simp add: mm_stop_manual_def)
qed

lemma mm_start_task_inv:
  assumes "mm_inv m" "task_ok (shared_data m) t \<and> task.at_pos (global_cmd_axis (shared_data m)) t \<or> task_stopped t"
  shows "mm_inv (snd (mm_start_task t m))"
proof (cases "mm_mode m = MM_Idle \<and> \<not> task_stopped t")
  case False
  then show ?thesis using assms(1) by (auto simp: mm_start_task_def)
next
  case True
  let ?sh = "set_signal MotionSignal_AutoStarted (shared_data m)" and ?r = "snd (restart_task t (auto_task_runner m))"
  have "is_axis (global_cmd_axis (shared_data m))" by (rule mm_inv_axis[OF assms(1)])
  then have "tr_inv ?r ?sh" using restart_task_inv[of ?sh t] assms(2) True by simp
  then show ?thesis using True assms(1)
    by (simp add: mm_start_task_def mm_signal_def restart_task_def mm_inv_def)
qed

lemma g00_new_ok:
  assumes "is_axis (global_cmd_axis sh)" "is_axis t" "speed_ok sp" "0 < T"
  shows "task_ok sh (G00AutoTask (g00_new T u t sp touch sh)) \<and> task.at_pos (global_cmd_axis sh) (G00AutoTask (g00_new T u t sp touch sh))
    \<or> task_stopped (G00AutoTask (g00_new T u t sp touch sh))"
proof (cases "global_cmd_axis sh = t")
  case True
  have "\<not> fst (pm_start T u sp t t pm_blank)" using pm_start_same[OF assms(2)] .
  then show ?thesis using True
    by (simp add: g00_new_def pm_is_over_def mw_is_stopped_def pm_start_def mw_start_def mrt_plan_def pm_blank_def mw_new_def
        Let_def split: if_splits)
next
  case False
  note p = pm_start_inv[OF assms(1,2) False assms(3,4), of u pm_blank]
  then show ?thesis using assms(1,2) False
    by (simp add: g00_new_def g00_ok_def pm_start_sel Let_def auto_task.at_pos_def[OF task.auto_task_axioms])
qed

lemma handle_command_inv:
  assumes "mm_inv m" "0 < T" "sp_ok c" "timely c m"
  shows "\<exists>b m'. handle_command T u ts c m = Inr (b, m') \<and> mm_inv m'"
proof -
  let ?r = "auto_task_runner m" and ?sh = "shared_data m"
  have ax: "is_axis (global_cmd_axis ?sh)" and tr: "tr_inv ?r ?sh" and jo: "jump_ok (jump_setting ?sh)" using assms(1) mm_inv_axis by (simp_all add: mm_inv_def)
  have ready: "\<exists>b m'. when_ready ts m x = Inr (b, m') \<and> mm_inv m'" if "\<exists>b m'. x = Inr (b, m') \<and> mm_inv m'" for x
    using that assms(1) by (simp add: when_ready_def ex_bool_eq)
  have auto: "curr_task ?r \<noteq> None" if "mm_mode m = MM_Auto" using assms(1) that by (simp add: mm_inv_def)
  show ?thesis
  proof (cases c)
    case (AutoStartG00FastMove s t sp touch)
    then have "speed_ok sp" "is_axis t" using assms(3) by (simp_all add: sp_ok_def)
    then have "mm_inv (snd (mm_start_auto_g00 T u sp t touch m))"
      unfolding mm_start_auto_g00_def by (intro mm_start_task_inv[OF assms(1)] g00_new_ok[OF ax _ _ assms(2)])
    then show ?thesis unfolding AutoStartG00FastMove handle_command.simps
      by (intro ready) (cases "mm_start_auto_g00 T u sp t touch m", simp)
  next
    case (AutoStartG01ServoMove s t h)
    have "\<exists>b m'. mm_start_auto_g01 T t h m = Inr (b, m') \<and> mm_inv m'"
    proof (cases "mm_mode m = MM_Idle")
      case True
      have line: "segment_line (global_cmd_axis ?sh) t"
        using ax assms(3,4) AutoStartG01ServoMove by (simp add: segment_line_def sp_ok_def timely_def)
      let ?io = "call_io (MachOn True) (call_io (EnableVoltageGate True) ?sh)"
      obtain g where g: "g01_new T (linear_new (global_cmd_axis ?sh) t) h ?sh = Inr (g, ?io)" "cut_inv (global_cmd_axis ?sh) t h g"
        "g01_pos g = global_cmd_axis ?sh" "last_jump_end_time_ms g = now_ms ?sh" by (rule g01_new_ok[OF line jo])
      have "mm_inv (m\<lparr>shared_data := ?io\<rparr>)" by (rule mm_inv_shared[OF assms(1)]) simp_all
      moreover have "task_ok ?io (G01AutoTask g)" using g(2,4) jo by (auto simp: g01_ok_def call_io_def)
      moreover have "task.at_pos (global_cmd_axis ?io) (G01AutoTask g)" using g(3) by (simp add: auto_task.at_pos_def[OF task.auto_task_axioms])
      ultimately have "mm_inv (snd (mm_start_task (G01AutoTask g) (m\<lparr>shared_data := ?io\<rparr>)))"
        by (intro mm_start_task_inv) simp_all
      then show ?thesis using True g(1) by (cases "mm_start_task (G01AutoTask g) (m\<lparr>shared_data := ?io\<rparr>)") (simp add: mm_start_auto_g01_def)
    qed (use assms(1) in \<open>simp add: mm_start_auto_g01_def ex_bool_eq\<close>)
    then show ?thesis unfolding AutoStartG01ServoMove handle_command.simps by (rule ready)
  next
    case (AutoG01Group items)
    have "list_all item_ok items" using assms(3) AutoG01Group by (simp add: sp_ok_def)
    note n = group_new_inv[OF ax this]
    have "mm_inv (snd (mm_start_task (G01GroupAutoTask (group_new items ?sh)) m))"
      by (rule mm_start_task_inv[OF assms(1)])
        (use n in \<open>cases "items = []"; auto simp: auto_task.at_pos_def[OF task.auto_task_axioms]\<close>)
    then show ?thesis unfolding AutoG01Group handle_command.simps mm_start_auto_g01_group_def
      by (cases "mm_start_task (G01GroupAutoTask (group_new items ?sh)) m") simp
  next
    case (AutoG04Delay d)
    have "mm_inv (snd (mm_start_auto_g04 T d m))" unfolding mm_start_auto_g04_def
      by (rule mm_start_task_inv[OF assms(1)]) (simp add: auto_task.at_pos_def[OF task.auto_task_axioms])
    then show ?thesis unfolding AutoG04Delay handle_command.simps by (intro ready) (cases "mm_start_auto_g04 T d m", simp)
  next
    case AutoM00FakePauseTask
    have "mm_inv (snd (mm_start_auto_m00fake m))" unfolding mm_start_auto_m00fake_def
      by (rule mm_start_task_inv[OF assms(1)]) (simp add: auto_task.at_pos_def[OF task.auto_task_axioms])
    then show ?thesis unfolding AutoM00FakePauseTask handle_command.simps by (intro ready) (cases "mm_start_auto_m00fake m", simp)
  next
    case (ManualStartPointMove s t sp touch)
    then have "speed_ok sp" "is_axis t" using assms(3) by (simp_all add: sp_ok_def)
    then have i: "mm_inv (snd (mm_start_manual T u sp t m))" by (rule mm_start_manual_inv[OF assms(1,2)])
    then have "mm_inv ((snd (mm_start_manual T u sp t m))\<lparr>shared_data := set_detect_enable touch (shared_data (snd (mm_start_manual T u sp t m)))\<rparr>)"
      by (rule mm_inv_shared) simp_all
    with i show ?thesis unfolding ManualStartPointMove handle_command.simps
      by (intro ready) (cases "mm_start_manual T u sp t m", simp)
  next
    case (ManualStopPointMove imm)
    then show ?thesis using ready mm_stop_manual_inv[OF assms(1,2)] by simp
  next
    case AutoPause
    show ?thesis
    proof (cases "mm_mode m = MM_Auto")
      case True
      obtain b r where r: "tr_pause T u ?r = Inr (b, r)" "tr_inv r ?sh"
        using tr_pause_inv[OF tr assms(2), of u] assms(4) AutoPause by (auto simp: timely_def pause_in_time_def)
      then have "mm_inv (m\<lparr>auto_task_runner := r\<rparr>)" using mm_runner_inv[OF True] has_task_kept(1)[OF r(1)] auto True assms(1) by blast
      then show ?thesis using r(1) True AutoPause by (simp add: mm_pause_auto_def)
    qed (use AutoPause assms(1) in \<open>simp add: mm_pause_auto_def ex_bool_eq\<close>)
  next
    case AutoResume
    show ?thesis
    proof (cases "mm_mode m = MM_Auto")
      case True
      obtain b r sh where r: "tr_resume T u ?r ?sh = Inr (b, r, sh)" "tr_inv r sh" using tr_resume_inv[OF tr assms(2)] by blast
      then have "mm_inv (m\<lparr>auto_task_runner := r, shared_data := sh\<rparr>)"
        using has_task_kept(2)[OF r(1)] auto True tr_calls_later(1)[OF r(1)] assms(1) by (simp add: mm_inv_def later_than_def)
      then show ?thesis using r(1) True AutoResume by (simp add: mm_resume_auto_def)
    qed (use AutoResume assms(1) in \<open>simp add: mm_resume_auto_def ex_bool_eq\<close>)
  next
    case (AutoStop imm)
    show ?thesis
    proof (cases "mm_mode m = MM_Auto")
      case True
      obtain b r where r: "tr_stop T u imm ?r = Inr (b, r)" "tr_inv r ?sh" using tr_stop_inv[OF tr assms(2)] by blast
      then have "mm_inv (m\<lparr>auto_task_runner := r\<rparr>)" using mm_runner_inv[OF True] has_task_kept(3)[OF r(1)] auto True assms(1) by blast
      then show ?thesis using r(1) True AutoStop by (simp add: mm_stop_auto_def)
    qed (use AutoStop assms(1) in \<open>simp add: mm_stop_auto_def ex_bool_eq\<close>)
  next
    case ManualEmergencyStopAllMove
    then show ?thesis using mm_reset_inv(1)[OF ax jo] by (simp add: ex_bool_eq)
  next
    case SettingClearWarning
    then show ?thesis using mm_inv_shared[OF assms(1)] by (simp add: ex_bool_eq)
  qed (use assms(3) in \<open>simp_all add: sp_ok_def\<close>)
qed

section \<open>Cycles\<close>

lemma manual_run_machine:
  assumes "mm_inv m" "mm_mode m = MM_Manual" "0 < T"
  shows "\<exists>m'. mainmode_manual T u m = Inr m' \<and> mm_inv m'"
proof -
  let ?h = "mm_handler m" and ?r = "auto_task_runner m" and ?sh = "shared_data m"
  have i: "tr_inv ?r ?sh" "tr_state ?r = AutoStopped" "pm_inv (start_pos ?h) (target_pos ?h) ?h"
    "move_between (start_pos ?h) (target_pos ?h)" "curr_pos ?h = global_cmd_axis ?sh"
    using assms(1,2) by (simp_all add: mm_inv_def Let_def)
  have idle: "mm_inv ((mm_signal s (m\<lparr>shared_data := sh, mm_handler := h\<rparr>))\<lparr>mm_mode := MM_Idle\<rparr>)"
    if "global_cmd_axis sh = global_cmd_axis ?sh" and later: "later_than ?sh sh" for s h sh
  proof -
    have "tr_inv ?r (set_signal s sh)" using i(1) by (rule tr_inv_shared) (use that later in simp_all)
    then show ?thesis using i(2) assms(1) later by (simp add: mm_inv_def mm_signal_def later_than_def)
  qed
  show ?thesis
  proof (cases "pm_is_over ?h")
    case True
    then show ?thesis using idle[of ?sh MotionSignal_ManualPointMoveStopped ?h] by (simp add: mainmode_manual_def)
  next
    case False
    show ?thesis
    proof (cases "fst (run_detect_once ?sh)")
      case True
      then show ?thesis using False idle[of "snd (run_detect_once ?sh)" MotionSignal_ManualPointMoveStopped]
        by (simp add: mainmode_manual_def Let_def case_prod_beta pm_stop_immediate del: run_detect_sel(5))
    next
      case no: False
      let ?n = "pm_run_once ?h" and ?sh1 = "set_cmd_axis (curr_pos (pm_run_once ?h)) (snd (run_detect_once ?sh))"
      note p = pm_run_inv(1)[OF i(3)]
      have "is_axis (curr_pos ?n)" using pm_inv_axis[OF p] i(4) by (simp add: move_between_def)
      then have "tr_inv ?r ?sh1" by (intro tr_inv_stopped[OF i(1,2)]) simp_all
      then have "mm_inv (m\<lparr>mm_handler := ?n, shared_data := ?sh1\<rparr>)" using assms(1,2) i(2,4) p
        by (simp add: mm_inv_def Let_def pm_run_pos set_cmd_axis_def run_detect_once_def)
      then show ?thesis using False no by (simp add: mainmode_manual_def Let_def case_prod_beta del: run_detect_sel(5))
    qed
  qed
qed

lemma curr_task_run:
  "tr_run_once T u r sh = Inr (r', sh') \<Longrightarrow> curr_task r \<noteq> None \<Longrightarrow> curr_task r' \<noteq> None"
  by (auto simp: tr_run_once_def tr_run_task_def tr_run_pmc_def pmrecovering_run_once_def rbind_Inr_iff Let_def
      after_normal_moving_def after_pausing_def after_resuming_def after_stopping_def
      split: option.splits auto_state.splits if_splits prod.splits)

lemma mm_run_inv:
  assumes "mm_inv m" "0 < T"
  shows "\<exists>m'. mm_run_once T u m = Inr m' \<and> mm_inv m'"
proof (cases "enabled m")
  case False
  then show ?thesis using assms(1) by (simp add: mm_run_once_def)
next
  case True
  show ?thesis
  proof (cases "mm_mode m")
    case MM_Idle
    then show ?thesis using True mm_inv_shared[OF assms(1)] by (simp add: mm_run_once_def)
  next
    case MM_Manual
    then show ?thesis using True manual_run_machine[OF assms(1) MM_Manual assms(2), of u] by (simp add: mm_run_once_def)
  next
    case MM_Auto
    have i: "tr_inv (auto_task_runner m) (shared_data m)" "curr_task (auto_task_runner m) \<noteq> None"
      using assms(1) MM_Auto by (simp_all add: mm_inv_def)
    obtain r sh where r: "tr_run_once T u (auto_task_runner m) (shared_data m) = Inr (r, sh)" "tr_inv r sh"
      using tr_run_inv[OF i(1) assms(2), of u] by blast
    have "curr_task r \<noteq> None" using curr_task_run[OF r(1) i(2)] .
    then have "mm_inv (if tr_state r = AutoStopped then m\<lparr>auto_task_runner := r, shared_data := sh, mm_mode := MM_Idle\<rparr>
        else m\<lparr>auto_task_runner := r, shared_data := sh\<rparr>)"
      using r(2) MM_Auto tr_run_later[OF r(1) i(1) assms(2)] assms(1) by (simp add: mm_inv_def later_than_def)
    then show ?thesis using r(1) True MM_Auto by (simp add: mm_run_once_def mainmode_auto_def Let_def)
  qed
qed

section \<open>Reachable states\<close>

text \<open>
  A cycle with what the sensor says, a command of the queue, a loss of the drives (they are reset and then
  enabled at the position read from them). The planner's uninitialised variables are arbitrary in each.
\<close>

definition feel :: "bool \<Rightarrow> machine \<Rightarrow> machine" where
  "feel b m = m\<lparr>shared_data := (shared_data m)\<lparr>touch_physical := b\<rparr>\<rparr>"

text \<open>The clocks and the message of the servo board are read again; the system clock does not go back.\<close>

definition sense :: "int \<Rightarrow> int \<Rightarrow> real \<Rightarrow> machine \<Rightarrow> machine" where
  "sense ms ns v m = m\<lparr>shared_data := (shared_data m)\<lparr>now_ms := ms, now_ns := ns, servo_mm_min := v\<rparr>\<rparr>"

inductive motion_step :: "real \<Rightarrow> machine \<Rightarrow> machine \<Rightarrow> bool" for T where
  cycle: "mm_run_once T u (feel b m) = Inr m' \<Longrightarrow> motion_step T m m'"
| command: "sp_ok c \<Longrightarrow> timely c m \<Longrightarrow> handle_command T u ts c m = Inr (b, m') \<Longrightarrow> motion_step T m m'"
| signals: "motion_step T m (snd (handle_signal m))"
| inputs: "now_ms (shared_data m) \<le> ms \<Longrightarrow> motion_step T m (sense ms ns v m)"
| jumps: "jump_ok jp \<Longrightarrow> motion_step T m (snd (set_jump_param jp m))"
| ratio: "motion_step T m (snd (set_g01_speed_ratio x m))"
| drives: "is_axis p \<Longrightarrow> motion_step T m (mm_set_enable b (mm_reset m)\<lparr>shared_data := set_cmd_axis p (shared_data m)\<rparr>)"

lemma feel_inv: "mm_inv m \<Longrightarrow> mm_inv (feel b m)"
  unfolding feel_def by (rule mm_inv_shared) simp_all

lemma motion_step_inv:
  assumes "motion_step T m m'" "0 < T" "mm_inv m"
  shows "mm_inv m'"
  using assms(1)
proof (cases rule: motion_step.cases)
  case (cycle u b)
  then show ?thesis using mm_run_inv[OF feel_inv[OF assms(3)] assms(2), of u b] by auto
next
  case (command c u ts b)
  then show ?thesis using handle_command_inv[OF assms(3,2), of c u ts] by auto
next
  case signals
  then show ?thesis using mm_inv_shared[OF assms(3), of "reset_all (shared_data m)"] by (simp add: handle_signal_def)
next
  case (inputs ms ns v)
  then show ?thesis unfolding inputs(1) sense_def by (intro mm_inv_shared[OF assms(3)]) (simp_all add: later_than_def)
next
  case (jumps jp)
  then show ?thesis using mm_inv_shared[OF assms(3), of "(shared_data m)\<lparr>jump_setting := jp\<rparr>"]
    by (simp add: set_jump_param_def later_than_def)
next
  case (ratio x)
  then show ?thesis using mm_inv_shared[OF assms(3), of "(shared_data m)\<lparr>g01_speed_ratio := x\<rparr>"]
    by (simp add: set_g01_speed_ratio_def later_than_def)
next
  case (drives p b)
  let ?m = "m\<lparr>shared_data := set_cmd_axis p (shared_data m)\<rparr>"
  have "m' = mm_set_enable b (mm_reset ?m)" using drives by (simp add: mm_set_enable_def mm_reset_def)
  moreover have "is_axis (global_cmd_axis (shared_data ?m))" using drives by simp
  moreover have "jump_ok (jump_setting (shared_data ?m))" using assms(3) by (simp add: mm_inv_def set_cmd_axis_def)
  ultimately show ?thesis using mm_reset_inv(1) by simp
qed

lemma motion_steps_inv: "(motion_step T)\<^sup>*\<^sup>* m m' \<Longrightarrow> 0 < T \<Longrightarrow> mm_inv m \<Longrightarrow> mm_inv m'"
  by (induction rule: rtranclp_induct) (blast intro: motion_step_inv)+


text \<open>C19: The modes of a reachable machine: while the runner recovers a pause it is in one of the four states the
  header of its class lists, with the task paused and the controller in the state that belongs to it; a mode other
  than the automatic one means that the task runner has stopped.\<close>

theorem machine_modes:
  assumes "sh_ok sh" "0 < T" "(motion_step T)\<^sup>*\<^sup>* (mm_new sh) m"
  shows "(mm_mode m \<noteq> MM_Auto \<longrightarrow> tr_state (auto_task_runner m) = AutoStopped)
    \<and> (case auto_task_runner m of r \<Rightarrow> mm_mode m = MM_Auto \<and> domin_state r = PauseMoveRecoverRunning \<longrightarrow>
         tr_state r \<in> {NormalMoving, Pausing, AutoPaused, Stopping} \<and> task_paused (tr_task r)
         \<and> pmc_state (pausemove_controller r) \<in> recover_states (tr_state r))"
proof -
  have i: "mm_inv m" using motion_steps_inv[OF assms(3,2) mm_new_inv[OF assms(1)]] .
  let ?r = "auto_task_runner m"
  have one: "tr_state ?r = AutoStopped" if "mm_mode m \<noteq> MM_Auto" using i that by (cases "mm_mode m") (simp_all add: mm_inv_def)
  have two: "tr_state ?r \<in> {NormalMoving, Pausing, AutoPaused, Stopping} \<and> task_paused (tr_task ?r)
      \<and> pmc_state (pausemove_controller ?r) \<in> recover_states (tr_state ?r)"
    if a: "mm_mode m = MM_Auto" "domin_state ?r = PauseMoveRecoverRunning"
  proof -
    obtain t where t: "curr_task ?r = Some t" "tr_inv ?r (shared_data m)"
      using i a(1) by (cases "curr_task ?r") (simp_all add: mm_inv_def)
    note iff = tr_inv_recover[OF t(1) a(2)]
    then show ?thesis using t(2) by (cases "tr_state ?r") (auto simp: recover_states_def paused_ok_def)
  qed
  from one two show ?thesis by simp
qed


section \<open>The sample machine\<close>

definition all_ready :: thread_state where
  "all_ready = \<lparr>ecat_ready = True, thread_running = True\<rparr>"

text \<open>The machine after its drives came up.\<close>

definition sample_idle :: machine where
  "sample_idle = (mm_set_enable True (mm_reset (mm_new sample_shared)))
     \<lparr>shared_data := set_cmd_axis sample_from (shared_data (mm_new sample_shared))\<rparr>"

lemma sample_idle_fields [simp]:
  "enabled sample_idle" "mm_mode sample_idle = MM_Idle" "global_cmd_axis (shared_data sample_idle) = sample_from"
  "warning (shared_data sample_idle) = False" "touch_physical (shared_data sample_idle) = False"
  by (simp_all add: sample_idle_def mm_new_def mm_reset_def mm_set_enable_def shared_defs sample_shared_def)

lemma sample_axis: "sh_ok sample_shared"
  using sample_move(1) sample_jump by (simp add: sample_shared_def sh_ok_def)

lemma sample_idle_reach: "(motion_step T)\<^sup>*\<^sup>* (mm_new sample_shared) sample_idle"
  unfolding sample_idle_def by (rule r_into_rtranclp) (rule motion_step.drives[OF sample_move(1)])

text \<open>It starts a rapid move.\<close>

definition sample_started :: machine where
  "sample_started = snd (mm_start_auto_g00 (1 / 1000) zero_vars sample_speed sample_to False sample_idle)"

lemma sample_started:
  "mm_start_auto_g00 (1 / 1000) zero_vars sample_speed sample_to False sample_idle = (True, sample_started)"
  "mm_mode sample_started = MM_Auto" "tr_state (auto_task_runner sample_started) = NormalMoving"
  "domin_state (auto_task_runner sample_started) = AutoTaskRunning"
  "curr_task (auto_task_runner sample_started) = Some (G00AutoTask (g00_new (1 / 1000) zero_vars sample_to sample_speed False (shared_data sample_idle)))"
  using pm_start_inv(3)[OF sample_move, of "1 / 1000" zero_vars pm_blank]
  by (simp_all add: sample_started_def mm_start_auto_g00_def mm_start_task_def restart_task_def mm_signal_def g00_new_def
      pm_is_over_def mw_is_stopped_def pm_state_def)

lemma sample_started_reach: "(motion_step (1 / 1000))\<^sup>*\<^sup>* (mm_new sample_shared) sample_started"
proof -
  have "handle_command (1 / 1000) zero_vars all_ready (AutoStartG00FastMove sample_from sample_to sample_speed False) sample_idle
      = Inr (True, sample_started)"
    by (simp add: when_ready_def all_ready_def sample_started(1))
  then have "motion_step (1 / 1000) sample_idle sample_started"
    by (rule motion_step.command[rotated 2]) (simp_all add: sp_ok_def timely_def sample_move)
  then show ?thesis by (rule rtranclp.rtrancl_into_rtrancl[OF sample_idle_reach])
qed



text \<open>A pause task, resumed: the runner recovers.\<close>

lemma feel_same [simp]: "feel False sample_idle = sample_idle"
  by (simp add: feel_def sample_idle_def mm_new_def mm_reset_def mm_set_enable_def shared_defs sample_shared_def)

lemma m00_runs:
  "\<exists>m. (motion_step T)\<^sup>*\<^sup>* (mm_new sample_shared) m \<and> mm_mode m = MM_Auto
     \<and> domin_state (auto_task_runner m) = PauseMoveRecoverRunning"
proof -
  define m0 where "m0 = snd (mm_start_auto_m00fake sample_idle)"
  have m0: "mm_start_auto_m00fake sample_idle = (True, m0)" "mm_mode m0 = MM_Auto" "enabled m0"
    "curr_task (auto_task_runner m0) = Some (M00FakeAutoTask M00Paused)" "tr_state (auto_task_runner m0) = NormalMoving"
    "domin_state (auto_task_runner m0) = AutoTaskRunning"
    by (simp_all add: m0_def mm_start_auto_m00fake_def mm_start_task_def restart_task_def mm_signal_def)
  define m1 where "m1 = (feel False m0)\<lparr>auto_task_runner := (auto_task_runner m0)\<lparr>curr_task := Some (M00FakeAutoTask M00Paused),
     tr_state := Pausing\<rparr>\<rparr>"
  have m1: "mm_run_once T zero_vars (feel False m0) = Inr m1"
    using m0 by (simp add: mm_run_once_def mainmode_auto_def tr_run_once_def tr_run_task_def after_normal_moving_def feel_def m1_def)
  define m2 where "m2 = (feel False m1)\<lparr>auto_task_runner := (auto_task_runner m1)\<lparr>curr_task := Some (M00FakeAutoTask M00Paused),
     tr_state := AutoPaused, pausemove_controller := pmc_init (pausemove_controller (auto_task_runner m1))\<rparr>,
     shared_data := set_signal MotionSignal_AutoPaused (shared_data (feel False m1))\<rparr>"
  have f1: "mm_mode m1 = MM_Auto" "enabled m1" "curr_task (auto_task_runner m1) = Some (M00FakeAutoTask M00Paused)"
    "tr_state (auto_task_runner m1) = Pausing" "domin_state (auto_task_runner m1) = AutoTaskRunning"
    using m0 by (simp_all add: m1_def feel_def)
  have m2: "mm_run_once T zero_vars (feel False m1) = Inr m2"
    using f1 by (simp add: mm_run_once_def mainmode_auto_def tr_run_once_def tr_run_task_def after_pausing_def feel_def m2_def)
  have f2: "mm_mode m2 = MM_Auto" "curr_task (auto_task_runner m2) = Some (M00FakeAutoTask M00Paused)"
    "tr_state (auto_task_runner m2) = AutoPaused" "domin_state (auto_task_runner m2) = AutoTaskRunning"
    "pmc_state (pausemove_controller (auto_task_runner m2)) = AllowManualPointMove"
    "axis_recorder (pausemove_controller (auto_task_runner m2)) = []"
    using f1 by (simp_all add: m2_def feel_def pmc_init_def)
  obtain m3 where m3: "mm_resume_auto T zero_vars m2 = Inr (True, m3)" "mm_mode m3 = MM_Auto"
    "domin_state (auto_task_runner m3) = PauseMoveRecoverRunning"
    using f2 by (simp add: mm_resume_auto_def tr_resume_def pmc_activate_recover_def Let_def)
  have "motion_step T sample_idle m0"
    by (rule motion_step.command[of AutoM00FakePauseTask _ _ zero_vars all_ready True]) (simp_all add: sp_ok_def timely_def when_ready_def all_ready_def m0(1))
  moreover have "motion_step T m2 m3"
    by (rule motion_step.command[of AutoResume _ _ zero_vars all_ready True]) (simp_all add: sp_ok_def timely_def m3(1))
  ultimately have "(motion_step T)\<^sup>*\<^sup>* (mm_new sample_shared) m3"
    using sample_idle_reach motion_step.cycle[OF m1] motion_step.cycle[OF m2] by (meson rtranclp.rtrancl_into_rtrancl)
  then show ?thesis using m3 by blast
qed

lemma machine_modes_witness:
  "(\<exists>m. (motion_step (1 / 1000))\<^sup>*\<^sup>* (mm_new sample_shared) m \<and> domin_state (auto_task_runner m) = PauseMoveRecoverRunning
       \<and> task_paused (tr_task (auto_task_runner m)))
     \<and> tr_state (auto_task_runner sample_idle) = AutoStopped"
proof -
  obtain m where m: "(motion_step (1 / 1000))\<^sup>*\<^sup>* (mm_new sample_shared) m" "mm_mode m = MM_Auto"
    "domin_state (auto_task_runner m) = PauseMoveRecoverRunning" using m00_runs by blast
  have "tr_state (auto_task_runner sample_idle) = AutoStopped"
    using machine_modes[OF sample_axis _ sample_idle_reach[of "1 / 1000"]] by simp
  moreover have "task_paused (tr_task (auto_task_runner m))"
    using machine_modes[OF sample_axis _ m(1)] m(2,3) by simp
  ultimately show ?thesis using m by blast
qed

end
