(* ===== verification/Motion_Rapid.thy ===== *)
theory Motion_Rapid
  imports Motion_Machine_Correct
begin

text \<open>
  A rapid move from its command to the idle mode: paused and resumed, with manual moves in the pauses, it
  ends at its target if it is not stopped and nothing is touched; and left to itself it does end.
\<close>

section \<open>Nothing touched\<close>

definition quiet :: "shared \<Rightarrow> bool" where
  "quiet sh \<longleftrightarrow> \<not> warning sh \<and> \<not> touch_physical sh"

lemma quiet_ops [simp]:
  "quiet (set_signal s sh) = quiet sh" "quiet (set_detect_enable b sh) = quiet sh" "quiet (set_cmd_axis a sh) = quiet sh"
  "quiet (reset_all sh) = quiet sh"
  by (simp_all add: quiet_def shared_defs)

lemma quiet_detect: "quiet sh \<Longrightarrow> run_detect_once sh = (False, sh)"
  by (simp add: quiet_def run_detect_once_def)

lemma quiet_g00: "quiet sh \<Longrightarrow> \<exists>sh'. g00_run_once T u g sh = Inr (g\<lparr>g00_handler := pm_run_once (g00_handler g)\<rparr>, sh') \<and> quiet sh'
    \<and> global_cmd_axis sh' = curr_pos (pm_run_once (g00_handler g))"
  by (simp add: g00_run_eq Let_def quiet_detect g00_halt_def del: run_detect_sel)

lemma quiet_pmc: "quiet sh \<Longrightarrow> pmc_run_once T u c sh = Inr (c', sh') \<Longrightarrow> quiet sh'"
  by (auto simp: pmc_run_once_def manual_pointmoving_def recovering_def recovering_pausing_def outside_stopping_def
      pmc_run_handler_def quiet_detect Let_def split: pmc_state.splits if_splits list.splits)

lemma quiet_start_manual: "quiet sh \<Longrightarrow> quiet (snd (snd (tr_start_manual T u sp s t r sh)))"
  by (simp add: tr_start_manual_def pmc_start_manual_def Let_def case_prod_beta)

section \<open>A rapid move under way\<close>

definition rapid_task :: "axis_t \<Rightarrow> auto_task option \<Rightarrow> bool" where
  "rapid_task t tk \<longleftrightarrow> (\<exists>g s. tk = Some (G00AutoTask g) \<and> on_course s t (g00_handler g) \<and> move_between s t)"

definition rapid_over :: "auto_task option \<Rightarrow> bool" where
  "rapid_over tk \<longleftrightarrow> (\<exists>g. tk = Some (G00AutoTask g) \<and> pm_state (g00_handler g) = MW_Stopped)"

definition rapid_runner :: "axis_t \<Rightarrow> task_runner \<Rightarrow> bool" where
  "rapid_runner t r \<longleftrightarrow> rapid_task t (curr_task r)
     \<and> (case domin_state r of
          AutoTaskRunning \<Rightarrow> tr_state r \<noteq> AutoStopped \<and> (tr_state r = Stopping \<longrightarrow> rapid_over (curr_task r))
        | PauseMoveRecoverRunning \<Rightarrow> tr_state r \<in> {NormalMoving, Pausing, AutoPaused})"

text \<open>A pause comes at most at the target of the move, and of the way back.\<close>

definition task_in_time :: "task_runner \<Rightarrow> bool" where
  "task_in_time r \<longleftrightarrow> (case curr_task r of Some (G00AutoTask g) \<Rightarrow> 0 \<le> mw_remaining (mrt_wrapper (g00_handler g)) | _ \<Rightarrow> True)"

lemma rapid_task_pause:
  assumes "rapid_task t (Some tk)" "task_pause T u tk = Inr (b, tk')" "0 < T"
    "case tk of G00AutoTask g \<Rightarrow> 0 \<le> mw_remaining (mrt_wrapper (g00_handler g)) | _ \<Rightarrow> True"
  shows "rapid_task t (Some tk')"
proof -
  obtain g s where g: "tk = G00AutoTask g" "on_course s t (g00_handler g)" "move_between s t" using assms(1) by (auto simp: rapid_task_def)
  obtain h where h: "pm_pause T u (g00_handler g) = Inr (b, h)" "tk' = G00AutoTask (g\<lparr>g00_handler := h\<rparr>)"
    using assms(2) g(1) by (auto simp: rbind_Inr_iff)
  have "on_course s t h" using on_course_step[OF move_step.pause[OF _ h(1)] assms(3) g(2)] assms(4) g(1) by simp
  then show ?thesis using h(2) g(3) by (auto simp: rapid_task_def)
qed

lemma rapid_task_resume: "rapid_task t (Some tk) \<Longrightarrow> 0 < T \<Longrightarrow> rapid_task t (Some (snd (task_resume T u tk)))"
  using on_course_step[OF move_step.resume] by (fastforce simp: rapid_task_def case_prod_beta)

lemma rapid_task_run:
  assumes "rapid_task t (Some tk)" "quiet sh"
  obtains g s sh' where "tk = G00AutoTask g" "task_run_once T u tk sh = Inr (G00AutoTask (g\<lparr>g00_handler := pm_run_once (g00_handler g)\<rparr>), sh')"
    "on_course s t (g00_handler g)" "on_course s t (pm_run_once (g00_handler g))" "move_between s t" "quiet sh'" "global_cmd_axis sh' = curr_pos (pm_run_once (g00_handler g))"
proof -
  obtain g s where g: "tk = G00AutoTask g" "on_course s t (g00_handler g)" "move_between s t" using assms(1) by (auto simp: rapid_task_def)
  obtain sh' where "g00_run_once T u g sh = Inr (g\<lparr>g00_handler := pm_run_once (g00_handler g)\<rparr>, sh')" "quiet sh'"
    "global_cmd_axis sh' = curr_pos (pm_run_once (g00_handler g))"
    using quiet_g00[OF assms(2)] by blast
  then show ?thesis using that g on_course_run[OF g(2)] by simp
qed

lemma on_course_over: "on_course s t h \<Longrightarrow> pm_is_over h \<longleftrightarrow> pm_state h = MW_Stopped"
  by (auto simp: on_course_def pm_inv_def pm_is_over_def pm_state_def mw_is_stopped_def mw_is_started_def)

lemma rapid_pause:
  assumes "rapid_runner t r" "tr_inv r sh" "0 < T" "task_in_time r" "tr_pause T u r = Inr (b, r')"
  shows "rapid_runner t r'"
proof -
  obtain tk where tk: "curr_task r = Some tk" "rapid_task t (Some tk)" using assms(1) by (auto simp: rapid_runner_def rapid_task_def)
  show ?thesis
  proof (cases "domin_state r")
    case AutoTaskRunning
    show ?thesis
    proof (cases "tr_state r = NormalMoving \<or> tr_state r = Resuming")
      case True
      obtain tk' where p: "task_pause T u tk = Inr (b, tk')"
        "r' = (if b then r\<lparr>curr_task := Some tk', tr_state := Pausing\<rparr> else r\<lparr>curr_task := Some tk'\<rparr>)"
        using assms(5) tk(1) AutoTaskRunning True by (auto simp: tr_pause_def rbind_Inr_iff Let_def split: if_splits)
      have "rapid_task t (Some tk')" by (rule rapid_task_pause[OF tk(2) p(1) assms(3)]) (use assms(4) tk(1) in \<open>simp add: task_in_time_def\<close>)
      then show ?thesis using p(2) AutoTaskRunning True by (auto simp: rapid_runner_def)
    next
      case False
      then have "r' = r" using assms(5) tk(1) AutoTaskRunning by (auto simp: tr_pause_def split: if_splits)
      then show ?thesis using assms(1) by simp
    qed
  next
    case PauseMoveRecoverRunning
    have "curr_task r' = curr_task r" "domin_state r' = domin_state r" "tr_state r' \<in> {tr_state r, Pausing}"
      using assms(5) tk(1) PauseMoveRecoverRunning
      by (auto simp: tr_pause_def rbind_Inr_iff Let_def split: auto_state.splits if_splits)
    then show ?thesis using assms(1) PauseMoveRecoverRunning by (auto simp: rapid_runner_def)
  qed
qed

lemma rapid_resume:
  assumes "rapid_runner t r" "tr_resume T u r sh = Inr (b, r', sh')"
  shows "rapid_runner t r'" "quiet sh \<Longrightarrow> quiet sh'"
proof -
  obtain tk where tk: "curr_task r = Some tk" using assms(1) by (auto simp: rapid_runner_def rapid_task_def)
  have "rapid_runner t r' \<and> (quiet sh \<longrightarrow> quiet sh')"
  proof (cases "tr_state r = AutoPaused")
    case True
    then have "curr_task r' = curr_task r \<and> (quiet sh \<longrightarrow> quiet sh') \<and>
        (domin_state r' = domin_state r \<and> tr_state r' = AutoPaused \<or> domin_state r' = PauseMoveRecoverRunning \<and> tr_state r' = NormalMoving)"
      using assms(2) tk by (cases "domin_state r") (auto simp: tr_resume_def case_prod_beta Let_def split: if_splits)
    then show ?thesis using assms(1) True by (auto simp: rapid_runner_def split: domin_state.splits)
  next
    case False
    then have "r' = r \<and> sh' = sh" using assms(2) tk
      by (cases "domin_state r"; cases "tr_state r") (simp_all add: tr_resume_def)
    then show ?thesis using assms(1) by simp
  qed
  then show "rapid_runner t r'" "quiet sh \<Longrightarrow> quiet sh'" by blast+
qed

lemma rapid_manual:
  assumes "rapid_runner t r"
  shows "tr_start_manual T u sp p q r sh = (b, r', sh') \<Longrightarrow> rapid_runner t r'"
    and "tr_stop_manual T u imm r = Inr (b, r') \<Longrightarrow> rapid_runner t r'"
  using assms by (auto simp: tr_start_manual_def tr_stop_manual_def rbind_Inr_iff rapid_runner_def split: if_splits prod.splits)

text \<open>A cycle of the task, by the state of the runner.\<close>

lemma rapid_after:
  assumes "rapid_task t (Some (G00AutoTask g))" "curr_task r = Some (G00AutoTask g)" "domin_state r = AutoTaskRunning"
    "tr_state r \<in> {NormalMoving, Pausing, Resuming}"
  shows "rapid_runner t (fst (after_normal_moving (G00AutoTask g) r sh))" "rapid_runner t (fst (after_pausing (G00AutoTask g) r sh))"
    "rapid_runner t (fst (after_resuming (G00AutoTask g) r sh))"
    "quiet sh \<Longrightarrow> quiet (snd (after_normal_moving (G00AutoTask g) r sh)) \<and> quiet (snd (after_pausing (G00AutoTask g) r sh))
      \<and> quiet (snd (after_resuming (G00AutoTask g) r sh))"
proof -
  obtain s where "on_course s t (g00_handler g)" using assms(1) by (auto simp: rapid_task_def)
  then have st: "pm_is_over (g00_handler g) \<longleftrightarrow> pm_state (g00_handler g) = MW_Stopped" "pm_state (g00_handler g) \<noteq> MW_Stopping"
    using on_course_over by (auto simp: on_course_def)
  have go: "rapid_runner t (r\<lparr>tr_state := x\<rparr>)" "rapid_runner t (r\<lparr>tr_state := AutoPaused, pausemove_controller := c\<rparr>)"
    if "x \<in> {NormalMoving, Pausing, Resuming}" for x c
    using that assms by (auto simp: rapid_runner_def)
  have over: "rapid_runner t (r\<lparr>tr_state := Stopping\<rparr>)" if "pm_state (g00_handler g) = MW_Stopped"
    using that assms by (auto simp: rapid_runner_def rapid_over_def)
  have same: "rapid_runner t r" using assms by (auto simp: rapid_runner_def)
  show "rapid_runner t (fst (after_normal_moving (G00AutoTask g) r sh))" "rapid_runner t (fst (after_pausing (G00AutoTask g) r sh))"
    "rapid_runner t (fst (after_resuming (G00AutoTask g) r sh))"
    using go[of Pausing] go[of Resuming] go[of NormalMoving] over same st
    by (simp_all add: after_normal_moving_def after_pausing_def after_resuming_def)
  show "quiet sh \<Longrightarrow> quiet (snd (after_normal_moving (G00AutoTask g) r sh)) \<and> quiet (snd (after_pausing (G00AutoTask g) r sh))
      \<and> quiet (snd (after_resuming (G00AutoTask g) r sh))"
    by (simp add: after_normal_moving_def after_pausing_def after_resuming_def)
qed

lemma rapid_run_task:
  assumes "rapid_runner t r" "domin_state r = AutoTaskRunning" "tr_state r \<noteq> AutoPaused" "quiet sh"
    "tr_run_once T u r sh = Inr (r', sh')"
  shows "quiet sh' \<and> (rapid_runner t r' \<or> tr_state r' = AutoStopped \<and> global_cmd_axis sh' = t)"
proof -
  obtain tk where tk: "curr_task r = Some tk" "rapid_task t (Some tk)" using assms(1) by (auto simp: rapid_runner_def rapid_task_def)
  obtain g s sh1 where g: "tk = G00AutoTask g"
    "task_run_once T u tk sh = Inr (G00AutoTask (g\<lparr>g00_handler := pm_run_once (g00_handler g)\<rparr>), sh1)"
    "on_course s t (g00_handler g)" "on_course s t (pm_run_once (g00_handler g))" "move_between s t" "quiet sh1"
    "global_cmd_axis sh1 = curr_pos (pm_run_once (g00_handler g))" by (rule rapid_task_run[OF tk(2) assms(4)])
  define g1 where "g1 = g\<lparr>g00_handler := pm_run_once (g00_handler g)\<rparr>"
  define r1 where "r1 = r\<lparr>curr_task := Some (G00AutoTask g1)\<rparr>"
  have r1: "rapid_task t (Some (G00AutoTask g1))" "curr_task r1 = Some (G00AutoTask g1)" "domin_state r1 = AutoTaskRunning"
    "tr_state r1 = tr_state r"
    using g(4,5) assms(2) by (auto simp: rapid_task_def g1_def r1_def)
  have eq: "tr_run_task T u tk next r sh = Inr (next (G00AutoTask g1) r1 sh1)" for "next"
    using g(1,2) by (simp add: tr_run_task_def g1_def r1_def)
  have st: "tr_state r \<noteq> AutoStopped" using assms(1,2) by (simp add: rapid_runner_def)
  show ?thesis
  proof (cases "tr_state r = Stopping")
    case True
    then have "pm_state (g00_handler g) = MW_Stopped" using assms(1,2) tk(1) g(1) by (auto simp: rapid_runner_def rapid_over_def)
    then have p: "pm_state (pm_run_once (g00_handler g)) = MW_Stopped"
      using pm_run_inv(2)[of s t "g00_handler g"] g(3) by (simp add: on_course_def pm_state_def mw_moving_def)
    then have "curr_pos (pm_run_once (g00_handler g)) = t"
      using on_course_stopped[OF g(4)] g(5) by (simp add: move_between_def)
    moreover have "task_stopped (G00AutoTask g1)" using p on_course_over[OF g(4)] by (simp add: g1_def)
    ultimately show ?thesis using assms(2,5) True tk(1) eq g(6,7) by (auto simp: tr_run_once_def after_stopping_def)
  next
    case False
    then have n: "tr_state r1 \<in> {NormalMoving, Pausing, Resuming}" using st assms(3) r1(4) by (cases "tr_state r") auto
    note a = rapid_after[OF r1(1-3) n, of sh1]
    have "Inr (r', sh') \<in> {Inr (after_normal_moving (G00AutoTask g1) r1 sh1), Inr (after_pausing (G00AutoTask g1) r1 sh1),
        Inr (after_resuming (G00AutoTask g1) r1 sh1) :: run_result}"
      using assms(2,5) n r1(4) tk(1) eq by (auto simp: tr_run_once_def)
    then show ?thesis using a(1-3) a(4)[OF g(6)] by (metis empty_iff fst_conv insert_iff snd_conv sum.inject(2))
  qed
qed

text \<open>What a cycle of the pause controller leaves alone.\<close>

lemma run_pmc_frame:
  assumes "tr_run_pmc T u r sh = Inr (r', sh')"
  shows "curr_task r' = curr_task r" "domin_state r' = domin_state r" "tr_state r' = tr_state r" "quiet sh \<Longrightarrow> quiet sh'"
  using assms quiet_pmc by (auto simp: tr_run_pmc_def rbind_Inr_iff)

lemma rapid_run:
  assumes "rapid_runner t r" "tr_inv r sh" "0 < T" "quiet sh" "tr_run_once T u r sh = Inr (r', sh')"
  shows "quiet sh' \<and> (rapid_runner t r' \<or> tr_state r' = AutoStopped \<and> global_cmd_axis sh' = t)"
proof -
  obtain tk where tk: "curr_task r = Some tk" "rapid_task t (Some tk)" using assms(1) by (auto simp: rapid_runner_def rapid_task_def)
  show ?thesis
  proof (cases "domin_state r")
    case AutoTaskRunning
    show ?thesis
    proof (cases "tr_state r = AutoPaused")
      case True
      then have "tr_run_pmc T u r sh = Inr (r', sh')" using assms(5) tk(1) AutoTaskRunning by (simp add: tr_run_once_def)
      from run_pmc_frame[OF this] assms(1,4) AutoTaskRunning True show ?thesis by (simp add: rapid_runner_def)
    qed (use rapid_run_task[OF assms(1) AutoTaskRunning _ assms(4,5)] in simp)
  next
    case PauseMoveRecoverRunning
    note iff = tr_inv_recover[OF tk(1) PauseMoveRecoverRunning]
    have st: "tr_state r \<in> {NormalMoving, Pausing, AutoPaused}" using assms(1) PauseMoveRecoverRunning by (simp add: rapid_runner_def)
    obtain P where P: "paused_ok r sh P" using assms(2) iff by blast
    have run: "pmrecovering_run_once T u tk r sh = Inr (r', sh')"
      using assms(5) tk(1) PauseMoveRecoverRunning by (simp add: tr_run_once_def)
    show ?thesis
    proof (cases "tr_state r = AutoPaused")
      case True
      then show ?thesis using run assms(1,4) by (simp add: pmrecovering_run_once_def)
    next
      case False
      obtain r1 sh1 where r1: "tr_run_pmc T u r sh = Inr (r1, sh1)" "pmc_state (pausemove_controller r1) \<in> recover_states (tr_state r)"
        using tr_run_pmc_ok[OF P assms(3), of u "tr_state r"] assms(2) iff False by metis
      note f = run_pmc_frame[OF r1(1)]
      have res: "rapid_task t (Some (snd (task_resume T u tk)))" by (rule rapid_task_resume[OF tk(2) assms(3)])
      have "quiet sh' \<and> rapid_runner t r'"
      proof (cases "tr_state r")
        case NormalMoving
        then show ?thesis using run r1 f assms(1,4) tk PauseMoveRecoverRunning res
          by (auto simp: pmrecovering_run_once_def recover_states_def rapid_runner_def Let_def case_prod_beta split: if_splits)
      next
        case Pausing
        then show ?thesis using run r1 f assms(1,4) tk PauseMoveRecoverRunning
          by (auto simp: pmrecovering_run_once_def rapid_runner_def split: if_splits)
      qed (use st False in simp_all)
      then show ?thesis by blast
    qed
  qed
qed

section \<open>From the command to the target\<close>

text \<open>
  The calls while a rapid move is under way, without a stop: cycles in which nothing is touched, pauses in time,
  and what a client may do in a pause.
\<close>

inductive rapid_step :: "real \<Rightarrow> machine \<Rightarrow> machine \<Rightarrow> bool" for T where
  cycle: "mm_mode m = MM_Auto \<Longrightarrow> mm_run_once T u (feel False m) = Inr m' \<Longrightarrow> rapid_step T m m'"
| pause: "mm_mode m = MM_Auto \<Longrightarrow> pause_in_time m \<Longrightarrow> task_in_time (auto_task_runner m) \<Longrightarrow>
    mm_pause_auto T u m = Inr (b, m') \<Longrightarrow> rapid_step T m m'"
| resume: "mm_mode m = MM_Auto \<Longrightarrow> mm_resume_auto T u m = Inr (b, m') \<Longrightarrow> rapid_step T m m'"
| manual: "mm_mode m = MM_Auto \<Longrightarrow> speed_ok sp \<Longrightarrow> is_axis p \<Longrightarrow> rapid_step T m (snd (mm_start_manual T u sp p m))"
| manual_stop: "mm_mode m = MM_Auto \<Longrightarrow> mm_stop_manual T u imm m = Inr (b, m') \<Longrightarrow> rapid_step T m m'"
| signals: "mm_mode m = MM_Auto \<Longrightarrow> rapid_step T m (snd (handle_signal m))"

definition rapid_machine :: "axis_t \<Rightarrow> machine \<Rightarrow> bool" where
  "rapid_machine t m \<longleftrightarrow> mm_inv m \<and> quiet (shared_data m)
     \<and> (mm_mode m = MM_Auto \<and> rapid_runner t (auto_task_runner m)
        \<or> mm_mode m = MM_Idle \<and> global_cmd_axis (shared_data m) = t)"

lemma rapid_cycle:
  assumes "rapid_machine t m" "mm_mode m = MM_Auto" "0 < T" "mm_run_once T u (feel False m) = Inr m'"
  shows "rapid_machine t m'"
proof -
  let ?m = "feel False m" and ?r = "auto_task_runner m"
  have i: "mm_inv m" "quiet (shared_data m)" "rapid_runner t ?r" using assms(1,2) by (simp_all add: rapid_machine_def)
  have m: "auto_task_runner ?m = ?r" "mm_mode ?m = MM_Auto" "enabled ?m = enabled m" "quiet (shared_data ?m)"
    using i(2) assms(2) by (simp_all add: feel_def quiet_def)
  have inv: "mm_inv ?m" by (rule feel_inv[OF i(1)])
  have inv': "mm_inv m'" using mm_run_inv[OF inv assms(3), of u] assms(4) by auto
  show ?thesis
  proof (cases "enabled m")
    case False
    then show ?thesis using assms(4) m i inv by (auto simp: mm_run_once_def rapid_machine_def)
  next
    case True
    have tr: "tr_inv ?r (shared_data ?m)" using inv m(1) by (simp add: mm_inv_def)
    obtain r sh where r: "tr_run_once T u ?r (shared_data ?m) = Inr (r, sh)"
      "m' = (if tr_state r = AutoStopped then ?m\<lparr>auto_task_runner := r, shared_data := sh, mm_mode := MM_Idle\<rparr>
             else ?m\<lparr>auto_task_runner := r, shared_data := sh\<rparr>)"
      using assms(4) True m by (auto simp: mm_run_once_def mainmode_auto_def rbind_Inr_iff Let_def split: if_splits)
    note q = rapid_run[OF i(3) tr assms(3) m(4) r(1)]
    have at: "global_cmd_axis sh = t" if "tr_state r = AutoStopped"
    proof -
      have "\<not> rapid_runner t r" using that by (auto simp: rapid_runner_def split: domin_state.splits)
      then show ?thesis using q by blast
    qed
    show ?thesis using inv' q at r(2) m(2) by (auto simp: rapid_machine_def split: if_splits)
  qed
qed

lemma rapid_step_machine:
  assumes "rapid_step T m m'" "0 < T" "rapid_machine t m"
  shows "rapid_machine t m'"
  using assms(1)
proof (cases rule: rapid_step.cases)
  case (cycle u)
  then show ?thesis using rapid_cycle[OF assms(3) _ assms(2)] by blast
next
  case (pause u b)
  have i: "mm_inv m" "rapid_runner t (auto_task_runner m)" "tr_inv (auto_task_runner m) (shared_data m)"
    using assms(3) pause(1) by (simp_all add: rapid_machine_def mm_inv_def)
  have "mm_inv m'" using handle_command_inv[OF i(1) assms(2), of AutoPause u undefined] pause by (simp add: sp_ok_def timely_def)
  moreover obtain r where "tr_pause T u (auto_task_runner m) = Inr (b, r)" "m' = m\<lparr>auto_task_runner := r\<rparr>"
    using pause by (auto simp: mm_pause_auto_def rbind_Inr_iff)
  ultimately show ?thesis using assms(3) pause(1) rapid_pause[OF i(2,3) assms(2) pause(3)] by (simp add: rapid_machine_def)
next
  case (resume u b)
  have i: "mm_inv m" "rapid_runner t (auto_task_runner m)" using assms(3) resume(1) by (simp_all add: rapid_machine_def)
  have "mm_inv m'" using handle_command_inv[OF i(1) assms(2), of AutoResume u undefined] resume by (simp add: sp_ok_def timely_def)
  moreover obtain r sh where "tr_resume T u (auto_task_runner m) (shared_data m) = Inr (b, r, sh)"
    "m' = m\<lparr>auto_task_runner := r, shared_data := sh\<rparr>" using resume by (auto simp: mm_resume_auto_def rbind_Inr_iff)
  ultimately show ?thesis using assms(3) resume(1) rapid_resume[OF i(2)] by (auto simp: rapid_machine_def)
next
  case (manual sp p u)
  have i: "mm_inv m" "rapid_runner t (auto_task_runner m)" using assms(3) manual(2) by (simp_all add: rapid_machine_def)
  obtain b r sh where r: "tr_start_manual T u sp (global_cmd_axis (shared_data m)) p (auto_task_runner m) (shared_data m) = (b, r, sh)"
    by (cases "tr_start_manual T u sp (global_cmd_axis (shared_data m)) p (auto_task_runner m) (shared_data m)")
  have "quiet sh" using quiet_start_manual[of "shared_data m"] r assms(3) by (metis rapid_machine_def snd_conv)
  then show ?thesis using mm_start_manual_inv[OF i(1) assms(2) manual(3,4), of u] manual(1,2) rapid_manual(1)[OF i(2) r] r
    by (simp add: rapid_machine_def mm_start_manual_def)
next
  case (manual_stop u imm b)
  have i: "mm_inv m" "rapid_runner t (auto_task_runner m)" using assms(3) manual_stop(1) by (simp_all add: rapid_machine_def)
  have "mm_inv m'" using mm_stop_manual_inv[OF i(1) assms(2), of u imm] manual_stop by auto
  moreover obtain r where "tr_stop_manual T u imm (auto_task_runner m) = Inr (b, r)" "m' = m\<lparr>auto_task_runner := r\<rparr>"
    using manual_stop by (auto simp: mm_stop_manual_def rbind_Inr_iff)
  ultimately show ?thesis using assms(3) manual_stop(1) rapid_manual(2)[OF i(2)] by (simp add: rapid_machine_def)
next
  case signals
  have "mm_inv m'" using motion_step_inv[OF motion_step.signals assms(2), of m] assms(3) signals by (simp add: rapid_machine_def)
  then show ?thesis using assms(3) signals by (auto simp: rapid_machine_def handle_signal_def reset_all_def quiet_def)
qed

lemma rapid_steps_machine: "(rapid_step T)\<^sup>*\<^sup>* m m' \<Longrightarrow> 0 < T \<Longrightarrow> rapid_machine t m \<Longrightarrow> rapid_machine t m'"
  by (induction rule: rtranclp_induct) (blast intro: rapid_step_machine)+

lemma start_g00_rapid:
  assumes "mm_inv m" "quiet (shared_data m)" "0 < T" "speed_ok sp" "is_axis t" "mm_start_auto_g00 T u sp t touch m = (True, m')"
  shows "rapid_machine t m'" "mm_mode m' = MM_Auto" "tr_state (auto_task_runner m') = NormalMoving"
    "domin_state (auto_task_runner m') = AutoTaskRunning" "enabled m' = enabled m"
proof -
  let ?g = "g00_new T u t sp touch (shared_data m)" and ?s = "global_cmd_axis (shared_data m)"
  have s: "is_axis ?s" by (rule mm_inv_axis[OF assms(1)])
  have start: "mm_mode m = MM_Idle" "\<not> task_stopped (G00AutoTask ?g)"
    "m' = (mm_signal MotionSignal_AutoStarted (m\<lparr>auto_task_runner := snd (restart_task (G00AutoTask ?g) (auto_task_runner m))\<rparr>))\<lparr>mm_mode := MM_Auto\<rparr>"
    using assms(6) by (auto simp: mm_start_auto_g00_def mm_start_task_def restart_task_def split: if_splits)
  have ne: "?s \<noteq> t"
  proof
    assume e: "?s = t"
    have "\<not> fst (pm_start T u sp t t pm_blank)" using pm_start_same[OF assms(5)] .
    then show False using e start(2)
      by (simp add: g00_new_def pm_is_over_def mw_is_stopped_def pm_start_def mw_start_def mrt_plan_def pm_blank_def mw_new_def
          Let_def split: if_splits)
  qed
  have oc: "on_course ?s t (g00_handler ?g)" using pm_start_on_course[OF s assms(5) ne assms(4,3)] by (simp add: g00_new_def)
  have "move_between ?s t" using s assms(5) ne by (simp add: move_between_def)
  then have "rapid_task t (Some (G00AutoTask ?g))" using oc by (auto simp: rapid_task_def)
  then have "rapid_runner t (auto_task_runner m')" by (simp add: start(3) mm_signal_def restart_task_def rapid_runner_def)
  moreover have "mm_inv m'"
    using mm_start_task_inv[OF assms(1) g00_new_ok[OF s assms(5,4,3)]] assms(6) by (metis mm_start_auto_g00_def snd_conv)
  moreover show "mm_mode m' = MM_Auto" by (simp add: start(3))
  ultimately show "rapid_machine t m'" using assms(2) by (simp add: rapid_machine_def start(3) mm_signal_def)
  show "tr_state (auto_task_runner m') = NormalMoving" "domin_state (auto_task_runner m') = AutoTaskRunning" "enabled m' = enabled m"
    by (simp_all add: start(3) mm_signal_def restart_task_def)
qed

end
