(* ===== verification/Motion_Rapid_Live.thy ===== *)
theory Motion_Rapid_Live
  imports Motion_Rapid
begin

text \<open>
  A rapid move that runs, or that is on the way back from manual moves in its pause, comes to its end by cycles alone.
\<close>

section \<open>Progress of a cycle\<close>

definition task_goes :: "auto_task option \<Rightarrow> bool" where
  "task_goes tk \<longleftrightarrow> (\<exists>g. tk = Some (G00AutoTask g) \<and> pm_state (g00_handler g) \<in> {MW_Running, MW_Stopped})"

definition runner_goes :: "task_runner \<Rightarrow> bool" where
  "runner_goes r \<longleftrightarrow> (case domin_state r of
     AutoTaskRunning \<Rightarrow> tr_state r \<in> {NormalMoving, Resuming, Stopping} \<and> task_goes (curr_task r)
   | PauseMoveRecoverRunning \<Rightarrow> tr_state r = NormalMoving)"

definition task_left :: "auto_task option \<Rightarrow> nat" where
  "task_left tk = (case tk of Some (G00AutoTask g) \<Rightarrow> mw_left (mrt_wrapper (g00_handler g)) | _ \<Rightarrow> 0)"

text \<open>On the way back: the segments left, then the cycles of this one; then the task.\<close>

definition runner_left :: "task_runner \<Rightarrow> nat \<times> nat \<times> nat" where
  "runner_left r = (case domin_state r of
     PauseMoveRecoverRunning \<Rightarrow> (3, length (axis_recorder (pausemove_controller r)),
       if pm_is_over (pmc_handler (pausemove_controller r)) then 0
       else Suc (mw_left (mrt_wrapper (pmc_handler (pausemove_controller r)))))
   | AutoTaskRunning \<Rightarrow> (if tr_state r = Resuming then 2 else if tr_state r = NormalMoving then 1 else 0, 0, task_left (curr_task r)))"

abbreviation closer_rel :: "((nat \<times> nat \<times> nat) \<times> (nat \<times> nat \<times> nat)) set" where
  "closer_rel \<equiv> less_than <*lex*> less_than <*lex*> less_than"

lemma g00_goes_run:
  assumes "on_course s t h" "pm_state h \<in> {MW_Running, MW_Stopped}"
  shows "pm_state (pm_run_once h) \<in> {MW_Running, MW_Stopped}"
    and "pm_state (pm_run_once h) = MW_Running \<Longrightarrow> mw_left (mrt_wrapper (pm_run_once h)) < mw_left (mrt_wrapper h)"
proof -
  show st: "pm_state (pm_run_once h) \<in> {MW_Running, MW_Stopped}"
    using run_state[OF assms(1), of MW_Running] assms(2) by (simp add: mw_rest_def)
  have i: "pm_inv s t h" "mw_inv (mrt_wrapper h)" using assms(1) by (simp_all add: on_course_def pm_inv_def)
  note w = pm_run_inv(2)[OF i(1)]
  show "mw_left (mrt_wrapper (pm_run_once h)) < mw_left (mrt_wrapper h)" if "pm_state (pm_run_once h) = MW_Running"
  proof -
    have mv: "mw_moving (mrt_wrapper h)"
    proof (rule ccontr)
      assume "\<not> mw_moving (mrt_wrapper h)"
      then show False using that w by (simp add: pm_state_def mw_moving_def)
    qed
    then show ?thesis using i(2) by (simp add: w mw_left_def mw_step_moving mw_inv_def mrt_left_step)
  qed
qed

lemma goes_task:
  assumes "rapid_runner t r" "runner_goes r" "domin_state r = AutoTaskRunning" "quiet sh" "tr_run_once T u r sh = Inr (r', sh')"
  shows "tr_state r' = AutoStopped \<or> runner_goes r' \<and> (runner_left r', runner_left r) \<in> closer_rel"
proof -
  obtain tk where tk: "curr_task r = Some tk" "rapid_task t (Some tk)" using assms(1) by (auto simp: rapid_runner_def rapid_task_def)
  obtain g s sh1 where g: "tk = G00AutoTask g"
    "task_run_once T u tk sh = Inr (G00AutoTask (g\<lparr>g00_handler := pm_run_once (g00_handler g)\<rparr>), sh1)"
    "on_course s t (g00_handler g)" "on_course s t (pm_run_once (g00_handler g))" by (rule rapid_task_run[OF tk(2) assms(4)])
  let ?h = "pm_run_once (g00_handler g)"
  have st: "tr_state r \<in> {NormalMoving, Resuming, Stopping}" "pm_state (g00_handler g) \<in> {MW_Running, MW_Stopped}"
    using assms(2,3) tk(1) g(1) by (simp_all add: runner_goes_def task_goes_def)
  note p = g00_goes_run[OF g(3) st(2)]
  have over: "pm_is_over ?h \<longleftrightarrow> pm_state ?h = MW_Stopped" by (rule on_course_over[OF g(4)])
  have stop: "pm_state ?h = MW_Stopped" if "tr_state r = Stopping"
  proof -
    have "pm_state (g00_handler g) = MW_Stopped"
      using that assms(1,3) tk(1) g(1) by (auto simp: rapid_runner_def rapid_over_def)
    then show ?thesis using pm_run_inv(2)[of s t "g00_handler g"] g(3) by (simp add: on_course_def pm_state_def mw_moving_def)
  qed
  have eq: "tr_run_task T u tk next r sh = Inr (next (G00AutoTask (g\<lparr>g00_handler := ?h\<rparr>)) (r\<lparr>curr_task := Some (G00AutoTask (g\<lparr>g00_handler := ?h\<rparr>))\<rparr>) sh1)"
    for "next" using g(1,2) by (simp add: tr_run_task_def)
  from st(1) consider "tr_state r = NormalMoving" | "tr_state r = Resuming" | "tr_state r = Stopping" by blast
  then show ?thesis
  proof cases
    case 1
    then have r: "(r', sh') = after_normal_moving (G00AutoTask (g\<lparr>g00_handler := ?h\<rparr>)) (r\<lparr>curr_task := Some (G00AutoTask (g\<lparr>g00_handler := ?h\<rparr>))\<rparr>) sh1"
      using assms(3,5) tk(1) eq by (simp add: tr_run_once_def)
    show ?thesis using r p over 1 assms(3) tk(1) g(1)
      by (cases "pm_state ?h") (simp_all add: after_normal_moving_def runner_goes_def task_goes_def runner_left_def task_left_def)
  next
    case 2
    then have r: "(r', sh') = after_resuming (G00AutoTask (g\<lparr>g00_handler := ?h\<rparr>)) (r\<lparr>curr_task := Some (G00AutoTask (g\<lparr>g00_handler := ?h\<rparr>))\<rparr>) sh1"
      using assms(3,5) tk(1) eq by (simp add: tr_run_once_def)
    show ?thesis using r p over 2 assms(3) tk(1) g(1)
      by (cases "pm_state ?h") (simp_all add: after_resuming_def runner_goes_def task_goes_def runner_left_def task_left_def)
  next
    case 3
    then have r: "(r', sh') = after_stopping (G00AutoTask (g\<lparr>g00_handler := ?h\<rparr>)) (r\<lparr>curr_task := Some (G00AutoTask (g\<lparr>g00_handler := ?h\<rparr>))\<rparr>) sh1"
      using assms(3,5) tk(1) eq by (simp add: tr_run_once_def)
    then show ?thesis using stop[OF 3] over by (simp add: after_stopping_def)
  qed
qed

text \<open>A cycle of the way back.\<close>

lemma pmc_back_closer:
  assumes "pmc_inv P c sh" "pmc_state c = Recovering" "pmc_run_once T u c sh = Inr (c', sh')" "pmc_state c' = Recovering"
  shows "length (axis_recorder c') < length (axis_recorder c) \<or> length (axis_recorder c') = length (axis_recorder c) \<and>
    (if pm_is_over (pmc_handler c') then 0 else Suc (mw_left (mrt_wrapper (pmc_handler c'))))
      < (if pm_is_over (pmc_handler c) then 0 else Suc (mw_left (mrt_wrapper (pmc_handler c))))"
proof (cases "pm_is_over (pmc_handler c)")
  case True
  then show ?thesis using assms(2-4) by (cases "axis_recorder c") (auto simp: pmc_run_once_def recovering_def)
next
  case False
  then have "c' = fst (pmc_run_handler c sh)" using assms(2,3) by (simp add: pmc_run_once_def recovering_def)
  then show ?thesis using back_run_closer[OF assms(1,2) False] False by (auto simp: run_handler_sel)
qed

lemma goes_back:
  assumes "rapid_runner t r" "tr_inv r sh" "0 < T" "runner_goes r" "domin_state r = PauseMoveRecoverRunning"
    "tr_run_once T u r sh = Inr (r', sh')"
  shows "runner_goes r' \<and> (runner_left r', runner_left r) \<in> closer_rel"
proof -
  obtain g s where tk: "curr_task r = Some (G00AutoTask g)" using assms(1) by (auto simp: rapid_runner_def rapid_task_def)
  note iff = tr_inv_recover[OF tk assms(5)]
  have st: "tr_state r = NormalMoving" using assms(4,5) by (simp add: runner_goes_def)
  obtain P where P: "paused_ok r sh P" "pmc_inv P (pausemove_controller r) sh" using assms(2) iff by (auto simp: paused_ok_def)
  have rs: "pmc_state (pausemove_controller r) \<in> {Recovering, RecorverOver}"
    using assms(2) iff st by (simp add: recover_states_def)
  obtain c sh1 where c: "pmc_run_once T u (pausemove_controller r) sh = Inr (c, sh1)"
    "pmc_state (pausemove_controller r) \<in> {Recovering, RecorverOver}" "pmc_state c \<in> {Recovering, RecorverOver}"
    using pmc_run_recover[OF P(2) assms(3), of u] rs by blast
  define r1 where "r1 = r\<lparr>pausemove_controller := c\<rparr>"
  have run: "tr_run_pmc T u r sh = Inr (r1, sh1)" using c(1) by (simp add: tr_run_pmc_def r1_def)
  have tp: "pm_state (g00_handler g) = MW_Paused" "g00_ok g"
    using P(1) tk assms(2) iff by (simp_all add: paused_ok_def tr_task_def)
  obtain h where h: "pm_resume T u (g00_handler g) = (True, h)" "pm_state h = MW_Running \<or> pm_state h = MW_Stopped"
    using g00_resume_ok[OF tp(2) assms(3) tp(1), of u] by blast
  have e: "Inr (r', sh') = (if pmc_state c = RecorverOver
      then Inr (r1\<lparr>curr_task := Some (G00AutoTask (g\<lparr>g00_handler := h\<rparr>)), domin_state := AutoTaskRunning, tr_state := Resuming\<rparr>, sh1)
      else Inr (r1, sh1) :: run_result)"
    using assms(5,6) tk st run h(1) c(3) by (auto simp: tr_run_once_def pmrecovering_run_once_def r1_def)
  show ?thesis
  proof (cases "pmc_state c = RecorverOver")
    case True
    then show ?thesis using e h(2) assms(5) by (auto simp: runner_goes_def task_goes_def runner_left_def r1_def)
  next
    case False
    then have rec: "pmc_state c = Recovering" "r' = r1" using c(3) e by auto
    have "pmc_state (pausemove_controller r) = Recovering"
      using c(1,2) False by (auto simp: pmc_run_once_def)
    from pmc_back_closer[OF P(2) this c(1) rec(1)] show ?thesis
      using rec(2) st assms(5) by (auto simp: runner_goes_def runner_left_def r1_def)
  qed
qed

section \<open>Cycles to the end\<close>

text \<open>Cycles in which nothing is touched; the planner's uninitialised variables may differ from one to the next.\<close>

fun quiet_cycles :: "real \<Rightarrow> (nat \<Rightarrow> plan_vars) \<Rightarrow> nat \<Rightarrow> machine \<Rightarrow> (motion_fault, machine) result" where
  "quiet_cycles T us 0 m = Inr m"
| "quiet_cycles T us (Suc n) m = rbind (quiet_cycles T us n m) (\<lambda>m'. mm_run_once T (us n) (feel False m'))"

definition cycle_step :: "real \<Rightarrow> (nat \<Rightarrow> plan_vars) \<Rightarrow> nat \<times> machine \<Rightarrow> nat \<times> machine" where
  "cycle_step T us = (\<lambda>(n, m). (Suc n, case mm_run_once T (us n) (feel False m) of Inl _ \<Rightarrow> m | Inr m' \<Rightarrow> m'))"

definition going :: "real \<Rightarrow> axis_t \<Rightarrow> nat \<times> machine \<Rightarrow> bool" where
  "going T t = (\<lambda>(n, m). 0 < T \<and> enabled m \<and> rapid_machine t m \<and> (mm_mode m = MM_Auto \<longrightarrow> runner_goes (auto_task_runner m)))"

definition machine_closer :: "((nat \<times> machine) \<times> (nat \<times> machine)) set" where
  "machine_closer = inv_image closer_rel (\<lambda>(n, m). runner_left (auto_task_runner m))"

lemma cycle_enabled: "mm_run_once T u m = Inr m' \<Longrightarrow> enabled m' = enabled m"
  by (auto simp: mm_run_once_def mainmode_manual_def mainmode_auto_def mm_signal_def rbind_Inr_iff Let_def
      split: if_splits main_mode.splits prod.splits)

lemma going_cycle:
  assumes "going T t (n, m)" "mm_mode m = MM_Auto"
  obtains m' where "mm_run_once T u (feel False m) = Inr m'" "going T t (k, m')"
    "mm_mode m' = MM_Idle \<or> (runner_left (auto_task_runner m'), runner_left (auto_task_runner m)) \<in> closer_rel"
proof -
  let ?m = "feel False m" and ?r = "auto_task_runner m"
  have g: "0 < T" "enabled m" "rapid_machine t m" "runner_goes ?r" using assms by (simp_all add: going_def)
  have i: "mm_inv m" "rapid_runner t ?r" "quiet (shared_data m)" using g(3) assms(2) by (simp_all add: rapid_machine_def)
  obtain m' where m': "mm_run_once T u ?m = Inr m'" using mm_run_inv[OF feel_inv[OF i(1)] g(1), of u False] by auto
  have rm: "rapid_machine t m'" by (rule rapid_cycle[OF g(3) assms(2) g(1) m'])
  have en: "enabled m'" using cycle_enabled[OF m'] g(2) by (simp add: feel_def)
  have q: "quiet (shared_data ?m)" using i(3) by (simp add: feel_def quiet_def)
  have tr: "tr_inv ?r (shared_data ?m)" using feel_inv[OF i(1), of False] by (simp add: mm_inv_def feel_def)
  have fm: "enabled ?m" "mm_mode ?m = MM_Auto" "auto_task_runner ?m = ?r" using g(2) assms(2) by (simp_all add: feel_def)
  then obtain r sh where e: "tr_run_once T u ?r (shared_data ?m) = Inr (r, sh)"
    "m' = (let m1 = ?m\<lparr>auto_task_runner := r, shared_data := sh\<rparr> in if tr_state r = AutoStopped then m1\<lparr>mm_mode := MM_Idle\<rparr> else m1)"
    using m' by (auto simp: mm_run_once_def mainmode_auto_def rbind_Inr_iff Let_def)
  have r: "tr_run_once T u ?r (shared_data ?m) = Inr (r, sh)" "auto_task_runner m' = r"
    "mm_mode m' = (if tr_state r = AutoStopped then MM_Idle else MM_Auto)"
    using e fm(2) by (simp_all add: Let_def)
  have "tr_state r = AutoStopped \<or> runner_goes r \<and> (runner_left r, runner_left ?r) \<in> closer_rel"
  proof (cases "domin_state ?r")
    case AutoTaskRunning
    then show ?thesis using goes_task[OF i(2) g(4) _ q r(1)] by blast
  next
    case PauseMoveRecoverRunning
    then show ?thesis using goes_back[OF i(2) tr g(1,4) _ r(1)] by blast
  qed
  then show ?thesis using that[OF m'] rm en g(1) r(2,3) by (auto simp: going_def)
qed

definition now_idle :: "nat \<times> machine \<Rightarrow> bool" where
  "now_idle = (\<lambda>(n, m). mm_mode m = MM_Idle)"

interpretation rapid: eventually_over "cycle_step T us" now_idle "going T t" machine_closer for T us t
proof
  show "wf machine_closer" unfolding machine_closer_def by (intro wf_inv_image wf_lex_prod wf_less_than)
next
  fix x assume a: "going T t x" "\<not> now_idle x"
  obtain n m where x: "x = (n, m)" by (cases x)
  have md: "mm_mode m = MM_Auto" using a x by (auto simp: going_def rapid_machine_def now_idle_def)
  obtain m' where m': "mm_run_once T (us n) (feel False m) = Inr m'" "going T t (Suc n, m')"
    "mm_mode m' = MM_Idle \<or> (runner_left (auto_task_runner m'), runner_left (auto_task_runner m)) \<in> closer_rel"
    using going_cycle[OF a(1)[unfolded x] md] by metis
  show "going T t (cycle_step T us x)" using m' by (simp add: x cycle_step_def)
  show "now_idle (cycle_step T us x) \<or> (cycle_step T us x, x) \<in> machine_closer"
    using m' by (auto simp: x cycle_step_def machine_closer_def now_idle_def)
qed

lemma cycles_steps:
  assumes "going T t (0, m)" "\<forall>j<k. \<not> now_idle ((cycle_step T us ^^ j) (0, m))"
  shows "going T t ((cycle_step T us ^^ k) (0, m)) \<and> fst ((cycle_step T us ^^ k) (0, m)) = k
    \<and> quiet_cycles T us k m = Inr (snd ((cycle_step T us ^^ k) (0, m)))"
  using assms(2)
proof (induction k)
  case (Suc k)
  obtain n m1 where x: "(cycle_step T us ^^ k) (0, m) = (n, m1)" by (cases "(cycle_step T us ^^ k) (0, m)")
  have ih: "going T t (n, m1)" "n = k" "quiet_cycles T us k m = Inr m1" using Suc x by auto
  have md: "mm_mode m1 = MM_Auto" using Suc.prems x ih(1) by (auto simp: going_def rapid_machine_def now_idle_def)
  obtain m' where "mm_run_once T (us n) (feel False m1) = Inr m'" "going T t (Suc n, m')" using going_cycle[OF ih(1) md] by metis
  then show ?case using ih x by (simp add: cycle_step_def)
qed (use assms(1) in simp)

lemma rapid_ends:
  assumes "going T t (0, m)"
  shows "\<exists>k m'. quiet_cycles T us k m = Inr m' \<and> mm_mode m' = MM_Idle \<and> global_cmd_axis (shared_data m') = t"
proof -
  obtain k where k: "now_idle ((cycle_step T us ^^ k) (0, m))"
    "\<forall>j<k. \<not> now_idle ((cycle_step T us ^^ j) (0, m))"
    using rapid.eventually[OF assms, of us] by blast
  then show ?thesis using cycles_steps[OF assms k(2)]
    by (cases "(cycle_step T us ^^ k) (0, m)") (auto simp: going_def rapid_machine_def now_idle_def)
qed

lemma start_g00_going:
  assumes "mm_inv m" "quiet (shared_data m)" "0 < T" "speed_ok sp" "is_axis t" "enabled m" "mm_start_auto_g00 T u sp t touch m = (True, m')"
  shows "going T t (n, m')"
proof -
  note r = start_g00_rapid[OF assms(1-5,7)]
  let ?g = "g00_new T u t sp touch (shared_data m)"
  have nt: "\<not> task_stopped (G00AutoTask ?g)" "curr_task (auto_task_runner m') = Some (G00AutoTask ?g)"
    using assms(7) by (auto simp: mm_start_auto_g00_def mm_start_task_def restart_task_def mm_signal_def split: if_splits)
  obtain s where "on_course s t (g00_handler ?g)" using r(1,2) nt(2) by (auto simp: rapid_machine_def rapid_runner_def rapid_task_def)
  then have "pm_state (g00_handler ?g) = MW_Running" using nt(1)
    by (auto simp: g00_new_def pm_start_def mw_start_def pm_state_def pm_is_over_def mw_is_stopped_def pm_blank_def mw_new_def
        Let_def split: prod.splits bool.splits)
  then have "runner_goes (auto_task_runner m')" using r(3,4) nt(2) by (simp add: runner_goes_def task_goes_def)
  then show ?thesis using r assms(3,6) by (simp add: going_def)
qed

section \<open>A rapid move from its command\<close>

text \<open>C9: A rapid move that the motion thread has accepted, however often it is then paused in time and resumed, with any
  manual moves in its pauses, leaves the automatic mode only with the commanded position at its target, if it is
  not stopped and nothing is touched.\<close>

theorem rapid_ends_at_target:
  assumes "sh_ok sh" "0 < T" "(motion_step T)\<^sup>*\<^sup>* (mm_new sh) m"
    and "quiet (shared_data m)" "speed_ok sp" "is_axis t" "mm_start_auto_g00 T u sp t touch m = (True, m1)"
    and "(rapid_step T)\<^sup>*\<^sup>* m1 m2"
  shows "mm_mode m2 = MM_Auto \<or> mm_mode m2 = MM_Idle \<and> global_cmd_axis (shared_data m2) = t"
proof -
  have i: "mm_inv m" using motion_steps_inv[OF assms(3,2) mm_new_inv[OF assms(1)]] .
  have "rapid_machine t m2" using rapid_steps_machine[OF assms(8,2) start_g00_rapid(1)[OF i assms(4,2,5-7)]] .
  then show ?thesis by (auto simp: rapid_machine_def)
qed

text \<open>C16: And it comes to its end: from any state of such a run in which the task runs or is on the way back from manual
  moves, finitely many cycles of the enabled machine lead to the idle mode at the target.\<close>

theorem rapid_finishes:
  assumes "sh_ok sh" "0 < T" "(motion_step T)\<^sup>*\<^sup>* (mm_new sh) m"
    and "quiet (shared_data m)" "speed_ok sp" "is_axis t" "mm_start_auto_g00 T u sp t touch m = (True, m1)"
    and "(rapid_step T)\<^sup>*\<^sup>* m1 m2" "enabled m2" "mm_mode m2 = MM_Auto \<longrightarrow> runner_goes (auto_task_runner m2)"
  shows "\<exists>k m3. quiet_cycles T us k m2 = Inr m3 \<and> mm_mode m3 = MM_Idle \<and> global_cmd_axis (shared_data m3) = t"
proof -
  have i: "mm_inv m" using motion_steps_inv[OF assms(3,2) mm_new_inv[OF assms(1)]] .
  have "rapid_machine t m2" using rapid_steps_machine[OF assms(8,2) start_g00_rapid(1)[OF i assms(4,2,5-7)]] .
  then show ?thesis by (intro rapid_ends) (use assms(2,9,10) in \<open>simp add: going_def\<close>)
qed

lemma sample_going: "going (1 / 1000) sample_to (0, sample_started)"
  using motion_steps_inv[OF sample_idle_reach _ mm_new_inv[OF sample_axis], of "1 / 1000"]
  by (intro start_g00_going[OF _ _ _ sample_move(4,2) _ sample_started(1)]) (simp_all add: quiet_def)

lemma rapid_finishes_witness:
  "\<exists>k m3. quiet_cycles (1 / 1000) (\<lambda>_. zero_vars) k sample_started = Inr m3 \<and> mm_mode m3 = MM_Idle
     \<and> global_cmd_axis (shared_data m3) = sample_to"
  using rapid_finishes[OF sample_axis _ sample_idle_reach _ sample_move(4,2) sample_started(1) rtranclp.rtrancl_refl] sample_going
  by (simp add: quiet_def going_def)

text \<open>Cycles of a machine that ends are steps of the run.\<close>

lemma quiet_rapid_steps:
  assumes "going T t (0, m)" "\<forall>j<k. \<forall>m'. quiet_cycles T us j m = Inr m' \<longrightarrow> mm_mode m' = MM_Auto"
    "quiet_cycles T us k m = Inr m'"
  shows "(rapid_step T)\<^sup>*\<^sup>* m m'"
  using assms(2,3)
proof (induction k arbitrary: m')
  case (Suc k)
  obtain m1 where m1: "quiet_cycles T us k m = Inr m1" "mm_run_once T (us k) (feel False m1) = Inr m'"
    using Suc.prems(2) by (auto simp: rbind_Inr_iff)
  then show ?case using Suc.IH[OF _ m1(1)] Suc.prems(1) rapid_step.cycle[OF _ m1(2)] by (meson lessI less_SucI rtranclp.rtrancl_into_rtrancl)
qed simp

lemma rapid_ends_at_target_witness:
  "\<exists>m2. (rapid_step (1 / 1000))\<^sup>*\<^sup>* sample_started m2 \<and> mm_mode m2 = MM_Idle \<and> global_cmd_axis (shared_data m2) = sample_to"
proof -
  let ?T = "1 / 1000 :: real" and ?us = "\<lambda>_ :: nat. zero_vars"
  let ?P = "\<lambda>k. \<exists>m. quiet_cycles ?T ?us k sample_started = Inr m \<and> mm_mode m \<noteq> MM_Auto"
  obtain k0 where k0: "?P k0" using rapid_ends[OF sample_going, of ?us] by force
  define k where "k = (LEAST k. ?P k)"
  have k: "?P k" "\<And>j. j < k \<Longrightarrow> \<not> ?P j" unfolding k_def using LeastI[of ?P, OF k0] not_less_Least[of _ ?P] by blast+
  obtain m where m: "quiet_cycles ?T ?us k sample_started = Inr m" "mm_mode m \<noteq> MM_Auto" using k(1) by blast
  have r: "(rapid_step ?T)\<^sup>*\<^sup>* sample_started m" using quiet_rapid_steps[OF sample_going _ m(1)] k(2) by blast
  then show ?thesis
    using rapid_ends_at_target[OF sample_axis _ sample_idle_reach _ sample_move(4,2) sample_started(1) r] m(2)
    by (auto simp: quiet_def)
qed

end
