(* ===== verification/Motion_Delay.thy ===== *)
theory Motion_Delay
  imports Motion_Rapid_Live
begin

text \<open>
  A delay (\<^verbatim>\<open>Src/Motion/MotionStateMachine/G04AutoTask.h\<close>) in the state machine of the motion thread: it takes the
  cycles of its time and one more, and moves nothing.
\<close>

section \<open>The time\<close>

text \<open>The delay is counted in whole milliseconds, then in whole cycles, at least one.\<close>

definition delay_cycles :: "real \<Rightarrow> real \<Rightarrow> nat" where
  "delay_cycles T d = target_delay_peroids (g04_new T d)"

lemma delay_cycles_pos: "1 \<le> delay_cycles T d"
  unfolding delay_cycles_def g04_new_def Let_def g04_task.simps by (auto simp only: split: if_splits)

lemma round_close: "0 \<le> x \<Longrightarrow> \<bar>std_round x - x\<bar> \<le> 1 / 2" "0 \<le> x \<Longrightarrow> 0 \<le> std_round x"
proof -
  assume x: "0 \<le> x"
  have "x + 1 / 2 - 1 < of_int \<lfloor>x + 1 / 2\<rfloor>" "of_int \<lfloor>x + 1 / 2\<rfloor> \<le> x + 1 / 2" by linarith+
  moreover have "std_round x = of_int \<lfloor>x + 1 / 2\<rfloor>" using x by (simp add: std_round_def)
  ultimately show "\<bar>std_round x - x\<bar> \<le> 1 / 2" by linarith
  show "0 \<le> std_round x" using x by (simp add: std_round_def)
qed

lemma cut_close:
  assumes "0 < T" "0 \<le> y"
  shows "\<bar>real (if nat \<lfloor>y / T\<rfloor> < 1 then 1 else nat \<lfloor>y / T\<rfloor>) * T - y\<bar> \<le> T"
proof -
  let ?n = "nat \<lfloor>y / T\<rfloor>"
  have n: "real ?n = of_int \<lfloor>y / T\<rfloor>" using assms by simp
  have "of_int \<lfloor>y / T\<rfloor> \<le> y / T" "y / T < of_int \<lfloor>y / T\<rfloor> + 1" by linarith+
  then have "real ?n \<le> y / T" "y / T < real ?n + 1" using n by linarith+
  then have b: "real ?n * T \<le> y" "y < real ?n * T + T" using assms(1) by (simp_all add: pos_le_divide_eq pos_divide_less_eq distrib_right)
  show ?thesis
    using b assms(2) by (auto simp only: abs_le_iff split: if_split)
qed

lemma delay_cycles_close:
  assumes "0 < T" "0 \<le> d"
  shows "\<bar>real (delay_cycles T d) * T - d\<bar> \<le> T + 5 / 10000"
proof -
  let ?y = "std_round (d * 1000) / 1000"
  have y: "0 \<le> ?y" "\<bar>?y - d\<bar> \<le> 5 / 10000" using round_close[of "d * 1000"] assms(2)
    by (simp, simp only: abs_le_iff) linarith
  have "periods T (std_round (d * 1000)) = ?y / T" by (simp add: periods_def)
  then have "delay_cycles T d = (if nat \<lfloor>?y / T\<rfloor> < 1 then 1 else nat \<lfloor>?y / T\<rfloor>)"
    by (simp only: delay_cycles_def g04_new_def Let_def g04_task.simps)
  then have "\<bar>real (delay_cycles T d) * T - ?y\<bar> \<le> T" using cut_close[OF assms(1) y(1)] by (simp only:)
  then show ?thesis using y(2) by linarith
qed

section \<open>The cycles\<close>

text \<open>A machine after \<open>k\<close> cycles of a delay of \<open>n\<close>.\<close>

definition delaying :: "axis_t \<Rightarrow> nat \<Rightarrow> nat \<Rightarrow> machine \<Rightarrow> bool" where
  "delaying p n k m \<longleftrightarrow> enabled m \<and> mm_mode m = MM_Auto \<and> global_cmd_axis (shared_data m) = p \<and> quiet (shared_data m)
     \<and> domin_state (auto_task_runner m) = AutoTaskRunning
     \<and> tr_state (auto_task_runner m) = (if k < n then NormalMoving else Stopping)
     \<and> curr_task (auto_task_runner m) = Some (G04AutoTask
         \<lparr>g04_state = if k < n then NormalDelaying else DelayStopped, curr_delayed_peroids = k, target_delay_peroids = n\<rparr>)"

lemma feel_sel [simp]:
  "enabled (feel b m) = enabled m" "mm_mode (feel b m) = mm_mode m" "auto_task_runner (feel b m) = auto_task_runner m"
  "mm_handler (feel b m) = mm_handler m" "global_cmd_axis (shared_data (feel b m)) = global_cmd_axis (shared_data m)"
  by (simp_all add: feel_def)

lemma quiet_feel [simp]: "quiet (shared_data m) \<Longrightarrow> quiet (shared_data (feel False m))"
  by (simp add: feel_def quiet_def)

lemma delaying_cycle:
  assumes "delaying p n k m" "k < n"
  shows "\<exists>m'. mm_run_once T u (feel False m) = Inr m' \<and> delaying p n (Suc k) m'"
proof -
  let ?r = "auto_task_runner m" and ?m = "feel False m"
  define g :: g04_task where
    "g = \<lparr>g04_state = if Suc k < n then NormalDelaying else DelayStopped, curr_delayed_peroids = Suc k, target_delay_peroids = n\<rparr>"
  have d: "enabled m" "mm_mode m = MM_Auto" "global_cmd_axis (shared_data m) = p" "quiet (shared_data m)"
    "domin_state ?r = AutoTaskRunning" "tr_state ?r = NormalMoving"
    "curr_task ?r = Some (G04AutoTask \<lparr>g04_state = NormalDelaying, curr_delayed_peroids = k, target_delay_peroids = n\<rparr>)"
    using assms by (simp_all add: delaying_def)
  have run: "g04_run_once \<lparr>g04_state = NormalDelaying, curr_delayed_peroids = k, target_delay_peroids = n\<rparr> = g"
    using assms(2) by (simp add: g04_run_once_def g_def Let_def)
  define r where "r = ?r\<lparr>curr_task := Some (G04AutoTask g), tr_state := if Suc k < n then NormalMoving else Stopping\<rparr>"
  have "mm_run_once T u ?m = Inr (?m\<lparr>auto_task_runner := r, shared_data := shared_data ?m\<rparr>)"
    using d run assms(2)
    by (simp add: mm_run_once_def mainmode_auto_def tr_run_once_def tr_run_task_def after_normal_moving_def r_def g_def Let_def)
  moreover have "delaying p n (Suc k) (?m\<lparr>auto_task_runner := r, shared_data := shared_data ?m\<rparr>)"
    using d by (simp add: delaying_def r_def g_def)
  ultimately show ?thesis by blast
qed

lemma delaying_last:
  assumes "delaying p n n m"
  shows "\<exists>m'. mm_run_once T u (feel False m) = Inr m' \<and> enabled m' \<and> mm_mode m' = MM_Idle
    \<and> global_cmd_axis (shared_data m') = p \<and> quiet (shared_data m') \<and> MotionSignal_AutoStopped \<in> signals_arr (shared_data m')"
  using assms
  by (simp add: mm_run_once_def mainmode_auto_def tr_run_once_def tr_run_task_def after_stopping_def delaying_def Let_def
      g04_run_once_def) (simp add: set_signal_def)

lemma start_g04_delaying:
  assumes "enabled m" "mm_mode m = MM_Idle" "quiet (shared_data m)"
  obtains m1 where "mm_start_auto_g04 T d m = (True, m1)" "delaying (global_cmd_axis (shared_data m)) (delay_cycles T d) 0 m1"
proof -
  have "0 < delay_cycles T d" using delay_cycles_pos[of T d] by simp
  moreover have "g04_new T d = \<lparr>g04_state = NormalDelaying, curr_delayed_peroids = 0, target_delay_peroids = delay_cycles T d\<rparr>"
    by (simp add: delay_cycles_def g04_new_def Let_def)
  ultimately show ?thesis using that assms
    by (simp add: mm_start_auto_g04_def mm_start_task_def restart_task_def mm_signal_def delaying_def)
qed

lemma delaying_cycles:
  assumes "delaying p n 0 m" "k \<le> n"
  shows "\<exists>m'. quiet_cycles T us k m = Inr m' \<and> delaying p n k m'"
  using assms(2)
proof (induction k)
  case (Suc k)
  then obtain m' where "quiet_cycles T us k m = Inr m'" "delaying p n k m'" by auto
  then show ?case using delaying_cycle[of p n k m' T "us k"] Suc.prems by auto
qed (use assms(1) in simp)

text \<open>C36: A delay command on the idle machine is accepted; the machine is in the automatic mode for exactly the delay's
  cycles and idle after one more, at the position it had, and says that the task has stopped; and the cycles are the
  delay's time to within one cycle and half a millisecond.\<close>

theorem delay_lasts:
  assumes "enabled m" "mm_mode m = MM_Idle" "quiet (shared_data m)"
  shows "(0 < T \<and> 0 \<le> d \<longrightarrow> \<bar>real (delay_cycles T d) * T - d\<bar> \<le> T + 5 / 10000) \<and>
    (\<exists>m1. mm_start_auto_g04 T d m = (True, m1)
      \<and> (\<forall>k \<le> delay_cycles T d. \<exists>m2. quiet_cycles T us k m1 = Inr m2 \<and> mm_mode m2 = MM_Auto)
      \<and> (\<exists>m2. quiet_cycles T us (delay_cycles T d + 1) m1 = Inr m2 \<and> mm_mode m2 = MM_Idle
           \<and> global_cmd_axis (shared_data m2) = global_cmd_axis (shared_data m)
           \<and> MotionSignal_AutoStopped \<in> signals_arr (shared_data m2)))"
proof -
  let ?p = "global_cmd_axis (shared_data m)" and ?n = "delay_cycles T d"
  obtain m1 where m1: "mm_start_auto_g04 T d m = (True, m1)" "delaying ?p ?n 0 m1"
    by (rule start_g04_delaying[OF assms])
  have auto: "\<exists>m2. quiet_cycles T us k m1 = Inr m2 \<and> mm_mode m2 = MM_Auto" if "k \<le> ?n" for k
    using delaying_cycles[OF m1(2) that, of T us] by (auto simp: delaying_def)
  obtain m2 where "quiet_cycles T us ?n m1 = Inr m2" "delaying ?p ?n ?n m2" using delaying_cycles[OF m1(2) order_refl] by blast
  then show ?thesis using delaying_last[of ?p ?n m2 T "us ?n"] auto m1(1) delay_cycles_close[of T d] by auto
qed

lemma delay_lasts_witness:
  "\<bar>real (delay_cycles (1 / 1000) 2) * (1 / 1000) - 2\<bar> \<le> 1 / 1000 + 5 / 10000 \<and>
    (\<exists>m1. mm_start_auto_g04 (1 / 1000) 2 sample_idle = (True, m1))"
  using delay_lasts[of sample_idle "1 / 1000" 2] by (auto simp: quiet_def)

end
