(* ===== verification/Cutting_Run.thy ===== *)
theory Cutting_Run
  imports Cutting_Correct
begin

text \<open>
  A cutting move from its start on: cycles with any speeds of the servo board, clocks and settings of the jumps,
  and calls of pause, resume and stop. It ends at the end of its segment, its jumps come back, they begin only
  when they are due, and the high frequency is on while it cuts; it is left on by a move that was paused.
\<close>

section \<open>Steps\<close>

text \<open>
  A state has the task, the shared objects and, as a ghost, what the servo asked for in the cycles in which it
  moved the electrode, the last one first: whether it went forwards. The relation has the set of the calls
  that may be made.
\<close>

type_synonym cut_state = "g01_task \<times> shared \<times> bool list"

text \<open>What the next cycle senses: the two clocks, the speed the servo board asks for and the setting of the jumps.\<close>

definition sense_servo :: "int \<Rightarrow> int \<Rightarrow> real \<Rightarrow> jump_param \<Rightarrow> shared \<Rightarrow> shared" where
  "sense_servo ms ns v jp sh = sh\<lparr>now_ms := ms, now_ns := ns, servo_mm_min := v, jump_setting := jp\<rparr>"

definition servo_moved :: "g01_task \<Rightarrow> g01_task \<Rightarrow> bool" where
  "servo_moved g g' \<longleftrightarrow> g01_state g = G01Running \<and> servo_sub_state g = Servoing \<and> servo_sub_state g' = Servoing"

datatype cut_call = CallPause | CallResume | CallStop

definition cut_do :: "cut_call \<Rightarrow> g01_task \<Rightarrow> g01_task" where
  "cut_do c g = snd (case c of CallPause \<Rightarrow> g01_pause g | CallResume \<Rightarrow> g01_resume g | CallStop \<Rightarrow> g01_stop g)"

inductive cut_step :: "real \<Rightarrow> cut_call set \<Rightarrow> cut_state \<Rightarrow> cut_state \<Rightarrow> bool" for T cs where
  cycle: "g01_run_once T u g sh = Inr (g', sh') \<Longrightarrow>
    cut_step T cs (g, sh, hs) (g', sh', if servo_moved g g' then (get_servo_cmd T sh > 0) # hs else hs)"
| call: "c \<in> cs \<Longrightarrow> cut_step T cs (g, sh, hs) (cut_do c g, sh, hs)"
| inputs: "now_ms sh \<le> ms \<Longrightarrow> jump_ok jp \<Longrightarrow> cut_step T cs (g, sh, hs) (g, sense_servo ms ns v jp sh, hs)"

text \<open>The states of a cutting move from the commanded position to \<open>e\<close>, with the free way \<open>h\<close> behind its start.\<close>

definition cut_reach :: "real \<Rightarrow> cut_call set \<Rightarrow> shared \<Rightarrow> axis_t \<Rightarrow> real \<Rightarrow> cut_state \<Rightarrow> bool" where
  "cut_reach T cs sh e h st \<longleftrightarrow> (\<exists>g sh1. g01_new T (linear_new (global_cmd_axis sh) e) h sh = Inr (g, sh1)
     \<and> (cut_step T cs)\<^sup>*\<^sup>* (g, sh1, []) st)"

text \<open>What the move needs: somewhere to go, and a setting of the jumps as the power manager makes it.\<close>

definition cut_starts :: "shared \<Rightarrow> axis_t \<Rightarrow> bool" where
  "cut_starts sh e \<longleftrightarrow> segment_line (global_cmd_axis sh) e \<and> jump_ok (jump_setting sh)"

definition cut_ok :: "axis_t \<Rightarrow> axis_t \<Rightarrow> real \<Rightarrow> cut_state \<Rightarrow> bool" where
  "cut_ok s e h st \<longleftrightarrow> (case st of (g, sh, hs) \<Rightarrow> cut_inv s e h g \<and> global_cmd_axis sh = g01_pos g
     \<and> last_jump_end_time_ms g \<le> now_ms sh \<and> jump_ok (jump_setting sh))"

lemma cut_cycle_ok:
  assumes "cut_ok s e h (g, sh, hs)" "0 < T"
  obtains g' sh' where "g01_run_once T u g sh = Inr (g', sh')" "cut_ok s e h (g', sh', hs')" "keeps sh sh'"
proof -
  have "cut_goes s e h sh (g01_run_once T u g sh)" using assms cut_run_goes[of s e h g T sh u] by (simp add: cut_ok_def)
  then show ?thesis using that assms(1) by (auto simp: cut_goes_def cut_ok_def keeps_def)
qed

lemma cut_ok_step:
  assumes "cut_step T cs st st'" "0 < T" "cut_ok s e h st"
  shows "cut_ok s e h st'"
  using assms(1)
proof (cases rule: cut_step.cases)
  case (cycle u g sh g' sh' hs)
  obtain g1 sh1 where "g01_run_once T u g sh = Inr (g1, sh1)"
    "cut_ok s e h (g1, sh1, if servo_moved g g' then (get_servo_cmd T sh > 0) # hs else hs)"
    using cut_cycle_ok[of s e h g sh hs T] assms(2,3) cycle(1) by metis
  then show ?thesis using cycle(2,3) by simp
next
  case (inputs sh ms jp g hs ns v)
  then show ?thesis using assms(3) by (simp add: cut_ok_def sense_servo_def)
next
  case (call c g sh hs)
  then show ?thesis using assms(3) g01_calls_ok[of s e h g] by (cases c) (simp_all add: cut_ok_def cut_do_def)
qed

text \<open>The cycles of two seconds, or the whole counter where they do not fit.\<close>

definition cut_window :: "real \<Rightarrow> nat" where
  "cut_window T = (let n = nat \<lfloor>2 / T\<rfloor> in if n = 0 \<or> 8000 < n then 8000 else n)"

lemma cut_counter: "counts [] (sc_resize (nat \<lfloor>2 / T\<rfloor>) (sc_clear (sc_new 8000)))"
  "window_size (sc_resize (nat \<lfloor>2 / T\<rfloor>) (sc_clear (sc_new 8000))) = cut_window T"
  by (auto simp: counts_def sc_resize_def sc_clear_def sc_new_def goods_def bads_def cut_window_def Let_def)

abbreviation cut_on :: "shared \<Rightarrow> shared" where
  "cut_on sh \<equiv> call_io (MachOn True) (call_io (EnableVoltageGate True) sh)"

lemma cut_start:
  assumes "cut_starts sh e"
  obtains g where "g01_new T (linear_new (global_cmd_axis sh) e) h sh = Inr (g, cut_on sh)"
    "cut_ok (global_cmd_axis sh) e h (g, cut_on sh, [])" "g01_state g = G01Running" "servo_sub_state g = Servoing"
    "counts [] (sc_servo_go g)" "window_size (sc_servo_go g) = cut_window T" "pause_or_stop_sub_state g = WaitingForJumpEnd"
    "lin_length (line_traj g) = 0" "jumping_param g = jump_setting sh" "last_jump_end_time_ms g = now_ms sh"
proof -
  have a: "segment_line (global_cmd_axis sh) e" "jump_ok (jump_setting sh)" using assms by (simp_all add: cut_starts_def)
  from g01_new_ok[OF a, of T h] obtain g where g: "g01_new T (linear_new (global_cmd_axis sh) e) h sh = Inr (g, cut_on sh)"
    "cut_inv (global_cmd_axis sh) e h g" "g01_pos g = global_cmd_axis sh" "last_jump_end_time_ms g = now_ms sh"
    "g01_state g = G01Running" "servo_sub_state g = Servoing" by blast
  have "sc_servo_go g = sc_resize (nat \<lfloor>2 / T\<rfloor>) (sc_clear (sc_new 8000))" "pause_or_stop_sub_state g = WaitingForJumpEnd"
    "lin_length (line_traj g) = 0" "jumping_param g = jump_setting sh"
    using g(1) by (auto simp: g01_new_def linear_new_def split: if_splits)
  then show ?thesis using that[of g] g a(2) cut_counter by (simp add: cut_ok_def call_io_def)
qed

text \<open>Induction over the states of a move, with the invariant at hand.\<close>

lemma cut_reach_induct [consumes 3, case_names start step]:
  assumes "cut_reach T cs sh e h st" "0 < T" "cut_starts sh e"
    and "\<And>g. g01_state g = G01Running \<Longrightarrow> servo_sub_state g = Servoing \<Longrightarrow> counts [] (sc_servo_go g) \<Longrightarrow> window_size (sc_servo_go g) = cut_window T
      \<Longrightarrow> pause_or_stop_sub_state g = WaitingForJumpEnd \<Longrightarrow> P (g, cut_on sh, [])"
    and "\<And>st st'. cut_step T cs st st' \<Longrightarrow> cut_ok (global_cmd_axis sh) e h st \<Longrightarrow> cut_ok (global_cmd_axis sh) e h st' \<Longrightarrow> P st \<Longrightarrow> P st'"
  shows "P st \<and> cut_ok (global_cmd_axis sh) e h st"
proof -
  from cut_start[OF assms(3), of T h] obtain g where g: "g01_new T (linear_new (global_cmd_axis sh) e) h sh = Inr (g, cut_on sh)"
    "cut_ok (global_cmd_axis sh) e h (g, cut_on sh, [])" "P (g, cut_on sh, [])" using assms(4) by metis
  have "(cut_step T cs)\<^sup>*\<^sup>* (g, cut_on sh, []) st" using assms(1) g(1) by (simp add: cut_reach_def)
  then show ?thesis
  proof (induction rule: rtranclp_induct)
    case base
    then show ?case using g by blast
  next
    case (step y z)
    then show ?case using assms(5) cut_ok_step[OF step(2) assms(2)] by blast
  qed
qed

lemma cut_reach_ok: "cut_reach T cs sh e h st \<Longrightarrow> 0 < T \<Longrightarrow> cut_starts sh e \<Longrightarrow> cut_ok (global_cmd_axis sh) e h st"
  using cut_reach_induct[of T cs sh e h st "\<lambda>_. True"] by simp

section \<open>What a cycle does\<close>

lemma machining_simps [simp]:
  "machining (set_cmd_axis a sh) = machining sh" "machining (call_io (EnableVoltageGate v) sh) = machining sh"
  "machining (call_io (MachOn v) sh) = v" "machining (sense_servo ms ns x jp sh) = machining sh"
  "machining (sh\<lparr>global_cmd_axis := a\<rparr>) = machining sh"
  by (simp_all add: machining_def set_cmd_axis_def call_io_def sense_servo_def)

text \<open>The cycles of a jump change neither the state nor the high frequency.\<close>

definition in_jump :: "g01_task \<Rightarrow> shared \<Rightarrow> g01_task \<Rightarrow> shared \<Rightarrow> bool" where
  "in_jump g sh g' sh' \<longleftrightarrow> g01_state g' = g01_state g \<and> pause_or_stop_sub_state g' = pause_or_stop_sub_state g
     \<and> sc_servo_go g' = sc_servo_go g \<and> machining sh' = machining sh"

lemma jump_move_frame:
  assumes "jump_move b g sh = (g', sh')"
  shows "in_jump g sh g' sh'"
  using assms by (auto simp: jump_move_def resend_gate_def send_gate_def in_jump_def Let_def split: if_splits)

lemma jump_frame:
  "servo_jumpuping T u g sh = Inr (g', sh') \<Longrightarrow> in_jump g sh g' sh'"
  "servo_jumpdowning g sh = Inr (g', sh') \<Longrightarrow> in_jump g sh g' sh'"
  "servo_buffer T g sh = Inr (g', sh') \<Longrightarrow> in_jump g sh g' sh'"
proof -
  obtain g1 sh1 where m: "jump_move False g sh = (g1, sh1)" by (cases "jump_move False g sh")
  note f = jump_move_frame[OF m]
  show "in_jump g sh g' sh'" if "servo_jumpuping T u g sh = Inr (g', sh')"
    using that f by (auto simp: servo_jumpuping_def m send_gate_def in_jump_def Let_def split: if_splits)
  obtain g2 sh2 where n: "jump_move True g sh = (g2, sh2)" by (cases "jump_move True g sh")
  show "in_jump g sh g' sh'" if "servo_jumpdowning g sh = Inr (g', sh')"
    using that jump_move_frame[OF n] by (auto simp: servo_jumpdowning_def n in_jump_def Let_def split: if_splits)
  show "in_jump g sh g' sh'" if "servo_buffer T g sh = Inr (g', sh')"
    using that by (auto simp: servo_buffer_def in_jump_def Let_def split: if_splits)
qed

lemma check_plan_ok:
  assumes "cut_ok s e h (g, sh, hs)" "0 < T" "servo_sub_state g = Servoing" "check_and_plan_jump T u g sh = Inr (False, g1, sh1)"
  shows "cut_inv s e h g1" "sh1 = sh"
proof -
  have o: "cut_inv s e h g" "last_jump_end_time_ms g \<le> now_ms sh" "jump_ok (jump_setting sh)" using assms(1) by (simp_all add: cut_ok_def)
  have jo: "cut_inv s e h (g\<lparr>jumping_param := jump_setting sh, last_jump_end_time_ms := n\<rparr>)" for n
    using o(1,3) assms(3) by (simp add: cut_inv_def jump_part_def Let_def)
  from o(2) have "cut_inv s e h g1 \<and> sh1 = sh"
  proof (cases rule: check_plan_cases[where T=T and u=u])
    case (no g2 n)
    then show ?thesis using jo assms(4) by simp
  next
    case (plan g2)
    have "cut_inv s e h g2" "servo_sub_state g2 = Servoing" using jo plan(1) assms(3) by simp_all
    from plan_jump_up_ok(1)[OF this assms(2), of u] show ?thesis using plan(2) assms(4) by (auto split: if_splits)
  qed
  then show "cut_inv s e h g1" "sh1 = sh" by simp_all
qed

lemma plan_jump_frame: "in_jump g sh (snd (plan_jump_up T u g)) sh" "line_traj (snd (plan_jump_up T u g)) = line_traj g"
  by (simp_all add: plan_jump_up_def in_jump_def Let_def split: prod.splits)

lemma check_plan_frame:
  assumes "check_and_plan_jump T u g sh = Inr (b, g', sh')"
  shows "in_jump g sh g' sh'" "\<not> b \<Longrightarrow> servo_sub_state g' = servo_sub_state g" "b \<Longrightarrow> servo_sub_state g' = JumpUping"
    "line_traj g' = line_traj g"
  using assms plan_jump_frame(1)[of "g\<lparr>jumping_param := jump_setting sh, last_jump_end_time_ms := now_ms sh\<rparr>" sh T u]
    plan_jump_frame(2)[of T u "g\<lparr>jumping_param := jump_setting sh, last_jump_end_time_ms := now_ms sh\<rparr>"]
  by (auto simp: check_and_plan_jump_def send_gate_def in_jump_def Let_def plan_jump_up_def split: prod.splits if_splits)

text \<open>A cycle with the servo: it starts a jump, or it moves and counts, and ends at the end of the segment.\<close>

lemma servoing_effect:
  assumes "cut_ok s e h (g, sh, hs)" "0 < T" "g01_state g = G01Running" "servo_sub_state g = Servoing"
    "g01_run_once T u g sh = Inr (g', sh')"
  shows "pause_or_stop_sub_state g' = pause_or_stop_sub_state g" "machining sh' = machining sh"
    "servo_sub_state g' = JumpUping \<and> g01_state g' = G01Running \<and> sc_servo_go g' = sc_servo_go g \<and> line_traj g' = line_traj g
     \<or> servo_sub_state g' = Servoing \<and> sc_servo_go g' = push_back (get_servo_cmd T sh > 0) (sc_servo_go g)
       \<and> (g01_state g' = G01Running \<or> g01_state g' = G01Stopping \<and> lin_pos (line_traj g') = e)"
proof -
  have o: "cut_inv s e h g" "last_jump_end_time_ms g \<le> now_ms sh" "jump_ok (jump_setting sh)" using assms(1) by (simp_all add: cut_ok_def)
  have r: "rbind (check_and_plan_jump T u g sh) (\<lambda>(jumps, g1, sh1). if jumps then Inr (g1, sh1)
     else let (ends, g2, sh2) = do_servothings T g1 sh1 in Inr (if ends then g2\<lparr>g01_state := G01Stopping\<rparr> else g2, sh2)) = Inr (g', sh')"
    using assms(3-5) by (simp add: g01_run_once_def normal_running_def servo_servoing_def)
  then obtain b g1 sh1 where c: "check_and_plan_jump T u g sh = Inr (b, g1, sh1)" by (auto simp: rbind_Inr_iff)
  note f = check_plan_frame[OF c]
  have "pause_or_stop_sub_state g' = pause_or_stop_sub_state g \<and> machining sh' = machining sh
     \<and> (servo_sub_state g' = JumpUping \<and> g01_state g' = G01Running \<and> sc_servo_go g' = sc_servo_go g \<and> line_traj g' = line_traj g
     \<or> servo_sub_state g' = Servoing \<and> sc_servo_go g' = push_back (get_servo_cmd T sh > 0) (sc_servo_go g)
       \<and> (g01_state g' = G01Running \<or> g01_state g' = G01Stopping \<and> lin_pos (line_traj g') = e))"
  proof (cases b)
    case True
    then show ?thesis using r c f assms(3) by (simp add: in_jump_def)
  next
    case False
    obtain ends g2 sh2 where d: "do_servothings T g1 sh1 = (ends, g2, sh2)" by (cases "do_servothings T g1 sh1")
    have sv: "servo_sub_state g1 = Servoing" using f(2) False assms(4) by simp
    have g1: "cut_inv s e h g1" and sh: "sh1 = sh" using check_plan_ok[OF assms(1,2,4)] c False by simp_all
    note o = do_servothings_ok[OF g1 sv d]
    have d': "sc_servo_go g2 = push_back (get_servo_cmd T sh > 0) (sc_servo_go g1)" "g01_state g2 = g01_state g1"
      "pause_or_stop_sub_state g2 = pause_or_stop_sub_state g1" "machining sh2 = machining sh1"
      using d sh by (auto simp: do_servothings_def Let_def)
    have g': "g' = (if ends then g2\<lparr>g01_state := G01Stopping\<rparr> else g2)" "sh' = sh2" using r c d False by simp_all
    show ?thesis using f(1) o(2,6) d' assms(3) by (cases ends) (simp_all add: g' in_jump_def)
  qed
  then show "pause_or_stop_sub_state g' = pause_or_stop_sub_state g" "machining sh' = machining sh"
    "servo_sub_state g' = JumpUping \<and> g01_state g' = G01Running \<and> sc_servo_go g' = sc_servo_go g \<and> line_traj g' = line_traj g
     \<or> servo_sub_state g' = Servoing \<and> sc_servo_go g' = push_back (get_servo_cmd T sh > 0) (sc_servo_go g)
       \<and> (g01_state g' = G01Running \<or> g01_state g' = G01Stopping \<and> lin_pos (line_traj g') = e)" by blast+
qed

text \<open>The cycles of a jump, of a pause and of a stop.\<close>

lemma jump_effect:
  assumes "g01_run_once T u g sh = Inr (g', sh')" "servo_sub_state g \<noteq> Servoing"
    "g01_state g = G01Running \<or> g01_state g \<in> {G01Pausing, G01Stopping} \<and> pause_or_stop_sub_state g = WaitingForJumpEnd"
  shows "in_jump g sh g' sh'"
  using assms jump_frame(1)[of T u g sh g' sh'] jump_frame(2)[of g sh g' sh'] jump_frame(3)[of T g sh g' sh']
  by (cases "servo_sub_state g") (auto simp: g01_run_once_def normal_running_def pausing_or_stopping_def)

lemma waiting_effect:
  assumes "g01_run_once T u g sh = Inr (g', sh')" "servo_sub_state g = Servoing"
    "g01_state g \<in> {G01Pausing, G01Stopping}" "pause_or_stop_sub_state g = WaitingForJumpEnd"
  shows "g01_state g' = g01_state g" "pause_or_stop_sub_state g' = BackingToBegin" "\<not> machining sh'"
    "line_traj g' = line_traj g" "servo_sub_state g' = Servoing" "sc_servo_go g' = sc_servo_go g"
  using assms by (auto simp: g01_run_once_def pausing_or_stopping_def split: if_splits)

lemma backing_effect:
  assumes "g01_run_once T u g sh = Inr (g', sh')" "g01_state g \<in> {G01Pausing, G01Stopping}" "pause_or_stop_sub_state g = BackingToBegin"
  shows "servo_sub_state g' = Servoing" "pause_or_stop_sub_state g' = BackingToBegin" "machining sh' = machining sh"
    "g01_state g = G01Pausing \<Longrightarrow> g01_state g' \<in> {G01Pausing, G01Paused}" "sc_servo_go g' = sc_servo_go g"
    "g01_state g = G01Stopping \<Longrightarrow> g01_state g' = G01Stopped \<and> line_traj g' = line_traj g"
  using assms by (auto simp: g01_run_once_def pausing_or_stopping_def back_to_begin_when_stop_def back_to_begin_when_pause_def
      return_back_def Let_def split: if_splits)

lemma rest_effect:
  assumes "g01_run_once T u g sh = Inr (g', sh')"
  shows "g01_state g \<in> {G01Paused, G01Stopped} \<Longrightarrow> g' = g \<and> sh' = sh"
    "g01_state g = G01Resuming \<Longrightarrow> g01_state g' = G01Running \<and> servo_sub_state g' = Servoing \<and> machining sh'
       \<and> pause_or_stop_sub_state g' = pause_or_stop_sub_state g \<and> sc_servo_go g' = sc_servo_go g \<and> line_traj g' = line_traj g"
  using assms by (auto simp: g01_run_once_def g01_resuming_def back_to_begin_when_pause_def send_gate_def Let_def split: if_splits)

lemma cut_cycle_cases:
  assumes "cut_ok s e h (g, sh, hs)" "g01_run_once T u g sh = Inr (g', sh')"
  obtains (servo) "g01_state g = G01Running" "servo_sub_state g = Servoing"
  | (jump) "servo_sub_state g \<noteq> Servoing" "g01_state g \<in> {G01Running, G01Pausing, G01Stopping}" "in_jump g sh g' sh'"
      "g01_state g = G01Running \<or> pause_or_stop_sub_state g = WaitingForJumpEnd"
  | (waiting) "g01_state g \<in> {G01Pausing, G01Stopping}" "servo_sub_state g = Servoing" "pause_or_stop_sub_state g = WaitingForJumpEnd"
  | (backing) "g01_state g \<in> {G01Pausing, G01Stopping}" "servo_sub_state g = Servoing" "pause_or_stop_sub_state g = BackingToBegin"
  | (resuming) "g01_state g = G01Resuming"
  | (rest) "g01_state g \<in> {G01Paused, G01Stopped}" "g' = g" "sh' = sh"
proof -
  have b: "servo_sub_state g = Servoing" if "g01_state g \<in> {G01Pausing, G01Stopping}" "pause_or_stop_sub_state g = BackingToBegin"
    using assms(1) that by (auto simp: cut_ok_def cut_inv_def)
  show ?thesis
    using that b jump_effect[OF assms(2)] rest_effect(1)[OF assms(2)]
    by (cases "g01_state g"; cases "pause_or_stop_sub_state g"; cases "servo_sub_state g = Servoing") auto
qed

lemma calls_states:
  "g01_state (cut_do CallPause g) = (if g01_state g = G01Running then G01Pausing else g01_state g)"
  "g01_state (cut_do CallResume g) = (if g01_state g = G01Paused then G01Resuming else g01_state g)"
  "g01_state (cut_do CallStop g) = (if g01_state g \<in> {G01Paused, G01Resuming} then G01Stopped
     else if g01_state g \<in> {G01Running, G01Pausing} then G01Stopping else g01_state g)"
  "pause_or_stop_sub_state (cut_do c g)
     = (if g01_state g = G01Running \<and> c \<noteq> CallResume then WaitingForJumpEnd else pause_or_stop_sub_state g)"
  "servo_sub_state (cut_do c g) = servo_sub_state g" "line_traj (cut_do c g) = line_traj g" "sc_servo_go (cut_do c g) = sc_servo_go g"
  by (cases "g01_state g"; cases c; simp add: cut_do_def g01_pause_def g01_resume_def g01_stop_def g01_wait_def)+

section \<open>The end of the segment\<close>

definition ends_at :: "axis_t \<Rightarrow> g01_task \<Rightarrow> bool" where
  "ends_at e g \<longleftrightarrow> servo_sub_state g = Servoing \<and> lin_pos (line_traj g) = e"

lemma ends_cycle:
  assumes "cut_ok s e h (g, sh, hs)" "0 < T" "g01_run_once T u g sh = Inr (g', sh')"
    "g01_state g \<in> {G01Stopping, G01Stopped} \<longrightarrow> ends_at e g" "g01_state g' \<in> {G01Stopping, G01Stopped}"
  shows "ends_at e g'"
  using assms(1,3)
proof (cases rule: cut_cycle_cases)
  case servo
  then show ?thesis using servoing_effect(3)[OF assms(1,2) servo assms(3)] assms(5) by (auto simp: ends_at_def)
next
  case jump
  then show ?thesis using assms(4,5) by (auto simp: in_jump_def ends_at_def)
next
  case waiting
  then show ?thesis using waiting_effect[OF assms(3) waiting(2,1,3)] assms(4,5) by (auto simp: ends_at_def)
next
  case backing
  then show ?thesis using backing_effect[OF assms(3) backing(1,3)] assms(4,5) by (auto simp: ends_at_def)
next
  case resuming
  then show ?thesis using rest_effect(2)[OF assms(3)] assms(5) by simp
qed (use assms(4,5) in auto)

lemma unstopped_ends:
  assumes "cut_reach T cs sh e h st" "0 < T" "cut_starts sh e" "CallStop \<notin> cs"
  shows "(case st of (g, sh', hs) \<Rightarrow> g01_state g \<in> {G01Stopping, G01Stopped} \<longrightarrow> ends_at e g) \<and> cut_ok (global_cmd_axis sh) e h st"
  using assms(1-3)
proof (induction rule: cut_reach_induct)
  case (start g)
  then show ?case by simp
next
  case (step st st')
  from step(1) show ?case
  proof (cases rule: cut_step.cases)
    case (cycle u g sh g' sh' hs)
    then show ?thesis using ends_cycle[OF _ assms(2) cycle(3)] step(2,4) by simp
  next
    case (call c g sh hs)
    then show ?thesis using step(4) assms(4) by (cases c) (auto simp: calls_states ends_at_def)
  qed (use step(4) in simp)
qed

text \<open>C7: A cutting move that is not stopped, whatever the servo asks for and however often it is paused and resumed and
  lifted, is over only with the commanded position at the end of its segment; and whenever it cuts, is paused or over,
  the commanded position is on the segment.\<close>

theorem cut_ends_at_target:
  assumes "0 < T" "cut_starts sh e" "cut_reach T cs sh e h (g, sh', hs)"
  shows "(g01_state g = G01Stopped \<and> CallStop \<notin> cs \<longrightarrow> global_cmd_axis sh' = e)
    \<and> (servo_sub_state g = Servoing \<longrightarrow> (\<exists>x. 0 \<le> x \<and> x \<le> CalcAxisLength (sub_axis e (global_cmd_axis sh))
       \<and> global_cmd_axis sh' = at_length (global_cmd_axis sh) e x))"
proof -
  have o: "cut_ok (global_cmd_axis sh) e h (g, sh', hs)" by (rule cut_reach_ok[OF assms(3,1,2)])
  then have "servo_sub_state g = Servoing \<longrightarrow> (\<exists>x. 0 \<le> x \<and> x \<le> CalcAxisLength (sub_axis e (global_cmd_axis sh))
       \<and> global_cmd_axis sh' = at_length (global_cmd_axis sh) e x)"
    by (auto simp: cut_ok_def cut_inv_def g01_pos_def lin_ok_def)
  then show ?thesis using unstopped_ends[OF assms(3,1,2)] o by (auto simp: cut_ok_def g01_pos_def ends_at_def)
qed

section \<open>The high frequency\<close>

definition powered :: "cut_call set \<Rightarrow> axis_t \<Rightarrow> g01_task \<Rightarrow> shared \<Rightarrow> bool" where
  "powered cs e g sh \<longleftrightarrow>
     (let waits = (pause_or_stop_sub_state g = WaitingForJumpEnd); left_on = (machining sh \<longrightarrow> CallResume \<in> cs \<and> ends_at e g)
      in case g01_state g of
           G01Running \<Rightarrow> machining sh \<and> (\<not> waits \<longrightarrow> CallResume \<in> cs)
         | G01Pausing \<Rightarrow> machining sh \<longleftrightarrow> waits
         | G01Paused \<Rightarrow> \<not> machining sh \<and> \<not> waits
         | G01Resuming \<Rightarrow> \<not> machining sh \<and> \<not> waits \<and> CallResume \<in> cs
         | G01Stopping \<Rightarrow> if waits then machining sh else left_on
         | G01Stopped \<Rightarrow> left_on)"

lemma wait_not [simp]: "s \<noteq> WaitingForJumpEnd \<longleftrightarrow> s = BackingToBegin"
  by (cases s) simp_all

lemma powered_sense [simp]: "powered cs e g (sense_servo ms ns v jp sh) = powered cs e g sh"
  by (cases "g01_state g") (simp_all add: powered_def)

lemma powered_cycle:
  assumes "cut_ok s e h (g, sh, hs)" "0 < T" "g01_run_once T u g sh = Inr (g', sh')" "powered cs e g sh"
  shows "powered cs e g' sh'"
  using assms(1,3)
proof (cases rule: cut_cycle_cases)
  case servo
  then show ?thesis using servoing_effect[OF assms(1,2) servo assms(3)] assms(4) by (auto simp: powered_def ends_at_def)
next
  case jump
  then show ?thesis using assms(4) by (auto simp: powered_def in_jump_def)
next
  case waiting
  then show ?thesis using waiting_effect[OF assms(3) waiting(2,1,3)] by (auto simp: powered_def)
next
  case backing
  then show ?thesis using backing_effect[OF assms(3) backing(1,3)] assms(4) by (auto simp: powered_def ends_at_def)
next
  case resuming
  then show ?thesis using rest_effect(2)[OF assms(3)] assms(4) by (auto simp: powered_def)
qed (use assms(4) in auto)

lemma powered_call: "c \<in> cs \<Longrightarrow> powered cs e g sh \<Longrightarrow> powered cs e (cut_do c g) sh"
  by (cases c; cases "g01_state g") (auto simp: powered_def calls_states ends_at_def)

lemma cut_powered:
  assumes "cut_reach T cs sh e h st" "0 < T" "cut_starts sh e"
  shows "(case st of (g, sh', hs) \<Rightarrow> powered cs e g sh') \<and> cut_ok (global_cmd_axis sh) e h st"
  using assms
proof (induction rule: cut_reach_induct)
  case (start g)
  then show ?case by (simp add: powered_def)
next
  case (step st st')
  from step(1) show ?case
  proof (cases rule: cut_step.cases)
    case (cycle u g sh g' sh' hs)
    then show ?thesis using powered_cycle[OF _ assms(2) cycle(3)] step(2,4) by simp
  next
    case (call c g sh hs)
    then show ?thesis using powered_call step(4) by simp
  qed (use step(4) in simp)
qed

text \<open>C26: The high frequency of the power supply is on while a cutting move runs, and off while it is paused. When the move
  is over it is off, but for one case: a move that was resumed and has reached the end of its segment.\<close>

theorem power_follows_cut:
  assumes "0 < T" "cut_starts sh e" "cut_reach T cs sh e h (g, sh', hs)"
  shows "(g01_state g = G01Running \<longrightarrow> machining sh') \<and> (g01_state g \<in> {G01Paused, G01Resuming} \<longrightarrow> \<not> machining sh')
    \<and> (g01_state g = G01Stopped \<and> machining sh' \<longrightarrow> CallResume \<in> cs \<and> global_cmd_axis sh' = e)"
  using cut_powered[OF assms(3,1,2)] by (auto simp: powered_def cut_ok_def ends_at_def g01_pos_def)

text \<open>A resumed move that is left alone keeps its substate of the pause, and so its end does not switch anything off.\<close>

definition resumed :: "cut_state \<Rightarrow> bool" where
  "resumed st \<longleftrightarrow> (case st of (g, sh, hs) \<Rightarrow> pause_or_stop_sub_state g = BackingToBegin
     \<and> g01_state g \<notin> {G01Pausing, G01Paused} \<and> (g01_state g \<noteq> G01Resuming \<longrightarrow> machining sh))"

lemma resumed_step:
  assumes "cut_step T {} st st'" "0 < T" "cut_ok s e h st" "resumed st"
  shows "resumed st'"
  using assms(1)
proof (cases rule: cut_step.cases)
  case (cycle u g sh g' sh' hs)
  note o = assms(3)[unfolded cycle(1)]
  from o cycle(3) show ?thesis
  proof (cases rule: cut_cycle_cases)
    case servo
    then show ?thesis using servoing_effect[OF o assms(2) servo cycle(3)] assms(4) cycle by (auto simp: resumed_def)
  next
    case jump
    then show ?thesis using assms(4) cycle by (auto simp: resumed_def in_jump_def)
  next
    case backing
    then show ?thesis using backing_effect[OF cycle(3) backing(1,3)] assms(4) cycle by (auto simp: resumed_def)
  next
    case resuming
    then show ?thesis using rest_effect(2)[OF cycle(3)] assms(4) cycle by (auto simp: resumed_def)
  qed (use assms(4) cycle in \<open>auto simp: resumed_def\<close>)
qed (use assms(4) in \<open>auto simp: resumed_def\<close>)

lemma resumed_steps: "(cut_step T {})\<^sup>*\<^sup>* st st' \<Longrightarrow> 0 < T \<Longrightarrow> cut_ok s e h st \<Longrightarrow> resumed st \<Longrightarrow> resumed st' \<and> cut_ok s e h st'"
  by (induction rule: rtranclp_induct) (blast intro: resumed_step cut_ok_step)+

text \<open>C27: That case does occur: every cutting move that was paused and resumed, and then comes to the end of its segment
  undisturbed, leaves the high frequency on.\<close>

theorem power_left_on_after_pause:
  assumes "0 < T" "cut_starts sh e" "cut_reach T cs sh e h (g, sh1, hs)" "g01_state g = G01Resuming"
    and "(cut_step T {})\<^sup>*\<^sup>* (g, sh1, hs) (g', sh', hs')" "g01_state g' = G01Stopped"
  shows "machining sh'"
proof -
  have "resumed (g, sh1, hs)" using cut_powered[OF assms(3,1,2)] assms(4) by (simp add: powered_def resumed_def)
  then have "resumed (g', sh', hs')" using resumed_steps[OF assms(5,1) cut_reach_ok[OF assms(3,1,2)]] by blast
  then show ?thesis using assms(6) by (simp add: resumed_def)
qed

section \<open>A sample run\<close>

lemma cut_reach_start: "cut_starts sh e \<Longrightarrow> \<exists>g. g01_state g = G01Running \<and> servo_sub_state g = Servoing \<and> cut_reach T cs sh e h (g, cut_on sh, [])
    \<and> pause_or_stop_sub_state g = WaitingForJumpEnd \<and> lin_length (line_traj g) = 0 \<and> last_jump_end_time_ms g = now_ms sh"
  using cut_start[of sh e T h] unfolding cut_reach_def by (metis rtranclp.rtrancl_refl)

lemma cut_reach_step: "cut_reach T cs sh e h st \<Longrightarrow> cut_step T cs st st' \<Longrightarrow> cut_reach T cs sh e h st'"
  unfolding cut_reach_def by (meson rtranclp.rtrancl_into_rtrancl)

text \<open>A cycle in which the servo asks for the whole segment, and the two cycles of a stop.\<close>

lemma end_cycle:
  assumes "cut_ok s e h (g, sh, hs)" "0 < T" "g01_state g = G01Running" "servo_sub_state g = Servoing"
    "now_ms sh - last_jump_end_time_ms g \<le> dn_ms (jump_setting sh)" "CalcAxisLength (sub_axis e s) \<le> get_servo_cmd T sh"
  obtains g' sh' where "g01_run_once T u g sh = Inr (g', sh')" "g01_state g' = G01Stopping" "servo_sub_state g' = Servoing"
    "cut_ok s e h (g', sh', [])"
proof -
  have o: "cut_inv s e h g" "last_jump_end_time_ms g \<le> now_ms sh" using assms(1) by (simp_all add: cut_ok_def)
  note lo = cut_line(4)[OF o(1)]
  have tot: "0 < lin_total (line_traj g)" "lin_total (line_traj g) \<le> get_servo_cmd T sh" "0 \<le> lin_length (line_traj g)"
    using at_length_end(2)[OF cut_line(1-3)[OF o(1)]] lo assms(6) by (simp_all add: lin_ok_def)
  have at_e: "lin_at_end (lin_run_once (get_servo_cmd T sh) (line_traj g))"
    using lin_run_ok[OF lo, of "get_servo_cmd T sh"] tot by (simp add: lin_at_end_def clip_def)
  have c: "check_and_plan_jump T u g sh = Inr (False, g\<lparr>jumping_param := jump_setting sh\<rparr>, sh)"
    using check_plan_eq[OF o(2), of T u] assms(5) by simp
  obtain g' sh' where r: "g01_run_once T u g sh = Inr (g', sh')" "cut_ok s e h (g', sh', [])"
    using cut_cycle_ok[OF assms(1,2), of u "[]"] by blast
  have "g01_state g' = G01Stopping \<and> servo_sub_state g' = Servoing"
    using r(1) assms(3,4) tot at_e by (auto simp: g01_run_once_def normal_running_def servo_servoing_def c do_servothings_def Let_def)
  then show ?thesis using that r by blast
qed

lemma stop_cycle:
  assumes "cut_ok s e h (g, sh, hs)" "0 < T" "g01_state g = G01Stopping" "servo_sub_state g = Servoing"
  shows "\<exists>g' sh' hs'. (cut_step T cs)\<^sup>*\<^sup>* (g, sh, hs) (g', sh', hs') \<and> g01_state g' = G01Stopped"
proof -
  obtain g1 sh1 where r1: "g01_run_once T zero_vars g sh = Inr (g1, sh1)" "cut_ok s e h (g1, sh1, hs)"
    using cut_cycle_ok[OF assms(1,2)] by metis
  have s1: "cut_step T cs (g, sh, hs) (g1, sh1, hs)"
    using cut_step.cycle[OF r1(1), of cs hs] assms(3) by (simp add: servo_moved_def)
  show ?thesis
  proof (cases "pause_or_stop_sub_state g")
    case BackingToBegin
    then show ?thesis using backing_effect(6)[OF r1(1)] assms(3) s1 by blast
  next
    case WaitingForJumpEnd
    have w: "g01_state g1 = G01Stopping" "pause_or_stop_sub_state g1 = BackingToBegin"
      using waiting_effect[OF r1(1) assms(4) _ WaitingForJumpEnd] assms(3) by simp_all
    obtain g2 sh2 where r2: "g01_run_once T zero_vars g1 sh1 = Inr (g2, sh2)" using cut_cycle_ok[OF r1(2) assms(2)] by metis
    have "cut_step T cs (g1, sh1, hs) (g2, sh2, hs)" using cut_step.cycle[OF r2, of cs hs] w by (simp add: servo_moved_def)
    then have "(cut_step T cs)\<^sup>*\<^sup>* (g, sh, hs) (g2, sh2, hs)" using s1 by (meson r_into_rtranclp rtranclp.rtrancl_into_rtrancl)
    then show ?thesis using backing_effect(6)[OF r2 _ w(2)] w(1) by blast
  qed
qed

lemma sample_cut: "cut_starts sample_shared sample_to" "global_cmd_axis sample_shared = sample_from"
  "CalcAxisLength (sub_axis sample_to sample_from) = 50" "now_ms sample_shared = 0" "dn_ms (jump_setting sample_shared) = 1000"
proof -
  show "cut_starts sample_shared sample_to" using sample_jump sample_move by (simp add: cut_starts_def segment_line_def sample_shared_def)
  have "sqrt 2500 = (50 :: real)" using real_sqrt_abs[of 50] by simp
  then show "CalcAxisLength (sub_axis sample_to sample_from) = 50"
    by (simp add: CalcAxisLength_def sub_axis_def sample_to_def sample_from_def)
qed (simp_all add: sample_shared_def)

lemma cut_on_ms [simp]: "now_ms (cut_on sh) = now_ms sh"
  by (simp add: call_io_def)

text \<open>What the servo asks for in a cycle: the whole segment.\<close>

abbreviation whole :: "shared \<Rightarrow> shared" where
  "whole sh \<equiv> sense_servo 0 0 6000 (jump_setting sample_shared) sh"

lemma whole_servo: "50 \<le> get_servo_cmd (1 / 1000) (whole sh)"
  by (simp add: get_servo_cmd_def mm_min2blu_p_def sense_servo_def EDM_BLU_PER_UM_def)

lemma whole_cycle:
  assumes "cut_ok sample_from sample_to h (g, sh, hs)" "g01_state g = G01Running" "servo_sub_state g = Servoing"
    "now_ms sh = 0" "last_jump_end_time_ms g = 0"
  shows "\<exists>g' sh' hs'. (cut_step (1 / 1000) cs)\<^sup>*\<^sup>* (g, sh, hs) (g', sh', hs') \<and> g01_state g' = G01Stopped"
proof -
  let ?T = "1 / 1000 :: real"
  have i: "cut_step ?T cs (g, sh, hs) (g, whole sh, hs)" by (rule cut_step.inputs) (simp_all add: assms(4) sample_jump)
  have o: "cut_ok sample_from sample_to h (g, whole sh, hs)" by (rule cut_ok_step[OF i _ assms(1)]) simp
  obtain g1 sh1 where c: "g01_run_once ?T zero_vars g (whole sh) = Inr (g1, sh1)" "g01_state g1 = G01Stopping"
    "servo_sub_state g1 = Servoing" "cut_ok sample_from sample_to h (g1, sh1, [])"
    by (rule end_cycle[OF o _ assms(2,3), of ?T zero_vars])
      (use sample_cut(3,5) whole_servo[of sh] assms(5) in \<open>simp_all add: sense_servo_def\<close>)
  let ?hs = "if servo_moved g g1 then (get_servo_cmd ?T (whole sh) > 0) # hs else hs"
  have s: "(cut_step ?T cs)\<^sup>*\<^sup>* (g, sh, hs) (g1, sh1, ?hs)"
    using i cut_step.cycle[OF c(1), of cs hs] by (meson r_into_rtranclp rtranclp.rtrancl_into_rtrancl)
  have "cut_ok sample_from sample_to h (g1, sh1, ?hs)" using c(4) by (simp add: cut_ok_def)
  from stop_cycle[OF this _ c(2,3)] s show ?thesis by (meson rtranclp_trans zero_less_divide_1_iff zero_less_numeral)
qed

lemma cut_ends_at_target_witness:
  "\<exists>g sh hs. cut_reach (1 / 1000) {CallPause, CallResume} sample_shared sample_to 1000 (g, sh, hs)
     \<and> g01_state g = G01Stopped \<and> global_cmd_axis sh = sample_to"
proof -
  let ?cs = "{CallPause, CallResume}"
  obtain g where g: "cut_reach (1 / 1000) ?cs sample_shared sample_to 1000 (g, cut_on sample_shared, [])"
    "g01_state g = G01Running" "servo_sub_state g = Servoing" "last_jump_end_time_ms g = 0"
    using cut_reach_start[OF sample_cut(1)] sample_cut(4) by metis
  have o: "cut_ok sample_from sample_to 1000 (g, cut_on sample_shared, [])"
    using cut_reach_ok[OF g(1) _ sample_cut(1)] sample_cut(2) by simp
  obtain g1 sh1 hs1 where s: "(cut_step (1 / 1000) ?cs)\<^sup>*\<^sup>* (g, cut_on sample_shared, []) (g1, sh1, hs1)" "g01_state g1 = G01Stopped"
    using whole_cycle[OF o g(2,3) _ g(4), of ?cs] cut_on_ms sample_cut(4) by metis
  have r: "cut_reach (1 / 1000) ?cs sample_shared sample_to 1000 (g1, sh1, hs1)" using g(1) s(1) by (auto simp: cut_reach_def)
  then have "global_cmd_axis sh1 = sample_to" using cut_ends_at_target[OF _ sample_cut(1) r] s(2) by simp
  then show ?thesis using r s(2) by blast
qed

lemma power_follows_cut_witness: "\<exists>g sh hs. cut_reach (1 / 1000) {CallPause} sample_shared sample_to 1000 (g, sh, hs) \<and> machining sh"
proof -
  obtain g where g: "cut_reach (1 / 1000) {CallPause} sample_shared sample_to 1000 (g, cut_on sample_shared, [])" "g01_state g = G01Running"
    using cut_reach_start[OF sample_cut(1)] by metis
  then have "machining (cut_on sample_shared)" using power_follows_cut[OF _ sample_cut(1) g(1)] by simp
  then show ?thesis using g(1) by blast
qed

text \<open>A pause at the start of the segment: there is no way back, so it takes two cycles.\<close>

lemma pause_cycles:
  assumes "cut_ok s e h (g, sh, hs)" "0 < T" "g01_state g = G01Running" "servo_sub_state g = Servoing" "lin_length (line_traj g) = 0"
  shows "\<exists>g' sh'. (cut_step T {CallPause, CallResume})\<^sup>*\<^sup>* (g, sh, hs) (g', sh', hs) \<and> g01_state g' = G01Paused
    \<and> now_ms sh' = now_ms sh \<and> last_jump_end_time_ms g' = last_jump_end_time_ms g"
proof -
  let ?cs = "{CallPause, CallResume}" and ?g1 = "g01_wait G01Pausing g"
  let ?g2 = "?g1\<lparr>return_back_gone := 0, pause_or_stop_sub_state := BackingToBegin\<rparr>"
  have s1: "cut_step T ?cs (g, sh, hs) (?g1, sh, hs)"
    using cut_step.call[of CallPause ?cs T g sh hs] assms(3) by (simp add: cut_do_def g01_pause_def)
  have o1: "cut_ok s e h (?g1, sh, hs)" by (rule cut_ok_step[OF s1 assms(2,1)])
  have "g01_run_once T zero_vars ?g1 sh = Inr (?g2, call_io (MachOn False) sh)"
    using assms(4) by (simp add: g01_run_once_def pausing_or_stopping_def g01_wait_def)
  from cut_step.cycle[OF this, of ?cs hs] have s2: "cut_step T ?cs (?g1, sh, hs) (?g2, call_io (MachOn False) sh, hs)"
    by (simp add: servo_moved_def g01_wait_def)
  have o2: "cut_ok s e h (?g2, call_io (MachOn False) sh, hs)" by (rule cut_ok_step[OF s2 assms(2) o1])
  obtain g3 sh3 where r: "g01_run_once T zero_vars ?g2 (call_io (MachOn False) sh) = Inr (g3, sh3)" "keeps (call_io (MachOn False) sh) sh3"
    using cut_cycle_ok[OF o2 assms(2)] by metis
  obtain ended g' sh' where b: "return_back T ?g2 (call_io (MachOn False) sh) = (ended, g', sh')"
    by (cases "return_back T ?g2 (call_io (MachOn False) sh)")
  have lo: "lin_ok s e (line_traj ?g2)" "lin_length (line_traj ?g2) = 0" "servo_sub_state ?g2 = Servoing" "cut_inv s e h ?g2"
    using o2 assms(4,5) by (simp_all add: cut_ok_def cut_inv_def g01_wait_def)
  have z: "lin_length (line_traj g') = 0 \<or> return_back_target_distance < return_back_gone ?g2"
    using return_back_ok(1,8)[OF lo(4,3) b] lo(2) by (auto simp: cut_inv_def lin_ok_def)
  moreover have "\<not> return_back_target_distance < return_back_gone ?g2"
    by (simp add: g01_wait_def return_back_target_distance_def mm2blu_def EDM_BLU_PER_UM_def)
  ultimately have "lin_at_start (line_traj g')" by (simp add: lin_at_start_def)
  then have e: ended using b by (auto simp: return_back_def Let_def)
  have "g3 = g'\<lparr>g01_state := G01Paused\<rparr>"
    using r(1) e b lo(3) by (simp add: g01_run_once_def pausing_or_stopping_def back_to_begin_when_pause_def g01_wait_def)
  moreover have "last_jump_end_time_ms g' = last_jump_end_time_ms g" using return_back_ok(6)[OF lo(4,3) b] by (simp add: g01_wait_def)
  moreover have "cut_step T ?cs (?g2, call_io (MachOn False) sh, hs) (g3, sh3, hs)"
    using cut_step.cycle[OF r(1), of ?cs hs] by (simp add: servo_moved_def g01_wait_def)
  then have "(cut_step T ?cs)\<^sup>*\<^sup>* (g, sh, hs) (g3, sh3, hs)" using s1 s2 by (meson r_into_rtranclp rtranclp.rtrancl_into_rtrancl)
  ultimately show ?thesis using r(2) by (intro exI[of _ g3] exI[of _ sh3]) (simp add: keeps_def call_io_def)
qed

lemma power_left_on_after_pause_witness:
  "\<exists>g sh hs. cut_reach (1 / 1000) {CallPause, CallResume} sample_shared sample_to 1000 (g, sh, hs)
     \<and> g01_state g = G01Stopped \<and> machining sh"
proof -
  let ?cs = "{CallPause, CallResume}" and ?T = "1 / 1000 :: real" and ?reach = "cut_reach (1 / 1000) {CallPause, CallResume} sample_shared sample_to 1000"
  have ok: "cut_ok sample_from sample_to 1000 st" if "?reach st" for st
    using cut_reach_ok[OF that _ sample_cut(1)] sample_cut(2) by simp
  have more: "?reach st'" if "?reach st" "(cut_step ?T ?cs)\<^sup>*\<^sup>* st st'" for st st' using that by (auto simp: cut_reach_def)
  obtain g where g: "?reach (g, cut_on sample_shared, [])" "g01_state g = G01Running" "servo_sub_state g = Servoing"
    "last_jump_end_time_ms g = 0" "lin_length (line_traj g) = 0"
    using cut_reach_start[OF sample_cut(1)] sample_cut(4) by metis
  obtain g1 sh1 where p0: "(cut_step ?T ?cs)\<^sup>*\<^sup>* (g, cut_on sample_shared, []) (g1, sh1, [])" "g01_state g1 = G01Paused"
    "now_ms sh1 = now_ms (cut_on sample_shared)"
    using pause_cycles[OF ok[OF g(1)] _ g(2,3,5), of ?T] by auto
  have p: "?reach (g1, sh1, [])" "g01_state g1 = G01Paused" "now_ms sh1 = 0"
    using more[OF g(1) p0(1)] p0(2,3) sample_cut(4) by simp_all
  let ?g2 = "g1\<lparr>g01_state := G01Resuming\<rparr>"
  have r2: "?reach (?g2, sh1, [])"
    using cut_reach_step[OF p(1) cut_step.call[of CallResume ?cs ?T g1 sh1 "[]"]] p(2) by (simp add: cut_do_def g01_resume_def)
  obtain g3 sh3 where c: "g01_run_once ?T zero_vars ?g2 sh1 = Inr (g3, sh3)" "cut_ok sample_from sample_to 1000 (g3, sh3, [])" "keeps sh1 sh3"
    using cut_cycle_ok[OF ok[OF r2], of ?T zero_vars "[]"] by auto
  note e = rest_effect(2)[OF c(1)]
  have l: "last_jump_end_time_ms g3 = 0"
    using c(1) p(3) by (auto simp: g01_run_once_def g01_resuming_def send_gate_def Let_def split: if_splits)
  have s3: "cut_step ?T {} (?g2, sh1, []) (g3, sh3, [])" using cut_step.cycle[OF c(1), of "{}" "[]"] by (simp add: servo_moved_def)
  obtain g4 sh4 hs4 where s4: "(cut_step ?T {})\<^sup>*\<^sup>* (g3, sh3, []) (g4, sh4, hs4)" "g01_state g4 = G01Stopped"
    using whole_cycle[OF c(2) _ _ _ l, of "{}"] e c(3) p(3) by (auto simp: keeps_def)
  have s5: "(cut_step ?T {})\<^sup>*\<^sup>* (?g2, sh1, []) (g4, sh4, hs4)" by (rule converse_rtranclp_into_rtranclp[OF s3 s4(1)])
  have "machining sh4" using power_left_on_after_pause[OF _ sample_cut(1) r2 _ s5 s4(2)] by simp
  moreover have "?reach (g4, sh4, hs4)"
    by (rule more[OF r2]) (rule rtranclp_mono[THEN predicate2D, OF _ s5], auto intro: cut_step.intros elim: cut_step.cases)
  ultimately show ?thesis using s4(2) by blast
qed

end
