(* ===== verification/Motion_Cut.thy ===== *)
theory Motion_Cut
  imports Motion_Delay Cutting_Run
begin

text \<open>
  A cutting move on the state machine of the motion thread: once its command is accepted, the machine
  leaves the automatic mode only at its end, and it can come to it.
\<close>

section \<open>A machine that waits\<close>

definition ready :: "axis_t \<Rightarrow> machine \<Rightarrow> bool" where
  "ready p m \<longleftrightarrow> mm_inv m \<and> enabled m \<and> quiet (shared_data m) \<and> mm_mode m = MM_Idle \<and> global_cmd_axis (shared_data m) = p"

section \<open>A cutting move under way\<close>

definition cut_runner :: "axis_t \<Rightarrow> task_runner \<Rightarrow> shared \<Rightarrow> bool" where
  "cut_runner e r sh \<longleftrightarrow> domin_state r = AutoTaskRunning \<and> (\<exists>g s h. curr_task r = Some (G01AutoTask g) \<and> cut_ok s e h (g, sh, [])
     \<and> (tr_state r = NormalMoving \<and> g01_state g = G01Running
        \<or> tr_state r = Stopping \<and> g01_state g \<in> {G01Stopping, G01Stopped} \<and> ends_at e g))"

definition cutting :: "axis_t \<Rightarrow> machine \<Rightarrow> bool" where
  "cutting e m \<longleftrightarrow> mm_inv m \<and> enabled m \<and> quiet (shared_data m) \<and> mm_mode m = MM_Auto \<and> cut_runner e (auto_task_runner m) (shared_data m)"

lemma quiet_keeps [simp]: "quiet (call_io c sh) = quiet sh" "quiet (sh\<lparr>io_calls := cs\<rparr>) = quiet sh"
  by (simp_all add: quiet_def call_io_def)

lemma quiet_kept: "keeps sh sh' \<Longrightarrow> quiet sh' = quiet sh"
  by (simp add: keeps_def quiet_def)

text \<open>What a cycle reads again, the signals, and the setting of the jumps do not concern a move.\<close>

lemma cut_ok_shared:
  assumes "cut_ok s e h (g, sh, hs)" "global_cmd_axis sh' = global_cmd_axis sh" "now_ms sh \<le> now_ms sh'" "jump_ok (jump_setting sh')"
  shows "cut_ok s e h (g, sh', hs)"
  using assms by (simp add: cut_ok_def)

lemma cut_runner_shared:
  assumes "cut_runner e r sh" "global_cmd_axis sh' = global_cmd_axis sh" "now_ms sh \<le> now_ms sh'" "jump_ok (jump_setting sh')"
  shows "cut_runner e r sh'"
  using assms(1) cut_ok_shared[OF _ assms(2-4)] unfolding cut_runner_def by blast

lemma cut_runner_feel: "cut_runner e r (shared_data m) \<Longrightarrow> cut_runner e r (shared_data (feel b m))"
  by (rule cut_runner_shared) (auto simp: feel_def cut_runner_def cut_ok_def)

text \<open>A cycle: the move goes on, or it is over at its end.\<close>

lemma ends_at_pos: "cut_ok s e' h (g, sh, hs) \<Longrightarrow> ends_at e g \<Longrightarrow> global_cmd_axis sh = e"
  by (simp add: cut_ok_def ends_at_def g01_pos_def)

lemma cut_cycle_next:
  assumes "cut_ok s e h (g, sh, hs)" "0 < T" "g01_run_once T u g sh = Inr (g', sh')"
  shows "g01_state g = G01Running \<Longrightarrow> g01_state g' = G01Running \<or> g01_state g' = G01Stopping \<and> ends_at e g'"
    and "g01_state g = G01Stopping \<Longrightarrow> ends_at e g \<Longrightarrow> g01_state g' = (if pause_or_stop_sub_state g = WaitingForJumpEnd then G01Stopping else G01Stopped)
      \<and> ends_at e g' \<and> pause_or_stop_sub_state g' = BackingToBegin"
    and "g01_state g = G01Stopped \<Longrightarrow> g' = g"
proof -
  show "g01_state g' = G01Running \<or> g01_state g' = G01Stopping \<and> ends_at e g'" if "g01_state g = G01Running"
  proof (cases "servo_sub_state g = Servoing")
    case True
    then show ?thesis using servoing_effect(3)[OF assms(1,2) that True assms(3)] by (auto simp: ends_at_def)
  next
    case False
    then show ?thesis using jump_effect[OF assms(3) False] that by (simp add: in_jump_def)
  qed
  show "g01_state g' = (if pause_or_stop_sub_state g = WaitingForJumpEnd then G01Stopping else G01Stopped)
      \<and> ends_at e g' \<and> pause_or_stop_sub_state g' = BackingToBegin" if "g01_state g = G01Stopping" "ends_at e g"
  proof (cases "pause_or_stop_sub_state g")
    case WaitingForJumpEnd
    then show ?thesis using waiting_effect[OF assms(3) _ _ WaitingForJumpEnd] that by (simp add: ends_at_def)
  next
    case BackingToBegin
    then show ?thesis using backing_effect(1,2,6)[OF assms(3) _ BackingToBegin] that by (simp add: ends_at_def)
  qed
  show "g' = g" if "g01_state g = G01Stopped" using rest_effect(1)[OF assms(3)] that by simp
qed

lemma cut_runner_cycle:
  assumes "cut_runner e r sh" "0 < T" "tr_run_once T u r sh = Inr (r', sh')"
  shows "quiet sh' = quiet sh \<and> (cut_runner e r' sh' \<or> tr_state r' = AutoStopped \<and> global_cmd_axis sh' = e)"
proof -
  obtain g s h where g: "domin_state r = AutoTaskRunning" "curr_task r = Some (G01AutoTask g)" "cut_ok s e h (g, sh, [])"
    "tr_state r = NormalMoving \<and> g01_state g = G01Running \<or> tr_state r = Stopping \<and> g01_state g \<in> {G01Stopping, G01Stopped} \<and> ends_at e g"
    using assms(1) unfolding cut_runner_def by blast
  obtain g' sh1 where c: "g01_run_once T u g sh = Inr (g', sh1)" "cut_ok s e h (g', sh1, [])" "keeps sh sh1"
    using cut_cycle_ok[OF g(3) assms(2)] by metis
  note n = cut_cycle_next[OF g(3) assms(2) c(1)]
  let ?r = "r\<lparr>curr_task := Some (G01AutoTask g')\<rparr>"
  from g(4) show ?thesis
  proof (elim disjE conjE)
    assume a: "tr_state r = NormalMoving" "g01_state g = G01Running"
    then have "Inr (r', sh') = Inr (after_normal_moving (G01AutoTask g') ?r sh1)"
      using assms(3) g(1,2) c(1) by (simp add: tr_run_once_def tr_run_task_def)
    then show ?thesis using n(1)[OF a(2)] a(1) g(1) c(2) quiet_kept[OF c(3)]
      by (auto simp: after_normal_moving_def cut_runner_def split: if_splits)
  next
    assume a: "tr_state r = Stopping" "g01_state g \<in> {G01Stopping, G01Stopped}" "ends_at e g"
    then have r: "Inr (r', sh') = Inr (after_stopping (G01AutoTask g') ?r sh1)"
      using assms(3) g(1,2) c(1) by (simp add: tr_run_once_def tr_run_task_def)
    have e: "ends_at e g'" "g01_state g' \<in> {G01Stopping, G01Stopped}" using n(2,3) a(2,3) by (auto split: if_splits)
    show ?thesis
    proof (cases "g01_state g' = G01Stopped")
      case True
      then show ?thesis using r quiet_kept[OF c(3)] ends_at_pos[OF c(2) e(1)] by (simp add: after_stopping_def)
    next
      case False
      then show ?thesis using r quiet_kept[OF c(3)] e a(1) g(1) c(2) by (auto simp: after_stopping_def cut_runner_def)
    qed
  qed
qed

lemma cutting_cycle:
  assumes "cutting e m" "0 < T" "mm_run_once T u (feel False m) = Inr m'"
  shows "cutting e m' \<or> ready e m'"
proof -
  let ?m = "feel False m"
  have m: "mm_inv m" "enabled m" "quiet (shared_data m)" "mm_mode m = MM_Auto" "cut_runner e (auto_task_runner m) (shared_data m)"
    using assms(1) by (simp_all add: cutting_def)
  have i: "mm_inv m'" using mm_run_inv[OF feel_inv[OF m(1)] assms(2), of u False] assms(3) by auto
  obtain r sh where r: "tr_run_once T u (auto_task_runner ?m) (shared_data ?m) = Inr (r, sh)"
    "m' = (let m1 = ?m\<lparr>auto_task_runner := r, shared_data := sh\<rparr> in if tr_state r = AutoStopped then m1\<lparr>mm_mode := MM_Idle\<rparr> else m1)"
    using assms(3) m(2,4) by (auto simp: mm_run_once_def mainmode_auto_def rbind_Inr_iff Let_def)
  have "quiet sh \<and> (cut_runner e r sh \<or> tr_state r = AutoStopped \<and> global_cmd_axis sh = e)"
    using cut_runner_cycle[OF cut_runner_feel[OF m(5), of False] assms(2), of u r sh] r(1) m(3) by simp
  moreover have "tr_state r \<noteq> AutoStopped" if "cut_runner e r sh" using that by (auto simp: cut_runner_def)
  ultimately show ?thesis using r(2) m(2,4) i by (auto simp: cutting_def ready_def Let_def)
qed

section \<open>Beats\<close>

text \<open>Cycles of the thread with nothing touched, the signals of a cycle, new inputs and a new setting of the jumps.\<close>

inductive beat :: "real \<Rightarrow> machine \<Rightarrow> machine \<Rightarrow> bool" for T where
  cycle: "mm_run_once T u (feel False m) = Inr m' \<Longrightarrow> beat T m m'"
| signals: "beat T m (snd (handle_signal m))"
| inputs: "now_ms (shared_data m) \<le> ms \<Longrightarrow> beat T m (sense ms ns v m)"
| jumps: "jump_ok jp \<Longrightarrow> beat T m (snd (set_jump_param jp m))"

text \<open>All but the cycle leave everything but these as it is.\<close>

definition still :: "machine \<Rightarrow> machine \<Rightarrow> bool" where
  "still m m' \<longleftrightarrow> enabled m' = enabled m \<and> mm_mode m' = mm_mode m \<and> auto_task_runner m' = auto_task_runner m
     \<and> quiet (shared_data m') = quiet (shared_data m) \<and> global_cmd_axis (shared_data m') = global_cmd_axis (shared_data m)
     \<and> now_ms (shared_data m) \<le> now_ms (shared_data m') \<and> (mm_inv m \<longrightarrow> mm_inv m')"

lemma beat_cases:
  assumes "beat T m m'" "0 < T"
  obtains (cycle) u where "mm_run_once T u (feel False m) = Inr m'" | (still) "still m m'"
  using assms(1)
proof (cases rule: beat.cases)
  case signals
  have "mm_inv m \<Longrightarrow> mm_inv m'" using motion_step_inv[OF motion_step.signals assms(2)] signals by blast
  then show ?thesis using that(2) signals by (simp add: still_def handle_signal_def reset_all_def quiet_def)
next
  case (inputs ms ns v)
  have "mm_inv m \<Longrightarrow> mm_inv m'" using motion_step_inv[OF motion_step.inputs assms(2)] inputs by blast
  then show ?thesis using that(2) inputs by (simp add: still_def sense_def quiet_def)
next
  case (jumps jp)
  have "mm_inv m \<Longrightarrow> mm_inv m'" using motion_step_inv[OF motion_step.jumps assms(2)] jumps by blast
  then show ?thesis using that(2) jumps by (simp add: still_def set_jump_param_def quiet_def)
qed (use that(1) in blast)

lemma idle_beat:
  assumes "ready p m" "beat T m m'" "0 < T"
  shows "ready p m'"
  using assms(2,3)
proof (cases rule: beat_cases)
  case (cycle u)
  have m: "mm_inv m" "enabled m" "mm_mode m = MM_Idle" "quiet (shared_data m)" "global_cmd_axis (shared_data m) = p"
    using assms(1) by (simp_all add: ready_def)
  have "m' = (feel False m)\<lparr>shared_data := set_detect_enable False (shared_data (feel False m))\<rparr>"
    using cycle m(2,3) by (simp add: mm_run_once_def)
  moreover have "mm_inv \<dots>" using feel_inv[OF m(1)] by (rule mm_inv_shared) (simp_all del: feel_sel)
  ultimately show ?thesis using m by (simp add: ready_def)
next
  case still
  then show ?thesis using assms(1) by (simp add: ready_def still_def)
qed

lemma cutting_beat:
  assumes "cutting e m \<or> ready e m" "beat T m m'" "0 < T"
  shows "cutting e m' \<or> ready e m'"
proof (cases "ready e m")
  case True
  then show ?thesis using idle_beat assms(2,3) by blast
next
  case False
  then have c: "cutting e m" using assms(1) by blast
  from assms(2,3) show ?thesis
  proof (cases rule: beat_cases)
    case (cycle u)
    then show ?thesis using cutting_cycle[OF c assms(3)] by blast
  next
    case still
    then have "mm_inv m'" using c by (simp add: still_def cutting_def)
    then have "cut_runner e (auto_task_runner m) (shared_data m')" using still c cut_runner_shared[of e "auto_task_runner m" "shared_data m"]
      by (simp add: still_def cutting_def mm_inv_def)
    then show ?thesis using still c \<open>mm_inv m'\<close> by (simp add: still_def cutting_def)
  qed
qed

lemma cutting_beats: "(beat T)\<^sup>*\<^sup>* m m' \<Longrightarrow> 0 < T \<Longrightarrow> cutting e m \<or> ready e m \<Longrightarrow> cutting e m' \<or> ready e m'"
  by (induction rule: rtranclp_induct) (simp, metis cutting_beat)

section \<open>From the command to the end\<close>

lemma start_g01_cutting:
  assumes "ready p m" "0 < T" "is_axis t" "t \<noteq> p"
  obtains m1 where "\<And>u s. handle_command T u all_ready (AutoStartG01ServoMove s t h) m = Inr (True, m1)" "cutting t m1"
    "\<exists>g. curr_task (auto_task_runner m1) = Some (G01AutoTask g) \<and> g01_state g = G01Running \<and> servo_sub_state g = Servoing
       \<and> last_jump_end_time_ms g = now_ms (shared_data m1) \<and> tr_state (auto_task_runner m1) = NormalMoving \<and> cut_ok p t h (g, shared_data m1, [])"
proof -
  have m: "mm_inv m" "enabled m" "quiet (shared_data m)" "mm_mode m = MM_Idle" "global_cmd_axis (shared_data m) = p"
    using assms(1) by (simp_all add: ready_def)
  have "cut_starts (shared_data m) t"
    using mm_inv_axis[OF m(1)] m(1,5) assms(3,4) by (auto simp: cut_starts_def segment_line_def mm_inv_def)
  from cut_start[OF this, of T h] obtain g where g: "g01_new T (linear_new p t) h (shared_data m) = Inr (g, cut_on (shared_data m))"
    "cut_ok p t h (g, cut_on (shared_data m), [])" "g01_state g = G01Running" "servo_sub_state g = Servoing"
    "last_jump_end_time_ms g = now_ms (shared_data m)" by (metis m(5))
  let ?m1 = "snd (mm_start_task (G01AutoTask g) (m\<lparr>shared_data := cut_on (shared_data m)\<rparr>))"
  have h: "handle_command T u all_ready (AutoStartG01ServoMove s t h) m = Inr (True, ?m1)" for u s
    using m(4,5) g(1,3) by (simp add: when_ready_def all_ready_def mm_start_auto_g01_def mm_start_task_def restart_task_def)
  have "mm_inv ?m1"
    using handle_command_inv[OF m(1) assms(2), of "AutoStartG01ServoMove p t h" zero_vars all_ready] h m(5) assms(3,4)
    by (auto simp: sp_ok_def timely_def simp del: handle_command.simps)
  moreover have f: "auto_task_runner ?m1 = (auto_task_runner m)\<lparr>curr_task := Some (G01AutoTask g), tr_state := NormalMoving, domin_state := AutoTaskRunning\<rparr>"
    "shared_data ?m1 = set_signal MotionSignal_AutoStarted (cut_on (shared_data m))" "enabled ?m1 = enabled m" "mm_mode ?m1 = MM_Auto"
    using m(4) g(3) by (simp_all add: mm_start_task_def restart_task_def mm_signal_def)
  moreover have o: "cut_ok p t h (g, shared_data ?m1, [])"
    using g(2) unfolding f(2) by (rule cut_ok_shared) (use m(1) in \<open>simp_all add: set_signal_def call_io_def mm_inv_def\<close>)
  ultimately have "cutting t ?m1" using m(2,3) g(3) by (auto simp: cutting_def cut_runner_def)
  moreover have "now_ms (shared_data ?m1) = now_ms (shared_data m)" unfolding f(2) by (simp add: set_signal_def call_io_def)
  ultimately show ?thesis using that[OF h] f(1) g(3-5) o by simp
qed

text \<open>The cycles that end a move that is not in a jump.\<close>

lemma mm_run_cut:
  assumes "cutting e m" "curr_task (auto_task_runner m) = Some (G01AutoTask g)" "g01_run_once T u g (shared_data (feel False m)) = Inr (g', sh')"
    "g01_state g' \<in> {G01Stopping, G01Stopped}"
  shows "\<exists>m'. mm_run_once T u (feel False m) = Inr m' \<and> (tr_state (auto_task_runner m) = Stopping \<and> g01_state g' = G01Stopped \<and> mm_mode m' = MM_Idle
    \<or> tr_state (auto_task_runner m') = Stopping \<and> curr_task (auto_task_runner m') = Some (G01AutoTask g') \<and> mm_mode m' = MM_Auto
      \<and> (tr_state (auto_task_runner m) = Stopping \<longrightarrow> g01_state g' = G01Stopping))"
proof -
  have m: "enabled m" "mm_mode m = MM_Auto" "domin_state (auto_task_runner m) = AutoTaskRunning"
    "tr_state (auto_task_runner m) = NormalMoving \<or> tr_state (auto_task_runner m) = Stopping"
    using assms(1) by (auto simp: cutting_def cut_runner_def)
  from m(4) show ?thesis using m(1-3) assms(2-4)
    by (auto simp: mm_run_once_def mainmode_auto_def tr_run_once_def tr_run_task_def after_normal_moving_def after_stopping_def Let_def)
qed

lemma cutting_stop_cycle:
  assumes "cutting e m" "0 < T" "curr_task (auto_task_runner m) = Some (G01AutoTask g)" "tr_state (auto_task_runner m) = Stopping"
  shows "\<exists>m'. beat T m m' \<and> (mm_mode m' = MM_Idle \<or> pause_or_stop_sub_state g = WaitingForJumpEnd \<and> cutting e m'
    \<and> (\<exists>g'. curr_task (auto_task_runner m') = Some (G01AutoTask g') \<and> tr_state (auto_task_runner m') = Stopping \<and> pause_or_stop_sub_state g' = BackingToBegin))"
proof -
  obtain s h where g: "cut_ok s e h (g, shared_data m, [])" "g01_state g \<in> {G01Stopping, G01Stopped}" "ends_at e g"
    using assms by (auto simp: cutting_def cut_runner_def)
  have o: "cut_ok s e h (g, shared_data (feel False m), [])"
    by (rule cut_ok_shared[OF g(1)]) (use g(1) in \<open>simp_all add: feel_def cut_ok_def\<close>)
  obtain g' sh' where r: "g01_run_once T zero_vars g (shared_data (feel False m)) = Inr (g', sh')" using cut_cycle_ok[OF o assms(2)] by metis
  note n = cut_cycle_next(2,3)[OF o assms(2) r]
  have st: "g01_state g' \<in> {G01Stopping, G01Stopped}" using n g(2,3) by (auto split: if_splits)
  obtain m' where m': "mm_run_once T zero_vars (feel False m) = Inr m'" "tr_state (auto_task_runner m) = Stopping \<and> g01_state g' = G01Stopped \<and> mm_mode m' = MM_Idle
      \<or> tr_state (auto_task_runner m') = Stopping \<and> curr_task (auto_task_runner m') = Some (G01AutoTask g') \<and> mm_mode m' = MM_Auto
        \<and> (tr_state (auto_task_runner m) = Stopping \<longrightarrow> g01_state g' = G01Stopping)"
    using mm_run_cut[OF assms(1,3) r st] by blast
  have "cutting e m' \<or> ready e m'" by (rule cutting_cycle[OF assms(1,2) m'(1)])
  then show ?thesis using m'(2) beat.cycle[OF m'(1)] assms(4) n g(2,3) by (cases "pause_or_stop_sub_state g") (auto simp: ready_def split: if_splits)
qed

lemma cutting_to_idle:
  assumes "cutting e m" "0 < T" "curr_task (auto_task_runner m) = Some (G01AutoTask g)" "tr_state (auto_task_runner m) = Stopping"
  shows "\<exists>m'. (beat T)\<^sup>*\<^sup>* m m' \<and> mm_mode m' = MM_Idle"
proof -
  obtain m1 where m1: "beat T m m1" "mm_mode m1 = MM_Idle \<or> cutting e m1 \<and> (\<exists>g'. curr_task (auto_task_runner m1) = Some (G01AutoTask g')
      \<and> tr_state (auto_task_runner m1) = Stopping \<and> pause_or_stop_sub_state g' = BackingToBegin)"
    using cutting_stop_cycle[OF assms] by blast
  from m1(2) show ?thesis
  proof
    assume "cutting e m1 \<and> (\<exists>g'. curr_task (auto_task_runner m1) = Some (G01AutoTask g')
      \<and> tr_state (auto_task_runner m1) = Stopping \<and> pause_or_stop_sub_state g' = BackingToBegin)"
    then obtain g' where g': "cutting e m1" "curr_task (auto_task_runner m1) = Some (G01AutoTask g')"
      "tr_state (auto_task_runner m1) = Stopping" "pause_or_stop_sub_state g' = BackingToBegin" by blast
    obtain m2 where "beat T m1 m2" "mm_mode m2 = MM_Idle" using cutting_stop_cycle[OF g'(1) assms(2) g'(2,3)] g'(4) by auto
    then show ?thesis using m1(1) by (meson converse_rtranclp_into_rtranclp r_into_rtranclp)
  qed (use m1(1) in blast)
qed

lemma cutting_comes_to_idle:
  assumes "cutting e m" "0 < T" "curr_task (auto_task_runner m) = Some (G01AutoTask g)" "tr_state (auto_task_runner m) = NormalMoving"
    "g01_state g = G01Running" "servo_sub_state g = Servoing" "last_jump_end_time_ms g = now_ms (shared_data m)"
    "cut_ok s e h (g, shared_data m, [])"
  shows "\<exists>m'. (beat T)\<^sup>*\<^sup>* m m' \<and> mm_mode m' = MM_Idle"
proof -
  let ?m = "sense (now_ms (shared_data m)) (now_ns (shared_data m)) (CalcAxisLength (sub_axis e s) / mm_min2blu_p T 1) m"
  have b: "beat T m ?m" by (rule beat.inputs) simp
  have c: "cutting e ?m" using cutting_beat[of e m T ?m] assms(1,2) b by (auto simp: sense_def ready_def cutting_def)
  have t: "curr_task (auto_task_runner ?m) = Some (G01AutoTask g)" "tr_state (auto_task_runner ?m) = NormalMoving"
    using assms(3,4) by (simp_all add: sense_def)
  have jp: "jump_ok (jump_setting (shared_data m))" using assms(8) by (simp add: cut_ok_def)
  have o: "cut_ok s e h (g, shared_data (feel False ?m), [])"
    by (rule cut_ok_shared[OF assms(8)]) (simp_all add: feel_def sense_def jp)
  have v: "get_servo_cmd T (shared_data (feel False ?m)) = CalcAxisLength (sub_axis e s)"
    using assms(2) by (simp add: get_servo_cmd_def feel_def sense_def mm_min2blu_p_def EDM_BLU_PER_UM_def)
  have d: "now_ms (shared_data (feel False ?m)) - last_jump_end_time_ms g \<le> dn_ms (jump_setting (shared_data (feel False ?m)))"
    using assms(7) jp by (simp add: feel_def sense_def jump_ok_def)
  obtain g' sh' where r: "g01_run_once T zero_vars g (shared_data (feel False ?m)) = Inr (g', sh')" "g01_state g' = G01Stopping"
    by (rule end_cycle[OF o assms(2,5,6) d]) (use v in simp_all)
  obtain m1 where m1: "mm_run_once T zero_vars (feel False ?m) = Inr m1" "tr_state (auto_task_runner m1) = Stopping"
    "curr_task (auto_task_runner m1) = Some (G01AutoTask g')" "mm_mode m1 = MM_Auto"
    using mm_run_cut[OF c t(1) r(1)] r(2) by auto
  have "cutting e m1" using cutting_cycle[OF c assms(2) m1(1)] m1(4) by (auto simp: ready_def)
  from cutting_to_idle[OF this assms(2) m1(3,2)] show ?thesis
    using b beat.cycle[OF m1(1)] by (meson converse_rtranclp_into_rtranclp)
qed

end
