(* ===== verification/Task_Timer.thy ===== *)
theory Task_Timer
  imports Edm_Prelude
begin

text \<open>
  The timer every task carries (\<^verbatim>\<open>App/TaskManager/GCodeTaskBase.h\<close>, class \<open>TaskTimer\<close>). The
  system clock is an argument of the operations that read it; times and durations are
  integers (nanoseconds).

  The specification counts clock ticks: the elapsed time is the number of ticks at which the
  timer was running since it was last set to zero.
\<close>

section \<open>The timer\<close>

datatype timer_state = TimerIdle | TimerRunning | TimerPaused | TimerStopped

record task_timer =
  t_state :: timer_state
  total_start_time :: int
  start_time :: int
  end_time :: int
  elapsed_time_buffer :: int

definition timer_reset :: "task_timer \<Rightarrow> task_timer" where
  "timer_reset t = t\<lparr>elapsed_time_buffer := 0, t_state := TimerIdle\<rparr>"

definition timer_restart :: "int \<Rightarrow> task_timer \<Rightarrow> task_timer" where
  "timer_restart now t =
     (let t = timer_reset t; t = t\<lparr>start_time := now\<rparr>
      in t\<lparr>total_start_time := start_time t, t_state := TimerRunning\<rparr>)"

definition timer_stop :: "int \<Rightarrow> task_timer \<Rightarrow> task_timer" where
  "timer_stop now t =
     (case t_state t of
        TimerRunning \<Rightarrow> t\<lparr>end_time := now, t_state := TimerStopped,
                          elapsed_time_buffer := elapsed_time_buffer t + (now - start_time t)\<rparr>
      | TimerPaused \<Rightarrow> t\<lparr>end_time := now, t_state := TimerStopped\<rparr>
      | TimerIdle \<Rightarrow> t\<lparr>end_time := now, start_time := now, total_start_time := now, t_state := TimerStopped\<rparr>
      | TimerStopped \<Rightarrow> t)"

definition timer_pause :: "int \<Rightarrow> task_timer \<Rightarrow> task_timer" where
  "timer_pause now t =
     (if t_state t = TimerRunning
      then t\<lparr>elapsed_time_buffer := elapsed_time_buffer t + (now - start_time t), t_state := TimerPaused\<rparr>
      else t)"

definition timer_resume :: "int \<Rightarrow> task_timer \<Rightarrow> task_timer" where
  "timer_resume now t =
     (if t_state t = TimerPaused then t\<lparr>start_time := now, t_state := TimerRunning\<rparr> else t)"

definition elapsed_time :: "int \<Rightarrow> task_timer \<Rightarrow> int" where
  "elapsed_time now t =
     (case t_state t of
        TimerRunning \<Rightarrow> elapsed_time_buffer t + (now - start_time t)
      | TimerPaused \<Rightarrow> elapsed_time_buffer t
      | TimerStopped \<Rightarrow> elapsed_time_buffer t
      | TimerIdle \<Rightarrow> 0)"

text \<open>The constructor: the time points are value-initialised to the epoch.\<close>

definition new_timer :: task_timer where
  "new_timer = timer_reset \<lparr>t_state = TimerIdle, total_start_time = 0, start_time = 0, end_time = 0,
                            elapsed_time_buffer = 0\<rparr>"

lemmas timer_defs = timer_reset_def timer_restart_def timer_stop_def timer_pause_def timer_resume_def

lemma timer_state_after [simp]:
  "t_state (timer_reset t) = TimerIdle"
  "t_state (timer_restart now t) = TimerRunning"
  "t_state (timer_stop now t) = TimerStopped"
  "t_state (timer_pause now t) = (if t_state t = TimerRunning then TimerPaused else t_state t)"
  "t_state (timer_resume now t) = (if t_state t = TimerPaused then TimerRunning else t_state t)"
  by (auto simp: timer_defs Let_def split: timer_state.splits)

section \<open>The elapsed time counts the running ticks\<close>

datatype timer_call = Op_reset | Op_restart | Op_stop | Op_pause | Op_resume

fun timer_op :: "timer_call \<Rightarrow> int \<Rightarrow> task_timer \<Rightarrow> task_timer" where
  "timer_op Op_reset now t = timer_reset t"
| "timer_op Op_restart now t = timer_restart now t"
| "timer_op Op_stop now t = timer_stop now t"
| "timer_op Op_pause now t = timer_pause now t"
| "timer_op Op_resume now t = timer_resume now t"

text \<open>
  What the operations mean for the phase of the timer, without any time: the phase at a tick
  is the one after the calls made up to then.
\<close>

fun next_phase :: "timer_call \<Rightarrow> timer_state \<Rightarrow> timer_state" where
  "next_phase Op_reset _ = TimerIdle"
| "next_phase Op_restart _ = TimerRunning"
| "next_phase Op_stop _ = TimerStopped"
| "next_phase Op_pause p = (if p = TimerRunning then TimerPaused else p)"
| "next_phase Op_resume p = (if p = TimerPaused then TimerRunning else p)"

type_synonym timed_calls = "(timer_call \<times> int) list"

definition phase_after :: "timed_calls \<Rightarrow> timer_state" where
  "phase_after h = fold (\<lambda>(c, _). next_phase c) h TimerIdle"

definition running_at :: "timed_calls \<Rightarrow> int \<Rightarrow> bool" where
  "running_at h t \<longleftrightarrow> phase_after (filter (\<lambda>(_, s). s \<le> t) h) = TimerRunning"

text \<open>The time of the last call that set the timer to zero.\<close>

definition zero_time :: "timed_calls \<Rightarrow> int option" where
  "zero_time h = find_last (\<lambda>(c, s). if c = Op_reset \<or> c = Op_restart then Some s else None) h"

definition running_ticks :: "timed_calls \<Rightarrow> int \<Rightarrow> int set" where
  "running_ticks h now = {t. t < now \<and> running_at h t \<and> (case zero_time h of None \<Rightarrow> False | Some s \<Rightarrow> s \<le> t)}"

definition timer_after :: "timed_calls \<Rightarrow> task_timer" where
  "timer_after h = fold (\<lambda>(c, s). timer_op c s) h new_timer"

definition in_order :: "timed_calls \<Rightarrow> bool" where
  "in_order h \<longleftrightarrow> sorted (map snd h)"

text \<open>One call: what it keeps of the elapsed time, and what is added while it runs on.\<close>

definition clears :: "timer_call \<Rightarrow> bool" where
  "clears c \<longleftrightarrow> c = Op_reset \<or> c = Op_restart"

definition timer_inv :: "task_timer \<Rightarrow> bool" where
  "timer_inv t \<longleftrightarrow> (t_state t = TimerIdle \<longrightarrow> elapsed_time_buffer t = 0)"

lemma timer_inv_op: "timer_inv t \<Longrightarrow> timer_inv (timer_op c s t)"
  by (cases c) (auto simp: timer_inv_def timer_defs Let_def split: timer_state.splits)

lemma t_state_op: "t_state (timer_op c s t) = next_phase c (t_state t)"
  by (cases c) simp_all

lemma elapsed_after_op:
  assumes "timer_inv t"
  shows "elapsed_time now (timer_op c s t) =
    (if clears c then 0 else elapsed_time s t) + (if next_phase c (t_state t) = TimerRunning then now - s else 0)"
  using assms
  by (cases c; cases "t_state t") (simp_all add: clears_def timer_inv_def timer_defs elapsed_time_def Let_def)

lemma timer_after_snoc [simp]: "timer_after (h @ [(c, s)]) = timer_op c s (timer_after h)"
  by (simp add: timer_after_def)

lemma phase_after_snoc [simp]: "phase_after (h @ [(c, s)]) = next_phase c (phase_after h)"
  by (simp add: phase_after_def)

lemma zero_time_snoc [simp]: "zero_time (h @ [(c, s)]) = (if clears c then Some s else zero_time h)"
  by (simp add: zero_time_def clears_def)

lemma timer_after_inv: "timer_inv (timer_after h)"
  by (induction h rule: rev_induct)
     (auto simp: timer_inv_op, simp add: timer_after_def timer_inv_def new_timer_def timer_reset_def)

lemma phase_is_state: "t_state (timer_after h) = phase_after h"
  by (induction h rule: rev_induct)
     (auto simp: t_state_op, simp add: timer_after_def phase_after_def new_timer_def)

lemma running_has_zero: "phase_after h \<in> {TimerRunning, TimerPaused} \<Longrightarrow> zero_time h \<noteq> None"
proof (induction h rule: rev_induct)
  case Nil
  then show ?case by (simp add: phase_after_def)
next
  case (snoc cs h)
  then show ?case by (cases cs; cases "fst cs") (auto simp: clears_def split: if_splits)
qed

lemma in_order_snoc [simp]: "in_order (h @ [(c, s)]) \<longleftrightarrow> in_order h \<and> (\<forall>(d, r)\<in>set h. r \<le> s)"
  by (auto simp: in_order_def sorted_append)

lemma running_at_snoc:
  assumes "in_order (h @ [(c, s)])"
  shows "running_at (h @ [(c, s)]) t =
    (if t < s then running_at h t else next_phase c (phase_after h) = TimerRunning)"
proof (cases "t < s")
  case False
  then have "filter (\<lambda>(_, r). r \<le> t) h = h" using assms by (force intro: filter_True)
  with False show ?thesis by (simp add: running_at_def)
qed (simp add: running_at_def)

lemma zero_time_bound: "in_order h \<Longrightarrow> zero_time h = Some z \<Longrightarrow> \<forall>(d, r)\<in>set h. r \<le> s \<Longrightarrow> z \<le> s"
  by (induction h rule: rev_induct) (auto simp: zero_time_def[of "[]"] split: if_splits)

lemma running_ticks_finite [simp]: "finite (running_ticks h now)"
  by (rule finite_subset[of _ "{the (zero_time h)..<now}"])
     (auto simp: running_ticks_def split: option.splits)

lemma running_ticks_snoc:
  assumes "in_order (h @ [(c, s)])" "s \<le> now"
  shows "running_ticks (h @ [(c, s)]) now =
    (if clears c then {} else running_ticks h s) \<union>
    (if next_phase c (phase_after h) = TimerRunning then {s..<now} else {})"
proof -
  have z: "z \<le> s" if "zero_time h = Some z" for z
    using zero_time_bound[OF _ that, of s] assms(1) by simp
  have k: "\<exists>z. zero_time h = Some z" if "next_phase c (phase_after h) = TimerRunning" "\<not> clears c"
    using that running_has_zero[of h] by (cases c) (auto simp: clears_def split: if_splits)
  show ?thesis
  proof (cases "clears c")
    case True
    then show ?thesis using assms(2)
      by (auto simp: running_ticks_def running_at_snoc[OF assms(1)])
  next
    case False
    then show ?thesis using assms(2) z k
      by (auto simp: running_ticks_def running_at_snoc[OF assms(1)] split: option.splits if_splits)
  qed
qed

lemma elapsed_is_ticks:
  assumes "in_order h" "\<forall>(c, s)\<in>set h. s \<le> now"
  shows "elapsed_time now (timer_after h) = int (card (running_ticks h now))"
  using assms
proof (induction h arbitrary: now rule: rev_induct)
  case Nil
  then show ?case
    by (simp add: timer_after_def new_timer_def timer_reset_def elapsed_time_def running_ticks_def zero_time_def)
next
  case (snoc cs h)
  obtain c s where cs: "cs = (c, s)" by (cases cs)
  have IH: "elapsed_time s (timer_after h) = int (card (running_ticks h s))"
    using snoc.IH[of s] snoc.prems(1) cs by simp
  have now: "s \<le> now" using snoc.prems(2) cs by simp
  have below: "running_ticks h s \<inter> {s..<now} = {}" by (auto simp: running_ticks_def)
  show ?case
    using now below
    by (simp add: cs elapsed_after_op[OF timer_after_inv] running_ticks_snoc[OF snoc.prems(1)[unfolded cs] now]
          phase_is_state IH card_Un_disjoint)
qed

text \<open>The timer measures the time a task was really running: after any sequence of calls of
  \<open>reset\<close>, \<open>restart\<close>, \<open>pause\<close>, \<open>resume\<close> and \<open>stop\<close> made in the order of the clock, \<open>elapsed_time\<close> is the
  number of clock ticks since the last \<open>reset\<close> or \<open>restart\<close> at which the timer was in the running
  state; pauses, repeated calls and calls in the wrong state add nothing.\<close>

theorem elapsed_time_counts_running_ticks:
  assumes "in_order h" and "\<forall>(c, s)\<in>set h. s \<le> now"
  shows "elapsed_time now (timer_after h) = int (card (running_ticks h now))"
  using assms by (rule elapsed_is_ticks)

theorem elapsed_time_counts_running_ticks_witness:
  "elapsed_time 100 (timer_after [(Op_restart, 10), (Op_pause, 15), (Op_pause, 20), (Op_resume, 40), (Op_stop, 47)]) = 12
   \<and> int (card (running_ticks [(Op_restart, 10), (Op_pause, 15), (Op_pause, 20), (Op_resume, 40), (Op_stop, 47)] 100)) = 12"
proof -
  let ?h = "[(Op_restart, 10), (Op_pause, 15), (Op_pause, 20), (Op_resume, 40), (Op_stop, 47)]"
  have "elapsed_time 100 (timer_after ?h) = 12"
    by (simp add: timer_after_def new_timer_def timer_defs elapsed_time_def Let_def)
  moreover have "elapsed_time 100 (timer_after ?h) = int (card (running_ticks ?h 100))"
    by (rule elapsed_time_counts_running_ticks) (simp_all add: in_order_def)
  ultimately show ?thesis by simp
qed

end
