(* ===== verification/Gcode_Runner.thy ===== *)
theory Gcode_Runner
  imports Motion_Targets Task_Timer
begin

text \<open>
  The state machine that executes a task list (\<^verbatim>\<open>App/TaskManager/GCodeRunner.cpp\<close>, \<^verbatim>\<open>GCodeRunner.h\<close>).
  A Qt timer, the state changes the motion thread reports and the previous task's end call
  \<open>_run_once\<close>; the user calls \<open>start\<close>, \<open>pause\<close>, \<open>resume\<close>, \<open>stop\<close> and \<open>estop\<close>.

  What the operations read from the rest of the application is the record \<open>env\<close>: the clock,
  the last information of the motion thread, whether the motion thread accepts a command
  (the result of \<open>WaitforCmdTobeAccepted\<close>), the table of electrical parameters, the settings
  and the build. Commands pushed and signals emitted are appended to \<open>trace\<close>. The coordinate
  system is shared state. \<open>WaitforCmdTobeAccepted\<close> runs the event loop while it waits; here the
  answer comes before the next call of an operation.

  An operation that indexes the list out of range, or fails an assertion, is a \<open>fault\<close>.
\<close>

section \<open>State\<close>

datatype run_state = ReadyToStart | CurrentNodeIniting | Running | WaitingForPaused | Paused
  | WaitingForResumed | WaitingForStopped | Stopped

record motion_info =
  curr_cmd_axis_blu :: axis_t
  sub_line_number :: int
  main_mode :: main_mode
  auto_state :: auto_state
  TouchWarning :: bool

datatype signal = Sig_auto_started | Sig_auto_paused | Sig_auto_resumed | Sig_auto_stopped bool
  | Sig_autogcode_switched_to_line int | Sig_switch_coordindex int | Sig_coord_offset_changed
  | Sig_record_data int bool

datatype event = Push motion_cmd | Emit signal | SingleShot int

record node =
  n_task :: task
  n_timer :: task_timer

definition new_node :: "task \<Rightarrow> node" where
  "new_node t = \<lparr>n_task = t, n_timer = new_timer\<rparr>"

abbreviation n_body :: "node \<Rightarrow> task_body" where "n_body n \<equiv> body (n_task n)"

record runner =
  state :: run_state
  local_info_cache :: motion_info
  timer_active :: bool
  timer_interval :: int
  gcode_list :: "node list"
  curr_gcode_num :: nat
  total_elapsed :: int
  last_error_str :: string
  delay_pause_flag :: bool
  coord_sys :: coord_system
  trace :: "event list"

record env =
  now :: int
  info :: motion_info
  accepts :: "motion_cmd \<Rightarrow> bool"
  exist_eleparam_index :: "int \<Rightarrow> bool"
  set_current_eleparam_index :: "int \<Rightarrow> bool"
  setts :: settings
  with_drill :: bool

definition is_over :: "runner \<Rightarrow> bool" where
  "is_over r \<longleftrightarrow> state r = Stopped"

definition record_event :: "event \<Rightarrow> runner \<Rightarrow> runner" where
  "record_event e r = r\<lparr>trace := trace r @ [e]\<rparr>"

abbreviation emit :: "signal \<Rightarrow> runner \<Rightarrow> runner" where "emit s \<equiv> record_event (Emit s)"
abbreviation push_command :: "motion_cmd \<Rightarrow> runner \<Rightarrow> runner" where "push_command c \<equiv> record_event (Push c)"

text \<open>\<open>gcode_list_[curr_gcode_num_]\<close>\<close>

definition curr_gcode :: "runner \<Rightarrow> (fault, node) result" where
  "curr_gcode r =
     (if curr_gcode_num r < length (gcode_list r) then Inr (gcode_list r ! curr_gcode_num r) else Inl OutOfRange)"

text \<open>A call on the timer of the current task.\<close>

definition on_timer :: "(task_timer \<Rightarrow> task_timer) \<Rightarrow> runner \<Rightarrow> runner" where
  "on_timer f r =
     r\<lparr>gcode_list := (gcode_list r)[curr_gcode_num r :=
         (gcode_list r ! curr_gcode_num r)\<lparr>n_timer := f (n_timer (gcode_list r ! curr_gcode_num r))\<rparr>]\<rparr>"

section \<open>Internal operations\<close>

definition is_group :: "task_body \<Rightarrow> bool" where
  "is_group b = (case b of G01GroupMotion _ _ \<Rightarrow> True | _ \<Rightarrow> False)"

definition is_drill :: "task_body \<Rightarrow> bool" where
  "is_drill b = (case b of DrillMotion _ \<Rightarrow> True | _ \<Rightarrow> False)"

definition should_fast_peroid :: "run_state \<Rightarrow> runner \<Rightarrow> bool" where
  "should_fast_peroid s r \<longleftrightarrow>
     s \<in> {CurrentNodeIniting, ReadyToStart, WaitingForPaused, WaitingForResumed, WaitingForStopped}
   \<or> s = Running \<and> curr_gcode_num r < length (gcode_list r)
     \<and> (let b = n_body (gcode_list r ! curr_gcode_num r) in is_group b \<or> \<not> is_motion_task b)"

definition switch_to_state :: "run_state \<Rightarrow> runner \<Rightarrow> runner" where
  "switch_to_state s r = r\<lparr>timer_interval := (if should_fast_peroid s r then 150 else 1000), state := s\<rparr>"

definition reset_state :: "env \<Rightarrow> runner \<Rightarrow> runner" where
  "reset_state E r =
     (let r = r\<lparr>state := Stopped\<rparr>;
          r = (if curr_gcode_num r < length (gcode_list r) then on_timer (timer_stop (now E)) r else r)
      in r\<lparr>timer_active := False, delay_pause_flag := False\<rparr>)"

definition reset :: "env \<Rightarrow> runner \<Rightarrow> runner" where
  "reset E r = (reset_state E r)\<lparr>last_error_str := []\<rparr>"

definition abort :: "env \<Rightarrow> string \<Rightarrow> runner \<Rightarrow> runner" where
  "abort E msg r =
     (let r = push_command ManualEmergencyStopAllMove r;
          r = (reset_state E r)\<lparr>last_error_str := msg\<rparr>
      in emit (Sig_auto_stopped True) r)"

definition end_run :: "env \<Rightarrow> runner \<Rightarrow> runner" where
  "end_run E r =
     (let r = switch_to_state Stopped r;
          r = (reset_state E r)\<lparr>last_error_str := []\<rparr>
      in emit (Sig_auto_stopped False) r)"

definition drill_record_data :: "env \<Rightarrow> bool \<Rightarrow> runner \<Rightarrow> runner" where
  "drill_record_data E b r =
     (if auto_record_data (setts E)
      then emit (Sig_record_data 0xAE b) (emit (Sig_record_data 2 b) r) else r)"

definition drill_record_end :: "env \<Rightarrow> node \<Rightarrow> runner \<Rightarrow> runner" where
  "drill_record_end E nd r =
     (if with_drill E \<and> is_drill (n_body nd) then drill_record_data E False r else r)"

definition check_to_next_gcode :: "env \<Rightarrow> runner \<Rightarrow> (fault, runner) result" where
  "check_to_next_gcode E r =
     rbind (curr_gcode r) (\<lambda>nd.
       let r = drill_record_end E nd r;
           r = on_timer (timer_stop (now E)) r;
           r = r\<lparr>total_elapsed := total_elapsed r + elapsed_time (now E) (n_timer (gcode_list r ! curr_gcode_num r))\<rparr>;
           r = r\<lparr>curr_gcode_num := Suc (curr_gcode_num r)\<rparr>
       in if curr_gcode_num r \<ge> length (gcode_list r)
          then Inr (abort E ''_check_to_next_gcode: gcode overflow'' r)
          else Inr (record_event (SingleShot 50) (switch_to_state CurrentNodeIniting r)))"

section \<open>The check of a new list\<close>

fun check_nodes :: "env \<Rightarrow> coord_manager \<Rightarrow> node list \<Rightarrow> string option" where
  "check_nodes E m [] = None"
| "check_nodes E m (n # ns) =
     (case n_body n of
        EleparamSet ix \<Rightarrow>
          if exist_eleparam_index E (uint32 ix) then check_nodes E m ns
          else Some (''check err: eleparam not exist: '' @ int_str ix)
      | CoordinateIndexTask ix \<Rightarrow>
          if exist_coordinate_index m (uint32 ix) then check_nodes E m ns
          else Some (''check err: coord index not exist: '' @ int_str ix)
      | _ \<Rightarrow> check_nodes E m ns)"

definition check_gcode_list_at_first :: "env \<Rightarrow> runner \<Rightarrow> (fault, bool \<times> runner) result" where
  "check_gcode_list_at_first E r =
     (case check_nodes E (cm (coord_sys r)) (gcode_list r) of
        Some msg \<Rightarrow> Inr (False, abort E msg r)
      | None \<Rightarrow>
         if gcode_list r = [] then Inl OutOfRange
         else if n_body (last (gcode_list r)) \<noteq> ProgramEnd
         then Inr (False, abort E ''check err: last gcode is not m02'' r)
         else Inr (True, r))"

section \<open>Starting a task\<close>

text \<open>The switch over the type of a motion task.\<close>

definition prepare_motion :: "env \<Rightarrow> runner \<Rightarrow> task_body \<Rightarrow> (fault, prep) result" where
  "prepare_motion E r b =
     (let m = cm (coord_sys r); pos = curr_cmd_axis_blu (local_info_cache r) in
      case b of
        G00Motion detect touch feed ix md values \<Rightarrow>
          rbind (cmd_vals values) (\<lambda>vs. Inr (prepare_g00 (setts E) m pos detect touch feed ix md vs))
      | G01Motion ix md values \<Rightarrow>
          rbind (cmd_vals values) (\<lambda>vs. Inr (prepare_g01 m pos ix md vs))
      | Deley t \<Rightarrow>
          rbind (double_val t) (\<lambda>d. Inr (Sends (AutoG04Delay d)
            ''abort: start g04 failed, cmd not accepted by motion or timeout''))
      | PauseTask \<Rightarrow> Inr (Sends AutoM00FakePauseTask
            ''abort: start m00 failed, cmd not accepted by motion or timeout'')
      | DrillMotion dp \<Rightarrow>
          if with_drill E then rbind (double_val (depth_um dp)) (\<lambda>d. Inr (prepare_drill m pos d dp))
          else Inl AssertFailed
      | G01GroupMotion ix items \<Rightarrow>
          rbind (group_vals items) (\<lambda>ps. Inr (prepare_g01_group m pos ix ps))
      | _ \<Rightarrow> Inl AssertFailed)"

text \<open>The timer is started and the line announced.\<close>

definition announce_node :: "env \<Rightarrow> node \<Rightarrow> runner \<Rightarrow> runner" where
  "announce_node E nd r =
     emit (Sig_autogcode_switched_to_line (uint32 (line_number (n_task nd))))
       (if t_state (n_timer nd) = TimerRunning then r else on_timer (timer_restart (now E)) r)"

definition carry_out :: "env \<Rightarrow> node \<Rightarrow> runner \<Rightarrow> prep \<Rightarrow> (fault, runner) result" where
  "carry_out E nd r p =
     (case p of
        Aborts msg \<Rightarrow> Inr (abort E msg r)
      | Skips \<Rightarrow> check_to_next_gcode E r
      | Sends c msg \<Rightarrow>
          let r = push_command c r
          in if \<not> accepts E c then Inr (abort E msg r)
             else Inr (switch_to_state Running
                    (if is_drill (n_body nd) then drill_record_data E True r else r)))"

definition state_current_node_initing :: "env \<Rightarrow> runner \<Rightarrow> (fault, runner) result" where
  "state_current_node_initing E r =
     rbind (curr_gcode r) (\<lambda>nd.
       let r = announce_node E nd r
       in if \<not> is_motion_task (n_body nd) then Inr (switch_to_state Running r)
          else rbind (prepare_motion E r (n_body nd)) (carry_out E nd r))"

section \<open>Running a task\<close>

text \<open>The new offset of the current coordinate: the drive position on the axes set to zero.\<close>

definition zero_offset :: "bool list \<Rightarrow> axis_t \<Rightarrow> axis_t \<Rightarrow> axis_t" where
  "zero_offset flags pos off = map (\<lambda>i. if flags ! i then pos ! i else off ! i) [0..<EDM_AXIS_NUM]"

definition run_coord_set_zero :: "env \<Rightarrow> bool list \<Rightarrow> runner \<Rightarrow> (fault, runner) result" where
  "run_coord_set_zero E flags r =
     (case get_current_coord_offset (coord_sys r) of
        None \<Rightarrow> Inr (abort E ''abort: CoordSetZeroCommand: original offset get failed'' r)
      | Some off \<Rightarrow>
         if length flags < 6 then Inl OutOfRange
         else let (ok, cs) = set_current_coord_offset
                (zero_offset flags (curr_cmd_axis_blu (local_info_cache r)) off) (coord_sys r);
              r = r\<lparr>coord_sys := cs\<rparr>
         in if \<not> ok then Inr (abort E ''abort: CoordSetZeroCommand: set zero failed'' r)
            else check_to_next_gcode E (emit Sig_coord_offset_changed r))"

text \<open>
  The signal that switches the coordinate index is connected to the coordinate panel, which
  sets the index of the coordinate system.
\<close>

definition run_coord_index :: "env \<Rightarrow> int \<Rightarrow> runner \<Rightarrow> (fault, runner) result" where
  "run_coord_index E ix r =
     (if \<not> exist_coordinate_index (cm (coord_sys r)) (uint32 ix)
      then Inr (abort E (''abort: coord index not exist: '' @ int_str ix) r)
      else let r = emit (Sig_switch_coordindex (uint32 ix)) r;
               r = r\<lparr>coord_sys := snd (set_coord_index (uint32 ix) (coord_sys r))\<rparr>
           in check_to_next_gcode E r)"

definition run_eleparam_set :: "env \<Rightarrow> int \<Rightarrow> runner \<Rightarrow> (fault, runner) result" where
  "run_eleparam_set E ix r =
     (if \<not> exist_eleparam_index E (uint32 ix)
      then Inr (abort E (''abort: ele param not exist: '' @ int_str ix) r)
      else if \<not> set_current_eleparam_index E (uint32 ix)
      then Inr (abort E (''abort: ele param set failed: '' @ int_str ix) r)
      else check_to_next_gcode E r)"

definition state_running_non_motion :: "env \<Rightarrow> task_body \<Rightarrow> runner \<Rightarrow> (fault, runner) result" where
  "state_running_non_motion E b r =
     (case b of
        ProgramEnd \<Rightarrow> Inr (end_run E r)
      | CoordinateIndexTask ix \<Rightarrow> run_coord_index E ix r
      | EleparamSet ix \<Rightarrow> run_eleparam_set E ix r
      | CoordSetZero flags \<Rightarrow> run_coord_set_zero E flags r
      | CoordinateModeTask \<Rightarrow> check_to_next_gcode E r
      | FeedSpeedSet \<Rightarrow> check_to_next_gcode E r
      | _ \<Rightarrow> Inl AssertFailed)"

text \<open>A motion task is over: a touch warning ends a touch motion and aborts any other rapid.\<close>

definition motion_over :: "env \<Rightarrow> task_body \<Rightarrow> runner \<Rightarrow> (fault, runner) result" where
  "motion_over E b r =
     (case b of
        G00Motion _ touch _ _ _ _ \<Rightarrow>
          if TouchWarning (local_info_cache r)
          then if touch
               then let r = push_command SettingClearWarning r
                    in if accepts E SettingClearWarning then check_to_next_gcode E r
                       else Inr (abort E ''Clear Warning Failed'' r)
               else Inr (abort E ''***Touch Warning !!'' r)
          else check_to_next_gcode E r
      | _ \<Rightarrow> check_to_next_gcode E r)"

definition wake_timer :: "env \<Rightarrow> node \<Rightarrow> runner \<Rightarrow> runner" where
  "wake_timer E nd r =
     (case t_state (n_timer nd) of
        TimerIdle \<Rightarrow> on_timer (timer_restart (now E)) r
      | TimerPaused \<Rightarrow> on_timer (timer_resume (now E)) r
      | _ \<Rightarrow> r)"

definition show_sub_line :: "node \<Rightarrow> runner \<Rightarrow> runner" where
  "show_sub_line nd r =
     (if is_group (n_body nd)
      then emit (Sig_autogcode_switched_to_line (uint32 (sub_line_number (local_info_cache r)))) r else r)"

definition poll_motion :: "env \<Rightarrow> node \<Rightarrow> runner \<Rightarrow> (fault, runner) result" where
  "poll_motion E nd r =
     (case main_mode (local_info_cache r) of
        MM_Auto \<Rightarrow>
          (case auto_state (local_info_cache r) of
             AutoPaused \<Rightarrow> Inr (emit Sig_auto_paused ((switch_to_state Paused r)\<lparr>delay_pause_flag := False\<rparr>))
           | _ \<Rightarrow> Inr r)
      | MM_Idle \<Rightarrow> motion_over E (n_body nd) r
      | MM_Manual \<Rightarrow> Inr (abort E ''_state_running err: detected MM=Manual'' r))"

definition state_running :: "env \<Rightarrow> runner \<Rightarrow> (fault, runner) result" where
  "state_running E r =
     rbind (curr_gcode r) (\<lambda>nd.
       let r = wake_timer E nd r
       in if \<not> is_motion_task (n_body nd) then state_running_non_motion E (n_body nd) r
          else poll_motion E nd (show_sub_line nd r))"

section \<open>Waiting for the motion thread\<close>

definition auto_state_str :: "auto_state \<Rightarrow> string" where
  "auto_state_str a =
     (case a of NormalMoving \<Rightarrow> ''NormalMoving'' | Pausing \<Rightarrow> ''Pausing'' | AutoPaused \<Rightarrow> ''Paused''
      | Resuming \<Rightarrow> ''Resuming'' | Stopping \<Rightarrow> ''Stopping'' | AutoStopped \<Rightarrow> ''Stopped'')"

definition need_motion :: "runner \<Rightarrow> (fault, node) result" where
  "need_motion r = rbind (curr_gcode r) (\<lambda>nd. if is_motion_task (n_body nd) then Inr nd else Inl AssertFailed)"

definition state_waiting_for_paused :: "env \<Rightarrow> runner \<Rightarrow> (fault, runner) result" where
  "state_waiting_for_paused E r =
     rbind (need_motion r) (\<lambda>nd.
       Inr (case main_mode (local_info_cache r) of
         MM_Auto \<Rightarrow>
           (case auto_state (local_info_cache r) of
              AutoPaused \<Rightarrow> emit Sig_auto_paused ((switch_to_state Paused r)\<lparr>delay_pause_flag := False\<rparr>)
            | Pausing \<Rightarrow> r
            | a \<Rightarrow> abort E (''_state_waiting_for_paused err: detected MM='' @ auto_state_str a) r)
       | MM_Idle \<Rightarrow> abort E ''_state_waiting_for_paused err: detected MM=Idle'' r
       | MM_Manual \<Rightarrow> abort E ''_state_waiting_for_paused err: detected MM=Manual'' r))"

definition state_waiting_for_resumed :: "env \<Rightarrow> runner \<Rightarrow> (fault, runner) result" where
  "state_waiting_for_resumed E r =
     rbind (need_motion r) (\<lambda>nd.
       Inr (case main_mode (local_info_cache r) of
         MM_Auto \<Rightarrow>
           (case auto_state (local_info_cache r) of
              NormalMoving \<Rightarrow> emit Sig_auto_resumed (switch_to_state Running r)
            | Stopping \<Rightarrow> emit Sig_auto_resumed (switch_to_state Running r)
            | AutoStopped \<Rightarrow> emit Sig_auto_resumed (switch_to_state Running r)
            | AutoPaused \<Rightarrow> r
            | Resuming \<Rightarrow> r
            | a \<Rightarrow> abort E (''_state_waiting_for_resumed err: detected MM='' @ auto_state_str a) r)
       | MM_Idle \<Rightarrow> emit Sig_auto_resumed (switch_to_state Running r)
       | MM_Manual \<Rightarrow> abort E ''_state_waiting_for_resumed err: detected MM=Manual'' r))"

definition state_waiting_for_stopped :: "env \<Rightarrow> runner \<Rightarrow> (fault, runner) result" where
  "state_waiting_for_stopped E r =
     rbind (need_motion r) (\<lambda>nd.
       Inr (case main_mode (local_info_cache r) of
         MM_Auto \<Rightarrow>
           (case auto_state (local_info_cache r) of
              Stopping \<Rightarrow> r
            | AutoStopped \<Rightarrow> end_run E (drill_record_end E nd r)
            | a \<Rightarrow> abort E (''_state_waiting_for_stopped err: detected MM='' @ auto_state_str a) r)
       | MM_Idle \<Rightarrow> end_run E (drill_record_end E nd r)
       | MM_Manual \<Rightarrow> abort E ''_state_waiting_for_stopped err: detected MM=Manual'' r))"

section \<open>Operations\<close>

text \<open>A command that is pushed and waited for.\<close>

definition cmd :: "env \<Rightarrow> motion_cmd \<Rightarrow> runner \<Rightarrow> bool \<times> runner" where
  "cmd E c r = (accepts E c, push_command c r)"

definition start :: "env \<Rightarrow> node list \<Rightarrow> runner \<Rightarrow> (fault, bool \<times> runner) result" where
  "start E nodes r =
     (if state r \<noteq> Stopped then Inr (False, r)
      else if \<not> is_over r then Inr (False, r)
      else let r = r\<lparr>gcode_list := nodes, curr_gcode_num := 0, total_elapsed := 0\<rparr>
      in rbind (check_gcode_list_at_first E r) (\<lambda>(ok, r).
           if \<not> ok then Inr (False, r)
           else Inr (True, switch_to_state ReadyToStart (r\<lparr>timer_active := True, timer_interval := 1000\<rparr>))))"

definition pause :: "env \<Rightarrow> runner \<Rightarrow> (fault, bool \<times> runner) result" where
  "pause E r =
     (if is_over r then Inr (False, r)
      else rbind (curr_gcode r) (\<lambda>nd.
        if state r = WaitingForResumed \<or> state r = Running then
          if \<not> is_motion_task (n_body nd)
          then Inr (True, on_timer (timer_pause (now E)) (emit Sig_auto_paused (switch_to_state Paused r)))
          else let (ret, r) = cmd E AutoPause r
               in if \<not> ret then Inr (False, r\<lparr>delay_pause_flag := True\<rparr>)
                  else Inr (True, on_timer (timer_pause (now E)) (switch_to_state WaitingForPaused r))
        else if state r = WaitingForPaused \<or> state r = Paused then Inr (True, r)
        else if state r = CurrentNodeIniting then Inr (False, r\<lparr>delay_pause_flag := True\<rparr>)
        else Inr (False, r)))"

definition resume :: "env \<Rightarrow> runner \<Rightarrow> (fault, bool \<times> runner) result" where
  "resume E r =
     (if is_over r then Inr (False, r)
      else rbind (curr_gcode r) (\<lambda>nd.
        if state r = Paused then
          if \<not> is_motion_task (n_body nd)
          then Inr (True, on_timer (timer_resume (now E)) (emit Sig_auto_resumed (switch_to_state Running r)))
          else let (ret, r) = cmd E AutoResume r
               in if \<not> ret then Inr (False, r)
                  else Inr (True, on_timer (timer_resume (now E)) (switch_to_state WaitingForResumed r))
        else if state r = WaitingForResumed then Inr (True, r)
        else Inr (False, r)))"

definition stop :: "env \<Rightarrow> runner \<Rightarrow> (fault, bool \<times> runner) result" where
  "stop E r =
     (if is_over r then Inr (False, r)
      else rbind (curr_gcode r) (\<lambda>nd.
        if state r = WaitingForResumed \<or> state r = Paused \<or> state r = Running then
          if \<not> is_motion_task (n_body nd) then Inr (True, end_run E r)
          else let (ret, r) = cmd E (AutoStop False) r
               in if \<not> ret then Inr (True, end_run E (snd (cmd E ManualEmergencyStopAllMove r)))
                  else Inr (True, switch_to_state WaitingForStopped r)
        else if state r = CurrentNodeIniting then Inr (True, end_run E r)
        else if state r = WaitingForStopped then Inr (True, r)
        else if state r = WaitingForPaused then
          let (ret, r) = cmd E (AutoStop False) r
          in if \<not> ret then Inr (False, r) else Inr (True, switch_to_state WaitingForStopped r)
        else Inr (False, r)))"

definition estop :: "env \<Rightarrow> runner \<Rightarrow> bool \<times> runner" where
  "estop E r =
     (let (ret, r) = cmd E ManualEmergencyStopAllMove r
      in (ret, if ret then if is_over r then reset_state E r else abort E ''ESTOP'' r else r))"

definition poll_state :: "env \<Rightarrow> runner \<Rightarrow> (fault, runner) result" where
  "poll_state E r =
     (case state r of
        ReadyToStart \<Rightarrow> Inr (emit Sig_auto_started (switch_to_state CurrentNodeIniting r))
      | CurrentNodeIniting \<Rightarrow> state_current_node_initing E r
      | Running \<Rightarrow> state_running E r
      | WaitingForPaused \<Rightarrow> state_waiting_for_paused E r
      | Paused \<Rightarrow>
          rbind (curr_gcode r) (\<lambda>nd.
            Inr (if t_state (n_timer nd) \<noteq> TimerPaused then on_timer (timer_pause (now E)) r else r))
      | WaitingForResumed \<Rightarrow> state_waiting_for_resumed E r
      | WaitingForStopped \<Rightarrow> state_waiting_for_stopped E r
      | Stopped \<Rightarrow>
          rbind (curr_gcode r) (\<lambda>nd.
            Inr (if t_state (n_timer nd) \<noteq> TimerStopped then on_timer (timer_stop (now E)) r else r)))"

definition run_once :: "env \<Rightarrow> runner \<Rightarrow> (fault, runner) result" where
  "run_once E r =
     rbind (poll_state E (r\<lparr>local_info_cache := info E\<rparr>)) (\<lambda>r.
       if delay_pause_flag r
       then rbind (pause E r) (\<lambda>(ret, r). Inr (if ret then r\<lparr>delay_pause_flag := False\<rparr> else r))
       else Inr r)"

text \<open>The constructor (\<open>_reset_state\<close> on an empty list) on the coordinate system of the application.\<close>

definition new_GCodeRunner :: "coord_system \<Rightarrow> runner" where
  "new_GCodeRunner cs =
     \<lparr>state = Stopped,
      local_info_cache = \<lparr>curr_cmd_axis_blu = axis_init 0, sub_line_number = -1, main_mode = MM_Idle,
        auto_state = AutoStopped, TouchWarning = False\<rparr>,
      timer_active = False, timer_interval = 0, gcode_list = [], curr_gcode_num = 0, total_elapsed = 0,
      last_error_str = [], delay_pause_flag = False, coord_sys = cs, trace = []\<rparr>"

definition current_node_elapsed_time :: "int \<Rightarrow> runner \<Rightarrow> int" where
  "current_node_elapsed_time t r =
     (if curr_gcode_num r < length (gcode_list r) then elapsed_time t (n_timer (gcode_list r ! curr_gcode_num r)) else 0)"

definition total_elapsed_time :: "int \<Rightarrow> runner \<Rightarrow> int" where
  "total_elapsed_time t r = total_elapsed r + current_node_elapsed_time t r"

section \<open>The task manager\<close>

text \<open>
  \<^verbatim>\<open>App/TaskManager/TaskManager.cpp\<close>: the operations of the user interface. The manual move is
  allowed when no program runs or the program is paused.
\<close>

definition operation_start_pointmove :: "env \<Rightarrow> motion_cmd \<Rightarrow> runner \<Rightarrow> bool \<times> runner" where
  "operation_start_pointmove E c r =
     (if is_over r then cmd E c r
      else if state r \<noteq> Paused then (False, r)
      else cmd E c r)"

definition operation_stop_pointmove :: "env \<Rightarrow> runner \<Rightarrow> bool \<times> runner" where
  "operation_stop_pointmove E r = cmd E (ManualStopPointMove False) r"

definition operation_gcode_start :: "env \<Rightarrow> task list \<Rightarrow> runner \<Rightarrow> (fault, bool \<times> runner) result" where
  "operation_gcode_start E ts r = start E (map new_node ts) r"

definition operation_gcode_pause :: "env \<Rightarrow> runner \<Rightarrow> (fault, bool \<times> runner) result" where
  "operation_gcode_pause E r = pause E r"

definition operation_gcode_resume :: "env \<Rightarrow> runner \<Rightarrow> (fault, bool \<times> runner) result" where
  "operation_gcode_resume E r = resume E r"

definition operation_gcode_stop :: "env \<Rightarrow> runner \<Rightarrow> (fault, bool \<times> runner) result" where
  "operation_gcode_stop E r = stop E r"

definition operation_emergency_stop :: "env \<Rightarrow> runner \<Rightarrow> bool \<times> runner" where
  "operation_emergency_stop E r = estop E r"

definition new_TaskManager :: "env \<Rightarrow> coord_system \<Rightarrow> runner" where
  "new_TaskManager E cs = reset E (new_GCodeRunner cs)"

end
