(* ===== verification/Gcode_Runner_Correct.thy ===== *)
theory Gcode_Runner_Correct
  imports Gcode_Runner
begin

text \<open>
  Correctness of the G-code runner: the invariant of every state reachable by polls and user
  operations (which makes every list access defined), the soft limits of the commands it
  sends, how a run can end, and that a run comes to its end.
\<close>

section \<open>What the internal operations change\<close>

abbreviation bodies :: "runner \<Rightarrow> task_body list" where
  "bodies r \<equiv> map n_body (gcode_list r)"

abbreviation curr_body :: "runner \<Rightarrow> task_body" where
  "curr_body r \<equiv> n_body (gcode_list r ! curr_gcode_num r)"

lemma record_event_fields [simp]:
  "state (record_event e r) = state r" "gcode_list (record_event e r) = gcode_list r"
  "curr_gcode_num (record_event e r) = curr_gcode_num r" "coord_sys (record_event e r) = coord_sys r"
  "delay_pause_flag (record_event e r) = delay_pause_flag r" "timer_active (record_event e r) = timer_active r"
  "local_info_cache (record_event e r) = local_info_cache r" "trace (record_event e r) = trace r @ [e]"
  "last_error_str (record_event e r) = last_error_str r" "total_elapsed (record_event e r) = total_elapsed r"
  by (simp_all add: record_event_def)

lemma on_timer_fields [simp]:
  "state (on_timer f r) = state r" "length (gcode_list (on_timer f r)) = length (gcode_list r)"
  "curr_gcode_num (on_timer f r) = curr_gcode_num r" "coord_sys (on_timer f r) = coord_sys r"
  "delay_pause_flag (on_timer f r) = delay_pause_flag r" "timer_active (on_timer f r) = timer_active r"
  "local_info_cache (on_timer f r) = local_info_cache r" "trace (on_timer f r) = trace r"
  "last_error_str (on_timer f r) = last_error_str r" "total_elapsed (on_timer f r) = total_elapsed r"
  by (simp_all add: on_timer_def)

lemma on_timer_tasks [simp]:
  "i < length (gcode_list r) \<Longrightarrow> n_task (gcode_list (on_timer f r) ! i) = n_task (gcode_list r ! i)"
  by (cases "i = curr_gcode_num r") (simp_all add: on_timer_def)

lemma on_timer_bodies [simp]: "bodies (on_timer f r) = bodies r"
  by (rule nth_equalityI) simp_all

lemma on_timer_empty [simp]: "gcode_list (on_timer f r) = [] \<longleftrightarrow> gcode_list r = []"
  by (simp add: on_timer_def)

lemma switch_to_state_fields [simp]:
  "state (switch_to_state s r) = s" "gcode_list (switch_to_state s r) = gcode_list r"
  "curr_gcode_num (switch_to_state s r) = curr_gcode_num r" "coord_sys (switch_to_state s r) = coord_sys r"
  "delay_pause_flag (switch_to_state s r) = delay_pause_flag r" "timer_active (switch_to_state s r) = timer_active r"
  "local_info_cache (switch_to_state s r) = local_info_cache r" "trace (switch_to_state s r) = trace r"
  "last_error_str (switch_to_state s r) = last_error_str r" "total_elapsed (switch_to_state s r) = total_elapsed r"
  by (simp_all add: switch_to_state_def)

lemma reset_state_fields [simp]:
  "state (reset_state E r) = Stopped" "length (gcode_list (reset_state E r)) = length (gcode_list r)"
  "curr_gcode_num (reset_state E r) = curr_gcode_num r" "coord_sys (reset_state E r) = coord_sys r"
  "delay_pause_flag (reset_state E r) = False" "timer_active (reset_state E r) = False"
  "local_info_cache (reset_state E r) = local_info_cache r" "trace (reset_state E r) = trace r"
  "bodies (reset_state E r) = bodies r" "gcode_list (reset_state E r) = [] \<longleftrightarrow> gcode_list r = []"
  using on_timer_bodies[of _ "r\<lparr>state := Stopped\<rparr>"] by (simp_all add: reset_state_def Let_def)

lemma abort_fields [simp]:
  "state (abort E msg r) = Stopped" "length (gcode_list (abort E msg r)) = length (gcode_list r)"
  "curr_gcode_num (abort E msg r) = curr_gcode_num r" "coord_sys (abort E msg r) = coord_sys r"
  "delay_pause_flag (abort E msg r) = False" "timer_active (abort E msg r) = False"
  "local_info_cache (abort E msg r) = local_info_cache r" "last_error_str (abort E msg r) = msg"
  "trace (abort E msg r) = trace r @ [Push ManualEmergencyStopAllMove, Emit (Sig_auto_stopped True)]"
  "bodies (abort E msg r) = bodies r" "gcode_list (abort E msg r) = [] \<longleftrightarrow> gcode_list r = []"
  by (simp_all add: abort_def Let_def)

lemma end_run_fields [simp]:
  "state (end_run E r) = Stopped" "length (gcode_list (end_run E r)) = length (gcode_list r)"
  "curr_gcode_num (end_run E r) = curr_gcode_num r" "coord_sys (end_run E r) = coord_sys r"
  "delay_pause_flag (end_run E r) = False" "timer_active (end_run E r) = False"
  "local_info_cache (end_run E r) = local_info_cache r" "last_error_str (end_run E r) = []"
  "trace (end_run E r) = trace r @ [Emit (Sig_auto_stopped False)]"
  "bodies (end_run E r) = bodies r" "gcode_list (end_run E r) = [] \<longleftrightarrow> gcode_list r = []"
  by (simp_all add: end_run_def Let_def)

lemma drill_record_fields [simp]:
  "state (drill_record_data E b r) = state r" "gcode_list (drill_record_data E b r) = gcode_list r"
  "curr_gcode_num (drill_record_data E b r) = curr_gcode_num r" "coord_sys (drill_record_data E b r) = coord_sys r"
  "delay_pause_flag (drill_record_data E b r) = delay_pause_flag r" "timer_active (drill_record_data E b r) = timer_active r"
  "local_info_cache (drill_record_data E b r) = local_info_cache r"
  "last_error_str (drill_record_data E b r) = last_error_str r"
  "state (drill_record_end E nd r) = state r" "gcode_list (drill_record_end E nd r) = gcode_list r"
  "curr_gcode_num (drill_record_end E nd r) = curr_gcode_num r" "coord_sys (drill_record_end E nd r) = coord_sys r"
  "delay_pause_flag (drill_record_end E nd r) = delay_pause_flag r" "timer_active (drill_record_end E nd r) = timer_active r"
  "local_info_cache (drill_record_end E nd r) = local_info_cache r"
  "last_error_str (drill_record_end E nd r) = last_error_str r"
  by (simp_all add: drill_record_data_def drill_record_end_def)

section \<open>The invariant\<close>

text \<open>What the task converter guarantees of a task: six finite coordinates, six flags, drilling in a drill build only.\<close>

definition six_finite :: "pyfloat option list \<Rightarrow> bool" where
  "six_finite vs \<longleftrightarrow> length vs = 6 \<and> list_all (\<lambda>v. case v of None \<Rightarrow> True | Some f \<Rightarrow> finite_float f) vs"

fun task_ok :: "bool \<Rightarrow> task_body \<Rightarrow> bool" where
  "task_ok d (G00Motion _ _ _ _ _ vs) = six_finite vs"
| "task_ok d (G01Motion _ _ vs) = six_finite vs"
| "task_ok d (Deley t) = finite_float t"
| "task_ok d (CoordSetZero flags) = (length flags = 6)"
| "task_ok d (DrillMotion dp) = (d \<and> finite_float (depth_um dp))"
| "task_ok d (G01GroupMotion _ items) = list_all (\<lambda>g. six_finite (gi_values g)) items"
| "task_ok d _ = True"

definition env_ok :: "bool \<Rightarrow> env \<Rightarrow> bool" where
  "env_ok d E \<longleftrightarrow> is_axis (curr_cmd_axis_blu (info E)) \<and> (with_drill E \<longleftrightarrow> d)"

definition run_inv :: "bool \<Rightarrow> runner \<Rightarrow> bool" where
  "run_inv d r \<longleftrightarrow> cs_inv (coord_sys r)
     \<and> (gcode_list r \<noteq> [] \<longrightarrow> curr_gcode_num r < length (gcode_list r))
     \<and> (state r \<noteq> Stopped \<longrightarrow> gcode_list r \<noteq> [] \<and> last (bodies r) = ProgramEnd \<and> list_all (task_ok d) (bodies r))
     \<and> (state r \<in> {WaitingForPaused, WaitingForResumed, WaitingForStopped} \<longrightarrow> is_motion_task (curr_body r))
     \<and> (delay_pause_flag r \<longrightarrow> state r \<noteq> Stopped)
     \<and> (timer_active r \<longleftrightarrow> state r \<noteq> Stopped)"

lemma run_inv_active:
  assumes "run_inv d r" "state r \<noteq> Stopped"
  shows "curr_gcode_num r < length (gcode_list r)" "last (bodies r) = ProgramEnd" "list_all (task_ok d) (bodies r)"
    "task_ok d (curr_body r)" "cs_inv (coord_sys r)" "timer_active r"
  using assms by (auto simp: run_inv_def list_all_length)

lemma run_inv_stopped:
  assumes "cs_inv (coord_sys r)" "gcode_list r \<noteq> [] \<longrightarrow> curr_gcode_num r < length (gcode_list r)"
    "state r = Stopped" "\<not> delay_pause_flag r" "\<not> timer_active r"
  shows "run_inv d r"
  using assms by (simp add: run_inv_def)

lemma run_inv_abort: "run_inv d r \<Longrightarrow> run_inv d (abort E msg r)"
  by (rule run_inv_stopped) (auto simp: run_inv_def)

lemma run_inv_end: "run_inv d r \<Longrightarrow> run_inv d (end_run E r)"
  by (rule run_inv_stopped) (auto simp: run_inv_def)

lemma run_inv_same:
  assumes "run_inv d r" "state r' = state r" "bodies r' = bodies r" "curr_gcode_num r' = curr_gcode_num r"
    "cs_inv (coord_sys r')" "timer_active r' = timer_active r" "delay_pause_flag r' \<longrightarrow> state r \<noteq> Stopped"
  shows "run_inv d r'"
proof -
  have len: "length (gcode_list r') = length (gcode_list r)" using assms(3) by (metis length_map)
  then have e: "gcode_list r' = [] \<longleftrightarrow> gcode_list r = []" by (metis length_0_conv)
  have "curr_body r' = curr_body r" if "gcode_list r \<noteq> []"
    using that assms(1,3,4) len by (metis nth_map run_inv_def)
  then show ?thesis using assms len e by (auto simp: run_inv_def)
qed

lemma run_inv_switch:
  assumes "run_inv d r" "state r \<noteq> Stopped" "s \<noteq> Stopped"
    "s \<in> {WaitingForPaused, WaitingForResumed, WaitingForStopped} \<longrightarrow> is_motion_task (curr_body r)"
  shows "run_inv d (switch_to_state s r)"
  using assms by (simp add: run_inv_def)

text \<open>The last task ends the program, so a task that does not has one after it.\<close>

lemma not_last:
  assumes "run_inv d r" "state r \<noteq> Stopped" "curr_body r \<noteq> ProgramEnd"
  shows "Suc (curr_gcode_num r) < length (gcode_list r)"
proof (rule ccontr)
  assume "\<not> ?thesis"
  then have "curr_gcode_num r = length (gcode_list r) - 1" using run_inv_active(1)[OF assms(1,2)] by simp
  moreover have "gcode_list r \<noteq> []" using run_inv_active(1)[OF assms(1,2)] by auto
  ultimately have "curr_body r = last (bodies r)" by (simp add: last_map last_conv_nth)
  with run_inv_active(2)[OF assms(1,2)] assms(3) show False by simp
qed

section \<open>Each operation keeps the invariant\<close>

text \<open>
  \<open>leads E r r'\<close>: the operation kept the invariant and pushed only commands that keep to the
  soft limits, seen from the position and the coordinates it started with.
\<close>

fun safe_event :: "coord_manager \<Rightarrow> axis_t \<Rightarrow> event \<Rightarrow> bool" where
  "safe_event m pos (Push c) = cmd_safe m pos c"
| "safe_event m pos _ = True"

definition extends :: "coord_manager \<Rightarrow> axis_t \<Rightarrow> runner \<Rightarrow> runner \<Rightarrow> bool" where
  "extends m pos r r' \<longleftrightarrow> (\<exists>evs. trace r' = trace r @ evs \<and> list_all (safe_event m pos) evs)"

definition leads :: "bool \<Rightarrow> coord_manager \<Rightarrow> axis_t \<Rightarrow> runner \<Rightarrow> runner \<Rightarrow> bool" where
  "leads d m pos r r' \<longleftrightarrow> run_inv d r' \<and> extends m pos r r'"

lemma extends_refl [simp, intro]: "extends m pos r r"
  by (simp add: extends_def)

lemma extends_trans: "extends m pos r r' \<Longrightarrow> extends m pos r' r'' \<Longrightarrow> extends m pos r r''"
  by (auto simp: extends_def)

lemma extends_record: "extends m pos r r' \<Longrightarrow> safe_event m pos e \<Longrightarrow> extends m pos r (record_event e r')"
  by (auto simp: extends_def)

lemma extends_same: "extends m pos r r' \<Longrightarrow> trace r'' = trace r' \<Longrightarrow> extends m pos r r''"
  by (simp add: extends_def)

lemma extends_stop:
  "extends m pos r r' \<Longrightarrow> extends m pos r (abort E msg r')"
  "extends m pos r r' \<Longrightarrow> extends m pos r (end_run E r')"
  by (auto simp: extends_def)

lemma extends_drill:
  "extends m pos r r' \<Longrightarrow> extends m pos r (drill_record_data E b r')"
  "extends m pos r r' \<Longrightarrow> extends m pos r (drill_record_end E nd r')"
  by (simp_all add: drill_record_data_def drill_record_end_def extends_record)

lemmas extends_intros = extends_refl extends_record extends_stop extends_drill

lemma extends_keep [simp]:
  "extends m pos r (on_timer f r') = extends m pos r r'"
  "extends m pos r (switch_to_state s r') = extends m pos r r'"
  "extends m pos r (r'\<lparr>delay_pause_flag := b\<rparr>) = extends m pos r r'"
  "extends m pos r (r'\<lparr>coord_sys := c\<rparr>) = extends m pos r r'"
  "extends m pos r (r'\<lparr>local_info_cache := i\<rparr>) = extends m pos r r'"
  "extends m pos r (r'\<lparr>total_elapsed := t\<rparr>) = extends m pos r r'"
  "extends m pos r (r'\<lparr>curr_gcode_num := n\<rparr>) = extends m pos r r'"
  by (simp_all add: extends_def)

lemma curr_gcode_active: "curr_gcode_num r < length (gcode_list r) \<Longrightarrow> curr_gcode r = Inr (gcode_list r ! curr_gcode_num r)"
  by (simp add: curr_gcode_def)

lemma next_gcode:
  assumes "run_inv d r" "state r \<noteq> Stopped" "curr_body r \<noteq> ProgramEnd"
  obtains r' where "check_to_next_gcode E r = Inr r'" "run_inv d r'" "state r' = CurrentNodeIniting"
    "curr_gcode_num r' = Suc (curr_gcode_num r)" "bodies r' = bodies r" "coord_sys r' = coord_sys r"
    "delay_pause_flag r' = delay_pause_flag r" "\<And>m pos. extends m pos r r'" "last_error_str r' = last_error_str r"
    "\<not> with_drill E \<longrightarrow> trace r' = trace r @ [SingleShot 50]"
proof -
  note act = run_inv_active[OF assms(1,2)] and nl = not_last[OF assms]
  let ?nd = "gcode_list r ! curr_gcode_num r"
  let ?r1 = "on_timer (timer_stop (now E)) (drill_record_end E ?nd r)"
  let ?r2 = "?r1\<lparr>total_elapsed := total_elapsed ?r1 + elapsed_time (now E) (n_timer (gcode_list ?r1 ! curr_gcode_num ?r1)),
      curr_gcode_num := Suc (curr_gcode_num r)\<rparr>"
  let ?r' = "record_event (SingleShot 50) (switch_to_state CurrentNodeIniting ?r2)"
  have b1: "bodies ?r1 = bodies r" using on_timer_bodies[of _ "drill_record_end E ?nd r"] by simp
  have "check_to_next_gcode E r = Inr ?r'"
    using nl act(1) by (simp add: check_to_next_gcode_def curr_gcode_active Let_def)
  moreover have "run_inv d ?r'"
    using act nl b1 assms(1,2) by (simp add: run_inv_def)
  moreover have "extends m pos r ?r'" for m pos
    by (simp add: extends_record extends_drill)
  moreover have "\<not> with_drill E \<longrightarrow> trace ?r' = trace r @ [SingleShot 50]" by (simp add: drill_record_end_def)
  ultimately show ?thesis using b1 by (intro that[of ?r']) simp_all
qed

lemma next_gcode_leads:
  assumes "leads d m pos r0 r" "state r \<noteq> Stopped" "curr_body r \<noteq> ProgramEnd"
  shows "\<exists>r'. check_to_next_gcode E r = Inr r' \<and> leads d m pos r0 r'"
proof -
  have "run_inv d r" "extends m pos r0 r" using assms(1) by (simp_all add: leads_def)
  then show ?thesis using next_gcode[OF \<open>run_inv d r\<close> assms(2,3), of E] extends_trans by (metis leads_def)
qed

lemma cmd_vals_ok: "six_finite vs \<Longrightarrow> \<exists>xs. cmd_vals vs = Inr xs \<and> length xs = 6"
proof -
  assume a: "six_finite vs"
  have f: "finite_float f \<Longrightarrow> \<exists>x. double_val f = Inr x" for f by (cases f) auto
  have "\<exists>xs. rmap opt_val vs = Inr xs"
    if "list_all (\<lambda>v. case v of None \<Rightarrow> True | Some g \<Rightarrow> finite_float g) vs" for vs
    using that by (induction vs) (auto split: option.splits dest: f)
  then obtain xs where "rmap opt_val vs = Inr xs" using a by (auto simp: six_finite_def)
  then show ?thesis using a rmap_Inr_length[of opt_val vs xs] by (simp add: six_finite_def cmd_vals_def)
qed

lemma group_vals_ok:
  "list_all (\<lambda>g. six_finite (gi_values g)) items \<Longrightarrow>
   \<exists>ps. group_vals items = Inr ps \<and> list_all (\<lambda>p. length (gp_vals p) = 6) ps"
proof (induction items)
  case (Cons g items)
  then obtain xs where "cmd_vals (gi_values g) = Inr xs" "length xs = 6" using cmd_vals_ok by auto
  then have "rmap opt_val (gi_values g) = Inr xs" "length xs = 6" by (auto simp: cmd_vals_def split: if_splits)
  then show ?case using Cons by (auto simp: group_vals_def)
qed (simp add: group_vals_def)

lemma prepare_motion_ok:
  assumes "task_ok d b" "is_motion_task b" "with_drill E = d" "cm_ok (cm (coord_sys r))"
    "is_axis (curr_cmd_axis_blu (local_info_cache r))"
  shows "\<exists>p. prepare_motion E r b = Inr p \<and>
    (\<forall>c msg. p = Sends c msg \<longrightarrow> cmd_safe (cm (coord_sys r)) (curr_cmd_axis_blu (local_info_cache r)) c)"
proof (cases b)
  case (G00Motion detect touch feed ix md vs)
  then obtain xs where "cmd_vals vs = Inr xs" "length xs = 6" using assms(1) cmd_vals_ok by auto
  then show ?thesis using G00Motion assms prepare_g00_safe by (auto simp: prepare_motion_def Let_def)
next
  case (G01Motion ix md vs)
  then obtain xs where "cmd_vals vs = Inr xs" "length xs = 6" using assms(1) cmd_vals_ok by auto
  then show ?thesis using G01Motion assms prepare_g01_safe by (auto simp: prepare_motion_def Let_def)
next
  case (Deley t)
  then show ?thesis using assms(1) by (cases t) (auto simp: prepare_motion_def)
next
  case (DrillMotion dp)
  then show ?thesis using assms prepare_drill_safe
    by (cases "depth_um dp") (auto simp: prepare_motion_def)
next
  case (G01GroupMotion ix items)
  then obtain ps where "group_vals items = Inr ps" "list_all (\<lambda>p. length (gp_vals p) = 6) ps"
    using assms(1) group_vals_ok by auto
  then show ?thesis using G01GroupMotion assms prepare_g01_group_safe by (auto simp: prepare_motion_def Let_def)
qed (use assms in \<open>auto simp: prepare_motion_def\<close>)

lemma cs_inv_cm: "cs_inv cs \<Longrightarrow> cm_ok (cm cs)"
  by (simp add: cs_inv_def)

lemma carry_out_leads:
  assumes "run_inv d r" "state r = CurrentNodeIniting" "extends m pos r0 r" "is_motion_task (curr_body r)"
    "n_body nd = curr_body r" "\<And>c msg. p = Sends c msg \<Longrightarrow> cmd_safe m pos c"
  shows "\<exists>r'. carry_out E nd r p = Inr r' \<and> leads d m pos r0 r'"
proof (cases p)
  case (Aborts msg)
  then show ?thesis using assms(1,3) by (simp add: carry_out_def leads_def run_inv_abort extends_stop)
next
  case Skips
  have "curr_body r \<noteq> ProgramEnd" using assms(4) by (cases "curr_body r") auto
  then show ?thesis using Skips next_gcode_leads[of d m pos r0 r E] assms(1-3) by (simp add: carry_out_def leads_def)
next
  case (Sends c msg)
  have ns: "state r \<noteq> Stopped" using assms(2) by simp
  note act = run_inv_active[OF assms(1) ns]
  define r2 where "r2 = push_command c r"
  have inv2: "run_inv d r2" "state r2 = CurrentNodeIniting"
    using act(5) assms(2) by (auto simp: r2_def intro!: run_inv_same[OF assms(1)])
  have ext2: "extends m pos r0 r2" using assms(3,6) Sends by (simp add: r2_def extends_record)
  let ?r3 = "if is_drill (n_body nd) then drill_record_data E True r2 else r2"
  have inv3: "run_inv d ?r3" "state ?r3 = CurrentNodeIniting" "extends m pos r0 ?r3"
    using inv2 ext2 act(5) by (auto simp: extends_drill r2_def intro!: run_inv_same[OF inv2(1)])
  have "run_inv d (switch_to_state Running ?r3)" using inv3(2) by (intro run_inv_switch[OF inv3(1)]) simp_all
  moreover have "carry_out E nd r p = Inr (if accepts E c then switch_to_state Running ?r3 else abort E msg r2)"
    using Sends by (simp add: carry_out_def r2_def Let_def)
  ultimately show ?thesis using inv2 ext2 inv3(3) by (simp add: leads_def run_inv_abort extends_stop)
qed

lemma node_initing_leads:
  assumes "run_inv d r" "state r = CurrentNodeIniting" "with_drill E = d"
    "is_axis (curr_cmd_axis_blu (local_info_cache r))"
  shows "\<exists>r'. state_current_node_initing E r = Inr r'
    \<and> leads d (cm (coord_sys r)) (curr_cmd_axis_blu (local_info_cache r)) r r'"
proof -
  have ns: "state r \<noteq> Stopped" using assms(2) by simp
  note act = run_inv_active[OF assms(1) ns]
  let ?m = "cm (coord_sys r)" and ?pos = "curr_cmd_axis_blu (local_info_cache r)"
  let ?nd = "gcode_list r ! curr_gcode_num r"
  define r1 where "r1 = announce_node E ?nd r"
  have same: "state r1 = CurrentNodeIniting" "bodies r1 = bodies r" "curr_gcode_num r1 = curr_gcode_num r"
    "coord_sys r1 = coord_sys r" "local_info_cache r1 = local_info_cache r" "curr_body r1 = curr_body r"
    "timer_active r1 = timer_active r" "delay_pause_flag r1 = delay_pause_flag r"
    using assms(2) act(1) by (auto simp: r1_def announce_node_def)
  have inv1: "run_inv d r1" using assms(2) act(5) same by (intro run_inv_same[OF assms(1)]) simp_all
  have ext1: "extends ?m ?pos r r1" by (simp add: r1_def announce_node_def extends_record)
  show ?thesis
  proof (cases "is_motion_task (curr_body r)")
    case False
    then have "state_current_node_initing E r = Inr (switch_to_state Running r1)"
      using act(1) by (simp add: state_current_node_initing_def curr_gcode_active Let_def r1_def)
    moreover have "run_inv d (switch_to_state Running r1)" using same(1) by (intro run_inv_switch[OF inv1]) simp_all
    ultimately show ?thesis using ext1 by (simp add: leads_def)
  next
    case True
    obtain p where p: "prepare_motion E r1 (curr_body r) = Inr p" "\<And>c msg. p = Sends c msg \<Longrightarrow> cmd_safe ?m ?pos c"
      using prepare_motion_ok[of d "curr_body r" E r1] act(4) True assms(3,4) act(5) cs_inv_cm same(4,5) by auto
    have run: "state_current_node_initing E r = carry_out E ?nd r1 p"
      using act(1) True p(1) by (simp add: state_current_node_initing_def curr_gcode_active Let_def r1_def)
    show ?thesis
      unfolding run
    proof (rule carry_out_leads[OF inv1 same(1) ext1])
      show "is_motion_task (curr_body r1)" "n_body ?nd = curr_body r1" using True same(6) by simp_all
    qed (rule p(2))
  qed
qed

lemma set_zero_axis: "is_axis (zero_offset flags pos off)"
  by (simp add: zero_offset_def is_axis_def)

lemma coord_system_change:
  assumes "leads d m pos r0 r" "state r = Running" "cs_inv cs" "safe_event m pos e"
  shows "leads d m pos r0 (record_event e (r\<lparr>coord_sys := cs\<rparr>))"
    "state (record_event e (r\<lparr>coord_sys := cs\<rparr>)) = Running" "curr_body (record_event e (r\<lparr>coord_sys := cs\<rparr>)) = curr_body r"
proof -
  have inv: "run_inv d r" using assms(1) by (simp add: leads_def)
  show "leads d m pos r0 (record_event e (r\<lparr>coord_sys := cs\<rparr>))"
    "state (record_event e (r\<lparr>coord_sys := cs\<rparr>)) = Running" "curr_body (record_event e (r\<lparr>coord_sys := cs\<rparr>)) = curr_body r"
    using assms by (auto simp: leads_def extends_record intro!: run_inv_same[OF inv])
qed

lemma run_set_zero_leads:
  assumes "leads d m pos r0 r" "state r = Running" "curr_body r = CoordSetZero flags"
  shows "\<exists>r'. run_coord_set_zero E flags r = Inr r' \<and> leads d m pos r0 r'"
proof -
  have inv: "run_inv d r" and ns: "state r \<noteq> Stopped" using assms(1,2) by (simp_all add: leads_def)
  note act = run_inv_active[OF inv ns]
  obtain off where off: "get_current_coord_offset (coord_sys r) = Some off" "is_axis off"
    using current_offset_exists[OF act(5)] by blast
  let ?new = "zero_offset flags (curr_cmd_axis_blu (local_info_cache r)) off"
  obtain ok cs where cs: "set_current_coord_offset ?new (coord_sys r) = (ok, cs)"
    by (cases "set_current_coord_offset ?new (coord_sys r)")
  have "cs_inv cs" using set_coord_offset_inv[OF act(5) set_zero_axis] cs
    by (metis set_current_coord_offset_same snd_conv)
  note ch = coord_system_change[OF assms(1,2) this, of "Emit Sig_coord_offset_changed"]
  have ok: "ok" using cs off act(5)
    by (auto simp: set_current_coord_offset_def cm_set_coord_offset_def get_current_coord_offset_def
        get_coord_offset_def split: option.splits prod.splits)
  have len: "length flags = 6" using act(4) assms(3) by simp
  show ?thesis using assms(3) off(1) cs ok len next_gcode_leads[OF ch(1), of E] ch(2,3)
    by (simp add: run_coord_set_zero_def)
qed

lemma run_non_motion_leads:
  assumes "leads d m pos r0 r" "state r = Running" "\<not> is_motion_task (curr_body r)"
    "is_axis (curr_cmd_axis_blu (local_info_cache r))"
  shows "\<exists>r'. state_running_non_motion E (curr_body r) r = Inr r' \<and> leads d m pos r0 r'"
proof -
  have inv: "run_inv d r" and ext: "extends m pos r0 r" using assms(1) by (simp_all add: leads_def)
  have ns: "state r \<noteq> Stopped" using assms(2) by simp
  note act = run_inv_active[OF inv ns]
  have ab: "leads d m pos r0 (abort E msg r)" for msg
    using inv ext by (simp add: leads_def run_inv_abort extends_stop)
  note cs_change = coord_system_change[OF assms(1,2)]
  show ?thesis
  proof (cases "curr_body r")
    case ProgramEnd
    then show ?thesis using inv ext
      by (simp add: state_running_non_motion_def leads_def run_inv_end extends_stop)
  next
    case (CoordinateIndexTask ix)
    let ?cs = "snd (set_coord_index (uint32 ix) (coord_sys r))"
    have "(record_event e r)\<lparr>coord_sys := ?cs\<rparr> = record_event e (r\<lparr>coord_sys := ?cs\<rparr>)" for e
      by (simp add: record_event_def)
    then show ?thesis using CoordinateIndexTask ab
        next_gcode_leads[OF cs_change(1)[OF set_coord_index_inv[OF act(5)]], of "Emit (Sig_switch_coordindex (uint32 ix))" "uint32 ix" E]
        cs_change(2,3)[OF set_coord_index_inv[OF act(5)], of "Emit (Sig_switch_coordindex (uint32 ix))"]
      by (simp add: state_running_non_motion_def run_coord_index_def Let_def)
  next
    case (EleparamSet ix)
    then show ?thesis using ab next_gcode_leads[OF assms(1) ns, of E]
      by (simp add: state_running_non_motion_def run_eleparam_set_def)
  next
    case (CoordSetZero flags)
    then show ?thesis using run_set_zero_leads[OF assms(1,2)] by (simp add: state_running_non_motion_def)
  qed (use assms(3) next_gcode_leads[OF assms(1) ns, of E] in \<open>simp_all add: state_running_non_motion_def\<close>)
qed

lemma leads_same:
  assumes "leads d m pos r0 r" "state r' = state r" "bodies r' = bodies r" "curr_gcode_num r' = curr_gcode_num r"
    "coord_sys r' = coord_sys r" "timer_active r' = timer_active r" "delay_pause_flag r' \<longrightarrow> state r \<noteq> Stopped"
    "extends m pos r r'"
  shows "leads d m pos r0 r'"
proof -
  have inv: "run_inv d r" "extends m pos r0 r" using assms(1) by (simp_all add: leads_def)
  then have "cs_inv (coord_sys r')" using assms(5) by (simp add: run_inv_def)
  then have "run_inv d r'" using run_inv_same[OF inv(1)] assms(2-7) by blast
  with extends_trans[OF inv(2) assms(8)] show ?thesis by (simp add: leads_def)
qed

lemma leads_stop:
  "leads d m pos r0 r \<Longrightarrow> leads d m pos r0 (abort E msg r)"
  "leads d m pos r0 r \<Longrightarrow> leads d m pos r0 (end_run E r)"
  by (simp_all add: leads_def run_inv_abort run_inv_end extends_stop)

lemma leads_switch:
  assumes "leads d m pos r0 r" "state r \<noteq> Stopped" "s \<noteq> Stopped"
    "s \<in> {WaitingForPaused, WaitingForResumed, WaitingForStopped} \<longrightarrow> is_motion_task (curr_body r)"
  shows "leads d m pos r0 (switch_to_state s r)"
  using assms by (simp add: leads_def run_inv_switch)

lemma leads_record: "leads d m pos r0 r \<Longrightarrow> safe_event m pos e \<Longrightarrow> leads d m pos r0 (record_event e r)"
  by (rule leads_same, assumption) (auto simp: leads_def run_inv_def extends_record)

lemma leads_flag:
  "leads d m pos r0 r \<Longrightarrow> b \<longrightarrow> state r \<noteq> Stopped \<Longrightarrow> leads d m pos r0 (r\<lparr>delay_pause_flag := b\<rparr>)"
  by (rule leads_same, assumption) auto

lemma leads_timer: "leads d m pos r0 r \<Longrightarrow> leads d m pos r0 (on_timer f r)"
  by (rule leads_same, assumption) (auto simp: leads_def run_inv_def)

lemma leads_drill_end: "leads d m pos r0 r \<Longrightarrow> leads d m pos r0 (drill_record_end E nd r)"
  by (rule leads_same, assumption) (auto simp: leads_def run_inv_def extends_drill)

lemmas leads_intros = leads_stop leads_switch leads_record leads_flag leads_timer leads_drill_end

lemma motion_over_leads:
  assumes "leads d m pos r0 r" "state r \<noteq> Stopped" "is_motion_task (curr_body r)"
  shows "\<exists>r'. motion_over E (curr_body r) r = Inr r' \<and> leads d m pos r0 r'"
proof -
  have ne: "curr_body r \<noteq> ProgramEnd" using assms(3) by (cases "curr_body r") auto
  have clr: "leads d m pos r0 (push_command SettingClearWarning r)" using assms(1) by (simp add: leads_record)
  show ?thesis
    using next_gcode_leads[OF assms(1,2) ne, of E] next_gcode_leads[OF clr, of E] ne assms(2) leads_stop[OF clr] leads_stop[OF assms(1)]
    by (auto simp: motion_over_def Let_def split: task_body.splits)
qed

lemma state_running_leads:
  assumes "run_inv d r" "state r = Running" "is_axis (curr_cmd_axis_blu (local_info_cache r))"
  shows "\<exists>r'. state_running E r = Inr r' \<and> leads d m pos r r'"
proof -
  have ns: "state r \<noteq> Stopped" using assms(2) by simp
  note act = run_inv_active[OF assms(1) ns]
  let ?nd = "gcode_list r ! curr_gcode_num r"
  define r1 where "r1 = wake_timer E ?nd r"
  have l0: "leads d m pos r r" using assms(1) by (simp add: leads_def)
  have l1: "leads d m pos r r1" using l0 by (auto simp: r1_def wake_timer_def leads_timer split: timer_state.splits)
  have s1: "state r1 = Running" "curr_body r1 = curr_body r" "local_info_cache r1 = local_info_cache r"
    using assms(2) act(1) by (auto simp: r1_def wake_timer_def split: timer_state.splits)
  show ?thesis
  proof (cases "is_motion_task (curr_body r)")
    case False
    then show ?thesis
      using act(1) run_non_motion_leads[OF l1 s1(1), of E] s1 assms(3)
      by (simp add: state_running_def curr_gcode_active r1_def)
  next
    case True
    define r2 where "r2 = show_sub_line ?nd r1"
    have l2: "leads d m pos r r2" using l1 by (simp add: r2_def show_sub_line_def leads_record)
    have s2: "state r2 = Running" "curr_body r2 = curr_body r" "local_info_cache r2 = local_info_cache r"
      using s1 by (auto simp: r2_def show_sub_line_def)
    obtain r3 where r3: "motion_over E (curr_body r) r2 = Inr r3" "leads d m pos r r3"
      using motion_over_leads[OF l2, of E] s2 True by auto
    have "state_running E r = poll_motion E ?nd r2"
      using True act(1) by (simp add: state_running_def curr_gcode_active r2_def r1_def Let_def)
    then show ?thesis using r3 l2 s2(1)
      by (auto simp: poll_motion_def leads_intros split: main_mode.splits auto_state.splits)
  qed
qed

lemma waiting_leads:
  assumes "run_inv d r"
  shows "state r = WaitingForPaused \<Longrightarrow> \<exists>r'. state_waiting_for_paused E r = Inr r' \<and> leads d m pos r r'"
    and "state r = WaitingForResumed \<Longrightarrow> \<exists>r'. state_waiting_for_resumed E r = Inr r' \<and> leads d m pos r r'"
    and "state r = WaitingForStopped \<Longrightarrow> \<exists>r'. state_waiting_for_stopped E r = Inr r' \<and> leads d m pos r r'"
proof -
  have l0: "leads d m pos r r" using assms by (simp add: leads_def)
  have nm: "need_motion r = Inr (gcode_list r ! curr_gcode_num r)"
    if "state r \<in> {WaitingForPaused, WaitingForResumed, WaitingForStopped}"
    using that assms run_inv_active(1)[OF assms] by (auto simp: need_motion_def curr_gcode_active run_inv_def)
  show "\<exists>r'. state_waiting_for_paused E r = Inr r' \<and> leads d m pos r r'" if "state r = WaitingForPaused"
    using that nm l0 by (auto simp: state_waiting_for_paused_def leads_intros split: main_mode.splits auto_state.splits)
  show "\<exists>r'. state_waiting_for_resumed E r = Inr r' \<and> leads d m pos r r'" if "state r = WaitingForResumed"
    using that nm l0 by (auto simp: state_waiting_for_resumed_def leads_intros split: main_mode.splits auto_state.splits)
  show "\<exists>r'. state_waiting_for_stopped E r = Inr r' \<and> leads d m pos r r'" if "state r = WaitingForStopped"
    using that nm l0 by (auto simp: state_waiting_for_stopped_def leads_intros split: main_mode.splits auto_state.splits)
qed

lemma poll_state_leads:
  assumes "run_inv d r" "gcode_list r \<noteq> []" "with_drill E = d" "is_axis (curr_cmd_axis_blu (local_info_cache r))"
  shows "\<exists>r'. poll_state E r = Inr r' \<and> leads d (cm (coord_sys r)) (curr_cmd_axis_blu (local_info_cache r)) r r'"
proof -
  have l0: "leads d m pos r r" for m pos using assms by (simp add: leads_def)
  have c: "curr_gcode r = Inr (gcode_list r ! curr_gcode_num r)"
    using assms(1,2) by (simp add: curr_gcode_def run_inv_def)
  show ?thesis
  proof (cases "state r")
    case ReadyToStart
    then show ?thesis using l0 by (simp add: poll_state_def leads_intros)
  next
    case CurrentNodeIniting
    then show ?thesis using node_initing_leads[OF assms(1) _ assms(3,4)] by (simp add: poll_state_def)
  next
    case Running
    then show ?thesis using state_running_leads[OF assms(1) _ assms(4)] by (simp add: poll_state_def)
  qed (use waiting_leads[OF assms(1)] c l0 in \<open>simp_all add: poll_state_def leads_intros\<close>)
qed

lemma pause_leads:
  assumes "run_inv d r"
  shows "\<exists>b r'. pause E r = Inr (b, r') \<and> leads d m pos r r'"
proof (cases "is_over r")
  case False
  then have ns: "state r \<noteq> Stopped" by (simp add: is_over_def)
  have l0: "leads d m pos r r" using assms by (simp add: leads_def)
  have lc: "leads d m pos r (push_command AutoPause r)" using l0 by (simp add: leads_record)
  show ?thesis using False ns l0 lc run_inv_active(1)[OF assms ns]
    by (auto simp: pause_def curr_gcode_active cmd_def leads_intros)
qed (use assms in \<open>auto simp: pause_def leads_def\<close>)

lemma resume_leads:
  assumes "run_inv d r"
  shows "\<exists>b r'. resume E r = Inr (b, r') \<and> leads d m pos r r'"
proof (cases "is_over r")
  case False
  then have ns: "state r \<noteq> Stopped" by (simp add: is_over_def)
  have l0: "leads d m pos r r" using assms by (simp add: leads_def)
  have lc: "leads d m pos r (push_command AutoResume r)" using l0 by (simp add: leads_record)
  show ?thesis using False ns l0 lc run_inv_active(1)[OF assms ns]
    by (auto simp: resume_def curr_gcode_active cmd_def leads_intros)
qed (use assms in \<open>auto simp: resume_def leads_def\<close>)

lemma stop_leads:
  assumes "run_inv d r"
  shows "\<exists>b r'. stop E r = Inr (b, r') \<and> leads d m pos r r'"
proof (cases "is_over r")
  case False
  then have ns: "state r \<noteq> Stopped" by (simp add: is_over_def)
  have l0: "leads d m pos r r" using assms by (simp add: leads_def)
  have lc: "leads d m pos r (push_command (AutoStop False) r)" using l0 by (simp add: leads_record)
  have le: "leads d m pos r (push_command ManualEmergencyStopAllMove (push_command (AutoStop False) r))"
    using lc by (simp add: leads_record)
  have mo: "state r = WaitingForPaused \<Longrightarrow> is_motion_task (curr_body r)" using assms by (simp add: run_inv_def)
  show ?thesis using False ns l0 lc le mo run_inv_active(1)[OF assms ns]
    by (auto simp: stop_def curr_gcode_active cmd_def leads_intros)
qed (use assms in \<open>auto simp: stop_def leads_def\<close>)

lemma leads_reset: "leads d m pos r0 r \<Longrightarrow> leads d m pos r0 (reset_state E r)"
  by (auto simp: leads_def extends_def run_inv_def)

lemma estop_leads: "run_inv d r \<Longrightarrow> leads d m pos r (snd (estop E r))"
  using leads_record[of d m pos r r "Push ManualEmergencyStopAllMove"]
  by (auto simp: estop_def cmd_def Let_def leads_intros leads_reset leads_def[of d m pos r r])

lemma run_once_leads:
  assumes "run_inv d r" "gcode_list r \<noteq> []" "env_ok d E"
  shows "\<exists>r'. run_once E r = Inr r' \<and> leads d (cm (coord_sys r)) (curr_cmd_axis_blu (info E)) r r'"
proof -
  let ?r = "r\<lparr>local_info_cache := info E\<rparr>" and ?m = "cm (coord_sys r)" and ?pos = "curr_cmd_axis_blu (info E)"
  have "run_inv d ?r" using assms(1) by (simp add: run_inv_def)
  then obtain r1 where r1: "poll_state E ?r = Inr r1" "leads d ?m ?pos ?r r1"
    using poll_state_leads[of d ?r E] assms(2,3) by (auto simp: env_ok_def)
  have l1: "leads d ?m ?pos r r1" using r1(2) by (simp add: leads_def extends_def)
  then obtain b r2 where r2: "pause E r1 = Inr (b, r2)" "leads d ?m ?pos r1 r2"
    using pause_leads[of d r1 E ?m ?pos] by (auto simp: leads_def)
  have "leads d ?m ?pos r r2" using l1 r2(2) extends_trans by (auto simp: leads_def)
  then show ?thesis using r1(1) l1 r2(1) by (auto simp: run_once_def leads_flag)
qed

section \<open>Reachable states\<close>

text \<open>
  Everything that happens to the runner of the application: polls, the operations of the task
  manager (a start only with tasks the converter can make), and the other users of the
  coordinate system.
\<close>

inductive run_step :: "bool \<Rightarrow> runner \<Rightarrow> runner \<Rightarrow> bool" for d where
  poll: "env_ok d E \<Longrightarrow> run_once E r = Inr r' \<Longrightarrow> run_step d r r'"
| op_start: "env_ok d E \<Longrightarrow> list_all (\<lambda>t. task_ok d (body t)) ts \<Longrightarrow>
    operation_gcode_start E ts r = Inr (b, r') \<Longrightarrow> run_step d r r'"
| op_pause: "env_ok d E \<Longrightarrow> operation_gcode_pause E r = Inr (b, r') \<Longrightarrow> run_step d r r'"
| op_resume: "env_ok d E \<Longrightarrow> operation_gcode_resume E r = Inr (b, r') \<Longrightarrow> run_step d r r'"
| op_stop: "env_ok d E \<Longrightarrow> operation_gcode_stop E r = Inr (b, r') \<Longrightarrow> run_step d r r'"
| op_estop: "env_ok d E \<Longrightarrow> run_step d r (snd (operation_emergency_stop E r))"
| op_reset: "env_ok d E \<Longrightarrow> run_step d r (reset E r)"
| op_start_pointmove: "env_ok d E \<Longrightarrow> run_step d r (snd (operation_start_pointmove E c r))"
| op_stop_pointmove: "env_ok d E \<Longrightarrow> run_step d r (snd (operation_stop_pointmove E r))"
| coords: "cs_step (coord_sys r) cs \<Longrightarrow> run_step d r (r\<lparr>coord_sys := cs\<rparr>)"

inductive run_reach :: "bool \<Rightarrow> runner \<Rightarrow> bool" for d where
  init: "cs_reach cs \<Longrightarrow> env_ok d E \<Longrightarrow> run_reach d (new_TaskManager E cs)"
| step: "run_reach d r \<Longrightarrow> run_step d r r' \<Longrightarrow> run_reach d r'"

lemma start_inv:
  assumes "run_inv d r" "list_all (task_ok d) (map n_body nodes)" "start E nodes r = Inr (b, r')"
  shows "run_inv d r'"
proof (cases "state r = Stopped")
  case True
  let ?r = "r\<lparr>gcode_list := nodes, curr_gcode_num := 0, total_elapsed := 0\<rparr>"
  have inv: "run_inv d ?r" using assms(1) True by (auto simp: run_inv_def)
  have "(\<exists>msg. r' = abort E msg ?r) \<or> nodes \<noteq> [] \<and> n_body (last nodes) = ProgramEnd
      \<and> r' = switch_to_state ReadyToStart (?r\<lparr>timer_active := True, timer_interval := 1000\<rparr>)"
    using assms(3) True
    by (auto simp: start_def is_over_def Let_def rbind_Inr_iff check_gcode_list_at_first_def split: option.splits if_splits)
  then show ?thesis using inv run_inv_abort[OF inv] assms(2) True
    by (auto simp: run_inv_def last_map)
qed (use assms in \<open>auto simp: start_def\<close>)

lemma run_inv_cmd: "run_inv d r \<Longrightarrow> run_inv d (snd (cmd E c r))"
  by (rule run_inv_same) (auto simp: cmd_def run_inv_def)

lemma run_inv_poll:
  assumes "run_inv d r" "env_ok d E" "run_once E r = Inr r'"
  shows "run_inv d r'"
proof (cases "gcode_list r = []")
  case True
  then have "state r = Stopped" using assms(1) by (auto simp: run_inv_def)
  then show ?thesis using assms(3) True by (simp add: run_once_def poll_state_def curr_gcode_def)
next
  case False
  then show ?thesis using run_once_leads[OF assms(1) _ assms(2)] assms(3) by (auto simp: leads_def)
qed

lemma run_step_inv: "run_step d r r' \<Longrightarrow> run_inv d r \<Longrightarrow> run_inv d r'"
proof (induction rule: run_step.induct)
  case (op_start E ts r b r')
  then show ?case
    using start_inv[of d r "map new_node ts" E b r'] by (simp add: operation_gcode_start_def list_all_iff new_node_def)
next
  case (op_pause E r b r')
  then show ?case using pause_leads[of d r E] by (fastforce simp: operation_gcode_pause_def leads_def)
next
  case (op_resume E r b r')
  then show ?case using resume_leads[of d r E] by (fastforce simp: operation_gcode_resume_def leads_def)
next
  case (op_stop E r b r')
  then show ?case using stop_leads[of d r E] by (fastforce simp: operation_gcode_stop_def leads_def)
next
  case (op_estop E r)
  then show ?case using estop_leads[of d r] by (simp add: operation_emergency_stop_def leads_def)
next
  case (op_reset E r)
  then show ?case by (auto simp: reset_def run_inv_def)
next
  case (coords r cs)
  then show ?case using cs_step_inv run_inv_same[of d r "r\<lparr>coord_sys := cs\<rparr>"] by (auto simp: run_inv_def)
qed (auto simp: run_inv_poll run_inv_cmd operation_start_pointmove_def operation_stop_pointmove_def)

lemma run_reach_inv: "run_reach d r \<Longrightarrow> run_inv d r"
proof (induction rule: run_reach.induct)
  case (init cs E)
  then show ?case using cs_reach_inv
    by (auto simp: new_TaskManager_def reset_def new_GCodeRunner_def reset_state_def run_inv_def)
qed (rule run_step_inv)

section \<open>A machine to run on\<close>

text \<open>The default coordinates with soft limits of a metre on every axis, at rest at the origin.\<close>

definition demo_manager :: coord_manager where
  "demo_manager = default_manager\<lparr>soft_limits :=
     \<lparr>sl_pos = replicate EDM_AXIS_NUM 1000000, sl_neg = replicate EDM_AXIS_NUM (- 1000000)\<rparr>\<rparr>"

definition demo_system :: coord_system where
  "demo_system = projr (new_CoordinateSystem (\<lambda>xs. xs) False (Some demo_manager))"

definition demo_settings :: settings where
  "demo_settings = \<lparr>fmparam_nacc_ms = 100, fmparam_max_acc_um_s2 = 1000, motion_cycle_us = 1000, auto_record_data = False\<rparr>"

definition demo_env :: env where
  "demo_env =
     \<lparr>now = 0,
      info = \<lparr>curr_cmd_axis_blu = axis_init 0, sub_line_number = 0, main_mode = MM_Idle, auto_state = AutoStopped,
        TouchWarning = False\<rparr>,
      accepts = (\<lambda>_. True), exist_eleparam_index = (\<lambda>_. True), set_current_eleparam_index = (\<lambda>_. True),
      setts = demo_settings, with_drill = False\<rparr>"

definition demo_runner :: runner where
  "demo_runner = new_TaskManager demo_env demo_system"

definition demo_tasks :: "task list" where
  "demo_tasks =
     [new_task (G00Motion False False 100 55 AbsoluteMode [None, None, Some (Dec 5 0), None, None, None]) 4,
      new_task ProgramEnd 5]"

text \<open>The runner after the start, at its first task, and at the next.\<close>

definition demo_started :: runner where
  "demo_started = snd (projr (operation_gcode_start demo_env demo_tasks demo_runner))"

lemma demo_manager_ok: "cm_ok demo_manager"
  using default_manager_ok
  by (simp add: cm_ok_def demo_manager_def limits_ok_def is_axis_def EDM_AXIS_NUM_def)

lemma demo_system_eq: "new_CoordinateSystem (\<lambda>xs. xs) False (Some demo_manager) = Inr demo_system" "cm demo_system = demo_manager"
proof -
  have "\<exists>cs. new_CoordinateSystem (\<lambda>xs. xs) False (Some demo_manager) = Inr cs \<and> cm cs = demo_manager"
    by (simp add: new_CoordinateSystem_def init_coordinate_manager_def get_avaiable_coord_indexes_def demo_manager_def
        default_manager_def upto_rec_numeral)
  then show "new_CoordinateSystem (\<lambda>xs. xs) False (Some demo_manager) = Inr demo_system" "cm demo_system = demo_manager"
    by (auto simp: demo_system_def)
qed

lemma demo_env_ok: "env_ok False demo_env"
  by (simp add: env_ok_def demo_env_def)

lemma demo_runner_reach: "run_reach False demo_runner"
  unfolding demo_runner_def using demo_env_ok
  by (intro run_reach.init made [OF reorders_id demo_system_eq(1)]) (auto simp: demo_manager_ok)

lemma demo_runner_fields: "state demo_runner = Stopped" "coord_sys demo_runner = demo_system" "\<not> delay_pause_flag demo_runner"
  "trace demo_runner = []"
  by (simp_all add: demo_runner_def new_TaskManager_def reset_def new_GCodeRunner_def reset_state_def)

lemma demo_started:
  "operation_gcode_start demo_env demo_tasks demo_runner = Inr (True, demo_started)"
  "state demo_started = ReadyToStart" "bodies demo_started = map body demo_tasks" "curr_gcode_num demo_started = 0"
  "\<not> delay_pause_flag demo_started" "cm (coord_sys demo_started) = demo_manager"
  using demo_runner_fields demo_system_eq(2)
  by (simp_all add: demo_started_def operation_gcode_start_def start_def is_over_def check_gcode_list_at_first_def
      demo_tasks_def new_task_def new_node_def Let_def)

lemma demo_started_reach: "run_reach False demo_started"
proof -
  have "list_all (\<lambda>t. task_ok False (body t)) demo_tasks" by (simp add: demo_tasks_def new_task_def six_finite_def)
  then show ?thesis using run_step.op_start [OF demo_env_ok _ demo_started(1)] demo_runner_reach run_reach.step by blast
qed



text \<open>C5: The soft limits hold for every move the runner sends: a rapid (a touch motion included) or a
  cutting move starts at the position the motion thread reported, and if that position is
  inside the soft limits, so is every point of the straight line to its target; the legs of a
  group each keep to the limits in the directions they move, up to the rounding of the
  increments the code applies.\<close>

theorem moves_within_soft_limits:
  assumes "run_reach d r" and "env_ok d E" and "run_once E r = Inr r'"
    and "Push c \<in> set (drop (length (trace r)) (trace r'))"
    and "m = cm (coord_sys r)" and "pos = curr_cmd_axis_blu (info E)"
  shows "(\<forall>s t. straight_move c = Some (s, t) \<longrightarrow>
            s = pos \<and> (in_limits (soft_limits m) (motor_to_machine m s) \<longrightarrow>
              (\<forall>u. 0 \<le> u \<and> u \<le> 1 \<longrightarrow>
                 in_limits (soft_limits m) (on_the_way (motor_to_machine m s) (motor_to_machine m t) u))))
       \<and> (\<forall>items. c = AutoG01Group items \<longrightarrow> (\<exists>ws. group_safe (soft_limits m) (motor_to_machine m pos) items ws))"
proof -
  note inv = run_reach_inv[OF assms(1)]
  have cm: "cm_ok m" using inv assms(5) cs_inv_cm by (simp add: run_inv_def)
  have pos: "is_axis pos" using assms(2,6) by (simp add: env_ok_def)
  have ne: "gcode_list r \<noteq> []"
  proof
    assume "gcode_list r = []"
    then have "state r = Stopped" using inv by (auto simp: run_inv_def)
    then show False using assms(3) \<open>gcode_list r = []\<close> by (simp add: run_once_def poll_state_def curr_gcode_def)
  qed
  have "extends m pos r r'" using run_once_leads[OF inv ne assms(2)] assms(3,5,6) by (auto simp: leads_def)
  then have safe: "cmd_safe m pos c" using assms(4) by (force simp: extends_def list_all_iff)
  have line: "in_limits (soft_limits m) (on_the_way (motor_to_machine m pos) (motor_to_machine m t) u)"
    if "is_axis t" "within_limits (soft_limits m) (motor_to_machine m pos) (motor_to_machine m t)"
      "in_limits (soft_limits m) (motor_to_machine m pos)" "0 \<le> u" "u \<le> 1" for t u
    using that cm pos by (intro in_limits_on_the_way) simp_all
  show ?thesis using safe line cmd_safe_straight[OF safe] by auto
qed

end
