(* ===== verification/Gcode_Runner_Live.thy ===== *)
theory Gcode_Runner_Live
  imports Gcode_Runner_Correct
begin

text \<open>
  How a run of the G-code runner ends, and that it does: each poll of a running program either
  closes the run, moves on, or waits for the motion thread.
\<close>

section \<open>The ways a poll can go\<close>

text \<open>The same point of the program, with more events.\<close>

definition same_point :: "runner \<Rightarrow> runner \<Rightarrow> bool" where
  "same_point r r1 \<longleftrightarrow> state r1 = state r \<and> bodies r1 = bodies r \<and> curr_gcode_num r1 = curr_gcode_num r
     \<and> delay_pause_flag r1 = delay_pause_flag r \<and> local_info_cache r1 = local_info_cache r
     \<and> cs_inv (coord_sys r1) \<and> timer_active r1 = timer_active r \<and> (\<exists>evs. trace r1 = trace r @ evs)"

text \<open>The run is over: by an abort, or normally at the end of the program or after a stop.\<close>

definition closes :: "env \<Rightarrow> runner \<Rightarrow> runner \<Rightarrow> bool" where
  "closes E r r' \<longleftrightarrow> (\<exists>r1. (\<exists>evs. trace r1 = trace r @ evs) \<and> bodies r1 = bodies r \<and>
     ((\<exists>msg. r' = abort E msg r1)
      \<or> r' = end_run E r1 \<and> (curr_body r = ProgramEnd \<or> state r = WaitingForStopped)))"

lemma closes_stopped: "closes E r r' \<Longrightarrow> state r' = Stopped \<and> bodies r' = bodies r"
  by (auto simp: closes_def)

lemma same_point_inv:
  assumes "run_inv d r" "same_point r r1"
  shows "run_inv d r1"
  using assms(2) by (intro run_inv_same[OF assms(1)]) (use assms in \<open>auto simp: same_point_def run_inv_def\<close>)

lemma same_point_body:
  assumes "same_point r r1" "curr_gcode_num r < length (gcode_list r)"
  shows "curr_body r1 = curr_body r" "curr_gcode_num r1 < length (gcode_list r1)"
proof -
  have l: "length (gcode_list r1) = length (gcode_list r)" using assms(1) by (metis same_point_def length_map)
  then show "curr_gcode_num r1 < length (gcode_list r1)" using assms by (simp add: same_point_def)
  then have "bodies r1 ! curr_gcode_num r1 = curr_body r1" by simp
  moreover have "bodies r ! curr_gcode_num r = curr_body r" using assms(2) by simp
  ultimately show "curr_body r1 = curr_body r" using assms(1) by (simp add: same_point_def)
qed

lemma same_point_refl: "run_inv d r \<Longrightarrow> same_point r r"
  by (simp add: same_point_def run_inv_def)

lemma same_point_record: "same_point r r1 \<Longrightarrow> same_point r (record_event e r1)"
  by (auto simp: same_point_def)

lemma same_point_timer: "same_point r r1 \<Longrightarrow> same_point r (on_timer f r1)"
  by (auto simp: same_point_def)

lemma same_point_coords: "same_point r r1 \<Longrightarrow> cs_inv cs \<Longrightarrow> same_point r (r1\<lparr>coord_sys := cs\<rparr>)"
  by (auto simp: same_point_def)

lemmas same_point_intros = same_point_record same_point_timer same_point_coords

lemma closes_abort: "same_point r r1 \<Longrightarrow> closes E r (abort E msg r1)"
  by (auto simp: closes_def same_point_def)

lemma closes_end:
  "same_point r r1 \<Longrightarrow> curr_body r = ProgramEnd \<or> state r = WaitingForStopped \<Longrightarrow> closes E r (end_run E r1)"
  unfolding closes_def by (rule exI[of _ r1]) (auto simp: same_point_def)

text \<open>The run moves on: the next task, or a task that now runs.\<close>

definition moves_on :: "runner \<Rightarrow> runner \<Rightarrow> bool" where
  "moves_on r r' \<longleftrightarrow> state r' = CurrentNodeIniting \<and> curr_gcode_num r' = Suc (curr_gcode_num r)
     \<and> bodies r' = bodies r \<and> delay_pause_flag r' = delay_pause_flag r \<and> curr_body r \<noteq> ProgramEnd"

definition same_but_state :: "runner \<Rightarrow> runner \<Rightarrow> bool" where
  "same_but_state r r' \<longleftrightarrow> curr_gcode_num r' = curr_gcode_num r \<and> bodies r' = bodies r
     \<and> delay_pause_flag r' = delay_pause_flag r"

lemma next_moves_on:
  assumes "run_inv d r" "state r \<noteq> Stopped" "same_point r r1" "curr_body r \<noteq> ProgramEnd"
    "check_to_next_gcode E r1 = Inr r'"
  shows "moves_on r r'"
proof -
  note sb = same_point_body[OF assms(3) run_inv_active(1)[OF assms(1,2)]]
  have "state r1 \<noteq> Stopped" "curr_body r1 \<noteq> ProgramEnd" using assms(2,3,4) sb by (simp_all add: same_point_def)
  from next_gcode[OF same_point_inv[OF assms(1,3)] this, of E] obtain r2 where r2:
    "check_to_next_gcode E r1 = Inr r2" "state r2 = CurrentNodeIniting" "curr_gcode_num r2 = Suc (curr_gcode_num r1)"
    "bodies r2 = bodies r1" "delay_pause_flag r2 = delay_pause_flag r1" by metis
  then show ?thesis using assms(3,4,5) by (simp add: moves_on_def same_point_def)
qed

lemma motion_not_end: "is_motion_task b \<Longrightarrow> b \<noteq> ProgramEnd"
  by auto

lemma node_initing_cases:
  assumes "run_inv d r" "state r = CurrentNodeIniting" "state_current_node_initing E r = Inr r'"
  shows "closes E r r' \<or> moves_on r r' \<or> state r' = Running \<and> same_but_state r r'"
proof -
  have ns: "state r \<noteq> Stopped" using assms(2) by simp
  note act = run_inv_active[OF assms(1) ns]
  let ?nd = "gcode_list r ! curr_gcode_num r"
  let ?r1 = "announce_node E ?nd r"
  have sp: "same_point r ?r1" using same_point_refl[OF assms(1)] by (simp add: announce_node_def same_point_intros)
  show ?thesis
  proof (cases "is_motion_task (curr_body r)")
    case False
    then have "r' = switch_to_state Running ?r1"
      using assms(3) act(1) by (simp add: state_current_node_initing_def curr_gcode_active)
    then show ?thesis using sp by (simp add: same_point_def same_but_state_def)
  next
    case True
    obtain p where p: "carry_out E ?nd ?r1 p = Inr r'"
      using assms(3) act(1) True by (auto simp: state_current_node_initing_def curr_gcode_active rbind_Inr_iff Let_def)
    show ?thesis
    proof (cases p)
      case (Aborts msg)
      then show ?thesis using p closes_abort[OF sp] by (auto simp: carry_out_def)
    next
      case Skips
      then show ?thesis using p next_moves_on[OF assms(1) ns sp motion_not_end[OF True]] by (simp add: carry_out_def)
    next
      case (Sends c msg)
      have sp2: "same_point r (push_command c ?r1)" using sp by (rule same_point_record)
      show ?thesis using p Sends closes_abort[OF sp2] sp2
        by (auto simp: carry_out_def Let_def same_point_def same_but_state_def split: if_splits)
    qed
  qed
qed

lemma non_motion_cases:
  assumes "run_inv d r" "state r = Running" "\<not> is_motion_task (curr_body r)" "same_point r r1"
    "state_running_non_motion E (curr_body r) r1 = Inr r'"
  shows "closes E r r' \<or> moves_on r r'"
proof -
  have ns: "state r \<noteq> Stopped" using assms(2) by simp
  note act = run_inv_active[OF assms(1) ns] and nm = next_moves_on[OF assms(1) ns]
  have cs: "cs_inv (coord_sys r1)" using assms(4) by (simp add: same_point_def)
  show ?thesis
  proof (cases "curr_body r")
    case ProgramEnd
    then show ?thesis using assms(5) closes_end[OF assms(4)] by (auto simp: state_running_non_motion_def)
  next
    case (CoordinateIndexTask ix)
    let ?r2 = "(emit (Sig_switch_coordindex (uint32 ix)) r1)\<lparr>coord_sys := snd (set_coord_index (uint32 ix) (coord_sys r1))\<rparr>"
    have "same_point r ?r2" using assms(4) cs by (intro same_point_intros set_coord_index_inv) auto
    then show ?thesis using CoordinateIndexTask assms(5) closes_abort[OF assms(4)] nm[of ?r2 E r']
      by (auto simp: state_running_non_motion_def run_coord_index_def Let_def split: if_splits)
  next
    case (EleparamSet ix)
    then show ?thesis using assms(5) closes_abort[OF assms(4)] nm[OF assms(4), of E r']
      by (auto simp: state_running_non_motion_def run_eleparam_set_def split: if_splits)
  next
    case (CoordSetZero flags)
    obtain off where off: "get_current_coord_offset (coord_sys r1) = Some off"
      using current_offset_exists[OF cs] by blast
    let ?new = "zero_offset flags (curr_cmd_axis_blu (local_info_cache r1)) off"
    let ?cs = "snd (set_current_coord_offset ?new (coord_sys r1))"
    have "cs_inv ?cs" using set_coord_offset_inv[OF cs set_zero_axis] by (simp add: set_current_coord_offset_same)
    then have sp: "same_point r (r1\<lparr>coord_sys := ?cs\<rparr>)" using assms(4) by (rule same_point_coords[rotated])
    show ?thesis using CoordSetZero assms(5) off closes_abort[OF sp] nm[OF same_point_record[OF sp]]
      by (auto simp: state_running_non_motion_def run_coord_set_zero_def Let_def split: if_splits prod.splits)
  qed (use assms nm[OF assms(4), of E r'] in \<open>auto simp: state_running_non_motion_def\<close>)
qed

text \<open>Where the motion thread is idle the task is over; where it moves, the runner waits.\<close>

lemma motion_over_cases:
  assumes "run_inv d r" "state r \<noteq> Stopped" "is_motion_task (curr_body r)" "same_point r r1"
    "motion_over E (curr_body r) r1 = Inr r'"
  shows "closes E r r' \<or> moves_on r r'"
proof -
  note nm = next_moves_on[OF assms(1,2) _ motion_not_end[OF assms(3)]]
  have sp: "same_point r (push_command SettingClearWarning r1)" using assms(4) by (rule same_point_record)
  show ?thesis
    using assms(5) nm[OF assms(4), of E r'] nm[OF sp, of E r'] closes_abort[OF sp] closes_abort[OF assms(4)]
    by (auto simp: motion_over_def Let_def split: task_body.splits if_splits)
qed

definition paused_by_motion :: "motion_info \<Rightarrow> bool" where
  "paused_by_motion i \<longleftrightarrow> main_mode i = MM_Auto \<and> auto_state i = AutoPaused"

lemma state_running_cases:
  assumes "run_inv d r" "state r = Running" "state_running E r = Inr r'"
  shows "closes E r r' \<or> moves_on r r'
    \<or> state r' = Running \<and> same_but_state r r' \<and> main_mode (local_info_cache r) = MM_Auto
    \<or> state r' = Paused \<and> paused_by_motion (local_info_cache r)"
proof -
  have ns: "state r \<noteq> Stopped" using assms(2) by simp
  note act = run_inv_active[OF assms(1) ns]
  let ?nd = "gcode_list r ! curr_gcode_num r"
  let ?r1 = "wake_timer E ?nd r"
  have sp: "same_point r ?r1" using same_point_refl[OF assms(1)]
    by (auto simp: wake_timer_def same_point_intros split: timer_state.splits)
  show ?thesis
  proof (cases "is_motion_task (curr_body r)")
    case False
    then have "state_running_non_motion E (curr_body r) ?r1 = Inr r'"
      using assms(3) act(1) by (simp add: state_running_def curr_gcode_active)
    from non_motion_cases[OF assms(1,2) False sp this] show ?thesis by blast
  next
    case True
    let ?r2 = "show_sub_line ?nd ?r1"
    have sp2: "same_point r ?r2" using sp by (simp add: show_sub_line_def same_point_intros)
    have "poll_motion E ?nd ?r2 = Inr r'"
      using assms(3) act(1) True by (simp add: state_running_def curr_gcode_active Let_def)
    moreover have "local_info_cache ?r2 = local_info_cache r" using sp2 by (simp add: same_point_def)
    ultimately show ?thesis
      using sp2 motion_over_cases[OF assms(1) ns True sp2, of E r'] closes_abort[OF sp2] assms(2)
      by (auto simp: poll_motion_def paused_by_motion_def same_point_def same_but_state_def
          split: main_mode.splits auto_state.splits)
  qed
qed

lemma waiting_cases:
  assumes "run_inv d r" "state r \<in> {WaitingForPaused, WaitingForResumed, WaitingForStopped}" "poll_state E r = Inr r'"
  shows "closes E r r' \<or> state r' \<noteq> Stopped"
proof -
  have sp: "same_point r r" using same_point_refl[OF assms(1)] .
  have sd: "same_point r (drill_record_end E nd r)" for nd
    using sp by (simp add: drill_record_end_def drill_record_data_def same_point_intros)
  show ?thesis using assms(2,3) closes_abort[OF sp] closes_end[OF sd]
    by (cases "main_mode (local_info_cache r)"; cases "auto_state (local_info_cache r)")
      (auto simp: poll_state_def state_waiting_for_paused_def state_waiting_for_resumed_def
        state_waiting_for_stopped_def rbind_Inr_iff)
qed

lemma poll_closes:
  assumes "run_inv d r" "state r \<noteq> Stopped" "poll_state E r = Inr r'" "state r' = Stopped"
  shows "closes E r r'"
proof (cases "state r")
  case CurrentNodeIniting
  then show ?thesis using node_initing_cases[OF assms(1), of E r'] assms(3,4) by (auto simp: poll_state_def moves_on_def)
next
  case Running
  then show ?thesis using state_running_cases[OF assms(1), of E r'] assms(3,4) by (auto simp: poll_state_def moves_on_def)
next
  case Paused
  then show ?thesis using assms(3,4) by (auto simp: poll_state_def rbind_Inr_iff split: if_splits)
qed (use waiting_cases[OF assms(1) _ assms(3)] assms in \<open>auto simp: poll_state_def\<close>)

section \<open>How a run ends\<close>

lemma pause_running: "pause E r = Inr (b, r') \<Longrightarrow> state r \<noteq> Stopped \<Longrightarrow> state r' \<noteq> Stopped"
  by (auto simp: pause_def is_over_def cmd_def rbind_Inr_iff split: if_splits prod.splits)

lemma run_once_closes:
  assumes "run_inv d r" "state r \<noteq> Stopped" "run_once E r = Inr r'" "state r' = Stopped"
  shows "closes E (r\<lparr>local_info_cache := info E\<rparr>) r'"
proof -
  let ?r = "r\<lparr>local_info_cache := info E\<rparr>"
  have inv: "run_inv d ?r" using assms(1) by (simp add: run_inv_def)
  obtain r1 where r1: "poll_state E ?r = Inr r1" using assms(3) by (auto simp: run_once_def rbind_Inr_iff)
  have "state r1 = Stopped"
  proof (rule ccontr)
    assume "state r1 \<noteq> Stopped"
    then show False using assms(3,4) r1 pause_running[of E r1]
      by (auto simp: run_once_def rbind_Inr_iff split: if_splits)
  qed
  then have c: "closes E ?r r1" using poll_closes[OF inv _ r1] assms(2) by simp
  then have "\<not> delay_pause_flag r1" by (auto simp: closes_def)
  then show ?thesis using assms(3) r1 c by (simp add: run_once_def)
qed

text \<open>C21: A running program never stops silently: when a poll takes the runner to \<open>Stopped\<close>, then
  either it aborted, having pushed the emergency stop of all moves and signalled an error, or
  it signalled the normal end and cleared the error text, which only happens at the task of
  \<open>m02\<close> or after the user stopped the program.\<close>

theorem run_ends_accounted_for:
  assumes "run_reach d r" and "state r \<noteq> Stopped" and "run_once E r = Inr r'" and "state r' = Stopped"
  shows "(\<exists>evs. trace r' = trace r @ evs @ [Push ManualEmergencyStopAllMove, Emit (Sig_auto_stopped True)])
       \<or> (\<exists>evs. trace r' = trace r @ evs @ [Emit (Sig_auto_stopped False)]) \<and> last_error_str r' = []
          \<and> (curr_body r = ProgramEnd \<or> state r = WaitingForStopped)"
  using run_once_closes[OF run_reach_inv[OF assms(1)] assms(2-4)] by (auto simp: closes_def)

section \<open>A run comes to its end\<close>

definition left_to_do :: "runner \<Rightarrow> nat" where
  "left_to_do r =
     (let n = length (gcode_list r) - curr_gcode_num r
      in case state r of ReadyToStart \<Rightarrow> 2 * n + 1 | CurrentNodeIniting \<Rightarrow> 2 * n | Running \<Rightarrow> 2 * n - 1 | _ \<Rightarrow> 0)"

definition under_way :: "runner \<Rightarrow> bool" where
  "under_way r \<longleftrightarrow> state r \<in> {ReadyToStart, CurrentNodeIniting, Running} \<and> \<not> delay_pause_flag r"

lemma under_way_run_once:
  assumes "poll_state E (r\<lparr>local_info_cache := info E\<rparr>) = Inr r'" "\<not> delay_pause_flag r'"
  shows "run_once E r = Inr r'"
  using assms by (simp add: run_once_def)

lemma same_but_state_len: "same_but_state r r' \<Longrightarrow> length (gcode_list r') = length (gcode_list r)"
  by (metis same_but_state_def length_map)

lemma moves_on_len: "moves_on r r' \<Longrightarrow> length (gcode_list r') = length (gcode_list r)"
  by (metis moves_on_def length_map)

lemma poll_progress:
  assumes "run_inv d r" "under_way r" "env_ok d E" "\<not> paused_by_motion (info E)"
  shows "\<exists>r'. run_once E r = Inr r' \<and> run_inv d r' \<and> bodies r' = bodies r \<and>
    (state r' = Stopped \<or> under_way r'
       \<and> (left_to_do r' < left_to_do r \<or> left_to_do r' \<le> left_to_do r \<and> main_mode (info E) \<noteq> MM_Idle))"
proof -
  let ?r = "r\<lparr>local_info_cache := info E\<rparr>"
  have ns: "state r \<noteq> Stopped" using assms(2) by (auto simp: under_way_def)
  have inv: "run_inv d ?r" using assms(1) by (simp add: run_inv_def)
  have rng: "curr_gcode_num r < length (gcode_list r)" using run_inv_active(1)[OF assms(1) ns] .
  have ne: "gcode_list r \<noteq> []" using rng by auto
  obtain r' where r': "run_once E r = Inr r'" "run_inv d r'"
    using run_once_leads[OF assms(1) ne assms(3)] by (auto simp: leads_def)
  obtain r1 where r1: "poll_state E ?r = Inr r1" using r'(1) by (auto simp: run_once_def rbind_Inr_iff)
  have fl: "\<not> delay_pause_flag ?r" using assms(2) by (simp add: under_way_def)
  have cases: "closes E ?r r1 \<or> moves_on ?r r1 \<and> state r \<noteq> ReadyToStart
     \<or> state r = CurrentNodeIniting \<and> state r1 = Running \<and> same_but_state ?r r1
     \<or> state r = ReadyToStart \<and> state r1 = CurrentNodeIniting \<and> same_but_state ?r r1
     \<or> state r = Running \<and> state r1 = Running \<and> same_but_state ?r r1 \<and> main_mode (info E) = MM_Auto"
  proof (cases "state r")
    case ReadyToStart
    then show ?thesis using r1 by (auto simp: poll_state_def same_but_state_def)
  next
    case CurrentNodeIniting
    then show ?thesis using node_initing_cases[OF inv, of E r1] r1 by (auto simp: poll_state_def)
  next
    case Running
    then show ?thesis using state_running_cases[OF inv, of E r1] r1 assms(4) by (auto simp: poll_state_def)
  qed (use assms(2) in \<open>auto simp: under_way_def\<close>)
  have "\<not> delay_pause_flag r1"
    using cases fl by (auto simp: closes_def moves_on_def same_but_state_def)
  then have eq: "r' = r1" using under_way_run_once[OF r1] r'(1) by simp
  have "bodies r1 = bodies r" using cases by (auto simp: moves_on_def same_but_state_def dest: closes_stopped)
  moreover have "state r1 = Stopped \<or> under_way r1
      \<and> (left_to_do r1 < left_to_do r \<or> left_to_do r1 \<le> left_to_do r \<and> main_mode (info E) \<noteq> MM_Idle)"
    using cases
  proof (elim disjE conjE)
    assume "closes E ?r r1"
    then show ?thesis by (simp add: closes_stopped)
  next
    assume m: "moves_on ?r r1" "state r \<noteq> ReadyToStart"
    then have "state r = CurrentNodeIniting \<or> state r = Running" using assms(2) by (auto simp: under_way_def)
    then show ?thesis using m(1) moves_on_len[OF m(1)] fl rng
      by (auto simp: moves_on_def under_way_def left_to_do_def Let_def)
  qed (use fl rng same_but_state_len[of ?r r1] in \<open>auto simp: same_but_state_def under_way_def left_to_do_def Let_def\<close>)
  ultimately show ?thesis using r' eq by blast
qed

lemma stopped_run_once:
  assumes "run_inv d r" "state r = Stopped" "gcode_list r \<noteq> []"
  shows "\<exists>r'. run_once E r = Inr r' \<and> run_inv d r' \<and> state r' = Stopped \<and> gcode_list r' \<noteq> []
    \<and> last_error_str r' = last_error_str r \<and> trace r' = trace r"
proof -
  have c: "curr_gcode_num r < length (gcode_list r)" "\<not> delay_pause_flag r" using assms by (auto simp: run_inv_def)
  let ?r = "r\<lparr>local_info_cache := info E\<rparr>"
  let ?r1 = "if t_state (n_timer (gcode_list r ! curr_gcode_num r)) \<noteq> TimerStopped
     then on_timer (timer_stop (now E)) ?r else ?r"
  have "run_once E r = Inr ?r1"
    using c assms(2) by (simp add: run_once_def poll_state_def curr_gcode_def)
  moreover have "run_inv d ?r1" using assms(1,2) by (auto intro!: run_inv_same[OF assms(1)] simp: run_inv_def)
  ultimately show ?thesis using assms(2,3) by auto
qed

fun polls :: "env list \<Rightarrow> runner \<Rightarrow> (fault, runner) result" where
  "polls [] r = Inr r"
| "polls (E # Es) r = rbind (run_once E r) (polls Es)"

lemma polls_stopped:
  assumes "run_inv d r" "state r = Stopped" "gcode_list r \<noteq> []"
  shows "\<exists>r'. polls Es r = Inr r' \<and> state r' = Stopped \<and> last_error_str r' = last_error_str r \<and> trace r' = trace r"
  using assms
proof (induction Es arbitrary: r)
  case (Cons E Es)
  then show ?case using stopped_run_once[OF Cons.prems, of E] by fastforce
qed simp

definition idle_polls :: "env list \<Rightarrow> nat" where
  "idle_polls Es = length (filter (\<lambda>E. main_mode (info E) = MM_Idle) Es)"

lemma polls_end:
  assumes "run_inv d r" "under_way r" "list_all (\<lambda>E. env_ok d E \<and> \<not> paused_by_motion (info E)) Es"
    "left_to_do r \<le> idle_polls Es"
  shows "\<exists>r'. polls Es r = Inr r' \<and> state r' = Stopped"
  using assms
proof (induction Es arbitrary: r)
  case Nil
  then have "curr_gcode_num r < length (gcode_list r)" using run_inv_active(1) by (auto simp: under_way_def)
  then show ?case using Nil by (auto simp: idle_polls_def under_way_def left_to_do_def Let_def)
next
  case (Cons E Es)
  obtain r1 where r1: "run_once E r = Inr r1" "run_inv d r1" "bodies r1 = bodies r"
    "state r1 = Stopped \<or> under_way r1
       \<and> (left_to_do r1 < left_to_do r \<or> left_to_do r1 \<le> left_to_do r \<and> main_mode (info E) \<noteq> MM_Idle)"
    using poll_progress[OF Cons.prems(1,2), of E] Cons.prems(3) by auto
  have "curr_gcode_num r < length (gcode_list r)"
    using run_inv_active(1)[OF Cons.prems(1)] Cons.prems(2) by (auto simp: under_way_def)
  then have ne: "gcode_list r1 \<noteq> []" using r1(3) by auto
  show ?case
  proof (cases "state r1 = Stopped")
    case True
    then show ?thesis using polls_stopped[OF r1(2) True ne, of Es] r1(1) by auto
  next
    case False
    then have "under_way r1" "left_to_do r1 \<le> idle_polls Es" using r1(4) Cons.prems(4)
      by (auto simp: idle_polls_def split: if_splits)
    then show ?thesis using Cons.IH[OF r1(2)] Cons.prems(3) r1(1) by auto
  qed
qed

text \<open>C17: A program that was started comes to a stop by itself. Whatever the motion thread does, as long
  as it does not report a pause (nobody pauses the program): after any sequence of polls in
  which it was idle at least \<open>2 n + 1\<close> times, for a program of \<open>n\<close> tasks, the runner is in the
  state \<open>Stopped\<close>, with no operation failing on the way.\<close>

theorem run_terminates:
  assumes "run_reach d r" and "env_ok d E" and "list_all (\<lambda>t. task_ok d (body t)) ts"
    and "operation_gcode_start E ts r = Inr (True, r1)"
    and "list_all (\<lambda>E. env_ok d E \<and> \<not> paused_by_motion (info E)) Es"
    and "2 * length ts + 1 \<le> idle_polls Es"
  shows "\<exists>r'. polls Es r1 = Inr r' \<and> state r' = Stopped"
proof -
  have "run_reach d r1" using run_step.op_start [OF assms(2-4)] assms(1) run_reach.step by blast
  then have inv: "run_inv d r1" by (rule run_reach_inv)
  have st: "state r1 = ReadyToStart" "curr_gcode_num r1 = 0" "length (gcode_list r1) = length ts" "state r = Stopped"
    "delay_pause_flag r1 = delay_pause_flag r"
    using assms(4) by (auto simp: operation_gcode_start_def start_def is_over_def rbind_Inr_iff Let_def
        check_gcode_list_at_first_def split: if_splits option.splits)
  have "\<not> delay_pause_flag r1" using run_reach_inv [OF assms(1)] st(4,5) by (simp add: run_inv_def)
  then have "under_way r1" "left_to_do r1 = 2 * length ts + 1"
    using st by (simp_all add: under_way_def left_to_do_def)
  then show ?thesis using polls_end [OF inv _ assms(5)] assms(6) by simp
qed

theorem run_terminates_witness:
  "\<exists>r'. polls (replicate 5 demo_env) demo_started = Inr r' \<and> state r' = Stopped"
proof -
  have "list_all (\<lambda>t. task_ok False (body t)) demo_tasks" by (simp add: demo_tasks_def new_task_def six_finite_def)
  moreover have "list_all (\<lambda>E. env_ok False E \<and> \<not> paused_by_motion (info E)) (replicate 5 demo_env)"
    using demo_env_ok by (simp add: list_all_iff paused_by_motion_def demo_env_def)
  moreover have "2 * length demo_tasks + 1 \<le> idle_polls (replicate 5 demo_env)"
    by (simp add: demo_tasks_def idle_polls_def demo_env_def)
  ultimately show ?thesis
    using run_terminates [OF demo_runner_reach demo_env_ok _ demo_started(1)] by blast
qed

section \<open>Waiting for the motion thread\<close>

text \<open>
  \<open>TaskHelper::WaitforCmdTobeAccepted\<close>: the loop on the answer and the clock, as they are at each
  turn (in milliseconds, the first turn at \<open>0\<close>); a negative time limit waits for ever. No value
  means that the loop does not end.
\<close>

datatype cmd_state = CmdWaiting | CmdAccepted | CmdIgnored

partial_function (option) wait_loop :: "(nat \<Rightarrow> cmd_state \<times> int) \<Rightarrow> int \<Rightarrow> int \<Rightarrow> nat \<Rightarrow> bool option" where
  "wait_loop obs start_t timeout k =
     (if fst (obs k) \<noteq> CmdWaiting then Some (fst (obs k) = CmdAccepted)
      else if timeout \<ge> 0 \<and> snd (obs k) - start_t > timeout then Some (fst (obs k) = CmdAccepted)
      else wait_loop obs start_t timeout (Suc k))"

definition WaitforCmdTobeAccepted :: "(nat \<Rightarrow> cmd_state \<times> int) \<Rightarrow> int \<Rightarrow> bool option" where
  "WaitforCmdTobeAccepted obs timeout = wait_loop obs (snd (obs 0)) timeout 0"

text \<open>The turn at which the loop leaves.\<close>

definition leaves_at :: "(nat \<Rightarrow> cmd_state \<times> int) \<Rightarrow> int \<Rightarrow> nat \<Rightarrow> bool" where
  "leaves_at obs timeout k \<longleftrightarrow>
     fst (obs k) \<noteq> CmdWaiting \<or> timeout \<ge> 0 \<and> snd (obs k) - snd (obs 0) > timeout"

lemma wait_loop_leaves:
  assumes "leaves_at obs timeout (k + j)" "\<forall>i<j. \<not> leaves_at obs timeout (k + i)"
  shows "wait_loop obs (snd (obs 0)) timeout k = Some (fst (obs (k + j)) = CmdAccepted)"
  using assms
proof (induction j arbitrary: k)
  case 0
  then show ?case by (subst wait_loop.simps) (auto simp: leaves_at_def)
next
  case (Suc j)
  have "\<not> leaves_at obs timeout k" using Suc.prems(2) [rule_format, of 0] by simp
  moreover have "\<forall>i<j. \<not> leaves_at obs timeout (Suc k + i)" using Suc.prems(2) by (auto dest: spec [of _ "Suc _"])
  ultimately show ?case using Suc.IH [of "Suc k"] Suc.prems(1)
    by (subst wait_loop.simps) (auto simp: leaves_at_def)
qed

lemma wait_loop_result:
  assumes "wait_loop obs start_t timeout k = Some b"
  shows "start_t = snd (obs 0) \<longrightarrow> (\<exists>j\<ge>k. leaves_at obs timeout j \<and> b = (fst (obs j) = CmdAccepted))"
  using assms
proof (rule wait_loop.raw_induct [rotated], goal_cases)
  case (1 self obs start_t timeout k b)
  show ?case
  proof (cases "leaves_at obs timeout k")
    case True
    then show ?thesis using 1(2) by (intro impI exI [of _ k]) (auto simp: leaves_at_def split: if_splits)
  next
    case False
    show ?thesis
    proof
      assume st: "start_t = snd (obs 0)"
      then have "self obs start_t timeout (Suc k) = Some b"
        using 1(2) False by (auto simp: leaves_at_def split: if_splits)
      from 1(1) [OF this] st show "\<exists>j\<ge>k. leaves_at obs timeout j \<and> b = (fst (obs j) = CmdAccepted)"
        using Suc_leD by blast
    qed
  qed
qed

text \<open>C37: Waiting for the motion thread: the call returns if and only if the command is answered at
  some turn or, with a time limit, the clock passes the limit; it returns at the first such
  turn, and the result is whether the command is accepted then. With a time limit and a clock
  that does not stand still it always returns; without one it does not return for a command
  that is never answered.\<close>

theorem wait_returns:
  "(\<forall>k. leaves_at obs timeout k \<and> (\<forall>i<k. \<not> leaves_at obs timeout i) \<longrightarrow>
        WaitforCmdTobeAccepted obs timeout = Some (fst (obs k) = CmdAccepted))
   \<and> (timeout \<ge> 0 \<and> (\<forall>t. \<exists>k. t < snd (obs k)) \<longrightarrow> WaitforCmdTobeAccepted obs timeout \<noteq> None)
   \<and> (timeout < 0 \<and> (\<forall>k. fst (obs k) = CmdWaiting) \<longrightarrow> WaitforCmdTobeAccepted obs timeout = None)"
proof (intro conjI allI impI)
  have first: "WaitforCmdTobeAccepted obs timeout = Some (fst (obs k) = CmdAccepted)"
    if "leaves_at obs timeout k" "\<forall>i<k. \<not> leaves_at obs timeout i" for k
    using wait_loop_leaves [of obs timeout 0 k] that by (simp add: WaitforCmdTobeAccepted_def)
  then show "WaitforCmdTobeAccepted obs timeout = Some (fst (obs k) = CmdAccepted)"
    if "leaves_at obs timeout k \<and> (\<forall>i<k. \<not> leaves_at obs timeout i)" for k using that by blast
  show "WaitforCmdTobeAccepted obs timeout \<noteq> None" if clock: "timeout \<ge> 0 \<and> (\<forall>t. \<exists>k. t < snd (obs k))"
  proof -
    obtain k where "snd (obs 0) + timeout < snd (obs k)" using clock by blast
    then have "\<exists>k. leaves_at obs timeout k" using clock by (auto simp: leaves_at_def intro!: exI [of _ k])
    then have "leaves_at obs timeout (LEAST k. leaves_at obs timeout k)" by (rule LeastI_ex)
    then show ?thesis using first not_less_Least by (metis option.distinct(1))
  qed
  show "WaitforCmdTobeAccepted obs timeout = None" if "timeout < 0 \<and> (\<forall>k. fst (obs k) = CmdWaiting)"
  proof (rule ccontr)
    assume "WaitforCmdTobeAccepted obs timeout \<noteq> None"
    then obtain b where "wait_loop obs (snd (obs 0)) timeout 0 = Some b" by (auto simp: WaitforCmdTobeAccepted_def)
    then show False using wait_loop_result that by (fastforce simp: leaves_at_def)
  qed
qed

theorem wait_returns_witness:
  "WaitforCmdTobeAccepted (\<lambda>k. (if k < 3 then CmdWaiting else CmdAccepted, 10 * int k)) 200 = Some True
   \<and> WaitforCmdTobeAccepted (\<lambda>k. (CmdWaiting, 10 * int k)) (- 1) = None"
  using wait_returns [of "\<lambda>k. (if k < 3 then CmdWaiting else CmdAccepted, 10 * int k)" 200]
    wait_returns [of "\<lambda>k. (CmdWaiting, 10 * int k)" "- 1"]
  by (auto simp: leaves_at_def dest: spec [of _ 3])

end
