(* ===== verification/Task_Converter_Correct.thy ===== *)
theory Task_Converter_Correct
  imports Task_Converter
begin

text \<open>
  What the converter makes of the interpreter's output: for every script whose numbers fit
  the C++ types, the command list turns into one task per command, with the line, the text
  and the values of the call.
\<close>

section \<open>What is relied on of the JSON library\<close>

text \<open>JSON has no text for infinities and NaN.\<close>

fun json_finite :: "pyval \<Rightarrow> bool" where
  "json_finite (VFloat f) = finite_float f"
| "json_finite (VList vs) = list_all json_finite vs"
| "json_finite (VDict kvs) = list_all (\<lambda>(k, v). json_finite v) kvs"
| "json_finite _ = True"

definition int32 :: "int \<Rightarrow> bool" where
  "int32 n \<longleftrightarrow> - (2 ^ 31) \<le> n \<and> n < 2 ^ 31"

definition exact_double :: "int \<Rightarrow> bool" where
  "exact_double n \<longleftrightarrow> \<bar>n\<bar> \<le> 2 ^ 53"

text \<open>
  \<open>view\<close> is the value a JSON value stands for. The parser reads the texts of \<open>json.dumps\<close>;
  the accessors return the value where it has their type and fits, \<open>as_integer\<close> raises on a
  boolean.
\<close>

locale meojson =
  fixes J :: "'v json_lib" and parse :: "string \<Rightarrow> 'v option" and view :: "'v \<Rightarrow> pyval"
  assumes parse_text: "json_ok v \<Longrightarrow> json_finite v \<Longrightarrow> \<exists>j. parse (json_text 0 v) = Some j \<and> view j = norm_val v"
    and is_null: "j_is_null J j \<longleftrightarrow> view j = VNone"
    and is_boolean: "j_is_boolean J j \<longleftrightarrow> is_bool (view j)"
    and is_string: "j_is_string J j \<longleftrightarrow> is_str (view j)"
    and is_array: "j_is_array J j \<longleftrightarrow> (\<exists>vs. view j = VList vs)"
    and is_object: "j_is_object J j \<longleftrightarrow> (\<exists>kvs. view j = VDict kvs)"
    and as_boolean: "view j = VBool b \<Longrightarrow> j_as_boolean J j = Inr b"
    and as_integer: "view j = VInt n \<Longrightarrow> int32 n \<Longrightarrow> j_as_integer J j = Inr n"
    and as_integer_bool: "view j = VBool b \<Longrightarrow> \<exists>e. j_as_integer J j = Inl e"
    and as_double_float: "view j = VFloat f \<Longrightarrow> finite_float f \<Longrightarrow> j_as_double J j = Inr f"
    and as_double_int: "view j = VInt n \<Longrightarrow> exact_double n \<Longrightarrow> j_as_double J j = Inr (Dec n 0)"
    and as_string: "view j = VStr s \<Longrightarrow> j_as_string J j = Inr s"
    and as_array: "view j = VList vs \<Longrightarrow> \<exists>js. j_as_array J j = Inr js \<and> map view js = vs"
    and as_object: "view j = VDict kvs \<Longrightarrow> \<exists>jo. j_as_object J j = Inr jo \<and> view jo = VDict kvs"
    and at: "view j = VDict kvs \<Longrightarrow> map_of kvs k = Some v \<Longrightarrow> \<exists>j'. j_at J j k = Inr j' \<and> view j' = v"
    and contains: "view j = VDict kvs \<Longrightarrow> j_contains J j k \<longleftrightarrow> k \<in> fst ` set kvs"

section \<open>The tasks of typed commands\<close>

fun cpp_int :: "pyval \<Rightarrow> bool" where
  "cpp_int (VInt n) = int32 n"
| "cpp_int _ = False"

fun cpp_num :: "pyval \<Rightarrow> bool" where
  "cpp_num (VInt n) = exact_double n"
| "cpp_num (VFloat f) = finite_float f"
| "cpp_num _ = False"

fun double_of :: "pyval \<Rightarrow> pyfloat" where
  "double_of (VInt n) = Dec n 0"
| "double_of (VFloat f) = norm_float f"
| "double_of _ = NaN"

definition opt_num :: "pyval \<Rightarrow> bool" where
  "opt_num v \<longleftrightarrow> v = VNone \<or> cpp_num v"

definition opt_double_of :: "pyval \<Rightarrow> pyfloat option" where
  "opt_double_of v = (if v = VNone then None else Some (double_of v))"

fun str_of :: "pyval \<Rightarrow> string" where
  "str_of (VStr s) = s"
| "str_of _ = []"

definition six_nums :: "pyval list \<Rightarrow> bool" where
  "six_nums vs \<longleftrightarrow> length vs = 6 \<and> list_all opt_num vs"

definition point_fits :: "point \<Rightarrow> bool" where
  "point_fits p \<longleftrightarrow> six_nums (pt_coords p) \<and> int32 (pt_line p) \<and> cpp_int (pt_feedrate p)"

text \<open>The numbers of a typed command fit the types of the task.\<close>

fun fits :: "acmd \<Rightarrow> bool" where
  "fits (A_Mode md) = True"
| "fits (A_Index i) = cpp_int i"
| "fits (A_Ele i) = cpp_int i"
| "fits (A_Feed v) = is_int v"
| "fits (A_Delay t) = cpp_num t"
| "fits (A_SetZero fl) = (length fl = 6 \<and> list_all is_bool fl)"
| "fits (A_Drill d h t bo ba sp) =
     (cpp_num d \<and> cpp_int h \<and> is_bool t \<and> is_bool bo \<and> is_bool ba \<and> opt_num sp)"
| "fits (A_G00 md ix fd m05 touch cs) = (cpp_int ix \<and> cpp_int fd \<and> six_nums cs)"
| "fits (A_G01 md ix opts cs) = (cpp_int ix \<and> six_nums cs \<and> list_val (list_all is_str) opts)"
| "fits (A_Group ix ps) = (cpp_int ix \<and> list_all point_fits ps)"
| "fits A_Pause = True"
| "fits A_End = True"

definition item_of :: "point \<Rightarrow> group_item" where
  "item_of p = \<lparr>gi_values = map opt_double_of (pt_coords p), gi_mode = pt_mode p, gi_line = pt_line p,
     gi_feedrate = int_of (pt_feedrate p)\<rparr>"

fun body_of :: "build \<Rightarrow> acmd \<Rightarrow> task_body option" where
  "body_of B (A_Mode md) = Some CoordinateModeTask"
| "body_of B (A_Index i) = Some (CoordinateIndexTask (int_of i))"
| "body_of B (A_Ele i) = Some (EleparamSet (int_of i))"
| "body_of B (A_Feed v) = Some FeedSpeedSet"
| "body_of B (A_Delay t) = Some (Deley (double_of t))"
| "body_of B (A_SetZero fl) = Some (CoordSetZero (map bool_of fl))"
| "body_of B (A_Drill d h t bo ba sp) =
     (if drill_build B
      then Some (DrillMotion \<lparr>depth_um = mul1000 B (double_of d), holdtime_ms = int_of h, dp_touch = bool_of t,
        dp_breakout = bool_of bo, dp_back = bool_of ba, spindle_speed = opt_double_of sp\<rparr>)
      else None)"
| "body_of B (A_G00 md ix fd m05 touch cs) =
     Some (G00Motion (\<not> m05) touch (int_of fd) (int_of ix) md (map opt_double_of cs))"
| "body_of B (A_G01 md ix opts cs) = Some (G01Motion (int_of ix) md (map opt_double_of cs))"
| "body_of B (A_Group ix ps) = Some (G01GroupMotion (int_of ix) (map item_of ps))"
| "body_of B A_Pause = Some PauseTask"
| "body_of B A_End = Some ProgramEnd"

fun options_of :: "acmd \<Rightarrow> string list" where
  "options_of (A_G01 md ix (VList os) cs) = map str_of os"
| "options_of _ = []"

definition task_of :: "build \<Rightarrow> caller \<times> acmd \<Rightarrow> task option" where
  "task_of B fa =
     (case fa of (fr, a) \<Rightarrow>
        map_option (\<lambda>b. \<lparr>body = b, line_number = lineno fr, gcode_str = caller_code fr,
          task_options = options_of a\<rparr>) (body_of B a))"

section \<open>Looking into a parsed command\<close>

lemma key_literals [conv_defs]:
  "''CommandType'' = key_name K_CommandType" "''CoordinateMode'' = key_name K_CoordinateMode"
  "''CoordinateIndex'' = key_name K_CoordinateIndex" "''LineNumber'' = key_name K_LineNumber"
  "''M05IgnoreTouchDetect'' = key_name K_M05IgnoreTouchDetect" "''G00Touch'' = key_name K_G00Touch"
  "''FeedSpeed'' = key_name K_FeedSpeed" "''Coordinates'' = key_name K_Coordinates"
  "''EleparamIndex'' = key_name K_EleparamIndex" "''DelayTime'' = key_name K_DelayTime"
  "''SetZeroAxisList'' = key_name K_SetZeroAxisList" "''DrillDepth'' = key_name K_DrillDepth"
  "''DrillHoldTime'' = key_name K_DrillHoldTime" "''DrillTouch'' = key_name K_DrillTouch"
  "''DrillBreakout'' = key_name K_DrillBreakout" "''DrillBack'' = key_name K_DrillBack"
  "''DrillSpindleSpeed'' = key_name K_DrillSpindleSpeed" "''G01GroupPoints'' = key_name K_G01GroupPoints"
  "''CommandStr'' = key_name K_CommandStr" "''Options'' = key_name K_Options"
  by (simp_all only: key_name.simps)

lemma s_coord_mode_map_name [simp]: "s_coord_mode_map (cm_name md) = Some md"
  by (cases md) (simp_all add: s_coord_mode_map_def cm_name.simps)

lemma s_type_map_name [simp]: "s_type_map (ct_name t) = Some t"
  by (cases t) (simp_all add: s_type_map_def ct_name.simps)

lemma map_of_norm: "map_of (map (\<lambda>(k, v). (k, norm_val v)) c) k = map_option norm_val (map_of c k)"
  by (simp add: map_of_map)

lemma finite_norm [simp]: "finite_float (norm_float f) = finite_float f"
  by (cases f) (auto simp: mk_float_def Let_def split: prod.splits)

context meojson
begin

lemma at_cmd:
  assumes "view j = norm_val (VDict c)" "map_of c k = Some v"
  obtains j' where "j_at J j k = Inr j'" "view j' = norm_val v"
  using at [of j "map (\<lambda>(k, v). (k, norm_val v)) c" k "norm_val v"] assms by (auto simp: map_of_norm)

lemma at_int_cmd:
  assumes "view j = norm_val (VDict c)" "map_of c k \<noteq> None" "cpp_int (the (map_of c k))"
  shows "at_int J j k = Inr (int_of (the (map_of c k)))"
proof -
  obtain n where "map_of c k = Some (VInt n)" "int32 n" using assms(2,3) by (auto elim!: cpp_int.elims)
  moreover from this(1) obtain j' where "j_at J j k = Inr j'" "view j' = VInt n" by (rule at_cmd [OF assms(1)]) simp
  ultimately show ?thesis by (simp add: at_int_def as_integer)
qed

lemma at_bool_cmd:
  assumes "view j = norm_val (VDict c)" "map_of c k \<noteq> None" "is_bool (the (map_of c k))"
  shows "at_bool J j k = Inr (bool_of (the (map_of c k)))"
proof -
  obtain b where "map_of c k = Some (VBool b)" using assms(2,3) by (auto simp: is_bool_conv)
  moreover from this obtain j' where "j_at J j k = Inr j'" "view j' = VBool b" by (rule at_cmd [OF assms(1)]) simp
  ultimately show ?thesis by (simp add: at_bool_def as_boolean)
qed

lemma at_string_cmd:
  assumes "view j = norm_val (VDict c)" "map_of c k \<noteq> None" "is_str (the (map_of c k))"
  shows "at_string J j k = Inr (str_of (the (map_of c k)))"
proof -
  obtain s where "map_of c k = Some (VStr s)" using assms(2,3) by (auto simp: is_str_conv)
  moreover from this obtain j' where "j_at J j k = Inr j'" "view j' = VStr s" by (rule at_cmd [OF assms(1)]) simp
  ultimately show ?thesis by (simp add: at_string_def as_string)
qed

lemma as_double_num:
  assumes "view j = norm_val v" "cpp_num v"
  shows "j_as_double J j = Inr (double_of v)"
  using assms as_double_int [of j] as_double_float [of j] by (cases v) (auto simp: finite_norm)

lemma opt_double_num:
  assumes "view j = norm_val v" "opt_num v"
  shows "opt_double J j = Inr (opt_double_of v)"
proof (cases "v = VNone")
  case True
  then show ?thesis using assms by (simp add: opt_double_def opt_double_of_def is_null)
next
  case False
  then have num: "cpp_num v" using assms(2) by (simp add: opt_num_def)
  then have "view j \<noteq> VNone" using assms(1) by (cases v) auto
  then show ?thesis
    using as_double_num [OF assms(1) num] False by (simp add: opt_double_def opt_double_of_def is_null)
qed

lemma at_double_cmd:
  assumes "view j = norm_val (VDict c)" "map_of c k \<noteq> None" "cpp_num (the (map_of c k))"
  shows "at_double J j k = Inr (double_of (the (map_of c k)))"
proof -
  obtain v where v: "map_of c k = Some v" using assms(2) by auto
  from v obtain j' where "j_at J j k = Inr j'" "view j' = norm_val v" by (rule at_cmd [OF assms(1)])
  then show ?thesis using v assms(3) by (simp add: at_double_def as_double_num)
qed

lemma at_array_cmd:
  assumes "view j = norm_val (VDict c)" "map_of c k = Some (VList vs)"
  obtains js where "at_array J j k = Inr js" "map view js = map norm_val vs"
proof -
  from assms(2) obtain j' where j': "j_at J j k = Inr j'" "view j' = VList (map norm_val vs)"
    by (rule at_cmd [OF assms(1)]) simp
  from as_array [OF j'(2)] j'(1) show thesis by (auto simp: at_array_def intro: that)
qed

lemma views_length: "map view js = map norm_val vs \<Longrightarrow> length js = length vs"
  by (metis length_map)

text \<open>The loops over arrays, by induction on the values they stand for.\<close>

lemma read_values:
  "map view js = map norm_val vs \<Longrightarrow> list_all opt_num vs \<Longrightarrow> rmap (opt_double J) js = Inr (map opt_double_of vs)"
proof (induction vs arbitrary: js)
  case (Cons v vs)
  then obtain j js' where "js = j # js'" "view j = norm_val v" "map view js' = map norm_val vs" by (cases js) auto
  with Cons show ?case by (simp add: opt_double_num)
qed simp

lemma read_six:
  assumes "map view js = map norm_val vs" "six_nums vs"
  shows "\<not> length js < 6" "rmap (opt_double J) (take 6 js) = Inr (map opt_double_of vs)"
  using assms views_length [OF assms(1)] by (auto simp: six_nums_def read_values)

lemma read_flags_bools:
  "map view js = map norm_val vs \<Longrightarrow> list_all is_bool vs \<Longrightarrow> read_flags J js = Inr (Some (map bool_of vs))"
proof (induction vs arbitrary: js)
  case (Cons v vs)
  then obtain j js' b where "js = j # js'" "v = VBool b" "view j = VBool b" "map view js' = map norm_val vs"
    by (cases js) (auto simp: is_bool_conv)
  with Cons show ?case by (simp add: is_boolean as_boolean)
qed simp

lemma read_options_strs:
  "map view js = map norm_val vs \<Longrightarrow> list_all is_str vs \<Longrightarrow> read_options J js = Inr (Some (map str_of vs))"
proof (induction vs arbitrary: js)
  case (Cons v vs)
  then obtain j js' t where "js = j # js'" "v = VStr t" "view j = VStr t" "map view js' = map norm_val vs"
    by (cases js) (auto simp: is_str_conv)
  with Cons show ?case by (simp add: is_string as_string)
qed simp

lemma read_points_items:
  "map view js = map norm_val (map group_point ps) \<Longrightarrow> list_all point_fits ps \<Longrightarrow>
     read_points J js = Inr (Some (map item_of ps))"
proof (induction ps arbitrary: js)
  case (Cons p ps)
  then obtain j js' where js: "js = j # js'" "view j = norm_val (group_point p)"
    "map view js' = map norm_val (map group_point ps)" by (cases js) auto
  obtain c where c: "group_point p = VDict c" by (simp add: group_point_def)
  obtain jo where jo: "j_as_object J j = Inr jo" "view jo = norm_val (VDict c)"
    using as_object [of j "map (\<lambda>(k, v). (k, norm_val v)) c"] js(2) c by auto
  have gets: "map_of c (key_name K_CoordinateMode) = Some (VStr (cm_name (pt_mode p)))"
    "map_of c (key_name K_LineNumber) = Some (VInt (pt_line p))"
    "map_of c (key_name K_Coordinates) = Some (VList (pt_coords p))"
    "map_of c (key_name K_FeedSpeed) = Some (pt_feedrate p)"
    using c by (auto simp: group_point_def)
  have fit: "six_nums (pt_coords p)" "int32 (pt_line p)" "cpp_int (pt_feedrate p)"
    using Cons.prems(2) by (simp_all add: point_fits_def)
  obtain cs where cs: "at_array J jo (key_name K_Coordinates) = Inr cs" "map view cs = map norm_val (pt_coords p)"
    by (rule at_array_cmd [OF jo(2) gets(3)])
  show ?case
    using Cons.IH [OF js(3)] Cons.prems(2) jo(1) cs(1) read_six [OF cs(2) fit(1)] gets fit
      at_string_cmd [OF jo(2), of "key_name K_CoordinateMode"] at_int_cmd [OF jo(2), of "key_name K_LineNumber"]
      at_int_cmd [OF jo(2), of "key_name K_FeedSpeed"]
    by (simp add: js(1) item_of_def conv_defs)
qed simp

text \<open>The three steps of the conversion of one command.\<close>

lemma make_by_type_encode:
  assumes view: "view j = norm_val (VDict (encode line code a))" and line: "int32 line" and fit: "fits a"
  shows "make_by_type B J (acmd_type a) j =
    Inr (case body_of B a of None \<Rightarrow> Ignored | Some b \<Rightarrow> Made (new_task b line))"
proof -
  define c where "c = encode line code a"
  note v = view [folded c_def]
  note gets = at_int_cmd [OF v] at_bool_cmd [OF v] at_string_cmd [OF v] at_double_cmd [OF v]
  note c = c_def encode_def has_type_def
  show ?thesis
  proof (cases a)
    case (A_G00 md ix fd m05 touch cs)
    have "map_of c (key_name K_Coordinates) = Some (VList cs)" by (simp add: c A_G00)
    from at_array_cmd [OF v this] obtain js where
      js: "at_array J j (key_name K_Coordinates) = Inr js" "map view js = map norm_val cs" .
    show ?thesis
      using fit line read_six [OF js(2)]
      by (simp add: A_G00 make_by_type_def make_g00_def conv_defs gets js(1) c)
  next
    case (A_G01 md ix opts cs)
    have "map_of c (key_name K_Coordinates) = Some (VList cs)" by (simp add: c A_G01)
    from at_array_cmd [OF v this] obtain js where
      js: "at_array J j (key_name K_Coordinates) = Inr js" "map view js = map norm_val cs" .
    show ?thesis
      using fit line read_six [OF js(2)]
      by (simp add: A_G01 make_by_type_def make_g01_def conv_defs gets js(1) c)
  next
    case (A_Group ix ps)
    have "map_of c (key_name K_G01GroupPoints) = Some (VList (map group_point ps))" by (simp add: c A_Group)
    from at_array_cmd [OF v this] obtain js where
      js: "at_array J j (key_name K_G01GroupPoints) = Inr js" "map view js = map norm_val (map group_point ps)" .
    show ?thesis
      using fit line read_points_items [OF js(2)]
      by (simp add: A_Group make_by_type_def make_g01_group_def conv_defs gets js(1) c)
  next
    case (A_SetZero fl)
    have "map_of c (key_name K_SetZeroAxisList) = Some (VList fl)" by (simp add: c A_SetZero)
    from at_array_cmd [OF v this] obtain js where
      js: "at_array J j (key_name K_SetZeroAxisList) = Inr js" "map view js = map norm_val fl" .
    show ?thesis
      using fit line read_flags_bools [OF js(2)] views_length [OF js(2)]
      by (simp add: A_SetZero make_by_type_def make_coord_set_zero_def conv_defs gets js(1) c)
  next
    case (A_Drill d h t bo ba sp)
    have "map_of c (key_name K_DrillSpindleSpeed) = Some sp" by (simp add: c A_Drill)
    from this obtain j' where j': "j_at J j (key_name K_DrillSpindleSpeed) = Inr j'" "view j' = norm_val sp"
      by (rule at_cmd [OF v])
    show ?thesis
      using fit line opt_double_num [OF j'(2)]
      by (simp add: A_Drill make_by_type_def make_drill_def conv_defs gets j'(1) c)
  qed (use fit line in \<open>simp_all add: make_by_type_def make_coord_index_def make_ele_set_def make_delay_def
    make_m02_def make_m00_def make_coord_mode_def make_feed_set_def make_bare_def conv_defs gets c\<close>)
qed

lemma add_gcode_str_encode:
  assumes "view j = norm_val (VDict (encode line code a))"
  shows "add_gcode_str J j t = Inr (Made (t\<lparr>gcode_str := code\<rparr>))"
proof -
  have "map_of (encode line code a) (key_name K_CommandStr) = Some (VStr code)"
    by (cases a) (simp_all add: encode_def has_type_def)
  moreover from this obtain j' where "j_at J j (key_name K_CommandStr) = Inr j'" "view j' = VStr code"
    by (rule at_cmd [OF assms]) simp
  moreover have "key_name K_CommandStr \<in> fst ` set (encode line code a)"
    using calculation(1) by (metis map_of_eq_None_iff option.distinct(1))
  ultimately show ?thesis
    using assms contains [of j "map (\<lambda>(k, v). (k, norm_val v)) (encode line code a)"]
    by (simp add: add_gcode_str_def conv_defs is_string as_string image_image case_prod_unfold)
qed

lemma add_options_encode:
  assumes view: "view j = norm_val (VDict (encode line code a))" and "fits a" "task_options t = []"
  shows "add_options J j t = Inr (Made (t\<lparr>task_options := options_of a\<rparr>))"
proof -
  have has: "j_contains J j (key_name K_Options) \<longleftrightarrow> key_name K_Options \<in> fst ` set (encode line code a)"
    using view contains [of j "map (\<lambda>(k, v). (k, norm_val v)) (encode line code a)"]
    by (simp add: image_image case_prod_unfold)
  show ?thesis
  proof (cases "acmd_type a = G01MotionCommand")
    case True
    then obtain md ix opts cs where a: "a = A_G01 md ix opts cs" by (cases a) auto
    then obtain vs where vs: "opts = VList vs" "list_all is_str vs"
      using assms(2) by (auto simp: list_val_def split: pyval.splits)
    have get: "map_of (encode line code a) (key_name K_Options) = Some (VList vs)"
      by (simp add: a vs encode_def has_type_def)
    from get obtain j' where j': "j_at J j (key_name K_Options) = Inr j'" "view j' = VList (map norm_val vs)"
      by (rule at_cmd [OF view]) simp
    from as_array [OF j'(2)] obtain js where js: "j_as_array J j' = Inr js" "map view js = map norm_val vs" by blast
    have "key_name K_Options \<in> fst ` set (encode line code a)"
      using get by (metis map_of_eq_None_iff option.distinct(1))
    then show ?thesis
      using has j' js read_options_strs [OF js(2) vs(2)]
      by (simp add: add_options_def conv_defs is_array a vs(1))
  next
    case False
    then have "key_name K_Options \<notin> fst ` set (encode line code a)"
      by (cases a) (auto simp: encode_def has_type_def)
    moreover have "options_of a = []" using False by (cases a) auto
    ultimately show ?thesis using has assms(3) by (simp add: add_options_def conv_defs)
  qed
qed

lemma make_command:
  assumes view: "view j = norm_val (VDict (encode_at (fr, a)))" and "int32 (lineno fr)" "fits a"
  shows "MakeGCodeTaskFromJsonObject B J j = Inr (case task_of B (fr, a) of None \<Rightarrow> Ignored | Some t \<Rightarrow> Made t)"
proof -
  have v: "view j = norm_val (VDict (encode (lineno fr) (caller_code fr) a))"
    using view by (simp add: encode_at_def)
  have "at_string J j (key_name K_CommandType) = Inr (ct_name (acmd_type a))"
    using at_string_cmd [OF v, of "key_name K_CommandType"] by (simp add: encode_def has_type_def)
  then show ?thesis
    using make_by_type_encode [OF v assms(2,3), of B] add_gcode_str_encode [OF v] add_options_encode [OF v assms(3)]
    by (simp add: MakeGCodeTaskFromJsonObject_def conv_defs and_then_def task_of_def new_task_def
        split: option.splits)
qed

lemma make_tasks_encode:
  assumes "map view js = map (\<lambda>fa. norm_val (VDict (encode_at fa))) as"
    "list_all (\<lambda>(fr, a). int32 (lineno fr) \<and> fits a) as"
  shows "make_tasks B J js = Some (List.map_filter (task_of B) as)"
  using assms
proof (induction as arbitrary: js)
  case (Cons fa as)
  obtain fr a where fa: "fa = (fr, a)" by (cases fa)
  obtain j js' where js: "js = j # js'" "view j = norm_val (VDict (encode_at (fr, a)))"
    "map view js' = map (\<lambda>fa. norm_val (VDict (encode_at fa))) as" using Cons.prems(1) by (cases js) (auto simp: fa)
  obtain jo where jo: "j_as_object J j = Inr jo" "view jo = norm_val (VDict (encode_at (fr, a)))"
    using as_object [of j] js(2) by fastforce
  have "make_tasks B J js' = Some (List.map_filter (task_of B) as)"
    using Cons.IH [OF js(3)] Cons.prems(2) by simp
  then show ?case
    using make_command [OF jo(2), of B] Cons.prems(2) jo(1) js(2)
    by (simp add: js(1) fa is_object map_filter_simps split: option.splits)
qed (simp add: map_filter_simps)

end

section \<open>Commands that fit have a JSON text\<close>

lemma cpp_int_json: "cpp_int v \<Longrightarrow> json_ok v \<and> json_finite v"
  by (cases v) auto

lemma is_int_json: "is_int v \<Longrightarrow> json_ok v \<and> json_finite v"
  by (cases v) auto

lemma is_bool_json: "is_bool v \<Longrightarrow> json_ok v \<and> json_finite v"
  by (cases v) auto

lemma is_str_json: "is_str v \<Longrightarrow> json_ok v \<and> json_finite v"
  by (cases v) auto

lemma cpp_num_json: "cpp_num v \<Longrightarrow> json_ok v \<and> json_finite v"
  by (cases v) auto

lemma opt_num_json: "opt_num v \<Longrightarrow> json_ok v \<and> json_finite v"
  using cpp_num_json by (auto simp: opt_num_def)

lemma six_nums_json: "six_nums vs \<Longrightarrow> list_all json_ok vs \<and> list_all json_finite vs"
  using opt_num_json by (auto simp: six_nums_def list_all_iff)

lemma point_fits_json: "point_fits p \<Longrightarrow> json_ok (group_point p) \<and> json_finite (group_point p)"
  using six_nums_json [of "pt_coords p"] cpp_int_json [of "pt_feedrate p"]
  by (simp add: point_fits_def group_point_def)

lemma encode_json:
  assumes "fits a"
  shows "json_ok (VDict (encode line code a)) \<and> json_finite (VDict (encode line code a))"
proof (cases a)
  case (A_Group ix ps)
  with assms point_fits_json show ?thesis
    by (auto simp: encode_def has_type_def cpp_int_json list_all_iff)
next
  case (A_G01 md ix opts cs)
  with assms obtain vs where "opts = VList vs" "list_all is_str vs" by (auto simp: list_val_def split: pyval.splits)
  with A_G01 assms show ?thesis
    using six_nums_json [of cs] by (auto simp: encode_def has_type_def cpp_int_json list_all_iff is_str_json)
next
  case (A_SetZero fl)
  with assms show ?thesis by (auto simp: encode_def has_type_def list_all_iff is_bool_json)
next
  case (A_G00 md ix fd m05 touch cs)
  with assms show ?thesis using six_nums_json [of cs] by (simp add: encode_def has_type_def cpp_int_json)
qed (use assms in \<open>simp_all add: encode_def has_type_def cpp_int_json is_int_json cpp_num_json is_bool_json opt_num_json\<close>)

section \<open>A reference library\<close>

text \<open>The library on Python values, with the reader of \<^verbatim>\<open>Json_Text\<close> as the parser.\<close>

definition py_lib :: "pyval json_lib" where
  "py_lib =
     \<lparr>j_is_null = (\<lambda>v. v = VNone), j_is_boolean = is_bool, j_is_string = is_str,
      j_is_array = (\<lambda>v. case v of VList _ \<Rightarrow> True | _ \<Rightarrow> False),
      j_is_object = (\<lambda>v. case v of VDict _ \<Rightarrow> True | _ \<Rightarrow> False),
      j_as_boolean = (\<lambda>v. case v of VBool b \<Rightarrow> Inr b | _ \<Rightarrow> Inl ''not a boolean''),
      j_as_integer = (\<lambda>v. case v of VInt n \<Rightarrow> if int32 n then Inr n else Inl ''out of range'' | _ \<Rightarrow> Inl ''not a number''),
      j_as_double = (\<lambda>v. if cpp_num v then Inr (case v of VFloat f \<Rightarrow> f | _ \<Rightarrow> double_of v) else Inl ''not a number''),
      j_as_string = (\<lambda>v. case v of VStr s \<Rightarrow> Inr s | _ \<Rightarrow> Inl ''not a string''),
      j_as_array = (\<lambda>v. case v of VList vs \<Rightarrow> Inr vs | _ \<Rightarrow> Inl ''not an array''),
      j_as_object = (\<lambda>v. case v of VDict _ \<Rightarrow> Inr v | _ \<Rightarrow> Inl ''not an object''),
      j_at = (\<lambda>v k. case v of
          VDict kvs \<Rightarrow> (case map_of kvs k of Some x \<Rightarrow> Inr x | None \<Rightarrow> Inl ''no key'')
        | _ \<Rightarrow> Inl ''not an object''),
      j_contains = (\<lambda>v k. case v of VDict kvs \<Rightarrow> k \<in> fst ` set kvs | _ \<Rightarrow> False)\<rparr>"

interpretation py: meojson py_lib json_loads "\<lambda>v. v"
  by unfold_locales
    (auto simp: py_lib_def json_loads_text split: pyval.splits)

section \<open>From script to tasks\<close>

lemma script_tasks:
  assumes lib: "meojson J parse view" and run: "spec_run cs modal_init = Some (as, m)"
    and src: "list_all (\<lambda>(fr, c). has_source fr) cs" and ne: "as \<noteq> []"
    and fit: "list_all (\<lambda>(fr, a). int32 (lineno fr) \<and> fits a) as"
  shows "\<exists>txt' j. get_command_list_jsonstr (snd (run cs RS274Interpreter_init)) = Inr txt' \<and> parse txt' = Some j
    \<and> MakeGCodeTaskListFromJson B J j = Some (List.map_filter (task_of B) as)"
proof -
  have "list_all (has_source \<circ> fst) cs" using src by (auto simp: list_all_iff)
  from run_of_spec [OF run this] obtain s' where
    s': "run cs RS274Interpreter_init = return_self s'" "commands s' = map encode_at as" by blast
  let ?v = "command_list_value (commands s')"
  have std: "json_ok ?v" "json_finite ?v"
    using fit encode_json
    by (auto simp: s'(2) command_list_value_def encode_at_def list_all_iff simp del: json_ok.simps(3) json_finite.simps(3))
  obtain j where j: "parse (json_text 0 ?v) = Some j" "view j = norm_val ?v"
    using meojson.parse_text [OF lib std] by blast
  obtain js where js: "j_as_array J j = Inr js" "map view js = map (\<lambda>fa. norm_val (VDict (encode_at fa))) as"
    using meojson.as_array [OF lib, of j "map norm_val (map VDict (commands s'))"] j(2)
    by (auto simp: command_list_value_def s'(2) o_def simp del: norm_val.simps(3))
  have "js \<noteq> []" using ne js(2) by auto
  then have "MakeGCodeTaskListFromJson B J j = Some (List.map_filter (task_of B) as)"
    using meojson.make_tasks_encode [OF lib js(2) fit, of B] meojson.is_array [OF lib, of j] j(2) js(1)
    by (cases js) (auto simp: MakeGCodeTaskListFromJson_def command_list_value_def simp del: make_tasks.simps)
  with s' std(1) j(1) show ?thesis
    by (simp add: get_command_list_jsonstr_def json_dumps_ok return_self_def)
qed

section \<open>Properties\<close>

text \<open>The type and mode names and numbers of the C++ side are those of the Python module: the
  enumerations agree in names and values, and the converter's tables map every name the
  interpreter can write to its member.\<close>

theorem enumerations_in_step:
  "GCodeTaskType_values = map (\<lambda>t. (ct_name t, ct_value t)) ct_members
   \<and> GCodeCoordinateMode_values = map (\<lambda>m. (cm_name m, cm_value m)) cm_members
   \<and> (\<forall>t. s_type_map (ct_name t) = Some t) \<and> (\<forall>m. s_coord_mode_map (cm_name m) = Some m)"
  by (simp add: GCodeTaskType_values_def GCodeCoordinateMode_values_def ct_members_def cm_members_def
      ct_name.simps cm_name.simps del: s_type_map_name s_coord_mode_map_name)
    (simp add: s_type_map_name s_coord_mode_map_name)

text \<open>C10: from script to tasks. When the abstract machine accepts a script and the numbers it
  issues fit the C++ types, the JSON text of the command list is parsed and converted
  without an error, and the task list is, in order, the task of each issued command, with
  its line, its text and its values: axes left out stay empty, \<open>m05\<close> turns the touch
  detection off, drill commands are left out by a build without them.\<close>

theorem script_becomes_tasks:
  assumes lib: "meojson J parse view" and run: "spec_run cs modal_init = Some (as, m)"
    and src: "list_all (\<lambda>(fr, c). has_source fr) cs" and ne: "as \<noteq> []"
    and fit: "list_all (\<lambda>(fr, a). int32 (lineno fr) \<and> fits a) as"
  shows "\<exists>txt' j. get_command_list_jsonstr (snd (run cs RS274Interpreter_init)) = Inr txt' \<and> parse txt' = Some j
    \<and> MakeGCodeTaskListFromJson B J j = Some (List.map_filter (task_of B) as)"
  by (rule script_tasks [OF lib run src ne fit])

theorem script_becomes_tasks_witness:
  "\<exists>txt' j. get_command_list_jsonstr (snd (run demo_script RS274Interpreter_init)) = Inr txt' \<and> json_loads txt' = Some j
    \<and> MakeGCodeTaskListFromJson \<lparr>drill_build = False, mul1000 = (\<lambda>f. f)\<rparr> py_lib j = Some
      [\<lparr>body = CoordinateIndexTask 54, line_number = 3, gcode_str = ''i.g54()'', task_options = []\<rparr>,
       \<lparr>body = CoordinateModeTask, line_number = 4, gcode_str = ''i.g90()'', task_options = []\<rparr>,
       \<lparr>body = FeedSpeedSet, line_number = 5, gcode_str = ''i.f(100)'', task_options = []\<rparr>,
       \<lparr>body = G00Motion True True 100 54 AbsoluteMode [None, None, Some (Dec 5 0), None, None, None],
         line_number = 6, gcode_str = ''i.g00(z=5, touch=True)'', task_options = []\<rparr>,
       \<lparr>body = ProgramEnd, line_number = 7, gcode_str = ''i.m02()'', task_options = []\<rparr>]"
proof -
  have "list_all (\<lambda>(fr, c). has_source fr) demo_script" by (simp add: demo_script_def)
  moreover have "zip (map fst demo_script) demo_acmds \<noteq> []" by (simp add: demo_script_def demo_acmds_def)
  moreover have "list_all (\<lambda>(fr, a). int32 (lineno fr) \<and> fits a) (zip (map fst demo_script) demo_acmds)"
    by (simp add: demo_script_def demo_acmds_def int32_def six_nums_def opt_num_def exact_double_def)
  ultimately show ?thesis
    using script_becomes_tasks [OF py.meojson_axioms demo_spec, of "\<lparr>drill_build = False, mul1000 = (\<lambda>f. f)\<rparr>"]
    by (simp add: demo_script_def demo_acmds_def task_of_def map_filter_simps opt_double_of_def)
qed

text \<open>A boolean passes as an integer in Python and not in C++: \<open>i.e(True)\<close> is accepted by the
  interpreter, and every JSON library that refuses a boolean as an integer then makes the
  converter reject the whole program.\<close>

theorem boolean_index_rejected:
  assumes lib: "meojson J parse view"
  shows "\<exists>s' txt' j. run [(site n ''i.e(True)'', C_e (VBool True))] RS274Interpreter_init = return_self s'
    \<and> get_command_list_jsonstr s' = Inr txt' \<and> parse txt' = Some j \<and> MakeGCodeTaskListFromJson B J j = None"
proof -
  let ?c = "encode n ''i.e(True)'' (A_Ele (VBool True))"
  have sp: "spec_run [(site n ''i.e(True)'', C_e (VBool True))] modal_init =
      Some ([(site n ''i.e(True)'', A_Ele (VBool True))], modal_init)" by (simp add: modal_init_def)
  obtain s' where s': "run [(site n ''i.e(True)'', C_e (VBool True))] RS274Interpreter_init = return_self s'"
    "commands s' = [?c]"
    by (rule run_of_spec [OF sp]) (simp_all add: encode_at_def)
  have std: "json_ok (VList [VDict ?c])" "json_finite (VList [VDict ?c])" by (simp_all add: encode_def has_type_def)
  obtain j where j: "parse (json_text 0 (VList [VDict ?c])) = Some j" "view j = VList [norm_val (VDict ?c)]"
    using meojson.parse_text [OF lib std] by auto
  obtain j1 where j1: "j_as_array J j = Inr [j1]" "view j1 = norm_val (VDict ?c)"
    using meojson.as_array [OF lib j(2)] by (auto simp del: norm_val.simps(3))
  obtain jo where jo: "j_as_object J j1 = Inr jo" "view jo = norm_val (VDict ?c)"
    using meojson.as_object [OF lib, of j1] j1(2) by fastforce
  have ty: "at_string J jo (key_name K_CommandType) = Inr (ct_name EleparamSetCommand)"
    using meojson.at_string_cmd [OF lib jo(2), of "key_name K_CommandType"] by (simp add: encode_def has_type_def)
  have "map_of ?c (key_name K_EleparamIndex) = Some (VBool True)" by (simp add: encode_def has_type_def)
  from this obtain jb where jb: "j_at J jo (key_name K_EleparamIndex) = Inr jb" "view jb = VBool True"
    by (rule meojson.at_cmd [OF lib jo(2)]) simp
  obtain e where "j_as_integer J jb = Inl e" using meojson.as_integer_bool [OF lib jb(2)] by blast
  then have "MakeGCodeTaskFromJsonObject B J jo = Inl e"
    using ty jb(1) by (simp add: MakeGCodeTaskFromJsonObject_def conv_defs make_by_type_def make_ele_set_def
        at_int_def and_then_def)
  then have "MakeGCodeTaskListFromJson B J j = None"
    using j(2) j1(1) jo(1) meojson.is_array [OF lib, of j] by (simp add: MakeGCodeTaskListFromJson_def)
  with s' std(1) j(1) show ?thesis
    by (simp add: get_command_list_jsonstr_def command_list_value_def json_dumps_ok)
qed

theorem boolean_index_rejected_witness:
  "\<exists>s' txt' j. run [(site 8 ''i.e(True)'', C_e (VBool True))] RS274Interpreter_init = return_self s'
    \<and> get_command_list_jsonstr s' = Inr txt' \<and> json_loads txt' = Some j
    \<and> MakeGCodeTaskListFromJson \<lparr>drill_build = True, mul1000 = (\<lambda>f. f)\<rparr> py_lib j = None"
  by (rule boolean_index_rejected [OF py.meojson_axioms])

end
