(* ===== verification/Machine_Run.thy ===== *)
theory Machine_Run
  imports Gcode_Runner_Live Task_Converter_Correct
begin

text \<open>
  The runner in closed loop with a motion thread that does what it is told: it accepts every
  command, is at the target of a move when it is next asked, and reports neither a pause nor
  a touch. The positions the runner then drives to are those the tasks describe.
\<close>

section \<open>A motion thread that obeys\<close>

definition ideal_env :: "settings \<Rightarrow> axis_t \<Rightarrow> env" where
  "ideal_env st p =
     \<lparr>now = 0,
      info = \<lparr>curr_cmd_axis_blu = p, sub_line_number = 0, main_mode = MM_Idle, auto_state = AutoStopped, TouchWarning = False\<rparr>,
      accepts = (\<lambda>_. True), exist_eleparam_index = (\<lambda>_. True), set_current_eleparam_index = (\<lambda>_. True),
      setts = st, with_drill = False\<rparr>"

fun driven_to :: "event \<Rightarrow> axis_t option" where
  "driven_to (Push c) = map_option snd (straight_move c)"
| "driven_to _ = None"

definition driven :: "event list \<Rightarrow> axis_t list" where
  "driven evs = List.map_filter driven_to evs"

lemma driven_simps [simp]:
  "driven [] = []" "driven (e # evs) = (case driven_to e of None \<Rightarrow> driven evs | Some t \<Rightarrow> t # driven evs)"
  "driven (xs @ ys) = driven xs @ driven ys"
  by (simp_all add: driven_def map_filter_simps map_filter_def split: option.splits)

lemma driven_push: "q \<in> set (driven evs) \<Longrightarrow> \<exists>c. Push c \<in> set evs \<and> (\<exists>s. straight_move c = Some (s, q))"
proof (induction evs)
  case (Cons e evs)
  then show ?case by (cases e) (auto split: option.splits)
qed simp

text \<open>The commands pushed.\<close>

fun pushed_cmd :: "event \<Rightarrow> motion_cmd option" where
  "pushed_cmd (Push c) = Some c"
| "pushed_cmd _ = None"

definition pushed :: "event list \<Rightarrow> motion_cmd list" where
  "pushed evs = List.map_filter pushed_cmd evs"

lemma pushed_simps [simp]:
  "pushed [] = []" "pushed (e # evs) = (case pushed_cmd e of None \<Rightarrow> pushed evs | Some c \<Rightarrow> c # pushed evs)"
  "pushed (xs @ ys) = pushed xs @ pushed ys"
  by (simp_all add: pushed_def map_filter_simps map_filter_def split: option.splits)

text \<open>One poll: the runner acts on the position, the motion thread carries out what was pushed.\<close>

definition ideal_poll :: "settings \<Rightarrow> axis_t \<times> runner \<Rightarrow> (fault, axis_t \<times> runner) result" where
  "ideal_poll st pr =
     (case pr of (p, r) \<Rightarrow> rbind (run_once (ideal_env st p) r) (\<lambda>r'.
        Inr (last (p # driven (drop (length (trace r)) (trace r'))), r')))"

fun ideal_polls :: "settings \<Rightarrow> nat \<Rightarrow> axis_t \<times> runner \<Rightarrow> (fault, axis_t \<times> runner) result" where
  "ideal_polls st 0 pr = Inr pr"
| "ideal_polls st (Suc n) pr = rbind (ideal_poll st pr) (ideal_polls st n)"

lemma ideal_polls_add:
  "ideal_polls st (m + n) pr = rbind (ideal_polls st m pr) (ideal_polls st n)"
  by (induction m arbitrary: pr) (auto simp: rbind_def split: sum.splits)

text \<open>Each of \<open>n\<close> polls adds to the log, and the commands it pushes are \<open>good\<close> for the position at the poll.\<close>

fun polls_send :: "(axis_t \<Rightarrow> motion_cmd list \<Rightarrow> bool) \<Rightarrow> settings \<Rightarrow> nat \<Rightarrow> axis_t \<times> runner \<Rightarrow> bool" where
  "polls_send good st 0 x \<longleftrightarrow> True"
| "polls_send good st (Suc n) x \<longleftrightarrow> (case ideal_poll st x of Inl _ \<Rightarrow> False
     | Inr y \<Rightarrow> (\<exists>evs. trace (snd y) = trace (snd x) @ evs \<and> good (fst x) (pushed evs)) \<and> polls_send good st n y)"

lemma polls_send_add:
  "polls_send good st (m + n) x \<longleftrightarrow> polls_send good st m x \<and> (case ideal_polls st m x of Inl _ \<Rightarrow> True | Inr y \<Rightarrow> polls_send good st n y)"
  by (induction m arbitrary: x) (auto simp: rbind_def split: sum.splits)

section \<open>Where the tasks go\<close>

text \<open>The drive position after a task, \<open>None\<close> for a task outside this account or one that is refused.\<close>

definition move_task :: "string \<Rightarrow> coord_manager \<Rightarrow> axis_t \<Rightarrow> int \<Rightarrow> CoordinateMode \<Rightarrow> pyfloat option list \<Rightarrow> axis_t option" where
  "move_task name m p ix md values =
     (case cmd_vals values of
        Inl _ \<Rightarrow> None
      | Inr vs \<Rightarrow>
         if \<not> exist_coordinate_index m (uint32 ix) then None
         else case machine_target name m ix md (motor_to_machine m p) vs of
                Inl _ \<Rightarrow> None
              | Inr t \<Rightarrow> if within_limits (soft_limits m) (motor_to_machine m p) t
                        then Some (machine_to_motor m t) else None)"

fun goto :: "coord_manager \<Rightarrow> axis_t \<Rightarrow> task_body \<Rightarrow> axis_t option" where
  "goto m p (G00Motion _ _ _ ix md values) = move_task ''g00'' m p ix md values"
| "goto m p (G01Motion ix md values) = move_task ''g01'' m p ix md values"
| "goto m p CoordinateModeTask = Some p"
| "goto m p (CoordinateIndexTask ix) = (if exist_coordinate_index m (uint32 ix) then Some p else None)"
| "goto m p (EleparamSet _) = Some p"
| "goto m p FeedSpeedSet = Some p"
| "goto m p (Deley t) = (if finite_float t then Some p else None)"
| "goto m p _ = None"

fun walk :: "coord_manager \<Rightarrow> axis_t \<Rightarrow> task_body list \<Rightarrow> axis_t list option" where
  "walk m p [] = Some []"
| "walk m p (b # bs) =
     (case goto m p b of None \<Rightarrow> None | Some q \<Rightarrow> map_option ((#) q) (walk m q bs))"

text \<open>The commands a task sends.\<close>

fun sent :: "prep \<Rightarrow> motion_cmd list" where
  "sent (Sends c _) = [c]"
| "sent _ = []"

fun task_cmds :: "settings \<Rightarrow> coord_manager \<Rightarrow> axis_t \<Rightarrow> task_body \<Rightarrow> motion_cmd list" where
  "task_cmds st m p (G00Motion detect touch feed ix md values) =
     (case cmd_vals values of Inl _ \<Rightarrow> [] | Inr vs \<Rightarrow> sent (prepare_g00 st m p detect touch feed ix md vs))"
| "task_cmds st m p (G01Motion ix md values) =
     (case cmd_vals values of Inl _ \<Rightarrow> [] | Inr vs \<Rightarrow> sent (prepare_g01 m p ix md vs))"
| "task_cmds st m p (Deley t) = (case double_val t of Inl _ \<Rightarrow> [] | Inr d \<Rightarrow> [AutoG04Delay d])"
| "task_cmds st m p _ = []"

fun walk_sends :: "(axis_t \<Rightarrow> motion_cmd list \<Rightarrow> bool) \<Rightarrow> settings \<Rightarrow> coord_manager \<Rightarrow> axis_t \<Rightarrow> task_body list \<Rightarrow> bool" where
  "walk_sends good st m p [] \<longleftrightarrow> True"
| "walk_sends good st m p (b # bs) \<longleftrightarrow> good p (task_cmds st m p b)
     \<and> (case goto m p b of None \<Rightarrow> True | Some q \<Rightarrow> walk_sends good st m q bs)"

lemma move_task_axis:
  assumes "move_task name m p ix md values = Some q" "cm_ok m" "is_axis p"
  shows "is_axis q"
proof -
  obtain vs t where t: "cmd_vals values = Inr vs" "machine_target name m ix md (motor_to_machine m p) vs = Inr t"
    "q = machine_to_motor m t"
    using assms(1) by (auto simp: move_task_def split: sum.splits if_splits)
  have "length vs = 6" using t(1) by (auto simp: cmd_vals_def split: if_splits dest: rmap_Inr_length)
  then show ?thesis using machine_target_axis[OF t(2) assms(2)] t(3) assms(2,3) by simp
qed

lemma goto_axis: "goto m p b = Some q \<Longrightarrow> cm_ok m \<Longrightarrow> is_axis p \<Longrightarrow> is_axis q"
  by (cases b) (auto simp: move_task_axis split: if_splits)

text \<open>The handlers of the rapid and the cutting move do what the account says.\<close>

lemma move_task_prepare:
  assumes "move_task name m p ix md values = Some q" "cm_ok m" "is_axis p"
  shows "name = ''g00'' \<Longrightarrow> \<exists>vs. cmd_vals values = Inr vs \<and>
      (if q = p then prepare_g00 st m p detect touch feed ix md vs = Skips
       else \<exists>c msg. prepare_g00 st m p detect touch feed ix md vs = Sends c msg \<and> straight_move c = Some (p, q))"
    and "name = ''g01'' \<Longrightarrow> \<exists>vs. cmd_vals values = Inr vs \<and>
      (if q = p then prepare_g01 m p ix md vs = Skips
       else \<exists>c msg. prepare_g01 m p ix md vs = Sends c msg \<and> straight_move c = Some (p, q))"
proof -
  let ?s = "motor_to_machine m p"
  obtain vs t where t: "cmd_vals values = Inr vs" "exist_coordinate_index m (uint32 ix)"
    "machine_target name m ix md ?s vs = Inr t" "within_limits (soft_limits m) ?s t" "q = machine_to_motor m t"
    using assms(1) by (auto simp: move_task_def split: sum.splits if_splits)
  have len: "length vs = 6" using t(1) by (auto simp: cmd_vals_def split: if_splits dest: rmap_Inr_length)
  have s: "is_axis ?s" and ta: "is_axis t" using assms(2,3) machine_target_axis[OF t(3) assms(2) _ len] by simp_all
  have same: "q = p \<longleftrightarrow> ?s = t" using t(5) assms(2,3) ta by auto
  have chk: "CheckPosandnegSoftLimit (soft_limits m) t (CalcAxisUnitVector ?s t)" if "?s \<noteq> t"
    using check_limit_iff[OF s ta that] t(4) by simp
  show "name = ''g00'' \<Longrightarrow> \<exists>vs. cmd_vals values = Inr vs \<and>
      (if q = p then prepare_g00 st m p detect touch feed ix md vs = Skips
       else \<exists>c msg. prepare_g00 st m p detect touch feed ix md vs = Sends c msg \<and> straight_move c = Some (p, q))"
    using t same chk by (auto simp: prepare_g00_def IsAxisTheSame_def send_g00_def Let_def)
  show "name = ''g01'' \<Longrightarrow> \<exists>vs. cmd_vals values = Inr vs \<and>
      (if q = p then prepare_g01 m p ix md vs = Skips
       else \<exists>c msg. prepare_g01 m p ix md vs = Sends c msg \<and> straight_move c = Some (p, q))"
    using t same chk by (auto simp: prepare_g01_def IsAxisTheSame_def Let_def)
qed

section \<open>The closed loop follows the tasks\<close>

definition follows :: "event list \<Rightarrow> runner \<Rightarrow> runner \<Rightarrow> bool" where
  "follows evs r r' \<longleftrightarrow> run_inv False r' \<and> bodies r' = bodies r \<and> cm (coord_sys r') = cm (coord_sys r)
     \<and> \<not> delay_pause_flag r' \<and> last_error_str r' = last_error_str r \<and> trace r' = trace r @ evs"

lemma follows_trans: "follows evs r r' \<Longrightarrow> follows evs' r' r'' \<Longrightarrow> follows (evs @ evs') r r''"
  by (simp add: follows_def)

lemma ideal_env_ok [simp]: "is_axis p \<Longrightarrow> env_ok False (ideal_env st p)"
  by (simp add: env_ok_def ideal_env_def)

lemma ideal_env_fields [simp]:
  "info (ideal_env st p) = \<lparr>curr_cmd_axis_blu = p, sub_line_number = 0, main_mode = MM_Idle,
     auto_state = AutoStopped, TouchWarning = False\<rparr>"
  "accepts (ideal_env st p) c" "exist_eleparam_index (ideal_env st p) i"
  "set_current_eleparam_index (ideal_env st p) i" "\<not> with_drill (ideal_env st p)"
  by (simp_all add: ideal_env_def)

text \<open>A poll that leaves no delayed pause is what the handler of the state did.\<close>

lemma ideal_step:
  assumes "run_inv False r" "state r \<noteq> Stopped" "is_axis p"
    "poll_state (ideal_env st p) (r\<lparr>local_info_cache := info (ideal_env st p)\<rparr>) = Inr r'" "\<not> delay_pause_flag r'"
  shows "run_once (ideal_env st p) r = Inr r' \<and> run_inv False r'"
proof -
  have "gcode_list r \<noteq> []" using run_inv_active(1)[OF assms(1,2)] by auto
  from run_once_leads[OF assms(1) this ideal_env_ok[OF assms(3)]]
  have "\<exists>x. run_once (ideal_env st p) r = Inr x \<and> run_inv False x" by (auto simp: leads_def)
  moreover have "run_once (ideal_env st p) r = Inr r'" using assms(4,5) by (simp add: run_once_def)
  ultimately show ?thesis by simp
qed

lemma announce_follows:
  assumes "run_inv False r" "\<not> delay_pause_flag r" "curr_gcode_num r < length (gcode_list r)"
  shows "follows [Emit (Sig_autogcode_switched_to_line (uint32 (line_number (n_task nd))))] r (announce_node E nd r)"
    "state (announce_node E nd r) = state r" "curr_gcode_num (announce_node E nd r) = curr_gcode_num r"
    "curr_body (announce_node E nd r) = curr_body r" "local_info_cache (announce_node E nd r) = local_info_cache r"
    "coord_sys (announce_node E nd r) = coord_sys r"
proof -
  have "same_point r (announce_node E nd r)"
    using same_point_refl[OF assms(1)] by (simp add: announce_node_def same_point_intros)
  then have "run_inv False (announce_node E nd r)" by (rule same_point_inv[OF assms(1)])
  then show "follows [Emit (Sig_autogcode_switched_to_line (uint32 (line_number (n_task nd))))] r (announce_node E nd r)"
    using assms(2) by (auto simp: follows_def announce_node_def)
qed (use assms(3) in \<open>auto simp: announce_node_def\<close>)

lemma next_follows:
  assumes "run_inv False r" "state r \<noteq> Stopped" "curr_body r \<noteq> ProgramEnd" "\<not> delay_pause_flag r" "\<not> with_drill E"
  shows "\<exists>r'. check_to_next_gcode E r = Inr r' \<and> follows [SingleShot 50] r r' \<and> state r' = CurrentNodeIniting
    \<and> curr_gcode_num r' = Suc (curr_gcode_num r)"
proof -
  obtain r' where r': "check_to_next_gcode E r = Inr r'" "run_inv False r'"
    "state r' = CurrentNodeIniting" "curr_gcode_num r' = Suc (curr_gcode_num r)" "bodies r' = bodies r"
    "coord_sys r' = coord_sys r" "delay_pause_flag r' = delay_pause_flag r"
    "last_error_str r' = last_error_str r" "\<not> with_drill E \<longrightarrow> trace r' = trace r @ [SingleShot 50]"
    using next_gcode[OF assms(1-3), of E] by metis
  then show ?thesis using assms(4,5) by (simp add: follows_def)
qed

lemma goto_prepare:
  assumes "goto (cm (coord_sys r)) p b = Some q" "is_motion_task b" "cm_ok (cm (coord_sys r))" "is_axis p"
    "curr_cmd_axis_blu (local_info_cache r) = p"
  shows "prepare_motion (ideal_env st p) r b = Inr Skips \<and> q = p \<and> task_cmds st (cm (coord_sys r)) p b = []
    \<or> (\<exists>c msg. prepare_motion (ideal_env st p) r b = Inr (Sends c msg) \<and> \<not> is_drill b
         \<and> driven [Push c] = (if q = p then [] else [q]) \<and> task_cmds st (cm (coord_sys r)) p b = [c])"
proof (cases b)
  case (G00Motion detect touch feed ix md vs)
  then obtain xs where "cmd_vals vs = Inr xs" "if q = p then prepare_g00 st (cm (coord_sys r)) p detect touch feed ix md xs = Skips
     else \<exists>c msg. prepare_g00 st (cm (coord_sys r)) p detect touch feed ix md xs = Sends c msg \<and> straight_move c = Some (p, q)"
    using move_task_prepare(1)[of "''g00''" "cm (coord_sys r)" p ix md vs q st detect touch feed] assms by auto
  then show ?thesis using G00Motion assms(5)
    by (auto simp: prepare_motion_def is_drill_def ideal_env_def split: if_splits)
next
  case (G01Motion ix md vs)
  then obtain xs where "cmd_vals vs = Inr xs" "if q = p then prepare_g01 (cm (coord_sys r)) p ix md xs = Skips
     else \<exists>c msg. prepare_g01 (cm (coord_sys r)) p ix md xs = Sends c msg \<and> straight_move c = Some (p, q)"
    using move_task_prepare(2)[of "''g01''" "cm (coord_sys r)" p ix md vs q] assms by auto
  then show ?thesis using G01Motion assms(5)
    by (auto simp: prepare_motion_def is_drill_def split: if_splits)
next
  case (Deley t)
  then have "q = p" "finite_float t" using assms(1) by (auto split: if_splits)
  then obtain x where "double_val t = Inr x" by (cases t) auto
  then show ?thesis using Deley \<open>q = p\<close> by (simp add: prepare_motion_def is_drill_def)
qed (use assms in auto)

lemma carry_out_sends:
  assumes "run_inv False r" "state r = CurrentNodeIniting" "\<not> delay_pause_flag r" "\<not> is_drill (n_body nd)"
  shows "\<exists>r'. carry_out (ideal_env st p) nd r (Sends c msg) = Inr r' \<and> follows [Push c] r r'
    \<and> state r' = Running \<and> curr_gcode_num r' = curr_gcode_num r"
proof -
  have "run_inv False (push_command c r)"
    using same_point_inv[OF assms(1) same_point_record[OF same_point_refl[OF assms(1)]]] .
  then have "run_inv False (switch_to_state Running (push_command c r))"
    using assms(2) by (intro run_inv_switch) simp_all
  then show ?thesis using assms(3,4) by (simp add: carry_out_def follows_def)
qed

text \<open>
  The first poll of a task: it starts to run, with the move sent, or the runner has gone on at
  once to the next task because the move leads nowhere.
\<close>

definition arrives :: "settings \<Rightarrow> axis_t \<Rightarrow> axis_t \<Rightarrow> runner \<Rightarrow> runner \<Rightarrow> bool" where
  "arrives st p q r r' \<longleftrightarrow> (\<exists>evs. follows evs r r' \<and> driven evs = (if q = p then [] else [q])
       \<and> pushed evs = task_cmds st (cm (coord_sys r)) p (curr_body r))
     \<and> (state r' = Running \<and> curr_gcode_num r' = curr_gcode_num r
        \<or> q = p \<and> is_motion_task (curr_body r) \<and> state r' = CurrentNodeIniting
          \<and> curr_gcode_num r' = Suc (curr_gcode_num r))"

lemma arrives_after:
  assumes "follows evs r r1" "driven evs = []" "pushed evs = []" "curr_gcode_num r1 = curr_gcode_num r" "follows evs' r1 r'"
    "pushed evs' = task_cmds st (cm (coord_sys r)) p (curr_body r)"
    "driven evs' = (if q = p then [] else [q])" "state r' = Running \<and> curr_gcode_num r' = curr_gcode_num r1
        \<or> q = p \<and> is_motion_task (curr_body r) \<and> state r' = CurrentNodeIniting
          \<and> curr_gcode_num r' = Suc (curr_gcode_num r1)"
  shows "arrives st p q r r'"
  using assms follows_trans[OF assms(1,5)] by (auto simp: arrives_def intro!: exI[of _ "evs @ evs'"])

lemma node_starts:
  assumes "run_inv False r" "state r = CurrentNodeIniting" "\<not> delay_pause_flag r" "is_axis p"
    and go: "curr_body r = ProgramEnd \<and> q = p \<or> goto (cm (coord_sys r)) p (curr_body r) = Some q"
  shows "\<exists>r'. run_once (ideal_env st p) r = Inr r' \<and> arrives st p q r r'"
proof -
  let ?E = "ideal_env st p" and ?b = "curr_body r" and ?nd = "gcode_list r ! curr_gcode_num r"
  let ?r = "r\<lparr>local_info_cache := info ?E\<rparr>"
  let ?evs = "[Emit (Sig_autogcode_switched_to_line (uint32 (line_number (n_task ?nd))))]"
  have ns: "state r \<noteq> Stopped" using assms(2) by simp
  note act = run_inv_active[OF assms(1) ns]
  have inv: "run_inv False ?r" using assms(1) by (simp add: run_inv_def)
  define r1 where "r1 = announce_node ?E ?nd ?r"
  note ann = announce_follows[OF inv, where nd = ?nd and E = ?E, folded r1_def]
  have f1: "follows ?evs r r1" using ann(1) assms(3) act(1) by (simp add: follows_def)
  have at1: "state r1 = CurrentNodeIniting" "curr_gcode_num r1 = curr_gcode_num r" "curr_body r1 = ?b"
    "coord_sys r1 = coord_sys r" "curr_cmd_axis_blu (local_info_cache r1) = p" "run_inv False r1"
    "\<not> delay_pause_flag r1"
    using ann(2-6) assms(2,3) act(1) f1 by (simp_all add: follows_def)
  have poll: "poll_state ?E ?r = (if is_motion_task ?b then rbind (prepare_motion ?E r1 ?b) (carry_out ?E ?nd r1)
      else Inr (switch_to_state Running r1))"
    using act(1) assms(2) by (simp add: poll_state_def state_current_node_initing_def curr_gcode_def r1_def Let_def)
  have "\<exists>r'. poll_state ?E ?r = Inr r' \<and> arrives st p q r r'"
  proof (cases "is_motion_task ?b")
    case False
    then have "q = p" "task_cmds st (cm (coord_sys r)) p ?b = []" using go by (cases ?b; auto split: if_splits)+
    moreover have "follows [] r1 (switch_to_state Running r1)"
      using at1 run_inv_switch[OF at1(6), of Running] by (simp add: follows_def)
    ultimately show ?thesis using False poll at1(2) arrives_after[OF f1, of "[]" _ st p q] by simp
  next
    case True
    then have "goto (cm (coord_sys r1)) p ?b = Some q" using go at1(4) by auto
    then consider "prepare_motion ?E r1 ?b = Inr Skips" "q = p" "task_cmds st (cm (coord_sys r)) p ?b = []"
      | c msg where "prepare_motion ?E r1 ?b = Inr (Sends c msg)" "\<not> is_drill ?b" "driven [Push c] = (if q = p then [] else [q])"
          "task_cmds st (cm (coord_sys r)) p ?b = [c]"
      using goto_prepare[OF _ True _ assms(4) at1(5), of q st] act(5) cs_inv_cm at1(4) by auto
    then show ?thesis
    proof cases
      case 1
      have "curr_body r1 \<noteq> ProgramEnd" using True at1(3) motion_not_end by simp
      then obtain r2 where "check_to_next_gcode ?E r1 = Inr r2" "follows [SingleShot 50] r1 r2"
        "state r2 = CurrentNodeIniting" "curr_gcode_num r2 = Suc (curr_gcode_num r1)"
        using next_follows[OF at1(6) _ _ at1(7), of ?E] at1(1) by auto
      then show ?thesis using 1 True poll at1(2) arrives_after[OF f1, of "[SingleShot 50]" r2 st p q] by (simp add: carry_out_def)
    next
      case 2
      then show ?thesis using carry_out_sends[OF at1(6,1,7), of ?nd st p c msg] True poll at1(2)
          arrives_after[OF f1, of "[Push c]" _ st p q] by auto
    qed
  qed
  then obtain r' where r': "poll_state ?E ?r = Inr r'" "arrives st p q r r'" by blast
  then have "\<not> delay_pause_flag r'" by (auto simp: arrives_def follows_def)
  then show ?thesis using ideal_step[OF assms(1) ns assms(4) r'(1)] r'(2) by blast
qed

lemma wake_follows:
  assumes "run_inv False r" "\<not> delay_pause_flag r" "curr_gcode_num r < length (gcode_list r)"
  shows "follows [] r (wake_timer E nd r)" "state (wake_timer E nd r) = state r"
    "curr_gcode_num (wake_timer E nd r) = curr_gcode_num r" "curr_body (wake_timer E nd r) = curr_body r"
    "local_info_cache (wake_timer E nd r) = local_info_cache r" "coord_sys (wake_timer E nd r) = coord_sys r"
proof -
  have "same_point r (wake_timer E nd r)" using same_point_refl[OF assms(1)]
    by (auto simp: wake_timer_def same_point_intros split: timer_state.splits)
  then have "run_inv False (wake_timer E nd r)" by (rule same_point_inv[OF assms(1)])
  then show "follows [] r (wake_timer E nd r)"
    using assms(2) by (auto simp: follows_def wake_timer_def split: timer_state.splits)
qed (use assms(3) in \<open>auto simp: wake_timer_def split: timer_state.splits\<close>)

lemma set_coord_index_cm [simp]: "cm (snd (set_coord_index ix cs)) = cm cs"
  by (simp add: set_coord_index_def)

text \<open>The task at hand is over at the next poll.\<close>

lemma task_over:
  assumes "run_inv False r" "state r = Running" "\<not> delay_pause_flag r"
    "goto (cm (coord_sys r)) p (curr_body r) = Some q'" "main_mode (local_info_cache r) = MM_Idle"
    "\<not> TouchWarning (local_info_cache r)"
  shows "\<exists>r1. (\<exists>evs. follows evs r r1 \<and> driven evs = [] \<and> pushed evs = []) \<and> state r1 = Running \<and> curr_gcode_num r1 = curr_gcode_num r
    \<and> curr_body r1 = curr_body r \<and> state_running (ideal_env st q) r = check_to_next_gcode (ideal_env st q) r1"
proof -
  let ?E = "ideal_env st q" and ?b = "curr_body r" and ?nd = "gcode_list r ! curr_gcode_num r"
  have ns: "state r \<noteq> Stopped" using assms(2) by simp
  note act = run_inv_active[OF assms(1) ns]
  let ?r1 = "wake_timer ?E ?nd r"
  note wake = wake_follows[OF assms(1,3) act(1), where E = ?E and nd = ?nd]
  have this_point: ?thesis if "state_running ?E r = check_to_next_gcode ?E ?r1"
    using that wake assms(2) by (intro exI[of _ ?r1]) (auto intro!: exI[of _ "[]"])
  show ?thesis
  proof (cases ?b)
    case (CoordinateIndexTask ix)
    let ?cs = "snd (set_coord_index (uint32 ix) (coord_sys r))"
    let ?ev = "Emit (Sig_switch_coordindex (uint32 ix))"
    let ?r2 = "(record_event ?ev ?r1)\<lparr>coord_sys := ?cs\<rparr>"
    have "same_point ?r1 ?r2"
      using same_point_refl[of False ?r1] wake(1) set_coord_index_inv[OF act(5)]
      by (intro same_point_intros) (simp_all add: follows_def)
    then have "run_inv False ?r2" using same_point_inv wake(1) by (auto simp: follows_def)
    then have "follows [?ev] r ?r2" using wake by (simp add: follows_def)
    moreover have "state_running ?E r = check_to_next_gcode ?E ?r2"
      using act(1) CoordinateIndexTask assms(4) wake(6)
      by (simp add: state_running_def curr_gcode_def state_running_non_motion_def run_coord_index_def Let_def split: if_splits)
    ultimately show ?thesis using wake assms(2) by (intro exI[of _ ?r2]) (auto intro!: exI[of _ "[?ev]"])
  qed (use act(1) assms(4-6) wake(5) this_point in
    \<open>simp_all add: state_running_def curr_gcode_def state_running_non_motion_def run_eleparam_set_def poll_motion_def
      show_sub_line_def is_group_def motion_over_def Let_def\<close>)
qed

lemma node_finishes:
  assumes "run_inv False r" "state r = Running" "\<not> delay_pause_flag r" "is_axis q"
    "goto (cm (coord_sys r)) p (curr_body r) = Some q'"
  shows "\<exists>r' evs. run_once (ideal_env st q) r = Inr r' \<and> follows evs r r' \<and> driven evs = [] \<and> pushed evs = []
    \<and> state r' = CurrentNodeIniting \<and> curr_gcode_num r' = Suc (curr_gcode_num r)"
proof -
  let ?E = "ideal_env st q"
  let ?r = "r\<lparr>local_info_cache := info ?E\<rparr>"
  have ns: "state r \<noteq> Stopped" using assms(2) by simp
  have inv: "run_inv False ?r" using assms(1) by (simp add: run_inv_def)
  obtain r1 evs where r1: "follows evs ?r r1" "driven evs = [] \<and> pushed evs = []" "state r1 = Running" "curr_gcode_num r1 = curr_gcode_num r"
    "curr_body r1 = curr_body r" "state_running ?E ?r = check_to_next_gcode ?E r1"
    using task_over[OF inv, of p q' st q] assms by auto
  have "curr_body r1 \<noteq> ProgramEnd" using r1(5) assms(5) by auto
  then obtain r2 where r2: "check_to_next_gcode ?E r1 = Inr r2" "follows [SingleShot 50] r1 r2"
    "state r2 = CurrentNodeIniting" "curr_gcode_num r2 = Suc (curr_gcode_num r1)"
    using next_follows[of r1 ?E] r1(1,3) by (auto simp: follows_def)
  have f: "follows (evs @ [SingleShot 50]) r r2" using follows_trans[OF r1(1) r2(2)] by (simp add: follows_def)
  have "poll_state ?E ?r = Inr r2" using assms(2) r1(6) r2(1) by (simp add: poll_state_def)
  then have "run_once ?E r = Inr r2" using ideal_step[OF assms(1) ns assms(4)] r2(2) by (auto simp: follows_def)
  then show ?thesis using f r1(2,4) r2(3,4) by (intro exI[of _ r2] exI[of _ "evs @ [SingleShot 50]"]) simp
qed

lemma program_ends:
  assumes "run_inv False r" "state r = Running" "\<not> delay_pause_flag r" "is_axis q" "curr_body r = ProgramEnd"
  shows "\<exists>r' evs. run_once (ideal_env st q) r = Inr r' \<and> run_inv False r' \<and> gcode_list r' \<noteq> [] \<and> state r' = Stopped
    \<and> last_error_str r' = [] \<and> trace r' = trace r @ evs \<and> driven evs = [] \<and> pushed evs = []"
proof -
  let ?E = "ideal_env st q" and ?nd = "gcode_list r ! curr_gcode_num r"
  let ?r = "r\<lparr>local_info_cache := info ?E\<rparr>"
  have ns: "state r \<noteq> Stopped" using assms(2) by simp
  have inv: "run_inv False ?r" using assms(1) by (simp add: run_inv_def)
  have rng: "curr_gcode_num r < length (gcode_list r)" using run_inv_active(1)[OF assms(1) ns] .
  let ?r1 = "wake_timer ?E ?nd ?r"
  have w: "follows [] ?r ?r1" using wake_follows(1)[OF inv] assms(3) rng by simp
  have "bodies ?r1 = bodies r" using w by (simp add: follows_def)
  then have len: "length (gcode_list ?r1) = length (gcode_list r)" by (rule map_eq_imp_length_eq)
  have "poll_state ?E ?r = Inr (end_run ?E ?r1)"
    using assms(2,5) rng by (simp add: poll_state_def state_running_def curr_gcode_def state_running_non_motion_def)
  then have "run_once ?E r = Inr (end_run ?E ?r1)" "run_inv False (end_run ?E ?r1)"
    using ideal_step[OF assms(1) ns assms(4)] by auto
  moreover have "trace (end_run ?E ?r1) = trace r @ [Emit (Sig_auto_stopped False)]" using w by (simp add: follows_def)
  moreover have "gcode_list (end_run ?E ?r1) \<noteq> []" using len rng by auto
  ultimately show ?thesis by (intro exI[of _ "end_run ?E ?r1"] exI[of _ "[Emit (Sig_auto_stopped False)]"]) simp
qed

section \<open>The whole run\<close>

lemma ideal_poll_step:
  assumes "run_once (ideal_env st p) r = Inr r'" "trace r' = trace r @ evs"
  shows "ideal_poll st (p, r) = Inr (last (p # driven evs), r')"
  using assms by (simp add: ideal_poll_def)

lemma polls_send_step:
  assumes "run_once (ideal_env st p) r = Inr r'" "trace r' = trace r @ evs"
  shows "polls_send good st (Suc n) (p, r) \<longleftrightarrow> good p (pushed evs) \<and> polls_send good st n (last (p # driven evs), r')"
  using assms by (simp add: ideal_poll_def)

text \<open>One task, in one or two polls.\<close>

lemma task_done:
  assumes "run_inv False r" "state r = CurrentNodeIniting" "\<not> delay_pause_flag r" "is_axis p"
    "goto (cm (coord_sys r)) p (curr_body r) = Some q"
  shows "\<exists>n r' evs. n \<le> 2 \<and> ideal_polls st n (p, r) = Inr (q, r') \<and> follows evs r r'
    \<and> driven evs = (if q = p then [] else [q]) \<and> state r' = CurrentNodeIniting \<and> curr_gcode_num r' = Suc (curr_gcode_num r)
    \<and> ((\<forall>x. good x []) \<longrightarrow> good p (task_cmds st (cm (coord_sys r)) p (curr_body r)) \<longrightarrow> polls_send good st n (p, r))"
proof -
  have ns: "state r \<noteq> Stopped" using assms(2) by simp
  note act = run_inv_active[OF assms(1) ns]
  obtain r1 where r1: "run_once (ideal_env st p) r = Inr r1" "arrives st p q r r1"
    using node_starts[OF assms(1-4)] assms(5) by blast
  then obtain evs where evs: "follows evs r r1" "driven evs = (if q = p then [] else [q])"
    "pushed evs = task_cmds st (cm (coord_sys r)) p (curr_body r)" by (auto simp: arrives_def)
  have poll1: "ideal_poll st (p, r) = Inr (q, r1)"
    using ideal_poll_step[OF r1(1), of evs] evs by (auto simp: follows_def)
  have send1: "polls_send good st (Suc n) (p, r) \<longleftrightarrow> good p (task_cmds st (cm (coord_sys r)) p (curr_body r)) \<and> polls_send good st n (q, r1)" for n
    using polls_send_step[OF r1(1), of evs good n] evs by (auto simp: follows_def)
  have "state r1 = Running \<and> curr_gcode_num r1 = curr_gcode_num r
        \<or> state r1 = CurrentNodeIniting \<and> curr_gcode_num r1 = Suc (curr_gcode_num r)"
    using r1(2) by (auto simp: arrives_def)
  then show ?thesis
  proof (elim disjE conjE)
    assume st: "state r1 = Running" "curr_gcode_num r1 = curr_gcode_num r"
    have b: "curr_body r1 = curr_body r" "cm (coord_sys r1) = cm (coord_sys r)"
      using evs(1) st(2) act(1) by (auto simp: follows_def dest: map_eq_imp_length_eq) (metis nth_map map_eq_imp_length_eq)
    have q: "is_axis q" using goto_axis[OF assms(5) cs_inv_cm[OF act(5)] assms(4)] .
    obtain r2 evs2 where r2: "run_once (ideal_env st q) r1 = Inr r2" "follows evs2 r1 r2" "driven evs2 = [] \<and> pushed evs2 = []"
      "state r2 = CurrentNodeIniting" "curr_gcode_num r2 = Suc (curr_gcode_num r1)"
      using node_finishes[of r1 q p q st] evs(1) st(1) q assms(5) b by (auto simp: follows_def)
    have "ideal_poll st (q, r1) = Inr (q, r2)" using ideal_poll_step[OF r2(1), of evs2] r2(2,3) by (simp add: follows_def)
    then have "ideal_polls st 2 (p, r) = Inr (q, r2)" using poll1 by (simp add: numeral_2_eq_2)
    moreover have "polls_send good st 2 (p, r)" if "\<forall>x. good x []" "good p (task_cmds st (cm (coord_sys r)) p (curr_body r))"
      using that send1[of 1] polls_send_step[OF r2(1), of evs2 good 0] r2(2,3) by (simp add: numeral_2_eq_2 follows_def)
    ultimately show ?thesis using follows_trans[OF evs(1) r2(2)] evs(2) r2(3-5) st(2)
      by (intro exI[of _ 2] exI[of _ r2] exI[of _ "evs @ evs2"]) simp
  next
    assume "state r1 = CurrentNodeIniting" "curr_gcode_num r1 = Suc (curr_gcode_num r)"
    then show ?thesis using poll1 evs send1[of 0] by (intro exI[of _ 1] exI[of _ r1] exI[of _ evs]) simp
  qed
qed

lemma current_of_rest:
  assumes "drop (curr_gcode_num r) (bodies r) = b # bs"
  shows "curr_body r = b" "drop (Suc (curr_gcode_num r)) (bodies r) = bs"
proof -
  have l: "curr_gcode_num r < length (gcode_list r)"
    using assms by (metis drop_all length_map list.distinct(1) not_le)
  then show "curr_body r = b" using nth_via_drop[OF assms] by simp
  have "drop (Suc (curr_gcode_num r)) (bodies r) = drop 1 (drop (curr_gcode_num r) (bodies r))" by (simp only: drop_drop) simp
  then show "drop (Suc (curr_gcode_num r)) (bodies r) = bs" using assms by simp
qed

lemma follows_body:
  assumes "follows evs r r1" "curr_gcode_num r1 = curr_gcode_num r" "curr_gcode_num r < length (gcode_list r)"
  shows "curr_body r1 = curr_body r"
proof -
  have eq: "bodies r1 = bodies r" using assms(1) by (simp add: follows_def)
  then have len: "length (gcode_list r1) = length (gcode_list r)" by (rule map_eq_imp_length_eq)
  have "bodies r1 ! curr_gcode_num r1 = bodies r ! curr_gcode_num r" using eq assms(2) by simp
  then show ?thesis using assms(2,3) len by simp
qed

lemma last_task_done:
  assumes "run_inv False r" "state r = CurrentNodeIniting" "\<not> delay_pause_flag r" "is_axis p" "curr_body r = ProgramEnd"
  shows "\<exists>r' evs. ideal_polls st 2 (p, r) = Inr (p, r') \<and> run_inv False r' \<and> gcode_list r' \<noteq> [] \<and> state r' = Stopped
    \<and> last_error_str r' = [] \<and> trace r' = trace r @ evs \<and> driven evs = []
    \<and> ((\<forall>x. good x []) \<longrightarrow> polls_send good st 2 (p, r))"
proof -
  obtain r1 where r1: "run_once (ideal_env st p) r = Inr r1" "arrives st p p r r1"
    using node_starts[OF assms(1-4), of p st] assms(5) by auto
  then obtain evs where evs: "follows evs r r1" "driven evs = [] \<and> pushed evs = []" using assms(5) by (auto simp: arrives_def)
  have st1: "state r1 = Running" "curr_gcode_num r1 = curr_gcode_num r" using r1(2) assms(5) by (auto simp: arrives_def)
  have "curr_gcode_num r < length (gcode_list r)" using run_inv_active(1)[OF assms(1)] assms(2) by simp
  then have "curr_body r1 = ProgramEnd" using follows_body[OF evs(1) st1(2)] assms(5) by simp
  then obtain r2 evs2 where r2: "run_once (ideal_env st p) r1 = Inr r2" "run_inv False r2" "gcode_list r2 \<noteq> []"
    "state r2 = Stopped" "last_error_str r2 = []" "trace r2 = trace r1 @ evs2" "driven evs2 = [] \<and> pushed evs2 = []"
    using program_ends[of r1 p st] evs(1) st1(1) assms(4) by (auto simp: follows_def)
  have "ideal_poll st (p, r) = Inr (p, r1)" using ideal_poll_step[OF r1(1), of evs] evs by (simp add: follows_def)
  moreover have "ideal_poll st (p, r1) = Inr (p, r2)" using ideal_poll_step[OF r2(1,6)] r2(7) by simp
  ultimately have "ideal_polls st 2 (p, r) = Inr (p, r2)" by (simp add: numeral_2_eq_2)
  moreover have "polls_send good st 2 (p, r)" if "\<forall>x. good x []"
    using that polls_send_step[OF r1(1), of evs good 1] polls_send_step[OF r2(1,6), of good 0] evs r2(7)
    by (simp add: numeral_2_eq_2 follows_def)
  ultimately show ?thesis using r2 evs by (intro exI[of _ r2] exI[of _ "evs @ evs2"]) (simp add: follows_def)
qed

lemma tasks_done:
  assumes "run_inv False r" "state r = CurrentNodeIniting" "\<not> delay_pause_flag r" "is_axis p"
    "drop (curr_gcode_num r) (bodies r) = bs @ [ProgramEnd]" "walk (cm (coord_sys r)) p bs = Some ps"
  shows "\<exists>n r' evs. n \<le> 2 * length bs + 2 \<and> ideal_polls st n (p, r) = Inr (last (p # ps), r')
    \<and> run_inv False r' \<and> gcode_list r' \<noteq> [] \<and> state r' = Stopped \<and> last_error_str r' = []
    \<and> trace r' = trace r @ evs \<and> p # driven evs = remdups_adj (p # ps)
    \<and> ((\<forall>x. good x []) \<longrightarrow> walk_sends good st (cm (coord_sys r)) p bs \<longrightarrow> polls_send good st n (p, r))"
  using assms
proof (induction bs arbitrary: p r ps)
  case Nil
  then have "curr_body r = ProgramEnd" using current_of_rest(1)[of r ProgramEnd "[]"] by simp
  then show ?case using last_task_done[OF Nil.prems(1-4), of st good] Nil.prems(6) by (auto intro!: exI[of _ 2])
next
  case (Cons b bs)
  have b: "curr_body r = b" "drop (Suc (curr_gcode_num r)) (bodies r) = bs @ [ProgramEnd]"
    using current_of_rest[of r b "bs @ [ProgramEnd]"] Cons.prems(5) by simp_all
  obtain q ps' where q: "goto (cm (coord_sys r)) p b = Some q" "walk (cm (coord_sys r)) q bs = Some ps'" "ps = q # ps'"
    using Cons.prems(6) by (auto split: option.splits)
  have qa: "is_axis q" using goto_axis[OF q(1) _ Cons.prems(4)] Cons.prems(1) cs_inv_cm by (simp add: run_inv_def)
  obtain n1 r1 evs1 where r1: "n1 \<le> 2" "ideal_polls st n1 (p, r) = Inr (q, r1)" "follows evs1 r r1"
    "driven evs1 = (if q = p then [] else [q])" "state r1 = CurrentNodeIniting" "curr_gcode_num r1 = Suc (curr_gcode_num r)"
    "(\<forall>x. good x []) \<Longrightarrow> good p (task_cmds st (cm (coord_sys r)) p b) \<Longrightarrow> polls_send good st n1 (p, r)"
    using task_done[OF Cons.prems(1-4), of q st good] q(1) b(1) by auto
  obtain n2 r2 evs2 where r2: "n2 \<le> 2 * length bs + 2" "ideal_polls st n2 (q, r1) = Inr (last (q # ps'), r2)"
    "run_inv False r2" "gcode_list r2 \<noteq> []" "state r2 = Stopped" "last_error_str r2 = []"
    "trace r2 = trace r1 @ evs2" "q # driven evs2 = remdups_adj (q # ps')"
    "(\<forall>x. good x []) \<Longrightarrow> walk_sends good st (cm (coord_sys r)) q bs \<Longrightarrow> polls_send good st n2 (q, r1)"
    using Cons.IH[of r1 q ps'] r1(3,5,6) b(2) q(2) qa by (auto simp: follows_def)
  have "ideal_polls st (n1 + n2) (p, r) = Inr (last (p # ps), r2)" using r1(2) r2(2) q(3) by (simp add: ideal_polls_add)
  moreover have "p # driven (evs1 @ evs2) = remdups_adj (p # ps)"
    using r1(4) r2(8) q(3) by (auto split: if_splits)
  moreover have "polls_send good st (n1 + n2) (p, r)" if "\<forall>x. good x []" "walk_sends good st (cm (coord_sys r)) p (b # bs)"
    using that r1(2,7) r2(9) q(1) by (simp add: polls_send_add)
  ultimately show ?case using r1(1,3) r2 by (intro exI[of _ "n1 + n2"] exI[of _ r2] exI[of _ "evs1 @ evs2"]) (simp add: follows_def)
qed

text \<open>After the end nothing moves any more.\<close>

lemma ideal_polls_stopped:
  assumes "run_inv False r" "state r = Stopped" "gcode_list r \<noteq> []"
  shows "\<exists>r'. ideal_polls st n (p, r) = Inr (p, r') \<and> state r' = Stopped \<and> last_error_str r' = last_error_str r
    \<and> trace r' = trace r \<and> ((\<forall>x. good x []) \<longrightarrow> polls_send good st n (p, r))"
  using assms
proof (induction n arbitrary: r)
  case (Suc n)
  obtain r1 where r1: "run_once (ideal_env st p) r = Inr r1" "run_inv False r1" "state r1 = Stopped" "gcode_list r1 \<noteq> []"
    "last_error_str r1 = last_error_str r" "trace r1 = trace r" using stopped_run_once[OF Suc.prems] by blast
  then have "ideal_poll st (p, r) = Inr (p, r1)" by (simp add: ideal_poll_def)
  then show ?case using Suc.IH[OF r1(2-4)] r1(5,6) by auto
qed simp

lemma cmd_vals_six: "cmd_vals vs = Inr xs \<Longrightarrow> six_finite vs"
proof -
  assume a: "cmd_vals vs = Inr xs"
  have "list_all (\<lambda>v. case v of None \<Rightarrow> True | Some f \<Rightarrow> finite_float f) vs" if "rmap opt_val vs = Inr xs" for vs xs
    using that
  proof (induction vs arbitrary: xs)
    case (Cons v vs)
    then show ?case by (cases v; cases "the v") (auto simp: rbind_Inr_iff)
  qed simp
  then show ?thesis using a by (auto simp: cmd_vals_def six_finite_def split: if_splits)
qed

lemma goto_task_ok: "goto m p b = Some q \<Longrightarrow> task_ok d b"
  by (cases b) (auto simp: move_task_def cmd_vals_six split: sum.splits if_splits)

lemma walk_tasks_ok: "walk m p bs = Some ps \<Longrightarrow> list_all (task_ok d) bs"
  by (induction bs arbitrary: p ps) (auto simp: goto_task_ok split: option.splits)

lemma walk_check:
  "walk m p bs = Some ps \<Longrightarrow> map n_body nodes = bs @ [ProgramEnd] \<Longrightarrow> check_nodes (ideal_env st p') m nodes = None"
proof (induction bs arbitrary: p ps nodes)
  case Nil
  then show ?case by auto
next
  case (Cons b bs)
  then obtain n ns where n: "nodes = n # ns" "n_body n = b" "map n_body ns = bs @ [ProgramEnd]" by auto
  obtain q where q: "goto m p b = Some q" "\<exists>ps. walk m q bs = Some ps" using Cons.prems(1) by (auto split: option.splits)
  then show ?case using Cons.IH n by (cases b) (auto split: if_splits)
qed

lemma ideal_program_sends:
  assumes "run_reach False r" and "state r = Stopped" and "map body ts = bs @ [ProgramEnd]"
    and "is_axis p" and "walk (cm (coord_sys r)) p bs = Some ps" and "2 * length ts + 1 \<le> n"
  shows "\<exists>r1 r' evs. operation_gcode_start (ideal_env st p) ts r = Inr (True, r1)
    \<and> ideal_polls st n (p, r1) = Inr (last (p # ps), r') \<and> state r' = Stopped \<and> last_error_str r' = []
    \<and> trace r' = trace r1 @ evs \<and> p # driven evs = remdups_adj (p # ps)
    \<and> ((\<forall>x. good x []) \<longrightarrow> walk_sends good st (cm (coord_sys r)) p bs \<longrightarrow> polls_send good st n (p, r1))"
proof -
  let ?E = "ideal_env st p" and ?nodes = "map new_node ts"
  have nb: "map n_body ?nodes = bs @ [ProgramEnd]" using assms(3) by (simp add: new_node_def o_def)
  have ne: "ts \<noteq> []" and last_task: "n_body (last ?nodes) = ProgramEnd"
    using nb by (auto, metis last_map last_snoc list.map_disc_iff snoc_eq_iff_butlast)
  let ?r0 = "r\<lparr>gcode_list := ?nodes, curr_gcode_num := 0, total_elapsed := 0\<rparr>"
  let ?r1 = "switch_to_state ReadyToStart (?r0\<lparr>timer_active := True, timer_interval := 1000\<rparr>)"
  have started: "operation_gcode_start ?E ts r = Inr (True, ?r1)"
    using assms(2) walk_check[OF assms(5) nb] ne last_task
    by (simp add: operation_gcode_start_def start_def is_over_def check_gcode_list_at_first_def)
  have inv0: "run_inv False r" using run_reach_inv[OF assms(1)] .
  have inv1: "run_inv False ?r1"
    using start_inv[OF inv0, of ?nodes ?E True ?r1] started nb walk_tasks_ok[OF assms(5)]
    by (simp add: operation_gcode_start_def)
  have fl: "\<not> delay_pause_flag ?r1" using inv0 assms(2) by (simp add: run_inv_def)
  let ?r2 = "emit Sig_auto_started (switch_to_state CurrentNodeIniting (?r1\<lparr>local_info_cache := info ?E\<rparr>))"
  have "run_once ?E ?r1 = Inr ?r2 \<and> run_inv False ?r2"
    using fl by (intro ideal_step[OF inv1 _ assms(4)]) (simp_all add: poll_state_def)
  then have poll1: "ideal_poll st (p, ?r1) = Inr (p, ?r2)" and inv2: "run_inv False ?r2"
    using ideal_poll_step[of st p ?r1 ?r2 "[Emit Sig_auto_started]"] by simp_all
  obtain k r3 evs where r3: "k \<le> 2 * length bs + 2" "ideal_polls st k (p, ?r2) = Inr (last (p # ps), r3)"
    "run_inv False r3" "gcode_list r3 \<noteq> []" "state r3 = Stopped" "last_error_str r3 = []"
    "trace r3 = trace ?r2 @ evs" "p # driven evs = remdups_adj (p # ps)"
    "(\<forall>x. good x []) \<longrightarrow> walk_sends good st (cm (coord_sys r)) p bs \<longrightarrow> polls_send good st k (p, ?r2)"
    using tasks_done[OF inv2 _ _ assms(4), of bs ps st good] fl nb assms(5) by auto
  obtain r4 where r4: "ideal_polls st (n - Suc k) (last (p # ps), r3) = Inr (last (p # ps), r4)" "state r4 = Stopped"
    "last_error_str r4 = last_error_str r3" "trace r4 = trace r3"
    "(\<forall>x. good x []) \<longrightarrow> polls_send good st (n - Suc k) (last (p # ps), r3)" using ideal_polls_stopped[OF r3(3,5,4)] by blast
  have "length ts = length bs + 1" using assms(3) by (metis length_append_singleton length_map Suc_eq_plus1)
  then have "n = Suc k + (n - Suc k)" using r3(1) assms(6) by simp
  then have "ideal_polls st n (p, ?r1) = rbind (ideal_polls st (Suc k) (p, ?r1)) (ideal_polls st (n - Suc k))"
    by (metis ideal_polls_add)
  then have "ideal_polls st n (p, ?r1) = Inr (last (p # ps), r4)" using poll1 r3(2) r4(1) by simp
  moreover have "trace r4 = trace ?r1 @ (Emit Sig_auto_started # evs)" using r4(4) r3(7) by simp
  moreover have "polls_send good st n (p, ?r1)" if "\<forall>x. good x []" "walk_sends good st (cm (coord_sys r)) p bs"
  proof -
    have "polls_send good st (Suc k) (p, ?r1)" using that poll1 r3(9) by simp
    then show ?thesis using that polls_send_add[of good st "Suc k" "n - Suc k" "(p, ?r1)"] \<open>n = Suc k + (n - Suc k)\<close>
        poll1 r3(2) r4(5) by simp
  qed
  ultimately show ?thesis using started r4 r3(6,8)
    by (intro exI[of _ ?r1] exI[of _ r4] exI[of _ "Emit Sig_auto_started # evs"]) simp
qed

lemma ideal_program_run:
  assumes "run_reach False r" and "state r = Stopped" and "map body ts = bs @ [ProgramEnd]"
    and "is_axis p" and "walk (cm (coord_sys r)) p bs = Some ps" and "2 * length ts + 1 \<le> n"
  shows "\<exists>r1 r' evs. operation_gcode_start (ideal_env st p) ts r = Inr (True, r1)
    \<and> ideal_polls st n (p, r1) = Inr (last (p # ps), r') \<and> state r' = Stopped \<and> last_error_str r' = []
    \<and> trace r' = trace r1 @ evs \<and> p # driven evs = remdups_adj (p # ps)"
  using ideal_program_sends[OF assms, where good = "\<lambda>_ _. True"] by blast

text \<open>C11: A program runs to its end and drives where its tasks say. Let the runner be in any state the
  application can reach with no program running, and let a task list end with the task of
  \<open>m02\<close>, its other tasks being absolute or incremental moves whose targets keep to the soft
  limits, mode, feed, delay, parameter or existing coordinate-index tasks. Then the list is
  accepted, and with a motion thread that carries out each command before it is next asked,
  \<open>2 n + 1\<close> polls for \<open>n\<close> tasks (or any larger number) end the run normally, without an error
  text; the moves sent are, in order, those to the positions computed from the tasks, less the
  ones that would not move.\<close>

theorem program_runs_to_its_end:
  assumes "run_reach False r" and "state r = Stopped" and "map body ts = bs @ [ProgramEnd]"
    and "is_axis p" and "walk (cm (coord_sys r)) p bs = Some ps" and "2 * length ts + 1 \<le> n"
  shows "\<exists>r1 r' evs. operation_gcode_start (ideal_env st p) ts r = Inr (True, r1)
    \<and> ideal_polls st n (p, r1) = Inr (last (p # ps), r') \<and> state r' = Stopped \<and> last_error_str r' = []
    \<and> trace r' = trace r1 @ evs \<and> p # driven evs = remdups_adj (p # ps)"
  by (rule ideal_program_run [OF assms])

section \<open>The example machine\<close>

lemma demo_env_ideal: "demo_env = ideal_env demo_settings (axis_init 0)"
  by (simp add: demo_env_def ideal_env_def)

lemma demo_index: "exist_coordinate_index demo_manager 55" "motor_to_machine demo_manager (axis_init 0) = axis_init 0"
  by (simp_all add: demo_manager_def default_manager_def new_CoordinateManager_def exist_coordinate_index_def
      upto_rec_numeral motor_to_machine_def sub_axis_def axis_init_def EDM_AXIS_NUM_def numeral_eq_Suc)

lemma demo_away: "[0, 0, 5000, 0, 0, 0] \<noteq> axis_init 0" "axis_init 0 \<noteq> [0, 0, 5000, 0, 0, 0]"
  by (simp_all add: axis_init_def EDM_AXIS_NUM_def numeral_eq_Suc)

lemma demo_walk:
  "walk demo_manager (axis_init 0) [G00Motion False False 100 55 AbsoluteMode [None, None, Some (Dec 5 0), None, None, None]]
   = Some [[0, 0, 5000, 0, 0, 0]]"
proof -
  let ?v = "[None, None, Some (Dec 5 0), None, None, None]" and ?t = "[0, 0, 5000, 0, 0, 0]"
  have v: "cmd_vals ?v = Inr [None, None, Some 5, None, None, None]" by (simp add: cmd_vals_def)
  have t: "machine_target ''g00'' demo_manager 55 AbsoluteMode (axis_init 0) [None, None, Some 5, None, None, None] = Inr ?t"
    by (simp add: machine_target_def demo_manager_def default_manager_def new_CoordinateManager_def upto_rec_numeral
        machine_to_coord_def coord_to_machine_def get_machine_pos_def target_abs_def add_axis_def sub_axis_def
        axis_init_def EDM_AXIS_NUM_def mm2blu_def EDM_BLU_PER_UM_def numeral_eq_Suc)
  have l: "within_limits (soft_limits demo_manager) (axis_init 0) ?t"
    by (auto simp: within_limits_def demo_manager_def axis_init_def EDM_AXIS_NUM_def less_Suc_eq numeral_eq_Suc)
  have m: "machine_to_motor demo_manager ?t = ?t"
    by (simp add: machine_to_motor_def demo_manager_def default_manager_def new_CoordinateManager_def add_axis_def
        axis_init_def EDM_AXIS_NUM_def numeral_eq_Suc)
  show ?thesis using v t l m demo_index by (simp add: move_task_def)
qed

text \<open>The first poll of the example program makes its first task current, the second sends its move.\<close>

definition demo_initing :: runner where
  "demo_initing = emit Sig_auto_started (switch_to_state CurrentNodeIniting (demo_started\<lparr>local_info_cache := info demo_env\<rparr>))"

lemma demo_initing:
  "run_once demo_env demo_started = Inr demo_initing" "run_reach False demo_initing" "state demo_initing = CurrentNodeIniting"
  "curr_body demo_initing = G00Motion False False 100 55 AbsoluteMode [None, None, Some (Dec 5 0), None, None, None]"
  "\<not> delay_pause_flag demo_initing" "cm (coord_sys demo_initing) = demo_manager"
proof -
  show step: "run_once demo_env demo_started = Inr demo_initing"
    using demo_started by (simp add: run_once_def poll_state_def demo_initing_def)
  show "run_reach False demo_initing"
    using run_reach.step [OF demo_started_reach run_step.poll [OF demo_env_ok step]] .
  have "bodies demo_started ! 0 = n_body (gcode_list demo_started ! 0)"
    using arg_cong [OF demo_started(3), of length] by (simp add: demo_tasks_def)
  then show "curr_body demo_initing = G00Motion False False 100 55 AbsoluteMode [None, None, Some (Dec 5 0), None, None, None]"
    using demo_started(3,4) by (simp add: demo_initing_def demo_tasks_def new_task_def)
qed (use demo_started in \<open>simp_all add: demo_initing_def\<close>)

lemma demo_moves:
  "\<exists>r' c. run_once demo_env demo_initing = Inr r' \<and> Push c \<in> set (drop (length (trace demo_initing)) (trace r'))
     \<and> straight_move c = Some (axis_init 0, [0, 0, 5000, 0, 0, 0])"
proof -
  let ?q = "[0, 0, 5000, 0, 0, 0]"
  have "goto demo_manager (axis_init 0) (curr_body demo_initing) = Some ?q"
    using demo_walk demo_initing(4) by (auto split: option.splits)
  then obtain r' evs where r': "run_once demo_env demo_initing = Inr r'" "follows evs demo_initing r'" "driven evs = [?q]"
    using node_starts [of demo_initing "axis_init 0" ?q demo_settings] demo_initing run_reach_inv
    by (auto simp: demo_env_ideal arrives_def demo_away)
  have tr: "drop (length (trace demo_initing)) (trace r') = evs" using r'(2) by (simp add: follows_def)
  have "?q \<in> set (driven evs)" using r'(3) by simp
  then obtain c where c: "Push c \<in> set evs" "\<exists>s. straight_move c = Some (s, ?q)"
    using driven_push by blast
  have "cmd_safe demo_manager (axis_init 0) c"
    using run_once_leads [OF run_reach_inv [OF demo_initing(2)] _ demo_env_ok] r'(1) c(1) tr demo_initing(3,6) run_reach_inv [OF demo_initing(2)]
    by (force simp: leads_def extends_def list_all_iff demo_env_def run_inv_def)
  then show ?thesis using r'(1) c tr cmd_safe_straight by blast
qed

theorem moves_within_soft_limits_witness:
  "\<exists>r' c. run_once demo_env demo_initing = Inr r' \<and> straight_move c = Some (axis_init 0, [0, 0, 5000, 0, 0, 0])
     \<and> in_limits (soft_limits demo_manager) (on_the_way (motor_to_machine demo_manager (axis_init 0))
          (motor_to_machine demo_manager [0, 0, 5000, 0, 0, 0]) (1 / 2))"
proof -
  obtain r' c where r': "run_once demo_env demo_initing = Inr r'" "Push c \<in> set (drop (length (trace demo_initing)) (trace r'))"
    "straight_move c = Some (axis_init 0, [0, 0, 5000, 0, 0, 0])" using demo_moves by blast
  have "in_limits (soft_limits demo_manager) (motor_to_machine demo_manager (axis_init 0))"
    unfolding demo_index(2)
    by (auto simp: in_limits_def demo_manager_def axis_init_def EDM_AXIS_NUM_def less_Suc_eq numeral_eq_Suc)
  then show ?thesis
    using moves_within_soft_limits [OF demo_initing(2) demo_env_ok r'(1,2) refl refl] r' demo_initing(6) by auto
qed

theorem program_runs_to_its_end_witness:
  "\<exists>r1 r' evs. operation_gcode_start (ideal_env demo_settings (axis_init 0)) demo_tasks demo_runner = Inr (True, r1)
    \<and> ideal_polls demo_settings 5 (axis_init 0, r1) = Inr ([0, 0, 5000, 0, 0, 0], r') \<and> state r' = Stopped
    \<and> last_error_str r' = [] \<and> trace r' = trace r1 @ evs \<and> driven evs = [[0, 0, 5000, 0, 0, 0]]"
proof -
  have "map body demo_tasks =
      [G00Motion False False 100 55 AbsoluteMode [None, None, Some (Dec 5 0), None, None, None]] @ [ProgramEnd]"
    by (simp add: demo_tasks_def new_task_def)
  then show ?thesis
    using program_runs_to_its_end [of demo_runner demo_tasks _ "axis_init 0" "[[0, 0, 5000, 0, 0, 0]]" 5 demo_settings]
      demo_walk demo_runner_reach demo_runner_fields(1,2) demo_system_eq(2)
    by (auto simp: demo_tasks_def demo_away)
qed

text \<open>The poll at the task of \<open>m02\<close>.\<close>

theorem run_ends_accounted_for_witness:
  "\<exists>r r'. run_reach False r \<and> state r = Running \<and> run_once demo_env r = Inr r' \<and> state r' = Stopped \<and> last_error_str r' = []"
proof -
  let ?ts = "[new_task ProgramEnd 1]"
  obtain r1 where r1: "operation_gcode_start demo_env ?ts demo_runner = Inr (True, r1)" "state r1 = ReadyToStart"
    "bodies r1 = [ProgramEnd]" "curr_gcode_num r1 = 0" "\<not> delay_pause_flag r1"
    using demo_runner_fields
    by (auto simp: operation_gcode_start_def start_def is_over_def check_gcode_list_at_first_def new_task_def new_node_def)
  have reach1: "run_reach False r1"
    by (rule run_reach.step [OF demo_runner_reach run_step.op_start [OF demo_env_ok _ r1(1)]]) (simp add: new_task_def)
  let ?r2 = "emit Sig_auto_started (switch_to_state CurrentNodeIniting (r1\<lparr>local_info_cache := info demo_env\<rparr>))"
  have poll2: "run_once demo_env r1 = Inr ?r2" using r1 by (simp add: run_once_def poll_state_def)
  have reach2: "run_reach False ?r2" using run_reach.step [OF reach1 run_step.poll [OF demo_env_ok poll2]] .
  have b2: "curr_body ?r2 = ProgramEnd" using r1(3,4) by (cases "gcode_list r1") auto
  then obtain r3 where r3: "run_once demo_env ?r2 = Inr r3" "arrives demo_settings (axis_init 0) (axis_init 0) ?r2 r3"
    using node_starts [OF run_reach_inv [OF reach2], of "axis_init 0" "axis_init 0" demo_settings] r1(5)
    by (auto simp: demo_env_ideal)
  have reach3: "run_reach False r3" using run_reach.step [OF reach2 run_step.poll [OF demo_env_ok r3(1)]] .
  have st3: "state r3 = Running" "curr_gcode_num r3 = curr_gcode_num ?r2" "\<exists>evs. follows evs ?r2 r3"
    using r3(2) b2 by (auto simp: arrives_def)
  then have "curr_body r3 = ProgramEnd"
    using follows_body [of _ ?r2 r3] b2 run_inv_active(1) [OF run_reach_inv [OF reach2]] by auto
  then obtain r4 where r4: "run_once demo_env r3 = Inr r4" "state r4 = Stopped" "last_error_str r4 = []"
    using program_ends [OF run_reach_inv [OF reach3] st3(1), of "axis_init 0" demo_settings] st3(3)
    by (auto simp: demo_env_ideal follows_def)
  then show ?thesis using run_ends_accounted_for [OF reach3 _ r4(1,2)] reach3 st3(1) by auto
qed

end
