(* ===== verification/Motion_Loop.thy ===== *)
theory Motion_Loop
  imports Motion_Cut Machine_Run
begin

text \<open>
  The task runner of the application in closed loop with the state machine of the motion thread: what
  \<open>Machine_Run\<close> assumes of a motion thread that obeys is what the modelled one does, for the
  programs whose commands are rapid moves, cutting moves and delays.
\<close>

section \<open>What the runner reads\<close>

text \<open>
  The information of the machine in place of the assumed one. The sub line number is read only while a
  group of cutting moves is current, which the programs of this theory do not have.
\<close>

definition info_of :: "machine \<Rightarrow> motion_info" where
  "info_of m = (case machine_info m of (p, md, st, w) \<Rightarrow>
     \<lparr>curr_cmd_axis_blu = p, sub_line_number = 0, main_mode = md, auto_state = st, TouchWarning = w\<rparr>)"

definition machine_env :: "settings \<Rightarrow> machine \<Rightarrow> env" where
  "machine_env st m = (ideal_env st (global_cmd_axis (shared_data m)))\<lparr>info := info_of m\<rparr>"

lemma ready_env: "ready p m \<Longrightarrow> machine_env st m = ideal_env st p"
  by (auto simp: ready_def machine_env_def info_of_def machine_info_def ideal_env_def mm_inv_def quiet_def)

section \<open>Carrying out a command\<close>

text \<open>The commands of a poll, each accepted and carried out until the machine is idle again.\<close>

inductive serve :: "real \<Rightarrow> motion_cmd list \<Rightarrow> machine \<Rightarrow> machine \<Rightarrow> bool" for T where
  none: "serve T [] m m"
| command: "handle_command T u all_ready c m = Inr (True, m1) \<Longrightarrow> (beat T)\<^sup>*\<^sup>* m1 m2 \<Longrightarrow> mm_mode m2 = MM_Idle \<Longrightarrow>
    serve T cs m2 m3 \<Longrightarrow> serve T (c # cs) m m3"

inductive_cases serve_NilE: "serve T [] m m'"
inductive_cases serve_ConsE: "serve T (c # cs) m m'"

text \<open>A rapid move, between its command and the idle mode.\<close>

lemma rapid_idle_ready: "rapid_machine t m \<Longrightarrow> enabled m \<Longrightarrow> mm_mode m = MM_Idle \<Longrightarrow> ready t m"
  by (simp add: rapid_machine_def ready_def)

lemma rapid_still:
  assumes "rapid_machine t m \<and> enabled m" "still m m'"
  shows "rapid_machine t m' \<and> enabled m'"
  using assms by (simp add: rapid_machine_def still_def)

lemma rapid_beat:
  assumes "rapid_machine t m \<and> enabled m" "beat T m m'" "0 < T"
  shows "rapid_machine t m' \<and> enabled m'"
  using assms(2,3)
proof (cases rule: beat_cases)
  case (cycle u)
  show ?thesis
  proof (cases "mm_mode m = MM_Idle")
    case True
    then have "ready t m'" using idle_beat[OF rapid_idle_ready assms(2,3)] assms(1) by blast
    then show ?thesis by (simp add: ready_def rapid_machine_def)
  next
    case False
    then have "mm_mode m = MM_Auto" using assms(1) by (simp add: rapid_machine_def)
    then show ?thesis using rapid_cycle[of t m T u m'] cycle_enabled[OF cycle] cycle assms(1,3) by simp
  qed
next
  case still
  then show ?thesis using rapid_still assms(1) by blast
qed

lemma rapid_beats: "(beat T)\<^sup>*\<^sup>* m m' \<Longrightarrow> 0 < T \<Longrightarrow> rapid_machine t m \<and> enabled m \<Longrightarrow> rapid_machine t m' \<and> enabled m'"
  by (induction rule: rtranclp_induct) (simp, metis rapid_beat)

lemma quiet_cycles_beats: "quiet_cycles T us k m = Inr m' \<Longrightarrow> (beat T)\<^sup>*\<^sup>* m m'"
proof (induction k arbitrary: m')
  case (Suc k)
  then obtain m1 where "quiet_cycles T us k m = Inr m1" "mm_run_once T (us k) (feel False m1) = Inr m'" by (auto simp: rbind_Inr_iff)
  then show ?case using Suc.IH by (meson beat.cycle rtranclp.rtrancl_into_rtrancl)
qed simp

text \<open>A delay.\<close>

definition delay_machine :: "axis_t \<Rightarrow> machine \<Rightarrow> bool" where
  "delay_machine p m \<longleftrightarrow> mm_inv m \<and> (ready p m \<or> (\<exists>n k. k \<le> n \<and> delaying p n k m))"

lemma delay_beat:
  assumes "delay_machine p m" "beat T m m'" "0 < T"
  shows "delay_machine p m'"
proof (cases "ready p m")
  case True
  then show ?thesis using idle_beat[OF True assms(2,3)] by (simp add: delay_machine_def ready_def)
next
  case False
  then obtain n k where d: "k \<le> n" "delaying p n k m" "mm_inv m" using assms(1) by (auto simp: delay_machine_def)
  from assms(2,3) show ?thesis
  proof (cases rule: beat_cases)
    case (cycle u)
    have i: "mm_inv m'" using mm_run_inv[OF feel_inv[OF d(3)] assms(3), of u False] cycle by auto
    show ?thesis
    proof (cases "k < n")
      case True
      then show ?thesis using delaying_cycle[OF d(2) True, of T u] cycle i by (auto simp: delay_machine_def)
    next
      case False
      then have "k = n" using d(1) by simp
      then have "ready p m'" using delaying_last[of p n m T u] d(2) cycle i by (auto simp: ready_def)
      then show ?thesis using i by (simp add: delay_machine_def)
    qed
  next
    case still
    then have "delaying p n k m'" "mm_inv m'" using d(2,3) by (simp_all add: delaying_def still_def)
    then show ?thesis using d(1) by (auto simp: delay_machine_def)
  qed
qed

lemma delay_beats: "(beat T)\<^sup>*\<^sup>* m m' \<Longrightarrow> 0 < T \<Longrightarrow> delay_machine p m \<Longrightarrow> delay_machine p m'"
  by (induction rule: rtranclp_induct) (blast intro: delay_beat)+

lemma delaying_idle: "delay_machine p m \<Longrightarrow> mm_mode m = MM_Idle \<Longrightarrow> ready p m"
  by (auto simp: delay_machine_def delaying_def)

section \<open>One poll's commands\<close>

text \<open>Nothing, a rapid or a cutting move away from the position, or a delay.\<close>

definition poll_cmds :: "axis_t \<Rightarrow> motion_cmd list \<Rightarrow> bool" where
  "poll_cmds p cs \<longleftrightarrow> cs = [] \<or> (\<exists>d. cs = [AutoG04Delay d])
     \<or> (\<exists>s t sp touch. cs = [AutoStartG00FastMove s t sp touch] \<and> speed_ok sp \<and> is_axis t \<and> t \<noteq> p)
     \<or> (\<exists>s t h. cs = [AutoStartG01ServoMove s t h] \<and> is_axis t \<and> t \<noteq> p)"

definition sent_to :: "motion_cmd list \<Rightarrow> axis_t list" where
  "sent_to cs = List.map_filter (\<lambda>c. map_option snd (straight_move c)) cs"

lemma driven_pushed: "driven evs = sent_to (pushed evs)"
proof (induction evs)
  case (Cons e evs)
  then show ?case by (cases e) (auto simp: sent_to_def map_filter_simps split: option.splits)
qed (simp add: sent_to_def map_filter_simps)

lemma g00_accepted:
  assumes "mm_mode m = MM_Idle" "is_axis (global_cmd_axis (shared_data m))" "is_axis t" "global_cmd_axis (shared_data m) \<noteq> t" "speed_ok sp" "0 < T"
  shows "fst (mm_start_auto_g00 T u sp t touch m)"
proof -
  note p = pm_start_inv(3)[OF assms(2-6), of u pm_blank]
  show ?thesis using assms(1) p
    by (simp add: mm_start_auto_g00_def mm_start_task_def restart_task_def g00_new_def pm_is_over_def mw_is_stopped_def pm_state_def)
qed

lemma serve_one:
  assumes "\<And>u. handle_command T u all_ready c m = Inr (True, m1)" "(beat T)\<^sup>*\<^sup>* m1 m2" "mm_mode m2 = MM_Idle"
    and "\<And>m'. (beat T)\<^sup>*\<^sup>* m1 m' \<Longrightarrow> mm_mode m' = MM_Idle \<Longrightarrow> ready q m'"
  shows "(\<exists>m'. serve T [c] m m') \<and> (\<forall>m'. serve T [c] m m' \<longrightarrow> ready q m')"
proof
  show "\<exists>m'. serve T [c] m m'" using serve.command[OF assms(1-3) serve.none] by blast
  show "\<forall>m'. serve T [c] m m' \<longrightarrow> ready q m'" using assms(1,4) by (auto elim!: serve_ConsE serve_NilE)
qed

lemma serve_cut:
  assumes "ready p m" "0 < T" "is_axis t" "t \<noteq> p"
  shows "(\<exists>m'. serve T [AutoStartG01ServoMove s t h] m m') \<and> (\<forall>m'. serve T [AutoStartG01ServoMove s t h] m m' \<longrightarrow> ready t m')"
proof -
  obtain m1 where m1: "\<And>u s. handle_command T u all_ready (AutoStartG01ServoMove s t h) m = Inr (True, m1)" "cutting t m1"
    "\<exists>g. curr_task (auto_task_runner m1) = Some (G01AutoTask g) \<and> g01_state g = G01Running \<and> servo_sub_state g = Servoing
       \<and> last_jump_end_time_ms g = now_ms (shared_data m1) \<and> tr_state (auto_task_runner m1) = NormalMoving \<and> cut_ok p t h (g, shared_data m1, [])"
    using start_g01_cutting[OF assms, of h] by metis
  obtain m2 where m2: "(beat T)\<^sup>*\<^sup>* m1 m2" "mm_mode m2 = MM_Idle"
    using cutting_comes_to_idle[OF m1(2) assms(2)] m1(3) by blast
  have "ready t m'" if "(beat T)\<^sup>*\<^sup>* m1 m'" "mm_mode m' = MM_Idle" for m'
    using cutting_beats[OF that(1) assms(2)] m1(2) that(2) by (auto simp: cutting_def)
  from serve_one[OF m1(1) m2 this] show ?thesis by blast
qed

lemma serve_cmds:
  assumes "ready p m" "0 < T" "poll_cmds p cs"
  shows "(\<exists>m'. serve T cs m m') \<and> (\<forall>m'. serve T cs m m' \<longrightarrow> ready (last (p # sent_to cs)) m')"
proof -
  have m: "mm_inv m" "enabled m" "quiet (shared_data m)" "mm_mode m = MM_Idle" "global_cmd_axis (shared_data m) = p"
    using assms(1) by (simp_all add: ready_def)
  have p: "is_axis p" using mm_inv_axis[OF m(1)] m(5) by simp
  from assms(3) consider (nothing) "cs = []" | (delay) d where "cs = [AutoG04Delay d]"
    | (rapid) s t sp touch where "cs = [AutoStartG00FastMove s t sp touch]" "speed_ok sp" "is_axis t" "t \<noteq> p"
    | (cut) s t h where "cs = [AutoStartG01ServoMove s t h]" "is_axis t" "t \<noteq> p"
    by (auto simp: poll_cmds_def)
  then show ?thesis
  proof cases
    case nothing
    then show ?thesis using assms(1) serve.none[of T m] by (auto simp: sent_to_def map_filter_simps elim: serve_NilE)
  next
    case delay
    obtain m1 where m1: "mm_start_auto_g04 T d m = (True, m1)" "delaying p (delay_cycles T d) 0 m1"
      using start_g04_delaying[OF m(2,4,3)] m(5) by metis
    have h: "handle_command T u all_ready (AutoG04Delay d) m = Inr (True, m1)" for u
      by (simp add: when_ready_def all_ready_def m1(1))
    have "mm_inv m1" using handle_command_inv[OF m(1) assms(2), of "AutoG04Delay d" zero_vars all_ready] h by (auto simp: sp_ok_def timely_def)
    then have dm: "delay_machine p m1" using m1(2) by (auto simp: delay_machine_def)
    let ?n = "delay_cycles T d"
    obtain m2 where m2: "quiet_cycles T (\<lambda>_. zero_vars) ?n m1 = Inr m2" "delaying p ?n ?n m2"
      using delaying_cycles[OF m1(2) order_refl] by blast
    obtain m3 where m3: "mm_run_once T zero_vars (feel False m2) = Inr m3" "mm_mode m3 = MM_Idle"
      using delaying_last[OF m2(2)] by blast
    have b: "(beat T)\<^sup>*\<^sup>* m1 m3"
      using quiet_cycles_beats[OF m2(1)] beat.cycle[OF m3(1)] by (meson rtranclp.rtrancl_into_rtrancl)
    have "ready p m'" if "(beat T)\<^sup>*\<^sup>* m1 m'" "mm_mode m' = MM_Idle" for m'
      using delaying_idle[OF delay_beats[OF that(1) assms(2) dm] that(2)] .
    from serve_one[OF h b m3(2) this] show ?thesis by (simp add: delay sent_to_def map_filter_simps)
  next
    case rapid
    have acc: "mm_start_auto_g00 T u sp t touch m = (True, snd (mm_start_auto_g00 T u sp t touch m))" for u
      using g00_accepted[OF m(4) _ rapid(3) _ rapid(2) assms(2)] m(5) p rapid(4) by (simp add: prod_eq_iff)
    have h: "handle_command T u all_ready (AutoStartG00FastMove s t sp touch) m = Inr (True, snd (mm_start_auto_g00 T u sp t touch m))" for u
      using acc by (simp add: when_ready_def all_ready_def)
    have go: "going T t (0, snd (mm_start_auto_g00 T u sp t touch m))" for u
      by (rule start_g00_going[OF m(1,3) assms(2) rapid(2,3) m(2) acc])
    obtain k m3 where m3: "quiet_cycles T (\<lambda>_. zero_vars) k (snd (mm_start_auto_g00 T zero_vars sp t touch m)) = Inr m3"
      "mm_mode m3 = MM_Idle" using rapid_ends[OF go] by blast
    have "serve T cs m m3" unfolding rapid(1)
      by (rule serve.command[OF h quiet_cycles_beats[OF m3(1)] m3(2) serve.none])
    moreover have "ready t m'" if "serve T cs m m'" for m'
    proof -
      from that obtain u m4 where m4: "(beat T)\<^sup>*\<^sup>* (snd (mm_start_auto_g00 T u sp t touch m)) m4" "mm_mode m4 = MM_Idle" "m' = m4"
        unfolding rapid(1) using h by (auto elim!: serve_ConsE serve_NilE simp del: handle_command.simps)
      have "rapid_machine t (snd (mm_start_auto_g00 T u sp t touch m)) \<and> enabled (snd (mm_start_auto_g00 T u sp t touch m))"
        using go[of u] by (simp add: going_def)
      then show ?thesis using rapid_beats[OF m4(1) assms(2)] rapid_idle_ready m4(2,3) by blast
    qed
    ultimately show ?thesis using rapid by (auto simp: sent_to_def map_filter_simps)
  next
    case cut
    show ?thesis using serve_cut[OF assms(1,2) cut(2,3)] by (simp add: cut(1) sent_to_def map_filter_simps)
  qed
qed

section \<open>The closed loop\<close>

text \<open>A poll of the runner: it reads the machine, and the machine carries out what it pushed.\<close>

inductive loop :: "real \<Rightarrow> settings \<Rightarrow> machine \<times> runner \<Rightarrow> machine \<times> runner \<Rightarrow> bool" for T st where
  poll: "run_once (machine_env st m) r = Inr r' \<Longrightarrow> serve T (pushed (drop (length (trace r)) (trace r'))) m m' \<Longrightarrow>
    loop T st (m, r) (m', r')"

inductive_simps loop_iff: "loop T st (m, r) x"

lemma loop_poll:
  assumes "ready p m" "0 < T" "run_once (ideal_env st p) r = Inr r'" "trace r' = trace r @ evs" "poll_cmds p (pushed evs)"
  shows "\<exists>m'. loop T st (m, r) (m', r')" and "loop T st (m, r) (m', r'') \<Longrightarrow> r'' = r' \<and> ready (last (p # driven evs)) m'"
proof -
  have i: "run_once (machine_env st m) r = Inr r'" "pushed (drop (length (trace r)) (trace r')) = pushed evs"
    using assms(3,4) by (simp_all add: ready_env[OF assms(1)])
  note s = serve_cmds[OF assms(1,2,5), folded driven_pushed]
  show "\<exists>m'. loop T st (m, r) (m', r')" using s i loop.poll[OF i(1)] by auto
  show "loop T st (m, r) (m', r'') \<Longrightarrow> r'' = r' \<and> ready (last (p # driven evs)) m'" using s i by (auto simp: loop_iff)
qed

text \<open>An execution of \<open>n\<close> polls, and where the machine is found at them.\<close>

definition execution :: "real \<Rightarrow> settings \<Rightarrow> nat \<Rightarrow> (nat \<Rightarrow> machine \<times> runner) \<Rightarrow> bool" where
  "execution T st n f \<longleftrightarrow> (\<forall>k < n. loop T st (f k) (f (Suc k)))"

definition places :: "nat \<Rightarrow> (nat \<Rightarrow> machine \<times> runner) \<Rightarrow> axis_t list" where
  "places n f = map (\<lambda>k. global_cmd_axis (shared_data (fst (f k)))) [0..<Suc n]"

lemma execution_Suc: "execution T st (Suc n) f \<longleftrightarrow> loop T st (f 0) (f 1) \<and> execution T st n (\<lambda>k. f (Suc k))"
  by (auto simp: execution_def less_Suc_eq_0_disj)

lemma execution_cons: "loop T st x y \<Longrightarrow> execution T st n f \<Longrightarrow> f 0 = y \<Longrightarrow> execution T st (Suc n) (case_nat x f)"
  by (simp add: execution_Suc)

lemma places_Suc: "places (Suc n) f = global_cmd_axis (shared_data (fst (f 0))) # places n (\<lambda>k. f (Suc k))"
  unfolding places_def by (subst map_upt_Suc) simp

lemma places_hd: "\<exists>qs. places n f = global_cmd_axis (shared_data (fst (f 0))) # qs"
  by (simp add: places_def upt_conv_Cons del: upt_Suc)

lemma poll_cmds_sent: "poll_cmds p cs \<Longrightarrow> sent_to cs = [] \<or> (\<exists>t. t \<noteq> p \<and> sent_to cs = [t])"
  by (auto simp: poll_cmds_def sent_to_def map_filter_simps)

text \<open>What the executions from an idle machine on have in common.\<close>

definition runs_as :: "real \<Rightarrow> settings \<Rightarrow> nat \<Rightarrow> machine \<times> runner \<Rightarrow> axis_t \<Rightarrow> runner \<Rightarrow> axis_t list \<Rightarrow> bool" where
  "runs_as T st n x p' r' ps \<longleftrightarrow> (\<exists>f. f 0 = x \<and> execution T st n f)
     \<and> (\<forall>f. f 0 = x \<longrightarrow> execution T st n f \<longrightarrow> snd (f n) = r' \<and> ready p' (fst (f n))
          \<and> (\<forall>k \<le> n. mm_mode (fst (f k)) = MM_Idle) \<and> remdups_adj (places n f) = ps)"

lemma runs_as_poll:
  assumes "ready p m" "0 < T" "run_once (ideal_env st p) r = Inr r1" "trace r1 = trace r @ evs" "poll_cmds p (pushed evs)"
    and "\<And>m1. ready (last (p # driven evs)) m1 \<Longrightarrow> runs_as T st n (m1, r1) p' r' (last (p # driven evs) # qs)"
  shows "runs_as T st (Suc n) (m, r) p' r' (p # driven evs @ qs)"
proof -
  note l = loop_poll[OF assms(1-5)]
  have p: "mm_mode m = MM_Idle" "global_cmd_axis (shared_data m) = p" using assms(1) by (simp_all add: ready_def)
  obtain m1 where m1: "loop T st (m, r) (m1, r1)" using l(1) by blast
  obtain f where f: "f 0 = (m1, r1)" "execution T st n f" using assms(6)[of m1] l(2)[OF m1] by (auto simp: runs_as_def)
  have "\<exists>f. f 0 = (m, r) \<and> execution T st (Suc n) f" using execution_cons[OF m1 f(2,1)] by (intro exI[of _ "case_nat (m, r) f"]) simp
  moreover have "snd (f (Suc n)) = r' \<and> ready p' (fst (f (Suc n))) \<and> (\<forall>k \<le> Suc n. mm_mode (fst (f k)) = MM_Idle)
      \<and> remdups_adj (places (Suc n) f) = p # driven evs @ qs" if f: "f 0 = (m, r)" "execution T st (Suc n) f" for f
  proof -
    let ?q = "last (p # driven evs)" and ?g = "\<lambda>k. f (Suc k)"
    obtain m2 r2 where m2: "f 1 = (m2, r2)" by (cases "f 1")
    then have m2: "f 1 = (m2, r1)" "ready ?q m2" using l(2)[of m2 r2] f by (simp_all add: execution_Suc)
    have g: "snd (f (Suc n)) = r'" "ready p' (fst (f (Suc n)))" "\<forall>k \<le> n. mm_mode (fst (f (Suc k))) = MM_Idle"
      "remdups_adj (places n ?g) = ?q # qs"
      using assms(6)[OF m2(2)] f(2) m2(1) by (auto simp: runs_as_def execution_Suc)
    have "\<forall>k \<le> Suc n. mm_mode (fst (f k)) = MM_Idle"
    proof (intro allI impI)
      fix k assume "k \<le> Suc n"
      then show "mm_mode (fst (f k)) = MM_Idle" using g(3) f(1) p(1) by (cases k) auto
    qed
    moreover obtain rs where rs: "places n ?g = ?q # rs" using places_hd[of n ?g] m2 by (auto simp: ready_def)
    have "remdups_adj (places (Suc n) f) = p # driven evs @ qs"
      using poll_cmds_sent[OF assms(5), folded driven_pushed] g(4) rs f(1) p(2) by (auto simp: places_Suc)
    ultimately show ?thesis using g(1,2) by blast
  qed
  ultimately show ?thesis unfolding runs_as_def by blast
qed

lemma loop_polls:
  assumes "ready p m" "0 < T" "polls_send poll_cmds st n (p, r)" "ideal_polls st n (p, r) = Inr (p', r')"
  shows "\<exists>evs. trace r' = trace r @ evs \<and> runs_as T st n (m, r) p' r' (p # driven evs)"
proof -
  have "\<exists>evs. trace r' = trace r @ evs \<and> (\<forall>m. ready p m \<longrightarrow> runs_as T st n (m, r) p' r' (p # driven evs))"
    using assms(3,4)
  proof (induction n arbitrary: p r)
    case 0
    then show ?case by (auto simp: runs_as_def execution_def places_def ready_def)
  next
    case (Suc n)
    obtain p1 r1 where p1: "ideal_poll st (p, r) = Inr (p1, r1)" "ideal_polls st n (p1, r1) = Inr (p', r')"
      using Suc.prems(2) by (auto simp: rbind_Inr_iff)
    obtain evs where e: "trace r1 = trace r @ evs" "poll_cmds p (pushed evs)" "polls_send poll_cmds st n (p1, r1)"
      using Suc.prems(1) p1(1) by auto
    have o: "run_once (ideal_env st p) r = Inr r1" "p1 = last (p # driven evs)"
      using p1(1) e(1) by (auto simp: ideal_poll_def rbind_Inr_iff)
    obtain evs2 where e2: "trace r' = trace r1 @ evs2" "\<And>m. ready p1 m \<Longrightarrow> runs_as T st n (m, r1) p' r' (p1 # driven evs2)"
      using Suc.IH[OF e(3) p1(2)] by blast
    have "runs_as T st (Suc n) (m, r) p' r' (p # driven (evs @ evs2))" if "ready p m" for m
      using runs_as_poll[OF that assms(2) o(1) e(1,2), of n p' r' "driven evs2"] e2(2) o(2) by simp
    then show ?case using e(1) e2(1) by (intro exI[of _ "evs @ evs2"]) simp
  qed
  then show ?thesis using assms(1) by blast
qed

text \<open>C12: The modelled motion thread is one that obeys. Where the runner would, polled against the ideal thread, push at
  each poll nothing, a delay, or one rapid or cutting move away from its position, the machine of the motion thread that is
  enabled, idle at that position and not touched can carry the polls out, and however it does so (any uninitialised
  variables of the planner, clocks, speeds of the servo board and settings of the jumps, any number of cycles between
  the polls that reaches the idle mode) the runner ends in the same state, with the machine idle at the position
  of the ideal thread.\<close>

theorem machine_refines_ideal:
  assumes "sh_ok sh" "0 < T" "(motion_step T)\<^sup>*\<^sup>* (mm_new sh) m"
    and "enabled m" "mm_mode m = MM_Idle" "quiet (shared_data m)"
    and "polls_send poll_cmds st n (global_cmd_axis (shared_data m), r)"
    and "ideal_polls st n (global_cmd_axis (shared_data m), r) = Inr (p', r')"
  shows "(\<exists>f. f 0 = (m, r) \<and> execution T st n f)
    \<and> (\<forall>f. f 0 = (m, r) \<longrightarrow> execution T st n f \<longrightarrow>
         snd (f n) = r' \<and> mm_mode (fst (f n)) = MM_Idle \<and> global_cmd_axis (shared_data (fst (f n))) = p')"
proof -
  have "ready (global_cmd_axis (shared_data m)) m"
    using motion_steps_inv[OF assms(3,2) mm_new_inv[OF assms(1)]] assms(4-6) by (simp add: ready_def)
  from loop_polls[OF this assms(2,7,8)] show ?thesis by (auto simp: runs_as_def ready_def)
qed

section \<open>Programs of rapid and cutting moves\<close>



text \<open>The speed of every feed can be planned with: the planner's limit is no feed of whole millimetres per minute.\<close>

lemma feed_cruise: "cruise_ok (if mm_min2blu_s (of_int feed) \<le> 0 then 1 else mm_min2blu_s (of_int feed))"
proof (cases "feed \<le> 0")
  case True
  then have "mm_min2blu_s (of_int feed) \<le> 0" by (simp add: mm_min2blu_s_def EDM_BLU_PER_UM_def mult_le_0_iff)
  then show ?thesis by (simp add: cruise_ok_def differ_def)
next
  case False
  then have "(1 :: real) \<le> of_int feed" by simp
  then have "16 \<le> mm_min2blu_s (of_int feed)" by (simp add: mm_min2blu_s_def EDM_BLU_PER_UM_def)
  then show ?thesis by (simp add: cruise_ok_def differ_def)
qed

lemma g00_cmds:
  assumes "0 < fmparam_max_acc_um_s2 st" "move_task ''g00'' m p ix md values = Some q" "cm_ok m" "is_axis p"
  shows "poll_cmds p (task_cmds st m p (G00Motion detect touch feed ix md values))"
proof -
  obtain vs where vs: "cmd_vals values = Inr vs" "if q = p then prepare_g00 st m p detect touch feed ix md vs = Skips
     else \<exists>c msg. prepare_g00 st m p detect touch feed ix md vs = Sends c msg \<and> straight_move c = Some (p, q)"
    using move_task_prepare(1)[OF assms(2-4), of st detect touch feed] by auto
  show ?thesis
  proof (cases "q = p")
    case True
    then show ?thesis using vs by (simp add: poll_cmds_def)
  next
    case False
    then obtain c msg where c: "prepare_g00 st m p detect touch feed ix md vs = Sends c msg" "straight_move c = Some (p, q)"
      using vs(2) by auto
    obtain t sp where t: "c = AutoStartG00FastMove p t sp detect"
      "sp = (GetDefaultSpeedparam st)\<lparr>cruise_v := if mm_min2blu_s (of_int feed) \<le> 0 then 1 else mm_min2blu_s (of_int feed)\<rparr>"
      using c(1) by (auto simp: prepare_g00_def send_g00_def Let_def split: if_splits sum.splits)
    have "acc_ok sp" using assms(1) by (simp add: t(2) acc_ok_def GetDefaultSpeedparam_def um2blu_def EDM_BLU_PER_UM_def Let_def)
    then have "speed_ok sp" using feed_cruise[of feed] by (simp add: speed_ok_def t(2) GetDefaultSpeedparam_def Let_def)
    moreover have "is_axis q" by (rule move_task_axis[OF assms(2-4)])
    ultimately show ?thesis using vs(1) c t(1) False by (auto simp: poll_cmds_def)
  qed
qed

lemma g01_cmds:
  assumes "move_task ''g01'' m p ix md values = Some q" "cm_ok m" "is_axis p"
  shows "poll_cmds p (task_cmds st m p (G01Motion ix md values))"
proof -
  obtain vs where vs: "cmd_vals values = Inr vs" "if q = p then prepare_g01 m p ix md vs = Skips
     else \<exists>c msg. prepare_g01 m p ix md vs = Sends c msg \<and> straight_move c = Some (p, q)"
    using move_task_prepare(2)[OF assms] by auto
  show ?thesis
  proof (cases "q = p")
    case True
    then show ?thesis using vs by (simp add: poll_cmds_def)
  next
    case False
    then obtain c msg where c: "prepare_g01 m p ix md vs = Sends c msg" "straight_move c = Some (p, q)" using vs(2) by auto
    obtain t h where "c = AutoStartG01ServoMove p t h" using c by (auto simp: prepare_g01_def Let_def split: if_splits sum.splits)
    moreover have "is_axis q" by (rule move_task_axis[OF assms])
    ultimately show ?thesis using vs(1) c False by (auto simp: poll_cmds_def)
  qed
qed

lemma walk_poll_cmds:
  assumes "0 < fmparam_max_acc_um_s2 st" "cm_ok m"
  shows "is_axis p \<Longrightarrow> walk m p bs = Some ps \<Longrightarrow> walk_sends poll_cmds st m p bs"
proof (induction bs arbitrary: p ps)
  case (Cons b bs)
  obtain q where q: "goto m p b = Some q" "\<exists>ps. walk m q bs = Some ps" using Cons.prems(2) by (auto split: option.splits)
  have "is_axis q" by (rule goto_axis[OF q(1) assms(2) Cons.prems(1)])
  then have rest: "walk_sends poll_cmds st m q bs" using Cons.IH[of q] q(2) by auto
  have "poll_cmds p (task_cmds st m p b)"
  proof (cases b)
    case (G00Motion detect touch feed ix md xs)
    then show ?thesis using g00_cmds[OF assms(1) _ assms(2) Cons.prems(1)] q(1) by (simp only: goto.simps)
  next
    case (G01Motion ix md xs)
    then show ?thesis using g01_cmds[OF _ assms(2) Cons.prems(1)] q(1) by (simp only: goto.simps)
  next
    case (Deley t)
    then show ?thesis by (simp add: poll_cmds_def split: sum.splits)
  qed (simp_all add: poll_cmds_def)
  then show ?case using rest q(1) by simp
qed simp

text \<open>The runs of a program whose tasks lead along \<open>ps\<close>.\<close>

lemma program_runs_as:
  assumes "ready p m" "0 < T" "run_reach False r" "state r = Stopped" "map body ts = bs @ [ProgramEnd]"
    and "walk (cm (coord_sys r)) p bs = Some ps" "0 < fmparam_max_acc_um_s2 st" "2 * length ts + 1 \<le> n"
  shows "\<exists>r1 r'. operation_gcode_start (machine_env st m) ts r = Inr (True, r1) \<and> state r' = Stopped \<and> last_error_str r' = []
    \<and> runs_as T st n (m, r1) (last (p # ps)) r' (remdups_adj (p # ps))"
proof -
  have p: "is_axis p" using assms(1) mm_inv_axis[of m] by (auto simp: ready_def)
  have cm: "cm_ok (cm (coord_sys r))" using run_reach_inv[OF assms(3)] by (simp add: run_inv_def cs_inv_cm)
  have ws: "walk_sends poll_cmds st (cm (coord_sys r)) p bs" by (rule walk_poll_cmds[OF assms(7) cm p assms(6)])
  have nil: "\<forall>x. poll_cmds x []" by (simp add: poll_cmds_def)
  obtain r1 r' evs where r1: "operation_gcode_start (ideal_env st p) ts r = Inr (True, r1)"
    "ideal_polls st n (p, r1) = Inr (last (p # ps), r')" "state r' = Stopped" "last_error_str r' = []"
    "trace r' = trace r1 @ evs" "p # driven evs = remdups_adj (p # ps)" "polls_send poll_cmds st n (p, r1)"
    using ideal_program_sends[OF assms(3-5) p assms(6,8), of st poll_cmds] nil ws by blast
  obtain evs2 where "trace r' = trace r1 @ evs2" "runs_as T st n (m, r1) (last (p # ps)) r' (p # driven evs2)"
    using loop_polls[OF assms(1,2) r1(7,2)] by blast
  then have "runs_as T st n (m, r1) (last (p # ps)) r' (remdups_adj (p # ps))" using r1(5,6) by simp
  moreover have "operation_gcode_start (machine_env st m) ts r = Inr (True, r1)" using r1(1) by (simp only: ready_env[OF assms(1)])
  ultimately show ?thesis using r1(3,4) by blast
qed

text \<open>C2: A program of rapid and cutting moves on the modelled machine. Let the runner be reachable with no program running,
  the motion thread reachable, enabled, idle and not touched, and the list end with the task of \<open>m02\<close>, its other tasks
  being rapid and cutting moves within the soft limits, mode, feed, parameter, delay or existing coordinate-index tasks. Then
  the list is accepted, the polls can be carried out, and every execution of \<open>2 n + 1\<close> polls or more ends with the
  runner stopped without an error; the positions at which the machine is found idle at the polls are, in order and
  without the repetitions, those computed from the tasks.\<close>

theorem program_drives_machine:
  assumes "sh_ok sh" "0 < T" "(motion_step T)\<^sup>*\<^sup>* (mm_new sh) m"
    and "enabled m" "mm_mode m = MM_Idle" "quiet (shared_data m)"
    and "run_reach False r" "state r = Stopped" "map body ts = bs @ [ProgramEnd]"
    and "walk (cm (coord_sys r)) (global_cmd_axis (shared_data m)) bs = Some ps" "0 < fmparam_max_acc_um_s2 st"
    and "2 * length ts + 1 \<le> n"
  shows "\<exists>r1. operation_gcode_start (machine_env st m) ts r = Inr (True, r1)
    \<and> (\<exists>f. f 0 = (m, r1) \<and> execution T st n f)
    \<and> (\<forall>f. f 0 = (m, r1) \<longrightarrow> execution T st n f \<longrightarrow> state (snd (f n)) = Stopped \<and> last_error_str (snd (f n)) = []
         \<and> (\<forall>k \<le> n. mm_mode (fst (f k)) = MM_Idle) \<and> remdups_adj (places n f) = remdups_adj (global_cmd_axis (shared_data m) # ps))"
proof -
  have "ready (global_cmd_axis (shared_data m)) m"
    using motion_steps_inv[OF assms(3,2) mm_new_inv[OF assms(1)]] assms(4-6) by (simp add: ready_def)
  from program_runs_as[OF this assms(2,7-12)] show ?thesis by (auto simp: runs_as_def)
qed

section \<open>The example program\<close>

lemma sample_from_zero: "sample_from = axis_init 0"
  by (simp add: sample_from_def axis_init_def EDM_AXIS_NUM_def numeral_eq_Suc)

lemma sample_idle_quiet: "quiet (shared_data sample_idle)"
  by (simp add: quiet_def)

text \<open>A program that moves at full speed and then cuts.\<close>

definition cut_tasks :: "task list" where
  "cut_tasks = [new_task (G00Motion False False 100 55 AbsoluteMode [None, None, Some (Dec 5 0), None, None, None]) 1,
     new_task (G01Motion 55 AbsoluteMode [None, None, Some (Dec 0 0), None, None, None]) 2, new_task ProgramEnd 3]"

lemma cut_walk: "walk (cm (coord_sys demo_runner)) (axis_init 0)
    [G00Motion False False 100 55 AbsoluteMode [None, None, Some (Dec 5 0), None, None, None],
     G01Motion 55 AbsoluteMode [None, None, Some (Dec 0 0), None, None, None]] = Some [[0, 0, 5000, 0, 0, 0], axis_init 0]"
proof -
  have m: "cm (coord_sys demo_runner) = demo_manager" using demo_runner_fields(2) demo_system_eq(2) by simp
  have z: "motor_to_machine demo_manager [0, 0, 5000, 0, 0, 0] = [0, 0, 5000, 0, 0, 0]" "machine_to_motor demo_manager (axis_init 0) = axis_init 0"
    by (simp_all add: demo_manager_def default_manager_def new_CoordinateManager_def motor_to_machine_def machine_to_motor_def
        sub_axis_def add_axis_def axis_init_def EDM_AXIS_NUM_def numeral_eq_Suc)
  have t: "machine_target ''g01'' demo_manager 55 AbsoluteMode [0, 0, 5000, 0, 0, 0] [None, None, Some 0, None, None, None] = Inr (axis_init 0)"
    by (simp add: machine_target_def demo_manager_def default_manager_def new_CoordinateManager_def upto_rec_numeral
        machine_to_coord_def coord_to_machine_def get_machine_pos_def target_abs_def add_axis_def sub_axis_def
        axis_init_def EDM_AXIS_NUM_def mm2blu_def EDM_BLU_PER_UM_def numeral_eq_Suc)
  have l: "within_limits (soft_limits demo_manager) [0, 0, 5000, 0, 0, 0] (axis_init 0)"
    by (auto simp: within_limits_def demo_manager_def axis_init_def EDM_AXIS_NUM_def less_Suc_eq numeral_eq_Suc)
  have "cmd_vals [None, None, Some (Dec 0 0), None, None, None] = Inr [None, None, Some 0, None, None, None]" by (simp add: cmd_vals_def)
  then have "goto demo_manager [0, 0, 5000, 0, 0, 0] (G01Motion 55 AbsoluteMode [None, None, Some (Dec 0 0), None, None, None]) = Some (axis_init 0)"
    using z t l demo_index(1) by (simp add: move_task_def)
  then show ?thesis using demo_walk unfolding m by (auto split: option.splits)
qed

lemma program_drives_machine_witness:
  "\<exists>r1 f. operation_gcode_start (machine_env demo_settings sample_idle) cut_tasks demo_runner = Inr (True, r1)
    \<and> f 0 = (sample_idle, r1) \<and> execution (1 / 1000) demo_settings 7 f \<and> state (snd (f 7)) = Stopped
    \<and> remdups_adj (places 7 f) = [axis_init 0, [0, 0, 5000, 0, 0, 0], axis_init 0]"
proof -
  have b: "map body cut_tasks = [G00Motion False False 100 55 AbsoluteMode [None, None, Some (Dec 5 0), None, None, None],
     G01Motion 55 AbsoluteMode [None, None, Some (Dec 0 0), None, None, None]] @ [ProgramEnd]"
    by (simp add: cut_tasks_def new_task_def)
  have p: "global_cmd_axis (shared_data sample_idle) = axis_init 0" by (simp only: sample_idle_fields sample_from_zero)
  obtain r1 where r1: "operation_gcode_start (machine_env demo_settings sample_idle) cut_tasks demo_runner = Inr (True, r1)"
    "\<exists>f. f 0 = (sample_idle, r1) \<and> execution (1 / 1000) demo_settings 7 f"
    "\<And>f. f 0 = (sample_idle, r1) \<Longrightarrow> execution (1 / 1000) demo_settings 7 f \<Longrightarrow> state (snd (f 7)) = Stopped
       \<and> remdups_adj (places 7 f) = remdups_adj (axis_init 0 # [[0, 0, 5000, 0, 0, 0], axis_init 0])"
    using program_drives_machine[OF sample_axis _ sample_idle_reach sample_idle_fields(1,2) sample_idle_quiet demo_runner_reach
        demo_runner_fields(1) b, unfolded p, OF _ cut_walk, of "1 / 1000" demo_settings 7]
    by (auto simp: demo_settings_def cut_tasks_def)
  then show ?thesis using demo_away by auto
qed

lemma demo_bodies: "map body demo_tasks =
    [G00Motion False False 100 55 AbsoluteMode [None, None, Some (Dec 5 0), None, None, None]] @ [ProgramEnd]"
  by (simp add: demo_tasks_def new_task_def)

lemma machine_refines_ideal_witness:
  "\<exists>r1 r'. operation_gcode_start (ideal_env demo_settings (axis_init 0)) demo_tasks demo_runner = Inr (True, r1)
    \<and> (\<exists>f. f 0 = (sample_idle, r1) \<and> execution (1 / 1000) demo_settings 5 f \<and> snd (f 5) = r'
         \<and> global_cmd_axis (shared_data (fst (f 5))) = [0, 0, 5000, 0, 0, 0])"
proof -
  let ?b = "[G00Motion False False 100 55 AbsoluteMode [None, None, Some (Dec 5 0), None, None, None]]"
  have w: "walk (cm (coord_sys demo_runner)) (axis_init 0) ?b = Some [[0, 0, 5000, 0, 0, 0]]"
    using demo_walk demo_runner_fields(2) demo_system_eq(2) by (simp only:)
  have cm: "cm_ok (cm (coord_sys demo_runner))" using run_reach_inv[OF demo_runner_reach] by (simp add: run_inv_def cs_inv_cm)
  have ws: "walk_sends poll_cmds demo_settings (cm (coord_sys demo_runner)) (axis_init 0) ?b"
    by (rule walk_poll_cmds[OF _ cm _ w]) (simp_all add: demo_settings_def)
  obtain r1 r' where r1: "operation_gcode_start (ideal_env demo_settings (axis_init 0)) demo_tasks demo_runner = Inr (True, r1)"
    "ideal_polls demo_settings 5 (axis_init 0, r1) = Inr ([0, 0, 5000, 0, 0, 0], r')"
    "polls_send poll_cmds demo_settings 5 (axis_init 0, r1)"
    using ideal_program_sends[OF demo_runner_reach demo_runner_fields(1) demo_bodies _ w, of 5 demo_settings poll_cmds] ws
    by (auto simp: demo_tasks_def poll_cmds_def)
  have "(\<exists>f. f 0 = (sample_idle, r1) \<and> execution (1 / 1000) demo_settings 5 f)
    \<and> (\<forall>f. f 0 = (sample_idle, r1) \<longrightarrow> execution (1 / 1000) demo_settings 5 f \<longrightarrow>
         snd (f 5) = r' \<and> mm_mode (fst (f 5)) = MM_Idle \<and> global_cmd_axis (shared_data (fst (f 5))) = [0, 0, 5000, 0, 0, 0])"
    by (rule machine_refines_ideal[OF sample_axis _ sample_idle_reach sample_idle_fields(1,2) sample_idle_quiet])
      (simp, use r1(2,3) in \<open>simp_all only: sample_idle_fields sample_from_zero\<close>)
  then show ?thesis using r1(1) by blast
qed

end
