(* ===== verification/Gcode_Programs.thy ===== *)
theory Gcode_Programs
  imports Rs274_Correct
begin

text \<open>
  The part programs under \<^verbatim>\<open>src/gcode\<close> are post-processor output: straight lists of \<open>i.g00\<close>
  calls with three-decimal coordinates after a fixed opening, closed by \<open>i.m02()\<close>. This
  theory has their lines as data, the call and the source text of a line, the tool path
  that a command list describes, and what holds of every program of this form.
\<close>

section \<open>Lines\<close>

text \<open>
  Coordinates are in thousandths of a millimetre, delays in tenths of a second. The
  post-processor also writes \<open>-0.000\<close>, which Python reads as the float \<open>-0.0\<close>.
\<close>

datatype milli = Mil int | MinusZero

fun milli_val :: "milli \<Rightarrow> int" where
  "milli_val (Mil v) = v"
| "milli_val MinusZero = 0"

datatype pline =
    L_g55
  | L_g90
  | L_f int
  | L_g04 int
  | G00 "milli option" "milli option" "milli option"
  | L_m02

abbreviation "X x \<equiv> G00 (Some (Mil x)) None None"
abbreviation "Y y \<equiv> G00 None (Some (Mil y)) None"
abbreviation "Z z \<equiv> G00 None None (Some (Mil z))"
abbreviation "XY x y \<equiv> G00 (Some (Mil x)) (Some (Mil y)) None"

fun crd :: "milli option \<Rightarrow> pyval" where
  "crd None = VNone"
| "crd (Some (Mil v)) = VFloat (Dec v 3)"
| "crd (Some MinusZero) = VFloat NegZero"

fun line_call :: "pline \<Rightarrow> call" where
  "line_call L_g55 = C_g55"
| "line_call L_g90 = C_g90"
| "line_call (L_f v) = C_f (VInt v)"
| "line_call (L_g04 t) = C_g04 (VFloat (Dec t 1))"
| "line_call (G00 x y z) = C_g00 (Coords (crd x) (crd y) (crd z) VNone VNone VNone) (VBool True) (VBool False)"
| "line_call L_m02 = C_m02"

text \<open>The source text of a line.\<close>

definition fixed_str :: "nat \<Rightarrow> int \<Rightarrow> string" where
  "fixed_str k v =
     (let n = nat \<bar>v\<bar>; f = nat_str (n mod 10 ^ k) in
      (if v < 0 then ''-'' else []) @ nat_str (n div 10 ^ k) @ ''.''
      @ replicate (k - length f) CHR ''0'' @ f)"

fun milli_str :: "milli \<Rightarrow> string" where
  "milli_str (Mil v) = fixed_str 3 v"
| "milli_str MinusZero = ''-0.000''"

definition axis_arg :: "string \<Rightarrow> milli option \<Rightarrow> string" where
  "axis_arg n v = (case v of None \<Rightarrow> [] | Some c \<Rightarrow> n @ ''='' @ milli_str c @ '', '')"

fun line_text :: "pline \<Rightarrow> string" where
  "line_text L_g55 = ''i.g55()''"
| "line_text L_g90 = ''i.g90()''"
| "line_text (L_f v) = ''i.f('' @ int_str v @ '')''"
| "line_text (L_g04 t) = ''i.g04('' @ fixed_str 1 t @ '')''"
| "line_text (G00 x y z) =
     ''i.g00('' @ axis_arg ''x'' x @ axis_arg ''y'' y @ axis_arg ''z'' z @ ''m05=True)''"
| "line_text L_m02 = ''i.m02()''"

text \<open>The script of consecutive lines, the first one at line \<open>n\<close>.\<close>

fun script_of :: "int \<Rightarrow> pline list \<Rightarrow> script" where
  "script_of n [] = []"
| "script_of n (l # ls) = (site n (line_text l), line_call l) # script_of (n + 1) ls"

fun is_move :: "pline \<Rightarrow> bool" where
  "is_move (G00 _ _ _) = True"
| "is_move _ = False"

definition part_program :: "int \<Rightarrow> int \<Rightarrow> pline list \<Rightarrow> pline list" where
  "part_program feed delay moves = [L_g55, L_g90, L_f feed, L_g04 delay] @ moves @ [L_m02]"

section \<open>Tool paths\<close>

text \<open>
  A move gives new values for some axes, the others stay (\<^verbatim>\<open>GCodeRunner.cpp\<close>, absolute mode).
  A position is unknown on an axis until the first move of it.
\<close>

type_synonym move = "int option \<times> int option \<times> int option"
type_synonym position = "int option \<times> int option \<times> int option"

fun move_to :: "move \<Rightarrow> position \<Rightarrow> position" where
  "move_to (x, y, z) (px, py, pz) = (override x px, override y py, override z pz)"

fun path :: "move list \<Rightarrow> position \<Rightarrow> position list" where
  "path [] p = []"
| "path (m # ms) p = move_to m p # path ms (move_to m p)"

definition nowhere :: position where
  "nowhere = (None, None, None)"

text \<open>The move of an absolute \<open>g00\<close> command, for coordinates of at most three decimals.\<close>

fun thousandths :: "pyval \<Rightarrow> int option" where
  "thousandths (VFloat (Dec m k)) = (if k \<le> 3 then Some (m * 10 ^ (3 - k)) else None)"
| "thousandths (VFloat NegZero) = Some 0"
| "thousandths (VInt n) = Some (1000 * n)"
| "thousandths _ = None"

definition g00_move :: "command \<Rightarrow> move option" where
  "g00_move c =
     (if cmd_is G00MotionCommand c \<and> cmd_get c K_CoordinateMode = Some (VStr (cm_name AbsoluteMode))
      then (case cmd_get c K_Coordinates of
              Some (VList [x, y, z, b, c, a]) \<Rightarrow> Some (thousandths x, thousandths y, thousandths z)
            | _ \<Rightarrow> None)
      else None)"

definition moves_of :: "command list \<Rightarrow> move list" where
  "moves_of cmds = List.map_filter g00_move cmds"

definition tool_path :: "command list \<Rightarrow> position list" where
  "tool_path cmds = path (moves_of cmds) nowhere"

fun line_move :: "pline \<Rightarrow> move" where
  "line_move (G00 x y z) = (map_option milli_val x, map_option milli_val y, map_option milli_val z)"
| "line_move _ = nowhere"

lemma thousandths_crd [simp]: "thousandths (crd v) = map_option milli_val v"
  by (cases v rule: crd.cases) simp_all

lemma length_path [simp]: "length (path ms p) = length ms"
  by (induction ms arbitrary: p) simp_all

lemma path_append: "path (ms @ ms') p = path ms p @ path ms' (fold move_to ms p)"
  by (induction ms arbitrary: p) simp_all

section \<open>Programs of this form run to their end\<close>

fun line_acmd :: "int \<Rightarrow> pline \<Rightarrow> acmd" where
  "line_acmd feed L_g55 = A_Index (VInt 55)"
| "line_acmd feed L_g90 = A_Mode AbsoluteMode"
| "line_acmd feed (L_f v) = A_Feed (VInt v)"
| "line_acmd feed (L_g04 t) = A_Delay (VFloat (Dec t 1))"
| "line_acmd feed (G00 x y z) =
     A_G00 AbsoluteMode (VInt 55) (VInt feed) True False [crd x, crd y, crd z, VNone, VNone, VNone]"
| "line_acmd feed L_m02 = A_End"

fun acmds_of :: "int \<Rightarrow> int \<Rightarrow> pline list \<Rightarrow> (caller \<times> acmd) list" where
  "acmds_of feed n [] = []"
| "acmds_of feed n (l # ls) = (site n (line_text l), line_acmd feed l) # acmds_of feed (n + 1) ls"

definition part_modal :: "int \<Rightarrow> modal" where
  "part_modal feed = \<lparr>m_mode = Some AbsoluteMode, m_index = Some (VInt 55), m_feed = Some (VInt feed),
     m_ended = False\<rparr>"

lemma is_number_crd [simp]: "crd v = VNone \<or> is_number (crd v)"
  by (cases v rule: crd.cases) simp_all

lemma coords_ok_crd [simp]: "coords_ok (Coords (crd x) (crd y) (crd z) VNone VNone VNone)"
  by (simp add: coords_ok_def)

lemma moves_spec:
  assumes "list_all is_move ms"
  shows "spec_run (script_of n (ms @ [L_m02])) (part_modal feed) =
    Some (acmds_of feed n (ms @ [L_m02]), (part_modal feed)\<lparr>m_ended := True\<rparr>)"
  using assms
proof (induction ms arbitrary: n)
  case Nil
  then show ?case by (simp add: part_modal_def)
next
  case (Cons l ms)
  then obtain x y z where l: "l = G00 x y z" by (cases l) auto
  have "spec_step (line_call l) (part_modal feed) = Some (part_modal feed, line_acmd feed l)"
    by (simp add: l part_modal_def)
  moreover have "\<not> m_ended (part_modal feed)" by (simp add: part_modal_def)
  ultimately show ?case using Cons by simp
qed

lemma part_program_spec:
  assumes "0 < feed" "0 \<le> delay" "list_all is_move moves"
  shows "spec_run (script_of n (part_program feed delay moves)) modal_init =
    Some (acmds_of feed n (part_program feed delay moves), (part_modal feed)\<lparr>m_ended := True\<rparr>)"
  using moves_spec [OF assms(3), of "n + 1 + 1 + 1 + 1" feed] assms(1,2)
  by (simp add: part_program_def modal_init_def part_modal_def spec_index_def)

lemma script_has_source: "list_all (has_source \<circ> fst) (script_of n ls)"
  by (induction ls arbitrary: n) simp_all

lemma g00_move_line: "g00_move (encode line code (line_acmd feed l)) = (if is_move l then Some (line_move l) else None)"
  by (cases l) (auto simp: g00_move_def cmd_get_encode)

lemma moves_of_acmds:
  "moves_of (map encode_at (acmds_of feed n ls)) = map line_move (filter is_move ls)"
  by (induction ls arbitrary: n) (simp_all add: moves_of_def encode_at_def g00_move_line map_filter_simps)

lemma acmds_of_sites:
  "map (\<lambda>c. (cmd_get c K_LineNumber, cmd_get c K_CommandStr)) (map encode_at (acmds_of feed n ls)) =
     map (\<lambda>(k, l). (Some (VInt k), Some (VStr (line_text l)))) (zip [n..n + int (length ls) - 1] ls)"
proof (induction ls arbitrary: n)
  case (Cons l ls)
  have "cmd_get (encode n (line_text l) (line_acmd feed l)) K_LineNumber = Some (VInt n)"
    "cmd_get (encode n (line_text l) (line_acmd feed l)) K_CommandStr = Some (VStr (line_text l))"
    by (cases l; simp add: cmd_get_encode)+
  moreover have "[n..n + int (length (l # ls)) - 1] = n # [n + 1..n + 1 + int (length ls) - 1]"
    by (simp add: upto_rec1 algebra_simps)
  ultimately show ?case using Cons [of "n + 1"] by (simp add: encode_at_def)
qed simp

text \<open>
  A part program: its opening, moves and end. The client of this contract has to show no
  more than that the feed is positive and that its lines are moves.
\<close>

locale move_program =
  fixes first feed delay :: int and moves :: "pline list"
  assumes feed_pos: "0 < feed" and delay_nonneg: "0 \<le> delay" and all_moves: "list_all is_move moves"
begin

lemma runs:
  obtains s' where "run (script_of first (part_program feed delay moves)) RS274Interpreter_init = return_self s'"
    "commands s' = map encode_at (acmds_of feed first (part_program feed delay moves))" "is_program_end s'"
  by (rule run_of_spec [OF part_program_spec [OF feed_pos delay_nonneg all_moves, of first] script_has_source])
    simp

definition result_commands :: "command list" where
  "result_commands = commands (snd (run (script_of first (part_program feed delay moves)) RS274Interpreter_init))"

lemma result_commands: "result_commands = map encode_at (acmds_of feed first (part_program feed delay moves))"
  by (rule runs) (simp add: result_commands_def return_self_def)

lemma completes:
  "\<exists>s'. run (script_of first (part_program feed delay moves)) RS274Interpreter_init = return_self s'
     \<and> is_program_end s'
     \<and> map (\<lambda>c. (cmd_get c K_LineNumber, cmd_get c K_CommandStr)) (commands s') =
         map (\<lambda>(k, l). (Some (VInt k), Some (VStr (line_text l))))
           (zip [first..first + int (length (part_program feed delay moves)) - 1] (part_program feed delay moves))"
proof -
  obtain s' where s': "run (script_of first (part_program feed delay moves)) RS274Interpreter_init = return_self s'"
    "commands s' = map encode_at (acmds_of feed first (part_program feed delay moves))" "is_program_end s'"
    by (rule runs)
  show ?thesis
    by (rule exI [of _ s'], intro conjI s'(1,3)) (unfold s'(2), rule acmds_of_sites)
qed

lemma moves_of_result: "moves_of result_commands = map line_move moves"
proof -
  have "filter is_move moves = moves" using all_moves by (simp add: list_all_iff)
  then show ?thesis unfolding result_commands moves_of_acmds by (simp add: part_program_def)
qed

end

section \<open>Layers\<close>

text \<open>
  The layer discipline of these programs. The tool travels at the safe height, stops above
  the work at the approach height, plunges by a fixed amount to the cutting depth, cuts a
  closed contour at that depth, returns to the approach height and then to the safe height.
\<close>

definition safe_z :: int where "safe_z = 10000"
definition plunge :: int where "plunge = 3000"

datatype phase =
    Start
  | Safe
  | Approach int
  | Cut int "int option \<times> int option"
  | Retract

definition xy :: "position \<Rightarrow> int option \<times> int option" where
  "xy p = (fst p, fst (snd p))"

definition height :: "position \<Rightarrow> int option" where
  "height p = snd (snd p)"

definition is_lateral :: "move \<Rightarrow> bool" where
  "is_lateral m \<longleftrightarrow> snd (snd m) = None"

definition vertical :: "move \<Rightarrow> int option" where
  "vertical m = (if fst m = None \<and> fst (snd m) = None then snd (snd m) else None)"

text \<open>The phase after a move from a position, \<open>None\<close> for a move the phase does not allow.\<close>

fun drive :: "position \<Rightarrow> move \<Rightarrow> phase \<Rightarrow> phase option" where
  "drive p m Start =
     (if is_lateral m then Some Start else if vertical m = Some safe_z then Some Safe else None)"
| "drive p m Safe =
     (if is_lateral m then Some Safe
      else case vertical m of Some z \<Rightarrow> if z < safe_z then Some (Approach z) else None | None \<Rightarrow> None)"
| "drive p m (Approach a) = (if vertical m = Some (a - plunge) then Some (Cut (a - plunge) (xy p)) else None)"
| "drive p m (Cut c e) =
     (if is_lateral m then Some (Cut c e)
      else if vertical m = Some (c + plunge) \<and> xy p = e then Some Retract else None)"
| "drive p m Retract = (if vertical m = Some safe_z then Some Safe else None)"

text \<open>A cut is its depth and the point of its plunge.\<close>

type_synonym cut = "int \<times> int option \<times> int option"

fun plunges :: "phase \<Rightarrow> phase \<Rightarrow> cut list" where
  "plunges (Approach a) (Cut c e) = [(c, e)]"
| "plunges _ _ = []"

fun drives :: "move list \<Rightarrow> position \<Rightarrow> phase \<Rightarrow> (position \<times> phase \<times> cut list) option" where
  "drives [] p ph = Some (p, ph, [])"
| "drives (m # ms) p ph =
     (case drive p m ph of
        None \<Rightarrow> None
      | Some ph' \<Rightarrow>
          map_option (\<lambda>(q, ph'', cs). (q, ph'', plunges ph ph' @ cs)) (drives ms (move_to m p) ph'))"

text \<open>The cuts of a disciplined path that ends at the safe height.\<close>

definition cuts :: "move list \<Rightarrow> cut list option" where
  "cuts ms = (case drives ms nowhere Start of Some (_, Safe, cs) \<Rightarrow> Some cs | _ \<Rightarrow> None)"

text \<open>
  What the discipline guarantees: the tool changes its lateral position only without a
  change of height, at the safe height or at the depth of a cut (or before its height is
  first commanded).
\<close>

definition lateral_safe :: "int list \<Rightarrow> position \<Rightarrow> position \<Rightarrow> bool" where
  "lateral_safe depths p q \<longleftrightarrow>
     xy p \<noteq> xy q \<longrightarrow> height q = height p \<and> height p \<in> set (None # Some safe_z # map Some depths)"

definition path_safe :: "int list \<Rightarrow> position \<Rightarrow> position list \<Rightarrow> bool" where
  "path_safe depths p ps \<longleftrightarrow> list_all (\<lambda>(p, q). lateral_safe depths p q) (zip (p # ps) ps)"

lemma path_safe_simps [simp]:
  "path_safe D p []" "path_safe D p (q # ps) \<longleftrightarrow> lateral_safe D p q \<and> path_safe D q ps"
  by (simp_all add: path_safe_def)

lemma is_lateral_move:
  "is_lateral m \<Longrightarrow> height (move_to m p) = height p"
  by (cases m; cases p) (simp add: is_lateral_def height_def)

lemma vertical_move:
  "vertical m = Some z \<Longrightarrow> xy (move_to m p) = xy p" "vertical m = Some z \<Longrightarrow> height (move_to m p) = Some z"
  by (cases m; cases p; simp add: vertical_def xy_def height_def split: if_splits)+

fun phase_height :: "int list \<Rightarrow> phase \<Rightarrow> int option \<Rightarrow> bool" where
  "phase_height D Start h \<longleftrightarrow> h = None"
| "phase_height D Safe h \<longleftrightarrow> h = Some safe_z"
| "phase_height D (Approach a) h \<longleftrightarrow> h = Some a"
| "phase_height D (Cut c e) h \<longleftrightarrow> h = Some c \<and> c \<in> set D"
| "phase_height D Retract h \<longleftrightarrow> h \<noteq> None"

lemma drive_safe:
  assumes "drive p m ph = Some ph'" "phase_height D ph (height p)"
    "fst ` set (plunges ph ph') \<subseteq> set D"
  shows "lateral_safe D p (move_to m p)" "phase_height D ph' (height (move_to m p))"
  using assms
  by (cases ph; auto simp: lateral_safe_def is_lateral_move vertical_move split: if_splits option.splits)+

lemma drives_safe:
  assumes "drives ms p ph = Some (q, ph', cs)" "phase_height D ph (height p)" "fst ` set cs \<subseteq> set D"
  shows "path_safe D p (path ms p)"
  using assms
proof (induction ms arbitrary: p ph cs)
  case (Cons m ms)
  then obtain ph1 cs1 where st: "drive p m ph = Some ph1" "drives ms (move_to m p) ph1 = Some (q, ph', cs1)"
    and cs: "cs = plunges ph ph1 @ cs1" by (auto split: option.splits)
  have "fst ` set (plunges ph ph1) \<subseteq> set D" "fst ` set cs1 \<subseteq> set D" using Cons.prems(3) cs by auto
  then show ?case using drive_safe [OF st(1) Cons.prems(2)] Cons.IH [OF st(2)] by simp
qed simp

lemma cuts_safe:
  assumes "cuts ms = Some cs"
  shows "path_safe (map fst cs) nowhere (path ms nowhere)"
proof -
  obtain q where "drives ms nowhere Start = Some (q, Safe, cs)"
    using assms by (auto simp: cuts_def split: option.splits phase.splits)
  then show ?thesis by (rule drives_safe) (simp_all add: nowhere_def height_def)
qed

lemma drives_append:
  "drives (ms @ ms') p ph =
     (case drives ms p ph of
        None \<Rightarrow> None
      | Some (q, ph', cs) \<Rightarrow> map_option (\<lambda>(r, ph'', cs'). (r, ph'', cs @ cs')) (drives ms' q ph'))"
  by (induction ms arbitrary: p ph)
    (auto simp: option.map_comp o_def case_prod_unfold option.map_ident split: option.splits)

section \<open>Envelopes\<close>

text \<open>A box: the least and the greatest coordinate on each axis.\<close>

type_synonym box = "(int \<times> int) \<times> (int \<times> int) \<times> (int \<times> int)"

definition in_interval :: "int \<times> int \<Rightarrow> int option \<Rightarrow> bool" where
  "in_interval r v \<longleftrightarrow> (case v of None \<Rightarrow> True | Some c \<Rightarrow> fst r \<le> c \<and> c \<le> snd r)"

fun in_box :: "box \<Rightarrow> int option \<times> int option \<times> int option \<Rightarrow> bool" where
  "in_box (bx, by', bz) (x, y, z) \<longleftrightarrow> in_interval bx x \<and> in_interval by' y \<and> in_interval bz z"

lemma in_interval_simps [simp]: "in_interval r None" "in_interval r (Some c) \<longleftrightarrow> fst r \<le> c \<and> c \<le> snd r"
  by (simp_all add: in_interval_def)

lemma in_interval_override: "in_interval r v \<Longrightarrow> in_interval r w \<Longrightarrow> in_interval r (override v w)"
  by (cases v) simp_all

lemma in_box_move: "in_box b m \<Longrightarrow> in_box b p \<Longrightarrow> in_box b (move_to m p)"
  by (cases b; cases m; cases p) (simp add: in_interval_override)

lemma in_box_path: "list_all (in_box b) ms \<Longrightarrow> in_box b p \<Longrightarrow> list_all (in_box b) (path ms p)"
  by (induction ms arbitrary: p) (simp_all add: in_box_move)

lemma in_box_nowhere [simp]: "in_box b nowhere"
  by (cases b) (simp add: nowhere_def)

text \<open>A program inside a box, and a layered program: disciplined, with the cuts it declares.\<close>

locale boxed_program = move_program +
  fixes envelope :: box
  assumes envelope: "list_all (in_box envelope) (map line_move moves)"
begin

lemma result_in_envelope: "list_all (in_box envelope) (tool_path result_commands)"
  using in_box_path [OF envelope] by (simp add: tool_path_def moves_of_result)

end

locale layered_program = boxed_program +
  fixes layer_cuts :: "cut list"
  assumes layer_cuts: "cuts (map line_move moves) = Some layer_cuts"
begin

lemma cuts_of_result: "cuts (moves_of result_commands) = Some layer_cuts"
  by (simp add: moves_of_result layer_cuts)

lemma result_path_safe: "path_safe (map fst layer_cuts) nowhere (tool_path result_commands)"
  using cuts_safe [OF cuts_of_result] by (simp add: tool_path_def)

end

section \<open>Programs made of one contour\<close>

text \<open>The layer that cuts a contour, with its approach height.\<close>

definition layer :: "pline list \<Rightarrow> int \<Rightarrow> pline list" where
  "layer contour a = [Z a, Z (a - plunge)] @ contour @ [Z a, Z safe_z]"

definition lateral_line :: "pline \<Rightarrow> bool" where
  "lateral_line l \<longleftrightarrow> is_move l \<and> is_lateral (line_move l)"

lemma drives_lateral:
  assumes "list_all is_lateral ms"
  shows "drives ms p (Cut c e) = Some (fold move_to ms p, Cut c e, [])"
  using assms by (induction ms arbitrary: p) simp_all

lemma fold_lateral_height:
  "list_all is_lateral ms \<Longrightarrow> height (fold move_to ms p) = height p"
  by (induction ms arbitrary: p) (simp_all add: is_lateral_move)

lemma drives_layer:
  assumes "list_all lateral_line contour" "a < safe_z"
    "xy (fold move_to (map line_move contour) (x, y, Some (a - plunge))) = (x, y)"
  shows "drives (map line_move (layer contour a)) (x, y, Some safe_z) Safe =
    Some ((x, y, Some safe_z), Safe, [(a - plunge, x, y)])"
proof -
  have lat: "list_all is_lateral (map line_move contour)"
    using assms(1) by (simp add: list_all_iff lateral_line_def)
  let ?q = "fold move_to (map line_move contour) (x, y, Some (a - plunge))"
  have q: "?q = (x, y, Some (a - plunge))"
    using assms(3) fold_lateral_height [OF lat, of "(x, y, Some (a - plunge))"]
    by (cases ?q) (simp add: xy_def height_def)
  show ?thesis
    using assms(2) drives_lateral [OF lat, of "(x, y, Some (a - plunge))"] q
    by (simp add: layer_def drives_append is_lateral_def vertical_def xy_def)
qed

lemma drives_layers:
  assumes "list_all lateral_line contour" "\<forall>a \<in> set heights. a < safe_z"
    "\<And>h. xy (fold move_to (map line_move contour) (x, y, h)) = (x, y)"
  shows "drives (map line_move (concat (map (layer contour) heights))) (x, y, Some safe_z) Safe =
    Some ((x, y, Some safe_z), Safe, map (\<lambda>a. (a - plunge, x, y)) heights)"
  using assms(2)
proof (induction heights)
  case (Cons a heights)
  then show ?case
    using drives_layer [OF assms(1) _ assms(3), of a] by (simp add: drives_append)
qed simp

end
