(* ===== verification/Part_Run.thy ===== *)
theory Part_Run
  imports Machine_Run Gcode_Programs
begin

text \<open>
  A part program on the machine: from the Python file through the interpreter, the JSON text,
  the task converter and the runner to the positions the axes are driven to. The tool path of
  \<^verbatim>\<open>Gcode_Programs\<close>, in thousandths of a millimetre of the work frame, is what the drives do.
\<close>

section \<open>Numbers on their way\<close>

lemma strip0_value:
  "strip0 c k = (c', k') \<Longrightarrow> (of_nat c' :: real) * 10 powi (- k') = of_nat c * 10 powi (- k)"
proof (induction c k arbitrary: c' k' rule: strip0.induct)
  case (1 c k)
  show ?case
  proof (cases "c \<noteq> 0 \<and> c mod 10 = 0")
    case True
    then have "strip0 (c div 10) (k - 1) = (c', k')" using 1(2) by (simp add: strip0.simps [of c k])
    from 1(1) [OF True this]
    have "(of_nat c' :: real) * 10 powi (- k') = of_nat (c div 10) * 10 powi (1 - k)" by simp
    also have "\<dots> = of_nat (c div 10) * (10 * 10 powi (- k))" by (simp add: power_int_diff power_int_minus field_simps)
    also have "\<dots> = of_nat (10 * (c div 10)) * 10 powi (- k)" by simp
    also have "10 * (c div 10) = c" using True by auto
    finally show ?thesis .
  next
    case False
    then show ?thesis using 1(2) by (auto simp: strip0.simps [of c k])
  qed
qed

lemma powi_of_nat: "0 \<le> k \<Longrightarrow> x * 10 powi (- k) = x / (10 :: real) ^ nat k"
  by (simp add: power_int_minus power_int_def field_simps)

lemma powi_neg: "k < 0 \<Longrightarrow> (10 :: real) powi (- k) = 10 ^ nat (- k)"
  by (simp add: power_int_def)

lemma double_val_norm [simp]: "double_val (norm_float f) = double_val f"
proof (cases f)
  case (Dec m k)
  show ?thesis
  proof (cases "m = 0")
    case False
    obtain c' k' where s: "strip0 (nat \<bar>m\<bar>) (int k) = (c', k')" by (cases "strip0 (nat \<bar>m\<bar>) (int k)")
    have v: "(of_nat c' :: real) * 10 powi (- k') = \<bar>of_int m\<bar> / 10 ^ k"
      using strip0_value [OF s] powi_of_nat [of "int k" "\<bar>of_int m\<bar>"] by simp
    show ?thesis
    proof (cases "0 \<le> k'")
      case True
      then show ?thesis using v powi_of_nat [of k' "of_nat c'"] False s Dec
        by (auto simp: mk_float_def Let_def split: if_splits)
    next
      case neg: False
      then show ?thesis using v powi_neg [of k'] False s Dec
        by (auto simp: mk_float_def Let_def split: if_splits)
    qed
  qed (simp add: Dec mk_float_def)
qed simp_all

text \<open>A coordinate of a line, in millimetres.\<close>

definition mm_of :: "milli option \<Rightarrow> real option" where
  "mm_of v = map_option (\<lambda>c. of_int (milli_val c) / 1000) v"

lemma opt_val_crd [simp]: "opt_val (opt_double_of (crd v)) = Inr (mm_of v)"
proof (cases v rule: crd.cases)
  case (2 c)
  then show ?thesis using double_val_norm [of "Dec c 3"]
    by (simp add: opt_double_of_def mm_of_def del: double_val_norm norm_float.simps)
qed (simp_all add: opt_double_of_def mm_of_def)

lemma opt_val_VNone [simp]: "opt_val (opt_double_of VNone) = Inr None"
  by (simp add: opt_double_of_def)

section \<open>The tasks of the lines\<close>

fun line_body :: "int \<Rightarrow> pline \<Rightarrow> task_body" where
  "line_body feed L_g55 = CoordinateIndexTask 55"
| "line_body feed L_g90 = CoordinateModeTask"
| "line_body feed (L_f v) = FeedSpeedSet"
| "line_body feed (L_g04 t) = Deley (norm_float (Dec t 1))"
| "line_body feed (G00 x y z) =
     G00Motion False False feed 55 AbsoluteMode (map opt_double_of [crd x, crd y, crd z, VNone, VNone, VNone])"
| "line_body feed L_m02 = ProgramEnd"

lemma bodies_of_acmds:
  "map body (List.map_filter (task_of B) (acmds_of feed n ls)) = map (line_body feed) ls"
proof (induction ls arbitrary: n)
  case (Cons l ls)
  then show ?case by (cases l) (simp_all add: map_filter_simps task_of_def)
qed (simp add: map_filter_simps)

lemma opt_num_crd: "opt_num (crd v)" "opt_num VNone"
  by (cases v rule: crd.cases) (simp_all add: opt_num_def)

lemma acmds_fit:
  assumes "int32 feed" "0 \<le> n" "n + int (length ls) \<le> 2 ^ 31"
  shows "list_all (\<lambda>(fr, a). int32 (lineno fr) \<and> fits a) (acmds_of feed n ls)"
  using assms(2,3)
proof (induction ls arbitrary: n)
  case (Cons l ls)
  have "fits (line_acmd feed l)"
    using assms(1) by (cases l) (simp_all add: six_nums_def opt_num_crd int32_def)
  then show ?case using Cons by (simp add: int32_def)
qed simp

section \<open>Work positions\<close>

text \<open>
  The work position for a position of the tool path: an axis that was not yet commanded is
  where it was at the start.
\<close>

fun at_position :: "axis_t \<Rightarrow> position \<Rightarrow> axis_t" where
  "at_position w (x, y, z) =
     [case x of None \<Rightarrow> w ! 0 | Some v \<Rightarrow> of_int v, case y of None \<Rightarrow> w ! 1 | Some v \<Rightarrow> of_int v,
      case z of None \<Rightarrow> w ! 2 | Some v \<Rightarrow> of_int v, w ! 3, w ! 4, w ! 5]"

lemma six_axes: "i < 6 \<Longrightarrow> i = 0 \<or> i = 1 \<or> i = 2 \<or> i = 3 \<or> i = 4 \<or> i = (5 :: nat)"
  by auto

lemma at_position_axis [simp]: "is_axis (at_position w pos)"
  by (cases pos) (simp add: is_axis_def EDM_AXIS_NUM_def)

lemma at_position_nowhere: "is_axis w \<Longrightarrow> at_position w nowhere = w"
  by (rule axis_ext [OF at_position_axis]) (auto simp: nowhere_def dest!: six_axes)

lemma target_at_position:
  "target_abs (at_position w pos) [mm_of x, mm_of y, mm_of z, None, None, None] =
   at_position w (move_to (line_move (G00 x y z)) pos)"
  by (cases pos; cases x; cases y; cases z)
    (simp_all add: target_abs_def mm_of_def mm2blu_def EDM_BLU_PER_UM_def)

text \<open>The drive position of a work position, and a box of the work frame inside the soft limits.\<close>

definition drive_pos :: "coord_manager \<Rightarrow> int \<Rightarrow> axis_t \<Rightarrow> axis_t" where
  "drive_pos m ix v = the (coord_to_motor m ix v)"

fun box_fits :: "box \<Rightarrow> axis_t \<Rightarrow> soft_limit \<Rightarrow> bool" where
  "box_fits ((x0, x1), (y0, y1), (z0, z1)) off sl \<longleftrightarrow>
     sl_neg sl ! 0 \<le> x0 + off ! 0 \<and> x1 + off ! 0 \<le> sl_pos sl ! 0
   \<and> sl_neg sl ! 1 \<le> y0 + off ! 1 \<and> y1 + off ! 1 \<le> sl_pos sl ! 1
   \<and> sl_neg sl ! 2 \<le> z0 + off ! 2 \<and> z1 + off ! 2 \<le> sl_pos sl ! 2"

lemma axis_within:
  assumes "in_interval (lo, hi) v" "l \<le> of_int lo + c" "of_int hi + c \<le> (h :: real)"
    and "s = (case p of None \<Rightarrow> w | Some a \<Rightarrow> of_int a) + c"
    and "t = (case override v p of None \<Rightarrow> w | Some a \<Rightarrow> of_int a) + c"
  shows "(s < t \<longrightarrow> t \<le> h) \<and> (t < s \<longrightarrow> l \<le> t)"
proof (cases v)
  case None
  then show ?thesis using assms(4,5) by (simp add: override_def)
next
  case (Some a)
  then have "real_of_int lo \<le> of_int a" "real_of_int a \<le> of_int hi" using assms(1) by simp_all
  then show ?thesis using assms(2,3,5) Some by (simp add: override_def)
qed

lemma position_within:
  assumes "is_axis off" "box_fits b off sl" "in_box b mv"
  shows "within_limits sl (add_axis (at_position w pos) off) (add_axis (at_position w (move_to mv pos)) off)"
    (is "within_limits sl ?s ?t")
  unfolding within_limits_def
proof (intro allI impI)
  fix i :: nat assume i: "i < 6"
  obtain x y z px py pz where mv: "mv = (x, y, z)" "pos = (px, py, pz)" by (cases mv; cases pos)
  obtain x0 x1 y0 y1 z0 z1 where b: "b = ((x0, x1), (y0, y1), (z0, z1))" by (cases b) auto
  have fits: "sl_neg sl ! 0 \<le> x0 + off ! 0" "x1 + off ! 0 \<le> sl_pos sl ! 0" "sl_neg sl ! 1 \<le> y0 + off ! 1"
    "y1 + off ! 1 \<le> sl_pos sl ! 1" "sl_neg sl ! 2 \<le> z0 + off ! 2" "z1 + off ! 2 \<le> sl_pos sl ! 2"
    and box: "in_interval (x0, x1) x" "in_interval (y0, y1) y" "in_interval (z0, z1) z"
    using assms(2,3) by (simp_all add: b mv)
  have nth: "?s ! i = at_position w pos ! i + off ! i" "?t ! i = at_position w (move_to mv pos) ! i + off ! i"
    using i assms(1) by simp_all
  have "i = 0 \<or> i = 1 \<or> i = 2 \<or> 3 \<le> i" by auto
  then show "(?s ! i < ?t ! i \<longrightarrow> ?t ! i \<le> sl_pos sl ! i) \<and> (?t ! i < ?s ! i \<longrightarrow> sl_neg sl ! i \<le> ?t ! i)"
  proof (elim disjE)
    assume "i = 0"
    then show ?thesis using axis_within [OF box(1) fits(1,2) refl refl, where p = px and w = "w ! 0"] nth by (simp add: mv)
  next
    assume "i = 1"
    then show ?thesis using axis_within [OF box(2) fits(3,4) refl refl, where p = py and w = "w ! 1"] nth by (simp add: mv)
  next
    assume "i = 2"
    then show ?thesis using axis_within [OF box(3) fits(5,6) refl refl, where p = pz and w = "w ! 2"] nth by (simp add: mv)
  next
    assume "3 \<le> i"
    then have "i = 3 \<or> i = 4 \<or> i = 5" using i by auto
    then show ?thesis using nth by (auto simp: mv)
  qed
qed

section \<open>The walk of a part program\<close>

lemma cmd_vals_line: "cmd_vals (map opt_double_of [crd x, crd y, crd z, VNone, VNone, VNone]) =
    Inr [mm_of x, mm_of y, mm_of z, None, None, None]"
  by (simp add: cmd_vals_def)

lemma drive_pos_frames:
  assumes "cm_ok m" "get_coord_offset m ix = Some off" "is_axis v"
  shows "is_axis (drive_pos m ix v)" "motor_to_machine m (drive_pos m ix v) = add_axis v off"
    "machine_to_coord m ix (add_axis v off) = Some v" "coord_to_machine m ix v = Some (add_axis v off)"
    "machine_to_motor m (add_axis v off) = drive_pos m ix v" "is_axis off" "exist_coordinate_index m ix"
proof -
  obtain c where c: "map_of (coordinates_map m) ix = Some c" "c_offset c = off"
    using assms(2) by (auto simp: get_coord_offset_def)
  then have off: "is_axis off" using cm_ok_offset [OF assms(1)] by blast
  then show "is_axis off" .
  show "is_axis (drive_pos m ix v)" "motor_to_machine m (drive_pos m ix v) = add_axis v off"
    "machine_to_coord m ix (add_axis v off) = Some v" "coord_to_machine m ix v = Some (add_axis v off)"
    "machine_to_motor m (add_axis v off) = drive_pos m ix v" "exist_coordinate_index m ix"
    using c off assms(1,3) by (simp_all add: drive_pos_def frame_defs exist_coordinate_index_def)
qed

lemma goto_line:
  assumes "cm_ok m" "get_coord_offset m 55 = Some off" "box_fits b off (soft_limits m)"
    "in_box b (line_move l)" "l \<noteq> L_m02"
  shows "goto m (drive_pos m 55 (at_position w pos)) (line_body feed l) =
    Some (drive_pos m 55 (at_position w (move_to (line_move l) pos)))"
proof (cases l)
  case (G00 x y z)
  let ?w = "at_position w pos" and ?w' = "at_position w (move_to (line_move l) pos)"
  note f = drive_pos_frames [OF assms(1,2) at_position_axis]
  have "machine_target ''g00'' m 55 AbsoluteMode (add_axis ?w off) [mm_of x, mm_of y, mm_of z, None, None, None] =
      Inr (add_axis ?w' off)"
    using f(3) [of w pos] f(4) [of w "move_to (line_move l) pos"] G00 target_at_position [of w pos x y z]
    by (simp add: machine_target_def)
  moreover have "within_limits (soft_limits m) (add_axis ?w off) (add_axis ?w' off)"
    using position_within [OF f(6) assms(3,4)] by simp
  ultimately have "move_task ''g00'' m (drive_pos m 55 ?w) 55 AbsoluteMode
      (map opt_double_of [crd x, crd y, crd z, VNone, VNone, VNone]) = Some (drive_pos m 55 ?w')"
    using f(7) f(2) [of w pos] f(5) [of w "move_to (line_move l) pos"]
    unfolding move_task_def cmd_vals_line by simp
  then show ?thesis using G00 by simp
next
  case (L_g04 t)
  have "finite_float (norm_float (Dec t 1))" by (simp only: finite_norm finite_float.simps)
  then show ?thesis using L_g04 by (cases pos) (simp add: nowhere_def override_def)
qed (use assms(5) drive_pos_frames(7) [OF assms(1,2) at_position_axis] in
      \<open>cases pos; simp add: nowhere_def override_def\<close>)+

lemma walk_lines:
  assumes "cm_ok m" "get_coord_offset m 55 = Some off" "box_fits b off (soft_limits m)"
    "list_all (in_box b) (map line_move ls)" "L_m02 \<notin> set ls"
  shows "walk m (drive_pos m 55 (at_position w pos)) (map (line_body feed) ls) =
    Some (map (\<lambda>q. drive_pos m 55 (at_position w q)) (path (map line_move ls) pos))"
  using assms(4,5)
proof (induction ls arbitrary: pos)
  case (Cons l ls)
  then have "goto m (drive_pos m 55 (at_position w pos)) (line_body feed l) =
      Some (drive_pos m 55 (at_position w (move_to (line_move l) pos)))"
    by (intro goto_line [OF assms(1-3)]) auto
  then show ?case using Cons by simp
qed simp

lemma remdups_adj_opening: "remdups_adj (p # replicate k p @ ps) = remdups_adj (p # ps)"
  by (induction k) simp_all

lemma move_nowhere: "move_to nowhere pos = pos"
  by (cases pos) (simp add: nowhere_def override_def)

text \<open>
  Every part program, on every machine whose soft limits hold its box at the offset of G55.
\<close>

definition drives_the_path ::
    "build \<Rightarrow> 'v json_lib \<Rightarrow> (string \<Rightarrow> 'v option) \<Rightarrow> settings \<Rightarrow> script \<Rightarrow> nat \<Rightarrow> runner \<Rightarrow> axis_t \<Rightarrow> bool" where
  "drives_the_path B J parse st script n r w \<longleftrightarrow>
     (let m = cm (coord_sys r); p = drive_pos m 55 w;
          interp = snd (run script RS274Interpreter_init);
          points = map (\<lambda>q. drive_pos m 55 (at_position w q)) (tool_path (get_command_list interp))
      in \<exists>txt' j ts r1 r' evs.
           get_command_list_jsonstr interp = Inr txt' \<and> parse txt' = Some j
         \<and> MakeGCodeTaskListFromJson B J j = Some ts
         \<and> operation_gcode_start (ideal_env st p) ts r = Inr (True, r1)
         \<and> ideal_polls st n (p, r1) = Inr (last (p # points), r')
         \<and> state r' = Stopped \<and> last_error_str r' = []
         \<and> trace r' = trace r1 @ evs \<and> p # driven evs = remdups_adj (p # points))"

context move_program
begin

text \<open>What the converter makes of the program, and where its tasks lead.\<close>

lemma walk_of_list:
  assumes lib: "meojson J parse view" and reach: "run_reach False r"
    and cmr: "m = cm (coord_sys r)" and off: "get_coord_offset m 55 = Some off" and w: "is_axis w"
    and box: "list_all (in_box b) (map line_move moves)" "box_fits b off (soft_limits m)"
    and size: "int32 feed" "0 \<le> first" "first + int (length moves + 5) \<le> 2 ^ 31"
  defines "interp \<equiv> snd (run (script_of first (part_program feed delay moves)) RS274Interpreter_init)" and "p \<equiv> drive_pos m 55 w"
  obtains txt' j ts bs where "get_command_list_jsonstr interp = Inr txt'" "parse txt' = Some j"
    "MakeGCodeTaskListFromJson B J j = Some ts" "map body ts = bs @ [ProgramEnd]" "length ts = length moves + 5" "is_axis p"
    "walk m p bs = Some (replicate 4 p @ map (\<lambda>q. drive_pos m 55 (at_position w q)) (tool_path (get_command_list interp)))"
proof -
  let ?ls = "part_program feed delay moves"
  let ?as = "acmds_of feed first ?ls" and ?ts = "List.map_filter (task_of B) (acmds_of feed first ?ls)"
  have cmok: "cm_ok m" using run_reach_inv [OF reach] cmr cs_inv_cm by (simp add: run_inv_def)
  have src: "list_all (\<lambda>(fr, c). has_source fr) (script_of first ?ls)"
    using script_has_source [of first ?ls] by (simp add: o_def case_prod_unfold)
  have len: "length ?ls = length moves + 5" by (simp add: part_program_def)
  have fit: "list_all (\<lambda>(fr, a). int32 (lineno fr) \<and> fits a) ?as" using size len by (intro acmds_fit) simp_all
  have ne: "?as \<noteq> []" by (simp add: part_program_def)
  obtain txt' j where conv: "get_command_list_jsonstr interp = Inr txt'" "parse txt' = Some j" "MakeGCodeTaskListFromJson B J j = Some ?ts"
    unfolding interp_def using script_tasks [OF lib part_program_spec [OF feed_pos delay_nonneg all_moves, of first] src ne fit] by blast
  let ?bs = "map (line_body feed) ([L_g55, L_g90, L_f feed, L_g04 delay] @ moves)"
  have bodies: "map body ?ts = ?bs @ [ProgramEnd]" unfolding bodies_of_acmds by (simp add: part_program_def)
  have no_end: "L_m02 \<notin> set ([L_g55, L_g90, L_f feed, L_g04 delay] @ moves)"
    using all_moves by (auto simp: list_all_iff)
  have "list_all (in_box b) (map line_move ([L_g55, L_g90, L_f feed, L_g04 delay] @ moves))"
    using box(1) by simp
  from walk_lines [OF cmok off box(2) this no_end, of w nowhere feed]
  have walk: "walk m p ?bs = Some (replicate 4 p @ map (\<lambda>q. drive_pos m 55 (at_position w q)) (path (map line_move moves) nowhere))"
    by (simp add: at_position_nowhere [OF w] move_nowhere numeral_eq_Suc p_def)
  have lts: "length ?ts = length moves + 5" using arg_cong [OF bodies, of length] by simp
  have path: "tool_path (get_command_list interp) = path (map line_move moves) nowhere"
    using moves_of_result by (simp add: interp_def tool_path_def get_command_list_def result_commands_def)
  have "is_axis p" unfolding p_def by (rule drive_pos_frames(1) [OF cmok off w])
  from that [OF conv bodies lts this] show ?thesis using walk unfolding path by blast
qed

lemma on_machine:
  assumes lib: "meojson J parse view" and reach: "run_reach False r" "state r = Stopped"
    and cmr: "m = cm (coord_sys r)" and off: "get_coord_offset m 55 = Some off" and w: "is_axis w"
    and box: "list_all (in_box b) (map line_move moves)" "box_fits b off (soft_limits m)"
    and size: "int32 feed" "0 \<le> first" "first + int (length moves + 5) \<le> 2 ^ 31" "2 * (length moves + 5) + 1 \<le> n"
  shows "drives_the_path B J parse st (script_of first (part_program feed delay moves)) n r w"
proof -
  let ?interp = "snd (run (script_of first (part_program feed delay moves)) RS274Interpreter_init)" and ?p = "drive_pos m 55 w"
  let ?pts = "map (\<lambda>q. drive_pos m 55 (at_position w q)) (tool_path (get_command_list ?interp))"
  obtain txt' j ts bs where l: "get_command_list_jsonstr ?interp = Inr txt'" "parse txt' = Some j"
    "MakeGCodeTaskListFromJson B J j = Some ts" "map body ts = bs @ [ProgramEnd]" "length ts = length moves + 5" "is_axis ?p"
    "walk m ?p bs = Some (replicate 4 ?p @ ?pts)"
    using walk_of_list [OF lib reach(1) cmr off w box size(1-3)] by blast
  obtain r1 r' evs where run': "operation_gcode_start (ideal_env st ?p) ts r = Inr (True, r1)"
    "ideal_polls st n (?p, r1) = Inr (last (?p # replicate 4 ?p @ ?pts), r')" "state r' = Stopped" "last_error_str r' = []"
    "trace r' = trace r1 @ evs" "?p # driven evs = remdups_adj (?p # replicate 4 ?p @ ?pts)"
    using ideal_program_run [OF reach l(4,6), of "replicate 4 ?p @ ?pts" n st] l(5,7) size(4) cmr by auto
  have "last (?p # replicate 4 ?p @ ?pts) = last (?p # ?pts)" by (simp add: last_append)
  then show ?thesis
    unfolding drives_the_path_def Let_def cmr [symmetric]
    using l(1-3) run' remdups_adj_opening [of ?p 4 ?pts] by metis
qed

end

end
