(* ===== verification/Part_Loop.thy ===== *)
theory Part_Loop
  imports Motion_Loop Part_Run
begin

text \<open>
  A part program on the modelled motion thread: from the Python file to the positions at which the
  state machine of the motion thread comes to rest.
\<close>

text \<open>
  Whatever the executions on the machine \<open>m\<close>, the positions at which it is found idle are those of the tool
  path, from its own on, without the repetitions.
\<close>

definition machines_the_path ::
    "build \<Rightarrow> 'v json_lib \<Rightarrow> (string \<Rightarrow> 'v option) \<Rightarrow> real \<Rightarrow> settings \<Rightarrow> script \<Rightarrow> nat \<Rightarrow> runner \<Rightarrow> machine \<Rightarrow> axis_t \<Rightarrow> bool" where
  "machines_the_path B J parse T st script n r m w \<longleftrightarrow>
     (let c = cm (coord_sys r); interp = snd (run script RS274Interpreter_init);
          points = map (\<lambda>q. drive_pos c 55 (at_position w q)) (tool_path (get_command_list interp))
      in \<exists>txt' j ts r1.
           get_command_list_jsonstr interp = Inr txt' \<and> parse txt' = Some j
         \<and> MakeGCodeTaskListFromJson B J j = Some ts
         \<and> operation_gcode_start (machine_env st m) ts r = Inr (True, r1)
         \<and> (\<exists>f. f 0 = (m, r1) \<and> execution T st n f)
         \<and> (\<forall>f. f 0 = (m, r1) \<longrightarrow> execution T st n f \<longrightarrow>
              state (snd (f n)) = Stopped \<and> last_error_str (snd (f n)) = [] \<and> (\<forall>k \<le> n. mm_mode (fst (f k)) = MM_Idle)
            \<and> remdups_adj (places n f) = remdups_adj (drive_pos c 55 w # points)))"

context move_program
begin

lemma on_thread:
  assumes lib: "meojson J parse view" and reach: "run_reach False r" "state r = Stopped"
    and cmr: "c = cm (coord_sys r)" and off: "get_coord_offset c 55 = Some off" and w: "is_axis w"
    and box: "list_all (in_box b) (map line_move moves)" "box_fits b off (soft_limits c)"
    and size: "int32 feed" "0 \<le> first" "first + int (length moves + 5) \<le> 2 ^ 31" "2 * (length moves + 5) + 1 \<le> n"
    and thread: "ready (drive_pos c 55 w) m" "0 < T" "0 < fmparam_max_acc_um_s2 st"
  shows "machines_the_path B J parse T st (script_of first (part_program feed delay moves)) n r m w"
proof -
  let ?interp = "snd (run (script_of first (part_program feed delay moves)) RS274Interpreter_init)" and ?p = "drive_pos c 55 w"
  let ?pts = "map (\<lambda>q. drive_pos c 55 (at_position w q)) (tool_path (get_command_list ?interp))"
  obtain txt' j ts bs where l: "get_command_list_jsonstr ?interp = Inr txt'" "parse txt' = Some j"
    "MakeGCodeTaskListFromJson B J j = Some ts" "map body ts = bs @ [ProgramEnd]" "length ts = length moves + 5" "is_axis ?p"
    "walk c ?p bs = Some (replicate 4 ?p @ ?pts)"
    using walk_of_list [OF lib reach(1) cmr off w box size(1-3)] by blast
  obtain r1 r' where "operation_gcode_start (machine_env st m) ts r = Inr (True, r1)" "state r' = Stopped" "last_error_str r' = []"
    "runs_as T st n (m, r1) (last (?p # replicate 4 ?p @ ?pts)) r' (remdups_adj (?p # ?pts))"
    using program_runs_as [OF thread(1,2) reach l(4), of "replicate 4 ?p @ ?pts" st n] l(5,7) size(4) thread(3) cmr
    by (auto simp: remdups_adj_opening)
  then show ?thesis
    unfolding machines_the_path_def Let_def cmr [symmetric] runs_as_def using l(1-3) by blast
qed

end

end
