(* ===== verification/Gcode_Layers.thy ===== *)
theory Gcode_Layers
  imports Gcode_Programs
begin

text \<open>
  The layer discipline of a program whose contours may be open and whose plunges may shift the
  tool a little sideways: the tool travels at the safe height, stops at an approach height,
  plunges by the fixed amount, cuts at the depth, returns to the approach height and to the
  safe height. The discipline of closed contours (\<open>layered_program\<close>) is the case without a shift.
\<close>

section \<open>The discipline\<close>

fun near :: "int \<Rightarrow> int option \<Rightarrow> int option \<Rightarrow> bool" where
  "near tol (Some v) (Some w) \<longleftrightarrow> \<bar>v - w\<bar> \<le> tol"
| "near tol v w \<longleftrightarrow> v = w"

definition near_xy :: "int \<Rightarrow> position \<Rightarrow> position \<Rightarrow> bool" where
  "near_xy tol p q \<longleftrightarrow> near tol (fst p) (fst q) \<and> near tol (fst (snd p)) (fst (snd q))"

datatype stage =
    Leading
  | Travel
  | Above int
  | Milling int
  | Leaving

text \<open>The stage after a move from a position, \<open>None\<close> for a move the stage does not allow.\<close>

fun mill :: "int \<Rightarrow> position \<Rightarrow> move \<Rightarrow> stage \<Rightarrow> stage option" where
  "mill tol p m Leading =
     (if is_lateral m then Some Leading else if vertical m = Some safe_z then Some Travel else None)"
| "mill tol p m Travel =
     (if is_lateral m then Some Travel
      else case vertical m of Some z \<Rightarrow> if z < safe_z then Some (Above z) else None | None \<Rightarrow> None)"
| "mill tol p m (Above a) =
     (if height (move_to m p) = Some (a - plunge) \<and> near_xy tol p (move_to m p)
      then Some (Milling (a - plunge)) else None)"
| "mill tol p m (Milling c) =
     (if is_lateral m then Some (Milling c) else if vertical m = Some (c + plunge) then Some Leaving else None)"
| "mill tol p m Leaving = (if vertical m = Some safe_z then Some Travel else None)"

fun entered :: "stage \<Rightarrow> stage \<Rightarrow> int list" where
  "entered (Above a) (Milling c) = [c]"
| "entered _ _ = []"

fun mills :: "int \<Rightarrow> move list \<Rightarrow> position \<Rightarrow> stage \<Rightarrow> (position \<times> stage \<times> int list) option" where
  "mills tol [] p st = Some (p, st, [])"
| "mills tol (m # ms) p st =
     (case mill tol p m st of
        None \<Rightarrow> None
      | Some st' \<Rightarrow>
          map_option (\<lambda>(q, st'', ds). (q, st'', entered st st' @ ds)) (mills tol ms (move_to m p) st'))"

text \<open>The depths of a disciplined path that ends at the safe height.\<close>

definition depths :: "int \<Rightarrow> move list \<Rightarrow> int list option" where
  "depths tol ms = (case mills tol ms nowhere Leading of Some (_, Travel, ds) \<Rightarrow> Some ds | _ \<Rightarrow> None)"

text \<open>
  What the discipline guarantees of a step: it moves the tool sideways by more than the
  tolerance only without a change of height, at the safe height or at the depth of a layer
  (or before the height is first commanded).
\<close>

definition step_safe :: "int \<Rightarrow> int list \<Rightarrow> position \<Rightarrow> position \<Rightarrow> bool" where
  "step_safe tol D p q \<longleftrightarrow>
     near_xy tol p q \<or> height q = height p \<and> height p \<in> set (None # Some safe_z # map Some D)"

definition steps_safe :: "int \<Rightarrow> int list \<Rightarrow> position \<Rightarrow> position list \<Rightarrow> bool" where
  "steps_safe tol D p ps \<longleftrightarrow> list_all (\<lambda>(p, q). step_safe tol D p q) (zip (p # ps) ps)"

lemma steps_safe_simps [simp]:
  "steps_safe tol D p []" "steps_safe tol D p (q # ps) \<longleftrightarrow> step_safe tol D p q \<and> steps_safe tol D q ps"
  by (simp_all add: steps_safe_def)

lemma near_refl: "0 \<le> tol \<Longrightarrow> near tol v v"
  by (cases v) simp_all

lemma near_xy_same: "0 \<le> tol \<Longrightarrow> xy p = xy q \<Longrightarrow> near_xy tol p q"
  by (simp add: near_xy_def xy_def near_refl)

fun stage_height :: "int list \<Rightarrow> stage \<Rightarrow> int option \<Rightarrow> bool" where
  "stage_height D Leading h \<longleftrightarrow> h = None"
| "stage_height D Travel h \<longleftrightarrow> h = Some safe_z"
| "stage_height D (Above a) h \<longleftrightarrow> h = Some a"
| "stage_height D (Milling c) h \<longleftrightarrow> h = Some c \<and> c \<in> set D"
| "stage_height D Leaving h \<longleftrightarrow> h \<noteq> None"

lemma mill_safe:
  assumes "0 \<le> tol" "mill tol p m st = Some st'" "stage_height D st (height p)" "set (entered st st') \<subseteq> set D"
  shows "step_safe tol D p (move_to m p)" "stage_height D st' (height (move_to m p))"
  using assms
  by (cases st; auto simp: step_safe_def is_lateral_move vertical_move near_xy_same split: if_splits option.splits)+

lemma mills_safe:
  assumes "0 \<le> tol" "mills tol ms p st = Some (q, st', ds)" "stage_height D st (height p)" "set ds \<subseteq> set D"
  shows "steps_safe tol D p (path ms p)"
  using assms(2-)
proof (induction ms arbitrary: p st ds)
  case (Cons m ms)
  then obtain st1 ds1 where st: "mill tol p m st = Some st1" "mills tol ms (move_to m p) st1 = Some (q, st', ds1)"
    and ds: "ds = entered st st1 @ ds1" by (auto split: option.splits)
  have "set (entered st st1) \<subseteq> set D" "set ds1 \<subseteq> set D" using Cons.prems(3) ds by auto
  then show ?case using mill_safe [OF assms(1) st(1) Cons.prems(2)] Cons.IH [OF st(2)] by simp
qed simp

lemma depths_safe:
  assumes "0 \<le> tol" "depths tol ms = Some ds"
  shows "steps_safe tol ds nowhere (path ms nowhere)"
proof -
  obtain q where "mills tol ms nowhere Leading = Some (q, Travel, ds)"
    using assms(2) by (auto simp: depths_def split: option.splits stage.splits)
  from mills_safe [OF assms(1) this] show ?thesis by (simp add: nowhere_def height_def)
qed

lemma mills_append:
  "mills tol (ms @ ms') p st =
     (case mills tol ms p st of
        None \<Rightarrow> None
      | Some (q, st', ds) \<Rightarrow> map_option (\<lambda>(r, st'', ds'). (r, st'', ds @ ds')) (mills tol ms' q st'))"
  by (induction ms arbitrary: p st)
    (auto simp: option.map_comp o_def case_prod_unfold option.map_ident split: option.splits)

lemma mills_position: "mills tol ms p st = Some (q, st', ds) \<Longrightarrow> q = fold move_to ms p"
  by (induction ms arbitrary: p st ds) (auto split: option.splits)

section \<open>Closed contours as a case\<close>

fun stage_of :: "phase \<Rightarrow> stage" where
  "stage_of Start = Leading"
| "stage_of Safe = Travel"
| "stage_of (Approach a) = Above a"
| "stage_of (Cut c e) = Milling c"
| "stage_of Retract = Leaving"

lemma drive_mill:
  "drive p m ph = Some ph' \<Longrightarrow> 0 \<le> tol \<Longrightarrow> mill tol p m (stage_of ph) = Some (stage_of ph')"
  by (cases ph) (auto simp: vertical_move near_xy_same split: if_splits option.splits)

lemma plunges_entered: "drive p m ph = Some ph' \<Longrightarrow> entered (stage_of ph) (stage_of ph') = map fst (plunges ph ph')"
  by (cases ph) (auto split: if_splits option.splits)

lemma drives_mills:
  assumes "drives ms p ph = Some (q, ph', cs)" "0 \<le> tol"
  shows "mills tol ms p (stage_of ph) = Some (q, stage_of ph', map fst cs)"
  using assms(1)
proof (induction ms arbitrary: p ph cs)
  case (Cons m ms)
  then obtain ph1 cs1 where st: "drive p m ph = Some ph1" "drives ms (move_to m p) ph1 = Some (q, ph', cs1)"
    and cs: "cs = plunges ph ph1 @ cs1" by (auto split: option.splits)
  from Cons.IH [OF st(2)] show ?case
    using drive_mill [OF st(1) assms(2)] plunges_entered [OF st(1)] cs by simp
qed simp

lemma cuts_depths: "cuts ms = Some cs \<Longrightarrow> 0 \<le> tol \<Longrightarrow> depths tol ms = Some (map fst cs)"
proof -
  assume "cuts ms = Some cs" "0 \<le> tol"
  then obtain q where "drives ms nowhere Start = Some (q, Safe, cs)"
    by (auto simp: cuts_def split: option.splits phase.splits)
  from drives_mills [OF this \<open>0 \<le> tol\<close>] show ?thesis by (simp add: depths_def)
qed

section \<open>Milled programs\<close>

locale milled_program = boxed_program +
  fixes tolerance :: int and layer_depths :: "int list"
  assumes tolerance_nonneg: "0 \<le> tolerance"
    and layer_depths: "depths tolerance (map line_move moves) = Some layer_depths"
begin

lemma depths_of_result: "depths tolerance (moves_of result_commands) = Some layer_depths"
  by (simp add: moves_of_result layer_depths)

lemma result_steps_safe: "steps_safe tolerance layer_depths nowhere (tool_path result_commands)"
  using depths_safe [OF tolerance_nonneg depths_of_result] by (simp add: tool_path_def)

end

text \<open>A program with closed contours keeps the discipline without a tolerance.\<close>

sublocale layered_program < milled: milled_program first feed delay moves envelope 0 "map fst layer_cuts"
  by unfold_locales (simp_all add: cuts_depths [OF layer_cuts])

section \<open>Checking a group of lines\<close>

text \<open>
  A group of lines goes from one point at the safe height to another, inside the box, and
  cuts at the depths it lists. The test is computed; groups are put together by \<open>group_append\<close>.
\<close>

definition mills_group :: "int \<Rightarrow> box \<Rightarrow> pline list \<Rightarrow> int \<times> int \<Rightarrow> int \<times> int \<Rightarrow> int list \<Rightarrow> bool" where
  "mills_group tol b ls p q ds \<longleftrightarrow>
     list_all is_move ls \<and> list_all (\<lambda>l. in_box b (line_move l)) ls
     \<and> mills tol (map line_move ls) (Some (fst p), Some (snd p), Some safe_z) Travel =
         Some ((Some (fst q), Some (snd q), Some safe_z), Travel, ds)"

lemma group_append:
  "mills_group tol b ls p q ds \<Longrightarrow> mills_group tol b ls' q r ds' \<Longrightarrow> mills_group tol b (ls @ ls') p r (ds @ ds')"
  by (simp add: mills_group_def mills_append)

fun chained :: "int \<Rightarrow> box \<Rightarrow> (pline list \<times> (int \<times> int) \<times> int list) list \<Rightarrow> int \<times> int \<Rightarrow> bool" where
  "chained tol b [] p \<longleftrightarrow> True"
| "chained tol b ((ls, q, ds) # gs) p \<longleftrightarrow> mills_group tol b ls p q ds \<and> chained tol b gs q"

lemma chained_group:
  "chained tol b gs p \<Longrightarrow>
     mills_group tol b (concat (map fst gs)) p (last (p # map (fst \<circ> snd) gs)) (concat (map (snd \<circ> snd) gs))"
proof (induction gs arbitrary: p)
  case (Cons g gs)
  obtain ls q ds where g: "g = (ls, q, ds)" by (cases g)
  then have "mills_group tol b ls p q ds" "chained tol b gs q" using Cons.prems by simp_all
  from group_append [OF this(1) Cons.IH [OF this(2)]] show ?case by (simp add: g)
qed (simp add: mills_group_def)

lemma group_program:
  assumes lead: "mills tol (map line_move lead) nowhere Leading = Some ((Some (fst p), Some (snd p), Some safe_z), Travel, [])"
      "list_all is_move lead" "list_all (\<lambda>l. in_box b (line_move l)) lead"
    and body: "mills_group tol b ls p q ds"
  shows "list_all is_move (lead @ ls)" "list_all (in_box b) (map line_move (lead @ ls))"
    "depths tol (map line_move (lead @ ls)) = Some ds"
  using assms by (simp_all add: mills_group_def depths_def mills_append list.pred_map o_def)

end
