(* ===== verification/Gcode_Full_Shape.thy ===== *)
theory Gcode_Full_Shape
  imports Gcode_Layers
begin

text \<open>
  The shape of the full part program \<^verbatim>\<open>gcode/01-....py\<close>: the box of its coordinates and the
  depths of its 255 layers. Its lines are in the theories \<^verbatim>\<open>Gcode_Full_A\<close> to \<^verbatim>\<open>Gcode_Full_D\<close>.
\<close>

definition full_box :: box where
  "full_box = ((- 8699, 8700), (- 8700, 7010), (- 14900, 10000))"

text \<open>Five layers of 0.2 mm, two hundred of 0.02 mm and fifty of 0.198 mm.\<close>

definition full_depth :: "nat \<Rightarrow> int" where
  "full_depth k =
     (if k < 5 then - 200 * (int k + 1)
      else if k < 205 then - 1000 - 20 * (int k - 4)
      else - 5000 - 198 * (int k - 204))"

text \<open>A layer of the program: where it ends and its depth, for the composition of layers.\<close>

abbreviation "full_group ls p q d \<equiv> mills_group 1 full_box ls p q [d]"

end
