(* ===== verification/Gcode_Full_A.thy ===== *)
theory Gcode_Full_A
  imports Gcode_Full_Shape
begin

text \<open>
  Layers 0 to 63 of the full part program, lines 8 to 5065 of the file.
\<close>

section \<open>The lines of the file\<close>

text \<open>Lines 8 to 87.\<close>

definition full_layer_000 :: "pline list" where
  "full_layer_000 = [
     Z 2800, Z (-200), XY (-3075) (-4976), XY (-4326) (-3982), XY (-5240) (-2668), XY (-5765) (-1155),
     XY (-5863) 443, XY (-5526) 2009, XY (-4779) 3425, XY (-3678) 4588, XY (-2304) 5410, XY (-759) 5831,
     XY 842 5819, XY 2381 5376, XY 3743 4534, XY 4828 3356, XY 5554 1929, XY 5869 359, XY 5748 (-1238),
     XY 5201 (-2743), XY 4268 (-4044), XY 3019 (-5046), XY 1546 (-5673), XY (-42) (-5880),
     XY (-1627) (-5650), XY (-3075) (-4976), XY (-2287) (-3700), XY (-3341) (-2832), XY (-4053) (-1661),
     XY (-4368) (-327), XY (-4255) 1039, XY (-3726) 2303, XY (-2832) 3341, XY (-1661) 4053,
     XY (-327) 4368, XY 1039 4255, XY 2303 3726, XY 3341 2832, XY 4053 1661, XY 4368 327,
     XY 4255 (-1039), XY 3726 (-2303), XY 2832 (-3341), XY 1661 (-4053), XY 327 (-4368),
     XY (-1039) (-4255), XY (-2287) (-3700), XY (-1498) (-2424), XY (-2336) (-1684), XY (-2803) (-662),
     XY (-2843) 461, XY (-2450) 1514, XY (-1684) 2336, XY (-662) 2803, XY 461 2843, XY 1514 2450,
     XY 2336 1684, XY 2803 662, XY 2843 (-461), XY 2450 (-1514), XY 1684 (-2336), XY 662 (-2803),
     XY (-461) (-2843), XY (-1498) (-2424), XY (-710) (-1148), XY (-1245) (-595), XY (-1369) 172,
     XY (-1059) 885, XY (-412) 1317, XY 365 1331, XY 1027 922, XY 1362 220, XY 1265 (-551),
     XY 766 (-1148), XY 24 (-1380), XY (-710) (-1148), XY 0 0, XY 1351 652, Z 2800, Z 10000]"

text \<open>Lines 88 to 168.\<close>

definition full_layer_001 :: "pline list" where
  "full_layer_001 = [
     XY (-4574) (-7401), Z 2600, Z (-400), XY (-3075) (-4976), XY (-4326) (-3982), XY (-5240) (-2668),
     XY (-5765) (-1155), XY (-5863) 443, XY (-5526) 2009, XY (-4779) 3425, XY (-3678) 4588,
     XY (-2304) 5410, XY (-759) 5831, XY 842 5819, XY 2381 5376, XY 3743 4534, XY 4828 3356,
     XY 5554 1929, XY 5869 359, XY 5748 (-1238), XY 5201 (-2743), XY 4268 (-4044), XY 3019 (-5046),
     XY 1546 (-5673), XY (-42) (-5880), XY (-1627) (-5650), XY (-3075) (-4976), XY (-2287) (-3700),
     XY (-3341) (-2832), XY (-4053) (-1661), XY (-4368) (-327), XY (-4255) 1039, XY (-3726) 2303,
     XY (-2832) 3341, XY (-1661) 4053, XY (-327) 4368, XY 1039 4255, XY 2303 3726, XY 3341 2832,
     XY 4053 1661, XY 4368 327, XY 4255 (-1039), XY 3726 (-2303), XY 2832 (-3341), XY 1661 (-4053),
     XY 327 (-4368), XY (-1039) (-4255), XY (-2287) (-3700), XY (-1498) (-2424), XY (-2336) (-1684),
     XY (-2803) (-662), XY (-2843) 461, XY (-2450) 1514, XY (-1684) 2336, XY (-662) 2803, XY 461 2843,
     XY 1514 2450, XY 2336 1684, XY 2803 662, XY 2843 (-461), XY 2450 (-1514), XY 1684 (-2336),
     XY 662 (-2803), XY (-461) (-2843), XY (-1498) (-2424), XY (-710) (-1148), XY (-1245) (-595),
     XY (-1369) 172, XY (-1059) 885, XY (-412) 1317, XY 365 1331, XY 1027 922, XY 1362 220,
     XY 1265 (-551), XY 766 (-1148), XY 24 (-1380), XY (-710) (-1148), XY 0 0, XY 1351 652, Z 2600,
     Z 10000]"

text \<open>Lines 169 to 249.\<close>

definition full_layer_002 :: "pline list" where
  "full_layer_002 = [
     XY (-4574) (-7401), Z 2400, Z (-600), XY (-3075) (-4976), XY (-4326) (-3982), XY (-5240) (-2668),
     XY (-5765) (-1155), XY (-5863) 443, XY (-5526) 2009, XY (-4779) 3425, XY (-3678) 4588,
     XY (-2304) 5410, XY (-759) 5831, XY 842 5819, XY 2381 5376, XY 3743 4534, XY 4828 3356,
     XY 5554 1929, XY 5869 359, XY 5748 (-1238), XY 5201 (-2743), XY 4268 (-4044), XY 3019 (-5046),
     XY 1546 (-5673), XY (-42) (-5880), XY (-1627) (-5650), XY (-3075) (-4976), XY (-2287) (-3700),
     XY (-3341) (-2832), XY (-4053) (-1661), XY (-4368) (-327), XY (-4255) 1039, XY (-3726) 2303,
     XY (-2832) 3341, XY (-1661) 4053, XY (-327) 4368, XY 1039 4255, XY 2303 3726, XY 3341 2832,
     XY 4053 1661, XY 4368 327, XY 4255 (-1039), XY 3726 (-2303), XY 2832 (-3341), XY 1661 (-4053),
     XY 327 (-4368), XY (-1039) (-4255), XY (-2287) (-3700), XY (-1498) (-2424), XY (-2336) (-1684),
     XY (-2803) (-662), XY (-2843) 461, XY (-2450) 1514, XY (-1684) 2336, XY (-662) 2803, XY 461 2843,
     XY 1514 2450, XY 2336 1684, XY 2803 662, XY 2843 (-461), XY 2450 (-1514), XY 1684 (-2336),
     XY 662 (-2803), XY (-461) (-2843), XY (-1498) (-2424), XY (-710) (-1148), XY (-1245) (-595),
     XY (-1369) 172, XY (-1059) 885, XY (-412) 1317, XY 365 1331, XY 1027 922, XY 1362 220,
     XY 1265 (-551), XY 766 (-1148), XY 24 (-1380), XY (-710) (-1148), XY 0 0, XY 1351 652, Z 2400,
     Z 10000]"

text \<open>Lines 250 to 330.\<close>

definition full_layer_003 :: "pline list" where
  "full_layer_003 = [
     XY (-4574) (-7401), Z 2200, Z (-800), XY (-3075) (-4976), XY (-4326) (-3982), XY (-5240) (-2668),
     XY (-5765) (-1155), XY (-5863) 443, XY (-5526) 2009, XY (-4779) 3425, XY (-3678) 4588,
     XY (-2304) 5410, XY (-759) 5831, XY 842 5819, XY 2381 5376, XY 3743 4534, XY 4828 3356,
     XY 5554 1929, XY 5869 359, XY 5748 (-1238), XY 5201 (-2743), XY 4268 (-4044), XY 3019 (-5046),
     XY 1546 (-5673), XY (-42) (-5880), XY (-1627) (-5650), XY (-3075) (-4976), XY (-2287) (-3700),
     XY (-3341) (-2832), XY (-4053) (-1661), XY (-4368) (-327), XY (-4255) 1039, XY (-3726) 2303,
     XY (-2832) 3341, XY (-1661) 4053, XY (-327) 4368, XY 1039 4255, XY 2303 3726, XY 3341 2832,
     XY 4053 1661, XY 4368 327, XY 4255 (-1039), XY 3726 (-2303), XY 2832 (-3341), XY 1661 (-4053),
     XY 327 (-4368), XY (-1039) (-4255), XY (-2287) (-3700), XY (-1498) (-2424), XY (-2336) (-1684),
     XY (-2803) (-662), XY (-2843) 461, XY (-2450) 1514, XY (-1684) 2336, XY (-662) 2803, XY 461 2843,
     XY 1514 2450, XY 2336 1684, XY 2803 662, XY 2843 (-461), XY 2450 (-1514), XY 1684 (-2336),
     XY 662 (-2803), XY (-461) (-2843), XY (-1498) (-2424), XY (-710) (-1148), XY (-1245) (-595),
     XY (-1369) 172, XY (-1059) 885, XY (-412) 1317, XY 365 1331, XY 1027 922, XY 1362 220,
     XY 1265 (-551), XY 766 (-1148), XY 24 (-1380), XY (-710) (-1148), XY 0 0, XY 1351 652, Z 2200,
     Z 10000]"

text \<open>Lines 331 to 411.\<close>

definition full_layer_004 :: "pline list" where
  "full_layer_004 = [
     XY (-4574) (-7401), Z 2000, Z (-1000), XY (-3075) (-4976), XY (-4326) (-3982), XY (-5240) (-2668),
     XY (-5765) (-1155), XY (-5863) 443, XY (-5526) 2009, XY (-4779) 3425, XY (-3678) 4588,
     XY (-2304) 5410, XY (-759) 5831, XY 842 5819, XY 2381 5376, XY 3743 4534, XY 4828 3356,
     XY 5554 1929, XY 5869 359, XY 5748 (-1238), XY 5201 (-2743), XY 4268 (-4044), XY 3019 (-5046),
     XY 1546 (-5673), XY (-42) (-5880), XY (-1627) (-5650), XY (-3075) (-4976), XY (-2287) (-3700),
     XY (-3341) (-2832), XY (-4053) (-1661), XY (-4368) (-327), XY (-4255) 1039, XY (-3726) 2303,
     XY (-2832) 3341, XY (-1661) 4053, XY (-327) 4368, XY 1039 4255, XY 2303 3726, XY 3341 2832,
     XY 4053 1661, XY 4368 327, XY 4255 (-1039), XY 3726 (-2303), XY 2832 (-3341), XY 1661 (-4053),
     XY 327 (-4368), XY (-1039) (-4255), XY (-2287) (-3700), XY (-1498) (-2424), XY (-2336) (-1684),
     XY (-2803) (-662), XY (-2843) 461, XY (-2450) 1514, XY (-1684) 2336, XY (-662) 2803, XY 461 2843,
     XY 1514 2450, XY 2336 1684, XY 2803 662, XY 2843 (-461), XY 2450 (-1514), XY 1684 (-2336),
     XY 662 (-2803), XY (-461) (-2843), XY (-1498) (-2424), XY (-710) (-1148), XY (-1245) (-595),
     XY (-1369) 172, XY (-1059) 885, XY (-412) 1317, XY 365 1331, XY 1027 922, XY 1362 220,
     XY 1265 (-551), XY 766 (-1148), XY 24 (-1380), XY (-710) (-1148), XY 0 0, XY 1351 652, Z 2000,
     Z 10000]"

text \<open>Lines 412 to 483.\<close>

definition full_layer_005 :: "pline list" where
  "full_layer_005 = [
     XY 0 (-8700), Z 1980, Z (-1020), Y (-5850), XY (-1586) (-5662), XY (-3055) (-5024),
     XY (-4297) (-4013), XY (-5221) (-2705), XY (-5757) (-1196), XY (-5866) 401, XY (-5540) 1969,
     XY (-4804) 3391, XY (-3711) 4561, XY (-2343) 5393, XY (-801) 5825, X 801, XY 2343 5393,
     XY 3711 4561, XY 4804 3391, XY 5540 1969, XY 5866 401, XY 5757 (-1196), XY 5221 (-2705),
     XY 4297 (-4013), XY 3055 (-5024), XY 1586 (-5662), XY 0 (-5850), Y (-4350), XY (-1353) (-4166),
     XY (-2575) (-3543), XY (-3543) (-2575), XY (-4166) (-1353), XY (-4380) 0, XY (-4166) 1353,
     XY (-3543) 2575, XY (-2575) 3543, XY (-1353) 4166, XY 0 4380, XY 1353 4166, XY 2575 3543,
     XY 3543 2575, XY 4166 1353, XY 4380 0, XY 4166 (-1353), XY 3543 (-2575), XY 2575 (-3543),
     XY 1353 (-4166), XY 0 (-4350), XY 1 (-3446), XY (-1131) (-3286), XY (-2139) (-2738),
     XY (-2913) (-1892), XY (-3371) (-840), XY (-3461) 303, XY (-3174) 1414, XY (-2542) 2371,
     XY (-1633) 3070, XY (-545) 3436, XY 602 3427, XY 1670 3020, XY 2432 2483, XY 3007 1744,
     XY 3339 873, XY 3477 (-169), XY 3266 (-1203), XY 2755 (-2125), XY 1991 (-2853), XY 1044 (-3317),
     XY 1 (-3446), XY (-3) (-8700), Z 1980, Z 10000]"

text \<open>Lines 484 to 553.\<close>

definition full_layer_006 :: "pline list" where
  "full_layer_006 = [
     X 0, Z 1960, Z (-1040), Y (-5850), XY (-1586) (-5662), XY (-3055) (-5024), XY (-4297) (-4013),
     XY (-5221) (-2705), XY (-5757) (-1196), XY (-5866) 401, XY (-5540) 1969, XY (-4804) 3391,
     XY (-3711) 4561, XY (-2343) 5393, XY (-801) 5825, X 801, XY 2343 5393, XY 3711 4561, XY 4804 3391,
     XY 5540 1969, XY 5866 401, XY 5757 (-1196), XY 5221 (-2705), XY 4297 (-4013), XY 3055 (-5024),
     XY 1586 (-5662), XY 0 (-5850), Y (-4350), XY (-1353) (-4166), XY (-2575) (-3543),
     XY (-3543) (-2575), XY (-4166) (-1353), XY (-4380) 0, XY (-4166) 1353, XY (-3543) 2575,
     XY (-2575) 3543, XY (-1353) 4166, XY 0 4380, XY 1353 4166, XY 2575 3543, XY 3543 2575,
     XY 4166 1353, XY 4380 0, XY 4166 (-1353), XY 3543 (-2575), XY 2575 (-3543), XY 1353 (-4166),
     XY 0 (-4350), Y (-3453), XY (-1191) (-3272), XY (-2238) (-2667), XY (-3015) (-1740),
     XY (-3428) (-603), XY (-3427) 606, XY (-3013) 1743, XY (-2235) 2669, XY (-1187) 3273, XY 4 3482,
     XY 1195 3272, XY 2242 2667, XY 3019 1740, XY 3432 603, XY 3431 (-606), XY 3017 (-1743),
     XY 2239 (-2669), XY 1192 (-3273), XY 0 (-3453), XY (-2) (-8700), Z 1960, Z 10000]"

text \<open>Lines 554 to 623.\<close>

definition full_layer_007 :: "pline list" where
  "full_layer_007 = [
     X 0, Z 1940, Z (-1060), Y (-5850), XY (-1586) (-5662), XY (-3055) (-5024), XY (-4297) (-4013),
     XY (-5221) (-2705), XY (-5757) (-1196), XY (-5866) 401, XY (-5540) 1969, XY (-4804) 3391,
     XY (-3711) 4561, XY (-2343) 5393, XY (-801) 5825, X 801, XY 2343 5393, XY 3711 4561, XY 4804 3391,
     XY 5540 1969, XY 5866 401, XY 5757 (-1196), XY 5221 (-2705), XY 4297 (-4013), XY 3055 (-5024),
     XY 1586 (-5662), XY 0 (-5850), Y (-4350), XY (-1353) (-4166), XY (-2575) (-3543),
     XY (-3543) (-2575), XY (-4166) (-1353), XY (-4380) 0, XY (-4166) 1353, XY (-3543) 2575,
     XY (-2575) 3543, XY (-1353) 4166, XY 0 4380, XY 1353 4166, XY 2575 3543, XY 3543 2575,
     XY 4166 1353, XY 4380 0, XY 4166 (-1353), XY 3543 (-2575), XY 2575 (-3543), XY 1353 (-4166),
     XY 0 (-4350), Y (-3465), XY (-1195) (-3285), XY (-2246) (-2678), XY (-3026) (-1749),
     XY (-3441) (-609), XY (-3442) 604, XY (-3027) 1744, XY (-2247) 2673, XY (-1197) 3280, XY (-2) 3491,
     XY 1192 3281, XY 2243 2675, XY 3023 1746, XY 3439 606, Y (-607), XY 3024 (-1747), XY 2245 (-2677),
     XY 1194 (-3284), XY 0 (-3465), XY 1 (-8700), Z 1940, Z 10000]"

text \<open>Lines 624 to 695.\<close>

definition full_layer_008 :: "pline list" where
  "full_layer_008 = [
     X 0, Z 1920, Z (-1080), Y (-5850), XY (-1586) (-5662), XY (-3055) (-5024), XY (-4297) (-4013),
     XY (-5221) (-2705), XY (-5757) (-1196), XY (-5866) 401, XY (-5540) 1969, XY (-4804) 3391,
     XY (-3711) 4561, XY (-2343) 5393, XY (-801) 5825, X 801, XY 2343 5393, XY 3711 4561, XY 4804 3391,
     XY 5540 1969, XY 5866 401, XY 5757 (-1196), XY 5221 (-2705), XY 4297 (-4013), XY 3055 (-5024),
     XY 1586 (-5662), XY 0 (-5850), Y (-4350), XY (-1353) (-4166), XY (-2575) (-3543),
     XY (-3543) (-2575), XY (-4166) (-1353), XY (-4380) 0, XY (-4166) 1353, XY (-3543) 2575,
     XY (-2575) 3543, XY (-1353) 4166, XY 0 4380, XY 1353 4166, XY 2575 3543, XY 3543 2575,
     XY 4166 1353, XY 4380 0, XY 4166 (-1353), XY 3543 (-2575), XY 2575 (-3543), XY 1353 (-4166),
     XY 0 (-4350), Y (-3466), XY (-583) (-3447), XY (-1150) (-3302), XY (-1670) (-3037),
     XY (-2630) (-2303), XY (-3259) (-1264), XY (-3495) (-73), XY (-3309) 1126, XY (-2725) 2190,
     XY (-1811) 2990, XY (-679) 3429, XY 535 3454, XY 1670 3037, XY 2586 2352, XY 3209 1388,
     XY 3486 274, XY 3387 (-870), XY 2922 (-1920), XY 2143 (-2763), XY 1133 (-3308), XY 0 (-3466),
     XY (-1) (-8700), Z 1920, Z 10000]"

text \<open>Lines 696 to 768.\<close>

definition full_layer_009 :: "pline list" where
  "full_layer_009 = [
     Z 1900, G00 (Some (Mil 0)) None (Some (Mil (-1100))), Y (-5850), XY (-1586) (-5662),
     XY (-3055) (-5024), XY (-4297) (-4013), XY (-5221) (-2705), XY (-5757) (-1196), XY (-5866) 401,
     XY (-5540) 1969, XY (-4804) 3391, XY (-3711) 4561, XY (-2343) 5393, XY (-801) 5825, X 801,
     XY 2343 5393, XY 3711 4561, XY 4804 3391, XY 5540 1969, XY 5866 401, XY 5757 (-1196),
     XY 5221 (-2705), XY 4297 (-4013), XY 3055 (-5024), XY 1586 (-5662), XY 0 (-5850), Y (-4350),
     XY (-1353) (-4166), XY (-2575) (-3543), XY (-3543) (-2575), XY (-4166) (-1353), XY (-4380) 0,
     XY (-4166) 1353, XY (-3543) 2575, XY (-2575) 3543, XY (-1353) 4166, XY 0 4380, XY 1353 4166,
     XY 2575 3543, XY 3543 2575, XY 4166 1353, XY 4380 0, XY 4166 (-1353), XY 3543 (-2575),
     XY 2575 (-3543), XY 1353 (-4166), XY 0 (-4350), XY 1 (-3474), XY (-1076) (-3334),
     XY (-2049) (-2842), XY (-2823) (-2075), XY (-3324) (-1107), XY (-3505) (-32), XY (-3346) 1047,
     XY (-2864) 2024, XY (-2087) 2783, XY (-1235) 3270, XY (-272) 3478, XY 711 3418, XY 1640 3092,
     XY 2426 2505, XY 3077 1689, XY 3433 704, XY 3484 (-342), XY 3227 (-1357), XY 2683 (-2251),
     XY 1883 (-2922), XY 1306 (-3253), XY 665 (-3441), XY 1 (-3474), XY (-3) (-8700), Z 1900, Z 10000]"

text \<open>Lines 769 to 841.\<close>

definition full_layer_010 :: "pline list" where
  "full_layer_010 = [
     X 0, Z 1880, Z (-1120), Y (-5850), XY (-1586) (-5662), XY (-3055) (-5024), XY (-4297) (-4013),
     XY (-5221) (-2705), XY (-5757) (-1196), XY (-5866) 401, XY (-5540) 1969, XY (-4804) 3391,
     XY (-3711) 4561, XY (-2343) 5393, XY (-801) 5825, X 801, XY 2343 5393, XY 3711 4561, XY 4804 3391,
     XY 5540 1969, XY 5866 401, XY 5757 (-1196), XY 5221 (-2705), XY 4297 (-4013), XY 3055 (-5024),
     XY 1586 (-5662), XY 0 (-5850), Y (-4350), XY (-1353) (-4166), XY (-2575) (-3543),
     XY (-3543) (-2575), XY (-4166) (-1353), XY (-4380) 0, XY (-4166) 1353, XY (-3543) 2575,
     XY (-2575) 3543, XY (-1353) 4166, XY 0 4380, XY 1353 4166, XY 2575 3543, XY 3543 2575,
     XY 4166 1353, XY 4380 0, XY 4166 (-1353), XY 3543 (-2575), XY 2575 (-3543), XY 1353 (-4166),
     XY 0 (-4350), Y (-3464), XY (-893) (-3382), XY (-1730) (-3053), XY (-2439) (-2505),
     XY (-3102) (-1636), XY (-3446) (-594), XY (-3460) 503, XY (-3144) 1553, XY (-2505) 2439,
     XY (-1635) 3100, XY (-594) 3442, XY 501 3457, XY 1551 3142, XY 2437 2505, XY 3109 1620,
     XY 3451 558, Y (-557), XY 3110 (-1619), XY 2439 (-2505), XY 1730 (-3053), XY 893 (-3382),
     XY 0 (-3464), Y (-8700), Z 1880, Z 10000]"

text \<open>Lines 842 to 913.\<close>

definition full_layer_011 :: "pline list" where
  "full_layer_011 = [
     Z 1860, Z (-1140), Y (-5850), XY (-1586) (-5662), XY (-3055) (-5024), XY (-4297) (-4013),
     XY (-5221) (-2705), XY (-5757) (-1196), XY (-5866) 401, XY (-5540) 1969, XY (-4804) 3391,
     XY (-3711) 4561, XY (-2343) 5393, XY (-801) 5825, X 801, XY 2343 5393, XY 3711 4561, XY 4804 3391,
     XY 5540 1969, XY 5866 401, XY 5757 (-1196), XY 5221 (-2705), XY 4297 (-4013), XY 3055 (-5024),
     XY 1586 (-5662), XY 0 (-5850), Y (-4350), XY (-1353) (-4166), XY (-2575) (-3543),
     XY (-3543) (-2575), XY (-4166) (-1353), XY (-4380) 0, XY (-4166) 1353, XY (-3543) 2575,
     XY (-2575) 3543, XY (-1353) 4166, XY 0 4380, XY 1353 4166, XY 2575 3543, XY 3543 2575,
     XY 4166 1353, XY 4380 0, XY 4166 (-1353), XY 3543 (-2575), XY 2575 (-3543), XY 1353 (-4166),
     XY 0 (-4350), Y (-3468), XY (-896) (-3385), XY (-1737) (-3055), XY (-2450) (-2505),
     XY (-3109) (-1631), XY (-3450) (-587), XY (-3462) 511, XY (-3145) 1562, XY (-2505) 2450,
     XY (-1617) 3114, XY (-556) 3452, X 556, XY 1617 3114, XY 2505 2450, XY 3144 1562, XY 3461 511,
     XY 3449 (-587), XY 3109 (-1631), XY 2450 (-2505), XY 1737 (-3055), XY 896 (-3385), XY 0 (-3468),
     Y (-8700), Z 1860, Z 10000]"

text \<open>Lines 914 to 985.\<close>

definition full_layer_012 :: "pline list" where
  "full_layer_012 = [
     Z 1840, Z (-1160), Y (-5850), XY (-1586) (-5662), XY (-3055) (-5024), XY (-4297) (-4013),
     XY (-5221) (-2705), XY (-5757) (-1196), XY (-5866) 401, XY (-5540) 1969, XY (-4804) 3391,
     XY (-3711) 4561, XY (-2343) 5393, XY (-801) 5825, X 801, XY 2343 5393, XY 3711 4561, XY 4804 3391,
     XY 5540 1969, XY 5866 401, XY 5757 (-1196), XY 5221 (-2705), XY 4297 (-4013), XY 3055 (-5024),
     XY 1586 (-5662), XY 0 (-5850), Y (-4350), XY (-1353) (-4166), XY (-2575) (-3543),
     XY (-3543) (-2575), XY (-4166) (-1353), XY (-4380) 0, XY (-4166) 1353, XY (-3543) 2575,
     XY (-2575) 3543, XY (-1353) 4166, XY 0 4380, XY 1353 4166, XY 2575 3543, XY 3543 2575,
     XY 4166 1353, XY 4380 0, XY 4166 (-1353), XY 3543 (-2575), XY 2575 (-3543), XY 1353 (-4166),
     XY 0 (-4350), Y (-3470), XY (-900) (-3388), XY (-1745) (-3056), XY (-2461) (-2505),
     XY (-3117) (-1627), XY (-3454) (-580), XY (-3464) 519, XY (-3145) 1572, XY (-2505) 2461,
     XY (-1615) 3120, XY (-556) 3455, X 556, XY 1615 3120, XY 2505 2461, XY 3145 1572, XY 3463 519,
     XY 3453 (-580), XY 3116 (-1627), XY 2461 (-2505), XY 1745 (-3056), XY 900 (-3388), XY 0 (-3470),
     Y (-8700), Z 1840, Z 10000]"

text \<open>Lines 986 to 1060.\<close>

definition full_layer_013 :: "pline list" where
  "full_layer_013 = [
     Z 1820, Z (-1180), Y (-5850), XY (-1586) (-5662), XY (-3055) (-5024), XY (-4297) (-4013),
     XY (-5221) (-2705), XY (-5757) (-1196), XY (-5866) 401, XY (-5540) 1969, XY (-4804) 3391,
     XY (-3711) 4561, XY (-2343) 5393, XY (-801) 5825, X 801, XY 2343 5393, XY 3711 4561, XY 4804 3391,
     XY 5540 1969, XY 5866 401, XY 5757 (-1196), XY 5221 (-2705), XY 4297 (-4013), XY 3055 (-5024),
     XY 1586 (-5662), XY 0 (-5850), Y (-4350), XY (-1353) (-4166), XY (-2575) (-3543),
     XY (-3543) (-2575), XY (-4166) (-1353), XY (-4380) 0, XY (-4166) 1353, XY (-3543) 2575,
     XY (-2575) 3543, XY (-1353) 4166, XY 0 4380, XY 1353 4166, XY 2575 3543, XY 3543 2575,
     XY 4166 1353, XY 4380 0, XY 4166 (-1353), XY 3543 (-2575), XY 2575 (-3543), XY 1353 (-4166),
     XY 0 (-4350), XY (-6) (-3468), XY (-909) (-3390), XY (-1755) (-3059), XY (-2472) (-2505),
     XY (-3124) (-1623), XY (-3458) (-573), XY (-3466) 528, XY (-3145) 1581, XY (-2505) 2472,
     XY (-1796) 3031, XY (-957) 3374, XY (-59) 3499, XY 835 3372, XY 974 3339, XY 2009 2901,
     XY 2827 2122, XY 3344 1117, XY 3473 0, XY 3447 (-417), XY 3169 (-1545), XY 2498 (-2499),
     XY 1545 (-3170), XY 417 (-3449), XY 164 (-3463), XY (-6) (-3468), XY 32 (-8700), Z 1820, Z 10000]"

text \<open>Lines 1061 to 1135.\<close>

definition full_layer_014 :: "pline list" where
  "full_layer_014 = [
     X 0, Z 1800, Z (-1200), Y (-5850), XY (-1586) (-5662), XY (-3055) (-5024), XY (-4297) (-4013),
     XY (-5221) (-2705), XY (-5757) (-1196), XY (-5866) 401, XY (-5540) 1969, XY (-4804) 3391,
     XY (-3711) 4561, XY (-2343) 5393, XY (-801) 5825, X 801, XY 2343 5393, XY 3711 4561, XY 4804 3391,
     XY 5540 1969, XY 5866 401, XY 5757 (-1196), XY 5221 (-2705), XY 4297 (-4013), XY 3055 (-5024),
     XY 1586 (-5662), XY 0 (-5850), Y (-4350), XY (-1353) (-4166), XY (-2575) (-3543),
     XY (-3543) (-2575), XY (-4166) (-1353), XY (-4380) 0, XY (-4166) 1353, XY (-3543) 2575,
     XY (-2575) 3543, XY (-1353) 4166, XY 0 4380, XY 1353 4166, XY 2575 3543, XY 3543 2575,
     XY 4166 1353, XY 4380 0, XY 4166 (-1353), XY 3543 (-2575), XY 2575 (-3543), XY 1353 (-4166),
     XY 0 (-4350), Y (-3476), XY (-908) (-3393), XY (-1759) (-3059), XY (-2482) (-2505),
     XY (-3131) (-1618), XY (-3462) (-567), XY (-3467) 536, XY (-3146) 1591, XY (-2505) 2483,
     XY (-1652) 3113, XY (-642) 3447, XY 417 3449, XY 835 3375, XY 1707 3094, XY 2454 2556,
     XY 3022 1833, XY 3339 973, XY 3506 50, XY 3400 (-886), XY 3059 (-1764), XY 2483 (-2505),
     XY 1759 (-3059), XY 908 (-3393), XY 0 (-3476), Y (-8700), Z 1800, Z 10000]"

text \<open>Lines 1136 to 1209.\<close>

definition full_layer_015 :: "pline list" where
  "full_layer_015 = [
     Z 1780, Z (-1220), Y (-5850), XY (-1586) (-5662), XY (-3055) (-5024), XY (-4297) (-4013),
     XY (-5221) (-2705), XY (-5757) (-1196), XY (-5866) 401, XY (-5540) 1969, XY (-4804) 3391,
     XY (-3711) 4561, XY (-2343) 5393, XY (-801) 5825, X 801, XY 2343 5393, XY 3711 4561, XY 4804 3391,
     XY 5540 1969, XY 5866 401, XY 5757 (-1196), XY 5221 (-2705), XY 4297 (-4013), XY 3055 (-5024),
     XY 1586 (-5662), XY 0 (-5850), Y (-4350), XY (-1353) (-4166), XY (-2575) (-3543),
     XY (-3543) (-2575), XY (-4166) (-1353), XY (-4380) 0, XY (-4166) 1353, XY (-3543) 2575,
     XY (-2575) 3543, XY (-1353) 4166, XY 0 4380, XY 1353 4166, XY 2575 3543, XY 3543 2575,
     XY 4166 1353, XY 4380 0, XY 4166 (-1353), XY 3543 (-2575), XY 2575 (-3543), XY 1353 (-4166),
     XY 0 (-4350), Y (-3479), XY (-911) (-3395), XY (-1767) (-3061), XY (-2493) (-2505),
     XY (-3139) (-1614), XY (-3466) (-560), XY (-3469) 544, XY (-3146) 1600, XY (-2505) 2494,
     XY (-2064) 2879, XY (-1552) 3166, XY (-993) 3339, XY (-66) 3504, XY 873 3400, XY 1756 3064,
     XY 2505 2493, XY 3145 1600, XY 3468 544, XY 3465 (-560), XY 3138 (-1614), XY 2493 (-2505),
     XY 1767 (-3061), XY 911 (-3395), XY 0 (-3479), Y (-8700), Z 1780, Z 10000]"

text \<open>Lines 1210 to 1283.\<close>

definition full_layer_016 :: "pline list" where
  "full_layer_016 = [
     Z 1760, Z (-1240), Y (-5850), XY (-1586) (-5662), XY (-3055) (-5024), XY (-4297) (-4013),
     XY (-5221) (-2705), XY (-5757) (-1196), XY (-5866) 401, XY (-5540) 1969, XY (-4804) 3391,
     XY (-3711) 4561, XY (-2343) 5393, XY (-801) 5825, X 801, XY 2343 5393, XY 3711 4561, XY 4804 3391,
     XY 5540 1969, XY 5866 401, XY 5757 (-1196), XY 5221 (-2705), XY 4297 (-4013), XY 3055 (-5024),
     XY 1586 (-5662), XY 0 (-5850), Y (-4350), XY (-1353) (-4166), XY (-2575) (-3543),
     XY (-3543) (-2575), XY (-4166) (-1353), XY (-4380) 0, XY (-4166) 1353, XY (-3543) 2575,
     XY (-2575) 3543, XY (-1353) 4166, XY 0 4380, XY 1353 4166, XY 2575 3543, XY 3543 2575,
     XY 4166 1353, XY 4380 0, XY 4166 (-1353), XY 3543 (-2575), XY 2575 (-3543), XY 1353 (-4166),
     XY 0 (-4350), Y (-3482), XY (-915) (-3398), XY (-1774) (-3062), XY (-2504) (-2505),
     XY (-3146) (-1610), XY (-3470) (-553), XY (-3471) 553, XY (-3146) 1609, XY (-2505) 2504,
     XY (-2331) 2692, XY (-2109) 2819, XY (-1232) 3298, XY (-248) 3499, XY 753 3431, XY 1700 3099,
     XY 2505 2504, XY 3146 1609, XY 3469 553, Y (-553), XY 3146 (-1609), XY 2505 (-2504),
     XY 1774 (-3062), XY 915 (-3398), XY 0 (-3482), Y (-8700), Z 1760, Z 10000]"

text \<open>Lines 1284 to 1355.\<close>

definition full_layer_017 :: "pline list" where
  "full_layer_017 = [
     Z 1740, Z (-1260), Y (-5850), XY (-1586) (-5662), XY (-3055) (-5024), XY (-4297) (-4013),
     XY (-5221) (-2705), XY (-5757) (-1196), XY (-5866) 401, XY (-5540) 1969, XY (-4804) 3391,
     XY (-3711) 4561, XY (-2343) 5393, XY (-801) 5825, X 801, XY 2343 5393, XY 3711 4561, XY 4804 3391,
     XY 5540 1969, XY 5866 401, XY 5757 (-1196), XY 5221 (-2705), XY 4297 (-4013), XY 3055 (-5024),
     XY 1586 (-5662), XY 0 (-5850), Y (-4350), XY (-1353) (-4166), XY (-2575) (-3543),
     XY (-3543) (-2575), XY (-4166) (-1353), XY (-4380) 0, XY (-4166) 1353, XY (-3543) 2575,
     XY (-2575) 3543, XY (-1353) 4166, XY 0 4380, XY 1353 4166, XY 2575 3543, XY 3543 2575,
     XY 4166 1353, XY 4380 0, XY 4166 (-1353), XY 3543 (-2575), XY 2575 (-3543), XY 1353 (-4166),
     XY 0 (-4350), Y (-3484), XY (-914) (-3401), XY (-1773) (-3069), XY (-2505) (-2516),
     XY (-3147) (-1618), XY (-3473) (-558), XY (-3474) 551, XY (-3151) 1611, XY (-2510) 2510,
     XY (-1610) 3149, XY (-550) 3470, XY 557 3469, XY 1616 3145, XY 2515 2505, XY 3152 1607,
     XY 3473 549, XY 3472 (-556), XY 3149 (-1613), XY 2510 (-2509), XY 1777 (-3066), XY 916 (-3400),
     XY 0 (-3484), Y (-8700), Z 1740, Z 10000]"

text \<open>Lines 1356 to 1428.\<close>

definition full_layer_018 :: "pline list" where
  "full_layer_018 = [
     Z 1720, Z (-1280), Y (-5850), XY (-1586) (-5662), XY (-3055) (-5024), XY (-4297) (-4013),
     XY (-5221) (-2705), XY (-5757) (-1196), XY (-5866) 401, XY (-5540) 1969, XY (-4804) 3391,
     XY (-3711) 4561, XY (-2343) 5393, XY (-801) 5825, X 801, XY 2343 5393, XY 3711 4561, XY 4804 3391,
     XY 5540 1969, XY 5866 401, XY 5757 (-1196), XY 5221 (-2705), XY 4297 (-4013), XY 3055 (-5024),
     XY 1586 (-5662), XY 0 (-5850), Y (-4350), XY (-1353) (-4166), XY (-2575) (-3543),
     XY (-3543) (-2575), XY (-4166) (-1353), XY (-4380) 0, XY (-4166) 1353, XY (-3543) 2575,
     XY (-2575) 3543, XY (-1353) 4166, XY 0 4380, XY 1353 4166, XY 2575 3543, XY 3543 2575,
     XY 4166 1353, XY 4380 0, XY 4166 (-1353), XY 3543 (-2575), XY 2575 (-3543), XY 1353 (-4166),
     XY 0 (-4350), Y (-3487), XY (-913) (-3405), XY (-1771) (-3076), XY (-2505) (-2527),
     XY (-3195) (-1519), XY (-3500) (-331), XY (-3410) 893, XY (-2908) 2007, XY (-2692) 2353,
     XY (-2405) 2645, XY (-2064) 2868, XY (-943) 3394, XY 295 3501, XY 1501 3201, XY 2525 2505,
     XY 3160 1601, XY 3477 540, XY 3473 (-568), XY 3147 (-1627), XY 2505 (-2525), XY 1771 (-3075),
     XY 913 (-3405), XY 0 (-3487), XY 1 (-8700), Z 1720, Z 10000]"

text \<open>Lines 1429 to 1501.\<close>

definition full_layer_019 :: "pline list" where
  "full_layer_019 = [
     X 0, Z 1700, Z (-1300), Y (-5850), XY (-1586) (-5662), XY (-3055) (-5024), XY (-4297) (-4013),
     XY (-5221) (-2705), XY (-5757) (-1196), XY (-5866) 401, XY (-5540) 1969, XY (-4804) 3391,
     XY (-3711) 4561, XY (-2343) 5393, XY (-801) 5825, X 801, XY 2343 5393, XY 3711 4561, XY 4804 3391,
     XY 5540 1969, XY 5866 401, XY 5757 (-1196), XY 5221 (-2705), XY 4297 (-4013), XY 3055 (-5024),
     XY 1586 (-5662), XY 0 (-5850), Y (-4350), XY (-1353) (-4166), XY (-2575) (-3543),
     XY (-3543) (-2575), XY (-4166) (-1353), XY (-4380) 0, XY (-4166) 1353, XY (-3543) 2575,
     XY (-2575) 3543, XY (-1353) 4166, XY 0 4380, XY 1353 4166, XY 2575 3543, XY 3543 2575,
     XY 4166 1353, XY 4380 0, XY 4166 (-1353), XY 3543 (-2575), XY 2575 (-3543), XY 1353 (-4166),
     XY 0 (-4350), Y (-3490), XY (-912) (-3409), XY (-1770) (-3082), XY (-2505) (-2537),
     XY (-3149) (-1633), XY (-3476) (-568), XY (-3480) 546, XY (-3159) 1614, XY (-2520) 2522,
     XY (-1612) 3158, XY (-546) 3477, XY 567 3473, XY 1631 3147, XY 2535 2505, XY 3167 1597,
     XY 3482 534, XY 3475 (-576), XY 3147 (-1636), XY 2505 (-2535), XY 1770 (-3081), XY 912 (-3408),
     XY 0 (-3490), XY 1 (-8700), Z 1700, Z 10000]"

text \<open>Lines 1502 to 1574.\<close>

definition full_layer_020 :: "pline list" where
  "full_layer_020 = [
     X 0, Z 1680, Z (-1320), Y (-5850), XY (-1586) (-5662), XY (-3055) (-5024), XY (-4297) (-4013),
     XY (-5221) (-2705), XY (-5757) (-1196), XY (-5866) 401, XY (-5540) 1969, XY (-4804) 3391,
     XY (-3711) 4561, XY (-2343) 5393, XY (-801) 5825, X 801, XY 2343 5393, XY 3711 4561, XY 4804 3391,
     XY 5540 1969, XY 5866 401, XY 5757 (-1196), XY 5221 (-2705), XY 4297 (-4013), XY 3055 (-5024),
     XY 1586 (-5662), XY 0 (-5850), Y (-4350), XY (-1353) (-4166), XY (-2575) (-3543),
     XY (-3543) (-2575), XY (-4166) (-1353), XY (-4380) 0, XY (-4166) 1353, XY (-3543) 2575,
     XY (-2575) 3543, XY (-1353) 4166, XY 0 4380, XY 1353 4166, XY 2575 3543, XY 3543 2575,
     XY 4166 1353, XY 4380 0, XY 4166 (-1353), XY 3543 (-2575), XY 2575 (-3543), XY 1353 (-4166),
     XY 0 (-4350), Y (-3492), XY (-915) (-3411), XY (-1776) (-3085), XY (-2514) (-2539),
     XY (-3155) (-1632), XY (-3479) (-566), XY (-3482) 549, XY (-3162) 1617, XY (-2526) 2527,
     XY (-1613) 3162, XY (-544) 3480, XY 572 3475, XY 1639 3148, XY 2545 2505, XY 3174 1593,
     XY 3486 527, XY 3477 (-584), XY 3148 (-1645), XY 2505 (-2545), XY 1768 (-3087), XY 910 (-3412),
     XY 0 (-3492), XY 1 (-8700), Z 1680, Z 10000]"

text \<open>Lines 1575 to 1647.\<close>

definition full_layer_021 :: "pline list" where
  "full_layer_021 = [
     X 0, Z 1660, Z (-1340), Y (-5850), XY (-1586) (-5662), XY (-3055) (-5024), XY (-4297) (-4013),
     XY (-5221) (-2705), XY (-5757) (-1196), XY (-5866) 401, XY (-5540) 1969, XY (-4804) 3391,
     XY (-3711) 4561, XY (-2343) 5393, XY (-801) 5825, X 801, XY 2343 5393, XY 3711 4561, XY 4804 3391,
     XY 5540 1969, XY 5866 401, XY 5757 (-1196), XY 5221 (-2705), XY 4297 (-4013), XY 3055 (-5024),
     XY 1586 (-5662), XY 0 (-5850), Y (-4350), XY (-1353) (-4166), XY (-2575) (-3543),
     XY (-3543) (-2575), XY (-4166) (-1353), XY (-4380) 0, XY (-4166) 1353, XY (-3543) 2575,
     XY (-2575) 3543, XY (-1353) 4166, XY 0 4380, XY 1353 4166, XY 2575 3543, XY 3543 2575,
     XY 4166 1353, XY 4380 0, XY 4166 (-1353), XY 3543 (-2575), XY 2575 (-3543), XY 1353 (-4166),
     XY 0 (-4350), Y (-3495), XY (-909) (-3416), XY (-1767) (-3095), XY (-2505) (-2558),
     XY (-3151) (-1648), XY (-3481) (-577), XY (-3486) 543, XY (-3168) 1617, XY (-2531) 2533,
     XY (-1614) 3167, XY (-542) 3483, XY 577 3477, XY 1646 3149, XY 2556 2505, XY 3181 1589,
     XY 3489 521, XY 3478 (-591), XY 3148 (-1653), XY 2505 (-2556), XY 1767 (-3094), XY 909 (-3416),
     XY 0 (-3495), XY 1 (-8700), Z 1660, Z 10000]"

text \<open>Lines 1648 to 1720.\<close>

definition full_layer_022 :: "pline list" where
  "full_layer_022 = [
     X 0, Z 1640, Z (-1360), Y (-5850), XY (-1586) (-5662), XY (-3055) (-5024), XY (-4297) (-4013),
     XY (-5221) (-2705), XY (-5757) (-1196), XY (-5866) 401, XY (-5540) 1969, XY (-4804) 3391,
     XY (-3711) 4561, XY (-2343) 5393, XY (-801) 5825, X 801, XY 2343 5393, XY 3711 4561, XY 4804 3391,
     XY 5540 1969, XY 5866 401, XY 5757 (-1196), XY 5221 (-2705), XY 4297 (-4013), XY 3055 (-5024),
     XY 1586 (-5662), XY 0 (-5850), Y (-4350), XY (-1353) (-4166), XY (-2575) (-3543),
     XY (-3543) (-2575), XY (-4166) (-1353), XY (-4380) 0, XY (-4166) 1353, XY (-3543) 2575,
     XY (-2575) 3543, XY (-1353) 4166, XY 0 4380, XY 1353 4166, XY 2575 3543, XY 3543 2575,
     XY 4166 1353, XY 4380 0, XY 4166 (-1353), XY 3543 (-2575), XY 2575 (-3543), XY 1353 (-4166),
     XY 0 (-4350), Y (-3497), XY (-908) (-3420), XY (-1766) (-3101), XY (-2505) (-2568),
     XY (-3152) (-1655), XY (-3482) (-582), XY (-3489) 541, XY (-3173) 1618, XY (-2536) 2539,
     XY (-1616) 3172, XY (-539) 3486, XY 582 3479, XY 1654 3150, XY 2566 2505, XY 3187 1585,
     XY 3493 515, XY 3480 (-599), XY 3148 (-1662), XY 2505 (-2566), XY 1766 (-3100), XY 908 (-3419),
     XY 0 (-3497), XY 1 (-8700), Z 1640, Z 10000]"

text \<open>Lines 1721 to 1795.\<close>

definition full_layer_023 :: "pline list" where
  "full_layer_023 = [
     X 0, Z 1620, Z (-1380), Y (-5850), XY (-1586) (-5662), XY (-3055) (-5024), XY (-4297) (-4013),
     XY (-5221) (-2705), XY (-5757) (-1196), XY (-5866) 401, XY (-5540) 1969, XY (-4804) 3391,
     XY (-3711) 4561, XY (-2343) 5393, XY (-801) 5825, X 801, XY 2343 5393, XY 3711 4561, XY 4804 3391,
     XY 5540 1969, XY 5866 401, XY 5757 (-1196), XY 5221 (-2705), XY 4297 (-4013), XY 3055 (-5024),
     XY 1586 (-5662), XY 0 (-5850), Y (-4350), XY (-1353) (-4166), XY (-2575) (-3543),
     XY (-3543) (-2575), XY (-4166) (-1353), XY (-4380) 0, XY (-4166) 1353, XY (-3543) 2575,
     XY (-2575) 3543, XY (-1353) 4166, XY 0 4380, XY 1353 4166, XY 2575 3543, XY 3543 2575,
     XY 4166 1353, XY 4380 0, XY 4166 (-1353), XY 3543 (-2575), XY 2575 (-3543), XY 1353 (-4166),
     XY 0 (-4350), Y (-3500), XY (-907) (-3423), XY (-1764) (-3108), XY (-2505) (-2578),
     XY (-3153) (-1663), XY (-3485) (-587), XY (-3493) 539, XY (-3177) 1620, XY (-2542) 2544,
     XY (-1626) 3170, XY (-559) 3485, XY 553 3486, XY 1621 3173, XY 2537 2548, XY 2576 2505,
     XY 2887 2087, XY 2922 2036, XY 3421 913, XY 3515 (-317), XY 3221 (-1515), XY 2544 (-2541),
     XY 1796 (-3090), XY 924 (-3419), XY 0 (-3500), XY 1 (-8700), Z 1620, Z 10000]"

text \<open>Lines 1796 to 1869.\<close>

definition full_layer_024 :: "pline list" where
  "full_layer_024 = [
     X 0, Z 1600, Z (-1400), Y (-5850), XY (-1586) (-5662), XY (-3055) (-5024), XY (-4297) (-4013),
     XY (-5221) (-2705), XY (-5757) (-1196), XY (-5866) 401, XY (-5540) 1969, XY (-4804) 3391,
     XY (-3711) 4561, XY (-2343) 5393, XY (-801) 5825, X 801, XY 2343 5393, XY 3711 4561, XY 4804 3391,
     XY 5540 1969, XY 5866 401, XY 5757 (-1196), XY 5221 (-2705), XY 4297 (-4013), XY 3055 (-5024),
     XY 1586 (-5662), XY 0 (-5850), Y (-4350), XY (-1353) (-4166), XY (-2575) (-3543),
     XY (-3543) (-2575), XY (-4166) (-1353), XY (-4380) 0, XY (-4166) 1353, XY (-3543) 2575,
     XY (-2575) 3543, XY (-1353) 4166, XY 0 4380, XY 1353 4166, XY 2575 3543, XY 3543 2575,
     XY 4166 1353, XY 4380 0, XY 4166 (-1353), XY 3543 (-2575), XY 2575 (-3543), XY 1353 (-4166),
     XY 0 (-4350), Y (-3503), XY (-906) (-3427), XY (-1763) (-3114), XY (-2505) (-2588),
     XY (-3154) (-1670), XY (-3487) (-591), XY (-3496) 537, XY (-3182) 1621, XY (-2547) 2550,
     XY (-1629) 3174, XY (-560) 3488, XY 554 3489, XY 1624 3177, XY 2543 2554, XY 2586 2505,
     XY 2922 2047, XY 3422 920, XY 3518 (-313), XY 3225 (-1515), XY 2550 (-2547), XY 1799 (-3094),
     XY 926 (-3421), XY 0 (-3503), XY 1 (-8700), Z 1600, Z 10000]"

text \<open>Lines 1870 to 1945.\<close>

definition full_layer_025 :: "pline list" where
  "full_layer_025 = [
     X 0, Z 1580, Z (-1420), Y (-5850), XY (-1586) (-5662), XY (-3055) (-5024), XY (-4297) (-4013),
     XY (-5221) (-2705), XY (-5757) (-1196), XY (-5866) 401, XY (-5540) 1969, XY (-4804) 3391,
     XY (-3711) 4561, XY (-2343) 5393, XY (-801) 5825, X 801, XY 2343 5393, XY 3711 4561, XY 4804 3391,
     XY 5540 1969, XY 5866 401, XY 5757 (-1196), XY 5221 (-2705), XY 4297 (-4013), XY 3055 (-5024),
     XY 1586 (-5662), XY 0 (-5850), Y (-4350), XY (-1353) (-4166), XY (-2575) (-3543),
     XY (-3543) (-2575), XY (-4166) (-1353), XY (-4380) 0, XY (-4166) 1353, XY (-3543) 2575,
     XY (-2575) 3543, XY (-1353) 4166, XY 0 4380, XY 1353 4166, XY 2575 3543, XY 3543 2575,
     XY 4166 1353, XY 4380 0, XY 4166 (-1353), XY 3543 (-2575), XY 2575 (-3543), XY 1353 (-4166),
     XY 0 (-4350), Y (-3505), XY (-905) (-3430), XY (-1762) (-3120), XY (-2505) (-2598),
     XY (-3155) (-1678), XY (-3489) (-596), XY (-3499) 535, XY (-3186) 1623, XY (-2552) 2556,
     XY (-1699) 3149, XY (-706) 3469, XY 336 3516, XY 1354 3286, XY 2257 2771, XY 2468 2619,
     XY 2613 2534, XY 2695 2388, XY 2922 2058, XY 3424 928, XY 3521 (-309), XY 3229 (-1515),
     XY 2556 (-2552), XY 1802 (-3098), XY 927 (-3424), XY 0 (-3505), XY 2 (-8700), Z 1580, Z 10000]"

text \<open>Lines 1946 to 2019.\<close>

definition full_layer_026 :: "pline list" where
  "full_layer_026 = [
     X 0, Z 1560, Z (-1440), Y (-5850), XY (-1586) (-5662), XY (-3055) (-5024), XY (-4297) (-4013),
     XY (-5221) (-2705), XY (-5757) (-1196), XY (-5866) 401, XY (-5540) 1969, XY (-4804) 3391,
     XY (-3711) 4561, XY (-2343) 5393, XY (-801) 5825, X 801, XY 2343 5393, XY 3711 4561, XY 4804 3391,
     XY 5540 1969, XY 5866 401, XY 5757 (-1196), XY 5221 (-2705), XY 4297 (-4013), XY 3055 (-5024),
     XY 1586 (-5662), XY 0 (-5850), Y (-4350), XY (-1353) (-4166), XY (-2575) (-3543),
     XY (-3543) (-2575), XY (-4166) (-1353), XY (-4380) 0, XY (-4166) 1353, XY (-3543) 2575,
     XY (-2575) 3543, XY (-1353) 4166, XY 0 4380, XY 1353 4166, XY 2575 3543, XY 3543 2575,
     XY 4166 1353, XY 4380 0, XY 4166 (-1353), XY 3543 (-2575), XY 2575 (-3543), XY 1353 (-4166),
     XY 0 (-4350), Y (-3508), XY (-923) (-3430), XY (-1795) (-3109), XY (-2548) (-2571),
     XY (-3179) (-1646), XY (-3496) (-568), XY (-3498) 555, XY (-3185) 1634, XY (-2558) 2561,
     XY (-1645) 3177, XY (-586) 3490, XY 518 3499, XY 1582 3204, XY 2505 2603, XY 2553 2565,
     XY 2922 2069, XY 3425 935, XY 3524 (-305), XY 3234 (-1516), XY 2561 (-2557), XY 1805 (-3102),
     XY 928 (-3427), XY 0 (-3508), XY 1 (-8700), Z 1560, Z 10000]"

text \<open>Lines 2020 to 2096.\<close>

definition full_layer_027 :: "pline list" where
  "full_layer_027 = [
     X 0, Z 1540, Z (-1460), Y (-5850), XY (-1586) (-5662), XY (-3055) (-5024), XY (-4297) (-4013),
     XY (-5221) (-2705), XY (-5757) (-1196), XY (-5866) 401, XY (-5540) 1969, XY (-4804) 3391,
     XY (-3711) 4561, XY (-2343) 5393, XY (-801) 5825, X 801, XY 2343 5393, XY 3711 4561, XY 4804 3391,
     XY 5540 1969, XY 5866 401, XY 5757 (-1196), XY 5221 (-2705), XY 4297 (-4013), XY 3055 (-5024),
     XY 1586 (-5662), XY 0 (-5850), Y (-4350), XY (-1353) (-4166), XY (-2575) (-3543),
     XY (-3543) (-2575), XY (-4166) (-1353), XY (-4380) 0, XY (-4166) 1353, XY (-3543) 2575,
     XY (-2575) 3543, XY (-1353) 4166, XY 0 4380, XY 1353 4166, XY 2575 3543, XY 3543 2575,
     XY 4166 1353, XY 4380 0, XY 4166 (-1353), XY 3543 (-2575), XY 2575 (-3543), XY 1353 (-4166),
     XY 0 (-4350), Y (-3510), XY (-924) (-3432), XY (-1797) (-3112), XY (-2554) (-2576),
     XY (-3182) (-1648), XY (-3499) (-569), XY (-3501) 556, XY (-3188) 1636, XY (-2563) 2567,
     XY (-1636) 3186, XY (-562) 3496, XY 556 3497, XY 1631 3188, XY 2559 2571, XY 3155 1720,
     XY 3479 730, XY 3532 (-311), XY 3309 (-1329), XY 2802 (-2235), XY 2612 (-2505), XY 2586 (-2587),
     XY 2505 (-2617), XY 2078 (-2922), XY 1437 (-3273), XY 731 (-3473), XY 0 (-3510), XY (-1) (-8700),
     Z 1540, Z 10000]"

text \<open>Lines 2097 to 2172.\<close>

definition full_layer_028 :: "pline list" where
  "full_layer_028 = [
     Z 1520, G00 (Some (Mil 0)) None (Some (Mil (-1480))), Y (-5850), XY (-1586) (-5662),
     XY (-3055) (-5024), XY (-4297) (-4013), XY (-5221) (-2705), XY (-5757) (-1196), XY (-5866) 401,
     XY (-5540) 1969, XY (-4804) 3391, XY (-3711) 4561, XY (-2343) 5393, XY (-801) 5825, X 801,
     XY 2343 5393, XY 3711 4561, XY 4804 3391, XY 5540 1969, XY 5866 401, XY 5757 (-1196),
     XY 5221 (-2705), XY 4297 (-4013), XY 3055 (-5024), XY 1586 (-5662), XY 0 (-5850), Y (-4350),
     XY (-1353) (-4166), XY (-2575) (-3543), XY (-3543) (-2575), XY (-4166) (-1353), XY (-4380) 0,
     XY (-4166) 1353, XY (-3543) 2575, XY (-2575) 3543, XY (-1353) 4166, XY 0 4380, XY 1353 4166,
     XY 2575 3543, XY 3543 2575, XY 4166 1353, XY 4380 0, XY 4166 (-1353), XY 3543 (-2575),
     XY 2575 (-3543), XY 1353 (-4166), XY 0 (-4350), Y (-3513), XY (-925) (-3435), XY (-1800) (-3116),
     XY (-2560) (-2582), XY (-3186) (-1651), XY (-3502) (-569), XY (-3503) 557, XY (-3192) 1639,
     XY (-2568) 2573, XY (-1639) 3189, XY (-563) 3499, XY 557 3500, XY 1633 3192, XY 2564 2576,
     XY 3158 1724, XY 3482 733, XY 3535 (-308), XY 3314 (-1327), XY 2810 (-2236), XY 2622 (-2505),
     XY 2591 (-2592), XY 2505 (-2627), XY 2090 (-2922), XY 1444 (-3275), XY 735 (-3475), XY 0 (-3513),
     XY (-1) (-8700), Z 1520, Z 10000]"

text \<open>Lines 2173 to 2249.\<close>

definition full_layer_029 :: "pline list" where
  "full_layer_029 = [
     X 0, Z 1500, Z (-1500), Y (-5850), XY (-1586) (-5662), XY (-3055) (-5024), XY (-4297) (-4013),
     XY (-5221) (-2705), XY (-5757) (-1196), XY (-5866) 401, XY (-5540) 1969, XY (-4804) 3391,
     XY (-3711) 4561, XY (-2343) 5393, XY (-801) 5825, X 801, XY 2343 5393, XY 3711 4561, XY 4804 3391,
     XY 5540 1969, XY 5866 401, XY 5757 (-1196), XY 5221 (-2705), XY 4297 (-4013), XY 3055 (-5024),
     XY 1586 (-5662), XY 0 (-5850), Y (-4350), XY (-1353) (-4166), XY (-2575) (-3543),
     XY (-3543) (-2575), XY (-4166) (-1353), XY (-4380) 0, XY (-4166) 1353, XY (-3543) 2575,
     XY (-2575) 3543, XY (-1353) 4166, XY 0 4380, XY 1353 4166, XY 2575 3543, XY 3543 2575,
     XY 4166 1353, XY 4380 0, XY 4166 (-1353), XY 3543 (-2575), XY 2575 (-3543), XY 1353 (-4166),
     XY 0 (-4350), XY (-1) (-3517), XY (-928) (-3440), XY (-1804) (-3122), XY (-2565) (-2587),
     XY (-3190) (-1653), XY (-3504) (-570), XY (-3506) 558, XY (-3195) 1642, XY (-2574) 2578,
     XY (-1641) 3193, XY (-563) 3502, X 558, XY 1636 3196, XY 2569 2582, XY 3158 1721, XY 3478 724,
     XY 3528 (-322), XY 3306 (-1345), XY 2802 (-2259), XY 2632 (-2505), XY 2596 (-2598),
     XY 2505 (-2637), XY 2304 (-2780), XY 1604 (-3210), XY 819 (-3461), XY (-1) (-3517), XY 5 (-8700),
     Z 1500, Z 10000]"

text \<open>Lines 2250 to 2322.\<close>

definition full_layer_030 :: "pline list" where
  "full_layer_030 = [
     X 0, Z 1480, Z (-1520), Y (-5850), XY (-1586) (-5662), XY (-3055) (-5024), XY (-4297) (-4013),
     XY (-5221) (-2705), XY (-5757) (-1196), XY (-5866) 401, XY (-5540) 1969, XY (-4804) 3391,
     XY (-3711) 4561, XY (-2343) 5393, XY (-801) 5825, X 801, XY 2343 5393, XY 3711 4561, XY 4804 3391,
     XY 5540 1969, XY 5866 401, XY 5757 (-1196), XY 5221 (-2705), XY 4297 (-4013), XY 3055 (-5024),
     XY 1586 (-5662), XY 0 (-5850), Y (-4350), XY (-1353) (-4166), XY (-2575) (-3543),
     XY (-3543) (-2575), XY (-4166) (-1353), XY (-4380) 0, XY (-4166) 1353, XY (-3543) 2575,
     XY (-2575) 3543, XY (-1353) 4166, XY 0 4380, XY 1353 4166, XY 2575 3543, XY 3543 2575,
     XY 4166 1353, XY 4380 0, XY 4166 (-1353), XY 3543 (-2575), XY 2575 (-3543), XY 1353 (-4166),
     XY 0 (-4350), Y (-3519), XY (-928) (-3442), XY (-1807) (-3125), XY (-2571) (-2592),
     XY (-3194) (-1655), XY (-3507) (-570), XY (-3509) 559, XY (-3199) 1645, XY (-2579) 2584,
     XY (-1644) 3197, XY (-564) 3504, XY 558 3505, XY 1638 3200, XY 2575 2588, XY 3195 1652,
     XY 3507 569, XY 3509 (-557), XY 3201 (-1641), XY 2584 (-2579), XY 1817 (-3118), XY 934 (-3440),
     XY 0 (-3519), XY 1 (-8700), Z 1480, Z 10000]"

text \<open>Lines 2323 to 2395.\<close>

definition full_layer_031 :: "pline list" where
  "full_layer_031 = [
     X 0, Z 1460, Z (-1540), Y (-5850), XY (-1586) (-5662), XY (-3055) (-5024), XY (-4297) (-4013),
     XY (-5221) (-2705), XY (-5757) (-1196), XY (-5866) 401, XY (-5540) 1969, XY (-4804) 3391,
     XY (-3711) 4561, XY (-2343) 5393, XY (-801) 5825, X 801, XY 2343 5393, XY 3711 4561, XY 4804 3391,
     XY 5540 1969, XY 5866 401, XY 5757 (-1196), XY 5221 (-2705), XY 4297 (-4013), XY 3055 (-5024),
     XY 1586 (-5662), XY 0 (-5850), Y (-4350), XY (-1353) (-4166), XY (-2575) (-3543),
     XY (-3543) (-2575), XY (-4166) (-1353), XY (-4380) 0, XY (-4166) 1353, XY (-3543) 2575,
     XY (-2575) 3543, XY (-1353) 4166, XY 0 4380, XY 1353 4166, XY 2575 3543, XY 3543 2575,
     XY 4166 1353, XY 4380 0, XY 4166 (-1353), XY 3543 (-2575), XY 2575 (-3543), XY 1353 (-4166),
     XY 0 (-4350), Y (-3522), XY (-930) (-3445), XY (-1810) (-3129), XY (-2577) (-2598),
     XY (-3198) (-1658), XY (-3510) (-571), XY (-3512) 560, XY (-3203) 1648, XY (-2584) 2590,
     XY (-1646) 3201, XY (-565) 3507, XY 559 3508, XY 1641 3203, XY 2580 2593, XY 3199 1655,
     XY 3510 570, XY 3512 (-558), XY 3205 (-1643), XY 2590 (-2584), XY 1821 (-3122), XY 935 (-3443),
     XY 0 (-3522), XY 2 (-8700), Z 1460, Z 10000]"

text \<open>Lines 2396 to 2468.\<close>

definition full_layer_032 :: "pline list" where
  "full_layer_032 = [
     X 0, Z 1440, Z (-1560), Y (-5850), XY (-1586) (-5662), XY (-3055) (-5024), XY (-4297) (-4013),
     XY (-5221) (-2705), XY (-5757) (-1196), XY (-5866) 401, XY (-5540) 1969, XY (-4804) 3391,
     XY (-3711) 4561, XY (-2343) 5393, XY (-801) 5825, X 801, XY 2343 5393, XY 3711 4561, XY 4804 3391,
     XY 5540 1969, XY 5866 401, XY 5757 (-1196), XY 5221 (-2705), XY 4297 (-4013), XY 3055 (-5024),
     XY 1586 (-5662), XY 0 (-5850), Y (-4350), XY (-1353) (-4166), XY (-2575) (-3543),
     XY (-3543) (-2575), XY (-4166) (-1353), XY (-4380) 0, XY (-4166) 1353, XY (-3543) 2575,
     XY (-2575) 3543, XY (-1353) 4166, XY 0 4380, XY 1353 4166, XY 2575 3543, XY 3543 2575,
     XY 4166 1353, XY 4380 0, XY 4166 (-1353), XY 3543 (-2575), XY 2575 (-3543), XY 1353 (-4166),
     XY 0 (-4350), Y (-3525), XY (-931) (-3448), XY (-1813) (-3133), XY (-2582) (-2603),
     XY (-3202) (-1660), XY (-3513) (-571), XY (-3514) 561, XY (-3207) 1650, XY (-2590) 2595,
     XY (-1648) 3205, XY (-565) 3510, XY 560 3511, XY 1643 3207, XY 2585 2599, XY 3203 1658,
     XY 3513 571, XY 3515 (-558), XY 3209 (-1646), XY 2595 (-2589), XY 1824 (-3126), XY 936 (-3446),
     XY 0 (-3525), XY 2 (-8700), Z 1440, Z 10000]"

text \<open>Lines 2469 to 2541.\<close>

definition full_layer_033 :: "pline list" where
  "full_layer_033 = [
     X 0, Z 1420, Z (-1580), Y (-5850), XY (-1586) (-5662), XY (-3055) (-5024), XY (-4297) (-4013),
     XY (-5221) (-2705), XY (-5757) (-1196), XY (-5866) 401, XY (-5540) 1969, XY (-4804) 3391,
     XY (-3711) 4561, XY (-2343) 5393, XY (-801) 5825, X 801, XY 2343 5393, XY 3711 4561, XY 4804 3391,
     XY 5540 1969, XY 5866 401, XY 5757 (-1196), XY 5221 (-2705), XY 4297 (-4013), XY 3055 (-5024),
     XY 1586 (-5662), XY 0 (-5850), Y (-4350), XY (-1353) (-4166), XY (-2575) (-3543),
     XY (-3543) (-2575), XY (-4166) (-1353), XY (-4380) 0, XY (-4166) 1353, XY (-3543) 2575,
     XY (-2575) 3543, XY (-1353) 4166, XY 0 4380, XY 1353 4166, XY 2575 3543, XY 3543 2575,
     XY 4166 1353, XY 4380 0, XY 4166 (-1353), XY 3543 (-2575), XY 2575 (-3543), XY 1353 (-4166),
     XY 0 (-4350), Y (-3530), XY (-933) (-3453), XY (-1817) (-3138), XY (-2588) (-2608),
     XY (-3206) (-1662), XY (-3516) (-572), XY (-3517) 562, XY (-3210) 1653, XY (-2595) 2601,
     XY (-1651) 3209, XY (-566) 3513, XY 560 3514, XY 1646 3211, XY 2591 2605, XY 3207 1660,
     XY 3516 572, XY 3518 (-559), XY 3213 (-1648), XY 2601 (-2595), XY 1827 (-3132), XY 938 (-3451),
     XY 0 (-3530), XY 2 (-8700), Z 1420, Z 10000]"

text \<open>Lines 2542 to 2614.\<close>

definition full_layer_034 :: "pline list" where
  "full_layer_034 = [
     X 0, Z 1400, Z (-1600), Y (-5850), XY (-1586) (-5662), XY (-3055) (-5024), XY (-4297) (-4013),
     XY (-5221) (-2705), XY (-5757) (-1196), XY (-5866) 401, XY (-5540) 1969, XY (-4804) 3391,
     XY (-3711) 4561, XY (-2343) 5393, XY (-801) 5825, X 801, XY 2343 5393, XY 3711 4561, XY 4804 3391,
     XY 5540 1969, XY 5866 401, XY 5757 (-1196), XY 5221 (-2705), XY 4297 (-4013), XY 3055 (-5024),
     XY 1586 (-5662), XY 0 (-5850), Y (-4350), XY (-1353) (-4166), XY (-2575) (-3543),
     XY (-3543) (-2575), XY (-4166) (-1353), XY (-4380) 0, XY (-4166) 1353, XY (-3543) 2575,
     XY (-2575) 3543, XY (-1353) 4166, XY 0 4380, XY 1353 4166, XY 2575 3543, XY 3543 2575,
     XY 4166 1353, XY 4380 0, XY 4166 (-1353), XY 3543 (-2575), XY 2575 (-3543), XY 1353 (-4166),
     XY 0 (-4350), Y (-3536), XY (-935) (-3460), XY (-1821) (-3144), XY (-2594) (-2614),
     XY (-3210) (-1665), XY (-3518) (-572), XY (-3520) 563, XY (-3214) 1656, XY (-2600) 2606,
     XY (-1653) 3213, XY (-567) 3515, XY 561 3516, XY 1648 3215, XY 2596 2610, XY 3210 1663,
     XY 3519 573, XY 3521 (-559), XY 3217 (-1650), XY 2607 (-2600), XY 1831 (-3138), XY 940 (-3458),
     XY 0 (-3536), XY 2 (-8700), Z 1400, Z 10000]"

text \<open>Lines 2615 to 2690.\<close>

definition full_layer_035 :: "pline list" where
  "full_layer_035 = [
     X 0, Z 1380, Z (-1620), Y (-5850), XY (-1586) (-5662), XY (-3055) (-5024), XY (-4297) (-4013),
     XY (-5221) (-2705), XY (-5757) (-1196), XY (-5866) 401, XY (-5540) 1969, XY (-4804) 3391,
     XY (-3711) 4561, XY (-2343) 5393, XY (-801) 5825, X 801, XY 2343 5393, XY 3711 4561, XY 4804 3391,
     XY 5540 1969, XY 5866 401, XY 5757 (-1196), XY 5221 (-2705), XY 4297 (-4013), XY 3055 (-5024),
     XY 1586 (-5662), XY 0 (-5850), Y (-4350), XY (-1353) (-4166), XY (-2575) (-3543),
     XY (-3543) (-2575), XY (-4166) (-1353), XY (-4380) 0, XY (-4166) 1353, XY (-3543) 2575,
     XY (-2575) 3543, XY (-1353) 4166, XY 0 4380, XY 1353 4166, XY 2575 3543, XY 3543 2575,
     XY 4166 1353, XY 4380 0, XY 4166 (-1353), XY 3543 (-2575), XY 2575 (-3543), XY 1353 (-4166),
     XY 0 (-4350), XY (-1) (-3532), XY (-895) (-3467), XY (-1749) (-3183), XY (-2505) (-2700),
     XY (-2707) (-2536), XY (-2863) (-2327), XY (-2965) (-2087), XY (-3181) (-1670), XY (-3520) (-585),
     XY (-3524) 556, XY (-3220) 1655, XY (-2606) 2612, XY (-1656) 3216, XY (-568) 3518, XY 562 3519,
     XY 1651 3219, XY 2601 2616, XY 3215 1666, XY 3522 574, XY 3525 (-560), XY 3222 (-1653),
     XY 2612 (-2605), XY 1832 (-3137), XY 940 (-3454), XY (-1) (-3532), XY 6 (-8700), Z 1380, Z 10000]"

text \<open>Lines 2691 to 2765.\<close>

definition full_layer_036 :: "pline list" where
  "full_layer_036 = [
     X 0, Z 1360, Z (-1640), Y (-5850), XY (-1586) (-5662), XY (-3055) (-5024), XY (-4297) (-4013),
     XY (-5221) (-2705), XY (-5757) (-1196), XY (-5866) 401, XY (-5540) 1969, XY (-4804) 3391,
     XY (-3711) 4561, XY (-2343) 5393, XY (-801) 5825, X 801, XY 2343 5393, XY 3711 4561, XY 4804 3391,
     XY 5540 1969, XY 5866 401, XY 5757 (-1196), XY 5221 (-2705), XY 4297 (-4013), XY 3055 (-5024),
     XY 1586 (-5662), XY 0 (-5850), Y (-4350), XY (-1353) (-4166), XY (-2575) (-3543),
     XY (-3543) (-2575), XY (-4166) (-1353), XY (-4380) 0, XY (-4166) 1353, XY (-3543) 2575,
     XY (-2575) 3543, XY (-1353) 4166, XY 0 4380, XY 1353 4166, XY 2575 3543, XY 3543 2575,
     XY 4166 1353, XY 4380 0, XY 4166 (-1353), XY 3543 (-2575), XY 2575 (-3543), XY 1353 (-4166),
     XY 0 (-4350), XY (-1) (-3537), XY (-895) (-3473), XY (-1748) (-3191), XY (-2505) (-2710),
     XY (-2605) (-2624), XY (-2922) (-2188), XY (-3117) (-1788), XY (-3505) (-682), XY (-3537) 492,
     XY (-3239) 1629, XY (-2611) 2618, XY (-1658) 3220, XY (-568) 3521, XY 563 3522, XY 1653 3223,
     XY 2607 2621, XY 3221 1670, XY 3529 576, XY 3532 (-561), XY 3228 (-1656), XY 2618 (-2611),
     XY 1836 (-3143), XY 941 (-3459), XY (-1) (-3537), XY 7 (-8700), Z 1360, Z 10000]"

text \<open>Lines 2766 to 2844.\<close>

definition full_layer_037 :: "pline list" where
  "full_layer_037 = [
     X 0, Z 1340, Z (-1660), Y (-5850), XY (-1586) (-5662), XY (-3055) (-5024), XY (-4297) (-4013),
     XY (-5221) (-2705), XY (-5757) (-1196), XY (-5866) 401, XY (-5540) 1969, XY (-4804) 3391,
     XY (-3711) 4561, XY (-2343) 5393, XY (-801) 5825, X 801, XY 2343 5393, XY 3711 4561, XY 4804 3391,
     XY 5540 1969, XY 5866 401, XY 5757 (-1196), XY 5221 (-2705), XY 4297 (-4013), XY 3055 (-5024),
     XY 1586 (-5662), XY 0 (-5850), Y (-4350), XY (-1353) (-4166), XY (-2575) (-3543),
     XY (-3543) (-2575), XY (-4166) (-1353), XY (-4380) 0, XY (-4166) 1353, XY (-3543) 2575,
     XY (-2575) 3543, XY (-1353) 4166, XY 0 4380, XY 1353 4166, XY 2575 3543, XY 3543 2575,
     XY 4166 1353, XY 4380 0, XY 4166 (-1353), XY 3543 (-2575), XY 2575 (-3543), XY 1353 (-4166),
     XY 0 (-4350), XY 1 (-3532), XY (-744) (-3498), XY (-1467) (-3309), XY (-2131) (-2972),
     XY (-2482) (-2781), XY (-2764) (-2495), XY (-2951) (-2142), XY (-2978) (-2087), XY (-3462) (-929),
     XY (-3554) 326, XY (-3271) 1553, XY (-2616) 2623, XY (-1661) 3224, XY (-569) 3524, XY 563 3525,
     XY 1656 3227, XY 2612 2627, XY 3275 1558, XY 3561 329, XY 3467 (-929), XY 2975 (-2087),
     XY 2922 (-2198), XY 2757 (-2501), XY 2517 (-2748), XY 2219 (-2922), XY 1531 (-3286),
     XY 778 (-3493), XY 1 (-3532), XY (-3) (-8700), Z 1340, Z 10000]"

text \<open>Lines 2845 to 2920.\<close>

definition full_layer_038 :: "pline list" where
  "full_layer_038 = [
     X 0, Z 1320, Z (-1680), Y (-5850), XY (-1586) (-5662), XY (-3055) (-5024), XY (-4297) (-4013),
     XY (-5221) (-2705), XY (-5757) (-1196), XY (-5866) 401, XY (-5540) 1969, XY (-4804) 3391,
     XY (-3711) 4561, XY (-2343) 5393, XY (-801) 5825, X 801, XY 2343 5393, XY 3711 4561, XY 4804 3391,
     XY 5540 1969, XY 5866 401, XY 5757 (-1196), XY 5221 (-2705), XY 4297 (-4013), XY 3055 (-5024),
     XY 1586 (-5662), XY 0 (-5850), Y (-4350), XY (-1353) (-4166), XY (-2575) (-3543),
     XY (-3543) (-2575), XY (-4166) (-1353), XY (-4380) 0, XY (-4166) 1353, XY (-3543) 2575,
     XY (-2575) 3543, XY (-1353) 4166, XY 0 4380, XY 1353 4166, XY 2575 3543, XY 3543 2575,
     XY 4166 1353, XY 4380 0, XY 4166 (-1353), XY 3543 (-2575), XY 2575 (-3543), XY 1353 (-4166),
     XY 0 (-4350), XY 5 (-3540), XY (-420) (-3545), XY (-835) (-3448), XY (-1484) (-3312),
     XY (-2088) (-3036), XY (-2616) (-2635), XY (-3226) (-1674), XY (-3530) (-574), XY (-3532) 567,
     XY (-3229) 1667, XY (-2622) 2629, XY (-1663) 3228, XY (-570) 3527, X 564, XY 1658 3230,
     XY 2617 2633, XY 3094 1976, XY 3400 1221, XY 3513 417, Y (-665), XY 3209 (-1708), XY 2629 (-2621),
     XY 1846 (-3154), XY 949 (-3467), XY 5 (-3540), XY (-28) (-8700), Z 1320, Z 10000]"

text \<open>Lines 2921 to 2996.\<close>

definition full_layer_039 :: "pline list" where
  "full_layer_039 = [
     X 0, Z 1300, Z (-1700), Y (-5850), XY (-1586) (-5662), XY (-3055) (-5024), XY (-4297) (-4013),
     XY (-5221) (-2705), XY (-5757) (-1196), XY (-5866) 401, XY (-5540) 1969, XY (-4804) 3391,
     XY (-3711) 4561, XY (-2343) 5393, XY (-801) 5825, X 801, XY 2343 5393, XY 3711 4561, XY 4804 3391,
     XY 5540 1969, XY 5866 401, XY 5757 (-1196), XY 5221 (-2705), XY 4297 (-4013), XY 3055 (-5024),
     XY 1586 (-5662), XY 0 (-5850), Y (-4350), XY (-1353) (-4166), XY (-2575) (-3543),
     XY (-3543) (-2575), XY (-4166) (-1353), XY (-4380) 0, XY (-4166) 1353, XY (-3543) 2575,
     XY (-2575) 3543, XY (-1353) 4166, XY 0 4380, XY 1353 4166, XY 2575 3543, XY 3543 2575,
     XY 4166 1353, XY 4380 0, XY 4166 (-1353), XY 3543 (-2575), XY 2575 (-3543), XY 1353 (-4166),
     XY 0 (-4350), XY 7 (-3545), XY (-420) (-3549), XY (-835) (-3451), XY (-1485) (-3316),
     XY (-2092) (-3041), XY (-2622) (-2640), XY (-3231) (-1677), XY (-3535) (-575), XY (-3536) 568,
     XY (-3234) 1671, XY (-2627) 2635, XY (-1666) 3232, XY (-570) 3529, XY 565 3530, XY 1661 3234,
     XY 2623 2638, XY 3099 1980, XY 3404 1223, XY 3516 417, Y (-666), XY 3213 (-1710), XY 2635 (-2627),
     XY 1850 (-3160), XY 952 (-3473), XY 7 (-3545), XY (-35) (-8700), Z 1300, Z 10000]"

text \<open>Lines 2997 to 3072.\<close>

definition full_layer_040 :: "pline list" where
  "full_layer_040 = [
     X 0, Z 1280, Z (-1720), Y (-5850), XY (-1586) (-5662), XY (-3055) (-5024), XY (-4297) (-4013),
     XY (-5221) (-2705), XY (-5757) (-1196), XY (-5866) 401, XY (-5540) 1969, XY (-4804) 3391,
     XY (-3711) 4561, XY (-2343) 5393, XY (-801) 5825, X 801, XY 2343 5393, XY 3711 4561, XY 4804 3391,
     XY 5540 1969, XY 5866 401, XY 5757 (-1196), XY 5221 (-2705), XY 4297 (-4013), XY 3055 (-5024),
     XY 1586 (-5662), XY 0 (-5850), Y (-4350), XY (-1353) (-4166), XY (-2575) (-3543),
     XY (-3543) (-2575), XY (-4166) (-1353), XY (-4380) 0, XY (-4166) 1353, XY (-3543) 2575,
     XY (-2575) 3543, XY (-1353) 4166, XY 0 4380, XY 1353 4166, XY 2575 3543, XY 3543 2575,
     XY 4166 1353, XY 4380 0, XY 4166 (-1353), XY 3543 (-2575), XY 2575 (-3543), XY 1353 (-4166),
     XY 0 (-4350), XY 9 (-3547), XY (-417) (-3520), XY (-1217) (-3412), XY (-1970) (-3114),
     XY (-2628) (-2646), XY (-3291) (-1522), XY (-3564) (-242), XY (-3446) 1061, XY (-2922) 2256,
     XY (-2632) 2640, XY (-1668) 3236, XY (-571) 3532, XY 565 3533, XY 1663 3238, XY 2628 2644,
     XY 2990 2197, XY 3250 1683, XY 3394 1126, XY 3460 835, XY 3553 (-386), XY 3270 (-1582),
     XY 2640 (-2632), XY 1855 (-3166), XY 956 (-3478), XY 9 (-3547), XY (-49) (-8700), Z 1280, Z 10000]"

text \<open>Lines 3073 to 3155.\<close>

definition full_layer_041 :: "pline list" where
  "full_layer_041 = [
     X 0, Z 1260, Z (-1740), Y (-5850), XY (-1586) (-5662), XY (-3055) (-5024), XY (-4297) (-4013),
     XY (-5221) (-2705), XY (-5757) (-1196), XY (-5866) 401, XY (-5540) 1969, XY (-4804) 3391,
     XY (-3711) 4561, XY (-2343) 5393, XY (-801) 5825, X 801, XY 2343 5393, XY 3711 4561, XY 4804 3391,
     XY 5540 1969, XY 5866 401, XY 5757 (-1196), XY 5221 (-2705), XY 4297 (-4013), XY 3055 (-5024),
     XY 1586 (-5662), XY 0 (-5850), Y (-4350), XY (-1353) (-4166), XY (-2575) (-3543),
     XY (-3543) (-2575), XY (-4166) (-1353), XY (-4380) 0, XY (-4166) 1353, XY (-3543) 2575,
     XY (-2575) 3543, XY (-1353) 4166, XY 0 4380, XY 1353 4166, XY 2575 3543, XY 3543 2575,
     XY 4166 1353, XY 4380 0, XY 4166 (-1353), XY 3543 (-2575), XY 2575 (-3543), XY 1353 (-4166),
     XY 0 (-4350), XY 2 (-3542), XY (-740) (-3509), XY (-1462) (-3326), XY (-2130) (-3001),
     XY (-2455) (-2832), XY (-2724) (-2581), XY (-2916) (-2268), XY (-3410) (-1184), XY (-3571) 0,
     XY (-3413) 1185, XY (-2922) 2271, XY (-2831) 2468, XY (-2688) 2632, XY (-2505) 2749,
     XY (-1546) 3291, XY (-472) 3547, XY 633 3526, XY 1696 3228, XY 2633 2650, XY 2992 2213,
     XY 3248 1708, XY 3389 1161, XY 3463 835, XY 3556 (-387), XY 3274 (-1584), XY 2646 (-2637),
     XY 2234 (-2973), XY 1763 (-3220), XY 1252 (-3367), XY 847 (-3494), XY 426 (-3553), XY 2 (-3542),
     XY (-9) (-8700), Z 1260, Z 10000]"

text \<open>Lines 3156 to 3239.\<close>

definition full_layer_042 :: "pline list" where
  "full_layer_042 = [
     X 0, Z 1240, Z (-1760), Y (-5850), XY (-1586) (-5662), XY (-3055) (-5024), XY (-4297) (-4013),
     XY (-5221) (-2705), XY (-5757) (-1196), XY (-5866) 401, XY (-5540) 1969, XY (-4804) 3391,
     XY (-3711) 4561, XY (-2343) 5393, XY (-801) 5825, X 801, XY 2343 5393, XY 3711 4561, XY 4804 3391,
     XY 5540 1969, XY 5866 401, XY 5757 (-1196), XY 5221 (-2705), XY 4297 (-4013), XY 3055 (-5024),
     XY 1586 (-5662), XY 0 (-5850), Y (-4350), XY (-1353) (-4166), XY (-2575) (-3543),
     XY (-3543) (-2575), XY (-4166) (-1353), XY (-4380) 0, XY (-4166) 1353, XY (-3543) 2575,
     XY (-2575) 3543, XY (-1353) 4166, XY 0 4380, XY 1353 4166, XY 2575 3543, XY 3543 2575,
     XY 4166 1353, XY 4380 0, XY 4166 (-1353), XY 3543 (-2575), XY 2575 (-3543), XY 1353 (-4166),
     XY 0 (-4350), XY 2 (-3544), XY (-724) (-3515), XY (-1431) (-3340), XY (-2087) (-3029),
     XY (-2153) (-2996), XY (-2468) (-2834), XY (-2728) (-2591), XY (-2912) (-2288), XY (-3410) (-1196),
     XY (-3573) (-3), XY (-3415) 1191, XY (-2922) 2285, XY (-2831) 2482, XY (-2688) 2644,
     XY (-2505) 2759, XY (-1544) 3297, XY (-468) 3550, XY 636 3528, XY 1700 3231, XY 2639 2655,
     XY 2977 2241, XY 3226 1766, XY 3372 1252, XY 3466 835, XY 3558 (-389), XY 3278 (-1587),
     XY 2652 (-2643), XY 2238 (-2979), XY 1765 (-3225), XY 1252 (-3371), XY 847 (-3497), XY 426 (-3556),
     XY 2 (-3544), XY (-9) (-8700), Z 1240, Z 10000]"

text \<open>Lines 3240 to 3325.\<close>

definition full_layer_043 :: "pline list" where
  "full_layer_043 = [
     X 0, Z 1220, Z (-1780), Y (-5850), XY (-1586) (-5662), XY (-3055) (-5024), XY (-4297) (-4013),
     XY (-5221) (-2705), XY (-5757) (-1196), XY (-5866) 401, XY (-5540) 1969, XY (-4804) 3391,
     XY (-3711) 4561, XY (-2343) 5393, XY (-801) 5825, X 801, XY 2343 5393, XY 3711 4561, XY 4804 3391,
     XY 5540 1969, XY 5866 401, XY 5757 (-1196), XY 5221 (-2705), XY 4297 (-4013), XY 3055 (-5024),
     XY 1586 (-5662), XY 0 (-5850), Y (-4350), XY (-1353) (-4166), XY (-2575) (-3543),
     XY (-3543) (-2575), XY (-4166) (-1353), XY (-4380) 0, XY (-4166) 1353, XY (-3543) 2575,
     XY (-2575) 3543, XY (-1353) 4166, XY 0 4380, XY 1353 4166, XY 2575 3543, XY 3543 2575,
     XY 4166 1353, XY 4380 0, XY 4166 (-1353), XY 3543 (-2575), XY 2575 (-3543), XY 1353 (-4166),
     XY 0 (-4350), XY 2 (-3547), XY (-723) (-3518), XY (-1430) (-3345), XY (-2087) (-3036),
     XY (-2200) (-2979), XY (-2526) (-2804), XY (-2787) (-2540), XY (-2958) (-2212), XY (-3112) (-1896),
     XY (-3481) (-928), XY (-3582) 106, XY (-3437) 1135, XY (-3029) 2087, XY (-2922) 2300,
     XY (-2831) 2495, XY (-2687) 2656, XY (-2505) 2769, XY (-1541) 3303, XY (-465) 3554, XY 639 3531,
     XY 1704 3235, XY 2644 2661, XY 2983 2245, XY 3231 1768, XY 3376 1252, XY 3469 835, XY 3561 (-390),
     XY 3281 (-1590), XY 2657 (-2648), XY 2279 (-2962), XY 1845 (-3196), XY 1375 (-3339),
     XY 931 (-3484), XY 469 (-3554), XY 2 (-3547), XY (-11) (-8700), Z 1220, Z 10000]"

text \<open>Lines 3326 to 3412.\<close>

definition full_layer_044 :: "pline list" where
  "full_layer_044 = [
     X 0, Z 1200, Z (-1800), Y (-5850), XY (-1586) (-5662), XY (-3055) (-5024), XY (-4297) (-4013),
     XY (-5221) (-2705), XY (-5757) (-1196), XY (-5866) 401, XY (-5540) 1969, XY (-4804) 3391,
     XY (-3711) 4561, XY (-2343) 5393, XY (-801) 5825, X 801, XY 2343 5393, XY 3711 4561, XY 4804 3391,
     XY 5540 1969, XY 5866 401, XY 5757 (-1196), XY 5221 (-2705), XY 4297 (-4013), XY 3055 (-5024),
     XY 1586 (-5662), XY 0 (-5850), Y (-4350), XY (-1353) (-4166), XY (-2575) (-3543),
     XY (-3543) (-2575), XY (-4166) (-1353), XY (-4380) 0, XY (-4166) 1353, XY (-3543) 2575,
     XY (-2575) 3543, XY (-1353) 4166, XY 0 4380, XY 1353 4166, XY 2575 3543, XY 3543 2575,
     XY 4166 1353, XY 4380 0, XY 4166 (-1353), XY 3543 (-2575), XY 2575 (-3543), XY 1353 (-4166),
     XY 0 (-4350), XY 2 (-3549), XY (-723) (-3521), XY (-1430) (-3349), XY (-2087) (-3043),
     XY (-2207) (-2982), XY (-2531) (-2808), XY (-2791) (-2545), XY (-2961) (-2219), XY (-3098) (-1938),
     XY (-3472) (-961), XY (-3578) 83, XY (-3439) 1122, XY (-3036) 2087, XY (-2957) 2244,
     XY (-2795) 2551, XY (-2545) 2796, XY (-2235) 2953, XY (-1863) 3131, XY (-647) 3533, XY 639 3534,
     XY 1856 3132, XY 2298 2922, XY 2497 2828, XY 2665 2685, XY 2791 2505, XY 3317 1536, XY 3561 458,
     XY 3534 (-647), XY 3236 (-1712), XY 2663 (-2653), XY 2287 (-2966), XY 1856 (-3198),
     XY 1388 (-3339), XY 940 (-3486), XY 473 (-3556), XY 2 (-3549), XY (-10) (-8700), Z 1200, Z 10000]"

text \<open>Lines 3413 to 3499.\<close>

definition full_layer_045 :: "pline list" where
  "full_layer_045 = [
     X 0, Z 1180, Z (-1820), Y (-5850), XY (-1586) (-5662), XY (-3055) (-5024), XY (-4297) (-4013),
     XY (-5221) (-2705), XY (-5757) (-1196), XY (-5866) 401, XY (-5540) 1969, XY (-4804) 3391,
     XY (-3711) 4561, XY (-2343) 5393, XY (-801) 5825, X 801, XY 2343 5393, XY 3711 4561, XY 4804 3391,
     XY 5540 1969, XY 5866 401, XY 5757 (-1196), XY 5221 (-2705), XY 4297 (-4013), XY 3055 (-5024),
     XY 1586 (-5662), XY 0 (-5850), Y (-4350), XY (-1353) (-4166), XY (-2575) (-3543),
     XY (-3543) (-2575), XY (-4166) (-1353), XY (-4380) 0, XY (-4166) 1353, XY (-3543) 2575,
     XY (-2575) 3543, XY (-1353) 4166, XY 0 4380, XY 1353 4166, XY 2575 3543, XY 3543 2575,
     XY 4166 1353, XY 4380 0, XY 4166 (-1353), XY 3543 (-2575), XY 2575 (-3543), XY 1353 (-4166),
     XY 0 (-4350), XY 2 (-3552), XY (-723) (-3524), XY (-1429) (-3354), XY (-2087) (-3050),
     XY (-2238) (-2974), XY (-2546) (-2810), XY (-2793) (-2561), XY (-2953) (-2251), XY (-3032) (-2087),
     XY (-3449) (-1083), XY (-3583) (-1), XY (-3454) 1081, XY (-3042) 2087, XY (-2961) 2251,
     XY (-2800) 2556, XY (-2553) 2799, XY (-2245) 2955, XY (-1877) 3131, XY (-655) 3535, XY 636 3537,
     XY 1859 3136, XY 2312 2922, XY 2510 2828, XY 2677 2685, XY 2801 2505, XY 3325 1534, XY 3568 455,
     XY 3540 (-651), XY 3242 (-1716), XY 2669 (-2659), XY 2295 (-2969), XY 1866 (-3200),
     XY 1401 (-3339), XY 949 (-3487), XY 478 (-3559), XY 2 (-3552), XY (-10) (-8700), Z 1180, Z 10000]"

text \<open>Lines 3500 to 3585.\<close>

definition full_layer_046 :: "pline list" where
  "full_layer_046 = [
     X 0, Z 1160, Z (-1840), Y (-5850), XY (-1586) (-5662), XY (-3055) (-5024), XY (-4297) (-4013),
     XY (-5221) (-2705), XY (-5757) (-1196), XY (-5866) 401, XY (-5540) 1969, XY (-4804) 3391,
     XY (-3711) 4561, XY (-2343) 5393, XY (-801) 5825, X 801, XY 2343 5393, XY 3711 4561, XY 4804 3391,
     XY 5540 1969, XY 5866 401, XY 5757 (-1196), XY 5221 (-2705), XY 4297 (-4013), XY 3055 (-5024),
     XY 1586 (-5662), XY 0 (-5850), Y (-4350), XY (-1353) (-4166), XY (-2575) (-3543),
     XY (-3543) (-2575), XY (-4166) (-1353), XY (-4380) 0, XY (-4166) 1353, XY (-3543) 2575,
     XY (-2575) 3543, XY (-1353) 4166, XY 0 4380, XY 1353 4166, XY 2575 3543, XY 3543 2575,
     XY 4166 1353, XY 4380 0, XY 4166 (-1353), XY 3543 (-2575), XY 2575 (-3543), XY 1353 (-4166),
     XY 0 (-4350), XY 1 (-3554), XY (-723) (-3527), XY (-1429) (-3359), XY (-2087) (-3057),
     XY (-2246) (-2977), XY (-2552) (-2814), XY (-2797) (-2567), XY (-2956) (-2259), XY (-3039) (-2087),
     XY (-3453) (-1083), XY (-3586) (-1), XY (-3458) 1081, XY (-3049) 2087, XY (-2964) 2260,
     XY (-2806) 2562, XY (-2562) 2802, XY (-2258) 2956, XY (-2056) 3052, XY (-1670) 3229,
     XY (-574) 3551, XY 572 3554, XY 1680 3264, XY 2660 2678, XY 2971 2308, XY 3201 1881, XY 3339 1418,
     XY 3581 148, XY 3437 (-1140), XY 2922 (-2325), XY 2788 (-2574), XY 2592 (-2778), XY 2349 (-2922),
     XY 1618 (-3298), XY 822 (-3513), XY 1 (-3554), XY (-5) (-8700), Z 1160, Z 10000]"

text \<open>Lines 3586 to 3673.\<close>

definition full_layer_047 :: "pline list" where
  "full_layer_047 = [
     X 0, Z 1140, Z (-1860), Y (-5850), XY (-1586) (-5662), XY (-3055) (-5024), XY (-4297) (-4013),
     XY (-5221) (-2705), XY (-5757) (-1196), XY (-5866) 401, XY (-5540) 1969, XY (-4804) 3391,
     XY (-3711) 4561, XY (-2343) 5393, XY (-801) 5825, X 801, XY 2343 5393, XY 3711 4561, XY 4804 3391,
     XY 5540 1969, XY 5866 401, XY 5757 (-1196), XY 5221 (-2705), XY 4297 (-4013), XY 3055 (-5024),
     XY 1586 (-5662), XY 0 (-5850), Y (-4350), XY (-1353) (-4166), XY (-2575) (-3543),
     XY (-3543) (-2575), XY (-4166) (-1353), XY (-4380) 0, XY (-4166) 1353, XY (-3543) 2575,
     XY (-2575) 3543, XY (-1353) 4166, XY 0 4380, XY 1353 4166, XY 2575 3543, XY 3543 2575,
     XY 4166 1353, XY 4380 0, XY 4166 (-1353), XY 3543 (-2575), XY 2575 (-3543), XY 1353 (-4166),
     XY 0 (-4350), XY 1 (-3556), XY (-722) (-3530), XY (-1428) (-3363), XY (-2087) (-3064),
     XY (-2255) (-2979), XY (-2558) (-2819), XY (-2801) (-2573), XY (-2958) (-2268), XY (-3046) (-2087),
     XY (-3456) (-1082), XY (-3588) (-1), XY (-3461) 1080, XY (-3056) 2087, XY (-2966) 2270,
     XY (-2811) 2568, XY (-2570) 2805, XY (-2270) 2956, XY (-2059) 3056, XY (-1670) 3234,
     XY (-573) 3556, XY 574 3559, XY 1684 3270, XY 2665 2683, XY 2848 2520, XY 2985 2317, XY 3069 2087,
     XY 3172 1851, XY 3517 809, XY 3579 (-291), XY 3381 (-1374), XY 2907 (-2364), XY 2779 (-2597),
     XY 2593 (-2788), XY 2363 (-2922), XY 1628 (-3299), XY 827 (-3514), XY 1 (-3556), XY (-5) (-8700),
     Z 1140, Z 10000]"

text \<open>Lines 3674 to 3763.\<close>

definition full_layer_048 :: "pline list" where
  "full_layer_048 = [
     X 0, Z 1120, Z (-1880), Y (-5850), XY (-1586) (-5662), XY (-3055) (-5024), XY (-4297) (-4013),
     XY (-5221) (-2705), XY (-5757) (-1196), XY (-5866) 401, XY (-5540) 1969, XY (-4804) 3391,
     XY (-3711) 4561, XY (-2343) 5393, XY (-801) 5825, X 801, XY 2343 5393, XY 3711 4561, XY 4804 3391,
     XY 5540 1969, XY 5866 401, XY 5757 (-1196), XY 5221 (-2705), XY 4297 (-4013), XY 3055 (-5024),
     XY 1586 (-5662), XY 0 (-5850), Y (-4350), XY (-1353) (-4166), XY (-2575) (-3543),
     XY (-3543) (-2575), XY (-4166) (-1353), XY (-4380) 0, XY (-4166) 1353, XY (-3543) 2575,
     XY (-2575) 3543, XY (-1353) 4166, XY 0 4380, XY 1353 4166, XY 2575 3543, XY 3543 2575,
     XY 4166 1353, XY 4380 0, XY 4166 (-1353), XY 3543 (-2575), XY 2575 (-3543), XY 1353 (-4166),
     XY 0 (-4350), XY 1 (-3559), XY (-722) (-3533), XY (-1428) (-3368), XY (-2087) (-3071),
     XY (-2268) (-2980), XY (-2566) (-2822), XY (-2804) (-2581), XY (-2958) (-2281), XY (-3053) (-2087),
     XY (-3460) (-1081), XY (-3591) (-1), XY (-3465) 1079, XY (-3063) 2087, XY (-2968) 2280,
     XY (-2816) 2574, XY (-2579) 2808, XY (-2283) 2957, XY (-2054) 3067, XY (-1054) 3467, XY 19 3590,
     XY 1091 3458, XY 2087 3049, XY 2279 2958, XY 2570 2814, XY 2805 2589, XY 2960 2305, XY 3076 2087,
     XY 3470 1077, XY 3590 (-4), XY 3456 (-1082), XY 3048 (-2087), XY 2957 (-2281), XY 2814 (-2570),
     XY 2590 (-2805), XY 2306 (-2960), XY 2087 (-3075), XY 1428 (-3371), XY 723 (-3535), XY 1 (-3559),
     XY (-4) (-8700), Z 1120, Z 10000]"

text \<open>Lines 3764 to 3851.\<close>

definition full_layer_049 :: "pline list" where
  "full_layer_049 = [
     X 0, Z 1100, Z (-1900), Y (-5850), XY (-1586) (-5662), XY (-3055) (-5024), XY (-4297) (-4013),
     XY (-5221) (-2705), XY (-5757) (-1196), XY (-5866) 401, XY (-5540) 1969, XY (-4804) 3391,
     XY (-3711) 4561, XY (-2343) 5393, XY (-801) 5825, X 801, XY 2343 5393, XY 3711 4561, XY 4804 3391,
     XY 5540 1969, XY 5866 401, XY 5757 (-1196), XY 5221 (-2705), XY 4297 (-4013), XY 3055 (-5024),
     XY 1586 (-5662), XY 0 (-5850), Y (-4350), XY (-1353) (-4166), XY (-2575) (-3543),
     XY (-3543) (-2575), XY (-4166) (-1353), XY (-4380) 0, XY (-4166) 1353, XY (-3543) 2575,
     XY (-2575) 3543, XY (-1353) 4166, XY 0 4380, XY 1353 4166, XY 2575 3543, XY 3543 2575,
     XY 4166 1353, XY 4380 0, XY 4166 (-1353), XY 3543 (-2575), XY 2575 (-3543), XY 1353 (-4166),
     XY 0 (-4350), XY 1 (-3562), XY (-722) (-3536), XY (-1427) (-3372), XY (-2087) (-3077),
     XY (-2281) (-2980), XY (-2574) (-2826), XY (-2808) (-2589), XY (-2959) (-2294), XY (-3060) (-2087),
     XY (-3463) (-1081), XY (-3593) (-1), XY (-3469) 1079, XY (-3070) 2087, XY (-2970) 2291,
     XY (-2821) 2581, XY (-2587) 2811, XY (-2296) 2958, XY (-2058) 3072, XY (-1057) 3470, XY 17 3593,
     XY 1089 3461, XY 2087 3056, XY 2292 2958, XY 2578 2818, XY 2809 2596, XY 2962 2317, XY 3084 2087,
     XY 3481 1025, XY 3588 (-108), XY 3425 (-1233), XY 2974 (-2275), XY 2796 (-2589), XY 2537 (-2843),
     XY 2220 (-3016), XY 1522 (-3345), XY 772 (-3530), XY 1 (-3562), XY (-4) (-8700), Z 1100, Z 10000]"

text \<open>Lines 3852 to 3937.\<close>

definition full_layer_050 :: "pline list" where
  "full_layer_050 = [
     X 0, Z 1080, Z (-1920), Y (-5850), XY (-1586) (-5662), XY (-3055) (-5024), XY (-4297) (-4013),
     XY (-5221) (-2705), XY (-5757) (-1196), XY (-5866) 401, XY (-5540) 1969, XY (-4804) 3391,
     XY (-3711) 4561, XY (-2343) 5393, XY (-801) 5825, X 801, XY 2343 5393, XY 3711 4561, XY 4804 3391,
     XY 5540 1969, XY 5866 401, XY 5757 (-1196), XY 5221 (-2705), XY 4297 (-4013), XY 3055 (-5024),
     XY 1586 (-5662), XY 0 (-5850), Y (-4350), XY (-1353) (-4166), XY (-2575) (-3543),
     XY (-3543) (-2575), XY (-4166) (-1353), XY (-4380) 0, XY (-4166) 1353, XY (-3543) 2575,
     XY (-2575) 3543, XY (-1353) 4166, XY 0 4380, XY 1353 4166, XY 2575 3543, XY 3543 2575,
     XY 4166 1353, XY 4380 0, XY 4166 (-1353), XY 3543 (-2575), XY 2575 (-3543), XY 1353 (-4166),
     XY 0 (-4350), XY 1 (-3564), XY (-721) (-3539), XY (-1427) (-3377), XY (-2087) (-3084),
     XY (-2294) (-2980), XY (-2582) (-2830), XY (-2812) (-2597), XY (-2959) (-2308), XY (-3066) (-2087),
     XY (-3491) (-970), XY (-3591) 224, XY (-3387) 1405, XY (-2867) 2481, XY (-2752) 2682,
     XY (-2579) 2838, XY (-2366) 2931, XY (-2062) 3076, XY (-1060) 3472, XY 14 3595, XY 1087 3465,
     XY 2087 3062, XY 2332 2946, XY 2587 2826, XY 2794 2633, XY 2933 2388, XY 3425 1272, XY 3592 60,
     XY 3449 (-1154), XY 2979 (-2280), XY 2800 (-2596), XY 2540 (-2852), XY 2220 (-3024),
     XY 1522 (-3351), XY 771 (-3533), XY 1 (-3564), XY (-5) (-8700), Z 1080, Z 10000]"

text \<open>Lines 3938 to 4023.\<close>

definition full_layer_051 :: "pline list" where
  "full_layer_051 = [
     X 0, Z 1060, Z (-1940), Y (-5850), XY (-1586) (-5662), XY (-3055) (-5024), XY (-4297) (-4013),
     XY (-5221) (-2705), XY (-5757) (-1196), XY (-5866) 401, XY (-5540) 1969, XY (-4804) 3391,
     XY (-3711) 4561, XY (-2343) 5393, XY (-801) 5825, X 801, XY 2343 5393, XY 3711 4561, XY 4804 3391,
     XY 5540 1969, XY 5866 401, XY 5757 (-1196), XY 5221 (-2705), XY 4297 (-4013), XY 3055 (-5024),
     XY 1586 (-5662), XY 0 (-5850), Y (-4350), XY (-1353) (-4166), XY (-2575) (-3543),
     XY (-3543) (-2575), XY (-4166) (-1353), XY (-4380) 0, XY (-4166) 1353, XY (-3543) 2575,
     XY (-2575) 3543, XY (-1353) 4166, XY 0 4380, XY 1353 4166, XY 2575 3543, XY 3543 2575,
     XY 4166 1353, XY 4380 0, XY 4166 (-1353), XY 3543 (-2575), XY 2575 (-3543), XY 1353 (-4166),
     XY 0 (-4350), XY 1 (-3567), XY (-721) (-3542), XY (-1426) (-3382), XY (-2087) (-3091),
     XY (-2307) (-2981), XY (-2590) (-2833), XY (-2815) (-2605), XY (-2959) (-2321), XY (-3073) (-2087),
     XY (-3493) (-970), XY (-3593) 222, XY (-3392) 1402, XY (-2879) 2479, XY (-2764) 2682,
     XY (-2590) 2839, XY (-2377) 2932, XY (-2067) 3081, XY (-1063) 3475, XY 12 3598, XY 1086 3469,
     XY 2087 3069, XY 2352 2943, XY 2598 2828, XY 2798 2643, XY 2931 2406, XY 3436 1245, XY 3595 (-14),
     XY 3422 (-1272), XY 2904 (-2427), XY 2781 (-2652), XY 2597 (-2832), XY 2370 (-2951),
     XY 1629 (-3319), XY 827 (-3527), XY 1 (-3567), XY (-5) (-8700), Z 1060, Z 10000]"

text \<open>Lines 4024 to 4110.\<close>

definition full_layer_052 :: "pline list" where
  "full_layer_052 = [
     X 0, Z 1040, Z (-1960), Y (-5850), XY (-1586) (-5662), XY (-3055) (-5024), XY (-4297) (-4013),
     XY (-5221) (-2705), XY (-5757) (-1196), XY (-5866) 401, XY (-5540) 1969, XY (-4804) 3391,
     XY (-3711) 4561, XY (-2343) 5393, XY (-801) 5825, X 801, XY 2343 5393, XY 3711 4561, XY 4804 3391,
     XY 5540 1969, XY 5866 401, XY 5757 (-1196), XY 5221 (-2705), XY 4297 (-4013), XY 3055 (-5024),
     XY 1586 (-5662), XY 0 (-5850), Y (-4350), XY (-1353) (-4166), XY (-2575) (-3543),
     XY (-3543) (-2575), XY (-4166) (-1353), XY (-4380) 0, XY (-4166) 1353, XY (-3543) 2575,
     XY (-2575) 3543, XY (-1353) 4166, XY 0 4380, XY 1353 4166, XY 2575 3543, XY 3543 2575,
     XY 4166 1353, XY 4380 0, XY 4166 (-1353), XY 3543 (-2575), XY 2575 (-3543), XY 1353 (-4166),
     XY 0 (-4350), XY 1 (-3569), XY (-720) (-3545), XY (-1426) (-3386), XY (-2087) (-3098),
     XY (-2330) (-2976), XY (-2601) (-2836), XY (-2818) (-2617), XY (-2955) (-2344), XY (-3080) (-2087),
     XY (-3474) (-1079), XY (-3600) (-1), XY (-3480) 1077, XY (-3091) 2087, XY (-2974) 2327,
     XY (-2835) 2602, XY (-2614) 2820, XY (-2338) 2957, XY (-2071) 3085, XY (-1066) 3478, XY 9 3600,
     XY 1084 3473, XY 2087 3076, XY 2370 2941, XY 2609 2831, XY 2803 2650, XY 2931 2420, XY 3438 1252,
     XY 3597 (-15), XY 3424 (-1279), XY 2904 (-2442), XY 2785 (-2661), XY 2606 (-2836), XY 2385 (-2950),
     XY 1639 (-3320), XY 832 (-3529), XY 1 (-3569), XY (-4) (-8700), Z 1040, Z 10000]"

text \<open>Lines 4111 to 4196.\<close>

definition full_layer_053 :: "pline list" where
  "full_layer_053 = [
     X 0, Z 1020, Z (-1980), Y (-5850), XY (-1586) (-5662), XY (-3055) (-5024), XY (-4297) (-4013),
     XY (-5221) (-2705), XY (-5757) (-1196), XY (-5866) 401, XY (-5540) 1969, XY (-4804) 3391,
     XY (-3711) 4561, XY (-2343) 5393, XY (-801) 5825, X 801, XY 2343 5393, XY 3711 4561, XY 4804 3391,
     XY 5540 1969, XY 5866 401, XY 5757 (-1196), XY 5221 (-2705), XY 4297 (-4013), XY 3055 (-5024),
     XY 1586 (-5662), XY 0 (-5850), Y (-4350), XY (-1353) (-4166), XY (-2575) (-3543),
     XY (-3543) (-2575), XY (-4166) (-1353), XY (-4380) 0, XY (-4166) 1353, XY (-3543) 2575,
     XY (-2575) 3543, XY (-1353) 4166, XY 0 4380, XY 1353 4166, XY 2575 3543, XY 3543 2575,
     XY 4166 1353, XY 4380 0, XY 4166 (-1353), XY 3543 (-2575), XY 2575 (-3543), XY 1353 (-4166),
     XY 0 (-4350), XY 1 (-3571), XY (-848) (-3528), XY (-1671) (-3312), XY (-2432) (-2933),
     XY (-2654) (-2814), XY (-2827) (-2630), XY (-2933) (-2402), XY (-3087) (-2087), XY (-3478) (-1079),
     XY (-3603) (-1), XY (-3483) 1077, XY (-3098) 2087, XY (-2976) 2337, XY (-2840) 2608,
     XY (-2622) 2824, XY (-2350) 2958, XY (-2075) 3089, XY (-1069) 3480, XY 7 3603, XY 1082 3477,
     XY 2087 3083, XY 2385 2941, XY 2619 2833, XY 2809 2657, XY 2933 2431, XY 3430 1297, XY 3600 68,
     XY 3457 (-1165), XY 2986 (-2310), XY 2808 (-2625), XY 2547 (-2878), XY 2227 (-3046),
     XY 1524 (-3364), XY 771 (-3541), XY 1 (-3571), XY (-3) (-8700), Z 1020, Z 10000]"

text \<open>Lines 4197 to 4283.\<close>

definition full_layer_054 :: "pline list" where
  "full_layer_054 = [
     X 0, Z 1000, Z (-2000), Y (-5850), XY (-1586) (-5662), XY (-3055) (-5024), XY (-4297) (-4013),
     XY (-5221) (-2705), XY (-5757) (-1196), XY (-5866) 401, XY (-5540) 1969, XY (-4804) 3391,
     XY (-3711) 4561, XY (-2343) 5393, XY (-801) 5825, X 801, XY 2343 5393, XY 3711 4561, XY 4804 3391,
     XY 5540 1969, XY 5866 401, XY 5757 (-1196), XY 5221 (-2705), XY 4297 (-4013), XY 3055 (-5024),
     XY 1586 (-5662), XY 0 (-5850), Y (-4350), XY (-1353) (-4166), XY (-2575) (-3543),
     XY (-3543) (-2575), XY (-4166) (-1353), XY (-4380) 0, XY (-4166) 1353, XY (-3543) 2575,
     XY (-2575) 3543, XY (-1353) 4166, XY 0 4380, XY 1353 4166, XY 2575 3543, XY 3543 2575,
     XY 4166 1353, XY 4380 0, XY 4166 (-1353), XY 3543 (-2575), XY 2575 (-3543), XY 1353 (-4166),
     XY 0 (-4350), XY 1 (-3573), XY (-851) (-3529), XY (-1678) (-3314), XY (-2442) (-2935),
     XY (-2659) (-2820), XY (-2830) (-2639), XY (-2933) (-2416), XY (-3094) (-2087), XY (-3481) (-1078),
     XY (-3605) (-1), XY (-3487) 1076, XY (-3105) 2087, XY (-2971) 2362, XY (-2843) 2621,
     XY (-2636) 2825, XY (-2377) 2952, XY (-2079) 3094, XY (-1071) 3483, XY 5 3605, XY 1081 3481,
     XY 2087 3089, XY 2355 2962, XY 2619 2834, XY 2832 2631, XY 2970 2373, XY 3122 2087, XY 3502 1014,
     XY 3600 (-124), XY 3437 (-1254), XY 2996 (-2304), XY 2814 (-2628), XY 2546 (-2888),
     XY 2217 (-3060), XY 1516 (-3372), XY 767 (-3545), XY 1 (-3573), XY (-5) (-8700), Z 1000, Z 10000]"

text \<open>Lines 4284 to 4370.\<close>

definition full_layer_055 :: "pline list" where
  "full_layer_055 = [
     X 0, Z 980, Z (-2020), Y (-5850), XY (-1586) (-5662), XY (-3055) (-5024), XY (-4297) (-4013),
     XY (-5221) (-2705), XY (-5757) (-1196), XY (-5866) 401, XY (-5540) 1969, XY (-4804) 3391,
     XY (-3711) 4561, XY (-2343) 5393, XY (-801) 5825, X 801, XY 2343 5393, XY 3711 4561, XY 4804 3391,
     XY 5540 1969, XY 5866 401, XY 5757 (-1196), XY 5221 (-2705), XY 4297 (-4013), XY 3055 (-5024),
     XY 1586 (-5662), XY 0 (-5850), Y (-4350), XY (-1353) (-4166), XY (-2575) (-3543),
     XY (-3543) (-2575), XY (-4166) (-1353), XY (-4380) 0, XY (-4166) 1353, XY (-3543) 2575,
     XY (-2575) 3543, XY (-1353) 4166, XY 0 4380, XY 1353 4166, XY 2575 3543, XY 3543 2575,
     XY 4166 1353, XY 4380 0, XY 4166 (-1353), XY 3543 (-2575), XY 2575 (-3543), XY 1353 (-4166),
     XY 0 (-4350), XY 1 (-3575), XY (-860) (-3531), XY (-1697) (-3311), XY (-2469) (-2928),
     XY (-2673) (-2821), XY (-2832) (-2653), XY (-2927) (-2443), XY (-3100) (-2087), XY (-3485) (-1078),
     XY (-3608) (-1), XY (-3490) 1075, XY (-3111) 2087, XY (-2972) 2376, XY (-2847) 2629,
     XY (-2646) 2828, XY (-2392) 2951, XY (-2083) 3099, XY (-1074) 3486, XY 2 3608, XY 1079 3485,
     XY 2087 3096, XY 2382 2955, XY 2633 2836, XY 2835 2643, XY 2965 2398, XY 3129 2087, XY 3506 1012,
     XY 3602 (-126), XY 3440 (-1257), XY 3000 (-2309), XY 2818 (-2635), XY 2549 (-2896),
     XY 2217 (-3068), XY 1516 (-3377), XY 767 (-3548), XY 1 (-3575), XY (-6) (-8700), Z 980, Z 10000]"

text \<open>Lines 4371 to 4457.\<close>

definition full_layer_056 :: "pline list" where
  "full_layer_056 = [
     X 0, Z 960, Z (-2040), Y (-5850), XY (-1586) (-5662), XY (-3055) (-5024), XY (-4297) (-4013),
     XY (-5221) (-2705), XY (-5757) (-1196), XY (-5866) 401, XY (-5540) 1969, XY (-4804) 3391,
     XY (-3711) 4561, XY (-2343) 5393, XY (-801) 5825, X 801, XY 2343 5393, XY 3711 4561, XY 4804 3391,
     XY 5540 1969, XY 5866 401, XY 5757 (-1196), XY 5221 (-2705), XY 4297 (-4013), XY 3055 (-5024),
     XY 1586 (-5662), XY 0 (-5850), Y (-4350), XY (-1353) (-4166), XY (-2575) (-3543),
     XY (-3543) (-2575), XY (-4166) (-1353), XY (-4380) 0, XY (-4166) 1353, XY (-3543) 2575,
     XY (-2575) 3543, XY (-1353) 4166, XY 0 4380, XY 1353 4166, XY 2575 3543, XY 3543 2575,
     XY 4166 1353, XY 4380 0, XY 4166 (-1353), XY 3543 (-2575), XY 2575 (-3543), XY 1353 (-4166),
     XY 0 (-4350), XY 1 (-3578), XY (-867) (-3533), XY (-1710) (-3312), XY (-2489) (-2925),
     XY (-2684) (-2824), XY (-2835) (-2664), XY (-2924) (-2463), XY (-3107) (-2087), XY (-3488) (-1077),
     XY (-3610) (-1), XY (-3494) 1075, XY (-3118) 2087, XY (-2972) 2390, XY (-2851) 2637,
     XY (-2655) 2831, XY (-2408) 2950, XY (-2087) 3103, XY (-1077) 3489, XY 0 3610, XY 1077 3488,
     XY 2087 3103, XY 2398 2955, XY 2643 2839, XY 2840 2651, XY 2965 2410, XY 3136 2087, XY 3513 1002,
     XY 3605 (-147), XY 3435 (-1286), XY 2986 (-2343), XY 2811 (-2655), XY 2552 (-2904),
     XY 2233 (-3067), XY 1527 (-3379), XY 773 (-3551), XY 1 (-3578), XY (-7) (-8700), Z 960, Z 10000]"

text \<open>Lines 4458 to 4545.\<close>

definition full_layer_057 :: "pline list" where
  "full_layer_057 = [
     X 0, Z 940, Z (-2060), Y (-5850), XY (-1586) (-5662), XY (-3055) (-5024), XY (-4297) (-4013),
     XY (-5221) (-2705), XY (-5757) (-1196), XY (-5866) 401, XY (-5540) 1969, XY (-4804) 3391,
     XY (-3711) 4561, XY (-2343) 5393, XY (-801) 5825, X 801, XY 2343 5393, XY 3711 4561, XY 4804 3391,
     XY 5540 1969, XY 5866 401, XY 5757 (-1196), XY 5221 (-2705), XY 4297 (-4013), XY 3055 (-5024),
     XY 1586 (-5662), XY 0 (-5850), Y (-4350), XY (-1353) (-4166), XY (-2575) (-3543),
     XY (-3543) (-2575), XY (-4166) (-1353), XY (-4380) 0, XY (-4166) 1353, XY (-3543) 2575,
     XY (-2575) 3543, XY (-1353) 4166, XY 0 4380, XY 1353 4166, XY 2575 3543, XY 3543 2575,
     XY 4166 1353, XY 4380 0, XY 4166 (-1353), XY 3543 (-2575), XY 2575 (-3543), XY 1353 (-4166),
     XY 0 (-4350), XY 1 (-3581), XY (-864) (-3537), XY (-1704) (-3319), XY (-2481) (-2937),
     XY (-2682) (-2833), XY (-2838) (-2668), XY (-2931) (-2462), XY (-3114) (-2087), XY (-3492) (-1076),
     XY (-3613) (-1), XY (-3498) 1074, XY (-3125) 2087, XY (-2976) 2396, XY (-2857) 2641,
     XY (-2662) 2835, XY (-2416) 2953, XY (-2087) 3110, XY (-1077) 3492, XY 0 3613, XY 1077 3492,
     XY 2087 3109, XY 2446 2938, XY 2657 2845, XY 2827 2687, XY 2935 2484, XY 3422 1399, XY 3609 221,
     XY 3512 (-968), XY 3108 (-2087), XY 2956 (-2409), XY 2843 (-2651), XY 2657 (-2845),
     XY 2420 (-2968), XY 2087 (-3142), XY 1423 (-3414), XY 719 (-3562), XY 1 (-3581), XY (-7) (-8700),
     Z 940, Z 10000]"

text \<open>Lines 4546 to 4632.\<close>

definition full_layer_058 :: "pline list" where
  "full_layer_058 = [
     X 0, Z 920, Z (-2080), Y (-5850), XY (-1586) (-5662), XY (-3055) (-5024), XY (-4297) (-4013),
     XY (-5221) (-2705), XY (-5757) (-1196), XY (-5866) 401, XY (-5540) 1969, XY (-4804) 3391,
     XY (-3711) 4561, XY (-2343) 5393, XY (-801) 5825, X 801, XY 2343 5393, XY 3711 4561, XY 4804 3391,
     XY 5540 1969, XY 5866 401, XY 5757 (-1196), XY 5221 (-2705), XY 4297 (-4013), XY 3055 (-5024),
     XY 1586 (-5662), XY 0 (-5850), Y (-4350), XY (-1353) (-4166), XY (-2575) (-3543),
     XY (-3543) (-2575), XY (-4166) (-1353), XY (-4380) 0, XY (-4166) 1353, XY (-3543) 2575,
     XY (-2575) 3543, XY (-1353) 4166, XY 0 4380, XY 1353 4166, XY 2575 3543, XY 3543 2575,
     XY 4166 1353, XY 4380 0, XY 4166 (-1353), XY 3543 (-2575), XY 2575 (-3543), XY 1353 (-4166),
     XY 0 (-4350), XY 1 (-3584), XY (-863) (-3540), XY (-1703) (-3324), XY (-2481) (-2945),
     XY (-2683) (-2841), XY (-2841) (-2676), XY (-2934) (-2469), XY (-3121) (-2087), XY (-3517) (-963),
     XY (-3609) 229, XY (-3420) 1409, XY (-2935) 2497, XY (-2831) 2695, XY (-2667) 2848,
     XY (-2463) 2937, XY (-2087) 3116, XY (-1076) 3496, XY 0 3615, XY 1076 3496, XY 2087 3116,
     XY 2455 2941, XY 2667 2847, XY 2837 2688, XY 2945 2483, XY 3427 1396, XY 3612 219, XY 3515 (-968),
     XY 3115 (-2087), XY 2956 (-2422), XY 2844 (-2662), XY 2660 (-2853), XY 2425 (-2973),
     XY 2087 (-3149), XY 1422 (-3419), XY 719 (-3565), XY 1 (-3584), XY (-7) (-8700), Z 920, Z 10000]"

text \<open>Lines 4633 to 4719.\<close>

definition full_layer_059 :: "pline list" where
  "full_layer_059 = [
     X 0, Z 900, Z (-2100), Y (-5850), XY (-1586) (-5662), XY (-3055) (-5024), XY (-4297) (-4013),
     XY (-5221) (-2705), XY (-5757) (-1196), XY (-5866) 401, XY (-5540) 1969, XY (-4804) 3391,
     XY (-3711) 4561, XY (-2343) 5393, XY (-801) 5825, X 801, XY 2343 5393, XY 3711 4561, XY 4804 3391,
     XY 5540 1969, XY 5866 401, XY 5757 (-1196), XY 5221 (-2705), XY 4297 (-4013), XY 3055 (-5024),
     XY 1586 (-5662), XY 0 (-5850), Y (-4350), XY (-1353) (-4166), XY (-2575) (-3543),
     XY (-3543) (-2575), XY (-4166) (-1353), XY (-4380) 0, XY (-4166) 1353, XY (-3543) 2575,
     XY (-2575) 3543, XY (-1353) 4166, XY 0 4380, XY 1353 4166, XY 2575 3543, XY 3543 2575,
     XY 4166 1353, XY 4380 0, XY 4166 (-1353), XY 3543 (-2575), XY 2575 (-3543), XY 1353 (-4166),
     XY 0 (-4350), Y (-3587), XY (-866) (-3545), XY (-1708) (-3329), XY (-2487) (-2950),
     XY (-2688) (-2848), XY (-2844) (-2684), XY (-2937) (-2479), XY (-3128) (-2087), XY (-3522) (-958),
     XY (-3612) 237, XY (-3421) 1421, XY (-2933) 2512, XY (-2834) 2703, XY (-2676) 2851,
     XY (-2478) 2937, XY (-2087) 3123, XY (-1076) 3500, XY 0 3618, XY 1076 3500, XY 2087 3123,
     XY 2460 2946, XY 2675 2850, XY 2847 2688, XY 2956 2479, XY 3432 1392, XY 3614 217, XY 3518 (-969),
     XY 3122 (-2087), XY 2960 (-2430), XY 2848 (-2669), XY 2664 (-2860), XY 2428 (-2980),
     XY 2361 (-3015), XY 1617 (-3358), XY 819 (-3552), XY 0 (-3587), XY 2 (-8700), Z 900, Z 10000]"

text \<open>Lines 4720 to 4807.\<close>

definition full_layer_060 :: "pline list" where
  "full_layer_060 = [
     X 0, Z 880, Z (-2120), Y (-5850), XY (-1586) (-5662), XY (-3055) (-5024), XY (-4297) (-4013),
     XY (-5221) (-2705), XY (-5757) (-1196), XY (-5866) 401, XY (-5540) 1969, XY (-4804) 3391,
     XY (-3711) 4561, XY (-2343) 5393, XY (-801) 5825, X 801, XY 2343 5393, XY 3711 4561, XY 4804 3391,
     XY 5540 1969, XY 5866 401, XY 5757 (-1196), XY 5221 (-2705), XY 4297 (-4013), XY 3055 (-5024),
     XY 1586 (-5662), XY 0 (-5850), Y (-4350), XY (-1353) (-4166), XY (-2575) (-3543),
     XY (-3543) (-2575), XY (-4166) (-1353), XY (-4380) 0, XY (-4166) 1353, XY (-3543) 2575,
     XY (-2575) 3543, XY (-1353) 4166, XY 0 4380, XY 1353 4166, XY 2575 3543, XY 3543 2575,
     XY 4166 1353, XY 4380 0, XY 4166 (-1353), XY 3543 (-2575), XY 2575 (-3543), XY 1353 (-4166),
     XY 0 (-4350), Y (-3590), XY (-718) (-3571), XY (-1422) (-3424), XY (-2087) (-3154),
     XY (-2418) (-2992), XY (-2657) (-2874), XY (-2847) (-2684), XY (-2963) (-2443), XY (-3134) (-2087),
     XY (-3527) (-952), XY (-3614) 249, XY (-3420) 1437, XY (-2928) 2532, XY (-2833) 2718,
     XY (-2679) 2860, XY (-2487) 2941, XY (-2087) 3130, XY (-1075) 3503, XY 0 3620, XY 1075 3503,
     XY 2087 3129, XY 2469 2949, XY 2682 2855, XY 2853 2695, XY 2961 2487, XY 3435 1398, XY 3616 221,
     XY 3521 (-966), XY 3128 (-2087), XY 2967 (-2433), XY 2854 (-2674), XY 2669 (-2866),
     XY 2432 (-2986), XY 2364 (-3021), XY 1618 (-3363), XY 819 (-3555), XY 0 (-3590), XY 2 (-8700),
     Z 880, Z 10000]"

text \<open>Lines 4808 to 4895.\<close>

definition full_layer_061 :: "pline list" where
  "full_layer_061 = [
     X 0, Z 860, Z (-2140), Y (-5850), XY (-1586) (-5662), XY (-3055) (-5024), XY (-4297) (-4013),
     XY (-5221) (-2705), XY (-5757) (-1196), XY (-5866) 401, XY (-5540) 1969, XY (-4804) 3391,
     XY (-3711) 4561, XY (-2343) 5393, XY (-801) 5825, X 801, XY 2343 5393, XY 3711 4561, XY 4804 3391,
     XY 5540 1969, XY 5866 401, XY 5757 (-1196), XY 5221 (-2705), XY 4297 (-4013), XY 3055 (-5024),
     XY 1586 (-5662), XY 0 (-5850), Y (-4350), XY (-1353) (-4166), XY (-2575) (-3543),
     XY (-3543) (-2575), XY (-4166) (-1353), XY (-4380) 0, XY (-4166) 1353, XY (-3543) 2575,
     XY (-2575) 3543, XY (-1353) 4166, XY 0 4380, XY 1353 4166, XY 2575 3543, XY 3543 2575,
     XY 4166 1353, XY 4380 0, XY 4166 (-1353), XY 3543 (-2575), XY 2575 (-3543), XY 1353 (-4166),
     XY 0 (-4350), Y (-3593), XY (-718) (-3574), XY (-1421) (-3428), XY (-2087) (-3161),
     XY (-2417) (-3000), XY (-2661) (-2881), XY (-2853) (-2687), XY (-2971) (-2443), XY (-3141) (-2087),
     XY (-3531) (-949), XY (-3617) 253, XY (-3422) 1443, XY (-2930) 2541, XY (-2835) 2726,
     XY (-2682) 2868, XY (-2490) 2948, XY (-2087) 3136, XY (-1075) 3507, XY 0 3623, XY 1075 3507,
     XY 2087 3136, XY 2470 2957, XY 2687 2861, XY 2861 2697, XY 2970 2486, XY 3440 1396, XY 3619 220,
     XY 3525 (-966), XY 3135 (-2087), XY 2975 (-2432), XY 2861 (-2677), XY 2672 (-2872),
     XY 2431 (-2994), XY 2368 (-3026), XY 1621 (-3367), XY 820 (-3558), XY 0 (-3593), XY 2 (-8700),
     Z 860, Z 10000]"

text \<open>Lines 4896 to 4980.\<close>

definition full_layer_062 :: "pline list" where
  "full_layer_062 = [
     X 0, Z 840, Z (-2160), Y (-5850), XY (-1586) (-5662), XY (-3055) (-5024), XY (-4297) (-4013),
     XY (-5221) (-2705), XY (-5757) (-1196), XY (-5866) 401, XY (-5540) 1969, XY (-4804) 3391,
     XY (-3711) 4561, XY (-2343) 5393, XY (-801) 5825, X 801, XY 2343 5393, XY 3711 4561, XY 4804 3391,
     XY 5540 1969, XY 5866 401, XY 5757 (-1196), XY 5221 (-2705), XY 4297 (-4013), XY 3055 (-5024),
     XY 1586 (-5662), XY 0 (-5850), Y (-4350), XY (-1353) (-4166), XY (-2575) (-3543),
     XY (-3543) (-2575), XY (-4166) (-1353), XY (-4380) 0, XY (-4166) 1353, XY (-3543) 2575,
     XY (-2575) 3543, XY (-1353) 4166, XY 0 4380, XY 1353 4166, XY 2575 3543, XY 3543 2575,
     XY 4166 1353, XY 4380 0, XY 4166 (-1353), XY 3543 (-2575), XY 2575 (-3543), XY 1353 (-4166),
     XY 0 (-4350), Y (-3595), XY (-795) (-3566), XY (-1572) (-3389), XY (-2300) (-3071),
     XY (-2605) (-2917), XY (-2851) (-2677), XY (-3013) (-2377), XY (-3480) (-1200), XY (-3623) 62,
     XY (-3460) 1321, XY (-2974) 2491, XY (-2864) 2704, XY (-2689) 2869, XY (-2470) 2966,
     XY (-2087) 3143, XY (-1074) 3510, XY 0 3626, XY 1074 3510, XY 2087 3143, XY 2472 2964,
     XY 2692 2867, XY 2868 2702, XY 2978 2488, XY 3443 1397, XY 3621 221, XY 3528 (-965),
     XY 3142 (-2087), XY 2990 (-2418), XY 2859 (-2688), XY 2644 (-2902), XY 2372 (-3032),
     XY 1623 (-3371), XY 821 (-3561), XY 0 (-3595), XY 2 (-8700), Z 840, Z 10000]"

text \<open>Lines 4981 to 5065.\<close>

definition full_layer_063 :: "pline list" where
  "full_layer_063 = [
     X 0, Z 820, Z (-2180), Y (-5850), XY (-1586) (-5662), XY (-3055) (-5024), XY (-4297) (-4013),
     XY (-5221) (-2705), XY (-5757) (-1196), XY (-5866) 401, XY (-5540) 1969, XY (-4804) 3391,
     XY (-3711) 4561, XY (-2343) 5393, XY (-801) 5825, X 801, XY 2343 5393, XY 3711 4561, XY 4804 3391,
     XY 5540 1969, XY 5866 401, XY 5757 (-1196), XY 5221 (-2705), XY 4297 (-4013), XY 3055 (-5024),
     XY 1586 (-5662), XY 0 (-5850), Y (-4350), XY (-1353) (-4166), XY (-2575) (-3543),
     XY (-3543) (-2575), XY (-4166) (-1353), XY (-4380) 0, XY (-4166) 1353, XY (-3543) 2575,
     XY (-2575) 3543, XY (-1353) 4166, XY 0 4380, XY 1353 4166, XY 2575 3543, XY 3543 2575,
     XY 4166 1353, XY 4380 0, XY 4166 (-1353), XY 3543 (-2575), XY 2575 (-3543), XY 1353 (-4166),
     XY 0 (-4350), Y (-3598), XY (-794) (-3569), XY (-1570) (-3394), XY (-2298) (-3080),
     XY (-2605) (-2926), XY (-2853) (-2685), XY (-3016) (-2383), XY (-3483) (-1205), XY (-3626) 57,
     XY (-3465) 1317, XY (-2983) 2489, XY (-2871) 2707, XY (-2692) 2876, XY (-2469) 2975,
     XY (-2087) 3149, XY (-1074) 3514, XY 0 3628, XY 1074 3514, XY 2087 3149, XY 2474 2972,
     XY 2697 2874, XY 2874 2706, XY 2985 2490, XY 3447 1397, XY 3624 221, XY 3532 (-964),
     XY 3149 (-2087), XY 2997 (-2419), XY 2866 (-2692), XY 2650 (-2907), XY 2377 (-3038),
     XY 1626 (-3375), XY 822 (-3564), XY 0 (-3598), XY 3 (-8700), Z 820, Z 10000]"

definition full_layers_a :: "pline list list" where
  "full_layers_a = [
     full_layer_000, full_layer_001, full_layer_002, full_layer_003, full_layer_004, full_layer_005,
     full_layer_006, full_layer_007, full_layer_008, full_layer_009, full_layer_010, full_layer_011,
     full_layer_012, full_layer_013, full_layer_014, full_layer_015, full_layer_016, full_layer_017,
     full_layer_018, full_layer_019, full_layer_020, full_layer_021, full_layer_022, full_layer_023,
     full_layer_024, full_layer_025, full_layer_026, full_layer_027, full_layer_028, full_layer_029,
     full_layer_030, full_layer_031, full_layer_032, full_layer_033, full_layer_034, full_layer_035,
     full_layer_036, full_layer_037, full_layer_038, full_layer_039, full_layer_040, full_layer_041,
     full_layer_042, full_layer_043, full_layer_044, full_layer_045, full_layer_046, full_layer_047,
     full_layer_048, full_layer_049, full_layer_050, full_layer_051, full_layer_052, full_layer_053,
     full_layer_054, full_layer_055, full_layer_056, full_layer_057, full_layer_058, full_layer_059,
     full_layer_060, full_layer_061, full_layer_062, full_layer_063]"

section \<open>The layers one by one\<close>

lemma full_layer_000_ok: "full_group full_layer_000 (-4574, -7401) (1351, 652) (-200)"
  by code_simp

lemma full_layer_001_ok: "full_group full_layer_001 (1351, 652) (1351, 652) (-400)"
  by code_simp

lemma full_layer_002_ok: "full_group full_layer_002 (1351, 652) (1351, 652) (-600)"
  by code_simp

lemma full_layer_003_ok: "full_group full_layer_003 (1351, 652) (1351, 652) (-800)"
  by code_simp

lemma full_layer_004_ok: "full_group full_layer_004 (1351, 652) (1351, 652) (-1000)"
  by code_simp

lemma full_layer_005_ok: "full_group full_layer_005 (1351, 652) (-3, -8700) (-1020)"
  by code_simp

lemma full_layer_006_ok: "full_group full_layer_006 (-3, -8700) (-2, -8700) (-1040)"
  by code_simp

lemma full_layer_007_ok: "full_group full_layer_007 (-2, -8700) (1, -8700) (-1060)"
  by code_simp

lemma full_layer_008_ok: "full_group full_layer_008 (1, -8700) (-1, -8700) (-1080)"
  by code_simp

lemma full_layer_009_ok: "full_group full_layer_009 (-1, -8700) (-3, -8700) (-1100)"
  by code_simp

lemma full_layer_010_ok: "full_group full_layer_010 (-3, -8700) (0, -8700) (-1120)"
  by code_simp

lemma full_layer_011_ok: "full_group full_layer_011 (0, -8700) (0, -8700) (-1140)"
  by code_simp

lemma full_layer_012_ok: "full_group full_layer_012 (0, -8700) (0, -8700) (-1160)"
  by code_simp

lemma full_layer_013_ok: "full_group full_layer_013 (0, -8700) (32, -8700) (-1180)"
  by code_simp

lemma full_layer_014_ok: "full_group full_layer_014 (32, -8700) (0, -8700) (-1200)"
  by code_simp

lemma full_layer_015_ok: "full_group full_layer_015 (0, -8700) (0, -8700) (-1220)"
  by code_simp

lemma full_layer_016_ok: "full_group full_layer_016 (0, -8700) (0, -8700) (-1240)"
  by code_simp

lemma full_layer_017_ok: "full_group full_layer_017 (0, -8700) (0, -8700) (-1260)"
  by code_simp

lemma full_layer_018_ok: "full_group full_layer_018 (0, -8700) (1, -8700) (-1280)"
  by code_simp

lemma full_layer_019_ok: "full_group full_layer_019 (1, -8700) (1, -8700) (-1300)"
  by code_simp

lemma full_layer_020_ok: "full_group full_layer_020 (1, -8700) (1, -8700) (-1320)"
  by code_simp

lemma full_layer_021_ok: "full_group full_layer_021 (1, -8700) (1, -8700) (-1340)"
  by code_simp

lemma full_layer_022_ok: "full_group full_layer_022 (1, -8700) (1, -8700) (-1360)"
  by code_simp

lemma full_layer_023_ok: "full_group full_layer_023 (1, -8700) (1, -8700) (-1380)"
  by code_simp

lemma full_layer_024_ok: "full_group full_layer_024 (1, -8700) (1, -8700) (-1400)"
  by code_simp

lemma full_layer_025_ok: "full_group full_layer_025 (1, -8700) (2, -8700) (-1420)"
  by code_simp

lemma full_layer_026_ok: "full_group full_layer_026 (2, -8700) (1, -8700) (-1440)"
  by code_simp

lemma full_layer_027_ok: "full_group full_layer_027 (1, -8700) (-1, -8700) (-1460)"
  by code_simp

lemma full_layer_028_ok: "full_group full_layer_028 (-1, -8700) (-1, -8700) (-1480)"
  by code_simp

lemma full_layer_029_ok: "full_group full_layer_029 (-1, -8700) (5, -8700) (-1500)"
  by code_simp

lemma full_layer_030_ok: "full_group full_layer_030 (5, -8700) (1, -8700) (-1520)"
  by code_simp

lemma full_layer_031_ok: "full_group full_layer_031 (1, -8700) (2, -8700) (-1540)"
  by code_simp

lemma full_layer_032_ok: "full_group full_layer_032 (2, -8700) (2, -8700) (-1560)"
  by code_simp

lemma full_layer_033_ok: "full_group full_layer_033 (2, -8700) (2, -8700) (-1580)"
  by code_simp

lemma full_layer_034_ok: "full_group full_layer_034 (2, -8700) (2, -8700) (-1600)"
  by code_simp

lemma full_layer_035_ok: "full_group full_layer_035 (2, -8700) (6, -8700) (-1620)"
  by code_simp

lemma full_layer_036_ok: "full_group full_layer_036 (6, -8700) (7, -8700) (-1640)"
  by code_simp

lemma full_layer_037_ok: "full_group full_layer_037 (7, -8700) (-3, -8700) (-1660)"
  by code_simp

lemma full_layer_038_ok: "full_group full_layer_038 (-3, -8700) (-28, -8700) (-1680)"
  by code_simp

lemma full_layer_039_ok: "full_group full_layer_039 (-28, -8700) (-35, -8700) (-1700)"
  by code_simp

lemma full_layer_040_ok: "full_group full_layer_040 (-35, -8700) (-49, -8700) (-1720)"
  by code_simp

lemma full_layer_041_ok: "full_group full_layer_041 (-49, -8700) (-9, -8700) (-1740)"
  by code_simp

lemma full_layer_042_ok: "full_group full_layer_042 (-9, -8700) (-9, -8700) (-1760)"
  by code_simp

lemma full_layer_043_ok: "full_group full_layer_043 (-9, -8700) (-11, -8700) (-1780)"
  by code_simp

lemma full_layer_044_ok: "full_group full_layer_044 (-11, -8700) (-10, -8700) (-1800)"
  by code_simp

lemma full_layer_045_ok: "full_group full_layer_045 (-10, -8700) (-10, -8700) (-1820)"
  by code_simp

lemma full_layer_046_ok: "full_group full_layer_046 (-10, -8700) (-5, -8700) (-1840)"
  by code_simp

lemma full_layer_047_ok: "full_group full_layer_047 (-5, -8700) (-5, -8700) (-1860)"
  by code_simp

lemma full_layer_048_ok: "full_group full_layer_048 (-5, -8700) (-4, -8700) (-1880)"
  by code_simp

lemma full_layer_049_ok: "full_group full_layer_049 (-4, -8700) (-4, -8700) (-1900)"
  by code_simp

lemma full_layer_050_ok: "full_group full_layer_050 (-4, -8700) (-5, -8700) (-1920)"
  by code_simp

lemma full_layer_051_ok: "full_group full_layer_051 (-5, -8700) (-5, -8700) (-1940)"
  by code_simp

lemma full_layer_052_ok: "full_group full_layer_052 (-5, -8700) (-4, -8700) (-1960)"
  by code_simp

lemma full_layer_053_ok: "full_group full_layer_053 (-4, -8700) (-3, -8700) (-1980)"
  by code_simp

lemma full_layer_054_ok: "full_group full_layer_054 (-3, -8700) (-5, -8700) (-2000)"
  by code_simp

lemma full_layer_055_ok: "full_group full_layer_055 (-5, -8700) (-6, -8700) (-2020)"
  by code_simp

lemma full_layer_056_ok: "full_group full_layer_056 (-6, -8700) (-7, -8700) (-2040)"
  by code_simp

lemma full_layer_057_ok: "full_group full_layer_057 (-7, -8700) (-7, -8700) (-2060)"
  by code_simp

lemma full_layer_058_ok: "full_group full_layer_058 (-7, -8700) (-7, -8700) (-2080)"
  by code_simp

lemma full_layer_059_ok: "full_group full_layer_059 (-7, -8700) (2, -8700) (-2100)"
  by code_simp

lemma full_layer_060_ok: "full_group full_layer_060 (2, -8700) (2, -8700) (-2120)"
  by code_simp

lemma full_layer_061_ok: "full_group full_layer_061 (2, -8700) (2, -8700) (-2140)"
  by code_simp

lemma full_layer_062_ok: "full_group full_layer_062 (2, -8700) (2, -8700) (-2160)"
  by code_simp

lemma full_layer_063_ok: "full_group full_layer_063 (2, -8700) (3, -8700) (-2180)"
  by code_simp

lemmas full_layers_a_ok =
  full_layer_000_ok full_layer_001_ok full_layer_002_ok full_layer_003_ok full_layer_004_ok
  full_layer_005_ok full_layer_006_ok full_layer_007_ok full_layer_008_ok full_layer_009_ok
  full_layer_010_ok full_layer_011_ok full_layer_012_ok full_layer_013_ok full_layer_014_ok
  full_layer_015_ok full_layer_016_ok full_layer_017_ok full_layer_018_ok full_layer_019_ok
  full_layer_020_ok full_layer_021_ok full_layer_022_ok full_layer_023_ok full_layer_024_ok
  full_layer_025_ok full_layer_026_ok full_layer_027_ok full_layer_028_ok full_layer_029_ok
  full_layer_030_ok full_layer_031_ok full_layer_032_ok full_layer_033_ok full_layer_034_ok
  full_layer_035_ok full_layer_036_ok full_layer_037_ok full_layer_038_ok full_layer_039_ok
  full_layer_040_ok full_layer_041_ok full_layer_042_ok full_layer_043_ok full_layer_044_ok
  full_layer_045_ok full_layer_046_ok full_layer_047_ok full_layer_048_ok full_layer_049_ok
  full_layer_050_ok full_layer_051_ok full_layer_052_ok full_layer_053_ok full_layer_054_ok
  full_layer_055_ok full_layer_056_ok full_layer_057_ok full_layer_058_ok full_layer_059_ok
  full_layer_060_ok full_layer_061_ok full_layer_062_ok full_layer_063_ok

definition full_groups_a :: "(pline list \<times> (int \<times> int) \<times> int list) list" where
  "full_groups_a = [
     (full_layer_000, (1351, 652), [-200]), (full_layer_001, (1351, 652), [-400]),
     (full_layer_002, (1351, 652), [-600]), (full_layer_003, (1351, 652), [-800]),
     (full_layer_004, (1351, 652), [-1000]), (full_layer_005, (-3, -8700), [-1020]),
     (full_layer_006, (-2, -8700), [-1040]), (full_layer_007, (1, -8700), [-1060]),
     (full_layer_008, (-1, -8700), [-1080]), (full_layer_009, (-3, -8700), [-1100]),
     (full_layer_010, (0, -8700), [-1120]), (full_layer_011, (0, -8700), [-1140]),
     (full_layer_012, (0, -8700), [-1160]), (full_layer_013, (32, -8700), [-1180]),
     (full_layer_014, (0, -8700), [-1200]), (full_layer_015, (0, -8700), [-1220]),
     (full_layer_016, (0, -8700), [-1240]), (full_layer_017, (0, -8700), [-1260]),
     (full_layer_018, (1, -8700), [-1280]), (full_layer_019, (1, -8700), [-1300]),
     (full_layer_020, (1, -8700), [-1320]), (full_layer_021, (1, -8700), [-1340]),
     (full_layer_022, (1, -8700), [-1360]), (full_layer_023, (1, -8700), [-1380]),
     (full_layer_024, (1, -8700), [-1400]), (full_layer_025, (2, -8700), [-1420]),
     (full_layer_026, (1, -8700), [-1440]), (full_layer_027, (-1, -8700), [-1460]),
     (full_layer_028, (-1, -8700), [-1480]), (full_layer_029, (5, -8700), [-1500]),
     (full_layer_030, (1, -8700), [-1520]), (full_layer_031, (2, -8700), [-1540]),
     (full_layer_032, (2, -8700), [-1560]), (full_layer_033, (2, -8700), [-1580]),
     (full_layer_034, (2, -8700), [-1600]), (full_layer_035, (6, -8700), [-1620]),
     (full_layer_036, (7, -8700), [-1640]), (full_layer_037, (-3, -8700), [-1660]),
     (full_layer_038, (-28, -8700), [-1680]), (full_layer_039, (-35, -8700), [-1700]),
     (full_layer_040, (-49, -8700), [-1720]), (full_layer_041, (-9, -8700), [-1740]),
     (full_layer_042, (-9, -8700), [-1760]), (full_layer_043, (-11, -8700), [-1780]),
     (full_layer_044, (-10, -8700), [-1800]), (full_layer_045, (-10, -8700), [-1820]),
     (full_layer_046, (-5, -8700), [-1840]), (full_layer_047, (-5, -8700), [-1860]),
     (full_layer_048, (-4, -8700), [-1880]), (full_layer_049, (-4, -8700), [-1900]),
     (full_layer_050, (-5, -8700), [-1920]), (full_layer_051, (-5, -8700), [-1940]),
     (full_layer_052, (-4, -8700), [-1960]), (full_layer_053, (-3, -8700), [-1980]),
     (full_layer_054, (-5, -8700), [-2000]), (full_layer_055, (-6, -8700), [-2020]),
     (full_layer_056, (-7, -8700), [-2040]), (full_layer_057, (-7, -8700), [-2060]),
     (full_layer_058, (-7, -8700), [-2080]), (full_layer_059, (2, -8700), [-2100]),
     (full_layer_060, (2, -8700), [-2120]), (full_layer_061, (2, -8700), [-2140]),
     (full_layer_062, (2, -8700), [-2160]), (full_layer_063, (3, -8700), [-2180])]"

lemma full_a_chained: "chained 1 full_box full_groups_a (-4574, -7401)"
  by (simp add: full_groups_a_def full_layers_a_ok)

lemma full_a_groups:
  "map fst full_groups_a = full_layers_a" "last (p # map (fst \<circ> snd) full_groups_a) = (3, -8700)"
  "concat (map (snd \<circ> snd) full_groups_a) = [
    -200, -400, -600, -800, -1000, -1020, -1040, -1060, -1080, -1100, -1120, -1140, -1160, -1180, -1200,
    -1220, -1240, -1260, -1280, -1300, -1320, -1340, -1360, -1380, -1400, -1420, -1440, -1460, -1480,
    -1500, -1520, -1540, -1560, -1580, -1600, -1620, -1640, -1660, -1680, -1700, -1720, -1740, -1760,
    -1780, -1800, -1820, -1840, -1860, -1880, -1900, -1920, -1940, -1960, -1980, -2000, -2020, -2040,
    -2060, -2080, -2100, -2120, -2140, -2160, -2180]"
  by (simp_all add: full_groups_a_def full_layers_a_def)

lemma full_a_depths: "map full_depth [0..<64] = concat (map (snd \<circ> snd) full_groups_a)"
  unfolding full_a_groups by code_simp

lemma full_a_group: "mills_group 1 full_box (concat full_layers_a) (-4574, -7401) (3, -8700) (map full_depth [0..<64])"
  using chained_group [OF full_a_chained] by (simp only: full_a_groups full_a_depths)

lemma full_a_lengths: "map length full_layers_a = [
    80, 81, 81, 81, 81, 72, 70, 70, 72, 73, 73, 72, 72, 75, 75, 74, 74, 72, 73, 73, 73, 73, 73, 75, 74,
    76, 74, 77, 76, 77, 73, 73, 73, 73, 73, 76, 75, 79, 76, 76, 76, 83, 84, 86, 87, 87, 86, 88, 90, 88,
    86, 86, 87, 86, 87, 87, 87, 88, 87, 87, 88, 88, 85, 85]"
  by (simp add: full_layers_a_def
      full_layer_000_def full_layer_001_def full_layer_002_def full_layer_003_def
      full_layer_004_def full_layer_005_def full_layer_006_def full_layer_007_def
      full_layer_008_def full_layer_009_def full_layer_010_def full_layer_011_def
      full_layer_012_def full_layer_013_def full_layer_014_def full_layer_015_def
      full_layer_016_def full_layer_017_def full_layer_018_def full_layer_019_def
      full_layer_020_def full_layer_021_def full_layer_022_def full_layer_023_def
      full_layer_024_def full_layer_025_def full_layer_026_def full_layer_027_def
      full_layer_028_def full_layer_029_def full_layer_030_def full_layer_031_def
      full_layer_032_def full_layer_033_def full_layer_034_def full_layer_035_def
      full_layer_036_def full_layer_037_def full_layer_038_def full_layer_039_def
      full_layer_040_def full_layer_041_def full_layer_042_def full_layer_043_def
      full_layer_044_def full_layer_045_def full_layer_046_def full_layer_047_def
      full_layer_048_def full_layer_049_def full_layer_050_def full_layer_051_def
      full_layer_052_def full_layer_053_def full_layer_054_def full_layer_055_def
      full_layer_056_def full_layer_057_def full_layer_058_def full_layer_059_def
      full_layer_060_def full_layer_061_def full_layer_062_def full_layer_063_def)

lemma full_a_length: "length (concat full_layers_a) = 5058"
  by (simp add: length_concat full_a_lengths)

end
