(* ===== verification/Gcode_Full_B.thy ===== *)
theory Gcode_Full_B
  imports Gcode_Full_Shape
begin

text \<open>
  Layers 64 to 127 of the full part program, lines 5066 to 11329 of the file.
\<close>

section \<open>The lines of the file\<close>

text \<open>Lines 5066 to 5152.\<close>

definition full_layer_064 :: "pline list" where
  "full_layer_064 = [
     X 0, Z 800, Z (-2200), Y (-5850), XY (-1586) (-5662), XY (-3055) (-5024), XY (-4297) (-4013),
     XY (-5221) (-2705), XY (-5757) (-1196), XY (-5866) 401, XY (-5540) 1969, XY (-4804) 3391,
     XY (-3711) 4561, XY (-2343) 5393, XY (-801) 5825, X 801, XY 2343 5393, XY 3711 4561, XY 4804 3391,
     XY 5540 1969, XY 5866 401, XY 5757 (-1196), XY 5221 (-2705), XY 4297 (-4013), XY 3055 (-5024),
     XY 1586 (-5662), XY 0 (-5850), Y (-4350), XY (-1353) (-4166), XY (-2575) (-3543),
     XY (-3543) (-2575), XY (-4166) (-1353), XY (-4380) 0, XY (-4166) 1353, XY (-3543) 2575,
     XY (-2575) 3543, XY (-1353) 4166, XY 0 4380, XY 1353 4166, XY 2575 3543, XY 3543 2575,
     XY 4166 1353, XY 4380 0, XY 4166 (-1353), XY 3543 (-2575), XY 2575 (-3543), XY 1353 (-4166),
     XY 0 (-4350), XY (-1) (-3600), XY (-716) (-3583), XY (-1420) (-3442), XY (-2087) (-3182),
     XY (-2409) (-3028), XY (-2668) (-2901), XY (-2874) (-2694), XY (-2999) (-2434), XY (-3162) (-2087),
     XY (-3537) (-965), XY (-3626) 218, XY (-3451) 1391, XY (-2994) 2483, XY (-2879) 2708,
     XY (-2694) 2882, XY (-2463) 2985, XY (-2087) 3156, XY (-1073) 3517, XY 0 3630, XY 1073 3517,
     XY 2087 3156, XY 2473 2980, XY 2700 2880, XY 2882 2708, XY 2995 2487, XY 3452 1394, XY 3626 219,
     XY 3535 (-965), XY 3155 (-2087), XY 3004 (-2420), XY 2873 (-2695), XY 2657 (-2911),
     XY 2382 (-3043), XY 1629 (-3378), XY 824 (-3566), XY (-1) (-3600), XY 3 (-8700), Z 800, Z 10000]"

text \<open>Lines 5153 to 5239.\<close>

definition full_layer_065 :: "pline list" where
  "full_layer_065 = [
     X 0, Z 780, Z (-2220), Y (-5850), XY (-1586) (-5662), XY (-3055) (-5024), XY (-4297) (-4013),
     XY (-5221) (-2705), XY (-5757) (-1196), XY (-5866) 401, XY (-5540) 1969, XY (-4804) 3391,
     XY (-3711) 4561, XY (-2343) 5393, XY (-801) 5825, X 801, XY 2343 5393, XY 3711 4561, XY 4804 3391,
     XY 5540 1969, XY 5866 401, XY 5757 (-1196), XY 5221 (-2705), XY 4297 (-4013), XY 3055 (-5024),
     XY 1586 (-5662), XY 0 (-5850), Y (-4350), XY (-1353) (-4166), XY (-2575) (-3543),
     XY (-3543) (-2575), XY (-4166) (-1353), XY (-4380) 0, XY (-4166) 1353, XY (-3543) 2575,
     XY (-2575) 3543, XY (-1353) 4166, XY 0 4380, XY 1353 4166, XY 2575 3543, XY 3543 2575,
     XY 4166 1353, XY 4380 0, XY 4166 (-1353), XY 3543 (-2575), XY 2575 (-3543), XY 1353 (-4166),
     XY 0 (-4350), XY (-1) (-3603), XY (-716) (-3586), XY (-1420) (-3447), XY (-2087) (-3189),
     XY (-2410) (-3036), XY (-2673) (-2907), XY (-2880) (-2698), XY (-3007) (-2435), XY (-3168) (-2087),
     XY (-3540) (-965), XY (-3628) 216, XY (-3456) 1388, XY (-3004) 2480, XY (-2886) 2710,
     XY (-2698) 2889, XY (-2462) 2994, XY (-2087) 3163, XY (-1073) 3521, XY 0 3633, XY 1073 3521,
     XY 2087 3163, XY 2476 2988, XY 2705 2886, XY 2888 2713, XY 3002 2489, XY 3456 1395, XY 3628 220,
     XY 3538 (-964), XY 3162 (-2087), XY 3012 (-2421), XY 2880 (-2697), XY 2663 (-2916),
     XY 2387 (-3049), XY 1631 (-3382), XY 825 (-3569), XY (-1) (-3603), XY 4 (-8700), Z 780, Z 10000]"

text \<open>Lines 5240 to 5326.\<close>

definition full_layer_066 :: "pline list" where
  "full_layer_066 = [
     X 0, Z 760, Z (-2240), Y (-5850), XY (-1586) (-5662), XY (-3055) (-5024), XY (-4297) (-4013),
     XY (-5221) (-2705), XY (-5757) (-1196), XY (-5866) 401, XY (-5540) 1969, XY (-4804) 3391,
     XY (-3711) 4561, XY (-2343) 5393, XY (-801) 5825, X 801, XY 2343 5393, XY 3711 4561, XY 4804 3391,
     XY 5540 1969, XY 5866 401, XY 5757 (-1196), XY 5221 (-2705), XY 4297 (-4013), XY 3055 (-5024),
     XY 1586 (-5662), XY 0 (-5850), Y (-4350), XY (-1353) (-4166), XY (-2575) (-3543),
     XY (-3543) (-2575), XY (-4166) (-1353), XY (-4380) 0, XY (-4166) 1353, XY (-3543) 2575,
     XY (-2575) 3543, XY (-1353) 4166, XY 0 4380, XY 1353 4166, XY 2575 3543, XY 3543 2575,
     XY 4166 1353, XY 4380 0, XY 4166 (-1353), XY 3543 (-2575), XY 2575 (-3543), XY 1353 (-4166),
     XY 0 (-4350), XY (-1) (-3605), XY (-716) (-3589), XY (-1419) (-3451), XY (-2087) (-3196),
     XY (-2407) (-3045), XY (-2675) (-2914), XY (-2887) (-2701), XY (-3016) (-2432), XY (-3175) (-2087),
     XY (-3544) (-966), XY (-3631) 214, XY (-3460) 1385, XY (-3014) 2478, XY (-2894) 2713,
     XY (-2701) 2895, XY (-2460) 3003, XY (-2087) 3169, XY (-1072) 3524, XY 0 3635, XY 1072 3524,
     XY 2087 3169, XY 2477 2995, XY 2709 2893, XY 2895 2717, XY 3010 2490, XY 3460 1395, XY 3631 220,
     XY 3542 (-963), XY 3169 (-2087), XY 3020 (-2421), XY 2888 (-2700), XY 2669 (-2920),
     XY 2391 (-3055), XY 1634 (-3386), XY 826 (-3572), XY (-1) (-3605), XY 4 (-8700), Z 760, Z 10000]"

text \<open>Lines 5327 to 5412.\<close>

definition full_layer_067 :: "pline list" where
  "full_layer_067 = [
     X 0, Z 740, Z (-2260), Y (-5850), XY (-1586) (-5662), XY (-3055) (-5024), XY (-4297) (-4013),
     XY (-5221) (-2705), XY (-5757) (-1196), XY (-5866) 401, XY (-5540) 1969, XY (-4804) 3391,
     XY (-3711) 4561, XY (-2343) 5393, XY (-801) 5825, X 801, XY 2343 5393, XY 3711 4561, XY 4804 3391,
     XY 5540 1969, XY 5866 401, XY 5757 (-1196), XY 5221 (-2705), XY 4297 (-4013), XY 3055 (-5024),
     XY 1586 (-5662), XY 0 (-5850), Y (-4350), XY (-1353) (-4166), XY (-2575) (-3543),
     XY (-3543) (-2575), XY (-4166) (-1353), XY (-4380) 0, XY (-4166) 1353, XY (-3543) 2575,
     XY (-2575) 3543, XY (-1353) 4166, XY 0 4380, XY 1353 4166, XY 2575 3543, XY 3543 2575,
     XY 4166 1353, XY 4380 0, XY 4166 (-1353), XY 3543 (-2575), XY 2575 (-3543), XY 1353 (-4166),
     XY 0 (-4350), XY (-1) (-3608), XY (-716) (-3592), XY (-1419) (-3456), XY (-2087) (-3203),
     XY (-2408) (-3053), XY (-2679) (-2920), XY (-2893) (-2705), XY (-3024) (-2432), XY (-3182) (-2087),
     XY (-3547) (-966), XY (-3634) 213, XY (-3465) 1382, XY (-3023) 2475, XY (-2901) 2715,
     XY (-2705) 2902, XY (-2459) 3012, XY (-2087) 3176, XY (-717) 3589, X 717, XY 2087 3176,
     XY 2482 3001, XY 2715 2899, XY 2900 2723, XY 3015 2497, XY 3463 1399, XY 3633 224, XY 3545 (-961),
     XY 3175 (-2087), XY 3028 (-2422), XY 2896 (-2702), XY 2676 (-2925), XY 2397 (-3060),
     XY 1637 (-3390), XY 827 (-3575), XY (-1) (-3608), XY 4 (-8700), Z 740, Z 10000]"

text \<open>Lines 5413 to 5498.\<close>

definition full_layer_068 :: "pline list" where
  "full_layer_068 = [
     X 0, Z 720, Z (-2280), Y (-5850), XY (-1586) (-5662), XY (-3055) (-5024), XY (-4297) (-4013),
     XY (-5221) (-2705), XY (-5757) (-1196), XY (-5866) 401, XY (-5540) 1969, XY (-4804) 3391,
     XY (-3711) 4561, XY (-2343) 5393, XY (-801) 5825, X 801, XY 2343 5393, XY 3711 4561, XY 4804 3391,
     XY 5540 1969, XY 5866 401, XY 5757 (-1196), XY 5221 (-2705), XY 4297 (-4013), XY 3055 (-5024),
     XY 1586 (-5662), XY 0 (-5850), Y (-4350), XY (-1353) (-4166), XY (-2575) (-3543),
     XY (-3543) (-2575), XY (-4166) (-1353), XY (-4380) 0, XY (-4166) 1353, XY (-3543) 2575,
     XY (-2575) 3543, XY (-1353) 4166, XY 0 4380, XY 1353 4166, XY 2575 3543, XY 3543 2575,
     XY 4166 1353, XY 4380 0, XY 4166 (-1353), XY 3543 (-2575), XY 2575 (-3543), XY 1353 (-4166),
     XY 0 (-4350), XY (-1) (-3610), XY (-715) (-3596), XY (-1418) (-3461), XY (-2087) (-3209),
     XY (-2412) (-3059), XY (-2671) (-2937), XY (-2879) (-2737), XY (-3011) (-2483), XY (-3458) (-1390),
     XY (-3634) (-220), XY (-3556) 961, XY (-3201) 2087, XY (-3063) 2399, XY (-2930) 2680,
     XY (-2708) 2901, XY (-2427) 3034, XY (-2087) 3182, XY (-717) 3592, X 717, XY 2087 3183,
     XY 2465 3017, XY 2713 2906, XY 2911 2718, XY 3034 2475, XY 3471 1381, XY 3636 211, XY 3548 (-967),
     XY 3182 (-2087), XY 3036 (-2422), XY 2903 (-2705), XY 2682 (-2929), XY 2401 (-3066),
     XY 1639 (-3394), XY 828 (-3578), XY (-1) (-3610), XY 5 (-8700), Z 720, Z 10000]"

text \<open>Lines 5499 to 5585.\<close>

definition full_layer_069 :: "pline list" where
  "full_layer_069 = [
     X 0, Z 700, Z (-2300), Y (-5850), XY (-1586) (-5662), XY (-3055) (-5024), XY (-4297) (-4013),
     XY (-5221) (-2705), XY (-5757) (-1196), XY (-5866) 401, XY (-5540) 1969, XY (-4804) 3391,
     XY (-3711) 4561, XY (-2343) 5393, XY (-801) 5825, X 801, XY 2343 5393, XY 3711 4561, XY 4804 3391,
     XY 5540 1969, XY 5866 401, XY 5757 (-1196), XY 5221 (-2705), XY 4297 (-4013), XY 3055 (-5024),
     XY 1586 (-5662), XY 0 (-5850), Y (-4350), XY (-1353) (-4166), XY (-2575) (-3543),
     XY (-3543) (-2575), XY (-4166) (-1353), XY (-4380) 0, XY (-4166) 1353, XY (-3543) 2575,
     XY (-2575) 3543, XY (-1353) 4166, XY 0 4380, XY 1353 4166, XY 2575 3543, XY 3543 2575,
     XY 4166 1353, XY 4380 0, XY 4166 (-1353), XY 3543 (-2575), XY 2575 (-3543), XY 1353 (-4166),
     XY 0 (-4350), XY 1 (-3610), XY (-713) (-3595), XY (-1417) (-3463), XY (-2087) (-3216),
     XY (-2408) (-3069), XY (-2687) (-2933), XY (-2906) (-2712), XY (-3040) (-2433), XY (-3121) (-2254),
     XY (-3524) (-1104), XY (-3639) 111, XY (-3487) 1323, XY (-3048) 2459, XY (-2918) 2715,
     XY (-2710) 2915, XY (-2448) 3032, XY (-2087) 3189, XY (-717) 3595, X 716, XY 2087 3190,
     XY 2464 3026, XY 2716 2913, XY 2918 2720, XY 3043 2473, XY 3476 1379, XY 3639 210, XY 3551 (-967),
     XY 3189 (-2087), XY 3044 (-2422), XY 2914 (-2702), XY 2698 (-2926), XY 2422 (-3064),
     XY 2087 (-3222), XY 1417 (-3466), XY 714 (-3597), XY 1 (-3610), XY (-5) (-8700), Z 700, Z 10000]"

text \<open>Lines 5586 to 5672.\<close>

definition full_layer_070 :: "pline list" where
  "full_layer_070 = [
     X 0, Z 680, Z (-2320), Y (-5850), XY (-1586) (-5662), XY (-3055) (-5024), XY (-4297) (-4013),
     XY (-5221) (-2705), XY (-5757) (-1196), XY (-5866) 401, XY (-5540) 1969, XY (-4804) 3391,
     XY (-3711) 4561, XY (-2343) 5393, XY (-801) 5825, X 801, XY 2343 5393, XY 3711 4561, XY 4804 3391,
     XY 5540 1969, XY 5866 401, XY 5757 (-1196), XY 5221 (-2705), XY 4297 (-4013), XY 3055 (-5024),
     XY 1586 (-5662), XY 0 (-5850), Y (-4350), XY (-1353) (-4166), XY (-2575) (-3543),
     XY (-3543) (-2575), XY (-4166) (-1353), XY (-4380) 0, XY (-4166) 1353, XY (-3543) 2575,
     XY (-2575) 3543, XY (-1353) 4166, XY 0 4380, XY 1353 4166, XY 2575 3543, XY 3543 2575,
     XY 4166 1353, XY 4380 0, XY 4166 (-1353), XY 3543 (-2575), XY 2575 (-3543), XY 1353 (-4166),
     XY 0 (-4350), XY 1 (-3613), XY (-713) (-3598), XY (-1416) (-3467), XY (-2087) (-3223),
     XY (-2409) (-3077), XY (-2691) (-2940), XY (-2913) (-2716), XY (-3048) (-2433), XY (-3126) (-2259),
     XY (-3527) (-1108), XY (-3641) 108, XY (-3491) 1320, XY (-3056) 2459, XY (-2925) 2719,
     XY (-2714) 2921, XY (-2448) 3040, XY (-2087) 3196, XY (-716) 3598, X 716, XY 2087 3196,
     XY 2463 3034, XY 2720 2919, XY 2925 2723, XY 3052 2471, XY 3481 1376, XY 3642 208, XY 3555 (-967),
     XY 3195 (-2087), XY 3052 (-2422), XY 2921 (-2706), XY 2702 (-2932), XY 2422 (-3072),
     XY 2087 (-3229), XY 1416 (-3471), XY 714 (-3600), XY 1 (-3613), XY (-5) (-8700), Z 680, Z 10000]"

text \<open>Lines 5673 to 5758.\<close>

definition full_layer_071 :: "pline list" where
  "full_layer_071 = [
     X 0, Z 660, Z (-2340), Y (-5850), XY (-1586) (-5662), XY (-3055) (-5024), XY (-4297) (-4013),
     XY (-5221) (-2705), XY (-5757) (-1196), XY (-5866) 401, XY (-5540) 1969, XY (-4804) 3391,
     XY (-3711) 4561, XY (-2343) 5393, XY (-801) 5825, X 801, XY 2343 5393, XY 3711 4561, XY 4804 3391,
     XY 5540 1969, XY 5866 401, XY 5757 (-1196), XY 5221 (-2705), XY 4297 (-4013), XY 3055 (-5024),
     XY 1586 (-5662), XY 0 (-5850), Y (-4350), XY (-1353) (-4166), XY (-2575) (-3543),
     XY (-3543) (-2575), XY (-4166) (-1353), XY (-4380) 0, XY (-4166) 1353, XY (-3543) 2575,
     XY (-2575) 3543, XY (-1353) 4166, XY 0 4380, XY 1353 4166, XY 2575 3543, XY 3543 2575,
     XY 4166 1353, XY 4380 0, XY 4166 (-1353), XY 3543 (-2575), XY 2575 (-3543), XY 1353 (-4166),
     XY 0 (-4350), XY (-1) (-3618), XY (-714) (-3605), XY (-1417) (-3474), XY (-2087) (-3230),
     XY (-2409) (-3085), XY (-2695) (-2946), XY (-2920) (-2720), XY (-3056) (-2433), XY (-3133) (-2260),
     XY (-3531) (-1108), XY (-3645) 109, XY (-3496) 1322, XY (-3063) 2462, XY (-2931) 2724,
     XY (-2718) 2928, XY (-2450) 3048, XY (-2087) 3202, XY (-716) 3601, X 716, XY 2087 3203,
     XY 2462 3043, XY 2724 2926, XY 2933 2726, XY 3061 2470, XY 3485 1374, XY 3644 207, XY 3558 (-967),
     XY 3202 (-2087), XY 3060 (-2422), XY 2926 (-2712), XY 2701 (-2943), XY 2414 (-3084),
     XY 1646 (-3407), XY 831 (-3587), XY (-1) (-3618), XY 6 (-8700), Z 660, Z 10000]"

text \<open>Lines 5759 to 5841.\<close>

definition full_layer_072 :: "pline list" where
  "full_layer_072 = [
     X 0, Z 640, Z (-2360), Y (-5850), XY (-1586) (-5662), XY (-3055) (-5024), XY (-4297) (-4013),
     XY (-5221) (-2705), XY (-5757) (-1196), XY (-5866) 401, XY (-5540) 1969, XY (-4804) 3391,
     XY (-3711) 4561, XY (-2343) 5393, XY (-801) 5825, X 801, XY 2343 5393, XY 3711 4561, XY 4804 3391,
     XY 5540 1969, XY 5866 401, XY 5757 (-1196), XY 5221 (-2705), XY 4297 (-4013), XY 3055 (-5024),
     XY 1586 (-5662), XY 0 (-5850), Y (-4350), XY (-1353) (-4166), XY (-2575) (-3543),
     XY (-3543) (-2575), XY (-4166) (-1353), XY (-4380) 0, XY (-4166) 1353, XY (-3543) 2575,
     XY (-2575) 3543, XY (-1353) 4166, XY 0 4380, XY 1353 4166, XY 2575 3543, XY 3543 2575,
     XY 4166 1353, XY 4380 0, XY 4166 (-1353), XY 3543 (-2575), XY 2575 (-3543), XY 1353 (-4166),
     XY 0 (-4350), XY 1 (-3618), XY (-782) (-3596), XY (-1552) (-3441), XY (-2283) (-3160),
     XY (-2633) (-2994), XY (-2913) (-2724), XY (-3092) (-2381), XY (-3518) (-1202), XY (-3649) 47,
     XY (-3506) 1295, XY (-3068) 2469, XY (-2937) 2731, XY (-2725) 2934, XY (-2457) 3053,
     XY (-2087) 3209, XY (-716) 3604, X 715, XY 2087 3210, XY 2433 3063, XY 2730 2924, XY 2963 2691,
     XY 3103 2395, XY 3520 1232, XY 3649 0, XY 3512 (-1231), XY 3087 (-2391), XY 2908 (-2734),
     XY 2626 (-3004), XY 2275 (-3168), XY 1547 (-3446), XY 780 (-3598), XY 1 (-3618), XY (-4) (-8700),
     Z 640, Z 10000]"

text \<open>Lines 5842 to 5925.\<close>

definition full_layer_073 :: "pline list" where
  "full_layer_073 = [
     X 0, Z 620, Z (-2380), Y (-5850), XY (-1586) (-5662), XY (-3055) (-5024), XY (-4297) (-4013),
     XY (-5221) (-2705), XY (-5757) (-1196), XY (-5866) 401, XY (-5540) 1969, XY (-4804) 3391,
     XY (-3711) 4561, XY (-2343) 5393, XY (-801) 5825, X 801, XY 2343 5393, XY 3711 4561, XY 4804 3391,
     XY 5540 1969, XY 5866 401, XY 5757 (-1196), XY 5221 (-2705), XY 4297 (-4013), XY 3055 (-5024),
     XY 1586 (-5662), XY 0 (-5850), Y (-4350), XY (-1353) (-4166), XY (-2575) (-3543),
     XY (-3543) (-2575), XY (-4166) (-1353), XY (-4380) 0, XY (-4166) 1353, XY (-3543) 2575,
     XY (-2575) 3543, XY (-1353) 4166, XY 0 4380, XY 1353 4166, XY 2575 3543, XY 3543 2575,
     XY 4166 1353, XY 4380 0, XY 4166 (-1353), XY 3543 (-2575), XY 2575 (-3543), XY 1353 (-4166),
     XY 0 (-4350), XY (-1) (-3624), XY (-788) (-3602), XY (-1562) (-3446), XY (-2296) (-3161),
     XY (-2644) (-2994), XY (-2923) (-2723), XY (-3100) (-2379), XY (-3522) (-1201), XY (-3652) 47,
     XY (-3510) 1293, XY (-3077) 2467, XY (-2945) 2733, XY (-2728) 2941, XY (-2456) 3062,
     XY (-2087) 3215, XY (-715) 3607, X 715, XY 2087 3216, XY 2430 3072, XY 2723 2938, XY 2956 2712,
     XY 3098 2423, XY 3250 2087, XY 3613 710, XY 3601 (-717), XY 3215 (-2087), XY 3075 (-2423),
     XY 2941 (-2717), XY 2714 (-2952), XY 2423 (-3096), XY 1651 (-3415), XY 834 (-3593),
     XY (-1) (-3624), XY 7 (-8700), Z 620, Z 10000]"

text \<open>Lines 5926 to 6009.\<close>

definition full_layer_074 :: "pline list" where
  "full_layer_074 = [
     X 0, Z 600, Z (-2400), Y (-5850), XY (-1586) (-5662), XY (-3055) (-5024), XY (-4297) (-4013),
     XY (-5221) (-2705), XY (-5757) (-1196), XY (-5866) 401, XY (-5540) 1969, XY (-4804) 3391,
     XY (-3711) 4561, XY (-2343) 5393, XY (-801) 5825, X 801, XY 2343 5393, XY 3711 4561, XY 4804 3391,
     XY 5540 1969, XY 5866 401, XY 5757 (-1196), XY 5221 (-2705), XY 4297 (-4013), XY 3055 (-5024),
     XY 1586 (-5662), XY 0 (-5850), Y (-4350), XY (-1353) (-4166), XY (-2575) (-3543),
     XY (-3543) (-2575), XY (-4166) (-1353), XY (-4380) 0, XY (-4166) 1353, XY (-3543) 2575,
     XY (-2575) 3543, XY (-1353) 4166, XY 0 4380, XY 1353 4166, XY 2575 3543, XY 3543 2575,
     XY 4166 1353, XY 4380 0, XY 4166 (-1353), XY 3543 (-2575), XY 2575 (-3543), XY 1353 (-4166),
     XY 0 (-4350), XY (-1) (-3627), XY (-788) (-3606), XY (-1561) (-3452), XY (-2295) (-3169),
     XY (-2648) (-3000), XY (-2930) (-2726), XY (-3109) (-2378), XY (-3526) (-1200), XY (-3654) 46,
     XY (-3515) 1291, XY (-3086) 2464, XY (-2952) 2736, XY (-2732) 2947, XY (-2455) 3070,
     XY (-2087) 3222, XY (-715) 3610, X 715, XY 2087 3223, XY 2431 3080, XY 2727 2945, XY 2962 2716,
     XY 3105 2424, XY 3256 2087, XY 3616 710, XY 3604 (-716), XY 3222 (-2087), XY 3083 (-2423),
     XY 2948 (-2721), XY 2718 (-2959), XY 2424 (-3104), XY 1651 (-3421), XY 833 (-3597),
     XY (-1) (-3627), XY 7 (-8700), Z 600, Z 10000]"

text \<open>Lines 6010 to 6093.\<close>

definition full_layer_075 :: "pline list" where
  "full_layer_075 = [
     X 0, Z 580, Z (-2420), Y (-5850), XY (-1586) (-5662), XY (-3055) (-5024), XY (-4297) (-4013),
     XY (-5221) (-2705), XY (-5757) (-1196), XY (-5866) 401, XY (-5540) 1969, XY (-4804) 3391,
     XY (-3711) 4561, XY (-2343) 5393, XY (-801) 5825, X 801, XY 2343 5393, XY 3711 4561, XY 4804 3391,
     XY 5540 1969, XY 5866 401, XY 5757 (-1196), XY 5221 (-2705), XY 4297 (-4013), XY 3055 (-5024),
     XY 1586 (-5662), XY 0 (-5850), Y (-4350), XY (-1353) (-4166), XY (-2575) (-3543),
     XY (-3543) (-2575), XY (-4166) (-1353), XY (-4380) 0, XY (-4166) 1353, XY (-3543) 2575,
     XY (-2575) 3543, XY (-1353) 4166, XY 0 4380, XY 1353 4166, XY 2575 3543, XY 3543 2575,
     XY 4166 1353, XY 4380 0, XY 4166 (-1353), XY 3543 (-2575), XY 2575 (-3543), XY 1353 (-4166),
     XY 0 (-4350), XY (-1) (-3631), XY (-787) (-3610), XY (-1560) (-3457), XY (-2294) (-3177),
     XY (-2652) (-3007), XY (-2937) (-2729), XY (-3117) (-2376), XY (-3530) (-1199), XY (-3657) 45,
     XY (-3519) 1289, XY (-3096) 2462, XY (-2959) 2739, XY (-2735) 2954, XY (-2453) 3079,
     XY (-2087) 3229, XY (-715) 3613, X 714, XY 2087 3230, XY 2432 3088, XY 2731 2951, XY 2969 2720,
     XY 3113 2425, XY 3263 2087, XY 3619 710, XY 3607 (-716), XY 3229 (-2087), XY 3091 (-2423),
     XY 2954 (-2725), XY 2722 (-2965), XY 2424 (-3112), XY 1651 (-3426), XY 833 (-3601),
     XY (-1) (-3631), XY 7 (-8700), Z 580, Z 10000]"

text \<open>Lines 6094 to 6177.\<close>

definition full_layer_076 :: "pline list" where
  "full_layer_076 = [
     X 0, Z 560, Z (-2440), Y (-5850), XY (-1586) (-5662), XY (-3055) (-5024), XY (-4297) (-4013),
     XY (-5221) (-2705), XY (-5757) (-1196), XY (-5866) 401, XY (-5540) 1969, XY (-4804) 3391,
     XY (-3711) 4561, XY (-2343) 5393, XY (-801) 5825, X 801, XY 2343 5393, XY 3711 4561, XY 4804 3391,
     XY 5540 1969, XY 5866 401, XY 5757 (-1196), XY 5221 (-2705), XY 4297 (-4013), XY 3055 (-5024),
     XY 1586 (-5662), XY 0 (-5850), Y (-4350), XY (-1353) (-4166), XY (-2575) (-3543),
     XY (-3543) (-2575), XY (-4166) (-1353), XY (-4380) 0, XY (-4166) 1353, XY (-3543) 2575,
     XY (-2575) 3543, XY (-1353) 4166, XY 0 4380, XY 1353 4166, XY 2575 3543, XY 3543 2575,
     XY 4166 1353, XY 4380 0, XY 4166 (-1353), XY 3543 (-2575), XY 2575 (-3543), XY 1353 (-4166),
     XY 0 (-4350), XY (-1) (-3634), XY (-791) (-3614), XY (-1567) (-3461), XY (-2305) (-3180),
     XY (-2660) (-3012), XY (-2943) (-2737), XY (-3120) (-2387), XY (-3532) (-1207), XY (-3660) 39,
     XY (-3524) 1284, XY (-3104) 2461, XY (-2967) 2742, XY (-2739) 2961, XY (-2453) 3087,
     XY (-2087) 3235, XY (-714) 3615, XY 714 3616, XY 2087 3236, XY 2433 3095, XY 2735 2958,
     XY 2975 2725, XY 3121 2426, XY 3270 2087, XY 3622 710, XY 3610 (-716), XY 3236 (-2087),
     XY 3099 (-2424), XY 2961 (-2729), XY 2726 (-2972), XY 2425 (-3120), XY 1651 (-3432),
     XY 833 (-3605), XY (-1) (-3634), XY 7 (-8700), Z 560, Z 10000]"

text \<open>Lines 6178 to 6260.\<close>

definition full_layer_077 :: "pline list" where
  "full_layer_077 = [
     X 0, Z 540, Z (-2460), Y (-5850), XY (-1586) (-5662), XY (-3055) (-5024), XY (-4297) (-4013),
     XY (-5221) (-2705), XY (-5757) (-1196), XY (-5866) 401, XY (-5540) 1969, XY (-4804) 3391,
     XY (-3711) 4561, XY (-2343) 5393, XY (-801) 5825, X 801, XY 2343 5393, XY 3711 4561, XY 4804 3391,
     XY 5540 1969, XY 5866 401, XY 5757 (-1196), XY 5221 (-2705), XY 4297 (-4013), XY 3055 (-5024),
     XY 1586 (-5662), XY 0 (-5850), Y (-4350), XY (-1353) (-4166), XY (-2575) (-3543),
     XY (-3543) (-2575), XY (-4166) (-1353), XY (-4380) 0, XY (-4166) 1353, XY (-3543) 2575,
     XY (-2575) 3543, XY (-1353) 4166, XY 0 4380, XY 1353 4166, XY 2575 3543, XY 3543 2575,
     XY 4166 1353, XY 4380 0, XY 4166 (-1353), XY 3543 (-2575), XY 2575 (-3543), XY 1353 (-4166),
     XY 0 (-4350), XY 1 (-3630), XY (-784) (-3611), XY (-1556) (-3464), XY (-2294) (-3195),
     XY (-2654) (-3030), XY (-2941) (-2754), XY (-3121) (-2401), XY (-3533) (-1219), XY (-3662) 30,
     XY (-3529) 1278, XY (-3113) 2459, XY (-2974) 2745, XY (-2743) 2967, XY (-2452) 3096,
     XY (-2087) 3242, XY (-714) 3618, XY 714 3619, XY 2087 3243, XY 2434 3103, XY 2743 2962,
     XY 2987 2723, XY 3133 2417, XY 3536 1245, XY 3662 10, XY 3532 (-1224), XY 3125 (-2394),
     XY 2940 (-2756), XY 2644 (-3038), XY 2274 (-3206), XY 1543 (-3470), XY 778 (-3613), XY 1 (-3630),
     XY (-3) (-8700), Z 540, Z 10000]"

text \<open>Lines 6261 to 6343.\<close>

definition full_layer_078 :: "pline list" where
  "full_layer_078 = [
     X 0, Z 520, Z (-2480), Y (-5850), XY (-1586) (-5662), XY (-3055) (-5024), XY (-4297) (-4013),
     XY (-5221) (-2705), XY (-5757) (-1196), XY (-5866) 401, XY (-5540) 1969, XY (-4804) 3391,
     XY (-3711) 4561, XY (-2343) 5393, XY (-801) 5825, X 801, XY 2343 5393, XY 3711 4561, XY 4804 3391,
     XY 5540 1969, XY 5866 401, XY 5757 (-1196), XY 5221 (-2705), XY 4297 (-4013), XY 3055 (-5024),
     XY 1586 (-5662), XY 0 (-5850), Y (-4350), XY (-1353) (-4166), XY (-2575) (-3543),
     XY (-3543) (-2575), XY (-4166) (-1353), XY (-4380) 0, XY (-4166) 1353, XY (-3543) 2575,
     XY (-2575) 3543, XY (-1353) 4166, XY 0 4380, XY 1353 4166, XY 2575 3543, XY 3543 2575,
     XY 4166 1353, XY 4380 0, XY 4166 (-1353), XY 3543 (-2575), XY 2575 (-3543), XY 1353 (-4166),
     XY 0 (-4350), Y (-3633), XY (-783) (-3614), XY (-1554) (-3470), XY (-2291) (-3204),
     XY (-2656) (-3038), XY (-2948) (-2758), XY (-3129) (-2400), XY (-3537) (-1218), XY (-3665) 29,
     XY (-3534) 1276, XY (-3122) 2458, XY (-2981) 2748, XY (-2747) 2974, XY (-2451) 3104,
     XY (-2087) 3248, XY (-970) 3583, XY 196 3662, XY 1354 3508, XY 2447 3102, XY 2783 2928,
     XY 3045 2651, XY 3201 2307, XY 3561 1157, XY 3662 (-46), XY 3528 (-1246), XY 3136 (-2385),
     XY 2949 (-2755), XY 2648 (-3044), XY 2271 (-3215), XY 1540 (-3475), XY 776 (-3616), XY 0 (-3633),
     XY (-3) (-8700), Z 520, Z 10000]"

text \<open>Lines 6344 to 6427.\<close>

definition full_layer_079 :: "pline list" where
  "full_layer_079 = [
     X 0, Z 500, Z (-2500), Y (-5850), XY (-1586) (-5662), XY (-3055) (-5024), XY (-4297) (-4013),
     XY (-5221) (-2705), XY (-5757) (-1196), XY (-5866) 401, XY (-5540) 1969, XY (-4804) 3391,
     XY (-3711) 4561, XY (-2343) 5393, XY (-801) 5825, X 801, XY 2343 5393, XY 3711 4561, XY 4804 3391,
     XY 5540 1969, XY 5866 401, XY 5757 (-1196), XY 5221 (-2705), XY 4297 (-4013), XY 3055 (-5024),
     XY 1586 (-5662), XY 0 (-5850), Y (-4350), XY (-1353) (-4166), XY (-2575) (-3543),
     XY (-3543) (-2575), XY (-4166) (-1353), XY (-4380) 0, XY (-4166) 1353, XY (-3543) 2575,
     XY (-2575) 3543, XY (-1353) 4166, XY 0 4380, XY 1353 4166, XY 2575 3543, XY 3543 2575,
     XY 4166 1353, XY 4380 0, XY 4166 (-1353), XY 3543 (-2575), XY 2575 (-3543), XY 1353 (-4166),
     XY 0 (-4350), Y (-3635), XY (-779) (-3617), XY (-1546) (-3476), XY (-2281) (-3216),
     XY (-2653) (-3048), XY (-2951) (-2765), XY (-3136) (-2402), XY (-3533) (-1272), XY (-3670) (-80),
     XY (-3570) 1116, XY (-3209) 2257, XY (-3151) 2403, XY (-3002) 2724, XY (-2749) 2976,
     XY (-2426) 3122, XY (-2087) 3255, XY (-713) 3624, XY 713 3625, XY 2087 3256, XY 2435 3118,
     XY 2748 2978, XY 2995 2738, XY 3143 2429, XY 3542 1255, XY 3667 18, XY 3540 (-1218),
     XY 3141 (-2392), XY 2953 (-2763), XY 2651 (-3052), XY 2272 (-3222), XY 1540 (-3480),
     XY 776 (-3619), XY 0 (-3635), XY (-3) (-8700), Z 500, Z 10000]"

text \<open>Lines 6428 to 6512.\<close>

definition full_layer_080 :: "pline list" where
  "full_layer_080 = [
     X 0, Z 480, Z (-2520), Y (-5850), XY (-1586) (-5662), XY (-3055) (-5024), XY (-4297) (-4013),
     XY (-5221) (-2705), XY (-5757) (-1196), XY (-5866) 401, XY (-5540) 1969, XY (-4804) 3391,
     XY (-3711) 4561, XY (-2343) 5393, XY (-801) 5825, X 801, XY 2343 5393, XY 3711 4561, XY 4804 3391,
     XY 5540 1969, XY 5866 401, XY 5757 (-1196), XY 5221 (-2705), XY 4297 (-4013), XY 3055 (-5024),
     XY 1586 (-5662), XY 0 (-5850), Y (-4350), XY (-1353) (-4166), XY (-2575) (-3543),
     XY (-3543) (-2575), XY (-4166) (-1353), XY (-4380) 0, XY (-4166) 1353, XY (-3543) 2575,
     XY (-2575) 3543, XY (-1353) 4166, XY 0 4380, XY 1353 4166, XY 2575 3543, XY 3543 2575,
     XY 4166 1353, XY 4380 0, XY 4166 (-1353), XY 3543 (-2575), XY 2575 (-3543), XY 1353 (-4166),
     XY 0 (-4350), Y (-3637), XY (-778) (-3621), XY (-1545) (-3482), XY (-2279) (-3224),
     XY (-2660) (-3053), XY (-2963) (-2762), XY (-3150) (-2388), XY (-3587) (-976), XY (-3651) 504,
     XY (-3339) 1949, XY (-3158) 2405, XY (-3008) 2729, XY (-2752) 2983, XY (-2427) 3130,
     XY (-2087) 3262, XY (-947) 3593, XY 240 3665, XY 1418 3504, XY 2530 3088, XY 2794 2960,
     XY 3002 2749, XY 3125 2482, XY 3520 1377, XY 3668 212, XY 3590 (-961), XY 3262 (-2087),
     XY 3130 (-2427), XY 2988 (-2746), XY 2742 (-2999), XY 2428 (-3151), XY 2087 (-3296),
     XY 1412 (-3514), XY 710 (-3629), XY 0 (-3637), XY (-2) (-8700), Z 480, Z 10000]"

text \<open>Lines 6513 to 6594.\<close>

definition full_layer_081 :: "pline list" where
  "full_layer_081 = [
     X 0, Z 460, Z (-2540), Y (-5850), XY (-1586) (-5662), XY (-3055) (-5024), XY (-4297) (-4013),
     XY (-5221) (-2705), XY (-5757) (-1196), XY (-5866) 401, XY (-5540) 1969, XY (-4804) 3391,
     XY (-3711) 4561, XY (-2343) 5393, XY (-801) 5825, X 801, XY 2343 5393, XY 3711 4561, XY 4804 3391,
     XY 5540 1969, XY 5866 401, XY 5757 (-1196), XY 5221 (-2705), XY 4297 (-4013), XY 3055 (-5024),
     XY 1586 (-5662), XY 0 (-5850), Y (-4350), XY (-1353) (-4166), XY (-2575) (-3543),
     XY (-3543) (-2575), XY (-4166) (-1353), XY (-4380) 0, XY (-4166) 1353, XY (-3543) 2575,
     XY (-2575) 3543, XY (-1353) 4166, XY 0 4380, XY 1353 4166, XY 2575 3543, XY 3543 2575,
     XY 4166 1353, XY 4380 0, XY 4166 (-1353), XY 3543 (-2575), XY 2575 (-3543), XY 1353 (-4166),
     XY 0 (-4350), Y (-3640), XY (-777) (-3624), XY (-1543) (-3487), XY (-2277) (-3233),
     XY (-2663) (-3061), XY (-2970) (-2766), XY (-3158) (-2388), XY (-3591) (-969), XY (-3653) 516,
     XY (-3339) 1966, XY (-3165) 2407, XY (-3015) 2734, XY (-2756) 2990, XY (-2428) 3138,
     XY (-2087) 3268, XY (-603) 3641, XY 930 3603, XY 2393 3157, XY 2769 2967, XY 3062 2661,
     XY 3235 2278, XY 3577 1132, XY 3670 (-62), XY 3538 (-1253), XY 3158 (-2386), XY 2969 (-2768),
     XY 2659 (-3065), XY 2270 (-3238), XY 1538 (-3490), XY 774 (-3625), XY 0 (-3640), XY (-2) (-8700),
     Z 460, Z 10000]"

text \<open>Lines 6595 to 6710.\<close>

definition full_layer_082 :: "pline list" where
  "full_layer_082 = [
     X (-75), Z 440, Z (-2560), XY (-51) (-5850), XY (-1655) (-5642), XY (-3134) (-4975),
     XY (-4374) (-3930), XY (-5281) (-2585), XY (-5787) (-1044), XY (-5852) 577, XY (-5471) 2153,
     XY (-4675) 3566, XY (-3523) 4708, XY (-2103) 5491, XY (-522) 5857, XY 1098 5777, XY 2634 5257,
     XY 3950 4315, XY 2937 3209, XY 2807 3332, XY 2636 3386, XY 1471 3808, XY 239 3970, XY (-1001) 3894,
     XY (-2194) 3555, XY (-2535) 3426, XY (-2788) 3338, XY (-2989) 3160, XY (-1936) 3929,
     XY (-689) 4325, XY 619 4336, XY 1872 3960, XY 2937 3209, XY 3950 4315, XY 4976 3133, XY 5627 1705,
     XY 5878 156, XY 5710 (-1404), XY 5135 (-2864), XY 4195 (-4120), XY 2956 (-5083), XY 1506 (-5684),
     XY (-51) (-5850), XY (-38) (-4350), XY (-1280) (-4189), XY (-2417) (-3653), XY (-3354) (-2817),
     XY (-4016) (-1748), XY (-4347) (-536), XY (-4320) 720, XY (-3938) 1917, XY (-3210) 2936,
     XY (-3373) 2752, XY (-3452) 2518, XY (-3619) 2093, XY (-3953) 563, XY (-3893) (-1004),
     XY (-3443) (-2503), XY (-3211) (-2957), XY (-2841) (-3312), XY (-2378) (-3524), XY (-813) (-3925),
     XY 806 (-3926), XY 2371 (-3528), XY 2836 (-3317), XY 3208 (-2962), XY 3441 (-2507),
     XY 3848 (-1269), XY 3974 31, XY 3845 1330, XY 3436 2567, XY 3383 2743, XY 3260 2880, XY 3017 2704,
     XY 3121 2597, XY 3159 2452, XY 3551 1271, XY 3674 30, XY 3553 (-1210), XY 3164 (-2392),
     XY 2973 (-2775), XY 2661 (-3073), XY 2269 (-3246), XY 771 (-3628), XY (-778) (-3627),
     XY (-2275) (-3242), XY (-2666) (-3069), XY (-2976) (-2771), XY (-3165) (-2389), XY (-3596) (-963),
     XY (-3656) 528, XY (-3339) 1983, XY (-3173) 2409, XY (-3021) 2739, XY (-2760) 2997,
     XY (-2429) 3145, XY (-2087) 3275, XY (-951) 3598, XY 230 3670, XY 1404 3515, XY 2514 3112,
     XY 2722 3031, XY 2895 2890, XY 3017 2704, XY 3260 2880, XY 3971 1849, XY 4332 645, XY 4337 (-611),
     XY 3985 (-1817), XY 3305 (-2874), XY 2353 (-3694), XY 1207 (-4210), XY (-38) (-4350),
     XY (-75) (-8700), Z 440, Z 10000]"

text \<open>Lines 6711 to 6832.\<close>

definition full_layer_083 :: "pline list" where
  "full_layer_083 = [
     XY (-8697) (-223), Z 420, Z (-2580), XY (-5848) (-150), XY (-5722) 1353, XY (-5188) 2768,
     XY (-4310) 4000, XY (-3147) 4967, XY (-1776) 5605, XY (-287) 5873, XY 1220 5752, XY 2647 5250,
     XY 3879 4379, XY 2885 3256, XY 2634 3395, XY 1468 3812, XY 238 3973, XY (-1001) 3898,
     XY (-2193) 3562, XY (-2535) 3434, XY (-2747) 3370, XY (-2917) 3227, XY (-1877) 3957,
     XY (-659) 4330, XY 615 4337, XY 1838 3976, XY 2885 3256, XY 3879 4379, XY 4928 3208, XY 5603 1784,
     XY 5875 232, XY 5726 (-1337), XY 5165 (-2810), XY 4212 (-4060), XY 3132 (-3019), XY 3337 (-2791),
     XY 3450 (-2506), XY 3851 (-1268), XY 3977 30, XY 3849 1328, XY 3444 2565, XY 3306 2827,
     XY 4012 1756, XY 4350 514, XY 4311 (-772), XY 3901 (-1992), XY 3132 (-3019), XY 4212 (-4060),
     XY 3055 (-5024), XY 1677 (-5636), XY 187 (-5877), XY (-1314) (-5731), XY (-2730) (-5208),
     XY (-3945) (-4320), XY (-2933) (-3212), XY (-2683) (-3423), XY (-2374) (-3533), XY (-811) (-3928),
     XY 805 (-3929), XY 2369 (-3537), XY 2672 (-3431), XY 2918 (-3226), XY 1867 (-3962), XY 634 (-4334),
     XY (-654) (-4331), XY (-1885) (-3954), XY (-2933) (-3212), XY (-3945) (-4320), XY (-4753) (-3462),
     XY (-5349) (-2442), XY (-5729) (-1323), XY (-5848) (-150), XY (-4349) (-112), XY (-4272) 966,
     XY (-3904) 1986, XY (-3274) 2864, XY (-3405) 2710, XY (-3460) 2517, XY (-3853) 1290, XY (-3975) 5,
     XY (-3848) (-1280), XY (-3450) (-2505), XY (-3334) (-2796), XY (-3123) (-3028), XY (-2899) (-2828),
     XY (-3080) (-2637), XY (-3172) (-2391), XY (-3606) (-928), XY (-3651) 601, XY (-3305) 2087,
     XY (-3181) 2409, XY (-3028) 2743, XY (-2765) 3004, XY (-2430) 3153, XY (-2087) 3281,
     XY (-951) 3602, XY 230 3673, XY 1402 3520, XY 2513 3121, XY 2805 2980, XY 3033 2746, XY 3167 2451,
     XY 3555 1270, XY 3677 30, XY 3557 (-1210), XY 3172 (-2392), XY 2980 (-2780), XY 2665 (-3080),
     XY 2269 (-3254), XY 771 (-3631), XY (-777) (-3630), XY (-2273) (-3250), XY (-2519) (-3171),
     XY (-2734) (-3027), XY (-2899) (-2828), XY (-3123) (-3028), XY (-3797) (-2183), XY (-4217) (-1184),
     XY (-4349) (-112), XY (-8697) (-223), Z 420, Z 10000]"

text \<open>Lines 6833 to 6951.\<close>

definition full_layer_084 :: "pline list" where
  "full_layer_084 = [
     XY (-8698) (-190), Z 400, Z (-2600), XY (-5849) (-128), XY (-5716) 1381, XY (-5171) 2798,
     XY (-4283) 4029, XY (-3108) 4991, XY (-1727) 5621, XY (-230) 5875, XY 1282 5739, XY 2708 5219,
     XY 3934 4329, XY 2925 3219, XY 2743 3376, XY 2515 3453, XY 1259 3858, XY (-59) 3978,
     XY (-1374) 3835, XY (-2623) 3408, XY (-2842) 3293, XY (-1795) 3996, XY (-577) 4342, XY 688 4326,
     XY 1896 3948, XY 2925 3219, XY 3934 4329, XY 4947 3178, XY 5602 1787, XY 5874 273, XY 5744 (-1259),
     XY 5221 (-2705), XY 4319 (-3946), XY 3212 (-2934), XY 3377 (-2739), XY 3460 (-2498),
     XY 3845 (-1307), XY 3978 (-60), XY 3883 1191, XY 3535 2393, XY 3462 2631, XY 3308 2825,
     XY 4004 1776, XY 4344 559, XY 4323 (-704), XY 3942 (-1908), XY 3212 (-2934), XY 4319 (-3946),
     XY 3192 (-4938), XY 1834 (-5587), XY 356 (-5869), XY (-1146) (-5767), XY (-2573) (-5287),
     XY (-3811) (-4438), XY (-2834) (-3300), XY (-2628) (-3463), XY (-2377) (-3539), XY (-812) (-3931),
     XY 804 (-3933), XY 2370 (-3544), XY 2622 (-3467), XY 2830 (-3304), XY 1805 (-3991), XY 616 (-4336),
     X (-622), XY (-1810) (-3989), XY (-2834) (-3300), XY (-3811) (-4438), XY (-4676) (-3565),
     XY (-5316) (-2513), XY (-5723) (-1350), XY (-5849) (-128), XY (-4349) (-95), XY (-4277) 945,
     XY (-3931) 1931, XY (-3339) 2788, XY (-3452) 2564, XY (-3853) 1326, XY (-3980) 28,
     XY (-3856) (-1270), XY (-3456) (-2508), XY (-3375) (-2743), XY (-3214) (-2931), XY (-2976) (-2749),
     XY (-3115) (-2594), XY (-3178) (-2395), XY (-3561) (-1212), XY (-3680) 28, XY (-3559) 1268,
     XY (-3174) 2451, XY (-3037) 2752, XY (-2804) 2990, XY (-2505) 3133, XY (-1312) 3542, XY (-56) 3678,
     XY 1202 3564, XY 2402 3176, XY 2783 2988, XY 3080 2679, XY 3253 2291, XY 3641 745, XY 3617 (-853),
     XY 3181 (-2386), XY 2989 (-2780), XY 2671 (-3085), XY 2270 (-3261), XY 771 (-3635),
     XY (-778) (-3633), XY (-2277) (-3257), XY (-2556) (-3159), XY (-2797) (-2985), XY (-2976) (-2749),
     XY (-3214) (-2931), XY (-3843) (-2101), XY (-4232) (-1130), XY (-4349) (-95), XY (-8698) (-190),
     Z 400, Z 10000]"

text \<open>Lines 6952 to 7070.\<close>

definition full_layer_085 :: "pline list" where
  "full_layer_085 = [
     XY (-8699) (-159), Z 380, Z (-2620), XY (-5849) (-107), XY (-5716) 1378, XY (-5184) 2774,
     XY (-4318) 3992, XY (-3172) 4951, XY (-1822) 5591, XY (-354) 5869, XY 1137 5769, XY 2555 5296,
     XY 3788 4458, XY 2817 3315, XY 2548 3445, XY 2192 3578, XY 1002 3905, XY (-231) 3978,
     XY (-1458) 3823, XY (-2623) 3417, XY (-2805) 3324, XY (-1786) 4000, XY (-606) 4338, XY 621 4336,
     XY 1799 3994, XY 2817 3315, XY 3788 4458, XY 4847 3329, XY 5549 1945, XY 5865 425, XY 5772 (-1124),
     XY 5276 (-2595), XY 4391 (-3865), XY 3265 (-2874), XY 3404 (-2706), XY 3468 (-2497),
     XY 3908 (-960), XY 3955 640, XY 3608 2199, XY 3466 2551, XY 3366 2755, XY 4027 1723, XY 4347 536,
     XY 4325 (-692), XY 3962 (-1867), XY 3265 (-2874), XY 4391 (-3865), XY 3283 (-4878),
     XY 1937 (-5552), XY 464 (-5862), XY (-1039) (-5787), XY (-2475) (-5334), XY (-3729) (-4508),
     XY (-2773) (-3352), XY (-2592) (-3489), XY (-2373) (-3549), XY (-810) (-3935), XY 804 (-3936),
     XY 2368 (-3552), XY 2588 (-3493), XY 2769 (-3355), XY 1761 (-4010), XY 600 (-4339),
     XY (-605) (-4338), XY (-1765) (-4008), XY (-2773) (-3352), XY (-3729) (-4508), XY (-4629) (-3625),
     XY (-5297) (-2552), XY (-5720) (-1361), XY (-5849) (-107), XY (-4349) (-79), XY (-4278) 939,
     XY (-3943) 1907, XY (-3369) 2751, XY (-3462) 2559, XY (-3858) 1322, XY (-3983) 27,
     XY (-3859) (-1269), XY (-3465) (-2506), XY (-3403) (-2709), XY (-3267) (-2872), XY (-3021) (-2700),
     XY (-3139) (-2567), XY (-3186) (-2395), XY (-3565) (-1212), XY (-3683) 27, XY (-3564) 1265,
     XY (-3184) 2447, XY (-3045) 2754, XY (-2808) 2996, XY (-2505) 3141, XY (-1007) 3603, XY 562 3657,
     XY 2087 3297, XY 2443 3164, XY 2774 3019, XY 3035 2765, XY 3188 2439, XY 3330 2087, XY 3658 601,
     XY 3610 (-924), XY 3189 (-2387), XY 2996 (-2784), XY 2675 (-3092), XY 2270 (-3268), XY 771 (-3638),
     XY (-776) (-3637), XY (-2275) (-3265), XY (-2577) (-3156), XY (-2834) (-2961), XY (-3021) (-2700),
     XY (-3267) (-2872), XY (-3871) (-2049), XY (-4241) (-1095), XY (-4349) (-79), XY (-8699) (-159),
     Z 380, Z 10000]"

text \<open>Lines 7071 to 7189.\<close>

definition full_layer_086 :: "pline list" where
  "full_layer_086 = [
     Y (-142), Z 360, Z (-2640), XY (-5849) (-96), XY (-5716) 1381, XY (-5187) 2770, XY (-4327) 3982,
     XY (-3190) 4939, XY (-1850) 5581, XY (-392) 5867, XY 1091 5778, XY 2505 5320, XY 3740 4499,
     XY 2781 3345, XY 2548 3453, XY 2191 3585, XY 1002 3909, XY (-231) 3981, XY (-1456) 3828,
     XY (-2621) 3426, XY (-2771) 3353, XY (-1761) 4010, XY (-598) 4339, XY 611 4337, XY 1773 4005,
     XY 2781 3345, XY 3740 4499, XY 4809 3384, XY 5525 2011, XY 5859 499, XY 5786 (-1048),
     XY 5312 (-2522), XY 4446 (-3802), XY 3306 (-2827), XY 3427 (-2678), XY 3477 (-2493),
     XY 3911 (-961), XY 3959 634, XY 3618 2189, XY 3475 2549, XY 3395 2719, XY 4036 1701, XY 4347 534,
     XY 4328 (-673), XY 3980 (-1829), XY 3306 (-2827), XY 4446 (-3802), XY 3353 (-4830),
     XY 2018 (-5523), XY 550 (-5854), XY (-954) (-5802), XY (-2395) (-5370), XY (-3660) (-4563),
     XY (-2722) (-3393), XY (-2559) (-3514), XY (-2362) (-3561), XY (-804) (-3939), X 803,
     XY 2362 (-3562), XY 2558 (-3515), XY 2719 (-3396), XY 1726 (-4026), XY 588 (-4340), X (-592),
     XY (-1729) (-4024), XY (-2722) (-3393), XY (-3660) (-4563), XY (-4590) (-3675), XY (-5280) (-2587),
     XY (-5717) (-1375), XY (-5849) (-96), XY (-4349) (-71), XY (-4280) 930, XY (-3955) 1882,
     XY (-3397) 2717, XY (-3471) 2557, XY (-3862) 1322, XY (-3985) 29, XY (-3864) (-1265),
     XY (-3475) (-2501), XY (-3425) (-2682), XY (-3307) (-2826), XY (-3055) (-2663), XY (-3159) (-2544),
     XY (-3196) (-2391), XY (-3569) (-1209), XY (-3685) 28, XY (-3568) 1265, XY (-3192) 2447,
     XY (-3052) 2758, XY (-2812) 3003, XY (-2504) 3150, XY (-1006) 3607, XY 562 3659, XY 2087 3303,
     XY 2444 3172, XY 2778 3026, XY 3042 2769, XY 3196 2438, XY 3339 2078, XY 3661 595, XY 3613 (-925),
     XY 3197 (-2385), XY 3003 (-2788), XY 2677 (-3100), XY 2266 (-3278), XY 771 (-3641),
     XY (-771) (-3640), XY (-2266) (-3277), XY (-2588) (-3159), XY (-2861) (-2946), XY (-3055) (-2663),
     XY (-3307) (-2826), XY (-3891) (-2011), XY (-4247) (-1069), XY (-4349) (-71), XY (-8699) (-142),
     Z 360, Z 10000]"

text \<open>Lines 7190 to 7305.\<close>

definition full_layer_087 :: "pline list" where
  "full_layer_087 = [
     XY (-5153) 7010, Z 340, Z (-2660), XY (-3465) 4713, XY (-2126) 5482, XY (-623) 5847, XY 924 5807,
     XY 2407 5365, XY 3723 4552, XY 4781 3423, XY 5508 2057, XY 5854 549, XY 5795 (-997),
     XY 5334 (-2474), XY 4482 (-3760), XY 3332 (-2796), XY 3447 (-2649), XY 3490 (-2468),
     XY 3870 (-1238), XY 3987 45, XY 3865 1328, XY 3480 2556, XY 3425 2682, XY 4048 1673, XY 4349 522,
     XY 4329 (-668), XY 3989 (-1808), XY 3332 (-2796), XY 4482 (-3760), XY 3404 (-4794),
     XY 2084 (-5498), XY 628 (-5846), XY (-868) (-5816), XY (-2308) (-5408), XY (-3580) (-4627),
     XY (-2662) (-3440), XY (-2394) (-3557), XY (-825) (-3938), XY 792 (-3942), XY 2363 (-3569),
     XY 2535 (-3534), XY 2677 (-3429), XY 1700 (-4037), XY 586 (-4341), XY (-568) (-4343),
     XY (-1683) (-4044), XY (-2662) (-3440), XY (-3580) (-4627), XY (-4689) (-3547), XY (-5454) (-2198),
     XY (-5839) (-695), XY (-5817) 856, XY (-5391) 2347, XY (-4566) 3657, XY (-3395) 2719,
     XY (-3501) 2583, XY (-3539) 2415, XY (-3889) 1200, XY (-3986) (-63), XY (-3855) (-1323),
     XY (-3472) (-2528), XY (-3356) (-2768), XY (-4005) (-1773), XY (-4335) (-627), XY (-4343) 564,
     XY (-4030) 1715, XY (-3395) 2719, XY (-4566) 3657, XY (-4252) 4061, XY (-3882) 4416,
     XY (-3465) 4713, XY (-2576) 3505, XY (-1587) 4082, XY (-471) 4355, XY 677 4327, XY 1779 4002,
     XY 2740 3379, XY 2619 3435, XY 1373 3848, XY 66 3986, XY (-1244) 3873, XY (-2497) 3484,
     XY (-2788) 3339, XY (-2631) 3084, XY (-2388) 3205, XY (-1190) 3578, XY 63 3686, XY 1313 3554,
     XY 2504 3158, XY 2816 3011, XY 3060 2762, XY 3201 2447, XY 3622 962, XY 3659 (-584),
     XY 3309 (-2087), XY 3208 (-2365), XY 3017 (-2781), XY 2687 (-3103), XY 2267 (-3284),
     XY 760 (-3644), XY (-792) (-3640), XY (-2297) (-3273), XY (-2692) (-3104), XY (-3005) (-2805),
     XY (-3192) (-2418), XY (-3627) (-866), XY (-3649) 750, XY (-3256) 2313, XY (-3133) 2631,
     XY (-2916) 2897, XY (-2631) 3084, XY (-2788) 3339, XY (-2576) 3505, XY (-5153) 7010, Z 340, Z 10000]"

text \<open>Lines 7306 to 7419.\<close>

definition full_layer_088 :: "pline list" where
  "full_layer_088 = [
     XY 8699 (-143), Z 320, Z (-2680), XY 5849 (-96), XY 5632 (-1691), XY 4960 (-3158), XY 3914 (-4388),
     XY 2574 (-5287), XY 1040 (-5787), XY (-573) (-5852), XY (-2142) (-5476), XY (-3532) (-4664),
     XY (-2626) (-3468), XY (-2398) (-3563), XY (-834) (-3941), XY 778 (-3947), XY 2345 (-3582),
     XY 2512 (-3550), XY 2650 (-3450), XY 1683 (-4044), XY 584 (-4341), XY (-554) (-4345),
     XY (-1655) (-4055), XY (-2626) (-3468), XY (-3532) (-4664), XY (-4647) (-3602), XY (-5424) (-2269),
     XY (-5828) (-780), XY (-5830) 763, XY (-5431) 2254, XY (-4634) 3571, XY (-3446) 2655,
     XY (-3488) 2555, XY (-3872) 1310, XY (-3990) 10, XY (-3867) (-1290), XY (-3478) (-2533),
     XY (-3386) (-2731), XY (-4014) (-1753), XY (-4334) (-632), XY (-4347) 535, XY (-4052) 1663,
     XY (-3446) 2655, XY (-4634) 3571, XY (-3556) 4683, XY (-2208) 5450, XY (-705) 5838, XY 846 5819,
     XY 2339 5395, XY 3650 4572, XY 2714 3400, XY 2600 3451, XY 1326 3860, XY (-8) 3988,
     XY (-1342) 3858, XY (-2614) 3446, XY (-2710) 3403, XY (-1719) 4029, XY (-585) 4341, XY 590 4340,
     XY 1724 4027, XY 2714 3400, XY 3650 4572, XY 4614 3645, XY 5319 2506, XY 5748 1237, XY 5849 (-96),
     XY 4349 (-71), XY 4254 (-1045), XY 3914 (-1966), XY 3355 (-2768), XY 3464 (-2627), XY 3503 (-2453),
     XY 3875 (-1231), XY 3990 43, XY 3871 1318, XY 3495 2539, XY 3445 2657, XY 3174 2527, XY 3215 2431,
     XY 3627 950, XY 3661 (-589), XY 3316 (-2087), XY 3221 (-2352), XY 3023 (-2779), XY 2684 (-3111),
     XY 2251 (-3297), XY 747 (-3649), XY (-801) (-3643), XY (-2302) (-3279), XY (-2698) (-3111),
     XY (-3011) (-2811), XY (-3198) (-2424), XY (-3572) (-1234), XY (-3690) 11, XY (-3577) 1255,
     XY (-3208) 2447, XY (-3066) 2767, XY (-2818) 3019, XY (-2501) 3168, XY (-1284) 3563, XY (-8) 3688,
     XY 1269 3566, XY 2487 3173, XY 2785 3041, XY 3024 2816, XY 3174 2527, XY 3445 2657, XY 3977 1836,
     XY 4286 905, XY 4349 (-71), XY 8699 (-143), Z 320, Z 10000]"

text \<open>Lines 7420 to 7530.\<close>

definition full_layer_089 :: "pline list" where
  "full_layer_089 = [
     Y (-125), Z 300, Z (-2700), XY 5849 (-84), XY 5636 (-1675), XY 4972 (-3139), XY 3935 (-4369),
     XY 2604 (-5272), XY 1078 (-5780), XY (-528) (-5856), XY (-2095) (-5494), XY (-3488) (-4697),
     XY (-2593) (-3492), XY (-2402) (-3569), XY (-833) (-3944), XY 783 (-3950), XY 2354 (-3586),
     XY 2610 (-3480), XY 1653 (-4056), XY 570 (-4343), XY (-550) (-4345), XY (-1634) (-4064),
     XY (-2593) (-3492), XY (-3488) (-4697), XY (-4614) (-3645), XY (-5404) (-2318), XY (-5821) (-831),
     XY (-5837) 713, XY (-5450) 2208, XY (-4663) 3533, XY (-3467) 2627, XY (-3865) 1366, XY (-3992) 47,
     XY (-3873) (-1272), XY (-3484) (-2536), XY (-3412) (-2698), XY (-4025) (-1728), XY (-4336) (-620),
     XY (-4348) 530, XY (-4060) 1644, XY (-3467) 2627, XY (-4663) 3533, XY (-3595) 4653,
     XY (-2253) 5431, XY (-753) 5832, XY 798 5826, XY 2294 5414, XY 3612 4602, XY 2686 3422,
     XY 2597 3460, XY 1322 3865, XY (-12) 3991, XY (-1346) 3861, XY (-2619) 3452, XY (-2682) 3425,
     XY (-1699) 4037, XY (-578) 4342, XY 583 4341, XY 1704 4035, XY 2686 3422, XY 3612 4602,
     XY 4589 3676, XY 5306 2534, XY 5744 1258, XY 5849 (-84), XY 4350 (-63), XY 4259 (-1022),
     XY 3931 (-1931), XY 3389 (-2727), XY 3509 (-2459), XY 3878 (-1236), XY 3992 39, XY 3876 1314,
     XY 3504 2537, XY 3466 2629, XY 3193 2505, XY 3223 2431, XY 3630 949, XY 3664 (-589),
     XY 3323 (-2087), XY 3226 (-2359), XY 3030 (-2786), XY 2692 (-3116), XY 2260 (-3301),
     XY 752 (-3652), XY (-800) (-3646), XY (-2306) (-3285), XY (-2704) (-3117), XY (-3018) (-2817),
     XY (-3205) (-2428), XY (-3576) (-1234), XY (-3693) 12, XY (-3580) 1259, XY (-3214) 2454,
     XY (-3072) 2774, XY (-2825) 3026, XY (-2507) 3174, XY (-1288) 3566, XY (-11) 3691, XY 1266 3570,
     XY 2486 3182, XY 2795 3044, XY 3041 2808, XY 3193 2505, XY 3466 2629, XY 3985 1817, XY 4287 899,
     XY 4350 (-63), XY 8699 (-125), Z 300, Z 10000]"

text \<open>Lines 7531 to 7639.\<close>

definition full_layer_090 :: "pline list" where
  "full_layer_090 = [
     XY 8700 (-84), Z 280, Z (-2720), XY 5850 (-57), XY 5645 (-1645), XY 4990 (-3111), XY 3962 (-4345),
     XY 2639 (-5255), XY 1119 (-5773), XY (-484) (-5860), XY (-2051) (-5511), XY (-3448) (-4726),
     XY (-2564) (-3514), XY (-2404) (-3576), XY (-817) (-3949), X 816, XY 2403 (-3577), XY 2561 (-3516),
     XY 1615 (-4071), XY 549 (-4345), X (-552), XY (-1618) (-4070), XY (-2564) (-3514),
     XY (-3448) (-4726), XY (-4585) (-3682), XY (-5386) (-2358), XY (-5815) (-871), XY (-5841) 676,
     XY (-5462) 2176, XY (-4681) 3508, XY (-3481) 2609, XY (-3561) 2416, XY (-3902) 1197,
     XY (-3995) (-66), XY (-3867) (-1327), XY (-3493) (-2535), XY (-3435) (-2668), XY (-4035) (-1704),
     XY (-4338) (-607), XY (-4348) 532, XY (-4064) 1634, XY (-3481) 2609, XY (-4681) 3508,
     XY (-3622) 4632, XY (-2287) 5417, XY (-793) 5826, XY 756 5831, XY 2252 5432, XY 3574 4632,
     XY 2657 3444, XY 1403 3853, XY 88 3992, XY (-1230) 3886, XY (-2495) 3509, XY (-2680) 3427,
     XY (-1704) 4035, XY (-591) 4340, XY 563 4344, XY 1677 4046, XY 2657 3444, XY 3574 4632,
     XY 4562 3710, XY 5290 2568, XY 5737 1290, XY 5850 (-57), XY 4350 (-42), XY 4268 (-984),
     XY 3957 (-1879), XY 3436 (-2668), XY 3493 (-2536), XY 3875 (-1278), XY 3994 33, XY 3872 1344,
     XY 3487 2601, XY 3210 2486, XY 3226 2445, XY 3585 1251, XY 3694 7, XY 3578 (-1237),
     XY 3212 (-2429), XY 3026 (-2821), XY 2709 (-3124), XY 2309 (-3292), XY 784 (-3651), X (-785),
     XY (-2310) (-3291), XY (-2710) (-3122), XY (-3026) (-2820), XY (-3212) (-2428), XY (-3636) (-870),
     XY (-3659) 747, XY (-3278) 2317, XY (-3100) 2721, XY (-2789) 3040, XY (-2389) 3228,
     XY (-1189) 3588, XY 61 3693, XY 1310 3566, XY 2502 3184, XY 2816 3041, XY 3063 2798, XY 3210 2486,
     XY 3487 2601, XY 3992 1802, XY 4286 901, XY 4350 (-42), XY 8700 (-84), Z 280, Z 10000]"

text \<open>Lines 7640 to 7748.\<close>

definition full_layer_091 :: "pline list" where
  "full_layer_091 = [
     Y (-78), Z 260, Z (-2740), XY 5850 (-53), XY 5648 (-1636), XY 4997 (-3099), XY 3977 (-4331),
     XY 2662 (-5243), XY 1149 (-5767), XY (-448) (-5863), XY (-2012) (-5525), XY (-3410) (-4753),
     XY (-2536) (-3535), XY (-2412) (-3580), XY (-820) (-3952), X 818, XY 2410 (-3582), XY 2534 (-3536),
     XY 1596 (-4079), XY 542 (-4346), X (-545), XY (-1598) (-4078), XY (-2536) (-3535),
     XY (-3410) (-4753), XY (-4554) (-3720), XY (-5366) (-2405), XY (-5807) (-923), XY (-5847) 622,
     XY (-5483) 2124, XY (-4716) 3461, XY (-3507) 2574, XY (-3567) 2421, XY (-3905) 1200,
     XY (-3998) (-66), XY (-3870) (-1329), XY (-3498) (-2541), XY (-3458) (-2639), XY (-4043) (-1685),
     XY (-4338) (-602), XY (-4349) 520, XY (-4074) 1609, XY (-3507) 2574, XY (-4716) 3461,
     XY (-3665) 4598, XY (-2335) 5396, XY (-842) 5819, XY 709 5837, XY 2211 5449, XY 3541 4657,
     XY 2633 3463, XY 1381 3861, XY 71 3995, XY (-1242) 3887, XY (-2502) 3514, XY (-2647) 3452,
     XY (-1679) 4046, XY (-578) 4342, XY 561 4344, XY 1662 4052, XY 2633 3463, XY 3541 4657,
     XY 4541 3735, XY 5280 2588, XY 5734 1303, XY 5850 (-53), XY 4350 (-39), XY 4271 (-970),
     XY 3967 (-1856), XY 3458 (-2639), XY 3499 (-2541), XY 3877 (-1288), XY 3996 17, XY 3881 1323,
     XY 3505 2576, XY 3226 2467, XY 3235 2443, XY 3589 1248, XY 3697 3, XY 3581 (-1242),
     XY 3218 (-2435), XY 3033 (-2827), XY 2717 (-3129), XY 2317 (-3296), XY 786 (-3654), X (-788),
     XY (-2319) (-3295), XY (-2718) (-3128), XY (-3033) (-2826), XY (-3218) (-2435), XY (-3639) (-872),
     XY (-3662) 749, XY (-3284) 2323, XY (-3107) 2728, XY (-2797) 3046, XY (-2397) 3233,
     XY (-1196) 3591, XY 56 3695, XY 1305 3571, XY 2500 3193, XY 2824 3045, XY 3078 2791, XY 3226 2467,
     XY 3505 2576, XY 4000 1784, XY 4288 893, XY 4350 (-39), XY 8700 (-78), Z 260, Z 10000]"

text \<open>Lines 7749 to 7857.\<close>

definition full_layer_092 :: "pline list" where
  "full_layer_092 = [
     Y (-92), Z 240, Z (-2760), XY 5850 (-62), XY 5647 (-1639), XY 4999 (-3096), XY 3984 (-4325),
     XY 2676 (-5236), XY 1171 (-5762), XY (-420) (-5865), XY (-1979) (-5537), XY (-3377) (-4777),
     XY (-2511) (-3552), XY (-2417) (-3586), XY (-907) (-3945), XY 647 (-3970), XY 2168 (-3659),
     XY 2300 (-3624), XY 2509 (-3553), XY 1579 (-4085), XY 537 (-4347), X (-538), XY (-1581) (-4085),
     XY (-2511) (-3552), XY (-3377) (-4777), XY (-4527) (-3753), XY (-5347) (-2445), XY (-5800) (-969),
     XY (-5852) 573, XY (-5501) 2077, XY (-4747) 3419, XY (-3530) 2543, XY (-3574) 2427, XY (-3963) 783,
     XY (-3940) (-910), XY (-3506) (-2543), XY (-3478) (-2613), XY (-4050) (-1668), XY (-4339) (-598),
     XY (-4350) 511, XY (-4083) 1586, XY (-3530) 2543, XY (-4747) 3419, XY (-3704) 4566,
     XY (-2379) 5377, XY (-888) 5813, XY 665 5842, XY 2172 5464, XY 3509 4681, XY 2609 3480,
     XY 1359 3870, XY 54 3998, XY (-1253) 3889, XY (-2509) 3519, XY (-2617) 3475, XY (-1656) 4055,
     XY (-568) 4343, XY 558 4344, XY 1647 4058, XY 2609 3480, XY 3509 4681, XY 4524 3756, XY 5273 2602,
     XY 5733 1306, XY 5850 (-62), XY 4350 (-46), XY 4271 (-969), XY 3971 (-1849), XY 3467 (-2627),
     XY 3525 (-2480), XY 3887 (-1246), XY 3999 37, XY 3886 1320, XY 3522 2553, XY 3241 2449,
     XY 3639 956, XY 3672 (-591), XY 3339 (-2099), XY 3242 (-2382), XY 3037 (-2825), XY 2677 (-3160),
     XY 2222 (-3334), XY 2087 (-3370), XY 624 (-3671), XY (-872) (-3647), XY (-2325) (-3300),
     XY (-2725) (-3133), XY (-3040) (-2831), XY (-3224) (-2438), XY (-3643) (-872), XY (-3665) 753,
     XY (-3290) 2330, XY (-3114) 2734, XY (-2804) 3052, XY (-2405) 3238, XY (-1200) 3594, XY 53 3698,
     XY 1305 3574, XY 2504 3200, XY 2836 3047, XY 3094 2784, XY 3241 2449, XY 3522 2553, XY 4009 1764,
     XY 4291 879, XY 4350 (-46), XY 8700 (-92), Z 240, Z 10000]"

text \<open>Lines 7858 to 7962.\<close>

definition full_layer_093 :: "pline list" where
  "full_layer_093 = [
     Y (-77), Z 220, Z (-2780), XY 5850 (-52), XY 5649 (-1630), XY 5004 (-3089), XY 3989 (-4320),
     XY 2682 (-5233), XY 1177 (-5761), XY (-414) (-5865), XY (-1975) (-5538), XY (-3374) (-4779),
     XY (-2509) (-3554), XY (-2393) (-3595), XY (-814) (-3958), XY 810 (-3959), XY 2389 (-3598),
     XY 2505 (-3556), XY 1322 (-4176), XY (-2) (-4380), XY (-1326) (-4174), XY (-2509) (-3554),
     XY (-3374) (-4779), XY (-4523) (-3758), XY (-5344) (-2453), XY (-5798) (-981), XY (-5853) 559,
     XY (-5507) 2061, XY (-4758) 3404, XY (-3538) 2531, XY (-3895) 1297, XY (-4004) 14,
     XY (-3890) (-1268), XY (-3529) (-2501), XY (-3493) (-2593), XY (-4057) (-1652), XY (-4340) (-588),
     XY (-4350) 512, XY (-4085) 1580, XY (-3538) 2531, XY (-4758) 3404, XY (-3722) 4552,
     XY (-2403) 5367, XY (-917) 5808, XY 633 5846, XY 2139 5477, XY 3479 4703, XY 2587 3497,
     XY 1320 3881, XY 1 4001, XY (-1319) 3881, XY (-2586) 3498, XY (-1632) 4064, XY (-556) 4345,
     XY 557 4344, XY 1633 4064, XY 2587 3497, XY 3479 4703, XY 4504 3780, XY 5262 2624, XY 5729 1322,
     XY 5850 (-52), XY 4350 (-39), XY 4276 (-951), XY 3984 (-1821), XY 3493 (-2593), XY 3531 (-2497),
     XY 3889 (-1265), XY 4001 16, XY 3893 1297, XY 3538 2531, XY 3256 2429, XY 3257 2425, XY 3656 835,
     XY 3653 (-807), XY 3248 (-2395), XY 3055 (-2812), XY 2722 (-3134), XY 2298 (-3312), XY 779 (-3661),
     XY (-783) (-3660), XY (-2301) (-3310), XY (-2723) (-3133), XY (-3054) (-2813), XY (-3247) (-2399),
     XY (-3656) (-797), XY (-3655) 859, XY (-3245) 2460, XY (-3100) 2793, XY (-2843) 3054,
     XY (-2512) 3205, XY (-1291) 3581, XY (-16) 3701, XY 1259 3587, XY 2482 3216, XY 2831 3057,
     XY 3102 2781, XY 3256 2429, XY 3538 2531, XY 4015 1750, XY 4292 875, XY 4350 (-39), XY 8700 (-77),
     Z 220, Z 10000]"

text \<open>Lines 7963 to 8073.\<close>

definition full_layer_094 :: "pline list" where
  "full_layer_094 = [
     XY 8699 (-93), Z 200, Z (-2800), XY 5850 (-63), XY 5648 (-1636), XY 5003 (-3089), XY 3993 (-4316),
     XY 2691 (-5228), XY 1193 (-5758), XY (-393) (-5867), XY (-1950) (-5547), XY (-3347) (-4798),
     XY (-2489) (-3567), XY (-2380) (-3606), XY (-800) (-3963), XY 822 (-3961), XY 2402 (-3600),
     XY 2481 (-3573), XY 1307 (-4180), XY (-5) (-4380), XY (-1316) (-4178), XY (-2489) (-3567),
     XY (-3347) (-4798), XY (-4497) (-3788), XY (-5324) (-2497), XY (-5788) (-1036), XY (-5859) 496,
     XY (-5532) 1994, XY (-4803) 3339, XY (-3572) 2483, XY (-3630) 2298, XY (-3663) 2166,
     XY (-3982) 622, XY (-3942) (-958), XY (-3543) (-2484), XY (-3510) (-2569), XY (-4061) (-1641),
     XY (-4340) (-594), XY (-4353) 489, XY (-4100) 1541, XY (-3572) 2483, XY (-4803) 3339,
     XY (-3782) 4503, XY (-2472) 5335, XY (-990) 5796, XY 561 5853, XY 2073 5502, XY 3423 4744,
     XY 2545 3528, XY 2259 3621, XY 2168 3644, XY 881 3954, XY (-444) 3991, XY (-1746) 3752,
     XY (-2204) 3633, XY (-2377) 3622, XY (-2529) 3539, XY (-1590) 4081, XY (-534) 4347, XY 554 4345,
     XY 1608 4074, XY 2545 3528, XY 3423 4744, XY 4472 3818, XY 5249 2650, XY 5727 1331, XY 5850 (-63),
     XY 4350 (-47), XY 4277 (-946), XY 3991 (-1804), XY 3511 (-2568), XY 3938 (-949), XY 3972 727,
     XY 3612 2362, XY 3566 2492, XY 3287 2380, XY 3327 2270, XY 3671 723, XY 3647 (-864),
     XY 3254 (-2400), XY 3064 (-2816), XY 2733 (-3137), XY 2311 (-3314), XY 791 (-3662),
     XY (-770) (-3664), XY (-2290) (-3320), XY (-2723) (-3138), XY (-3064) (-2809), XY (-3261) (-2383),
     XY (-3645) (-916), XY (-3683) 603, XY (-3374) 2087, XY (-3339) 2225, XY (-3118) 2760,
     XY (-2690) 3157, XY (-2141) 3339, XY (-1670) 3462, XY (-420) 3692, XY 853 3656, XY 2087 3354,
     XY 2189 3330, XY 2667 3162, XY 3053 2829, XY 3287 2380, XY 3566 2492, XY 4029 1718, XY 4296 854,
     XY 4350 (-47), XY 8699 (-93), Z 200, Z 10000]"

text \<open>Lines 8074 to 8183.\<close>

definition full_layer_095 :: "pline list" where
  "full_layer_095 = [
     XY 8700 (-91), Z 180, Z (-2820), XY 5850 (-62), XY 5649 (-1630), XY 5009 (-3080), XY 4004 (-4306),
     XY 2708 (-5219), XY 1215 (-5753), XY (-366) (-5869), XY (-1921) (-5557), XY (-3319) (-4818),
     XY (-2468) (-3582), XY (-860) (-3958), XY 793 (-3966), XY 2404 (-3606), XY 2461 (-3587),
     XY 1295 (-4184), XY (-4) (-4380), XY (-1303) (-4182), XY (-2468) (-3582), XY (-3319) (-4818),
     XY (-4474) (-3815), XY (-5308) (-2529), XY (-5782) (-1071), XY (-5862) 461, XY (-5544) 1960,
     XY (-4824) 3310, XY (-3587) 2461, XY (-3630) 2321, XY (-3669) 2166, XY (-3985) 622,
     XY (-3945) (-956), XY (-3551) (-2482), XY (-3528) (-2544), XY (-4160) (-1370), XY (-4380) (-51),
     XY (-4191) 1273, XY (-3587) 2461, XY (-4824) 3310, XY (-3809) 4479, XY (-2505) 5320,
     XY (-1026) 5790, XY 524 5857, XY 2038 5516, XY 3392 4766, XY 2522 3544, XY 2267 3625, XY 2168 3649,
     XY 881 3957, XY (-444) 3994, XY (-1745) 3757, XY (-2160) 3649, XY (-2230) 3633, XY (-2509) 3554,
     XY (-1576) 4087, XY (-531) 4348, XY 547 4346, XY 1592 4081, XY 2522 3544, XY 3392 4766,
     XY 4453 3840, XY 5240 2668, XY 5725 1342, XY 5850 (-62), XY 4350 (-46), XY 4279 (-935),
     XY 4000 (-1786), XY 3529 (-2544), XY 3944 (-931), XY 3974 738, XY 3618 2365, XY 3582 2469,
     XY 3301 2362, XY 3332 2274, XY 3674 726, XY 3651 (-862), XY 3262 (-2399), XY 3072 (-2819),
     XY 2738 (-3142), XY 2313 (-3320), XY 792 (-3666), XY (-771) (-3667), XY (-2293) (-3325),
     XY (-2729) (-3143), XY (-3072) (-2812), XY (-3268) (-2383), XY (-3648) (-915), XY (-3686) 603,
     XY (-3380) 2087, XY (-3339) 2248, XY (-3120) 2770, XY (-2702) 3158, XY (-2166) 3339,
     XY (-2087) 3358, XY (-1670) 3467, XY (-420) 3695, XY 852 3659, XY 2087 3360, XY 2197 3334,
     XY 2681 3162, XY 3069 2820, XY 3301 2362, XY 3582 2469, XY 4036 1701, XY 4298 845, XY 4350 (-46),
     XY 8700 (-91), Z 180, Z 10000]"

text \<open>Lines 8184 to 8286.\<close>

definition full_layer_096 :: "pline list" where
  "full_layer_096 = [
     Z 160, G00 None (Some (Mil (-90))) (Some (Mil (-2840))), XY 5850 (-61), XY 5651 (-1626),
     XY 5013 (-3072), XY 4014 (-4297), XY 2724 (-5211), XY 1237 (-5748), XY (-340) (-5870),
     XY (-1891) (-5567), XY (-3290) (-4837), XY (-2446) (-3597), XY (-832) (-3965), XY 826 (-3966),
     XY 2441 (-3601), XY 1284 (-4188), XY (-3) (-4380), XY (-1290) (-4186), XY (-2446) (-3597),
     XY (-3290) (-4837), XY (-4455) (-3837), XY (-5299) (-2549), XY (-5779) (-1086), XY (-5863) 452,
     XY (-5544) 1958, XY (-4821) 3313, XY (-3585) 2464, XY (-3971) 816, XY (-3958) (-879),
     XY (-3546) (-2520), XY (-4167) (-1348), XY (-4380) (-35), XY (-4188) 1282, XY (-3585) 2464,
     XY (-4821) 3313, XY (-3812) 4477, XY (-2514) 5315, XY (-1043) 5787, XY 499 5859, XY 2008 5527,
     XY 3360 4789, XY 2499 3561, XY 2280 3628, XY 2167 3655, XY 881 3960, XY (-443) 3997,
     XY (-1744) 3762, XY (-2159) 3655, XY (-2350) 3610, XY (-2481) 3573, XY (-1304) 4181, XY 11 4380,
     XY 1324 4175, XY 2499 3561, XY 3360 4789, XY 4434 3862, XY 5231 2685, XY 5723 1352, XY 5850 (-61),
     XY 4350 (-45), XY 4281 (-926), XY 4007 (-1768), XY 3545 (-2521), XY 3950 (-911), XY 3976 751,
     XY 3622 2373, XY 3597 2446, XY 3315 2345, XY 3335 2283, XY 3677 732, XY 3654 (-858),
     XY 3270 (-2399), XY 3080 (-2821), XY 2744 (-3147), XY 2316 (-3326), XY 788 (-3669), X (-781),
     XY (-2309) (-3326), XY (-2740) (-3147), XY (-3079) (-2819), XY (-3272) (-2394), XY (-3663) (-814),
     XY (-3670) 815, XY (-3291) 2398, XY (-3089) 2832, XY (-2732) 3158, XY (-2281) 3318,
     XY (-2087) 3364, XY (-1670) 3471, XY (-420) 3697, XY 852 3662, XY 2087 3366, XY 2210 3336,
     XY 2698 3161, XY 3087 2812, XY 3315 2345, XY 3597 2446, XY 4043 1684, XY 4299 836, XY 4350 (-45),
     XY 8700 (-90), Z 160, Z 10000]"

text \<open>Lines 8287 to 8388.\<close>

definition full_layer_097 :: "pline list" where
  "full_layer_097 = [
     Y (-87), Z 140, Z (-2860), XY 5850 (-59), XY 5652 (-1620), XY 5018 (-3064), XY 4023 (-4288),
     XY 2738 (-5203), XY 1257 (-5744), XY (-316) (-5872), XY (-1865) (-5576), XY (-3264) (-4855),
     XY (-2427) (-3610), XY (-825) (-3969), XY 820 (-3970), XY 2422 (-3613), XY 1273 (-4191),
     XY (-3) (-4380), XY (-1279) (-4189), XY (-2427) (-3610), XY (-3264) (-4855), XY (-4434) (-3861),
     XY (-5285) (-2578), XY (-5773) (-1119), XY (-5865) 418, XY (-5556) 1925, XY (-4841) 3284,
     XY (-3600) 2442, XY (-3974) 809, XY (-3961) (-870), XY (-3561) (-2498), XY (-4172) (-1335),
     XY (-4380) (-34), XY (-4192) 1270, XY (-3600) 2442, XY (-4841) 3284, XY (-3838) 4455,
     XY (-2545) 5301, XY (-1076) 5781, XY 468 5861, XY 1979 5537, XY 3336 4806, XY 2481 3573,
     XY 2281 3634, XY 2167 3661, XY 921 3960, XY (-362) 4003, XY (-1626) 3788, XY (-2359) 3613,
     XY (-2464) 3585, XY (-1294) 4184, XY 10 4380, XY 1314 4178, XY 2481 3573, XY 3336 4806,
     XY 4419 3879, XY 5224 2699, XY 5720 1360, XY 5850 (-59), XY 4350 (-44), XY 4283 (-916),
     XY 4015 (-1751), XY 3561 (-2498), XY 3955 (-898), XY 3979 754, XY 3630 2365, XY 3610 2426,
     XY 3327 2328, XY 3344 2277, XY 3680 728, XY 3658 (-859), XY 3278 (-2398), XY 3088 (-2824),
     XY 2750 (-3152), XY 2319 (-3331), XY 789 (-3672), X (-781), XY (-2311) (-3332), XY (-2747) (-3151),
     XY (-3087) (-2820), XY (-3281) (-2391), XY (-3666) (-812), XY (-3672) 816, XY (-3299) 2398,
     XY (-3099) 2834, XY (-2742) 3161, XY (-2290) 3322, XY (-1556) 3497, XY (-342) 3704, XY 890 3661,
     XY 2087 3372, XY 2210 3342, XY 2706 3162, XY 3100 2805, XY 3327 2328, XY 3610 2426, XY 4049 1670,
     XY 4301 830, XY 4350 (-44), XY 8700 (-87), Z 140, Z 10000]"

text \<open>Lines 8389 to 8489.\<close>

definition full_layer_098 :: "pline list" where
  "full_layer_098 = [
     Y (-85), Z 120, Z (-2880), XY 5850 (-57), XY 5654 (-1615), XY 5023 (-3057), XY 4032 (-4280),
     XY 2752 (-5196), XY 1275 (-5740), XY (-293) (-5873), XY (-1840) (-5585), XY (-3239) (-4871),
     XY (-2409) (-3622), XY (-818) (-3973), XY 813 (-3974), XY 2404 (-3626), XY 1262 (-4194),
     XY (-3) (-4380), XY (-1268) (-4192), XY (-2409) (-3622), XY (-3239) (-4871), XY (-4414) (-3885),
     XY (-5271) (-2607), XY (-5766) (-1151), XY (-5867) 384, XY (-5567) 1893, XY (-4861) 3255,
     XY (-3615) 2420, XY (-3978) 801, XY (-3965) (-862), XY (-3577) (-2476), XY (-4176) (-1322),
     XY (-4380) (-34), XY (-4196) 1257, XY (-3615) 2420, XY (-4861) 3255, XY (-3864) 4432,
     XY (-2576) 5286, XY (-1109) 5774, XY 434 5864, XY 1947 5548, XY 3309 4824, XY 2461 3587,
     XY 2289 3637, XY 2167 3667, XY 912 3964, XY (-379) 4005, XY (-1649) 3789, XY (-2363) 3618,
     XY (-2448) 3596, XY (-1286) 4187, XY 8 4380, XY 1301 4182, XY 2461 3587, XY 3309 4824,
     XY 4402 3898, XY 5216 2715, XY 5718 1369, XY 5850 (-57), XY 4350 (-43), XY 4285 (-906),
     XY 4022 (-1734), XY 3576 (-2477), XY 3962 (-868), XY 3978 790, XY 3624 2406, XY 3339 2313,
     XY 3349 2280, XY 3682 731, XY 3661 (-857), XY 3286 (-2397), XY 3095 (-2826), XY 2756 (-3157),
     XY 2322 (-3337), XY 790 (-3675), X (-782), XY (-2314) (-3338), XY (-2752) (-3156),
     XY (-3095) (-2822), XY (-3289) (-2389), XY (-3669) (-812), XY (-3676) 813, XY (-3308) 2393,
     XY (-3108) 2833, XY (-2749) 3164, XY (-2293) 3327, XY (-1580) 3497, XY (-359) 3706, XY 882 3665,
     XY 2087 3378, XY 2219 3346, XY 2720 3162, XY 3115 2797, XY 3339 2313, XY 3624 2406, XY 4055 1655,
     XY 4302 822, XY 4350 (-43), XY 8700 (-85), Z 120, Z 10000]"

text \<open>Lines 8490 to 8589.\<close>

definition full_layer_099 :: "pline list" where
  "full_layer_099 = [
     XY 7673 (-4100), Z 100, Z (-2900), XY 5160 (-2757), XY 4389 (-3913), XY 3345 (-4836),
     XY 2114 (-5487), XY 764 (-5830), XY (-628) (-5846), XY (-1986) (-5535), XY (-3215) (-4887),
     XY (-2391) (-3634), XY (-812) (-3977), XY 806 (-3978), XY 2386 (-3637), XY 1252 (-4197),
     XY (-3) (-4380), XY (-1258) (-4196), XY (-2391) (-3634), XY (-3215) (-4887), XY (-4394) (-3907),
     XY (-5257) (-2635), XY (-5760) (-1182), XY (-5870) 351, XY (-5578) 1860, XY (-4880) 3226,
     XY (-3629) 2399, XY (-3982) 793, XY (-3969) (-854), XY (-3591) (-2454), XY (-4180) (-1309),
     XY (-4380) (-34), XY (-4199) 1245, XY (-3629) 2399, XY (-4880) 3226, XY (-3891) 4409,
     XY (-2608) 5270, XY (-1144) 5768, XY 398 5866, XY 1913 5560, XY 3279 4844, XY 2438 3602,
     XY 2312 3638, XY 2166 3673, XY 903 3968, XY (-395) 4007, XY (-1673) 3789, XY (-2371) 3622,
     XY (-2432) 3607, XY (-1279) 4189, XY 4 4380, XY 1286 4187, XY 2438 3602, XY 3279 4844,
     XY 4376 3927, XY 5197 2751, XY 5708 1412, XY 5880 (-11), XY 5702 (-1434), XY 5160 (-2757),
     XY 3837 (-2050), XY 3591 (-2455), XY 3966 (-859), XY 3982 784, XY 3637 2387, XY 3350 2300,
     XY 3684 744, XY 3665 (-849), XY 3294 (-2397), XY 3103 (-2829), XY 2762 (-3162), XY 2325 (-3342),
     XY 791 (-3678), X (-782), XY (-2316) (-3343), XY (-2758) (-3161), XY (-3104) (-2824),
     XY (-3298) (-2387), XY (-3672) (-811), XY (-3679) 813, XY (-3316) 2393, XY (-3117) 2835,
     XY (-2758) 3167, XY (-2301) 3331, XY (-1603) 3497, XY (-375) 3708, XY 874 3669, XY 2087 3383,
     XY 2242 3346, XY 2743 3160, XY 3135 2790, XY 3350 2300, XY 3637 2387, XY 4167 1348, XY 4376 197,
     XY 4272 (-968), XY 3837 (-2050), XY 7673 (-4100), Z 100, Z 10000]"

text \<open>Lines 8590 to 8688.\<close>

definition full_layer_100 :: "pline list" where
  "full_layer_100 = [
     XY 7685 (-4078), Z 80, Z (-2920), XY 5168 (-2742), XY 4401 (-3899), XY 3362 (-4824),
     XY 2135 (-5479), XY 788 (-5827), XY (-603) (-5849), XY (-1960) (-5544), XY (-3191) (-4903),
     XY (-2373) (-3646), XY (-806) (-3981), XY 800 (-3982), XY 2368 (-3649), XY 1242 (-4200),
     XY (-3) (-4380), XY (-1248) (-4199), XY (-2373) (-3646), XY (-3191) (-4903), XY (-4374) (-3929),
     XY (-5243) (-2662), XY (-5754) (-1213), XY (-5871) 319, XY (-5588) 1829, XY (-4899) 3197,
     XY (-3643) 2377, XY (-3986) 785, XY (-3973) (-846), XY (-3606) (-2433), XY (-4184) (-1297),
     XY (-4380) (-34), XY (-4203) 1233, XY (-3643) 2377, XY (-4899) 3197, XY (-3916) 4386,
     XY (-2637) 5256, XY (-1175) 5761, XY 368 5868, XY 1885 5570, XY 3256 4860, XY 2421 3614,
     XY 2320 3641, XY 2166 3679, XY 895 3972, XY (-411) 4009, XY (-1697) 3789, XY (-2417) 3617,
     XY (-1270) 4192, XY 2 4380, XY 1275 4190, XY 2421 3614, XY 3256 4860, XY 4359 3947, XY 5185 2773,
     XY 5702 1434, XY 5880 10, XY 5707 (-1415), XY 5168 (-2742), XY 3843 (-2039), XY 3605 (-2434),
     XY 3970 (-850), XY 3985 778, XY 3649 2369, XY 3361 2283, XY 3688 733, XY 3668 (-854),
     XY 3302 (-2396), XY 3111 (-2832), XY 2768 (-3167), XY 2328 (-3348), XY 792 (-3681), X (-782),
     XY (-2318) (-3349), XY (-2764) (-3166), XY (-3112) (-2826), XY (-3306) (-2385), XY (-3676) (-809),
     XY (-3682) 813, XY (-3324) 2392, XY (-3126) 2836, XY (-2767) 3170, XY (-2309) 3335,
     XY (-1627) 3497, XY (-391) 3710, XY 865 3673, XY 2087 3389, XY 2250 3350, XY 2757 3160,
     XY 3151 2782, XY 3361 2283, XY 3649 2369, XY 4171 1336, XY 4376 193, XY 4273 (-964),
     XY 3843 (-2039), XY 7685 (-4078), Z 80, Z 10000]"

text \<open>Lines 8689 to 8787.\<close>

definition full_layer_101 :: "pline list" where
  "full_layer_101 = [
     XY 7697 (-4055), Z 60, Z (-2940), XY 5176 (-2727), XY 4414 (-3885), XY 3379 (-4812),
     XY 2155 (-5471), XY 811 (-5824), XY (-578) (-5851), XY (-1935) (-5552), XY (-3168) (-4918),
     XY (-2356) (-3657), XY (-796) (-3985), XY 801 (-3984), XY 2360 (-3654), XY 1240 (-4201),
     XY 3 (-4380), XY (-1235) (-4202), XY (-2356) (-3657), XY (-3168) (-4918), XY (-4355) (-3950),
     XY (-5229) (-2688), XY (-5747) (-1243), XY (-5873) 287, XY (-5599) 1797, XY (-4917) 3169,
     XY (-3657) 2356, XY (-3989) 778, XY (-3977) (-838), XY (-3620) (-2412), XY (-4187) (-1285),
     XY (-4380) (-33), XY (-4207) 1221, XY (-3657) 2356, XY (-4917) 3169, XY (-3940) 4364,
     XY (-2665) 5241, XY (-1205) 5755, XY 339 5870, XY 1859 5579, XY 3233 4875, XY 2404 3625,
     XY 2328 3645, XY 2165 3685, XY 886 3976, XY (-428) 4011, XY (-1721) 3789, XY (-2402) 3627,
     XY (-1262) 4194, XY 1 4380, XY 1265 4193, XY 2404 3625, XY 3233 4875, XY 4341 3966, XY 5174 2794,
     XY 5697 1456, XY 5880 30, XY 5712 (-1397), XY 5176 (-2727), XY 3849 (-2028), XY 3619 (-2413),
     XY 3975 (-841), XY 3988 773, XY 3660 2350, XY 3372 2266, XY 3693 701, XY 3666 (-899),
     XY 3292 (-2452), XY 3118 (-2853), XY 2804 (-3162), XY 2400 (-3329), XY 841 (-3679),
     XY (-760) (-3687), XY (-2323) (-3354), XY (-2771) (-3169), XY (-3121) (-2827), XY (-3315) (-2383),
     XY (-3679) (-808), XY (-3685) 812, XY (-3333) 2390, XY (-3136) 2837, XY (-2775) 3173,
     XY (-2316) 3339, XY (-1651) 3497, XY (-407) 3712, XY 857 3677, XY 2087 3395, XY 2258 3354,
     XY 2770 3160, XY 3166 2774, XY 3372 2266, XY 3660 2350, XY 4175 1323, XY 4376 188, XY 4274 (-960),
     XY 3849 (-2028), XY 7697 (-4055), Z 60, Z 10000]"

text \<open>Lines 8788 to 8883.\<close>

definition full_layer_102 :: "pline list" where
  "full_layer_102 = [
     XY 7709 (-4033), Z 40, Z (-2960), XY 5184 (-2712), XY 4426 (-3871), XY 3395 (-4801),
     XY 2176 (-5463), XY 834 (-5820), XY (-553) (-5854), XY (-1910) (-5561), XY (-3144) (-4933),
     XY (-2338) (-3668), XY (-791) (-3989), XY 792 (-3988), XY 2339 (-3667), XY 1227 (-4205),
     XY 1 (-4380), XY (-1226) (-4205), XY (-2338) (-3668), XY (-3144) (-4933), XY (-4335) (-3972),
     XY (-5216) (-2715), XY (-5740) (-1274), XY (-5874) 255, XY (-5609) 1766, XY (-4935) 3141,
     XY (-3670) 2335, XY (-3993) 770, XY (-3981) (-831), XY (-3634) (-2391), XY (-4191) (-1273),
     XY (-4380) (-33), XY (-4210) 1209, XY (-3670) 2335, XY (-4935) 3141, XY (-3964) 4343,
     XY (-2692) 5228, XY (-1233) 5749, XY 312 5872, XY 1835 5586, XY 3214 4888, XY 2390 3635,
     XY 811 3983, X (-810), XY (-2389) 3635, XY (-2355) 3658, XY (-1226) 4205, XY 21 4380, XY 1266 4193,
     XY 2390 3635, XY 3214 4888, XY 4327 3982, XY 5164 2813, XY 5692 1475, XY 5880 49, XY 5716 (-1379),
     XY 5184 (-2712), XY 3854 (-2016), XY 3633 (-2392), XY 3979 (-832), XY 3992 767, XY 3672 2332,
     XY 3383 2250, XY 3697 691, XY 3669 (-902), XY 3301 (-2449), XY 3126 (-2856), XY 2807 (-3169),
     XY 2397 (-3338), XY 837 (-3682), XY (-762) (-3690), XY (-2325) (-3360), XY (-2777) (-3175),
     XY (-3128) (-2830), XY (-3323) (-2381), XY (-3682) (-800), XY (-3687) 824, XY (-3335) 2406,
     XY (-3169) 2810, XY (-2860) 3124, XY (-2459) 3298, XY (-861) 3676, XY 784 3684, XY 2386 3321,
     XY 2833 3127, XY 3176 2776, XY 3361 2325, XY 3383 2250, XY 3672 2332, XY 4179 1311, XY 4376 184,
     XY 4274 (-956), XY 3854 (-2016), XY 7709 (-4033), Z 40, Z 10000]"

text \<open>Lines 8884 to 8981.\<close>

definition full_layer_103 :: "pline list" where
  "full_layer_103 = [
     XY 7707 (-4037), Z 20, Z (-2980), XY 5182 (-2714), XY 4427 (-3870), XY 3401 (-4797),
     XY 2186 (-5459), XY 850 (-5818), XY (-532) (-5856), XY (-1886) (-5569), XY (-3119) (-4949),
     XY (-2319) (-3680), XY (-784) (-3992), X 784, XY 2319 (-3680), XY 1215 (-4208), XY 0 (-4380),
     XY (-1215) (-4208), XY (-2319) (-3680), XY (-3119) (-4949), XY (-4317) (-3992), XY (-5204) (-2737),
     XY (-5736) (-1294), XY (-5875) 237, XY (-5613) 1752, XY (-4941) 3131, XY (-3674) 2328,
     XY (-3716) 2162, XY (-4005) 656, XY (-3980) (-881), XY (-3643) (-2378), XY (-4194) (-1263),
     XY (-4380) (-30), XY (-4211) 1206, XY (-3674) 2328, XY (-4941) 3131, XY (-3975) 4333,
     XY (-2708) 5219, XY (-1255) 5745, XY 286 5873, XY 1807 5596, XY 3186 4906, XY 2369 3648,
     XY 803 3987, X (-802), XY (-2368) 3649, XY (-2355) 3658, XY (-1232) 4203, XY 9 4380, XY 1248 4198,
     XY 2369 3648, XY 3186 4906, XY 4308 4002, XY 5153 2831, XY 5688 1490, XY 5880 59, XY 5717 (-1376),
     XY 5182 (-2714), XY 3853 (-2018), XY 3631 (-2395), XY 3980 (-841), XY 3998 754, XY 3682 2316,
     XY 3394 2234, XY 3701 695, XY 3674 (-877), XY 3314 (-2405), XY 3120 (-2847), XY 2772 (-3186),
     XY 2324 (-3367), XY 787 (-3691), XY (-787) (-3690), XY (-2324) (-3367), XY (-2776) (-3184),
     XY (-3128) (-2841), XY (-3323) (-2394), XY (-3674) (-919), XY (-3708) 598, XY (-3425) 2087,
     XY (-3370) 2310, XY (-3203) 2764, XY (-2869) 3120, XY (-2427) 3317, XY (-831) 3682, XY 810 3684,
     XY 2408 3322, XY 2842 3135, XY 3177 2795, XY 3358 2358, XY 3394 2234, XY 3682 2316, XY 4184 1296,
     XY 4377 173, XY 4273 (-962), XY 3853 (-2018), XY 7707 (-4037), Z 20, Z 10000]"

text \<open>Lines 8982 to 9078.\<close>

definition full_layer_104 :: "pline list" where
  "full_layer_104 = [
     XY 7717 (-4016), Z 0, Z (-3000), XY 5189 (-2701), XY 4439 (-3856), XY 3417 (-4785),
     XY 2207 (-5450), XY 875 (-5815), XY (-505) (-5858), XY (-1857) (-5579), XY (-3091) (-4966),
     XY (-2299) (-3693), XY (-777) (-3996), X 777, XY 2299 (-3693), XY 1203 (-4211), XY 0 (-4380),
     XY (-1204) (-4211), XY (-2299) (-3693), XY (-3091) (-4966), XY (-4296) (-4015), XY (-5191) (-2763),
     XY (-5730) (-1321), XY (-5876) 210, XY (-5620) 1728, XY (-4954) 3111, XY (-3684) 2313,
     XY (-3722) 2162, XY (-4007) 662, XY (-3985) (-868), XY (-3655) (-2359), XY (-4197) (-1251),
     XY (-4380) (-27), XY (-4213) 1199, XY (-3684) 2313, XY (-4954) 3111, XY (-3994) 4316,
     XY (-2732) 5207, XY (-1282) 5738, XY 256 5874, XY 1776 5605, XY 3158 4924, XY 2349 3662,
     XY 796 3990, X (-794), XY (-2348) 3662, XY (-1231) 4203, XY 1 4380, XY 1232 4203, XY 2349 3662,
     XY 3158 4924, XY 4287 4024, XY 5140 2855, XY 5682 1513, XY 5879 80, XY 5721 (-1358),
     XY 5189 (-2701), XY 3859 (-2008), XY 3644 (-2376), XY 3984 (-834), XY 4001 748, XY 3694 2298,
     XY 3404 2218, XY 3705 683, XY 3677 (-883), XY 3320 (-2406), XY 3126 (-2852), XY 2775 (-3194),
     XY 2323 (-3375), XY 786 (-3694), X (-786), XY (-2323) (-3375), XY (-2779) (-3191),
     XY (-3134) (-2846), XY (-3330) (-2396), XY (-3677) (-920), XY (-3711) 598, XY (-3431) 2087,
     XY (-3375) 2314, XY (-3205) 2772, XY (-2868) 3130, XY (-2422) 3326, XY (-827) 3686, XY 811 3687,
     XY 2407 3330, XY 2845 3143, XY 3182 2801, XY 3363 2361, XY 3404 2218, XY 3694 2298, XY 4188 1284,
     XY 4377 168, XY 4274 (-959), XY 3859 (-2008), XY 7717 (-4016), Z 0, Z 10000]"

text \<open>Lines 9079 to 9176.\<close>

definition full_layer_105 :: "pline list" where
  "full_layer_105 = [
     XY 7728 (-3996), Z (-20), Z (-3020), XY 5196 (-2687), XY 4451 (-3843), XY 3434 (-4773),
     XY 2228 (-5442), XY 900 (-5811), XY (-478) (-5861), XY (-1829) (-5588), XY (-3064) (-4983),
     XY (-2279) (-3705), XY (-770) (-3999), X 770, XY 2278 (-3706), XY 1192 (-4215), XY 0 (-4380),
     XY (-1192) (-4215), XY (-2279) (-3705), XY (-3064) (-4983), XY (-3075) (-4976), XY (-4282) (-4029),
     XY (-5181) (-2781), XY (-5725) (-1342), XY (-5877) 188, XY (-5627) 1705, XY (-4967) 3090,
     XY (-3693) 2298, XY (-3727) 2162, XY (-4010) 668, XY (-3990) (-855), XY (-3666) (-2341),
     XY (-4201) (-1240), XY (-4380) (-25), XY (-4215) 1191, XY (-3693) 2298, XY (-4967) 3090,
     XY (-4013) 4298, XY (-2756) 5194, XY (-1310) 5732, XY 226 5876, XY 1747 5615, XY 3131 4942,
     XY 2328 3675, XY 788 3994, X (-787), XY (-2327) 3675, XY (-1220) 4207, XY 1 4380, XY 1221 4206,
     XY 2328 3675, XY 3131 4942, XY 4267 4046, XY 5127 2879, XY 5676 1537, XY 5879 101, XY 5725 (-1341),
     XY 5196 (-2687), XY 3864 (-1998), XY 3656 (-2357), XY 3988 (-826), XY 4004 743, XY 3705 2280,
     XY 3415 2201, XY 3709 671, XY 3679 (-890), XY 3327 (-2408), XY 3132 (-2858), XY 2778 (-3201),
     XY 2323 (-3382), XY 786 (-3697), X (-785), XY (-2322) (-3383), XY (-2781) (-3200),
     XY (-3139) (-2853), XY (-3335) (-2399), XY (-3680) (-922), XY (-3715) 596, XY (-3437) 2087,
     XY (-3375) 2333, XY (-3209) 2785, XY (-2875) 3138, XY (-2434) 3330, XY (-836) 3688, XY 804 3691,
     XY 2403 3340, XY 2846 3152, XY 3188 2806, XY 3370 2361, XY 3415 2201, XY 3705 2280, XY 4191 1271,
     XY 4377 163, XY 4274 (-956), XY 3864 (-1998), XY 7728 (-3996), Z (-20), Z 10000]"

text \<open>Lines 9177 to 9276.\<close>

definition full_layer_106 :: "pline list" where
  "full_layer_106 = [
     XY 7738 (-3976), Z (-40), Z (-3040), XY 5203 (-2674), XY 4462 (-3829), XY 3450 (-4761),
     XY 2249 (-5433), XY 925 (-5807), XY (-450) (-5863), XY (-1800) (-5598), XY (-3036) (-5000),
     XY (-2258) (-3718), XY (-762) (-4003), X 763, XY 2259 (-3718), XY 1181 (-4218), XY 0 (-4380),
     XY (-1180) (-4218), XY (-2258) (-3718), XY (-3036) (-5000), XY (-3075) (-4976), XY (-4274) (-4038),
     XY (-5169) (-2802), XY (-5716) (-1378), XY (-5878) 139, XY (-5645) 1647, XY (-5005) 3028,
     XY (-3722) 2252, XY (-4009) 736, XY (-3995) (-810), XY (-3680) (-2320), XY (-4202) (-1235),
     XY (-4380) (-40), XY (-4224) 1157, XY (-3722) 2252, XY (-5005) 3028, XY (-4057) 4256,
     XY (-2799) 5171, XY (-1346) 5724, XY 202 5877, XY 1736 5618, XY 3132 4941, XY 2329 3674,
     XY 2163 3714, XY 841 3995, XY (-512) 4021, XY (-1843) 3789, XY (-2330) 3673, XY (-1222) 4206,
     XY (-1) 4380, XY 1220 4207, XY 2329 3674, XY 3132 4941, XY 4266 4047, XY 5125 2883, XY 5674 1544,
     XY 5879 111, XY 5728 (-1328), XY 5203 (-2674), XY 3869 (-1988), XY 3668 (-2338), XY 3992 (-819),
     XY 4008 737, XY 3715 2262, XY 3425 2185, XY 3713 660, XY 3682 (-895), XY 3334 (-2407),
     XY 3138 (-2862), XY 2780 (-3209), XY 2320 (-3391), XY 785 (-3699), XY (-782) (-3700),
     XY (-2317) (-3392), XY (-2786) (-3206), XY (-3150) (-2850), XY (-3348) (-2386), XY (-3693) (-814),
     XY (-3702) 798, XY (-3377) 2374, XY (-3182) 2838, XY (-2815) 3189, XY (-2342) 3362,
     XY (-1774) 3497, XY (-491) 3721, XY 814 3696, XY 2087 3424, XY 2306 3371, XY 2797 3188,
     XY 3179 2822, XY 3383 2339, XY 3425 2185, XY 3715 2262, XY 4195 1259, XY 4377 158, XY 4275 (-953),
     XY 3869 (-1988), XY 7738 (-3976), Z (-40), Z 10000]"

text \<open>Lines 9277 to 9375.\<close>

definition full_layer_107 :: "pline list" where
  "full_layer_107 = [
     XY 7748 (-3956), Z (-60), Z (-3060), XY 5210 (-2660), XY 4473 (-3817), XY 3464 (-4752),
     XY 2265 (-5426), XY 943 (-5804), XY (-431) (-5864), XY (-1782) (-5604), XY (-3019) (-5011),
     XY (-2245) (-3726), XY (-758) (-4006), X 758, XY 2245 (-3726), XY 1173 (-4220), XY 0 (-4380),
     XY (-1173) (-4220), XY (-2245) (-3726), XY (-3019) (-5011), XY (-4233) (-4081), XY (-5144) (-2849),
     XY (-5705) (-1423), XY (-5879) 100, XY (-5654) 1616, XY (-5019) 3006, XY (-3732) 2235,
     XY (-4012) 731, XY (-3998) (-802), XY (-3691) (-2302), XY (-4205) (-1224), XY (-4380) (-39),
     XY (-4227) 1149, XY (-3732) 2235, XY (-5019) 3006, XY (-4075) 4239, XY (-2821) 5159,
     XY (-1370) 5718, XY 178 5877, XY 1713 5625, XY 3112 4954, XY 2314 3684, XY 2162 3720, XY 832 3999,
     XY (-529) 4022, XY (-1868) 3789, XY (-2316) 3682, XY (-1214) 4208, XY (-1) 4380, XY 1212 4209,
     XY 2314 3684, XY 3112 4954, XY 4250 4063, XY 5115 2901, XY 5669 1562, XY 5879 129, XY 5732 (-1312),
     XY 5210 (-2660), XY 3874 (-1978), XY 3680 (-2319), XY 3996 (-812), XY 4011 731, XY 3726 2245,
     XY 3436 2169, XY 3717 646, XY 3684 (-906), XY 3339 (-2416), XY 3146 (-2867), XY 2791 (-3211),
     XY 2335 (-3392), XY 791 (-3702), XY (-787) (-3703), XY (-2331) (-3393), XY (-2797) (-3207),
     XY (-3158) (-2854), XY (-3353) (-2392), XY (-3695) (-816), XY (-3705) 799, XY (-3382) 2378,
     XY (-3189) 2842, XY (-2823) 3192, XY (-2351) 3366, XY (-1799) 3497, XY (-508) 3723, XY 805 3700,
     XY 2087 3430, XY 2325 3372, XY 2809 3192, XY 3185 2832, XY 3385 2355, XY 3436 2169, XY 3726 2245,
     XY 4199 1247, XY 4377 154, XY 4276 (-949), XY 3874 (-1978), XY 7748 (-3956), Z (-60), Z 10000]"

text \<open>Lines 9376 to 9475.\<close>

definition full_layer_108 :: "pline list" where
  "full_layer_108 = [
     XY 7762 (-3929), Z (-80), Z (-3080), XY 5219 (-2642), XY 4487 (-3800), XY 3483 (-4737),
     XY 2289 (-5416), XY 971 (-5799), XY (-401) (-5866), XY (-1751) (-5613), XY (-2990) (-5028),
     XY (-2223) (-3739), XY (-746) (-4011), XY 758 (-4009), XY 2234 (-3733), XY 1170 (-4221),
     XY 6 (-4380), XY (-1158) (-4224), XY (-2223) (-3739), XY (-2990) (-5028), XY (-4210) (-4105),
     XY (-5128) (-2876), XY (-5698) (-1452), XY (-5880) 71, XY (-5661) 1589, XY (-5032) 2984,
     XY (-3742) 2219, XY (-4015) 725, XY (-4002) (-795), XY (-3702) (-2284), XY (-4209) (-1214),
     XY (-4380) (-38), XY (-4229) 1140, XY (-3742) 2219, XY (-5032) 2984, XY (-4094) 4220,
     XY (-2844) 5147, XY (-1394) 5712, XY 153 5878, XY 1689 5632, XY 3091 4967, XY 2299 3693,
     XY 2162 3726, XY 824 4003, XY (-544) 4025, XY (-1889) 3790, XY (-2300) 3692, XY (-1205) 4211,
     XY (-1) 4380, XY 1203 4212, XY 2299 3693, XY 3091 4967, XY 4234 4080, XY 5103 2921, XY 5663 1584,
     XY 5878 151, XY 5736 (-1292), XY 5219 (-2642), XY 3881 (-1964), XY 3696 (-2293), XY 4002 (-799),
     XY 4015 728, XY 3736 2228, XY 3446 2153, XY 3712 749, XY 3709 (-683), XY 3438 (-2087),
     XY 3363 (-2391), XY 3194 (-2842), XY 2856 (-3192), XY 2410 (-3375), XY 843 (-3700),
     XY (-760) (-3709), XY (-2330) (-3401), XY (-2800) (-3216), XY (-3164) (-2859), XY (-3360) (-2393),
     XY (-3698) (-814), XY (-3708) 803, XY (-3387) 2386, XY (-3195) 2847, XY (-2832) 3196,
     XY (-2362) 3369, XY (-1820) 3498, XY (-522) 3726, XY 797 3704, XY 2087 3436, XY 2326 3378,
     XY 2814 3196, XY 3193 2831, XY 3393 2349, XY 3446 2153, XY 3736 2228, XY 4202 1236, XY 4377 151,
     XY 4277 (-943), XY 3881 (-1964), XY 7762 (-3929), Z (-80), Z 10000]"

text \<open>Lines 9476 to 9575.\<close>

definition full_layer_109 :: "pline list" where
  "full_layer_109 = [
     XY 7771 (-3912), Z (-100), Z (-3100), XY 5225 (-2630), XY 4497 (-3789), XY 3497 (-4727),
     XY 2306 (-5409), XY 990 (-5796), XY (-380) (-5868), XY (-1729) (-5620), XY (-2969) (-5041),
     XY (-2207) (-3748), XY (-744) (-4014), XY 746 (-4013), XY 2210 (-3747), XY 1154 (-4225),
     XY 1 (-4380), XY (-1151) (-4226), XY (-2207) (-3748), XY (-2969) (-5041), XY (-4193) (-4123),
     XY (-5116) (-2898), XY (-5691) (-1477), XY (-5880) 45, XY (-5668) 1564, XY (-5045) 2961,
     XY (-3752) 2202, XY (-4018) 720, XY (-4005) (-789), XY (-3713) (-2266), XY (-4212) (-1203),
     XY (-4380) (-38), XY (-4232) 1131, XY (-3752) 2202, XY (-5045) 2961, XY (-4113) 4202,
     XY (-2866) 5134, XY (-1419) 5706, XY 127 5879, XY 1665 5639, XY 3070 4979, XY 2283 3703,
     XY 2161 3732, XY 730 4014, XY (-730) 4013, XY (-2161) 3731, XY (-2285) 3701, XY (-1197) 4213,
     XY (-1) 4380, XY 1194 4214, XY 2283 3703, XY 3070 4979, XY 4218 4097, XY 5093 2939, XY 5658 1602,
     XY 5878 168, XY 5740 (-1277), XY 5225 (-2630), XY 3886 (-1956), XY 3706 (-2277), XY 4005 (-794),
     XY 4018 722, XY 3747 2210, XY 3456 2137, XY 3716 737, XY 3712 (-689), XY 3445 (-2087),
     XY 3384 (-2329), XY 3194 (-2826), XY 2818 (-3209), XY 2324 (-3408), XY 783 (-3709), X (-789),
     XY (-2330) (-3407), XY (-2803) (-3221), XY (-3170) (-2862), XY (-3367) (-2393), XY (-3701) (-817),
     XY (-3711) 795, XY (-3396) 2375, XY (-3204) 2844, XY (-2836) 3199, XY (-2360) 3375,
     XY (-2087) 3440, XY (-705) 3714, XY 705 3715, XY 2087 3441, XY 2344 3379, XY 2826 3200,
     XY 3199 2841, XY 3395 2366, XY 3456 2137, XY 3747 2210, XY 4206 1224, XY 4378 146, XY 4278 (-941),
     XY 3886 (-1956), XY 7771 (-3912), Z (-100), Z 10000]"

text \<open>Lines 9576 to 9675.\<close>

definition full_layer_110 :: "pline list" where
  "full_layer_110 = [
     XY 7780 (-3894), Z (-120), Z (-3120), XY 5231 (-2618), XY 4507 (-3777), XY 3510 (-4717),
     XY 2324 (-5401), XY 1011 (-5793), XY (-357) (-5869), XY (-1706) (-5627), XY (-2946) (-5054),
     XY (-2191) (-3758), XY (-738) (-4017), X 740, XY 2193 (-3757), XY 1144 (-4228), XY 1 (-4380),
     XY (-1142) (-4228), XY (-2191) (-3758), XY (-2946) (-5054), XY (-4174) (-4141), XY (-5103) (-2921),
     XY (-5685) (-1502), XY (-5880) 19, XY (-5675) 1539, XY (-5058) 2939, XY (-3761) 2185,
     XY (-4022) 714, XY (-4009) (-782), XY (-3724) (-2248), XY (-4215) (-1193), XY (-4380) (-37),
     XY (-4234) 1122, XY (-3761) 2185, XY (-5058) 2939, XY (-4131) 4184, XY (-2889) 5121,
     XY (-1444) 5700, XY 101 5879, XY 1640 5647, XY 3048 4993, XY 2267 3713, XY 2160 3738, XY 818 4010,
     XY (-555) 4030, XY (-1905) 3797, XY (-2268) 3712, XY (-1187) 4216, XY (-1) 4380, XY 1185 4217,
     XY 2267 3713, XY 3048 4993, XY 4201 4114, XY 5082 2958, XY 5652 1621, XY 5877 186, XY 5743 (-1261),
     XY 5231 (-2618), XY 3890 (-1947), XY 3717 (-2260), XY 4008 (-787), XY 4022 716, XY 3757 2193,
     XY 3465 2122, XY 3720 726, XY 3715 (-694), XY 3451 (-2087), XY 3390 (-2334), XY 3200 (-2832),
     XY 2823 (-3215), XY 2329 (-3413), XY 785 (-3712), X (-790), XY (-2334) (-3413), XY (-2809) (-3227),
     XY (-3177) (-2867), XY (-3373) (-2396), XY (-3705) (-812), XY (-3713) 809, XY (-3397) 2396,
     XY (-3207) 2858, XY (-2844) 3207, XY (-2376) 3378, XY (-1836) 3505, XY (-533) 3731, XY 791 3711,
     XY 2087 3447, XY 2347 3385, XY 2830 3206, XY 3205 2845, XY 3401 2368, XY 3465 2122, XY 3757 2193,
     XY 4209 1212, XY 4378 141, XY 4278 (-938), XY 3890 (-1947), XY 7780 (-3894), Z (-120), Z 10000]"

text \<open>Lines 9676 to 9775.\<close>

definition full_layer_111 :: "pline list" where
  "full_layer_111 = [
     XY 7789 (-3875), Z (-140), Z (-3140), XY 5238 (-2606), XY 4517 (-3765), XY 3524 (-4707),
     XY 2341 (-5394), XY 1031 (-5789), XY (-335) (-5870), XY (-1683) (-5634), XY (-2924) (-5067),
     XY (-2174) (-3768), XY (-732) (-4021), XY 734 (-4020), XY 2176 (-3767), XY 1134 (-4231),
     XY 1 (-4380), XY (-1133) (-4231), XY (-2174) (-3768), XY (-2924) (-5067), XY (-4156) (-4159),
     XY (-5090) (-2943), XY (-5678) (-1527), XY (-5880) (-7), XY (-5682) 1514, XY (-5071) 2916,
     XY (-3771) 2169, XY (-4025) 709, XY (-4013) (-775), XY (-3735) (-2230), XY (-4217) (-1182),
     XY (-4380) (-36), XY (-4236) 1113, XY (-3771) 2169, XY (-5071) 2916, XY (-4150) 4166,
     XY (-2912) 5109, XY (-1470) 5693, XY 75 5880, XY 1615 5654, XY 3026 5006, XY 2250 3723,
     XY 2160 3744, XY 817 4013, XY (-554) 4033, XY (-1904) 3802, XY (-2252) 3722, XY (-1177) 4219,
     XY (-1) 4380, XY 1176 4219, XY 2250 3723, XY 3026 5006, XY 4184 4131, XY 5071 2977, XY 5647 1640,
     XY 5876 203, XY 5746 (-1246), XY 5238 (-2606), XY 3895 (-1938), XY 3728 (-2242), XY 4012 (-781),
     XY 4025 710, XY 3767 2176, XY 3475 2106, XY 3723 715, XY 3717 (-699), XY 3457 (-2087),
     XY 3396 (-2337), XY 3206 (-2837), XY 2828 (-3221), XY 2331 (-3419), XY 785 (-3715), X (-791),
     XY (-2337) (-3418), XY (-2814) (-3232), XY (-3183) (-2871), XY (-3379) (-2398), XY (-3708) (-818),
     XY (-3717) 798, XY (-3407) 2382, XY (-3215) 2855, XY (-2843) 3213, XY (-2364) 3388,
     XY (-1836) 3510, XY (-533) 3734, XY 791 3714, XY 2087 3453, XY 2349 3391, XY 2835 3212,
     XY 3211 2849, XY 3407 2370, XY 3475 2106, XY 3767 2176, XY 4213 1200, XY 4378 136, XY 4279 (-936),
     XY 3895 (-1938), XY 7789 (-3875), Z (-140), Z 10000]"

text \<open>Lines 9776 to 9873.\<close>

definition full_layer_112 :: "pline list" where
  "full_layer_112 = [
     XY 7798 (-3857), Z (-160), Z (-3160), XY 5244 (-2594), XY 4377 (-3926), XY 3163 (-4957),
     XY 1716 (-5624), XY 144 (-5878), XY (-1440) (-5701), XY (-2902) (-5079), XY (-2158) (-3777),
     XY (-727) (-4024), X 728, XY 2159 (-3776), XY 1125 (-4233), XY 1 (-4380), XY (-1124) (-4233),
     XY (-2158) (-3777), XY (-2902) (-5079), XY (-4138) (-4177), XY (-5077) (-2965), XY (-5672) (-1552),
     XY (-5880) (-33), XY (-5688) 1489, XY (-5084) 2894, XY (-3780) 2152, XY (-4028) 703,
     XY (-4016) (-768), XY (-3745) (-2213), XY (-4220) (-1172), XY (-4380) (-35), XY (-4239) 1104,
     XY (-3780) 2152, XY (-5084) 2894, XY (-4168) 4148, XY (-2934) 5096, XY (-1495) 5687, XY 50 5880,
     XY 1590 5661, XY 3004 5020, XY 2234 3733, XY 868 4013, XY (-528) 4038, XY (-1903) 3808,
     XY (-2235) 3732, XY (-1168) 4221, XY (-1) 4380, XY 1166 4222, XY 2234 3733, XY 3004 5020,
     XY 4168 4148, XY 5060 2996, XY 5641 1659, XY 5876 221, XY 5750 (-1231), XY 5244 (-2594),
     XY 3899 (-1929), XY 3738 (-2225), XY 4015 (-775), XY 4028 704, XY 3777 2159, XY 3484 2090,
     XY 3727 705, XY 3720 (-704), XY 3463 (-2087), XY 3402 (-2339), XY 3212 (-2841), XY 2832 (-3227),
     XY 2334 (-3425), XY 786 (-3718), X (-792), XY (-2339) (-3424), XY (-2819) (-3238),
     XY (-3190) (-2875), XY (-3386) (-2399), XY (-3711) (-817), XY (-3720) 800, XY (-3413) 2386,
     XY (-3220) 2860, XY (-2848) 3219, XY (-2367) 3394, XY (-1836) 3515, XY (-533) 3736, XY 791 3717,
     XY 2087 3459, XY 2351 3398, XY 2839 3218, XY 3217 2854, XY 3414 2371, XY 3484 2090, XY 3777 2159,
     XY 4216 1188, XY 4378 131, XY 4279 (-933), XY 3899 (-1929), XY 7798 (-3857), Z (-160), Z 10000]"

text \<open>Lines 9874 to 9971.\<close>

definition full_layer_113 :: "pline list" where
  "full_layer_113 = [
     XY 7807 (-3839), Z (-180), Z (-3180), XY 5250 (-2581), XY 4388 (-3914), XY 3178 (-4947),
     XY 1735 (-5618), XY 165 (-5878), XY (-1417) (-5707), XY (-2880) (-5092), XY (-2142) (-3786),
     XY (-721) (-4027), X 722, XY 2142 (-3786), XY 1115 (-4236), XY 0 (-4380), XY (-1115) (-4236),
     XY (-2142) (-3786), XY (-2880) (-5092), XY (-4120) (-4195), XY (-5065) (-2987), XY (-5665) (-1576),
     XY (-5880) (-58), XY (-5695) 1464, XY (-5096) 2872, XY (-3790) 2136, XY (-4032) 698,
     XY (-4020) (-762), XY (-3755) (-2195), XY (-4223) (-1162), XY (-4380) (-35), XY (-4241) 1095,
     XY (-3790) 2136, XY (-5096) 2872, XY (-4186) 4129, XY (-2956) 5083, XY (-1519) 5680, XY 24 5880,
     XY 1565 5668, XY 2982 5033, XY 2217 3742, XY 857 4017, XY (-533) 4040, XY (-1903) 3813,
     XY (-2219) 3742, XY (-1159) 4224, XY (-1) 4380, XY 1157 4224, XY 2217 3742, XY 2982 5033,
     XY 4151 4165, XY 5049 3014, XY 5635 1678, XY 5875 239, XY 5753 (-1215), XY 5250 (-2581),
     XY 3904 (-1919), XY 3748 (-2207), XY 4019 (-768), XY 4031 698, XY 3786 2142, XY 3494 2075,
     XY 3731 694, XY 3722 (-709), XY 3469 (-2087), XY 3408 (-2342), XY 3218 (-2846), XY 2837 (-3233),
     XY 2336 (-3431), XY 786 (-3721), X (-793), XY (-2342) (-3430), XY (-2824) (-3244),
     XY (-3196) (-2879), XY (-3392) (-2401), XY (-3714) (-817), XY (-3723) 802, XY (-3418) 2389,
     XY (-3226) 2866, XY (-2853) 3225, XY (-2370) 3400, XY (-1837) 3520, XY (-533) 3739, XY 790 3720,
     XY 2087 3465, XY 2353 3404, XY 2844 3225, XY 3224 2858, XY 3420 2373, XY 3494 2075, XY 3786 2142,
     XY 4219 1176, XY 4378 127, XY 4280 (-930), XY 3904 (-1919), XY 7807 (-3839), Z (-180), Z 10000]"

text \<open>Lines 9972 to 10069.\<close>

definition full_layer_114 :: "pline list" where
  "full_layer_114 = [
     XY 7816 (-3821), Z (-200), Z (-3200), XY 5256 (-2569), XY 4398 (-3903), XY 3192 (-4938),
     XY 1753 (-5612), XY 186 (-5877), XY (-1394) (-5712), XY (-2858) (-5104), XY (-2126) (-3795),
     XY (-716) (-4031), X 716, XY 2125 (-3795), XY 1106 (-4238), XY 0 (-4380), XY (-1106) (-4238),
     XY (-2126) (-3795), XY (-2858) (-5104), XY (-4102) (-4213), XY (-5052) (-3009), XY (-5658) (-1601),
     XY (-5879) (-83), XY (-5701) 1440, XY (-5109) 2850, XY (-3799) 2119, XY (-4035) 693,
     XY (-4024) (-755), XY (-3766) (-2178), XY (-4226) (-1151), XY (-4380) (-34), XY (-4243) 1086,
     XY (-3799) 2119, XY (-5109) 2850, XY (-4204) 4111, XY (-2978) 5070, XY (-1544) 5674, XY (-2) 5880,
     XY 1540 5675, XY 2960 5046, XY 2201 3752, XY 845 4020, XY (-538) 4043, XY (-1902) 3818,
     XY (-2202) 3751, XY (-1149) 4226, XY (-1) 4380, XY 1148 4227, XY 2201 3752, XY 2960 5046,
     XY 4134 4182, XY 5037 3033, XY 5630 1697, XY 5874 257, XY 5756 (-1200), XY 5256 (-2569),
     XY 3908 (-1910), XY 3759 (-2190), XY 4022 (-762), XY 4035 693, XY 3796 2125, XY 3503 2059,
     XY 3735 683, XY 3725 (-714), XY 3475 (-2087), XY 3414 (-2345), XY 3224 (-2851), XY 2841 (-3240),
     XY 2338 (-3437), XY 787 (-3724), X (-793), XY (-2344) (-3435), XY (-2829) (-3249),
     XY (-3203) (-2883), XY (-3399) (-2402), XY (-3717) (-816), XY (-3726) 803, XY (-3424) 2392,
     XY (-3232) 2871, XY (-2858) 3231, XY (-2373) 3406, XY (-1837) 3526, XY (-533) 3742, XY 790 3723,
     XY 2087 3470, XY 2354 3410, XY 2848 3231, XY 3230 2862, XY 3426 2374, XY 3503 2059, XY 3796 2125,
     XY 4222 1165, XY 4378 122, XY 4281 (-928), XY 3908 (-1910), XY 7816 (-3821), Z (-200), Z 10000]"

text \<open>Lines 10070 to 10166.\<close>

definition full_layer_115 :: "pline list" where
  "full_layer_115 = [
     XY 7825 (-3803), Z (-220), Z (-3220), XY 5262 (-2557), XY 4408 (-3891), XY 3207 (-4928),
     XY 1772 (-5607), XY 207 (-5876), XY (-1372) (-5718), XY (-2837) (-5116), XY (-2110) (-3804),
     XY (-710) (-4034), X 710, XY 2109 (-3804), XY 1097 (-4240), XY 0 (-4380), XY (-1097) (-4240),
     XY (-2110) (-3804), XY (-2837) (-5116), XY (-4084) (-4230), XY (-5039) (-3030), XY (-5651) (-1625),
     XY (-5879) (-108), XY (-5707) 1415, XY (-5121) 2828, XY (-3808) 2103, XY (-4038) 688,
     XY (-4027) (-748), XY (-3776) (-2160), XY (-4229) (-1141), XY (-4380) (-33), XY (-4245) 1077,
     XY (-3808) 2103, XY (-5121) 2828, XY (-4221) 4093, XY (-3000) 5057, XY (-1569) 5667, XY (-27) 5880,
     XY 1516 5681, XY 2938 5059, XY 2184 3762, XY 836 4024, XY (-540) 4046, XY (-1897) 3825,
     XY (-2186) 3761, XY (-1140) 4229, XY (-1) 4380, XY 1138 4229, XY 2184 3762, XY 2938 5059,
     XY 4117 4198, XY 5026 3052, XY 5624 1716, XY 5874 274, XY 5759 (-1185), XY 5262 (-2557),
     XY 3912 (-1901), XY 3769 (-2172), XY 4026 (-755), XY 4038 687, XY 3805 2108, XY 3512 2044,
     XY 3745 557, XY 3706 (-949), XY 3395 (-2421), XY 3201 (-2896), XY 2830 (-3258), XY 2350 (-3440),
     XY 794 (-3727), X (-790), XY (-2346) (-3441), XY (-2834) (-3255), XY (-3210) (-2887),
     XY (-3405) (-2403), XY (-3720) (-816), XY (-3729) 805, XY (-3430) 2396, XY (-3238) 2876,
     XY (-2863) 3238, XY (-2376) 3412, XY (-1832) 3532, XY (-530) 3745, XY 792 3727, XY 2087 3476,
     XY 2356 3416, XY 2853 3237, XY 3236 2866, XY 3432 2376, XY 3512 2044, XY 3805 2108, XY 4226 1153,
     XY 4378 117, XY 4281 (-925), XY 3912 (-1901), XY 7825 (-3803), Z (-220), Z 10000]"

text \<open>Lines 10167 to 10263.\<close>

definition full_layer_116 :: "pline list" where
  "full_layer_116 = [
     XY 7834 (-3784), Z (-240), Z (-3240), XY 5268 (-2544), XY 4419 (-3879), XY 3222 (-4919),
     XY 1790 (-5601), XY 229 (-5876), XY (-1350) (-5723), XY (-2815) (-5128), XY (-2093) (-3813),
     XY (-704) (-4037), X 704, XY 2093 (-3813), XY 1088 (-4243), XY 0 (-4380), XY (-1088) (-4243),
     XY (-2093) (-3813), XY (-2815) (-5128), XY (-4066) (-4247), XY (-5026) (-3052), XY (-5644) (-1649),
     XY (-5878) (-133), XY (-5713) 1391, XY (-5133) 2807, XY (-3817) 2087, XY (-4041) 682,
     XY (-4031) (-742), XY (-3785) (-2143), XY (-4231) (-1131), XY (-4380) (-32), XY (-4248) 1069,
     XY (-3817) 2087, XY (-5133) 2807, XY (-4239) 4075, XY (-3022) 5044, XY (-1593) 5660, XY (-53) 5880,
     XY 1491 5688, XY 2915 5072, XY 2168 3771, XY 824 4028, XY (-545) 4048, XY (-1896) 3830,
     XY (-2169) 3770, XY (-1131) 4231, XY (-1) 4380, XY 1129 4232, XY 2168 3771, XY 2915 5072,
     XY 4100 4215, XY 5015 3070, XY 5618 1735, XY 5873 292, XY 5763 (-1169), XY 5268 (-2544),
     XY 3917 (-1892), XY 3779 (-2155), XY 4029 (-749), XY 4041 682, XY 3814 2092, XY 3521 2028,
     XY 3749 547, XY 3709 (-954), XY 3402 (-2422), XY 3208 (-2900), XY 2836 (-3263), XY 2353 (-3446),
     XY 795 (-3730), X (-791), XY (-2349) (-3447), XY (-2839) (-3261), XY (-3216) (-2891),
     XY (-3412) (-2405), XY (-3724) (-815), XY (-3732) 806, XY (-3436) 2399, XY (-3244) 2881,
     XY (-2867) 3244, XY (-2379) 3418, XY (-1832) 3537, XY (-530) 3748, XY 791 3730, XY 2087 3482,
     XY 2357 3423, XY 2857 3243, XY 3242 2870, XY 3439 2376, XY 3521 2028, XY 3814 2092, XY 4229 1142,
     XY 4379 113, XY 4282 (-922), XY 3917 (-1892), XY 7834 (-3784), Z (-240), Z 10000]"

text \<open>Lines 10264 to 10360.\<close>

definition full_layer_117 :: "pline list" where
  "full_layer_117 = [
     XY 7843 (-3766), Z (-260), Z (-3260), XY 5274 (-2532), XY 4429 (-3867), XY 3236 (-4909),
     XY 1809 (-5595), XY 250 (-5875), XY (-1327) (-5728), XY (-2794) (-5140), XY (-2077) (-3822),
     XY (-699) (-4041), X 699, XY 2077 (-3822), XY 1079 (-4245), XY 0 (-4380), XY (-1079) (-4245),
     XY (-2077) (-3822), XY (-2794) (-5140), XY (-4049) (-4264), XY (-5014) (-3072), XY (-5638) (-1671),
     XY (-5878) (-156), XY (-5718) 1370, XY (-5143) 2788, XY (-3824) 2073, XY (-4043) 683,
     XY (-4035) (-727), XY (-3801) (-2115), XY (-4237) (-1112), XY (-4380) (-24), XY (-4249) 1065,
     XY (-3824) 2073, XY (-5143) 2788, XY (-4254) 4059, XY (-3041) 5032, XY (-1616) 5654, XY (-77) 5879,
     XY 1467 5694, XY 2893 5085, XY 2151 3781, XY 813 4032, XY (-550) 4050, XY (-1895) 3835,
     XY (-2153) 3780, XY (-1122) 4234, XY (-1) 4380, XY 1120 4234, XY 2151 3781, XY 2893 5085,
     XY 4083 4232, XY 5003 3089, XY 5612 1754, XY 5872 310, XY 5766 (-1153), XY 5274 (-2532),
     XY 3921 (-1883), XY 3789 (-2137), XY 4033 (-742), XY 4044 676, XY 3823 2075, XY 3530 2013,
     XY 3752 536, XY 3711 (-959), XY 3409 (-2422), XY 3215 (-2903), XY 2841 (-3269), XY 2356 (-3452),
     XY 780 (-3734), XY (-822) (-3731), XY (-2396) (-3442), XY (-2868) (-3263), XY (-3230) (-2906),
     XY (-3415) (-2437), XY (-3725) (-836), XY (-3734) 796, XY (-3442) 2400, XY (-3251) 2885,
     XY (-2873) 3250, XY (-2382) 3424, XY (-1832) 3542, XY (-530) 3751, XY 791 3733, XY 2087 3488,
     XY 2358 3429, XY 2861 3249, XY 3249 2874, XY 3445 2377, XY 3530 2013, XY 3823 2075, XY 4232 1130,
     XY 4379 109, XY 4282 (-919), XY 3921 (-1883), XY 7843 (-3766), Z (-260), Z 10000]"

text \<open>Lines 10361 to 10456.\<close>

definition full_layer_118 :: "pline list" where
  "full_layer_118 = [
     XY 7852 (-3747), Z (-280), Z (-3280), XY 5280 (-2520), XY 4439 (-3856), XY 3251 (-4900),
     XY 1827 (-5589), XY 271 (-5874), XY (-1305) (-5733), XY (-2772) (-5152), XY (-2061) (-3831),
     XY (-693) (-4044), X 693, XY 2061 (-3831), XY 1070 (-4247), XY 0 (-4380), XY (-1070) (-4247),
     XY (-2061) (-3831), XY (-2772) (-5152), XY (-4031) (-4281), XY (-5001) (-3093), XY (-5631) (-1695),
     XY (-5877) (-181), XY (-5724) 1345, XY (-5155) 2766, XY (-3833) 2057, XY (-4047) 677,
     XY (-4039) (-721), XY (-3811) (-2098), XY (-4239) (-1102), XY (-4380) (-24), XY (-4251) 1056,
     XY (-3833) 2057, XY (-5155) 2766, XY (-4272) 4041, XY (-3063) 5019, XY (-1641) 5646,
     XY (-104) 5879, XY 1441 5701, XY 2869 5098, XY 2134 3791, XY 719 4041, X (-720), XY (-2135) 3790,
     XY (-1112) 4237, XY (-1) 4380, XY 1110 4237, XY 2134 3791, XY 2869 5098, XY 4065 4249,
     XY 4991 3108, XY 5606 1774, XY 5871 328, XY 5769 (-1138), XY 5280 (-2520), XY 3926 (-1874),
     XY 3799 (-2119), XY 4036 (-735), XY 4048 671, XY 3832 2059, XY 3538 1998, XY 3755 525,
     XY 3714 (-965), XY 3416 (-2423), XY 3222 (-2907), XY 2846 (-3275), XY 2358 (-3458), XY 785 (-3737),
     XY (-816) (-3734), XY (-2389) (-3450), XY (-2868) (-3269), XY (-3236) (-2906), XY (-3424) (-2429),
     XY (-3729) (-830), XY (-3737) 801, XY (-3447) 2403, XY (-3257) 2890, XY (-2878) 3256,
     XY (-2385) 3430, XY (-2087) 3493, XY (-704) 3741, XY 704 3742, XY 2087 3493, XY 2361 3435,
     XY 2866 3255, XY 3255 2879, XY 3452 2380, XY 3538 1998, XY 3832 2059, XY 4235 1119, XY 4379 104,
     XY 4283 (-916), XY 3926 (-1874), XY 7852 (-3747), Z (-280), Z 10000]"

text \<open>Lines 10457 to 10552.\<close>

definition full_layer_119 :: "pline list" where
  "full_layer_119 = [
     XY 7860 (-3729), Z (-300), Z (-3300), XY 5285 (-2508), XY 4449 (-3844), XY 3265 (-4890),
     XY 1845 (-5583), XY 292 (-5873), XY (-1283) (-5738), XY (-2751) (-5163), XY (-2045) (-3839),
     XY (-688) (-4048), X 687, XY 2045 (-3839), XY 1061 (-4250), XY 0 (-4380), XY (-1061) (-4249),
     XY (-2045) (-3839), XY (-2751) (-5163), XY (-4013) (-4298), XY (-4988) (-3114), XY (-5624) (-1718),
     XY (-5876) (-205), XY (-5729) 1322, XY (-5166) 2745, XY (-3841) 2041, XY (-4049) 672,
     XY (-4042) (-715), XY (-3819) (-2082), XY (-4241) (-1093), XY (-4380) (-23), XY (-4253) 1048,
     XY (-3841) 2041, XY (-5166) 2745, XY (-4288) 4023, XY (-3084) 5006, XY (-1665) 5639,
     XY (-130) 5879, XY 1415 5707, XY 2846 5111, XY 2116 3801, XY 713 4045, XY (-714) 4044,
     XY (-2117) 3800, XY (-1102) 4239, XY (-1) 4380, XY 1100 4240, XY 2116 3801, XY 2846 5111,
     XY 4047 4266, XY 4979 3127, XY 5600 1793, XY 5870 346, XY 5772 (-1122), XY 5285 (-2508),
     XY 3930 (-1865), XY 3809 (-2102), XY 4040 (-728), XY 4051 666, XY 3841 2042, XY 3547 1983,
     XY 3759 515, XY 3717 (-970), XY 3423 (-2424), XY 3229 (-2911), XY 2852 (-3280), XY 2361 (-3464),
     XY 785 (-3740), XY (-817) (-3737), XY (-2392) (-3456), XY (-2873) (-3275), XY (-3243) (-2910),
     XY (-3430) (-2431), XY (-3732) (-830), XY (-3740) 802, XY (-3453) 2406, XY (-3263) 2895,
     XY (-2882) 3263, XY (-2387) 3436, XY (-2087) 3499, XY (-704) 3744, X 704, XY 2087 3499,
     XY 2363 3441, XY 2871 3262, XY 3261 2884, XY 3458 2382, XY 3547 1983, XY 3841 2042, XY 4238 1108,
     XY 4379 100, XY 4284 (-913), XY 3930 (-1865), XY 7860 (-3729), Z (-300), Z 10000]"

text \<open>Lines 10553 to 10648.\<close>

definition full_layer_120 :: "pline list" where
  "full_layer_120 = [
     XY 7868 (-3712), Z (-320), Z (-3320), XY 5291 (-2496), XY 4459 (-3833), XY 3279 (-4881),
     XY 1862 (-5577), XY 312 (-5872), XY (-1261) (-5743), XY (-2729) (-5174), XY (-2029) (-3848),
     XY (-682) (-4051), X 682, XY 2029 (-3848), XY 1052 (-4252), XY 0 (-4380), XY (-1053) (-4252),
     XY (-2029) (-3848), XY (-2729) (-5174), XY (-3995) (-4314), XY (-4975) (-3134), XY (-5616) (-1741),
     XY (-5876) (-229), XY (-5735) 1298, XY (-5177) 2724, XY (-3850) 2025, XY (-4053) 666,
     XY (-4046) (-709), XY (-3828) (-2066), XY (-4244) (-1084), XY (-4380) (-23), XY (-4255) 1039,
     XY (-3850) 2025, XY (-5177) 2724, XY (-4305) 4005, XY (-3106) 4993, XY (-1690) 5632,
     XY (-156) 5878, XY 1389 5714, XY 2823 5124, XY 2099 3810, XY 707 4048, X (-708), XY (-2100) 3810,
     XY (-1092) 4242, XY 0 4380, XY 1091 4242, XY 2099 3810, XY 2823 5124, XY 4029 4283, XY 4968 3146,
     XY 5594 1812, XY 5869 364, XY 5775 (-1108), XY 5291 (-2496), XY 3934 (-1856), XY 3818 (-2085),
     XY 4043 (-723), XY 4054 660, XY 3849 2026, XY 3555 1968, XY 3762 504, XY 3720 (-976),
     XY 3429 (-2426), XY 3236 (-2915), XY 2857 (-3286), XY 2364 (-3469), XY 786 (-3743),
     XY (-817) (-3740), XY (-2394) (-3462), XY (-2878) (-3281), XY (-3249) (-2915), XY (-3437) (-2433),
     XY (-3735) (-830), XY (-3743) 803, XY (-3459) 2409, XY (-3269) 2900, XY (-2887) 3269,
     XY (-2390) 3442, XY (-2087) 3505, XY (-703) 3747, X 703, XY 2087 3505, XY 2362 3448, XY 2874 3268,
     XY 3268 2886, XY 3465 2380, XY 3555 1968, XY 3849 2026, XY 4240 1097, XY 4379 96, XY 4284 (-911),
     XY 3934 (-1856), XY 7868 (-3712), Z (-320), Z 10000]"

text \<open>Lines 10649 to 10744.\<close>

definition full_layer_121 :: "pline list" where
  "full_layer_121 = [
     XY 7876 (-3695), Z (-340), Z (-3340), XY 5296 (-2485), XY 4468 (-3822), XY 3292 (-4872),
     XY 1880 (-5571), XY 332 (-5871), XY (-1239) (-5748), XY (-2708) (-5186), XY (-2014) (-3856),
     XY (-677) (-4054), X 676, XY 2013 (-3856), XY 1044 (-4254), XY 0 (-4380), XY (-1044) (-4254),
     XY (-2014) (-3856), XY (-2708) (-5186), XY (-3977) (-4331), XY (-4962) (-3155), XY (-5609) (-1764),
     XY (-5875) (-253), XY (-5740) 1275, XY (-5188) 2702, XY (-3858) 2009, XY (-4056) 661,
     XY (-4049) (-703), XY (-3837) (-2049), XY (-4246) (-1075), XY (-4380) (-23), XY (-4257) 1030,
     XY (-3858) 2009, XY (-5188) 2702, XY (-4322) 3987, XY (-3127) 4979, XY (-1714) 5625,
     XY (-182) 5877, XY 1364 5720, XY 2799 5137, XY 2082 3820, XY 701 4051, X (-701), XY (-2082) 3819,
     XY (-1082) 4244, XY 0 4380, XY 1081 4244, XY 2082 3820, XY 2799 5137, XY 4011 4299, XY 4956 3165,
     XY 5588 1830, XY 5868 381, XY 5778 (-1093), XY 5296 (-2485), XY 3938 (-1848), XY 3827 (-2069),
     XY 4047 (-717), XY 4057 655, XY 3858 2010, XY 3563 1953, XY 3765 493, XY 3722 (-982),
     XY 3436 (-2428), XY 3242 (-2919), XY 2861 (-3292), XY 2366 (-3475), XY 786 (-3746),
     XY (-818) (-3743), XY (-2397) (-3468), XY (-2883) (-3287), XY (-3256) (-2919), XY (-3443) (-2436),
     XY (-3738) (-831), XY (-3746) 804, XY (-3465) 2412, XY (-3275) 2905, XY (-2892) 3275,
     XY (-2393) 3449, XY (-2087) 3511, XY (-703) 3750, X 703, XY 2087 3511, XY 2363 3454, XY 2878 3274,
     XY 3274 2891, XY 3471 2381, XY 3563 1953, XY 3858 2010, XY 4243 1086, XY 4379 91, XY 4285 (-909),
     XY 3938 (-1848), XY 7876 (-3695), Z (-340), Z 10000]"

text \<open>Lines 10745 to 10842.\<close>

definition full_layer_122 :: "pline list" where
  "full_layer_122 = [
     XY 7884 (-3679), Z (-360), Z (-3360), XY 5301 (-2474), XY 4478 (-3811), XY 3306 (-4863),
     XY 1897 (-5566), XY 352 (-5869), XY (-1218) (-5753), XY (-2687) (-5197), XY (-1998) (-3864),
     XY (-671) (-4057), X 671, XY 1998 (-3864), XY 1035 (-4256), XY 0 (-4380), XY (-1035) (-4256),
     XY (-1998) (-3864), XY (-2687) (-5197), XY (-3964) (-4343), XY (-4955) (-3165), XY (-5607) (-1771),
     XY (-5874) (-255), XY (-5739) 1279, XY (-5184) 2711, XY (-3855) 2016, XY (-4056) 672,
     XY (-4053) (-689), XY (-3846) (-2032), XY (-4250) (-1058), XY (-4380) (-9), XY (-4255) 1041,
     XY (-3855) 2016, XY (-5184) 2711, XY (-4319) 3990, XY (-3129) 4978, XY (-1722) 5622,
     XY (-196) 5877, XY 1344 5724, XY 2776 5149, XY 2064 3829, XY 695 4055, X (-695), XY (-2065) 3829,
     XY (-1072) 4247, XY 0 4380, XY 1072 4247, XY 2064 3829, XY 2776 5149, XY 3994 4316, XY 4944 3183,
     XY 5582 1849, XY 5867 398, XY 5780 (-1078), XY 5301 (-2474), XY 3942 (-1839), XY 3835 (-2052),
     XY 4050 (-711), XY 4061 649, XY 3866 1993, XY 3572 1938, XY 3769 482, XY 3725 (-988),
     XY 3442 (-2430), XY 3249 (-2924), XY 2866 (-3298), XY 2369 (-3481), XY 787 (-3749),
     XY (-819) (-3746), XY (-2400) (-3474), XY (-2888) (-3294), XY (-3261) (-2926), XY (-3448) (-2441),
     XY (-3731) (-955), XY (-3762) 561, XY (-3541) 2058, XY (-3449) 2505, XY (-3370) 2680,
     XY (-3158) 3058, XY (-2816) 3331, XY (-2400) 3454, XY (-2087) 3517, XY (-703) 3753, X 703,
     XY 2087 3517, XY 2367 3460, XY 2884 3280, XY 3280 2896, XY 3477 2386, XY 3572 1938, XY 3866 1993,
     XY 4246 1075, XY 4379 86, XY 4285 (-906), XY 3942 (-1839), XY 7884 (-3679), Z (-360), Z 10000]"

text \<open>Lines 10843 to 10940.\<close>

definition full_layer_123 :: "pline list" where
  "full_layer_123 = [
     XY 7900 (-3643), Z (-380), Z (-3380), XY 5312 (-2450), XY 4495 (-3791), XY 3327 (-4848),
     XY 1921 (-5557), XY 377 (-5868), XY (-1194) (-5757), XY (-2666) (-5207), XY (-1982) (-3872),
     XY (-666) (-4061), X 666, XY 1982 (-3872), XY 1026 (-4258), XY 0 (-4380), XY (-1027) (-4258),
     XY (-1982) (-3872), XY (-2666) (-5207), XY (-3946) (-4359), XY (-4942) (-3186), XY (-5600) (-1794),
     XY (-5873) (-279), XY (-5744) 1255, XY (-5195) 2689, XY (-3863) 2000, XY (-4060) 666,
     XY (-4057) (-683), XY (-3855) (-2015), XY (-4252) (-1049), XY (-4380) (-9), XY (-4257) 1032,
     XY (-3863) 2000, XY (-5195) 2689, XY (-4336) 3971, XY (-3150) 4965, XY (-1746) 5615,
     XY (-222) 5876, XY 1319 5730, XY 2753 5162, XY 2047 3838, XY 689 4058, X (-689), XY (-2048) 3838,
     XY (-1063) 4249, XY 0 4380, XY 1062 4249, XY 2047 3838, XY 2753 5162, XY 3974 4334, XY 4930 3205,
     XY 5573 1874, XY 5865 424, XY 5785 (-1052), XY 5312 (-2450), XY 3950 (-1822), XY 3854 (-2018),
     XY 4055 (-692), XY 4062 651, XY 3874 1979, XY 3579 1925, XY 3770 471, XY 3729 (-998),
     XY 3456 (-2439), XY 3269 (-2928), XY 2894 (-3299), XY 2403 (-3480), XY 809 (-3750), X (-809),
     XY (-2403) (-3480), XY (-2892) (-3300), XY (-3267) (-2930), XY (-3454) (-2444), XY (-3734) (-956),
     XY (-3765) 560, XY (-3546) 2058, XY (-3456) 2505, XY (-3373) 2690, XY (-3161) 3067,
     XY (-2819) 3338, XY (-2405) 3460, XY (-2087) 3522, XY (-703) 3756, X 703, XY 2087 3522,
     XY 2365 3467, XY 2889 3285, XY 3290 2895, XY 3487 2376, XY 3579 1925, XY 3874 1979, XY 4248 1067,
     XY 4379 88, XY 4287 (-896), XY 3950 (-1822), XY 7900 (-3643), Z (-380), Z 10000]"

text \<open>Lines 10941 to 11038.\<close>

definition full_layer_124 :: "pline list" where
  "full_layer_124 = [
     XY 7908 (-3626), Z (-400), Z (-3400), XY 5318 (-2438), XY 4504 (-3780), XY 3340 (-4839),
     XY 1938 (-5552), XY 397 (-5867), XY (-1173) (-5762), XY (-2645) (-5218), XY (-1967) (-3880),
     XY (-660) (-4064), X 660, XY 1967 (-3880), XY 1018 (-4260), XY 0 (-4380), XY (-1018) (-4260),
     XY (-1967) (-3880), XY (-2645) (-5218), XY (-3929) (-4375), XY (-4929) (-3206), XY (-5592) (-1817),
     XY (-5872) (-303), XY (-5750) 1231, XY (-5206) 2667, XY (-3871) 1984, XY (-4063) 661,
     XY (-4060) (-677), XY (-3863) (-1999), XY (-4255) (-1040), XY (-4380) (-9), XY (-4259) 1023,
     XY (-3871) 1984, XY (-5206) 2667, XY (-4353) 3953, XY (-3171) 4951, XY (-1770) 5607,
     XY (-247) 5875, XY 1294 5736, XY 2731 5174, XY 2030 3847, XY 683 4061, X (-683), XY (-2030) 3847,
     XY (-1053) 4252, XY 0 4380, XY 1053 4252, XY 2030 3847, XY 2731 5174, XY 3957 4350, XY 4918 3223,
     XY 5567 1892, XY 5863 441, XY 5788 (-1038), XY 5318 (-2438), XY 3954 (-1813), XY 3862 (-2001),
     XY 4058 (-685), XY 4065 647, XY 3881 1965, XY 3586 1912, XY 3773 461, XY 3732 (-1004),
     XY 3462 (-2442), XY 3276 (-2933), XY 2899 (-3305), XY 2406 (-3486), XY 810 (-3753), X (-810),
     XY (-2406) (-3486), XY (-2897) (-3306), XY (-3274) (-2935), XY (-3461) (-2446), XY (-3737) (-957),
     XY (-3768) 559, XY (-3552) 2058, XY (-3463) 2505, XY (-3375) 2700, XY (-3164) 3076,
     XY (-2823) 3345, XY (-2410) 3466, XY (-2087) 3528, XY (-703) 3759, X 703, XY 2087 3528,
     XY 2405 3466, XY 2908 3294, XY 3294 2921, XY 3482 2423, XY 3586 1912, XY 3881 1965, XY 4250 1058,
     XY 4379 85, XY 4288 (-893), XY 3954 (-1813), XY 7908 (-3626), Z (-400), Z 10000]"

text \<open>Lines 11039 to 11135.\<close>

definition full_layer_125 :: "pline list" where
  "full_layer_125 = [
     XY 7916 (-3610), Z (-420), Z (-3420), XY 5323 (-2427), XY 4513 (-3769), XY 3354 (-4830),
     XY 1955 (-5545), XY 417 (-5865), XY (-1151) (-5766), XY (-2623) (-5229), XY (-1950) (-3888),
     XY (-655) (-4068), X 655, XY 1950 (-3888), XY 1009 (-4262), XY 0 (-4380), XY (-1009) (-4262),
     XY (-1950) (-3888), XY (-2623) (-5229), XY (-3910) (-4391), XY (-4916) (-3226), XY (-5585) (-1840),
     XY (-5871) (-328), XY (-5755) 1207, XY (-5217) 2646, XY (-3880) 1967, XY (-4066) 655,
     XY (-4064) (-672), XY (-3872) (-1983), XY (-4257) (-1031), XY (-4380) (-9), XY (-4261) 1014,
     XY (-3880) 1967, XY (-5217) 2646, XY (-4369) 3935, XY (-3192) 4938, XY (-1794) 5600,
     XY (-272) 5874, XY 1269 5742, XY 2708 5186, XY 2014 3856, XY 677 4065, X (-677), XY (-2013) 3856,
     XY (-1044) 4254, XY 0 4380, XY 1044 4254, XY 2014 3856, XY 2708 5186, XY 3939 4365, XY 4906 3241,
     XY 5561 1910, XY 5862 458, XY 5790 (-1023), XY 5323 (-2427), XY 3958 (-1805), XY 3871 (-1985),
     XY 4062 (-680), XY 4068 641, XY 3889 1949, XY 3593 1897, XY 3777 447, XY 3734 (-1017),
     XY 3466 (-2454), XY 3282 (-2942), XY 2908 (-3311), XY 2419 (-3489), XY 818 (-3756),
     XY (-807) (-3757), XY (-2409) (-3492), XY (-2903) (-3312), XY (-3280) (-2939), XY (-3467) (-2448),
     XY (-3741) (-958), XY (-3771) 558, XY (-3557) 2058, XY (-3470) 2505, XY (-3378) 2710,
     XY (-3167) 3084, XY (-2827) 3353, XY (-2414) 3471, XY (-2087) 3534, XY (-703) 3762, X 703,
     XY 2087 3534, XY 2406 3473, XY 2912 3300, XY 3300 2925, XY 3488 2425, XY 3593 1897, XY 3889 1949,
     XY 4319 728, XY 4343 (-569), XY 3958 (-1805), XY 7916 (-3610), Z (-420), Z 10000]"

text \<open>Lines 11136 to 11232.\<close>

definition full_layer_126 :: "pline list" where
  "full_layer_126 = [
     XY 7923 (-3594), Z (-440), Z (-3440), XY 5328 (-2416), XY 4522 (-3759), XY 3367 (-4821),
     XY 1972 (-5539), XY 437 (-5864), XY (-1130) (-5770), XY (-2602) (-5239), XY (-1935) (-3896),
     XY (-649) (-4071), X 649, XY 1935 (-3896), XY 1001 (-4264), XY 0 (-4380), XY (-1001) (-4264),
     XY (-1935) (-3896), XY (-2602) (-5239), XY (-3893) (-4407), XY (-4903) (-3246), XY (-5577) (-1862),
     XY (-5869) (-351), XY (-5760) 1184, XY (-5228) 2624, XY (-3888) 1951, XY (-4070) 650,
     XY (-4067) (-666), XY (-3880) (-1967), XY (-4259) (-1023), XY (-4380) (-9), XY (-4263) 1005,
     XY (-3888) 1951, XY (-5228) 2624, XY (-4386) 3917, XY (-3213) 4925, XY (-1818) 5592,
     XY (-297) 5872, XY 1244 5747, XY 2685 5197, XY 1997 3865, XY 671 4068, X (-671), XY (-1996) 3865,
     XY (-1034) 4256, XY 0 4380, XY 1035 4256, XY 1997 3865, XY 2685 5197, XY 3922 4381, XY 4895 3258,
     XY 5555 1928, XY 5861 474, XY 5793 (-1009), XY 5328 (-2416), XY 3962 (-1797), XY 3879 (-1969),
     XY 4065 (-674), XY 4071 636, XY 3897 1933, XY 3601 1883, XY 3780 436, XY 3737 (-1023),
     XY 3472 (-2457), XY 3288 (-2946), XY 2913 (-3317), XY 2422 (-3495), XY 815 (-3760), X (-815),
     XY (-2422) (-3495), XY (-2912) (-3318), XY (-3287) (-2948), XY (-3471) (-2460), XY (-3743) (-966),
     XY (-3774) 554, XY (-3563) 2058, XY (-3477) 2505, XY (-3393) 2692, XY (-3172) 3081,
     XY (-2818) 3359, XY (-2389) 3483, XY (-2087) 3540, XY (-702) 3765, X 702, XY 2087 3540,
     XY 2408 3479, XY 2917 3307, XY 3306 2930, XY 3494 2427, XY 3601 1883, XY 3897 1933, XY 4320 720,
     XY 4343 (-569), XY 3962 (-1797), XY 7923 (-3594), Z (-440), Z 10000]"

text \<open>Lines 11233 to 11329.\<close>

definition full_layer_127 :: "pline list" where
  "full_layer_127 = [
     XY 7931 (-3577), Z (-460), Z (-3460), XY 5333 (-2405), XY 4531 (-3748), XY 3380 (-4812),
     XY 1988 (-5534), XY 456 (-5862), XY (-1109) (-5774), XY (-2582) (-5249), XY (-1920) (-3903),
     XY (-644) (-4074), X 644, XY 1920 (-3904), XY 992 (-4266), XY 0 (-4380), XY (-992) (-4266),
     XY (-1920) (-3903), XY (-2582) (-5249), XY (-3875) (-4422), XY (-4890) (-3265), XY (-5570) (-1885),
     XY (-5868) (-375), XY (-5764) 1160, XY (-5239) 2603, XY (-3896) 1936, XY (-4073) 644,
     XY (-4070) (-661), XY (-3888) (-1951), XY (-4261) (-1014), XY (-4380) (-9), XY (-4265) 997,
     XY (-3896) 1936, XY (-5239) 2603, XY (-4402) 3898, XY (-3233) 4911, XY (-1842) 5584,
     XY (-322) 5871, XY 1219 5752, XY 2663 5209, XY 1980 3873, XY 666 4071, XY (-665) 4072,
     XY (-1979) 3874, XY (-1025) 4258, XY 0 4380, XY 1026 4258, XY 1980 3873, XY 2663 5209,
     XY 3905 4396, XY 4883 3276, XY 5549 1946, XY 5859 491, XY 5795 (-995), XY 5333 (-2405),
     XY 3965 (-1789), XY 3887 (-1953), XY 4069 (-668), XY 4074 631, XY 3904 1918, XY 3608 1869,
     XY 3783 426, XY 3739 (-1029), XY 3479 (-2459), XY 3295 (-2951), XY 2918 (-3323), XY 2425 (-3502),
     XY 816 (-3763), X (-816), XY (-2424) (-3502), XY (-2917) (-3324), XY (-3293) (-2953),
     XY (-3477) (-2463), XY (-3746) (-968), XY (-3777) 553, XY (-3569) 2058, XY (-3484) 2505,
     XY (-3395) 2702, XY (-3175) 3089, XY (-2822) 3367, XY (-2394) 3489, XY (-2087) 3546,
     XY (-702) 3768, X 702, XY 2087 3546, XY 2411 3485, XY 2921 3314, XY 3312 2935, XY 3500 2430,
     XY 3608 1869, XY 3904 1918, XY 4322 711, XY 4343 (-569), XY 3965 (-1789), XY 7931 (-3577),
     Z (-460), Z 10000]"

definition full_layers_b :: "pline list list" where
  "full_layers_b = [
     full_layer_064, full_layer_065, full_layer_066, full_layer_067, full_layer_068, full_layer_069,
     full_layer_070, full_layer_071, full_layer_072, full_layer_073, full_layer_074, full_layer_075,
     full_layer_076, full_layer_077, full_layer_078, full_layer_079, full_layer_080, full_layer_081,
     full_layer_082, full_layer_083, full_layer_084, full_layer_085, full_layer_086, full_layer_087,
     full_layer_088, full_layer_089, full_layer_090, full_layer_091, full_layer_092, full_layer_093,
     full_layer_094, full_layer_095, full_layer_096, full_layer_097, full_layer_098, full_layer_099,
     full_layer_100, full_layer_101, full_layer_102, full_layer_103, full_layer_104, full_layer_105,
     full_layer_106, full_layer_107, full_layer_108, full_layer_109, full_layer_110, full_layer_111,
     full_layer_112, full_layer_113, full_layer_114, full_layer_115, full_layer_116, full_layer_117,
     full_layer_118, full_layer_119, full_layer_120, full_layer_121, full_layer_122, full_layer_123,
     full_layer_124, full_layer_125, full_layer_126, full_layer_127]"

section \<open>The layers one by one\<close>

lemma full_layer_064_ok: "full_group full_layer_064 (3, -8700) (3, -8700) (-2200)"
  by code_simp

lemma full_layer_065_ok: "full_group full_layer_065 (3, -8700) (4, -8700) (-2220)"
  by code_simp

lemma full_layer_066_ok: "full_group full_layer_066 (4, -8700) (4, -8700) (-2240)"
  by code_simp

lemma full_layer_067_ok: "full_group full_layer_067 (4, -8700) (4, -8700) (-2260)"
  by code_simp

lemma full_layer_068_ok: "full_group full_layer_068 (4, -8700) (5, -8700) (-2280)"
  by code_simp

lemma full_layer_069_ok: "full_group full_layer_069 (5, -8700) (-5, -8700) (-2300)"
  by code_simp

lemma full_layer_070_ok: "full_group full_layer_070 (-5, -8700) (-5, -8700) (-2320)"
  by code_simp

lemma full_layer_071_ok: "full_group full_layer_071 (-5, -8700) (6, -8700) (-2340)"
  by code_simp

lemma full_layer_072_ok: "full_group full_layer_072 (6, -8700) (-4, -8700) (-2360)"
  by code_simp

lemma full_layer_073_ok: "full_group full_layer_073 (-4, -8700) (7, -8700) (-2380)"
  by code_simp

lemma full_layer_074_ok: "full_group full_layer_074 (7, -8700) (7, -8700) (-2400)"
  by code_simp

lemma full_layer_075_ok: "full_group full_layer_075 (7, -8700) (7, -8700) (-2420)"
  by code_simp

lemma full_layer_076_ok: "full_group full_layer_076 (7, -8700) (7, -8700) (-2440)"
  by code_simp

lemma full_layer_077_ok: "full_group full_layer_077 (7, -8700) (-3, -8700) (-2460)"
  by code_simp

lemma full_layer_078_ok: "full_group full_layer_078 (-3, -8700) (-3, -8700) (-2480)"
  by code_simp

lemma full_layer_079_ok: "full_group full_layer_079 (-3, -8700) (-3, -8700) (-2500)"
  by code_simp

lemma full_layer_080_ok: "full_group full_layer_080 (-3, -8700) (-2, -8700) (-2520)"
  by code_simp

lemma full_layer_081_ok: "full_group full_layer_081 (-2, -8700) (-2, -8700) (-2540)"
  by code_simp

lemma full_layer_082_ok: "full_group full_layer_082 (-2, -8700) (-75, -8700) (-2560)"
  by code_simp

lemma full_layer_083_ok: "full_group full_layer_083 (-75, -8700) (-8697, -223) (-2580)"
  by code_simp

lemma full_layer_084_ok: "full_group full_layer_084 (-8697, -223) (-8698, -190) (-2600)"
  by code_simp

lemma full_layer_085_ok: "full_group full_layer_085 (-8698, -190) (-8699, -159) (-2620)"
  by code_simp

lemma full_layer_086_ok: "full_group full_layer_086 (-8699, -159) (-8699, -142) (-2640)"
  by code_simp

lemma full_layer_087_ok: "full_group full_layer_087 (-8699, -142) (-5153, 7010) (-2660)"
  by code_simp

lemma full_layer_088_ok: "full_group full_layer_088 (-5153, 7010) (8699, -143) (-2680)"
  by code_simp

lemma full_layer_089_ok: "full_group full_layer_089 (8699, -143) (8699, -125) (-2700)"
  by code_simp

lemma full_layer_090_ok: "full_group full_layer_090 (8699, -125) (8700, -84) (-2720)"
  by code_simp

lemma full_layer_091_ok: "full_group full_layer_091 (8700, -84) (8700, -78) (-2740)"
  by code_simp

lemma full_layer_092_ok: "full_group full_layer_092 (8700, -78) (8700, -92) (-2760)"
  by code_simp

lemma full_layer_093_ok: "full_group full_layer_093 (8700, -92) (8700, -77) (-2780)"
  by code_simp

lemma full_layer_094_ok: "full_group full_layer_094 (8700, -77) (8699, -93) (-2800)"
  by code_simp

lemma full_layer_095_ok: "full_group full_layer_095 (8699, -93) (8700, -91) (-2820)"
  by code_simp

lemma full_layer_096_ok: "full_group full_layer_096 (8700, -91) (8700, -90) (-2840)"
  by code_simp

lemma full_layer_097_ok: "full_group full_layer_097 (8700, -90) (8700, -87) (-2860)"
  by code_simp

lemma full_layer_098_ok: "full_group full_layer_098 (8700, -87) (8700, -85) (-2880)"
  by code_simp

lemma full_layer_099_ok: "full_group full_layer_099 (8700, -85) (7673, -4100) (-2900)"
  by code_simp

lemma full_layer_100_ok: "full_group full_layer_100 (7673, -4100) (7685, -4078) (-2920)"
  by code_simp

lemma full_layer_101_ok: "full_group full_layer_101 (7685, -4078) (7697, -4055) (-2940)"
  by code_simp

lemma full_layer_102_ok: "full_group full_layer_102 (7697, -4055) (7709, -4033) (-2960)"
  by code_simp

lemma full_layer_103_ok: "full_group full_layer_103 (7709, -4033) (7707, -4037) (-2980)"
  by code_simp

lemma full_layer_104_ok: "full_group full_layer_104 (7707, -4037) (7717, -4016) (-3000)"
  by code_simp

lemma full_layer_105_ok: "full_group full_layer_105 (7717, -4016) (7728, -3996) (-3020)"
  by code_simp

lemma full_layer_106_ok: "full_group full_layer_106 (7728, -3996) (7738, -3976) (-3040)"
  by code_simp

lemma full_layer_107_ok: "full_group full_layer_107 (7738, -3976) (7748, -3956) (-3060)"
  by code_simp

lemma full_layer_108_ok: "full_group full_layer_108 (7748, -3956) (7762, -3929) (-3080)"
  by code_simp

lemma full_layer_109_ok: "full_group full_layer_109 (7762, -3929) (7771, -3912) (-3100)"
  by code_simp

lemma full_layer_110_ok: "full_group full_layer_110 (7771, -3912) (7780, -3894) (-3120)"
  by code_simp

lemma full_layer_111_ok: "full_group full_layer_111 (7780, -3894) (7789, -3875) (-3140)"
  by code_simp

lemma full_layer_112_ok: "full_group full_layer_112 (7789, -3875) (7798, -3857) (-3160)"
  by code_simp

lemma full_layer_113_ok: "full_group full_layer_113 (7798, -3857) (7807, -3839) (-3180)"
  by code_simp

lemma full_layer_114_ok: "full_group full_layer_114 (7807, -3839) (7816, -3821) (-3200)"
  by code_simp

lemma full_layer_115_ok: "full_group full_layer_115 (7816, -3821) (7825, -3803) (-3220)"
  by code_simp

lemma full_layer_116_ok: "full_group full_layer_116 (7825, -3803) (7834, -3784) (-3240)"
  by code_simp

lemma full_layer_117_ok: "full_group full_layer_117 (7834, -3784) (7843, -3766) (-3260)"
  by code_simp

lemma full_layer_118_ok: "full_group full_layer_118 (7843, -3766) (7852, -3747) (-3280)"
  by code_simp

lemma full_layer_119_ok: "full_group full_layer_119 (7852, -3747) (7860, -3729) (-3300)"
  by code_simp

lemma full_layer_120_ok: "full_group full_layer_120 (7860, -3729) (7868, -3712) (-3320)"
  by code_simp

lemma full_layer_121_ok: "full_group full_layer_121 (7868, -3712) (7876, -3695) (-3340)"
  by code_simp

lemma full_layer_122_ok: "full_group full_layer_122 (7876, -3695) (7884, -3679) (-3360)"
  by code_simp

lemma full_layer_123_ok: "full_group full_layer_123 (7884, -3679) (7900, -3643) (-3380)"
  by code_simp

lemma full_layer_124_ok: "full_group full_layer_124 (7900, -3643) (7908, -3626) (-3400)"
  by code_simp

lemma full_layer_125_ok: "full_group full_layer_125 (7908, -3626) (7916, -3610) (-3420)"
  by code_simp

lemma full_layer_126_ok: "full_group full_layer_126 (7916, -3610) (7923, -3594) (-3440)"
  by code_simp

lemma full_layer_127_ok: "full_group full_layer_127 (7923, -3594) (7931, -3577) (-3460)"
  by code_simp

lemmas full_layers_b_ok =
  full_layer_064_ok full_layer_065_ok full_layer_066_ok full_layer_067_ok full_layer_068_ok
  full_layer_069_ok full_layer_070_ok full_layer_071_ok full_layer_072_ok full_layer_073_ok
  full_layer_074_ok full_layer_075_ok full_layer_076_ok full_layer_077_ok full_layer_078_ok
  full_layer_079_ok full_layer_080_ok full_layer_081_ok full_layer_082_ok full_layer_083_ok
  full_layer_084_ok full_layer_085_ok full_layer_086_ok full_layer_087_ok full_layer_088_ok
  full_layer_089_ok full_layer_090_ok full_layer_091_ok full_layer_092_ok full_layer_093_ok
  full_layer_094_ok full_layer_095_ok full_layer_096_ok full_layer_097_ok full_layer_098_ok
  full_layer_099_ok full_layer_100_ok full_layer_101_ok full_layer_102_ok full_layer_103_ok
  full_layer_104_ok full_layer_105_ok full_layer_106_ok full_layer_107_ok full_layer_108_ok
  full_layer_109_ok full_layer_110_ok full_layer_111_ok full_layer_112_ok full_layer_113_ok
  full_layer_114_ok full_layer_115_ok full_layer_116_ok full_layer_117_ok full_layer_118_ok
  full_layer_119_ok full_layer_120_ok full_layer_121_ok full_layer_122_ok full_layer_123_ok
  full_layer_124_ok full_layer_125_ok full_layer_126_ok full_layer_127_ok

definition full_groups_b :: "(pline list \<times> (int \<times> int) \<times> int list) list" where
  "full_groups_b = [
     (full_layer_064, (3, -8700), [-2200]), (full_layer_065, (4, -8700), [-2220]),
     (full_layer_066, (4, -8700), [-2240]), (full_layer_067, (4, -8700), [-2260]),
     (full_layer_068, (5, -8700), [-2280]), (full_layer_069, (-5, -8700), [-2300]),
     (full_layer_070, (-5, -8700), [-2320]), (full_layer_071, (6, -8700), [-2340]),
     (full_layer_072, (-4, -8700), [-2360]), (full_layer_073, (7, -8700), [-2380]),
     (full_layer_074, (7, -8700), [-2400]), (full_layer_075, (7, -8700), [-2420]),
     (full_layer_076, (7, -8700), [-2440]), (full_layer_077, (-3, -8700), [-2460]),
     (full_layer_078, (-3, -8700), [-2480]), (full_layer_079, (-3, -8700), [-2500]),
     (full_layer_080, (-2, -8700), [-2520]), (full_layer_081, (-2, -8700), [-2540]),
     (full_layer_082, (-75, -8700), [-2560]), (full_layer_083, (-8697, -223), [-2580]),
     (full_layer_084, (-8698, -190), [-2600]), (full_layer_085, (-8699, -159), [-2620]),
     (full_layer_086, (-8699, -142), [-2640]), (full_layer_087, (-5153, 7010), [-2660]),
     (full_layer_088, (8699, -143), [-2680]), (full_layer_089, (8699, -125), [-2700]),
     (full_layer_090, (8700, -84), [-2720]), (full_layer_091, (8700, -78), [-2740]),
     (full_layer_092, (8700, -92), [-2760]), (full_layer_093, (8700, -77), [-2780]),
     (full_layer_094, (8699, -93), [-2800]), (full_layer_095, (8700, -91), [-2820]),
     (full_layer_096, (8700, -90), [-2840]), (full_layer_097, (8700, -87), [-2860]),
     (full_layer_098, (8700, -85), [-2880]), (full_layer_099, (7673, -4100), [-2900]),
     (full_layer_100, (7685, -4078), [-2920]), (full_layer_101, (7697, -4055), [-2940]),
     (full_layer_102, (7709, -4033), [-2960]), (full_layer_103, (7707, -4037), [-2980]),
     (full_layer_104, (7717, -4016), [-3000]), (full_layer_105, (7728, -3996), [-3020]),
     (full_layer_106, (7738, -3976), [-3040]), (full_layer_107, (7748, -3956), [-3060]),
     (full_layer_108, (7762, -3929), [-3080]), (full_layer_109, (7771, -3912), [-3100]),
     (full_layer_110, (7780, -3894), [-3120]), (full_layer_111, (7789, -3875), [-3140]),
     (full_layer_112, (7798, -3857), [-3160]), (full_layer_113, (7807, -3839), [-3180]),
     (full_layer_114, (7816, -3821), [-3200]), (full_layer_115, (7825, -3803), [-3220]),
     (full_layer_116, (7834, -3784), [-3240]), (full_layer_117, (7843, -3766), [-3260]),
     (full_layer_118, (7852, -3747), [-3280]), (full_layer_119, (7860, -3729), [-3300]),
     (full_layer_120, (7868, -3712), [-3320]), (full_layer_121, (7876, -3695), [-3340]),
     (full_layer_122, (7884, -3679), [-3360]), (full_layer_123, (7900, -3643), [-3380]),
     (full_layer_124, (7908, -3626), [-3400]), (full_layer_125, (7916, -3610), [-3420]),
     (full_layer_126, (7923, -3594), [-3440]), (full_layer_127, (7931, -3577), [-3460])]"

lemma full_b_chained: "chained 1 full_box full_groups_b (3, -8700)"
  by (simp add: full_groups_b_def full_layers_b_ok)

lemma full_b_groups:
  "map fst full_groups_b = full_layers_b" "last (p # map (fst \<circ> snd) full_groups_b) = (7931, -3577)"
  "concat (map (snd \<circ> snd) full_groups_b) = [
    -2200, -2220, -2240, -2260, -2280, -2300, -2320, -2340, -2360, -2380, -2400, -2420, -2440, -2460,
    -2480, -2500, -2520, -2540, -2560, -2580, -2600, -2620, -2640, -2660, -2680, -2700, -2720, -2740,
    -2760, -2780, -2800, -2820, -2840, -2860, -2880, -2900, -2920, -2940, -2960, -2980, -3000, -3020,
    -3040, -3060, -3080, -3100, -3120, -3140, -3160, -3180, -3200, -3220, -3240, -3260, -3280, -3300,
    -3320, -3340, -3360, -3380, -3400, -3420, -3440, -3460]"
  by (simp_all add: full_groups_b_def full_layers_b_def)

lemma full_b_depths: "map full_depth [64..<128] = concat (map (snd \<circ> snd) full_groups_b)"
  unfolding full_b_groups by code_simp

lemma full_b_group: "mills_group 1 full_box (concat full_layers_b) (3, -8700) (7931, -3577) (map full_depth [64..<128])"
  using chained_group [OF full_b_chained] by (simp only: full_b_groups full_b_depths)

lemma full_b_lengths: "map length full_layers_b = [
    87, 87, 87, 86, 86, 87, 87, 86, 83, 84, 84, 84, 84, 83, 83, 84, 85, 82, 116, 122, 119, 119, 119,
    116, 114, 111, 109, 109, 109, 105, 111, 110, 103, 102, 101, 100, 99, 99, 96, 98, 97, 98, 100, 99,
    100, 100, 100, 100, 98, 98, 98, 97, 97, 97, 96, 96, 96, 96, 98, 98, 98, 97, 97, 97]"
  by (simp add: full_layers_b_def
      full_layer_064_def full_layer_065_def full_layer_066_def full_layer_067_def
      full_layer_068_def full_layer_069_def full_layer_070_def full_layer_071_def
      full_layer_072_def full_layer_073_def full_layer_074_def full_layer_075_def
      full_layer_076_def full_layer_077_def full_layer_078_def full_layer_079_def
      full_layer_080_def full_layer_081_def full_layer_082_def full_layer_083_def
      full_layer_084_def full_layer_085_def full_layer_086_def full_layer_087_def
      full_layer_088_def full_layer_089_def full_layer_090_def full_layer_091_def
      full_layer_092_def full_layer_093_def full_layer_094_def full_layer_095_def
      full_layer_096_def full_layer_097_def full_layer_098_def full_layer_099_def
      full_layer_100_def full_layer_101_def full_layer_102_def full_layer_103_def
      full_layer_104_def full_layer_105_def full_layer_106_def full_layer_107_def
      full_layer_108_def full_layer_109_def full_layer_110_def full_layer_111_def
      full_layer_112_def full_layer_113_def full_layer_114_def full_layer_115_def
      full_layer_116_def full_layer_117_def full_layer_118_def full_layer_119_def
      full_layer_120_def full_layer_121_def full_layer_122_def full_layer_123_def
      full_layer_124_def full_layer_125_def full_layer_126_def full_layer_127_def)

lemma full_b_length: "length (concat full_layers_b) = 6264"
  by (simp add: length_concat full_b_lengths)

end
