(* ===== verification/Gcode_Full_C.thy ===== *)
theory Gcode_Full_C
  imports Gcode_Full_Shape
begin

text \<open>
  Layers 128 to 195 of the full part program, lines 11330 to 17356 of the file.
\<close>

section \<open>The lines of the file\<close>

text \<open>Lines 11330 to 11426.\<close>

definition full_layer_128 :: "pline list" where
  "full_layer_128 = [
     XY 7938 (-3561), Z (-480), Z (-3480), XY 5337 (-2395), XY 4540 (-3737), XY 3393 (-4803),
     XY 2005 (-5528), XY 475 (-5861), XY (-1088) (-5778), XY (-2561) (-5259), XY (-1905) (-3911),
     XY (-639) (-4077), X 639, XY 1904 (-3911), XY 984 (-4268), XY 0 (-4380), XY (-984) (-4268),
     XY (-1905) (-3911), XY (-2561) (-5259), XY (-3858) (-4438), XY (-4877) (-3285), XY (-5562) (-1907),
     XY (-5866) (-399), XY (-5769) 1137, XY (-5250) 2582, XY (-3904) 1920, XY (-4076) 639,
     XY (-4073) (-655), XY (-3896) (-1935), XY (-4263) (-1005), XY (-4380) (-9), XY (-4267) 988,
     XY (-3904) 1920, XY (-5250) 2582, XY (-4418) 3880, XY (-3254) 4898, XY (-1865) 5576,
     XY (-347) 5870, XY 1195 5757, XY 2641 5220, XY 1963 3882, XY 660 4075, X (-659), XY (-1963) 3882,
     XY (-1016) 4261, XY 0 4380, XY 1016 4260, XY 1963 3882, XY 2641 5220, XY 3888 4412, XY 4871 3293,
     XY 5543 1963, XY 5858 507, XY 5798 (-981), XY 5337 (-2395), XY 3969 (-1781), XY 3895 (-1938),
     XY 4072 (-663), XY 4078 626, XY 3912 1902, XY 3616 1854, XY 3786 415, XY 3742 (-1035),
     XY 3485 (-2462), XY 3302 (-2956), XY 2923 (-3330), XY 2427 (-3508), XY 817 (-3766), X (-816),
     XY (-2427) (-3508), XY (-2922) (-3330), XY (-3300) (-2958), XY (-3484) (-2465), XY (-3750) (-969),
     XY (-3780) 552, XY (-3574) 2058, XY (-3491) 2505, XY (-3389) 2732, XY (-3177) 3107,
     XY (-2835) 3375, XY (-2420) 3491, XY (-2087) 3552, XY (-702) 3771, X 702, XY 2087 3551,
     XY 2412 3492, XY 2926 3320, XY 3319 2940, XY 3507 2432, XY 3616 1854, XY 3912 1902, XY 4323 703,
     XY 4343 (-569), XY 3969 (-1781), XY 7938 (-3561), Z (-480), Z 10000]"

text \<open>Lines 11427 to 11523.\<close>

definition full_layer_129 :: "pline list" where
  "full_layer_129 = [
     XY 7945 (-3545), Z (-500), Z (-3500), XY 5342 (-2384), XY 4548 (-3727), XY 3405 (-4794),
     XY 2021 (-5522), XY 494 (-5859), XY (-1068) (-5782), XY (-2541) (-5269), XY (-1889) (-3918),
     XY (-634) (-4080), X 634, XY 1889 (-3918), XY 976 (-4270), XY 0 (-4380), XY (-976) (-4270),
     XY (-1889) (-3918), XY (-2541) (-5269), XY (-3840) (-4453), XY (-4864) (-3304), XY (-5555) (-1929),
     XY (-5865) (-422), XY (-5774) 1114, XY (-5260) 2560, XY (-3911) 1904, XY (-4079) 633,
     XY (-4077) (-650), XY (-3904) (-1920), XY (-4265) (-997), XY (-4380) (-9), XY (-4269) 979,
     XY (-3911) 1904, XY (-5260) 2560, XY (-4434) 3862, XY (-3274) 4884, XY (-1888) 5569,
     XY (-372) 5868, XY 1171 5762, XY 2618 5231, XY 1947 3890, XY 654 4078, X (-653), XY (-1946) 3891,
     XY (-1006) 4263, XY 1 4380, XY 1007 4263, XY 1947 3890, XY 2618 5231, XY 3870 4427, XY 4860 3310,
     XY 5536 1980, XY 5857 523, XY 5800 (-967), XY 5342 (-2384), XY 3972 (-1773), XY 3902 (-1922),
     XY 4075 (-657), XY 4081 621, XY 3919 1887, XY 3623 1840, XY 3789 405, XY 3745 (-1041),
     XY 3491 (-2464), XY 3308 (-2960), XY 2928 (-3336), XY 2430 (-3514), XY 818 (-3768),
     XY (-817) (-3769), XY (-2429) (-3514), XY (-2927) (-3337), XY (-3306) (-2962), XY (-3490) (-2467),
     XY (-3753) (-970), XY (-3783) 551, XY (-3580) 2058, XY (-3498) 2505, XY (-3393) 2739,
     XY (-3180) 3114, XY (-2837) 3382, XY (-2422) 3497, XY (-2087) 3558, XY (-702) 3774, X 702,
     XY 2087 3557, XY 2414 3498, XY 2931 3327, XY 3325 2945, XY 3513 2434, XY 3623 1840, XY 3919 1887,
     XY 4325 695, XY 4343 (-569), XY 3972 (-1773), XY 7945 (-3545), Z (-500), Z 10000]"

text \<open>Lines 11524 to 11619.\<close>

definition full_layer_130 :: "pline list" where
  "full_layer_130 = [
     XY 7952 (-3529), Z (-520), Z (-3520), XY 5347 (-2373), XY 4557 (-3716), XY 3418 (-4784),
     XY 2038 (-5515), XY 514 (-5857), XY (-1046) (-5786), XY (-2519) (-5280), XY (-1873) (-3926),
     XY (-628) (-4084), X 628, XY 1873 (-3926), XY 647 (-4332), X (-648), XY (-1873) (-3926),
     XY (-2519) (-5280), XY (-3822) (-4468), XY (-4850) (-3324), XY (-5547) (-1952), XY (-5863) (-446),
     XY (-5778) 1091, XY (-5270) 2539, XY (-3919) 1888, XY (-4083) 628, XY (-4080) (-644),
     XY (-3911) (-1904), XY (-4267) (-988), XY (-4380) (-9), XY (-4271) 971, XY (-3919) 1888,
     XY (-5270) 2539, XY (-4449) 3844, XY (-3294) 4871, XY (-1911) 5561, XY (-396) 5867, XY 1146 5767,
     XY 2596 5242, XY 1931 3898, XY 649 4081, X (-647), XY (-1929) 3899, XY (-997) 4265, XY 1 4380,
     XY 999 4265, XY 1931 3898, XY 2596 5242, XY 3853 4441, XY 4848 3327, XY 5530 1998, XY 5855 539,
     XY 5802 (-954), XY 5347 (-2373), XY 3976 (-1765), XY 3910 (-1906), XY 4078 (-651), XY 4084 616,
     XY 3927 1872, XY 3630 1826, XY 3792 395, XY 3748 (-1047), XY 3498 (-2466), XY 3315 (-2965),
     XY 2934 (-3342), XY 2433 (-3520), XY 818 (-3772), X (-818), XY (-2433) (-3520), XY (-2932) (-3343),
     XY (-3313) (-2967), XY (-3497) (-2469), XY (-3756) (-971), XY (-3786) 551, XY (-3586) 2058,
     XY (-3505) 2505, XY (-3396) 2746, XY (-3183) 3122, XY (-2840) 3389, XY (-2424) 3504,
     XY (-2087) 3563, XY (-702) 3777, X 702, XY 2087 3563, XY 2416 3505, XY 2935 3333, XY 3331 2949,
     XY 3519 2436, XY 3630 1826, XY 3927 1872, XY 4326 686, XY 4343 (-569), XY 3976 (-1765),
     XY 7952 (-3529), Z (-520), Z 10000]"

text \<open>Lines 11620 to 11714.\<close>

definition full_layer_131 :: "pline list" where
  "full_layer_131 = [
     XY 7959 (-3513), Z (-540), Z (-3540), XY 5352 (-2362), XY 4566 (-3705), XY 3431 (-4775),
     XY 2054 (-5509), XY 533 (-5856), XY (-1025) (-5790), XY (-2499) (-5289), XY (-1858) (-3933),
     XY (-623) (-4087), X 623, XY 1858 (-3933), XY 642 (-4333), X (-642), XY (-1858) (-3933),
     XY (-2499) (-5289), XY (-3805) (-4483), XY (-4838) (-3343), XY (-5539) (-1973), XY (-5861) (-469),
     XY (-5782) 1068, XY (-5280) 2518, XY (-3926) 1872, XY (-4086) 622, XY (-4083) (-639),
     XY (-3919) (-1888), XY (-4330) (-659), XY (-4333) 642, XY (-3926) 1872, XY (-5280) 2518,
     XY (-4465) 3826, XY (-3314) 4857, XY (-1934) 5553, XY (-420) 5865, XY 1122 5772, XY 2574 5253,
     XY 1914 3906, XY 643 4085, X (-642), XY (-1913) 3907, XY (-988) 4267, XY 1 4380, XY 990 4267,
     XY 1914 3906, XY 2574 5253, XY 3836 4456, XY 4837 3344, XY 5524 2015, XY 5854 555, XY 5804 (-940),
     XY 5352 (-2362), XY 3980 (-1757), XY 3918 (-1891), XY 4082 (-646), XY 4087 611, XY 3934 1857,
     XY 3637 1812, XY 3796 384, XY 3751 (-1053), XY 3504 (-2468), XY 3322 (-2969), XY 2939 (-3348),
     XY 2436 (-3526), XY 819 (-3775), X (-818), XY (-2435) (-3526), XY (-2937) (-3349),
     XY (-3320) (-2971), XY (-3503) (-2471), XY (-3759) (-972), XY (-3789) 550, XY (-3591) 2058,
     XY (-3512) 2505, XY (-3400) 2754, XY (-3186) 3129, XY (-2842) 3396, XY (-2425) 3510,
     XY (-2087) 3569, XY (-702) 3781, XY 702 3780, XY 2087 3569, XY 2418 3511, XY 2939 3340,
     XY 3338 2954, XY 3525 2437, XY 3637 1812, XY 3934 1857, XY 4327 678, XY 4343 (-568),
     XY 3980 (-1757), XY 7959 (-3513), Z (-540), Z 10000]"

text \<open>Lines 11715 to 11809.\<close>

definition full_layer_132 :: "pline list" where
  "full_layer_132 = [
     XY 7966 (-3497), Z (-560), Z (-3560), XY 5357 (-2351), XY 4574 (-3695), XY 3443 (-4766),
     XY 2071 (-5503), XY 552 (-5854), XY (-1005) (-5794), XY (-2478) (-5299), XY (-1843) (-3940),
     XY (-618) (-4090), X 618, XY 1843 (-3940), XY 636 (-4334), X (-636), XY (-1843) (-3940),
     XY (-2478) (-5299), XY (-3787) (-4498), XY (-4824) (-3361), XY (-5531) (-1995), XY (-5859) (-492),
     XY (-5786) 1045, XY (-5290) 2497, XY (-3934) 1857, XY (-4089) 617, XY (-4086) (-634),
     XY (-3926) (-1873), XY (-4331) (-653), XY (-4334) 636, XY (-3934) 1857, XY (-5290) 2497,
     XY (-4480) 3808, XY (-3333) 4844, XY (-1956) 5545, XY (-444) 5863, XY 1098 5777, XY 2552 5264,
     XY 1898 3914, XY 638 4088, X (-636), XY (-1896) 3915, XY (-979) 4269, XY 1 4380, XY 981 4269,
     XY 1898 3914, XY 2552 5264, XY 3819 4471, XY 4825 3361, XY 5518 2032, XY 5852 572, XY 5807 (-926),
     XY 5357 (-2351), XY 3983 (-1749), XY 3925 (-1875), XY 4085 (-640), XY 4090 606, XY 3941 1841,
     XY 3644 1798, XY 3799 374, XY 3754 (-1059), XY 3511 (-2471), XY 3328 (-2974), XY 2944 (-3355),
     XY 2439 (-3532), XY 820 (-3778), X (-819), XY (-2437) (-3532), XY (-2942) (-3355),
     XY (-3326) (-2976), XY (-3510) (-2473), XY (-3763) (-973), XY (-3792) 549, XY (-3597) 2058,
     XY (-3519) 2505, XY (-3404) 2761, XY (-3190) 3137, XY (-2845) 3404, XY (-2427) 3517,
     XY (-2087) 3575, XY (-701) 3784, XY 701 3783, XY 2087 3575, XY 2419 3518, XY 2944 3346,
     XY 3344 2958, XY 3532 2439, XY 3644 1798, XY 3941 1841, XY 4329 670, XY 4343 (-568),
     XY 3983 (-1749), XY 7966 (-3497), Z (-560), Z 10000]"

text \<open>Lines 11810 to 11903.\<close>

definition full_layer_133 :: "pline list" where
  "full_layer_133 = [
     XY 7973 (-3481), Z (-580), Z (-3580), XY 5361 (-2341), XY 4583 (-3684), XY 3456 (-4757),
     XY 2087 (-5497), XY 572 (-5852), XY (-984) (-5797), XY (-2457) (-5309), XY (-1827) (-3948),
     XY (-612) (-4094), X 612, XY 1827 (-3948), XY 631 (-4334), X (-631), XY (-1827) (-3948),
     XY (-2457) (-5309), XY (-3769) (-4513), XY (-4811) (-3381), XY (-5523) (-2017), XY (-5857) (-516),
     XY (-5791) 1021, XY (-5300) 2476, XY (-3941) 1841, XY (-4093) 612, XY (-4090) (-628),
     XY (-3934) (-1856), XY (-4332) (-647), XY (-4334) 630, XY (-3941) 1841, XY (-5300) 2476,
     XY (-4496) 3790, XY (-3353) 4830, XY (-1979) 5537, XY (-469) 5861, XY 1074 5781, XY 2530 5275,
     XY 1881 3922, XY 632 4091, XY (-630) 4092, XY (-1879) 3923, XY (-649) 4332, XY 651 4331,
     XY 1881 3922, XY 2530 5275, XY 3802 4485, XY 4813 3377, XY 5511 2049, XY 5851 587, XY 5809 (-912),
     XY 5361 (-2341), XY 3987 (-1741), XY 3933 (-1859), XY 4089 (-635), XY 4094 600, XY 3948 1826,
     XY 3651 1783, XY 3802 363, XY 3757 (-1065), XY 3517 (-2473), XY 3335 (-2979), XY 2949 (-3361),
     XY 2441 (-3538), XY 834 (-3781), XY (-793) (-3783), XY (-2401) (-3546), XY (-2930) (-3362),
     XY (-3333) (-2964), XY (-3524) (-2437), XY (-3768) (-952), XY (-3795) 555, XY (-3604) 2049,
     XY (-3526) 2505, XY (-3407) 2768, XY (-3193) 3144, XY (-2847) 3411, XY (-2429) 3523,
     XY (-2087) 3581, XY (-701) 3787, X 701, XY 2087 3580, XY 2420 3524, XY 2948 3353, XY 3350 2963,
     XY 3538 2441, XY 3651 1783, XY 3948 1826, XY 4330 661, XY 4343 (-568), XY 3987 (-1741),
     XY 7973 (-3481), Z (-580), Z 10000]"

text \<open>Lines 11904 to 11993.\<close>

definition full_layer_134 :: "pline list" where
  "full_layer_134 = [
     XY 7980 (-3464), Z (-600), Z (-3600), XY 5366 (-2330), XY 4591 (-3673), XY 3468 (-4748),
     XY 2103 (-5491), XY 590 (-5850), XY (-964) (-5800), XY (-2438) (-5318), XY (-1813) (-3954),
     XY (-608) (-4097), X 607, XY 1813 (-3954), XY 625 (-4335), X (-626), XY (-1813) (-3954),
     XY (-2438) (-5318), XY (-3750) (-4529), XY (-4794) (-3405), XY (-5511) (-2049), XY (-5854) (-553),
     XY (-5798) 980, XY (-5320) 2434, XY (-3956) 1810, XY (-4097) 594, XY (-4092) (-630),
     XY (-3940) (-1844), XY (-4332) (-650), XY (-4337) 612, XY (-3956) 1810, XY (-5320) 2434,
     XY (-4527) 3753, XY (-3394) 4801, XY (-2029) 5519, XY (-523) 5857, XY 1018 5791, XY 2477 5300,
     XY 1842 3941, XY 618 4092, X (-617), XY (-1841) 3941, XY (-636) 4334, X 636, XY 1842 3941,
     XY 2477 5300, XY 3763 4518, XY 4788 3413, XY 5499 2082, XY 5848 615, XY 5812 (-893),
     XY 5366 (-2330), XY 3990 (-1732), XY 3941 (-1842), XY 4092 (-629), XY 4098 595, XY 3956 1810,
     XY 3659 1768, XY 3806 352, XY 3761 (-1071), XY 3524 (-2475), XY 3341 (-2984), XY 2953 (-3368),
     XY 2442 (-3545), XY 821 (-3784), X (-820), XY (-2442) (-3545), XY (-2953) (-3368),
     XY (-3341) (-2984), XY (-3523) (-2474), XY (-3780) (-822), XY (-3783) 851, XY (-3533) 2505,
     XY (-3344) 2977, XY (-2979) 3336, XY (-2505) 3518, XY (-853) 3778, XY 821 3780, XY 2473 3524,
     XY 2982 3341, XY 3367 2953, XY 3545 2442, XY 3659 1768, XY 3956 1810, XY 4331 653, XY 4343 (-568),
     XY 3990 (-1732), XY 7980 (-3464), Z (-600), Z 10000]"

text \<open>Lines 11994 to 12083.\<close>

definition full_layer_135 :: "pline list" where
  "full_layer_135 = [
     XY 7987 (-3449), Z (-620), Z (-3620), XY 5371 (-2319), XY 4600 (-3663), XY 3480 (-4739),
     XY 2118 (-5485), XY 608 (-5848), XY (-944) (-5804), XY (-2418) (-5327), XY (-1798) (-3961),
     XY (-602) (-4100), X 602, XY 1798 (-3961), XY 620 (-4336), X (-620), XY (-1798) (-3961),
     XY (-2418) (-5327), XY (-3732) (-4543), XY (-4781) (-3423), XY (-5503) (-2071), XY (-5852) (-577),
     XY (-5802) 956, XY (-5330) 2412, XY (-3963) 1794, XY (-4101) 589, XY (-4096) (-624),
     XY (-3947) (-1828), XY (-4332) (-643), XY (-4338) 606, XY (-3963) 1794, XY (-5330) 2412,
     XY (-4542) 3735, XY (-3414) 4788, XY (-2051) 5511, XY (-546) 5855, XY 996 5795, XY 2456 5309,
     XY 1827 3948, XY 612 4095, X (-612), XY (-1826) 3948, XY (-630) 4334, X 631, XY 1827 3948,
     XY 2456 5309, XY 3747 4532, XY 4777 3428, XY 5493 2098, XY 5846 630, XY 5814 (-879),
     XY 5371 (-2319), XY 3994 (-1724), XY 3948 (-1827), XY 4096 (-623), XY 4101 590, XY 3962 1795,
     XY 3665 1754, XY 3808 357, XY 3766 (-1049), XY 3539 (-2435), XY 3348 (-2970), XY 2940 (-3374),
     XY 2403 (-3559), XY 807 (-3788), X (-806), XY (-2402) (-3559), XY (-2939) (-3374),
     XY (-3347) (-2970), XY (-3538) (-2435), XY (-3783) (-828), XY (-3790) 799, XY (-3559) 2408,
     XY (-3373) 2942, XY (-2971) 3348, XY (-2439) 3538, XY (-821) 3783, X 816, XY 2433 3539,
     XY 2969 3348, XY 3373 2940, XY 3559 2403, XY 3665 1754, XY 3962 1795, XY 4332 645, XY 4343 (-568),
     XY 3994 (-1724), XY 7987 (-3449), Z (-620), Z 10000]"

text \<open>Lines 12084 to 12173.\<close>

definition full_layer_136 :: "pline list" where
  "full_layer_136 = [
     XY 7993 (-3434), Z (-640), Z (-3640), XY 5375 (-2309), XY 4608 (-3653), XY 3492 (-4731),
     XY 2134 (-5479), XY 627 (-5847), XY (-924) (-5807), XY (-2398) (-5336), XY (-1783) (-3968),
     XY (-597) (-4103), X 597, XY 1783 (-3968), XY 614 (-4337), X (-615), XY (-1783) (-3968),
     XY (-2398) (-5336), XY (-3715) (-4557), XY (-4768) (-3441), XY (-5496) (-2091), XY (-5849) (-599),
     XY (-5805) 935, XY (-5339) 2392, XY (-3970) 1779, XY (-4104) 584, XY (-4099) (-619),
     XY (-3954) (-1813), XY (-4333) (-638), XY (-4339) 601, XY (-3970) 1779, XY (-5339) 2392,
     XY (-4556) 3717, XY (-3432) 4775, XY (-2072) 5503, XY (-569) 5852, XY 973 5799, XY 2436 5319,
     XY 1811 3955, XY 607 4098, XY (-606) 4099, XY (-1810) 3955, XY (-624) 4335, X 625, XY 1811 3955,
     XY 2436 5319, XY 3731 4545, XY 4766 3443, XY 5487 2114, XY 5845 645, XY 5816 (-867),
     XY 5375 (-2309), XY 3997 (-1717), XY 3954 (-1813), XY 4098 (-618), XY 4103 586, XY 3969 1781,
     XY 3671 1741, XY 3811 349, XY 3769 (-1050), XY 3546 (-2432), XY 3355 (-2972), XY 2943 (-3380),
     XY 2401 (-3566), XY 806 (-3791), X (-805), XY (-2399) (-3566), XY (-2942) (-3380),
     XY (-3354) (-2973), XY (-3546) (-2432), XY (-3786) (-827), XY (-3793) 798, XY (-3566) 2406,
     XY (-3379) 2945, XY (-2974) 3355, XY (-2436) 3545, XY (-820) 3786, X 816, XY 2433 3546,
     XY 2972 3354, XY 3379 2943, XY 3566 2402, XY 3671 1741, XY 3969 1781, XY 4333 637, XY 4343 (-567),
     XY 3997 (-1717), XY 7993 (-3434), Z (-640), Z 10000]"

text \<open>Lines 12174 to 12263.\<close>

definition full_layer_137 :: "pline list" where
  "full_layer_137 = [
     XY 8000 (-3419), Z (-660), Z (-3660), XY 5379 (-2299), XY 4616 (-3643), XY 3504 (-4722),
     XY 2149 (-5473), XY 645 (-5845), XY (-904) (-5810), XY (-2378) (-5345), XY (-1768) (-3974),
     XY (-592) (-4106), X 592, XY 1768 (-3974), XY 609 (-4337), X (-609), XY (-1768) (-3974),
     XY (-2378) (-5345), XY (-3698) (-4571), XY (-4755) (-3459), XY (-5488) (-2112), XY (-5847) (-620),
     XY (-5809) 913, XY (-5347) 2372, XY (-3976) 1764, XY (-4107) 579, XY (-4102) (-614),
     XY (-3961) (-1797), XY (-4334) (-632), XY (-4339) 595, XY (-3976) 1764, XY (-5347) 2372,
     XY (-4570) 3700, XY (-3450) 4762, XY (-2092) 5495, XY (-591) 5850, XY 951 5803, XY 2415 5328,
     XY 1796 3962, XY 602 4102, X (-601), XY (-1795) 3962, XY (-619) 4336, X 620, XY 1796 3962,
     XY 2415 5328, XY 3715 4558, XY 4755 3459, XY 5481 2130, XY 5843 660, XY 5818 (-854),
     XY 5379 (-2299), XY 4000 (-1710), XY 3961 (-1798), XY 4101 (-613), XY 4106 581, XY 3975 1766,
     XY 3678 1728, XY 3814 341, XY 3772 (-1054), XY 3553 (-2430), XY 3361 (-2975), XY 2947 (-3386),
     XY 2400 (-3573), XY 806 (-3795), X (-805), XY (-2398) (-3573), XY (-2946) (-3386),
     XY (-3360) (-2976), XY (-3553) (-2431), XY (-3789) (-826), XY (-3796) 798, XY (-3572) 2405,
     XY (-3386) 2949, XY (-2977) 3361, XY (-2435) 3553, XY (-819) 3789, X 816, XY 2432 3553,
     XY 2976 3361, XY 3386 2947, XY 3572 2401, XY 3678 1728, XY 3975 1766, XY 4335 629, XY 4343 (-567),
     XY 4000 (-1710), XY 8000 (-3419), Z (-660), Z 10000]"

text \<open>Lines 12264 to 12353.\<close>

definition full_layer_138 :: "pline list" where
  "full_layer_138 = [
     XY 8006 (-3404), Z (-680), Z (-3680), XY 5384 (-2289), XY 4624 (-3633), XY 3516 (-4713),
     XY 2165 (-5467), XY 663 (-5842), XY (-884) (-5813), XY (-2358) (-5354), XY (-1753) (-3981),
     XY (-587) (-4109), X 587, XY 1753 (-3981), XY 604 (-4338), X (-604), XY (-1753) (-3981),
     XY (-2358) (-5354), XY (-3681) (-4585), XY (-4742) (-3477), XY (-5480) (-2132), XY (-5845) (-642),
     XY (-5812) 891, XY (-5356) 2352, XY (-3983) 1749, XY (-4110) 574, XY (-4105) (-608),
     XY (-3968) (-1782), XY (-4335) (-626), XY (-4340) 590, XY (-3983) 1749, XY (-5356) 2352,
     XY (-4583) 3683, XY (-3468) 4749, XY (-2113) 5487, XY (-613) 5848, XY 929 5806, XY 2395 5337,
     XY 1781 3969, XY 597 4105, X (-596), XY (-1780) 3969, XY (-613) 4337, X 614, XY 1781 3969,
     XY 2395 5337, XY 3699 4571, XY 4744 3474, XY 5475 2146, XY 5841 675, XY 5820 (-841),
     XY 5384 (-2289), XY 4003 (-1702), XY 3968 (-1782), XY 4104 (-608), XY 4109 576, XY 3982 1752,
     XY 3684 1714, XY 3816 332, XY 3775 (-1056), XY 3561 (-2428), XY 3368 (-2978), XY 2950 (-3392),
     XY 2398 (-3580), XY 805 (-3798), X (-804), XY (-2397) (-3580), XY (-2949) (-3393),
     XY (-3367) (-2979), XY (-3560) (-2428), XY (-3793) (-825), XY (-3799) 797, XY (-3579) 2403,
     XY (-3392) 2952, XY (-2980) 3368, XY (-2433) 3560, XY (-817) 3793, X 816, XY 2431 3560,
     XY 2979 3367, XY 3392 2951, XY 3579 2401, XY 3684 1714, XY 3982 1752, XY 4336 621, XY 4343 (-567),
     XY 4003 (-1702), XY 8006 (-3404), Z (-680), Z 10000]"

text \<open>Lines 12354 to 12443.\<close>

definition full_layer_139 :: "pline list" where
  "full_layer_139 = [
     XY 8014 (-3387), Z (-700), Z (-3700), XY 5389 (-2277), XY 4632 (-3621), XY 3528 (-4704),
     XY 2181 (-5461), XY 682 (-5840), XY (-864) (-5816), XY (-2338) (-5362), XY (-1739) (-3987),
     XY (-582) (-4112), X 582, XY 1738 (-3988), XY 598 (-4339), X (-598), XY (-1739) (-3987),
     XY (-2338) (-5362), XY (-3664) (-4599), XY (-4729) (-3494), XY (-5472) (-2152), XY (-5842) (-664),
     XY (-5815) 870, XY (-5365) 2333, XY (-3989) 1734, XY (-4113) 569, XY (-4108) (-603),
     XY (-3975) (-1767), XY (-4336) (-621), XY (-4341) 585, XY (-3989) 1734, XY (-5365) 2333,
     XY (-4597) 3666, XY (-3485) 4736, XY (-2134) 5479, XY (-635) 5846, XY 907 5810, XY 2374 5346,
     XY 1766 3976, XY 592 4108, X (-591), XY (-1765) 3976, XY (-608) 4338, X 609, XY 1766 3976,
     XY 2374 5346, XY 3682 4584, XY 4733 3489, XY 5468 2162, XY 5839 691, XY 5822 (-827),
     XY 5389 (-2277), XY 4007 (-1693), XY 3976 (-1765), XY 4109 (-602), XY 4113 570, XY 3989 1735,
     XY 3691 1698, XY 3821 322, XY 3779 (-1061), XY 3567 (-2427), XY 3374 (-2982), XY 2953 (-3399),
     XY 2396 (-3587), XY 805 (-3801), X (-803), XY (-2395) (-3587), XY (-2952) (-3399),
     XY (-3374) (-2982), XY (-3567) (-2426), XY (-3796) (-824), XY (-3802) 797, XY (-3586) 2401,
     XY (-3398) 2955, XY (-2983) 3374, XY (-2430) 3567, XY (-816) 3796, X 816, XY 2430 3567,
     XY 2982 3374, XY 3398 2955, XY 3586 2402, XY 3691 1698, XY 3989 1735, XY 4337 612, XY 4343 (-567),
     XY 4007 (-1693), XY 8014 (-3387), Z (-700), Z 10000]"

text \<open>Lines 12444 to 12534.\<close>

definition full_layer_140 :: "pline list" where
  "full_layer_140 = [
     XY 8020 (-3371), Z (-720), Z (-3720), XY 5393 (-2267), XY 4640 (-3611), XY 3540 (-4695),
     XY 2196 (-5455), XY 700 (-5838), XY (-844) (-5819), XY (-2318) (-5371), XY (-1724) (-3994),
     XY (-577) (-4115), X 577, XY 1724 (-3994), XY 593 (-4340), X (-593), XY (-1724) (-3994),
     XY (-2318) (-5371), XY (-3647) (-4612), XY (-4716) (-3512), XY (-5464) (-2172), XY (-5840) (-685),
     XY (-5818) 849, XY (-5373) 2313, XY (-3996) 1720, XY (-4116) 565, XY (-4111) (-598),
     XY (-3982) (-1752), XY (-4337) (-615), XY (-4341) 580, XY (-3996) 1720, XY (-5373) 2313,
     XY (-4611) 3649, XY (-3503) 4723, XY (-2154) 5471, XY (-657) 5843, XY 885 5813, XY 2354 5355,
     XY 1751 3982, XY 586 4111, X (-586), XY (-1750) 3983, XY (-602) 4338, X 603, XY 1751 3982,
     XY 2354 5355, XY 3666 4597, XY 4722 3504, XY 5462 2178, XY 5838 705, XY 5823 (-814),
     XY 5393 (-2267), XY 4010 (-1685), XY 3982 (-1750), XY 4112 (-596), XY 4116 565, XY 3996 1720,
     XY 3698 1684, XY 3824 313, XY 3782 (-1064), XY 3575 (-2425), XY 3381 (-2985), XY 2956 (-3405),
     XY 2395 (-3593), XY 804 (-3804), X (-802), XY (-2393) (-3594), XY (-2955) (-3405),
     XY (-3380) (-2984), XY (-3574) (-2424), XY (-3799) (-823), XY (-3805) 796, XY (-3593) 2400,
     XY (-3405) 2959, XY (-2986) 3381, XY (-2428) 3574, XY (-815) 3799, X 816, XY 2429 3574,
     XY 2986 3381, XY 3404 2959, XY 3592 2401, XY 3698 1684, XY 3996 1720, XY 4335 627, XY 4349 (-520),
     XY 4037 (-1621), XY 4010 (-1685), XY 8020 (-3371), Z (-720), Z 10000]"

text \<open>Lines 12535 to 12625.\<close>

definition full_layer_141 :: "pline list" where
  "full_layer_141 = [
     XY 8027 (-3356), Z (-740), Z (-3740), XY 5397 (-2257), XY 4648 (-3601), XY 3552 (-4686),
     XY 2211 (-5448), XY 718 (-5836), XY (-825) (-5822), XY (-2298) (-5380), XY (-1709) (-4000),
     XY (-572) (-4118), X 572, XY 1709 (-4000), XY 588 (-4340), X (-588), XY (-1709) (-4000),
     XY (-2298) (-5380), XY (-3630) (-4626), XY (-4703) (-3529), XY (-5456) (-2192), XY (-5837) (-707),
     XY (-5821) 827, XY (-5382) 2293, XY (-4002) 1705, XY (-4119) 560, XY (-4114) (-593),
     XY (-3988) (-1737), XY (-4337) (-609), XY (-4342) 575, XY (-4002) 1705, XY (-5382) 2293,
     XY (-4624) 3632, XY (-3520) 4710, XY (-2174) 5463, XY (-679) 5841, XY 863 5816, XY 2334 5364,
     XY 1736 3989, XY 581 4114, X (-581), XY (-1735) 3989, XY (-597) 4339, X 598, XY 1736 3989,
     XY 2334 5364, XY 3650 4610, XY 4711 3519, XY 5456 2193, XY 5836 720, XY 5825 (-801),
     XY 5397 (-2257), XY 4013 (-1678), XY 3989 (-1735), XY 4115 (-591), XY 4119 560, XY 4002 1705,
     XY 3704 1670, XY 3826 305, XY 3786 (-1067), XY 3582 (-2423), XY 3387 (-2988), XY 2959 (-3412),
     XY 2393 (-3600), XY 803 (-3807), X (-802), XY (-2392) (-3600), XY (-2959) (-3412),
     XY (-3387) (-2987), XY (-3581) (-2422), XY (-3802) (-822), XY (-3808) 796, XY (-3600) 2398,
     XY (-3411) 2962, XY (-2989) 3388, XY (-2426) 3581, XY (-814) 3802, X 816, XY 2428 3581,
     XY 2989 3388, XY 3410 2963, XY 3599 2401, XY 3704 1670, XY 4002 1705, XY 4336 617, XY 4348 (-525),
     XY 4037 (-1621), XY 4013 (-1678), XY 8027 (-3356), Z (-740), Z 10000]"

text \<open>Lines 12626 to 12718.\<close>

definition full_layer_142 :: "pline list" where
  "full_layer_142 = [
     XY 8033 (-3341), Z (-760), Z (-3760), XY 5402 (-2246), XY 4656 (-3591), XY 3564 (-4677),
     XY 2226 (-5442), XY 736 (-5834), XY (-805) (-5825), XY (-2279) (-5388), XY (-1694) (-4006),
     XY (-567) (-4121), X 567, XY 1694 (-4006), XY 582 (-4341), X (-582), XY (-1694) (-4006),
     XY (-2279) (-5388), XY (-3613) (-4639), XY (-4690) (-3546), XY (-5448) (-2212), XY (-5835) (-728),
     XY (-5824) 806, XY (-5390) 2274, XY (-4008) 1691, XY (-4122) 555, XY (-4118) (-587),
     XY (-3995) (-1722), XY (-4338) (-604), XY (-4343) 570, XY (-4008) 1691, XY (-5390) 2274,
     XY (-4637) 3615, XY (-3538) 4697, XY (-2195) 5455, XY (-701) 5838, XY 841 5819, XY 2314 5373,
     XY 1721 3995, XY 576 4117, X (-575), XY (-1720) 3996, XY (-591) 4340, X 592, XY 1721 3995,
     XY 2314 5373, XY 3635 4622, XY 4700 3534, XY 5450 2208, XY 5834 735, XY 5827 (-788),
     XY 5402 (-2246), XY 4016 (-1670), XY 3996 (-1720), XY 4118 (-586), XY 4123 556, XY 4008 1690,
     XY 3710 1657, XY 3829 296, XY 3789 (-1070), XY 3589 (-2421), XY 3394 (-2991), XY 2963 (-3418),
     XY 2392 (-3607), XY 802 (-3810), X (-801), XY (-2390) (-3607), XY (-2962) (-3418),
     XY (-3394) (-2990), XY (-3589) (-2420), XY (-3805) (-821), XY (-3811) 795, XY (-3607) 2396,
     XY (-3418) 2965, XY (-2992) 3395, XY (-2424) 3589, XY (-812) 3805, X 815, XY 2427 3588,
     XY 2992 3394, XY 3417 2967, XY 3606 2400, XY 3710 1657, XY 4008 1690, XY 4161 1369, XY 4258 1027,
     XY 4298 673, XY 4378 (-122), XY 4283 (-917), XY 4016 (-1670), XY 8033 (-3341), Z (-760), Z 10000]"

text \<open>Lines 12719 to 12811.\<close>

definition full_layer_143 :: "pline list" where
  "full_layer_143 = [
     XY 8039 (-3326), Z (-780), Z (-3780), XY 5406 (-2236), XY 4664 (-3581), XY 3575 (-4668),
     XY 2241 (-5436), XY 754 (-5832), XY (-786) (-5827), XY (-2259) (-5396), XY (-1680) (-4013),
     XY (-562) (-4124), X 562, XY 1680 (-4013), XY 577 (-4342), X (-577), XY (-1680) (-4013),
     XY (-2259) (-5396), XY (-3597) (-4652), XY (-4677) (-3563), XY (-5440) (-2232), XY (-5832) (-749),
     XY (-5827) 785, XY (-5398) 2254, XY (-4014) 1676, XY (-4125) 550, XY (-4121) (-582),
     XY (-4001) (-1707), XY (-4339) (-598), XY (-4343) 565, XY (-4014) 1676, XY (-5398) 2254,
     XY (-4650) 3599, XY (-3555) 4684, XY (-2215) 5447, XY (-722) 5835, XY 820 5823, XY 2294 5382,
     XY 1706 4002, XY 571 4120, X (-570), XY (-1705) 4002, XY (-586) 4341, X 587, XY 1706 4002,
     XY 2294 5382, XY 3619 4635, XY 4689 3548, XY 5443 2224, XY 5832 749, XY 5829 (-775),
     XY 5406 (-2236), XY 4019 (-1663), XY 4002 (-1705), XY 4121 (-581), XY 4125 551, XY 4014 1676,
     XY 3716 1643, XY 3832 288, XY 3792 (-1073), XY 3596 (-2419), XY 3401 (-2994), XY 2966 (-3424),
     XY 2390 (-3614), XY 802 (-3813), X (-800), XY (-2388) (-3614), XY (-2965) (-3424),
     XY (-3400) (-2993), XY (-3596) (-2418), XY (-3808) (-819), XY (-3814) 794, XY (-3614) 2394,
     XY (-3424) 2968, XY (-2995) 3401, XY (-2422) 3596, XY (-812) 3809, XY 815 3808, XY 2425 3595,
     XY 2995 3401, XY 3423 2970, XY 3613 2398, XY 3716 1643, XY 4014 1676, XY 4164 1359, XY 4259 1021,
     XY 4298 673, XY 4378 (-119), XY 4284 (-912), XY 4019 (-1663), XY 8039 (-3326), Z (-780), Z 10000]"

text \<open>Lines 12812 to 12905.\<close>

definition full_layer_144 :: "pline list" where
  "full_layer_144 = [
     XY 8045 (-3311), Z (-800), Z (-3800), XY 5410 (-2226), XY 5390 (-2273), XY 4646 (-3604),
     XY 3559 (-4680), XY 2232 (-5440), XY 754 (-5831), XY (-775) (-5829), XY (-2240) (-5404),
     XY (-1665) (-4019), XY (-557) (-4127), X 557, XY 1665 (-4019), XY 572 (-4342), X (-572),
     XY (-1665) (-4019), XY (-2240) (-5404), XY (-3580) (-4665), XY (-4665) (-3580), XY (-5432) (-2252),
     XY (-5829) (-770), XY (-5830) 764, XY (-5406) 2235, XY (-4020) 1662, XY (-4128) 545,
     XY (-4124) (-577), XY (-4007) (-1692), XY (-4340) (-593), XY (-4344) 560, XY (-4020) 1662,
     XY (-5406) 2235, XY (-4663) 3582, XY (-3572) 4671, XY (-2234) 5439, XY (-744) 5833, XY 798 5826,
     XY 2274 5390, XY 1691 4008, XY 566 4123, X (-565), XY (-1690) 4008, XY (-581) 4341, X 581,
     XY 1691 4008, XY 2274 5390, XY 3603 4647, XY 4678 3563, XY 5437 2239, XY 5830 764, Y (-763),
     XY 5410 (-2226), XY 4022 (-1656), XY 4008 (-1690), XY 4124 (-575), XY 4128 546, XY 4020 1662,
     XY 3722 1630, XY 3835 280, XY 3795 (-1076), XY 3603 (-2417), XY 3408 (-2996), XY 2969 (-3431),
     XY 2388 (-3621), XY 801 (-3816), XY (-799) (-3817), XY (-2387) (-3621), XY (-2968) (-3431),
     XY (-3407) (-2996), XY (-3603) (-2416), XY (-3811) (-818), XY (-3817) 794, XY (-3620) 2393,
     XY (-3430) 2972, XY (-2998) 3408, XY (-2420) 3603, XY (-810) 3812, XY 814 3811, XY 2424 3602,
     XY 2999 3408, XY 3430 2973, XY 3619 2397, XY 3722 1630, XY 4020 1662, XY 4167 1349, XY 4260 1016,
     XY 4298 673, XY 4378 (-117), XY 4285 (-907), XY 4022 (-1656), XY 8045 (-3311), Z (-800), Z 10000]"

text \<open>Lines 12906 to 12998.\<close>

definition full_layer_145 :: "pline list" where
  "full_layer_145 = [
     XY 8051 (-3296), Z (-820), Z (-3820), XY 5414 (-2217), XY 5399 (-2254), XY 4659 (-3588),
     XY 3576 (-4667), XY 2252 (-5432), XY 775 (-5829), XY (-754) (-5832), XY (-2220) (-5412),
     XY (-1651) (-4025), XY (-552) (-4130), X 552, XY 1651 (-4025), XY 567 (-4343), X (-567),
     XY (-1651) (-4025), XY (-2220) (-5412), XY (-3563) (-4678), XY (-4652) (-3597), XY (-5424) (-2271),
     XY (-5827) (-791), XY (-5833) 743, XY (-5414) 2215, XY (-4026) 1647, XY (-4131) 541,
     XY (-4127) (-572), XY (-4013) (-1678), XY (-4340) (-587), XY (-4345) 555, XY (-4026) 1647,
     XY (-5414) 2215, XY (-4676) 3565, XY (-3588) 4658, XY (-2254) 5431, XY (-765) 5830, XY 777 5828,
     XY 2254 5398, XY 1676 4014, XY 561 4126, X (-560), XY (-1675) 4014, XY (-575) 4342, X 576,
     XY 1676 4014, XY 2254 5398, XY 3587 4659, XY 4667 3577, XY 5431 2254, XY 5828 778, XY 5832 (-750),
     XY 5414 (-2217), XY 4026 (-1648), XY 4014 (-1676), XY 4127 (-570), XY 4131 541, XY 4026 1648,
     XY 3728 1617, XY 3838 271, XY 3798 (-1079), XY 3610 (-2415), XY 3414 (-2999), XY 2973 (-3437),
     XY 2387 (-3627), XY 800 (-3820), X (-799), XY (-2385) (-3628), XY (-2972) (-3437),
     XY (-3414) (-2999), XY (-3610) (-2414), XY (-3815) (-817), XY (-3820) 793, XY (-3627) 2391,
     XY (-3437) 2975, XY (-3000) 3415, XY (-2418) 3610, XY (-809) 3815, XY 814 3814, XY 2423 3609,
     XY 3002 3415, XY 3436 2977, XY 3626 2397, XY 3728 1617, XY 4026 1648, XY 4219 1176, XY 4298 673,
     XY 4378 (-114), XY 4286 (-902), XY 4026 (-1648), XY 8051 (-3296), Z (-820), Z 10000]"

text \<open>Lines 12999 to 13091.\<close>

definition full_layer_146 :: "pline list" where
  "full_layer_146 = [
     XY 8057 (-3282), Z (-840), Z (-3840), XY 5418 (-2207), XY 5407 (-2234), XY 4672 (-3570),
     XY 3593 (-4654), XY 2272 (-5423), XY 797 (-5826), XY (-732) (-5834), XY (-2200) (-5420),
     XY (-1636) (-4031), XY (-547) (-4134), X 547, XY 1636 (-4031), XY 561 (-4344), X (-561),
     XY (-1636) (-4031), XY (-2200) (-5420), XY (-3546) (-4691), XY (-4639) (-3614), XY (-5415) (-2291),
     XY (-5824) (-812), XY (-5835) 722, XY (-5422) 2196, XY (-4032) 1633, XY (-4134) 536,
     XY (-4130) (-567), XY (-4020) (-1663), XY (-4341) (-582), XY (-4345) 550, XY (-4032) 1633,
     XY (-5422) 2196, XY (-4689) 3548, XY (-3605) 4645, XY (-2274) 5423, XY (-786) 5827, XY 756 5831,
     XY 2234 5407, XY 1661 4020, XY 556 4129, XY (-555) 4130, XY (-1661) 4021, XY (-570) 4343, X 571,
     XY 1661 4020, XY 2234 5407, XY 3572 4671, XY 4656 3591, XY 5425 2269, XY 5826 792, XY 5834 (-738),
     XY 5418 (-2207), XY 4029 (-1641), XY 4020 (-1661), XY 4130 (-565), XY 4134 537, XY 4032 1633,
     XY 3733 1603, XY 3840 263, XY 3801 (-1082), XY 3617 (-2413), XY 3421 (-3002), XY 2976 (-3443),
     XY 2386 (-3634), XY 800 (-3823), X (-798), XY (-2384) (-3634), XY (-2975) (-3443),
     XY (-3421) (-3002), XY (-3617) (-2412), XY (-3818) (-817), XY (-3824) 793, XY (-3634) 2390,
     XY (-3443) 2978, XY (-3003) 3421, XY (-2417) 3617, XY (-808) 3818, X 814, XY 2422 3616,
     XY 3006 3421, XY 3443 2981, XY 3633 2396, XY 3733 1603, XY 4032 1633, XY 4221 1169, XY 4298 673,
     XY 4379 (-111), XY 4287 (-896), XY 4029 (-1641), XY 8057 (-3282), Z (-840), Z 10000]"

text \<open>Lines 13092 to 13184.\<close>

definition full_layer_147 :: "pline list" where
  "full_layer_147 = [
     XY 8063 (-3267), Z (-860), Z (-3860), XY 5422 (-2197), XY 5415 (-2213), XY 4685 (-3553),
     XY 3610 (-4641), XY 2292 (-5415), XY 818 (-5823), XY (-711) (-5837), XY (-2181) (-5428),
     XY (-1622) (-4036), XY (-542) (-4137), X 542, XY 1622 (-4036), XY 556 (-4345), X (-556),
     XY (-1622) (-4036), XY (-2181) (-5428), XY (-3529) (-4703), XY (-4626) (-3630), XY (-5407) (-2310),
     XY (-5821) (-832), XY (-5838) 702, XY (-5430) 2177, XY (-4038) 1619, XY (-4137) 531,
     XY (-4133) (-561), XY (-4026) (-1648), XY (-4342) (-576), XY (-4346) 545, XY (-4038) 1619,
     XY (-5430) 2177, XY (-4701) 3532, XY (-3622) 4632, XY (-2293) 5414, XY (-807) 5824, XY 734 5834,
     XY 2214 5415, XY 1646 4026, XY 551 4132, XY (-550) 4133, XY (-1646) 4027, XY (-565) 4343, X 565,
     XY 1646 4026, XY 2214 5415, XY 3556 4683, XY 4645 3606, XY 5418 2284, XY 5824 807, XY 5835 (-725),
     XY 5422 (-2197), XY 4032 (-1633), XY 4027 (-1646), XY 4134 (-560), XY 4137 532, XY 4038 1619,
     XY 3739 1589, XY 3843 254, XY 3805 (-1085), XY 3624 (-2412), XY 3428 (-3005), XY 2979 (-3450),
     XY 2384 (-3641), XY 799 (-3826), X (-797), XY (-2382) (-3641), XY (-2978) (-3450),
     XY (-3427) (-3005), XY (-3624) (-2410), XY (-3821) (-816), XY (-3827) 792, XY (-3641) 2388,
     XY (-3450) 2982, XY (-3007) 3428, XY (-2415) 3624, XY (-807) 3821, X 814, XY 2421 3623,
     XY 3009 3428, XY 3449 2985, XY 3639 2395, XY 3739 1589, XY 4038 1619, XY 4223 1161, XY 4298 673,
     XY 4379 (-109), XY 4288 (-891), XY 4032 (-1633), XY 8063 (-3267), Z (-860), Z 10000]"

text \<open>Lines 13185 to 13275.\<close>

definition full_layer_148 :: "pline list" where
  "full_layer_148 = [
     XY 8069 (-3252), Z (-880), Z (-3880), XY 5426 (-2187), XY 5423 (-2194), XY 4698 (-3536),
     XY 3627 (-4628), XY 2311 (-5407), XY 838 (-5820), XY (-691) (-5839), XY (-2162) (-5436),
     XY (-1608) (-4042), XY (-538) (-4139), X 538, XY 1608 (-4042), XY 551 (-4345), X (-551),
     XY (-1608) (-4042), XY (-2162) (-5436), XY (-3513) (-4716), XY (-4613) (-3647), XY (-5399) (-2330),
     XY (-5818) (-854), XY (-5841) 680, XY (-5438) 2156, XY (-4044) 1603, XY (-4140) 526,
     XY (-4136) (-556), XY (-4032) (-1632), XY (-4343) (-571), XY (-4347) 539, XY (-4044) 1603,
     XY (-5438) 2156, XY (-4715) 3513, XY (-3640) 4618, XY (-2314) 5405, XY (-830) 5821, XY 712 5837,
     XY 2193 5423, XY 1631 4033, XY 546 4136, X (-545), XY (-1630) 4033, XY (-559) 4344, X 560,
     XY 1631 4033, XY 2193 5423, XY 3539 4696, XY 4633 3620, XY 5412 2299, XY 5822 821, XY 5837 (-713),
     XY 5426 (-2187), XY 4035 (-1626), XY 4033 (-1631), XY 4137 (-555), XY 4140 527, XY 4043 1604,
     XY 3745 1576, XY 3846 246, XY 3808 (-1088), XY 3631 (-2410), XY 3434 (-3008), XY 2983 (-3456),
     XY 2382 (-3648), XY 799 (-3829), X (-797), XY (-2380) (-3648), XY (-2981) (-3456),
     XY (-3434) (-3008), XY (-3631) (-2409), XY (-3825) (-815), XY (-3830) 792, XY (-3647) 2387,
     XY (-3456) 2985, XY (-3010) 3435, XY (-2414) 3631, XY (-806) 3825, XY 814 3824, XY 2421 3630,
     XY 3013 3435, XY 3456 2988, XY 3646 2395, XY 3745 1576, XY 4043 1604, XY 4346 542, XY 4343 (-566),
     XY 4035 (-1626), XY 8069 (-3252), Z (-880), Z 10000]"

text \<open>Lines 13276 to 13366.\<close>

definition full_layer_149 :: "pline list" where
  "full_layer_149 = [
     XY 8397 2277, Z (-900), Z (-3900), XY 5646 1531, XY 5879 112, XY 5730 (-1320), XY 5237 (-2674),
     XY 4429 (-3867), XY 3356 (-4828), XY 2081 (-5499), XY 681 (-5840), XY (-759) (-5831),
     XY (-2143) (-5443), XY (-1594) (-4048), XY (-533) (-4142), X 533, XY 1594 (-4048), XY 546 (-4346),
     X (-546), XY (-1594) (-4048), XY (-2143) (-5443), XY (-3496) (-4728), XY (-4600) (-3663),
     XY (-5391) (-2348), XY (-5815) (-874), XY (-5843) 659, XY (-5446) 2137, XY (-4049) 1589,
     XY (-4143) 521, XY (-4139) (-551), XY (-4038) (-1618), XY (-4343) (-565), XY (-4347) 534,
     XY (-4049) 1589, XY (-5446) 2137, XY (-4727) 3497, XY (-3656) 4605, XY (-2334) 5397,
     XY (-852) 5818, XY 689 5839, XY 2172 5432, XY 1615 4039, XY 540 4140, X (-540), XY (-1614) 4039,
     XY (-553) 4345, X 554, XY 1615 4039, XY 2172 5432, XY 3377 4814, XY 4391 3911, XY 5171 2799,
     XY 5646 1531, XY 4198 1138, XY 4375 217, XY 4320 (-722), XY 4038 (-1617), XY 4140 (-550),
     XY 4143 523, XY 4049 1590, XY 3750 1563, XY 3849 238, XY 3811 (-1091), XY 3638 (-2408),
     XY 3441 (-3012), XY 2986 (-3463), XY 2381 (-3654), XY 798 (-3832), X (-796), XY (-2379) (-3655),
     XY (-2985) (-3463), XY (-3440) (-3011), XY (-3638) (-2407), XY (-3828) (-814), XY (-3833) 792,
     XY (-3654) 2386, XY (-3462) 2988, XY (-3013) 3441, XY (-2413) 3638, XY (-806) 3829, XY 814 3828,
     XY 2421 3636, XY 3017 3441, XY 3462 2992, XY 3653 2395, XY 3750 1563, XY 4049 1590, XY 4198 1138,
     XY 8397 2277, Z (-900), Z 10000]"

text \<open>Lines 13367 to 13457.\<close>

definition full_layer_150 :: "pline list" where
  "full_layer_150 = [
     XY 8401 2262, Z (-920), Z (-3920), XY 5649 1521, XY 5879 106, XY 5729 (-1324), XY 5237 (-2674),
     XY 4431 (-3865), XY 3361 (-4824), XY 2091 (-5496), XY 695 (-5839), XY (-743) (-5833),
     XY (-2125) (-5451), XY (-1580) (-4053), XY (-528) (-4145), X 528, XY 1580 (-4053), XY 541 (-4346),
     X (-541), XY (-1580) (-4053), XY (-2125) (-5451), XY (-3479) (-4740), XY (-4587) (-3679),
     XY (-5382) (-2368), XY (-5811) (-896), XY (-5845) 637, XY (-5454) 2116, XY (-4055) 1574,
     XY (-4147) 516, XY (-4143) (-545), XY (-4044) (-1602), XY (-4344) (-559), XY (-4348) 529,
     XY (-4055) 1574, XY (-5454) 2116, XY (-4740) 3479, XY (-3673) 4592, XY (-2353) 5389,
     XY (-872) 5815, XY 670 5842, XY 2154 5439, XY 1602 4044, XY 536 4142, X (-535), XY (-1601) 4045,
     XY (-549) 4346, XY 549 4345, XY 1602 4044, XY 2154 5439, XY 3367 4820, XY 4388 3914, XY 5172 2797,
     XY 5649 1521, XY 4200 1131, XY 4375 217, XY 4321 (-714), XY 4044 (-1602), XY 4143 (-545),
     XY 4146 518, XY 4054 1576, XY 3756 1550, XY 3851 230, XY 3815 (-1094), XY 3645 (-2406),
     XY 3448 (-3015), XY 2990 (-3469), XY 2379 (-3661), XY 797 (-3835), X (-795), XY (-2377) (-3661),
     XY (-2988) (-3469), XY (-3447) (-3015), XY (-3645) (-2406), XY (-3831) (-813), XY (-3837) 791,
     XY (-3661) 2385, XY (-3469) 2992, XY (-3016) 3448, XY (-2410) 3645, XY (-804) 3831, XY 813 3830,
     XY 2419 3643, XY 3020 3448, XY 3469 2996, XY 3659 2393, XY 3756 1550, XY 4054 1576, XY 4200 1131,
     XY 8401 2262, Z (-920), Z 10000]"

text \<open>Lines 13458 to 13547.\<close>

definition full_layer_151 :: "pline list" where
  "full_layer_151 = [
     XY 8405 2248, Z (-940), Z (-3940), XY 5651 1512, XY 5879 (-81), XY 5637 (-1674), XY 4970 (-3142),
     XY 3930 (-4374), XY 2594 (-5277), XY 1063 (-5783), XY (-547) (-5854), XY (-2106) (-5458),
     XY (-1566) (-4058), XY (-523) (-4148), X 523, XY 1566 (-4058), XY 536 (-4347), X (-536),
     XY (-1566) (-4058), XY (-2106) (-5458), XY (-3463) (-4752), XY (-4574) (-3695), XY (-5374) (-2387),
     XY (-5808) (-916), XY (-5848) 617, XY (-5461) 2097, XY (-4061) 1560, XY (-4150) 512,
     XY (-4146) (-540), XY (-4050) (-1588), XY (-4345) (-554), XY (-4349) 524, XY (-4061) 1560,
     XY (-5461) 2097, XY (-4752) 3462, XY (-3689) 4579, XY (-2372) 5380, XY (-892) 5812, XY 649 5844,
     XY 2135 5447, XY 1587 4050, XY 531 4145, X (-530), XY (-1587) 4050, XY (-543) 4346, X 544,
     XY 1587 4050, XY 2135 5447, XY 3357 4828, XY 4384 3918, XY 5173 2795, XY 5651 1512, XY 4202 1124,
     XY 4375 217, XY 4323 (-707), XY 4050 (-1588), XY 4145 (-540), XY 4149 513, XY 4060 1563,
     XY 3761 1537, XY 3854 222, XY 3818 (-1096), XY 3652 (-2404), XY 3455 (-3018), XY 2993 (-3475),
     XY 2378 (-3668), XY 797 (-3838), X (-795), XY (-2376) (-3668), XY (-2991) (-3476),
     XY (-3454) (-3018), XY (-3652) (-2404), XY (-3835) (-812), XY (-3840) 791, XY (-3668) 2384,
     XY (-3475) 2996, XY (-3019) 3455, XY (-2408) 3652, XY (-803) 3834, X 813, XY 2418 3650,
     XY 3023 3455, XY 3475 3000, XY 3666 2393, XY 3761 1537, XY 4060 1563, XY 4202 1124, XY 8405 2248,
     Z (-940), Z 10000]"

text \<open>Lines 13548 to 13637.\<close>

definition full_layer_152 :: "pline list" where
  "full_layer_152 = [
     XY 8408 2234, Z (-960), Z (-3960), XY 5654 1502, XY 5879 (-87), XY 5636 (-1677), XY 4971 (-3141),
     XY 3933 (-4371), XY 2602 (-5273), XY 1076 (-5781), XY (-531) (-5856), XY (-2087) (-5465),
     XY (-1552) (-4064), XY (-519) (-4151), X 519, XY 1552 (-4064), XY 531 (-4348), X (-531),
     XY (-1552) (-4064), XY (-2087) (-5465), XY (-3447) (-4764), XY (-4561) (-3711), XY (-5366) (-2405),
     XY (-5805) (-936), XY (-5850) 597, XY (-5468) 2078, XY (-4066) 1546, XY (-4153) 507,
     XY (-4149) (-535), XY (-4056) (-1573), XY (-4345) (-549), XY (-4349) 519, XY (-4066) 1546,
     XY (-5468) 2078, XY (-4764) 3446, XY (-3705) 4566, XY (-2391) 5372, XY (-913) 5809, XY 628 5846,
     XY 2115 5454, XY 1573 4056, XY 526 4148, X (-525), XY (-1572) 4056, XY (-538) 4347, X 539,
     XY 1573 4056, XY 2115 5454, XY 3346 4835, XY 4381 3922, XY 5174 2793, XY 5654 1502, XY 4204 1117,
     XY 4375 218, XY 4324 (-699), XY 4055 (-1574), XY 4148 (-535), XY 4151 509, XY 4065 1549,
     XY 3766 1524, XY 3857 200, XY 3819 (-1127), XY 3654 (-2443), XY 3463 (-3039), XY 3015 (-3484),
     XY 2417 (-3669), XY 823 (-3840), XY (-782) (-3841), XY (-2377) (-3674), XY (-2996) (-3482),
     XY (-3460) (-3022), XY (-3658) (-2406), XY (-3837) (-814), XY (-3843) 790, XY (-3674) 2383,
     XY (-3481) 2999, XY (-3022) 3462, XY (-2407) 3659, XY (-803) 3837, X 812, XY 2416 3657,
     XY 3026 3462, XY 3482 3003, XY 3673 2391, XY 3766 1524, XY 4065 1549, XY 4204 1117, XY 8408 2234,
     Z (-960), Z 10000]"

text \<open>Lines 13638 to 13727.\<close>

definition full_layer_153 :: "pline list" where
  "full_layer_153 = [
     XY 8412 2219, Z (-980), Z (-3980), XY 5656 1492, XY 5879 (-93), XY 5635 (-1679), XY 4971 (-3140),
     XY 3937 (-4367), XY 2610 (-5269), XY 1088 (-5778), XY (-515) (-5857), XY (-2068) (-5472),
     XY (-1538) (-4069), XY (-514) (-4154), X 514, XY 1538 (-4069), XY 526 (-4348), X (-526),
     XY (-1538) (-4069), XY (-2068) (-5472), XY (-3430) (-4776), XY (-4549) (-3726), XY (-5357) (-2423),
     XY (-5802) (-956), XY (-5852) 577, XY (-5475) 2060, XY (-4071) 1532, XY (-4155) 502,
     XY (-4152) (-530), XY (-4061) (-1559), XY (-4346) (-544), XY (-4350) 514, XY (-4071) 1532,
     XY (-5475) 2060, XY (-4776) 3429, XY (-3721) 4553, XY (-2410) 5364, XY (-933) 5806, XY 608 5848,
     XY 2096 5462, XY 1559 4061, XY 521 4151, X (-521), XY (-1558) 4061, XY (-533) 4347, X 534,
     XY 1559 4061, XY 2096 5462, XY 3335 4843, XY 4377 3926, XY 5176 2791, XY 5656 1492, XY 4206 1110,
     XY 4375 218, XY 4325 (-691), XY 4061 (-1560), XY 4151 (-530), XY 4154 504, XY 4070 1535,
     XY 3771 1511, XY 3859 192, XY 3822 (-1130), XY 3661 (-2442), XY 3470 (-3043), XY 3019 (-3490),
     XY 2417 (-3676), XY 822 (-3843), XY (-782) (-3844), XY (-2376) (-3681), XY (-3000) (-3489),
     XY (-3467) (-3026), XY (-3665) (-2404), XY (-3841) (-813), XY (-3846) 789, XY (-3681) 2382,
     XY (-3488) 3003, XY (-3025) 3469, XY (-2405) 3666, XY (-802) 3840, X 812, XY 2415 3664,
     XY 3030 3469, XY 3488 3006, XY 3679 2390, XY 3771 1511, XY 4070 1535, XY 4206 1110, XY 8412 2219,
     Z (-980), Z 10000]"

text \<open>Lines 13728 to 13817.\<close>

definition full_layer_154 :: "pline list" where
  "full_layer_154 = [
     XY 8416 2205, Z (-1000), Z (-4000), XY 5659 1483, XY 5879 (-99), XY 5634 (-1682), XY 4972 (-3139),
     XY 3941 (-4364), XY 2618 (-5265), XY 1101 (-5776), XY (-498) (-5859), XY (-2050) (-5479),
     XY (-1524) (-4074), XY (-509) (-4157), X 509, XY 1524 (-4074), XY 521 (-4349), X (-521),
     XY (-1524) (-4074), XY (-2050) (-5479), XY (-3414) (-4787), XY (-4536) (-3741), XY (-5350) (-2441),
     XY (-5799) (-974), XY (-5853) 559, XY (-5482) 2043, XY (-4076) 1519, XY (-4157) 498,
     XY (-4154) (-526), XY (-4066) (-1546), XY (-4347) (-539), XY (-4350) 510, XY (-4076) 1519,
     XY (-5482) 2043, XY (-4787) 3415, XY (-3735) 4541, XY (-2427) 5356, XY (-952) 5802, XY 588 5851,
     XY 2077 5469, XY 1545 4067, XY 516 4154, X (-516), XY (-1544) 4067, XY (-528) 4348, X 529,
     XY 1545 4067, XY 2077 5469, XY 3324 4850, XY 4374 3930, XY 5177 2789, XY 5659 1483, XY 4208 1102,
     XY 4375 218, XY 4326 (-684), XY 4066 (-1545), XY 4154 (-525), XY 4157 500, XY 4075 1521,
     XY 3776 1498, XY 3862 183, XY 3826 (-1134), XY 3668 (-2441), XY 3477 (-3046), XY 3023 (-3497),
     XY 2416 (-3683), XY 822 (-3846), XY (-781) (-3847), XY (-2375) (-3688), XY (-3003) (-3495),
     XY (-3474) (-3028), XY (-3672) (-2402), XY (-3843) (-811), XY (-3848) 790, XY (-3687) 2382,
     XY (-3495) 3007, XY (-3030) 3475, XY (-2406) 3672, XY (-803) 3843, X 810, XY 2413 3671,
     XY 3033 3475, XY 3495 3010, XY 3686 2389, XY 3776 1498, XY 4075 1521, XY 4208 1102, XY 8416 2205,
     Z (-1000), Z 10000]"

text \<open>Lines 13818 to 13907.\<close>

definition full_layer_155 :: "pline list" where
  "full_layer_155 = [
     XY 8420 2190, Z (-1020), Z (-4020), XY 5662 1473, XY 5879 (-105), XY 5634 (-1683), XY 4973 (-3137),
     XY 3945 (-4360), XY 2627 (-5261), XY 1114 (-5773), XY (-480) (-5860), XY (-2029) (-5487),
     XY (-1509) (-4080), XY (-504) (-4160), X 504, XY 1509 (-4080), XY 516 (-4350), X (-516),
     XY (-1509) (-4080), XY (-2029) (-5487), XY (-3397) (-4800), XY (-4523) (-3758), XY (-5341) (-2460),
     XY (-5795) (-995), XY (-5855) 538, XY (-5489) 2024, XY (-4081) 1505, XY (-4160) 494,
     XY (-4157) (-521), XY (-4071) (-1532), XY (-4347) (-534), XY (-4351) 505, XY (-4081) 1505,
     XY (-5489) 2024, XY (-4799) 3398, XY (-3751) 4528, XY (-2446) 5347, XY (-972) 5799, XY 568 5853,
     XY 2058 5476, XY 1531 4072, XY 512 4156, X (-511), XY (-1530) 4072, XY (-523) 4349, X 524,
     XY 1531 4072, XY 2058 5476, XY 3314 4857, XY 4370 3934, XY 5178 2786, XY 5662 1473, XY 4210 1095,
     XY 4375 218, XY 4328 (-676), XY 4072 (-1531), XY 4157 (-520), XY 4160 495, XY 4081 1507,
     XY 3781 1485, XY 3865 175, XY 3829 (-1137), XY 3675 (-2440), XY 3484 (-3050), XY 3027 (-3503),
     XY 2416 (-3689), XY 823 (-3849), XY (-780) (-3851), XY (-2374) (-3694), XY (-3007) (-3502),
     XY (-3481) (-3031), XY (-3679) (-2400), XY (-3846) (-810), XY (-3851) 790, XY (-3694) 2381,
     XY (-3501) 3011, XY (-3033) 3482, XY (-2404) 3679, XY (-802) 3846, X 810, XY 2412 3678,
     XY 3036 3482, XY 3501 3014, XY 3693 2388, XY 3781 1485, XY 4081 1507, XY 4210 1095, XY 8420 2190,
     Z (-1020), Z 10000]"

text \<open>Lines 13908 to 13997.\<close>

definition full_layer_156 :: "pline list" where
  "full_layer_156 = [
     XY 8423 2176, Z (-1040), Z (-4040), XY 5664 1463, XY 5879 (-112), XY 5633 (-1686), XY 4974 (-3136),
     XY 3949 (-4357), XY 2634 (-5257), XY 1126 (-5771), XY (-464) (-5862), XY (-2011) (-5494),
     XY (-1495) (-4085), XY (-499) (-4163), X 499, XY 1495 (-4085), XY 511 (-4350), X (-511),
     XY (-1495) (-4085), XY (-2011) (-5494), XY (-3381) (-4811), XY (-4510) (-3773), XY (-5332) (-2478),
     XY (-5792) (-1014), XY (-5857) 519, XY (-5495) 2006, XY (-4086) 1491, XY (-4163) 489,
     XY (-4160) (-516), XY (-4077) (-1518), XY (-4348) (-528), XY (-4351) 500, XY (-4086) 1491,
     XY (-5495) 2006, XY (-4810) 3382, XY (-3766) 4515, XY (-2464) 5339, XY (-992) 5796, XY 548 5854,
     XY 2039 5483, XY 1516 4077, XY 507 4159, X (-506), XY (-1516) 4077, XY (-518) 4349, X 519,
     XY 1516 4077, XY 2039 5483, XY 3303 4864, XY 4367 3938, XY 5179 2784, XY 5664 1463, XY 4212 1088,
     XY 4375 218, XY 4329 (-668), XY 4077 (-1517), XY 4160 (-515), XY 4163 491, XY 4086 1493,
     XY 3787 1471, XY 3867 167, XY 3832 (-1141), XY 3681 (-2440), XY 3491 (-3053), XY 3031 (-3510),
     XY 2416 (-3696), XY 809 (-3853), X (-807), XY (-2414) (-3696), XY (-3029) (-3510),
     XY (-3490) (-3053), XY (-3681) (-2439), XY (-3849) (-823), XY (-3854) 802, XY (-3696) 2419,
     XY (-3510) 3032, XY (-3054) 3491, XY (-2442) 3681, XY (-828) 3848, XY 796 3849, XY 2411 3685,
     XY 3040 3489, XY 3508 3018, XY 3699 2388, XY 3787 1471, XY 4086 1493, XY 4212 1088, XY 8423 2176,
     Z (-1040), Z 10000]"

text \<open>Lines 13998 to 14087.\<close>

definition full_layer_157 :: "pline list" where
  "full_layer_157 = [
     XY 8427 2164, Z (-1060), Z (-4060), XY 5666 1455, XY 5879 (-117), XY 5633 (-1688), XY 4975 (-3135),
     XY 3953 (-4353), XY 2642 (-5253), XY 1139 (-5769), XY (-448) (-5863), XY (-1992) (-5500),
     XY (-1481) (-4090), XY (-495) (-4166), X 495, XY 1481 (-4090), XY 506 (-4351), X (-506),
     XY (-1481) (-4090), XY (-1992) (-5500), XY (-3364) (-4822), XY (-4497) (-3788), XY (-5324) (-2496),
     XY (-5788) (-1034), XY (-5859) 499, XY (-5502) 1987, XY (-4091) 1478, XY (-4166) 485,
     XY (-4163) (-511), XY (-4082) (-1504), XY (-4349) (-523), XY (-4352) 496, XY (-4091) 1478,
     XY (-5502) 1987, XY (-4822) 3365, XY (-3782) 4503, XY (-2482) 5330, XY (-1012) 5792, XY 527 5856,
     XY 2020 5490, XY 1502 4082, XY 502 4162, X (-501), XY (-1502) 4083, XY (-513) 4350, X 514,
     XY 1502 4082, XY 2020 5490, XY 3292 4872, XY 4363 3942, XY 5180 2783, XY 5666 1455, XY 4213 1082,
     XY 4375 218, XY 4330 (-662), XY 4082 (-1504), XY 4162 (-511), XY 4165 487, XY 4090 1481,
     XY 3791 1460, XY 3869 160, XY 3835 (-1144), XY 3688 (-2438), XY 3498 (-3057), XY 3035 (-3517),
     XY 2415 (-3703), XY 809 (-3856), X (-806), XY (-2413) (-3703), XY (-3033) (-3517),
     XY (-3497) (-3057), XY (-3688) (-2438), XY (-3852) (-823), XY (-3857) 802, XY (-3703) 2418,
     XY (-3517) 3036, XY (-3058) 3498, XY (-2441) 3688, XY (-827) 3851, XY 796 3852, XY 2409 3692,
     XY 3043 3496, XY 3515 3021, XY 3706 2386, XY 3791 1460, XY 4090 1481, XY 4213 1082, XY 8427 2164,
     Z (-1060), Z 10000]"

text \<open>Lines 14088 to 14177.\<close>

definition full_layer_158 :: "pline list" where
  "full_layer_158 = [
     XY 8430 2149, Z (-1080), Z (-4080), XY 5669 1445, XY 5879 (-123), XY 5632 (-1690), XY 4975 (-3134),
     XY 3957 (-4350), XY 2650 (-5249), XY 1151 (-5766), XY (-433) (-5864), XY (-1974) (-5507),
     XY (-1468) (-4095), XY (-490) (-4168), X 490, XY 1468 (-4095), XY 501 (-4351), X (-501),
     XY (-1468) (-4095), XY (-1974) (-5507), XY (-3348) (-4833), XY (-4485) (-3803), XY (-5316) (-2513),
     XY (-5785) (-1053), XY (-5860) 479, XY (-5509) 1969, XY (-4096) 1464, XY (-4169) 480,
     XY (-4166) (-506), XY (-4087) (-1489), XY (-4349) (-518), XY (-4352) 491, XY (-4096) 1464,
     XY (-5509) 1969, XY (-4833) 3349, XY (-3797) 4490, XY (-2500) 5322, XY (-1032) 5789, XY 507 5858,
     XY 2001 5497, XY 1488 4088, XY 497 4165, X (-497), XY (-1487) 4088, XY (-508) 4350, X 509,
     XY 1488 4088, XY 2001 5497, XY 3282 4879, XY 4359 3946, XY 5181 2781, XY 5669 1445, XY 4215 1075,
     XY 4375 218, XY 4331 (-654), XY 4087 (-1490), XY 4165 (-506), XY 4168 482, XY 4095 1467,
     XY 3796 1447, XY 3872 151, XY 3838 (-1147), XY 3695 (-2438), XY 3505 (-3060), XY 3039 (-3523),
     XY 2415 (-3709), XY 808 (-3859), X (-806), XY (-2412) (-3710), XY (-3037) (-3524),
     XY (-3504) (-3060), XY (-3695) (-2437), XY (-3855) (-822), XY (-3860) 802, XY (-3709) 2418,
     XY (-3523) 3040, XY (-3061) 3505, XY (-2440) 3695, XY (-827) 3854, XY 795 3856, XY 2408 3699,
     XY 3046 3503, XY 3521 3024, XY 3713 2384, XY 3796 1447, XY 4095 1467, XY 4215 1075, XY 8430 2149,
     Z (-1080), Z 10000]"

text \<open>Lines 14178 to 14267.\<close>

definition full_layer_159 :: "pline list" where
  "full_layer_159 = [
     XY 8434 2135, Z (-1100), Z (-4100), XY 5671 1436, XY 5879 (-129), XY 5631 (-1692), XY 4976 (-3133),
     XY 3960 (-4346), XY 2658 (-5245), XY 1163 (-5764), XY (-417) (-5865), XY (-1956) (-5513),
     XY (-1454) (-4100), XY (-486) (-4171), X 486, XY 1454 (-4100), XY 497 (-4352), X (-497),
     XY (-1454) (-4100), XY (-1956) (-5513), XY (-3332) (-4845), XY (-4472) (-3818), XY (-5307) (-2531),
     XY (-5781) (-1072), XY (-5862) 460, XY (-5515) 1950, XY (-4101) 1450, XY (-4172) 476,
     XY (-4169) (-501), XY (-4092) (-1475), XY (-4350) (-513), XY (-4353) 486, XY (-4101) 1450,
     XY (-5515) 1950, XY (-4844) 3333, XY (-3812) 4477, XY (-2518) 5313, XY (-1052) 5785, XY 487 5860,
     XY 1982 5504, XY 1474 4093, XY 493 4168, X (-492), XY (-1473) 4093, XY (-503) 4351, X 504,
     XY 1474 4093, XY 1982 5504, XY 3271 4886, XY 4356 3950, XY 5182 2779, XY 5671 1436, XY 4217 1068,
     XY 4375 219, XY 4332 (-647), XY 4092 (-1476), XY 4168 (-501), XY 4171 478, XY 4100 1453,
     XY 3801 1434, XY 3875 143, XY 3842 (-1151), XY 3702 (-2437), XY 3512 (-3064), XY 3043 (-3530),
     XY 2414 (-3716), XY 808 (-3862), X (-806), XY (-2412) (-3716), XY (-3041) (-3530),
     XY (-3511) (-3064), XY (-3702) (-2437), XY (-3858) (-822), XY (-3863) 802, XY (-3716) 2417,
     XY (-3530) 3044, XY (-3065) 3512, XY (-2440) 3702, XY (-827) 3857, XY 794 3859, XY 2406 3706,
     XY 3050 3510, XY 3528 3028, XY 3719 2383, XY 3801 1434, XY 4100 1453, XY 4217 1068, XY 8434 2135,
     Z (-1100), Z 10000]"

text \<open>Lines 14268 to 14357.\<close>

definition full_layer_160 :: "pline list" where
  "full_layer_160 = [
     XY 8437 2121, Z (-1120), Z (-4120), XY 5673 1426, XY 5878 (-136), XY 5630 (-1695), XY 4976 (-3133),
     XY 3963 (-4344), XY 2664 (-5242), XY 1173 (-5762), XY (-403) (-5866), XY (-1940) (-5519),
     XY (-1442) (-4104), XY (-482) (-4173), X 482, XY 1442 (-4104), XY 492 (-4352), X (-492),
     XY (-1442) (-4104), XY (-1940) (-5519), XY (-3318) (-4855), XY (-4460) (-3831), XY (-5299) (-2548),
     XY (-5778) (-1090), XY (-5863) 441, XY (-5522) 1932, XY (-4106) 1437, XY (-4174) 471,
     XY (-4171) (-497), XY (-4097) (-1462), XY (-4350) (-508), XY (-4353) 482, XY (-4106) 1437,
     XY (-5522) 1932, XY (-4855) 3317, XY (-3827) 4464, XY (-2536) 5305, XY (-1071) 5782, XY 467 5861,
     XY 1964 5511, XY 1460 4098, XY 488 4171, X (-487), XY (-1459) 4098, XY (-498) 4352, XY 499 4351,
     XY 1460 4098, XY 1964 5511, XY 3261 4893, XY 4353 3953, XY 5183 2777, XY 5673 1426, XY 4219 1061,
     XY 4375 219, XY 4333 (-639), XY 4097 (-1462), XY 4171 (-496), XY 4173 473, XY 4105 1440,
     XY 3805 1421, XY 3877 134, XY 3845 (-1155), XY 3709 (-2436), XY 3519 (-3068), XY 3046 (-3537),
     XY 2413 (-3723), XY 808 (-3864), X (-805), XY (-2411) (-3723), XY (-3044) (-3537),
     XY (-3517) (-3068), XY (-3708) (-2436), XY (-3861) (-821), XY (-3866) 801, XY (-3723) 2417,
     XY (-3537) 3048, XY (-3069) 3519, XY (-2439) 3709, XY (-827) 3861, XY 793 3862, XY 2406 3712,
     XY 3054 3517, XY 3535 3032, XY 3726 2383, XY 3805 1421, XY 4105 1440, XY 4219 1061, XY 8437 2121,
     Z (-1120), Z 10000]"

text \<open>Lines 14358 to 14447.\<close>

definition full_layer_161 :: "pline list" where
  "full_layer_161 = [
     XY 8441 2107, Z (-1140), Z (-4140), XY 5676 1417, XY 5878 (-142), XY 5630 (-1698), XY 4977 (-3132),
     XY 3967 (-4341), XY 2672 (-5238), XY 1185 (-5759), XY (-387) (-5867), XY (-1921) (-5526),
     XY (-1428) (-4109), XY (-477) (-4176), X 477, XY 1428 (-4109), XY 487 (-4353), X (-488),
     XY (-1428) (-4109), XY (-1921) (-5526), XY (-3302) (-4866), XY (-4448) (-3846), XY (-5291) (-2565),
     XY (-5774) (-1109), XY (-5865) 422, XY (-5528) 1914, XY (-4111) 1423, XY (-4177) 467,
     XY (-4174) (-492), XY (-4102) (-1448), XY (-4351) (-503), XY (-4354) 477, XY (-4111) 1423,
     XY (-5528) 1914, XY (-4866) 3301, XY (-3842) 4452, XY (-2554) 5297, XY (-1090) 5778, XY 448 5863,
     XY 1945 5517, XY 1446 4103, XY 483 4174, X (-483), XY (-1446) 4103, XY (-493) 4352, X 494,
     XY 1446 4103, XY 1945 5517, XY 3251 4900, XY 4349 3957, XY 5184 2775, XY 5676 1417, XY 4220 1054,
     XY 4375 219, XY 4334 (-631), XY 4102 (-1448), XY 4174 (-491), XY 4176 469, XY 4110 1426,
     XY 3810 1408, XY 3880 126, XY 3848 (-1158), XY 3716 (-2436), XY 3526 (-3072), XY 3050 (-3544),
     XY 2413 (-3729), XY 807 (-3867), X (-805), XY (-2410) (-3730), XY (-3048) (-3544),
     XY (-3525) (-3072), XY (-3715) (-2435), XY (-3864) (-821), XY (-3869) 801, XY (-3730) 2416,
     XY (-3543) 3052, XY (-3072) 3526, XY (-2438) 3716, XY (-827) 3864, XY 792 3865, XY 2404 3719,
     XY 3057 3523, XY 3541 3036, XY 3733 2382, XY 3810 1408, XY 4110 1426, XY 4220 1054, XY 8441 2107,
     Z (-1140), Z 10000]"

text \<open>Lines 14448 to 14537.\<close>

definition full_layer_162 :: "pline list" where
  "full_layer_162 = [
     XY 8444 2093, Z (-1160), Z (-4160), XY 5678 1407, XY 5878 (-148), XY 5629 (-1700), XY 4977 (-3130),
     XY 3970 (-4337), XY 2679 (-5234), XY 1197 (-5757), XY (-371) (-5868), XY (-1903) (-5532),
     XY (-1415) (-4114), XY (-472) (-4179), X 472, XY 1415 (-4114), XY 483 (-4353), X (-483),
     XY (-1415) (-4114), XY (-1903) (-5532), XY (-3285) (-4877), XY (-4435) (-3861), XY (-5282) (-2583),
     XY (-5771) (-1129), XY (-5866) 402, XY (-5534) 1896, XY (-4115) 1410, XY (-4180) 463,
     XY (-4177) (-487), XY (-4107) (-1434), XY (-4352) (-498), XY (-4354) 472, XY (-4115) 1410,
     XY (-5534) 1896, XY (-4877) 3285, XY (-3856) 4439, XY (-2571) 5288, XY (-1109) 5774, XY 429 5864,
     XY 1927 5523, XY 1433 4107, XY 479 4176, X (-478), XY (-1432) 4107, XY (-489) 4353, X 489,
     XY 1433 4107, XY 1927 5523, XY 3241 4906, XY 4346 3961, XY 5185 2772, XY 5678 1407, XY 4222 1046,
     XY 4375 219, XY 4335 (-624), XY 4107 (-1434), XY 4177 (-486), XY 4179 464, XY 4114 1412,
     XY 3815 1395, XY 3882 118, XY 3852 (-1162), XY 3723 (-2435), XY 3533 (-3075), XY 3055 (-3550),
     XY 2413 (-3736), XY 807 (-3870), X (-805), XY (-2410) (-3736), XY (-3053) (-3551),
     XY (-3532) (-3075), XY (-3722) (-2435), XY (-3867) (-820), XY (-3871) 801, XY (-3736) 2416,
     XY (-3550) 3056, XY (-3076) 3533, XY (-2437) 3723, XY (-827) 3866, XY 791 3867, XY 2402 3726,
     XY 3060 3530, XY 3548 3039, XY 3739 2381, XY 3815 1395, XY 4114 1412, XY 4222 1046, XY 8444 2093,
     Z (-1160), Z 10000]"

text \<open>Lines 14538 to 14627.\<close>

definition full_layer_163 :: "pline list" where
  "full_layer_163 = [
     XY 8449 2073, Z (-1180), Z (-4180), XY 5682 1394, XY 5878 (-158), XY 5627 (-1705), XY 4977 (-3132),
     XY 3972 (-4336), XY 2685 (-5231), XY 1207 (-5755), XY (-356) (-5869), XY (-1885) (-5538),
     XY (-1401) (-4118), XY (-470) (-4180), XY 464 (-4181), XY 1396 (-4120), XY 474 (-4354), X (-480),
     XY (-1401) (-4118), XY (-1885) (-5538), XY (-3270) (-4887), XY (-4422) (-3875), XY (-5274) (-2600),
     XY (-5767) (-1147), XY (-5867) 383, XY (-5540) 1878, XY (-4120) 1397, XY (-4182) 458,
     XY (-4180) (-482), XY (-4112) (-1421), XY (-4352) (-493), XY (-4355) 468, XY (-4120) 1397,
     XY (-5540) 1878, XY (-4887) 3269, XY (-3871) 4426, XY (-2588) 5280, XY (-1128) 5771, XY 409 5866,
     XY 1908 5530, XY 1419 4112, XY 474 4179, X (-473), XY (-1418) 4112, XY (-484) 4353, X 484,
     XY 1419 4112, XY 1908 5530, XY 3231 4913, XY 4344 3963, XY 5188 2768, XY 5682 1394, XY 4225 1036,
     XY 4375 215, XY 4336 (-621), XY 4110 (-1425), XY 4178 (-487), XY 4181 454, XY 4121 1393,
     XY 3821 1377, XY 3884 122, XY 3855 (-1136), XY 3734 (-2387), XY 3535 (-3063), XY 3030 (-3563),
     XY 2352 (-3754), XY 784 (-3874), XY (-789) (-3873), XY (-2357) (-3751), XY (-3031) (-3560),
     XY (-3534) (-3064), XY (-3733) (-2392), XY (-3871) (-792), XY (-3874) 815, XY (-3743) 2416,
     XY (-3557) 3060, XY (-3080) 3540, XY (-2437) 3730, XY (-828) 3869, XY 789 3871, XY 2398 3733,
     XY 3067 3535, XY 3562 3035, XY 3753 2364, XY 3821 1377, XY 4121 1393, XY 4225 1036, XY 8449 2073,
     Z (-1180), Z 10000]"

text \<open>Lines 14628 to 14717.\<close>

definition full_layer_164 :: "pline list" where
  "full_layer_164 = [
     XY 8451 2065, Z (-1200), Z (-4200), XY 5683 1388, XY 5878 (-161), XY 5627 (-1707), XY 4977 (-3131),
     XY 3975 (-4333), XY 2690 (-5228), XY 1215 (-5753), XY (-346) (-5870), XY (-1873) (-5542),
     XY (-1393) (-4121), XY (-468) (-4183), XY 458 (-4184), XY 1382 (-4125), XY 467 (-4355),
     XY (-479) (-4354), XY (-1393) (-4121), XY (-1873) (-5542), XY (-3258) (-4895), XY (-4413) (-3886),
     XY (-5267) (-2614), XY (-5764) (-1164), XY (-5869) 366, XY (-5546) 1861, XY (-4124) 1383,
     XY (-4185) 454, XY (-4182) (-478), XY (-4116) (-1407), XY (-4353) (-488), XY (-4355) 463,
     XY (-4124) 1383, XY (-5546) 1861, XY (-4897) 3255, XY (-3882) 4416, XY (-2601) 5273,
     XY (-1141) 5768, XY 398 5867, XY 1900 5533, XY 1412 4114, XY 475 4183, X (-466), XY (-1404) 4117,
     XY (-476) 4354, XY 485 4353, XY 1412 4114, XY 1900 5533, XY 3226 4916, XY 4343 3964, XY 5189 2766,
     XY 5683 1388, XY 4226 1032, XY 4375 218, XY 4337 (-612), XY 4115 (-1410), XY 4182 (-479),
     XY 4185 454, XY 4124 1384, XY 3824 1369, XY 3887 108, XY 3858 (-1154), XY 3737 (-2411),
     XY 3540 (-3077), XY 3041 (-3570), XY 2373 (-3758), XY 781 (-3877), XY (-816) (-3874),
     XY (-2407) (-3750), XY (-3059) (-3565), XY (-3545) (-3084), XY (-3736) (-2433), XY (-3873) (-824),
     XY (-3877) 791, XY (-3751) 2401, XY (-3565) 3052, XY (-3085) 3539, XY (-2436) 3732, XY (-809) 3874,
     XY 825 3872, XY 2452 3726, XY 3093 3535, XY 3567 3054, XY 3749 2411, XY 3824 1369, XY 4124 1384,
     XY 4226 1032, XY 8451 2065, Z (-1200), Z 10000]"

text \<open>Lines 14718 to 14807.\<close>

definition full_layer_165 :: "pline list" where
  "full_layer_165 = [
     XY 8454 2053, Z (-1220), Z (-4220), XY 5685 1381, XY 5878 (-165), XY 5627 (-1706), XY 4979 (-3127),
     XY 3981 (-4328), XY 2701 (-5223), XY 1231 (-5750), XY (-325) (-5871), XY (-1850) (-5550),
     XY (-1375) (-4127), XY (-459) (-4187), X 459, XY 1375 (-4127), XY 469 (-4355), X (-469),
     XY (-1375) (-4127), XY (-1850) (-5550), XY (-3239) (-4907), XY (-4399) (-3902), XY (-5259) (-2631),
     XY (-5760) (-1181), XY (-5870) 350, XY (-5551) 1847, XY (-4127) 1374, XY (-4187) 454,
     XY (-4185) (-468), XY (-4123) (-1388), XY (-4354) (-478), XY (-4355) 463, XY (-4127) 1374,
     XY (-5551) 1847, XY (-4906) 3241, XY (-3896) 4404, XY (-2620) 5264, XY (-1164) 5764, XY 372 5868,
     XY 1873 5542, XY 1393 4121, XY 467 4185, XY (-462) 4186, XY (-1388) 4123, XY (-471) 4355,
     XY 477 4354, XY 1393 4121, XY 1873 5542, XY 3211 4926, XY 4336 3972, XY 5188 2767, XY 5685 1381,
     XY 4227 1027, XY 4375 219, XY 4338 (-603), XY 4121 (-1394), XY 4184 (-472), XY 4187 451,
     XY 4128 1373, XY 3828 1359, XY 3889 94, XY 3861 (-1172), XY 3744 (-2433), XY 3554 (-3087),
     XY 3067 (-3571), XY 2412 (-3756), XY 823 (-3878), XY (-771) (-3880), XY (-2360) (-3760),
     XY (-3046) (-3566), XY (-3555) (-3059), XY (-3753) (-2374), XY (-3877) (-780), XY (-3879) 820,
     XY (-3756) 2415, XY (-3572) 3066, XY (-3091) 3552, XY (-2441) 3742, XY (-828) 3877, X 791,
     XY 2404 3743, XY 3073 3546, XY 3569 3046, XY 3759 2374, XY 3828 1359, XY 4128 1373, XY 4227 1027,
     XY 8454 2053, Z (-1220), Z 10000]"

text \<open>Lines 14808 to 14897.\<close>

definition full_layer_166 :: "pline list" where
  "full_layer_166 = [
     XY 8458 2040, Z (-1240), Z (-4240), XY 5687 1372, XY 5877 (-172), XY 5626 (-1710), XY 4979 (-3127),
     XY 3983 (-4326), XY 2707 (-5220), XY 1240 (-5748), XY (-313) (-5872), XY (-1835) (-5555),
     XY (-1365) (-4130), XY (-458) (-4189), X 451, XY 1358 (-4132), XY 461 (-4356), XY (-467) (-4355),
     XY (-1365) (-4130), XY (-1835) (-5555), XY (-3226) (-4916), XY (-4388) (-3914), XY (-5251) (-2646),
     XY (-5757) (-1198), XY (-5871) 332, XY (-5557) 1829, XY (-4132) 1360, XY (-4189) 449,
     XY (-4188) (-464), XY (-4127) (-1375), XY (-4354) (-474), XY (-4356) 458, XY (-4132) 1360,
     XY (-5557) 1829, XY (-4917) 3225, XY (-3912) 4390, XY (-2638) 5255, XY (-1184) 5759, XY 351 5870,
     XY 1852 5549, XY 1377 4126, XY 460 4188, X (-459), XY (-1377) 4126, XY (-469) 4355, X 470,
     XY 1377 4126, XY 1852 5549, XY 3198 4934, XY 4332 3976, XY 5189 2765, XY 5687 1372, XY 4229 1020,
     XY 4375 219, XY 4339 (-596), XY 4125 (-1380), XY 4187 (-468), XY 4189 447, XY 4132 1360,
     XY 3832 1346, XY 3892 100, XY 3866 (-1147), XY 3754 (-2390), XY 3557 (-3073), XY 3047 (-3579),
     XY 2362 (-3770), XY 789 (-3882), XY (-788) (-3881), XY (-2361) (-3767), XY (-3050) (-3573),
     XY (-3561) (-3064), XY (-3758) (-2377), XY (-3880) (-796), XY (-3882) 791, XY (-3766) 2372,
     XY (-3575) 3052, XY (-3073) 3558, XY (-2394) 3754, XY (-799) 3880, XY 801 3879, XY 2395 3754,
     XY 3073 3558, XY 3574 3053, XY 3766 2374, XY 3832 1346, XY 4132 1360, XY 4229 1020, XY 8458 2040,
     Z (-1240), Z 10000]"

text \<open>Lines 14898 to 14986.\<close>

definition full_layer_167 :: "pline list" where
  "full_layer_167 = [
     XY 8461 2023, Z (-1260), Z (-4260), XY 5690 1360, XY 5877 (-179), XY 5625 (-1713), XY 4979 (-3128),
     XY 3985 (-4323), XY 2713 (-5217), XY 1251 (-5745), XY (-299) (-5872), XY (-1818) (-5560),
     XY (-1352) (-4135), XY (-3) (-4195), XY 1346 (-4136), XY 457 (-4356), X (-462), XY (-1352) (-4135),
     XY (-1818) (-5560), XY (-3211) (-4926), XY (-4376) (-3927), XY (-5243) (-2661), XY (-5753) (-1213),
     XY (-5871) 317, XY (-5561) 1816, XY (-4135) 1350, XY (-4192) 447, XY (-4191) (-458),
     XY (-4132) (-1360), XY (-4355) (-467), XY (-4356) 456, XY (-4135) 1350, XY (-5561) 1816,
     XY (-4925) 3212, XY (-3923) 4380, XY (-2653) 5247, XY (-1202) 5756, XY 332 5871, XY 1834 5555,
     XY 1364 4131, XY 455 4190, X (-455), XY (-1363) 4131, XY (-464) 4355, X 465, XY 1364 4131,
     XY 1834 5555, XY 3189 4940, XY 4329 3979, XY 5191 2762, XY 5690 1360, XY 4231 1012, XY 4375 218,
     XY 4340 (-590), XY 4129 (-1369), XY 4189 (-465), XY 4192 440, XY 4137 1344, XY 3837 1331,
     XY 3894 90, XY 3868 (-1152), XY 3761 (-2389), XY 3565 (-3076), XY 3053 (-3584), XY 2365 (-3775),
     XY 790 (-3885), XY (-789) (-3884), XY (-2364) (-3772), XY (-3054) (-3580), XY (-3567) (-3070),
     XY (-3764) (-2380), XY (-3884) (-781), Y 823, XY (-3766) 2422, XY (-3581) 3080, XY (-3094) 3569,
     XY (-2437) 3757, XY (-828) 3882, XY 786 3883, XY 2395 3760, XY 3079 3564, XY 3585 3054,
     XY 3775 2369, XY 3837 1331, XY 4137 1344, XY 4231 1012, XY 8461 2023, Z (-1260), Z 10000]"

text \<open>Lines 14987 to 15074.\<close>

definition full_layer_168 :: "pline list" where
  "full_layer_168 = [
     XY 8464 2011, Z (-1280), Z (-4280), XY 5692 1352, XY 5877 (-185), XY 5624 (-1715), XY 4980 (-3126),
     XY 3989 (-4320), XY 2720 (-5213), XY 1262 (-5743), XY (-284) (-5873), XY (-1801) (-5566),
     XY (-1339) (-4139), XY (-3) (-4198), XY 1334 (-4141), XY 452 (-4357), XY (-458) (-4356),
     XY (-1339) (-4139), XY (-1801) (-5566), XY (-3197) (-4935), XY (-4365) (-3939), XY (-5236) (-2675),
     XY (-5750) (-1228), XY (-5872) 303, XY (-5565) 1804, XY (-4138) 1341, XY (-4195) 446, Y (-450),
     XY (-4137) (-1345), XY (-4356) (-459), Y 455, XY (-4138) 1341, XY (-5565) 1804, XY (-4933) 3201,
     XY (-3935) 4370, XY (-2668) 5240, XY (-1218) 5752, XY 314 5872, XY 1816 5561, XY 1350 4135,
     XY 451 4193, X (-450), XY (-1350) 4135, XY (-460) 4356, X 460, XY 1350 4135, XY 1816 5561,
     XY 3179 4947, XY 4326 3983, XY 5192 2761, XY 5692 1352, XY 4232 1005, XY 4375 218, XY 4341 (-583),
     XY 4134 (-1355), XY 4196 (-12), XY 4141 1332, XY 3841 1320, XY 3897 82, XY 3872 (-1156),
     XY 3767 (-2390), XY 3572 (-3080), XY 3059 (-3589), XY 2369 (-3780), XY 791 (-3888),
     XY (-791) (-3887), XY (-2368) (-3777), XY (-3060) (-3586), XY (-3573) (-3076), XY (-3769) (-2386),
     XY (-3887) (-788), Y 816, XY (-3769) 2414, XY (-3581) 3081, XY (-3086) 3576, XY (-2419) 3765,
     XY (-816) 3885, XY 792 3886, XY 2396 3767, XY 3083 3571, XY 3590 3059, XY 3781 2371, XY 3841 1320,
     XY 4141 1332, XY 4232 1005, XY 8464 2011, Z (-1280), Z 10000]"

text \<open>Lines 15075 to 15161.\<close>

definition full_layer_169 :: "pline list" where
  "full_layer_169 = [
     XY 8467 2000, Z (-1300), Z (-4300), XY 5693 1344, XY 5877 (-189), XY 5624 (-1716), XY 4981 (-3125),
     XY 3993 (-4317), XY 2728 (-5209), XY 1273 (-5740), XY (-269) (-5874), XY (-1784) (-5571),
     XY (-1326) (-4143), XY (-3) (-4200), XY 1321 (-4145), XY 448 (-4357), XY (-453) (-4356),
     XY (-1326) (-4143), XY (-1784) (-5571), XY (-3180) (-4946), XY (-4351) (-3955), XY (-5226) (-2695),
     XY (-5745) (-1251), XY (-5873) 278, XY (-5573) 1778, XY (-4144) 1322, XY (-4200) (-7),
     XY (-4140) (-1336), XY (-4356) (-460), XY (-4357) 445, XY (-4144) 1322, XY (-5573) 1778,
     XY (-4946) 3180, XY (-3952) 4354, XY (-2687) 5230, XY (-1238) 5748, XY 296 5873, XY 1800 5566,
     XY 1338 4139, XY 447 4197, X (-447), XY (-1338) 4139, XY (-456) 4356, X 456, XY 1338 4139,
     XY 1800 5566, XY 3170 4953, XY 4322 3986, XY 5192 2759, XY 5693 1344, XY 4234 1000, XY 4375 218,
     XY 4342 (-577), XY 4137 (-1345), XY 4200 (-12), XY 4145 1321, XY 3845 1309, XY 3900 71,
     XY 3875 (-1167), XY 3769 (-2401), XY 3573 (-3089), XY 3060 (-3597), XY 2371 (-3786),
     XY 791 (-3891), XY (-793) (-3890), XY (-2372) (-3783), XY (-3066) (-3591), XY (-3580) (-3079),
     XY (-3775) (-2386), XY (-3889) (-799), XY (-3891) 793, XY (-3782) 2381, XY (-3594) 3065,
     XY (-3090) 3573, XY (-2407) 3769, XY (-804) 3889, X 804, XY 2408 3768, XY 3089 3574, XY 3593 3066,
     XY 3782 2382, XY 3845 1309, XY 4145 1321, XY 4234 1000, XY 8467 2000, Z (-1300), Z 10000]"

text \<open>Lines 15162 to 15248.\<close>

definition full_layer_170 :: "pline list" where
  "full_layer_170 = [
     XY 8471 1985, Z (-1320), Z (-4320), XY 5696 1335, XY 5877 (-195), XY 5623 (-1719), XY 4982 (-3124),
     XY 3997 (-4313), XY 2736 (-5205), XY 1286 (-5738), XY (-252) (-5875), XY (-1764) (-5578),
     XY (-1311) (-4148), XY 0 (-4203), XY 1311 (-4148), XY 446 (-4357), X (-446), XY (-1311) (-4148),
     XY (-1764) (-5578), XY (-3163) (-4957), XY (-4338) (-3970), XY (-5217) (-2712), XY (-5741) (-1270),
     XY (-5874) 259, XY (-5579) 1761, XY (-4148) 1310, XY (-4203) (-7), XY (-4144) (-1323),
     XY (-4356) (-455), XY (-4358) 441, XY (-4148) 1310, XY (-5579) 1761, XY (-4956) 3165,
     XY (-3965) 4342, XY (-2703) 5222, XY (-1255) 5744, XY 278 5873, XY 1783 5572, XY 1326 4143,
     XY 443 4200, X (-442), XY (-1326) 4143, XY (-451) 4357, X 452, XY 1326 4143, XY 1783 5572,
     XY 3161 4958, XY 4320 3989, XY 5194 2756, XY 5696 1335, XY 4235 992, XY 4375 219, XY 4343 (-569),
     XY 4142 (-1329), XY 4202 (-11), XY 4149 1306, XY 3849 1295, XY 3902 65, XY 3878 (-1167),
     XY 3779 (-2394), XY 3586 (-3086), XY 3073 (-3597), XY 2380 (-3788), XY 796 (-3894), X (-792),
     XY (-2376) (-3788), XY (-3072) (-3597), XY (-3587) (-3084), XY (-3781) (-2389), XY (-3892) (-791),
     XY (-3894) 811, XY (-3786) 2410, XY (-3603) 3079, XY (-3111) 3577, XY (-2445) 3768, XY (-817) 3892,
     X 816, XY 2444 3768, XY 3114 3576, XY 3608 3074, XY 3790 2402, XY 3849 1295, XY 4149 1306,
     XY 4235 992, XY 8471 1985, Z (-1320), Z 10000]"

text \<open>Lines 15249 to 15334.\<close>

definition full_layer_171 :: "pline list" where
  "full_layer_171 = [
     XY 8474 1972, Z (-1340), Z (-4340), XY 5698 1326, XY 5877 (-201), XY 5623 (-1721), XY 4982 (-3123),
     XY 4000 (-4310), XY 2743 (-5201), XY 1297 (-5735), XY (-237) (-5875), XY (-1747) (-5583),
     XY (-1299) (-4152), XY 0 (-4206), XY 1299 (-4152), XY 442 (-4358), X (-442), XY (-1299) (-4152),
     XY (-1747) (-5583), XY (-3148) (-4966), XY (-4326) (-3983), XY (-5209) (-2728), XY (-5737) (-1287),
     XY (-5875) 241, XY (-5584) 1744, XY (-4152) 1297, XY (-4205) (-6), XY (-4148) (-1310),
     XY (-4357) (-450), XY (-4358) 437, XY (-4152) 1297, XY (-5584) 1744, XY (-4966) 3149,
     XY (-3979) 4329, XY (-2720) 5213, XY (-1275) 5740, XY 257 5874, XY 1763 5578, XY 1311 4148,
     XY 0 4204, XY (-1310) 4148, XY (-446) 4357, X 446, XY 1311 4148, XY 1763 5578, XY 3149 4966,
     XY 4316 3994, XY 5195 2755, XY 5698 1326, XY 4237 986, XY 4375 219, XY 4344 (-562),
     XY 4146 (-1316), XY 4204 (-11), XY 4153 1294, XY 3853 1283, XY 3905 56, XY 3882 (-1173),
     XY 3784 (-2397), XY 3592 (-3091), XY 3078 (-3603), XY 2384 (-3793), XY 797 (-3897), X (-793),
     XY (-2380) (-3793), XY (-3077) (-3603), XY (-3593) (-3088), XY (-3786) (-2392), XY (-3895) (-800),
     XY (-3897) 795, XY (-3793) 2387, XY (-3604) 3079, XY (-3094) 3592, XY (-2403) 3784, XY (-803) 3894,
     X 802, XY 2402 3784, XY 3096 3590, XY 3608 3074, XY 3797 2378, XY 3853 1283, XY 4153 1294,
     XY 4237 986, XY 8474 1972, Z (-1340), Z 10000]"

text \<open>Lines 15335 to 15420.\<close>

definition full_layer_172 :: "pline list" where
  "full_layer_172 = [
     XY 8477 1959, Z (-1360), Z (-4360), XY 5700 1317, XY 5876 (-207), XY 5622 (-1723), XY 4983 (-3122),
     XY 4003 (-4307), XY 2750 (-5197), XY 1308 (-5733), XY (-223) (-5876), XY (-1729) (-5589),
     XY (-1286) (-4156), XY 0 (-4209), XY 1286 (-4156), XY 437 (-4358), X (-437), XY (-1286) (-4156),
     XY (-1729) (-5589), XY (-3133) (-4976), XY (-4313) (-3996), XY (-5201) (-2744), XY (-5733) (-1305),
     XY (-5876) 223, XY (-5589) 1727, XY (-4156) 1284, XY (-4208) (-6), XY (-4152) (-1297),
     XY (-4357) (-445), XY (-4359) 433, XY (-4156) 1284, XY (-5589) 1727, XY (-4975) 3134,
     XY (-3993) 4317, XY (-2736) 5204, XY (-1293) 5736, XY 239 5875, XY 1745 5584, XY 1298 4152,
     XY 0 4207, XY (-1297) 4152, XY (-441) 4358, X 442, XY 1298 4152, XY 1745 5584, XY 3139 4972,
     XY 4312 3997, XY 5196 2753, XY 5700 1317, XY 4238 979, XY 4375 219, XY 4345 (-555),
     XY 4150 (-1303), XY 4207 (-11), XY 4157 1281, XY 3857 1271, XY 3907 47, XY 3885 (-1179),
     XY 3790 (-2400), XY 3599 (-3095), XY 3083 (-3609), XY 2387 (-3799), XY 798 (-3900), X (-794),
     XY (-2383) (-3799), XY (-3082) (-3609), XY (-3599) (-3093), XY (-3792) (-2395), XY (-3898) (-801),
     XY (-3900) 796, XY (-3799) 2391, XY (-3610) 3084, XY (-3098) 3598, XY (-2406) 3790, XY (-804) 3897,
     X 802, XY 2404 3790, XY 3101 3596, XY 3614 3079, XY 3803 2381, XY 3857 1271, XY 4157 1281,
     XY 4238 979, XY 8477 1959, Z (-1360), Z 10000]"

text \<open>Lines 15421 to 15506.\<close>

definition full_layer_173 :: "pline list" where
  "full_layer_173 = [
     XY 8480 1946, Z (-1380), Z (-4380), XY 5702 1308, XY 5876 (-212), XY 5621 (-1725), XY 4984 (-3121),
     XY 4007 (-4304), XY 2757 (-5194), XY 1319 (-5730), XY (-208) (-5876), XY (-1712) (-5594),
     XY (-1273) (-4159), XY 0 (-4211), XY 1273 (-4160), XY 433 (-4359), X (-433), XY (-1273) (-4159),
     XY (-1712) (-5594), XY (-3117) (-4986), XY (-4301) (-4009), XY (-5192) (-2760), XY (-5729) (-1322),
     XY (-5876) 205, XY (-5594) 1710, XY (-4160) 1272, XY (-4211) (-6), XY (-4156) (-1283),
     XY (-4358) (-441), XY (-4359) 428, XY (-4160) 1272, XY (-5594) 1710, XY (-4985) 3118,
     XY (-4006) 4304, XY (-2753) 5196, XY (-1311) 5732, XY 220 5876, XY 1727 5589, XY 1284 4156,
     XY 0 4210, XY (-1284) 4156, XY (-437) 4358, X 437, XY 1284 4156, XY 1727 5589, XY 3129 4978,
     XY 4309 4001, XY 5197 2751, XY 5702 1308, XY 4240 973, XY 4375 219, XY 4346 (-548),
     XY 4154 (-1290), XY 4210 (-11), XY 4161 1268, XY 3861 1258, XY 3910 37, XY 3888 (-1185),
     XY 3796 (-2403), XY 3605 (-3100), XY 3089 (-3615), XY 2391 (-3804), XY 799 (-3903), X (-795),
     XY (-2387) (-3804), XY (-3087) (-3615), XY (-3606) (-3098), XY (-3798) (-2398), XY (-3901) (-802),
     XY (-3903) 797, XY (-3804) 2393, XY (-3616) 3089, XY (-3103) 3604, XY (-2408) 3796, XY (-804) 3901,
     XY 803 3900, XY 2407 3796, XY 3105 3603, XY 3620 3084, XY 3808 2384, XY 3861 1258, XY 4161 1268,
     XY 4240 973, XY 8480 1946, Z (-1380), Z 10000]"

text \<open>Lines 15507 to 15592.\<close>

definition full_layer_174 :: "pline list" where
  "full_layer_174 = [
     XY 8483 1933, Z (-1400), Z (-4400), XY 5704 1300, XY 5876 (-218), XY 5621 (-1727), XY 4984 (-3120),
     XY 4010 (-4301), XY 2764 (-5190), XY 1330 (-5728), XY (-193) (-5877), XY (-1695) (-5599),
     XY (-1260) (-4163), XY 0 (-4214), XY 1260 (-4163), XY 428 (-4359), X (-429), XY (-1260) (-4163),
     XY (-1695) (-5599), XY (-3102) (-4995), XY (-4289) (-4022), XY (-5184) (-2776), XY (-5725) (-1340),
     XY (-5877) 187, XY (-5600) 1693, XY (-4164) 1259, XY (-4213) (-6), XY (-4160) (-1270),
     XY (-4358) (-436), XY (-4359) 424, XY (-4164) 1259, XY (-5600) 1693, XY (-4995) 3103,
     XY (-4019) 4292, XY (-2769) 5187, XY (-1329) 5728, XY 202 5877, XY 1710 5595, XY 1271 4160,
     XY 0 4213, XY (-1271) 4160, XY (-432) 4359, X 432, XY 1271 4160, XY 1710 5595, XY 3119 4985,
     XY 4306 4004, XY 5198 2749, XY 5704 1300, XY 4241 966, XY 4375 219, XY 4346 (-541),
     XY 4159 (-1276), XY 4212 (-11), XY 4165 1255, XY 3865 1246, XY 3913 28, XY 3891 (-1190),
     XY 3802 (-2406), XY 3612 (-3105), XY 3094 (-3621), XY 2394 (-3809), XY 801 (-3906), X (-797),
     XY (-2390) (-3809), XY (-3093) (-3621), XY (-3612) (-3103), XY (-3803) (-2401), XY (-3904) (-803),
     XY (-3906) 798, XY (-3809) 2396, XY (-3622) 3094, XY (-3107) 3611, XY (-2410) 3801, XY (-773) 3904,
     XY 868 3902, XY 2505 3795, XY 3148 3588, XY 3623 3098, XY 3810 2449, XY 3865 1246, XY 4165 1255,
     XY 4241 966, XY 8483 1933, Z (-1400), Z 10000]"

text \<open>Lines 15593 to 15678.\<close>

definition full_layer_175 :: "pline list" where
  "full_layer_175 = [
     XY 8486 1920, Z (-1420), Z (-4420), XY 5706 1291, XY 5876 (-224), XY 5620 (-1730), XY 4985 (-3119),
     XY 4013 (-4298), XY 2771 (-5186), XY 1341 (-5725), XY (-179) (-5877), XY (-1678) (-5604),
     XY (-1248) (-4167), XY 0 (-4217), XY 1248 (-4167), XY 424 (-4359), X (-424), XY (-1248) (-4167),
     XY (-1678) (-5604), XY (-3087) (-5005), XY (-4277) (-4036), XY (-5175) (-2791), XY (-5721) (-1357),
     XY (-5878) 169, XY (-5605) 1676, XY (-4168) 1246, XY (-4216) (-5), XY (-4164) (-1257),
     XY (-4359) (-431), XY (-4360) 420, XY (-4168) 1246, XY (-5605) 1676, XY (-5004) 3088,
     XY (-4032) 4279, XY (-2785) 5179, XY (-1347) 5724, XY 183 5877, XY 1692 5600, XY 1258 4164,
     XY 0 4215, XY (-1258) 4164, XY (-427) 4359, X 428, XY 1258 4164, XY 1692 5600, XY 3109 4991,
     XY 4303 4008, XY 5199 2748, XY 5706 1291, XY 4243 960, XY 4375 219, XY 4347 (-534),
     XY 4163 (-1263), XY 4215 (-10), XY 4169 1242, XY 3869 1234, XY 3915 20, XY 3895 (-1195),
     XY 3807 (-2407), XY 3618 (-3109), XY 3099 (-3627), XY 2396 (-3815), XY 801 (-3909), X (-798),
     XY (-2393) (-3815), XY (-3098) (-3627), XY (-3619) (-3107), XY (-3809) (-2404), XY (-3907) (-804),
     XY (-3909) 799, XY (-3815) 2399, XY (-3628) 3099, XY (-3112) 3617, XY (-2413) 3807, XY (-775) 3907,
     XY 867 3905, XY 2505 3801, XY 3152 3594, XY 3629 3102, XY 3816 2449, XY 3869 1234, XY 4169 1242,
     XY 4243 960, XY 8486 1920, Z (-1420), Z 10000]"

text \<open>Lines 15679 to 15764.\<close>

definition full_layer_176 :: "pline list" where
  "full_layer_176 = [
     XY 8489 1906, Z (-1440), Z (-4440), XY 5708 1282, XY 5876 (-230), XY 5619 (-1732), XY 4985 (-3118),
     XY 4016 (-4295), XY 2778 (-5183), XY 1352 (-5722), XY (-164) (-5878), XY (-1661) (-5609),
     XY (-1235) (-4171), XY 0 (-4219), XY 1235 (-4171), XY 420 (-4360), X (-420), XY (-1235) (-4171),
     XY (-1661) (-5609), XY (-3071) (-5014), XY (-4264) (-4049), XY (-5167) (-2807), XY (-5717) (-1375),
     XY (-5878) 151, XY (-5610) 1659, XY (-4171) 1234, XY (-4219) (-5), XY (-4168) (-1244),
     XY (-4359) (-426), XY (-4360) 416, XY (-4171) 1234, XY (-5610) 1659, XY (-5014) 3072,
     XY (-4046) 4267, XY (-2801) 5170, XY (-1365) 5719, XY 164 5878, XY 1674 5605, XY 1245 4168,
     XY 0 4218, XY (-1244) 4168, XY (-423) 4360, X 423, XY 1245 4168, XY 1674 5605, XY 3099 4997,
     XY 4299 4011, XY 5200 2745, XY 5708 1282, XY 4244 953, XY 4374 219, XY 4348 (-527),
     XY 4167 (-1249), XY 4218 (-10), XY 4173 1229, XY 3873 1221, XY 3918 10, XY 3898 (-1201),
     XY 3813 (-2409), XY 3624 (-3114), XY 3103 (-3633), XY 2399 (-3820), XY 802 (-3912), X (-799),
     XY (-2396) (-3820), XY (-3102) (-3633), XY (-3625) (-3112), XY (-3815) (-2406), XY (-3910) (-804),
     XY (-3912) 800, XY (-3820) 2402, XY (-3634) 3104, XY (-3116) 3624, XY (-2415) 3813, XY (-776) 3910,
     XY 866 3908, XY 2505 3807, XY 3156 3601, XY 3636 3106, XY 3822 2449, XY 3873 1221, XY 4173 1229,
     XY 4244 953, XY 8489 1906, Z (-1440), Z 10000]"

text \<open>Lines 15765 to 15851.\<close>

definition full_layer_177 :: "pline list" where
  "full_layer_177 = [
     XY 8492 1893, Z (-1460), Z (-4460), XY 5710 1273, XY 5875 (-235), XY 5619 (-1734), XY 4986 (-3117),
     XY 4020 (-4291), XY 2785 (-5179), XY 1364 (-5720), XY (-148) (-5878), XY (-1642) (-5615),
     XY (-1221) (-4175), XY 0 (-4222), XY 1221 (-4175), XY 415 (-4360), X (-415), XY (-1221) (-4175),
     XY (-1642) (-5615), XY (-3055) (-5024), XY (-4251) (-4062), XY (-5158) (-2824), XY (-5713) (-1393),
     XY (-5878) 133, XY (-5615) 1642, XY (-4175) 1221, XY (-4221) (-5), XY (-4172) (-1230),
     XY (-4360) (-421), XY (-4361) 411, XY (-4175) 1221, XY (-5615) 1642, XY (-5023) 3057,
     XY (-4059) 4254, XY (-2817) 5161, XY (-1383) 5715, XY 146 5878, XY 1656 5611, XY 1231 4172,
     XY 0 4221, XY (-1231) 4172, XY (-418) 4360, X 419, XY 1231 4172, XY 1656 5611, XY 2819 5160,
     XY 3845 4448, XY 4698 3536, XY 5339 2463, XY 5710 1273, XY 4246 946, XY 4374 220, XY 4349 (-520),
     XY 4171 (-1236), XY 4221 (-10), XY 4177 1216, XY 3877 1209, XY 3921 1, XY 3901 (-1207),
     XY 3819 (-2412), XY 3631 (-3118), XY 3109 (-3639), XY 2402 (-3826), XY 803 (-3915), X (-799),
     XY (-2398) (-3826), XY (-3107) (-3638), XY (-3631) (-3116), XY (-3821) (-2407), XY (-3913) (-804),
     XY (-3915) 802, XY (-3826) 2405, XY (-3640) 3109, XY (-3121) 3630, XY (-2417) 3819, XY (-777) 3913,
     XY 865 3911, XY 2505 3813, XY 3160 3607, XY 3642 3110, XY 3828 2449, XY 3877 1209, XY 4177 1216,
     XY 4246 946, XY 8492 1893, Z (-1460), Z 10000]"

text \<open>Lines 15852 to 15938.\<close>

definition full_layer_178 :: "pline list" where
  "full_layer_178 = [
     XY 8495 1879, Z (-1480), Z (-4480), XY 5712 1264, XY 5875 (-241), XY 5618 (-1736), XY 4986 (-3116),
     XY 4023 (-4288), XY 2792 (-5175), XY 1375 (-5717), XY (-134) (-5878), XY (-1625) (-5620),
     XY (-1208) (-4179), XY 0 (-4225), XY 1208 (-4179), XY 410 (-4361), X (-410), XY (-1208) (-4179),
     XY (-1625) (-5620), XY (-3040) (-5033), XY (-4239) (-4075), XY (-5149) (-2839), XY (-5708) (-1410),
     XY (-5879) 115, XY (-5620) 1624, XY (-4179) 1208, XY (-4224) (-5), XY (-4176) (-1217),
     XY (-4360) (-417), XY (-4361) 407, XY (-4179) 1208, XY (-5620) 1624, XY (-5032) 3041,
     XY (-4072) 4242, XY (-2833) 5152, XY (-1401) 5711, XY 127 5879, XY 1638 5616, XY 1218 4176,
     XY 0 4223, XY (-1218) 4176, XY (-413) 4360, X 414, XY 1218 4176, XY 1638 5616, XY 2807 5167,
     XY 3840 4453, XY 4697 3537, XY 5341 2460, XY 5712 1264, XY 4247 940, XY 4374 220, XY 4350 (-513),
     XY 4175 (-1222), XY 4223 (-10), XY 4180 1203, XY 3880 1196, XY 3923 (-8), XY 3905 (-1212),
     XY 3825 (-2414), XY 3637 (-3122), XY 3114 (-3645), XY 2405 (-3831), XY 804 (-3918), X (-800),
     XY (-2401) (-3831), XY (-3112) (-3644), XY (-3638) (-3120), XY (-3826) (-2409), XY (-3916) (-805),
     XY (-3918) 803, XY (-3831) 2407, XY (-3646) 3114, XY (-3125) 3637, XY (-2419) 3825, XY (-779) 3916,
     XY 864 3915, XY 2505 3819, XY 3164 3614, XY 3648 3114, XY 3833 2449, XY 3880 1196, XY 4180 1203,
     XY 4247 940, XY 8495 1879, Z (-1480), Z 10000]"

text \<open>Lines 15939 to 16025.\<close>

definition full_layer_179 :: "pline list" where
  "full_layer_179 = [
     XY 8497 1866, Z (-1500), Z (-4500), XY 5714 1255, XY 5875 (-247), XY 5617 (-1739), XY 4987 (-3115),
     XY 4026 (-4285), XY 2799 (-5171), XY 1386 (-5714), XY (-119) (-5879), XY (-1608) (-5625),
     XY (-1196) (-4182), XY 0 (-4227), XY 1195 (-4183), XY 406 (-4361), X (-406), XY (-1196) (-4182),
     XY (-1608) (-5625), XY (-3024) (-5043), XY (-4226) (-4088), XY (-5140) (-2855), XY (-5704) (-1428),
     XY (-5879) 97, XY (-5625) 1607, XY (-4183) 1195, XY (-4227) (-4), XY (-4180) (-1204),
     XY (-4361) (-412), Y 403, XY (-4183) 1195, XY (-5625) 1607, XY (-5042) 3026, XY (-4085) 4229,
     XY (-2850) 5143, XY (-1419) 5706, XY 109 5879, XY 1620 5621, XY 1205 4180, XY 0 4226,
     XY (-1204) 4180, XY (-409) 4361, X 409, XY 1205 4180, XY 1620 5621, XY 2795 5173, XY 3834 4458,
     XY 4696 3539, XY 5342 2456, XY 5714 1255, XY 4249 933, XY 4374 220, XY 4351 (-506),
     XY 4179 (-1209), XY 4226 (-10), XY 4184 1190, XY 3884 1183, XY 3926 (-17), XY 3908 (-1218),
     XY 3831 (-2416), XY 3644 (-3127), XY 3119 (-3651), XY 2407 (-3837), XY 804 (-3921), X (-801),
     XY (-2404) (-3837), XY (-3117) (-3650), XY (-3644) (-3125), XY (-3832) (-2412), XY (-3920) (-774),
     XY (-3919) 867, XY (-3832) 2505, XY (-3635) 3151, XY (-3152) 3632, XY (-2505) 3826, XY (-836) 3918,
     X 836, XY 2505 3826, XY 3167 3621, XY 3655 3118, XY 3839 2449, XY 3884 1183, XY 4184 1190,
     XY 4249 933, XY 8497 1866, Z (-1500), Z 10000]"

text \<open>Lines 16026 to 16112.\<close>

definition full_layer_180 :: "pline list" where
  "full_layer_180 = [
     XY 8499 1858, Z (-1520), Z (-4520), XY 5715 1249, XY 5875 (-249), XY 5617 (-1738), XY 4989 (-3112),
     XY 4031 (-4281), XY 2807 (-5167), XY 1398 (-5711), XY (-104) (-5879), XY (-1590) (-5630),
     XY (-1183) (-4186), XY 0 (-4230), XY 1183 (-4186), XY 401 (-4362), X (-401), XY (-1183) (-4186),
     XY (-1590) (-5630), XY (-3009) (-5052), XY (-4214) (-4101), XY (-5131) (-2871), XY (-5700) (-1445),
     XY (-5879) 79, XY (-5630) 1590, XY (-4186) 1182, XY (-4229) (-4), XY (-4184) (-1190),
     XY (-4361) (-407), XY (-4362) 398, XY (-4186) 1182, XY (-5630) 1590, XY (-5051) 3010,
     XY (-4098) 4216, XY (-2866) 5134, XY (-1437) 5702, XY 90 5879, XY 1602 5626, XY 1191 4184,
     XY 0 4229, XY (-1191) 4184, XY (-404) 4361, X 405, XY 1191 4184, XY 1602 5626, XY 2783 5180,
     XY 3827 4464, XY 4693 3542, XY 5343 2456, XY 5715 1249, XY 4250 929, XY 4374 223, XY 4352 (-495),
     XY 4184 (-1192), XY 4229 (-5), XY 4186 1182, XY 3886 1175, XY 3929 (-52), XY 3911 (-1279),
     XY 3832 (-2505), XY 3638 (-3156), XY 3155 (-3641), XY 2505 (-3838), XY 868 (-3923),
     XY (-770) (-3924), XY (-2406) (-3842), XY (-3122) (-3657), XY (-3650) (-3129), XY (-3838) (-2414),
     XY (-3923) (-775), XY (-3922) 866, XY (-3838) 2505, XY (-3642) 3155, XY (-3156) 3639,
     XY (-2505) 3832, XY (-836) 3921, X 836, XY 2505 3832, XY 3155 3638, XY 3641 3154, XY 3837 2505,
     XY 3886 1175, XY 4186 1182, XY 4250 929, XY 8499 1858, Z (-1520), Z 10000]"

text \<open>Lines 16113 to 16199.\<close>

definition full_layer_181 :: "pline list" where
  "full_layer_181 = [
     XY 8502 1845, Z (-1540), Z (-4540), XY 5717 1241, XY 5874 (-255), XY 5617 (-1740), XY 4989 (-3111),
     XY 4034 (-4278), XY 2814 (-5163), XY 1409 (-5709), XY (-89) (-5879), XY (-1573) (-5635),
     XY (-1170) (-4190), XY 0 (-4233), XY 1170 (-4190), XY 397 (-4362), X (-397), XY (-1170) (-4190),
     XY (-1573) (-5635), XY (-2993) (-5061), XY (-4201) (-4114), XY (-5123) (-2887), XY (-5695) (-1463),
     XY (-5880) 61, XY (-5635) 1573, XY (-4190) 1169, XY (-4232) (-4), XY (-4188) (-1177),
     XY (-4361) (-402), XY (-4362) 394, XY (-4190) 1169, XY (-5635) 1573, XY (-5060) 2994,
     XY (-4112) 4204, XY (-2882) 5125, XY (-1455) 5697, XY 71 5880, XY 1584 5631, XY 1178 4187,
     XY 0 4231, XY (-1178) 4188, XY (-400) 4362, X 400, XY 1178 4187, XY 1584 5631, XY 2772 5186,
     XY 3821 4469, XY 4692 3544, XY 5344 2453, XY 5717 1241, XY 4251 923, XY 4374 223, XY 4353 (-488),
     XY 4187 (-1178), XY 4232 (-5), XY 4190 1169, XY 3890 1163, XY 3932 (-60), XY 3915 (-1283),
     XY 3838 (-2505), XY 3645 (-3160), XY 3159 (-3648), XY 2505 (-3843), XY 836 (-3926), X (-836),
     XY (-2505) (-3843), XY (-3174) (-3637), XY (-3663) (-3126), XY (-3842) (-2449), XY (-3925) (-799),
     XY (-3926) 854, XY (-3844) 2505, XY (-3648) 3159, XY (-3160) 3646, XY (-2505) 3838, XY (-836) 3924,
     X 836, XY 2505 3838, XY 3159 3645, XY 3647 3158, XY 3843 2505, XY 3890 1163, XY 4190 1169,
     XY 4251 923, XY 8502 1845, Z (-1540), Z 10000]"

text \<open>Lines 16200 to 16286.\<close>

definition full_layer_182 :: "pline list" where
  "full_layer_182 = [
     XY 8505 1832, Z (-1560), Z (-4560), XY 5719 1232, XY 5874 (-260), XY 5616 (-1742), XY 4990 (-3110),
     XY 4038 (-4274), XY 2821 (-5159), XY 1420 (-5706), XY (-74) (-5880), XY (-1555) (-5639),
     XY (-1157) (-4193), XY 0 (-4235), XY 1157 (-4193), XY 392 (-4362), X (-392), XY (-1157) (-4193),
     XY (-1555) (-5639), XY (-2977) (-5071), XY (-4188) (-4127), XY (-5114) (-2903), XY (-5691) (-1480),
     XY (-5880) 43, XY (-5640) 1555, XY (-4193) 1156, XY (-4235) (-4), XY (-4191) (-1164),
     XY (-4362) (-397), XY (-4363) 390, XY (-4193) 1156, XY (-5640) 1555, XY (-5070) 2979,
     XY (-4125) 4191, XY (-2898) 5116, XY (-1473) 5693, XY 52 5880, XY 1566 5636, XY 1165 4191,
     XY 0 4234, XY (-1164) 4191, XY (-395) 4362, X 395, XY 1165 4191, XY 1566 5636, XY 2760 5192,
     XY 3815 4474, XY 4691 3545, XY 5345 2450, XY 5719 1232, XY 4252 916, XY 4374 224, XY 4354 (-481),
     XY 4191 (-1165), XY 4235 (-4), XY 4193 1157, XY 3894 1150, XY 3934 (-68), XY 3918 (-1287),
     XY 3844 (-2505), XY 3652 (-3164), XY 3163 (-3654), XY 2505 (-3849), XY 836 (-3929), X (-836),
     XY (-2505) (-3849), XY (-3178) (-3643), XY (-3670) (-3130), XY (-3848) (-2449), XY (-3928) (-799),
     XY (-3929) 854, XY (-3850) 2505, XY (-3655) 3163, XY (-3164) 3652, XY (-2505) 3844, XY (-836) 3927,
     X 836, XY 2505 3844, XY 3163 3651, XY 3654 3162, XY 3849 2505, XY 3894 1150, XY 4193 1157,
     XY 4252 916, XY 8505 1832, Z (-1560), Z 10000]"

text \<open>Lines 16287 to 16372.\<close>

definition full_layer_183 :: "pline list" where
  "full_layer_183 = [
     XY 8508 1819, Z (-1580), Z (-4580), XY 5721 1223, XY 5874 (-266), XY 5615 (-1744), XY 4991 (-3109),
     XY 4041 (-4271), XY 2828 (-5155), XY 1431 (-5703), XY (-59) (-5880), XY (-1538) (-5644),
     XY (-1144) (-4197), XY 0 (-4238), XY 1143 (-4197), XY 388 (-4363), X (-388), XY (-1144) (-4197),
     XY (-1538) (-5644), XY (-2961) (-5080), XY (-4175) (-4140), XY (-5105) (-2919), XY (-5686) (-1498),
     XY (-5880) 25, XY (-5644) 1538, XY (-4197) 1143, XY (-4237) (-3), XY (-4195) (-1150),
     XY (-4362) (-393), XY (-4363) 385, XY (-4197) 1143, XY (-5644) 1538, XY (-5079) 2963,
     XY (-4138) 4178, XY (-2914) 5107, XY (-1491) 5688, XY 34 5880, XY 1548 5641, XY 1151 4195,
     XY 0 4237, XY (-1151) 4195, XY (-390) 4363, X 391, XY 1151 4195, XY 1548 5641, XY 2748 5198,
     XY 3809 4479, XY 4690 3547, XY 5347 2447, XY 5721 1223, XY 4254 910, XY 4374 224, XY 4354 (-474),
     XY 4195 (-1152), XY 4237 (-4), XY 4197 1144, XY 3897 1138, XY 3932 (-684), XY 3851 (-2505),
     XY 3659 (-3168), XY 3167 (-3661), XY 2505 (-3855), XY 835 (-3932), X (-835), XY (-2505) (-3855),
     XY (-3182) (-3650), XY (-3677) (-3134), XY (-3854) (-2449), XY (-3931) (-799), XY (-3932) 854,
     XY (-3855) 2505, XY (-3662) 3167, XY (-3168) 3659, XY (-2505) 3851, XY (-836) 3931, XY 836 3930,
     XY 2505 3850, XY 3167 3658, XY 3660 3167, XY 3855 2505, XY 3897 1138, XY 4197 1144, XY 4254 910,
     XY 8508 1819, Z (-1580), Z 10000]"

text \<open>Lines 16373 to 16458.\<close>

definition full_layer_184 :: "pline list" where
  "full_layer_184 = [
     XY 8510 1807, Z (-1600), Z (-4600), XY 5722 1215, XY 5874 (-272), XY 5615 (-1747), XY 4991 (-3109),
     XY 4044 (-4269), XY 2834 (-5152), XY 1441 (-5701), XY (-46) (-5880), XY (-1523) (-5648),
     XY (-1132) (-4200), XY (-2) (-4240), XY 1129 (-4201), XY 381 (-4363), X (-385), XY (-1132) (-4200),
     XY (-1523) (-5648), XY (-2948) (-5088), XY (-4164) (-4152), XY (-5096) (-2933), XY (-5682) (-1514),
     XY (-5880) 8, XY (-5649) 1522, XY (-4200) 1131, XY (-4241) (-2), XY (-4199) (-1135),
     XY (-4363) (-386), Y 382, XY (-4200) 1131, XY (-5649) 1522, XY (-5088) 2947, XY (-4152) 4164,
     XY (-2932) 5097, XY (-1512) 5682, XY 10 5880, XY 1525 5648, XY 1134 4200, XY (-4) 4240,
     XY (-1142) 4198, XY (-390) 4363, X 382, XY 1134 4200, XY 1525 5648, XY 2732 5207, XY 3801 4486,
     XY 4687 3551, XY 5348 2445, XY 5722 1215, XY 4255 903, XY 4374 224, XY 4355 (-467),
     XY 4198 (-1139), XY 4240 (-4), XY 4200 1131, XY 3900 1126, XY 3935 (-690), XY 3857 (-2505),
     XY 3655 (-3188), XY 3139 (-3687), XY 2449 (-3865), XY 798 (-3936), XY (-854) (-3934),
     XY (-2505) (-3861), XY (-3170) (-3667), XY (-3664) (-3171), XY (-3856) (-2505), XY (-3934) (-851),
     XY (-3936) 804, XY (-3860) 2457, XY (-3681) 3157, XY (-3166) 3674, XY (-2466) 3854, XY (-810) 3933,
     XY 848 3934, XY 2505 3857, XY 3171 3665, XY 3667 3171, XY 3861 2505, XY 3900 1126, XY 4200 1131,
     XY 4255 903, XY 8510 1807, Z (-1600), Z 10000]"

text \<open>Lines 16459 to 16544.\<close>

definition full_layer_185 :: "pline list" where
  "full_layer_185 = [
     XY 8513 1794, Z (-1620), Z (-4620), XY 5724 1206, XY 5873 (-277), XY 5614 (-1749), XY 4992 (-3108),
     XY 4047 (-4265), XY 2841 (-5148), XY 1452 (-5698), XY (-31) (-5880), XY (-1505) (-5653),
     XY (-1119) (-4204), XY (-2) (-4243), XY 1115 (-4205), XY 377 (-4364), XY (-381) (-4363),
     XY (-1119) (-4204), XY (-1505) (-5653), XY (-2931) (-5097), XY (-4151) (-4165), XY (-5087) (-2949),
     XY (-5677) (-1532), XY (-5880) (-11), XY (-5653) 1504, XY (-4204) 1118, XY (-4244) (-2),
     XY (-4203) (-1121), XY (-4363) (-381), XY (-4364) 378, XY (-4204) 1118, XY (-5653) 1504,
     XY (-5097) 2931, XY (-4165) 4151, XY (-2948) 5087, XY (-1531) 5677, XY (-9) 5880, XY 1506 5653,
     XY 1120 4203, XY (-4) 4243, XY (-1127) 4201, XY (-385) 4363, XY 377 4364, XY 1120 4203,
     XY 1506 5653, XY 2720 5213, XY 3795 4492, XY 4685 3553, XY 5349 2442, XY 5724 1206, XY 4257 897,
     XY 4374 224, XY 4356 (-460), XY 4202 (-1126), XY 4242 (-4), XY 4204 1118, XY 3904 1114,
     XY 3938 (-696), XY 3863 (-2505), XY 3662 (-3191), XY 3143 (-3693), XY 2449 (-3871), XY 798 (-3939),
     XY (-854) (-3937), XY (-2505) (-3867), XY (-3174) (-3673), XY (-3670) (-3175), XY (-3862) (-2505),
     XY (-3937) (-852), XY (-3939) 803, XY (-3866) 2455, XY (-3687) 3161, XY (-3169) 3680,
     XY (-2464) 3860, XY (-808) 3937, XY 849 3938, XY 2505 3863, XY 3175 3671, XY 3673 3174,
     XY 3867 2505, XY 3904 1114, XY 4204 1118, XY 4257 897, XY 8513 1794, Z (-1620), Z 10000]"

text \<open>Lines 16545 to 16630.\<close>

definition full_layer_186 :: "pline list" where
  "full_layer_186 = [
     XY 8516 1778, Z (-1640), Z (-4640), XY 5726 1196, XY 5873 (-284), XY 5613 (-1752), XY 4992 (-3107),
     XY 4050 (-4263), XY 2848 (-5144), XY 1463 (-5695), XY (-16) (-5880), XY (-1487) (-5658),
     XY (-1106) (-4207), XY (-2) (-4246), XY 1102 (-4208), XY 372 (-4364), X (-376), XY (-1106) (-4207),
     XY (-1487) (-5658), XY (-2916) (-5106), XY (-4138) (-4177), XY (-5079) (-2963), XY (-5673) (-1547),
     XY (-5880) (-26), XY (-5657) 1490, XY (-4207) 1108, XY (-4245) 0, XY (-4206) (-1108),
     XY (-4364) (-376), Y 375, XY (-4207) 1108, XY (-5657) 1490, XY (-5105) 2918, XY (-4176) 4139,
     XY (-2963) 5079, XY (-1547) 5673, XY (-27) 5880, XY 1488 5658, XY 1107 4207, XY (-3) 4245,
     XY (-1113) 4205, XY (-380) 4364, X 373, XY 1107 4207, XY 1488 5658, XY 2709 5219, XY 3789 4496,
     XY 4685 3554, XY 5351 2437, XY 5726 1196, XY 4258 889, XY 4374 224, XY 4357 (-452),
     XY 4206 (-1110), XY 4246 (-3), XY 4208 1103, XY 3908 1099, XY 3942 (-703), XY 3869 (-2505),
     XY 3668 (-3195), XY 3146 (-3699), XY 2449 (-3877), XY 798 (-3942), XY (-854) (-3940),
     XY (-2505) (-3873), XY (-3194) (-3669), XY (-3696) (-3146), XY (-3872) (-2449), XY (-3940) (-816),
     XY (-3941) 818, XY (-3872) 2451, XY (-3694) 3162, XY (-3172) 3687, XY (-2462) 3867, XY (-807) 3940,
     XY 850 3941, XY 2505 3869, XY 3179 3678, XY 3680 3178, XY 3873 2505, XY 3908 1099, XY 4208 1103,
     XY 4258 889, XY 8516 1778, Z (-1640), Z 10000]"

text \<open>Lines 16631 to 16715.\<close>

definition full_layer_187 :: "pline list" where
  "full_layer_187 = [
     XY 8519 1765, Z (-1660), Z (-4660), XY 5728 1187, XY 5873 (-290), XY 5612 (-1754), XY 4993 (-3106),
     XY 4054 (-4259), XY 2855 (-5140), XY 1474 (-5692), XY (-1) (-5880), XY (-1469) (-5663),
     XY (-1092) (-4211), X 1089, XY 368 (-4365), XY (-371) (-4364), XY (-1092) (-4211),
     XY (-1469) (-5663), XY (-2900) (-5115), XY (-4125) (-4190), XY (-5069) (-2979), XY (-5668) (-1565),
     XY (-5880) (-45), XY (-5662) 1472, XY (-4210) 1094, XY (-4248) 0, XY (-4210) (-1095),
     XY (-4364) (-371), Y 371, XY (-4210) 1094, XY (-5662) 1472, XY (-5114) 2902, XY (-4189) 4126,
     XY (-2979) 5070, XY (-1565) 5668, XY (-45) 5880, XY 1470 5662, XY 1093 4210, XY (-3) 4248,
     XY (-1100) 4209, XY (-375) 4364, X 368, XY 1093 4210, XY 1470 5662, XY 2697 5225, XY 3784 4501,
     XY 4684 3555, XY 5353 2434, XY 5728 1187, XY 4260 883, XY 4374 225, XY 4357 (-445),
     XY 4210 (-1096), XY 4248 (-3), XY 4211 1090, XY 3911 1086, XY 3944 (-710), XY 3875 (-2505),
     XY 3675 (-3199), XY 3150 (-3706), XY 2449 (-3882), XY 798 (-3945), XY (-854) (-3944),
     XY (-2505) (-3879), XY (-3198) (-3676), XY (-3703) (-3150), XY (-3878) (-2449), XY (-3943) (-817),
     XY (-3944) 817, XY (-3878) 2450, XY (-3700) 3166, XY (-3175) 3693, XY (-2459) 3873, XY (-805) 3943,
     XY 850 3944, XY 2505 3875, XY 3183 3684, XY 3686 3182, XY 3879 2505, XY 3911 1086, XY 4211 1090,
     XY 4260 883, XY 8519 1765, Z (-1660), Z 10000]"

text \<open>Lines 16716 to 16798.\<close>

definition full_layer_188 :: "pline list" where
  "full_layer_188 = [
     XY 8522 1752, Z (-1680), Z (-4680), XY 5730 1178, XY 5873 (-295), XY 5612 (-1756), XY 4993 (-3105),
     XY 4057 (-4256), XY 2862 (-5136), XY 1485 (-5689), XY 14 (-5880), XY (-1451) (-5667),
     XY (-1079) (-4214), XY 1076 (-4215), XY 363 (-4365), X (-367), XY (-1079) (-4214),
     XY (-1451) (-5667), XY (-2884) (-5124), XY (-4112) (-4203), XY (-5060) (-2995), XY (-5663) (-1583),
     XY (-5880) (-63), XY (-5667) 1454, XY (-4214) 1081, XY (-4213) (-1081), XY (-4365) (-367), Y 366,
     XY (-4214) 1081, XY (-5667) 1454, XY (-5123) 2885, XY (-4202) 4113, XY (-2995) 5060,
     XY (-1583) 5663, XY (-64) 5880, XY 1453 5667, XY 1080 4214, XY (-3) 4251, XY (-1086) 4212,
     XY (-370) 4364, XY 364 4365, XY 1080 4214, XY 1453 5667, XY 2686 5231, XY 3778 4506, XY 4682 3557,
     XY 5354 2431, XY 5730 1178, XY 4261 876, XY 4374 225, XY 4358 (-438), XY 4213 (-1083),
     XY 4214 1078, XY 3914 1074, XY 3947 (-716), XY 3882 (-2505), XY 3681 (-3203), XY 3154 (-3712),
     XY 2449 (-3888), XY 798 (-3948), XY (-854) (-3947), XY (-2505) (-3885), XY (-3201) (-3682),
     XY (-3709) (-3154), XY (-3884) (-2449), XY (-3946) (-817), XY (-3947) 816, XY (-3884) 2449,
     XY (-3706) 3169, XY (-3177) 3700, XY (-2457) 3880, XY (-804) 3946, X 851, XY 2505 3881,
     XY 3187 3691, XY 3692 3186, XY 3885 2505, XY 3914 1074, XY 4214 1078, XY 4261 876, XY 8522 1752,
     Z (-1680), Z 10000]"

text \<open>Lines 16799 to 16880.\<close>

definition full_layer_189 :: "pline list" where
  "full_layer_189 = [
     XY 8524 1739, Z (-1700), Z (-4700), XY 5732 1170, XY 5872 (-301), XY 5611 (-1758), XY 4994 (-3104),
     XY 4061 (-4253), XY 2870 (-5132), XY 1497 (-5686), XY 29 (-5880), XY (-1433) (-5672),
     XY (-1066) (-4217), XY 1063 (-4218), XY 359 (-4365), X (-362), XY (-1066) (-4217),
     XY (-1433) (-5672), XY (-2867) (-5133), XY (-4099) (-4216), XY (-5050) (-3011), XY (-5658) (-1601),
     XY (-5879) (-82), XY (-5671) 1435, XY (-4217) 1067, Y (-1068), XY (-4365) (-362), Y 361,
     XY (-4217) 1067, XY (-5671) 1435, XY (-5133) 2869, XY (-4215) 4099, XY (-3011) 5051,
     XY (-1601) 5658, XY (-82) 5879, XY 1435 5671, XY 1067 4217, XY (-1072) 4216, XY (-365) 4365, X 360,
     XY 1067 4217, XY 1435 5671, XY 2674 5237, XY 3772 4511, XY 4681 3558, XY 5355 2428, XY 5732 1170,
     XY 4262 870, XY 4374 225, XY 4359 (-431), XY 4216 (-1070), XY 4218 1065, XY 3918 1061,
     XY 3950 (-722), XY 3888 (-2505), XY 3688 (-3207), XY 3158 (-3718), XY 2449 (-3894), XY 798 (-3951),
     XY (-854) (-3950), XY (-2505) (-3891), XY (-3205) (-3688), XY (-3716) (-3158), XY (-3890) (-2449),
     XY (-3950) (-818), Y 815, XY (-3890) 2447, XY (-3712) 3173, XY (-3180) 3707, XY (-2455) 3886,
     XY (-802) 3949, X 852, XY 2505 3888, XY 3190 3697, XY 3699 3190, XY 3891 2505, XY 3918 1061,
     XY 4218 1065, XY 4262 870, XY 8524 1739, Z (-1700), Z 10000]"

text \<open>Lines 16881 to 16960.\<close>

definition full_layer_190 :: "pline list" where
  "full_layer_190 = [
     XY 8527 1726, Z (-1720), Z (-4720), XY 5734 1161, XY 5872 (-306), XY 5610 (-1760), XY 4995 (-3103),
     XY 4064 (-4250), XY 2877 (-5128), XY 1508 (-5683), XY 44 (-5880), XY (-1416) (-5676),
     XY (-1053) (-4221), X 1050, XY 354 (-4366), XY (-357) (-4365), XY (-1053) (-4221),
     XY (-1416) (-5676), XY (-2851) (-5143), XY (-4084) (-4230), XY (-5040) (-3029), XY (-5652) (-1622),
     XY (-5879) (-104), XY (-5677) 1414, XY (-4221) 1051, XY (-4220) (-1055), XY (-4365) (-358),
     XY (-4366) 355, XY (-4221) 1051, XY (-5677) 1414, XY (-5143) 2850, XY (-4230) 4085,
     XY (-3027) 5041, XY (-1619) 5653, XY (-100) 5879, XY 1419 5675, XY 1055 4220, X (-1055),
     XY (-357) 4365, X 357, XY 1055 4220, XY 1419 5675, XY 2664 5242, XY 3767 4515, XY 4680 3559,
     XY 5357 2424, XY 5734 1161, XY 4264 863, XY 4374 225, XY 4359 (-424), XY 4220 (-1056),
     XY 4221 1052, XY 3921 1049, XY 3953 (-728), XY 3894 (-2505), XY 3695 (-3211), XY 3162 (-3725),
     XY 2450 (-3899), XY (-28) (-3956), XY (-2505) (-3896), XY (-3209) (-3695), XY (-3722) (-3162),
     XY (-3896) (-2450), XY (-3956) 27, XY (-3897) 2505, XY (-3706) 3195, XY (-3195) 3705,
     XY (-2505) 3894, XY (-835) 3952, X 835, XY 2505 3894, XY 3194 3704, XY 3705 3194, XY 3896 2505,
     XY 3921 1049, XY 4221 1052, XY 4264 863, XY 8527 1726, Z (-1720), Z 10000]"

text \<open>Lines 16961 to 17039.\<close>

definition full_layer_191 :: "pline list" where
  "full_layer_191 = [
     XY 8530 1713, Z (-1740), Z (-4740), XY 5735 1152, XY 5872 (-312), XY 5610 (-1762), XY 4996 (-3101),
     XY 4068 (-4246), XY 2885 (-5124), XY 1521 (-5680), XY 61 (-5880), XY (-1395) (-5681),
     XY (-1038) (-4224), XY 1037 (-4225), XY 351 (-4366), X (-351), XY (-1038) (-4224),
     XY (-1395) (-5681), XY (-2833) (-5153), XY (-4070) (-4244), XY (-5030) (-3046), XY (-5647) (-1641),
     XY (-5879) (-123), XY (-5681) 1395, XY (-4224) 1038, Y (-1041), XY (-4366) (-353), Y 350,
     XY (-4224) 1038, XY (-5681) 1395, XY (-5152) 2833, XY (-4243) 4071, XY (-3044) 5031,
     XY (-1637) 5648, XY (-118) 5879, XY 1401 5680, XY 1042 4223, X (-1041), XY (-352) 4366, X 353,
     XY 1042 4223, XY 1401 5680, XY 2652 5248, XY 3762 4519, XY 4679 3561, XY 5358 2421, XY 5735 1152,
     XY 4265 857, XY 4374 225, XY 4360 (-417), XY 4223 (-1043), XY 4224 1039, XY 3924 1036,
     XY 3956 (-734), XY 3900 (-2505), XY 3701 (-3215), XY 3166 (-3731), XY 2450 (-3905), XY 0 (-3959),
     XY (-2450) (-3905), XY (-3182) (-3721), XY (-3719) (-3182), XY (-3902) (-2450), XY (-3959) 27,
     XY (-3903) 2505, XY (-3713) 3199, XY (-3199) 3712, XY (-2505) 3900, XY 0 3958, XY 2505 3900,
     XY 3198 3710, XY 3712 3198, XY 3902 2505, XY 3924 1036, XY 4224 1039, XY 4265 857, XY 8530 1713,
     Z (-1740), Z 10000]"

text \<open>Lines 17040 to 17119.\<close>

definition full_layer_192 :: "pline list" where
  "full_layer_192 = [
     XY 8522 1751, Z (-1760), Z (-4760), XY 5730 1177, XY 5873 (-292), XY 5614 (-1748), XY 5000 (-3094),
     XY 4070 (-4244), XY 2881 (-5126), XY 1511 (-5683), XY 45 (-5880), XY (-1417) (-5676),
     XY (-1053) (-4221), XY 1077 (-4215), XY 373 (-4364), XY (-349) (-4366), XY (-1053) (-4221),
     XY (-1417) (-5676), XY (-2856) (-5140), XY (-4091) (-4223), XY (-5047) (-3017), XY (-5657) (-1604),
     XY (-5879) (-81), XY (-5670) 1440, XY (-4216) 1071, XY (-4220) (-1056), XY (-4366) (-353),
     XY (-4365) 368, XY (-4216) 1071, XY (-5670) 1440, XY (-5135) 2864, XY (-4226) 4088,
     XY (-3033) 5037, XY (-1636) 5648, XY (-129) 5879, XY 1379 5685, XY 1026 4227, X (-1025),
     XY (-347) 4366, X 347, XY 1026 4227, XY 1379 5685, XY 2632 5258, XY 3743 4535, XY 4664 3580,
     XY 5348 2444, XY 5730 1177, XY 4261 875, XY 4374 232, XY 4360 (-423), XY 4219 (-1061),
     XY 4215 1076, XY 3915 1075, XY 3920 (-1670), XY 3906 (-2505), XY 3708 (-3218), XY 3170 (-3738),
     XY 2450 (-3911), XY (-1670) (-3922), XY (-2505) (-3908), XY (-3217) (-3708), XY (-3735) (-3170),
     XY (-3908) (-2450), XY (-3921) (-1670), XY (-3914) 2087, XY (-3908) 2505, XY (-3719) 3203,
     XY (-3203) 3718, XY (-2505) 3906, XY 0 3962, XY 2505 3906, XY 3218 3707, XY 3738 3169,
     XY 3912 2450, XY 3915 1075, XY 4215 1076, XY 4261 875, XY 8522 1751, Z (-1760), Z 10000]"

text \<open>Lines 17120 to 17199.\<close>

definition full_layer_193 :: "pline list" where
  "full_layer_193 = [
     XY 8526 1730, Z (-1780), Z (-4780), XY 5733 1164, XY 5872 (-305), XY 5610 (-1761), XY 4993 (-3105),
     XY 4060 (-4253), XY 2870 (-5132), XY 1499 (-5686), XY 33 (-5880), XY (-1428) (-5673),
     XY (-1062) (-4218), XY 1038 (-4224), XY 343 (-4367), XY (-368) (-4365), XY (-1062) (-4218),
     XY (-1428) (-5673), XY (-2863) (-5136), XY (-4095) (-4220), XY (-5048) (-3016), XY (-5656) (-1607),
     XY (-5879) (-88), XY (-5673) 1430, XY (-4218) 1063, XY (-4224) (-1041), XY (-4366) (-345),
     XY (-4365) 368, XY (-4218) 1063, XY (-5673) 1430, XY (-5137) 2860, XY (-4225) 4090,
     XY (-3026) 5042, XY (-1622) 5652, XY (-108) 5879, XY 1406 5678, XY 1046 4222, XY (-1069) 4217,
     XY (-370) 4364, XY 346 4366, XY 1046 4222, XY 1406 5678, XY 2654 5247, XY 3760 4520, XY 4676 3565,
     XY 5355 2429, XY 5733 1164, XY 4263 865, XY 4374 224, XY 4359 (-428), XY 4218 (-1063),
     XY 4220 1056, X 3920, XY 3917 (-2268), XY 3912 (-2505), XY 3715 (-3222), XY 3174 (-3744),
     XY 2450 (-3916), XY 1670 (-3926), XY (-2505) (-3914), XY (-3221) (-3715), XY (-3742) (-3174),
     XY (-3914) (-2450), XY (-3925) (-1670), XY (-3914) 2505, XY (-3726) 3207, XY (-3207) 3725,
     XY (-2505) 3913, XY 1670 3924, XY 2505 3912, XY 3222 3714, XY 3744 3173, XY 3918 2450,
     XY 3921 2087, XY 3920 1056, X 4220, XY 4263 865, XY 8526 1730, Z (-1780), Z 10000]"

text \<open>Lines 17200 to 17277.\<close>

definition full_layer_194 :: "pline list" where
  "full_layer_194 = [
     XY 8528 1720, Z (-1800), Z (-4800), XY 5735 1156, XY 5872 (-308), XY 5611 (-1758), XY 4997 (-3099),
     XY 4070 (-4244), XY 2886 (-5123), XY 1521 (-5680), XY 61 (-5880), XY (-1396) (-5681),
     XY (-1038) (-4224), XY 1043 (-4223), XY 355 (-4366), X (-350), XY (-1038) (-4224),
     XY (-1396) (-5681), XY (-2834) (-5152), XY (-4071) (-4242), XY (-5031) (-3043), XY (-5648) (-1637),
     XY (-5879) (-119), XY (-5680) 1401, XY (-4223) 1042, XY (-4221) (-1050), XY (-4365) (-359),
     XY (-4366) 350, XY (-4223) 1042, XY (-5680) 1401, XY (-5150) 2838, XY (-4239) 4075,
     XY (-3039) 5034, XY (-1632) 5649, XY (-113) 5879, XY 1406 5678, XY 1046 4222, XY (-1050) 4221,
     XY (-357) 4365, XY 353 4366, XY 1046 4222, XY 1406 5678, XY 2655 5246, XY 3763 4518, XY 4679 3561,
     XY 5357 2423, XY 5735 1156, XY 4264 860, XY 4374 225, XY 4360 (-421), XY 4221 (-1050),
     XY 4223 1045, X 3923, XY 3919 (-2505), XY 3722 (-3226), XY 3178 (-3751), XY 2450 (-3922),
     XY (-2087) (-3925), XY (-2505) (-3920), XY (-3225) (-3721), XY (-3749) (-3178), XY (-3920) (-2450),
     XY (-3925) 2087, XY (-3920) 2505, XY (-3723) 3227, XY (-3179) 3751, XY (-2450) 3921, XY 2087 3923,
     XY 2505 3918, XY 3226 3720, XY 3750 3177, XY 3923 2450, Y 1045, X 4223, XY 4264 860, XY 8528 1720,
     Z (-1800), Z 10000]"

text \<open>Lines 17278 to 17356.\<close>

definition full_layer_195 :: "pline list" where
  "full_layer_195 = [
     XY 8535 1688, Z (-1820), Z (-4820), XY 5739 1135, XY 5871 (-322), XY 5609 (-1764), XY 4998 (-3097),
     XY 4076 (-4238), XY 2901 (-5115), XY 1545 (-5673), XY 93 (-5879), XY (-1357) (-5690),
     XY (-1009) (-4231), XY 999 (-4234), XY 334 (-4367), XY (-345) (-4366), XY (-1009) (-4231),
     XY (-1357) (-5690), XY (-2803) (-5169), XY (-4050) (-4263), XY (-5018) (-3065), XY (-5642) (-1656),
     XY (-5878) (-134), XY (-5682) 1391, XY (-4225) 1034, XY (-4224) (-1039), XY (-4366) (-353), Y 348,
     XY (-4225) 1034, XY (-5682) 1391, XY (-5155) 2829, XY (-4247) 4067, XY (-3049) 5028,
     XY (-1643) 5646, XY (-125) 5879, XY 1394 5682, XY 1036 4225, X (-1036), XY (-351) 4366, X 351,
     XY 1036 4225, XY 1394 5682, XY 2650 5249, XY 3763 4518, XY 4684 3555, XY 5364 2410, XY 5739 1135,
     XY 4267 844, XY 4374 229, XY 4362 (-396), XY 4232 (-1006), XY 4230 1014, X 3930, XY 3933 (-1670),
     XY 3927 (-2450), XY 3835 (-3023), XY 3508 (-3509), XY 3023 (-3836), XY 2450 (-3928),
     XY 1670 (-3935), XY (-2087) (-3930), XY (-2450) (-3928), XY (-3181) (-3756), XY (-3727) (-3230),
     XY (-3923) (-2505), XY (-3926) 2505, XY (-3739) 3215, XY (-3215) 3739, XY (-2505) 3925, X 2505,
     XY 3230 3727, XY 3757 3182, XY 3929 2450, XY 3930 1014, X 4230, XY 4267 844, XY 8535 1688,
     Z (-1820), Z 10000]"

definition full_layers_c :: "pline list list" where
  "full_layers_c = [
     full_layer_128, full_layer_129, full_layer_130, full_layer_131, full_layer_132, full_layer_133,
     full_layer_134, full_layer_135, full_layer_136, full_layer_137, full_layer_138, full_layer_139,
     full_layer_140, full_layer_141, full_layer_142, full_layer_143, full_layer_144, full_layer_145,
     full_layer_146, full_layer_147, full_layer_148, full_layer_149, full_layer_150, full_layer_151,
     full_layer_152, full_layer_153, full_layer_154, full_layer_155, full_layer_156, full_layer_157,
     full_layer_158, full_layer_159, full_layer_160, full_layer_161, full_layer_162, full_layer_163,
     full_layer_164, full_layer_165, full_layer_166, full_layer_167, full_layer_168, full_layer_169,
     full_layer_170, full_layer_171, full_layer_172, full_layer_173, full_layer_174, full_layer_175,
     full_layer_176, full_layer_177, full_layer_178, full_layer_179, full_layer_180, full_layer_181,
     full_layer_182, full_layer_183, full_layer_184, full_layer_185, full_layer_186, full_layer_187,
     full_layer_188, full_layer_189, full_layer_190, full_layer_191, full_layer_192, full_layer_193,
     full_layer_194, full_layer_195]"

section \<open>The layers one by one\<close>

lemma full_layer_128_ok: "full_group full_layer_128 (7931, -3577) (7938, -3561) (-3480)"
  by code_simp

lemma full_layer_129_ok: "full_group full_layer_129 (7938, -3561) (7945, -3545) (-3500)"
  by code_simp

lemma full_layer_130_ok: "full_group full_layer_130 (7945, -3545) (7952, -3529) (-3520)"
  by code_simp

lemma full_layer_131_ok: "full_group full_layer_131 (7952, -3529) (7959, -3513) (-3540)"
  by code_simp

lemma full_layer_132_ok: "full_group full_layer_132 (7959, -3513) (7966, -3497) (-3560)"
  by code_simp

lemma full_layer_133_ok: "full_group full_layer_133 (7966, -3497) (7973, -3481) (-3580)"
  by code_simp

lemma full_layer_134_ok: "full_group full_layer_134 (7973, -3481) (7980, -3464) (-3600)"
  by code_simp

lemma full_layer_135_ok: "full_group full_layer_135 (7980, -3464) (7987, -3449) (-3620)"
  by code_simp

lemma full_layer_136_ok: "full_group full_layer_136 (7987, -3449) (7993, -3434) (-3640)"
  by code_simp

lemma full_layer_137_ok: "full_group full_layer_137 (7993, -3434) (8000, -3419) (-3660)"
  by code_simp

lemma full_layer_138_ok: "full_group full_layer_138 (8000, -3419) (8006, -3404) (-3680)"
  by code_simp

lemma full_layer_139_ok: "full_group full_layer_139 (8006, -3404) (8014, -3387) (-3700)"
  by code_simp

lemma full_layer_140_ok: "full_group full_layer_140 (8014, -3387) (8020, -3371) (-3720)"
  by code_simp

lemma full_layer_141_ok: "full_group full_layer_141 (8020, -3371) (8027, -3356) (-3740)"
  by code_simp

lemma full_layer_142_ok: "full_group full_layer_142 (8027, -3356) (8033, -3341) (-3760)"
  by code_simp

lemma full_layer_143_ok: "full_group full_layer_143 (8033, -3341) (8039, -3326) (-3780)"
  by code_simp

lemma full_layer_144_ok: "full_group full_layer_144 (8039, -3326) (8045, -3311) (-3800)"
  by code_simp

lemma full_layer_145_ok: "full_group full_layer_145 (8045, -3311) (8051, -3296) (-3820)"
  by code_simp

lemma full_layer_146_ok: "full_group full_layer_146 (8051, -3296) (8057, -3282) (-3840)"
  by code_simp

lemma full_layer_147_ok: "full_group full_layer_147 (8057, -3282) (8063, -3267) (-3860)"
  by code_simp

lemma full_layer_148_ok: "full_group full_layer_148 (8063, -3267) (8069, -3252) (-3880)"
  by code_simp

lemma full_layer_149_ok: "full_group full_layer_149 (8069, -3252) (8397, 2277) (-3900)"
  by code_simp

lemma full_layer_150_ok: "full_group full_layer_150 (8397, 2277) (8401, 2262) (-3920)"
  by code_simp

lemma full_layer_151_ok: "full_group full_layer_151 (8401, 2262) (8405, 2248) (-3940)"
  by code_simp

lemma full_layer_152_ok: "full_group full_layer_152 (8405, 2248) (8408, 2234) (-3960)"
  by code_simp

lemma full_layer_153_ok: "full_group full_layer_153 (8408, 2234) (8412, 2219) (-3980)"
  by code_simp

lemma full_layer_154_ok: "full_group full_layer_154 (8412, 2219) (8416, 2205) (-4000)"
  by code_simp

lemma full_layer_155_ok: "full_group full_layer_155 (8416, 2205) (8420, 2190) (-4020)"
  by code_simp

lemma full_layer_156_ok: "full_group full_layer_156 (8420, 2190) (8423, 2176) (-4040)"
  by code_simp

lemma full_layer_157_ok: "full_group full_layer_157 (8423, 2176) (8427, 2164) (-4060)"
  by code_simp

lemma full_layer_158_ok: "full_group full_layer_158 (8427, 2164) (8430, 2149) (-4080)"
  by code_simp

lemma full_layer_159_ok: "full_group full_layer_159 (8430, 2149) (8434, 2135) (-4100)"
  by code_simp

lemma full_layer_160_ok: "full_group full_layer_160 (8434, 2135) (8437, 2121) (-4120)"
  by code_simp

lemma full_layer_161_ok: "full_group full_layer_161 (8437, 2121) (8441, 2107) (-4140)"
  by code_simp

lemma full_layer_162_ok: "full_group full_layer_162 (8441, 2107) (8444, 2093) (-4160)"
  by code_simp

lemma full_layer_163_ok: "full_group full_layer_163 (8444, 2093) (8449, 2073) (-4180)"
  by code_simp

lemma full_layer_164_ok: "full_group full_layer_164 (8449, 2073) (8451, 2065) (-4200)"
  by code_simp

lemma full_layer_165_ok: "full_group full_layer_165 (8451, 2065) (8454, 2053) (-4220)"
  by code_simp

lemma full_layer_166_ok: "full_group full_layer_166 (8454, 2053) (8458, 2040) (-4240)"
  by code_simp

lemma full_layer_167_ok: "full_group full_layer_167 (8458, 2040) (8461, 2023) (-4260)"
  by code_simp

lemma full_layer_168_ok: "full_group full_layer_168 (8461, 2023) (8464, 2011) (-4280)"
  by code_simp

lemma full_layer_169_ok: "full_group full_layer_169 (8464, 2011) (8467, 2000) (-4300)"
  by code_simp

lemma full_layer_170_ok: "full_group full_layer_170 (8467, 2000) (8471, 1985) (-4320)"
  by code_simp

lemma full_layer_171_ok: "full_group full_layer_171 (8471, 1985) (8474, 1972) (-4340)"
  by code_simp

lemma full_layer_172_ok: "full_group full_layer_172 (8474, 1972) (8477, 1959) (-4360)"
  by code_simp

lemma full_layer_173_ok: "full_group full_layer_173 (8477, 1959) (8480, 1946) (-4380)"
  by code_simp

lemma full_layer_174_ok: "full_group full_layer_174 (8480, 1946) (8483, 1933) (-4400)"
  by code_simp

lemma full_layer_175_ok: "full_group full_layer_175 (8483, 1933) (8486, 1920) (-4420)"
  by code_simp

lemma full_layer_176_ok: "full_group full_layer_176 (8486, 1920) (8489, 1906) (-4440)"
  by code_simp

lemma full_layer_177_ok: "full_group full_layer_177 (8489, 1906) (8492, 1893) (-4460)"
  by code_simp

lemma full_layer_178_ok: "full_group full_layer_178 (8492, 1893) (8495, 1879) (-4480)"
  by code_simp

lemma full_layer_179_ok: "full_group full_layer_179 (8495, 1879) (8497, 1866) (-4500)"
  by code_simp

lemma full_layer_180_ok: "full_group full_layer_180 (8497, 1866) (8499, 1858) (-4520)"
  by code_simp

lemma full_layer_181_ok: "full_group full_layer_181 (8499, 1858) (8502, 1845) (-4540)"
  by code_simp

lemma full_layer_182_ok: "full_group full_layer_182 (8502, 1845) (8505, 1832) (-4560)"
  by code_simp

lemma full_layer_183_ok: "full_group full_layer_183 (8505, 1832) (8508, 1819) (-4580)"
  by code_simp

lemma full_layer_184_ok: "full_group full_layer_184 (8508, 1819) (8510, 1807) (-4600)"
  by code_simp

lemma full_layer_185_ok: "full_group full_layer_185 (8510, 1807) (8513, 1794) (-4620)"
  by code_simp

lemma full_layer_186_ok: "full_group full_layer_186 (8513, 1794) (8516, 1778) (-4640)"
  by code_simp

lemma full_layer_187_ok: "full_group full_layer_187 (8516, 1778) (8519, 1765) (-4660)"
  by code_simp

lemma full_layer_188_ok: "full_group full_layer_188 (8519, 1765) (8522, 1752) (-4680)"
  by code_simp

lemma full_layer_189_ok: "full_group full_layer_189 (8522, 1752) (8524, 1739) (-4700)"
  by code_simp

lemma full_layer_190_ok: "full_group full_layer_190 (8524, 1739) (8527, 1726) (-4720)"
  by code_simp

lemma full_layer_191_ok: "full_group full_layer_191 (8527, 1726) (8530, 1713) (-4740)"
  by code_simp

lemma full_layer_192_ok: "full_group full_layer_192 (8530, 1713) (8522, 1751) (-4760)"
  by code_simp

lemma full_layer_193_ok: "full_group full_layer_193 (8522, 1751) (8526, 1730) (-4780)"
  by code_simp

lemma full_layer_194_ok: "full_group full_layer_194 (8526, 1730) (8528, 1720) (-4800)"
  by code_simp

lemma full_layer_195_ok: "full_group full_layer_195 (8528, 1720) (8535, 1688) (-4820)"
  by code_simp

lemmas full_layers_c_ok =
  full_layer_128_ok full_layer_129_ok full_layer_130_ok full_layer_131_ok full_layer_132_ok
  full_layer_133_ok full_layer_134_ok full_layer_135_ok full_layer_136_ok full_layer_137_ok
  full_layer_138_ok full_layer_139_ok full_layer_140_ok full_layer_141_ok full_layer_142_ok
  full_layer_143_ok full_layer_144_ok full_layer_145_ok full_layer_146_ok full_layer_147_ok
  full_layer_148_ok full_layer_149_ok full_layer_150_ok full_layer_151_ok full_layer_152_ok
  full_layer_153_ok full_layer_154_ok full_layer_155_ok full_layer_156_ok full_layer_157_ok
  full_layer_158_ok full_layer_159_ok full_layer_160_ok full_layer_161_ok full_layer_162_ok
  full_layer_163_ok full_layer_164_ok full_layer_165_ok full_layer_166_ok full_layer_167_ok
  full_layer_168_ok full_layer_169_ok full_layer_170_ok full_layer_171_ok full_layer_172_ok
  full_layer_173_ok full_layer_174_ok full_layer_175_ok full_layer_176_ok full_layer_177_ok
  full_layer_178_ok full_layer_179_ok full_layer_180_ok full_layer_181_ok full_layer_182_ok
  full_layer_183_ok full_layer_184_ok full_layer_185_ok full_layer_186_ok full_layer_187_ok
  full_layer_188_ok full_layer_189_ok full_layer_190_ok full_layer_191_ok full_layer_192_ok
  full_layer_193_ok full_layer_194_ok full_layer_195_ok

definition full_groups_c :: "(pline list \<times> (int \<times> int) \<times> int list) list" where
  "full_groups_c = [
     (full_layer_128, (7938, -3561), [-3480]), (full_layer_129, (7945, -3545), [-3500]),
     (full_layer_130, (7952, -3529), [-3520]), (full_layer_131, (7959, -3513), [-3540]),
     (full_layer_132, (7966, -3497), [-3560]), (full_layer_133, (7973, -3481), [-3580]),
     (full_layer_134, (7980, -3464), [-3600]), (full_layer_135, (7987, -3449), [-3620]),
     (full_layer_136, (7993, -3434), [-3640]), (full_layer_137, (8000, -3419), [-3660]),
     (full_layer_138, (8006, -3404), [-3680]), (full_layer_139, (8014, -3387), [-3700]),
     (full_layer_140, (8020, -3371), [-3720]), (full_layer_141, (8027, -3356), [-3740]),
     (full_layer_142, (8033, -3341), [-3760]), (full_layer_143, (8039, -3326), [-3780]),
     (full_layer_144, (8045, -3311), [-3800]), (full_layer_145, (8051, -3296), [-3820]),
     (full_layer_146, (8057, -3282), [-3840]), (full_layer_147, (8063, -3267), [-3860]),
     (full_layer_148, (8069, -3252), [-3880]), (full_layer_149, (8397, 2277), [-3900]),
     (full_layer_150, (8401, 2262), [-3920]), (full_layer_151, (8405, 2248), [-3940]),
     (full_layer_152, (8408, 2234), [-3960]), (full_layer_153, (8412, 2219), [-3980]),
     (full_layer_154, (8416, 2205), [-4000]), (full_layer_155, (8420, 2190), [-4020]),
     (full_layer_156, (8423, 2176), [-4040]), (full_layer_157, (8427, 2164), [-4060]),
     (full_layer_158, (8430, 2149), [-4080]), (full_layer_159, (8434, 2135), [-4100]),
     (full_layer_160, (8437, 2121), [-4120]), (full_layer_161, (8441, 2107), [-4140]),
     (full_layer_162, (8444, 2093), [-4160]), (full_layer_163, (8449, 2073), [-4180]),
     (full_layer_164, (8451, 2065), [-4200]), (full_layer_165, (8454, 2053), [-4220]),
     (full_layer_166, (8458, 2040), [-4240]), (full_layer_167, (8461, 2023), [-4260]),
     (full_layer_168, (8464, 2011), [-4280]), (full_layer_169, (8467, 2000), [-4300]),
     (full_layer_170, (8471, 1985), [-4320]), (full_layer_171, (8474, 1972), [-4340]),
     (full_layer_172, (8477, 1959), [-4360]), (full_layer_173, (8480, 1946), [-4380]),
     (full_layer_174, (8483, 1933), [-4400]), (full_layer_175, (8486, 1920), [-4420]),
     (full_layer_176, (8489, 1906), [-4440]), (full_layer_177, (8492, 1893), [-4460]),
     (full_layer_178, (8495, 1879), [-4480]), (full_layer_179, (8497, 1866), [-4500]),
     (full_layer_180, (8499, 1858), [-4520]), (full_layer_181, (8502, 1845), [-4540]),
     (full_layer_182, (8505, 1832), [-4560]), (full_layer_183, (8508, 1819), [-4580]),
     (full_layer_184, (8510, 1807), [-4600]), (full_layer_185, (8513, 1794), [-4620]),
     (full_layer_186, (8516, 1778), [-4640]), (full_layer_187, (8519, 1765), [-4660]),
     (full_layer_188, (8522, 1752), [-4680]), (full_layer_189, (8524, 1739), [-4700]),
     (full_layer_190, (8527, 1726), [-4720]), (full_layer_191, (8530, 1713), [-4740]),
     (full_layer_192, (8522, 1751), [-4760]), (full_layer_193, (8526, 1730), [-4780]),
     (full_layer_194, (8528, 1720), [-4800]), (full_layer_195, (8535, 1688), [-4820])]"

lemma full_c_chained: "chained 1 full_box full_groups_c (7931, -3577)"
  by (simp add: full_groups_c_def full_layers_c_ok)

lemma full_c_groups:
  "map fst full_groups_c = full_layers_c" "last (p # map (fst \<circ> snd) full_groups_c) = (8535, 1688)"
  "concat (map (snd \<circ> snd) full_groups_c) = [
    -3480, -3500, -3520, -3540, -3560, -3580, -3600, -3620, -3640, -3660, -3680, -3700, -3720, -3740,
    -3760, -3780, -3800, -3820, -3840, -3860, -3880, -3900, -3920, -3940, -3960, -3980, -4000, -4020,
    -4040, -4060, -4080, -4100, -4120, -4140, -4160, -4180, -4200, -4220, -4240, -4260, -4280, -4300,
    -4320, -4340, -4360, -4380, -4400, -4420, -4440, -4460, -4480, -4500, -4520, -4540, -4560, -4580,
    -4600, -4620, -4640, -4660, -4680, -4700, -4720, -4740, -4760, -4780, -4800, -4820]"
  by (simp_all add: full_groups_c_def full_layers_c_def)

lemma full_c_depths: "map full_depth [128..<196] = concat (map (snd \<circ> snd) full_groups_c)"
  unfolding full_c_groups by code_simp

lemma full_c_group: "mills_group 1 full_box (concat full_layers_c) (7931, -3577) (8535, 1688) (map full_depth [128..<196])"
  using chained_group [OF full_c_chained] by (simp only: full_c_groups full_c_depths)

lemma full_c_lengths: "map length full_layers_c = [
    97, 97, 96, 95, 95, 94, 90, 90, 90, 90, 90, 90, 91, 91, 93, 93, 94, 93, 93, 93, 91, 91, 91, 90, 90,
    90, 90, 90, 90, 90, 90, 90, 90, 90, 90, 90, 90, 90, 90, 89, 88, 87, 87, 86, 86, 86, 86, 86, 86, 87,
    87, 87, 87, 87, 87, 86, 86, 86, 86, 85, 83, 82, 80, 79, 80, 80, 78, 79]"
  by (simp add: full_layers_c_def
      full_layer_128_def full_layer_129_def full_layer_130_def full_layer_131_def
      full_layer_132_def full_layer_133_def full_layer_134_def full_layer_135_def
      full_layer_136_def full_layer_137_def full_layer_138_def full_layer_139_def
      full_layer_140_def full_layer_141_def full_layer_142_def full_layer_143_def
      full_layer_144_def full_layer_145_def full_layer_146_def full_layer_147_def
      full_layer_148_def full_layer_149_def full_layer_150_def full_layer_151_def
      full_layer_152_def full_layer_153_def full_layer_154_def full_layer_155_def
      full_layer_156_def full_layer_157_def full_layer_158_def full_layer_159_def
      full_layer_160_def full_layer_161_def full_layer_162_def full_layer_163_def
      full_layer_164_def full_layer_165_def full_layer_166_def full_layer_167_def
      full_layer_168_def full_layer_169_def full_layer_170_def full_layer_171_def
      full_layer_172_def full_layer_173_def full_layer_174_def full_layer_175_def
      full_layer_176_def full_layer_177_def full_layer_178_def full_layer_179_def
      full_layer_180_def full_layer_181_def full_layer_182_def full_layer_183_def
      full_layer_184_def full_layer_185_def full_layer_186_def full_layer_187_def
      full_layer_188_def full_layer_189_def full_layer_190_def full_layer_191_def
      full_layer_192_def full_layer_193_def full_layer_194_def full_layer_195_def)

lemma full_c_length: "length (concat full_layers_c) = 6027"
  by (simp add: length_concat full_c_lengths)

end
