(* ===== verification/Gcode_Copy.thy ===== *)
theory Gcode_Copy
  imports Gcode_Programs
begin

text \<open>
  The part program \<^verbatim>\<open>gcode/01-... (another copy).py\<close>: 9 finishing layers whose contours differ.
  The layers are given as they stand in the file.
\<close>

section \<open>The lines of the file\<close>

definition copy_lead :: "pline list" where
  "copy_lead = [XY 8535 1688, Z 10000]"

text \<open>Lines 8 to 89.\<close>

definition copy_layer_0 :: "pline list" where
  "copy_layer_0 = [
     XY 8542 1652, Z (-1840), Z (-4840), XY 5744 1111, XY 5870 (-338), XY 5607 (-1772), XY 4999 (-3096),
     XY 4083 (-4231), XY 2917 (-5105), XY 1571 (-5666), XY 129 (-5879), XY (-1314) (-5701),
     XY (-977) (-4239), X 978, XY 331 (-4367), XY (-330) (-4368), XY (-977) (-4239), XY (-1314) (-5701),
     XY (-2762) (-5191), XY (-4014) (-4297), XY (-4991) (-3108), XY (-5627) (-1707), XY (-5877) (-189),
     XY (-5696) 1335, XY (-4235) 993, XY (-4237) (-983), XY (-4368) (-329), XY (-4367) 339,
     XY (-4235) 993, XY (-5696) 1335, XY (-5183) 2777, XY (-4288) 4023, XY (-3102) 4995,
     XY (-1704) 5628, XY (-190) 5877, XY 1329 5697, XY 988 4236, XY (-1001) 4233, XY (-343) 4367,
     XY 330 4368, XY 988 4236, XY 1329 5697, XY 2607 5271, XY 3740 4537, XY 4676 3564, XY 5366 2404,
     XY 5744 1111, XY 4271 826, XY 4374 225, XY 4363 (-386), XY 4238 (-983), XY 4239 978, X 3939,
     XY 3937 (-1670), XY 3933 (-2450), XY 3842 (-3026), XY 3514 (-3514), XY 3026 (-3843),
     XY 2450 (-3934), XY 1670 (-3939), X (-1670), XY (-2450) (-3933), XY (-3186) (-3763),
     XY (-3734) (-3234), XY (-3930) (-2505), XY (-3938) (-1670), XY (-3934) 2450, XY (-3765) 3187,
     XY (-3235) 3736, XY (-2505) 3931, XY 1670 3937, XY 2505 3931, XY 3234 3734, XY 3763 3186,
     XY 3934 2450, XY 3939 1670, Y 978, X 4239, XY 4271 826, XY 8542 1652, Z (-1840), Z 10000]"

text \<open>Lines 90 to 171.\<close>

definition copy_layer_1 :: "pline list" where
  "copy_layer_1 = [
     XY 8543 1645, Z (-1860), Z (-4860), XY 5745 1106, XY 5870 (-340), XY 5607 (-1770), XY 5001 (-3092),
     XY 4089 (-4225), XY 2927 (-5100), XY 1586 (-5662), XY 147 (-5878), XY (-1293) (-5705),
     XY (-962) (-4242), XY 969 (-4241), XY 330 (-4368), X (-322), XY (-962) (-4242), XY (-1293) (-5705),
     XY (-2741) (-5202), XY (-3996) (-4314), XY (-4977) (-3131), XY (-5618) (-1734), XY (-5876) (-219),
     XY (-5703) 1305, XY (-4240) 970, XY (-4242) (-963), XY (-4368) (-323), Y 330, XY (-4240) 970,
     XY (-5703) 1305, XY (-5196) 2752, XY (-4306) 4004, XY (-3121) 4983, XY (-1723) 5622,
     XY (-207) 5876, XY 1316 5700, XY 978 4239, X (-978), XY (-331) 4367, X 331, XY 978 4239,
     XY 1316 5700, XY 2598 5275, XY 3735 4541, XY 4675 3566, XY 5367 2403, XY 5745 1106, XY 4272 822,
     XY 4374 228, XY 4364 (-376), XY 4241 (-967), XY 4240 971, X 3940, XY 3942 (-1670), XY 3939 (-2450),
     XY 3849 (-3029), XY 3520 (-3520), XY 3029 (-3850), XY 2450 (-3939), XY (-1670) (-3943),
     XY (-2450) (-3939), XY (-3028) (-3849), XY (-3519) (-3519), XY (-3848) (-3029), XY (-3938) (-2450),
     XY (-3943) (-1670), XY (-3939) 2450, XY (-3851) 3030, XY (-3521) 3521, XY (-3030) 3850,
     XY (-2450) 3939, X 2450, XY 3029 3848, XY 3519 3519, XY 3849 3029, XY 3940 2450, Y 971, X 4240,
     XY 4272 822, XY 8543 1645, Z (-1860), Z 10000]"

text \<open>Lines 172 to 253.\<close>

definition copy_layer_2 :: "pline list" where
  "copy_layer_2 = [
     XY 8548 1617, Z (-1880), Z (-4880), XY 5748 1088, XY 5869 (-353), XY 5605 (-1778), XY 5000 (-3094),
     XY 4091 (-4223), XY 2934 (-5096), XY 1599 (-5658), XY 167 (-5878), XY (-1269) (-5711),
     XY (-944) (-4246), X 948, XY 322 (-4368), X (-318), XY (-944) (-4246), XY (-1269) (-5711),
     XY (-2719) (-5214), XY (-3976) (-4332), XY (-4962) (-3154), XY (-5610) (-1761), XY (-5875) (-248),
     XY (-5709) 1275, XY (-4245) 948, XY (-4246) (-945), XY (-4368) (-318), Y 322, XY (-4245) 948,
     XY (-5709) 1275, XY (-5211) 2724, XY (-4328) 3980, XY (-3149) 4965, XY (-1756) 5612,
     XY (-243) 5875, XY 1280 5708, XY 952 4245, X (-952), XY (-322) 4368, X 322, XY 952 4245,
     XY 1280 5708, XY 2575 5286, XY 3724 4550, XY 4673 3569, XY 5370 2396, XY 5748 1088, XY 4274 809,
     XY 4374 225, XY 4364 (-368), XY 4245 (-948), XY 4246 944, X 3946, XY 3945 (-2450), XY 3856 (-3032),
     XY 3525 (-3525), XY 3032 (-3856), XY 2450 (-3945), XY (-1670) (-3947), XY (-2450) (-3945),
     XY (-3032) (-3855), XY (-3524) (-3525), XY (-3855) (-3032), XY (-3944) (-2450), XY (-3947) (-1670),
     XY (-3945) 2450, XY (-3857) 3033, XY (-3526) 3526, XY (-3033) 3857, XY (-2450) 3945, X 2450,
     XY 3032 3855, XY 3525 3525, XY 3855 3032, XY 3945 2450, XY 3947 1670, XY 3946 944, X 4246,
     XY 4274 809, XY 8548 1617, Z (-1880), Z 10000]"

text \<open>Lines 254 to 338.\<close>

definition copy_layer_3 :: "pline list" where
  "copy_layer_3 = [
     XY 8550 1611, Z (-1900), Z (-4900), XY 5749 1083, XY 5869 (-355), XY 5605 (-1778), XY 5001 (-3093),
     XY 4094 (-4221), XY 2939 (-5093), XY 1606 (-5656), XY 176 (-5877), XY (-1258) (-5713),
     XY (-936) (-4248), X 934, XY 315 (-4369), X (-317), XY (-936) (-4248), XY (-1258) (-5713),
     XY (-2711) (-5218), XY (-3971) (-4336), XY (-4960) (-3158), XY (-5609) (-1763), XY (-5875) (-248),
     XY (-5709) 1278, XY (-4245) 950, Y (-949), XY (-4368) (-321), Y 322, XY (-4245) 950,
     XY (-5709) 1278, XY (-5210) 2727, XY (-4325) 3983, XY (-3146) 4968, XY (-1752) 5613,
     XY (-238) 5875, XY 1285 5707, XY 956 4244, X (-953), XY (-321) 4368, X 324, XY 956 4244,
     XY 1285 5707, XY 2579 5284, XY 3728 4547, XY 4676 3565, XY 5372 2392, XY 5749 1083, XY 4275 806,
     XY 4374 223, XY 4364 (-370), XY 4245 (-949), XY 4248 938, X 3948, XY 3943 (-2505), XY 3874 (-2922),
     XY 3658 (-3339), XY 3470 (-3588), XY 3216 (-3772), XY 2922 (-3874), XY 2505 (-3943),
     XY 1670 (-3949), XY (-2450) (-3948), XY (-2505) (-3943), XY (-3229) (-3761), XY (-3762) (-3228),
     XY (-3945) (-2505), Y 2472, XY (-3941) 2786, XY (-3842) 3086, XY (-3658) 3339, XY (-3343) 3690,
     XY (-2919) 3902, XY (-2450) 3945, XY 2505 3943, XY 3072 3842, XY 3548 3508, XY 3864 3021,
     XY 3945 2450, XY 3949 1670, XY 3948 938, X 4248, XY 4275 806, XY 8550 1611, Z (-1900), Z 10000]"

text \<open>Lines 339 to 417.\<close>

definition copy_layer_4 :: "pline list" where
  "copy_layer_4 = [
     XY 8551 1601, Z (-1920), Z (-4920), XY 5750 1076, XY 5869 (-360), XY 5604 (-1780), XY 5001 (-3093),
     XY 4095 (-4219), XY 2943 (-5091), XY 1613 (-5655), XY 185 (-5877), XY (-1247) (-5716),
     XY (-927) (-4250), X 927, XY 313 (-4369), X (-313), XY (-927) (-4250), XY (-1247) (-5716),
     XY (-2698) (-5225), XY (-3958) (-4348), XY (-4949) (-3176), XY (-5602) (-1787), XY (-5874) (-276),
     XY (-5716) 1247, XY (-4250) 927, Y (-927), XY (-4369) (-313), Y 313, XY (-4250) 927,
     XY (-5716) 1247, XY (-5225) 2698, XY (-4348) 3958, XY (-3176) 4949, XY (-1787) 5602,
     XY (-276) 5874, XY 1247 5716, XY 927 4250, X (-927), XY (-313) 4369, X 313, XY 927 4250,
     XY 1247 5716, XY 2552 5297, XY 3712 4560, XY 4669 3574, XY 5371 2394, XY 5750 1076, XY 4276 800,
     XY 4374 227, XY 4365 (-357), XY 4250 (-927), Y 927, X 3950, Y (-2450), XY 3864 (-3036),
     XY 3532 (-3532), XY 3036 (-3864), XY 2450 (-3950), X (-2450), XY (-3036) (-3864),
     XY (-3532) (-3532), XY (-3864) (-3036), XY (-3950) (-2450), Y 2450, XY (-3864) 3036,
     XY (-3532) 3532, XY (-3036) 3864, XY (-2450) 3950, X 2450, XY 3036 3864, XY 3532 3532,
     XY 3864 3036, XY 3950 2450, Y 927, X 4250, XY 4276 800, XY 8551 1601, Z (-1920), Z 10000]"

text \<open>Lines 418 to 495.\<close>

definition copy_layer_5 :: "pline list" where
  "copy_layer_5 = [
     Z (-1940), Z (-4940), XY 5750 1076, XY 5869 (-360), XY 5604 (-1780), XY 5001 (-3093),
     XY 4095 (-4219), XY 2943 (-5091), XY 1613 (-5655), XY 185 (-5877), XY (-1247) (-5716),
     XY (-927) (-4250), X 927, XY 313 (-4369), X (-313), XY (-927) (-4250), XY (-1247) (-5716),
     XY (-2698) (-5225), XY (-3958) (-4348), XY (-4949) (-3176), XY (-5602) (-1787), XY (-5874) (-276),
     XY (-5716) 1247, XY (-4250) 927, Y (-927), XY (-4369) (-313), Y 313, XY (-4250) 927,
     XY (-5716) 1247, XY (-5225) 2698, XY (-4348) 3958, XY (-3176) 4949, XY (-1787) 5602,
     XY (-276) 5874, XY 1247 5716, XY 927 4250, X (-927), XY (-313) 4369, X 313, XY 927 4250,
     XY 1247 5716, XY 2552 5297, XY 3712 4560, XY 4669 3574, XY 5371 2394, XY 5750 1076, XY 4276 800,
     XY 4374 227, XY 4365 (-357), XY 4250 (-927), Y 927, X 3950, Y (-2450), XY 3864 (-3036),
     XY 3532 (-3532), XY 3036 (-3864), XY 2450 (-3950), X (-2450), XY (-3036) (-3864),
     XY (-3532) (-3532), XY (-3864) (-3036), XY (-3950) (-2450), Y 2450, XY (-3864) 3036,
     XY (-3532) 3532, XY (-3036) 3864, XY (-2450) 3950, X 2450, XY 3036 3864, XY 3532 3532,
     XY 3864 3036, XY 3950 2450, Y 927, X 4250, XY 4276 800, XY 8551 1601, Z (-1940), Z 10000]"

text \<open>Lines 496 to 573.\<close>

definition copy_layer_6 :: "pline list" where
  "copy_layer_6 = [
     Z (-1960), Z (-4960), XY 5750 1076, XY 5869 (-360), XY 5604 (-1780), XY 5001 (-3093),
     XY 4095 (-4219), XY 2943 (-5091), XY 1613 (-5655), XY 185 (-5877), XY (-1247) (-5716),
     XY (-927) (-4250), X 927, XY 313 (-4369), X (-313), XY (-927) (-4250), XY (-1247) (-5716),
     XY (-2698) (-5225), XY (-3958) (-4348), XY (-4949) (-3176), XY (-5602) (-1787), XY (-5874) (-276),
     XY (-5716) 1247, XY (-4250) 927, Y (-927), XY (-4369) (-313), Y 313, XY (-4250) 927,
     XY (-5716) 1247, XY (-5225) 2698, XY (-4348) 3958, XY (-3176) 4949, XY (-1787) 5602,
     XY (-276) 5874, XY 1247 5716, XY 927 4250, X (-927), XY (-313) 4369, X 313, XY 927 4250,
     XY 1247 5716, XY 2552 5297, XY 3712 4560, XY 4669 3574, XY 5371 2394, XY 5750 1076, XY 4276 800,
     XY 4374 227, XY 4365 (-357), XY 4250 (-927), Y 927, X 3950, Y (-2450), XY 3864 (-3036),
     XY 3532 (-3532), XY 3036 (-3864), XY 2450 (-3950), X (-2450), XY (-3036) (-3864),
     XY (-3532) (-3532), XY (-3864) (-3036), XY (-3950) (-2450), Y 2450, XY (-3864) 3036,
     XY (-3532) 3532, XY (-3036) 3864, XY (-2450) 3950, X 2450, XY 3036 3864, XY 3532 3532,
     XY 3864 3036, XY 3950 2450, Y 927, X 4250, XY 4276 800, XY 8551 1601, Z (-1960), Z 10000]"

text \<open>Lines 574 to 651.\<close>

definition copy_layer_7 :: "pline list" where
  "copy_layer_7 = [
     Z (-1980), Z (-4980), XY 5750 1076, XY 5869 (-360), XY 5604 (-1780), XY 5001 (-3093),
     XY 4095 (-4219), XY 2943 (-5091), XY 1613 (-5655), XY 185 (-5877), XY (-1247) (-5716),
     XY (-927) (-4250), X 927, XY 313 (-4369), X (-313), XY (-927) (-4250), XY (-1247) (-5716),
     XY (-2698) (-5225), XY (-3958) (-4348), XY (-4949) (-3176), XY (-5602) (-1787), XY (-5874) (-276),
     XY (-5716) 1247, XY (-4250) 927, Y (-927), XY (-4369) (-313), Y 313, XY (-4250) 927,
     XY (-5716) 1247, XY (-5225) 2698, XY (-4348) 3958, XY (-3176) 4949, XY (-1787) 5602,
     XY (-276) 5874, XY 1247 5716, XY 927 4250, X (-927), XY (-313) 4369, X 313, XY 927 4250,
     XY 1247 5716, XY 2552 5297, XY 3712 4560, XY 4669 3574, XY 5371 2394, XY 5750 1076, XY 4276 800,
     XY 4374 227, XY 4365 (-357), XY 4250 (-927), Y 927, X 3950, Y (-2450), XY 3864 (-3036),
     XY 3532 (-3532), XY 3036 (-3864), XY 2450 (-3950), X (-2450), XY (-3036) (-3864),
     XY (-3532) (-3532), XY (-3864) (-3036), XY (-3950) (-2450), Y 2450, XY (-3864) 3036,
     XY (-3532) 3532, XY (-3036) 3864, XY (-2450) 3950, X 2450, XY 3036 3864, XY 3532 3532,
     XY 3864 3036, XY 3950 2450, Y 927, X 4250, XY 4276 800, XY 8551 1601, Z (-1980), Z 10000]"

text \<open>Lines 652 to 729.\<close>

definition copy_layer_8 :: "pline list" where
  "copy_layer_8 = [
     Z (-2000), Z (-5000), XY 5750 1076, XY 5869 (-360), XY 5604 (-1780), XY 5001 (-3093),
     XY 4095 (-4219), XY 2943 (-5091), XY 1613 (-5655), XY 185 (-5877), XY (-1247) (-5716),
     XY (-927) (-4250), X 927, XY 313 (-4369), X (-313), XY (-927) (-4250), XY (-1247) (-5716),
     XY (-2698) (-5225), XY (-3958) (-4348), XY (-4949) (-3176), XY (-5602) (-1787), XY (-5874) (-276),
     XY (-5716) 1247, XY (-4250) 927, Y (-927), XY (-4369) (-313), Y 313, XY (-4250) 927,
     XY (-5716) 1247, XY (-5225) 2698, XY (-4348) 3958, XY (-3176) 4949, XY (-1787) 5602,
     XY (-276) 5874, XY 1247 5716, XY 927 4250, X (-927), XY (-313) 4369, X 313, XY 927 4250,
     XY 1247 5716, XY 2552 5297, XY 3712 4560, XY 4669 3574, XY 5371 2394, XY 5750 1076, XY 4276 800,
     XY 4374 227, XY 4365 (-357), XY 4250 (-927), Y 927, X 3950, Y (-2450), XY 3864 (-3036),
     XY 3532 (-3532), XY 3036 (-3864), XY 2450 (-3950), X (-2450), XY (-3036) (-3864),
     XY (-3532) (-3532), XY (-3864) (-3036), XY (-3950) (-2450), Y 2450, XY (-3864) 3036,
     XY (-3532) 3532, XY (-3036) 3864, XY (-2450) 3950, X 2450, XY 3036 3864, XY 3532 3532,
     XY 3864 3036, XY 3950 2450, Y 927, X 4250, XY 4276 800, XY 8551 1601, Z (-2000), Z 10000]"

definition copy_moves :: "pline list" where
  "copy_moves = copy_lead @ concat [copy_layer_0, copy_layer_1, copy_layer_2, copy_layer_3, copy_layer_4, copy_layer_5, copy_layer_6,
     copy_layer_7, copy_layer_8]"

definition copy_script :: script where
  "copy_script = script_of 2 (part_program 400 10 copy_moves)"

section \<open>The layers one by one\<close>

definition copy_box :: box where
  "copy_box = ((- 5877, 8551), (- 5879, 5877), (- 5000, 10000))"

text \<open>The moves of a group of lines keep the discipline from one point at the safe height to another.\<close>

definition layer_from :: "pline list \<Rightarrow> int \<times> int \<Rightarrow> int \<times> int \<Rightarrow> int \<Rightarrow> bool" where
  "layer_from ls p q c \<longleftrightarrow>
     list_all is_move ls \<and> list_all (in_box copy_box) (map line_move ls)
     \<and> drives (map line_move ls) (Some (fst p), Some (snd p), Some safe_z) Safe =
         Some ((Some (fst q), Some (snd q), Some safe_z), Safe, [(c, Some (fst q), Some (snd q))])"

lemmas eval_layer = layer_from_def copy_box_def safe_z_def plunge_def is_lateral_def vertical_def xy_def

lemma copy_layer_0_ok: "layer_from copy_layer_0 (8535, 1688) (8542, 1652) (- 4840)"
  by (simp add: eval_layer copy_layer_0_def)

lemma copy_layer_1_ok: "layer_from copy_layer_1 (8542, 1652) (8543, 1645) (- 4860)"
  by (simp add: eval_layer copy_layer_1_def)

lemma copy_layer_2_ok: "layer_from copy_layer_2 (8543, 1645) (8548, 1617) (- 4880)"
  by (simp add: eval_layer copy_layer_2_def)

lemma copy_layer_3_ok: "layer_from copy_layer_3 (8548, 1617) (8550, 1611) (- 4900)"
  by (simp add: eval_layer copy_layer_3_def)

lemma copy_layer_4_ok: "layer_from copy_layer_4 (8550, 1611) (8551, 1601) (- 4920)"
  by (simp add: eval_layer copy_layer_4_def)

lemma copy_layer_5_ok: "layer_from copy_layer_5 (8551, 1601) (8551, 1601) (- 4940)"
  by (simp add: eval_layer copy_layer_5_def)

lemma copy_layer_6_ok: "layer_from copy_layer_6 (8551, 1601) (8551, 1601) (- 4960)"
  by (simp add: eval_layer copy_layer_6_def)

lemma copy_layer_7_ok: "layer_from copy_layer_7 (8551, 1601) (8551, 1601) (- 4980)"
  by (simp add: eval_layer copy_layer_7_def)

lemma copy_layer_8_ok: "layer_from copy_layer_8 (8551, 1601) (8551, 1601) (- 5000)"
  by (simp add: eval_layer copy_layer_8_def)

lemmas copy_layers_ok =
  copy_layer_0_ok copy_layer_1_ok copy_layer_2_ok copy_layer_3_ok copy_layer_4_ok copy_layer_5_ok
  copy_layer_6_ok copy_layer_7_ok copy_layer_8_ok

definition copy_cuts :: "cut list" where
  "copy_cuts = [
     ((- 4840), Some 8542, Some 1652), ((- 4860), Some 8543, Some 1645),
     ((- 4880), Some 8548, Some 1617), ((- 4900), Some 8550, Some 1611),
     ((- 4920), Some 8551, Some 1601), ((- 4940), Some 8551, Some 1601),
     ((- 4960), Some 8551, Some 1601), ((- 4980), Some 8551, Some 1601),
     ((- 5000), Some 8551, Some 1601)]"

lemma copy_cuts_ok: "cuts (map line_move copy_moves) = Some copy_cuts"
proof -
  have "drives (map line_move copy_lead) nowhere Start = Some ((Some 8535, Some 1688, Some safe_z), Safe, [])"
    by (simp add: copy_lead_def is_lateral_def vertical_def nowhere_def safe_z_def)
  then show ?thesis
    using copy_layers_ok by (simp add: cuts_def copy_moves_def drives_append layer_from_def copy_cuts_def)
qed

lemma copy_is_move: "list_all is_move copy_moves"
  using copy_layers_ok by (simp add: copy_moves_def layer_from_def copy_lead_def)

lemma copy_in_box: "list_all (in_box copy_box) (map line_move copy_moves)"
proof -
  have "list_all (in_box copy_box) (map line_move copy_lead)" by (simp add: copy_lead_def copy_box_def)
  then show ?thesis using copy_layers_ok by (simp add: copy_moves_def layer_from_def)
qed

interpretation copy: layered_program 2 400 10 copy_moves copy_box copy_cuts
  by unfold_locales (simp_all add: copy_is_move copy_cuts_ok copy_in_box)

lemma copy_result: "copy.result_commands = get_command_list (snd (run copy_script RS274Interpreter_init))"
  by (simp add: copy.result_commands_def copy_script_def get_command_list_def)

section \<open>Properties of the program\<close>

text \<open>The finishing program runs through the interpreter without an exception, issues one
  command per line with the number and the text of the line, and ends with the program-end
  flag.\<close>

theorem copy_runs_to_end:
  "\<exists>s'. run copy_script RS274Interpreter_init = return_self s' \<and> is_program_end s'
     \<and> map (\<lambda>c. (cmd_get c K_LineNumber, cmd_get c K_CommandStr)) (get_command_list s') =
         map (\<lambda>(k, l). (Some (VInt k), Some (VStr (line_text l))))
           (zip [2..730] (part_program 400 10 copy_moves))"
proof -
  have "length copy_moves = 724"
    by (simp add: copy_moves_def copy_lead_def copy_layer_0_def copy_layer_1_def copy_layer_2_def copy_layer_3_def copy_layer_4_def copy_layer_5_def copy_layer_6_def copy_layer_7_def copy_layer_8_def)
  then have "length (part_program 400 10 copy_moves) = 729" by (simp add: part_program_def)
  then show ?thesis using copy.completes by (simp add: copy_script_def get_command_list_def)
qed

text \<open>the commands of the finishing program cut 9 closed layers, 0.020 mm apart from -4.840
  to -5.000 mm, each with its plunge and its retraction at the same point, and come back to
  the safe height.\<close>

theorem copy_cuts_layers:
  "\<exists>cs. cuts (moves_of (get_command_list (snd (run copy_script RS274Interpreter_init)))) = Some cs
     \<and> map fst cs = map (\<lambda>k. - 4840 - 20 * int k) [0..<9]"
proof -
  have "map fst copy_cuts = map (\<lambda>k. - 4840 - 20 * int k) [0..<9]" by code_simp
  then show ?thesis using copy.cuts_of_result by (simp add: copy_result)
qed

text \<open>On the tool path of the finishing program the tool changes its lateral position only
  while its height stays, at the safe height, at a cutting depth or before its height is
  first commanded, and every position lies in the box from (-5.877, -5.879, -5.000) to
  (8.551, 5.877, 10.000) millimetres.\<close>

theorem copy_path_safe_and_bounded:
  "path_safe (map (\<lambda>k. - 4840 - 20 * int k) [0..<9]) nowhere
     (tool_path (get_command_list (snd (run copy_script RS274Interpreter_init))))
   \<and> list_all (in_box ((- 5877, 8551), (- 5879, 5877), (- 5000, 10000)))
       (tool_path (get_command_list (snd (run copy_script RS274Interpreter_init))))"
proof -
  have "map fst copy_cuts = map (\<lambda>k. - 4840 - 20 * int k) [0..<9]" by code_simp
  then show ?thesis
    using copy.result_path_safe copy.result_in_envelope by (simp add: copy_result copy_box_def)
qed

end
