(* ===== verification/Gcode_Full_D.thy ===== *)
theory Gcode_Full_D
  imports Gcode_Full_Shape Gcode_Copy
begin

text \<open>
  Layers 196 to 204 of the full part program, lines 17357 to 18078 of the file. They are the layers
  of \<^verbatim>\<open>Gcode_Copy\<close>.
\<close>

section \<open>The lines of the file\<close>

text \<open>Lines 17357 to 17438.\<close>

definition full_layer_196 :: "pline list" where
  "full_layer_196 = [
     XY 8542 1652, Z (-1840), Z (-4840), XY 5744 1111, XY 5870 (-338), XY 5607 (-1772), XY 4999 (-3096),
     XY 4083 (-4231), XY 2917 (-5105), XY 1571 (-5666), XY 129 (-5879), XY (-1314) (-5701),
     XY (-977) (-4239), X 978, XY 331 (-4367), XY (-330) (-4368), XY (-977) (-4239), XY (-1314) (-5701),
     XY (-2762) (-5191), XY (-4014) (-4297), XY (-4991) (-3108), XY (-5627) (-1707), XY (-5877) (-189),
     XY (-5696) 1335, XY (-4235) 993, XY (-4237) (-983), XY (-4368) (-329), XY (-4367) 339,
     XY (-4235) 993, XY (-5696) 1335, XY (-5183) 2777, XY (-4288) 4023, XY (-3102) 4995,
     XY (-1704) 5628, XY (-190) 5877, XY 1329 5697, XY 988 4236, XY (-1001) 4233, XY (-343) 4367,
     XY 330 4368, XY 988 4236, XY 1329 5697, XY 2607 5271, XY 3740 4537, XY 4676 3564, XY 5366 2404,
     XY 5744 1111, XY 4271 826, XY 4374 225, XY 4363 (-386), XY 4238 (-983), XY 4239 978, X 3939,
     XY 3937 (-1670), XY 3933 (-2450), XY 3842 (-3026), XY 3514 (-3514), XY 3026 (-3843),
     XY 2450 (-3934), XY 1670 (-3939), X (-1670), XY (-2450) (-3933), XY (-3186) (-3763),
     XY (-3734) (-3234), XY (-3930) (-2505), XY (-3938) (-1670), XY (-3934) 2450, XY (-3765) 3187,
     XY (-3235) 3736, XY (-2505) 3931, XY 1670 3937, XY 2505 3931, XY 3234 3734, XY 3763 3186,
     XY 3934 2450, XY 3939 1670, Y 978, X 4239, XY 4271 826, XY 8542 1652, Z (-1840), Z 10000]"

text \<open>Lines 17439 to 17520.\<close>

definition full_layer_197 :: "pline list" where
  "full_layer_197 = [
     XY 8543 1645, Z (-1860), Z (-4860), XY 5745 1106, XY 5870 (-340), XY 5607 (-1770), XY 5001 (-3092),
     XY 4089 (-4225), XY 2927 (-5100), XY 1586 (-5662), XY 147 (-5878), XY (-1293) (-5705),
     XY (-962) (-4242), XY 969 (-4241), XY 330 (-4368), X (-322), XY (-962) (-4242), XY (-1293) (-5705),
     XY (-2741) (-5202), XY (-3996) (-4314), XY (-4977) (-3131), XY (-5618) (-1734), XY (-5876) (-219),
     XY (-5703) 1305, XY (-4240) 970, XY (-4242) (-963), XY (-4368) (-323), Y 330, XY (-4240) 970,
     XY (-5703) 1305, XY (-5196) 2752, XY (-4306) 4004, XY (-3121) 4983, XY (-1723) 5622,
     XY (-207) 5876, XY 1316 5700, XY 978 4239, X (-978), XY (-331) 4367, X 331, XY 978 4239,
     XY 1316 5700, XY 2598 5275, XY 3735 4541, XY 4675 3566, XY 5367 2403, XY 5745 1106, XY 4272 822,
     XY 4374 228, XY 4364 (-376), XY 4241 (-967), XY 4240 971, X 3940, XY 3942 (-1670), XY 3939 (-2450),
     XY 3849 (-3029), XY 3520 (-3520), XY 3029 (-3850), XY 2450 (-3939), XY (-1670) (-3943),
     XY (-2450) (-3939), XY (-3028) (-3849), XY (-3519) (-3519), XY (-3848) (-3029), XY (-3938) (-2450),
     XY (-3943) (-1670), XY (-3939) 2450, XY (-3851) 3030, XY (-3521) 3521, XY (-3030) 3850,
     XY (-2450) 3939, X 2450, XY 3029 3848, XY 3519 3519, XY 3849 3029, XY 3940 2450, Y 971, X 4240,
     XY 4272 822, XY 8543 1645, Z (-1860), Z 10000]"

text \<open>Lines 17521 to 17602.\<close>

definition full_layer_198 :: "pline list" where
  "full_layer_198 = [
     XY 8548 1617, Z (-1880), Z (-4880), XY 5748 1088, XY 5869 (-353), XY 5605 (-1778), XY 5000 (-3094),
     XY 4091 (-4223), XY 2934 (-5096), XY 1599 (-5658), XY 167 (-5878), XY (-1269) (-5711),
     XY (-944) (-4246), X 948, XY 322 (-4368), X (-318), XY (-944) (-4246), XY (-1269) (-5711),
     XY (-2719) (-5214), XY (-3976) (-4332), XY (-4962) (-3154), XY (-5610) (-1761), XY (-5875) (-248),
     XY (-5709) 1275, XY (-4245) 948, XY (-4246) (-945), XY (-4368) (-318), Y 322, XY (-4245) 948,
     XY (-5709) 1275, XY (-5211) 2724, XY (-4328) 3980, XY (-3149) 4965, XY (-1756) 5612,
     XY (-243) 5875, XY 1280 5708, XY 952 4245, X (-952), XY (-322) 4368, X 322, XY 952 4245,
     XY 1280 5708, XY 2575 5286, XY 3724 4550, XY 4673 3569, XY 5370 2396, XY 5748 1088, XY 4274 809,
     XY 4374 225, XY 4364 (-368), XY 4245 (-948), XY 4246 944, X 3946, XY 3945 (-2450), XY 3856 (-3032),
     XY 3525 (-3525), XY 3032 (-3856), XY 2450 (-3945), XY (-1670) (-3947), XY (-2450) (-3945),
     XY (-3032) (-3855), XY (-3524) (-3525), XY (-3855) (-3032), XY (-3944) (-2450), XY (-3947) (-1670),
     XY (-3945) 2450, XY (-3857) 3033, XY (-3526) 3526, XY (-3033) 3857, XY (-2450) 3945, X 2450,
     XY 3032 3855, XY 3525 3525, XY 3855 3032, XY 3945 2450, XY 3947 1670, XY 3946 944, X 4246,
     XY 4274 809, XY 8548 1617, Z (-1880), Z 10000]"

text \<open>Lines 17603 to 17687.\<close>

definition full_layer_199 :: "pline list" where
  "full_layer_199 = [
     XY 8550 1611, Z (-1900), Z (-4900), XY 5749 1083, XY 5869 (-355), XY 5605 (-1778), XY 5001 (-3093),
     XY 4094 (-4221), XY 2939 (-5093), XY 1606 (-5656), XY 176 (-5877), XY (-1258) (-5713),
     XY (-936) (-4248), X 934, XY 315 (-4369), X (-317), XY (-936) (-4248), XY (-1258) (-5713),
     XY (-2711) (-5218), XY (-3971) (-4336), XY (-4960) (-3158), XY (-5609) (-1763), XY (-5875) (-248),
     XY (-5709) 1278, XY (-4245) 950, Y (-949), XY (-4368) (-321), Y 322, XY (-4245) 950,
     XY (-5709) 1278, XY (-5210) 2727, XY (-4325) 3983, XY (-3146) 4968, XY (-1752) 5613,
     XY (-238) 5875, XY 1285 5707, XY 956 4244, X (-953), XY (-321) 4368, X 324, XY 956 4244,
     XY 1285 5707, XY 2579 5284, XY 3728 4547, XY 4676 3565, XY 5372 2392, XY 5749 1083, XY 4275 806,
     XY 4374 223, XY 4364 (-370), XY 4245 (-949), XY 4248 938, X 3948, XY 3943 (-2505), XY 3874 (-2922),
     XY 3658 (-3339), XY 3470 (-3588), XY 3216 (-3772), XY 2922 (-3874), XY 2505 (-3943),
     XY 1670 (-3949), XY (-2450) (-3948), XY (-2505) (-3943), XY (-3229) (-3761), XY (-3762) (-3228),
     XY (-3945) (-2505), Y 2472, XY (-3941) 2786, XY (-3842) 3086, XY (-3658) 3339, XY (-3343) 3690,
     XY (-2919) 3902, XY (-2450) 3945, XY 2505 3943, XY 3072 3842, XY 3548 3508, XY 3864 3021,
     XY 3945 2450, XY 3949 1670, XY 3948 938, X 4248, XY 4275 806, XY 8550 1611, Z (-1900), Z 10000]"

text \<open>Lines 17688 to 17766.\<close>

definition full_layer_200 :: "pline list" where
  "full_layer_200 = [
     XY 8551 1601, Z (-1920), Z (-4920), XY 5750 1076, XY 5869 (-360), XY 5604 (-1780), XY 5001 (-3093),
     XY 4095 (-4219), XY 2943 (-5091), XY 1613 (-5655), XY 185 (-5877), XY (-1247) (-5716),
     XY (-927) (-4250), X 927, XY 313 (-4369), X (-313), XY (-927) (-4250), XY (-1247) (-5716),
     XY (-2698) (-5225), XY (-3958) (-4348), XY (-4949) (-3176), XY (-5602) (-1787), XY (-5874) (-276),
     XY (-5716) 1247, XY (-4250) 927, Y (-927), XY (-4369) (-313), Y 313, XY (-4250) 927,
     XY (-5716) 1247, XY (-5225) 2698, XY (-4348) 3958, XY (-3176) 4949, XY (-1787) 5602,
     XY (-276) 5874, XY 1247 5716, XY 927 4250, X (-927), XY (-313) 4369, X 313, XY 927 4250,
     XY 1247 5716, XY 2552 5297, XY 3712 4560, XY 4669 3574, XY 5371 2394, XY 5750 1076, XY 4276 800,
     XY 4374 227, XY 4365 (-357), XY 4250 (-927), Y 927, X 3950, Y (-2450), XY 3864 (-3036),
     XY 3532 (-3532), XY 3036 (-3864), XY 2450 (-3950), X (-2450), XY (-3036) (-3864),
     XY (-3532) (-3532), XY (-3864) (-3036), XY (-3950) (-2450), Y 2450, XY (-3864) 3036,
     XY (-3532) 3532, XY (-3036) 3864, XY (-2450) 3950, X 2450, XY 3036 3864, XY 3532 3532,
     XY 3864 3036, XY 3950 2450, Y 927, X 4250, XY 4276 800, XY 8551 1601, Z (-1920), Z 10000]"

text \<open>Lines 17767 to 17844.\<close>

definition full_layer_201 :: "pline list" where
  "full_layer_201 = [
     Z (-1940), Z (-4940), XY 5750 1076, XY 5869 (-360), XY 5604 (-1780), XY 5001 (-3093),
     XY 4095 (-4219), XY 2943 (-5091), XY 1613 (-5655), XY 185 (-5877), XY (-1247) (-5716),
     XY (-927) (-4250), X 927, XY 313 (-4369), X (-313), XY (-927) (-4250), XY (-1247) (-5716),
     XY (-2698) (-5225), XY (-3958) (-4348), XY (-4949) (-3176), XY (-5602) (-1787), XY (-5874) (-276),
     XY (-5716) 1247, XY (-4250) 927, Y (-927), XY (-4369) (-313), Y 313, XY (-4250) 927,
     XY (-5716) 1247, XY (-5225) 2698, XY (-4348) 3958, XY (-3176) 4949, XY (-1787) 5602,
     XY (-276) 5874, XY 1247 5716, XY 927 4250, X (-927), XY (-313) 4369, X 313, XY 927 4250,
     XY 1247 5716, XY 2552 5297, XY 3712 4560, XY 4669 3574, XY 5371 2394, XY 5750 1076, XY 4276 800,
     XY 4374 227, XY 4365 (-357), XY 4250 (-927), Y 927, X 3950, Y (-2450), XY 3864 (-3036),
     XY 3532 (-3532), XY 3036 (-3864), XY 2450 (-3950), X (-2450), XY (-3036) (-3864),
     XY (-3532) (-3532), XY (-3864) (-3036), XY (-3950) (-2450), Y 2450, XY (-3864) 3036,
     XY (-3532) 3532, XY (-3036) 3864, XY (-2450) 3950, X 2450, XY 3036 3864, XY 3532 3532,
     XY 3864 3036, XY 3950 2450, Y 927, X 4250, XY 4276 800, XY 8551 1601, Z (-1940), Z 10000]"

text \<open>Lines 17845 to 17922.\<close>

definition full_layer_202 :: "pline list" where
  "full_layer_202 = [
     Z (-1960), Z (-4960), XY 5750 1076, XY 5869 (-360), XY 5604 (-1780), XY 5001 (-3093),
     XY 4095 (-4219), XY 2943 (-5091), XY 1613 (-5655), XY 185 (-5877), XY (-1247) (-5716),
     XY (-927) (-4250), X 927, XY 313 (-4369), X (-313), XY (-927) (-4250), XY (-1247) (-5716),
     XY (-2698) (-5225), XY (-3958) (-4348), XY (-4949) (-3176), XY (-5602) (-1787), XY (-5874) (-276),
     XY (-5716) 1247, XY (-4250) 927, Y (-927), XY (-4369) (-313), Y 313, XY (-4250) 927,
     XY (-5716) 1247, XY (-5225) 2698, XY (-4348) 3958, XY (-3176) 4949, XY (-1787) 5602,
     XY (-276) 5874, XY 1247 5716, XY 927 4250, X (-927), XY (-313) 4369, X 313, XY 927 4250,
     XY 1247 5716, XY 2552 5297, XY 3712 4560, XY 4669 3574, XY 5371 2394, XY 5750 1076, XY 4276 800,
     XY 4374 227, XY 4365 (-357), XY 4250 (-927), Y 927, X 3950, Y (-2450), XY 3864 (-3036),
     XY 3532 (-3532), XY 3036 (-3864), XY 2450 (-3950), X (-2450), XY (-3036) (-3864),
     XY (-3532) (-3532), XY (-3864) (-3036), XY (-3950) (-2450), Y 2450, XY (-3864) 3036,
     XY (-3532) 3532, XY (-3036) 3864, XY (-2450) 3950, X 2450, XY 3036 3864, XY 3532 3532,
     XY 3864 3036, XY 3950 2450, Y 927, X 4250, XY 4276 800, XY 8551 1601, Z (-1960), Z 10000]"

text \<open>Lines 17923 to 18000.\<close>

definition full_layer_203 :: "pline list" where
  "full_layer_203 = [
     Z (-1980), Z (-4980), XY 5750 1076, XY 5869 (-360), XY 5604 (-1780), XY 5001 (-3093),
     XY 4095 (-4219), XY 2943 (-5091), XY 1613 (-5655), XY 185 (-5877), XY (-1247) (-5716),
     XY (-927) (-4250), X 927, XY 313 (-4369), X (-313), XY (-927) (-4250), XY (-1247) (-5716),
     XY (-2698) (-5225), XY (-3958) (-4348), XY (-4949) (-3176), XY (-5602) (-1787), XY (-5874) (-276),
     XY (-5716) 1247, XY (-4250) 927, Y (-927), XY (-4369) (-313), Y 313, XY (-4250) 927,
     XY (-5716) 1247, XY (-5225) 2698, XY (-4348) 3958, XY (-3176) 4949, XY (-1787) 5602,
     XY (-276) 5874, XY 1247 5716, XY 927 4250, X (-927), XY (-313) 4369, X 313, XY 927 4250,
     XY 1247 5716, XY 2552 5297, XY 3712 4560, XY 4669 3574, XY 5371 2394, XY 5750 1076, XY 4276 800,
     XY 4374 227, XY 4365 (-357), XY 4250 (-927), Y 927, X 3950, Y (-2450), XY 3864 (-3036),
     XY 3532 (-3532), XY 3036 (-3864), XY 2450 (-3950), X (-2450), XY (-3036) (-3864),
     XY (-3532) (-3532), XY (-3864) (-3036), XY (-3950) (-2450), Y 2450, XY (-3864) 3036,
     XY (-3532) 3532, XY (-3036) 3864, XY (-2450) 3950, X 2450, XY 3036 3864, XY 3532 3532,
     XY 3864 3036, XY 3950 2450, Y 927, X 4250, XY 4276 800, XY 8551 1601, Z (-1980), Z 10000]"

text \<open>Lines 18001 to 18078.\<close>

definition full_layer_204 :: "pline list" where
  "full_layer_204 = [
     Z (-2000), Z (-5000), XY 5750 1076, XY 5869 (-360), XY 5604 (-1780), XY 5001 (-3093),
     XY 4095 (-4219), XY 2943 (-5091), XY 1613 (-5655), XY 185 (-5877), XY (-1247) (-5716),
     XY (-927) (-4250), X 927, XY 313 (-4369), X (-313), XY (-927) (-4250), XY (-1247) (-5716),
     XY (-2698) (-5225), XY (-3958) (-4348), XY (-4949) (-3176), XY (-5602) (-1787), XY (-5874) (-276),
     XY (-5716) 1247, XY (-4250) 927, Y (-927), XY (-4369) (-313), Y 313, XY (-4250) 927,
     XY (-5716) 1247, XY (-5225) 2698, XY (-4348) 3958, XY (-3176) 4949, XY (-1787) 5602,
     XY (-276) 5874, XY 1247 5716, XY 927 4250, X (-927), XY (-313) 4369, X 313, XY 927 4250,
     XY 1247 5716, XY 2552 5297, XY 3712 4560, XY 4669 3574, XY 5371 2394, XY 5750 1076, XY 4276 800,
     XY 4374 227, XY 4365 (-357), XY 4250 (-927), Y 927, X 3950, Y (-2450), XY 3864 (-3036),
     XY 3532 (-3532), XY 3036 (-3864), XY 2450 (-3950), X (-2450), XY (-3036) (-3864),
     XY (-3532) (-3532), XY (-3864) (-3036), XY (-3950) (-2450), Y 2450, XY (-3864) 3036,
     XY (-3532) 3532, XY (-3036) 3864, XY (-2450) 3950, X 2450, XY 3036 3864, XY 3532 3532,
     XY 3864 3036, XY 3950 2450, Y 927, X 4250, XY 4276 800, XY 8551 1601, Z (-2000), Z 10000]"

definition full_layers_d :: "pline list list" where
  "full_layers_d = [
     full_layer_196, full_layer_197, full_layer_198, full_layer_199, full_layer_200, full_layer_201,
     full_layer_202, full_layer_203, full_layer_204]"

section \<open>The layers one by one\<close>

lemma full_layer_196_ok: "full_group full_layer_196 (8535, 1688) (8542, 1652) (-4840)"
  by code_simp

lemma full_layer_197_ok: "full_group full_layer_197 (8542, 1652) (8543, 1645) (-4860)"
  by code_simp

lemma full_layer_198_ok: "full_group full_layer_198 (8543, 1645) (8548, 1617) (-4880)"
  by code_simp

lemma full_layer_199_ok: "full_group full_layer_199 (8548, 1617) (8550, 1611) (-4900)"
  by code_simp

lemma full_layer_200_ok: "full_group full_layer_200 (8550, 1611) (8551, 1601) (-4920)"
  by code_simp

lemma full_layer_201_ok: "full_group full_layer_201 (8551, 1601) (8551, 1601) (-4940)"
  by code_simp

lemma full_layer_202_ok: "full_group full_layer_202 (8551, 1601) (8551, 1601) (-4960)"
  by code_simp

lemma full_layer_203_ok: "full_group full_layer_203 (8551, 1601) (8551, 1601) (-4980)"
  by code_simp

lemma full_layer_204_ok: "full_group full_layer_204 (8551, 1601) (8551, 1601) (-5000)"
  by code_simp

lemmas full_layers_d_ok =
  full_layer_196_ok full_layer_197_ok full_layer_198_ok full_layer_199_ok full_layer_200_ok
  full_layer_201_ok full_layer_202_ok full_layer_203_ok full_layer_204_ok

lemma full_layers_as_copy:
  "full_layer_196 = copy_layer_0"
  "full_layer_197 = copy_layer_1"
  "full_layer_198 = copy_layer_2"
  "full_layer_199 = copy_layer_3"
  "full_layer_200 = copy_layer_4"
  "full_layer_201 = copy_layer_5"
  "full_layer_202 = copy_layer_6"
  "full_layer_203 = copy_layer_7"
  "full_layer_204 = copy_layer_8"
  by (simp_all only: full_layer_196_def copy_layer_0_def full_layer_197_def copy_layer_1_def full_layer_198_def copy_layer_2_def full_layer_199_def copy_layer_3_def full_layer_200_def copy_layer_4_def full_layer_201_def copy_layer_5_def full_layer_202_def copy_layer_6_def full_layer_203_def copy_layer_7_def full_layer_204_def copy_layer_8_def)

definition full_groups_d :: "(pline list \<times> (int \<times> int) \<times> int list) list" where
  "full_groups_d = [
     (full_layer_196, (8542, 1652), [-4840]), (full_layer_197, (8543, 1645), [-4860]),
     (full_layer_198, (8548, 1617), [-4880]), (full_layer_199, (8550, 1611), [-4900]),
     (full_layer_200, (8551, 1601), [-4920]), (full_layer_201, (8551, 1601), [-4940]),
     (full_layer_202, (8551, 1601), [-4960]), (full_layer_203, (8551, 1601), [-4980]),
     (full_layer_204, (8551, 1601), [-5000])]"

lemma full_d_chained: "chained 1 full_box full_groups_d (8535, 1688)"
  by (simp add: full_groups_d_def full_layers_d_ok)

lemma full_d_groups:
  "map fst full_groups_d = full_layers_d" "last (p # map (fst \<circ> snd) full_groups_d) = (8551, 1601)"
  "concat (map (snd \<circ> snd) full_groups_d) = [
    -4840, -4860, -4880, -4900, -4920, -4940, -4960, -4980, -5000]"
  by (simp_all add: full_groups_d_def full_layers_d_def)

lemma full_d_depths: "map full_depth [196..<205] = concat (map (snd \<circ> snd) full_groups_d)"
  unfolding full_d_groups by code_simp

lemma full_d_group: "mills_group 1 full_box (concat full_layers_d) (8535, 1688) (8551, 1601) (map full_depth [196..<205])"
  using chained_group [OF full_d_chained] by (simp only: full_d_groups full_d_depths)

lemma full_d_lengths: "map length full_layers_d = [
    82, 82, 82, 85, 79, 78, 78, 78, 78]"
  by (simp add: full_layers_d_def
      full_layer_196_def full_layer_197_def full_layer_198_def full_layer_199_def
      full_layer_200_def full_layer_201_def full_layer_202_def full_layer_203_def full_layer_204_def)

lemma full_d_length: "length (concat full_layers_d) = 722"
  by (simp add: length_concat full_d_lengths)

end
