(* ===== verification/Gcode_Part3.thy ===== *)
theory Gcode_Part3
  imports Gcode_Programs
begin

text \<open>
  The part program \<^verbatim>\<open>gcode/01-... -part3.py\<close>: the lower block of the part, fifty layers of one
  contour. Every layer is given as it stands in the file, line by line (lines \<open>9 + 78 k\<close> to
  \<open>86 + 78 k\<close> for layer \<open>k\<close>); the properties show that the fifty layers are one contour
  repeated at evenly spaced depths and that the program is safe to run.
\<close>

section \<open>The lines of the file\<close>

definition part3_lead :: "pline list" where
  "part3_lead = [XY 8551 1601, Z 10000]"

text \<open>The contour of the first layer, lines 11 to 84.\<close>

definition part3_contour :: "pline list" where
  "part3_contour = [
     XY 5750 1076, XY 5869 (-360), XY 5604 (-1780), XY 5001 (-3093), XY 4095 (-4219), XY 2943 (-5091),
     XY 1613 (-5655), XY 185 (-5877), XY (-1247) (-5716), XY (-927) (-4250), X 927, XY 313 (-4369),
     X (-313), XY (-927) (-4250), XY (-1247) (-5716), XY (-2698) (-5225), XY (-3958) (-4348),
     XY (-4949) (-3176), XY (-5602) (-1787), XY (-5874) (-276), XY (-5716) 1247, XY (-4250) 927,
     Y (-927), XY (-4369) (-313), Y 313, XY (-4250) 927, XY (-5716) 1247, XY (-5225) 2698,
     XY (-4348) 3958, XY (-3176) 4949, XY (-1787) 5602, XY (-276) 5874, XY 1247 5716, XY 927 4250,
     X (-927), XY (-313) 4369, X 313, XY 927 4250, XY 1247 5716, XY 2552 5297, XY 3712 4560,
     XY 4669 3574, XY 5371 2394, XY 5750 1076, XY 4276 800, XY 4374 227, XY 4365 (-357), XY 4250 (-927),
     Y 927, X 3950, Y (-2450), XY 3864 (-3036), XY 3532 (-3532), XY 3036 (-3864), XY 2450 (-3950),
     X (-2450), XY (-3036) (-3864), XY (-3532) (-3532), XY (-3864) (-3036), XY (-3950) (-2450), Y 2450,
     XY (-3864) 3036, XY (-3532) 3532, XY (-3036) 3864, XY (-2450) 3950, X 2450, XY 3036 3864,
     XY 3532 3532, XY 3864 3036, XY 3950 2450, Y 927, X 4250, XY 4276 800, XY 8551 1601]"

definition part3_layer_00 :: "pline list" where
  "part3_layer_00 = [
     Z (-2198), Z (-5198), XY 5750 1076, XY 5869 (-360), XY 5604 (-1780), XY 5001 (-3093),
     XY 4095 (-4219), XY 2943 (-5091), XY 1613 (-5655), XY 185 (-5877), XY (-1247) (-5716),
     XY (-927) (-4250), X 927, XY 313 (-4369), X (-313), XY (-927) (-4250), XY (-1247) (-5716),
     XY (-2698) (-5225), XY (-3958) (-4348), XY (-4949) (-3176), XY (-5602) (-1787), XY (-5874) (-276),
     XY (-5716) 1247, XY (-4250) 927, Y (-927), XY (-4369) (-313), Y 313, XY (-4250) 927,
     XY (-5716) 1247, XY (-5225) 2698, XY (-4348) 3958, XY (-3176) 4949, XY (-1787) 5602,
     XY (-276) 5874, XY 1247 5716, XY 927 4250, X (-927), XY (-313) 4369, X 313, XY 927 4250,
     XY 1247 5716, XY 2552 5297, XY 3712 4560, XY 4669 3574, XY 5371 2394, XY 5750 1076, XY 4276 800,
     XY 4374 227, XY 4365 (-357), XY 4250 (-927), Y 927, X 3950, Y (-2450), XY 3864 (-3036),
     XY 3532 (-3532), XY 3036 (-3864), XY 2450 (-3950), X (-2450), XY (-3036) (-3864),
     XY (-3532) (-3532), XY (-3864) (-3036), XY (-3950) (-2450), Y 2450, XY (-3864) 3036,
     XY (-3532) 3532, XY (-3036) 3864, XY (-2450) 3950, X 2450, XY 3036 3864, XY 3532 3532,
     XY 3864 3036, XY 3950 2450, Y 927, X 4250, XY 4276 800, XY 8551 1601, Z (-2198), Z 10000]"

definition part3_layer_01 :: "pline list" where
  "part3_layer_01 = [
     Z (-2396), Z (-5396), XY 5750 1076, XY 5869 (-360), XY 5604 (-1780), XY 5001 (-3093),
     XY 4095 (-4219), XY 2943 (-5091), XY 1613 (-5655), XY 185 (-5877), XY (-1247) (-5716),
     XY (-927) (-4250), X 927, XY 313 (-4369), X (-313), XY (-927) (-4250), XY (-1247) (-5716),
     XY (-2698) (-5225), XY (-3958) (-4348), XY (-4949) (-3176), XY (-5602) (-1787), XY (-5874) (-276),
     XY (-5716) 1247, XY (-4250) 927, Y (-927), XY (-4369) (-313), Y 313, XY (-4250) 927,
     XY (-5716) 1247, XY (-5225) 2698, XY (-4348) 3958, XY (-3176) 4949, XY (-1787) 5602,
     XY (-276) 5874, XY 1247 5716, XY 927 4250, X (-927), XY (-313) 4369, X 313, XY 927 4250,
     XY 1247 5716, XY 2552 5297, XY 3712 4560, XY 4669 3574, XY 5371 2394, XY 5750 1076, XY 4276 800,
     XY 4374 227, XY 4365 (-357), XY 4250 (-927), Y 927, X 3950, Y (-2450), XY 3864 (-3036),
     XY 3532 (-3532), XY 3036 (-3864), XY 2450 (-3950), X (-2450), XY (-3036) (-3864),
     XY (-3532) (-3532), XY (-3864) (-3036), XY (-3950) (-2450), Y 2450, XY (-3864) 3036,
     XY (-3532) 3532, XY (-3036) 3864, XY (-2450) 3950, X 2450, XY 3036 3864, XY 3532 3532,
     XY 3864 3036, XY 3950 2450, Y 927, X 4250, XY 4276 800, XY 8551 1601, Z (-2396), Z 10000]"

definition part3_layer_02 :: "pline list" where
  "part3_layer_02 = [
     Z (-2594), Z (-5594), XY 5750 1076, XY 5869 (-360), XY 5604 (-1780), XY 5001 (-3093),
     XY 4095 (-4219), XY 2943 (-5091), XY 1613 (-5655), XY 185 (-5877), XY (-1247) (-5716),
     XY (-927) (-4250), X 927, XY 313 (-4369), X (-313), XY (-927) (-4250), XY (-1247) (-5716),
     XY (-2698) (-5225), XY (-3958) (-4348), XY (-4949) (-3176), XY (-5602) (-1787), XY (-5874) (-276),
     XY (-5716) 1247, XY (-4250) 927, Y (-927), XY (-4369) (-313), Y 313, XY (-4250) 927,
     XY (-5716) 1247, XY (-5225) 2698, XY (-4348) 3958, XY (-3176) 4949, XY (-1787) 5602,
     XY (-276) 5874, XY 1247 5716, XY 927 4250, X (-927), XY (-313) 4369, X 313, XY 927 4250,
     XY 1247 5716, XY 2552 5297, XY 3712 4560, XY 4669 3574, XY 5371 2394, XY 5750 1076, XY 4276 800,
     XY 4374 227, XY 4365 (-357), XY 4250 (-927), Y 927, X 3950, Y (-2450), XY 3864 (-3036),
     XY 3532 (-3532), XY 3036 (-3864), XY 2450 (-3950), X (-2450), XY (-3036) (-3864),
     XY (-3532) (-3532), XY (-3864) (-3036), XY (-3950) (-2450), Y 2450, XY (-3864) 3036,
     XY (-3532) 3532, XY (-3036) 3864, XY (-2450) 3950, X 2450, XY 3036 3864, XY 3532 3532,
     XY 3864 3036, XY 3950 2450, Y 927, X 4250, XY 4276 800, XY 8551 1601, Z (-2594), Z 10000]"

definition part3_layer_03 :: "pline list" where
  "part3_layer_03 = [
     Z (-2792), Z (-5792), XY 5750 1076, XY 5869 (-360), XY 5604 (-1780), XY 5001 (-3093),
     XY 4095 (-4219), XY 2943 (-5091), XY 1613 (-5655), XY 185 (-5877), XY (-1247) (-5716),
     XY (-927) (-4250), X 927, XY 313 (-4369), X (-313), XY (-927) (-4250), XY (-1247) (-5716),
     XY (-2698) (-5225), XY (-3958) (-4348), XY (-4949) (-3176), XY (-5602) (-1787), XY (-5874) (-276),
     XY (-5716) 1247, XY (-4250) 927, Y (-927), XY (-4369) (-313), Y 313, XY (-4250) 927,
     XY (-5716) 1247, XY (-5225) 2698, XY (-4348) 3958, XY (-3176) 4949, XY (-1787) 5602,
     XY (-276) 5874, XY 1247 5716, XY 927 4250, X (-927), XY (-313) 4369, X 313, XY 927 4250,
     XY 1247 5716, XY 2552 5297, XY 3712 4560, XY 4669 3574, XY 5371 2394, XY 5750 1076, XY 4276 800,
     XY 4374 227, XY 4365 (-357), XY 4250 (-927), Y 927, X 3950, Y (-2450), XY 3864 (-3036),
     XY 3532 (-3532), XY 3036 (-3864), XY 2450 (-3950), X (-2450), XY (-3036) (-3864),
     XY (-3532) (-3532), XY (-3864) (-3036), XY (-3950) (-2450), Y 2450, XY (-3864) 3036,
     XY (-3532) 3532, XY (-3036) 3864, XY (-2450) 3950, X 2450, XY 3036 3864, XY 3532 3532,
     XY 3864 3036, XY 3950 2450, Y 927, X 4250, XY 4276 800, XY 8551 1601, Z (-2792), Z 10000]"

definition part3_layer_04 :: "pline list" where
  "part3_layer_04 = [
     Z (-2990), Z (-5990), XY 5750 1076, XY 5869 (-360), XY 5604 (-1780), XY 5001 (-3093),
     XY 4095 (-4219), XY 2943 (-5091), XY 1613 (-5655), XY 185 (-5877), XY (-1247) (-5716),
     XY (-927) (-4250), X 927, XY 313 (-4369), X (-313), XY (-927) (-4250), XY (-1247) (-5716),
     XY (-2698) (-5225), XY (-3958) (-4348), XY (-4949) (-3176), XY (-5602) (-1787), XY (-5874) (-276),
     XY (-5716) 1247, XY (-4250) 927, Y (-927), XY (-4369) (-313), Y 313, XY (-4250) 927,
     XY (-5716) 1247, XY (-5225) 2698, XY (-4348) 3958, XY (-3176) 4949, XY (-1787) 5602,
     XY (-276) 5874, XY 1247 5716, XY 927 4250, X (-927), XY (-313) 4369, X 313, XY 927 4250,
     XY 1247 5716, XY 2552 5297, XY 3712 4560, XY 4669 3574, XY 5371 2394, XY 5750 1076, XY 4276 800,
     XY 4374 227, XY 4365 (-357), XY 4250 (-927), Y 927, X 3950, Y (-2450), XY 3864 (-3036),
     XY 3532 (-3532), XY 3036 (-3864), XY 2450 (-3950), X (-2450), XY (-3036) (-3864),
     XY (-3532) (-3532), XY (-3864) (-3036), XY (-3950) (-2450), Y 2450, XY (-3864) 3036,
     XY (-3532) 3532, XY (-3036) 3864, XY (-2450) 3950, X 2450, XY 3036 3864, XY 3532 3532,
     XY 3864 3036, XY 3950 2450, Y 927, X 4250, XY 4276 800, XY 8551 1601, Z (-2990), Z 10000]"

definition part3_layer_05 :: "pline list" where
  "part3_layer_05 = [
     Z (-3188), Z (-6188), XY 5750 1076, XY 5869 (-360), XY 5604 (-1780), XY 5001 (-3093),
     XY 4095 (-4219), XY 2943 (-5091), XY 1613 (-5655), XY 185 (-5877), XY (-1247) (-5716),
     XY (-927) (-4250), X 927, XY 313 (-4369), X (-313), XY (-927) (-4250), XY (-1247) (-5716),
     XY (-2698) (-5225), XY (-3958) (-4348), XY (-4949) (-3176), XY (-5602) (-1787), XY (-5874) (-276),
     XY (-5716) 1247, XY (-4250) 927, Y (-927), XY (-4369) (-313), Y 313, XY (-4250) 927,
     XY (-5716) 1247, XY (-5225) 2698, XY (-4348) 3958, XY (-3176) 4949, XY (-1787) 5602,
     XY (-276) 5874, XY 1247 5716, XY 927 4250, X (-927), XY (-313) 4369, X 313, XY 927 4250,
     XY 1247 5716, XY 2552 5297, XY 3712 4560, XY 4669 3574, XY 5371 2394, XY 5750 1076, XY 4276 800,
     XY 4374 227, XY 4365 (-357), XY 4250 (-927), Y 927, X 3950, Y (-2450), XY 3864 (-3036),
     XY 3532 (-3532), XY 3036 (-3864), XY 2450 (-3950), X (-2450), XY (-3036) (-3864),
     XY (-3532) (-3532), XY (-3864) (-3036), XY (-3950) (-2450), Y 2450, XY (-3864) 3036,
     XY (-3532) 3532, XY (-3036) 3864, XY (-2450) 3950, X 2450, XY 3036 3864, XY 3532 3532,
     XY 3864 3036, XY 3950 2450, Y 927, X 4250, XY 4276 800, XY 8551 1601, Z (-3188), Z 10000]"

definition part3_layer_06 :: "pline list" where
  "part3_layer_06 = [
     Z (-3386), Z (-6386), XY 5750 1076, XY 5869 (-360), XY 5604 (-1780), XY 5001 (-3093),
     XY 4095 (-4219), XY 2943 (-5091), XY 1613 (-5655), XY 185 (-5877), XY (-1247) (-5716),
     XY (-927) (-4250), X 927, XY 313 (-4369), X (-313), XY (-927) (-4250), XY (-1247) (-5716),
     XY (-2698) (-5225), XY (-3958) (-4348), XY (-4949) (-3176), XY (-5602) (-1787), XY (-5874) (-276),
     XY (-5716) 1247, XY (-4250) 927, Y (-927), XY (-4369) (-313), Y 313, XY (-4250) 927,
     XY (-5716) 1247, XY (-5225) 2698, XY (-4348) 3958, XY (-3176) 4949, XY (-1787) 5602,
     XY (-276) 5874, XY 1247 5716, XY 927 4250, X (-927), XY (-313) 4369, X 313, XY 927 4250,
     XY 1247 5716, XY 2552 5297, XY 3712 4560, XY 4669 3574, XY 5371 2394, XY 5750 1076, XY 4276 800,
     XY 4374 227, XY 4365 (-357), XY 4250 (-927), Y 927, X 3950, Y (-2450), XY 3864 (-3036),
     XY 3532 (-3532), XY 3036 (-3864), XY 2450 (-3950), X (-2450), XY (-3036) (-3864),
     XY (-3532) (-3532), XY (-3864) (-3036), XY (-3950) (-2450), Y 2450, XY (-3864) 3036,
     XY (-3532) 3532, XY (-3036) 3864, XY (-2450) 3950, X 2450, XY 3036 3864, XY 3532 3532,
     XY 3864 3036, XY 3950 2450, Y 927, X 4250, XY 4276 800, XY 8551 1601, Z (-3386), Z 10000]"

definition part3_layer_07 :: "pline list" where
  "part3_layer_07 = [
     Z (-3584), Z (-6584), XY 5750 1076, XY 5869 (-360), XY 5604 (-1780), XY 5001 (-3093),
     XY 4095 (-4219), XY 2943 (-5091), XY 1613 (-5655), XY 185 (-5877), XY (-1247) (-5716),
     XY (-927) (-4250), X 927, XY 313 (-4369), X (-313), XY (-927) (-4250), XY (-1247) (-5716),
     XY (-2698) (-5225), XY (-3958) (-4348), XY (-4949) (-3176), XY (-5602) (-1787), XY (-5874) (-276),
     XY (-5716) 1247, XY (-4250) 927, Y (-927), XY (-4369) (-313), Y 313, XY (-4250) 927,
     XY (-5716) 1247, XY (-5225) 2698, XY (-4348) 3958, XY (-3176) 4949, XY (-1787) 5602,
     XY (-276) 5874, XY 1247 5716, XY 927 4250, X (-927), XY (-313) 4369, X 313, XY 927 4250,
     XY 1247 5716, XY 2552 5297, XY 3712 4560, XY 4669 3574, XY 5371 2394, XY 5750 1076, XY 4276 800,
     XY 4374 227, XY 4365 (-357), XY 4250 (-927), Y 927, X 3950, Y (-2450), XY 3864 (-3036),
     XY 3532 (-3532), XY 3036 (-3864), XY 2450 (-3950), X (-2450), XY (-3036) (-3864),
     XY (-3532) (-3532), XY (-3864) (-3036), XY (-3950) (-2450), Y 2450, XY (-3864) 3036,
     XY (-3532) 3532, XY (-3036) 3864, XY (-2450) 3950, X 2450, XY 3036 3864, XY 3532 3532,
     XY 3864 3036, XY 3950 2450, Y 927, X 4250, XY 4276 800, XY 8551 1601, Z (-3584), Z 10000]"

definition part3_layer_08 :: "pline list" where
  "part3_layer_08 = [
     Z (-3782), Z (-6782), XY 5750 1076, XY 5869 (-360), XY 5604 (-1780), XY 5001 (-3093),
     XY 4095 (-4219), XY 2943 (-5091), XY 1613 (-5655), XY 185 (-5877), XY (-1247) (-5716),
     XY (-927) (-4250), X 927, XY 313 (-4369), X (-313), XY (-927) (-4250), XY (-1247) (-5716),
     XY (-2698) (-5225), XY (-3958) (-4348), XY (-4949) (-3176), XY (-5602) (-1787), XY (-5874) (-276),
     XY (-5716) 1247, XY (-4250) 927, Y (-927), XY (-4369) (-313), Y 313, XY (-4250) 927,
     XY (-5716) 1247, XY (-5225) 2698, XY (-4348) 3958, XY (-3176) 4949, XY (-1787) 5602,
     XY (-276) 5874, XY 1247 5716, XY 927 4250, X (-927), XY (-313) 4369, X 313, XY 927 4250,
     XY 1247 5716, XY 2552 5297, XY 3712 4560, XY 4669 3574, XY 5371 2394, XY 5750 1076, XY 4276 800,
     XY 4374 227, XY 4365 (-357), XY 4250 (-927), Y 927, X 3950, Y (-2450), XY 3864 (-3036),
     XY 3532 (-3532), XY 3036 (-3864), XY 2450 (-3950), X (-2450), XY (-3036) (-3864),
     XY (-3532) (-3532), XY (-3864) (-3036), XY (-3950) (-2450), Y 2450, XY (-3864) 3036,
     XY (-3532) 3532, XY (-3036) 3864, XY (-2450) 3950, X 2450, XY 3036 3864, XY 3532 3532,
     XY 3864 3036, XY 3950 2450, Y 927, X 4250, XY 4276 800, XY 8551 1601, Z (-3782), Z 10000]"

definition part3_layer_09 :: "pline list" where
  "part3_layer_09 = [
     Z (-3980), Z (-6980), XY 5750 1076, XY 5869 (-360), XY 5604 (-1780), XY 5001 (-3093),
     XY 4095 (-4219), XY 2943 (-5091), XY 1613 (-5655), XY 185 (-5877), XY (-1247) (-5716),
     XY (-927) (-4250), X 927, XY 313 (-4369), X (-313), XY (-927) (-4250), XY (-1247) (-5716),
     XY (-2698) (-5225), XY (-3958) (-4348), XY (-4949) (-3176), XY (-5602) (-1787), XY (-5874) (-276),
     XY (-5716) 1247, XY (-4250) 927, Y (-927), XY (-4369) (-313), Y 313, XY (-4250) 927,
     XY (-5716) 1247, XY (-5225) 2698, XY (-4348) 3958, XY (-3176) 4949, XY (-1787) 5602,
     XY (-276) 5874, XY 1247 5716, XY 927 4250, X (-927), XY (-313) 4369, X 313, XY 927 4250,
     XY 1247 5716, XY 2552 5297, XY 3712 4560, XY 4669 3574, XY 5371 2394, XY 5750 1076, XY 4276 800,
     XY 4374 227, XY 4365 (-357), XY 4250 (-927), Y 927, X 3950, Y (-2450), XY 3864 (-3036),
     XY 3532 (-3532), XY 3036 (-3864), XY 2450 (-3950), X (-2450), XY (-3036) (-3864),
     XY (-3532) (-3532), XY (-3864) (-3036), XY (-3950) (-2450), Y 2450, XY (-3864) 3036,
     XY (-3532) 3532, XY (-3036) 3864, XY (-2450) 3950, X 2450, XY 3036 3864, XY 3532 3532,
     XY 3864 3036, XY 3950 2450, Y 927, X 4250, XY 4276 800, XY 8551 1601, Z (-3980), Z 10000]"

definition part3_layer_10 :: "pline list" where
  "part3_layer_10 = [
     Z (-4178), Z (-7178), XY 5750 1076, XY 5869 (-360), XY 5604 (-1780), XY 5001 (-3093),
     XY 4095 (-4219), XY 2943 (-5091), XY 1613 (-5655), XY 185 (-5877), XY (-1247) (-5716),
     XY (-927) (-4250), X 927, XY 313 (-4369), X (-313), XY (-927) (-4250), XY (-1247) (-5716),
     XY (-2698) (-5225), XY (-3958) (-4348), XY (-4949) (-3176), XY (-5602) (-1787), XY (-5874) (-276),
     XY (-5716) 1247, XY (-4250) 927, Y (-927), XY (-4369) (-313), Y 313, XY (-4250) 927,
     XY (-5716) 1247, XY (-5225) 2698, XY (-4348) 3958, XY (-3176) 4949, XY (-1787) 5602,
     XY (-276) 5874, XY 1247 5716, XY 927 4250, X (-927), XY (-313) 4369, X 313, XY 927 4250,
     XY 1247 5716, XY 2552 5297, XY 3712 4560, XY 4669 3574, XY 5371 2394, XY 5750 1076, XY 4276 800,
     XY 4374 227, XY 4365 (-357), XY 4250 (-927), Y 927, X 3950, Y (-2450), XY 3864 (-3036),
     XY 3532 (-3532), XY 3036 (-3864), XY 2450 (-3950), X (-2450), XY (-3036) (-3864),
     XY (-3532) (-3532), XY (-3864) (-3036), XY (-3950) (-2450), Y 2450, XY (-3864) 3036,
     XY (-3532) 3532, XY (-3036) 3864, XY (-2450) 3950, X 2450, XY 3036 3864, XY 3532 3532,
     XY 3864 3036, XY 3950 2450, Y 927, X 4250, XY 4276 800, XY 8551 1601, Z (-4178), Z 10000]"

definition part3_layer_11 :: "pline list" where
  "part3_layer_11 = [
     Z (-4376), Z (-7376), XY 5750 1076, XY 5869 (-360), XY 5604 (-1780), XY 5001 (-3093),
     XY 4095 (-4219), XY 2943 (-5091), XY 1613 (-5655), XY 185 (-5877), XY (-1247) (-5716),
     XY (-927) (-4250), X 927, XY 313 (-4369), X (-313), XY (-927) (-4250), XY (-1247) (-5716),
     XY (-2698) (-5225), XY (-3958) (-4348), XY (-4949) (-3176), XY (-5602) (-1787), XY (-5874) (-276),
     XY (-5716) 1247, XY (-4250) 927, Y (-927), XY (-4369) (-313), Y 313, XY (-4250) 927,
     XY (-5716) 1247, XY (-5225) 2698, XY (-4348) 3958, XY (-3176) 4949, XY (-1787) 5602,
     XY (-276) 5874, XY 1247 5716, XY 927 4250, X (-927), XY (-313) 4369, X 313, XY 927 4250,
     XY 1247 5716, XY 2552 5297, XY 3712 4560, XY 4669 3574, XY 5371 2394, XY 5750 1076, XY 4276 800,
     XY 4374 227, XY 4365 (-357), XY 4250 (-927), Y 927, X 3950, Y (-2450), XY 3864 (-3036),
     XY 3532 (-3532), XY 3036 (-3864), XY 2450 (-3950), X (-2450), XY (-3036) (-3864),
     XY (-3532) (-3532), XY (-3864) (-3036), XY (-3950) (-2450), Y 2450, XY (-3864) 3036,
     XY (-3532) 3532, XY (-3036) 3864, XY (-2450) 3950, X 2450, XY 3036 3864, XY 3532 3532,
     XY 3864 3036, XY 3950 2450, Y 927, X 4250, XY 4276 800, XY 8551 1601, Z (-4376), Z 10000]"

definition part3_layer_12 :: "pline list" where
  "part3_layer_12 = [
     Z (-4574), Z (-7574), XY 5750 1076, XY 5869 (-360), XY 5604 (-1780), XY 5001 (-3093),
     XY 4095 (-4219), XY 2943 (-5091), XY 1613 (-5655), XY 185 (-5877), XY (-1247) (-5716),
     XY (-927) (-4250), X 927, XY 313 (-4369), X (-313), XY (-927) (-4250), XY (-1247) (-5716),
     XY (-2698) (-5225), XY (-3958) (-4348), XY (-4949) (-3176), XY (-5602) (-1787), XY (-5874) (-276),
     XY (-5716) 1247, XY (-4250) 927, Y (-927), XY (-4369) (-313), Y 313, XY (-4250) 927,
     XY (-5716) 1247, XY (-5225) 2698, XY (-4348) 3958, XY (-3176) 4949, XY (-1787) 5602,
     XY (-276) 5874, XY 1247 5716, XY 927 4250, X (-927), XY (-313) 4369, X 313, XY 927 4250,
     XY 1247 5716, XY 2552 5297, XY 3712 4560, XY 4669 3574, XY 5371 2394, XY 5750 1076, XY 4276 800,
     XY 4374 227, XY 4365 (-357), XY 4250 (-927), Y 927, X 3950, Y (-2450), XY 3864 (-3036),
     XY 3532 (-3532), XY 3036 (-3864), XY 2450 (-3950), X (-2450), XY (-3036) (-3864),
     XY (-3532) (-3532), XY (-3864) (-3036), XY (-3950) (-2450), Y 2450, XY (-3864) 3036,
     XY (-3532) 3532, XY (-3036) 3864, XY (-2450) 3950, X 2450, XY 3036 3864, XY 3532 3532,
     XY 3864 3036, XY 3950 2450, Y 927, X 4250, XY 4276 800, XY 8551 1601, Z (-4574), Z 10000]"

definition part3_layer_13 :: "pline list" where
  "part3_layer_13 = [
     Z (-4772), Z (-7772), XY 5750 1076, XY 5869 (-360), XY 5604 (-1780), XY 5001 (-3093),
     XY 4095 (-4219), XY 2943 (-5091), XY 1613 (-5655), XY 185 (-5877), XY (-1247) (-5716),
     XY (-927) (-4250), X 927, XY 313 (-4369), X (-313), XY (-927) (-4250), XY (-1247) (-5716),
     XY (-2698) (-5225), XY (-3958) (-4348), XY (-4949) (-3176), XY (-5602) (-1787), XY (-5874) (-276),
     XY (-5716) 1247, XY (-4250) 927, Y (-927), XY (-4369) (-313), Y 313, XY (-4250) 927,
     XY (-5716) 1247, XY (-5225) 2698, XY (-4348) 3958, XY (-3176) 4949, XY (-1787) 5602,
     XY (-276) 5874, XY 1247 5716, XY 927 4250, X (-927), XY (-313) 4369, X 313, XY 927 4250,
     XY 1247 5716, XY 2552 5297, XY 3712 4560, XY 4669 3574, XY 5371 2394, XY 5750 1076, XY 4276 800,
     XY 4374 227, XY 4365 (-357), XY 4250 (-927), Y 927, X 3950, Y (-2450), XY 3864 (-3036),
     XY 3532 (-3532), XY 3036 (-3864), XY 2450 (-3950), X (-2450), XY (-3036) (-3864),
     XY (-3532) (-3532), XY (-3864) (-3036), XY (-3950) (-2450), Y 2450, XY (-3864) 3036,
     XY (-3532) 3532, XY (-3036) 3864, XY (-2450) 3950, X 2450, XY 3036 3864, XY 3532 3532,
     XY 3864 3036, XY 3950 2450, Y 927, X 4250, XY 4276 800, XY 8551 1601, Z (-4772), Z 10000]"

definition part3_layer_14 :: "pline list" where
  "part3_layer_14 = [
     Z (-4970), Z (-7970), XY 5750 1076, XY 5869 (-360), XY 5604 (-1780), XY 5001 (-3093),
     XY 4095 (-4219), XY 2943 (-5091), XY 1613 (-5655), XY 185 (-5877), XY (-1247) (-5716),
     XY (-927) (-4250), X 927, XY 313 (-4369), X (-313), XY (-927) (-4250), XY (-1247) (-5716),
     XY (-2698) (-5225), XY (-3958) (-4348), XY (-4949) (-3176), XY (-5602) (-1787), XY (-5874) (-276),
     XY (-5716) 1247, XY (-4250) 927, Y (-927), XY (-4369) (-313), Y 313, XY (-4250) 927,
     XY (-5716) 1247, XY (-5225) 2698, XY (-4348) 3958, XY (-3176) 4949, XY (-1787) 5602,
     XY (-276) 5874, XY 1247 5716, XY 927 4250, X (-927), XY (-313) 4369, X 313, XY 927 4250,
     XY 1247 5716, XY 2552 5297, XY 3712 4560, XY 4669 3574, XY 5371 2394, XY 5750 1076, XY 4276 800,
     XY 4374 227, XY 4365 (-357), XY 4250 (-927), Y 927, X 3950, Y (-2450), XY 3864 (-3036),
     XY 3532 (-3532), XY 3036 (-3864), XY 2450 (-3950), X (-2450), XY (-3036) (-3864),
     XY (-3532) (-3532), XY (-3864) (-3036), XY (-3950) (-2450), Y 2450, XY (-3864) 3036,
     XY (-3532) 3532, XY (-3036) 3864, XY (-2450) 3950, X 2450, XY 3036 3864, XY 3532 3532,
     XY 3864 3036, XY 3950 2450, Y 927, X 4250, XY 4276 800, XY 8551 1601, Z (-4970), Z 10000]"

definition part3_layer_15 :: "pline list" where
  "part3_layer_15 = [
     Z (-5168), Z (-8168), XY 5750 1076, XY 5869 (-360), XY 5604 (-1780), XY 5001 (-3093),
     XY 4095 (-4219), XY 2943 (-5091), XY 1613 (-5655), XY 185 (-5877), XY (-1247) (-5716),
     XY (-927) (-4250), X 927, XY 313 (-4369), X (-313), XY (-927) (-4250), XY (-1247) (-5716),
     XY (-2698) (-5225), XY (-3958) (-4348), XY (-4949) (-3176), XY (-5602) (-1787), XY (-5874) (-276),
     XY (-5716) 1247, XY (-4250) 927, Y (-927), XY (-4369) (-313), Y 313, XY (-4250) 927,
     XY (-5716) 1247, XY (-5225) 2698, XY (-4348) 3958, XY (-3176) 4949, XY (-1787) 5602,
     XY (-276) 5874, XY 1247 5716, XY 927 4250, X (-927), XY (-313) 4369, X 313, XY 927 4250,
     XY 1247 5716, XY 2552 5297, XY 3712 4560, XY 4669 3574, XY 5371 2394, XY 5750 1076, XY 4276 800,
     XY 4374 227, XY 4365 (-357), XY 4250 (-927), Y 927, X 3950, Y (-2450), XY 3864 (-3036),
     XY 3532 (-3532), XY 3036 (-3864), XY 2450 (-3950), X (-2450), XY (-3036) (-3864),
     XY (-3532) (-3532), XY (-3864) (-3036), XY (-3950) (-2450), Y 2450, XY (-3864) 3036,
     XY (-3532) 3532, XY (-3036) 3864, XY (-2450) 3950, X 2450, XY 3036 3864, XY 3532 3532,
     XY 3864 3036, XY 3950 2450, Y 927, X 4250, XY 4276 800, XY 8551 1601, Z (-5168), Z 10000]"

definition part3_layer_16 :: "pline list" where
  "part3_layer_16 = [
     Z (-5366), Z (-8366), XY 5750 1076, XY 5869 (-360), XY 5604 (-1780), XY 5001 (-3093),
     XY 4095 (-4219), XY 2943 (-5091), XY 1613 (-5655), XY 185 (-5877), XY (-1247) (-5716),
     XY (-927) (-4250), X 927, XY 313 (-4369), X (-313), XY (-927) (-4250), XY (-1247) (-5716),
     XY (-2698) (-5225), XY (-3958) (-4348), XY (-4949) (-3176), XY (-5602) (-1787), XY (-5874) (-276),
     XY (-5716) 1247, XY (-4250) 927, Y (-927), XY (-4369) (-313), Y 313, XY (-4250) 927,
     XY (-5716) 1247, XY (-5225) 2698, XY (-4348) 3958, XY (-3176) 4949, XY (-1787) 5602,
     XY (-276) 5874, XY 1247 5716, XY 927 4250, X (-927), XY (-313) 4369, X 313, XY 927 4250,
     XY 1247 5716, XY 2552 5297, XY 3712 4560, XY 4669 3574, XY 5371 2394, XY 5750 1076, XY 4276 800,
     XY 4374 227, XY 4365 (-357), XY 4250 (-927), Y 927, X 3950, Y (-2450), XY 3864 (-3036),
     XY 3532 (-3532), XY 3036 (-3864), XY 2450 (-3950), X (-2450), XY (-3036) (-3864),
     XY (-3532) (-3532), XY (-3864) (-3036), XY (-3950) (-2450), Y 2450, XY (-3864) 3036,
     XY (-3532) 3532, XY (-3036) 3864, XY (-2450) 3950, X 2450, XY 3036 3864, XY 3532 3532,
     XY 3864 3036, XY 3950 2450, Y 927, X 4250, XY 4276 800, XY 8551 1601, Z (-5366), Z 10000]"

definition part3_layer_17 :: "pline list" where
  "part3_layer_17 = [
     Z (-5564), Z (-8564), XY 5750 1076, XY 5869 (-360), XY 5604 (-1780), XY 5001 (-3093),
     XY 4095 (-4219), XY 2943 (-5091), XY 1613 (-5655), XY 185 (-5877), XY (-1247) (-5716),
     XY (-927) (-4250), X 927, XY 313 (-4369), X (-313), XY (-927) (-4250), XY (-1247) (-5716),
     XY (-2698) (-5225), XY (-3958) (-4348), XY (-4949) (-3176), XY (-5602) (-1787), XY (-5874) (-276),
     XY (-5716) 1247, XY (-4250) 927, Y (-927), XY (-4369) (-313), Y 313, XY (-4250) 927,
     XY (-5716) 1247, XY (-5225) 2698, XY (-4348) 3958, XY (-3176) 4949, XY (-1787) 5602,
     XY (-276) 5874, XY 1247 5716, XY 927 4250, X (-927), XY (-313) 4369, X 313, XY 927 4250,
     XY 1247 5716, XY 2552 5297, XY 3712 4560, XY 4669 3574, XY 5371 2394, XY 5750 1076, XY 4276 800,
     XY 4374 227, XY 4365 (-357), XY 4250 (-927), Y 927, X 3950, Y (-2450), XY 3864 (-3036),
     XY 3532 (-3532), XY 3036 (-3864), XY 2450 (-3950), X (-2450), XY (-3036) (-3864),
     XY (-3532) (-3532), XY (-3864) (-3036), XY (-3950) (-2450), Y 2450, XY (-3864) 3036,
     XY (-3532) 3532, XY (-3036) 3864, XY (-2450) 3950, X 2450, XY 3036 3864, XY 3532 3532,
     XY 3864 3036, XY 3950 2450, Y 927, X 4250, XY 4276 800, XY 8551 1601, Z (-5564), Z 10000]"

definition part3_layer_18 :: "pline list" where
  "part3_layer_18 = [
     Z (-5762), Z (-8762), XY 5750 1076, XY 5869 (-360), XY 5604 (-1780), XY 5001 (-3093),
     XY 4095 (-4219), XY 2943 (-5091), XY 1613 (-5655), XY 185 (-5877), XY (-1247) (-5716),
     XY (-927) (-4250), X 927, XY 313 (-4369), X (-313), XY (-927) (-4250), XY (-1247) (-5716),
     XY (-2698) (-5225), XY (-3958) (-4348), XY (-4949) (-3176), XY (-5602) (-1787), XY (-5874) (-276),
     XY (-5716) 1247, XY (-4250) 927, Y (-927), XY (-4369) (-313), Y 313, XY (-4250) 927,
     XY (-5716) 1247, XY (-5225) 2698, XY (-4348) 3958, XY (-3176) 4949, XY (-1787) 5602,
     XY (-276) 5874, XY 1247 5716, XY 927 4250, X (-927), XY (-313) 4369, X 313, XY 927 4250,
     XY 1247 5716, XY 2552 5297, XY 3712 4560, XY 4669 3574, XY 5371 2394, XY 5750 1076, XY 4276 800,
     XY 4374 227, XY 4365 (-357), XY 4250 (-927), Y 927, X 3950, Y (-2450), XY 3864 (-3036),
     XY 3532 (-3532), XY 3036 (-3864), XY 2450 (-3950), X (-2450), XY (-3036) (-3864),
     XY (-3532) (-3532), XY (-3864) (-3036), XY (-3950) (-2450), Y 2450, XY (-3864) 3036,
     XY (-3532) 3532, XY (-3036) 3864, XY (-2450) 3950, X 2450, XY 3036 3864, XY 3532 3532,
     XY 3864 3036, XY 3950 2450, Y 927, X 4250, XY 4276 800, XY 8551 1601, Z (-5762), Z 10000]"

definition part3_layer_19 :: "pline list" where
  "part3_layer_19 = [
     Z (-5960), Z (-8960), XY 5750 1076, XY 5869 (-360), XY 5604 (-1780), XY 5001 (-3093),
     XY 4095 (-4219), XY 2943 (-5091), XY 1613 (-5655), XY 185 (-5877), XY (-1247) (-5716),
     XY (-927) (-4250), X 927, XY 313 (-4369), X (-313), XY (-927) (-4250), XY (-1247) (-5716),
     XY (-2698) (-5225), XY (-3958) (-4348), XY (-4949) (-3176), XY (-5602) (-1787), XY (-5874) (-276),
     XY (-5716) 1247, XY (-4250) 927, Y (-927), XY (-4369) (-313), Y 313, XY (-4250) 927,
     XY (-5716) 1247, XY (-5225) 2698, XY (-4348) 3958, XY (-3176) 4949, XY (-1787) 5602,
     XY (-276) 5874, XY 1247 5716, XY 927 4250, X (-927), XY (-313) 4369, X 313, XY 927 4250,
     XY 1247 5716, XY 2552 5297, XY 3712 4560, XY 4669 3574, XY 5371 2394, XY 5750 1076, XY 4276 800,
     XY 4374 227, XY 4365 (-357), XY 4250 (-927), Y 927, X 3950, Y (-2450), XY 3864 (-3036),
     XY 3532 (-3532), XY 3036 (-3864), XY 2450 (-3950), X (-2450), XY (-3036) (-3864),
     XY (-3532) (-3532), XY (-3864) (-3036), XY (-3950) (-2450), Y 2450, XY (-3864) 3036,
     XY (-3532) 3532, XY (-3036) 3864, XY (-2450) 3950, X 2450, XY 3036 3864, XY 3532 3532,
     XY 3864 3036, XY 3950 2450, Y 927, X 4250, XY 4276 800, XY 8551 1601, Z (-5960), Z 10000]"

definition part3_layer_20 :: "pline list" where
  "part3_layer_20 = [
     Z (-6158), Z (-9158), XY 5750 1076, XY 5869 (-360), XY 5604 (-1780), XY 5001 (-3093),
     XY 4095 (-4219), XY 2943 (-5091), XY 1613 (-5655), XY 185 (-5877), XY (-1247) (-5716),
     XY (-927) (-4250), X 927, XY 313 (-4369), X (-313), XY (-927) (-4250), XY (-1247) (-5716),
     XY (-2698) (-5225), XY (-3958) (-4348), XY (-4949) (-3176), XY (-5602) (-1787), XY (-5874) (-276),
     XY (-5716) 1247, XY (-4250) 927, Y (-927), XY (-4369) (-313), Y 313, XY (-4250) 927,
     XY (-5716) 1247, XY (-5225) 2698, XY (-4348) 3958, XY (-3176) 4949, XY (-1787) 5602,
     XY (-276) 5874, XY 1247 5716, XY 927 4250, X (-927), XY (-313) 4369, X 313, XY 927 4250,
     XY 1247 5716, XY 2552 5297, XY 3712 4560, XY 4669 3574, XY 5371 2394, XY 5750 1076, XY 4276 800,
     XY 4374 227, XY 4365 (-357), XY 4250 (-927), Y 927, X 3950, Y (-2450), XY 3864 (-3036),
     XY 3532 (-3532), XY 3036 (-3864), XY 2450 (-3950), X (-2450), XY (-3036) (-3864),
     XY (-3532) (-3532), XY (-3864) (-3036), XY (-3950) (-2450), Y 2450, XY (-3864) 3036,
     XY (-3532) 3532, XY (-3036) 3864, XY (-2450) 3950, X 2450, XY 3036 3864, XY 3532 3532,
     XY 3864 3036, XY 3950 2450, Y 927, X 4250, XY 4276 800, XY 8551 1601, Z (-6158), Z 10000]"

definition part3_layer_21 :: "pline list" where
  "part3_layer_21 = [
     Z (-6356), Z (-9356), XY 5750 1076, XY 5869 (-360), XY 5604 (-1780), XY 5001 (-3093),
     XY 4095 (-4219), XY 2943 (-5091), XY 1613 (-5655), XY 185 (-5877), XY (-1247) (-5716),
     XY (-927) (-4250), X 927, XY 313 (-4369), X (-313), XY (-927) (-4250), XY (-1247) (-5716),
     XY (-2698) (-5225), XY (-3958) (-4348), XY (-4949) (-3176), XY (-5602) (-1787), XY (-5874) (-276),
     XY (-5716) 1247, XY (-4250) 927, Y (-927), XY (-4369) (-313), Y 313, XY (-4250) 927,
     XY (-5716) 1247, XY (-5225) 2698, XY (-4348) 3958, XY (-3176) 4949, XY (-1787) 5602,
     XY (-276) 5874, XY 1247 5716, XY 927 4250, X (-927), XY (-313) 4369, X 313, XY 927 4250,
     XY 1247 5716, XY 2552 5297, XY 3712 4560, XY 4669 3574, XY 5371 2394, XY 5750 1076, XY 4276 800,
     XY 4374 227, XY 4365 (-357), XY 4250 (-927), Y 927, X 3950, Y (-2450), XY 3864 (-3036),
     XY 3532 (-3532), XY 3036 (-3864), XY 2450 (-3950), X (-2450), XY (-3036) (-3864),
     XY (-3532) (-3532), XY (-3864) (-3036), XY (-3950) (-2450), Y 2450, XY (-3864) 3036,
     XY (-3532) 3532, XY (-3036) 3864, XY (-2450) 3950, X 2450, XY 3036 3864, XY 3532 3532,
     XY 3864 3036, XY 3950 2450, Y 927, X 4250, XY 4276 800, XY 8551 1601, Z (-6356), Z 10000]"

definition part3_layer_22 :: "pline list" where
  "part3_layer_22 = [
     Z (-6554), Z (-9554), XY 5750 1076, XY 5869 (-360), XY 5604 (-1780), XY 5001 (-3093),
     XY 4095 (-4219), XY 2943 (-5091), XY 1613 (-5655), XY 185 (-5877), XY (-1247) (-5716),
     XY (-927) (-4250), X 927, XY 313 (-4369), X (-313), XY (-927) (-4250), XY (-1247) (-5716),
     XY (-2698) (-5225), XY (-3958) (-4348), XY (-4949) (-3176), XY (-5602) (-1787), XY (-5874) (-276),
     XY (-5716) 1247, XY (-4250) 927, Y (-927), XY (-4369) (-313), Y 313, XY (-4250) 927,
     XY (-5716) 1247, XY (-5225) 2698, XY (-4348) 3958, XY (-3176) 4949, XY (-1787) 5602,
     XY (-276) 5874, XY 1247 5716, XY 927 4250, X (-927), XY (-313) 4369, X 313, XY 927 4250,
     XY 1247 5716, XY 2552 5297, XY 3712 4560, XY 4669 3574, XY 5371 2394, XY 5750 1076, XY 4276 800,
     XY 4374 227, XY 4365 (-357), XY 4250 (-927), Y 927, X 3950, Y (-2450), XY 3864 (-3036),
     XY 3532 (-3532), XY 3036 (-3864), XY 2450 (-3950), X (-2450), XY (-3036) (-3864),
     XY (-3532) (-3532), XY (-3864) (-3036), XY (-3950) (-2450), Y 2450, XY (-3864) 3036,
     XY (-3532) 3532, XY (-3036) 3864, XY (-2450) 3950, X 2450, XY 3036 3864, XY 3532 3532,
     XY 3864 3036, XY 3950 2450, Y 927, X 4250, XY 4276 800, XY 8551 1601, Z (-6554), Z 10000]"

definition part3_layer_23 :: "pline list" where
  "part3_layer_23 = [
     Z (-6752), Z (-9752), XY 5750 1076, XY 5869 (-360), XY 5604 (-1780), XY 5001 (-3093),
     XY 4095 (-4219), XY 2943 (-5091), XY 1613 (-5655), XY 185 (-5877), XY (-1247) (-5716),
     XY (-927) (-4250), X 927, XY 313 (-4369), X (-313), XY (-927) (-4250), XY (-1247) (-5716),
     XY (-2698) (-5225), XY (-3958) (-4348), XY (-4949) (-3176), XY (-5602) (-1787), XY (-5874) (-276),
     XY (-5716) 1247, XY (-4250) 927, Y (-927), XY (-4369) (-313), Y 313, XY (-4250) 927,
     XY (-5716) 1247, XY (-5225) 2698, XY (-4348) 3958, XY (-3176) 4949, XY (-1787) 5602,
     XY (-276) 5874, XY 1247 5716, XY 927 4250, X (-927), XY (-313) 4369, X 313, XY 927 4250,
     XY 1247 5716, XY 2552 5297, XY 3712 4560, XY 4669 3574, XY 5371 2394, XY 5750 1076, XY 4276 800,
     XY 4374 227, XY 4365 (-357), XY 4250 (-927), Y 927, X 3950, Y (-2450), XY 3864 (-3036),
     XY 3532 (-3532), XY 3036 (-3864), XY 2450 (-3950), X (-2450), XY (-3036) (-3864),
     XY (-3532) (-3532), XY (-3864) (-3036), XY (-3950) (-2450), Y 2450, XY (-3864) 3036,
     XY (-3532) 3532, XY (-3036) 3864, XY (-2450) 3950, X 2450, XY 3036 3864, XY 3532 3532,
     XY 3864 3036, XY 3950 2450, Y 927, X 4250, XY 4276 800, XY 8551 1601, Z (-6752), Z 10000]"

definition part3_layer_24 :: "pline list" where
  "part3_layer_24 = [
     Z (-6950), Z (-9950), XY 5750 1076, XY 5869 (-360), XY 5604 (-1780), XY 5001 (-3093),
     XY 4095 (-4219), XY 2943 (-5091), XY 1613 (-5655), XY 185 (-5877), XY (-1247) (-5716),
     XY (-927) (-4250), X 927, XY 313 (-4369), X (-313), XY (-927) (-4250), XY (-1247) (-5716),
     XY (-2698) (-5225), XY (-3958) (-4348), XY (-4949) (-3176), XY (-5602) (-1787), XY (-5874) (-276),
     XY (-5716) 1247, XY (-4250) 927, Y (-927), XY (-4369) (-313), Y 313, XY (-4250) 927,
     XY (-5716) 1247, XY (-5225) 2698, XY (-4348) 3958, XY (-3176) 4949, XY (-1787) 5602,
     XY (-276) 5874, XY 1247 5716, XY 927 4250, X (-927), XY (-313) 4369, X 313, XY 927 4250,
     XY 1247 5716, XY 2552 5297, XY 3712 4560, XY 4669 3574, XY 5371 2394, XY 5750 1076, XY 4276 800,
     XY 4374 227, XY 4365 (-357), XY 4250 (-927), Y 927, X 3950, Y (-2450), XY 3864 (-3036),
     XY 3532 (-3532), XY 3036 (-3864), XY 2450 (-3950), X (-2450), XY (-3036) (-3864),
     XY (-3532) (-3532), XY (-3864) (-3036), XY (-3950) (-2450), Y 2450, XY (-3864) 3036,
     XY (-3532) 3532, XY (-3036) 3864, XY (-2450) 3950, X 2450, XY 3036 3864, XY 3532 3532,
     XY 3864 3036, XY 3950 2450, Y 927, X 4250, XY 4276 800, XY 8551 1601, Z (-6950), Z 10000]"

definition part3_layer_25 :: "pline list" where
  "part3_layer_25 = [
     Z (-7148), Z (-10148), XY 5750 1076, XY 5869 (-360), XY 5604 (-1780), XY 5001 (-3093),
     XY 4095 (-4219), XY 2943 (-5091), XY 1613 (-5655), XY 185 (-5877), XY (-1247) (-5716),
     XY (-927) (-4250), X 927, XY 313 (-4369), X (-313), XY (-927) (-4250), XY (-1247) (-5716),
     XY (-2698) (-5225), XY (-3958) (-4348), XY (-4949) (-3176), XY (-5602) (-1787), XY (-5874) (-276),
     XY (-5716) 1247, XY (-4250) 927, Y (-927), XY (-4369) (-313), Y 313, XY (-4250) 927,
     XY (-5716) 1247, XY (-5225) 2698, XY (-4348) 3958, XY (-3176) 4949, XY (-1787) 5602,
     XY (-276) 5874, XY 1247 5716, XY 927 4250, X (-927), XY (-313) 4369, X 313, XY 927 4250,
     XY 1247 5716, XY 2552 5297, XY 3712 4560, XY 4669 3574, XY 5371 2394, XY 5750 1076, XY 4276 800,
     XY 4374 227, XY 4365 (-357), XY 4250 (-927), Y 927, X 3950, Y (-2450), XY 3864 (-3036),
     XY 3532 (-3532), XY 3036 (-3864), XY 2450 (-3950), X (-2450), XY (-3036) (-3864),
     XY (-3532) (-3532), XY (-3864) (-3036), XY (-3950) (-2450), Y 2450, XY (-3864) 3036,
     XY (-3532) 3532, XY (-3036) 3864, XY (-2450) 3950, X 2450, XY 3036 3864, XY 3532 3532,
     XY 3864 3036, XY 3950 2450, Y 927, X 4250, XY 4276 800, XY 8551 1601, Z (-7148), Z 10000]"

definition part3_layer_26 :: "pline list" where
  "part3_layer_26 = [
     Z (-7346), Z (-10346), XY 5750 1076, XY 5869 (-360), XY 5604 (-1780), XY 5001 (-3093),
     XY 4095 (-4219), XY 2943 (-5091), XY 1613 (-5655), XY 185 (-5877), XY (-1247) (-5716),
     XY (-927) (-4250), X 927, XY 313 (-4369), X (-313), XY (-927) (-4250), XY (-1247) (-5716),
     XY (-2698) (-5225), XY (-3958) (-4348), XY (-4949) (-3176), XY (-5602) (-1787), XY (-5874) (-276),
     XY (-5716) 1247, XY (-4250) 927, Y (-927), XY (-4369) (-313), Y 313, XY (-4250) 927,
     XY (-5716) 1247, XY (-5225) 2698, XY (-4348) 3958, XY (-3176) 4949, XY (-1787) 5602,
     XY (-276) 5874, XY 1247 5716, XY 927 4250, X (-927), XY (-313) 4369, X 313, XY 927 4250,
     XY 1247 5716, XY 2552 5297, XY 3712 4560, XY 4669 3574, XY 5371 2394, XY 5750 1076, XY 4276 800,
     XY 4374 227, XY 4365 (-357), XY 4250 (-927), Y 927, X 3950, Y (-2450), XY 3864 (-3036),
     XY 3532 (-3532), XY 3036 (-3864), XY 2450 (-3950), X (-2450), XY (-3036) (-3864),
     XY (-3532) (-3532), XY (-3864) (-3036), XY (-3950) (-2450), Y 2450, XY (-3864) 3036,
     XY (-3532) 3532, XY (-3036) 3864, XY (-2450) 3950, X 2450, XY 3036 3864, XY 3532 3532,
     XY 3864 3036, XY 3950 2450, Y 927, X 4250, XY 4276 800, XY 8551 1601, Z (-7346), Z 10000]"

definition part3_layer_27 :: "pline list" where
  "part3_layer_27 = [
     Z (-7544), Z (-10544), XY 5750 1076, XY 5869 (-360), XY 5604 (-1780), XY 5001 (-3093),
     XY 4095 (-4219), XY 2943 (-5091), XY 1613 (-5655), XY 185 (-5877), XY (-1247) (-5716),
     XY (-927) (-4250), X 927, XY 313 (-4369), X (-313), XY (-927) (-4250), XY (-1247) (-5716),
     XY (-2698) (-5225), XY (-3958) (-4348), XY (-4949) (-3176), XY (-5602) (-1787), XY (-5874) (-276),
     XY (-5716) 1247, XY (-4250) 927, Y (-927), XY (-4369) (-313), Y 313, XY (-4250) 927,
     XY (-5716) 1247, XY (-5225) 2698, XY (-4348) 3958, XY (-3176) 4949, XY (-1787) 5602,
     XY (-276) 5874, XY 1247 5716, XY 927 4250, X (-927), XY (-313) 4369, X 313, XY 927 4250,
     XY 1247 5716, XY 2552 5297, XY 3712 4560, XY 4669 3574, XY 5371 2394, XY 5750 1076, XY 4276 800,
     XY 4374 227, XY 4365 (-357), XY 4250 (-927), Y 927, X 3950, Y (-2450), XY 3864 (-3036),
     XY 3532 (-3532), XY 3036 (-3864), XY 2450 (-3950), X (-2450), XY (-3036) (-3864),
     XY (-3532) (-3532), XY (-3864) (-3036), XY (-3950) (-2450), Y 2450, XY (-3864) 3036,
     XY (-3532) 3532, XY (-3036) 3864, XY (-2450) 3950, X 2450, XY 3036 3864, XY 3532 3532,
     XY 3864 3036, XY 3950 2450, Y 927, X 4250, XY 4276 800, XY 8551 1601, Z (-7544), Z 10000]"

definition part3_layer_28 :: "pline list" where
  "part3_layer_28 = [
     Z (-7742), Z (-10742), XY 5750 1076, XY 5869 (-360), XY 5604 (-1780), XY 5001 (-3093),
     XY 4095 (-4219), XY 2943 (-5091), XY 1613 (-5655), XY 185 (-5877), XY (-1247) (-5716),
     XY (-927) (-4250), X 927, XY 313 (-4369), X (-313), XY (-927) (-4250), XY (-1247) (-5716),
     XY (-2698) (-5225), XY (-3958) (-4348), XY (-4949) (-3176), XY (-5602) (-1787), XY (-5874) (-276),
     XY (-5716) 1247, XY (-4250) 927, Y (-927), XY (-4369) (-313), Y 313, XY (-4250) 927,
     XY (-5716) 1247, XY (-5225) 2698, XY (-4348) 3958, XY (-3176) 4949, XY (-1787) 5602,
     XY (-276) 5874, XY 1247 5716, XY 927 4250, X (-927), XY (-313) 4369, X 313, XY 927 4250,
     XY 1247 5716, XY 2552 5297, XY 3712 4560, XY 4669 3574, XY 5371 2394, XY 5750 1076, XY 4276 800,
     XY 4374 227, XY 4365 (-357), XY 4250 (-927), Y 927, X 3950, Y (-2450), XY 3864 (-3036),
     XY 3532 (-3532), XY 3036 (-3864), XY 2450 (-3950), X (-2450), XY (-3036) (-3864),
     XY (-3532) (-3532), XY (-3864) (-3036), XY (-3950) (-2450), Y 2450, XY (-3864) 3036,
     XY (-3532) 3532, XY (-3036) 3864, XY (-2450) 3950, X 2450, XY 3036 3864, XY 3532 3532,
     XY 3864 3036, XY 3950 2450, Y 927, X 4250, XY 4276 800, XY 8551 1601, Z (-7742), Z 10000]"

definition part3_layer_29 :: "pline list" where
  "part3_layer_29 = [
     Z (-7940), Z (-10940), XY 5750 1076, XY 5869 (-360), XY 5604 (-1780), XY 5001 (-3093),
     XY 4095 (-4219), XY 2943 (-5091), XY 1613 (-5655), XY 185 (-5877), XY (-1247) (-5716),
     XY (-927) (-4250), X 927, XY 313 (-4369), X (-313), XY (-927) (-4250), XY (-1247) (-5716),
     XY (-2698) (-5225), XY (-3958) (-4348), XY (-4949) (-3176), XY (-5602) (-1787), XY (-5874) (-276),
     XY (-5716) 1247, XY (-4250) 927, Y (-927), XY (-4369) (-313), Y 313, XY (-4250) 927,
     XY (-5716) 1247, XY (-5225) 2698, XY (-4348) 3958, XY (-3176) 4949, XY (-1787) 5602,
     XY (-276) 5874, XY 1247 5716, XY 927 4250, X (-927), XY (-313) 4369, X 313, XY 927 4250,
     XY 1247 5716, XY 2552 5297, XY 3712 4560, XY 4669 3574, XY 5371 2394, XY 5750 1076, XY 4276 800,
     XY 4374 227, XY 4365 (-357), XY 4250 (-927), Y 927, X 3950, Y (-2450), XY 3864 (-3036),
     XY 3532 (-3532), XY 3036 (-3864), XY 2450 (-3950), X (-2450), XY (-3036) (-3864),
     XY (-3532) (-3532), XY (-3864) (-3036), XY (-3950) (-2450), Y 2450, XY (-3864) 3036,
     XY (-3532) 3532, XY (-3036) 3864, XY (-2450) 3950, X 2450, XY 3036 3864, XY 3532 3532,
     XY 3864 3036, XY 3950 2450, Y 927, X 4250, XY 4276 800, XY 8551 1601, Z (-7940), Z 10000]"

definition part3_layer_30 :: "pline list" where
  "part3_layer_30 = [
     Z (-8138), Z (-11138), XY 5750 1076, XY 5869 (-360), XY 5604 (-1780), XY 5001 (-3093),
     XY 4095 (-4219), XY 2943 (-5091), XY 1613 (-5655), XY 185 (-5877), XY (-1247) (-5716),
     XY (-927) (-4250), X 927, XY 313 (-4369), X (-313), XY (-927) (-4250), XY (-1247) (-5716),
     XY (-2698) (-5225), XY (-3958) (-4348), XY (-4949) (-3176), XY (-5602) (-1787), XY (-5874) (-276),
     XY (-5716) 1247, XY (-4250) 927, Y (-927), XY (-4369) (-313), Y 313, XY (-4250) 927,
     XY (-5716) 1247, XY (-5225) 2698, XY (-4348) 3958, XY (-3176) 4949, XY (-1787) 5602,
     XY (-276) 5874, XY 1247 5716, XY 927 4250, X (-927), XY (-313) 4369, X 313, XY 927 4250,
     XY 1247 5716, XY 2552 5297, XY 3712 4560, XY 4669 3574, XY 5371 2394, XY 5750 1076, XY 4276 800,
     XY 4374 227, XY 4365 (-357), XY 4250 (-927), Y 927, X 3950, Y (-2450), XY 3864 (-3036),
     XY 3532 (-3532), XY 3036 (-3864), XY 2450 (-3950), X (-2450), XY (-3036) (-3864),
     XY (-3532) (-3532), XY (-3864) (-3036), XY (-3950) (-2450), Y 2450, XY (-3864) 3036,
     XY (-3532) 3532, XY (-3036) 3864, XY (-2450) 3950, X 2450, XY 3036 3864, XY 3532 3532,
     XY 3864 3036, XY 3950 2450, Y 927, X 4250, XY 4276 800, XY 8551 1601, Z (-8138), Z 10000]"

definition part3_layer_31 :: "pline list" where
  "part3_layer_31 = [
     Z (-8336), Z (-11336), XY 5750 1076, XY 5869 (-360), XY 5604 (-1780), XY 5001 (-3093),
     XY 4095 (-4219), XY 2943 (-5091), XY 1613 (-5655), XY 185 (-5877), XY (-1247) (-5716),
     XY (-927) (-4250), X 927, XY 313 (-4369), X (-313), XY (-927) (-4250), XY (-1247) (-5716),
     XY (-2698) (-5225), XY (-3958) (-4348), XY (-4949) (-3176), XY (-5602) (-1787), XY (-5874) (-276),
     XY (-5716) 1247, XY (-4250) 927, Y (-927), XY (-4369) (-313), Y 313, XY (-4250) 927,
     XY (-5716) 1247, XY (-5225) 2698, XY (-4348) 3958, XY (-3176) 4949, XY (-1787) 5602,
     XY (-276) 5874, XY 1247 5716, XY 927 4250, X (-927), XY (-313) 4369, X 313, XY 927 4250,
     XY 1247 5716, XY 2552 5297, XY 3712 4560, XY 4669 3574, XY 5371 2394, XY 5750 1076, XY 4276 800,
     XY 4374 227, XY 4365 (-357), XY 4250 (-927), Y 927, X 3950, Y (-2450), XY 3864 (-3036),
     XY 3532 (-3532), XY 3036 (-3864), XY 2450 (-3950), X (-2450), XY (-3036) (-3864),
     XY (-3532) (-3532), XY (-3864) (-3036), XY (-3950) (-2450), Y 2450, XY (-3864) 3036,
     XY (-3532) 3532, XY (-3036) 3864, XY (-2450) 3950, X 2450, XY 3036 3864, XY 3532 3532,
     XY 3864 3036, XY 3950 2450, Y 927, X 4250, XY 4276 800, XY 8551 1601, Z (-8336), Z 10000]"

definition part3_layer_32 :: "pline list" where
  "part3_layer_32 = [
     Z (-8534), Z (-11534), XY 5750 1076, XY 5869 (-360), XY 5604 (-1780), XY 5001 (-3093),
     XY 4095 (-4219), XY 2943 (-5091), XY 1613 (-5655), XY 185 (-5877), XY (-1247) (-5716),
     XY (-927) (-4250), X 927, XY 313 (-4369), X (-313), XY (-927) (-4250), XY (-1247) (-5716),
     XY (-2698) (-5225), XY (-3958) (-4348), XY (-4949) (-3176), XY (-5602) (-1787), XY (-5874) (-276),
     XY (-5716) 1247, XY (-4250) 927, Y (-927), XY (-4369) (-313), Y 313, XY (-4250) 927,
     XY (-5716) 1247, XY (-5225) 2698, XY (-4348) 3958, XY (-3176) 4949, XY (-1787) 5602,
     XY (-276) 5874, XY 1247 5716, XY 927 4250, X (-927), XY (-313) 4369, X 313, XY 927 4250,
     XY 1247 5716, XY 2552 5297, XY 3712 4560, XY 4669 3574, XY 5371 2394, XY 5750 1076, XY 4276 800,
     XY 4374 227, XY 4365 (-357), XY 4250 (-927), Y 927, X 3950, Y (-2450), XY 3864 (-3036),
     XY 3532 (-3532), XY 3036 (-3864), XY 2450 (-3950), X (-2450), XY (-3036) (-3864),
     XY (-3532) (-3532), XY (-3864) (-3036), XY (-3950) (-2450), Y 2450, XY (-3864) 3036,
     XY (-3532) 3532, XY (-3036) 3864, XY (-2450) 3950, X 2450, XY 3036 3864, XY 3532 3532,
     XY 3864 3036, XY 3950 2450, Y 927, X 4250, XY 4276 800, XY 8551 1601, Z (-8534), Z 10000]"

definition part3_layer_33 :: "pline list" where
  "part3_layer_33 = [
     Z (-8732), Z (-11732), XY 5750 1076, XY 5869 (-360), XY 5604 (-1780), XY 5001 (-3093),
     XY 4095 (-4219), XY 2943 (-5091), XY 1613 (-5655), XY 185 (-5877), XY (-1247) (-5716),
     XY (-927) (-4250), X 927, XY 313 (-4369), X (-313), XY (-927) (-4250), XY (-1247) (-5716),
     XY (-2698) (-5225), XY (-3958) (-4348), XY (-4949) (-3176), XY (-5602) (-1787), XY (-5874) (-276),
     XY (-5716) 1247, XY (-4250) 927, Y (-927), XY (-4369) (-313), Y 313, XY (-4250) 927,
     XY (-5716) 1247, XY (-5225) 2698, XY (-4348) 3958, XY (-3176) 4949, XY (-1787) 5602,
     XY (-276) 5874, XY 1247 5716, XY 927 4250, X (-927), XY (-313) 4369, X 313, XY 927 4250,
     XY 1247 5716, XY 2552 5297, XY 3712 4560, XY 4669 3574, XY 5371 2394, XY 5750 1076, XY 4276 800,
     XY 4374 227, XY 4365 (-357), XY 4250 (-927), Y 927, X 3950, Y (-2450), XY 3864 (-3036),
     XY 3532 (-3532), XY 3036 (-3864), XY 2450 (-3950), X (-2450), XY (-3036) (-3864),
     XY (-3532) (-3532), XY (-3864) (-3036), XY (-3950) (-2450), Y 2450, XY (-3864) 3036,
     XY (-3532) 3532, XY (-3036) 3864, XY (-2450) 3950, X 2450, XY 3036 3864, XY 3532 3532,
     XY 3864 3036, XY 3950 2450, Y 927, X 4250, XY 4276 800, XY 8551 1601, Z (-8732), Z 10000]"

definition part3_layer_34 :: "pline list" where
  "part3_layer_34 = [
     Z (-8930), Z (-11930), XY 5750 1076, XY 5869 (-360), XY 5604 (-1780), XY 5001 (-3093),
     XY 4095 (-4219), XY 2943 (-5091), XY 1613 (-5655), XY 185 (-5877), XY (-1247) (-5716),
     XY (-927) (-4250), X 927, XY 313 (-4369), X (-313), XY (-927) (-4250), XY (-1247) (-5716),
     XY (-2698) (-5225), XY (-3958) (-4348), XY (-4949) (-3176), XY (-5602) (-1787), XY (-5874) (-276),
     XY (-5716) 1247, XY (-4250) 927, Y (-927), XY (-4369) (-313), Y 313, XY (-4250) 927,
     XY (-5716) 1247, XY (-5225) 2698, XY (-4348) 3958, XY (-3176) 4949, XY (-1787) 5602,
     XY (-276) 5874, XY 1247 5716, XY 927 4250, X (-927), XY (-313) 4369, X 313, XY 927 4250,
     XY 1247 5716, XY 2552 5297, XY 3712 4560, XY 4669 3574, XY 5371 2394, XY 5750 1076, XY 4276 800,
     XY 4374 227, XY 4365 (-357), XY 4250 (-927), Y 927, X 3950, Y (-2450), XY 3864 (-3036),
     XY 3532 (-3532), XY 3036 (-3864), XY 2450 (-3950), X (-2450), XY (-3036) (-3864),
     XY (-3532) (-3532), XY (-3864) (-3036), XY (-3950) (-2450), Y 2450, XY (-3864) 3036,
     XY (-3532) 3532, XY (-3036) 3864, XY (-2450) 3950, X 2450, XY 3036 3864, XY 3532 3532,
     XY 3864 3036, XY 3950 2450, Y 927, X 4250, XY 4276 800, XY 8551 1601, Z (-8930), Z 10000]"

definition part3_layer_35 :: "pline list" where
  "part3_layer_35 = [
     Z (-9128), Z (-12128), XY 5750 1076, XY 5869 (-360), XY 5604 (-1780), XY 5001 (-3093),
     XY 4095 (-4219), XY 2943 (-5091), XY 1613 (-5655), XY 185 (-5877), XY (-1247) (-5716),
     XY (-927) (-4250), X 927, XY 313 (-4369), X (-313), XY (-927) (-4250), XY (-1247) (-5716),
     XY (-2698) (-5225), XY (-3958) (-4348), XY (-4949) (-3176), XY (-5602) (-1787), XY (-5874) (-276),
     XY (-5716) 1247, XY (-4250) 927, Y (-927), XY (-4369) (-313), Y 313, XY (-4250) 927,
     XY (-5716) 1247, XY (-5225) 2698, XY (-4348) 3958, XY (-3176) 4949, XY (-1787) 5602,
     XY (-276) 5874, XY 1247 5716, XY 927 4250, X (-927), XY (-313) 4369, X 313, XY 927 4250,
     XY 1247 5716, XY 2552 5297, XY 3712 4560, XY 4669 3574, XY 5371 2394, XY 5750 1076, XY 4276 800,
     XY 4374 227, XY 4365 (-357), XY 4250 (-927), Y 927, X 3950, Y (-2450), XY 3864 (-3036),
     XY 3532 (-3532), XY 3036 (-3864), XY 2450 (-3950), X (-2450), XY (-3036) (-3864),
     XY (-3532) (-3532), XY (-3864) (-3036), XY (-3950) (-2450), Y 2450, XY (-3864) 3036,
     XY (-3532) 3532, XY (-3036) 3864, XY (-2450) 3950, X 2450, XY 3036 3864, XY 3532 3532,
     XY 3864 3036, XY 3950 2450, Y 927, X 4250, XY 4276 800, XY 8551 1601, Z (-9128), Z 10000]"

definition part3_layer_36 :: "pline list" where
  "part3_layer_36 = [
     Z (-9326), Z (-12326), XY 5750 1076, XY 5869 (-360), XY 5604 (-1780), XY 5001 (-3093),
     XY 4095 (-4219), XY 2943 (-5091), XY 1613 (-5655), XY 185 (-5877), XY (-1247) (-5716),
     XY (-927) (-4250), X 927, XY 313 (-4369), X (-313), XY (-927) (-4250), XY (-1247) (-5716),
     XY (-2698) (-5225), XY (-3958) (-4348), XY (-4949) (-3176), XY (-5602) (-1787), XY (-5874) (-276),
     XY (-5716) 1247, XY (-4250) 927, Y (-927), XY (-4369) (-313), Y 313, XY (-4250) 927,
     XY (-5716) 1247, XY (-5225) 2698, XY (-4348) 3958, XY (-3176) 4949, XY (-1787) 5602,
     XY (-276) 5874, XY 1247 5716, XY 927 4250, X (-927), XY (-313) 4369, X 313, XY 927 4250,
     XY 1247 5716, XY 2552 5297, XY 3712 4560, XY 4669 3574, XY 5371 2394, XY 5750 1076, XY 4276 800,
     XY 4374 227, XY 4365 (-357), XY 4250 (-927), Y 927, X 3950, Y (-2450), XY 3864 (-3036),
     XY 3532 (-3532), XY 3036 (-3864), XY 2450 (-3950), X (-2450), XY (-3036) (-3864),
     XY (-3532) (-3532), XY (-3864) (-3036), XY (-3950) (-2450), Y 2450, XY (-3864) 3036,
     XY (-3532) 3532, XY (-3036) 3864, XY (-2450) 3950, X 2450, XY 3036 3864, XY 3532 3532,
     XY 3864 3036, XY 3950 2450, Y 927, X 4250, XY 4276 800, XY 8551 1601, Z (-9326), Z 10000]"

definition part3_layer_37 :: "pline list" where
  "part3_layer_37 = [
     Z (-9524), Z (-12524), XY 5750 1076, XY 5869 (-360), XY 5604 (-1780), XY 5001 (-3093),
     XY 4095 (-4219), XY 2943 (-5091), XY 1613 (-5655), XY 185 (-5877), XY (-1247) (-5716),
     XY (-927) (-4250), X 927, XY 313 (-4369), X (-313), XY (-927) (-4250), XY (-1247) (-5716),
     XY (-2698) (-5225), XY (-3958) (-4348), XY (-4949) (-3176), XY (-5602) (-1787), XY (-5874) (-276),
     XY (-5716) 1247, XY (-4250) 927, Y (-927), XY (-4369) (-313), Y 313, XY (-4250) 927,
     XY (-5716) 1247, XY (-5225) 2698, XY (-4348) 3958, XY (-3176) 4949, XY (-1787) 5602,
     XY (-276) 5874, XY 1247 5716, XY 927 4250, X (-927), XY (-313) 4369, X 313, XY 927 4250,
     XY 1247 5716, XY 2552 5297, XY 3712 4560, XY 4669 3574, XY 5371 2394, XY 5750 1076, XY 4276 800,
     XY 4374 227, XY 4365 (-357), XY 4250 (-927), Y 927, X 3950, Y (-2450), XY 3864 (-3036),
     XY 3532 (-3532), XY 3036 (-3864), XY 2450 (-3950), X (-2450), XY (-3036) (-3864),
     XY (-3532) (-3532), XY (-3864) (-3036), XY (-3950) (-2450), Y 2450, XY (-3864) 3036,
     XY (-3532) 3532, XY (-3036) 3864, XY (-2450) 3950, X 2450, XY 3036 3864, XY 3532 3532,
     XY 3864 3036, XY 3950 2450, Y 927, X 4250, XY 4276 800, XY 8551 1601, Z (-9524), Z 10000]"

definition part3_layer_38 :: "pline list" where
  "part3_layer_38 = [
     Z (-9722), Z (-12722), XY 5750 1076, XY 5869 (-360), XY 5604 (-1780), XY 5001 (-3093),
     XY 4095 (-4219), XY 2943 (-5091), XY 1613 (-5655), XY 185 (-5877), XY (-1247) (-5716),
     XY (-927) (-4250), X 927, XY 313 (-4369), X (-313), XY (-927) (-4250), XY (-1247) (-5716),
     XY (-2698) (-5225), XY (-3958) (-4348), XY (-4949) (-3176), XY (-5602) (-1787), XY (-5874) (-276),
     XY (-5716) 1247, XY (-4250) 927, Y (-927), XY (-4369) (-313), Y 313, XY (-4250) 927,
     XY (-5716) 1247, XY (-5225) 2698, XY (-4348) 3958, XY (-3176) 4949, XY (-1787) 5602,
     XY (-276) 5874, XY 1247 5716, XY 927 4250, X (-927), XY (-313) 4369, X 313, XY 927 4250,
     XY 1247 5716, XY 2552 5297, XY 3712 4560, XY 4669 3574, XY 5371 2394, XY 5750 1076, XY 4276 800,
     XY 4374 227, XY 4365 (-357), XY 4250 (-927), Y 927, X 3950, Y (-2450), XY 3864 (-3036),
     XY 3532 (-3532), XY 3036 (-3864), XY 2450 (-3950), X (-2450), XY (-3036) (-3864),
     XY (-3532) (-3532), XY (-3864) (-3036), XY (-3950) (-2450), Y 2450, XY (-3864) 3036,
     XY (-3532) 3532, XY (-3036) 3864, XY (-2450) 3950, X 2450, XY 3036 3864, XY 3532 3532,
     XY 3864 3036, XY 3950 2450, Y 927, X 4250, XY 4276 800, XY 8551 1601, Z (-9722), Z 10000]"

definition part3_layer_39 :: "pline list" where
  "part3_layer_39 = [
     Z (-9920), Z (-12920), XY 5750 1076, XY 5869 (-360), XY 5604 (-1780), XY 5001 (-3093),
     XY 4095 (-4219), XY 2943 (-5091), XY 1613 (-5655), XY 185 (-5877), XY (-1247) (-5716),
     XY (-927) (-4250), X 927, XY 313 (-4369), X (-313), XY (-927) (-4250), XY (-1247) (-5716),
     XY (-2698) (-5225), XY (-3958) (-4348), XY (-4949) (-3176), XY (-5602) (-1787), XY (-5874) (-276),
     XY (-5716) 1247, XY (-4250) 927, Y (-927), XY (-4369) (-313), Y 313, XY (-4250) 927,
     XY (-5716) 1247, XY (-5225) 2698, XY (-4348) 3958, XY (-3176) 4949, XY (-1787) 5602,
     XY (-276) 5874, XY 1247 5716, XY 927 4250, X (-927), XY (-313) 4369, X 313, XY 927 4250,
     XY 1247 5716, XY 2552 5297, XY 3712 4560, XY 4669 3574, XY 5371 2394, XY 5750 1076, XY 4276 800,
     XY 4374 227, XY 4365 (-357), XY 4250 (-927), Y 927, X 3950, Y (-2450), XY 3864 (-3036),
     XY 3532 (-3532), XY 3036 (-3864), XY 2450 (-3950), X (-2450), XY (-3036) (-3864),
     XY (-3532) (-3532), XY (-3864) (-3036), XY (-3950) (-2450), Y 2450, XY (-3864) 3036,
     XY (-3532) 3532, XY (-3036) 3864, XY (-2450) 3950, X 2450, XY 3036 3864, XY 3532 3532,
     XY 3864 3036, XY 3950 2450, Y 927, X 4250, XY 4276 800, XY 8551 1601, Z (-9920), Z 10000]"

definition part3_layer_40 :: "pline list" where
  "part3_layer_40 = [
     Z (-10118), Z (-13118), XY 5750 1076, XY 5869 (-360), XY 5604 (-1780), XY 5001 (-3093),
     XY 4095 (-4219), XY 2943 (-5091), XY 1613 (-5655), XY 185 (-5877), XY (-1247) (-5716),
     XY (-927) (-4250), X 927, XY 313 (-4369), X (-313), XY (-927) (-4250), XY (-1247) (-5716),
     XY (-2698) (-5225), XY (-3958) (-4348), XY (-4949) (-3176), XY (-5602) (-1787), XY (-5874) (-276),
     XY (-5716) 1247, XY (-4250) 927, Y (-927), XY (-4369) (-313), Y 313, XY (-4250) 927,
     XY (-5716) 1247, XY (-5225) 2698, XY (-4348) 3958, XY (-3176) 4949, XY (-1787) 5602,
     XY (-276) 5874, XY 1247 5716, XY 927 4250, X (-927), XY (-313) 4369, X 313, XY 927 4250,
     XY 1247 5716, XY 2552 5297, XY 3712 4560, XY 4669 3574, XY 5371 2394, XY 5750 1076, XY 4276 800,
     XY 4374 227, XY 4365 (-357), XY 4250 (-927), Y 927, X 3950, Y (-2450), XY 3864 (-3036),
     XY 3532 (-3532), XY 3036 (-3864), XY 2450 (-3950), X (-2450), XY (-3036) (-3864),
     XY (-3532) (-3532), XY (-3864) (-3036), XY (-3950) (-2450), Y 2450, XY (-3864) 3036,
     XY (-3532) 3532, XY (-3036) 3864, XY (-2450) 3950, X 2450, XY 3036 3864, XY 3532 3532,
     XY 3864 3036, XY 3950 2450, Y 927, X 4250, XY 4276 800, XY 8551 1601, Z (-10118), Z 10000]"

definition part3_layer_41 :: "pline list" where
  "part3_layer_41 = [
     Z (-10316), Z (-13316), XY 5750 1076, XY 5869 (-360), XY 5604 (-1780), XY 5001 (-3093),
     XY 4095 (-4219), XY 2943 (-5091), XY 1613 (-5655), XY 185 (-5877), XY (-1247) (-5716),
     XY (-927) (-4250), X 927, XY 313 (-4369), X (-313), XY (-927) (-4250), XY (-1247) (-5716),
     XY (-2698) (-5225), XY (-3958) (-4348), XY (-4949) (-3176), XY (-5602) (-1787), XY (-5874) (-276),
     XY (-5716) 1247, XY (-4250) 927, Y (-927), XY (-4369) (-313), Y 313, XY (-4250) 927,
     XY (-5716) 1247, XY (-5225) 2698, XY (-4348) 3958, XY (-3176) 4949, XY (-1787) 5602,
     XY (-276) 5874, XY 1247 5716, XY 927 4250, X (-927), XY (-313) 4369, X 313, XY 927 4250,
     XY 1247 5716, XY 2552 5297, XY 3712 4560, XY 4669 3574, XY 5371 2394, XY 5750 1076, XY 4276 800,
     XY 4374 227, XY 4365 (-357), XY 4250 (-927), Y 927, X 3950, Y (-2450), XY 3864 (-3036),
     XY 3532 (-3532), XY 3036 (-3864), XY 2450 (-3950), X (-2450), XY (-3036) (-3864),
     XY (-3532) (-3532), XY (-3864) (-3036), XY (-3950) (-2450), Y 2450, XY (-3864) 3036,
     XY (-3532) 3532, XY (-3036) 3864, XY (-2450) 3950, X 2450, XY 3036 3864, XY 3532 3532,
     XY 3864 3036, XY 3950 2450, Y 927, X 4250, XY 4276 800, XY 8551 1601, Z (-10316), Z 10000]"

definition part3_layer_42 :: "pline list" where
  "part3_layer_42 = [
     Z (-10514), Z (-13514), XY 5750 1076, XY 5869 (-360), XY 5604 (-1780), XY 5001 (-3093),
     XY 4095 (-4219), XY 2943 (-5091), XY 1613 (-5655), XY 185 (-5877), XY (-1247) (-5716),
     XY (-927) (-4250), X 927, XY 313 (-4369), X (-313), XY (-927) (-4250), XY (-1247) (-5716),
     XY (-2698) (-5225), XY (-3958) (-4348), XY (-4949) (-3176), XY (-5602) (-1787), XY (-5874) (-276),
     XY (-5716) 1247, XY (-4250) 927, Y (-927), XY (-4369) (-313), Y 313, XY (-4250) 927,
     XY (-5716) 1247, XY (-5225) 2698, XY (-4348) 3958, XY (-3176) 4949, XY (-1787) 5602,
     XY (-276) 5874, XY 1247 5716, XY 927 4250, X (-927), XY (-313) 4369, X 313, XY 927 4250,
     XY 1247 5716, XY 2552 5297, XY 3712 4560, XY 4669 3574, XY 5371 2394, XY 5750 1076, XY 4276 800,
     XY 4374 227, XY 4365 (-357), XY 4250 (-927), Y 927, X 3950, Y (-2450), XY 3864 (-3036),
     XY 3532 (-3532), XY 3036 (-3864), XY 2450 (-3950), X (-2450), XY (-3036) (-3864),
     XY (-3532) (-3532), XY (-3864) (-3036), XY (-3950) (-2450), Y 2450, XY (-3864) 3036,
     XY (-3532) 3532, XY (-3036) 3864, XY (-2450) 3950, X 2450, XY 3036 3864, XY 3532 3532,
     XY 3864 3036, XY 3950 2450, Y 927, X 4250, XY 4276 800, XY 8551 1601, Z (-10514), Z 10000]"

definition part3_layer_43 :: "pline list" where
  "part3_layer_43 = [
     Z (-10712), Z (-13712), XY 5750 1076, XY 5869 (-360), XY 5604 (-1780), XY 5001 (-3093),
     XY 4095 (-4219), XY 2943 (-5091), XY 1613 (-5655), XY 185 (-5877), XY (-1247) (-5716),
     XY (-927) (-4250), X 927, XY 313 (-4369), X (-313), XY (-927) (-4250), XY (-1247) (-5716),
     XY (-2698) (-5225), XY (-3958) (-4348), XY (-4949) (-3176), XY (-5602) (-1787), XY (-5874) (-276),
     XY (-5716) 1247, XY (-4250) 927, Y (-927), XY (-4369) (-313), Y 313, XY (-4250) 927,
     XY (-5716) 1247, XY (-5225) 2698, XY (-4348) 3958, XY (-3176) 4949, XY (-1787) 5602,
     XY (-276) 5874, XY 1247 5716, XY 927 4250, X (-927), XY (-313) 4369, X 313, XY 927 4250,
     XY 1247 5716, XY 2552 5297, XY 3712 4560, XY 4669 3574, XY 5371 2394, XY 5750 1076, XY 4276 800,
     XY 4374 227, XY 4365 (-357), XY 4250 (-927), Y 927, X 3950, Y (-2450), XY 3864 (-3036),
     XY 3532 (-3532), XY 3036 (-3864), XY 2450 (-3950), X (-2450), XY (-3036) (-3864),
     XY (-3532) (-3532), XY (-3864) (-3036), XY (-3950) (-2450), Y 2450, XY (-3864) 3036,
     XY (-3532) 3532, XY (-3036) 3864, XY (-2450) 3950, X 2450, XY 3036 3864, XY 3532 3532,
     XY 3864 3036, XY 3950 2450, Y 927, X 4250, XY 4276 800, XY 8551 1601, Z (-10712), Z 10000]"

definition part3_layer_44 :: "pline list" where
  "part3_layer_44 = [
     Z (-10910), Z (-13910), XY 5750 1076, XY 5869 (-360), XY 5604 (-1780), XY 5001 (-3093),
     XY 4095 (-4219), XY 2943 (-5091), XY 1613 (-5655), XY 185 (-5877), XY (-1247) (-5716),
     XY (-927) (-4250), X 927, XY 313 (-4369), X (-313), XY (-927) (-4250), XY (-1247) (-5716),
     XY (-2698) (-5225), XY (-3958) (-4348), XY (-4949) (-3176), XY (-5602) (-1787), XY (-5874) (-276),
     XY (-5716) 1247, XY (-4250) 927, Y (-927), XY (-4369) (-313), Y 313, XY (-4250) 927,
     XY (-5716) 1247, XY (-5225) 2698, XY (-4348) 3958, XY (-3176) 4949, XY (-1787) 5602,
     XY (-276) 5874, XY 1247 5716, XY 927 4250, X (-927), XY (-313) 4369, X 313, XY 927 4250,
     XY 1247 5716, XY 2552 5297, XY 3712 4560, XY 4669 3574, XY 5371 2394, XY 5750 1076, XY 4276 800,
     XY 4374 227, XY 4365 (-357), XY 4250 (-927), Y 927, X 3950, Y (-2450), XY 3864 (-3036),
     XY 3532 (-3532), XY 3036 (-3864), XY 2450 (-3950), X (-2450), XY (-3036) (-3864),
     XY (-3532) (-3532), XY (-3864) (-3036), XY (-3950) (-2450), Y 2450, XY (-3864) 3036,
     XY (-3532) 3532, XY (-3036) 3864, XY (-2450) 3950, X 2450, XY 3036 3864, XY 3532 3532,
     XY 3864 3036, XY 3950 2450, Y 927, X 4250, XY 4276 800, XY 8551 1601, Z (-10910), Z 10000]"

definition part3_layer_45 :: "pline list" where
  "part3_layer_45 = [
     Z (-11108), Z (-14108), XY 5750 1076, XY 5869 (-360), XY 5604 (-1780), XY 5001 (-3093),
     XY 4095 (-4219), XY 2943 (-5091), XY 1613 (-5655), XY 185 (-5877), XY (-1247) (-5716),
     XY (-927) (-4250), X 927, XY 313 (-4369), X (-313), XY (-927) (-4250), XY (-1247) (-5716),
     XY (-2698) (-5225), XY (-3958) (-4348), XY (-4949) (-3176), XY (-5602) (-1787), XY (-5874) (-276),
     XY (-5716) 1247, XY (-4250) 927, Y (-927), XY (-4369) (-313), Y 313, XY (-4250) 927,
     XY (-5716) 1247, XY (-5225) 2698, XY (-4348) 3958, XY (-3176) 4949, XY (-1787) 5602,
     XY (-276) 5874, XY 1247 5716, XY 927 4250, X (-927), XY (-313) 4369, X 313, XY 927 4250,
     XY 1247 5716, XY 2552 5297, XY 3712 4560, XY 4669 3574, XY 5371 2394, XY 5750 1076, XY 4276 800,
     XY 4374 227, XY 4365 (-357), XY 4250 (-927), Y 927, X 3950, Y (-2450), XY 3864 (-3036),
     XY 3532 (-3532), XY 3036 (-3864), XY 2450 (-3950), X (-2450), XY (-3036) (-3864),
     XY (-3532) (-3532), XY (-3864) (-3036), XY (-3950) (-2450), Y 2450, XY (-3864) 3036,
     XY (-3532) 3532, XY (-3036) 3864, XY (-2450) 3950, X 2450, XY 3036 3864, XY 3532 3532,
     XY 3864 3036, XY 3950 2450, Y 927, X 4250, XY 4276 800, XY 8551 1601, Z (-11108), Z 10000]"

definition part3_layer_46 :: "pline list" where
  "part3_layer_46 = [
     Z (-11306), Z (-14306), XY 5750 1076, XY 5869 (-360), XY 5604 (-1780), XY 5001 (-3093),
     XY 4095 (-4219), XY 2943 (-5091), XY 1613 (-5655), XY 185 (-5877), XY (-1247) (-5716),
     XY (-927) (-4250), X 927, XY 313 (-4369), X (-313), XY (-927) (-4250), XY (-1247) (-5716),
     XY (-2698) (-5225), XY (-3958) (-4348), XY (-4949) (-3176), XY (-5602) (-1787), XY (-5874) (-276),
     XY (-5716) 1247, XY (-4250) 927, Y (-927), XY (-4369) (-313), Y 313, XY (-4250) 927,
     XY (-5716) 1247, XY (-5225) 2698, XY (-4348) 3958, XY (-3176) 4949, XY (-1787) 5602,
     XY (-276) 5874, XY 1247 5716, XY 927 4250, X (-927), XY (-313) 4369, X 313, XY 927 4250,
     XY 1247 5716, XY 2552 5297, XY 3712 4560, XY 4669 3574, XY 5371 2394, XY 5750 1076, XY 4276 800,
     XY 4374 227, XY 4365 (-357), XY 4250 (-927), Y 927, X 3950, Y (-2450), XY 3864 (-3036),
     XY 3532 (-3532), XY 3036 (-3864), XY 2450 (-3950), X (-2450), XY (-3036) (-3864),
     XY (-3532) (-3532), XY (-3864) (-3036), XY (-3950) (-2450), Y 2450, XY (-3864) 3036,
     XY (-3532) 3532, XY (-3036) 3864, XY (-2450) 3950, X 2450, XY 3036 3864, XY 3532 3532,
     XY 3864 3036, XY 3950 2450, Y 927, X 4250, XY 4276 800, XY 8551 1601, Z (-11306), Z 10000]"

definition part3_layer_47 :: "pline list" where
  "part3_layer_47 = [
     Z (-11504), Z (-14504), XY 5750 1076, XY 5869 (-360), XY 5604 (-1780), XY 5001 (-3093),
     XY 4095 (-4219), XY 2943 (-5091), XY 1613 (-5655), XY 185 (-5877), XY (-1247) (-5716),
     XY (-927) (-4250), X 927, XY 313 (-4369), X (-313), XY (-927) (-4250), XY (-1247) (-5716),
     XY (-2698) (-5225), XY (-3958) (-4348), XY (-4949) (-3176), XY (-5602) (-1787), XY (-5874) (-276),
     XY (-5716) 1247, XY (-4250) 927, Y (-927), XY (-4369) (-313), Y 313, XY (-4250) 927,
     XY (-5716) 1247, XY (-5225) 2698, XY (-4348) 3958, XY (-3176) 4949, XY (-1787) 5602,
     XY (-276) 5874, XY 1247 5716, XY 927 4250, X (-927), XY (-313) 4369, X 313, XY 927 4250,
     XY 1247 5716, XY 2552 5297, XY 3712 4560, XY 4669 3574, XY 5371 2394, XY 5750 1076, XY 4276 800,
     XY 4374 227, XY 4365 (-357), XY 4250 (-927), Y 927, X 3950, Y (-2450), XY 3864 (-3036),
     XY 3532 (-3532), XY 3036 (-3864), XY 2450 (-3950), X (-2450), XY (-3036) (-3864),
     XY (-3532) (-3532), XY (-3864) (-3036), XY (-3950) (-2450), Y 2450, XY (-3864) 3036,
     XY (-3532) 3532, XY (-3036) 3864, XY (-2450) 3950, X 2450, XY 3036 3864, XY 3532 3532,
     XY 3864 3036, XY 3950 2450, Y 927, X 4250, XY 4276 800, XY 8551 1601, Z (-11504), Z 10000]"

definition part3_layer_48 :: "pline list" where
  "part3_layer_48 = [
     Z (-11702), Z (-14702), XY 5750 1076, XY 5869 (-360), XY 5604 (-1780), XY 5001 (-3093),
     XY 4095 (-4219), XY 2943 (-5091), XY 1613 (-5655), XY 185 (-5877), XY (-1247) (-5716),
     XY (-927) (-4250), X 927, XY 313 (-4369), X (-313), XY (-927) (-4250), XY (-1247) (-5716),
     XY (-2698) (-5225), XY (-3958) (-4348), XY (-4949) (-3176), XY (-5602) (-1787), XY (-5874) (-276),
     XY (-5716) 1247, XY (-4250) 927, Y (-927), XY (-4369) (-313), Y 313, XY (-4250) 927,
     XY (-5716) 1247, XY (-5225) 2698, XY (-4348) 3958, XY (-3176) 4949, XY (-1787) 5602,
     XY (-276) 5874, XY 1247 5716, XY 927 4250, X (-927), XY (-313) 4369, X 313, XY 927 4250,
     XY 1247 5716, XY 2552 5297, XY 3712 4560, XY 4669 3574, XY 5371 2394, XY 5750 1076, XY 4276 800,
     XY 4374 227, XY 4365 (-357), XY 4250 (-927), Y 927, X 3950, Y (-2450), XY 3864 (-3036),
     XY 3532 (-3532), XY 3036 (-3864), XY 2450 (-3950), X (-2450), XY (-3036) (-3864),
     XY (-3532) (-3532), XY (-3864) (-3036), XY (-3950) (-2450), Y 2450, XY (-3864) 3036,
     XY (-3532) 3532, XY (-3036) 3864, XY (-2450) 3950, X 2450, XY 3036 3864, XY 3532 3532,
     XY 3864 3036, XY 3950 2450, Y 927, X 4250, XY 4276 800, XY 8551 1601, Z (-11702), Z 10000]"

definition part3_layer_49 :: "pline list" where
  "part3_layer_49 = [
     Z (-11900), Z (-14900), XY 5750 1076, XY 5869 (-360), XY 5604 (-1780), XY 5001 (-3093),
     XY 4095 (-4219), XY 2943 (-5091), XY 1613 (-5655), XY 185 (-5877), XY (-1247) (-5716),
     XY (-927) (-4250), X 927, XY 313 (-4369), X (-313), XY (-927) (-4250), XY (-1247) (-5716),
     XY (-2698) (-5225), XY (-3958) (-4348), XY (-4949) (-3176), XY (-5602) (-1787), XY (-5874) (-276),
     XY (-5716) 1247, XY (-4250) 927, Y (-927), XY (-4369) (-313), Y 313, XY (-4250) 927,
     XY (-5716) 1247, XY (-5225) 2698, XY (-4348) 3958, XY (-3176) 4949, XY (-1787) 5602,
     XY (-276) 5874, XY 1247 5716, XY 927 4250, X (-927), XY (-313) 4369, X 313, XY 927 4250,
     XY 1247 5716, XY 2552 5297, XY 3712 4560, XY 4669 3574, XY 5371 2394, XY 5750 1076, XY 4276 800,
     XY 4374 227, XY 4365 (-357), XY 4250 (-927), Y 927, X 3950, Y (-2450), XY 3864 (-3036),
     XY 3532 (-3532), XY 3036 (-3864), XY 2450 (-3950), X (-2450), XY (-3036) (-3864),
     XY (-3532) (-3532), XY (-3864) (-3036), XY (-3950) (-2450), Y 2450, XY (-3864) 3036,
     XY (-3532) 3532, XY (-3036) 3864, XY (-2450) 3950, X 2450, XY 3036 3864, XY 3532 3532,
     XY 3864 3036, XY 3950 2450, Y 927, X 4250, XY 4276 800, XY 8551 1601, Z (-11900), Z 10000]"

definition part3_layers :: "pline list list" where
  "part3_layers = [
     part3_layer_00, part3_layer_01, part3_layer_02, part3_layer_03, part3_layer_04, part3_layer_05,
     part3_layer_06, part3_layer_07, part3_layer_08, part3_layer_09, part3_layer_10, part3_layer_11,
     part3_layer_12, part3_layer_13, part3_layer_14, part3_layer_15, part3_layer_16, part3_layer_17,
     part3_layer_18, part3_layer_19, part3_layer_20, part3_layer_21, part3_layer_22, part3_layer_23,
     part3_layer_24, part3_layer_25, part3_layer_26, part3_layer_27, part3_layer_28, part3_layer_29,
     part3_layer_30, part3_layer_31, part3_layer_32, part3_layer_33, part3_layer_34, part3_layer_35,
     part3_layer_36, part3_layer_37, part3_layer_38, part3_layer_39, part3_layer_40, part3_layer_41,
     part3_layer_42, part3_layer_43, part3_layer_44, part3_layer_45, part3_layer_46, part3_layer_47,
     part3_layer_48, part3_layer_49]"

lemmas part3_layer_defs =
  part3_layer_00_def part3_layer_01_def part3_layer_02_def part3_layer_03_def part3_layer_04_def
  part3_layer_05_def part3_layer_06_def part3_layer_07_def part3_layer_08_def part3_layer_09_def
  part3_layer_10_def part3_layer_11_def part3_layer_12_def part3_layer_13_def part3_layer_14_def
  part3_layer_15_def part3_layer_16_def part3_layer_17_def part3_layer_18_def part3_layer_19_def
  part3_layer_20_def part3_layer_21_def part3_layer_22_def part3_layer_23_def part3_layer_24_def
  part3_layer_25_def part3_layer_26_def part3_layer_27_def part3_layer_28_def part3_layer_29_def
  part3_layer_30_def part3_layer_31_def part3_layer_32_def part3_layer_33_def part3_layer_34_def
  part3_layer_35_def part3_layer_36_def part3_layer_37_def part3_layer_38_def part3_layer_39_def
  part3_layer_40_def part3_layer_41_def part3_layer_42_def part3_layer_43_def part3_layer_44_def
  part3_layer_45_def part3_layer_46_def part3_layer_47_def part3_layer_48_def part3_layer_49_def

definition part3_moves :: "pline list" where
  "part3_moves = part3_lead @ concat part3_layers"

text \<open>The script: line 3 is the first call after the interpreter is made in line 2.\<close>

definition part3_script :: script where
  "part3_script = script_of 3 (part_program 50 10 part3_moves)"

section \<open>One contour at evenly spaced depths\<close>

definition part3_height :: "nat \<Rightarrow> int" where
  "part3_height k = - 2198 - 198 * int k"

lemma part3_layer_eqs:
  "part3_layer_00 = layer part3_contour (part3_height 0)"
  "part3_layer_01 = layer part3_contour (part3_height 1)"
  "part3_layer_02 = layer part3_contour (part3_height 2)"
  "part3_layer_03 = layer part3_contour (part3_height 3)"
  "part3_layer_04 = layer part3_contour (part3_height 4)"
  "part3_layer_05 = layer part3_contour (part3_height 5)"
  "part3_layer_06 = layer part3_contour (part3_height 6)"
  "part3_layer_07 = layer part3_contour (part3_height 7)"
  "part3_layer_08 = layer part3_contour (part3_height 8)"
  "part3_layer_09 = layer part3_contour (part3_height 9)"
  "part3_layer_10 = layer part3_contour (part3_height 10)"
  "part3_layer_11 = layer part3_contour (part3_height 11)"
  "part3_layer_12 = layer part3_contour (part3_height 12)"
  "part3_layer_13 = layer part3_contour (part3_height 13)"
  "part3_layer_14 = layer part3_contour (part3_height 14)"
  "part3_layer_15 = layer part3_contour (part3_height 15)"
  "part3_layer_16 = layer part3_contour (part3_height 16)"
  "part3_layer_17 = layer part3_contour (part3_height 17)"
  "part3_layer_18 = layer part3_contour (part3_height 18)"
  "part3_layer_19 = layer part3_contour (part3_height 19)"
  "part3_layer_20 = layer part3_contour (part3_height 20)"
  "part3_layer_21 = layer part3_contour (part3_height 21)"
  "part3_layer_22 = layer part3_contour (part3_height 22)"
  "part3_layer_23 = layer part3_contour (part3_height 23)"
  "part3_layer_24 = layer part3_contour (part3_height 24)"
  "part3_layer_25 = layer part3_contour (part3_height 25)"
  "part3_layer_26 = layer part3_contour (part3_height 26)"
  "part3_layer_27 = layer part3_contour (part3_height 27)"
  "part3_layer_28 = layer part3_contour (part3_height 28)"
  "part3_layer_29 = layer part3_contour (part3_height 29)"
  "part3_layer_30 = layer part3_contour (part3_height 30)"
  "part3_layer_31 = layer part3_contour (part3_height 31)"
  "part3_layer_32 = layer part3_contour (part3_height 32)"
  "part3_layer_33 = layer part3_contour (part3_height 33)"
  "part3_layer_34 = layer part3_contour (part3_height 34)"
  "part3_layer_35 = layer part3_contour (part3_height 35)"
  "part3_layer_36 = layer part3_contour (part3_height 36)"
  "part3_layer_37 = layer part3_contour (part3_height 37)"
  "part3_layer_38 = layer part3_contour (part3_height 38)"
  "part3_layer_39 = layer part3_contour (part3_height 39)"
  "part3_layer_40 = layer part3_contour (part3_height 40)"
  "part3_layer_41 = layer part3_contour (part3_height 41)"
  "part3_layer_42 = layer part3_contour (part3_height 42)"
  "part3_layer_43 = layer part3_contour (part3_height 43)"
  "part3_layer_44 = layer part3_contour (part3_height 44)"
  "part3_layer_45 = layer part3_contour (part3_height 45)"
  "part3_layer_46 = layer part3_contour (part3_height 46)"
  "part3_layer_47 = layer part3_contour (part3_height 47)"
  "part3_layer_48 = layer part3_contour (part3_height 48)"
  "part3_layer_49 = layer part3_contour (part3_height 49)"
  by (simp_all add: part3_layer_defs layer_def part3_contour_def part3_height_def plunge_def safe_z_def)

lemma part3_layers_eq: "part3_layers = map (layer part3_contour) (map part3_height [0..<50])"
proof -
  have "[0..<50] = [
    0, 1, 2, 3, 4, 5, 6, 7, 8, 9, 10, 11, 12, 13, 14, 15, 16, 17, 18, 19, 20, 21, 22, 23, 24, 25, 26,
    27, 28, 29, 30, 31, 32, 33, 34, 35, 36, 37, 38, 39, 40, 41, 42, 43, 44, 45, 46, 47, 48, 49 :: nat]" by code_simp
  then show ?thesis by (simp add: part3_layers_def part3_layer_eqs)
qed

lemma part3_contour_lateral: "list_all lateral_line part3_contour"
  by (simp add: part3_contour_def lateral_line_def is_lateral_def)

lemma part3_contour_closed:
  "xy (fold move_to (map line_move part3_contour) (Some 8551, Some 1601, h)) = (Some 8551, Some 1601)"
  by (simp add: part3_contour_def xy_def)

lemma is_move_layer: "list_all lateral_line contour \<Longrightarrow> list_all is_move (layer contour a)"
  by (auto simp: layer_def list_all_iff lateral_line_def)

lemma part3_is_move: "list_all is_move part3_moves"
  using is_move_layer [OF part3_contour_lateral]
  by (simp add: part3_moves_def part3_lead_def part3_layers_eq list_all_iff)

definition part3_cuts :: "cut list" where
  "part3_cuts = map (\<lambda>k. (part3_height k - plunge, Some 8551, Some 1601)) [0..<50]"

definition part3_box :: box where
  "part3_box = ((- 5874, 8551), (- 5877, 5874), (- 14900, 10000))"

lemma part3_cuts_ok: "cuts (map line_move part3_moves) = Some part3_cuts"
proof -
  have "drives (map line_move part3_lead) nowhere Start = Some ((Some 8551, Some 1601, Some safe_z), Safe, [])"
    by (simp add: part3_lead_def is_lateral_def vertical_def nowhere_def safe_z_def)
  moreover have "drives (map line_move (concat part3_layers)) (Some 8551, Some 1601, Some safe_z) Safe =
      Some ((Some 8551, Some 1601, Some safe_z), Safe, part3_cuts)"
    using drives_layers [OF part3_contour_lateral _ part3_contour_closed, of "map part3_height [0..<50]"]
    by (simp add: part3_layers_eq part3_cuts_def part3_height_def safe_z_def o_def)
  ultimately show ?thesis by (simp add: cuts_def part3_moves_def drives_append)
qed

lemma part3_contour_in_box: "list_all (in_box part3_box) (map line_move part3_contour)"
  by (simp add: part3_contour_def part3_box_def)

lemma part3_layer_in_box:
  "k < 50 \<Longrightarrow> list_all (in_box part3_box) (map line_move (layer part3_contour (part3_height k)))"
  using part3_contour_in_box by (simp add: layer_def part3_box_def part3_height_def plunge_def safe_z_def)

lemma part3_in_box: "list_all (in_box part3_box) (map line_move part3_moves)"
proof -
  have "list_all (in_box part3_box) (map line_move part3_lead)"
    by (simp add: part3_lead_def part3_box_def)
  moreover have "list_all (in_box part3_box) (map line_move (concat part3_layers))"
    using part3_layer_in_box by (fastforce simp: part3_layers_eq list_all_iff)
  ultimately show ?thesis by (simp add: part3_moves_def)
qed

interpretation part3: layered_program 3 50 10 part3_moves part3_box part3_cuts
  by unfold_locales (simp_all add: part3_is_move part3_cuts_ok part3_in_box)

lemma part3_result: "part3.result_commands = get_command_list (snd (run part3_script RS274Interpreter_init))"
  by (simp add: part3.result_commands_def part3_script_def get_command_list_def)

section \<open>Properties of the program\<close>

text \<open>the 3900 lines of the fifty layers are one contour of 74 lines, cut at fifty depths
  that are 0.198 mm apart: line for line, layer \<open>k\<close> approaches to \<open>-(2.198 + 0.198 k)\<close>,
  plunges 3 mm, follows the contour, returns to the approach height and to the safe height.\<close>

theorem part3_is_one_contour:
  "part3_layers = map (\<lambda>k. layer part3_contour (- 2198 - 198 * int k)) [0..<50]"
  by (simp add: part3_layers_eq part3_height_def o_def)

text \<open>Run by the interpreter, the program raises no exception and ends with the program-end
  flag; it issues one command per line, in order, each with its line number in the file
  and the text of its line.\<close>

theorem part3_runs_to_end:
  "\<exists>s'. run part3_script RS274Interpreter_init = return_self s' \<and> is_program_end s'
     \<and> map (\<lambda>c. (cmd_get c K_LineNumber, cmd_get c K_CommandStr)) (get_command_list s') =
         map (\<lambda>(k, l). (Some (VInt k), Some (VStr (line_text l))))
           (zip [3..3909] (part_program 50 10 part3_moves))"
proof -
  have "length part3_moves = 3902"
    by (simp add: part3_moves_def part3_lead_def part3_layers_eq layer_def part3_contour_def length_concat o_def
        sum_list_triv)
  then have last_line: "3 + int (length (part_program 50 10 part3_moves)) - 1 = 3909" by (simp add: part_program_def)
  show ?thesis
    using part3.completes [folded part3_script_def, unfolded last_line] unfolding get_command_list_def .
qed

text \<open>the commands the interpreter issues for the program keep the layer discipline: they cut
  fifty closed layers, the first 5.198 mm below zero and each 0.198 mm below the one before,
  all with their plunge at the point (8.551, 1.601) and a return to the safe height.\<close>

theorem part3_cuts_fifty_layers:
  "cuts (moves_of (get_command_list (snd (run part3_script RS274Interpreter_init)))) =
     Some (map (\<lambda>k. (- 5198 - 198 * int k, Some 8551, Some 1601)) [0..<50])"
  using part3.cuts_of_result
  by (simp add: part3_result part3_cuts_def part3_height_def plunge_def)

text \<open>On the tool path of the issued commands the tool changes its lateral position only
  while its height stays, and only at the safe height of 10 mm or at one of the fifty
  cutting depths, or before its height is first commanded.\<close>

theorem part3_lateral_moves_safe:
  "path_safe (map (\<lambda>k. - 5198 - 198 * int k) [0..<50]) nowhere
     (tool_path (get_command_list (snd (run part3_script RS274Interpreter_init))))"
  using part3.result_path_safe
  by (simp add: part3_result part3_cuts_def part3_height_def plunge_def o_def)

text \<open>Every position the issued commands drive to lies in the box from (-5.874, -5.877,
  -14.900) to (8.551, 5.874, 10.000) millimetres.\<close>

theorem part3_stays_in_envelope:
  "list_all (in_box ((- 5874, 8551), (- 5877, 5874), (- 14900, 10000)))
     (tool_path (get_command_list (snd (run part3_script RS274Interpreter_init))))"
  using part3.result_in_envelope by (simp add: part3_result part3_box_def)

end
