(* ===== verification/Gcode_Full_E.thy ===== *)
theory Gcode_Full_E
  imports Gcode_Full_Shape Gcode_Part3
begin

text \<open>
  Layers 205 to 254 of the full part program, lines 18079 to 21978 of the file. They are the
  layers of \<^verbatim>\<open>Gcode_Part3\<close>.
\<close>

section \<open>The lines of the file\<close>

text \<open>Lines 18079 to 18156.\<close>

definition full_layer_205 :: "pline list" where
  "full_layer_205 = [
     Z (-2198), Z (-5198), XY 5750 1076, XY 5869 (-360), XY 5604 (-1780), XY 5001 (-3093),
     XY 4095 (-4219), XY 2943 (-5091), XY 1613 (-5655), XY 185 (-5877), XY (-1247) (-5716),
     XY (-927) (-4250), X 927, XY 313 (-4369), X (-313), XY (-927) (-4250), XY (-1247) (-5716),
     XY (-2698) (-5225), XY (-3958) (-4348), XY (-4949) (-3176), XY (-5602) (-1787), XY (-5874) (-276),
     XY (-5716) 1247, XY (-4250) 927, Y (-927), XY (-4369) (-313), Y 313, XY (-4250) 927,
     XY (-5716) 1247, XY (-5225) 2698, XY (-4348) 3958, XY (-3176) 4949, XY (-1787) 5602,
     XY (-276) 5874, XY 1247 5716, XY 927 4250, X (-927), XY (-313) 4369, X 313, XY 927 4250,
     XY 1247 5716, XY 2552 5297, XY 3712 4560, XY 4669 3574, XY 5371 2394, XY 5750 1076, XY 4276 800,
     XY 4374 227, XY 4365 (-357), XY 4250 (-927), Y 927, X 3950, Y (-2450), XY 3864 (-3036),
     XY 3532 (-3532), XY 3036 (-3864), XY 2450 (-3950), X (-2450), XY (-3036) (-3864),
     XY (-3532) (-3532), XY (-3864) (-3036), XY (-3950) (-2450), Y 2450, XY (-3864) 3036,
     XY (-3532) 3532, XY (-3036) 3864, XY (-2450) 3950, X 2450, XY 3036 3864, XY 3532 3532,
     XY 3864 3036, XY 3950 2450, Y 927, X 4250, XY 4276 800, XY 8551 1601, Z (-2198), Z 10000]"

text \<open>Lines 18157 to 18234.\<close>

definition full_layer_206 :: "pline list" where
  "full_layer_206 = [
     Z (-2396), Z (-5396), XY 5750 1076, XY 5869 (-360), XY 5604 (-1780), XY 5001 (-3093),
     XY 4095 (-4219), XY 2943 (-5091), XY 1613 (-5655), XY 185 (-5877), XY (-1247) (-5716),
     XY (-927) (-4250), X 927, XY 313 (-4369), X (-313), XY (-927) (-4250), XY (-1247) (-5716),
     XY (-2698) (-5225), XY (-3958) (-4348), XY (-4949) (-3176), XY (-5602) (-1787), XY (-5874) (-276),
     XY (-5716) 1247, XY (-4250) 927, Y (-927), XY (-4369) (-313), Y 313, XY (-4250) 927,
     XY (-5716) 1247, XY (-5225) 2698, XY (-4348) 3958, XY (-3176) 4949, XY (-1787) 5602,
     XY (-276) 5874, XY 1247 5716, XY 927 4250, X (-927), XY (-313) 4369, X 313, XY 927 4250,
     XY 1247 5716, XY 2552 5297, XY 3712 4560, XY 4669 3574, XY 5371 2394, XY 5750 1076, XY 4276 800,
     XY 4374 227, XY 4365 (-357), XY 4250 (-927), Y 927, X 3950, Y (-2450), XY 3864 (-3036),
     XY 3532 (-3532), XY 3036 (-3864), XY 2450 (-3950), X (-2450), XY (-3036) (-3864),
     XY (-3532) (-3532), XY (-3864) (-3036), XY (-3950) (-2450), Y 2450, XY (-3864) 3036,
     XY (-3532) 3532, XY (-3036) 3864, XY (-2450) 3950, X 2450, XY 3036 3864, XY 3532 3532,
     XY 3864 3036, XY 3950 2450, Y 927, X 4250, XY 4276 800, XY 8551 1601, Z (-2396), Z 10000]"

text \<open>Lines 18235 to 18312.\<close>

definition full_layer_207 :: "pline list" where
  "full_layer_207 = [
     Z (-2594), Z (-5594), XY 5750 1076, XY 5869 (-360), XY 5604 (-1780), XY 5001 (-3093),
     XY 4095 (-4219), XY 2943 (-5091), XY 1613 (-5655), XY 185 (-5877), XY (-1247) (-5716),
     XY (-927) (-4250), X 927, XY 313 (-4369), X (-313), XY (-927) (-4250), XY (-1247) (-5716),
     XY (-2698) (-5225), XY (-3958) (-4348), XY (-4949) (-3176), XY (-5602) (-1787), XY (-5874) (-276),
     XY (-5716) 1247, XY (-4250) 927, Y (-927), XY (-4369) (-313), Y 313, XY (-4250) 927,
     XY (-5716) 1247, XY (-5225) 2698, XY (-4348) 3958, XY (-3176) 4949, XY (-1787) 5602,
     XY (-276) 5874, XY 1247 5716, XY 927 4250, X (-927), XY (-313) 4369, X 313, XY 927 4250,
     XY 1247 5716, XY 2552 5297, XY 3712 4560, XY 4669 3574, XY 5371 2394, XY 5750 1076, XY 4276 800,
     XY 4374 227, XY 4365 (-357), XY 4250 (-927), Y 927, X 3950, Y (-2450), XY 3864 (-3036),
     XY 3532 (-3532), XY 3036 (-3864), XY 2450 (-3950), X (-2450), XY (-3036) (-3864),
     XY (-3532) (-3532), XY (-3864) (-3036), XY (-3950) (-2450), Y 2450, XY (-3864) 3036,
     XY (-3532) 3532, XY (-3036) 3864, XY (-2450) 3950, X 2450, XY 3036 3864, XY 3532 3532,
     XY 3864 3036, XY 3950 2450, Y 927, X 4250, XY 4276 800, XY 8551 1601, Z (-2594), Z 10000]"

text \<open>Lines 18313 to 18390.\<close>

definition full_layer_208 :: "pline list" where
  "full_layer_208 = [
     Z (-2792), Z (-5792), XY 5750 1076, XY 5869 (-360), XY 5604 (-1780), XY 5001 (-3093),
     XY 4095 (-4219), XY 2943 (-5091), XY 1613 (-5655), XY 185 (-5877), XY (-1247) (-5716),
     XY (-927) (-4250), X 927, XY 313 (-4369), X (-313), XY (-927) (-4250), XY (-1247) (-5716),
     XY (-2698) (-5225), XY (-3958) (-4348), XY (-4949) (-3176), XY (-5602) (-1787), XY (-5874) (-276),
     XY (-5716) 1247, XY (-4250) 927, Y (-927), XY (-4369) (-313), Y 313, XY (-4250) 927,
     XY (-5716) 1247, XY (-5225) 2698, XY (-4348) 3958, XY (-3176) 4949, XY (-1787) 5602,
     XY (-276) 5874, XY 1247 5716, XY 927 4250, X (-927), XY (-313) 4369, X 313, XY 927 4250,
     XY 1247 5716, XY 2552 5297, XY 3712 4560, XY 4669 3574, XY 5371 2394, XY 5750 1076, XY 4276 800,
     XY 4374 227, XY 4365 (-357), XY 4250 (-927), Y 927, X 3950, Y (-2450), XY 3864 (-3036),
     XY 3532 (-3532), XY 3036 (-3864), XY 2450 (-3950), X (-2450), XY (-3036) (-3864),
     XY (-3532) (-3532), XY (-3864) (-3036), XY (-3950) (-2450), Y 2450, XY (-3864) 3036,
     XY (-3532) 3532, XY (-3036) 3864, XY (-2450) 3950, X 2450, XY 3036 3864, XY 3532 3532,
     XY 3864 3036, XY 3950 2450, Y 927, X 4250, XY 4276 800, XY 8551 1601, Z (-2792), Z 10000]"

text \<open>Lines 18391 to 18468.\<close>

definition full_layer_209 :: "pline list" where
  "full_layer_209 = [
     Z (-2990), Z (-5990), XY 5750 1076, XY 5869 (-360), XY 5604 (-1780), XY 5001 (-3093),
     XY 4095 (-4219), XY 2943 (-5091), XY 1613 (-5655), XY 185 (-5877), XY (-1247) (-5716),
     XY (-927) (-4250), X 927, XY 313 (-4369), X (-313), XY (-927) (-4250), XY (-1247) (-5716),
     XY (-2698) (-5225), XY (-3958) (-4348), XY (-4949) (-3176), XY (-5602) (-1787), XY (-5874) (-276),
     XY (-5716) 1247, XY (-4250) 927, Y (-927), XY (-4369) (-313), Y 313, XY (-4250) 927,
     XY (-5716) 1247, XY (-5225) 2698, XY (-4348) 3958, XY (-3176) 4949, XY (-1787) 5602,
     XY (-276) 5874, XY 1247 5716, XY 927 4250, X (-927), XY (-313) 4369, X 313, XY 927 4250,
     XY 1247 5716, XY 2552 5297, XY 3712 4560, XY 4669 3574, XY 5371 2394, XY 5750 1076, XY 4276 800,
     XY 4374 227, XY 4365 (-357), XY 4250 (-927), Y 927, X 3950, Y (-2450), XY 3864 (-3036),
     XY 3532 (-3532), XY 3036 (-3864), XY 2450 (-3950), X (-2450), XY (-3036) (-3864),
     XY (-3532) (-3532), XY (-3864) (-3036), XY (-3950) (-2450), Y 2450, XY (-3864) 3036,
     XY (-3532) 3532, XY (-3036) 3864, XY (-2450) 3950, X 2450, XY 3036 3864, XY 3532 3532,
     XY 3864 3036, XY 3950 2450, Y 927, X 4250, XY 4276 800, XY 8551 1601, Z (-2990), Z 10000]"

text \<open>Lines 18469 to 18546.\<close>

definition full_layer_210 :: "pline list" where
  "full_layer_210 = [
     Z (-3188), Z (-6188), XY 5750 1076, XY 5869 (-360), XY 5604 (-1780), XY 5001 (-3093),
     XY 4095 (-4219), XY 2943 (-5091), XY 1613 (-5655), XY 185 (-5877), XY (-1247) (-5716),
     XY (-927) (-4250), X 927, XY 313 (-4369), X (-313), XY (-927) (-4250), XY (-1247) (-5716),
     XY (-2698) (-5225), XY (-3958) (-4348), XY (-4949) (-3176), XY (-5602) (-1787), XY (-5874) (-276),
     XY (-5716) 1247, XY (-4250) 927, Y (-927), XY (-4369) (-313), Y 313, XY (-4250) 927,
     XY (-5716) 1247, XY (-5225) 2698, XY (-4348) 3958, XY (-3176) 4949, XY (-1787) 5602,
     XY (-276) 5874, XY 1247 5716, XY 927 4250, X (-927), XY (-313) 4369, X 313, XY 927 4250,
     XY 1247 5716, XY 2552 5297, XY 3712 4560, XY 4669 3574, XY 5371 2394, XY 5750 1076, XY 4276 800,
     XY 4374 227, XY 4365 (-357), XY 4250 (-927), Y 927, X 3950, Y (-2450), XY 3864 (-3036),
     XY 3532 (-3532), XY 3036 (-3864), XY 2450 (-3950), X (-2450), XY (-3036) (-3864),
     XY (-3532) (-3532), XY (-3864) (-3036), XY (-3950) (-2450), Y 2450, XY (-3864) 3036,
     XY (-3532) 3532, XY (-3036) 3864, XY (-2450) 3950, X 2450, XY 3036 3864, XY 3532 3532,
     XY 3864 3036, XY 3950 2450, Y 927, X 4250, XY 4276 800, XY 8551 1601, Z (-3188), Z 10000]"

text \<open>Lines 18547 to 18624.\<close>

definition full_layer_211 :: "pline list" where
  "full_layer_211 = [
     Z (-3386), Z (-6386), XY 5750 1076, XY 5869 (-360), XY 5604 (-1780), XY 5001 (-3093),
     XY 4095 (-4219), XY 2943 (-5091), XY 1613 (-5655), XY 185 (-5877), XY (-1247) (-5716),
     XY (-927) (-4250), X 927, XY 313 (-4369), X (-313), XY (-927) (-4250), XY (-1247) (-5716),
     XY (-2698) (-5225), XY (-3958) (-4348), XY (-4949) (-3176), XY (-5602) (-1787), XY (-5874) (-276),
     XY (-5716) 1247, XY (-4250) 927, Y (-927), XY (-4369) (-313), Y 313, XY (-4250) 927,
     XY (-5716) 1247, XY (-5225) 2698, XY (-4348) 3958, XY (-3176) 4949, XY (-1787) 5602,
     XY (-276) 5874, XY 1247 5716, XY 927 4250, X (-927), XY (-313) 4369, X 313, XY 927 4250,
     XY 1247 5716, XY 2552 5297, XY 3712 4560, XY 4669 3574, XY 5371 2394, XY 5750 1076, XY 4276 800,
     XY 4374 227, XY 4365 (-357), XY 4250 (-927), Y 927, X 3950, Y (-2450), XY 3864 (-3036),
     XY 3532 (-3532), XY 3036 (-3864), XY 2450 (-3950), X (-2450), XY (-3036) (-3864),
     XY (-3532) (-3532), XY (-3864) (-3036), XY (-3950) (-2450), Y 2450, XY (-3864) 3036,
     XY (-3532) 3532, XY (-3036) 3864, XY (-2450) 3950, X 2450, XY 3036 3864, XY 3532 3532,
     XY 3864 3036, XY 3950 2450, Y 927, X 4250, XY 4276 800, XY 8551 1601, Z (-3386), Z 10000]"

text \<open>Lines 18625 to 18702.\<close>

definition full_layer_212 :: "pline list" where
  "full_layer_212 = [
     Z (-3584), Z (-6584), XY 5750 1076, XY 5869 (-360), XY 5604 (-1780), XY 5001 (-3093),
     XY 4095 (-4219), XY 2943 (-5091), XY 1613 (-5655), XY 185 (-5877), XY (-1247) (-5716),
     XY (-927) (-4250), X 927, XY 313 (-4369), X (-313), XY (-927) (-4250), XY (-1247) (-5716),
     XY (-2698) (-5225), XY (-3958) (-4348), XY (-4949) (-3176), XY (-5602) (-1787), XY (-5874) (-276),
     XY (-5716) 1247, XY (-4250) 927, Y (-927), XY (-4369) (-313), Y 313, XY (-4250) 927,
     XY (-5716) 1247, XY (-5225) 2698, XY (-4348) 3958, XY (-3176) 4949, XY (-1787) 5602,
     XY (-276) 5874, XY 1247 5716, XY 927 4250, X (-927), XY (-313) 4369, X 313, XY 927 4250,
     XY 1247 5716, XY 2552 5297, XY 3712 4560, XY 4669 3574, XY 5371 2394, XY 5750 1076, XY 4276 800,
     XY 4374 227, XY 4365 (-357), XY 4250 (-927), Y 927, X 3950, Y (-2450), XY 3864 (-3036),
     XY 3532 (-3532), XY 3036 (-3864), XY 2450 (-3950), X (-2450), XY (-3036) (-3864),
     XY (-3532) (-3532), XY (-3864) (-3036), XY (-3950) (-2450), Y 2450, XY (-3864) 3036,
     XY (-3532) 3532, XY (-3036) 3864, XY (-2450) 3950, X 2450, XY 3036 3864, XY 3532 3532,
     XY 3864 3036, XY 3950 2450, Y 927, X 4250, XY 4276 800, XY 8551 1601, Z (-3584), Z 10000]"

text \<open>Lines 18703 to 18780.\<close>

definition full_layer_213 :: "pline list" where
  "full_layer_213 = [
     Z (-3782), Z (-6782), XY 5750 1076, XY 5869 (-360), XY 5604 (-1780), XY 5001 (-3093),
     XY 4095 (-4219), XY 2943 (-5091), XY 1613 (-5655), XY 185 (-5877), XY (-1247) (-5716),
     XY (-927) (-4250), X 927, XY 313 (-4369), X (-313), XY (-927) (-4250), XY (-1247) (-5716),
     XY (-2698) (-5225), XY (-3958) (-4348), XY (-4949) (-3176), XY (-5602) (-1787), XY (-5874) (-276),
     XY (-5716) 1247, XY (-4250) 927, Y (-927), XY (-4369) (-313), Y 313, XY (-4250) 927,
     XY (-5716) 1247, XY (-5225) 2698, XY (-4348) 3958, XY (-3176) 4949, XY (-1787) 5602,
     XY (-276) 5874, XY 1247 5716, XY 927 4250, X (-927), XY (-313) 4369, X 313, XY 927 4250,
     XY 1247 5716, XY 2552 5297, XY 3712 4560, XY 4669 3574, XY 5371 2394, XY 5750 1076, XY 4276 800,
     XY 4374 227, XY 4365 (-357), XY 4250 (-927), Y 927, X 3950, Y (-2450), XY 3864 (-3036),
     XY 3532 (-3532), XY 3036 (-3864), XY 2450 (-3950), X (-2450), XY (-3036) (-3864),
     XY (-3532) (-3532), XY (-3864) (-3036), XY (-3950) (-2450), Y 2450, XY (-3864) 3036,
     XY (-3532) 3532, XY (-3036) 3864, XY (-2450) 3950, X 2450, XY 3036 3864, XY 3532 3532,
     XY 3864 3036, XY 3950 2450, Y 927, X 4250, XY 4276 800, XY 8551 1601, Z (-3782), Z 10000]"

text \<open>Lines 18781 to 18858.\<close>

definition full_layer_214 :: "pline list" where
  "full_layer_214 = [
     Z (-3980), Z (-6980), XY 5750 1076, XY 5869 (-360), XY 5604 (-1780), XY 5001 (-3093),
     XY 4095 (-4219), XY 2943 (-5091), XY 1613 (-5655), XY 185 (-5877), XY (-1247) (-5716),
     XY (-927) (-4250), X 927, XY 313 (-4369), X (-313), XY (-927) (-4250), XY (-1247) (-5716),
     XY (-2698) (-5225), XY (-3958) (-4348), XY (-4949) (-3176), XY (-5602) (-1787), XY (-5874) (-276),
     XY (-5716) 1247, XY (-4250) 927, Y (-927), XY (-4369) (-313), Y 313, XY (-4250) 927,
     XY (-5716) 1247, XY (-5225) 2698, XY (-4348) 3958, XY (-3176) 4949, XY (-1787) 5602,
     XY (-276) 5874, XY 1247 5716, XY 927 4250, X (-927), XY (-313) 4369, X 313, XY 927 4250,
     XY 1247 5716, XY 2552 5297, XY 3712 4560, XY 4669 3574, XY 5371 2394, XY 5750 1076, XY 4276 800,
     XY 4374 227, XY 4365 (-357), XY 4250 (-927), Y 927, X 3950, Y (-2450), XY 3864 (-3036),
     XY 3532 (-3532), XY 3036 (-3864), XY 2450 (-3950), X (-2450), XY (-3036) (-3864),
     XY (-3532) (-3532), XY (-3864) (-3036), XY (-3950) (-2450), Y 2450, XY (-3864) 3036,
     XY (-3532) 3532, XY (-3036) 3864, XY (-2450) 3950, X 2450, XY 3036 3864, XY 3532 3532,
     XY 3864 3036, XY 3950 2450, Y 927, X 4250, XY 4276 800, XY 8551 1601, Z (-3980), Z 10000]"

text \<open>Lines 18859 to 18936.\<close>

definition full_layer_215 :: "pline list" where
  "full_layer_215 = [
     Z (-4178), Z (-7178), XY 5750 1076, XY 5869 (-360), XY 5604 (-1780), XY 5001 (-3093),
     XY 4095 (-4219), XY 2943 (-5091), XY 1613 (-5655), XY 185 (-5877), XY (-1247) (-5716),
     XY (-927) (-4250), X 927, XY 313 (-4369), X (-313), XY (-927) (-4250), XY (-1247) (-5716),
     XY (-2698) (-5225), XY (-3958) (-4348), XY (-4949) (-3176), XY (-5602) (-1787), XY (-5874) (-276),
     XY (-5716) 1247, XY (-4250) 927, Y (-927), XY (-4369) (-313), Y 313, XY (-4250) 927,
     XY (-5716) 1247, XY (-5225) 2698, XY (-4348) 3958, XY (-3176) 4949, XY (-1787) 5602,
     XY (-276) 5874, XY 1247 5716, XY 927 4250, X (-927), XY (-313) 4369, X 313, XY 927 4250,
     XY 1247 5716, XY 2552 5297, XY 3712 4560, XY 4669 3574, XY 5371 2394, XY 5750 1076, XY 4276 800,
     XY 4374 227, XY 4365 (-357), XY 4250 (-927), Y 927, X 3950, Y (-2450), XY 3864 (-3036),
     XY 3532 (-3532), XY 3036 (-3864), XY 2450 (-3950), X (-2450), XY (-3036) (-3864),
     XY (-3532) (-3532), XY (-3864) (-3036), XY (-3950) (-2450), Y 2450, XY (-3864) 3036,
     XY (-3532) 3532, XY (-3036) 3864, XY (-2450) 3950, X 2450, XY 3036 3864, XY 3532 3532,
     XY 3864 3036, XY 3950 2450, Y 927, X 4250, XY 4276 800, XY 8551 1601, Z (-4178), Z 10000]"

text \<open>Lines 18937 to 19014.\<close>

definition full_layer_216 :: "pline list" where
  "full_layer_216 = [
     Z (-4376), Z (-7376), XY 5750 1076, XY 5869 (-360), XY 5604 (-1780), XY 5001 (-3093),
     XY 4095 (-4219), XY 2943 (-5091), XY 1613 (-5655), XY 185 (-5877), XY (-1247) (-5716),
     XY (-927) (-4250), X 927, XY 313 (-4369), X (-313), XY (-927) (-4250), XY (-1247) (-5716),
     XY (-2698) (-5225), XY (-3958) (-4348), XY (-4949) (-3176), XY (-5602) (-1787), XY (-5874) (-276),
     XY (-5716) 1247, XY (-4250) 927, Y (-927), XY (-4369) (-313), Y 313, XY (-4250) 927,
     XY (-5716) 1247, XY (-5225) 2698, XY (-4348) 3958, XY (-3176) 4949, XY (-1787) 5602,
     XY (-276) 5874, XY 1247 5716, XY 927 4250, X (-927), XY (-313) 4369, X 313, XY 927 4250,
     XY 1247 5716, XY 2552 5297, XY 3712 4560, XY 4669 3574, XY 5371 2394, XY 5750 1076, XY 4276 800,
     XY 4374 227, XY 4365 (-357), XY 4250 (-927), Y 927, X 3950, Y (-2450), XY 3864 (-3036),
     XY 3532 (-3532), XY 3036 (-3864), XY 2450 (-3950), X (-2450), XY (-3036) (-3864),
     XY (-3532) (-3532), XY (-3864) (-3036), XY (-3950) (-2450), Y 2450, XY (-3864) 3036,
     XY (-3532) 3532, XY (-3036) 3864, XY (-2450) 3950, X 2450, XY 3036 3864, XY 3532 3532,
     XY 3864 3036, XY 3950 2450, Y 927, X 4250, XY 4276 800, XY 8551 1601, Z (-4376), Z 10000]"

text \<open>Lines 19015 to 19092.\<close>

definition full_layer_217 :: "pline list" where
  "full_layer_217 = [
     Z (-4574), Z (-7574), XY 5750 1076, XY 5869 (-360), XY 5604 (-1780), XY 5001 (-3093),
     XY 4095 (-4219), XY 2943 (-5091), XY 1613 (-5655), XY 185 (-5877), XY (-1247) (-5716),
     XY (-927) (-4250), X 927, XY 313 (-4369), X (-313), XY (-927) (-4250), XY (-1247) (-5716),
     XY (-2698) (-5225), XY (-3958) (-4348), XY (-4949) (-3176), XY (-5602) (-1787), XY (-5874) (-276),
     XY (-5716) 1247, XY (-4250) 927, Y (-927), XY (-4369) (-313), Y 313, XY (-4250) 927,
     XY (-5716) 1247, XY (-5225) 2698, XY (-4348) 3958, XY (-3176) 4949, XY (-1787) 5602,
     XY (-276) 5874, XY 1247 5716, XY 927 4250, X (-927), XY (-313) 4369, X 313, XY 927 4250,
     XY 1247 5716, XY 2552 5297, XY 3712 4560, XY 4669 3574, XY 5371 2394, XY 5750 1076, XY 4276 800,
     XY 4374 227, XY 4365 (-357), XY 4250 (-927), Y 927, X 3950, Y (-2450), XY 3864 (-3036),
     XY 3532 (-3532), XY 3036 (-3864), XY 2450 (-3950), X (-2450), XY (-3036) (-3864),
     XY (-3532) (-3532), XY (-3864) (-3036), XY (-3950) (-2450), Y 2450, XY (-3864) 3036,
     XY (-3532) 3532, XY (-3036) 3864, XY (-2450) 3950, X 2450, XY 3036 3864, XY 3532 3532,
     XY 3864 3036, XY 3950 2450, Y 927, X 4250, XY 4276 800, XY 8551 1601, Z (-4574), Z 10000]"

text \<open>Lines 19093 to 19170.\<close>

definition full_layer_218 :: "pline list" where
  "full_layer_218 = [
     Z (-4772), Z (-7772), XY 5750 1076, XY 5869 (-360), XY 5604 (-1780), XY 5001 (-3093),
     XY 4095 (-4219), XY 2943 (-5091), XY 1613 (-5655), XY 185 (-5877), XY (-1247) (-5716),
     XY (-927) (-4250), X 927, XY 313 (-4369), X (-313), XY (-927) (-4250), XY (-1247) (-5716),
     XY (-2698) (-5225), XY (-3958) (-4348), XY (-4949) (-3176), XY (-5602) (-1787), XY (-5874) (-276),
     XY (-5716) 1247, XY (-4250) 927, Y (-927), XY (-4369) (-313), Y 313, XY (-4250) 927,
     XY (-5716) 1247, XY (-5225) 2698, XY (-4348) 3958, XY (-3176) 4949, XY (-1787) 5602,
     XY (-276) 5874, XY 1247 5716, XY 927 4250, X (-927), XY (-313) 4369, X 313, XY 927 4250,
     XY 1247 5716, XY 2552 5297, XY 3712 4560, XY 4669 3574, XY 5371 2394, XY 5750 1076, XY 4276 800,
     XY 4374 227, XY 4365 (-357), XY 4250 (-927), Y 927, X 3950, Y (-2450), XY 3864 (-3036),
     XY 3532 (-3532), XY 3036 (-3864), XY 2450 (-3950), X (-2450), XY (-3036) (-3864),
     XY (-3532) (-3532), XY (-3864) (-3036), XY (-3950) (-2450), Y 2450, XY (-3864) 3036,
     XY (-3532) 3532, XY (-3036) 3864, XY (-2450) 3950, X 2450, XY 3036 3864, XY 3532 3532,
     XY 3864 3036, XY 3950 2450, Y 927, X 4250, XY 4276 800, XY 8551 1601, Z (-4772), Z 10000]"

text \<open>Lines 19171 to 19248.\<close>

definition full_layer_219 :: "pline list" where
  "full_layer_219 = [
     Z (-4970), Z (-7970), XY 5750 1076, XY 5869 (-360), XY 5604 (-1780), XY 5001 (-3093),
     XY 4095 (-4219), XY 2943 (-5091), XY 1613 (-5655), XY 185 (-5877), XY (-1247) (-5716),
     XY (-927) (-4250), X 927, XY 313 (-4369), X (-313), XY (-927) (-4250), XY (-1247) (-5716),
     XY (-2698) (-5225), XY (-3958) (-4348), XY (-4949) (-3176), XY (-5602) (-1787), XY (-5874) (-276),
     XY (-5716) 1247, XY (-4250) 927, Y (-927), XY (-4369) (-313), Y 313, XY (-4250) 927,
     XY (-5716) 1247, XY (-5225) 2698, XY (-4348) 3958, XY (-3176) 4949, XY (-1787) 5602,
     XY (-276) 5874, XY 1247 5716, XY 927 4250, X (-927), XY (-313) 4369, X 313, XY 927 4250,
     XY 1247 5716, XY 2552 5297, XY 3712 4560, XY 4669 3574, XY 5371 2394, XY 5750 1076, XY 4276 800,
     XY 4374 227, XY 4365 (-357), XY 4250 (-927), Y 927, X 3950, Y (-2450), XY 3864 (-3036),
     XY 3532 (-3532), XY 3036 (-3864), XY 2450 (-3950), X (-2450), XY (-3036) (-3864),
     XY (-3532) (-3532), XY (-3864) (-3036), XY (-3950) (-2450), Y 2450, XY (-3864) 3036,
     XY (-3532) 3532, XY (-3036) 3864, XY (-2450) 3950, X 2450, XY 3036 3864, XY 3532 3532,
     XY 3864 3036, XY 3950 2450, Y 927, X 4250, XY 4276 800, XY 8551 1601, Z (-4970), Z 10000]"

text \<open>Lines 19249 to 19326.\<close>

definition full_layer_220 :: "pline list" where
  "full_layer_220 = [
     Z (-5168), Z (-8168), XY 5750 1076, XY 5869 (-360), XY 5604 (-1780), XY 5001 (-3093),
     XY 4095 (-4219), XY 2943 (-5091), XY 1613 (-5655), XY 185 (-5877), XY (-1247) (-5716),
     XY (-927) (-4250), X 927, XY 313 (-4369), X (-313), XY (-927) (-4250), XY (-1247) (-5716),
     XY (-2698) (-5225), XY (-3958) (-4348), XY (-4949) (-3176), XY (-5602) (-1787), XY (-5874) (-276),
     XY (-5716) 1247, XY (-4250) 927, Y (-927), XY (-4369) (-313), Y 313, XY (-4250) 927,
     XY (-5716) 1247, XY (-5225) 2698, XY (-4348) 3958, XY (-3176) 4949, XY (-1787) 5602,
     XY (-276) 5874, XY 1247 5716, XY 927 4250, X (-927), XY (-313) 4369, X 313, XY 927 4250,
     XY 1247 5716, XY 2552 5297, XY 3712 4560, XY 4669 3574, XY 5371 2394, XY 5750 1076, XY 4276 800,
     XY 4374 227, XY 4365 (-357), XY 4250 (-927), Y 927, X 3950, Y (-2450), XY 3864 (-3036),
     XY 3532 (-3532), XY 3036 (-3864), XY 2450 (-3950), X (-2450), XY (-3036) (-3864),
     XY (-3532) (-3532), XY (-3864) (-3036), XY (-3950) (-2450), Y 2450, XY (-3864) 3036,
     XY (-3532) 3532, XY (-3036) 3864, XY (-2450) 3950, X 2450, XY 3036 3864, XY 3532 3532,
     XY 3864 3036, XY 3950 2450, Y 927, X 4250, XY 4276 800, XY 8551 1601, Z (-5168), Z 10000]"

text \<open>Lines 19327 to 19404.\<close>

definition full_layer_221 :: "pline list" where
  "full_layer_221 = [
     Z (-5366), Z (-8366), XY 5750 1076, XY 5869 (-360), XY 5604 (-1780), XY 5001 (-3093),
     XY 4095 (-4219), XY 2943 (-5091), XY 1613 (-5655), XY 185 (-5877), XY (-1247) (-5716),
     XY (-927) (-4250), X 927, XY 313 (-4369), X (-313), XY (-927) (-4250), XY (-1247) (-5716),
     XY (-2698) (-5225), XY (-3958) (-4348), XY (-4949) (-3176), XY (-5602) (-1787), XY (-5874) (-276),
     XY (-5716) 1247, XY (-4250) 927, Y (-927), XY (-4369) (-313), Y 313, XY (-4250) 927,
     XY (-5716) 1247, XY (-5225) 2698, XY (-4348) 3958, XY (-3176) 4949, XY (-1787) 5602,
     XY (-276) 5874, XY 1247 5716, XY 927 4250, X (-927), XY (-313) 4369, X 313, XY 927 4250,
     XY 1247 5716, XY 2552 5297, XY 3712 4560, XY 4669 3574, XY 5371 2394, XY 5750 1076, XY 4276 800,
     XY 4374 227, XY 4365 (-357), XY 4250 (-927), Y 927, X 3950, Y (-2450), XY 3864 (-3036),
     XY 3532 (-3532), XY 3036 (-3864), XY 2450 (-3950), X (-2450), XY (-3036) (-3864),
     XY (-3532) (-3532), XY (-3864) (-3036), XY (-3950) (-2450), Y 2450, XY (-3864) 3036,
     XY (-3532) 3532, XY (-3036) 3864, XY (-2450) 3950, X 2450, XY 3036 3864, XY 3532 3532,
     XY 3864 3036, XY 3950 2450, Y 927, X 4250, XY 4276 800, XY 8551 1601, Z (-5366), Z 10000]"

text \<open>Lines 19405 to 19482.\<close>

definition full_layer_222 :: "pline list" where
  "full_layer_222 = [
     Z (-5564), Z (-8564), XY 5750 1076, XY 5869 (-360), XY 5604 (-1780), XY 5001 (-3093),
     XY 4095 (-4219), XY 2943 (-5091), XY 1613 (-5655), XY 185 (-5877), XY (-1247) (-5716),
     XY (-927) (-4250), X 927, XY 313 (-4369), X (-313), XY (-927) (-4250), XY (-1247) (-5716),
     XY (-2698) (-5225), XY (-3958) (-4348), XY (-4949) (-3176), XY (-5602) (-1787), XY (-5874) (-276),
     XY (-5716) 1247, XY (-4250) 927, Y (-927), XY (-4369) (-313), Y 313, XY (-4250) 927,
     XY (-5716) 1247, XY (-5225) 2698, XY (-4348) 3958, XY (-3176) 4949, XY (-1787) 5602,
     XY (-276) 5874, XY 1247 5716, XY 927 4250, X (-927), XY (-313) 4369, X 313, XY 927 4250,
     XY 1247 5716, XY 2552 5297, XY 3712 4560, XY 4669 3574, XY 5371 2394, XY 5750 1076, XY 4276 800,
     XY 4374 227, XY 4365 (-357), XY 4250 (-927), Y 927, X 3950, Y (-2450), XY 3864 (-3036),
     XY 3532 (-3532), XY 3036 (-3864), XY 2450 (-3950), X (-2450), XY (-3036) (-3864),
     XY (-3532) (-3532), XY (-3864) (-3036), XY (-3950) (-2450), Y 2450, XY (-3864) 3036,
     XY (-3532) 3532, XY (-3036) 3864, XY (-2450) 3950, X 2450, XY 3036 3864, XY 3532 3532,
     XY 3864 3036, XY 3950 2450, Y 927, X 4250, XY 4276 800, XY 8551 1601, Z (-5564), Z 10000]"

text \<open>Lines 19483 to 19560.\<close>

definition full_layer_223 :: "pline list" where
  "full_layer_223 = [
     Z (-5762), Z (-8762), XY 5750 1076, XY 5869 (-360), XY 5604 (-1780), XY 5001 (-3093),
     XY 4095 (-4219), XY 2943 (-5091), XY 1613 (-5655), XY 185 (-5877), XY (-1247) (-5716),
     XY (-927) (-4250), X 927, XY 313 (-4369), X (-313), XY (-927) (-4250), XY (-1247) (-5716),
     XY (-2698) (-5225), XY (-3958) (-4348), XY (-4949) (-3176), XY (-5602) (-1787), XY (-5874) (-276),
     XY (-5716) 1247, XY (-4250) 927, Y (-927), XY (-4369) (-313), Y 313, XY (-4250) 927,
     XY (-5716) 1247, XY (-5225) 2698, XY (-4348) 3958, XY (-3176) 4949, XY (-1787) 5602,
     XY (-276) 5874, XY 1247 5716, XY 927 4250, X (-927), XY (-313) 4369, X 313, XY 927 4250,
     XY 1247 5716, XY 2552 5297, XY 3712 4560, XY 4669 3574, XY 5371 2394, XY 5750 1076, XY 4276 800,
     XY 4374 227, XY 4365 (-357), XY 4250 (-927), Y 927, X 3950, Y (-2450), XY 3864 (-3036),
     XY 3532 (-3532), XY 3036 (-3864), XY 2450 (-3950), X (-2450), XY (-3036) (-3864),
     XY (-3532) (-3532), XY (-3864) (-3036), XY (-3950) (-2450), Y 2450, XY (-3864) 3036,
     XY (-3532) 3532, XY (-3036) 3864, XY (-2450) 3950, X 2450, XY 3036 3864, XY 3532 3532,
     XY 3864 3036, XY 3950 2450, Y 927, X 4250, XY 4276 800, XY 8551 1601, Z (-5762), Z 10000]"

text \<open>Lines 19561 to 19638.\<close>

definition full_layer_224 :: "pline list" where
  "full_layer_224 = [
     Z (-5960), Z (-8960), XY 5750 1076, XY 5869 (-360), XY 5604 (-1780), XY 5001 (-3093),
     XY 4095 (-4219), XY 2943 (-5091), XY 1613 (-5655), XY 185 (-5877), XY (-1247) (-5716),
     XY (-927) (-4250), X 927, XY 313 (-4369), X (-313), XY (-927) (-4250), XY (-1247) (-5716),
     XY (-2698) (-5225), XY (-3958) (-4348), XY (-4949) (-3176), XY (-5602) (-1787), XY (-5874) (-276),
     XY (-5716) 1247, XY (-4250) 927, Y (-927), XY (-4369) (-313), Y 313, XY (-4250) 927,
     XY (-5716) 1247, XY (-5225) 2698, XY (-4348) 3958, XY (-3176) 4949, XY (-1787) 5602,
     XY (-276) 5874, XY 1247 5716, XY 927 4250, X (-927), XY (-313) 4369, X 313, XY 927 4250,
     XY 1247 5716, XY 2552 5297, XY 3712 4560, XY 4669 3574, XY 5371 2394, XY 5750 1076, XY 4276 800,
     XY 4374 227, XY 4365 (-357), XY 4250 (-927), Y 927, X 3950, Y (-2450), XY 3864 (-3036),
     XY 3532 (-3532), XY 3036 (-3864), XY 2450 (-3950), X (-2450), XY (-3036) (-3864),
     XY (-3532) (-3532), XY (-3864) (-3036), XY (-3950) (-2450), Y 2450, XY (-3864) 3036,
     XY (-3532) 3532, XY (-3036) 3864, XY (-2450) 3950, X 2450, XY 3036 3864, XY 3532 3532,
     XY 3864 3036, XY 3950 2450, Y 927, X 4250, XY 4276 800, XY 8551 1601, Z (-5960), Z 10000]"

text \<open>Lines 19639 to 19716.\<close>

definition full_layer_225 :: "pline list" where
  "full_layer_225 = [
     Z (-6158), Z (-9158), XY 5750 1076, XY 5869 (-360), XY 5604 (-1780), XY 5001 (-3093),
     XY 4095 (-4219), XY 2943 (-5091), XY 1613 (-5655), XY 185 (-5877), XY (-1247) (-5716),
     XY (-927) (-4250), X 927, XY 313 (-4369), X (-313), XY (-927) (-4250), XY (-1247) (-5716),
     XY (-2698) (-5225), XY (-3958) (-4348), XY (-4949) (-3176), XY (-5602) (-1787), XY (-5874) (-276),
     XY (-5716) 1247, XY (-4250) 927, Y (-927), XY (-4369) (-313), Y 313, XY (-4250) 927,
     XY (-5716) 1247, XY (-5225) 2698, XY (-4348) 3958, XY (-3176) 4949, XY (-1787) 5602,
     XY (-276) 5874, XY 1247 5716, XY 927 4250, X (-927), XY (-313) 4369, X 313, XY 927 4250,
     XY 1247 5716, XY 2552 5297, XY 3712 4560, XY 4669 3574, XY 5371 2394, XY 5750 1076, XY 4276 800,
     XY 4374 227, XY 4365 (-357), XY 4250 (-927), Y 927, X 3950, Y (-2450), XY 3864 (-3036),
     XY 3532 (-3532), XY 3036 (-3864), XY 2450 (-3950), X (-2450), XY (-3036) (-3864),
     XY (-3532) (-3532), XY (-3864) (-3036), XY (-3950) (-2450), Y 2450, XY (-3864) 3036,
     XY (-3532) 3532, XY (-3036) 3864, XY (-2450) 3950, X 2450, XY 3036 3864, XY 3532 3532,
     XY 3864 3036, XY 3950 2450, Y 927, X 4250, XY 4276 800, XY 8551 1601, Z (-6158), Z 10000]"

text \<open>Lines 19717 to 19794.\<close>

definition full_layer_226 :: "pline list" where
  "full_layer_226 = [
     Z (-6356), Z (-9356), XY 5750 1076, XY 5869 (-360), XY 5604 (-1780), XY 5001 (-3093),
     XY 4095 (-4219), XY 2943 (-5091), XY 1613 (-5655), XY 185 (-5877), XY (-1247) (-5716),
     XY (-927) (-4250), X 927, XY 313 (-4369), X (-313), XY (-927) (-4250), XY (-1247) (-5716),
     XY (-2698) (-5225), XY (-3958) (-4348), XY (-4949) (-3176), XY (-5602) (-1787), XY (-5874) (-276),
     XY (-5716) 1247, XY (-4250) 927, Y (-927), XY (-4369) (-313), Y 313, XY (-4250) 927,
     XY (-5716) 1247, XY (-5225) 2698, XY (-4348) 3958, XY (-3176) 4949, XY (-1787) 5602,
     XY (-276) 5874, XY 1247 5716, XY 927 4250, X (-927), XY (-313) 4369, X 313, XY 927 4250,
     XY 1247 5716, XY 2552 5297, XY 3712 4560, XY 4669 3574, XY 5371 2394, XY 5750 1076, XY 4276 800,
     XY 4374 227, XY 4365 (-357), XY 4250 (-927), Y 927, X 3950, Y (-2450), XY 3864 (-3036),
     XY 3532 (-3532), XY 3036 (-3864), XY 2450 (-3950), X (-2450), XY (-3036) (-3864),
     XY (-3532) (-3532), XY (-3864) (-3036), XY (-3950) (-2450), Y 2450, XY (-3864) 3036,
     XY (-3532) 3532, XY (-3036) 3864, XY (-2450) 3950, X 2450, XY 3036 3864, XY 3532 3532,
     XY 3864 3036, XY 3950 2450, Y 927, X 4250, XY 4276 800, XY 8551 1601, Z (-6356), Z 10000]"

text \<open>Lines 19795 to 19872.\<close>

definition full_layer_227 :: "pline list" where
  "full_layer_227 = [
     Z (-6554), Z (-9554), XY 5750 1076, XY 5869 (-360), XY 5604 (-1780), XY 5001 (-3093),
     XY 4095 (-4219), XY 2943 (-5091), XY 1613 (-5655), XY 185 (-5877), XY (-1247) (-5716),
     XY (-927) (-4250), X 927, XY 313 (-4369), X (-313), XY (-927) (-4250), XY (-1247) (-5716),
     XY (-2698) (-5225), XY (-3958) (-4348), XY (-4949) (-3176), XY (-5602) (-1787), XY (-5874) (-276),
     XY (-5716) 1247, XY (-4250) 927, Y (-927), XY (-4369) (-313), Y 313, XY (-4250) 927,
     XY (-5716) 1247, XY (-5225) 2698, XY (-4348) 3958, XY (-3176) 4949, XY (-1787) 5602,
     XY (-276) 5874, XY 1247 5716, XY 927 4250, X (-927), XY (-313) 4369, X 313, XY 927 4250,
     XY 1247 5716, XY 2552 5297, XY 3712 4560, XY 4669 3574, XY 5371 2394, XY 5750 1076, XY 4276 800,
     XY 4374 227, XY 4365 (-357), XY 4250 (-927), Y 927, X 3950, Y (-2450), XY 3864 (-3036),
     XY 3532 (-3532), XY 3036 (-3864), XY 2450 (-3950), X (-2450), XY (-3036) (-3864),
     XY (-3532) (-3532), XY (-3864) (-3036), XY (-3950) (-2450), Y 2450, XY (-3864) 3036,
     XY (-3532) 3532, XY (-3036) 3864, XY (-2450) 3950, X 2450, XY 3036 3864, XY 3532 3532,
     XY 3864 3036, XY 3950 2450, Y 927, X 4250, XY 4276 800, XY 8551 1601, Z (-6554), Z 10000]"

text \<open>Lines 19873 to 19950.\<close>

definition full_layer_228 :: "pline list" where
  "full_layer_228 = [
     Z (-6752), Z (-9752), XY 5750 1076, XY 5869 (-360), XY 5604 (-1780), XY 5001 (-3093),
     XY 4095 (-4219), XY 2943 (-5091), XY 1613 (-5655), XY 185 (-5877), XY (-1247) (-5716),
     XY (-927) (-4250), X 927, XY 313 (-4369), X (-313), XY (-927) (-4250), XY (-1247) (-5716),
     XY (-2698) (-5225), XY (-3958) (-4348), XY (-4949) (-3176), XY (-5602) (-1787), XY (-5874) (-276),
     XY (-5716) 1247, XY (-4250) 927, Y (-927), XY (-4369) (-313), Y 313, XY (-4250) 927,
     XY (-5716) 1247, XY (-5225) 2698, XY (-4348) 3958, XY (-3176) 4949, XY (-1787) 5602,
     XY (-276) 5874, XY 1247 5716, XY 927 4250, X (-927), XY (-313) 4369, X 313, XY 927 4250,
     XY 1247 5716, XY 2552 5297, XY 3712 4560, XY 4669 3574, XY 5371 2394, XY 5750 1076, XY 4276 800,
     XY 4374 227, XY 4365 (-357), XY 4250 (-927), Y 927, X 3950, Y (-2450), XY 3864 (-3036),
     XY 3532 (-3532), XY 3036 (-3864), XY 2450 (-3950), X (-2450), XY (-3036) (-3864),
     XY (-3532) (-3532), XY (-3864) (-3036), XY (-3950) (-2450), Y 2450, XY (-3864) 3036,
     XY (-3532) 3532, XY (-3036) 3864, XY (-2450) 3950, X 2450, XY 3036 3864, XY 3532 3532,
     XY 3864 3036, XY 3950 2450, Y 927, X 4250, XY 4276 800, XY 8551 1601, Z (-6752), Z 10000]"

text \<open>Lines 19951 to 20028.\<close>

definition full_layer_229 :: "pline list" where
  "full_layer_229 = [
     Z (-6950), Z (-9950), XY 5750 1076, XY 5869 (-360), XY 5604 (-1780), XY 5001 (-3093),
     XY 4095 (-4219), XY 2943 (-5091), XY 1613 (-5655), XY 185 (-5877), XY (-1247) (-5716),
     XY (-927) (-4250), X 927, XY 313 (-4369), X (-313), XY (-927) (-4250), XY (-1247) (-5716),
     XY (-2698) (-5225), XY (-3958) (-4348), XY (-4949) (-3176), XY (-5602) (-1787), XY (-5874) (-276),
     XY (-5716) 1247, XY (-4250) 927, Y (-927), XY (-4369) (-313), Y 313, XY (-4250) 927,
     XY (-5716) 1247, XY (-5225) 2698, XY (-4348) 3958, XY (-3176) 4949, XY (-1787) 5602,
     XY (-276) 5874, XY 1247 5716, XY 927 4250, X (-927), XY (-313) 4369, X 313, XY 927 4250,
     XY 1247 5716, XY 2552 5297, XY 3712 4560, XY 4669 3574, XY 5371 2394, XY 5750 1076, XY 4276 800,
     XY 4374 227, XY 4365 (-357), XY 4250 (-927), Y 927, X 3950, Y (-2450), XY 3864 (-3036),
     XY 3532 (-3532), XY 3036 (-3864), XY 2450 (-3950), X (-2450), XY (-3036) (-3864),
     XY (-3532) (-3532), XY (-3864) (-3036), XY (-3950) (-2450), Y 2450, XY (-3864) 3036,
     XY (-3532) 3532, XY (-3036) 3864, XY (-2450) 3950, X 2450, XY 3036 3864, XY 3532 3532,
     XY 3864 3036, XY 3950 2450, Y 927, X 4250, XY 4276 800, XY 8551 1601, Z (-6950), Z 10000]"

text \<open>Lines 20029 to 20106.\<close>

definition full_layer_230 :: "pline list" where
  "full_layer_230 = [
     Z (-7148), Z (-10148), XY 5750 1076, XY 5869 (-360), XY 5604 (-1780), XY 5001 (-3093),
     XY 4095 (-4219), XY 2943 (-5091), XY 1613 (-5655), XY 185 (-5877), XY (-1247) (-5716),
     XY (-927) (-4250), X 927, XY 313 (-4369), X (-313), XY (-927) (-4250), XY (-1247) (-5716),
     XY (-2698) (-5225), XY (-3958) (-4348), XY (-4949) (-3176), XY (-5602) (-1787), XY (-5874) (-276),
     XY (-5716) 1247, XY (-4250) 927, Y (-927), XY (-4369) (-313), Y 313, XY (-4250) 927,
     XY (-5716) 1247, XY (-5225) 2698, XY (-4348) 3958, XY (-3176) 4949, XY (-1787) 5602,
     XY (-276) 5874, XY 1247 5716, XY 927 4250, X (-927), XY (-313) 4369, X 313, XY 927 4250,
     XY 1247 5716, XY 2552 5297, XY 3712 4560, XY 4669 3574, XY 5371 2394, XY 5750 1076, XY 4276 800,
     XY 4374 227, XY 4365 (-357), XY 4250 (-927), Y 927, X 3950, Y (-2450), XY 3864 (-3036),
     XY 3532 (-3532), XY 3036 (-3864), XY 2450 (-3950), X (-2450), XY (-3036) (-3864),
     XY (-3532) (-3532), XY (-3864) (-3036), XY (-3950) (-2450), Y 2450, XY (-3864) 3036,
     XY (-3532) 3532, XY (-3036) 3864, XY (-2450) 3950, X 2450, XY 3036 3864, XY 3532 3532,
     XY 3864 3036, XY 3950 2450, Y 927, X 4250, XY 4276 800, XY 8551 1601, Z (-7148), Z 10000]"

text \<open>Lines 20107 to 20184.\<close>

definition full_layer_231 :: "pline list" where
  "full_layer_231 = [
     Z (-7346), Z (-10346), XY 5750 1076, XY 5869 (-360), XY 5604 (-1780), XY 5001 (-3093),
     XY 4095 (-4219), XY 2943 (-5091), XY 1613 (-5655), XY 185 (-5877), XY (-1247) (-5716),
     XY (-927) (-4250), X 927, XY 313 (-4369), X (-313), XY (-927) (-4250), XY (-1247) (-5716),
     XY (-2698) (-5225), XY (-3958) (-4348), XY (-4949) (-3176), XY (-5602) (-1787), XY (-5874) (-276),
     XY (-5716) 1247, XY (-4250) 927, Y (-927), XY (-4369) (-313), Y 313, XY (-4250) 927,
     XY (-5716) 1247, XY (-5225) 2698, XY (-4348) 3958, XY (-3176) 4949, XY (-1787) 5602,
     XY (-276) 5874, XY 1247 5716, XY 927 4250, X (-927), XY (-313) 4369, X 313, XY 927 4250,
     XY 1247 5716, XY 2552 5297, XY 3712 4560, XY 4669 3574, XY 5371 2394, XY 5750 1076, XY 4276 800,
     XY 4374 227, XY 4365 (-357), XY 4250 (-927), Y 927, X 3950, Y (-2450), XY 3864 (-3036),
     XY 3532 (-3532), XY 3036 (-3864), XY 2450 (-3950), X (-2450), XY (-3036) (-3864),
     XY (-3532) (-3532), XY (-3864) (-3036), XY (-3950) (-2450), Y 2450, XY (-3864) 3036,
     XY (-3532) 3532, XY (-3036) 3864, XY (-2450) 3950, X 2450, XY 3036 3864, XY 3532 3532,
     XY 3864 3036, XY 3950 2450, Y 927, X 4250, XY 4276 800, XY 8551 1601, Z (-7346), Z 10000]"

text \<open>Lines 20185 to 20262.\<close>

definition full_layer_232 :: "pline list" where
  "full_layer_232 = [
     Z (-7544), Z (-10544), XY 5750 1076, XY 5869 (-360), XY 5604 (-1780), XY 5001 (-3093),
     XY 4095 (-4219), XY 2943 (-5091), XY 1613 (-5655), XY 185 (-5877), XY (-1247) (-5716),
     XY (-927) (-4250), X 927, XY 313 (-4369), X (-313), XY (-927) (-4250), XY (-1247) (-5716),
     XY (-2698) (-5225), XY (-3958) (-4348), XY (-4949) (-3176), XY (-5602) (-1787), XY (-5874) (-276),
     XY (-5716) 1247, XY (-4250) 927, Y (-927), XY (-4369) (-313), Y 313, XY (-4250) 927,
     XY (-5716) 1247, XY (-5225) 2698, XY (-4348) 3958, XY (-3176) 4949, XY (-1787) 5602,
     XY (-276) 5874, XY 1247 5716, XY 927 4250, X (-927), XY (-313) 4369, X 313, XY 927 4250,
     XY 1247 5716, XY 2552 5297, XY 3712 4560, XY 4669 3574, XY 5371 2394, XY 5750 1076, XY 4276 800,
     XY 4374 227, XY 4365 (-357), XY 4250 (-927), Y 927, X 3950, Y (-2450), XY 3864 (-3036),
     XY 3532 (-3532), XY 3036 (-3864), XY 2450 (-3950), X (-2450), XY (-3036) (-3864),
     XY (-3532) (-3532), XY (-3864) (-3036), XY (-3950) (-2450), Y 2450, XY (-3864) 3036,
     XY (-3532) 3532, XY (-3036) 3864, XY (-2450) 3950, X 2450, XY 3036 3864, XY 3532 3532,
     XY 3864 3036, XY 3950 2450, Y 927, X 4250, XY 4276 800, XY 8551 1601, Z (-7544), Z 10000]"

text \<open>Lines 20263 to 20340.\<close>

definition full_layer_233 :: "pline list" where
  "full_layer_233 = [
     Z (-7742), Z (-10742), XY 5750 1076, XY 5869 (-360), XY 5604 (-1780), XY 5001 (-3093),
     XY 4095 (-4219), XY 2943 (-5091), XY 1613 (-5655), XY 185 (-5877), XY (-1247) (-5716),
     XY (-927) (-4250), X 927, XY 313 (-4369), X (-313), XY (-927) (-4250), XY (-1247) (-5716),
     XY (-2698) (-5225), XY (-3958) (-4348), XY (-4949) (-3176), XY (-5602) (-1787), XY (-5874) (-276),
     XY (-5716) 1247, XY (-4250) 927, Y (-927), XY (-4369) (-313), Y 313, XY (-4250) 927,
     XY (-5716) 1247, XY (-5225) 2698, XY (-4348) 3958, XY (-3176) 4949, XY (-1787) 5602,
     XY (-276) 5874, XY 1247 5716, XY 927 4250, X (-927), XY (-313) 4369, X 313, XY 927 4250,
     XY 1247 5716, XY 2552 5297, XY 3712 4560, XY 4669 3574, XY 5371 2394, XY 5750 1076, XY 4276 800,
     XY 4374 227, XY 4365 (-357), XY 4250 (-927), Y 927, X 3950, Y (-2450), XY 3864 (-3036),
     XY 3532 (-3532), XY 3036 (-3864), XY 2450 (-3950), X (-2450), XY (-3036) (-3864),
     XY (-3532) (-3532), XY (-3864) (-3036), XY (-3950) (-2450), Y 2450, XY (-3864) 3036,
     XY (-3532) 3532, XY (-3036) 3864, XY (-2450) 3950, X 2450, XY 3036 3864, XY 3532 3532,
     XY 3864 3036, XY 3950 2450, Y 927, X 4250, XY 4276 800, XY 8551 1601, Z (-7742), Z 10000]"

text \<open>Lines 20341 to 20418.\<close>

definition full_layer_234 :: "pline list" where
  "full_layer_234 = [
     Z (-7940), Z (-10940), XY 5750 1076, XY 5869 (-360), XY 5604 (-1780), XY 5001 (-3093),
     XY 4095 (-4219), XY 2943 (-5091), XY 1613 (-5655), XY 185 (-5877), XY (-1247) (-5716),
     XY (-927) (-4250), X 927, XY 313 (-4369), X (-313), XY (-927) (-4250), XY (-1247) (-5716),
     XY (-2698) (-5225), XY (-3958) (-4348), XY (-4949) (-3176), XY (-5602) (-1787), XY (-5874) (-276),
     XY (-5716) 1247, XY (-4250) 927, Y (-927), XY (-4369) (-313), Y 313, XY (-4250) 927,
     XY (-5716) 1247, XY (-5225) 2698, XY (-4348) 3958, XY (-3176) 4949, XY (-1787) 5602,
     XY (-276) 5874, XY 1247 5716, XY 927 4250, X (-927), XY (-313) 4369, X 313, XY 927 4250,
     XY 1247 5716, XY 2552 5297, XY 3712 4560, XY 4669 3574, XY 5371 2394, XY 5750 1076, XY 4276 800,
     XY 4374 227, XY 4365 (-357), XY 4250 (-927), Y 927, X 3950, Y (-2450), XY 3864 (-3036),
     XY 3532 (-3532), XY 3036 (-3864), XY 2450 (-3950), X (-2450), XY (-3036) (-3864),
     XY (-3532) (-3532), XY (-3864) (-3036), XY (-3950) (-2450), Y 2450, XY (-3864) 3036,
     XY (-3532) 3532, XY (-3036) 3864, XY (-2450) 3950, X 2450, XY 3036 3864, XY 3532 3532,
     XY 3864 3036, XY 3950 2450, Y 927, X 4250, XY 4276 800, XY 8551 1601, Z (-7940), Z 10000]"

text \<open>Lines 20419 to 20496.\<close>

definition full_layer_235 :: "pline list" where
  "full_layer_235 = [
     Z (-8138), Z (-11138), XY 5750 1076, XY 5869 (-360), XY 5604 (-1780), XY 5001 (-3093),
     XY 4095 (-4219), XY 2943 (-5091), XY 1613 (-5655), XY 185 (-5877), XY (-1247) (-5716),
     XY (-927) (-4250), X 927, XY 313 (-4369), X (-313), XY (-927) (-4250), XY (-1247) (-5716),
     XY (-2698) (-5225), XY (-3958) (-4348), XY (-4949) (-3176), XY (-5602) (-1787), XY (-5874) (-276),
     XY (-5716) 1247, XY (-4250) 927, Y (-927), XY (-4369) (-313), Y 313, XY (-4250) 927,
     XY (-5716) 1247, XY (-5225) 2698, XY (-4348) 3958, XY (-3176) 4949, XY (-1787) 5602,
     XY (-276) 5874, XY 1247 5716, XY 927 4250, X (-927), XY (-313) 4369, X 313, XY 927 4250,
     XY 1247 5716, XY 2552 5297, XY 3712 4560, XY 4669 3574, XY 5371 2394, XY 5750 1076, XY 4276 800,
     XY 4374 227, XY 4365 (-357), XY 4250 (-927), Y 927, X 3950, Y (-2450), XY 3864 (-3036),
     XY 3532 (-3532), XY 3036 (-3864), XY 2450 (-3950), X (-2450), XY (-3036) (-3864),
     XY (-3532) (-3532), XY (-3864) (-3036), XY (-3950) (-2450), Y 2450, XY (-3864) 3036,
     XY (-3532) 3532, XY (-3036) 3864, XY (-2450) 3950, X 2450, XY 3036 3864, XY 3532 3532,
     XY 3864 3036, XY 3950 2450, Y 927, X 4250, XY 4276 800, XY 8551 1601, Z (-8138), Z 10000]"

text \<open>Lines 20497 to 20574.\<close>

definition full_layer_236 :: "pline list" where
  "full_layer_236 = [
     Z (-8336), Z (-11336), XY 5750 1076, XY 5869 (-360), XY 5604 (-1780), XY 5001 (-3093),
     XY 4095 (-4219), XY 2943 (-5091), XY 1613 (-5655), XY 185 (-5877), XY (-1247) (-5716),
     XY (-927) (-4250), X 927, XY 313 (-4369), X (-313), XY (-927) (-4250), XY (-1247) (-5716),
     XY (-2698) (-5225), XY (-3958) (-4348), XY (-4949) (-3176), XY (-5602) (-1787), XY (-5874) (-276),
     XY (-5716) 1247, XY (-4250) 927, Y (-927), XY (-4369) (-313), Y 313, XY (-4250) 927,
     XY (-5716) 1247, XY (-5225) 2698, XY (-4348) 3958, XY (-3176) 4949, XY (-1787) 5602,
     XY (-276) 5874, XY 1247 5716, XY 927 4250, X (-927), XY (-313) 4369, X 313, XY 927 4250,
     XY 1247 5716, XY 2552 5297, XY 3712 4560, XY 4669 3574, XY 5371 2394, XY 5750 1076, XY 4276 800,
     XY 4374 227, XY 4365 (-357), XY 4250 (-927), Y 927, X 3950, Y (-2450), XY 3864 (-3036),
     XY 3532 (-3532), XY 3036 (-3864), XY 2450 (-3950), X (-2450), XY (-3036) (-3864),
     XY (-3532) (-3532), XY (-3864) (-3036), XY (-3950) (-2450), Y 2450, XY (-3864) 3036,
     XY (-3532) 3532, XY (-3036) 3864, XY (-2450) 3950, X 2450, XY 3036 3864, XY 3532 3532,
     XY 3864 3036, XY 3950 2450, Y 927, X 4250, XY 4276 800, XY 8551 1601, Z (-8336), Z 10000]"

text \<open>Lines 20575 to 20652.\<close>

definition full_layer_237 :: "pline list" where
  "full_layer_237 = [
     Z (-8534), Z (-11534), XY 5750 1076, XY 5869 (-360), XY 5604 (-1780), XY 5001 (-3093),
     XY 4095 (-4219), XY 2943 (-5091), XY 1613 (-5655), XY 185 (-5877), XY (-1247) (-5716),
     XY (-927) (-4250), X 927, XY 313 (-4369), X (-313), XY (-927) (-4250), XY (-1247) (-5716),
     XY (-2698) (-5225), XY (-3958) (-4348), XY (-4949) (-3176), XY (-5602) (-1787), XY (-5874) (-276),
     XY (-5716) 1247, XY (-4250) 927, Y (-927), XY (-4369) (-313), Y 313, XY (-4250) 927,
     XY (-5716) 1247, XY (-5225) 2698, XY (-4348) 3958, XY (-3176) 4949, XY (-1787) 5602,
     XY (-276) 5874, XY 1247 5716, XY 927 4250, X (-927), XY (-313) 4369, X 313, XY 927 4250,
     XY 1247 5716, XY 2552 5297, XY 3712 4560, XY 4669 3574, XY 5371 2394, XY 5750 1076, XY 4276 800,
     XY 4374 227, XY 4365 (-357), XY 4250 (-927), Y 927, X 3950, Y (-2450), XY 3864 (-3036),
     XY 3532 (-3532), XY 3036 (-3864), XY 2450 (-3950), X (-2450), XY (-3036) (-3864),
     XY (-3532) (-3532), XY (-3864) (-3036), XY (-3950) (-2450), Y 2450, XY (-3864) 3036,
     XY (-3532) 3532, XY (-3036) 3864, XY (-2450) 3950, X 2450, XY 3036 3864, XY 3532 3532,
     XY 3864 3036, XY 3950 2450, Y 927, X 4250, XY 4276 800, XY 8551 1601, Z (-8534), Z 10000]"

text \<open>Lines 20653 to 20730.\<close>

definition full_layer_238 :: "pline list" where
  "full_layer_238 = [
     Z (-8732), Z (-11732), XY 5750 1076, XY 5869 (-360), XY 5604 (-1780), XY 5001 (-3093),
     XY 4095 (-4219), XY 2943 (-5091), XY 1613 (-5655), XY 185 (-5877), XY (-1247) (-5716),
     XY (-927) (-4250), X 927, XY 313 (-4369), X (-313), XY (-927) (-4250), XY (-1247) (-5716),
     XY (-2698) (-5225), XY (-3958) (-4348), XY (-4949) (-3176), XY (-5602) (-1787), XY (-5874) (-276),
     XY (-5716) 1247, XY (-4250) 927, Y (-927), XY (-4369) (-313), Y 313, XY (-4250) 927,
     XY (-5716) 1247, XY (-5225) 2698, XY (-4348) 3958, XY (-3176) 4949, XY (-1787) 5602,
     XY (-276) 5874, XY 1247 5716, XY 927 4250, X (-927), XY (-313) 4369, X 313, XY 927 4250,
     XY 1247 5716, XY 2552 5297, XY 3712 4560, XY 4669 3574, XY 5371 2394, XY 5750 1076, XY 4276 800,
     XY 4374 227, XY 4365 (-357), XY 4250 (-927), Y 927, X 3950, Y (-2450), XY 3864 (-3036),
     XY 3532 (-3532), XY 3036 (-3864), XY 2450 (-3950), X (-2450), XY (-3036) (-3864),
     XY (-3532) (-3532), XY (-3864) (-3036), XY (-3950) (-2450), Y 2450, XY (-3864) 3036,
     XY (-3532) 3532, XY (-3036) 3864, XY (-2450) 3950, X 2450, XY 3036 3864, XY 3532 3532,
     XY 3864 3036, XY 3950 2450, Y 927, X 4250, XY 4276 800, XY 8551 1601, Z (-8732), Z 10000]"

text \<open>Lines 20731 to 20808.\<close>

definition full_layer_239 :: "pline list" where
  "full_layer_239 = [
     Z (-8930), Z (-11930), XY 5750 1076, XY 5869 (-360), XY 5604 (-1780), XY 5001 (-3093),
     XY 4095 (-4219), XY 2943 (-5091), XY 1613 (-5655), XY 185 (-5877), XY (-1247) (-5716),
     XY (-927) (-4250), X 927, XY 313 (-4369), X (-313), XY (-927) (-4250), XY (-1247) (-5716),
     XY (-2698) (-5225), XY (-3958) (-4348), XY (-4949) (-3176), XY (-5602) (-1787), XY (-5874) (-276),
     XY (-5716) 1247, XY (-4250) 927, Y (-927), XY (-4369) (-313), Y 313, XY (-4250) 927,
     XY (-5716) 1247, XY (-5225) 2698, XY (-4348) 3958, XY (-3176) 4949, XY (-1787) 5602,
     XY (-276) 5874, XY 1247 5716, XY 927 4250, X (-927), XY (-313) 4369, X 313, XY 927 4250,
     XY 1247 5716, XY 2552 5297, XY 3712 4560, XY 4669 3574, XY 5371 2394, XY 5750 1076, XY 4276 800,
     XY 4374 227, XY 4365 (-357), XY 4250 (-927), Y 927, X 3950, Y (-2450), XY 3864 (-3036),
     XY 3532 (-3532), XY 3036 (-3864), XY 2450 (-3950), X (-2450), XY (-3036) (-3864),
     XY (-3532) (-3532), XY (-3864) (-3036), XY (-3950) (-2450), Y 2450, XY (-3864) 3036,
     XY (-3532) 3532, XY (-3036) 3864, XY (-2450) 3950, X 2450, XY 3036 3864, XY 3532 3532,
     XY 3864 3036, XY 3950 2450, Y 927, X 4250, XY 4276 800, XY 8551 1601, Z (-8930), Z 10000]"

text \<open>Lines 20809 to 20886.\<close>

definition full_layer_240 :: "pline list" where
  "full_layer_240 = [
     Z (-9128), Z (-12128), XY 5750 1076, XY 5869 (-360), XY 5604 (-1780), XY 5001 (-3093),
     XY 4095 (-4219), XY 2943 (-5091), XY 1613 (-5655), XY 185 (-5877), XY (-1247) (-5716),
     XY (-927) (-4250), X 927, XY 313 (-4369), X (-313), XY (-927) (-4250), XY (-1247) (-5716),
     XY (-2698) (-5225), XY (-3958) (-4348), XY (-4949) (-3176), XY (-5602) (-1787), XY (-5874) (-276),
     XY (-5716) 1247, XY (-4250) 927, Y (-927), XY (-4369) (-313), Y 313, XY (-4250) 927,
     XY (-5716) 1247, XY (-5225) 2698, XY (-4348) 3958, XY (-3176) 4949, XY (-1787) 5602,
     XY (-276) 5874, XY 1247 5716, XY 927 4250, X (-927), XY (-313) 4369, X 313, XY 927 4250,
     XY 1247 5716, XY 2552 5297, XY 3712 4560, XY 4669 3574, XY 5371 2394, XY 5750 1076, XY 4276 800,
     XY 4374 227, XY 4365 (-357), XY 4250 (-927), Y 927, X 3950, Y (-2450), XY 3864 (-3036),
     XY 3532 (-3532), XY 3036 (-3864), XY 2450 (-3950), X (-2450), XY (-3036) (-3864),
     XY (-3532) (-3532), XY (-3864) (-3036), XY (-3950) (-2450), Y 2450, XY (-3864) 3036,
     XY (-3532) 3532, XY (-3036) 3864, XY (-2450) 3950, X 2450, XY 3036 3864, XY 3532 3532,
     XY 3864 3036, XY 3950 2450, Y 927, X 4250, XY 4276 800, XY 8551 1601, Z (-9128), Z 10000]"

text \<open>Lines 20887 to 20964.\<close>

definition full_layer_241 :: "pline list" where
  "full_layer_241 = [
     Z (-9326), Z (-12326), XY 5750 1076, XY 5869 (-360), XY 5604 (-1780), XY 5001 (-3093),
     XY 4095 (-4219), XY 2943 (-5091), XY 1613 (-5655), XY 185 (-5877), XY (-1247) (-5716),
     XY (-927) (-4250), X 927, XY 313 (-4369), X (-313), XY (-927) (-4250), XY (-1247) (-5716),
     XY (-2698) (-5225), XY (-3958) (-4348), XY (-4949) (-3176), XY (-5602) (-1787), XY (-5874) (-276),
     XY (-5716) 1247, XY (-4250) 927, Y (-927), XY (-4369) (-313), Y 313, XY (-4250) 927,
     XY (-5716) 1247, XY (-5225) 2698, XY (-4348) 3958, XY (-3176) 4949, XY (-1787) 5602,
     XY (-276) 5874, XY 1247 5716, XY 927 4250, X (-927), XY (-313) 4369, X 313, XY 927 4250,
     XY 1247 5716, XY 2552 5297, XY 3712 4560, XY 4669 3574, XY 5371 2394, XY 5750 1076, XY 4276 800,
     XY 4374 227, XY 4365 (-357), XY 4250 (-927), Y 927, X 3950, Y (-2450), XY 3864 (-3036),
     XY 3532 (-3532), XY 3036 (-3864), XY 2450 (-3950), X (-2450), XY (-3036) (-3864),
     XY (-3532) (-3532), XY (-3864) (-3036), XY (-3950) (-2450), Y 2450, XY (-3864) 3036,
     XY (-3532) 3532, XY (-3036) 3864, XY (-2450) 3950, X 2450, XY 3036 3864, XY 3532 3532,
     XY 3864 3036, XY 3950 2450, Y 927, X 4250, XY 4276 800, XY 8551 1601, Z (-9326), Z 10000]"

text \<open>Lines 20965 to 21042.\<close>

definition full_layer_242 :: "pline list" where
  "full_layer_242 = [
     Z (-9524), Z (-12524), XY 5750 1076, XY 5869 (-360), XY 5604 (-1780), XY 5001 (-3093),
     XY 4095 (-4219), XY 2943 (-5091), XY 1613 (-5655), XY 185 (-5877), XY (-1247) (-5716),
     XY (-927) (-4250), X 927, XY 313 (-4369), X (-313), XY (-927) (-4250), XY (-1247) (-5716),
     XY (-2698) (-5225), XY (-3958) (-4348), XY (-4949) (-3176), XY (-5602) (-1787), XY (-5874) (-276),
     XY (-5716) 1247, XY (-4250) 927, Y (-927), XY (-4369) (-313), Y 313, XY (-4250) 927,
     XY (-5716) 1247, XY (-5225) 2698, XY (-4348) 3958, XY (-3176) 4949, XY (-1787) 5602,
     XY (-276) 5874, XY 1247 5716, XY 927 4250, X (-927), XY (-313) 4369, X 313, XY 927 4250,
     XY 1247 5716, XY 2552 5297, XY 3712 4560, XY 4669 3574, XY 5371 2394, XY 5750 1076, XY 4276 800,
     XY 4374 227, XY 4365 (-357), XY 4250 (-927), Y 927, X 3950, Y (-2450), XY 3864 (-3036),
     XY 3532 (-3532), XY 3036 (-3864), XY 2450 (-3950), X (-2450), XY (-3036) (-3864),
     XY (-3532) (-3532), XY (-3864) (-3036), XY (-3950) (-2450), Y 2450, XY (-3864) 3036,
     XY (-3532) 3532, XY (-3036) 3864, XY (-2450) 3950, X 2450, XY 3036 3864, XY 3532 3532,
     XY 3864 3036, XY 3950 2450, Y 927, X 4250, XY 4276 800, XY 8551 1601, Z (-9524), Z 10000]"

text \<open>Lines 21043 to 21120.\<close>

definition full_layer_243 :: "pline list" where
  "full_layer_243 = [
     Z (-9722), Z (-12722), XY 5750 1076, XY 5869 (-360), XY 5604 (-1780), XY 5001 (-3093),
     XY 4095 (-4219), XY 2943 (-5091), XY 1613 (-5655), XY 185 (-5877), XY (-1247) (-5716),
     XY (-927) (-4250), X 927, XY 313 (-4369), X (-313), XY (-927) (-4250), XY (-1247) (-5716),
     XY (-2698) (-5225), XY (-3958) (-4348), XY (-4949) (-3176), XY (-5602) (-1787), XY (-5874) (-276),
     XY (-5716) 1247, XY (-4250) 927, Y (-927), XY (-4369) (-313), Y 313, XY (-4250) 927,
     XY (-5716) 1247, XY (-5225) 2698, XY (-4348) 3958, XY (-3176) 4949, XY (-1787) 5602,
     XY (-276) 5874, XY 1247 5716, XY 927 4250, X (-927), XY (-313) 4369, X 313, XY 927 4250,
     XY 1247 5716, XY 2552 5297, XY 3712 4560, XY 4669 3574, XY 5371 2394, XY 5750 1076, XY 4276 800,
     XY 4374 227, XY 4365 (-357), XY 4250 (-927), Y 927, X 3950, Y (-2450), XY 3864 (-3036),
     XY 3532 (-3532), XY 3036 (-3864), XY 2450 (-3950), X (-2450), XY (-3036) (-3864),
     XY (-3532) (-3532), XY (-3864) (-3036), XY (-3950) (-2450), Y 2450, XY (-3864) 3036,
     XY (-3532) 3532, XY (-3036) 3864, XY (-2450) 3950, X 2450, XY 3036 3864, XY 3532 3532,
     XY 3864 3036, XY 3950 2450, Y 927, X 4250, XY 4276 800, XY 8551 1601, Z (-9722), Z 10000]"

text \<open>Lines 21121 to 21198.\<close>

definition full_layer_244 :: "pline list" where
  "full_layer_244 = [
     Z (-9920), Z (-12920), XY 5750 1076, XY 5869 (-360), XY 5604 (-1780), XY 5001 (-3093),
     XY 4095 (-4219), XY 2943 (-5091), XY 1613 (-5655), XY 185 (-5877), XY (-1247) (-5716),
     XY (-927) (-4250), X 927, XY 313 (-4369), X (-313), XY (-927) (-4250), XY (-1247) (-5716),
     XY (-2698) (-5225), XY (-3958) (-4348), XY (-4949) (-3176), XY (-5602) (-1787), XY (-5874) (-276),
     XY (-5716) 1247, XY (-4250) 927, Y (-927), XY (-4369) (-313), Y 313, XY (-4250) 927,
     XY (-5716) 1247, XY (-5225) 2698, XY (-4348) 3958, XY (-3176) 4949, XY (-1787) 5602,
     XY (-276) 5874, XY 1247 5716, XY 927 4250, X (-927), XY (-313) 4369, X 313, XY 927 4250,
     XY 1247 5716, XY 2552 5297, XY 3712 4560, XY 4669 3574, XY 5371 2394, XY 5750 1076, XY 4276 800,
     XY 4374 227, XY 4365 (-357), XY 4250 (-927), Y 927, X 3950, Y (-2450), XY 3864 (-3036),
     XY 3532 (-3532), XY 3036 (-3864), XY 2450 (-3950), X (-2450), XY (-3036) (-3864),
     XY (-3532) (-3532), XY (-3864) (-3036), XY (-3950) (-2450), Y 2450, XY (-3864) 3036,
     XY (-3532) 3532, XY (-3036) 3864, XY (-2450) 3950, X 2450, XY 3036 3864, XY 3532 3532,
     XY 3864 3036, XY 3950 2450, Y 927, X 4250, XY 4276 800, XY 8551 1601, Z (-9920), Z 10000]"

text \<open>Lines 21199 to 21276.\<close>

definition full_layer_245 :: "pline list" where
  "full_layer_245 = [
     Z (-10118), Z (-13118), XY 5750 1076, XY 5869 (-360), XY 5604 (-1780), XY 5001 (-3093),
     XY 4095 (-4219), XY 2943 (-5091), XY 1613 (-5655), XY 185 (-5877), XY (-1247) (-5716),
     XY (-927) (-4250), X 927, XY 313 (-4369), X (-313), XY (-927) (-4250), XY (-1247) (-5716),
     XY (-2698) (-5225), XY (-3958) (-4348), XY (-4949) (-3176), XY (-5602) (-1787), XY (-5874) (-276),
     XY (-5716) 1247, XY (-4250) 927, Y (-927), XY (-4369) (-313), Y 313, XY (-4250) 927,
     XY (-5716) 1247, XY (-5225) 2698, XY (-4348) 3958, XY (-3176) 4949, XY (-1787) 5602,
     XY (-276) 5874, XY 1247 5716, XY 927 4250, X (-927), XY (-313) 4369, X 313, XY 927 4250,
     XY 1247 5716, XY 2552 5297, XY 3712 4560, XY 4669 3574, XY 5371 2394, XY 5750 1076, XY 4276 800,
     XY 4374 227, XY 4365 (-357), XY 4250 (-927), Y 927, X 3950, Y (-2450), XY 3864 (-3036),
     XY 3532 (-3532), XY 3036 (-3864), XY 2450 (-3950), X (-2450), XY (-3036) (-3864),
     XY (-3532) (-3532), XY (-3864) (-3036), XY (-3950) (-2450), Y 2450, XY (-3864) 3036,
     XY (-3532) 3532, XY (-3036) 3864, XY (-2450) 3950, X 2450, XY 3036 3864, XY 3532 3532,
     XY 3864 3036, XY 3950 2450, Y 927, X 4250, XY 4276 800, XY 8551 1601, Z (-10118), Z 10000]"

text \<open>Lines 21277 to 21354.\<close>

definition full_layer_246 :: "pline list" where
  "full_layer_246 = [
     Z (-10316), Z (-13316), XY 5750 1076, XY 5869 (-360), XY 5604 (-1780), XY 5001 (-3093),
     XY 4095 (-4219), XY 2943 (-5091), XY 1613 (-5655), XY 185 (-5877), XY (-1247) (-5716),
     XY (-927) (-4250), X 927, XY 313 (-4369), X (-313), XY (-927) (-4250), XY (-1247) (-5716),
     XY (-2698) (-5225), XY (-3958) (-4348), XY (-4949) (-3176), XY (-5602) (-1787), XY (-5874) (-276),
     XY (-5716) 1247, XY (-4250) 927, Y (-927), XY (-4369) (-313), Y 313, XY (-4250) 927,
     XY (-5716) 1247, XY (-5225) 2698, XY (-4348) 3958, XY (-3176) 4949, XY (-1787) 5602,
     XY (-276) 5874, XY 1247 5716, XY 927 4250, X (-927), XY (-313) 4369, X 313, XY 927 4250,
     XY 1247 5716, XY 2552 5297, XY 3712 4560, XY 4669 3574, XY 5371 2394, XY 5750 1076, XY 4276 800,
     XY 4374 227, XY 4365 (-357), XY 4250 (-927), Y 927, X 3950, Y (-2450), XY 3864 (-3036),
     XY 3532 (-3532), XY 3036 (-3864), XY 2450 (-3950), X (-2450), XY (-3036) (-3864),
     XY (-3532) (-3532), XY (-3864) (-3036), XY (-3950) (-2450), Y 2450, XY (-3864) 3036,
     XY (-3532) 3532, XY (-3036) 3864, XY (-2450) 3950, X 2450, XY 3036 3864, XY 3532 3532,
     XY 3864 3036, XY 3950 2450, Y 927, X 4250, XY 4276 800, XY 8551 1601, Z (-10316), Z 10000]"

text \<open>Lines 21355 to 21432.\<close>

definition full_layer_247 :: "pline list" where
  "full_layer_247 = [
     Z (-10514), Z (-13514), XY 5750 1076, XY 5869 (-360), XY 5604 (-1780), XY 5001 (-3093),
     XY 4095 (-4219), XY 2943 (-5091), XY 1613 (-5655), XY 185 (-5877), XY (-1247) (-5716),
     XY (-927) (-4250), X 927, XY 313 (-4369), X (-313), XY (-927) (-4250), XY (-1247) (-5716),
     XY (-2698) (-5225), XY (-3958) (-4348), XY (-4949) (-3176), XY (-5602) (-1787), XY (-5874) (-276),
     XY (-5716) 1247, XY (-4250) 927, Y (-927), XY (-4369) (-313), Y 313, XY (-4250) 927,
     XY (-5716) 1247, XY (-5225) 2698, XY (-4348) 3958, XY (-3176) 4949, XY (-1787) 5602,
     XY (-276) 5874, XY 1247 5716, XY 927 4250, X (-927), XY (-313) 4369, X 313, XY 927 4250,
     XY 1247 5716, XY 2552 5297, XY 3712 4560, XY 4669 3574, XY 5371 2394, XY 5750 1076, XY 4276 800,
     XY 4374 227, XY 4365 (-357), XY 4250 (-927), Y 927, X 3950, Y (-2450), XY 3864 (-3036),
     XY 3532 (-3532), XY 3036 (-3864), XY 2450 (-3950), X (-2450), XY (-3036) (-3864),
     XY (-3532) (-3532), XY (-3864) (-3036), XY (-3950) (-2450), Y 2450, XY (-3864) 3036,
     XY (-3532) 3532, XY (-3036) 3864, XY (-2450) 3950, X 2450, XY 3036 3864, XY 3532 3532,
     XY 3864 3036, XY 3950 2450, Y 927, X 4250, XY 4276 800, XY 8551 1601, Z (-10514), Z 10000]"

text \<open>Lines 21433 to 21510.\<close>

definition full_layer_248 :: "pline list" where
  "full_layer_248 = [
     Z (-10712), Z (-13712), XY 5750 1076, XY 5869 (-360), XY 5604 (-1780), XY 5001 (-3093),
     XY 4095 (-4219), XY 2943 (-5091), XY 1613 (-5655), XY 185 (-5877), XY (-1247) (-5716),
     XY (-927) (-4250), X 927, XY 313 (-4369), X (-313), XY (-927) (-4250), XY (-1247) (-5716),
     XY (-2698) (-5225), XY (-3958) (-4348), XY (-4949) (-3176), XY (-5602) (-1787), XY (-5874) (-276),
     XY (-5716) 1247, XY (-4250) 927, Y (-927), XY (-4369) (-313), Y 313, XY (-4250) 927,
     XY (-5716) 1247, XY (-5225) 2698, XY (-4348) 3958, XY (-3176) 4949, XY (-1787) 5602,
     XY (-276) 5874, XY 1247 5716, XY 927 4250, X (-927), XY (-313) 4369, X 313, XY 927 4250,
     XY 1247 5716, XY 2552 5297, XY 3712 4560, XY 4669 3574, XY 5371 2394, XY 5750 1076, XY 4276 800,
     XY 4374 227, XY 4365 (-357), XY 4250 (-927), Y 927, X 3950, Y (-2450), XY 3864 (-3036),
     XY 3532 (-3532), XY 3036 (-3864), XY 2450 (-3950), X (-2450), XY (-3036) (-3864),
     XY (-3532) (-3532), XY (-3864) (-3036), XY (-3950) (-2450), Y 2450, XY (-3864) 3036,
     XY (-3532) 3532, XY (-3036) 3864, XY (-2450) 3950, X 2450, XY 3036 3864, XY 3532 3532,
     XY 3864 3036, XY 3950 2450, Y 927, X 4250, XY 4276 800, XY 8551 1601, Z (-10712), Z 10000]"

text \<open>Lines 21511 to 21588.\<close>

definition full_layer_249 :: "pline list" where
  "full_layer_249 = [
     Z (-10910), Z (-13910), XY 5750 1076, XY 5869 (-360), XY 5604 (-1780), XY 5001 (-3093),
     XY 4095 (-4219), XY 2943 (-5091), XY 1613 (-5655), XY 185 (-5877), XY (-1247) (-5716),
     XY (-927) (-4250), X 927, XY 313 (-4369), X (-313), XY (-927) (-4250), XY (-1247) (-5716),
     XY (-2698) (-5225), XY (-3958) (-4348), XY (-4949) (-3176), XY (-5602) (-1787), XY (-5874) (-276),
     XY (-5716) 1247, XY (-4250) 927, Y (-927), XY (-4369) (-313), Y 313, XY (-4250) 927,
     XY (-5716) 1247, XY (-5225) 2698, XY (-4348) 3958, XY (-3176) 4949, XY (-1787) 5602,
     XY (-276) 5874, XY 1247 5716, XY 927 4250, X (-927), XY (-313) 4369, X 313, XY 927 4250,
     XY 1247 5716, XY 2552 5297, XY 3712 4560, XY 4669 3574, XY 5371 2394, XY 5750 1076, XY 4276 800,
     XY 4374 227, XY 4365 (-357), XY 4250 (-927), Y 927, X 3950, Y (-2450), XY 3864 (-3036),
     XY 3532 (-3532), XY 3036 (-3864), XY 2450 (-3950), X (-2450), XY (-3036) (-3864),
     XY (-3532) (-3532), XY (-3864) (-3036), XY (-3950) (-2450), Y 2450, XY (-3864) 3036,
     XY (-3532) 3532, XY (-3036) 3864, XY (-2450) 3950, X 2450, XY 3036 3864, XY 3532 3532,
     XY 3864 3036, XY 3950 2450, Y 927, X 4250, XY 4276 800, XY 8551 1601, Z (-10910), Z 10000]"

text \<open>Lines 21589 to 21666.\<close>

definition full_layer_250 :: "pline list" where
  "full_layer_250 = [
     Z (-11108), Z (-14108), XY 5750 1076, XY 5869 (-360), XY 5604 (-1780), XY 5001 (-3093),
     XY 4095 (-4219), XY 2943 (-5091), XY 1613 (-5655), XY 185 (-5877), XY (-1247) (-5716),
     XY (-927) (-4250), X 927, XY 313 (-4369), X (-313), XY (-927) (-4250), XY (-1247) (-5716),
     XY (-2698) (-5225), XY (-3958) (-4348), XY (-4949) (-3176), XY (-5602) (-1787), XY (-5874) (-276),
     XY (-5716) 1247, XY (-4250) 927, Y (-927), XY (-4369) (-313), Y 313, XY (-4250) 927,
     XY (-5716) 1247, XY (-5225) 2698, XY (-4348) 3958, XY (-3176) 4949, XY (-1787) 5602,
     XY (-276) 5874, XY 1247 5716, XY 927 4250, X (-927), XY (-313) 4369, X 313, XY 927 4250,
     XY 1247 5716, XY 2552 5297, XY 3712 4560, XY 4669 3574, XY 5371 2394, XY 5750 1076, XY 4276 800,
     XY 4374 227, XY 4365 (-357), XY 4250 (-927), Y 927, X 3950, Y (-2450), XY 3864 (-3036),
     XY 3532 (-3532), XY 3036 (-3864), XY 2450 (-3950), X (-2450), XY (-3036) (-3864),
     XY (-3532) (-3532), XY (-3864) (-3036), XY (-3950) (-2450), Y 2450, XY (-3864) 3036,
     XY (-3532) 3532, XY (-3036) 3864, XY (-2450) 3950, X 2450, XY 3036 3864, XY 3532 3532,
     XY 3864 3036, XY 3950 2450, Y 927, X 4250, XY 4276 800, XY 8551 1601, Z (-11108), Z 10000]"

text \<open>Lines 21667 to 21744.\<close>

definition full_layer_251 :: "pline list" where
  "full_layer_251 = [
     Z (-11306), Z (-14306), XY 5750 1076, XY 5869 (-360), XY 5604 (-1780), XY 5001 (-3093),
     XY 4095 (-4219), XY 2943 (-5091), XY 1613 (-5655), XY 185 (-5877), XY (-1247) (-5716),
     XY (-927) (-4250), X 927, XY 313 (-4369), X (-313), XY (-927) (-4250), XY (-1247) (-5716),
     XY (-2698) (-5225), XY (-3958) (-4348), XY (-4949) (-3176), XY (-5602) (-1787), XY (-5874) (-276),
     XY (-5716) 1247, XY (-4250) 927, Y (-927), XY (-4369) (-313), Y 313, XY (-4250) 927,
     XY (-5716) 1247, XY (-5225) 2698, XY (-4348) 3958, XY (-3176) 4949, XY (-1787) 5602,
     XY (-276) 5874, XY 1247 5716, XY 927 4250, X (-927), XY (-313) 4369, X 313, XY 927 4250,
     XY 1247 5716, XY 2552 5297, XY 3712 4560, XY 4669 3574, XY 5371 2394, XY 5750 1076, XY 4276 800,
     XY 4374 227, XY 4365 (-357), XY 4250 (-927), Y 927, X 3950, Y (-2450), XY 3864 (-3036),
     XY 3532 (-3532), XY 3036 (-3864), XY 2450 (-3950), X (-2450), XY (-3036) (-3864),
     XY (-3532) (-3532), XY (-3864) (-3036), XY (-3950) (-2450), Y 2450, XY (-3864) 3036,
     XY (-3532) 3532, XY (-3036) 3864, XY (-2450) 3950, X 2450, XY 3036 3864, XY 3532 3532,
     XY 3864 3036, XY 3950 2450, Y 927, X 4250, XY 4276 800, XY 8551 1601, Z (-11306), Z 10000]"

text \<open>Lines 21745 to 21822.\<close>

definition full_layer_252 :: "pline list" where
  "full_layer_252 = [
     Z (-11504), Z (-14504), XY 5750 1076, XY 5869 (-360), XY 5604 (-1780), XY 5001 (-3093),
     XY 4095 (-4219), XY 2943 (-5091), XY 1613 (-5655), XY 185 (-5877), XY (-1247) (-5716),
     XY (-927) (-4250), X 927, XY 313 (-4369), X (-313), XY (-927) (-4250), XY (-1247) (-5716),
     XY (-2698) (-5225), XY (-3958) (-4348), XY (-4949) (-3176), XY (-5602) (-1787), XY (-5874) (-276),
     XY (-5716) 1247, XY (-4250) 927, Y (-927), XY (-4369) (-313), Y 313, XY (-4250) 927,
     XY (-5716) 1247, XY (-5225) 2698, XY (-4348) 3958, XY (-3176) 4949, XY (-1787) 5602,
     XY (-276) 5874, XY 1247 5716, XY 927 4250, X (-927), XY (-313) 4369, X 313, XY 927 4250,
     XY 1247 5716, XY 2552 5297, XY 3712 4560, XY 4669 3574, XY 5371 2394, XY 5750 1076, XY 4276 800,
     XY 4374 227, XY 4365 (-357), XY 4250 (-927), Y 927, X 3950, Y (-2450), XY 3864 (-3036),
     XY 3532 (-3532), XY 3036 (-3864), XY 2450 (-3950), X (-2450), XY (-3036) (-3864),
     XY (-3532) (-3532), XY (-3864) (-3036), XY (-3950) (-2450), Y 2450, XY (-3864) 3036,
     XY (-3532) 3532, XY (-3036) 3864, XY (-2450) 3950, X 2450, XY 3036 3864, XY 3532 3532,
     XY 3864 3036, XY 3950 2450, Y 927, X 4250, XY 4276 800, XY 8551 1601, Z (-11504), Z 10000]"

text \<open>Lines 21823 to 21900.\<close>

definition full_layer_253 :: "pline list" where
  "full_layer_253 = [
     Z (-11702), Z (-14702), XY 5750 1076, XY 5869 (-360), XY 5604 (-1780), XY 5001 (-3093),
     XY 4095 (-4219), XY 2943 (-5091), XY 1613 (-5655), XY 185 (-5877), XY (-1247) (-5716),
     XY (-927) (-4250), X 927, XY 313 (-4369), X (-313), XY (-927) (-4250), XY (-1247) (-5716),
     XY (-2698) (-5225), XY (-3958) (-4348), XY (-4949) (-3176), XY (-5602) (-1787), XY (-5874) (-276),
     XY (-5716) 1247, XY (-4250) 927, Y (-927), XY (-4369) (-313), Y 313, XY (-4250) 927,
     XY (-5716) 1247, XY (-5225) 2698, XY (-4348) 3958, XY (-3176) 4949, XY (-1787) 5602,
     XY (-276) 5874, XY 1247 5716, XY 927 4250, X (-927), XY (-313) 4369, X 313, XY 927 4250,
     XY 1247 5716, XY 2552 5297, XY 3712 4560, XY 4669 3574, XY 5371 2394, XY 5750 1076, XY 4276 800,
     XY 4374 227, XY 4365 (-357), XY 4250 (-927), Y 927, X 3950, Y (-2450), XY 3864 (-3036),
     XY 3532 (-3532), XY 3036 (-3864), XY 2450 (-3950), X (-2450), XY (-3036) (-3864),
     XY (-3532) (-3532), XY (-3864) (-3036), XY (-3950) (-2450), Y 2450, XY (-3864) 3036,
     XY (-3532) 3532, XY (-3036) 3864, XY (-2450) 3950, X 2450, XY 3036 3864, XY 3532 3532,
     XY 3864 3036, XY 3950 2450, Y 927, X 4250, XY 4276 800, XY 8551 1601, Z (-11702), Z 10000]"

text \<open>Lines 21901 to 21978.\<close>

definition full_layer_254 :: "pline list" where
  "full_layer_254 = [
     Z (-11900), Z (-14900), XY 5750 1076, XY 5869 (-360), XY 5604 (-1780), XY 5001 (-3093),
     XY 4095 (-4219), XY 2943 (-5091), XY 1613 (-5655), XY 185 (-5877), XY (-1247) (-5716),
     XY (-927) (-4250), X 927, XY 313 (-4369), X (-313), XY (-927) (-4250), XY (-1247) (-5716),
     XY (-2698) (-5225), XY (-3958) (-4348), XY (-4949) (-3176), XY (-5602) (-1787), XY (-5874) (-276),
     XY (-5716) 1247, XY (-4250) 927, Y (-927), XY (-4369) (-313), Y 313, XY (-4250) 927,
     XY (-5716) 1247, XY (-5225) 2698, XY (-4348) 3958, XY (-3176) 4949, XY (-1787) 5602,
     XY (-276) 5874, XY 1247 5716, XY 927 4250, X (-927), XY (-313) 4369, X 313, XY 927 4250,
     XY 1247 5716, XY 2552 5297, XY 3712 4560, XY 4669 3574, XY 5371 2394, XY 5750 1076, XY 4276 800,
     XY 4374 227, XY 4365 (-357), XY 4250 (-927), Y 927, X 3950, Y (-2450), XY 3864 (-3036),
     XY 3532 (-3532), XY 3036 (-3864), XY 2450 (-3950), X (-2450), XY (-3036) (-3864),
     XY (-3532) (-3532), XY (-3864) (-3036), XY (-3950) (-2450), Y 2450, XY (-3864) 3036,
     XY (-3532) 3532, XY (-3036) 3864, XY (-2450) 3950, X 2450, XY 3036 3864, XY 3532 3532,
     XY 3864 3036, XY 3950 2450, Y 927, X 4250, XY 4276 800, XY 8551 1601, Z (-11900), Z 10000]"

definition full_layers_e :: "pline list list" where
  "full_layers_e = [
     full_layer_205, full_layer_206, full_layer_207, full_layer_208, full_layer_209, full_layer_210,
     full_layer_211, full_layer_212, full_layer_213, full_layer_214, full_layer_215, full_layer_216,
     full_layer_217, full_layer_218, full_layer_219, full_layer_220, full_layer_221, full_layer_222,
     full_layer_223, full_layer_224, full_layer_225, full_layer_226, full_layer_227, full_layer_228,
     full_layer_229, full_layer_230, full_layer_231, full_layer_232, full_layer_233, full_layer_234,
     full_layer_235, full_layer_236, full_layer_237, full_layer_238, full_layer_239, full_layer_240,
     full_layer_241, full_layer_242, full_layer_243, full_layer_244, full_layer_245, full_layer_246,
     full_layer_247, full_layer_248, full_layer_249, full_layer_250, full_layer_251, full_layer_252,
     full_layer_253, full_layer_254]"

section \<open>The layers one by one\<close>

lemma full_layer_205_ok: "full_group full_layer_205 (8551, 1601) (8551, 1601) (-5198)"
  by code_simp

lemma full_layer_206_ok: "full_group full_layer_206 (8551, 1601) (8551, 1601) (-5396)"
  by code_simp

lemma full_layer_207_ok: "full_group full_layer_207 (8551, 1601) (8551, 1601) (-5594)"
  by code_simp

lemma full_layer_208_ok: "full_group full_layer_208 (8551, 1601) (8551, 1601) (-5792)"
  by code_simp

lemma full_layer_209_ok: "full_group full_layer_209 (8551, 1601) (8551, 1601) (-5990)"
  by code_simp

lemma full_layer_210_ok: "full_group full_layer_210 (8551, 1601) (8551, 1601) (-6188)"
  by code_simp

lemma full_layer_211_ok: "full_group full_layer_211 (8551, 1601) (8551, 1601) (-6386)"
  by code_simp

lemma full_layer_212_ok: "full_group full_layer_212 (8551, 1601) (8551, 1601) (-6584)"
  by code_simp

lemma full_layer_213_ok: "full_group full_layer_213 (8551, 1601) (8551, 1601) (-6782)"
  by code_simp

lemma full_layer_214_ok: "full_group full_layer_214 (8551, 1601) (8551, 1601) (-6980)"
  by code_simp

lemma full_layer_215_ok: "full_group full_layer_215 (8551, 1601) (8551, 1601) (-7178)"
  by code_simp

lemma full_layer_216_ok: "full_group full_layer_216 (8551, 1601) (8551, 1601) (-7376)"
  by code_simp

lemma full_layer_217_ok: "full_group full_layer_217 (8551, 1601) (8551, 1601) (-7574)"
  by code_simp

lemma full_layer_218_ok: "full_group full_layer_218 (8551, 1601) (8551, 1601) (-7772)"
  by code_simp

lemma full_layer_219_ok: "full_group full_layer_219 (8551, 1601) (8551, 1601) (-7970)"
  by code_simp

lemma full_layer_220_ok: "full_group full_layer_220 (8551, 1601) (8551, 1601) (-8168)"
  by code_simp

lemma full_layer_221_ok: "full_group full_layer_221 (8551, 1601) (8551, 1601) (-8366)"
  by code_simp

lemma full_layer_222_ok: "full_group full_layer_222 (8551, 1601) (8551, 1601) (-8564)"
  by code_simp

lemma full_layer_223_ok: "full_group full_layer_223 (8551, 1601) (8551, 1601) (-8762)"
  by code_simp

lemma full_layer_224_ok: "full_group full_layer_224 (8551, 1601) (8551, 1601) (-8960)"
  by code_simp

lemma full_layer_225_ok: "full_group full_layer_225 (8551, 1601) (8551, 1601) (-9158)"
  by code_simp

lemma full_layer_226_ok: "full_group full_layer_226 (8551, 1601) (8551, 1601) (-9356)"
  by code_simp

lemma full_layer_227_ok: "full_group full_layer_227 (8551, 1601) (8551, 1601) (-9554)"
  by code_simp

lemma full_layer_228_ok: "full_group full_layer_228 (8551, 1601) (8551, 1601) (-9752)"
  by code_simp

lemma full_layer_229_ok: "full_group full_layer_229 (8551, 1601) (8551, 1601) (-9950)"
  by code_simp

lemma full_layer_230_ok: "full_group full_layer_230 (8551, 1601) (8551, 1601) (-10148)"
  by code_simp

lemma full_layer_231_ok: "full_group full_layer_231 (8551, 1601) (8551, 1601) (-10346)"
  by code_simp

lemma full_layer_232_ok: "full_group full_layer_232 (8551, 1601) (8551, 1601) (-10544)"
  by code_simp

lemma full_layer_233_ok: "full_group full_layer_233 (8551, 1601) (8551, 1601) (-10742)"
  by code_simp

lemma full_layer_234_ok: "full_group full_layer_234 (8551, 1601) (8551, 1601) (-10940)"
  by code_simp

lemma full_layer_235_ok: "full_group full_layer_235 (8551, 1601) (8551, 1601) (-11138)"
  by code_simp

lemma full_layer_236_ok: "full_group full_layer_236 (8551, 1601) (8551, 1601) (-11336)"
  by code_simp

lemma full_layer_237_ok: "full_group full_layer_237 (8551, 1601) (8551, 1601) (-11534)"
  by code_simp

lemma full_layer_238_ok: "full_group full_layer_238 (8551, 1601) (8551, 1601) (-11732)"
  by code_simp

lemma full_layer_239_ok: "full_group full_layer_239 (8551, 1601) (8551, 1601) (-11930)"
  by code_simp

lemma full_layer_240_ok: "full_group full_layer_240 (8551, 1601) (8551, 1601) (-12128)"
  by code_simp

lemma full_layer_241_ok: "full_group full_layer_241 (8551, 1601) (8551, 1601) (-12326)"
  by code_simp

lemma full_layer_242_ok: "full_group full_layer_242 (8551, 1601) (8551, 1601) (-12524)"
  by code_simp

lemma full_layer_243_ok: "full_group full_layer_243 (8551, 1601) (8551, 1601) (-12722)"
  by code_simp

lemma full_layer_244_ok: "full_group full_layer_244 (8551, 1601) (8551, 1601) (-12920)"
  by code_simp

lemma full_layer_245_ok: "full_group full_layer_245 (8551, 1601) (8551, 1601) (-13118)"
  by code_simp

lemma full_layer_246_ok: "full_group full_layer_246 (8551, 1601) (8551, 1601) (-13316)"
  by code_simp

lemma full_layer_247_ok: "full_group full_layer_247 (8551, 1601) (8551, 1601) (-13514)"
  by code_simp

lemma full_layer_248_ok: "full_group full_layer_248 (8551, 1601) (8551, 1601) (-13712)"
  by code_simp

lemma full_layer_249_ok: "full_group full_layer_249 (8551, 1601) (8551, 1601) (-13910)"
  by code_simp

lemma full_layer_250_ok: "full_group full_layer_250 (8551, 1601) (8551, 1601) (-14108)"
  by code_simp

lemma full_layer_251_ok: "full_group full_layer_251 (8551, 1601) (8551, 1601) (-14306)"
  by code_simp

lemma full_layer_252_ok: "full_group full_layer_252 (8551, 1601) (8551, 1601) (-14504)"
  by code_simp

lemma full_layer_253_ok: "full_group full_layer_253 (8551, 1601) (8551, 1601) (-14702)"
  by code_simp

lemma full_layer_254_ok: "full_group full_layer_254 (8551, 1601) (8551, 1601) (-14900)"
  by code_simp

lemmas full_layers_e_ok =
  full_layer_205_ok full_layer_206_ok full_layer_207_ok full_layer_208_ok full_layer_209_ok
  full_layer_210_ok full_layer_211_ok full_layer_212_ok full_layer_213_ok full_layer_214_ok
  full_layer_215_ok full_layer_216_ok full_layer_217_ok full_layer_218_ok full_layer_219_ok
  full_layer_220_ok full_layer_221_ok full_layer_222_ok full_layer_223_ok full_layer_224_ok
  full_layer_225_ok full_layer_226_ok full_layer_227_ok full_layer_228_ok full_layer_229_ok
  full_layer_230_ok full_layer_231_ok full_layer_232_ok full_layer_233_ok full_layer_234_ok
  full_layer_235_ok full_layer_236_ok full_layer_237_ok full_layer_238_ok full_layer_239_ok
  full_layer_240_ok full_layer_241_ok full_layer_242_ok full_layer_243_ok full_layer_244_ok
  full_layer_245_ok full_layer_246_ok full_layer_247_ok full_layer_248_ok full_layer_249_ok
  full_layer_250_ok full_layer_251_ok full_layer_252_ok full_layer_253_ok full_layer_254_ok

lemma full_layers_as_part3:
  "full_layer_205 = part3_layer_00"
  "full_layer_206 = part3_layer_01"
  "full_layer_207 = part3_layer_02"
  "full_layer_208 = part3_layer_03"
  "full_layer_209 = part3_layer_04"
  "full_layer_210 = part3_layer_05"
  "full_layer_211 = part3_layer_06"
  "full_layer_212 = part3_layer_07"
  "full_layer_213 = part3_layer_08"
  "full_layer_214 = part3_layer_09"
  "full_layer_215 = part3_layer_10"
  "full_layer_216 = part3_layer_11"
  "full_layer_217 = part3_layer_12"
  "full_layer_218 = part3_layer_13"
  "full_layer_219 = part3_layer_14"
  "full_layer_220 = part3_layer_15"
  "full_layer_221 = part3_layer_16"
  "full_layer_222 = part3_layer_17"
  "full_layer_223 = part3_layer_18"
  "full_layer_224 = part3_layer_19"
  "full_layer_225 = part3_layer_20"
  "full_layer_226 = part3_layer_21"
  "full_layer_227 = part3_layer_22"
  "full_layer_228 = part3_layer_23"
  "full_layer_229 = part3_layer_24"
  "full_layer_230 = part3_layer_25"
  "full_layer_231 = part3_layer_26"
  "full_layer_232 = part3_layer_27"
  "full_layer_233 = part3_layer_28"
  "full_layer_234 = part3_layer_29"
  "full_layer_235 = part3_layer_30"
  "full_layer_236 = part3_layer_31"
  "full_layer_237 = part3_layer_32"
  "full_layer_238 = part3_layer_33"
  "full_layer_239 = part3_layer_34"
  "full_layer_240 = part3_layer_35"
  "full_layer_241 = part3_layer_36"
  "full_layer_242 = part3_layer_37"
  "full_layer_243 = part3_layer_38"
  "full_layer_244 = part3_layer_39"
  "full_layer_245 = part3_layer_40"
  "full_layer_246 = part3_layer_41"
  "full_layer_247 = part3_layer_42"
  "full_layer_248 = part3_layer_43"
  "full_layer_249 = part3_layer_44"
  "full_layer_250 = part3_layer_45"
  "full_layer_251 = part3_layer_46"
  "full_layer_252 = part3_layer_47"
  "full_layer_253 = part3_layer_48"
  "full_layer_254 = part3_layer_49"
  by (simp_all only: part3_layer_defs
      full_layer_205_def full_layer_206_def full_layer_207_def full_layer_208_def
      full_layer_209_def full_layer_210_def full_layer_211_def full_layer_212_def
      full_layer_213_def full_layer_214_def full_layer_215_def full_layer_216_def
      full_layer_217_def full_layer_218_def full_layer_219_def full_layer_220_def
      full_layer_221_def full_layer_222_def full_layer_223_def full_layer_224_def
      full_layer_225_def full_layer_226_def full_layer_227_def full_layer_228_def
      full_layer_229_def full_layer_230_def full_layer_231_def full_layer_232_def
      full_layer_233_def full_layer_234_def full_layer_235_def full_layer_236_def
      full_layer_237_def full_layer_238_def full_layer_239_def full_layer_240_def
      full_layer_241_def full_layer_242_def full_layer_243_def full_layer_244_def
      full_layer_245_def full_layer_246_def full_layer_247_def full_layer_248_def
      full_layer_249_def full_layer_250_def full_layer_251_def full_layer_252_def
      full_layer_253_def full_layer_254_def)

definition full_groups_e :: "(pline list \<times> (int \<times> int) \<times> int list) list" where
  "full_groups_e = [
     (full_layer_205, (8551, 1601), [-5198]), (full_layer_206, (8551, 1601), [-5396]),
     (full_layer_207, (8551, 1601), [-5594]), (full_layer_208, (8551, 1601), [-5792]),
     (full_layer_209, (8551, 1601), [-5990]), (full_layer_210, (8551, 1601), [-6188]),
     (full_layer_211, (8551, 1601), [-6386]), (full_layer_212, (8551, 1601), [-6584]),
     (full_layer_213, (8551, 1601), [-6782]), (full_layer_214, (8551, 1601), [-6980]),
     (full_layer_215, (8551, 1601), [-7178]), (full_layer_216, (8551, 1601), [-7376]),
     (full_layer_217, (8551, 1601), [-7574]), (full_layer_218, (8551, 1601), [-7772]),
     (full_layer_219, (8551, 1601), [-7970]), (full_layer_220, (8551, 1601), [-8168]),
     (full_layer_221, (8551, 1601), [-8366]), (full_layer_222, (8551, 1601), [-8564]),
     (full_layer_223, (8551, 1601), [-8762]), (full_layer_224, (8551, 1601), [-8960]),
     (full_layer_225, (8551, 1601), [-9158]), (full_layer_226, (8551, 1601), [-9356]),
     (full_layer_227, (8551, 1601), [-9554]), (full_layer_228, (8551, 1601), [-9752]),
     (full_layer_229, (8551, 1601), [-9950]), (full_layer_230, (8551, 1601), [-10148]),
     (full_layer_231, (8551, 1601), [-10346]), (full_layer_232, (8551, 1601), [-10544]),
     (full_layer_233, (8551, 1601), [-10742]), (full_layer_234, (8551, 1601), [-10940]),
     (full_layer_235, (8551, 1601), [-11138]), (full_layer_236, (8551, 1601), [-11336]),
     (full_layer_237, (8551, 1601), [-11534]), (full_layer_238, (8551, 1601), [-11732]),
     (full_layer_239, (8551, 1601), [-11930]), (full_layer_240, (8551, 1601), [-12128]),
     (full_layer_241, (8551, 1601), [-12326]), (full_layer_242, (8551, 1601), [-12524]),
     (full_layer_243, (8551, 1601), [-12722]), (full_layer_244, (8551, 1601), [-12920]),
     (full_layer_245, (8551, 1601), [-13118]), (full_layer_246, (8551, 1601), [-13316]),
     (full_layer_247, (8551, 1601), [-13514]), (full_layer_248, (8551, 1601), [-13712]),
     (full_layer_249, (8551, 1601), [-13910]), (full_layer_250, (8551, 1601), [-14108]),
     (full_layer_251, (8551, 1601), [-14306]), (full_layer_252, (8551, 1601), [-14504]),
     (full_layer_253, (8551, 1601), [-14702]), (full_layer_254, (8551, 1601), [-14900])]"

lemma full_e_chained: "chained 1 full_box full_groups_e (8551, 1601)"
  by (simp add: full_groups_e_def full_layers_e_ok)

lemma full_e_groups:
  "map fst full_groups_e = full_layers_e" "last (p # map (fst \<circ> snd) full_groups_e) = (8551, 1601)"
  "concat (map (snd \<circ> snd) full_groups_e) = [
    -5198, -5396, -5594, -5792, -5990, -6188, -6386, -6584, -6782, -6980, -7178, -7376, -7574, -7772,
    -7970, -8168, -8366, -8564, -8762, -8960, -9158, -9356, -9554, -9752, -9950, -10148, -10346, -10544,
    -10742, -10940, -11138, -11336, -11534, -11732, -11930, -12128, -12326, -12524, -12722, -12920,
    -13118, -13316, -13514, -13712, -13910, -14108, -14306, -14504, -14702, -14900]"
  by (simp_all add: full_groups_e_def full_layers_e_def)

lemma full_e_depths: "map full_depth [205..<255] = concat (map (snd \<circ> snd) full_groups_e)"
  unfolding full_e_groups by code_simp

lemma full_e_group: "mills_group 1 full_box (concat full_layers_e) (8551, 1601) (8551, 1601) (map full_depth [205..<255])"
  using chained_group [OF full_e_chained] by (simp only: full_e_groups full_e_depths)

lemma full_e_lengths: "map length full_layers_e = [
    78, 78, 78, 78, 78, 78, 78, 78, 78, 78, 78, 78, 78, 78, 78, 78, 78, 78, 78, 78, 78, 78, 78, 78, 78,
    78, 78, 78, 78, 78, 78, 78, 78, 78, 78, 78, 78, 78, 78, 78, 78, 78, 78, 78, 78, 78, 78, 78, 78, 78]"
  by (simp add: full_layers_e_def
      full_layer_205_def full_layer_206_def full_layer_207_def full_layer_208_def
      full_layer_209_def full_layer_210_def full_layer_211_def full_layer_212_def
      full_layer_213_def full_layer_214_def full_layer_215_def full_layer_216_def
      full_layer_217_def full_layer_218_def full_layer_219_def full_layer_220_def
      full_layer_221_def full_layer_222_def full_layer_223_def full_layer_224_def
      full_layer_225_def full_layer_226_def full_layer_227_def full_layer_228_def
      full_layer_229_def full_layer_230_def full_layer_231_def full_layer_232_def
      full_layer_233_def full_layer_234_def full_layer_235_def full_layer_236_def
      full_layer_237_def full_layer_238_def full_layer_239_def full_layer_240_def
      full_layer_241_def full_layer_242_def full_layer_243_def full_layer_244_def
      full_layer_245_def full_layer_246_def full_layer_247_def full_layer_248_def
      full_layer_249_def full_layer_250_def full_layer_251_def full_layer_252_def
      full_layer_253_def full_layer_254_def)

lemma full_e_length: "length (concat full_layers_e) = 3900"
  by (simp add: length_concat full_e_lengths)

end
