(* ===== verification/Gcode_Full.thy ===== *)
theory Gcode_Full
  imports Gcode_Full_A Gcode_Full_B Gcode_Full_C Gcode_Full_D Gcode_Full_E
begin

text \<open>
  The full part program \<^verbatim>\<open>gcode/01-....py\<close>: two opening moves and the 255 layers of the theories
  \<^verbatim>\<open>Gcode_Full_A\<close> to \<^verbatim>\<open>Gcode_Full_E\<close>. The program keeps the layer discipline with a tolerance of 0.001 mm,
  since three plunges (lines 697, 2098 and 8185) shift the tool by that amount. The programs of
  \<^verbatim>\<open>Gcode_Copy\<close> and \<^verbatim>\<open>Gcode_Part3\<close> are its last two sections.
\<close>

section \<open>The program\<close>

definition full_lead :: "pline list" where
  "full_lead = [XY (- 4574) (- 7401), Z 10000]"

definition full_upper :: "pline list" where
  "full_upper = concat full_layers_a @ concat full_layers_b @ concat full_layers_c"

definition full_moves :: "pline list" where
  "full_moves = full_lead @ full_upper @ concat full_layers_d @ concat full_layers_e"

text \<open>Line 2 is the first call after the interpreter is made in line 1.\<close>

definition full_script :: script where
  "full_script = script_of 2 (part_program 200 10 full_moves)"

section \<open>The layers together\<close>

lemma full_lead_mills:
  "mills 1 (map line_move full_lead) nowhere Leading = Some ((Some (- 4574), Some (- 7401), Some safe_z), Travel, [])"
  by (simp add: full_lead_def is_lateral_def vertical_def nowhere_def safe_z_def)

lemma full_lead_ok: "list_all is_move full_lead" "list_all (\<lambda>l. in_box full_box (line_move l)) full_lead"
  by (simp_all add: full_lead_def full_box_def)

lemma full_upper_group:
  "mills_group 1 full_box full_upper (- 4574, - 7401) (8535, 1688) (map full_depth [0..<196])"
proof -
  have "[0..<196] = [0..<64] @ [64..<128] @ [128..<196 :: nat]"
    using upt_add_eq_append [of 0 64 132] upt_add_eq_append [of 64 128 68] by simp
  then show ?thesis
    unfolding full_upper_def using group_append [OF full_a_group group_append [OF full_b_group full_c_group]] by simp
qed

lemma full_body_group:
  "mills_group 1 full_box (full_upper @ concat full_layers_d @ concat full_layers_e) (- 4574, - 7401) (8551, 1601)
     (map full_depth [0..<255])"
proof -
  have "[0..<255] = [0..<196] @ [196..<205] @ [205..<255 :: nat]"
    using upt_add_eq_append [of 0 196 59] upt_add_eq_append [of 196 205 50] by simp
  then show ?thesis
    using group_append [OF full_upper_group group_append [OF full_d_group full_e_group]] by simp
qed

lemma full_parts:
  "list_all is_move full_moves" "list_all (in_box full_box) (map line_move full_moves)"
  "depths 1 (map line_move full_moves) = Some (map full_depth [0..<255])"
  unfolding full_moves_def
  by (rule group_program [OF _ full_lead_ok full_body_group], simp add: full_lead_mills)+

interpretation full: milled_program 2 200 10 full_moves full_box 1 "map full_depth [0..<255]"
  by unfold_locales (simp_all add: full_parts)

lemma full_result: "full.result_commands = get_command_list (snd (run full_script RS274Interpreter_init))"
  by (simp add: full.result_commands_def full_script_def get_command_list_def)

lemma full_length: "length full_moves = 21973" "length (full_lead @ full_upper) = 17351"
  by (simp_all add: full_moves_def full_lead_def full_upper_def full_a_length full_b_length full_c_length
      full_d_length full_e_length)

section \<open>The two shorter programs as its sections\<close>

lemma full_layers_d_eq: "copy_moves = copy_lead @ concat full_layers_d"
  by (simp add: full_layers_d_def full_layers_as_copy copy_moves_def)

lemma full_layers_e_eq: "part3_moves = part3_lead @ concat full_layers_e"
  by (simp add: full_layers_e_def part3_layers_def full_layers_as_part3 part3_moves_def)

lemma group_position:
  "mills_group tol b ls p q ds \<Longrightarrow>
     fold move_to (map line_move ls) (Some (fst p), Some (snd p), Some safe_z) = (Some (fst q), Some (snd q), Some safe_z)"
  using mills_position by (fastforce simp: mills_group_def)

lemma full_sections:
  "drop 17351 (path (map line_move full_moves) nowhere) =
     path (map line_move (concat full_layers_d)) (Some 8535, Some 1688, Some safe_z)
     @ path (map line_move (concat full_layers_e)) (Some 8551, Some 1601, Some safe_z)"
proof -
  have "fold move_to (map line_move full_lead) nowhere = (Some (- 4574), Some (- 7401), Some safe_z)"
    using mills_position [OF full_lead_mills] by simp
  then have pos: "fold move_to (map line_move (full_lead @ full_upper)) nowhere = (Some 8535, Some 1688, Some safe_z)"
    using group_position [OF full_upper_group] by simp
  have moves: "map line_move full_moves =
      map line_move (full_lead @ full_upper) @ map line_move (concat full_layers_d @ concat full_layers_e)"
    by (simp add: full_moves_def)
  have "path (map line_move full_moves) nowhere =
      path (map line_move (full_lead @ full_upper)) nowhere
      @ path (map line_move (concat full_layers_d @ concat full_layers_e)) (Some 8535, Some 1688, Some safe_z)"
    unfolding moves path_append pos ..
  moreover have "length (path (map line_move (full_lead @ full_upper)) nowhere) = 17351"
    using full_length(2) by (simp only: length_path length_map)
  moreover have "path (map line_move (concat full_layers_d @ concat full_layers_e)) (Some 8535, Some 1688, Some safe_z) =
      path (map line_move (concat full_layers_d)) (Some 8535, Some 1688, Some safe_z)
      @ path (map line_move (concat full_layers_e)) (Some 8551, Some 1601, Some safe_z)"
    using group_position [OF full_d_group] by (simp only: map_append path_append fst_conv snd_conv)
  ultimately show ?thesis by simp
qed

section \<open>Properties of the program\<close>

text \<open>C30: the commands the interpreter issues for the full program keep the layer discipline with a
  tolerance of 0.001 mm in the plunges. They cut 255 layers in this order: five of 0.2 mm, two
  hundred of 0.02 mm, fifty of 0.198 mm, down to 14.9 mm below zero.\<close>

theorem full_cuts_255_layers:
  "depths 1 (moves_of (get_command_list (snd (run full_script RS274Interpreter_init)))) =
     Some (map (\<lambda>k. if k < 5 then - 200 * (int k + 1)
                    else if k < 205 then - 1000 - 20 * (int k - 4)
                    else - 5000 - 198 * (int k - 204)) [0..<255])"
  using full.depths_of_result by (simp add: full_result full_depth_def)

text \<open>C32: on the tool path of the issued commands every step that moves the tool sideways by more
  than 0.001 mm keeps its height, and that height is the safe height of 10 mm or the depth of
  one of the 255 layers, unless no height was commanded yet.\<close>

theorem full_lateral_moves_safe:
  "steps_safe 1 (map full_depth [0..<255]) nowhere
     (tool_path (get_command_list (snd (run full_script RS274Interpreter_init))))"
  using full.result_steps_safe by (simp add: full_result)


text \<open>run by the interpreter, the full program raises no exception, ends with the program-end
  flag and issues one command per line, in order, each with its line number in the file
  and the text of its line; every position of its tool path lies in the box from (-8.699,
  -8.700, -14.900) to (8.700, 7.010, 10.000) millimetres.\<close>

theorem full_runs_to_end:
  "\<exists>s'. run full_script RS274Interpreter_init = return_self s' \<and> is_program_end s'
     \<and> map (\<lambda>c. (cmd_get c K_LineNumber, cmd_get c K_CommandStr)) (get_command_list s') =
         map (\<lambda>(k, l). (Some (VInt k), Some (VStr (line_text l))))
           (zip [2..21979] (part_program 200 10 full_moves))
     \<and> list_all (in_box ((- 8699, 8700), (- 8700, 7010), (- 14900, 10000))) (tool_path (get_command_list s'))"
proof -
  have last_line: "2 + int (length (part_program 200 10 full_moves)) - 1 = 21979"
    by (simp add: part_program_def full_length)
  from full.completes [folded full_script_def, unfolded last_line]
  obtain s' where s': "run full_script RS274Interpreter_init = return_self s'" "is_program_end s'"
    and sites: "map (\<lambda>c. (cmd_get c K_LineNumber, cmd_get c K_CommandStr)) (commands s') =
         map (\<lambda>(k, l). (Some (VInt k), Some (VStr (line_text l))))
           (zip [2..21979] (part_program 200 10 full_moves))"
    by (elim exE conjE)
  have "full.result_commands = commands s'"
    using s'(1) by (simp add: full_result get_command_list_def return_self_def)
  then have "list_all (in_box ((- 8699, 8700), (- 8700, 7010), (- 14900, 10000))) (tool_path (commands s'))"
    using full.result_in_envelope by (simp add: full_box_def)
  with s' sites show ?thesis unfolding get_command_list_def by (intro exI conjI)
qed

end
