(* ===== verification/Full_Run.thy ===== *)
theory Full_Run
  imports Part_Loop Gcode_Full
begin

text \<open>
  The full part program on the machine: from the Python file to the positions the axes are
  driven to, through every component of the model.
\<close>

section \<open>The example machine\<close>

lemma demo_machine:
  "get_coord_offset (cm (coord_sys demo_runner)) 55 = Some (axis_init 0)"
  "box_fits ((- 8699, 8700), (- 8700, 7010), (- 14900, 10000)) (axis_init 0) (soft_limits (cm (coord_sys demo_runner)))"
  "drive_pos (cm (coord_sys demo_runner)) 55 (axis_init 0) = axis_init 0"
proof -
  have cm: "cm (coord_sys demo_runner) = demo_manager" using demo_runner_fields(2) demo_system_eq(2) by simp
  show "get_coord_offset (cm (coord_sys demo_runner)) 55 = Some (axis_init 0)"
    by (simp add: cm get_coord_offset_def demo_manager_def default_manager_def new_CoordinateManager_def upto_rec_numeral)
  show "box_fits ((- 8699, 8700), (- 8700, 7010), (- 14900, 10000)) (axis_init 0) (soft_limits (cm (coord_sys demo_runner)))"
    by (simp add: cm demo_manager_def axis_init_def EDM_AXIS_NUM_def numeral_eq_Suc)
  show "drive_pos (cm (coord_sys demo_runner)) 55 (axis_init 0) = axis_init 0"
    by (simp add: cm drive_pos_def coord_to_motor_def coord_to_machine_def machine_to_motor_def add_axis_def get_machine_pos_def demo_manager_def
        default_manager_def new_CoordinateManager_def upto_rec_numeral axis_init_def EDM_AXIS_NUM_def numeral_eq_Suc)
qed

section \<open>The full part program\<close>

text \<open>Started on a stopped machine whose soft limits hold the box of the program at the offset of
  G55, the full part program goes through: the interpreter's JSON text is read and converted
  without an error, the run is accepted, and after at most 43957 polls of an ideal machine
  the runner has stopped without an error, with the axes driven, in order, to exactly the
  positions of the program's tool path.\<close>

theorem full_drives_its_tool_path:
  assumes "meojson J parse view" and "run_reach False r" and "state r = Stopped"
    and "get_coord_offset (cm (coord_sys r)) 55 = Some off" and "is_axis w"
    and "box_fits ((- 8699, 8700), (- 8700, 7010), (- 14900, 10000)) off (soft_limits (cm (coord_sys r)))"
    and "43957 \<le> n"
  shows "drives_the_path B J parse st full_script n r w"
  unfolding full_script_def
proof (rule move_program.on_machine [OF full.move_program_axioms assms(1-3) refl assms(4,5) full.envelope])
  show "box_fits full_box off (soft_limits (cm (coord_sys r)))" using assms(6) by (simp add: full_box_def)
  show "2 * (length full_moves + 5) + 1 \<le> n" using assms(7) by (simp add: full_length)
qed (simp_all add: full_length int32_def)

theorem full_drives_its_tool_path_witness:
  "drives_the_path \<lparr>drill_build = False, mul1000 = (\<lambda>f. f)\<rparr> py_lib json_loads demo_settings full_script 43957 demo_runner (axis_init 0)"
  by (rule full_drives_its_tool_path [OF py.meojson_axioms demo_runner_reach demo_runner_fields(1) demo_machine(1) _ demo_machine(2)])
    simp_all

text \<open>C1: The same on the modelled motion thread, which need not be ideal: let it be reachable from its start, enabled, idle
  at the drive position of the work position and not touched. Then the program is read, converted and accepted,
  there is an execution, and in every execution of 43957 polls or more, whatever the clocks, the uninitialised variables of
  the planner, the setting of the jumps and the number of cycles between the polls, the runner ends without an error,
  the machine is idle at each poll, and the positions it is found at are, in order and without the repetitions, exactly
  those of the program's tool path.\<close>

theorem full_machines_its_tool_path:
  assumes "meojson J parse view" and "run_reach False r" and "state r = Stopped"
    and "get_coord_offset (cm (coord_sys r)) 55 = Some off" and "is_axis w"
    and "box_fits ((- 8699, 8700), (- 8700, 7010), (- 14900, 10000)) off (soft_limits (cm (coord_sys r)))"
    and "43957 \<le> n"
    and "sh_ok sh" "0 < T" "(motion_step T)\<^sup>*\<^sup>* (mm_new sh) m"
    and "enabled m" "mm_mode m = MM_Idle" "quiet (shared_data m)"
    and "global_cmd_axis (shared_data m) = drive_pos (cm (coord_sys r)) 55 w" "0 < fmparam_max_acc_um_s2 st"
  shows "machines_the_path B J parse T st full_script n r m w"
  unfolding full_script_def
proof (rule move_program.on_thread [OF full.move_program_axioms assms(1-3) refl assms(4,5) full.envelope])
  show "box_fits full_box off (soft_limits (cm (coord_sys r)))" using assms(6) by (simp add: full_box_def)
  show "2 * (length full_moves + 5) + 1 \<le> n" using assms(7) by (simp add: full_length)
  show "ready (drive_pos (cm (coord_sys r)) 55 w) m"
    using motion_steps_inv [OF assms(10,9) mm_new_inv [OF assms(8)]] assms(11-14) by (simp add: ready_def)
qed (use assms(9,15) in \<open>simp_all add: full_length int32_def\<close>)

theorem full_machines_its_tool_path_witness:
  "machines_the_path \<lparr>drill_build = False, mul1000 = (\<lambda>f. f)\<rparr> py_lib json_loads (1 / 1000) demo_settings full_script 43957
     demo_runner sample_idle (axis_init 0)"
proof (rule full_machines_its_tool_path [OF py.meojson_axioms demo_runner_reach demo_runner_fields(1) demo_machine(1) _ demo_machine(2)
      _ sample_axis _ sample_idle_reach sample_idle_fields(1,2) sample_idle_quiet])
  show "global_cmd_axis (shared_data sample_idle) = drive_pos (cm (coord_sys demo_runner)) 55 (axis_init 0)"
    by (simp only: sample_idle_fields sample_from_zero demo_machine(3))
qed (simp_all add: demo_settings_def)

end
