(* ===== verification/Runner_Limits.thy ===== *)
theory Runner_Limits
  imports Machine_Run
begin

text \<open>
  Where the runner and the coordinate system do something else than their comments say: the
  default soft limits, setting a coordinate to zero on a homed machine, the depth check of a
  drilling task, and the empty task list.
\<close>

section \<open>The default soft limits\<close>

lemma default_index: "54 \<le> ix \<Longrightarrow> ix \<le> 59 \<Longrightarrow>
    map_of (coordinates_map default_manager) ix = Some \<lparr>c_index = ix, c_offset = axis_init 0\<rparr>"
  by (simp add: default_manager_def upto_rec_numeral)

lemma default_target:
  assumes "54 \<le> ix" "ix \<le> 59"
  shows "machine_target name default_manager ix AbsoluteMode (motor_to_machine default_manager (axis_init 0))
      [None, Some y, None, None, None, None] = Inr [0, mm2blu y, 0, 0, 0, 0]"
    and "motor_to_machine default_manager (axis_init 0) = [0, 0, 0, 0, 0, 0]"
proof -
  show z: "motor_to_machine default_manager (axis_init 0) = [0, 0, 0, 0, 0, 0]"
    by (simp add: motor_to_machine_def default_manager_def new_CoordinateManager_def sub_axis_def axis_init_def
        EDM_AXIS_NUM_def numeral_eq_Suc)
  show "machine_target name default_manager ix AbsoluteMode (motor_to_machine default_manager (axis_init 0))
      [None, Some y, None, None, None, None] = Inr [0, mm2blu y, 0, 0, 0, 0]"
    using default_index [OF assms] assms unfolding z
    by (simp add: machine_target_def machine_to_coord_def coord_to_machine_def get_machine_pos_def target_abs_def
        add_axis_def sub_axis_def axis_init_def EDM_AXIS_NUM_def numeral_eq_Suc)
qed



section \<open>Setting a coordinate to zero\<close>

lemma next_keeps_coords: "check_to_next_gcode E r = Inr r' \<Longrightarrow> coord_sys r' = coord_sys r"
  by (auto simp: check_to_next_gcode_def curr_gcode_def Let_def split: if_splits)

lemma next_in_range: "curr_gcode_num r < length (gcode_list r) \<Longrightarrow> \<exists>r'. check_to_next_gcode E r = Inr r'"
  by (simp add: check_to_next_gcode_def curr_gcode_def Let_def)

lemma set_current_accepted: "cs_inv cs \<Longrightarrow> \<exists>cs'. set_current_coord_offset a cs = (True, cs')"
  by (auto simp: set_current_coord_offset_def cm_set_coord_offset_def cs_inv_def exist_coordinate_index_def)

lemma zero_offset_nth: "i < 6 \<Longrightarrow> zero_offset flags pos off ! i = (if flags ! i then pos ! i else off ! i)"
  by (simp add: zero_offset_def EDM_AXIS_NUM_def)

text \<open>C40: \<open>coord_set_zero\<close> forgets the homing offset. The comments of \<open>Coordinate.h\<close> define the offset of a
  coordinate as a machine position, and the coordinate panel sets it so; the runner stores the
  drive position instead. On every axis that is set to zero the current position then reads,
  in the current coordinate, the negative of the machine's global offset, which is zero only
  on a machine that was not homed; the other axes keep their value.\<close>

theorem set_zero_forgets_homing:
  assumes "cs_inv (coord_sys r)" and "length flags = 6" and "is_axis (curr_cmd_axis_blu (local_info_cache r))"
    and "run_coord_set_zero E flags r = Inr r'" and "i < 6"
    and "pos = curr_cmd_axis_blu (local_info_cache r)" and "ix = curr_coord_index (coord_sys r)"
  shows "\<exists>v v'. motor_to_coord (cm (coord_sys r)) ix pos = Some v \<and> motor_to_coord (cm (coord_sys r')) ix pos = Some v'
    \<and> v' ! i = (if flags ! i then - (global_offset (cm (coord_sys r)) ! i) else v ! i)"
proof -
  let ?cs = "coord_sys r"
  obtain c where c: "map_of (coordinates_map (cm ?cs)) ix = Some c"
    using assms(1,7) by (auto simp: cs_inv_def exist_coordinate_index_def)
  then have off: "get_current_coord_offset ?cs = Some (c_offset c)"
    using assms(7) by (simp add: get_current_coord_offset_def get_coord_offset_def)
  have axes: "is_axis (c_offset c)" "is_axis (global_offset (cm ?cs))" "is_axis pos"
    using assms(1,3,6) c cm_ok_offset by (auto simp: cs_inv_def)
  let ?new = "zero_offset flags pos (c_offset c)"
  let ?cm = "(cm ?cs)\<lparr>coordinates_map := put_offset ix ?new (coordinates_map (cm ?cs))\<rparr>"
  have "set_current_coord_offset ?new ?cs = (True, save_as (?cs\<lparr>cm := ?cm\<rparr>))"
    using c assms(7) by (simp add: set_current_coord_offset_def cm_set_coord_offset_def)
  then have "coord_sys r' = save_as (?cs\<lparr>cm := ?cm\<rparr>)"
    using assms(2,4,6) off next_keeps_coords by (auto simp: run_coord_set_zero_def)
  then have cm': "cm (coord_sys r') = ?cm" by (simp add: save_as_def)
  have "motor_to_coord (cm ?cs) ix pos = Some (sub_axis (sub_axis pos (global_offset (cm ?cs))) (c_offset c))"
    using c by (simp add: motor_to_coord_def)
  moreover have "motor_to_coord (cm (coord_sys r')) ix pos = Some (sub_axis (sub_axis pos (global_offset (cm ?cs))) ?new)"
    using c by (simp add: motor_to_coord_def cm')
  ultimately show ?thesis using axes assms(5) by (simp add: set_zero_axis zero_offset_nth)
qed

theorem set_zero_forgets_homing_witness:
  "\<exists>r r'. run_coord_set_zero demo_env [True, False, False, False, False, False] r = Inr r'
     \<and> (\<exists>v'. motor_to_coord (cm (coord_sys r')) (curr_coord_index (coord_sys r)) (axis_init 0) = Some v' \<and> v' ! 0 = - 7)"
proof -
  define cs where "cs = set_global_offset [7, 0, 0, 0, 0, 0] demo_system"
  define r where "r = demo_initing\<lparr>coord_sys := cs\<rparr>"
  define fl where "fl = [True, False, False, False, False, False]"
  have "cs_inv demo_system" using made [OF reorders_id demo_system_eq(1)] demo_manager_ok cs_reach_inv by auto
  then have inv: "cs_inv cs" unfolding cs_def by (rule set_global_offset_inv) (simp add: is_axis_def EDM_AXIS_NUM_def)
  have g: "global_offset (cm cs) ! 0 = 7" by (simp add: cs_def set_global_offset_def cm_set_global_offset_def save_as_def)
  have pos: "curr_cmd_axis_blu (local_info_cache r) = axis_init 0" by (simp add: r_def demo_initing_def demo_env_def)
  obtain off where off: "get_current_coord_offset cs = Some off" using current_offset_exists [OF inv] by blast
  obtain cs' where cs': "set_current_coord_offset (zero_offset fl (curr_cmd_axis_blu (local_info_cache r)) off) cs = (True, cs')"
    using set_current_accepted [OF inv] by blast
  have "curr_gcode_num demo_initing < length (gcode_list demo_initing)"
    using run_inv_active(1) [OF run_reach_inv [OF demo_initing(2)]] demo_initing(3) by simp
  then have "\<exists>r'. check_to_next_gcode demo_env (emit Sig_coord_offset_changed (r\<lparr>coord_sys := cs'\<rparr>)) = Inr r'"
    by (intro next_in_range) (simp add: r_def)
  then have "\<exists>r'. run_coord_set_zero demo_env fl r = Inr r'"
    using off cs' by (simp add: run_coord_set_zero_def r_def fl_def)
  then obtain r' where r': "run_coord_set_zero demo_env fl r = Inr r'" by (rule exE)
  have cs_r: "coord_sys r = cs" by (simp add: r_def)
  have inv_r: "cs_inv (coord_sys r)" and len: "length fl = 6" and ix: "curr_coord_index cs = curr_coord_index (coord_sys r)"
    using inv by (simp_all add: cs_r fl_def)
  have axis_r: "is_axis (curr_cmd_axis_blu (local_info_cache r))" unfolding pos by simp
  have "\<exists>v v'. motor_to_coord (cm cs) (curr_coord_index cs) (axis_init 0) = Some v
    \<and> motor_to_coord (cm (coord_sys r')) (curr_coord_index cs) (axis_init 0) = Some v'
    \<and> v' ! 0 = (if fl ! 0 then - (global_offset (cm cs) ! 0) else v ! 0)"
    using set_zero_forgets_homing [of r fl demo_env r' 0 "axis_init 0" "curr_coord_index cs", OF inv_r len axis_r r' _ pos [symmetric] ix]
    by (simp only: cs_r numeral_less_iff zero_less_numeral simp_thms)
  then have "\<exists>v'. motor_to_coord (cm (coord_sys r')) (curr_coord_index (coord_sys r)) (axis_init 0) = Some v' \<and> v' ! 0 = - 7"
    using g by (auto simp: r_def fl_def)
  then show ?thesis using r' unfolding fl_def by blast
qed

section \<open>The depth of a drilling task\<close>

text \<open>
  The check compares a drive position with a limit of the machine frame: with a negative
  homing offset it passes a hole whose end lies beyond the limit.
\<close>

lemma drill_check_in_wrong_frame:
  assumes "cm_ok m" "is_axis pos" "global_offset m ! 5 = g"
  shows "(\<exists>c msg. prepare_drill m pos depth dp = Sends c msg) \<longleftrightarrow>
    sl_neg (soft_limits m) ! 5 - g \<le> motor_to_machine m pos ! 5 - um2blu depth"
  using assms by (auto simp: prepare_drill_def EDM_AXIS_NUM_def motor_to_machine_def)

section \<open>An empty task list\<close>

text \<open>Without a program, a signal of the motion thread makes the runner read an element of an empty list.\<close>

lemma poll_without_program: "run_once E (new_TaskManager E cs) = Inl OutOfRange"
  by (simp add: run_once_def poll_state_def new_TaskManager_def reset_def new_GCodeRunner_def reset_state_def curr_gcode_def)

text \<open>A program the interpreter accepts can crash the runner: a build without the drill leaves drill
  commands out of the task list, so a script of one drill command becomes an empty list, which
  the converter hands over (only an empty command list is refused); \<open>start\<close> then takes the last
  element of an empty vector.\<close>

theorem drill_only_program_faults:
  assumes "meojson J parse view" and "\<not> drill_build B" and "int32 n" and "0 < depth" and "exact_double depth"
    and "state r = Stopped"
  shows "\<exists>txt' j. get_command_list_jsonstr (snd (run [(site n ''i.drill(5)'',
        C_drill (VInt depth) (VInt 1000) (VBool False) (VBool False) (VBool False) VNone)] RS274Interpreter_init)) = Inr txt'
    \<and> parse txt' = Some j \<and> MakeGCodeTaskListFromJson B J j = Some []
    \<and> operation_gcode_start E [] r = Inl OutOfRange"
proof -
  let ?cs = "[(site n ''i.drill(5)'', C_drill (VInt depth) (VInt 1000) (VBool False) (VBool False) (VBool False) VNone)]"
  let ?as = "[(site n ''i.drill(5)'', A_Drill (VInt depth) (VInt 1000) (VBool False) (VBool False) (VBool False) VNone)]"
  have spec: "spec_run ?cs modal_init = Some (?as, modal_init)" using assms(4) by (simp add: modal_init_def)
  have "list_all (\<lambda>(fr, a). int32 (lineno fr) \<and> fits a) ?as"
    using assms(3,5) by (simp add: opt_num_def int32_def)
  moreover have "List.map_filter (task_of B) ?as = []" using assms(2) by (simp add: map_filter_simps task_of_def)
  moreover have "operation_gcode_start E [] r = Inl OutOfRange"
    using assms(6) by (simp add: operation_gcode_start_def start_def is_over_def check_gcode_list_at_first_def)
  ultimately show ?thesis using script_tasks [OF assms(1) spec, of B] by simp
qed

theorem drill_only_program_faults_witness:
  "\<exists>txt' j. get_command_list_jsonstr (snd (run [(site 2 ''i.drill(5)'',
        C_drill (VInt 5) (VInt 1000) (VBool False) (VBool False) (VBool False) VNone)] RS274Interpreter_init)) = Inr txt'
    \<and> json_loads txt' = Some j \<and> MakeGCodeTaskListFromJson \<lparr>drill_build = False, mul1000 = (\<lambda>f. f)\<rparr> py_lib j = Some []
    \<and> operation_gcode_start demo_env [] demo_runner = Inl OutOfRange"
  using drill_only_program_faults [OF py.meojson_axioms, of "\<lparr>drill_build = False, mul1000 = (\<lambda>f. f)\<rparr>" 2 5 demo_runner demo_env]
    demo_runner_fields(1) by (simp add: int32_def exact_double_def)

end
