(* ===== verification/Gcode_Samples.thy ===== *)
theory Gcode_Samples
  imports Gcode_Programs
begin

text \<open>
  The sample programs \<^verbatim>\<open>gcode/test.py\<close>, \<^verbatim>\<open>test1.py\<close>, \<^verbatim>\<open>test2.py\<close> and \<^verbatim>\<open>test3.py\<close>: the calls they make, with
  loops and a function, in the order they are made.
\<close>

section \<open>The calls of the programs\<close>

definition g00_xy :: "int \<Rightarrow> int \<Rightarrow> call" where
  "g00_xy x y = C_g00 (Coords (VInt x) (VInt y) VNone VNone VNone VNone) (VBool False) (VBool False)"

definition test_py :: script where
  "test_py =
     (site 3 ''i.g54()'', C_g54)
     # map (\<lambda>n. (site n ''i.g91()'', C_g91)) [4, 5, 6, 7, 8, 9, 10, 11]
     @ map (\<lambda>n. (site n ''i.g04(3)'', C_g04 (VInt 3))) [12, 13, 14]
     @ [(site 15 ''i.f(2)'', C_f (VInt 2)),
        (site 16 ''i.g00(x=2, m05=True)'',
          C_g00 (Coords (VInt 2) VNone VNone VNone VNone VNone) (VBool True) (VBool False)),
        (site 18 ''i.m02()'', C_m02)]"

text \<open>The loop calls a function of the script, whose line is the call site.\<close>

definition test1_func :: script where
  "test1_func = [(site 7 ''    i.g54()'', C_g54)]"

definition test1_py :: script where
  "test1_py =
     [(site 3 ''i.g54()'', C_g54), (site 4 ''i.g91()'', C_g91), (site 9 ''i.f(1000)'', C_f (VInt 1000))]
     @ concat (replicate 100 test1_func)
     @ [(site 13 ''i.m02()'', C_m02)]"

definition test2_loop :: script where
  "test2_loop =
     [(site 20 ''    i.g04(t=0.1)'', C_g04 (VFloat (Dec 1 1))),
      (site 21 ''    i.g00(x=10, y=10)'', g00_xy 10 10),
      (site 22 ''    i.g04(t=0.1)'', C_g04 (VFloat (Dec 1 1))),
      (site 23 ''    i.g00(x=0, y=0)'', g00_xy 0 0),
      (site 24 ''    i.g90()'', C_g90),
      (site 25 ''    i.g54()'', C_g54)]"

definition test2_py :: script where
  "test2_py =
     [(site 2 ''i.g54()'', C_g54), (site 3 ''i.g55()'', C_g55), (site 4 ''i.g54()'', C_g54),
      (site 5 ''i.g04(t=1)'', C_g04 (VInt 1)),
      (site 6 ''i.g90()'', C_g90), (site 7 ''i.g90()'', C_g90), (site 8 ''i.g90()'', C_g90),
      (site 9 ''i.g90()'', C_g90),
      (site 10 ''i.g04(t=1)'', C_g04 (VInt 1)),
      (site 11 ''i.e(5)'', C_e (VInt 5)), (site 12 ''i.e(6)'', C_e (VInt 6)), (site 13 ''i.e(7)'', C_e (VInt 7)),
      (site 15 ''i.g04(t=1)'', C_g04 (VInt 1)),
      (site 16 ''i.f(1000)'', C_f (VInt 1000)), (site 17 ''i.f(1000)'', C_f (VInt 1000)),
      (site 18 ''i.f(1000)'', C_f (VInt 1000))]
     @ concat (replicate 3 test2_loop)
     @ [(site 26 ''i.m02() # end of program'', C_m02)]"

definition test3_loop :: script where
  "test3_loop =
     [(site 12 ''    i.g04(t=0.1)'', C_g04 (VFloat (Dec 1 1))),
      (site 13 ''    i.g00(x=10, y=10)'', g00_xy 10 10),
      (site 14 ''    i.g04(t=0.1)'', C_g04 (VFloat (Dec 1 1))),
      (site 15 ''    i.g00(x=0, y=0)'', g00_xy 0 0)]"

definition test3_py :: script where
  "test3_py =
     [(site 3 ''i.g55()'', C_g55), (site 4 ''i.g04(t=1)'', C_g04 (VInt 1)), (site 5 ''i.g90()'', C_g90),
      (site 6 ''i.g04(t=1)'', C_g04 (VInt 1)), (site 7 ''i.e(5)'', C_e (VInt 5)), (site 8 ''i.m00()'', C_m00),
      (site 9 ''i.g04(t=1)'', C_g04 (VInt 1)), (site 10 ''i.f(1000)'', C_f (VInt 1000))]
     @ concat (replicate 3 test3_loop)
     @ [(site 16 ''i.g54()'', C_g54), (site 17 ''i.m02() # end of program'', C_m02)]"

section \<open>Their runs\<close>

text \<open>
  A program completes with some moves: it raises nothing, ends, issues one command per call
  and drives through the moves.
\<close>

definition completes_with :: "script \<Rightarrow> nat \<Rightarrow> move list \<Rightarrow> bool" where
  "completes_with cs n ms \<longleftrightarrow>
     (case run cs RS274Interpreter_init of
        (Inl e, s') \<Rightarrow> False
      | (Inr r, s') \<Rightarrow> is_program_end s' \<and> length (get_command_list s') = n
          \<and> moves_of (get_command_list s') = ms)"

fun acmd_move :: "acmd \<Rightarrow> move option" where
  "acmd_move (A_G00 AbsoluteMode ix fd m05 touch [x, y, z, b, c, a]) =
     Some (thousandths x, thousandths y, thousandths z)"
| "acmd_move _ = None"

lemma g00_move_encode: "g00_move (encode line code a) = acmd_move a"
proof (cases a)
  case (A_G00 md ix fd m05 touch cs)
  have "cmd_is G00MotionCommand (encode line code a)" by (simp add: A_G00)
  moreover have "cmd_get (encode line code a) K_CoordinateMode = Some (VStr (cm_name md))"
    "cmd_get (encode line code a) K_Coordinates = Some (VList cs)" by (simp_all add: A_G00 cmd_get_encode)
  ultimately show ?thesis
    by (cases md) (auto simp: A_G00 g00_move_def split: list.splits)
qed (auto simp: g00_move_def)

lemma moves_of_encode: "moves_of (map encode_at as) = List.map_filter (acmd_move \<circ> snd) as"
  unfolding moves_of_def
  by (induction as) (auto simp: encode_at_def g00_move_encode map_filter_simps split: option.splits)

lemma completes_of_spec:
  assumes "case spec_run cs modal_init of None \<Rightarrow> False
    | Some (as, m) \<Rightarrow> m_ended m \<and> length as = n \<and> List.map_filter (acmd_move \<circ> snd) as = ms"
    "list_all (has_source \<circ> fst) cs"
  shows "completes_with cs n ms"
proof -
  obtain as m where as: "spec_run cs modal_init = Some (as, m)" "m_ended m" "length as = n"
    "List.map_filter (acmd_move \<circ> snd) as = ms"
    using assms(1) by (auto split: option.splits)
  obtain s' where s': "run cs RS274Interpreter_init = return_self s'" "commands s' = map encode_at as"
    "is_program_end s'"
    using run_of_spec [OF as(1) assms(2)] as(2) by metis
  show ?thesis
    unfolding completes_with_def s'(1) return_self_def by (simp add: s' get_command_list_def as moves_of_encode)
qed

lemma spec_run_append:
  "spec_run (xs @ ys) m =
     (case spec_run xs m of
        None \<Rightarrow> None
      | Some (as, m') \<Rightarrow> map_option (\<lambda>(bs, m''). (as @ bs, m'')) (spec_run ys m'))"
  by (induction xs m rule: spec_run.induct)
    (auto simp: option.map_comp o_def case_prod_unfold option.map_ident split: option.splits)

lemma spec_run_replicate:
  assumes "spec_run cs m = Some (as, m)"
  shows "spec_run (concat (replicate n cs)) m = Some (concat (replicate n as), m)"
  by (induction n) (simp_all add: assms spec_run_append)

lemma map_filter_replicate:
  "List.map_filter f (replicate n x) = (case f x of None \<Rightarrow> [] | Some y \<Rightarrow> replicate n y)"
  by (induction n) (auto simp: map_filter_simps split: option.splits)

lemma map_filter_append: "List.map_filter f (xs @ ys) = List.map_filter f xs @ List.map_filter f ys"
  by (simp add: map_filter_def)

lemmas eval_sample = spec_index_def modal_init_def coords_ok_def g00_xy_def map_filter_simps numeral_3_eq_3

text \<open>The settings after the openings of the programs.\<close>

abbreviation "settings md ix fd \<equiv>
  \<lparr>m_mode = Some md, m_index = Some (VInt ix), m_feed = Some (VInt fd), m_ended = False\<rparr>"

lemma test_py_completes: "completes_with test_py 15 []"
  by (rule completes_of_spec) (simp_all add: test_py_def eval_sample)

lemma test1_py_completes: "completes_with test1_py 104 []"
proof -
  have "spec_run test1_func (settings IncrementMode 54 1000) =
      Some ([(site 7 ''    i.g54()'', A_Index (VInt 54))], settings IncrementMode 54 1000)"
    by (simp add: test1_func_def spec_index_def)
  from spec_run_replicate [OF this, of 100] show ?thesis
    by (intro completes_of_spec)
      (simp_all add: test1_py_def test1_func_def spec_run_append eval_sample map_filter_append
        map_filter_replicate list_all_iff)
qed

lemma test2_py_completes:
  "completes_with test2_py 35 (concat (replicate 3 [(Some 10000, Some 10000, None), (Some 0, Some 0, None)]))"
  by (rule completes_of_spec) (simp_all add: test2_py_def test2_loop_def eval_sample)

lemma test3_py_completes:
  "completes_with test3_py 22 (concat (replicate 3 [(Some 10000, Some 10000, None), (Some 0, Some 0, None)]))"
  by (rule completes_of_spec) (simp_all add: test3_py_def test3_loop_def eval_sample)

text \<open>the sample programs all run to their end: none raises, each issues one command per call
  and ends the program; the moves in absolute mode are three times to (10, 10) and back to
  (0, 0) for the two programs that have any.\<close>

theorem samples_complete:
  "completes_with test_py 15 [] \<and> completes_with test1_py 104 []
   \<and> completes_with test2_py 35 (concat (replicate 3 [(Some 10000, Some 10000, None), (Some 0, Some 0, None)]))
   \<and> completes_with test3_py 22 (concat (replicate 3 [(Some 10000, Some 10000, None), (Some 0, Some 0, None)]))"
  using test_py_completes test1_py_completes test2_py_completes test3_py_completes by blast

end
