(* ===== verification/Plot_Scripts.thy ===== *)
theory Plot_Scripts
  imports Py_Values "HOL-Library.Sublist" "HOL-Library.Multiset"
begin

text \<open>
  The data side of the plotting scripts \<^verbatim>\<open>plot_axis_vol.py\<close>, \<^verbatim>\<open>plot_together.py\<close> and \<^verbatim>\<open>plot_wav.py\<close>:
  reading the columns of a motion record, choosing record files by time, labels of the
  frequency axis. The drawing calls, the filters and the colour map are calls of numpy, scipy
  and matplotlib and are not modelled.

  A file system is a parameter: the names in a folder and the modification time of a path.
\<close>

section \<open>Lines and fields\<close>

text \<open>\<open>str.strip\<close> and \<open>str.split\<close> with a separator, on ASCII text.\<close>

definition is_space :: "char \<Rightarrow> bool" where
  "is_space c \<longleftrightarrow> (let n = (of_char c :: nat) in n = 32 \<or> 9 \<le> n \<and> n \<le> 13 \<or> 28 \<le> n \<and> n \<le> 31)"

definition strip :: "string \<Rightarrow> string" where
  "strip s = rev (dropWhile is_space (rev (dropWhile is_space s)))"

definition tab :: char where "tab = char_of (9 :: nat)"

fun split_at :: "char \<Rightarrow> string \<Rightarrow> string list" where
  "split_at c [] = [[]]"
| "split_at c (x # xs) =
     (if x = c then [] # split_at c xs
      else case split_at c xs of [] \<Rightarrow> [[x]] | f # fs \<Rightarrow> (x # f) # fs)"

definition motion_headers :: "string list" where
  "motion_headers = [''tick_us'', ''cmd_s'', ''act_s'', ''is_drilling'', ''kn_detected'', ''breakout_detected'',
     ''detect_started'', ''detect_state'', ''realtime_voltage'', ''averaged_voltage'', ''kn'', ''kn_valid_rate'',
     ''kn_cnt'']"

section \<open>\<open>read_motion_file\<close>\<close>

type_synonym columns = "(string \<times> string list) list"

definition columns_init :: columns where
  "columns_init = map (\<lambda>h. (h, [])) motion_headers"

definition column_append :: "string \<Rightarrow> string \<Rightarrow> columns \<Rightarrow> columns" where
  "column_append h v d = map (\<lambda>(k, vs). if k = h then (k, vs @ [v]) else (k, vs)) d"

text \<open>The inner loop, from column \<open>i\<close> on: \<open>headers[i]\<close> raises beyond the last header.\<close>

fun store_columns :: "nat \<Rightarrow> string list \<Rightarrow> columns \<Rightarrow> (pyexn, columns) result" where
  "store_columns i [] d = Inr d"
| "store_columns i (c # cs) d =
     (if i < length motion_headers
      then store_columns (Suc i) cs (column_append (motion_headers ! i) c d)
      else Inl (IndexError ''list index out of range''))"

definition line_fields :: "string \<Rightarrow> string list" where
  "line_fields line = split_at tab (strip line)"

fun store_lines :: "string list \<Rightarrow> columns \<Rightarrow> (pyexn, columns) result" where
  "store_lines [] d = Inr d"
| "store_lines (l # ls) d = rbind (store_columns 0 (line_fields l) d) (store_lines ls)"

text \<open>The function on the lines of the file; \<^verbatim>\<open>plot_axis_vol.py\<close> has the same loop at its top level.\<close>

definition read_motion_lines :: "string list \<Rightarrow> (pyexn, columns) result" where
  "read_motion_lines ls = store_lines ls columns_init"

subsection \<open>Columns\<close>

lemma distinct_headers: "distinct motion_headers"
  by (simp add: motion_headers_def)

lemma length_headers: "length motion_headers = 13"
  by (simp add: motion_headers_def)

lemma keys_append [simp]: "map fst (column_append h v d) = map fst d"
  by (simp add: column_append_def case_prod_unfold o_def if_distrib cong: if_cong)

text \<open>The columns as a function of the column number.\<close>

definition columns_of :: "(nat \<Rightarrow> string list) \<Rightarrow> columns" where
  "columns_of f = map (\<lambda>j. (motion_headers ! j, f j)) [0..<13]"

lemma columns_init_of: "columns_init = columns_of (\<lambda>_. [])"
  unfolding columns_init_def columns_of_def
  by (rule nth_equalityI) (simp_all add: length_headers)

lemma column_append_of:
  assumes "i < 13"
  shows "column_append (motion_headers ! i) v (columns_of f) = columns_of (f(i := f i @ [v]))"
proof -
  have "motion_headers ! j = motion_headers ! i \<longleftrightarrow> j = i" if "j < 13" for j
    using nth_eq_iff_index_eq [OF distinct_headers] that assms by (simp add: length_headers)
  then show ?thesis by (auto simp: column_append_def columns_of_def)
qed

lemma store_columns_of:
  "store_columns i cs (columns_of f) =
     (if i + length cs \<le> 13 \<or> cs = []
      then Inr (columns_of (\<lambda>j. f j @ (if i \<le> j \<and> j < i + length cs then [cs ! (j - i)] else [])))
      else Inl (IndexError ''list index out of range''))"
proof (induction cs arbitrary: i f)
  case Nil
  have "(\<lambda>j. f j @ (if i \<le> j \<and> j < i + length [] then [[] ! (j - i)] else [])) = f" by auto
  then show ?case by simp
next
  case (Cons c cs)
  show ?case
  proof (cases "i < 13")
    case True
    have "(\<lambda>j. (f(i := f i @ [c])) j @ (if Suc i \<le> j \<and> j < Suc i + length cs then [cs ! (j - Suc i)] else [])) =
        (\<lambda>j. f j @ (if i \<le> j \<and> j < i + length (c # cs) then [(c # cs) ! (j - i)] else []))"
      by (auto simp: fun_eq_iff nth_Cons Suc_diff_Suc split: nat.splits) (metis Suc_diff_Suc Suc_le_lessD nat.inject)
    then show ?thesis using True by (auto simp: length_headers column_append_of Cons.IH)
  next
    case False
    then show ?thesis by (simp add: length_headers)
  qed
qed

text \<open>Column \<open>j\<close> of some lines: field \<open>j\<close> of every line that has one.\<close>

definition column :: "nat \<Rightarrow> string list \<Rightarrow> string list" where
  "column j ls = map (\<lambda>l. line_fields l ! j) (filter (\<lambda>l. j < length (line_fields l)) ls)"

lemma store_lines_of:
  "store_lines ls (columns_of f) =
     (if list_all (\<lambda>l. length (line_fields l) \<le> 13) ls
      then Inr (columns_of (\<lambda>j. f j @ column j ls))
      else Inl (IndexError ''list index out of range''))"
proof (induction ls arbitrary: f)
  case Nil
  then show ?case by (simp add: column_def)
next
  case (Cons l ls)
  have "(\<lambda>j. f j @ (if j < length (line_fields l) then [line_fields l ! (j - 0)] else []) @ column j ls) =
      (\<lambda>j. f j @ column j (l # ls))"
    by (auto simp: fun_eq_iff column_def)
  then show ?case by (auto simp: store_columns_of Cons.IH rbind_def)
qed

subsection \<open>Lines written with tabs\<close>

text \<open>A field that survives reading: not empty, no white space.\<close>

definition field_ok :: "string \<Rightarrow> bool" where
  "field_ok f \<longleftrightarrow> f \<noteq> [] \<and> list_all (\<lambda>c. \<not> is_space c) f"

lemma is_space_tab [simp]: "is_space tab"
  by (simp add: is_space_def tab_def)

lemma is_space_newline [simp]: "is_space newline"
  by (simp add: is_space_def newline_def)

lemma split_at_field: "list_all (\<lambda>c. \<not> is_space c) f \<Longrightarrow> split_at tab f = [f]"
  by (induction f) auto

lemma split_at_field_tab:
  "list_all (\<lambda>c. \<not> is_space c) f \<Longrightarrow> split_at tab (f @ tab # s) = f # split_at tab s"
  by (induction f) auto

lemma split_at_join:
  "list_all field_ok fs \<Longrightarrow> fs \<noteq> [] \<Longrightarrow> split_at tab (join [tab] fs) = fs"
  by (induction "[tab]" fs rule: join.induct) (auto simp: field_ok_def split_at_field split_at_field_tab)

lemma dropWhile_no_space: "xs \<noteq> [] \<Longrightarrow> \<not> is_space (hd xs) \<Longrightarrow> dropWhile is_space xs = xs"
  by (cases xs) auto

lemma join_ends:
  assumes "list_all field_ok fs" "fs \<noteq> []"
  shows "join [tab] fs \<noteq> []" "\<not> is_space (hd (join [tab] fs))" "\<not> is_space (last (join [tab] fs))"
  using assms
  by (induction "[tab]" fs rule: join.induct)
    (auto simp: field_ok_def list_all_iff hd_append)

lemma strip_line: 
  assumes "list_all field_ok fs" "fs \<noteq> []"
  shows "strip (join [tab] fs @ [newline]) = join [tab] fs"
  using join_ends [OF assms]
  by (simp add: strip_def dropWhile_no_space hd_append hd_rev)

section \<open>Files by time\<close>

record file_system =
  listdir :: "string \<Rightarrow> string list"
  getmtime :: "string \<Rightarrow> int"

definition slash :: char where "slash = char_of (47 :: nat)"

text \<open>\<open>os.path.join\<close> with two arguments on POSIX.\<close>

definition path_join :: "string \<Rightarrow> string \<Rightarrow> string" where
  "path_join a b =
     (if b \<noteq> [] \<and> hd b = slash then b
      else if a = [] \<or> last a = slash then a @ b
      else a @ slash # b)"

definition files_with_ext :: "file_system \<Rightarrow> string \<Rightarrow> string \<Rightarrow> string list" where
  "files_with_ext fs folder ext = map (path_join folder) (filter (suffix ext) (listdir fs folder))"

definition get_files_under_folder_sorted_by_time :: "file_system \<Rightarrow> string \<Rightarrow> string \<Rightarrow> string list" where
  "get_files_under_folder_sorted_by_time fs folder ext =
     sort_key (getmtime fs) (files_with_ext fs folder ext)"

text \<open>\<open>sorted(..., reverse=True)\<close> keeps the order of equal elements.\<close>

definition sorted_reverse :: "('a \<Rightarrow> int) \<Rightarrow> 'a list \<Rightarrow> 'a list" where
  "sorted_reverse k xs = rev (sort_key k (rev xs))"

definition find_newest_file_under_folder :: "file_system \<Rightarrow> string \<Rightarrow> string \<Rightarrow> (pyexn, string) result" where
  "find_newest_file_under_folder fs folder ext =
     (case sorted_reverse (getmtime fs) (files_with_ext fs folder ext) of
        [] \<Rightarrow> Inl (IndexError ''list index out of range'')
      | f # _ \<Rightarrow> Inr f)"

lemma last_insort_key:
  fixes k :: "'a \<Rightarrow> int"
  shows "sorted (map k xs) \<Longrightarrow> xs \<noteq> [] \<Longrightarrow>
    last (insort_key k x xs) = (if k x \<le> k (last xs) then last xs else x)"
proof (induction xs)
  case (Cons a xs)
  show ?case
  proof (cases "xs = []")
    case False
    then have "k a \<le> k (last xs)" using Cons.prems by simp
    with Cons False show ?thesis by (cases xs rule: rev_cases) auto
  qed simp
qed simp

lemma last_sort_key:
  fixes k :: "'a \<Rightarrow> int"
  assumes "xs \<noteq> []"
  shows "\<exists>ys m zs. last (sort_key k xs) = m \<and> xs = ys @ m # zs
    \<and> (\<forall>y \<in> set ys. k y \<le> k m) \<and> (\<forall>z \<in> set zs. k z < k m)"
  using assms
proof (induction xs)
  case (Cons x xs)
  show ?case
  proof (cases "xs = []")
    case True
    then show ?thesis by (intro exI [of _ "[]"] exI [of _ x]) simp
  next
    case False
    let ?l = "last (sort_key k xs)"
    obtain ys zs where IH: "xs = ys @ ?l # zs" "\<forall>y \<in> set ys. k y \<le> k ?l" "\<forall>z \<in> set zs. k z < k ?l"
      using Cons.IH [OF False] by blast
    have ne: "sort_key k xs \<noteq> []" using False by (metis length_0_conv length_sort)
    show ?thesis
    proof (cases "k x \<le> k ?l")
      case True
      then have "last (sort_key k (x # xs)) = ?l" using ne by (simp add: last_insort_key)
      moreover have "x # xs = (x # ys) @ ?l # zs" using IH(1) by simp
      ultimately show ?thesis using IH(2,3) True by (metis set_ConsD)
    next
      case False
      then have "last (sort_key k (x # xs)) = x" using ne by (simp add: last_insort_key)
      moreover have "k z < k x" if "z \<in> set xs" for z
      proof -
        have "z \<in> set ys \<or> z = ?l \<or> z \<in> set zs" using that arg_cong [OF IH(1), of set] by auto
        then show ?thesis using IH(2,3) False by fastforce
      qed
      ultimately show ?thesis by (intro exI [of _ "[]"] exI [of _ x] exI [of _ xs]) simp
    qed
  qed
qed simp

section \<open>Axis labels\<close>

definition generate_freq_yticks_nk :: "int list \<Rightarrow> int list \<times> string list" where
  "generate_freq_yticks_nk ns = foldl (\<lambda>(vs, ts) n. (vs @ [n * 1000], ts @ [int_str n @ ''k''])) ([], []) ns"

lemma yticks_fold:
  "foldl (\<lambda>(vs, ts) n. (vs @ [n * 1000], ts @ [int_str n @ ''k''])) (vs, ts) ns =
     (vs @ map (\<lambda>n. n * 1000) ns, ts @ map (\<lambda>n. int_str n @ ''k'') ns)"
  by (induction ns arbitrary: vs ts) auto

text \<open>As many labels as positions; the label of \<open>1000 n\<close> is \<open>n\<close> followed by \<open>k\<close>.\<close>

lemma yticks_labelled:
  "generate_freq_yticks_nk ns = (map (\<lambda>n. n * 1000) ns, map (\<lambda>n. int_str n @ ''k'') ns)"
  using yticks_fold [of "[]" "[]" ns] by (simp add: generate_freq_yticks_nk_def)

section \<open>Properties\<close>

text \<open>\<open>read_motion_file\<close> returns the thirteen columns in the order of the headers, each with
  the fields of its number, in the order of the lines, of all lines that are long enough;
  it raises an \<open>IndexError\<close> exactly when some line has more than thirteen fields. A line
  with fewer fields therefore shifts the later columns against the earlier ones.\<close>

theorem motion_columns:
  "read_motion_lines ls =
     (if list_all (\<lambda>l. length (line_fields l) \<le> 13) ls
      then Inr (map (\<lambda>j. (motion_headers ! j, column j ls)) [0..<13])
      else Inl (IndexError ''list index out of range''))"
  by (simp add: read_motion_lines_def columns_init_of store_lines_of) (simp add: columns_of_def)

text \<open>A motion record written line by line with thirteen fields, separated by tabs and none
  empty or with white space, is read back as its table: column \<open>j\<close> holds field \<open>j\<close> of every
  line.\<close>

theorem motion_record_round_trip:
  assumes "list_all (\<lambda>row. length row = 13 \<and> list_all field_ok row) rows"
  shows "read_motion_lines (map (\<lambda>row. join [tab] row @ [newline]) rows) =
    Inr (map (\<lambda>j. (motion_headers ! j, map (\<lambda>row. row ! j) rows)) [0..<13])"
proof -
  have fields: "line_fields (join [tab] row @ [newline]) = row" if "row \<in> set rows" for row
  proof -
    have "list_all field_ok row" "row \<noteq> []" using assms that by (auto simp: list_all_iff)
    then show ?thesis by (simp add: line_fields_def strip_line split_at_join)
  qed
  let ?ls = "map (\<lambda>row. join [tab] row @ [newline]) rows"
  have "column j ?ls = map (\<lambda>row. row ! j) rows" if "j < 13" for j
    using that assms fields by (auto simp: column_def filter_map o_def list_all_iff intro!: map_cong arg_cong
        [where f = "\<lambda>xs. map _ xs"] filter_True)
  moreover have "list_all (\<lambda>l. length (line_fields l) \<le> 13) ?ls"
    using assms fields by (auto simp: list_all_iff)
  ultimately show ?thesis
    by (simp add: read_motion_lines_def columns_init_of store_lines_of) (simp add: columns_of_def)
qed

theorem motion_record_round_trip_witness:
  "read_motion_lines (map (\<lambda>row. join [tab] row @ [newline]) [replicate 13 ''0'', replicate 13 ''-1.5'']) =
    Inr (map (\<lambda>j. (motion_headers ! j, [''0'', ''-1.5''])) [0..<13])"
proof -
  have "field_ok ''0''" "field_ok ''-1.5''" by code_simp+
  then have "list_all (\<lambda>row. length row = 13 \<and> list_all field_ok row) [replicate 13 ''0'', replicate 13 ''-1.5'']"
    by (simp add: list_all_iff)
  from motion_record_round_trip [OF this] show ?thesis by simp
qed

text \<open>\<open>get_files_under_folder_sorted_by_time\<close> returns exactly the files of the folder with the
  extension, each once per entry of the listing, in ascending order of their times, files
  with the same time in the order of the listing.\<close>

theorem files_sorted_by_time:
  defines "r \<equiv> \<lambda>fs folder ext. get_files_under_folder_sorted_by_time fs folder ext"
  shows "mset (r fs folder ext) = mset (files_with_ext fs folder ext)
    \<and> sorted (map (getmtime fs) (r fs folder ext))
    \<and> filter (\<lambda>f. getmtime fs f = t) (r fs folder ext) =
        filter (\<lambda>f. getmtime fs f = t) (files_with_ext fs folder ext)"
  by (simp add: r_def get_files_under_folder_sorted_by_time_def sort_key_stable)

text \<open>\<open>find_newest_file_under_folder\<close> raises an \<open>IndexError\<close> when the folder has no file with the
  extension; otherwise it returns the first file of the listing whose time is not exceeded:
  files listed before it are older, files listed after it not newer.\<close>

theorem newest_file:
  "case find_newest_file_under_folder fs folder ext of
     Inl e \<Rightarrow> e = IndexError ''list index out of range'' \<and> files_with_ext fs folder ext = []
   | Inr f \<Rightarrow> \<exists>xs ys. files_with_ext fs folder ext = xs @ f # ys
       \<and> (\<forall>x \<in> set xs. getmtime fs x < getmtime fs f) \<and> (\<forall>y \<in> set ys. getmtime fs y \<le> getmtime fs f)"
proof (cases "files_with_ext fs folder ext = []")
  case True
  then show ?thesis by (simp add: find_newest_file_under_folder_def sorted_reverse_def)
next
  case False
  let ?k = "getmtime fs" and ?xs = "files_with_ext fs folder ext"
  obtain ys m zs where m: "last (sort_key ?k (rev ?xs)) = m" "rev ?xs = ys @ m # zs"
    "\<forall>y \<in> set ys. ?k y \<le> ?k m" "\<forall>z \<in> set zs. ?k z < ?k m"
    using last_sort_key [of "rev ?xs" ?k] False by (metis rev_is_Nil_conv)
  have ne: "sort_key ?k (rev ?xs) \<noteq> []" using False by (metis length_0_conv length_rev length_sort)
  then have "hd (sorted_reverse ?k ?xs) = m" "sorted_reverse ?k ?xs \<noteq> []"
    using m(1) by (simp_all add: sorted_reverse_def hd_rev)
  then have res: "find_newest_file_under_folder fs folder ext = Inr m"
    by (cases "sorted_reverse ?k ?xs") (simp_all add: find_newest_file_under_folder_def)
  have "?xs = rev zs @ m # rev ys" using m(2) by (simp add: rev_swap)
  moreover have "\<forall>x \<in> set (rev zs). ?k x < ?k m" "\<forall>y \<in> set (rev ys). ?k y \<le> ?k m" using m(3,4) by simp_all
  ultimately show ?thesis unfolding res sum.case by blast
qed

definition two_files :: file_system where
  "two_files = \<lparr>listdir = (\<lambda>_. [''a.wav'', ''b.txt'', ''c.wav'']), getmtime = (\<lambda>f. int (length f))\<rparr>"

theorem newest_file_witness:
  "find_newest_file_under_folder two_files ''d'' ''.wav'' = Inr ''d/a.wav''
   \<and> (\<exists>xs ys. files_with_ext two_files ''d'' ''.wav'' = xs @ ''d/a.wav'' # ys)"
proof -
  have "find_newest_file_under_folder two_files ''d'' ''.wav'' = Inr ''d/a.wav''" by code_simp
  with newest_file [of two_files "''d''" "''.wav''"] show ?thesis by auto
qed

end
