(* ===== verification/Cutting_Jumps.thy ===== *)
theory Cutting_Jumps
  imports Cutting_Run
begin

text \<open>
  The jumps of a cutting move: when they begin, and that they come back.
\<close>

section \<open>When a jump begins\<close>

text \<open>The counter counts what the servo asked for in the last cycles in which it moved the electrode.\<close>

lemma counter_cycle:
  assumes "cut_ok s e h (g, sh, hs)" "0 < T" "g01_run_once T u g sh = Inr (g', sh')"
    "counts hs (sc_servo_go g)" "window_size (sc_servo_go g) = w"
  shows "counts (if servo_moved g g' then (get_servo_cmd T sh > 0) # hs else hs) (sc_servo_go g') \<and> window_size (sc_servo_go g') = w"
  using assms(1,3)
proof (cases rule: cut_cycle_cases)
  case servo
  then show ?thesis using servoing_effect(3)[OF assms(1,2) servo assms(3)] assms(4,5) counts_push[OF assms(4)]
    by (auto simp: servo_moved_def)
next
  case jump
  then show ?thesis using assms(4,5) by (auto simp: servo_moved_def in_jump_def)
next
  case waiting
  then show ?thesis using waiting_effect(6)[OF assms(3) waiting(2,1,3)] assms(4,5) by (auto simp: servo_moved_def)
next
  case backing
  then show ?thesis using backing_effect(5)[OF assms(3) backing(1,3)] assms(4,5) by (auto simp: servo_moved_def)
next
  case resuming
  then show ?thesis using rest_effect(2)[OF assms(3)] assms(4,5) by (auto simp: servo_moved_def)
qed (use assms(4,5) in \<open>auto simp: servo_moved_def\<close>)

lemma cut_counts:
  assumes "cut_reach T cs sh e h st" "0 < T" "cut_starts sh e"
  shows "(case st of (g, sh', hs) \<Rightarrow> counts hs (sc_servo_go g) \<and> window_size (sc_servo_go g) = cut_window T)
    \<and> cut_ok (global_cmd_axis sh) e h st"
  using assms
proof (induction rule: cut_reach_induct)
  case (start g)
  then show ?case by simp
next
  case (step st st')
  from step(1) show ?case
  proof (cases rule: cut_step.cases)
    case (cycle u g sh g' sh' hs)
    then show ?thesis using counter_cycle[OF _ assms(2) cycle(3)] step(2,4) by simp
  next
    case (call c g sh hs)
    then show ?thesis using step(4) by (simp add: calls_states)
  qed (use step(4) in simp)
qed

text \<open>
  Whether a jump with the setting \<open>jp\<close> has room: its height, cut down to 100 um before the soft limit behind, is at least
  10 um, and leaves 10 um for the way down before the servo takes over.
\<close>

definition jump_room :: "real \<Rightarrow> real \<Rightarrow> jump_param \<Rightarrow> bool" where
  "jump_room h l jp \<longleftrightarrow> (let up = min (up_blu jp) (l + h - um2blu 100)
     in um2blu 10 \<le> up \<and> min (buffer_blu jp) l \<le> up - um2blu 10)"

lemma check_jump_height_iff:
  "fst (check_jump_height g) \<longleftrightarrow> jump_room (max_jump_height_from_begin g) (lin_length (line_traj g)) (jumping_param g)"
  by (auto simp: check_jump_height_def jump_room_def Let_def)

lemma plan_jump_iff:
  assumes "cut_inv s e h g" "servo_sub_state g = Servoing" "0 < T"
  shows "fst (plan_jump_up T u g) \<longleftrightarrow> jump_room h (lin_length (line_traj g)) (jumping_param g)"
proof -
  let ?b = "lin_length (line_traj g)"
  obtain b jp where c: "check_jump_height g = (b, jp)" by (cases "check_jump_height g")
  have l: "0 \<le> ?b" "lin_pos (line_traj g) = at_length s e ?b" "lin_unit (line_traj g) = CalcAxisUnitVector s e"
    "max_jump_height_from_begin g = h" using assms(1) by (simp_all add: cut_inv_def lin_ok_def)
  have "fst (plan_jump_up T u g)" if b
  proof -
    have jp: "jump_ok jp" "jump_fits h ?b jp" using check_jump_height_ok[OF cut_line(7)[OF assms(1)] l(1) c] l(4) that by simp_all
    have up: "?b \<noteq> ?b - up_blu jp" using jump_fits_apart[OF jp(2)] jp(1) by (simp add: jump_ok_def)
    have sp: "speed_ok (jump_speed jp)" using jp(1) by (simp add: jump_ok_def)
    note fl = flying_start(2)[OF line_axis[OF assms(1)] line_axis[OF assms(1)] line_apart[OF assms(1) up] sp assms(3), of u "jump_pm_handler g"]
    show ?thesis using that fl at_length_shift(1)[OF cut_line(1,2)[OF assms(1)]] l(2,3)
      by (simp add: plan_jump_up_def c Let_def case_prod_beta)
  qed
  moreover have "\<not> fst (plan_jump_up T u g)" if "\<not> b" using that by (simp add: plan_jump_up_def c Let_def)
  ultimately show ?thesis using check_jump_height_iff[of g] c l(4) by auto
qed

definition jump_due :: "nat \<Rightarrow> real \<Rightarrow> g01_task \<Rightarrow> shared \<Rightarrow> bool list \<Rightarrow> bool" where
  "jump_due w h g sh hs \<longleftrightarrow> (let jp = jump_setting sh
     in dn_ms jp < now_ms sh - last_jump_end_time_ms g \<and> um2blu 10 \<le> up_blu jp
        \<and> real (goods w hs) / real w < 0.93 \<and> jump_room h (lin_length (line_traj g)) jp)"

lemma servoing_jumps:
  assumes "0 < T" "counts hs (sc_servo_go g)" "window_size (sc_servo_go g) = w" "cut_ok s e h (g, sh1, hs)"
    and "g01_state g = G01Running" "servo_sub_state g = Servoing" "g01_run_once T u g sh1 = Inr (g', sh2)"
  shows "(servo_sub_state g' = JumpUping \<longleftrightarrow> jump_due w h g sh1 hs)
    \<and> (servo_sub_state g' = JumpUping \<longrightarrow> global_cmd_axis sh2 = global_cmd_axis sh1 \<and> hd (io_calls sh2) = EnableVoltageGate False)"
proof -
  note c = assms(2-4)
  then have o: "cut_inv s e h g" "last_jump_end_time_ms g \<le> now_ms sh1" "jump_ok (jump_setting sh1)"
    by (simp_all add: cut_ok_def)
  define g2 where "g2 = g\<lparr>jumping_param := jump_setting sh1, last_jump_end_time_ms := now_ms sh1\<rparr>"
  have g2: "cut_inv s e h g2" "servo_sub_state g2 = Servoing"
    using o(1,3) assms(6) by (simp_all add: g2_def cut_inv_def jump_part_def Let_def)
  have vr: "valid_rate_threshold \<le> valid_rate (sc_servo_go g) \<longleftrightarrow> \<not> real (goods (w) hs) / real (w) < 0.93"
    using c(1,2) by (auto simp: valid_rate_threshold_def valid_rate_def counts_def Let_def)
  have eq: "check_and_plan_jump T u g sh1 = (if jump_due (w) h g sh1 hs
      then Inr (True, send_gate False ((snd (plan_jump_up T u g2))\<lparr>servo_sub_state := JumpUping\<rparr>) sh1)
      else check_and_plan_jump T u g sh1)"
    and no: "\<not> jump_due (w) h g sh1 hs \<Longrightarrow> \<exists>g1. check_and_plan_jump T u g sh1 = Inr (False, g1, sh1)"
    using check_plan_eq[OF o(2), of T u] plan_jump_iff[OF g2 assms(1), of u] vr
    by (auto simp: jump_due_def g2_def Let_def split: if_splits)
  have r: "rbind (check_and_plan_jump T u g sh1) (\<lambda>(jumps, g1, sh1). if jumps then Inr (g1, sh1)
     else let (ends, g2, sh2) = do_servothings T g1 sh1 in Inr (if ends then g2\<lparr>g01_state := G01Stopping\<rparr> else g2, sh2)) = Inr (g', sh2)"
    using assms(5-7) by (simp add: g01_run_once_def normal_running_def servo_servoing_def)
  show ?thesis
  proof (cases "jump_due (w) h g sh1 hs")
    case True
    then show ?thesis using r by (subst (asm) eq) (auto simp: send_gate_def call_io_def)
  next
    case False
    then obtain g1 where k: "check_and_plan_jump T u g sh1 = Inr (False, g1, sh1)" using no by blast
    obtain ends g3 sh3 where d: "do_servothings T g1 sh1 = (ends, g3, sh3)" by (cases "do_servothings T g1 sh1")
    have "servo_sub_state g1 = Servoing" using check_plan_frame(2)[OF k] assms(6) by simp
    then have "servo_sub_state g3 = Servoing" using do_servothings_ok(2)[OF check_plan_ok(1)[OF c(3) assms(1,6) k] _ d] by simp
    moreover have "g' = (if ends then g3\<lparr>g01_state := G01Stopping\<rparr> else g3)" using r k d by simp
    ultimately show ?thesis using False by simp
  qed
qed

text \<open>C25: While a cutting move runs and is not in a jump, a cycle begins a jump exactly when the time of cutting since the last
  one is over, the jump is not set to nothing, the servo went forwards in less than 93 % of the last two seconds' cycles,
  and there is room for it. The cycle then leaves the electrode where it is and closes the voltage gate.\<close>

theorem jumps_when_due:
  assumes "0 < T" "cut_starts sh e" "cut_reach T cs sh e h (g, sh1, hs)"
    and "g01_state g = G01Running" "servo_sub_state g = Servoing" "g01_run_once T u g sh1 = Inr (g', sh2)"
  shows "(servo_sub_state g' = JumpUping \<longleftrightarrow> jump_due (cut_window T) h g sh1 hs)
    \<and> (servo_sub_state g' = JumpUping \<longrightarrow> global_cmd_axis sh2 = global_cmd_axis sh1 \<and> hd (io_calls sh2) = EnableVoltageGate False)"
  using cut_counts[OF assms(3,1,2)]
    servoing_jumps[OF assms(1) _ _ _ assms(4-6), of hs "cut_window T" "global_cmd_axis sh" e h] by simp

section \<open>A jump comes back\<close>

text \<open>What a cycle senses, and a number of cycles on a stream of such inputs.\<close>

record sensed =
  s_ms :: int
  s_ns :: int
  s_speed :: real
  s_jump :: jump_param

fun cut_cycles :: "real \<Rightarrow> (nat \<Rightarrow> plan_vars) \<Rightarrow> (nat \<Rightarrow> sensed) \<Rightarrow> nat \<Rightarrow> g01_task \<times> shared \<Rightarrow> g01_step" where
  "cut_cycles T us ins 0 st = Inr st"
| "cut_cycles T us ins (Suc k) (g, sh) =
     rbind (g01_run_once T (us 0) g (sense_servo (s_ms (ins 0)) (s_ns (ins 0)) (s_speed (ins 0)) (s_jump (ins 0)) sh))
       (cut_cycles T (\<lambda>i. us (Suc i)) (\<lambda>i. ins (Suc i)) k)"

text \<open>The clock does not go back, and the servo asks to go forwards at \<open>v\<close> or more.\<close>

definition forwards :: "real \<Rightarrow> int \<Rightarrow> (nat \<Rightarrow> sensed) \<Rightarrow> bool" where
  "forwards v now ins \<longleftrightarrow> now \<le> s_ms (ins 0) \<and> (\<forall>k. s_ms (ins k) \<le> s_ms (ins (Suc k)) \<and> v \<le> s_speed (ins k) \<and> jump_ok (s_jump (ins k)))"

definition comes_back :: "real \<Rightarrow> (nat \<Rightarrow> plan_vars) \<Rightarrow> (nat \<Rightarrow> sensed) \<Rightarrow> axis_t \<Rightarrow> g01_task \<times> shared \<Rightarrow> bool" where
  "comes_back T us ins p st \<longleftrightarrow> (\<exists>k g sh. cut_cycles T us ins k st = Inr (g, sh) \<and> g01_state g = G01Running
     \<and> servo_sub_state g = Servoing \<and> global_cmd_axis sh = p)"

lemma comes_back_cycle:
  assumes "cut_ok s e h (g, sh, hs)" "0 < T" "forwards v (now_ms sh) ins"
    and "\<And>g' sh' sh0. sh0 = sense_servo (s_ms (ins 0)) (s_ns (ins 0)) (s_speed (ins 0)) (s_jump (ins 0)) sh
      \<Longrightarrow> cut_ok s e h (g, sh0, hs) \<Longrightarrow> g01_run_once T (us 0) g sh0 = Inr (g', sh') \<Longrightarrow> cut_ok s e h (g', sh', hs)
      \<Longrightarrow> forwards v (now_ms sh') (\<lambda>i. ins (Suc i)) \<Longrightarrow> comes_back T (\<lambda>i. us (Suc i)) (\<lambda>i. ins (Suc i)) p (g', sh')"
  shows "comes_back T us ins p (g, sh)"
proof -
  let ?sh = "sense_servo (s_ms (ins 0)) (s_ns (ins 0)) (s_speed (ins 0)) (s_jump (ins 0)) sh"
  have o: "cut_ok s e h (g, ?sh, hs)" using assms(1,3) by (auto simp: cut_ok_def sense_servo_def forwards_def)
  obtain g' sh' where r: "g01_run_once T (us 0) g ?sh = Inr (g', sh')" "cut_ok s e h (g', sh', hs)" "keeps ?sh sh'"
    using cut_cycle_ok[OF o assms(2)] by blast
  have "forwards v (now_ms sh') (\<lambda>i. ins (Suc i))" using assms(3) r(3) by (simp add: forwards_def keeps_def sense_servo_def)
  from assms(4)[OF refl o r(1,2) this] obtain k g2 sh2 where "cut_cycles T (\<lambda>i. us (Suc i)) (\<lambda>i. ins (Suc i)) k (g', sh') = Inr (g2, sh2)"
    "g01_state g2 = G01Running" "servo_sub_state g2 = Servoing" "global_cmd_axis sh2 = p" by (auto simp: comes_back_def)
  then show ?thesis unfolding comes_back_def by (intro exI[of _ "Suc k"]) (simp add: r(1))
qed

lemma speed_step: "0 < T \<Longrightarrow> v \<le> w \<Longrightarrow> mm_min2blu_p T v \<le> mm_min2blu_p T w" "0 < T \<Longrightarrow> 0 < v \<Longrightarrow> 0 < mm_min2blu_p T v"
  by (simp_all add: mm_min2blu_p_def EDM_BLU_PER_UM_def)

text \<open>The last bit with the servo: every cycle takes away the least step of what is left.\<close>

lemma buffer_cycle:
  assumes "cut_ok s e h (g, sh, hs)" "0 < T" "0 < v" "v \<le> servo_mm_min sh" "g01_state g = G01Running" "servo_sub_state g = JumpDowningBuffer"
    "g01_run_once T u g sh = Inr (g', sh')"
  defines "b \<equiv> servoing_length_before_jump g" and "l \<equiv> lin_length (line_traj g)" and "d \<equiv> mm_min2blu_p T v"
  shows "g01_state g' = G01Running \<and> (servo_sub_state g' = Servoing \<and> global_cmd_axis sh' = at_length s e b
     \<or> servo_sub_state g' = JumpDowningBuffer \<and> servoing_length_before_jump g' = b \<and> d < b - l \<and> d \<le> lin_length (line_traj g') - l)"
proof -
  have lo: "lin_ok s e (line_traj g)" and j: "b \<le> lin_total (line_traj g)" "l \<le> b"
    using assms(1,6) by (simp_all add: cut_ok_def cut_inv_def jump_part_def b_def l_def Let_def)
  have l: "0 \<le> l" using lo by (simp add: lin_ok_def l_def)
  let ?c = "get_servo_cmd T sh"
  have c: "0 < d" "d \<le> ?c" using speed_step[OF assms(2)] assms(3,4) by (simp_all add: get_servo_cmd_def d_def)
  have run: "lin_pos (lin_run_once x (line_traj g)) = at_length s e (l + x)" "lin_length (lin_run_once x (line_traj g)) = l + x"
    if "0 \<le> l + x" "l + x \<le> b" for x
  proof -
    have "clip (lin_total (line_traj g)) (l + x) = l + x" using that j(1) by (simp add: clip_def)
    then show "lin_pos (lin_run_once x (line_traj g)) = at_length s e (l + x)" "lin_length (lin_run_once x (line_traj g)) = l + x"
      using lin_run_ok[OF lo, of x] by (simp_all add: lin_ok_def l_def)
  qed
  have r: "servo_buffer T g sh = Inr (g', sh')" using assms(5-7) by (simp add: g01_run_once_def normal_running_def)
  show ?thesis
  proof (cases "?c \<ge> b - l \<or> b - l \<le> 0")
    case True
    then show ?thesis using r c assms(5) run[of "b - l"] l j(2)
      by (auto simp: servo_buffer_def b_def[symmetric] l_def[symmetric] Let_def set_cmd_axis_def)
  next
    case False
    then show ?thesis using r c assms(5,6) run[of ?c] l
      by (auto simp: servo_buffer_def b_def l_def Let_def set_cmd_axis_def)
  qed
qed

lemma buffer_comes_back:
  assumes "0 < T" "0 < v" "cut_ok s e h (g, sh, hs)" "g01_state g = G01Running" "servo_sub_state g = JumpDowningBuffer"
    "forwards v (now_ms sh) ins" "servoing_length_before_jump g - lin_length (line_traj g) \<le> real n * mm_min2blu_p T v"
  shows "comes_back T us ins (at_length s e (servoing_length_before_jump g)) (g, sh)"
  using assms(3-7)
proof (induction n arbitrary: g sh us ins)
  case (Suc n)
  show ?case
  proof (rule comes_back_cycle[OF Suc.prems(1) assms(1) Suc.prems(4)])
    fix g' sh' sh0
    assume a: "sh0 = sense_servo (s_ms (ins 0)) (s_ns (ins 0)) (s_speed (ins 0)) (s_jump (ins 0)) sh"
      "cut_ok s e h (g, sh0, hs)" "g01_run_once T (us 0) g sh0 = Inr (g', sh')" "cut_ok s e h (g', sh', hs)"
      "forwards v (now_ms sh') (\<lambda>i. ins (Suc i))"
    have v: "v \<le> servo_mm_min sh0" using a(1) Suc.prems(4) by (simp add: sense_servo_def forwards_def)
    note c = buffer_cycle[OF a(2) assms(1,2) v Suc.prems(2,3) a(3)]
    show "comes_back T (\<lambda>i. us (Suc i)) (\<lambda>i. ins (Suc i)) (at_length s e (servoing_length_before_jump g)) (g', sh')"
    proof (cases "servo_sub_state g' = Servoing")
      case True
      then show ?thesis using c unfolding comes_back_def by (intro exI[of _ 0] exI[of _ g'] exI[of _ sh']) simp
    next
      case False
      then show ?thesis using Suc.IH[OF a(4) _ _ a(5), of "\<lambda>i. us (Suc i)"] c Suc.prems(5) by (simp add: algebra_simps)
    qed
  qed
next
  case 0
  show ?case
  proof (rule comes_back_cycle[OF 0(1) assms(1) 0(4)])
    fix g' sh' sh0
    assume a: "sh0 = sense_servo (s_ms (ins 0)) (s_ns (ins 0)) (s_speed (ins 0)) (s_jump (ins 0)) sh"
      "cut_ok s e h (g, sh0, hs)" "g01_run_once T (us 0) g sh0 = Inr (g', sh')"
    have v: "v \<le> servo_mm_min sh0" using a(1) 0(4) by (simp add: sense_servo_def forwards_def)
    have "0 < mm_min2blu_p T v" using speed_step(2) assms(1,2) by simp
    then have "servo_sub_state g' = Servoing \<and> g01_state g' = G01Running \<and> global_cmd_axis sh' = at_length s e (servoing_length_before_jump g)"
      using buffer_cycle[OF a(2) assms(1,2) v 0(2,3) a(3)] 0(5) by auto
    then show "comes_back T (\<lambda>i. us (Suc i)) (\<lambda>i. ins (Suc i)) (at_length s e (servoing_length_before_jump g)) (g', sh')"
      unfolding comes_back_def by (intro exI[of _ 0] exI[of _ g'] exI[of _ sh']) simp
  qed
qed

text \<open>The move of the jump: up, and down to where the servo takes over.\<close>

lemma jump_cycle:
  assumes "g01_state g = G01Running" "g01_run_once T u g sh = Inr (g', sh')"
  defines "m \<equiv> pm_run_once (jump_pm_handler g)"
  shows "servo_sub_state g = JumpUping \<Longrightarrow> g01_state g' = G01Running \<and> servoing_length_before_jump g' = servoing_length_before_jump g
      \<and> (\<not> pm_is_over m \<and> servo_sub_state g' = JumpUping \<and> jump_pm_handler g' = m \<or> pm_is_over m \<and> servo_sub_state g' = JumpDowning)"
    and "servo_sub_state g = JumpDowning \<Longrightarrow> g01_state g' = G01Running \<and> servoing_length_before_jump g' = servoing_length_before_jump g
      \<and> (\<not> pm_is_over m \<and> servo_sub_state g' = JumpDowning \<and> jump_pm_handler g' = m \<or> pm_is_over m \<and> servo_sub_state g' = JumpDowningBuffer)"
proof -
  obtain n cs where u: "jump_move False g sh = (g\<lparr>jump_pm_handler := m, last_send_gate_ns := n\<rparr>,
     (set_cmd_axis (curr_pos m) sh)\<lparr>io_calls := cs\<rparr>)" unfolding m_def using jump_move_eq by blast
  show "g01_state g' = G01Running \<and> servoing_length_before_jump g' = servoing_length_before_jump g
      \<and> (\<not> pm_is_over m \<and> servo_sub_state g' = JumpUping \<and> jump_pm_handler g' = m \<or> pm_is_over m \<and> servo_sub_state g' = JumpDowning)"
    if "servo_sub_state g = JumpUping"
    using assms(1,2) that
    by (auto simp: g01_run_once_def normal_running_def servo_jumpuping_def u send_gate_def Let_def split: if_splits)
  obtain n cs where d: "jump_move True g sh = (g\<lparr>jump_pm_handler := m, last_send_gate_ns := n\<rparr>,
     (set_cmd_axis (curr_pos m) sh)\<lparr>io_calls := cs\<rparr>)" unfolding m_def using jump_move_eq by blast
  show "g01_state g' = G01Running \<and> servoing_length_before_jump g' = servoing_length_before_jump g
      \<and> (\<not> pm_is_over m \<and> servo_sub_state g' = JumpDowning \<and> jump_pm_handler g' = m \<or> pm_is_over m \<and> servo_sub_state g' = JumpDowningBuffer)"
    if "servo_sub_state g = JumpDowning"
    using assms(1,2) that
    by (auto simp: g01_run_once_def normal_running_def servo_jumpdowning_def d Let_def split: if_splits)
qed

lemma flying_ends:
  assumes "cut_ok s e h (g, sh, hs)" "servo_sub_state g \<in> {JumpUping, JumpDowning}"
  shows "\<exists>n. pm_is_over ((pm_run_once ^^ n) (jump_pm_handler g))" "\<not> pm_is_over (jump_pm_handler g)"
proof -
  have c: "cut_inv s e h g" using assms(1) by (simp add: cut_ok_def)
  obtain x y where f: "flying (at_length s e x) (at_length s e y) (jump_pm_handler g)" "x \<noteq> y"
  proof (cases "servo_sub_state g")
    case JumpUping
    then have "jump_fits h (servoing_length_before_jump g) (jumping_param g)" "0 \<le> buffer_blu (jumping_param g)"
      "flying (at_length s e (servoing_length_before_jump g)) (at_length s e (servoing_length_before_jump g - up_blu (jumping_param g))) (jump_pm_handler g)"
      using c by (simp_all add: cut_inv_def jump_part_def jump_ok_def Let_def)
    then show ?thesis using that jump_fits_apart by force
  next
    case JumpDowning
    then have "jump_fits h (servoing_length_before_jump g) (jumping_param g)"
      "flying (at_length s e (servoing_length_before_jump g - up_blu (jumping_param g)))
         (at_length s e (servoing_length_before_jump g - buffer_blu (jumping_param g))) (jump_pm_handler g)"
      using c by (simp_all add: cut_inv_def jump_part_def Let_def)
    then show ?thesis using that jump_fits_apart by force
  qed (use assms(2) in simp_all)
  have oc: "on_course (at_length s e x) (at_length s e y) (jump_pm_handler g)" "pm_state (jump_pm_handler g) = MW_Running"
    using f(1) by (simp_all add: flying_def)
  obtain n where "pm_state ((pm_run_once ^^ n) (jump_pm_handler g)) = MW_Stopped"
    using pm_run_finishes[OF oc line_axis[OF c] line_axis[OF c] line_apart[OF c f(2)]] by blast
  then have "pm_is_over ((pm_run_once ^^ n) (jump_pm_handler g))" by (simp add: pm_is_over_def mw_is_stopped_def pm_state_def)
  then show "\<exists>n. pm_is_over ((pm_run_once ^^ n) (jump_pm_handler g))" by blast
  show "\<not> pm_is_over (jump_pm_handler g)" using oc(2) by (simp add: pm_is_over_def mw_is_stopped_def pm_state_def)
qed

lemma down_comes_back:
  assumes "0 < T" "0 < v" "cut_ok s e h (g, sh, hs)" "g01_state g = G01Running" "servo_sub_state g = JumpDowning"
    "forwards v (now_ms sh) ins" "pm_is_over ((pm_run_once ^^ n) (jump_pm_handler g))"
  shows "comes_back T us ins (at_length s e (servoing_length_before_jump g)) (g, sh)"
  using assms(3-7)
proof (induction n arbitrary: g sh us ins)
  case 0
  then show ?case using flying_ends(2)[OF 0(1)] by simp
next
  case (Suc n)
  show ?case
  proof (rule comes_back_cycle[OF Suc.prems(1) assms(1) Suc.prems(4)])
    fix g' sh' sh0
    assume a: "cut_ok s e h (g, sh0, hs)" "g01_run_once T (us 0) g sh0 = Inr (g', sh')" "cut_ok s e h (g', sh', hs)"
      "forwards v (now_ms sh') (\<lambda>i. ins (Suc i))"
    note c = jump_cycle(2)[OF Suc.prems(2) a(2) Suc.prems(3)]
    have "comes_back T (\<lambda>i. us (Suc i)) (\<lambda>i. ins (Suc i)) (at_length s e (servoing_length_before_jump g')) (g', sh')"
    proof (cases "servo_sub_state g' = JumpDowning")
      case True
      then show ?thesis using Suc.IH[OF a(3) _ _ a(4), of "\<lambda>i. us (Suc i)"] c Suc.prems(5) by (simp add: funpow_swap1)
    next
      case False
      obtain k where "servoing_length_before_jump g' - lin_length (line_traj g') \<le> real k * mm_min2blu_p T v"
        using ex_less_of_nat_mult[OF speed_step(2)[OF assms(1,2)]] less_imp_le by metis
      then show ?thesis using buffer_comes_back[OF assms(1,2) a(3) _ _ a(4)] c False by simp
    qed
    then show "comes_back T (\<lambda>i. us (Suc i)) (\<lambda>i. ins (Suc i)) (at_length s e (servoing_length_before_jump g)) (g', sh')" using c by simp
  qed
qed

lemma up_comes_back:
  assumes "0 < T" "0 < v" "cut_ok s e h (g, sh, hs)" "g01_state g = G01Running" "servo_sub_state g = JumpUping"
    "forwards v (now_ms sh) ins" "pm_is_over ((pm_run_once ^^ n) (jump_pm_handler g))"
  shows "comes_back T us ins (at_length s e (servoing_length_before_jump g)) (g, sh)"
  using assms(3-7)
proof (induction n arbitrary: g sh us ins)
  case 0
  then show ?case using flying_ends(2)[OF 0(1)] by simp
next
  case (Suc n)
  show ?case
  proof (rule comes_back_cycle[OF Suc.prems(1) assms(1) Suc.prems(4)])
    fix g' sh' sh0
    assume a: "cut_ok s e h (g, sh0, hs)" "g01_run_once T (us 0) g sh0 = Inr (g', sh')" "cut_ok s e h (g', sh', hs)"
      "forwards v (now_ms sh') (\<lambda>i. ins (Suc i))"
    note c = jump_cycle(1)[OF Suc.prems(2) a(2) Suc.prems(3)]
    have "comes_back T (\<lambda>i. us (Suc i)) (\<lambda>i. ins (Suc i)) (at_length s e (servoing_length_before_jump g')) (g', sh')"
    proof (cases "servo_sub_state g' = JumpUping")
      case True
      then show ?thesis using Suc.IH[OF a(3) _ _ a(4), of "\<lambda>i. us (Suc i)"] c Suc.prems(5) by (simp add: funpow_swap1)
    next
      case False
      then have "servo_sub_state g' = JumpDowning" using c by simp
      then show ?thesis using down_comes_back[OF assms(1,2) a(3) _ _ a(4)] flying_ends(1)[OF a(3)] c by auto
    qed
    then show "comes_back T (\<lambda>i. us (Suc i)) (\<lambda>i. ins (Suc i)) (at_length s e (servoing_length_before_jump g)) (g', sh')" using c by simp
  qed
qed

text \<open>C14: A jump comes back: when a cycle of a running cutting move has begun one, then as long as the servo asks to go
  forwards (with some least speed) finitely many cycles lead back to the point where the electrode was lifted, with
  the move cutting again.\<close>

theorem jump_returns:
  assumes "0 < T" "cut_starts sh e" "cut_reach T cs sh e h (g, sh1, hs)" "g01_state g = G01Running" "servo_sub_state g = Servoing"
    and "g01_run_once T u g sh1 = Inr (g1, sh2)" "servo_sub_state g1 = JumpUping" "0 < v" "forwards v (now_ms sh2) ins"
  shows "\<exists>k g2 sh3. cut_cycles T us ins k (g1, sh2) = Inr (g2, sh3) \<and> g01_state g2 = G01Running \<and> servo_sub_state g2 = Servoing
    \<and> global_cmd_axis sh3 = global_cmd_axis sh1"
proof -
  let ?s = "global_cmd_axis sh"
  have o: "cut_ok ?s e h (g, sh1, hs)" by (rule cut_reach_ok[OF assms(3,1,2)])
  have o1: "cut_ok ?s e h (g1, sh2, hs)" using cut_cycle_ok[OF o assms(1)] assms(6) by (metis Inr_inject prod.inject)
  have r: "g01_state g1 = G01Running" using servoing_effect(3)[OF o assms(1,4,5,6)] assms(7) by auto
  obtain n where "pm_is_over ((pm_run_once ^^ n) (jump_pm_handler g1))" using flying_ends(1)[OF o1] assms(7) by auto
  then have cb: "comes_back T us ins (at_length ?s e (servoing_length_before_jump g1)) (g1, sh2)"
    by (rule up_comes_back[OF assms(1,8) o1 r assms(7,9)])
  have "line_traj g1 = line_traj g" using servoing_effect(3)[OF o assms(1,4,5,6)] assms(7) by auto
  moreover have "servoing_length_before_jump g1 = lin_length (line_traj g1)"
    using o1 assms(7) by (simp add: cut_ok_def cut_inv_def jump_part_def Let_def)
  ultimately have "global_cmd_axis sh1 = at_length ?s e (servoing_length_before_jump g1)"
    using o assms(5) by (simp add: cut_ok_def cut_inv_def g01_pos_def lin_ok_def)
  then show ?thesis using cb by (simp add: comes_back_def)
qed

section \<open>A sample jump\<close>

abbreviation later_sensed :: "shared \<Rightarrow> shared" where
  "later_sensed sh \<equiv> sense_servo 2000 0 60 (jump_setting sample_shared) sh"

lemma sample_due:
  obtains g where "cut_reach (1 / 1000) {} sample_shared sample_to 1000 (g, later_sensed (cut_on sample_shared), [])"
    "g01_state g = G01Running" "servo_sub_state g = Servoing" "jump_due (cut_window (1 / 1000)) 1000 g (later_sensed (cut_on sample_shared)) []"
proof -
  obtain g where g: "g01_state g = G01Running" "servo_sub_state g = Servoing" "lin_length (line_traj g) = 0" "last_jump_end_time_ms g = 0"
    "cut_reach (1 / 1000) {} sample_shared sample_to 1000 (g, cut_on sample_shared, [])"
    using cut_reach_start[OF sample_cut(1)] sample_cut(4) by metis
  have "cut_reach (1 / 1000) {} sample_shared sample_to 1000 (g, later_sensed (cut_on sample_shared), [])"
    by (rule cut_reach_step[OF g(5) cut_step.inputs]) (simp_all add: sample_cut(4) sample_jump)
  moreover have "jump_due (cut_window (1 / 1000)) 1000 g (later_sensed (cut_on sample_shared)) []"
    using g(3,4) by (simp add: jump_due_def sense_servo_def sample_shared_def goods_def jump_room_def um2blu_def EDM_BLU_PER_UM_def Let_def)
  ultimately show ?thesis using that g(1,2) by blast
qed

lemma jumps_when_due_witness:
  "\<exists>g sh' g'. cut_reach (1 / 1000) {} sample_shared sample_to 1000 (g, later_sensed (cut_on sample_shared), [])
     \<and> g01_run_once (1 / 1000) zero_vars g (later_sensed (cut_on sample_shared)) = Inr (g', sh') \<and> servo_sub_state g' = JumpUping"
proof -
  let ?sh = "later_sensed (cut_on sample_shared)"
  obtain g where g: "cut_reach (1 / 1000) {} sample_shared sample_to 1000 (g, ?sh, [])"
    "g01_state g = G01Running" "servo_sub_state g = Servoing" "jump_due (cut_window (1 / 1000)) 1000 g ?sh []" by (rule sample_due)
  obtain g' sh' where r: "g01_run_once (1 / 1000) zero_vars g ?sh = Inr (g', sh')"
    using cut_cycle_ok[OF cut_reach_ok[OF g(1) _ sample_cut(1)], of "1 / 1000" zero_vars] by (metis zero_less_divide_1_iff zero_less_numeral)
  have "servo_sub_state g' = JumpUping" using jumps_when_due[OF _ sample_cut(1) g(1-3) r] g(4) by simp
  then show ?thesis using g(1) r by blast
qed

lemma jump_returns_witness:
  "\<exists>g sh k g2 sh3. cut_cycles (1 / 1000) (\<lambda>_. zero_vars) (\<lambda>_. \<lparr>s_ms = 2000, s_ns = 0, s_speed = 60, s_jump = jump_setting sample_shared\<rparr>) k (g, sh)
       = Inr (g2, sh3) \<and> servo_sub_state g = JumpUping \<and> servo_sub_state g2 = Servoing \<and> global_cmd_axis sh3 = sample_from"
proof -
  let ?sh = "later_sensed (cut_on sample_shared)"
  let ?ins = "\<lambda>_. \<lparr>s_ms = 2000, s_ns = 0, s_speed = 60, s_jump = jump_setting sample_shared\<rparr> :: sensed"
  obtain g where g: "cut_reach (1 / 1000) {} sample_shared sample_to 1000 (g, ?sh, [])"
    "g01_state g = G01Running" "servo_sub_state g = Servoing" "jump_due (cut_window (1 / 1000)) 1000 g ?sh []" by (rule sample_due)
  have o: "cut_ok sample_from sample_to 1000 (g, ?sh, [])" using cut_reach_ok[OF g(1) _ sample_cut(1)] sample_cut(2) by simp
  have c: "counts [] (sc_servo_go g)" "window_size (sc_servo_go g) = cut_window (1 / 1000)"
    using cut_counts[OF g(1) _ sample_cut(1)] by simp_all
  obtain g1 sh1 where r: "g01_run_once (1 / 1000) zero_vars g ?sh = Inr (g1, sh1)" "keeps ?sh sh1" "servo_sub_state g1 = JumpUping"
    using cut_cycle_ok[OF o, of "1 / 1000" zero_vars] servoing_jumps[OF _ c(1,2) o g(2,3)] g(4) by (metis zero_less_divide_1_iff zero_less_numeral)
  have "global_cmd_axis ?sh = sample_from" using sample_cut(2) by (simp add: sense_servo_def call_io_def)
  moreover have "forwards 60 (now_ms sh1) ?ins" using r(2) sample_jump by (simp add: forwards_def keeps_def sense_servo_def)
  ultimately have "\<exists>k g2 sh3. cut_cycles (1 / 1000) (\<lambda>_. zero_vars) ?ins k (g1, sh1) = Inr (g2, sh3) \<and> g01_state g2 = G01Running
      \<and> servo_sub_state g2 = Servoing \<and> global_cmd_axis sh3 = sample_from"
    using jump_returns[OF _ sample_cut(1) g(1-3) r(1,3), of 60 ?ins "\<lambda>_. zero_vars"] by simp
  then show ?thesis using r(3) by blast
qed

end
