(* ===== verification/Cutting_Limits.thy ===== *)
theory Cutting_Limits
  imports Cutting_Run Gcode_Runner_Correct
begin

text \<open>
  The soft limits and the jumps of a cutting move: the runner sends with the move how far the machine may go back behind
  its start, and the task cuts the height of every jump down to that.
\<close>

section \<open>The free way behind the start\<close>

lemma max_scale_fits:
  assumes "max_scale sl dir p is k0 = Some k" "0 \<le> k0"
  shows "0 \<le> k" "0 < k0 \<Longrightarrow> 0 < k \<and> k \<le> k0"
    "i \<in> set is \<Longrightarrow> dir ! i > 0 \<Longrightarrow> k * dir ! i \<le> sl_pos sl ! i - p ! i"
    "i \<in> set is \<Longrightarrow> dir ! i < 0 \<Longrightarrow> sl_neg sl ! i - p ! i \<le> k * dir ! i"
proof -
  have "0 \<le> k \<and> (0 < k0 \<longrightarrow> 0 < k \<and> k \<le> k0) \<and> (i \<in> set is \<longrightarrow> (dir ! i > 0 \<longrightarrow> k * dir ! i \<le> sl_pos sl ! i - p ! i)
      \<and> (dir ! i < 0 \<longrightarrow> sl_neg sl ! i - p ! i \<le> k * dir ! i))"
    using assms
  proof (induction "is" arbitrary: k0)
    case (Cons j js)
    show ?case
    proof (cases "dir ! j = 0")
      case True
      then show ?thesis using Cons.IH[OF _ Cons.prems(2)] Cons.prems(1) by auto
    next
      case False
      define left where "left = (if dir ! j > 0 then sl_pos sl ! j - p ! j else sl_neg sl ! j - p ! j) / dir ! j"
      define k1 where "k1 = (if k0 = 0 \<or> left < k0 then left else k0)"
      have r: "max_scale sl dir p js k1 = Some k" "0 < left"
        using Cons.prems(1) False by (auto simp: left_def k1_def Let_def zero_less_divide_iff split: if_splits)
      have k1: "0 < k1" "k1 \<le> left" "0 < k0 \<longrightarrow> k1 \<le> k0" using r(2) Cons.prems(2) by (auto simp: k1_def)
      note ih = Cons.IH[OF r(1) less_imp_le[OF k1(1)]]
      then have k: "0 < k" "k \<le> left" using k1 by auto
      have "dir ! j > 0 \<Longrightarrow> k * dir ! j \<le> sl_pos sl ! j - p ! j" "dir ! j < 0 \<Longrightarrow> sl_neg sl ! j - p ! j \<le> k * dir ! j"
        using k(2) by (simp_all add: left_def pos_le_divide_eq neg_le_divide_eq)
      then show ?thesis using ih k k1 by auto
    qed
  qed simp
  then show "0 \<le> k" "0 < k0 \<Longrightarrow> 0 < k \<and> k \<le> k0" "i \<in> set is \<Longrightarrow> dir ! i > 0 \<Longrightarrow> k * dir ! i \<le> sl_pos sl ! i - p ! i"
    "i \<in> set is \<Longrightarrow> dir ! i < 0 \<Longrightarrow> sl_neg sl ! i - p ! i \<le> k * dir ! i" by auto
qed

lemma length_scale: "0 \<le> k \<Longrightarrow> CalcAxisLength (ScaleAxis v k) = CalcAxisLength v * k"
proof -
  have "sum_list (map (\<lambda>x. x * x) (ScaleAxis v k)) = sum_list (map (\<lambda>x. x * x) v) * (k * k)"
    by (induction v) (simp_all add: ScaleAxis_def algebra_simps)
  then show "0 \<le> k \<Longrightarrow> CalcAxisLength (ScaleAxis v k) = CalcAxisLength v * k"
    by (simp add: CalcAxisLength_def real_sqrt_mult)
qed

lemma unit_length:
  assumes "is_axis s" "is_axis t" "s \<noteq> t"
  shows "CalcAxisLength (CalcAxisUnitVector s t) = 1"
proof -
  obtain l where l: "0 < l" "l = CalcAxisLength (sub_axis t s)" using unit_vector_nth[OF assms, of 0] by auto
  then show ?thesis using length_scale[of "1 / l" "sub_axis t s"] by (simp add: CalcAxisUnitVector_def Let_def)
qed

lemma unit_back:
  assumes "is_axis s" "is_axis t" "s \<noteq> t" "i < 6"
  shows "CalcAxisUnitVector t s ! i = - CalcAxisUnitVector s t ! i"
proof -
  obtain l where l: "0 < l" "l = CalcAxisLength (sub_axis t s)" "CalcAxisUnitVector s t ! i = (t ! i - s ! i) / l"
    using unit_vector_nth[OF assms] by metis
  obtain k where k: "0 < k" "k = CalcAxisLength (sub_axis s t)" "CalcAxisUnitVector t s ! i = (s ! i - t ! i) / k"
    using unit_vector_nth[OF assms(2,1) _ assms(4)] assms(3) by metis
  have "k = l" unfolding k(2) l(2)
  proof -
    have "map (\<lambda>x. x * x) (sub_axis s t) = map (\<lambda>x. x * x) (sub_axis t s)"
      using assms by (intro nth_equalityI) (simp_all add: sub_axis_def is_axis_def algebra_simps)
    then show "CalcAxisLength (sub_axis s t) = CalcAxisLength (sub_axis t s)" by (simp add: CalcAxisLength_def)
  qed
  then show ?thesis by (simp add: l(3) k(3) minus_divide_left)
qed

text \<open>The points of the line of a move, from the free way behind its start to its end, are within the limits.\<close>

lemma line_in_limits:
  assumes "is_axis s" "is_axis t" "s \<noteq> t" "in_limits sl s" "within_limits sl s t"
    "- GetMaxLengthOnCurrentDir sl (CalcAxisUnitVector t s) s \<le> x" "x \<le> CalcAxisLength (sub_axis t s)"
  shows "in_limits sl (at_length s t x)"
proof (cases "0 \<le> x")
  case True
  obtain l where l: "0 < l" "l = CalcAxisLength (sub_axis t s)" using unit_vector_nth[OF assms(1-3), of 0] by auto
  have "at_length s t x = on_the_way s t (x / l)"
  proof (rule axis_ext)
    fix i :: nat assume i: "i < 6"
    have u: "CalcAxisUnitVector s t ! i = (t ! i - s ! i) / l" using unit_vector_nth[OF assms(1-3) i] l(2) by metis
    have "on_the_way s t (x / l) ! i = s ! i + x / l * (t ! i - s ! i)" using assms(1,2) i by (simp add: on_the_way_def)
    then show "at_length s t x ! i = on_the_way s t (x / l) ! i" by (simp add: at_length_nth[OF assms(1,2) i] u)
  qed (use assms(1,2) at_length_axis in \<open>simp_all add: on_the_way_def is_axis_def EDM_AXIS_NUM_def\<close>)
  then show ?thesis using in_limits_on_the_way[OF assms(1,2,4,5), of "x / l"] True assms(7) l by simp
next
  case False
  let ?d = "CalcAxisUnitVector t s"
  obtain k where k: "max_scale sl ?d s [0..<EDM_AXIS_NUM] 0 = Some k" "- k \<le> x"
    using assms(6) False unit_length[OF assms(2,1)] assms(3) by (auto simp: GetMaxLengthOnCurrentDir_def split: option.splits)
  show ?thesis unfolding in_limits_def
  proof (intro allI impI)
    fix i :: nat assume i: "i < 6"
    have p: "at_length s t x ! i = s ! i + (- x) * ?d ! i"
      using at_length_nth[OF assms(1,2) i] unit_back[OF assms(1-3) i] by simp
    have lim: "sl_neg sl ! i \<le> s ! i" "s ! i \<le> sl_pos sl ! i" using assms(4) i by (auto simp: in_limits_def)
    have f: "?d ! i > 0 \<Longrightarrow> k * ?d ! i \<le> sl_pos sl ! i - s ! i" "?d ! i < 0 \<Longrightarrow> sl_neg sl ! i - s ! i \<le> k * ?d ! i"
      using max_scale_fits(3,4)[OF k(1), of i] i by (simp_all add: EDM_AXIS_NUM_def)
    consider "?d ! i = 0" | "?d ! i > 0" | "?d ! i < 0" by linarith
    then show "sl_neg sl ! i \<le> at_length s t x ! i \<and> at_length s t x ! i \<le> sl_pos sl ! i"
    proof cases
      case 1
      then show ?thesis using p lim by simp
    next
      case 2
      then have "0 \<le> (- x) * ?d ! i" "(- x) * ?d ! i \<le> k * ?d ! i"
        using False k(2) mult_nonneg_nonneg[of "- x" "?d ! i"] mult_right_mono[of "- x" k "?d ! i"] by simp_all
      then show ?thesis using p f(1)[OF 2] lim by linarith
    next
      case 3
      then have "(- x) * ?d ! i \<le> 0" "k * ?d ! i \<le> (- x) * ?d ! i"
        using False k(2) mult_nonneg_nonpos[of "- x" "?d ! i"] mult_right_mono_neg[of "- x" k "?d ! i"] by simp_all
      then show ?thesis using p f(2)[OF 3] lim by linarith
    qed
  qed
qed

section \<open>The jumps of a move that the runner sends\<close>

lemma machine_line:
  assumes "is_axis s" "is_axis t" "cm_ok m"
  shows "motor_to_machine m (at_length s t x) = at_length (motor_to_machine m s) (motor_to_machine m t) x"
    and "sub_axis (motor_to_machine m t) (motor_to_machine m s) = sub_axis t s"
proof -
  have off: "is_axis (global_offset m)" using assms(3) by (simp add: cm_ok_def)
  show v: "sub_axis (motor_to_machine m t) (motor_to_machine m s) = sub_axis t s"
    using assms(1,2) off by (intro axis_ext) (simp_all add: motor_to_machine_def sub_axis_def is_axis_def EDM_AXIS_NUM_def)
  have u: "CalcAxisUnitVector (motor_to_machine m s) (motor_to_machine m t) = CalcAxisUnitVector s t"
    by (simp add: CalcAxisUnitVector_def v)
  have ax: "is_axis (motor_to_machine m s)" "is_axis (motor_to_machine m t)" using assms by simp_all
  show "motor_to_machine m (at_length s t x) = at_length (motor_to_machine m s) (motor_to_machine m t) x"
  proof (rule axis_ext)
    fix i :: nat assume i: "i < 6"
    have m: "motor_to_machine m q ! i = q ! i - global_offset m ! i" if "is_axis q" for q
      using that off i by (simp add: motor_to_machine_def sub_axis_def is_axis_def EDM_AXIS_NUM_def)
    show "motor_to_machine m (at_length s t x) ! i = at_length (motor_to_machine m s) (motor_to_machine m t) x ! i"
      using at_length_axis[OF assms(1,2)] assms(1) by (simp add: m at_length_nth[OF assms(1,2) i] at_length_nth[OF ax i] u)
  qed (use at_length_axis assms(1-3) ax in simp_all)
qed

text \<open>A cutting move of the runner, and the points of its line that are within the limits.\<close>

lemma sent_line_in_limits:
  assumes "prepare_g01 m p ix md vs = Sends (AutoStartG01ServoMove s t h) msg" "cm_ok m" "is_axis p" "length vs = 6"
    "in_limits (soft_limits m) (motor_to_machine m p)"
  shows "s = p" "segment_line s t"
    "- h \<le> x \<Longrightarrow> x \<le> CalcAxisLength (sub_axis t s) \<Longrightarrow> in_limits (soft_limits m) (motor_to_machine m (at_length s t x))"
    "0 \<le> h"
proof -
  let ?s = "motor_to_machine m p"
  have sa: "is_axis ?s" using assms(2,3) by simp
  obtain q where q: "machine_target ''g01'' m ix md ?s vs = Inr q" "?s \<noteq> q"
    using assms(1) by (auto simp: prepare_g01_def Let_def IsAxisTheSame_def split: if_splits sum.splits)
  have qa: "is_axis q" using machine_target_axis[OF q(1) assms(2) sa assms(4)] .
  have r: "CheckPosandnegSoftLimit (soft_limits m) q (CalcAxisUnitVector ?s q)" "s = p" "t = machine_to_motor m q"
    "h = GetMaxLengthOnCurrentDir (soft_limits m) (CalcAxisUnitVector q ?s) ?s"
    using assms(1) q by (auto simp: prepare_g01_def Let_def IsAxisTheSame_def split: if_splits)
  have qt: "motor_to_machine m t = q" "is_axis t" using qa assms(2) r(3) by simp_all
  show "s = p" using r(2) .
  show "segment_line s t" using assms(3) qt q(2) r(2) by (auto simp: segment_line_def)
  show "in_limits (soft_limits m) (motor_to_machine m (at_length s t x))" if "- h \<le> x" "x \<le> CalcAxisLength (sub_axis t s)"
    using line_in_limits[OF sa qa q(2) assms(5), of x] check_limit_iff[OF sa qa q(2)] r(1,4) that
      machine_line[OF assms(3) qt(2) assms(2)] qt(1) r(2) by simp
  show "0 \<le> h" using max_scale_fits(1) unit_length[OF qa sa] q(2)
    by (auto simp: r(4) GetMaxLengthOnCurrentDir_def split: option.splits)
qed

text \<open>C6: The jumps of a cutting move keep to the soft limits, also where they go back behind its start: of a move that the
  runner sends from a position inside the limits, every position that the servo commands is inside them, and every
  point move of a jump leads from a point inside to a point inside. At its top there are 100 um more of free way.\<close>

theorem jumps_within_soft_limits:
  assumes "prepare_g01 m p ix md vs = Sends (AutoStartG01ServoMove s t h) msg" "cm_ok m" "is_axis p" "length vs = 6"
    and "in_limits (soft_limits m) (motor_to_machine m p)"
    and "0 < T" "global_cmd_axis sh = s" "jump_ok (jump_setting sh)" "cut_reach T cs sh t h (g, sh', hs)"
  shows "if servo_sub_state g \<in> {Servoing, JumpDowningBuffer} then in_limits (soft_limits m) (motor_to_machine m (global_cmd_axis sh'))
    else in_limits (soft_limits m) (motor_to_machine m (start_pos (jump_pm_handler g)))
      \<and> in_limits (soft_limits m) (motor_to_machine m (target_pos (jump_pm_handler g)))
      \<and> (servo_sub_state g = JumpUping \<longrightarrow> (\<exists>x. target_pos (jump_pm_handler g) = at_length s t x
           \<and> in_limits (soft_limits m) (motor_to_machine m (at_length s t (x - um2blu 100)))))"
proof -
  note l = sent_line_in_limits[OF assms(1-5)]
  have o: "cut_ok s t h (g, sh', hs)"
    using cut_reach_ok[OF assms(9,6)] assms(7,8) l(2) by (simp add: cut_starts_def)
  let ?b = "servoing_length_before_jump g" and ?jp = "jumping_param g"
  have lo: "lin_ok s t (line_traj g)" "jump_ok ?jp" using o by (simp_all add: cut_ok_def cut_inv_def)
  have um: "um2blu 100 = 100" "um2blu 10 = 10" by (simp_all add: um2blu_def EDM_BLU_PER_UM_def)
  have servo: "global_cmd_axis sh' = at_length s t (lin_length (line_traj g)) \<and> 0 \<le> lin_length (line_traj g)
      \<and> lin_length (line_traj g) \<le> CalcAxisLength (sub_axis t s)" if "servo_sub_state g \<in> {Servoing, JumpDowningBuffer}"
    using o lo(1) that by (auto simp: cut_ok_def g01_pos_def lin_ok_def)
  show ?thesis
  proof (cases "servo_sub_state g")
    case JumpUping
    then have j: "lin_length (line_traj g) = ?b" "jump_fits h ?b ?jp"
      "flying (at_length s t ?b) (at_length s t (?b - up_blu ?jp)) (jump_pm_handler g)"
      using o by (simp_all add: cut_ok_def cut_inv_def jump_part_def Let_def)
    then have "start_pos (jump_pm_handler g) = at_length s t ?b" "target_pos (jump_pm_handler g) = at_length s t (?b - up_blu ?jp)"
      "?b \<le> CalcAxisLength (sub_axis t s)" "0 \<le> ?b" "0 \<le> up_blu ?jp" "up_blu ?jp \<le> ?b + h - 100"
      using lo um by (simp_all add: flying_def on_course_def pm_inv_def lin_ok_def jump_fits_def jump_ok_def)
    then show ?thesis using JumpUping l(4) by (auto intro!: l(3) exI[of _ "?b - up_blu ?jp"] simp: um)
  next
    case JumpDowning
    then have j: "lin_length (line_traj g) = ?b" "jump_fits h ?b ?jp"
      "flying (at_length s t (?b - up_blu ?jp)) (at_length s t (?b - buffer_blu ?jp)) (jump_pm_handler g)"
      using o by (simp_all add: cut_ok_def cut_inv_def jump_part_def Let_def)
    then have "start_pos (jump_pm_handler g) = at_length s t (?b - up_blu ?jp)" "target_pos (jump_pm_handler g) = at_length s t (?b - buffer_blu ?jp)"
      "?b \<le> CalcAxisLength (sub_axis t s)" "0 \<le> ?b" "0 \<le> up_blu ?jp" "up_blu ?jp \<le> ?b + h - 100" "0 \<le> buffer_blu ?jp" "buffer_blu ?jp \<le> ?b"
      using lo um by (simp_all add: flying_def on_course_def pm_inv_def lin_ok_def jump_fits_def jump_ok_def)
    then show ?thesis using JumpDowning l(4) by (auto intro!: l(3))
  qed (use servo l(3,4) in auto)
qed

lemma jumps_within_soft_limits_witness:
  "\<exists>t h msg g sh'. prepare_g01 demo_manager (global_cmd_axis sample_shared) 54 IncrementMode [Some 1, None, None, None, None, None]
       = Sends (AutoStartG01ServoMove sample_from t h) msg
     \<and> cut_reach (1 / 1000) {} sample_shared t h (g, sh', []) \<and> in_limits (soft_limits demo_manager) (motor_to_machine demo_manager (global_cmd_axis sh'))"
proof -
  let ?p = "global_cmd_axis sample_shared" and ?q = "[1000, 0, 0, 0, 0, 0] :: axis_t" and ?vs = "[Some 1, None, None, None, None, None] :: real option list"
  have p: "?p = [0, 0, 0, 0, 0, 0]" "is_axis ?p" "is_axis ?q" "motor_to_machine demo_manager ?p = ?p"
    by (simp_all add: sample_shared_def sample_from_def is_axis_def EDM_AXIS_NUM_def motor_to_machine_def demo_manager_def default_manager_def
        new_CoordinateManager_def sub_axis_def axis_init_def numeral_eq_Suc)
  have lim: "within_limits (soft_limits demo_manager) ?p ?q" "in_limits (soft_limits demo_manager) ?p"
    by (simp_all add: p(1) within_limits_def in_limits_def demo_manager_def EDM_AXIS_NUM_def less_Suc_eq numeral_eq_Suc)
  have ix: "exist_coordinate_index demo_manager (uint32 54)"
    by (simp add: exist_coordinate_index_def demo_manager_def default_manager_def uint32_def upto_rec_numeral)
  have q: "machine_target ''g01'' demo_manager 54 IncrementMode ?p ?vs = Inr ?q" "?p \<noteq> ?q"
    by (simp_all add: machine_target_def target_inc_def p(1) mm2blu_def EDM_BLU_PER_UM_def)
  have chk: "CheckPosandnegSoftLimit (soft_limits demo_manager) ?q (CalcAxisUnitVector ?p ?q)"
    using check_limit_iff[OF p(2,3) q(2)] lim(1) by simp
  have "\<exists>t h msg. prepare_g01 demo_manager ?p 54 IncrementMode ?vs = Sends (AutoStartG01ServoMove ?p t h) msg"
    unfolding prepare_g01_def Let_def p(4) using ix q chk by (simp add: IsAxisTheSame_def)
  then obtain t h msg where t: "prepare_g01 demo_manager ?p 54 IncrementMode ?vs = Sends (AutoStartG01ServoMove ?p t h) msg" by blast
  have il: "in_limits (soft_limits demo_manager) (motor_to_machine demo_manager ?p)" using lim(2) p(4) by simp
  note j = jumps_within_soft_limits[OF t demo_manager_ok p(2) _ il]
  have "cut_starts sample_shared t" using sent_line_in_limits(2)[OF t demo_manager_ok p(2) _ il] sample_jump
    by (simp add: cut_starts_def)
  then obtain g where g: "servo_sub_state g = Servoing" "cut_reach (1 / 1000) {} sample_shared t h (g, cut_on sample_shared, [])"
    using cut_reach_start by metis
  then have "in_limits (soft_limits demo_manager) (motor_to_machine demo_manager (global_cmd_axis (cut_on sample_shared)))"
    using j[OF _ _ _ sample_jump g(2)] by simp
  moreover have "?p = sample_from" by (simp add: sample_shared_def)
  ultimately show ?thesis using t g(2) by metis
qed

end
