(* ===== verification/Group_Live.thy ===== *)
theory Group_Live
  imports Group_Move Cutting_Correct
begin

text \<open>
  A group of cutting moves ends: with feeds that are positive and a speed ratio that has a positive lower bound, it
  runs through all its segments in finitely many cycles, to the end of the last one.
\<close>

section \<open>Cycles\<close>

text \<open>Each cycle has its speed ratio.\<close>

fun group_cycles :: "real \<Rightarrow> (nat \<Rightarrow> real) \<Rightarrow> nat \<Rightarrow> group_task \<times> shared \<Rightarrow> (motion_fault, group_task \<times> shared) result" where
  "group_cycles T rs 0 st = Inr st"
| "group_cycles T rs (Suc k) (g, sh) =
     rbind (group_run_once T g (sh\<lparr>g01_speed_ratio := rs 0\<rparr>)) (group_cycles T (\<lambda>i. rs (Suc i)) k)"

definition comes_to_end :: "real \<Rightarrow> (nat \<Rightarrow> real) \<Rightarrow> axis_t \<Rightarrow> group_task \<times> shared \<Rightarrow> bool" where
  "comes_to_end T rs q st \<longleftrightarrow> (\<exists>k g sh. group_cycles T rs k st = Inr (g, sh) \<and> group_state g = GroupStopped \<and> global_cmd_axis sh = q)"

lemma comes_to_end_cycle:
  assumes "group_run_once T g (sh\<lparr>g01_speed_ratio := rs 0\<rparr>) = Inr (g', sh')"
    "group_state g' = GroupStopped \<and> global_cmd_axis sh' = q \<or> comes_to_end T (\<lambda>i. rs (Suc i)) q (g', sh')"
  shows "comes_to_end T rs q (g, sh)"
proof -
  have "comes_to_end T (\<lambda>i. rs (Suc i)) q (g', sh')"
    using assms(2) unfolding comes_to_end_def by (metis group_cycles.simps(1))
  then obtain k g2 sh2 where "group_cycles T (\<lambda>i. rs (Suc i)) k (g', sh') = Inr (g2, sh2)" "group_state g2 = GroupStopped" "global_cmd_axis sh2 = q"
    by (auto simp: comes_to_end_def)
  then show ?thesis unfolding comes_to_end_def by (intro exI[of _ "Suc k"]) (simp add: assms(1))
qed

section \<open>Progress\<close>

lemma positive_total: "lin_ok s e t \<Longrightarrow> is_axis s \<Longrightarrow> is_axis e \<Longrightarrow> s \<noteq> e \<Longrightarrow> 0 < lin_total t"
  using at_length_end(2) by (simp add: lin_ok_def)

text \<open>A positive step goes on in the segment, goes over to the next one, or ends the path.\<close>

lemma traj_forward:
  assumes "traj_ok p q l" "0 < x"
  defines "l' \<equiv> traj_run_once x l"
  shows "traj_at_end l' \<and> traj_cmd_axis l' = q
    \<or> \<not> traj_at_end l' \<and> seg_index l' = Suc (seg_index l) \<and> Suc (seg_index l) < length (segements l)
    \<or> \<not> traj_at_end l' \<and> seg_index l' = seg_index l
      \<and> lin_total (curr_segement l') - lin_length (curr_segement l') = lin_total (curr_segement l) - lin_length (curr_segement l) - x"
proof -
  define t where "t = lin_run_once x (curr_segement l)"
  define l1 where "l1 = set_curr_segement t l"
  have bnd: "seg_index l < length (segements l)" using assms(1) by (simp add: traj_ok_def)
  obtain s e where c: "lin_ok s e (curr_segement l)" "is_axis s" "is_axis e" "s \<noteq> e" using assms(1) by (rule traj_ok_curr)
  note t = lin_run_ok[OF c(1), of x, folded t_def]
  have l1: "curr_segement l1 = t" "seg_index l1 = seg_index l" "length (segements l1) = length (segements l)"
    "at_end_segement l1 = at_end_segement l" using bnd by (simp_all add: l1_def)
  have ok': "traj_ok p q l'" unfolding l'_def using traj_run_ok(1)[OF assms(1)] .
  consider (ends) "lin_at_end t" "at_end_segement l" | (goes_on) "lin_at_end t" "\<not> at_end_segement l" | (inside) "\<not> lin_at_end t" by blast
  then show ?thesis
  proof cases
    case ends
    then have "l' = l1" using assms(2) l1 by (simp add: l'_def traj_run_once_def t_def[symmetric] l1_def[symmetric] Let_def)
    then have "traj_at_end l'" using ends l1 by (simp add: traj_at_end_def)
    then show ?thesis using traj_end_pos[OF ok'] by blast
  next
    case goes_on
    let ?l2 = "l1\<lparr>seg_index := Suc (seg_index l)\<rparr>"
    have l': "l' = set_curr_segement (lin_set_at_start (curr_segement ?l2)) ?l2"
      using goes_on assms(2) l1 by (simp add: l'_def traj_run_once_def t_def[symmetric] l1_def[symmetric] Let_def)
    have nx: "Suc (seg_index l) < length (segements l)" using goes_on(2) bnd by (simp add: at_end_segement_def)
    have cur: "lin_length (curr_segement l') = 0" "seg_index l' = Suc (seg_index l)"
      using nx l1(3) by (simp_all add: l' lin_set_at_start_def)
    obtain s' e' where c': "lin_ok s' e' (curr_segement l')" "is_axis s'" "is_axis e'" "s' \<noteq> e'" using ok' by (rule traj_ok_curr)
    have "\<not> lin_at_end (curr_segement l')" using positive_total[OF c'] cur(1) by (simp add: lin_at_end_def)
    then show ?thesis using cur(2) nx by (simp add: traj_at_end_def)
  next
    case inside
    then have e: "l' = l1" using assms(2) l1 by (simp add: l'_def traj_run_once_def t_def[symmetric] l1_def[symmetric] Let_def)
    have "lin_length t = lin_length (curr_segement l) + x"
      using inside t c(1) assms(2) by (auto simp: lin_at_end_def clip_def lin_ok_def)
    then show ?thesis using inside e l1 t(3) by (simp add: traj_at_end_def)
  qed
qed

definition feeds_on :: "real \<Rightarrow> (nat \<Rightarrow> real) \<Rightarrow> bool" where
  "feeds_on r rs \<longleftrightarrow> (\<forall>i. r \<le> rs i)"

definition least_step :: "real \<Rightarrow> real \<Rightarrow> real" where
  "least_step T r = mm_min2blu_p T 1 * r"

lemma step_least:
  assumes "0 < T" "0 < r" "r \<le> x" "1 \<le> f"
  shows "least_step T r \<le> mm_min2blu_p T (of_int f) * x" "0 < least_step T r"
proof -
  have "0 < mm_min2blu_p T 1" "mm_min2blu_p T 1 \<le> mm_min2blu_p T (of_int f)"
    using assms(1,4) by (simp_all add: mm_min2blu_p_def EDM_BLU_PER_UM_def)
  then show "least_step T r \<le> mm_min2blu_p T (of_int f) * x" "0 < least_step T r"
    using assms(2,3) mult_mono[of "mm_min2blu_p T 1" "mm_min2blu_p T (of_int f)" r x] by (simp_all add: least_step_def)
qed

lemma group_forward:
  assumes "group_inv p q g" "group_state g = GroupRunning" "traj_list g = Some l" "list_all (\<lambda>x. 1 \<le> item_feedrate x) (start_items g)"
    "0 < T" "0 < r" "r \<le> g01_speed_ratio sh"
  obtains g' sh' l' x where "group_run_once T g sh = Inr (g', sh')" "group_inv p q g'" "start_items g' = start_items g"
    "traj_list g' = Some l'" "l' = traj_run_once x l" "least_step T r \<le> x" "global_cmd_axis sh' = traj_cmd_axis l'"
    "group_state g' = (if traj_at_end l' then GroupStopped else GroupRunning)" "length (segements l') = length (segements l)"
proof -
  have l: "traj_ok p q l" "length (start_items g) = length (segements l)" "seg_index l < length (segements l)"
    using assms(1,3) by (auto simp: group_inv_def traj_ok_def)
  let ?x = "mm_min2blu_p T (of_int (item_feedrate (start_items g ! seg_index l))) * g01_speed_ratio sh"
  have "1 \<le> item_feedrate (start_items g ! seg_index l)" using assms(4) l(2,3) by (simp add: list_all_length)
  then have x: "least_step T r \<le> ?x" using step_least(1)[OF assms(5-7)] by simp
  let ?l = "traj_run_once ?x l"
  let ?g = "g\<lparr>traj_list := Some ?l, group_state := if traj_at_end ?l then GroupStopped else GroupRunning\<rparr>"
  let ?sh = "set_cmd_axis (traj_cmd_axis ?l) (sh\<lparr>sub_line_num := item_line (start_items g ! seg_index l)\<rparr>)"
  have "group_run_once T g sh = Inr (?g, ?sh)"
    using assms(2,3) l(2,3) by (simp add: group_run_once_def group_running_def Let_def)
  moreover have "group_inv p q ?g" using l(2) traj_run_ok[OF l(1)] by (simp add: group_inv_def)
  moreover have "global_cmd_axis ?sh = traj_cmd_axis ?l" by (simp add: set_cmd_axis_def)
  ultimately show ?thesis using that[of ?g ?sh ?l ?x] x traj_run_ok(2)[OF l(1)] by simp
qed

definition seg_left :: "trajectory \<Rightarrow> real" where
  "seg_left l = lin_total (curr_segement l) - lin_length (curr_segement l)"

definition group_goes :: "axis_t \<Rightarrow> axis_t \<Rightarrow> group_task \<Rightarrow> trajectory \<Rightarrow> bool" where
  "group_goes p q g l \<longleftrightarrow> group_inv p q g \<and> group_state g = GroupRunning \<and> traj_list g = Some l
     \<and> list_all (\<lambda>x. 1 \<le> item_feedrate x) (start_items g)"

lemma group_step_comes:
  assumes "group_goes p q g l" "0 < T" "0 < r" "feeds_on r rs"
    and "\<And>g' sh' l'. group_goes p q g' l' \<Longrightarrow> length (segements l') - seg_index l' = length (segements l) - Suc (seg_index l)
      \<Longrightarrow> comes_to_end T (\<lambda>i. rs (Suc i)) q (g', sh')"
    and "\<And>g' sh' l'. group_goes p q g' l' \<Longrightarrow> length (segements l') - seg_index l' = length (segements l) - seg_index l
      \<Longrightarrow> 0 \<le> seg_left l' \<Longrightarrow> seg_left l' \<le> seg_left l - least_step T r \<Longrightarrow> comes_to_end T (\<lambda>i. rs (Suc i)) q (g', sh')"
  shows "comes_to_end T rs q (g, sh)"
proof -
  have g: "group_inv p q g" "group_state g = GroupRunning" "traj_list g = Some l" "list_all (\<lambda>x. 1 \<le> item_feedrate x) (start_items g)"
    using assms(1) by (simp_all add: group_goes_def)
  have "r \<le> g01_speed_ratio (sh\<lparr>g01_speed_ratio := rs 0\<rparr>)" using assms(4) by (simp add: feeds_on_def)
  from group_forward[OF g assms(2,3) this] obtain g' sh' l' x where
    r: "group_run_once T g (sh\<lparr>g01_speed_ratio := rs 0\<rparr>) = Inr (g', sh')" "group_inv p q g'" "start_items g' = start_items g"
    "traj_list g' = Some l'" "l' = traj_run_once x l" "least_step T r \<le> x" "global_cmd_axis sh' = traj_cmd_axis l'"
    "group_state g' = (if traj_at_end l' then GroupStopped else GroupRunning)" "length (segements l') = length (segements l)" by blast
  have l: "traj_ok p q l" "traj_ok p q l'" using g r(2,4) by (auto simp: group_inv_def)
  have x: "0 < x" using step_least(2)[OF assms(2,3), of r 1] r(6) by simp
  have goes: "group_goes p q g' l'" if "\<not> traj_at_end l'" using that r g(4) by (simp add: group_goes_def)
  obtain s e where c: "lin_ok s e (curr_segement l')" using l(2) by (rule traj_ok_curr)
  have left: "0 \<le> seg_left l'" using c by (simp add: seg_left_def lin_ok_def)
  have "group_state g' = GroupStopped \<and> global_cmd_axis sh' = q \<or> comes_to_end T (\<lambda>i. rs (Suc i)) q (g', sh')"
    using traj_forward[OF l(1) x, folded r(5)]
  proof (elim disjE conjE)
    assume "traj_at_end l'" "traj_cmd_axis l' = q"
    then show ?thesis using r(7,8) by simp
  next
    assume "\<not> traj_at_end l'" "seg_index l' = Suc (seg_index l)"
    then show ?thesis using assms(5)[OF goes] r(9) by simp
  next
    assume a: "\<not> traj_at_end l'" "seg_index l' = seg_index l"
      "lin_total (curr_segement l') - lin_length (curr_segement l') = lin_total (curr_segement l) - lin_length (curr_segement l) - x"
    then have "seg_left l' \<le> seg_left l - least_step T r" using r(6) by (simp add: seg_left_def)
    then show ?thesis using assms(6)[OF goes _ left] a r(9) by simp
  qed
  then show ?thesis by (rule comes_to_end_cycle[of T g rs sh, OF r(1)])
qed

text \<open>By induction on the segments that are left, and in a segment on the steps that are left.\<close>

lemma group_comes_to_end:
  assumes "0 < T" "0 < r"
  shows "group_goes p q g l \<Longrightarrow> feeds_on r rs \<Longrightarrow> length (segements l) - seg_index l = n \<Longrightarrow> comes_to_end T rs q (g, sh)"
proof (induction n arbitrary: g l rs sh)
  case 0
  then show ?case by (auto simp: group_goes_def group_inv_def traj_ok_def)
next
  case (Suc n)
  have d: "0 < least_step T r" using step_least(2)[OF assms, of r 1] by simp
  have "comes_to_end T rs q (g, sh)"
    if "group_goes p q g l" "feeds_on r rs" "length (segements l) - seg_index l = Suc n" "seg_left l \<le> real m * least_step T r" for m g l rs sh
    using that
  proof (induction m arbitrary: g l rs sh)
    case 0
    show ?case
      by (rule group_step_comes[OF 0(1) assms 0(2)]) (use Suc.IH 0 d in \<open>simp_all add: feeds_on_def\<close>)
  next
    case (Suc m)
    show ?case
    proof (rule group_step_comes[OF Suc.prems(1) assms Suc.prems(2)])
      fix g' sh' l' assume a: "group_goes p q g' l'" "length (segements l') - seg_index l' = length (segements l) - Suc (seg_index l)"
      then show "comes_to_end T (\<lambda>i. rs (Suc i)) q (g', sh')"
        using \<open>\<And>g l rs sh. group_goes p q g l \<Longrightarrow> feeds_on r rs \<Longrightarrow> length (segements l) - seg_index l = n \<Longrightarrow> comes_to_end T rs q (g, sh)\<close>
          Suc.prems(2,3) by (simp add: feeds_on_def)
    next
      fix g' sh' l' assume a: "group_goes p q g' l'" "length (segements l') - seg_index l' = length (segements l) - seg_index l"
        "seg_left l' \<le> seg_left l - least_step T r"
      then show "comes_to_end T (\<lambda>i. rs (Suc i)) q (g', sh')"
        using Suc.IH[OF a(1)] Suc.prems(2-4) by (simp add: feeds_on_def algebra_simps)
    qed
  qed
  moreover obtain m where "seg_left l \<le> real m * least_step T r"
    using ex_less_of_nat_mult[OF d] less_imp_le by metis
  ultimately show ?case using Suc.prems by blast
qed

text \<open>C15: A group of cutting moves comes to its end: whatever the speed ratio is set to in its cycles, if it has a positive
  lower bound and the feeds of the items are positive, then after finitely many cycles the group is over, with the
  commanded position exactly at the sum of the increments of its items.\<close>

theorem group_finishes:
  assumes "0 < T" "0 < r" "feeds_on r rs" "is_axis (global_cmd_axis sh)" "items \<noteq> []"
    and "list_all (\<lambda>x. item_ok x \<and> 1 \<le> item_feedrate x) items"
  shows "\<exists>k g sh'. group_cycles T rs k (group_new items sh, sh) = Inr (g, sh') \<and> group_state g = GroupStopped
    \<and> global_cmd_axis sh' = items_end (global_cmd_axis sh) items"
proof -
  have it: "list_all item_ok items" "list_all (\<lambda>x. 1 \<le> item_feedrate x) items" using assms(6) by (simp_all add: list_all_iff)
  let ?g = "group_new items sh"
  note n = group_new_inv[OF assms(4) it(1)]
  obtain l where l: "traj_list ?g = Some l" using n(2)[OF assms(5)] by (auto simp: group_pos_def)
  have "start_items ?g = items" by (simp add: group_new_def Let_def)
  then have "group_goes (global_cmd_axis sh) (items_end (global_cmd_axis sh) items) ?g l"
    using n(1,3) l it(2) assms(5) by (simp add: group_goes_def)
  from group_comes_to_end[OF assms(1,2) this assms(3) refl] show ?thesis by (simp add: comes_to_end_def)
qed

lemma group_finishes_witness:
  "\<exists>k g sh'. group_cycles (1 / 1000) (\<lambda>_. 1) k
       (group_new [\<lparr>incs = [30, 40, 0, 0, 0, 0], item_line = 5, item_feedrate = 60\<rparr>,
          \<lparr>incs = [0, 0, -20, 0, 0, 0], item_line = 6, item_feedrate = 30\<rparr>] sample_shared, sample_shared) = Inr (g, sh')
     \<and> group_state g = GroupStopped \<and> global_cmd_axis sh' = [30, 40, -20, 0, 0, 0]"
  using group_finishes[of "1 / 1000" 1 "\<lambda>_. 1" sample_shared "[\<lparr>incs = [30, 40, 0, 0, 0, 0], item_line = 5, item_feedrate = 60\<rparr>,
          \<lparr>incs = [0, 0, -20, 0, 0, 0], item_line = 6, item_feedrate = 30\<rparr>]"] sample_move(1)
  by (simp add: feeds_on_def item_ok_def is_axis_def EDM_AXIS_NUM_def items_end_def sample_shared_def sample_from_def)

end
