(* ===== verification/Coord_File.thy ===== *)
theory Coord_File
  imports Coordinates
begin

text \<open>
  The file of the coordinates (\<^verbatim>\<open>Src/Coordinate/CoordinateManager.cpp\<close>): how a manager is written as a JSON
  document, and how a document is checked and read again. The JSON library (meojson, a submodule) is a
  parameter; a left value is the text of an exception it raises. The file holds millimetres, the manager
  basic length units.
\<close>

section \<open>The JSON library\<close>

text \<open>
  \<open>cj_find\<close> is \<open>j.find(key)\<close>, \<open>cj_at\<close> is \<open>j.as_object().at(key)\<close>, \<open>cj_vector\<close> is the value as a
  \<open>std::vector<double>\<close>, if it is one. The content of a file is a value of type \<open>'f\<close>.
\<close>

record ('v, 'f) coord_json =
  cj_is_object :: "'v \<Rightarrow> bool"
  cj_is_array :: "'v \<Rightarrow> bool"
  cj_is_number :: "'v \<Rightarrow> bool"
  cj_find :: "'v \<Rightarrow> string \<Rightarrow> 'v option"
  cj_at :: "'v \<Rightarrow> string \<Rightarrow> (string, 'v) result"
  cj_vector :: "'v \<Rightarrow> real list option"
  cj_as_integer :: "'v \<Rightarrow> (string, int) result"
  cj_as_unsigned :: "'v \<Rightarrow> (string, int) result"
  cj_as_double :: "'v \<Rightarrow> (string, real) result"
  cj_as_array :: "'v \<Rightarrow> (string, 'v list) result"
  cj_unsigned :: "int \<Rightarrow> 'v"
  cj_number :: "real \<Rightarrow> 'v"
  cj_array :: "'v list \<Rightarrow> 'v"
  cj_object :: "(string \<times> 'v) list \<Rightarrow> 'v"
  cj_write :: "'v \<Rightarrow> 'f"
  cj_parse :: "'f \<Rightarrow> 'v option"

section \<open>Writing\<close>

definition axis_to_json :: "('v, 'f) coord_json \<Rightarrow> axis_t \<Rightarrow> 'v" where
  "axis_to_json J a = cj_array J (map (\<lambda>i. cj_number J (blu2mm (a ! i))) [0..<EDM_AXIS_NUM])"

definition coordinate_to_json :: "('v, 'f) coord_json \<Rightarrow> coordinate \<Rightarrow> 'v" where
  "coordinate_to_json J c =
     cj_object J [(''index'', cj_unsigned J (c_index c)), (''offset'', axis_to_json J (c_offset c))]"

definition manager_to_json :: "('v, 'f) coord_json \<Rightarrow> coord_manager \<Rightarrow> 'v" where
  "manager_to_json J m =
     cj_object J
       [(''global_offset'', axis_to_json J (global_offset m)),
        (''coord_offsets'', cj_array J (map (\<lambda>(_, c). coordinate_to_json J c) (coordinates_map m))),
        (''soft_limit'', cj_object J [(''pos'', axis_to_json J (sl_pos (soft_limits m))), (''neg'', axis_to_json J (sl_neg (soft_limits m)))])]"

text \<open>\<open>opens\<close> says whether the file can be opened; the result has the new content, if any.\<close>

definition save_to_file :: "('v, 'f) coord_json \<Rightarrow> bool \<Rightarrow> string \<Rightarrow> coord_manager \<Rightarrow> bool \<times> 'f option" where
  "save_to_file J opens filename m =
     (if filename = [] then (False, None)
      else if \<not> opens then (False, None)
      else (True, Some (cj_write J (manager_to_json J m))))"

section \<open>Checking\<close>

definition check_json_has_int :: "('v, 'f) coord_json \<Rightarrow> 'v \<Rightarrow> string \<Rightarrow> (string, bool) result" where
  "check_json_has_int J j key =
     (case cj_find J j key of
        None \<Rightarrow> Inr False
      | Some v \<Rightarrow>
          if \<not> cj_is_number J v then Inr False
          else rbind (cj_as_integer J v) (\<lambda>n.
            if n < 0 then Inr False
            else rbind (cj_as_double J v) (\<lambda>d. Inr (d = of_int n))))"

definition check_json_has_vector :: "('v, 'f) coord_json \<Rightarrow> 'v \<Rightarrow> string \<Rightarrow> nat \<Rightarrow> bool" where
  "check_json_has_vector J j key n =
     (case cj_find J j key of
        None \<Rightarrow> False
      | Some v \<Rightarrow> (case cj_vector J v of None \<Rightarrow> False | Some xs \<Rightarrow> \<not> length xs < n))"

definition coordinate_check :: "('v, 'f) coord_json \<Rightarrow> 'v \<Rightarrow> (string, bool) result" where
  "coordinate_check J j =
     (if \<not> cj_is_object J j then Inr False
      else rbind (check_json_has_int J j ''index'') (\<lambda>b.
        Inr (b \<and> check_json_has_vector J j ''offset'' EDM_AXIS_NUM)))"

definition axis_from_json :: "('v, 'f) coord_json \<Rightarrow> 'v list \<Rightarrow> (string, axis_t) result" where
  "axis_from_json J js = rmap (\<lambda>j. rbind (cj_as_double J j) (\<lambda>d. Inr (mm2blu d))) (take EDM_AXIS_NUM js)"

definition axis_at :: "('v, 'f) coord_json \<Rightarrow> 'v \<Rightarrow> string \<Rightarrow> (string, axis_t) result" where
  "axis_at J j key = rbind (cj_at J j key) (\<lambda>v. rbind (cj_as_array J v) (axis_from_json J))"

definition coordinate_from_json :: "('v, 'f) coord_json \<Rightarrow> 'v \<Rightarrow> (string, coordinate) result" where
  "coordinate_from_json J j =
     rbind (cj_at J j ''index'') (\<lambda>jindex.
     rbind (axis_at J j ''offset'') (\<lambda>offset.
     rbind (cj_as_unsigned J jindex) (\<lambda>n.
       Inr \<lparr>c_index = uint32 n, c_offset = offset\<rparr>)))"

text \<open>The loop over the coordinates, with the indices so far.\<close>

fun coordinates_check :: "('v, 'f) coord_json \<Rightarrow> int list \<Rightarrow> 'v list \<Rightarrow> (string, bool) result" where
  "coordinates_check J seen [] = Inr True"
| "coordinates_check J seen (j # js) =
     rbind (coordinate_check J j) (\<lambda>b.
       if \<not> b then Inr False
       else rbind (coordinate_from_json J j) (\<lambda>c.
         if c_index c \<in> set seen then Inr False else coordinates_check J (c_index c # seen) js))"

text \<open>The limits of an axis in the wrong order.\<close>

definition limits_crossed :: "real list \<Rightarrow> real list \<Rightarrow> bool" where
  "limits_crossed pos neg \<longleftrightarrow> list_ex (\<lambda>i. pos ! i < neg ! i) [0..<EDM_AXIS_NUM]"

definition soft_limit_check :: "('v, 'f) coord_json \<Rightarrow> 'v \<Rightarrow> (string, bool) result" where
  "soft_limit_check J j =
     (case cj_find J j ''soft_limit'' of
        None \<Rightarrow> Inr False
      | Some sl \<Rightarrow>
          if \<not> cj_is_object J sl then Inr False
          else if \<not> check_json_has_vector J sl ''pos'' EDM_AXIS_NUM then Inr False
          else if \<not> check_json_has_vector J sl ''neg'' EDM_AXIS_NUM then Inr False
          else rbind (cj_at J sl ''pos'') (\<lambda>jpos. rbind (cj_at J sl ''neg'') (\<lambda>jneg.
            case (cj_vector J jpos, cj_vector J jneg) of
              (Some pos, Some neg) \<Rightarrow> Inr (\<not> limits_crossed pos neg)
            | _ \<Rightarrow> Inl ''Wrong JSON'')))"

definition manager_check :: "('v, 'f) coord_json \<Rightarrow> 'v \<Rightarrow> (string, bool) result" where
  "manager_check J j =
     (if \<not> cj_is_object J j then Inr False
      else if \<not> check_json_has_vector J j ''global_offset'' EDM_AXIS_NUM then Inr False
      else case cj_find J j ''coord_offsets'' of
             None \<Rightarrow> Inr False
           | Some co \<Rightarrow>
               if \<not> cj_is_array J co then Inr False
               else rbind (cj_as_array J co) (\<lambda>js.
                 if js = [] then Inr False
                 else rbind (coordinates_check J [] js) (\<lambda>b. if \<not> b then Inr False else soft_limit_check J j)))"

section \<open>Reading\<close>

text \<open>The entries in their order, \<open>None\<close> if an index comes twice.\<close>

fun read_coordinates :: "('v, 'f) coord_json \<Rightarrow> (int \<times> coordinate) list \<Rightarrow> 'v list \<Rightarrow> (string, (int \<times> coordinate) list option) result" where
  "read_coordinates J entries [] = Inr (Some entries)"
| "read_coordinates J entries (j # js) =
     rbind (coordinate_from_json J j) (\<lambda>c.
       if c_index c \<in> fst ` set entries then Inr None
       else read_coordinates J (entries @ [(c_index c, c)]) js)"

text \<open>\<open>from_json\<close> on a manager of the default constructor; \<open>None\<close> where it returns false.\<close>

definition manager_from_json :: "('v, 'f) coord_json \<Rightarrow> table_order \<Rightarrow> 'v \<Rightarrow> (string, coord_manager option) result" where
  "manager_from_json J ord j =
     rbind (axis_at J j ''global_offset'') (\<lambda>global.
     rbind (rbind (cj_at J j ''coord_offsets'') (cj_as_array J)) (\<lambda>js.
     rbind (read_coordinates J [] js) (\<lambda>entries.
     case entries of
       None \<Rightarrow> Inr None
     | Some es \<Rightarrow>
         rbind (cj_at J j ''soft_limit'') (\<lambda>jsl.
         rbind (axis_at J jsl ''pos'') (\<lambda>pos.
         rbind (axis_at J jsl ''neg'') (\<lambda>neg.
           let (b, m) = cm_set_soft_limits \<lparr>sl_pos = pos, sl_neg = neg\<rparr>
                 (filled_table ord es (cm_set_global_offset global new_CoordinateManager))
           in Inr (if b then Some m else None)))))))"

text \<open>
  The content is \<open>None\<close> where the file cannot be opened. \<open>root.is<CoordinateManager>()\<close> is the check, and
  an exception in it is not caught; \<open>root.as<CoordinateManager>()\<close> raises where \<open>from_json\<close> returns false.
\<close>

definition LoadFromJsonFile :: "('v, 'f) coord_json \<Rightarrow> table_order \<Rightarrow> 'f option \<Rightarrow> (string, coord_manager option) result" where
  "LoadFromJsonFile J ord content =
     (case Option.bind content (cj_parse J) of
        None \<Rightarrow> Inr None
      | Some doc \<Rightarrow> rbind (manager_check J doc) (\<lambda>b.
          Inr (if \<not> b then None
               else case manager_from_json J ord doc of Inl _ \<Rightarrow> None | Inr r \<Rightarrow> r)))"

section \<open>What is relied on\<close>

text \<open>
  A document as the library reads it. The text of a number is read as a double and, separately, as an
  integer, which a text like \<^verbatim>\<open>1e1\<close> may not be; \<open>None\<close> is an exception.
\<close>

datatype cval = CNum real "int option" | CArr "cval list" | CObj "(string \<times> cval) list" | COther

text \<open>A document written and read again: its numbers may have been rounded.\<close>

fun reread :: "(real \<Rightarrow> real) \<Rightarrow> cval \<Rightarrow> cval" where
  "reread rd (CNum x r) = CNum (rd x) r"
| "reread rd (CArr vs) = CArr (map (reread rd) vs)"
| "reread rd (CObj kvs) = CObj (map (\<lambda>(k, v). (k, reread rd v)) kvs)"
| "reread rd COther = COther"

fun numbers :: "cval list \<Rightarrow> real list option" where
  "numbers [] = Some []"
| "numbers (CNum x r # vs) = map_option ((#) x) (numbers vs)"
| "numbers _ = None"

definition int_range :: "int \<Rightarrow> bool" where
  "int_range n \<longleftrightarrow> - (2 ^ 31) \<le> n \<and> n < 2 ^ 31"

text \<open>The reference: the manager a document describes, if it describes one.\<close>

definition doc_axis :: "(string \<times> cval) list \<Rightarrow> string \<Rightarrow> real list option" where
  "doc_axis kvs key =
     (case map_of kvs key of
        Some (CArr vs) \<Rightarrow>
          (case numbers vs of None \<Rightarrow> None | Some xs \<Rightarrow> if 6 \<le> length xs then Some (take 6 xs) else None)
      | _ \<Rightarrow> None)"

definition doc_coordinate :: "cval \<Rightarrow> coordinate option" where
  "doc_coordinate v =
     (case v of
        CObj kvs \<Rightarrow>
          (case (map_of kvs ''index'', doc_axis kvs ''offset'') of
             (Some (CNum x (Some n)), Some a) \<Rightarrow>
               if x = of_int n \<and> 0 \<le> n \<and> int_range n then Some \<lparr>c_index = n, c_offset = map mm2blu a\<rparr> else None
           | _ \<Rightarrow> None)
      | _ \<Rightarrow> None)"

definition table_of :: "coordinate list \<Rightarrow> (int \<times> coordinate) list" where
  "table_of cs = map (\<lambda>c. (c_index c, c)) cs"

definition doc_list :: "(string \<times> cval) list \<Rightarrow> string \<Rightarrow> cval list option" where
  "doc_list kvs key = (case map_of kvs key of Some (CArr vs) \<Rightarrow> Some vs | _ \<Rightarrow> None)"

definition doc_object :: "(string \<times> cval) list \<Rightarrow> string \<Rightarrow> (string \<times> cval) list option" where
  "doc_object kvs key = (case map_of kvs key of Some (CObj ps) \<Rightarrow> Some ps | _ \<Rightarrow> None)"

definition doc_manager :: "table_order \<Rightarrow> cval \<Rightarrow> coord_manager option" where
  "doc_manager ord v =
     (case v of
        CObj kvs \<Rightarrow>
          Option.bind (doc_axis kvs ''global_offset'') (\<lambda>g.
          Option.bind (doc_list kvs ''coord_offsets'') (\<lambda>vs.
          Option.bind (those (map doc_coordinate vs)) (\<lambda>cs.
          Option.bind (doc_object kvs ''soft_limit'') (\<lambda>sl.
          Option.bind (doc_axis sl ''pos'') (\<lambda>pos.
          Option.bind (doc_axis sl ''neg'') (\<lambda>neg.
            if cs \<noteq> [] \<and> distinct (map c_index cs) \<and> \<not> limits_crossed pos neg
            then Some \<lparr>global_offset = map mm2blu g, coordinates_map = ord (table_of cs),
                   soft_limits = \<lparr>sl_pos = map mm2blu pos, sl_neg = map mm2blu neg\<rparr>\<rparr>
            else None))))))
      | _ \<Rightarrow> None)"

lemma doc_list_iff: "doc_list kvs k = Some vs \<longleftrightarrow> map_of kvs k = Some (CArr vs)"
  by (auto simp: doc_list_def split: option.splits cval.splits)

lemma doc_object_iff: "doc_object kvs k = Some sl \<longleftrightarrow> map_of kvs k = Some (CObj sl)"
  by (auto simp: doc_object_def split: option.splits cval.splits)

lemma doc_manager_iff:
  "doc_manager ord (CObj kvs) = Some m \<longleftrightarrow>
     (\<exists>g vs cs sl pos neg. doc_axis kvs ''global_offset'' = Some g \<and> map_of kvs ''coord_offsets'' = Some (CArr vs)
        \<and> those (map doc_coordinate vs) = Some cs \<and> map_of kvs ''soft_limit'' = Some (CObj sl)
        \<and> doc_axis sl ''pos'' = Some pos \<and> doc_axis sl ''neg'' = Some neg
        \<and> cs \<noteq> [] \<and> distinct (map c_index cs) \<and> \<not> limits_crossed pos neg
        \<and> m = \<lparr>global_offset = map mm2blu g, coordinates_map = ord (table_of cs),
               soft_limits = \<lparr>sl_pos = map mm2blu pos, sl_neg = map mm2blu neg\<rparr>\<rparr>)"
proof -
  have some: "(if c then Some x else None) = Some m \<longleftrightarrow> c \<and> m = x" for c and x :: coord_manager by auto
  show ?thesis unfolding doc_manager_def cval.case Option.bind_eq_Some_conv doc_list_iff doc_object_iff some
    apply (rule iffI)
    apply (elim exE conjE)
    subgoal by fastforce
    apply (elim exE conjE)
    apply (intro exI conjI)
    apply assumption+
    done
qed

lemma limits_blu:
  assumes "length pos = 6" "length neg = 6"
  shows "list_ex (\<lambda>i. map mm2blu pos ! i < map mm2blu neg ! i) [0..<EDM_AXIS_NUM] = limits_crossed pos neg"
  using assms by (auto simp: limits_crossed_def list_ex_iff EDM_AXIS_NUM_def mm2blu_def EDM_BLU_PER_UM_def)

text \<open>The managers a file can hold: every key is the index of its coordinate and in the range of an \<open>int\<close>.\<close>

definition file_ok :: "coord_manager \<Rightarrow> bool" where
  "file_ok m \<longleftrightarrow> cm_ok m \<and> coordinates_map m \<noteq> []
     \<and> list_all (\<lambda>(i, c). i = c_index c \<and> 0 \<le> i \<and> int_range i) (coordinates_map m)"

text \<open>What is left of a position in the file.\<close>

definition rounded :: "(real \<Rightarrow> real) \<Rightarrow> axis_t \<Rightarrow> axis_t" where
  "rounded rd a = map (\<lambda>x. mm2blu (rd (blu2mm x))) a"

definition rounded_manager :: "(real \<Rightarrow> real) \<Rightarrow> coord_manager \<Rightarrow> coord_manager" where
  "rounded_manager rd m =
     \<lparr>global_offset = rounded rd (global_offset m),
      coordinates_map = map (\<lambda>(i, c). (i, c\<lparr>c_offset := rounded rd (c_offset c)\<rparr>)) (coordinates_map m),
      soft_limits = \<lparr>sl_pos = rounded rd (sl_pos (soft_limits m)), sl_neg = rounded rd (sl_neg (soft_limits m))\<rparr>\<rparr>"

lemma file_ok_order: "reorders ord \<Longrightarrow> file_ok m \<Longrightarrow> file_ok (filled_table ord (coordinates_map m) m)"
  using reorders_facts[of ord "coordinates_map m"] by (simp add: file_ok_def cm_ok_def filled_table_def list_all_iff)

lemma default_file_ok: "file_ok default_manager"
  unfolding file_ok_def using default_manager_ok
  by (simp add: default_manager_def upto_rec_numeral int_range_def)

lemma doc_axis_length: "doc_axis kvs k = Some xs \<Longrightarrow> length xs = 6"
  by (auto simp: doc_axis_def split: option.splits cval.splits if_splits)

lemma doc_coordinate_ok:
  assumes "doc_coordinate v = Some c"
  shows "0 \<le> c_index c \<and> int_range (c_index c) \<and> is_axis (c_offset c)"
proof -
  obtain kvs n a where "v = CObj kvs" "doc_axis kvs ''offset'' = Some a" "0 \<le> n" "int_range n" "c = \<lparr>c_index = n, c_offset = map mm2blu a\<rparr>"
    using assms by (auto simp: doc_coordinate_def split: cval.splits option.splits if_splits)
  then show ?thesis using doc_axis_length by (auto simp: is_axis_def EDM_AXIS_NUM_def)
qed

lemma doc_coordinates_ok: "those (map doc_coordinate vs) = Some cs \<Longrightarrow> c \<in> set cs \<Longrightarrow> 0 \<le> c_index c \<and> int_range (c_index c) \<and> is_axis (c_offset c)"
  by (induction vs arbitrary: cs) (auto split: option.splits dest: doc_coordinate_ok)

lemma doc_manager_ok:
  assumes "doc_manager ord v = Some m" "reorders ord"
  shows "file_ok m"
proof -
  obtain kvs where kvs: "v = CObj kvs" using assms(1) by (auto simp: doc_manager_def split: cval.splits)
  obtain g vs cs sl pos neg where d: "doc_axis kvs ''global_offset'' = Some g" "those (map doc_coordinate vs) = Some cs"
      "doc_axis sl ''pos'' = Some pos" "doc_axis sl ''neg'' = Some neg"
      "cs \<noteq> []" "distinct (map c_index cs)" "\<not> limits_crossed pos neg"
      and m: "m = \<lparr>global_offset = map mm2blu g, coordinates_map = ord (table_of cs),
               soft_limits = \<lparr>sl_pos = map mm2blu pos, sl_neg = map mm2blu neg\<rparr>\<rparr>"
    using assms(1) unfolding kvs doc_manager_iff by blast
  have len: "length g = 6" "length pos = 6" "length neg = 6" using doc_axis_length d(1,3,4) by auto
  have "map fst (table_of cs) = map c_index cs" by (simp add: table_of_def o_def)
  then show ?thesis using reorders_facts[OF assms(2), of "table_of cs"] d len doc_coordinates_ok[OF d(2)]
    by (auto simp: file_ok_def cm_ok_def m table_of_def list_all_iff is_axis_def EDM_AXIS_NUM_def limits_ok_def
        limits_crossed_def list_ex_iff not_less mm2blu_def EDM_BLU_PER_UM_def o_def)
qed

text \<open>
  \<open>view\<close> is the document a value stands for. The accessors give what is there; a number that was
  written is read back rounded by \<open>rd\<close>, which keeps the order and the integers of an index.
\<close>

locale coord_json_lib =
  fixes J :: "('v, 'f) coord_json" and view :: "'v \<Rightarrow> cval" and rd :: "real \<Rightarrow> real"
  assumes is_object: "cj_is_object J j \<longleftrightarrow> (\<exists>kvs. view j = CObj kvs)"
    and is_array: "cj_is_array J j \<longleftrightarrow> (\<exists>vs. view j = CArr vs)"
    and is_number: "cj_is_number J j \<longleftrightarrow> (\<exists>x r. view j = CNum x r)"
    and find: "view j = CObj kvs \<Longrightarrow> map_option view (cj_find J j k) = map_of kvs k"
    and at: "view j = CObj kvs \<Longrightarrow> map_of kvs k = Some v \<Longrightarrow> \<exists>j'. cj_at J j k = Inr j' \<and> view j' = v"
    and vec: "cj_vector J j = (case view j of CArr vs \<Rightarrow> numbers vs | _ \<Rightarrow> None)"
    and as_integer: "view j = CNum x r \<Longrightarrow> (cj_as_integer J j = Inr n \<longleftrightarrow> r = Some n \<and> int_range n)"
    and as_unsigned: "view j = CNum x (Some n) \<Longrightarrow> 0 \<le> n \<Longrightarrow> n < 2 ^ 32 \<Longrightarrow> cj_as_unsigned J j = Inr n"
    and as_double: "view j = CNum x r \<Longrightarrow> cj_as_double J j = Inr x"
    and as_array: "view j = CArr vs \<Longrightarrow> \<exists>js. cj_as_array J j = Inr js \<and> map view js = vs"
    and unsigned: "view (cj_unsigned J n) = CNum (of_int n) (Some n)"
    and number: "\<exists>r. view (cj_number J x) = CNum x r"
    and array: "view (cj_array J js) = CArr (map view js)"
    and object: "view (cj_object J jvs) = CObj (map (\<lambda>(k, v). (k, view v)) jvs)"
    and parse_write: "\<exists>j'. cj_parse J (cj_write J j) = Some j' \<and> view j' = reread rd (view j)"
    and rd_mono: "x \<le> y \<Longrightarrow> rd x \<le> rd y"
    and rd_index: "0 \<le> n \<Longrightarrow> int_range n \<Longrightarrow> rd (of_int n) = of_int n"
begin

lemma doc_axis_at:
  assumes "view j = CObj kvs" "doc_axis kvs k = Some xs"
  shows "axis_at J j k = Inr (map mm2blu xs)" "check_json_has_vector J j k EDM_AXIS_NUM" "length xs = 6"
proof -
  obtain vs ys where v: "map_of kvs k = Some (CArr vs)" "numbers vs = Some ys" "6 \<le> length ys" "xs = take 6 ys"
    using assms(2) by (auto simp: doc_axis_def split: option.splits cval.splits if_splits)
  obtain j1 where j1: "cj_at J j k = Inr j1" "view j1 = CArr vs" using at[OF assms(1) v(1)] by blast
  obtain js where js: "cj_as_array J j1 = Inr js" "map view js = vs" using as_array[OF j1(2)] by blast
  have "rmap (\<lambda>j. rbind (cj_as_double J j) (\<lambda>d. Inr (mm2blu d))) (take n js) = Inr (map mm2blu (take n ys))" for n
    using js(2) v(2)
  proof (induction js arbitrary: vs ys n)
    case (Cons j js)
    obtain w vs' where w: "vs = w # vs'" "view j = w" "map view js = vs'" using Cons.prems(1) by auto
    then obtain x r ys' where x: "w = CNum x r" "numbers vs' = Some ys'" "ys = x # ys'"
      using Cons.prems(2) by (cases w) auto
    show ?case using Cons.IH[OF w(3) x(2), of "n - 1"] w(2) x(1,3) by (cases n) (simp_all add: as_double)
  qed simp
  then show "axis_at J j k = Inr (map mm2blu xs)" using j1(1) js(1) v(4) by (simp add: axis_at_def axis_from_json_def EDM_AXIS_NUM_def)
  show "check_json_has_vector J j k EDM_AXIS_NUM"
    using find[OF assms(1), of k] v(1-3) by (cases "cj_find J j k") (auto simp: check_json_has_vector_def vec EDM_AXIS_NUM_def)
  show "length xs = 6" using v(3,4) by simp
qed

lemma has_vector_doc:
  assumes "view j = CObj kvs" "check_json_has_vector J j k EDM_AXIS_NUM"
  shows "\<exists>xs. doc_axis kvs k = Some xs"
proof -
  obtain w where w: "cj_find J j k = Some w" using assms(2) by (auto simp: check_json_has_vector_def split: option.splits)
  then have "map_of kvs k = Some (view w)" using find[OF assms(1), of k] by simp
  then show ?thesis using assms(2) w
    by (auto simp: check_json_has_vector_def doc_axis_def vec EDM_AXIS_NUM_def split: cval.splits option.splits)
qed

lemma has_int_index:
  assumes "view j = CObj kvs"
  shows "check_json_has_int J j k = Inr True \<longleftrightarrow> (\<exists>n. map_of kvs k = Some (CNum (of_int n) (Some n)) \<and> 0 \<le> n \<and> int_range n)"
proof (cases "cj_find J j k")
  case None
  then show ?thesis using find[OF assms, of k] by (simp add: check_json_has_int_def)
next
  case (Some w)
  then have m: "map_of kvs k = Some (view w)" using find[OF assms, of k] by simp
  show ?thesis
  proof (cases "view w")
    case (CNum x r)
    have "rbind (cj_as_integer J w) (\<lambda>n. if n < 0 then Inr False else rbind (cj_as_double J w) (\<lambda>d. Inr (d = of_int n))) = Inr True
        \<longleftrightarrow> (\<exists>n. x = of_int n \<and> r = Some n \<and> 0 \<le> n \<and> int_range n)"
      unfolding rbind_Inr_iff as_integer[OF CNum] as_double[OF CNum] by (auto split: if_splits intro!: exI [where x = "the r"])
    moreover have "cj_is_number J w" using CNum by (simp add: is_number)
    ultimately show ?thesis using Some m CNum by (auto simp: check_json_has_int_def)
  qed (use Some m in \<open>simp_all add: check_json_has_int_def is_number\<close>)
qed

text \<open>A coordinate passes the check if and only if the document describes one, and then it is read.\<close>

lemma coordinate_doc: "coordinate_check J j = Inr True \<Longrightarrow> \<exists>c. doc_coordinate (view j) = Some c"
proof -
  assume a: "coordinate_check J j = Inr True"
  obtain kvs where kvs: "view j = CObj kvs" using a by (auto simp: coordinate_check_def is_object split: if_splits)
  have c: "check_json_has_int J j ''index'' = Inr True" "check_json_has_vector J j ''offset'' EDM_AXIS_NUM"
    using a kvs by (auto simp: coordinate_check_def is_object rbind_Inr_iff split: if_splits)
  obtain n where n: "map_of kvs ''index'' = Some (CNum (of_int n) (Some n))" "0 \<le> n" "int_range n"
    using has_int_index[OF kvs] c(1) by blast
  obtain xs where "doc_axis kvs ''offset'' = Some xs" using has_vector_doc[OF kvs c(2)] by blast
  then show ?thesis using n by (simp add: doc_coordinate_def kvs)
qed

lemma doc_coordinate_read:
  assumes "doc_coordinate (view j) = Some c"
  shows "coordinate_check J j = Inr True" "coordinate_from_json J j = Inr c"
proof -
  obtain kvs n a where v: "view j = CObj kvs" "map_of kvs ''index'' = Some (CNum (of_int n) (Some n))" "doc_axis kvs ''offset'' = Some a"
    "0 \<le> n" "int_range n" "c = \<lparr>c_index = n, c_offset = map mm2blu a\<rparr>"
    using assms by (auto simp: doc_coordinate_def split: cval.splits option.splits if_splits)
  note d = doc_axis_at[OF v(1,3)]
  obtain ji where ji: "cj_at J j ''index'' = Inr ji" "view ji = CNum (of_int n) (Some n)" using at[OF v(1,2)] by blast
  have n: "n < 2 ^ 32" using v(5) by (simp add: int_range_def)
  then have "uint32 n = n" using v(4) by (simp add: uint32_def)
  then show "coordinate_from_json J j = Inr c"
    using d(1) ji as_unsigned[OF ji(2) v(4) n] v(6) by (simp add: coordinate_from_json_def)
  have "check_json_has_int J j ''index'' = Inr True" using has_int_index[OF v(1)] v(2,4,5) by blast
  then show "coordinate_check J j = Inr True" using d(2) v(1) by (simp add: coordinate_check_def is_object)
qed

lemma coordinates_doc:
  "coordinates_check J seen js = Inr True \<Longrightarrow> \<exists>cs. those (map doc_coordinate (map view js)) = Some cs
     \<and> distinct (map c_index cs) \<and> set (map c_index cs) \<inter> set seen = {} \<and> length cs = length js"
proof (induction js arbitrary: seen)
  case (Cons j js)
  have b: "coordinate_check J j = Inr True" using Cons.prems by (auto simp: rbind_Inr_iff split: if_splits)
  obtain c where c: "doc_coordinate (view j) = Some c" using coordinate_doc[OF b] by blast
  have "c_index c \<notin> set seen" "coordinates_check J (c_index c # seen) js = Inr True"
    using Cons.prems b doc_coordinate_read(2)[OF c] by (auto simp: rbind_Inr_iff split: if_splits)
  then show ?case using Cons.IH[of "c_index c # seen"] c by auto
qed simp

lemma doc_coordinates_read:
  assumes "those (map doc_coordinate (map view js)) = Some cs" "distinct (map c_index cs)"
  shows "set (map c_index cs) \<inter> set seen = {} \<Longrightarrow> coordinates_check J seen js = Inr True"
    and "set (map c_index cs) \<inter> fst ` set es = {} \<Longrightarrow> read_coordinates J es js = Inr (Some (es @ table_of cs))"
proof -
  show "set (map c_index cs) \<inter> set seen = {} \<Longrightarrow> coordinates_check J seen js = Inr True"
    using assms
  proof (induction js arbitrary: cs seen)
    case (Cons j js)
    obtain c cs' where c: "doc_coordinate (view j) = Some c" "those (map doc_coordinate (map view js)) = Some cs'" "cs = c # cs'"
      using Cons.prems(2) by (auto split: option.splits)
    then show ?case using doc_coordinate_read[OF c(1)] Cons.IH[of cs' "c_index c # seen"] Cons.prems by auto
  qed simp
  show "set (map c_index cs) \<inter> fst ` set es = {} \<Longrightarrow> read_coordinates J es js = Inr (Some (es @ table_of cs))"
    using assms
  proof (induction js arbitrary: cs es)
    case (Cons j js)
    obtain c cs' where c: "doc_coordinate (view j) = Some c" "those (map doc_coordinate (map view js)) = Some cs'" "cs = c # cs'"
      using Cons.prems(2) by (auto split: option.splits)
    then show ?case using doc_coordinate_read[OF c(1)] Cons.IH[of cs' "es @ [(c_index c, c)]"] Cons.prems by (auto simp: table_of_def)
  qed (simp add: table_of_def)
qed

text \<open>The limits are compared as the document has them, in millimetres.\<close>

lemma doc_axis_vector:
  assumes "view j = CObj kvs" "doc_axis kvs k = Some xs" "cj_at J j k = Inr v"
  shows "\<exists>ys. cj_vector J v = Some ys \<and> xs = take 6 ys"
proof -
  obtain vs ys where v: "map_of kvs k = Some (CArr vs)" "numbers vs = Some ys" "xs = take 6 ys"
    using assms(2) by (auto simp: doc_axis_def split: option.splits cval.splits if_splits)
  then show ?thesis using at[OF assms(1) v(1)] assms(3) by (auto simp: vec)
qed

lemma limits_crossed_take: "limits_crossed (take 6 xs) (take 6 ys) = limits_crossed xs ys"
  by (simp add: limits_crossed_def EDM_AXIS_NUM_def list_ex_iff)

lemma limits_read:
  assumes "view sl = CObj slk" "doc_axis slk ''pos'' = Some pos" "doc_axis slk ''neg'' = Some neg"
  shows "rbind (cj_at J sl ''pos'') (\<lambda>jpos. rbind (cj_at J sl ''neg'') (\<lambda>jneg.
            case (cj_vector J jpos, cj_vector J jneg) of
              (Some pos, Some neg) \<Rightarrow> Inr (\<not> limits_crossed pos neg)
            | _ \<Rightarrow> Inl ''Wrong JSON'')) = Inr (\<not> limits_crossed pos neg)"
proof -
  obtain v w where vw: "cj_at J sl ''pos'' = Inr v" "cj_at J sl ''neg'' = Inr w"
    using doc_axis_at(1)[OF assms(1,2)] doc_axis_at(1)[OF assms(1,3)] by (auto simp: axis_at_def rbind_Inr_iff)
  obtain ys zs where "cj_vector J v = Some ys" "pos = take 6 ys" "cj_vector J w = Some zs" "neg = take 6 zs"
    using doc_axis_vector[OF assms(1,2) vw(1)] doc_axis_vector[OF assms(1,3) vw(2)] by blast
  then show ?thesis using vw by (simp add: limits_crossed_take)
qed

text \<open>The check is passed by the documents that describe a manager, and those are read.\<close>

lemma manager_doc:
  assumes "manager_check J j = Inr True"
  shows "\<exists>m. doc_manager ord (view j) = Some m"
proof -
  obtain kvs where kvs: "view j = CObj kvs" using assms by (auto simp: manager_check_def is_object split: if_splits)
  have obj: "cj_is_object J j" using kvs by (simp add: is_object)
  have g: "check_json_has_vector J j ''global_offset'' EDM_AXIS_NUM"
    using assms obj by (auto simp: manager_check_def split: if_splits)
  obtain co where co: "cj_find J j ''coord_offsets'' = Some co" "cj_is_array J co"
    using assms obj g by (auto simp: manager_check_def split: if_splits option.splits)
  obtain vs where vs: "view co = CArr vs" using co(2) by (auto simp: is_array)
  obtain js where js: "cj_as_array J co = Inr js" "map view js = vs" using as_array[OF vs] by blast
  have c: "js \<noteq> []" "coordinates_check J [] js = Inr True" "soft_limit_check J j = Inr True"
    using assms obj g co js(1) by (auto simp: manager_check_def rbind_Inr_iff split: if_splits)
  obtain cs where cs: "those (map doc_coordinate vs) = Some cs" "distinct (map c_index cs)" "length cs = length js"
    using coordinates_doc[OF c(2)] js(2) by blast
  then have ne: "cs \<noteq> []" using c(1) by auto
  obtain sl where sl: "cj_find J j ''soft_limit'' = Some sl" "cj_is_object J sl"
      "check_json_has_vector J sl ''pos'' EDM_AXIS_NUM" "check_json_has_vector J sl ''neg'' EDM_AXIS_NUM"
    using c(3) by (auto simp: soft_limit_check_def split: option.splits if_splits)
  obtain slk where slk: "view sl = CObj slk" using sl(2) by (auto simp: is_object)
  obtain pos neg where pn: "doc_axis slk ''pos'' = Some pos" "doc_axis slk ''neg'' = Some neg"
    using has_vector_doc[OF slk] sl(3,4) by blast
  have "\<not> limits_crossed pos neg" using c(3) sl limits_read[OF slk pn] by (simp add: soft_limit_check_def)
  moreover obtain gx where "doc_axis kvs ''global_offset'' = Some gx" using has_vector_doc[OF kvs g] by blast
  moreover have "map_of kvs ''coord_offsets'' = Some (CArr vs)" "map_of kvs ''soft_limit'' = Some (CObj slk)"
    using find[OF kvs, of "''coord_offsets''"] find[OF kvs, of "''soft_limit''"] co(1) sl(1) vs slk by simp_all
  ultimately show ?thesis using cs ne pn by (simp add: kvs doc_manager_def doc_list_def doc_object_def)
qed

lemma doc_manager_read:
  assumes "doc_manager ord (view j) = Some m"
  shows "manager_check J j = Inr True" "manager_from_json J ord j = Inr (Some m)"
proof -
  obtain kvs where kvs: "view j = CObj kvs" using assms by (auto simp: doc_manager_def split: cval.splits)
  obtain g vs cs sl pos neg where d: "doc_axis kvs ''global_offset'' = Some g" "map_of kvs ''coord_offsets'' = Some (CArr vs)"
      "those (map doc_coordinate vs) = Some cs" "map_of kvs ''soft_limit'' = Some (CObj sl)"
      "doc_axis sl ''pos'' = Some pos" "doc_axis sl ''neg'' = Some neg"
      "cs \<noteq> []" "distinct (map c_index cs)" "\<not> limits_crossed pos neg"
      and m: "m = \<lparr>global_offset = map mm2blu g, coordinates_map = ord (table_of cs),
               soft_limits = \<lparr>sl_pos = map mm2blu pos, sl_neg = map mm2blu neg\<rparr>\<rparr>"
    using assms unfolding kvs doc_manager_iff by blast
  obtain co where co: "cj_find J j ''coord_offsets'' = Some co" "view co = CArr vs"
    using find[OF kvs, of "''coord_offsets''"] d(2) by auto
  obtain js where js: "cj_as_array J co = Inr js" "map view js = vs" using as_array[OF co(2)] by blast
  obtain jl where jl: "cj_find J j ''soft_limit'' = Some jl" "view jl = CObj sl"
    using find[OF kvs, of "''soft_limit''"] d(4) by auto
  have checks: "cj_is_object J j" "cj_is_array J co" "cj_is_object J jl"
    using kvs co(2) jl(2) by (simp_all add: is_object is_array)
  have "js \<noteq> []" using d(3,7) js(2) by auto
  moreover have "coordinates_check J [] js = Inr True" using doc_coordinates_read(1)[of js cs "[]"] d(3,8) unfolding js(2) by simp
  moreover have "soft_limit_check J j = Inr True"
    using jl(1) checks(3) doc_axis_at(2)[OF jl(2) d(5)] doc_axis_at(2)[OF jl(2) d(6)] limits_read[OF jl(2) d(5,6)] d(9)
    by (simp add: soft_limit_check_def)
  ultimately show "manager_check J j = Inr True"
    using checks co(1) js(1) doc_axis_at(2)[OF kvs d(1)] by (simp add: manager_check_def)
  obtain co' where co': "cj_at J j ''coord_offsets'' = Inr co'" "view co' = CArr vs" using at[OF kvs d(2)] by blast
  obtain js' where js': "cj_as_array J co' = Inr js'" "map view js' = vs" using as_array[OF co'(2)] by blast
  obtain jl' where jl': "cj_at J j ''soft_limit'' = Inr jl'" "view jl' = CObj sl" using at[OF kvs d(4)] by blast
  have "read_coordinates J [] js' = Inr (Some (table_of cs))"
    using doc_coordinates_read(2)[of js' cs "[]"] d(3,8) unfolding js'(2) by simp
  then show "manager_from_json J ord j = Inr (Some m)"
    using doc_axis_at(1)[OF kvs d(1)] co'(1) js'(1) jl'(1) doc_axis_at(1)[OF jl'(2) d(5)] doc_axis_at(1)[OF jl'(2) d(6)]
      limits_blu[OF doc_axis_at(3)[OF jl'(2) d(5)] doc_axis_at(3)[OF jl'(2) d(6)]] d(9) m
    by (simp add: manager_from_json_def cm_set_soft_limits_def filled_table_def cm_set_global_offset_def new_CoordinateManager_def)
qed

text \<open>Loading, whatever the content of the file.\<close>

lemma load_doc:
  "LoadFromJsonFile J ord content = Inr (Some m) \<longleftrightarrow>
     (\<exists>doc. Option.bind content (cj_parse J) = Some doc \<and> doc_manager ord (view doc) = Some m)"
proof
  assume load: "LoadFromJsonFile J ord content = Inr (Some m)"
  then obtain doc where doc: "Option.bind content (cj_parse J) = Some doc"
    by (auto simp: LoadFromJsonFile_def split: option.splits)
  have check: "manager_check J doc = Inr True" "manager_from_json J ord doc = Inr (Some m)"
    using load doc by (auto simp: LoadFromJsonFile_def rbind_Inr_iff split: if_splits sum.splits)
  obtain m' where m': "doc_manager ord (view doc) = Some m'" using manager_doc[OF check(1)] by blast
  then have "m' = m" using doc_manager_read(2)[OF m'] check(2) by simp
  then show "\<exists>doc. Option.bind content (cj_parse J) = Some doc \<and> doc_manager ord (view doc) = Some m" using doc m' by blast
qed (auto simp: LoadFromJsonFile_def doc_manager_read)

text \<open>A saved manager is read back, with its numbers rounded.\<close>

lemma written_axis:
  assumes "is_axis a" "map_of kvs k = Some (reread rd (view (axis_to_json J a)))"
  shows "doc_axis kvs k = Some (map (\<lambda>x. rd (blu2mm x)) a)"
proof -
  have num: "numbers (map (reread rd) (map view (map (\<lambda>x. cj_number J (blu2mm x)) xs))) = Some (map (\<lambda>x. rd (blu2mm x)) xs)" for xs
  proof (induction xs)
    case (Cons x xs)
    obtain r where "view (cj_number J (blu2mm x)) = CNum (blu2mm x) r" using number by blast
    then show ?case using Cons by simp
  qed simp
  have len: "length a = 6" using assms(1) by (simp add: is_axis_def EDM_AXIS_NUM_def)
  have "map (\<lambda>i. cj_number J (blu2mm (a ! i))) [0..<EDM_AXIS_NUM] = map (\<lambda>x. cj_number J (blu2mm x)) a"
    by (rule nth_equalityI) (simp_all add: len EDM_AXIS_NUM_def)
  then have "map_of kvs k = Some (CArr (map (reread rd) (map view (map (\<lambda>x. cj_number J (blu2mm x)) a))))"
    using assms(2) by (simp add: axis_to_json_def array)
  then show ?thesis using num[of a] len by (simp add: doc_axis_def)
qed

lemma written_coordinate:
  assumes "is_axis (c_offset c)" "0 \<le> c_index c" "int_range (c_index c)"
  shows "doc_coordinate (reread rd (view (coordinate_to_json J c))) = Some (c\<lparr>c_offset := rounded rd (c_offset c)\<rparr>)"
proof -
  let ?kvs = "[(''index'', CNum (of_int (c_index c)) (Some (c_index c))), (''offset'', reread rd (view (axis_to_json J (c_offset c))))]"
  have "reread rd (view (coordinate_to_json J c)) = CObj ?kvs"
    using assms(2,3) by (simp add: coordinate_to_json_def object unsigned rd_index)
  moreover have "doc_axis ?kvs ''offset'' = Some (map (\<lambda>x. rd (blu2mm x)) (c_offset c))"
    by (rule written_axis[OF assms(1)]) simp
  ultimately show ?thesis using assms(2,3) by (simp add: doc_coordinate_def rounded_def o_def)
qed

lemma written_coordinates:
  "list_all (\<lambda>(i, c). i = c_index c \<and> 0 \<le> i \<and> int_range i \<and> is_axis (c_offset c)) es \<Longrightarrow>
   those (map doc_coordinate (map (reread rd) (map view (map (\<lambda>(_, c). coordinate_to_json J c) es))))
     = Some (map (\<lambda>(_, c). c\<lparr>c_offset := rounded rd (c_offset c)\<rparr>) es)"
  by (induction es) (auto simp: written_coordinate)

lemma limits_rounded:
  assumes "is_axis pos" "is_axis neg" "\<forall>i<6. neg ! i \<le> pos ! i"
  shows "\<not> limits_crossed (map (\<lambda>x. rd (blu2mm x)) pos) (map (\<lambda>x. rd (blu2mm x)) neg)"
  using assms by (auto simp: limits_crossed_def list_ex_iff is_axis_def EDM_AXIS_NUM_def not_less blu2mm_def EDM_BLU_PER_UM_def
      intro!: rd_mono divide_right_mono)

lemma saved_doc:
  assumes "file_ok m"
  shows "doc_manager ord (reread rd (view (manager_to_json J m)))
    = Some (filled_table ord (coordinates_map (rounded_manager rd m)) (rounded_manager rd m))"
proof -
  let ?w = "\<lambda>a. reread rd (view (axis_to_json J a))" and ?l = "soft_limits m"
  let ?sl = "[(''pos'', ?w (sl_pos ?l)), (''neg'', ?w (sl_neg ?l))]"
  let ?vs = "map (reread rd) (map view (map (\<lambda>(_, c). coordinate_to_json J c) (coordinates_map m)))"
  let ?kvs = "[(''global_offset'', ?w (global_offset m)), (''coord_offsets'', CArr ?vs), (''soft_limit'', CObj ?sl)]"
  let ?mm = "map (\<lambda>x. rd (blu2mm x))" and ?cs = "map (\<lambda>(_, c). c\<lparr>c_offset := rounded rd (c_offset c)\<rparr>) (coordinates_map m)"
  have v: "reread rd (view (manager_to_json J m)) = CObj ?kvs" by (simp add: manager_to_json_def object array)
  have ax: "is_axis (global_offset m)" "is_axis (sl_pos ?l)" "is_axis (sl_neg ?l)" "\<forall>i<6. sl_neg ?l ! i \<le> sl_pos ?l ! i"
    using assms by (simp_all add: file_ok_def cm_ok_def limits_ok_def)
  have keys: "map c_index ?cs = map fst (coordinates_map m)" "table_of ?cs = map (\<lambda>(i, c). (i, c\<lparr>c_offset := rounded rd (c_offset c)\<rparr>)) (coordinates_map m)"
    using assms by (auto simp: file_ok_def list_all_iff table_of_def)
  have es: "list_all (\<lambda>(i, c). i = c_index c \<and> 0 \<le> i \<and> int_range i \<and> is_axis (c_offset c)) (coordinates_map m)"
    using assms by (auto simp: file_ok_def cm_ok_def list_all_iff)
  have cs: "?cs \<noteq> []" "distinct (map c_index ?cs)" unfolding keys(1) using assms by (simp_all add: file_ok_def cm_ok_def)
  have "doc_axis ?kvs ''global_offset'' = Some (?mm (global_offset m))" "doc_axis ?sl ''pos'' = Some (?mm (sl_pos ?l))"
    "doc_axis ?sl ''neg'' = Some (?mm (sl_neg ?l))" by (rule written_axis, rule ax, simp)+
  moreover have "doc_list ?kvs ''coord_offsets'' = Some ?vs" "doc_object ?kvs ''soft_limit'' = Some ?sl"
    by (simp_all add: doc_list_def doc_object_def)
  ultimately show ?thesis
    using written_coordinates[OF es] cs limits_rounded[OF ax(2-4)] keys(2)
    by (simp only: v doc_manager_def cval.case Option.bind.bind_lunit if_True simp_thms)
       (simp add: filled_table_def rounded_manager_def rounded_def o_def)
qed

lemma save_load:
  assumes "file_ok m" "filename \<noteq> []"
  shows "\<exists>f. save_to_file J True filename m = (True, Some f)
    \<and> LoadFromJsonFile J ord (Some f) = Inr (Some (filled_table ord (coordinates_map (rounded_manager rd m)) (rounded_manager rd m)))"
proof -
  obtain j where "cj_parse J (cj_write J (manager_to_json J m)) = Some j" "view j = reread rd (view (manager_to_json J m))"
    using parse_write by blast
  then show ?thesis using assms saved_doc[OF assms(1)] by (simp add: save_to_file_def load_doc)
qed

end

text \<open>
  A library with these properties: documents that keep six decimals of a number in a file.
\<close>

definition six_decimals :: "real \<Rightarrow> real" where
  "six_decimals x = of_int (round (x * 10 ^ 6)) / 10 ^ 6"

definition tree_json :: "(cval, cval) coord_json" where
  "tree_json =
     \<lparr>cj_is_object = (\<lambda>v. case v of CObj _ \<Rightarrow> True | _ \<Rightarrow> False),
      cj_is_array = (\<lambda>v. case v of CArr _ \<Rightarrow> True | _ \<Rightarrow> False),
      cj_is_number = (\<lambda>v. case v of CNum _ _ \<Rightarrow> True | _ \<Rightarrow> False),
      cj_find = (\<lambda>v k. case v of CObj kvs \<Rightarrow> map_of kvs k | _ \<Rightarrow> None),
      cj_at = (\<lambda>v k. case v of CObj kvs \<Rightarrow> (case map_of kvs k of Some w \<Rightarrow> Inr w | None \<Rightarrow> Inl ''out of range'') | _ \<Rightarrow> Inl ''Wrong Type''),
      cj_vector = (\<lambda>v. case v of CArr vs \<Rightarrow> numbers vs | _ \<Rightarrow> None),
      cj_as_integer = (\<lambda>v. case v of CNum _ (Some n) \<Rightarrow> if int_range n then Inr n else Inl ''stoi'' | _ \<Rightarrow> Inl ''stoi''),
      cj_as_unsigned = (\<lambda>v. case v of CNum _ (Some n) \<Rightarrow> Inr n | _ \<Rightarrow> Inl ''stoul''),
      cj_as_double = (\<lambda>v. case v of CNum x _ \<Rightarrow> Inr x | _ \<Rightarrow> Inl ''stod''),
      cj_as_array = (\<lambda>v. case v of CArr vs \<Rightarrow> Inr vs | _ \<Rightarrow> Inl ''Wrong Type''),
      cj_unsigned = (\<lambda>n. CNum (of_int n) (Some n)), cj_number = (\<lambda>x. CNum x None), cj_array = CArr, cj_object = CObj,
      cj_write = reread six_decimals, cj_parse = Some\<rparr>"

lemma six_decimals_mono: "x \<le> y \<Longrightarrow> six_decimals x \<le> six_decimals y"
  by (simp add: six_decimals_def divide_right_mono round_mono)

lemma six_decimals_int: "six_decimals (of_int n) = of_int n"
proof -
  have "real_of_int n * 10 ^ 6 = of_int (n * 10 ^ 6)" by simp
  then show ?thesis unfolding six_decimals_def by (metis round_of_int nonzero_mult_div_cancel_right of_int_mult of_int_numeral of_int_power power_not_zero zero_neq_numeral)
qed

interpretation tree: coord_json_lib tree_json "\<lambda>v. v" six_decimals
  by unfold_locales
    (auto simp: tree_json_def six_decimals_mono six_decimals_int option.map_ident split: cval.splits option.splits)

section \<open>The file and the system\<close>

text \<open>The coordinate systems the application can have, from the constructor on a file, whatever it holds.\<close>

inductive file_reach :: "('v, 'f) coord_json \<Rightarrow> coord_system \<Rightarrow> bool" for J where
  file_made: "reorders ord \<Longrightarrow> LoadFromJsonFile J ord content = Inr loaded \<Longrightarrow> new_CoordinateSystem ord throw loaded = Inr cs \<Longrightarrow>
    file_reach J cs"
| file_used: "file_reach J cs \<Longrightarrow> cs_step cs cs' \<Longrightarrow> file_reach J cs'"

lemma put_offset_keys:
  "list_all (\<lambda>(i, c). i = c_index c \<and> 0 \<le> i \<and> int_range i) xs \<Longrightarrow>
   list_all (\<lambda>(i, c). i = c_index c \<and> 0 \<le> i \<and> int_range i) (put_offset ix a xs) \<and> (put_offset ix a xs = [] \<longleftrightarrow> xs = [])"
  by (induction xs) (auto split: if_splits)

lemma set_coord_offset_file:
  assumes "file_ok (cm cs)" "is_axis a" "saved cs = None \<or> saved cs = Some (cm cs)" "cs' = snd (set_coord_offset ix a cs)"
  shows "file_ok (cm cs') \<and> (saved cs' = None \<or> saved cs' = Some (cm cs'))"
  using assms put_offset_keys[of "coordinates_map (cm cs)" ix a] put_offset_axes[of "coordinates_map (cm cs)" a ix]
  by (auto simp: set_coord_offset_def cm_set_coord_offset_def file_ok_def cm_ok_def save_as_def split: option.splits)

lemma saved_cache [simp]: "saved (update_coord_axis_cache cs) = saved cs" "saved (update_machine_axis_cache cs) = saved cs"
  by (simp_all add: update_coord_axis_cache_def update_machine_axis_cache_def split: option.splits)

lemma set_soft_limits_file:
  assumes "file_ok (cm cs)" "is_axis (sl_pos sl)" "is_axis (sl_neg sl)" "saved cs = None \<or> saved cs = Some (cm cs)"
    "cs' = snd (set_soft_limits sl cs)"
  shows "file_ok (cm cs') \<and> (saved cs' = None \<or> saved cs' = Some (cm cs'))"
proof (cases "list_ex (\<lambda>i. sl_pos sl ! i < sl_neg sl ! i) [0..<EDM_AXIS_NUM]")
  case True
  then show ?thesis using assms by (simp add: set_soft_limits_def cm_set_soft_limits_def)
next
  case False
  then have "limits_ok sl" using assms(2,3) by (auto simp: limits_ok_def list_ex_iff EDM_AXIS_NUM_def not_less)
  then show ?thesis using assms False by (simp add: set_soft_limits_def cm_set_soft_limits_def save_as_def file_ok_def cm_ok_def)
qed

lemma cs_step_file:
  "cs_step cs cs' \<Longrightarrow> file_ok (cm cs) \<Longrightarrow> saved cs = None \<or> saved cs = Some (cm cs) \<Longrightarrow>
   file_ok (cm cs') \<and> (saved cs' = None \<or> saved cs' = Some (cm cs'))"
proof (induction rule: cs_step.induct)
  case (4 a cs ix)
  then show ?case using set_coord_offset_file by blast
next
  case (5 a cs)
  then show ?case unfolding set_current_coord_offset_same using set_coord_offset_file by blast
next
  case (7 sl cs)
  then show ?case using set_soft_limits_file by blast
qed (simp_all add: update_motor_pos_def update_current_voffsets_def set_coord_index_def set_global_offset_def
      cm_set_global_offset_def save_as_def file_ok_def cm_ok_def)

lemma loaded_file_ok:
  assumes "coord_json_lib J view rd" "reorders ord" "LoadFromJsonFile J ord content = Inr (Some m)"
  shows "file_ok m"
  using assms(3) doc_manager_ok[OF _ assms(2)] unfolding coord_json_lib.load_doc[OF assms(1)] by blast

lemma new_on_file_ok: "file_ok m \<Longrightarrow> \<exists>cs. new_CoordinateSystem ord throw (Some m) = Inr cs \<and> cm cs = m"
  by (cases "coordinates_map m")
    (auto simp: file_ok_def new_CoordinateSystem_def init_coordinate_manager_def get_avaiable_coord_indexes_def)

lemma file_made_ok:
  assumes "reorders ord" "new_CoordinateSystem ord throw loaded = Inr cs" "\<And>m. loaded = Some m \<Longrightarrow> file_ok m"
  shows "file_ok (cm cs) \<and> (saved cs = None \<or> saved cs = Some (cm cs))"
  using assms file_ok_order[OF assms(1) default_file_ok]
  by (auto simp: new_CoordinateSystem_def init_coordinate_manager_def rbind_Inr_iff Let_def split: option.splits if_splits list.splits)

lemma file_reach_ok:
  assumes "coord_json_lib J view rd" "file_reach J cs"
  shows "cs_reach cs \<and> file_ok (cm cs) \<and> (saved cs = None \<or> saved cs = Some (cm cs))"
  using assms(2)
proof (induction rule: file_reach.induct)
  case (file_made ord content loaded throw cs)
  have ok: "file_ok m" if "loaded = Some m" for m using loaded_file_ok[OF assms(1)] file_made that by blast
  then have "cs_reach cs" using made[OF file_made(1,3)] by (simp add: file_ok_def)
  then show ?case using file_made_ok[OF file_made(1,3) ok] by blast
next
  case (file_used cs cs')
  then show ?case using cs_step_file used cs_reach_inv by blast
qed

text \<open>C34: \<open>LoadFromJsonFile\<close> gives a manager exactly for the files that describe one: an object with six
  global offsets, a non-empty list of coordinates, each with an index of its own in the range of \<open>int\<close> and
  six offsets, and ordered soft limits; it then gives the manager described, which is well formed and on
  which the coordinate system starts.\<close>

theorem file_read_as_described:
  assumes "coord_json_lib J view rd" and "reorders ord"
  shows "(LoadFromJsonFile J ord content = Inr (Some m) \<longleftrightarrow>
      (\<exists>doc. Option.bind content (cj_parse J) = Some doc \<and> doc_manager ord (view doc) = Some m))
    \<and> (LoadFromJsonFile J ord content = Inr (Some m) \<longrightarrow>
        cm_ok m \<and> (\<exists>cs. new_CoordinateSystem ord throw (Some m) = Inr cs \<and> cm cs = m))"
  using coord_json_lib.load_doc[OF assms(1)] loaded_file_ok[OF assms] new_on_file_ok by (auto simp: file_ok_def)


theorem file_read_as_described_witness:
  "\<exists>f. save_to_file tree_json True ''coord.json'' default_manager = (True, Some f)
     \<and> LoadFromJsonFile tree_json (\<lambda>xs. xs) (Some f) = Inr (Some default_manager)"
proof -
  have r: "rounded six_decimals (axis_init (of_int (1000 * n))) = axis_init (of_int (1000 * n))" for n
    using six_decimals_int[of n] six_decimals_int[of 0]
    by (simp add: rounded_def axis_init_def mm2blu_def blu2mm_def EDM_BLU_PER_UM_def EDM_AXIS_NUM_def numeral_eq_Suc)
  note r3 = r[of 0] r[of 1000] r[of "- 1000"]
  have m: "filled_table (\<lambda>xs. xs) (coordinates_map (rounded_manager six_decimals default_manager)) (rounded_manager six_decimals default_manager)
      = default_manager"
    by (simp add: rounded_manager_def default_manager_def new_CoordinateManager_def filled_table_def r3[simplified] o_def)
  let ?doc = "reread six_decimals (manager_to_json tree_json default_manager)"
  have d: "doc_manager (\<lambda>xs. xs) ?doc = Some default_manager" using tree.saved_doc[OF default_file_ok, of "\<lambda>xs. xs"] m by simp
  have "LoadFromJsonFile tree_json (\<lambda>xs. xs) (Some ?doc) = Inr (Some default_manager)"
    using file_read_as_described[OF tree.coord_json_lib_axioms reorders_id, of "Some ?doc" default_manager False] d
    by (simp add: tree_json_def)
  then show ?thesis by (simp add: save_to_file_def tree_json_def)
qed


end
