(* ===== verification/Spec2Isabelle.thy ===== *)
theory Spec2Isabelle
  imports Rs274_Reach Rs274_Errors Full_Run Runner_Limits Gcode_Samples Plot_Scripts Cutting_Jumps Cutting_Limits Group_Live Coord_File
begin

text \<open>
  Verification of the G-code path of an EDM (electrical discharge machining) controller, from the
  Python program to the positions the axes are driven to.

  \<^bold>\<open>The program.\<close> A machining program is a Python script that makes one \<open>RS274Interpreter\<close> object
  (\<^verbatim>\<open>src/Src/Interpreter/rs274pyInterpreter/pymodule/rs274.py\<close>) and calls its methods: \<open>g00\<close> and
  \<open>g01\<close> for motion, \<open>g90\<close>, \<open>g91\<close>, \<open>g53\<close> to \<open>g59\<close>, \<open>f\<close> and \<open>e\<close> for settings, \<open>g04\<close>, \<open>m00\<close>, \<open>m02\<close>,
  \<open>drill\<close>, \<open>coord_set_zero\<close> and \<open>g01_group\<close>, the last one with a \<open>Points\<close> object. Each call checks
  its arguments and the modal settings and appends a dictionary to the command list. The
  application runs the script inside an embedded Python, takes the command list as a JSON
  text, parses it with the library meojson and turns it into a list of tasks
  (\<^verbatim>\<open>src/App/TaskManager/GCodeTaskConverter.cpp\<close>). The task manager hands the list to the runner
  (\<^verbatim>\<open>src/App/TaskManager/GCodeRunner.cpp\<close>), a state machine that is polled by a timer: it computes
  the target of each motion task through the coordinate systems (\<^verbatim>\<open>src/Src/Coordinate\<close>), checks
  the soft limits and sends commands to the motion thread (\<^verbatim>\<open>src/Src/Motion\<close>). That thread runs one
  cycle of its state machine in each period of the drives: it carries out a rapid move, a cutting
  move whose speed the servo board asks for and which is interrupted by jumps that lift the
  electrode, a group of cutting moves or a delay, lets the operator move the axes in a pause and
  comes back to the interrupted point. The part
  programs themselves are under \<^verbatim>\<open>src/gcode\<close>, scripts that plot recorded data under \<^verbatim>\<open>src/scripts\<close>.

  \<^bold>\<open>The theories.\<close>

  \<^item> \<^verbatim>\<open>Edm_Prelude\<close>: results of operations that may raise, outcomes of methods with the state after
    the call, loops that stop at the first error.
  \<^item> \<^verbatim>\<open>Py_Values\<close>: Python values, \<open>isinstance\<close> tests (a \<open>bool\<close> is an \<open>int\<close>), comparison with zero
    (false for NaN), \<open>str\<close>, \<open>repr\<close> and \<open>type\<close> in messages. A float is its exact decimal, since
    the code never calculates with it.
  \<^item> \<^verbatim>\<open>Rs274_Enums\<close>: the four \<open>@unique\<close> enumerations; the locale \<open>unique_enum\<close> gives that names and
    values identify the members.
  \<^item> \<^verbatim>\<open>Call_Contract\<close>: the locales \<open>call_sequence\<close> and \<open>ending_sequence\<close>, the contract of an object
    whose methods append to a log, provided by \<open>Points\<close> and by the interpreter.
  \<^item> \<^verbatim>\<open>Rs274_Points\<close>: the call-site helpers, \<open>InterpreterException\<close>, \<open>Points\<close> and its invariant. The
    frame that \<open>inspect.stack()\<close> finds for the script is an argument of every method.
  \<^item> \<^verbatim>\<open>Rs274_Interp\<close>: \<open>Environment\<close> and every method of \<open>RS274Interpreter\<close>, with the checks in the
    order of the code and the state after each exception.
  \<^item> \<^verbatim>\<open>Rs274_Run\<close>: calls as data, the run of a script, and the abstract modal machine \<open>spec_step\<close>
    over optional settings and typed commands; every method implements it.
  \<^item> \<^verbatim>\<open>Rs274_Correct\<close>: whole runs refine the machine; the settings carried by motion commands, the
    schema of every command, the program end.
  \<^item> \<^verbatim>\<open>Rs274_Reach\<close>: the same invariants in all states reachable when the script catches exceptions
    and goes on, by rule induction.
  \<^item> \<^verbatim>\<open>Json_Text\<close>: \<open>json.dumps(..., indent=2, ensure_ascii=False)\<close> and \<open>json.loads\<close> as instances of the
    locale \<open>codec\<close>: reading undoes printing, for strings, numbers and whole values. The reader is
    fuelled by the length of the text plus one, which \<open>fuel_need_length\<close> shows to be enough.
  \<^item> \<^verbatim>\<open>Rs274_Json\<close>: \<open>get_command_list_jsonstr\<close> always has a text after a run, the command list can be
    read back from it, and script text cannot break its structure.
  \<^item> \<^verbatim>\<open>Rs274_Errors\<close>: a failing script fails at one call and names it; which setting a motion call
    reports as missing; the module's own test; NaN in the text.
  \<^item> \<^verbatim>\<open>Task_Converter\<close>, \<^verbatim>\<open>Task_Converter_Correct\<close>: the converter over a JSON library that is a
    parameter. The locale \<open>meojson\<close> states what is relied on; a library on Python values with the
    reader of \<^verbatim>\<open>Json_Text\<close> meets it. The main result goes from the script to the task list.
  \<^item> \<^verbatim>\<open>Task_Timer\<close>: the timer of a task (\<^verbatim>\<open>GCodeTaskBase.h\<close>); the elapsed time is the number of ticks
    at which the task ran.
  \<^item> \<^verbatim>\<open>Coordinates\<close>: coordinate, coordinate manager and coordinate system with its caches and setters.
    The locale \<open>frame_change\<close> is a change of frame that can be undone, \<open>frame_chain\<close> the composition
    of two; work, machine and drive frame are its interpretations. The reachable systems and
    their invariant by rule induction.
  \<^item> \<^verbatim>\<open>Coord_File\<close>: the JSON file of the coordinates (\<^verbatim>\<open>CoordinateManager.cpp\<close>): writing, the check, reading. The
    JSON library is a parameter, the locale \<open>coord_json_lib\<close> states what is relied on; \<open>doc_manager\<close> is the
    reference for what a document describes. Loading gives exactly what the file describes, and what
    the application saves can be loaded again.
  \<^item> \<^verbatim>\<open>Motion_Targets\<close>: what the runner computes for a motion task (\<open>_state_current_node_initing\<close>,
    \<^verbatim>\<open>TaskHelper.h\<close>, \<^verbatim>\<open>MotionUtils.h\<close>): targets, the shortened touch motion, soft-limit checks, the
    command that is sent. Every command keeps to the soft limits.
  \<^item> \<^verbatim>\<open>Gcode_Runner\<close>: the state of the runner as a record, one definition per method of
    \<^verbatim>\<open>GCodeRunner.cpp\<close> and \<^verbatim>\<open>TaskManager.cpp\<close>. Commands and signals are appended to a trace; the clock,
    the motion thread and the power manager are the record \<open>env\<close>.
  \<^item> \<^verbatim>\<open>Gcode_Runner_Correct\<close>: the invariant of the runner, kept by every operation; steps and
    reachable states as inductive predicates; no fault, soft limits.
  \<^item> \<^verbatim>\<open>Gcode_Runner_Live\<close>: how a run ends, that it ends (\<open>2 n + 1\<close> polls at which the motion thread is
    idle, for \<open>n\<close> tasks), and the wait for an answer as a loop that may run for ever.
  \<^item> \<^verbatim>\<open>Machine_Run\<close>: the runner with a machine that carries out each command between two polls;
    \<open>walk\<close> is the reference: the positions a task list drives to.
  \<^item> \<^verbatim>\<open>Motion_Base\<close>: vectors of axes, speeds and the faults of the motion thread. \<^verbatim>\<open>Motion_Shared\<close>: the record
    \<open>shared\<close>, the part of the state that all its components see (\<^verbatim>\<open>MotionSharedData\<close>, the touch
    detection, the signals), with the inputs of a cycle and the log of the callbacks.
  \<^item> \<^verbatim>\<open>Move_Runtime\<close>, \<^verbatim>\<open>Move_Runtime_Correct\<close>: the speed planner \<open>Moveruntime\<close> of a one-dimensional
    stretch (accelerate, cruise, decelerate). The increments of a stretch add up to its length.
  \<^item> \<^verbatim>\<open>Move_Wrapper\<close>: \<open>MoveruntimeWrapper\<close>, the same with pause, resume, stop and change of speed.
  \<^item> \<^verbatim>\<open>Point_Move\<close>: \<open>PointMoveHandler\<close>, the move along a straight line; calls on it as an inductive
    relation, its invariant, and that it ends at its target.
  \<^item> \<^verbatim>\<open>Trajectory\<close>: \<open>TrajectoryLinearSegement\<close> and \<open>TrajectoryList\<close>, a position on a segment by its length, and
    the step over the end of a segment. \<^verbatim>\<open>Sliding_Counter\<close>: the ring of the last good and bad events, equal
    to a count over the history.
  \<^item> \<^verbatim>\<open>Cutting_Move\<close>: \<open>G01AutoTask\<close>, the cutting move with its servo, its jumps and its pause.
    \<^verbatim>\<open>Cutting_Correct\<close>: its invariant, and that no cycle fails an assertion. \<^verbatim>\<open>Cutting_Run\<close>: the states
    of a move under any inputs and calls, as an inductive relation; where it ends, and when the high
    frequency is on. \<^verbatim>\<open>Cutting_Jumps\<close>: exactly when a jump begins, with the window of the counter computed
    from the history as the reference, and that it comes back. \<^verbatim>\<open>Cutting_Limits\<close>: the jumps keep to the
    soft limits, from the runner's account of the free way to the task's check of each jump.
  \<^item> \<^verbatim>\<open>Group_Move\<close>, \<^verbatim>\<open>Group_Live\<close>: \<open>G01GroupAutoTask\<close>, its path and invariant, and that it comes to its end.
  \<^item> \<^verbatim>\<open>Motion_Tasks\<close>, \<^verbatim>\<open>Auto_Task\<close>: the tasks \<open>G00AutoTask\<close>, \<open>G04AutoTask\<close> and \<open>M00FakeAutoTask\<close>, their
    union with the cutting tasks \<open>auto_task\<close> with the dispatch of the virtual calls, and the locale of the contract that
    the task runner relies on.
  \<^item> \<^verbatim>\<open>Pause_Move\<close>, \<^verbatim>\<open>Pause_Move_Correct\<close>: \<open>PauseMoveController\<close>, manual moves in a pause and the way
    back along the recorded segments.
  \<^item> \<^verbatim>\<open>Auto_Task_Runner\<close>, \<^verbatim>\<open>Auto_Task_Runner_Correct\<close>: \<open>AutoTaskRunner\<close>, its states and its invariant.
  \<^item> \<^verbatim>\<open>Motion_Machine\<close>, \<^verbatim>\<open>Motion_Machine_Correct\<close>: \<open>MotionStateMachine\<close> and the commands of
    \<open>MotionThreadController\<close>; cycles and commands as an inductive relation \<open>motion_step\<close> with its
    reachable states; no failed assertion, agreement of the modes, no jump of the position.
  \<^item> \<^verbatim>\<open>Motion_Rapid\<close>, \<^verbatim>\<open>Motion_Rapid_Live\<close>, \<^verbatim>\<open>Motion_Delay\<close>: a rapid move from its start to its end at the
    target with all its pauses, that it ends, and how long a delay takes. \<^verbatim>\<open>Motion_Cut\<close>: a cutting move on
    the state machine, from its command to the idle mode.
  \<^item> \<^verbatim>\<open>Motion_Loop\<close>: the runner and the state machine together: between two polls the commands that
    were sent are handled and the machine runs some cycles. For programs of rapid moves, cutting moves
    and delays the closed loop refines \<open>ideal_env\<close> of \<^verbatim>\<open>Machine_Run\<close>, so that the results on the ideal
    machine hold of the modelled one: \<open>execution\<close> is a number of polls, \<open>places\<close> where the machine is
    found at them.
  \<^item> \<^verbatim>\<open>Runner_Limits\<close>: what the code does in four places where it does not do what it means to.
  \<^item> \<^verbatim>\<open>Gcode_Programs\<close>: lines of part programs as data, their calls and source text, tool paths, the
    layer discipline and envelopes, and the locales \<open>move_program\<close>, \<open>boxed_program\<close> and
    \<open>layered_program\<close> with what holds of every such program.
  \<^item> \<^verbatim>\<open>Gcode_Layers\<close>: the discipline with a tolerance, for open contours; the locale \<open>milled_program\<close>,
    which every \<open>layered_program\<close> is (a sublocale).
  \<^item> \<^verbatim>\<open>Gcode_Part3\<close>, \<^verbatim>\<open>Gcode_Copy\<close>: two part programs, line by line, as instances of the locales.
  \<^item> \<^verbatim>\<open>Gcode_Full_Shape\<close>, \<^verbatim>\<open>Gcode_Full_A\<close> to \<^verbatim>\<open>Gcode_Full_E\<close>, \<^verbatim>\<open>Gcode_Full\<close>: the full part program of 255 layers,
    line by line; the two shorter programs are its last sections.
  \<^item> \<^verbatim>\<open>Part_Run\<close>, \<^verbatim>\<open>Part_Loop\<close>, \<^verbatim>\<open>Full_Run\<close>: part programs on the ideal machine and on the modelled motion
    thread, through all components.
  \<^item> \<^verbatim>\<open>Gcode_Samples\<close>: the four sample programs.
  \<^item> \<^verbatim>\<open>Plot_Scripts\<close>: the data side of the plotting scripts.

  \<^bold>\<open>Conventions.\<close> A call of a method returns its result (\<open>self\<close>, \<open>None\<close> or an exception) and the state
  after it; a Python exception does not undo assignments. A method after \<open>m02\<close> returns at once.
  Strings are the bytes of the UTF-8 text. Machine integers occur at the border to C++, as the
  predicate \<open>int32\<close> on the values that are passed and as the reduction \<open>uint32\<close> of indices and line
  numbers. Coordinates of the C++ side are real numbers instead of doubles. An index out of
  range or a failed assertion of the C++ code is a \<open>fault\<close>. Messages of the log are not modelled.
  The motion thread is modelled cycle by cycle. What it reads from outside is an input: its period \<open>T\<close>, and
  as parts of \<open>shared\<close> the sensor of the touch detection, the two clocks, the speed the servo board asks
  for, and the settings of the jumps and of the speed ratio, which a step of \<open>motion_step\<close> may change
  between two cycles. The system clock does not go back (the code asserts it). A local variable
  that the code leaves uninitialised is an argument \<open>u\<close> of the definition. Doubles are real numbers
  there too, so that what is proved of sums and targets is exact; the tolerance of the code
  (\<open>MathUtils.h\<close>) is kept. The configuration is that of
  \<^verbatim>\<open>src/Src/config.h\<close>: the power supply \<open>EDM_POWER_DIMEN\<close> with the servo board on the ZYNQ. The drill task is not
  compiled in it; the command that would start it has the fault \<open>NoModel\<close> when the machine is idle.
  In a jump the positions between the start and the target of a point move are those of the
  planner on their line; that they lie between the two is not stated.

  \<^bold>\<open>Bounds and fuel.\<close> The JSON reader has the length of the text plus one as fuel, which is proved
  to be enough. A run needs \<open>2 n + 1\<close> polls: one to start and two for each task. The wait for an
  answer is a partial function without fuel; it is proved when it returns.

  \<^bold>\<open>Not modelled and why.\<close> Drawing, filtering and colour maps of the plotting scripts are calls of
  numpy, scipy and matplotlib. The embedding of Python, the Qt panels, the device drivers and
  the loop of the motion thread (its EtherCAT master, its locks and queues) are C++ with I/O.
  The drill task needs another configuration (see above). Groups of cutting moves are modelled as a task and on
  the state machine, but are not part of the closed loop with the runner. \<open>WaitforCmdTobeAccepted\<close> runs the event loop while it waits, so that operations could
  be entered again; the model of the runner takes the answer before the next operation. Loops of a
  script are unrolled by the model of the sample programs, since a script is the sequence of
  calls it makes.

  \<^bold>\<open>What is left.\<close> The wrapper's search for the interpreter object, groups of cutting moves and pauses by the operator in the closed loop with the runner.
\<close>

end
